(* ===== verification/Prelude.thy ===== *)
theory Prelude
  imports Main "HOL-Library.AList" "HOL-Library.Char_ord" "HOL-Library.List_Lexorder"
    "HOL-Library.Product_Lexorder"
begin

text \<open>
  What every component of the development shares: Go strings and byte helpers, Go maps as
  association lists behind a map interface, stable sorting by a key, wall-clock times and
  durations, and the collections of facts the component proofs draw from.

  Go strings are byte sequences; here a \<open>string\<close> is a list of bytes (\<open>char\<close>). Go maps are
  association lists with distinct keys: reading, writing and deleting are \<open>map_of\<close>,
  \<open>AList.update\<close> and \<open>AList.delete\<close>, and \<open>range m\<close> visits the entries in some order. Go leaves
  that order open, so every operation whose result could depend on it says so in its theory.

  Times are nanoseconds since Go's zero \<open>time.Time\<close> (so \<open>0\<close> is \<open>IsZero\<close>), unbounded; durations
  are nanoseconds of a signed 64-bit integer, and \<open>time_sub\<close> saturates as \<open>time.Time.Sub\<close> does.
  Frame indices and counters are unbounded integers: the code increments them by one or by a
  small constant per frame, so its 64-bit range is never left in practice, while hashes, which
  do wrap, are 64-bit words in their own theories.
\<close>

named_theorems tier_simps and event_simps and scorer_simps and store_simps and ingest_simps

type_synonym ('k, 'v) gomap = "('k \<times> 'v) list"
type_synonym time = int
type_synonym duration = int

section \<open>Go maps\<close>

text \<open>A read of a missing key yields the zero value of the element type.\<close>

definition gz :: "'v \<Rightarrow> ('k, 'v) gomap \<Rightarrow> 'k \<Rightarrow> 'v" where
  "gz z m k = (case map_of m k of None \<Rightarrow> z | Some v \<Rightarrow> v)"

definition gok :: "('k, 'v) gomap \<Rightarrow> bool" where
  "gok m \<longleftrightarrow> distinct (map fst m)"

text \<open>\<open>m[k] = f(m[k])\<close> for every key present: the loops that rewrite each entry in place.\<close>

definition gmap_vals :: "('k \<Rightarrow> 'v \<Rightarrow> 'w) \<Rightarrow> ('k, 'v) gomap \<Rightarrow> ('k, 'w) gomap" where
  "gmap_vals f m = map (\<lambda>(k, v). (k, f k v)) m"

text \<open>Loops that delete entries in place keep the others.\<close>

definition gfilter :: "('k \<Rightarrow> 'v \<Rightarrow> bool) \<Rightarrow> ('k, 'v) gomap \<Rightarrow> ('k, 'v) gomap" where
  "gfilter p m = filter (\<lambda>(k, v). p k v) m"

locale go_map =
  fixes emp :: "'m" and get :: "'m \<Rightarrow> 'k \<Rightarrow> 'v option"
    and put :: "'k \<Rightarrow> 'v \<Rightarrow> 'm \<Rightarrow> 'm" and del :: "'k \<Rightarrow> 'm \<Rightarrow> 'm"
    and keys :: "'m \<Rightarrow> 'k list" and ok :: "'m \<Rightarrow> bool"
  assumes get_emp: "get emp k = None"
    and get_put: "get (put k v m) = (get m)(k \<mapsto> v)"
    and get_del: "ok m \<Longrightarrow> get (del k m) = (get m)(k := None)"
    and ok_emp: "ok emp"
    and ok_put: "ok m \<Longrightarrow> ok (put k v m)"
    and ok_del: "ok m \<Longrightarrow> ok (del k m)"
    and set_keys: "set (keys m) = {k. get m k \<noteq> None}"
    and distinct_keys: "ok m \<Longrightarrow> distinct (keys m)"
begin

lemma keys_put: "set (keys (put k v m)) = insert k (set (keys m))"
  by (auto simp: set_keys get_put)

lemma keys_del: "ok m \<Longrightarrow> set (keys (del k m)) = set (keys m) - {k}"
  by (auto simp: set_keys get_del)

lemma length_keys_put:
  assumes "ok m"
  shows "length (keys (put k v m)) = (if get m k = None then length (keys m) + 1 else length (keys m))"
proof -
  have mem: "k \<in> set (keys m) \<longleftrightarrow> get m k \<noteq> None" by (simp add: set_keys)
  have "length (keys (put k v m)) = card (insert k (set (keys m)))"
    using distinct_card [OF distinct_keys [OF ok_put [OF assms]]] keys_put by metis
  also have "\<dots> = (if get m k = None then length (keys m) + 1 else length (keys m))"
    using distinct_card [OF distinct_keys [OF assms]] mem by (simp add: card_insert_if)
  finally show ?thesis .
qed

lemma length_keys_del:
  assumes "ok m"
  shows "length (keys (del k m)) = (if get m k = None then length (keys m) else length (keys m) - 1)"
proof -
  have mem: "k \<in> set (keys m) \<longleftrightarrow> get m k \<noteq> None" by (simp add: set_keys)
  have "length (keys (del k m)) = card (set (keys m) - {k})"
    using distinct_card [OF distinct_keys [OF ok_del [OF assms]]] keys_del [OF assms] by metis
  also have "\<dots> = (if get m k = None then length (keys m) else length (keys m) - 1)"
    using distinct_card [OF distinct_keys [OF assms]] mem by (simp add: card_Diff_singleton_if)
  finally show ?thesis .
qed

end

interpretation gm: go_map "[]" map_of AList.update AList.delete "map fst" gok
proof
  fix k :: 'k and v :: 'v and m :: "('k, 'v) gomap"
  show "map_of (AList.update k v m) = (map_of m)(k \<mapsto> v)" by (rule update_conv')
  show "gok m \<Longrightarrow> gok (AList.update k v m)" by (simp add: gok_def distinct_update)
  show "gok m \<Longrightarrow> gok (AList.delete k m)" by (simp add: gok_def distinct_delete)
  show "map_of (AList.delete k m) = (map_of m)(k := None)" by (rule delete_conv')
  show "set (map fst m) = {k. map_of m k \<noteq> None}"
    by (simp add: map_of_eq_None_iff)
qed (simp_all add: gok_def)

lemmas gomap_simps = update_conv' delete_conv'

lemma gz_update [simp]: "gz z (AList.update k v m) k' = (if k' = k then v else gz z m k')"
  by (simp add: gz_def update_conv')

lemma gz_empty [simp]: "gz z [] k = z"
  by (simp add: gz_def)

lemma gok_Nil [simp, intro]: "gok []"
  by (simp add: gok_def)

lemma gok_update [simp, intro]: "gok m \<Longrightarrow> gok (AList.update k v m)"
  by (rule gm.ok_put)

lemma gok_delete [simp, intro]: "gok m \<Longrightarrow> gok (AList.delete k m)"
  by (rule gm.ok_del)

lemma map_of_gmap_vals [simp]: "map_of (gmap_vals f m) k = map_option (f k) (map_of m k)"
  by (induction m) (auto simp: gmap_vals_def)

lemma keys_gmap_vals [simp]: "map fst (gmap_vals f m) = map fst m"
  by (simp add: gmap_vals_def split_def)

lemma gok_gmap_vals [simp]: "gok (gmap_vals f m) = gok m"
  by (simp add: gok_def)

lemma gok_gfilter [simp, intro]: "gok m \<Longrightarrow> gok (gfilter p m)"
  by (simp add: gok_def gfilter_def distinct_map_filter)

lemma map_of_gfilter:
  "gok m \<Longrightarrow> map_of (gfilter p m) k = (case map_of m k of None \<Rightarrow> None | Some v \<Rightarrow> if p k v then Some v else None)"
proof (induction m)
  case (Cons a m)
  obtain k' v where a: "a = (k', v)" by force
  have "map_of m k' = None"
    using Cons.prems a by (simp add: gok_def map_of_eq_None_iff)
  moreover from Cons have
    "map_of (gfilter p m) k = (case map_of m k of None \<Rightarrow> None | Some v \<Rightarrow> if p k v then Some v else None)"
    by (simp add: gok_def)
  ultimately show ?case using a by (auto simp: gfilter_def)
qed (simp add: gfilter_def)

lemma map_of_in_set: "gok m \<Longrightarrow> map_of m k = Some v \<longleftrightarrow> (k, v) \<in> set m"
  by (simp add: gok_def)

section \<open>Strings\<close>

text \<open>
  \<open>strings.ToUpper\<close> and \<open>strings.ToLower\<close> on ASCII, plus the non-ASCII letters whose case
  mapping is an ASCII letter: U+017F and U+0131 upwards (bytes C5 BF, C4 B1), U+212A and U+0130
  downwards (bytes E2 84 AA, C4 B0). Other non-ASCII letters map to non-ASCII letters and are
  left as they are: every caller compares the result with ASCII words only.
\<close>

definition up_char :: "char \<Rightarrow> char" where
  "up_char c = (if 97 \<le> (of_char c :: nat) \<and> (of_char c :: nat) \<le> 122 then char_of ((of_char c :: nat) - 32) else c)"

definition low_char :: "char \<Rightarrow> char" where
  "low_char c = (if 65 \<le> (of_char c :: nat) \<and> (of_char c :: nat) \<le> 90 then char_of ((of_char c :: nat) + 32) else c)"

fun to_upper :: "string \<Rightarrow> string" where
  "to_upper [] = []"
| "to_upper [c] = [up_char c]"
| "to_upper (c # d # r) =
     (if c = CHR 0xC5 \<and> d = CHR 0xBF then CHR ''S'' # to_upper r
      else if c = CHR 0xC4 \<and> d = CHR 0xB1 then CHR ''I'' # to_upper r
      else up_char c # to_upper (d # r))"

fun to_lower :: "string \<Rightarrow> string" where
  "to_lower [] = []"
| "to_lower [c] = [low_char c]"
| "to_lower [c, d] = (if c = CHR 0xC4 \<and> d = CHR 0xB0 then ''i'' else [low_char c, low_char d])"
| "to_lower (c # d # e # r) =
     (if c = CHR 0xC4 \<and> d = CHR 0xB0 then CHR ''i'' # to_lower (e # r)
      else if c = CHR 0xE2 \<and> d = CHR 0x84 \<and> e = CHR 0xAA then CHR ''k'' # to_lower r
      else low_char c # to_lower (d # e # r))"

definition has_prefix :: "string \<Rightarrow> string \<Rightarrow> bool" where
  "has_prefix s p \<longleftrightarrow> take (length p) s = p"

text \<open>The UTF-8 encodings of the runes \<open>unicode.IsSpace\<close> accepts.\<close>

definition space_seqs :: "string list" where
  "space_seqs = [[CHR 0x09], [CHR 0x0A], [CHR 0x0B], [CHR 0x0C], [CHR 0x0D], [CHR 0x20],
     [CHR 0xC2, CHR 0x85], [CHR 0xC2, CHR 0xA0], [CHR 0xE1, CHR 0x9A, CHR 0x80],
     [CHR 0xE2, CHR 0x80, CHR 0x80], [CHR 0xE2, CHR 0x80, CHR 0x81], [CHR 0xE2, CHR 0x80, CHR 0x82],
     [CHR 0xE2, CHR 0x80, CHR 0x83], [CHR 0xE2, CHR 0x80, CHR 0x84], [CHR 0xE2, CHR 0x80, CHR 0x85],
     [CHR 0xE2, CHR 0x80, CHR 0x86], [CHR 0xE2, CHR 0x80, CHR 0x87], [CHR 0xE2, CHR 0x80, CHR 0x88],
     [CHR 0xE2, CHR 0x80, CHR 0x89], [CHR 0xE2, CHR 0x80, CHR 0x8A], [CHR 0xE2, CHR 0x80, CHR 0xA8],
     [CHR 0xE2, CHR 0x80, CHR 0xA9], [CHR 0xE2, CHR 0x80, CHR 0xAF], [CHR 0xE2, CHR 0x81, CHR 0x9F],
     [CHR 0xE3, CHR 0x80, CHR 0x80]]"

definition lead_space :: "string list \<Rightarrow> string \<Rightarrow> nat" where
  "lead_space seqs s = (case find (\<lambda>q. take (length q) s = q) seqs of None \<Rightarrow> 0 | Some q \<Rightarrow> length q)"

function trim_front :: "string list \<Rightarrow> string \<Rightarrow> string" where
  "trim_front seqs s =
     (let n = lead_space seqs s in if n = 0 \<or> s = [] then s else trim_front seqs (drop n s))"
  by pat_completeness auto
termination by (relation "measure (\<lambda>(q, s). length s)") auto

declare trim_front.simps [simp del]

definition trim_space :: "string \<Rightarrow> string" where
  "trim_space s = rev (trim_front (map rev space_seqs) (rev (trim_front space_seqs s)))"

text \<open>Decimal digits of an integer, as \<open>%d\<close> prints it.\<close>

function digits :: "nat \<Rightarrow> string" where
  "digits n = (if n < 10 then [char_of (48 + n)] else digits (n div 10) @ [char_of (48 + n mod 10)])"
  by pat_completeness auto
termination by (relation "measure id") auto

declare digits.simps [simp del]

definition itoa :: "int \<Rightarrow> string" where
  "itoa i = (if i < 0 then ''-'' @ digits (nat (- i)) else digits (nat i))"

text \<open>A set built in a map and read back sorted: the \<open>unique\<close> helpers of the code.\<close>

definition sorted_set :: "string list \<Rightarrow> string list" where
  "sorted_set xs = sort (remdups xs)"

lemma set_sorted_set [simp]: "set (sorted_set xs) = set xs"
  by (simp add: sorted_set_def)

lemma sorted_sorted_set [simp]: "sorted (sorted_set xs)" "distinct (sorted_set xs)"
  by (simp_all add: sorted_set_def)

lemma sorted_set_cong: "set xs = set ys \<Longrightarrow> sorted_set xs = sorted_set ys"
  by (rule sorted_distinct_set_unique) simp_all

lemma sorted_set_idem [simp]: "sorted_set (sorted_set xs) = sorted_set xs"
  by (rule sorted_set_cong) simp

section \<open>Times\<close>

definition max_duration :: duration where "max_duration = 2 ^ 63 - 1"
definition min_duration :: duration where "min_duration = - (2 ^ 63)"

definition time_sub :: "time \<Rightarrow> time \<Rightarrow> duration" where
  "time_sub a b = max min_duration (min max_duration (a - b))"

definition second :: duration where "second = 1000000000"
definition minute :: duration where "minute = 60 * second"
definition hour :: duration where "hour = 60 * minute"

lemma time_sub_ge_iff: "min_duration < d \<Longrightarrow> d \<le> max_duration \<Longrightarrow> d \<le> time_sub a b \<longleftrightarrow> d \<le> a - b"
  by (auto simp: time_sub_def)

text \<open>Go's integer division and remainder truncate towards zero.\<close>

definition tdiv :: "int \<Rightarrow> int \<Rightarrow> int" where
  "tdiv a b = sgn a * sgn b * (\<bar>a\<bar> div \<bar>b\<bar>)"

definition tmod :: "int \<Rightarrow> int \<Rightarrow> int" where
  "tmod a b = a - tdiv a b * b"

section \<open>Components as machines\<close>

text \<open>
  A component is driven by a sequence of calls. The contract of its operations is that each
  admissible call keeps the invariant; what follows for every sequence of calls is proved once.
\<close>

locale machine =
  fixes step :: "'c \<Rightarrow> 's \<Rightarrow> 's" and admissible :: "'c \<Rightarrow> bool" and inv :: "'s \<Rightarrow> bool"
  assumes step_inv: "inv s \<Longrightarrow> admissible c \<Longrightarrow> inv (step c s)"
begin

lemma run_inv: "inv s \<Longrightarrow> list_all admissible cs \<Longrightarrow> inv (fold step cs s)"
  by (induction cs arbitrary: s) (auto intro: step_inv)

lemma run_mono:
  assumes le: "\<And>s c. inv s \<Longrightarrow> admissible c \<Longrightarrow> le (obs s) (obs (step c s))"
    and refl: "\<And>s. inv s \<Longrightarrow> le (obs s) (obs s)"
    and trans: "\<And>x y z. le x y \<Longrightarrow> le y z \<Longrightarrow> le x z"
  shows "inv s \<Longrightarrow> list_all admissible cs \<Longrightarrow> le (obs s) (obs (fold step cs s))"
proof (induction cs arbitrary: s)
  case (Cons c cs)
  then show ?case using Cons.IH [OF step_inv] le trans by fastforce
qed (simp add: refl)

end

section \<open>Lists\<close>

lemma mset_sort_key_set [simp]: "set (sort_key f xs) = set xs"
  by simp

lemma filter_all: "(\<And>x. x \<in> set xs \<Longrightarrow> p x) \<Longrightarrow> filter p xs = xs"
  by (simp add: filter_id_conv)

end
