(* ===== verification/Go_Float.thy ===== *)
theory Go_Float
  imports Complex_Main Prelude
begin

text \<open>
  Go's \<open>float64\<close>: IEEE 754 binary64 with round-to-nearest-even, as the amd64 builds of this
  program compute it (no fused multiply-add below GOAMD64=v3). A value is a NaN, an infinity
  (\<open>Inf True\<close> is minus infinity) or a finite rational; \<open>rnd\<close> rounds an exact rational result to
  the nearest representable value and overflows to infinity. The two zeros are one value: no
  operation of the modelled code looks at the sign of a zero.

  Everything here evaluates (\<open>code_simp\<close>). The lemmas say that rounding is monotone
  (\<open>rnd_mono\<close>) and exact on representable values (\<open>rnd_idem\<close>), that comparisons of non-NaN
  values are a total order, and what follows for sums and products: adding a non-negative value
  never decreases, multiplying by a factor in [0,1] never increases.
\<close>

section \<open>Values and rounding\<close>

function bitlen :: "int \<Rightarrow> int" where
  "bitlen n = (if n \<le> 0 then 0 else 1 + bitlen (n div 2))"
  by pat_completeness auto
termination by (relation "measure nat") auto
declare bitlen.simps [simp del]

datatype f64 = NaN | Inf bool | Fin rat

text \<open>Nearest integer, ties to even; binary exponent; exponent of the unit in the last place.\<close>

definition rhe :: "rat \<Rightarrow> int" where
  "rhe q = (let f = \<lfloor>q\<rfloor>; d = q - of_int f in
     if d < 1/2 then f else if 1/2 < d then f + 1 else if even f then f else f + 1)"

definition elog :: "rat \<Rightarrow> int" where
  "elog q = (let (n, d) = quotient_of q; k = bitlen n - bitlen d in
     if 2 powi k \<le> q then k else k - 1)"

definition uexp :: "rat \<Rightarrow> int" where
  "uexp q = max (elog q - 52) (- 1074)"

definition rnd :: "rat \<Rightarrow> f64" where
  "rnd q = (if q = 0 then Fin 0 else
     let u = uexp \<bar>q\<bar>; m = rhe (\<bar>q\<bar> / 2 powi u) in
     if 971 < u \<or> (u = 971 \<and> 2 ^ 53 \<le> m) then Inf (q < 0)
     else Fin (sgn q * of_int m * 2 powi u))"

lemma bitlen_bounds: "0 < n \<Longrightarrow> 2 powi (bitlen n - 1) \<le> (of_int n :: rat) \<and> of_int n < (2 :: rat) powi bitlen n"
proof (induction n rule: bitlen.induct)
  case (1 n)
  show ?case
  proof (cases "n = 1")
    case True
    then show ?thesis by (simp add: bitlen.simps [of 1] bitlen.simps [of 0])
  next
    case False
    with "1.prems" have h: "0 < n div 2" and n: "\<not> n \<le> 0" by auto
    let ?h = "n div 2"
    from "1.IH" [OF n h] have lo: "2 powi (bitlen ?h - 1) \<le> (of_int ?h :: rat)"
      and hi: "of_int ?h < (2 :: rat) powi bitlen ?h" by auto
    have b: "bitlen n = 1 + bitlen ?h" using n by (simp add: bitlen.simps [of n])
    have "(2 :: rat) powi bitlen ?h = 2 * 2 powi (bitlen ?h - 1)"
      by (simp add: power_int_diff)
    also have "\<dots> \<le> 2 * of_int ?h" using lo by simp
    also have "\<dots> = of_int (2 * ?h)" by simp
    also have "\<dots> \<le> of_int n" by (subst of_int_le_iff) simp
    finally have 1: "2 powi (bitlen n - 1) \<le> (of_int n :: rat)" using b by simp
    have "0 \<le> bitlen ?h"
    proof -
      have "0 \<le> bitlen k" for k by (induction k rule: bitlen.induct) (subst bitlen.simps, auto)
      then show ?thesis .
    qed
    then obtain j where j: "bitlen ?h = int j" using nonneg_int_cases by blast
    from hi have "of_int ?h < (of_int (2 ^ j) :: rat)" by (simp add: j)
    then have "?h < 2 ^ j" by (simp only: of_int_less_iff)
    then have "n < 2 * 2 ^ j" by presburger
    then have "of_int n < (of_int (2 * 2 ^ j) :: rat)" by (simp only: of_int_less_iff)
    then have 2: "of_int n < (2 :: rat) powi bitlen n"
      by (simp add: b j power_int_add)
    show ?thesis using 1 2 by simp
  qed
qed

lemma elog_bounds:
  assumes "0 < q"
  shows "2 powi elog q \<le> q \<and> q < 2 powi (elog q + 1)"
proof -
  obtain n d where nd: "quotient_of q = (n, d)" by force
  then have d: "0 < d" and q: "q = of_int n / of_int d"
    by (auto simp: quotient_of_denom_pos quotient_of_div)
  with assms have n: "0 < n" by (simp add: zero_less_divide_iff)
  let ?k = "bitlen n - bitlen d"
  have d': "(0 :: rat) < of_int d" using d by simp
  from bitlen_bounds [OF n] bitlen_bounds [OF d]
  have b: "2 powi (bitlen n - 1) \<le> (of_int n :: rat)" "of_int n < (2 :: rat) powi bitlen n"
    "2 powi (bitlen d - 1) \<le> (of_int d :: rat)" "of_int d < (2 :: rat) powi bitlen d" by auto
  have "q < 2 powi bitlen n / 2 powi (bitlen d - 1)"
    unfolding q by (rule frac_less) (use b n d in auto)
  also have "\<dots> = 2 powi (?k + 1)"
    by (simp add: power_int_diff power_int_add field_simps)
  finally have up: "q < 2 powi (?k + 1)" .
  have "2 powi (?k - 1) = (2 powi (bitlen n - 1) :: rat) / 2 powi bitlen d"
    by (simp add: power_int_diff field_simps) (simp add: power_int_add)
  also have "\<dots> \<le> q" unfolding q by (rule frac_le) (use b n d' in auto)
  finally have lo: "2 powi (?k - 1) \<le> q" .
  show ?thesis using up lo by (auto simp: elog_def nd Let_def)
qed

lemma two_powi_mono: "a \<le> b \<Longrightarrow> (2 :: rat) powi a \<le> 2 powi b"
  by (simp add: power_int_increasing)
lemma two_powi_less_iff: "(2 :: rat) powi a < 2 powi b \<longleftrightarrow> a < b"
  by (metis linorder_not_le order_less_irrefl power_int_strict_increasing two_powi_mono one_less_numeral_iff semiring_norm(76))

lemma elog_ge: "0 < q \<Longrightarrow> 2 powi k \<le> q \<Longrightarrow> k \<le> elog q"
  using elog_bounds [of q] two_powi_less_iff [of k "elog q + 1"] by auto

lemma elog_le: "0 < q \<Longrightarrow> q < 2 powi (k + 1) \<Longrightarrow> elog q \<le> k"
  using elog_bounds [of q] two_powi_less_iff [of "elog q" "k + 1"] by auto

lemma elog_mono: "0 < p \<Longrightarrow> p \<le> q \<Longrightarrow> elog p \<le> elog q"
  using elog_bounds [of p] by (intro elog_ge) auto

lemma uexp_mono: "0 < p \<Longrightarrow> p \<le> q \<Longrightarrow> uexp p \<le> uexp q"
  using elog_mono [of p q] by (auto simp: uexp_def)

lemma rhe_of_int [simp]: "rhe (of_int k) = k"
  by (simp add: rhe_def)

lemma rhe_mono:
  assumes "p \<le> q"
  shows "rhe p \<le> rhe q"
proof (cases "\<lfloor>p\<rfloor> = \<lfloor>q\<rfloor>")
  case True
  then show ?thesis using assms by (auto simp: rhe_def Let_def)
next
  case False
  have "\<lfloor>p\<rfloor> \<le> \<lfloor>q\<rfloor>" using assms by (rule floor_mono)
  with False have "\<lfloor>p\<rfloor> + 1 \<le> \<lfloor>q\<rfloor>" by simp
  moreover have "rhe p \<le> \<lfloor>p\<rfloor> + 1" "\<lfloor>q\<rfloor> \<le> rhe q" by (auto simp: rhe_def Let_def)
  ultimately show ?thesis by linarith
qed

lemma rhe_ge: "of_int k \<le> q \<Longrightarrow> k \<le> rhe q" using rhe_mono [of "of_int k" q] by simp
lemma rhe_le: "q \<le> of_int k \<Longrightarrow> rhe q \<le> k" using rhe_mono [of q "of_int k"] by simp

definition rmag :: "rat \<Rightarrow> rat" where
  "rmag q = of_int (rhe (q / 2 powi uexp q)) * 2 powi uexp q"

lemma rhe_scaled_le: "0 < q \<Longrightarrow> rhe (q / 2 powi uexp q) \<le> 2 ^ 53"
proof (rule rhe_le)
  assume "0 < q"
  then have "q < 2 powi (elog q + 1)" using elog_bounds by simp
  also have "\<dots> \<le> 2 powi (uexp q + 53)" by (rule two_powi_mono) (simp add: uexp_def)
  finally show "q / 2 powi uexp q \<le> of_int (2 ^ 53)"
    by (simp add: power_int_add divide_le_eq)
qed

lemma rhe_scaled_ge: "0 < q \<Longrightarrow> - 1074 < uexp q \<Longrightarrow> 2 ^ 52 \<le> rhe (q / 2 powi uexp q)"
proof (rule rhe_ge)
  assume a: "0 < q" "- 1074 < uexp q"
  then have "elog q = uexp q + 52" by (auto simp: uexp_def)
  with a have "2 powi (uexp q + 52) \<le> q" using elog_bounds [of q] by simp
  then show "of_int (2 ^ 52) \<le> q / 2 powi uexp q"
    by (simp add: power_int_add le_divide_eq)
qed

lemma rmag_mono:
  assumes p: "0 < p" and le: "p \<le> q"
  shows "rmag p \<le> rmag q"
proof (cases "uexp p = uexp q")
  case True
  have "rhe (p / 2 powi uexp q) \<le> rhe (q / 2 powi uexp q)"
    by (rule rhe_mono) (simp add: divide_right_mono le)
  then show ?thesis by (simp add: rmag_def True)
next
  case False
  with uexp_mono [OF p le] have lt: "uexp p < uexp q" by simp
  have q: "0 < q" using p le by simp
  have "- 1074 < uexp q" using lt by (auto simp: uexp_def)
  then have ge: "2 ^ 52 \<le> rhe (q / 2 powi uexp q)" by (rule rhe_scaled_ge [OF q])
  have "rmag p \<le> of_int (2 ^ 53) * 2 powi uexp p"
    unfolding rmag_def using rhe_scaled_le [OF p]
    by (intro mult_right_mono) (simp_all only: of_int_le_iff, simp)
  also have "\<dots> = 2 powi (uexp p + 53)" by (simp add: power_int_add)
  also have "\<dots> \<le> 2 powi (uexp q + 52)" using lt by (intro two_powi_mono) simp
  also have "\<dots> = of_int (2 ^ 52) * 2 powi uexp q" by (simp add: power_int_add)
  also have "\<dots> \<le> rmag q"
    unfolding rmag_def using ge by (intro mult_right_mono) (simp_all only: of_int_le_iff, simp)
  finally show ?thesis .
qed

lemma rmag_exact:
  assumes v: "0 < v" and eq: "v = of_int k * 2 powi w" and le: "uexp v \<le> w"
  shows "rmag v = v"
proof -
  obtain j where j: "w = uexp v + int j" using le by (metis zle_iff_zadd)
  have "v / 2 powi uexp v = of_int (k * 2 ^ j)"
    by (subst eq) (simp add: j power_int_add)
  then have "rmag v = of_int (k * 2 ^ j) * 2 powi uexp v" by (simp only: rmag_def rhe_of_int)
  also have "\<dots> = v" by (subst (2) eq) (simp add: j power_int_add)
  finally show ?thesis .
qed

lemma rmag_nonneg: "0 < q \<Longrightarrow> 0 \<le> rmag q"
  by (simp add: rmag_def rhe_ge [of 0, simplified])

lemma rmag_idem:
  assumes q: "0 < q" and v: "0 < rmag q"
  shows "rmag (rmag q) = rmag q"
proof (cases "rhe (q / 2 powi uexp q) = 2 ^ 53")
  case True
  then have e: "rmag q = 2 powi (uexp q + 53)" by (simp add: rmag_def power_int_add)
  have "elog (rmag q) \<le> uexp q + 53" by (rule elog_le [OF v]) (simp add: e two_powi_less_iff)
  then have "uexp (rmag q) \<le> uexp q + 1" by (auto simp: uexp_def)
  moreover have "rmag q = of_int (2 ^ 52) * 2 powi (uexp q + 1)"
    by (simp add: e power_int_add)
  ultimately show ?thesis using v rmag_exact by blast
next
  case False
  with rhe_scaled_le [OF q] have "rhe (q / 2 powi uexp q) < 2 ^ 53" by simp
  then have "rmag q < of_int (2 ^ 53) * 2 powi uexp q"
    unfolding rmag_def by (intro mult_strict_right_mono) (simp_all only: of_int_less_iff, simp)
  also have "\<dots> = 2 powi (uexp q + 53)" by (simp add: power_int_add)
  finally have "elog (rmag q) \<le> uexp q + 52" by (intro elog_le [OF v]) (simp add: add.commute)
  then have "uexp (rmag q) \<le> uexp q" by (auto simp: uexp_def)
  then show ?thesis using v rmag_exact [OF v _, of "rhe (q / 2 powi uexp q)" "uexp q"]
    by (simp add: rmag_def)
qed

lemma overflow_iff:
  assumes q: "0 < q"
  shows "971 < uexp q \<or> (uexp q = 971 \<and> 2 ^ 53 \<le> rhe (q / 2 powi uexp q)) \<longleftrightarrow> 2 powi 1024 \<le> rmag q"
proof -
  let ?m = "rhe (q / 2 powi uexp q)"
  consider "971 < uexp q" | "uexp q = 971" | "uexp q < 971" by linarith
  then show ?thesis
  proof cases
    case 1
    then have ge: "2 ^ 52 \<le> ?m" by (intro rhe_scaled_ge [OF q]) simp
    have "(2 :: rat) powi 1024 \<le> 2 powi (uexp q + 52)" using 1 by (intro two_powi_mono) simp
    also have "\<dots> = of_int (2 ^ 52) * 2 powi uexp q" by (simp add: power_int_add)
    also have "\<dots> \<le> rmag q" unfolding rmag_def using ge
      by (intro mult_right_mono) (simp_all only: of_int_le_iff, simp)
    finally show ?thesis using 1 by simp
  next
    case 2
    have e: "(2 :: rat) powi 1024 = of_int (2 ^ 53) * 2 powi 971"
      using power_int_add [of "2 :: rat" 53 971] by simp
    have "2 powi 1024 \<le> rmag q \<longleftrightarrow> of_int (2 ^ 53) * 2 powi 971 \<le> (of_int ?m :: rat) * 2 powi 971"
      unfolding e rmag_def using 2 by simp
    also have "\<dots> \<longleftrightarrow> (of_int (2 ^ 53) :: rat) \<le> of_int ?m"
      by (rule mult_le_cancel_right_pos) simp
    finally show ?thesis using 2 by (simp only: of_int_le_iff) simp
  next
    case 3
    have "rmag q \<le> of_int (2 ^ 53) * 2 powi uexp q"
      unfolding rmag_def using rhe_scaled_le [OF q]
      by (intro mult_right_mono) (simp_all only: of_int_le_iff, simp)
    also have "\<dots> = 2 powi (uexp q + 53)" by (simp add: power_int_add)
    also have "\<dots> < 2 powi 1024" unfolding two_powi_less_iff using 3 by simp
    finally show ?thesis using 3 by simp
  qed
qed

lemma rnd_alt:
  "rnd q = (if q = 0 then Fin 0 else if 2 powi 1024 \<le> rmag \<bar>q\<bar> then Inf (q < 0) else Fin (sgn q * rmag \<bar>q\<bar>))"
proof (cases "q = 0")
  case False
  then have "0 < \<bar>q\<bar>" by simp
  from overflow_iff [OF this] False show ?thesis
    by (simp add: rnd_def rmag_def Let_def mult.assoc)
qed (simp add: rnd_def)

lemma rnd_pos: "0 < q \<Longrightarrow> rnd q = (if 2 powi 1024 \<le> rmag q then Inf False else Fin (rmag q))"
  by (simp add: rnd_alt)

lemma rnd_neg: "q < 0 \<Longrightarrow> rnd q = (if 2 powi 1024 \<le> rmag (- q) then Inf True else Fin (- rmag (- q)))"
  by (simp add: rnd_alt)

lemma rnd_0 [simp]: "rnd 0 = Fin 0"
  by (simp add: rnd_def)

lemma rnd_not_NaN [simp]: "rnd q \<noteq> NaN" "NaN \<noteq> rnd q"
  by (auto simp: rnd_def Let_def)

section \<open>Comparison\<close>

fun flt :: "f64 \<Rightarrow> f64 \<Rightarrow> bool" where
  "flt NaN _ = False"
| "flt _ NaN = False"
| "flt (Inf s) (Inf t) = (s \<and> \<not> t)"
| "flt (Inf s) (Fin b) = s"
| "flt (Fin a) (Inf t) = (\<not> t)"
| "flt (Fin a) (Fin b) = (a < b)"

fun fle :: "f64 \<Rightarrow> f64 \<Rightarrow> bool" where
  "fle NaN _ = False"
| "fle _ NaN = False"
| "fle (Inf s) (Inf t) = (s \<or> \<not> t)"
| "fle (Inf s) (Fin b) = s"
| "fle (Fin a) (Inf t) = (\<not> t)"
| "fle (Fin a) (Fin b) = (a \<le> b)"

fun feq :: "f64 \<Rightarrow> f64 \<Rightarrow> bool" where
  "feq NaN _ = False"
| "feq _ NaN = False"
| "feq (Inf s) (Inf t) = (s = t)"
| "feq (Fin a) (Fin b) = (a = b)"
| "feq _ _ = False"

definition is_nan :: "f64 \<Rightarrow> bool" where "is_nan x \<longleftrightarrow> x = NaN"
definition is_inf :: "f64 \<Rightarrow> bool" where "is_inf x \<longleftrightarrow> (case x of Inf _ \<Rightarrow> True | _ \<Rightarrow> False)"
definition is_fin :: "f64 \<Rightarrow> bool" where "is_fin x \<longleftrightarrow> \<not> is_nan x \<and> \<not> is_inf x"

lemma is_fin_iff: "is_fin x \<longleftrightarrow> (\<exists>q. x = Fin q)"
  by (cases x) (auto simp: is_fin_def is_nan_def is_inf_def)

lemma flt_NaN [simp]: "\<not> flt x NaN" by (cases x) auto
lemma fle_NaN [simp]: "\<not> fle x NaN" by (cases x) auto

lemma feq_iff: "feq x y \<longleftrightarrow> x = y \<and> x \<noteq> NaN"
  by (cases x; cases y) auto

lemma fle_refl [simp]: "fle x x \<longleftrightarrow> x \<noteq> NaN"
  by (cases x) auto

lemma fle_trans: "fle x y \<Longrightarrow> fle y z \<Longrightarrow> fle x z"
  by (cases x; cases y; cases z) auto

lemma fle_antisym: "fle x y \<Longrightarrow> fle y x \<Longrightarrow> x = y"
  by (cases x; cases y) auto

lemma flt_fle_trans: "flt x y \<Longrightarrow> fle y z \<Longrightarrow> flt x z"
  by (cases x; cases y; cases z) auto

lemma fle_flt_trans: "fle x y \<Longrightarrow> flt y z \<Longrightarrow> flt x z"
  by (cases x; cases y; cases z) auto

lemma flt_imp_fle: "flt x y \<Longrightarrow> fle x y"
  by (cases x; cases y) auto

lemma not_flt: "x \<noteq> NaN \<Longrightarrow> y \<noteq> NaN \<Longrightarrow> \<not> flt x y \<longleftrightarrow> fle y x"
  by (cases x; cases y) auto

lemma not_fle: "x \<noteq> NaN \<Longrightarrow> y \<noteq> NaN \<Longrightarrow> \<not> fle x y \<longleftrightarrow> flt y x"
  by (cases x; cases y) auto

lemma fle_nn: "fle x y \<Longrightarrow> x \<noteq> NaN \<and> y \<noteq> NaN" by auto
lemma flt_nn: "flt x y \<Longrightarrow> x \<noteq> NaN \<and> y \<noteq> NaN" by auto

lemma flt_not_fle: "flt x y \<Longrightarrow> \<not> fle y x"
  by (cases x; cases y) auto

lemma fle_not_flt: "fle x y \<Longrightarrow> \<not> flt y x"
  by (cases x; cases y) auto

text \<open>Non-NaN values embed into a linear order, where the order automation applies.\<close>

fun fkey :: "f64 \<Rightarrow> int \<times> rat" where
  "fkey NaN = (0, 0)"
| "fkey (Inf s) = (if s then -1 else 1, 0)"
| "fkey (Fin q) = (0, q)"

lemma fle_key: "fle x y \<longleftrightarrow> x \<noteq> NaN \<and> y \<noteq> NaN \<and> fkey x \<le> fkey y"
  by (cases x; cases y) auto

lemma flt_key: "flt x y \<longleftrightarrow> x \<noteq> NaN \<and> y \<noteq> NaN \<and> fkey x < fkey y"
  by (cases x; cases y) auto

lemma rnd_mono: "p \<le> q \<Longrightarrow> fle (rnd p) (rnd q)"
proof -
  assume le: "p \<le> q"
  consider "p < 0" "q < 0" | "p < 0" "0 \<le> q" | "p = 0" "q = 0" | "p = 0" "0 < q" | "0 < p" "0 < q"
    using le by linarith
  then show ?thesis
  proof cases
    case 1
    then show ?thesis using rmag_mono [of "- q" "- p"] le by (auto simp: rnd_neg)
  next
    case 2
    have "0 \<le> rmag (- p)" using 2 by (simp add: rmag_nonneg)
    moreover have "0 < q \<Longrightarrow> 0 \<le> rmag q" by (rule rmag_nonneg)
    ultimately show ?thesis using 2 by (cases "q = 0") (auto simp: rnd_neg rnd_pos)
  next
    case 4
    then show ?thesis using rmag_nonneg [of q] by (auto simp: rnd_pos)
  next
    case 5
    then show ?thesis using rmag_mono [of p q] le by (auto simp: rnd_pos)
  qed simp
qed

text \<open>A value the hardware can hold: rounding leaves it alone.\<close>

definition f64_ok :: "f64 \<Rightarrow> bool" where
  "f64_ok x \<longleftrightarrow> (case x of Fin q \<Rightarrow> rnd q = x | _ \<Rightarrow> True)"

lemma rnd_idem: "rnd q = Fin r \<Longrightarrow> rnd r = Fin r"
proof -
  assume eq: "rnd q = Fin r"
  have pos: "rnd v = Fin v" if "0 < p" "v = rmag p" "v < 2 powi 1024" for p v
  proof (cases "v = 0")
    case False
    with that rmag_nonneg [of p] have "0 < v" by simp
    then show ?thesis using that rmag_idem [of p] by (simp add: rnd_pos)
  qed simp
  have neg: "rnd (- v) = Fin (- v)" if "0 < p" "v = rmag p" "v < 2 powi 1024" for p v
  proof (cases "v = 0")
    case False
    with that rmag_nonneg [of p] have "0 < v" by simp
    then show ?thesis using that rmag_idem [of p] by (simp add: rnd_neg)
  qed simp
  consider "q = 0" | "0 < q" | "q < 0" by linarith
  then show ?thesis
  proof cases
    case 2
    then show ?thesis using eq pos [of q "rmag q"] by (auto simp: rnd_pos split: if_splits)
  next
    case 3
    then show ?thesis using eq neg [of "- q" "rmag (- q)"] by (auto simp: rnd_neg split: if_splits)
  qed (use eq in simp)
qed

lemma f64_ok_rnd [simp, intro]: "f64_ok (rnd q)"
  by (cases "rnd q") (auto simp: f64_ok_def dest: rnd_idem)

lemma f64_ok_simps [simp]: "f64_ok NaN" "f64_ok (Inf s)" "f64_ok (Fin 0)"
  by (auto simp: f64_ok_def)

lemma f64_ok_Fin: "f64_ok (Fin q) \<longleftrightarrow> rnd q = Fin q"
  by (simp add: f64_ok_def)

section \<open>Arithmetic\<close>

fun fneg :: "f64 \<Rightarrow> f64" where
  "fneg NaN = NaN" | "fneg (Inf s) = Inf (\<not> s)" | "fneg (Fin a) = Fin (- a)"

fun fabs :: "f64 \<Rightarrow> f64" where
  "fabs NaN = NaN" | "fabs (Inf s) = Inf False" | "fabs (Fin a) = Fin \<bar>a\<bar>"

fun fadd :: "f64 \<Rightarrow> f64 \<Rightarrow> f64" where
  "fadd NaN _ = NaN"
| "fadd _ NaN = NaN"
| "fadd (Inf s) (Inf t) = (if s = t then Inf s else NaN)"
| "fadd (Inf s) (Fin b) = Inf s"
| "fadd (Fin a) (Inf t) = Inf t"
| "fadd (Fin a) (Fin b) = rnd (a + b)"

definition fsub :: "f64 \<Rightarrow> f64 \<Rightarrow> f64" where
  "fsub x y = fadd x (fneg y)"

fun fmul :: "f64 \<Rightarrow> f64 \<Rightarrow> f64" where
  "fmul NaN _ = NaN"
| "fmul _ NaN = NaN"
| "fmul (Inf s) (Inf t) = Inf (s \<noteq> t)"
| "fmul (Inf s) (Fin b) = (if b = 0 then NaN else Inf (s \<noteq> (b < 0)))"
| "fmul (Fin a) (Inf t) = (if a = 0 then NaN else Inf ((a < 0) \<noteq> t))"
| "fmul (Fin a) (Fin b) = rnd (a * b)"

fun fdiv :: "f64 \<Rightarrow> f64 \<Rightarrow> f64" where
  "fdiv NaN _ = NaN"
| "fdiv _ NaN = NaN"
| "fdiv (Inf s) (Inf t) = NaN"
| "fdiv (Inf s) (Fin b) = Inf (s \<noteq> (b < 0))"
| "fdiv (Fin a) (Inf t) = Fin 0"
| "fdiv (Fin a) (Fin b) = (if b = 0 then (if a = 0 then NaN else Inf (a < 0)) else rnd (a / b))"

text \<open>\<open>math.Sqrt\<close> is correctly rounded: the integer square root of the scaled operand decides.\<close>

function isqrt :: "int \<Rightarrow> int" where
  "isqrt n = (if n \<le> 0 then 0 else
     let r = 2 * isqrt (n div 4) in if (r + 1) * (r + 1) \<le> n then r + 1 else r)"
  by pat_completeness auto
termination by (relation "measure nat") auto
declare isqrt.simps [simp del]

definition sqrt_rnd :: "rat \<Rightarrow> rat" where
  "sqrt_rnd q = (let u = elog q div 2 - 52; s = q / (2 powi u * 2 powi u); f = isqrt \<lfloor>s\<rfloor>;
     m = (if (of_int f + 1/2) * (of_int f + 1/2) < s then f + 1 else f) in of_int m * 2 powi u)"

fun fsqrt :: "f64 \<Rightarrow> f64" where
  "fsqrt NaN = NaN"
| "fsqrt (Inf s) = (if s then NaN else Inf False)"
| "fsqrt (Fin q) = (if q < 0 then NaN else if q = 0 then Fin 0 else Fin (sqrt_rnd q))"

text \<open>Conversions: a decimal literal, an \<open>int\<close>, and back (truncation; out of range is the
  amd64 conversion's most negative integer), and \<open>math.Floor\<close>, \<open>math.Round\<close>, \<open>math.Max\<close>,
  \<open>math.Min\<close>.\<close>

definition flit :: "rat \<Rightarrow> f64" where "flit q = rnd q"
definition f_of_int :: "int \<Rightarrow> f64" where "f_of_int i = rnd (of_int i)"

fun f_to_int :: "f64 \<Rightarrow> int" where
  "f_to_int NaN = - (2 ^ 63)"
| "f_to_int (Inf s) = - (2 ^ 63)"
| "f_to_int (Fin q) = (let t = (if 0 \<le> q then \<lfloor>q\<rfloor> else \<lceil>q\<rceil>) in
     if - (2 ^ 63) \<le> t \<and> t < 2 ^ 63 then t else - (2 ^ 63))"

fun ffloor :: "f64 \<Rightarrow> f64" where
  "ffloor NaN = NaN" | "ffloor (Inf s) = Inf s" | "ffloor (Fin q) = Fin (of_int \<lfloor>q\<rfloor>)"

fun fround :: "f64 \<Rightarrow> f64" where
  "fround NaN = NaN"
| "fround (Inf s) = Inf s"
| "fround (Fin q) = Fin (sgn q * of_int \<lfloor>\<bar>q\<bar> + 1/2\<rfloor>)"

definition fmax :: "f64 \<Rightarrow> f64 \<Rightarrow> f64" where
  "fmax x y = (if x = Inf False \<or> y = Inf False then Inf False
     else if is_nan x \<or> is_nan y then NaN else if flt y x then x else y)"

definition fmin :: "f64 \<Rightarrow> f64 \<Rightarrow> f64" where
  "fmin x y = (if x = Inf True \<or> y = Inf True then Inf True
     else if is_nan x \<or> is_nan y then NaN else if flt x y then x else y)"

text \<open>\<open>fmt\<close>'s \<open>%.nf\<close>: the exact decimal value rounded half to even, sign and digits.\<close>

definition fmt_fixed :: "nat \<Rightarrow> rat \<Rightarrow> string" where
  "fmt_fixed n q = (let m = rhe (\<bar>q\<bar> * 10 ^ n); w = m div 10 ^ n; f = m mod 10 ^ n;
     fs = digits (nat f) in
     (if q < 0 then ''-'' else []) @ digits (nat w) @
     (if n = 0 then [] else ''.'' @ replicate (n - length fs) (CHR ''0'') @ fs))"

fun fmt_f :: "nat \<Rightarrow> f64 \<Rightarrow> string" where
  "fmt_f n NaN = ''NaN''"
| "fmt_f n (Inf s) = (if s then ''-Inf'' else ''+Inf'')"
| "fmt_f n (Fin q) = fmt_fixed n q"

section \<open>Facts the components use\<close>

lemma f64_ok_ops [simp, intro]:
  "f64_ok (fadd x y)" if "f64_ok x" "f64_ok y"
  by (cases x; cases y) auto

lemma f64_ok_fmul [simp, intro]: "f64_ok (fmul x y)"
  by (cases x; cases y) auto

lemma f64_ok_fdiv [simp, intro]: "f64_ok (fdiv x y)"
  by (cases x; cases y) auto

lemma f64_ok_flit [simp, intro]: "f64_ok (flit q)" "f64_ok (f_of_int i)"
  by (auto simp: flit_def f_of_int_def)

lemma rnd_ge0: "0 \<le> q \<Longrightarrow> fle (Fin 0) (rnd q)"
  using rnd_mono [of 0 q] by simp

lemma fadd_ge0:
  assumes "fle (Fin 0) x" "fle (Fin 0) y"
  shows "fle (Fin 0) (fadd x y)"
  using assms by (cases x; cases y) (auto intro: rnd_ge0)

lemma fmul_ge0:
  assumes "fle (Fin 0) x" "fle (Fin 0) y" "is_fin x \<or> is_fin y \<longrightarrow> is_fin x \<and> is_fin y"
  shows "fle (Fin 0) (fmul x y)"
  using assms by (cases x; cases y) (auto intro: rnd_ge0 simp: is_fin_iff)

lemma fadd_mono_self:
  assumes ok: "f64_ok x" and x: "fle (Fin 0) x" and y: "fle (Fin 0) y"
  shows "fle x (fadd x y)"
proof (cases x)
  case (Fin a)
  show ?thesis
  proof (cases y)
    case (Fin b)
    with \<open>x = Fin a\<close> ok y rnd_mono [of a "a + b"] show ?thesis by (simp add: f64_ok_Fin)
  qed (use \<open>x = Fin a\<close> y in auto)
qed (use x y in \<open>cases y; auto\<close>)+

lemma fmul_le_self:
  assumes ok: "f64_ok x" and x: "fle (Fin 0) x" "is_fin x" and y: "fle (Fin 0) y" "fle y (Fin 1)"
  shows "fle (fmul x y) x" and "fle (Fin 0) (fmul x y)"
proof -
  from x obtain a where a: "x = Fin a" "0 \<le> a" by (auto simp: is_fin_iff)
  from y obtain b where b: "y = Fin b" "0 \<le> b" "b \<le> 1" by (cases y) auto
  have "a * b \<le> a" using a b by (simp add: mult_left_le)
  from rnd_mono [OF this] ok a b show "fle (fmul x y) x" by (simp add: f64_ok_Fin)
  show "fle (Fin 0) (fmul x y)" using a b by (simp add: rnd_ge0)
qed

lemma fin_between: "fle (Fin a) x \<Longrightarrow> fle x (Fin b) \<Longrightarrow> is_fin x"
  by (cases x) (auto simp: is_fin_iff)

end
