(* ===== verification/Levels.thy ===== *)
theory Levels
  imports Go_Float
begin

text \<open>
  The tier table (\<open>internal/model/scoring.go\<close>): what a suspicion score means. \<open>level_table\<close> is
  \<open>LevelTable\<close>, \<open>lt_validate\<close> its \<open>Validate\<close> (the error text is the value of \<open>Some\<close>),
  \<open>with_review_threshold\<close> maps the configured review threshold onto the \<open>high_risk\<close> boundary, and
  \<open>level_for\<close> classifies a score. The moderator-facing vocabularies derived from a tier
  (\<open>internal/model/review.go\<close>) are here too. The locale \<open>tier_classifier\<close> is what the enforcement
  and review components need from a classifier; it is interpreted on \<open>level_for t\<close>.
\<close>

section \<open>Tiers\<close>

datatype scoring_level = LevelClean | LevelInformational | LevelSuspicious | LevelHighRisk
  | LevelCritical | LevelActionWorthy

definition level_name :: "scoring_level \<Rightarrow> string" where
  "level_name l = (case l of LevelClean \<Rightarrow> ''clean'' | LevelInformational \<Rightarrow> ''informational''
     | LevelSuspicious \<Rightarrow> ''suspicious'' | LevelHighRisk \<Rightarrow> ''high_risk''
     | LevelCritical \<Rightarrow> ''critical'' | LevelActionWorthy \<Rightarrow> ''action_worthy'')"

definition level_rank :: "scoring_level \<Rightarrow> int" where
  "level_rank l = (case l of LevelInformational \<Rightarrow> 1 | LevelSuspicious \<Rightarrow> 2 | LevelHighRisk \<Rightarrow> 3
     | LevelCritical \<Rightarrow> 4 | LevelActionWorthy \<Rightarrow> 5 | LevelClean \<Rightarrow> 0)"

definition at_least :: "scoring_level \<Rightarrow> scoring_level \<Rightarrow> bool" where
  "at_least l other \<longleftrightarrow> level_rank l \<ge> level_rank other"

text \<open>Tiers are linearly ordered by their rank.\<close>

instantiation scoring_level :: linorder
begin

definition less_eq_scoring_level :: "scoring_level \<Rightarrow> scoring_level \<Rightarrow> bool" where
  "less_eq_scoring_level a b \<longleftrightarrow> level_rank a \<le> level_rank b"

definition less_scoring_level :: "scoring_level \<Rightarrow> scoring_level \<Rightarrow> bool" where
  "less_scoring_level a b \<longleftrightarrow> level_rank a < level_rank b"

instance
  by standard
    (auto simp: less_eq_scoring_level_def less_scoring_level_def level_rank_def
       split: scoring_level.splits)

end

lemma at_least_iff [tier_simps]: "at_least l m \<longleftrightarrow> m \<le> l"
  by (simp add: at_least_def less_eq_scoring_level_def)

record level_table =
  lt_informational :: f64
  lt_suspicious :: f64
  lt_high_risk :: f64
  lt_critical :: f64
  lt_action_worthy :: f64

definition default_level_table :: level_table where
  "default_level_table = \<lparr>lt_informational = flit 20, lt_suspicious = flit 40, lt_high_risk = flit 60,
     lt_critical = flit 80, lt_action_worthy = flit 95\<rparr>"

definition lt_is_zero :: "level_table \<Rightarrow> bool" where
  "lt_is_zero t \<longleftrightarrow> feq (lt_informational t) (Fin 0) \<and> feq (lt_suspicious t) (Fin 0) \<and>
     feq (lt_high_risk t) (Fin 0) \<and> feq (lt_critical t) (Fin 0) \<and> feq (lt_action_worthy t) (Fin 0)"

definition lt_bounds :: "level_table \<Rightarrow> (string \<times> f64) list" where
  "lt_bounds t = [(''informational'', lt_informational t), (''suspicious'', lt_suspicious t),
     (''high_risk'', lt_high_risk t), (''critical'', lt_critical t), (''action_worthy'', lt_action_worthy t)]"

fun check_bounds :: "string \<Rightarrow> f64 \<Rightarrow> (string \<times> f64) list \<Rightarrow> string option" where
  "check_bounds pn p [] = None"
| "check_bounds pn p ((n, b) # bs) =
     (if fle b (Fin 0) then Some (''level table: '' @ n @ '' boundary must be > 0, got '' @ fmt_f 2 b)
      else if flt b p then Some (''level table: '' @ n @ '' ('' @ fmt_f 2 b @ '') must be >= '' @ pn @ '' ('' @ fmt_f 2 p @ '')'')
      else check_bounds n b bs)"

definition lt_validate :: "level_table \<Rightarrow> string option" where
  "lt_validate t = (if fle (lt_informational t) (Fin 0)
     then Some (''level table: informational boundary must be > 0, got '' @ fmt_f 2 (lt_informational t))
     else check_bounds ''informational'' (lt_informational t) (tl (lt_bounds t)))"

definition with_review_threshold :: "level_table \<Rightarrow> f64 \<Rightarrow> level_table" where
  "with_review_threshold t th =
     (if fle th (Fin 0) then t else
      let out = t\<lparr>lt_high_risk := th\<rparr>;
          out = (if flt th (lt_suspicious out) then out\<lparr>lt_suspicious := th\<rparr> else out);
          out = (if flt (lt_suspicious out) (lt_informational out)
                 then out\<lparr>lt_informational := lt_suspicious out\<rparr> else out);
          out = (if flt (lt_critical out) th then out\<lparr>lt_critical := th\<rparr> else out);
          out = (if flt (lt_action_worthy out) (lt_critical out)
                 then out\<lparr>lt_action_worthy := lt_critical out\<rparr> else out)
      in out)"

definition level_for :: "level_table \<Rightarrow> f64 \<Rightarrow> scoring_level" where
  "level_for t0 score =
     (let t = (if lt_validate t0 \<noteq> None then default_level_table else t0) in
      if fle (lt_action_worthy t) score then LevelActionWorthy
      else if fle (lt_critical t) score then LevelCritical
      else if fle (lt_high_risk t) score then LevelHighRisk
      else if fle (lt_suspicious t) score then LevelSuspicious
      else if fle (lt_informational t) score then LevelInformational
      else LevelClean)"

text \<open>What \<open>ScorerConfig.EffectiveLevels\<close> and the builders do with an unset table.\<close>

definition or_default :: "level_table \<Rightarrow> level_table" where
  "or_default t = (if lt_is_zero t then default_level_table else t)"

section \<open>Words derived from a tier\<close>

definition recommended_action_for_level :: "scoring_level \<Rightarrow> string" where
  "recommended_action_for_level l =
     (if at_least l LevelCritical then ''temp_restrict''
      else if at_least l LevelHighRisk then ''review_only''
      else if at_least l LevelSuspicious then ''enhanced_monitoring''
      else ''none'')"

definition case_severity_for_level :: "scoring_level \<Rightarrow> string" where
  "case_severity_for_level l =
     (if at_least l LevelCritical then ''critical''
      else if at_least l LevelHighRisk then ''high''
      else if at_least l LevelSuspicious then ''medium''
      else ''low'')"

definition event_severity_label :: "f64 \<Rightarrow> string" where
  "event_severity_label severity =
     (if fle (flit (8/10)) severity then ''critical''
      else if fle (flit (6/10)) severity then ''high''
      else if fle (flit (3/10)) severity then ''medium''
      else ''low'')"

section \<open>Validity of a table\<close>

lemma lt_validate_None [tier_simps]:
  "lt_validate t = None \<longleftrightarrow>
     \<not> fle (lt_informational t) (Fin 0) \<and> \<not> fle (lt_suspicious t) (Fin 0) \<and> \<not> fle (lt_high_risk t) (Fin 0) \<and>
     \<not> fle (lt_critical t) (Fin 0) \<and> \<not> fle (lt_action_worthy t) (Fin 0) \<and>
     \<not> flt (lt_suspicious t) (lt_informational t) \<and> \<not> flt (lt_high_risk t) (lt_suspicious t) \<and>
     \<not> flt (lt_critical t) (lt_high_risk t) \<and> \<not> flt (lt_action_worthy t) (lt_critical t)"
  by (auto simp: lt_validate_def lt_bounds_def split: if_splits)

definition lt_no_nan :: "level_table \<Rightarrow> bool" where
  "lt_no_nan t \<longleftrightarrow> lt_informational t \<noteq> NaN \<and> lt_suspicious t \<noteq> NaN \<and> lt_high_risk t \<noteq> NaN \<and>
     lt_critical t \<noteq> NaN \<and> lt_action_worthy t \<noteq> NaN"

definition lt_valid :: "level_table \<Rightarrow> bool" where
  "lt_valid t \<longleftrightarrow> lt_validate t = None \<and> lt_no_nan t"

lemma lt_valid_chain:
  "lt_valid t \<longleftrightarrow> flt (Fin 0) (lt_informational t) \<and> fle (lt_informational t) (lt_suspicious t) \<and>
     fle (lt_suspicious t) (lt_high_risk t) \<and> fle (lt_high_risk t) (lt_critical t) \<and>
     fle (lt_critical t) (lt_action_worthy t)"
  unfolding lt_valid_def lt_validate_None lt_no_nan_def flt_key fle_key
  by auto

lemma lt_validD [dest]:
  assumes "lt_valid t"
  shows "flt (Fin 0) (lt_informational t)" "fle (lt_informational t) (lt_suspicious t)"
    "fle (lt_suspicious t) (lt_high_risk t)" "fle (lt_high_risk t) (lt_critical t)"
    "fle (lt_critical t) (lt_action_worthy t)" "lt_validate t = None"
  using assms by (simp_all add: lt_valid_chain) (simp add: lt_valid_def lt_valid_chain [symmetric])

lemma default_level_table_valid: "lt_valid default_level_table"
  unfolding lt_valid_chain by code_simp

lemma level_for_valid:
  "lt_validate t = None \<Longrightarrow> level_for t s =
     (if fle (lt_action_worthy t) s then LevelActionWorthy
      else if fle (lt_critical t) s then LevelCritical
      else if fle (lt_high_risk t) s then LevelHighRisk
      else if fle (lt_suspicious t) s then LevelSuspicious
      else if fle (lt_informational t) s then LevelInformational
      else LevelClean)"
  by (simp add: level_for_def)

text \<open>On a valid table each tier is reached exactly from its boundary.\<close>

lemma level_for_at_least [tier_simps]:
  assumes v: "lt_valid t"
  shows "LevelActionWorthy \<le> level_for t s \<longleftrightarrow> fle (lt_action_worthy t) s"
    and "LevelCritical \<le> level_for t s \<longleftrightarrow> fle (lt_critical t) s"
    and "LevelHighRisk \<le> level_for t s \<longleftrightarrow> fle (lt_high_risk t) s"
    and "LevelSuspicious \<le> level_for t s \<longleftrightarrow> fle (lt_suspicious t) s"
    and "LevelInformational \<le> level_for t s \<longleftrightarrow> fle (lt_informational t) s"
  using lt_validD [OF v]
  by (auto simp: level_for_valid less_eq_scoring_level_def level_rank_def intro: fle_trans)

section \<open>The classifier interface\<close>

locale tier_classifier =
  fixes classify :: "f64 \<Rightarrow> scoring_level"
  assumes classify_mono: "fle s s' \<Longrightarrow> classify s \<le> classify s'"
    and classify_NaN: "classify NaN = LevelClean"
begin

lemma gate_mono: "at_least (classify s) l \<Longrightarrow> fle s s' \<Longrightarrow> at_least (classify s') l"
  using classify_mono [of s s'] by (auto simp: tier_simps)

lemma gate_NaN: "at_least (classify NaN) l \<longleftrightarrow> l = LevelClean"
  by (cases l) (auto simp: classify_NaN at_least_def level_rank_def)

lemma gate_chain: "at_least (classify s) l \<Longrightarrow> m \<le> l \<Longrightarrow> at_least (classify s) m"
  by (auto simp: tier_simps)

end

text \<open>
  \<open>level_for\<close> is monotone whatever the table holds: a table that fails \<open>Validate\<close> is replaced by
  the default, and a boundary that is a NaN is never reached.
\<close>

lemma level_for_mono:
  assumes "fle s s'"
  shows "level_for t s \<le> level_for t s'"
proof -
  have up: "fle b s \<Longrightarrow> fle b s'" for b using assms fle_trans by blast
  define u where "u = (if lt_validate t \<noteq> None then default_level_table else t)"
  show ?thesis
    unfolding level_for_def Let_def u_def [symmetric] less_eq_scoring_level_def
    using up [of "lt_action_worthy u"] up [of "lt_critical u"] up [of "lt_high_risk u"]
      up [of "lt_suspicious u"] up [of "lt_informational u"]
    by (simp add: level_rank_def)
qed

interpretation lv: tier_classifier "level_for t" for t
proof
  show "level_for t s \<le> level_for t s'" if "fle s s'" for s s'
    using that by (rule level_for_mono)
  show "level_for t NaN = LevelClean"
    by (simp add: level_for_def Let_def)
qed

section \<open>Properties\<close>

lemma with_review_threshold_fields:
  assumes "\<not> fle th (Fin 0)"
  shows "lt_high_risk (with_review_threshold t th) = th"
    and "lt_suspicious (with_review_threshold t th) = (if flt th (lt_suspicious t) then th else lt_suspicious t)"
    and "lt_informational (with_review_threshold t th) =
      (let s = (if flt th (lt_suspicious t) then th else lt_suspicious t)
       in if flt s (lt_informational t) then s else lt_informational t)"
    and "lt_critical (with_review_threshold t th) = (if flt (lt_critical t) th then th else lt_critical t)"
    and "lt_action_worthy (with_review_threshold t th) =
      (let c = (if flt (lt_critical t) th then th else lt_critical t)
       in if flt (lt_action_worthy t) c then c else lt_action_worthy t)"
  using assms by (simp_all add: with_review_threshold_def Let_def)

lemma with_review_threshold_valid_aux:
  assumes v: "lt_valid t" and th: "flt (Fin 0) th"
  shows "lt_valid (with_review_threshold t th)"
proof -
  have nle: "\<not> fle th (Fin 0)" using th by (rule flt_not_fle)
  from v th show ?thesis
    unfolding lt_valid_chain with_review_threshold_fields [OF nle] flt_key fle_key Let_def
    by auto
qed

text \<open>Mapping a positive review threshold onto a valid tier table gives a valid table whose
  \<open>high_risk\<close> tier is reached exactly from the threshold on, and raising the score never lowers
  the tier.\<close>
theorem review_threshold_is_high_risk:
  assumes v: "lt_valid t" and th: "flt (Fin 0) th"
  shows "lt_validate (with_review_threshold t th) = None \<and>
    at_least (level_for (with_review_threshold t th) s) LevelHighRisk = fle th s \<and>
    (fle s s' \<longrightarrow> at_least (level_for (with_review_threshold t th) s') (level_for (with_review_threshold t th) s))"
proof -
  have w: "lt_valid (with_review_threshold t th)" by (rule with_review_threshold_valid_aux [OF v th])
  have "at_least (level_for (with_review_threshold t th) s) LevelHighRisk = fle th s"
    using level_for_at_least(3) [OF w] with_review_threshold_fields(1) [OF flt_not_fle [OF th]]
    by (simp add: at_least_iff)
  moreover have "fle s s' \<longrightarrow> at_least (level_for (with_review_threshold t th) s') (level_for (with_review_threshold t th) s)"
    using lv.classify_mono by (simp add: at_least_iff)
  ultimately show ?thesis using lt_validD(6) [OF w] by blast
qed

theorem review_threshold_is_high_risk_witness:
  "at_least (level_for (with_review_threshold default_level_table (Fin 70)) (Fin 71)) LevelHighRisk"
  using review_threshold_is_high_risk [OF default_level_table_valid, of "Fin 70" "Fin 71" "Fin 72"] by simp

text \<open>\<open>Validate\<close> compares boundaries with \<open><=\<close> and \<open><\<close>, which are false of a NaN: a table whose
  \<open>high_risk\<close> boundary is a NaN passes, and then no score is ever classified \<open>high_risk\<close>.\<close>
theorem nan_boundary_passes_validation:
  "lt_validate (default_level_table\<lparr>lt_high_risk := NaN\<rparr>) = None \<and>
   level_for (default_level_table\<lparr>lt_high_risk := NaN\<rparr>) s \<noteq> LevelHighRisk"
proof -
  have c: "lt_validate (default_level_table\<lparr>lt_high_risk := NaN\<rparr>) = None" by code_simp
  then show ?thesis by (simp add: level_for_valid)
qed

end
