(* ===== verification/Events.thy ===== *)
theory Events
  imports Levels
begin

text \<open>
  Detection events (\<open>internal/model/detection.go\<close>): the event record, its causal key, and the
  validation the pipeline applies to every detector emission. Typed evidence is carried, never
  inspected, by the modelled components: \<open>evidence\<close> holds its discriminator and its encoded
  payload. \<open>is_playspace_detector\<close> is \<open>internal/model/detector_policy.go\<close>.
\<close>

record evidence =
  evidence_type :: string
  evidence_payload :: string

record throw_attribution =
  ta_player_id :: string
  ta_confidence :: f64
  ta_method :: string
  ta_lookback_depth :: int

record causal_key =
  ck_player_id :: string
  ck_frame_start :: int
  ck_frame_end :: int
  ck_anomaly_type :: string

record detection_event =
  event_id :: string
  detector_id :: string
  detector_version :: string
  match_id :: string
  player_id :: string
  frame_index :: int
  frame_range_start :: int
  frame_range_end :: int
  timestamp :: f64
  severity :: f64
  confidence :: f64
  ev_evidence :: "evidence option"
  observed_value :: string
  expected_range :: string
  baseline_comparison :: string
  ev_causal_key :: causal_key
  enforcement_weight :: f64
  auto_enforce :: bool
  attribution :: "throw_attribution option"
  is_shadow :: bool
  merged_count :: int

definition overlaps :: "causal_key \<Rightarrow> causal_key \<Rightarrow> bool" where
  "overlaps c other =
     (if ck_player_id c \<noteq> ck_player_id other \<or> ck_anomaly_type c \<noteq> ck_anomaly_type other then False
      else ck_frame_start c \<le> ck_frame_end other \<and> ck_frame_start other \<le> ck_frame_end c)"

definition ck_key :: "causal_key \<Rightarrow> string" where
  "ck_key c = ck_player_id c @ '':'' @ ck_anomaly_type c"

definition out_of_unit :: "f64 \<Rightarrow> bool" where
  "out_of_unit x \<longleftrightarrow> is_nan x \<or> is_inf x \<or> flt x (Fin 0) \<or> flt (Fin 1) x"

definition validate_event :: "detection_event \<Rightarrow> string option" where
  "validate_event e =
     (if event_id e = [] then Some ''missing event_id''
      else if detector_id e = [] then Some ''missing detector_id''
      else if detector_version e = [] then Some ''missing detector_version''
      else if match_id e = [] then Some ''missing match_id''
      else if player_id e = [] then Some ''missing player_id''
      else if frame_index e < 0 then Some (''negative frame_index '' @ itoa (frame_index e))
      else if frame_range_end e < frame_range_start e then
        Some (''frame range end '' @ itoa (frame_range_end e) @ '' before start '' @ itoa (frame_range_start e))
      else if is_nan (timestamp e) \<or> is_inf (timestamp e) then Some ''invalid timestamp''
      else if out_of_unit (severity e) then Some (''severity '' @ fmt_f 4 (severity e) @ '' out of [0,1]'')
      else if out_of_unit (confidence e) then Some (''confidence '' @ fmt_f 4 (confidence e) @ '' out of [0,1]'')
      else if out_of_unit (enforcement_weight e) then
        Some (''enforcement_weight '' @ fmt_f 4 (enforcement_weight e) @ '' out of [0,1]'')
      else if observed_value e = [] then Some ''missing observed_value''
      else if ck_player_id (ev_causal_key e) = [] \<or> ck_anomaly_type (ev_causal_key e) = [] then
        Some ''incomplete causal_key''
      else None)"

definition is_playspace_detector :: "string \<Rightarrow> bool" where
  "is_playspace_detector i \<longleftrightarrow> i = ''MOV_006'' \<or> i = ''PAT_005''"

section \<open>Facts\<close>

definition in_unit :: "f64 \<Rightarrow> bool" where
  "in_unit x \<longleftrightarrow> fle (Fin 0) x \<and> fle x (Fin 1)"

lemma out_of_unit_iff [event_simps]: "out_of_unit x \<longleftrightarrow> \<not> in_unit x"
  by (cases x) (auto simp: out_of_unit_def in_unit_def is_nan_def is_inf_def)

lemma in_unit_fin: "in_unit x \<Longrightarrow> is_fin x"
  by (auto simp: in_unit_def intro: fin_between)

lemma in_unit_Fin [simp]: "in_unit (Fin q) \<longleftrightarrow> 0 \<le> q \<and> q \<le> 1"
  by (simp add: in_unit_def)

lemma overlaps_sym: "overlaps a b = overlaps b a"
  by (auto simp: overlaps_def)

lemma overlaps_refl: "ck_frame_start c \<le> ck_frame_end c \<Longrightarrow> overlaps c c"
  by (simp add: overlaps_def)

lemma split_last_colon:
  assumes "p @ '':'' @ a = q @ '':'' @ b" "CHR '':'' \<notin> set a" "CHR '':'' \<notin> set b"
  shows "p = q \<and> a = b"
proof -
  have "rev a @ CHR '':'' # rev p = rev b @ CHR '':'' # rev q"
    using arg_cong [OF assms(1), of rev] by simp
  moreover have "x = y \<and> u = v" if "x @ c # u = y @ c # v" "c \<notin> set x" "c \<notin> set y"
    for x y u v :: string and c
    using that by (induction x arbitrary: y) (case_tac y; auto)+
  ultimately show ?thesis using assms(2,3) by (metis rev_rev_ident set_rev)
qed

lemma validate_event_None [event_simps]:
  "validate_event e = None \<longleftrightarrow>
     event_id e \<noteq> [] \<and> detector_id e \<noteq> [] \<and> detector_version e \<noteq> [] \<and> match_id e \<noteq> [] \<and> player_id e \<noteq> [] \<and>
     0 \<le> frame_index e \<and> frame_range_start e \<le> frame_range_end e \<and> is_fin (timestamp e) \<and>
     in_unit (severity e) \<and> in_unit (confidence e) \<and> in_unit (enforcement_weight e) \<and>
     observed_value e \<noteq> [] \<and> ck_player_id (ev_causal_key e) \<noteq> [] \<and> ck_anomaly_type (ev_causal_key e) \<noteq> []"
  by (simp add: validate_event_def event_simps is_fin_def not_less)

lemma rnd_le1: "q \<le> 1 \<Longrightarrow> fle (rnd q) (Fin 1)"
proof -
  assume "q \<le> 1"
  then have "fle (rnd q) (rnd 1)" by (rule rnd_mono)
  also have "rnd 1 = Fin 1" by code_simp
  finally show ?thesis .
qed

lemma in_unit_fmul:
  assumes "in_unit x" "in_unit y"
  shows "in_unit (fmul x y)"
proof -
  from assms obtain a b where ab: "x = Fin a" "y = Fin b" "0 \<le> a" "a \<le> 1" "0 \<le> b" "b \<le> 1"
    by (metis in_unit_Fin in_unit_fin is_fin_iff)
  then show ?thesis by (auto simp: in_unit_def intro!: rnd_ge0 rnd_le1 mult_le_one)
qed

text \<open>A complete event, for concrete instances.\<close>

definition sample_event :: detection_event where
  "sample_event = \<lparr>event_id = ''e1'', detector_id = ''THROW_001'', detector_version = ''1.0'',
     match_id = ''m1'', player_id = ''p1'', frame_index = 500, frame_range_start = 490, frame_range_end = 500,
     timestamp = Fin 8, severity = Fin 1, confidence = Fin (1/2), ev_evidence = None, observed_value = ''24'',
     expected_range = ''0-19'', baseline_comparison = [],
     ev_causal_key = \<lparr>ck_player_id = ''p1'', ck_frame_start = 490, ck_frame_end = 500, ck_anomaly_type = ''release_speed''\<rparr>,
     enforcement_weight = Fin 1, auto_enforce = False, attribution = None, is_shadow = False, merged_count = 0\<rparr>"

end
