(* ===== verification/Scorer.thy ===== *)
theory Scorer
  imports Events "HOL-Library.Word"
begin

text \<open>
  The suspicion scorer (\<open>internal/scoring/scorer.go\<close>, \<open>decay.go\<close>, and \<open>SuspicionScore\<close> of
  \<open>internal/model/scoring.go\<close>). \<open>scorer\<close> is \<open>SuspicionScorer\<close>; a score a caller receives is a
  deep copy in the code, a value here. \<open>math.Pow\<close> is the parameter \<open>pow\<close> (its low-order bits are
  not fixed by Go): \<open>go_pow\<close> states what its documentation promises and what is used. The wall
  clock is passed as the values it returns at its two uses. The loops over all players touch each
  player on its own, so the order of the map does not matter.
\<close>

section \<open>State\<close>

record suspicion_score =
  sc_player_id :: string
  total_score :: f64
  base_score :: f64
  correlation_bonus :: f64
  score_by_detector :: "(string, f64) gomap"
  score_by_category :: "(string, f64) gomap"
  event_count :: int
  match_count :: int
  first_event_time :: time
  last_event_time :: time
  last_decay_time :: time
  decay_half_life_hours :: f64
  highest_single_event :: f64
  highest_single_detector :: string
  sc_levels :: level_table
  review_threshold :: f64
  auto_enforce_threshold :: f64
  exceeds_review :: bool
  exceeds_auto_enforce :: bool
  snapshot_time :: time
  detector_counts :: "(string, int) gomap"
  category_counts :: "(string, int) gomap"
  last_event_frames :: "(string, int) gomap"
  match_ids :: "(string, bool) gomap"

record scorer_config =
  max_single_contribution :: f64
  max_contrib_per_detector :: int
  same_category_diminishing :: f64
  cfg_review_threshold :: f64
  cfg_auto_enforce_threshold :: f64
  cfg_decay_half_life_hours :: f64
  cooldown_frames :: int
  correlation_bonus_cap :: f64
  cfg_levels :: level_table

record scorer =
  config :: scorer_config
  levels :: level_table
  players :: "(string, suspicion_score) gomap"
  bonus_basis :: "(string, f64) gomap"
  seen_events :: "(string, (string, bool) gomap) gomap"
  match_start :: time

definition effective_levels :: "scorer_config \<Rightarrow> level_table" where
  "effective_levels c = with_review_threshold (or_default (cfg_levels c)) (cfg_review_threshold c)"

definition new_scorer :: "scorer_config \<Rightarrow> scorer" where
  "new_scorer cfg = \<lparr>config = cfg, levels = effective_levels cfg, players = [], bonus_basis = [],
     seen_events = [], match_start = 0\<rparr>"

text \<open>The zero \<open>SuspicionScore\<close>, with the fields its literals set.\<close>

definition zero_score :: "string \<Rightarrow> level_table \<Rightarrow> suspicion_score" where
  "zero_score p lv = \<lparr>sc_player_id = p, total_score = Fin 0, base_score = Fin 0, correlation_bonus = Fin 0,
     score_by_detector = [], score_by_category = [], event_count = 0, match_count = 0,
     first_event_time = 0, last_event_time = 0, last_decay_time = 0, decay_half_life_hours = Fin 0,
     highest_single_event = Fin 0, highest_single_detector = [], sc_levels = lv, review_threshold = Fin 0,
     auto_enforce_threshold = Fin 0, exceeds_review = False, exceeds_auto_enforce = False,
     snapshot_time = 0, detector_counts = [], category_counts = [], last_event_frames = [], match_ids = []\<rparr>"

definition sc_level :: "suspicion_score \<Rightarrow> scoring_level" where
  "sc_level sc = level_for (or_default (sc_levels sc)) (total_score sc)"

section \<open>Categories and hashing\<close>

definition is_meta_detector :: "string \<Rightarrow> bool" where
  "is_meta_detector d \<longleftrightarrow> (let u = to_upper d in u = ''PAT_003'' \<or> u = ''PAT_004'')"

definition category_names :: "string list" where
  "category_names = [''throw'', ''bio'', ''movement'', ''state'', ''pattern'', ''unknown'']"

definition detector_category :: "string \<Rightarrow> string" where
  "detector_category d = (let u = to_upper (takeWhile (\<lambda>c. c \<noteq> CHR ''_'') d) in
     if u = ''THROW'' then ''throw''
     else if u = ''BIO'' then ''bio''
     else if u = ''MOV'' then ''movement''
     else if u = ''STATE'' then ''state''
     else if u = ''PAT'' then ''pattern''
     else ''unknown'')"

definition hash_string :: "string \<Rightarrow> 64 word" where
  "hash_string s = fold (\<lambda>b h. h * 31 + of_nat (of_char b)) s 0"

section \<open>Ingesting an event\<close>

definition event_time :: "time \<Rightarrow> detection_event \<Rightarrow> scorer \<Rightarrow> time" where
  "event_time now e s =
     (if match_start s \<noteq> 0 then match_start s + f_to_int (fmul (timestamp e) (f_of_int second)) else now)"

definition get_or_create :: "string \<Rightarrow> scorer \<Rightarrow> suspicion_score \<times> scorer" where
  "get_or_create p s = (case map_of (players s) p of
     Some sc \<Rightarrow> (sc, s)
   | None \<Rightarrow>
       let sc = (zero_score p (levels s))\<lparr>review_threshold := lt_high_risk (levels s),
                  auto_enforce_threshold := cfg_auto_enforce_threshold (config s),
                  decay_half_life_hours := cfg_decay_half_life_hours (config s)\<rparr>
       in (sc, s\<lparr>players := AList.update p sc (players s)\<rparr>))"

definition capped_total :: "f64 \<Rightarrow> f64 \<Rightarrow> f64" where
  "capped_total b c = (let t = fadd b c in if flt (Fin 100) t then Fin 100 else t)"

definition recompute :: "scorer \<Rightarrow> suspicion_score \<Rightarrow> suspicion_score" where
  "recompute s sc =
     (let sc = (if flt (base_score sc) (Fin 0) then sc\<lparr>base_score := Fin 0\<rparr> else sc);
          sc = (if flt (correlation_bonus sc) (Fin 0) then sc\<lparr>correlation_bonus := Fin 0\<rparr> else sc);
          total = capped_total (base_score sc) (correlation_bonus sc);
          auto = cfg_auto_enforce_threshold (config s)
      in sc\<lparr>total_score := total, exceeds_review := fle (lt_high_risk (levels s)) total,
            exceeds_auto_enforce := (flt (Fin 0) auto \<and> fle auto total)\<rparr>)"

definition effective_cooldown :: "scorer \<Rightarrow> detection_event \<Rightarrow> int" where
  "effective_cooldown s e =
     (let jitter = uint (hash_string (player_id e @ detector_id e) mod 101) - 50;
          c = cooldown_frames (config s) + jitter
      in if c < 100 then 100 else c)"

definition in_cooldown :: "scorer \<Rightarrow> suspicion_score \<Rightarrow> detection_event \<Rightarrow> bool" where
  "in_cooldown s sc e = (case map_of (last_event_frames sc) (detector_id e) of
     None \<Rightarrow> False | Some f \<Rightarrow> frame_index e - f < effective_cooldown s e)"

definition detector_capped :: "scorer \<Rightarrow> suspicion_score \<Rightarrow> detection_event \<Rightarrow> bool" where
  "detector_capped s sc e \<longleftrightarrow> 0 < max_contrib_per_detector (config s) \<and>
     max_contrib_per_detector (config s) \<le> gz 0 (detector_counts sc) (detector_id e)"

definition contribution :: "scorer \<Rightarrow> detection_event \<Rightarrow> f64" where
  "contribution s e =
     (let c = fmul (fmul (fmul (severity e) (confidence e)) (enforcement_weight e)) (Fin 100);
          c = (if flt c (Fin 0) \<or> is_nan c then Fin 0 else c);
          m = max_single_contribution (config s)
      in if flt (Fin 0) m \<and> flt m c then m else c)"

definition diminished :: "(f64 \<Rightarrow> f64 \<Rightarrow> f64) \<Rightarrow> scorer \<Rightarrow> suspicion_score \<Rightarrow> detection_event \<Rightarrow> f64" where
  "diminished pow s sc e =
     (let c = contribution s e; n = gz 0 (category_counts sc) (detector_category (detector_id e));
          d = same_category_diminishing (config s)
      in if 0 < n \<and> flt (Fin 0) d then fmul c (pow d (f_of_int n)) else c)"

text \<open>The update of a player's score by an event that contributes \<open>c\<close> at time \<open>tm\<close>.\<close>

definition add_event :: "f64 \<Rightarrow> time \<Rightarrow> detection_event \<Rightarrow> suspicion_score \<Rightarrow> suspicion_score" where
  "add_event c tm e sc =
     (let d = detector_id e; cat = detector_category d;
          sc = sc\<lparr>base_score := fadd (base_score sc) c,
                  score_by_detector := AList.update d (fadd (gz (Fin 0) (score_by_detector sc) d) c) (score_by_detector sc),
                  score_by_category := AList.update cat (fadd (gz (Fin 0) (score_by_category sc) cat) c) (score_by_category sc),
                  detector_counts := AList.update d (gz 0 (detector_counts sc) d + 1) (detector_counts sc),
                  category_counts := AList.update cat (gz 0 (category_counts sc) cat + 1) (category_counts sc),
                  event_count := event_count sc + 1\<rparr>;
          sc = (if match_id e \<noteq> [] \<and> \<not> gz False (match_ids sc) (match_id e)
                then sc\<lparr>match_ids := AList.update (match_id e) True (match_ids sc), match_count := match_count sc + 1\<rparr>
                else sc);
          sc = (if first_event_time sc = 0 \<or> tm < first_event_time sc then sc\<lparr>first_event_time := tm\<rparr> else sc);
          sc = (if last_event_time sc < tm then sc\<lparr>last_event_time := tm\<rparr> else sc)
      in if flt (highest_single_event sc) c
         then sc\<lparr>highest_single_event := c, highest_single_detector := d\<rparr> else sc)"

definition mark_seen :: "detection_event \<Rightarrow> scorer \<Rightarrow> scorer" where
  "mark_seen e s = (if event_id e = [] then s else
     s\<lparr>seen_events := AList.update (player_id e)
         (AList.update (event_id e) True (gz [] (seen_events s) (player_id e))) (seen_events s)\<rparr>)"

definition put_score :: "string \<Rightarrow> suspicion_score \<Rightarrow> scorer \<Rightarrow> scorer" where
  "put_score p sc s = s\<lparr>players := AList.update p sc (players s)\<rparr>"

definition ingest_event_with_result ::
  "(f64 \<Rightarrow> f64 \<Rightarrow> f64) \<Rightarrow> time \<Rightarrow> time \<Rightarrow> detection_event \<Rightarrow> scorer \<Rightarrow> (suspicion_score \<times> bool) \<times> scorer" where
  "ingest_event_with_result pow now snap e s0 =
     (let p = player_id e; (sc, s) = get_or_create p s0 in
      if is_shadow e \<or> is_meta_detector (detector_id e) then ((sc, False), s)
      else if event_id e \<noteq> [] \<and> gz False (gz [] (seen_events s) p) (event_id e) then ((sc, False), s)
      else if in_cooldown s sc e then ((sc, False), s)
      else if detector_capped s sc e then ((sc, False), s)
      else
        let sc = sc\<lparr>last_event_frames := AList.update (detector_id e) (frame_index e) (last_event_frames sc)\<rparr> in
        if feq (contribution s e) (Fin 0) then ((sc, False), put_score p sc s)
        else
          let sc = recompute s (add_event (diminished pow s sc e) (event_time now e s) e sc);
              sc = sc\<lparr>snapshot_time := snap\<rparr>
          in ((sc, True), put_score p sc (mark_seen e s)))"

definition ingest_event where
  "ingest_event pow now snap e s = (let ((sc, _), s') = ingest_event_with_result pow now snap e s in (sc, s'))"

section \<open>Reading scores\<close>

definition get_score :: "string \<Rightarrow> scorer \<Rightarrow> suspicion_score" where
  "get_score p s = (case map_of (players s) p of Some sc \<Rightarrow> sc | None \<Rightarrow> zero_score p (levels s))"

definition get_all_scores :: "scorer \<Rightarrow> (string, suspicion_score) gomap" where
  "get_all_scores s = players s"

definition player_ids :: "scorer \<Rightarrow> string list" where
  "player_ids s = sort (map fst (players s))"

definition exceeds_review_threshold :: "string \<Rightarrow> scorer \<Rightarrow> bool" where
  "exceeds_review_threshold p s = (case map_of (players s) p of
     Some sc \<Rightarrow> fle (lt_high_risk (levels s)) (total_score sc) | None \<Rightarrow> False)"

definition exceeds_auto_enforce_threshold :: "string \<Rightarrow> scorer \<Rightarrow> bool" where
  "exceeds_auto_enforce_threshold p s = (case map_of (players s) p of
     Some sc \<Rightarrow> exceeds_auto_enforce sc | None \<Rightarrow> False)"

section \<open>Decay and the correlation bonus\<close>

text \<open>\<open>time.Duration.Hours\<close>: whole hours plus the remainder.\<close>

definition duration_hours :: "duration \<Rightarrow> f64" where
  "duration_hours d = fadd (f_of_int (tdiv d hour)) (fdiv (f_of_int (tmod d hour)) (f_of_int hour))"

definition decay_score :: "(f64 \<Rightarrow> f64 \<Rightarrow> f64) \<Rightarrow> time \<Rightarrow> scorer \<Rightarrow> suspicion_score \<Rightarrow> suspicion_score" where
  "decay_score pow now s sc0 =
     (let sc = (if last_decay_time sc0 = 0 then sc0\<lparr>last_decay_time := last_event_time sc0\<rparr> else sc0) in
      if last_decay_time sc = 0 \<or> event_count sc = 0 then sc
      else let elapsed = duration_hours (time_sub now (last_decay_time sc)) in
        if fle elapsed (Fin 0) then sc
        else let factor = pow (flit (1/2)) (fdiv elapsed (cfg_decay_half_life_hours (config s))) in
          recompute s (sc\<lparr>base_score := fmul (base_score sc) factor,
            correlation_bonus := fmul (correlation_bonus sc) factor,
            score_by_detector := gmap_vals (\<lambda>_ v. fmul v factor) (score_by_detector sc),
            score_by_category := gmap_vals (\<lambda>_ v. fmul v factor) (score_by_category sc),
            last_decay_time := now\<rparr>))"

definition apply_decay :: "(f64 \<Rightarrow> f64 \<Rightarrow> f64) \<Rightarrow> time \<Rightarrow> scorer \<Rightarrow> scorer" where
  "apply_decay pow now s = (if fle (cfg_decay_half_life_hours (config s)) (Fin 0) then s
     else s\<lparr>players := gmap_vals (\<lambda>_. decay_score pow now s) (players s)\<rparr>)"

definition independent_categories :: "suspicion_score \<Rightarrow> int" where
  "independent_categories sc = int (length (remdups (map (\<lambda>(d, n). detector_category d)
     (filter (\<lambda>(d, n). \<not> (n \<le> 0 \<or> fle (gz (Fin 0) (score_by_detector sc) d) (Fin 0) \<or> is_meta_detector d))
       (detector_counts sc)))))"

definition nominal_bonus :: "scorer \<Rightarrow> suspicion_score \<Rightarrow> f64" where
  "nominal_bonus s sc =
     (let n = independent_categories sc; cap = correlation_bonus_cap (config s) in
      if 2 \<le> n then
        let b = fmul (f_of_int (n - 1)) (Fin 5) in
        if fle (Fin 0) cap \<and> flt cap b then cap else b
      else Fin 0)"

definition bonus_player :: "string \<Rightarrow> suspicion_score \<Rightarrow> scorer \<Rightarrow> scorer" where
  "bonus_player p sc s =
     (let b = nominal_bonus s sc in
      if (case map_of (bonus_basis s) p of Some basis \<Rightarrow> feq basis b | None \<Rightarrow> False) then s
      else let s = s\<lparr>bonus_basis := AList.update p b (bonus_basis s)\<rparr> in
        if feq b (correlation_bonus sc) then s
        else put_score p (recompute s (sc\<lparr>correlation_bonus := b\<rparr>)) s)"

definition apply_correlation_bonus :: "scorer \<Rightarrow> scorer" where
  "apply_correlation_bonus s = fold (\<lambda>(p, sc). bonus_player p sc) (players s) s"

definition reset :: "scorer \<Rightarrow> scorer" where
  "reset s = s\<lparr>players := [], bonus_basis := [], seen_events := []\<rparr>"

definition set_match_start :: "time \<Rightarrow> scorer \<Rightarrow> scorer" where
  "set_match_start t s = s\<lparr>match_start := t\<rparr>"

text \<open>\<open>decay.go\<close>: the decay of the cross-match view.\<close>

definition exponential_decay :: "(f64 \<Rightarrow> f64 \<Rightarrow> f64) \<Rightarrow> f64 \<Rightarrow> f64 \<Rightarrow> f64 \<Rightarrow> f64" where
  "exponential_decay pow score elapsed half =
     (if fle half (Fin 0) \<or> fle elapsed (Fin 0) then score
      else fmul score (pow (flit (1/2)) (fdiv elapsed half)))"

section \<open>The power function\<close>

text \<open>
  What \<open>math.Pow\<close> documents and this package relies on: for a positive base and a non-negative
  exponent the result is not a NaN and not negative, and at most 1 when the base is.
\<close>

definition go_pow :: "(f64 \<Rightarrow> f64 \<Rightarrow> f64) \<Rightarrow> bool" where
  "go_pow pow \<longleftrightarrow> (\<forall>x y. flt (Fin 0) x \<longrightarrow> fle (Fin 0) y \<longrightarrow> fle (Fin 0) (pow x y) \<and> (fle x (Fin 1) \<longrightarrow> fle (pow x y) (Fin 1)))"

text \<open>Repeated multiplication for a small integral exponent: an instance that computes.\<close>

definition pow_int :: "f64 \<Rightarrow> f64 \<Rightarrow> f64" where
  "pow_int x y = (if y = Fin 1 then x else if y = Fin 2 then fmul x x else Fin 1)"

lemma flt_0_cases: "flt (Fin 0) x \<Longrightarrow> x = Inf False \<or> (\<exists>a. x = Fin a \<and> 0 < a)"
  by (cases x) auto

lemma fle_0_cases: "fle (Fin 0) x \<Longrightarrow> x = Inf False \<or> (\<exists>a. x = Fin a \<and> 0 \<le> a)"
  by (cases x) auto

lemma go_pow_int: "go_pow pow_int"
proof -
  have sq: "fle (Fin 0) (fmul x x) \<and> (fle x (Fin 1) \<longrightarrow> fle (fmul x x) (Fin 1))" if "flt (Fin 0) x" for x
    using flt_0_cases [OF that] by (auto intro!: rnd_ge0 rnd_le1 simp: mult_le_one)
  show ?thesis
    unfolding go_pow_def pow_int_def using sq by (auto intro: flt_imp_fle)
qed

lemma go_powD:
  assumes "go_pow pow" "flt (Fin 0) x" "fle (Fin 0) y"
  shows "fle (Fin 0) (pow x y)" and "fle x (Fin 1) \<Longrightarrow> fle (pow x y) (Fin 1)"
  using assms by (auto simp: go_pow_def)

section \<open>Facts about single steps\<close>

definition unit_event :: "detection_event \<Rightarrow> bool" where
  "unit_event e \<longleftrightarrow> in_unit (severity e) \<and> in_unit (confidence e) \<and> in_unit (enforcement_weight e)"

lemma validated_unit_event: "validate_event e = None \<Longrightarrow> unit_event e"
  by (simp add: validate_event_None unit_event_def)

lemma fin_dest: "fle (Fin a) x \<Longrightarrow> fle x (Fin b) \<Longrightarrow> \<exists>q. x = Fin q \<and> a \<le> q \<and> q \<le> b"
  by (cases x) auto

lemma contribution_bounds:
  assumes "unit_event e"
  shows "fle (Fin 0) (contribution s e)" "fle (contribution s e) (Fin 100)"
    and "flt (Fin 0) (max_single_contribution (config s)) \<Longrightarrow> fle (contribution s e) (max_single_contribution (config s))"
proof -
  let ?c = "fmul (fmul (fmul (severity e) (confidence e)) (enforcement_weight e)) (Fin 100)"
  have "in_unit (fmul (fmul (severity e) (confidence e)) (enforcement_weight e))"
    using assms by (auto simp: unit_event_def intro: in_unit_fmul)
  then obtain q where q: "fmul (fmul (severity e) (confidence e)) (enforcement_weight e) = Fin q" "0 \<le> q" "q \<le> 1"
    by (metis in_unit_Fin in_unit_fin is_fin_iff)
  have "fle ?c (rnd 100)" "fle (Fin 0) ?c"
    using q by (auto intro!: rnd_mono rnd_ge0)
  moreover have "rnd 100 = Fin 100" by code_simp
  ultimately obtain r where r: "?c = Fin r" "0 \<le> r" "r \<le> 100" using fin_dest by metis
  let ?m = "max_single_contribution (config s)"
  have eq: "contribution s e = (if flt (Fin 0) ?m \<and> flt (Fin r) ?m = False \<and> flt ?m (Fin r) then ?m else Fin r)"
    using r(2) unfolding contribution_def r(1) Let_def by (cases ?m) (auto simp: is_nan_def)
  show "fle (Fin 0) (contribution s e)" "fle (contribution s e) (Fin 100)"
    using r unfolding eq by (cases ?m; auto)+
  show "flt (Fin 0) ?m \<Longrightarrow> fle (contribution s e) ?m"
    using r unfolding eq by (cases ?m) auto
qed

text \<open>Diminishing keeps a contribution between zero and itself.\<close>

lemma diminished_bounds:
  assumes e: "unit_event e" and pow: "go_pow pow" and d: "\<not> flt (Fin 1) (same_category_diminishing (config s))"
    and ok: "f64_ok (contribution s e)"
  shows "fle (Fin 0) (diminished pow s sc e)" "fle (diminished pow s sc e) (contribution s e)"
proof -
  let ?c = "contribution s e" and ?d = "same_category_diminishing (config s)"
    and ?n = "gz 0 (category_counts sc) (detector_category (detector_id e))"
  from contribution_bounds [OF e] have c: "fle (Fin 0) ?c" "fle ?c (Fin 100)" by auto
  then have fin: "is_fin ?c" by (rule fin_between)
  have "fle (Fin 0) (fmul ?c (pow ?d (f_of_int ?n))) \<and> fle (fmul ?c (pow ?d (f_of_int ?n))) ?c"
    if n: "0 < ?n" and pos: "flt (Fin 0) ?d"
  proof -
    have "fle ?d (Fin 1)" using d pos by (cases ?d) auto
    moreover have "fle (Fin 0) (f_of_int ?n)" using n by (auto simp: f_of_int_def intro: rnd_ge0)
    ultimately have "fle (Fin 0) (pow ?d (f_of_int ?n))" "fle (pow ?d (f_of_int ?n)) (Fin 1)"
      using go_powD [OF pow pos] by auto
    then show ?thesis using fmul_le_self [OF ok c(1) fin] by blast
  qed
  then show "fle (Fin 0) (diminished pow s sc e)" "fle (diminished pow s sc e) ?c"
    using c by (auto simp: diminished_def Let_def)
qed

lemma f64_ok_100 [simp]: "f64_ok (Fin 100)"
  unfolding f64_ok_def by code_simp

lemma f64_ok_contribution [simp]:
  "f64_ok (max_single_contribution (config s)) \<Longrightarrow> f64_ok (contribution s e)"
  by (auto simp: contribution_def Let_def)

lemma f64_ok_diminished: "f64_ok (contribution s e) \<Longrightarrow> f64_ok (diminished pow s sc e)"
  by (auto simp: diminished_def Let_def)

section \<open>The invariant\<close>

text \<open>
  \<open>score_ok\<close>: what holds of every player's score between two calls. The base is bounded by
  \<open>2 ^ 60\<close>: beyond it one more contribution of at most 100 is rounded away, so the base never
  overflows to infinity and decay never multiplies infinity by zero.
\<close>

definition base_limit :: f64 where "base_limit = Fin (2 ^ 60)"

definition flags_ok :: "scorer \<Rightarrow> suspicion_score \<Rightarrow> bool" where
  "flags_ok s sc \<longleftrightarrow>
     total_score sc = capped_total (base_score sc) (correlation_bonus sc) \<and>
     exceeds_review sc = fle (lt_high_risk (levels s)) (total_score sc) \<and>
     exceeds_auto_enforce sc = (flt (Fin 0) (cfg_auto_enforce_threshold (config s)) \<and>
       fle (cfg_auto_enforce_threshold (config s)) (total_score sc))"

definition parts_ok :: "suspicion_score \<Rightarrow> bool" where
  "parts_ok sc \<longleftrightarrow> fle (Fin 0) (base_score sc) \<and> fle (base_score sc) base_limit \<and> f64_ok (base_score sc) \<and>
     fle (Fin 0) (correlation_bonus sc) \<and> fle (correlation_bonus sc) (Fin 25) \<and> f64_ok (correlation_bonus sc)"

definition counts_ok :: "scorer \<Rightarrow> suspicion_score \<Rightarrow> bool" where
  "counts_ok s sc \<longleftrightarrow> gok (detector_counts sc) \<and> gok (category_counts sc) \<and> gok (match_ids sc) \<and>
     event_count sc = sum_list (map snd (detector_counts sc)) \<and>
     event_count sc = sum_list (map snd (category_counts sc)) \<and>
     match_count sc = int (length (match_ids sc)) \<and> (\<forall>b\<in>set (map snd (match_ids sc)). b) \<and>
     (\<forall>n\<in>set (map snd (detector_counts sc)). 0 < n \<and>
        (0 < max_contrib_per_detector (config s) \<longrightarrow> n \<le> max_contrib_per_detector (config s)))"

definition score_ok :: "scorer \<Rightarrow> suspicion_score \<Rightarrow> bool" where
  "score_ok s sc \<longleftrightarrow> flags_ok s sc \<and> parts_ok sc \<and> counts_ok s sc \<and> sc_levels sc = levels s"

text \<open>What configuration validation ensures of the fields the invariant depends on.\<close>

definition config_ok :: "scorer_config \<Rightarrow> bool" where
  "config_ok c \<longleftrightarrow> lt_valid (effective_levels c) \<and> \<not> flt (Fin 1) (same_category_diminishing c) \<and>
     f64_ok (max_single_contribution c) \<and> f64_ok (correlation_bonus_cap c) \<and> cfg_decay_half_life_hours c \<noteq> NaN"

definition scorer_ok :: "scorer \<Rightarrow> bool" where
  "scorer_ok s \<longleftrightarrow> config_ok (config s) \<and> levels s = effective_levels (config s) \<and> gok (players s) \<and>
     (\<forall>(p, sc)\<in>set (players s). score_ok s sc \<and> sc_player_id sc = p)"

lemma scorer_okD: "scorer_ok s \<Longrightarrow> map_of (players s) p = Some sc \<Longrightarrow> score_ok s sc \<and> sc_player_id sc = p"
  by (auto simp: scorer_ok_def dest!: map_of_SomeD)

lemma scorer_ok_levels: "scorer_ok s \<Longrightarrow> lt_valid (levels s)"
  by (simp add: scorer_ok_def config_ok_def)

lemma score_ok_cong:
  "config s' = config s \<Longrightarrow> levels s' = levels s \<Longrightarrow> score_ok s' sc = score_ok s sc"
  by (simp add: score_ok_def flags_ok_def counts_ok_def)

lemma set_update_subset: "set (AList.update k v m) \<subseteq> insert (k, v) (set m)"
  by (induction m) auto

lemma scorer_ok_put:
  assumes s: "scorer_ok s" and sc: "score_ok s sc" "sc_player_id sc = p"
  shows "scorer_ok (put_score p sc s)"
proof -
  have same: "config (put_score p sc s) = config s" "levels (put_score p sc s) = levels s"
    "players (put_score p sc s) = AList.update p sc (players s)"
    by (simp_all add: put_score_def)
  have "score_ok s y \<and> sc_player_id y = x" if "(x, y) \<in> set (AList.update p sc (players s))" for x y
  proof (cases "(x, y) = (p, sc)")
    case False
    then have "(x, y) \<in> set (players s)" using that set_update_subset by fast
    then show ?thesis using s by (auto simp: scorer_ok_def)
  qed (use sc in simp)
  then show ?thesis
    using s unfolding scorer_ok_def same score_ok_cong [OF same(1,2)] by auto
qed

lemma capped_total_bounds:
  assumes "fle (Fin 0) b" "fle (Fin 0) c"
  shows "fle (Fin 0) (capped_total b c)" "fle (capped_total b c) (Fin 100)"
  using fadd_ge0 [OF assms] by (cases "fadd b c"; auto simp: capped_total_def Let_def)+

lemma add_within_limit:
  assumes b: "fle (Fin 0) b" "fle b base_limit" and c: "fle (Fin 0) c" "fle c (Fin 100)"
  shows "fle (Fin 0) (fadd b c)" "fle (fadd b c) base_limit"
proof -
  obtain p where p: "b = Fin p" "0 \<le> p" "p \<le> 2 ^ 60"
    using fin_dest [OF b [unfolded base_limit_def]] by auto
  obtain q where q: "c = Fin q" "0 \<le> q" "q \<le> 100" using fin_dest [OF c] by auto
  show "fle (Fin 0) (fadd b c)" using b c by (intro fadd_ge0)
  have "fle (rnd (p + q)) (rnd (2 ^ 60 + 100))" using p q by (intro rnd_mono) simp
  moreover have "rnd (2 ^ 60 + 100) = base_limit" unfolding base_limit_def by code_simp
  ultimately show "fle (fadd b c) base_limit" using p q by simp
qed

text \<open>Recomputing a score whose parts are fine establishes the flags.\<close>

lemma recompute_parts:
  assumes "parts_ok sc"
  shows "recompute s sc = sc\<lparr>total_score := capped_total (base_score sc) (correlation_bonus sc),
      exceeds_review := fle (lt_high_risk (levels s)) (capped_total (base_score sc) (correlation_bonus sc)),
      exceeds_auto_enforce := (flt (Fin 0) (cfg_auto_enforce_threshold (config s)) \<and>
        fle (cfg_auto_enforce_threshold (config s)) (capped_total (base_score sc) (correlation_bonus sc)))\<rparr>"
  using assms fle_not_flt [of "Fin 0" "base_score sc"] fle_not_flt [of "Fin 0" "correlation_bonus sc"]
  by (simp add: recompute_def parts_ok_def Let_def)

lemma recompute_ok:
  assumes "parts_ok sc" "counts_ok s sc" "sc_levels sc = levels s"
  shows "score_ok s (recompute s sc)"
  using assms unfolding recompute_parts [OF assms(1)]
  by (simp add: score_ok_def flags_ok_def parts_ok_def counts_ok_def)

lemma recompute_player [simp]: "sc_player_id (recompute s sc) = sc_player_id sc"
  by (simp add: recompute_def Let_def)

lemma recompute_snapshot: "score_ok s sc \<Longrightarrow> score_ok s (sc\<lparr>snapshot_time := t\<rparr>)"
  by (simp add: score_ok_def flags_ok_def parts_ok_def counts_ok_def)

lemma add_event_simps [simp]:
  "base_score (add_event c t e sc) = fadd (base_score sc) c"
  "correlation_bonus (add_event c t e sc) = correlation_bonus sc"
  "event_count (add_event c t e sc) = event_count sc + 1"
  "detector_counts (add_event c t e sc) =
     AList.update (detector_id e) (gz 0 (detector_counts sc) (detector_id e) + 1) (detector_counts sc)"
  "category_counts (add_event c t e sc) =
     AList.update (detector_category (detector_id e))
       (gz 0 (category_counts sc) (detector_category (detector_id e)) + 1) (category_counts sc)"
  "sc_player_id (add_event c t e sc) = sc_player_id sc" "sc_levels (add_event c t e sc) = sc_levels sc"
  "match_ids (add_event c t e sc) = (if match_id e \<noteq> [] \<and> \<not> gz False (match_ids sc) (match_id e)
     then AList.update (match_id e) True (match_ids sc) else match_ids sc)"
  "match_count (add_event c t e sc) = (if match_id e \<noteq> [] \<and> \<not> gz False (match_ids sc) (match_id e)
     then match_count sc + 1 else match_count sc)"
  by (simp_all add: add_event_def Let_def)

lemma sum_update:
  fixes m :: "('k, int) gomap"
  assumes "gok m"
  shows "sum_list (map snd (AList.update k (gz 0 m k + n) m)) = sum_list (map snd m) + n"
  using assms
proof (induction m)
  case (Cons a m)
  then show ?case by (cases a) (auto simp: gok_def gz_def split: option.splits)
qed (simp add: gz_def)

lemma snd_update: "set (map snd (AList.update k v m)) \<subseteq> insert v (set (map snd m))"
  by (induction m) auto

lemma gz_in_snd: "gz z m k = z \<or> gz z m k \<in> set (map snd m)"
  by (auto simp: gz_def dest!: map_of_SomeD split: option.splits) force

lemma length_update: "length (AList.update k v m) = (if k \<in> fst ` set m then length m else length m + 1)"
  by (induction m) auto

lemma add_event_counts:
  assumes ok: "counts_ok s sc" and free: "\<not> detector_capped s sc e"
  shows "counts_ok s (add_event c t e sc)"
proof -
  have nk: "match_id e \<notin> fst ` set (match_ids sc)" if "\<not> gz False (match_ids sc) (match_id e)"
  proof
    assume "match_id e \<in> fst ` set (match_ids sc)"
    then obtain b where b: "map_of (match_ids sc) (match_id e) = Some b"
      by (metis map_of_eq_None_iff not_None_eq set_map)
    then have "b" using ok by (auto simp: counts_ok_def dest!: map_of_SomeD)
    with b that show False by (simp add: gz_def)
  qed
  have len: "int (length (match_ids (add_event c t e sc))) = match_count (add_event c t e sc)"
    using ok nk by (auto simp: counts_ok_def length_update)
  have all: "\<forall>b\<in>set (map snd (match_ids (add_event c t e sc))). b"
    using ok snd_update [of "match_id e" True "match_ids sc"] by (auto simp: counts_ok_def)
  let ?n = "gz 0 (detector_counts sc) (detector_id e)"
  have n: "0 \<le> ?n" using gz_in_snd [of 0 "detector_counts sc" "detector_id e"] ok
    by (auto simp: counts_ok_def)
  have cap: "0 < ?n + 1 \<and> (0 < max_contrib_per_detector (config s) \<longrightarrow> ?n + 1 \<le> max_contrib_per_detector (config s))"
    using free n by (auto simp: detector_capped_def)
  have dets: "\<forall>k\<in>set (map snd (detector_counts (add_event c t e sc))). 0 < k \<and>
      (0 < max_contrib_per_detector (config s) \<longrightarrow> k \<le> max_contrib_per_detector (config s))"
    using cap snd_update [of "detector_id e" "?n + 1" "detector_counts sc"] ok
    unfolding counts_ok_def add_event_simps by blast
  show ?thesis
    using ok len all dets unfolding counts_ok_def by (simp add: sum_update)
qed

section \<open>Every operation keeps the invariant\<close>

lemma get_or_create_simps [simp]:
  "config (snd (get_or_create p s)) = config s" "levels (snd (get_or_create p s)) = levels s"
  "seen_events (snd (get_or_create p s)) = seen_events s" "match_start (snd (get_or_create p s)) = match_start s"
  "map_of (players (snd (get_or_create p s))) p = Some (fst (get_or_create p s))"
  by (auto simp: get_or_create_def Let_def update_conv' split: option.splits)

lemma get_or_create_other:
  "q \<noteq> p \<Longrightarrow> map_of (players (snd (get_or_create p s))) q = map_of (players s) q"
  by (auto simp: get_or_create_def Let_def update_conv' split: option.splits)

lemma get_or_create_known: "map_of (players s) p = Some sc \<Longrightarrow> get_or_create p s = (sc, s)"
  by (simp add: get_or_create_def)

lemma capped_total_00: "capped_total (Fin 0) (Fin 0) = Fin 0"
  by (simp add: capped_total_def)

lemma fresh_score_ok:
  assumes "scorer_ok s"
  shows "score_ok s (zero_score p (levels s)\<lparr>review_threshold := a, auto_enforce_threshold := b, decay_half_life_hours := c\<rparr>)"
proof -
  have v: "lt_valid (levels s)" using assms by (simp add: scorer_ok_def config_ok_def)
  have "flt (Fin 0) (lt_high_risk (levels s))"
    using lt_validD [OF v] flt_fle_trans by blast
  then have h: "\<not> fle (lt_high_risk (levels s)) (Fin 0)" by (rule flt_not_fle)
  have a: "\<not> (flt (Fin 0) x \<and> fle x (Fin 0))" for x using flt_not_fle by blast
  show ?thesis using h a
    by (simp add: score_ok_def flags_ok_def parts_ok_def counts_ok_def zero_score_def base_limit_def capped_total_00)
qed

lemma get_or_create_ok:
  assumes "scorer_ok s"
  shows "scorer_ok (snd (get_or_create p s))" "score_ok s (fst (get_or_create p s))"
    "sc_player_id (fst (get_or_create p s)) = p"
proof -
  have "scorer_ok (snd (get_or_create p s)) \<and> score_ok s (fst (get_or_create p s)) \<and>
      sc_player_id (fst (get_or_create p s)) = p"
  proof (cases "map_of (players s) p")
    case None
    let ?sc = "zero_score p (levels s)\<lparr>review_threshold := lt_high_risk (levels s),
       auto_enforce_threshold := cfg_auto_enforce_threshold (config s),
       decay_half_life_hours := cfg_decay_half_life_hours (config s)\<rparr>"
    have e: "get_or_create p s = (?sc, put_score p ?sc s)"
      using None by (simp add: get_or_create_def Let_def put_score_def)
    have sp: "sc_player_id ?sc = p" by (simp add: zero_score_def)
    show ?thesis using scorer_ok_put [OF assms fresh_score_ok [OF assms] sp] fresh_score_ok [OF assms] sp
      unfolding e by simp
  qed (use assms scorer_okD in \<open>auto simp: get_or_create_known\<close>)
  then show "scorer_ok (snd (get_or_create p s))" "score_ok s (fst (get_or_create p s))"
    "sc_player_id (fst (get_or_create p s)) = p" by auto
qed

text \<open>The gates an event passes before it is scored, on the score it meets.\<close>

definition admitted :: "scorer \<Rightarrow> suspicion_score \<Rightarrow> detection_event \<Rightarrow> bool" where
  "admitted s sc e \<longleftrightarrow> \<not> is_shadow e \<and> \<not> is_meta_detector (detector_id e) \<and>
     \<not> (event_id e \<noteq> [] \<and> gz False (gz [] (seen_events s) (player_id e)) (event_id e)) \<and>
     \<not> in_cooldown s sc e \<and> \<not> detector_capped s sc e"

definition with_frame :: "detection_event \<Rightarrow> suspicion_score \<Rightarrow> suspicion_score" where
  "with_frame e sc = sc\<lparr>last_event_frames := AList.update (detector_id e) (frame_index e) (last_event_frames sc)\<rparr>"

definition scored :: "(f64 \<Rightarrow> f64 \<Rightarrow> f64) \<Rightarrow> time \<Rightarrow> time \<Rightarrow> detection_event \<Rightarrow> scorer \<Rightarrow> suspicion_score \<Rightarrow> suspicion_score" where
  "scored pow now snap e s sc =
     (recompute s (add_event (diminished pow s sc e) (event_time now e s) e (with_frame e sc)))\<lparr>snapshot_time := snap\<rparr>"

text \<open>The three outcomes of an ingest: turned away, recorded with no contribution, scored.\<close>

lemma ingest_outcome:
  fixes pow now snap e s0
  defines "sc \<equiv> fst (get_or_create (player_id e) s0)" and "s \<equiv> snd (get_or_create (player_id e) s0)"
  shows "ingest_event_with_result pow now snap e s0 =
    (if \<not> admitted s sc e then ((sc, False), s)
     else if feq (contribution s e) (Fin 0) then ((with_frame e sc, False), put_score (player_id e) (with_frame e sc) s)
     else ((scored pow now snap e s sc, True), put_score (player_id e) (scored pow now snap e s sc) (mark_seen e s)))"
proof -
  have g: "get_or_create (player_id e) s0 = (sc, s)" by (simp add: sc_def s_def)
  have d: "diminished pow s (with_frame e sc) e = diminished pow s sc e"
    by (simp add: diminished_def with_frame_def Let_def)
  show ?thesis
    unfolding ingest_event_with_result_def Let_def g admitted_def scored_def prod.case
      with_frame_def [symmetric] d by simp
qed

lemma with_frame_ok: "score_ok s sc \<Longrightarrow> score_ok s (with_frame e sc)"
  by (simp add: with_frame_def score_ok_def flags_ok_def parts_ok_def counts_ok_def)

lemma with_frame_player [simp]: "sc_player_id (with_frame e sc) = sc_player_id sc"
  by (simp add: with_frame_def)

lemma contribution_cong: "config s' = config s \<Longrightarrow> contribution s' e = contribution s e"
  by (simp add: contribution_def)

lemma scorer_ok_config: "scorer_ok s \<Longrightarrow> config_ok (config s)"
  by (simp add: scorer_ok_def)

lemma scored_parts:
  assumes s: "scorer_ok s" and e: "unit_event e" and pow: "go_pow pow" and sc: "score_ok s sc"
    and adm: "admitted s sc e"
  shows "score_ok s (scored pow now snap e s sc)"
proof -
  have d: "\<not> flt (Fin 1) (same_category_diminishing (config s))"
    and ok: "f64_ok (contribution s e)"
    using scorer_ok_config [OF s] by (simp_all add: config_ok_def)
  let ?c = "diminished pow s sc e"
  have c: "fle (Fin 0) ?c" "fle ?c (Fin 100)"
    using diminished_bounds [OF e pow d ok] contribution_bounds [OF e] fle_trans by blast+
  have okc: "f64_ok ?c" using ok by (rule f64_ok_diminished)
  let ?a = "add_event ?c (event_time now e s) e (with_frame e sc)"
  have fr: "score_ok s (with_frame e sc)" using sc by (rule with_frame_ok)
  have parts: "parts_ok ?a"
    using fr c okc add_within_limit [of "base_score sc" ?c]
    by (simp add: score_ok_def parts_ok_def with_frame_def)
  have "\<not> detector_capped s (with_frame e sc) e"
    using adm by (simp add: admitted_def detector_capped_def with_frame_def)
  then have counts: "counts_ok s ?a"
    using fr by (intro add_event_counts) (simp add: score_ok_def)
  have "sc_levels ?a = levels s" using fr by (simp add: score_ok_def)
  from recompute_ok [OF parts counts this] show ?thesis
    by (simp add: scored_def recompute_snapshot)
qed

lemma scored_player [simp]: "sc_player_id (scored pow now snap e s sc) = sc_player_id sc"
  by (simp add: scored_def)

lemma mark_seen_simps [simp]:
  "config (mark_seen e s) = config s" "levels (mark_seen e s) = levels s" "players (mark_seen e s) = players s"
  "match_start (mark_seen e s) = match_start s" "bonus_basis (mark_seen e s) = bonus_basis s"
  by (simp_all add: mark_seen_def)

lemma scorer_ok_cong:
  "config s' = config s \<Longrightarrow> levels s' = levels s \<Longrightarrow> players s' = players s \<Longrightarrow> scorer_ok s' = scorer_ok s"
  using score_ok_cong [of s' s] by (simp add: scorer_ok_def)

lemma ingest_ok:
  assumes s0: "scorer_ok s0" and e: "unit_event e" and pow: "go_pow pow"
  shows "scorer_ok (snd (ingest_event_with_result pow now snap e s0))"
proof -
  let ?sc = "fst (get_or_create (player_id e) s0)" and ?s = "snd (get_or_create (player_id e) s0)"
  have s: "scorer_ok ?s" and sc: "score_ok ?s ?sc" "sc_player_id ?sc = player_id e"
    using get_or_create_ok [OF s0, of "player_id e"] by (auto simp: score_ok_cong [of ?s s0])
  have 1: "scorer_ok (put_score (player_id e) (with_frame e ?sc) ?s)"
    by (rule scorer_ok_put [OF s]) (simp_all add: with_frame_ok sc)
  have 2: "scorer_ok (put_score (player_id e) (scored pow now snap e ?s ?sc) (mark_seen e ?s))"
    if "admitted ?s ?sc e"
  proof (rule scorer_ok_put)
    show "scorer_ok (mark_seen e ?s)" using s by (simp add: scorer_ok_cong [of "mark_seen e ?s" ?s])
    show "score_ok (mark_seen e ?s) (scored pow now snap e ?s ?sc)"
      using scored_parts [OF s e pow sc(1) that] by (simp add: score_ok_cong [of "mark_seen e ?s" ?s])
  qed (simp add: sc)
  show ?thesis
    using s 1 2 unfolding ingest_outcome by (simp split: if_split)
qed

text \<open>Decay multiplies by a factor in [0,1].\<close>

lemma fadd_le0: "fle x (Fin 0) \<Longrightarrow> fle y (Fin 0) \<Longrightarrow> fle (fadd x y) (Fin 0)"
  by (cases x; cases y) (use rnd_mono [of _ 0] in auto)

lemma f_of_int_hour: "f_of_int hour = Fin 3600000000000"
  by code_simp

lemma rnd_between: "0 \<le> q \<Longrightarrow> q \<le> r \<Longrightarrow> rnd r = Fin r \<Longrightarrow> \<exists>v. rnd q = Fin v \<and> 0 \<le> v \<and> v \<le> r"
  using fin_dest [of 0 "rnd q" r] rnd_ge0 [of q] rnd_mono [of q r] by simp

lemma duration_hours_pos:
  assumes "\<not> fle (duration_hours d) (Fin 0)" "d \<le> 2 ^ 63"
  shows "\<exists>q. duration_hours d = Fin q \<and> 0 < q"
proof (cases "0 \<le> d")
  case True
  let ?t = "rat_of_int (tdiv d hour)" and ?m = "rat_of_int (tmod d hour)"
  have "0 \<le> tdiv d hour" "tdiv d hour \<le> 2 ^ 63" "0 \<le> tmod d hour" "tmod d hour \<le> 3600000000000"
    using True assms(2)
    by (auto simp: tdiv_def tmod_def hour_def minute_def second_def sgn_if minus_div_mult_eq_mod)
  then have r: "0 \<le> ?t" "?t \<le> 2 ^ 63" "0 \<le> ?m" "?m \<le> 3600000000000" by simp_all
  have c: "rnd (2 ^ 63) = Fin (2 ^ 63)" "rnd 3600000000000 = Fin 3600000000000" "rnd 1 = Fin 1"
    "rnd (2 ^ 64) = Fin (2 ^ 64)" by code_simp+
  obtain v where v: "rnd ?t = Fin v" "0 \<le> v" "v \<le> 2 ^ 63"
    using rnd_between [OF r(1,2) c(1)] by auto
  obtain w where w: "rnd ?m = Fin w" "0 \<le> w" "w \<le> 3600000000000"
    using rnd_between [OF r(3,4) c(2)] by auto
  obtain x where x: "rnd (w / 3600000000000) = Fin x" "0 \<le> x" "x \<le> 1"
    using rnd_between [OF _ _ c(3), of "w / 3600000000000"] w by auto
  obtain y where y: "rnd (v + x) = Fin y" "0 \<le> y"
    using rnd_between [OF _ _ c(4), of "v + x"] v x by auto
  have "duration_hours d = Fin y"
    by (simp add: duration_hours_def f_of_int_hour) (simp add: f_of_int_def v w x y)
  with assms(1) y show ?thesis by simp
next
  case False
  then have "tdiv d hour \<le> 0" "tmod d hour \<le> 0"
    by (auto simp: tdiv_def tmod_def hour_def minute_def second_def sgn_if)
  then have "fle (f_of_int (tdiv d hour)) (Fin 0)" "fle (f_of_int (tmod d hour)) (Fin 0)"
    using rnd_mono [of _ 0] by (auto simp: f_of_int_def)
  moreover from this(2) have "fle (fdiv (f_of_int (tmod d hour)) (Fin 3600000000000)) (Fin 0)"
    using rnd_mono [of _ 0] by (cases "f_of_int (tmod d hour)") (auto simp: divide_le_0_iff)
  ultimately have "fle (duration_hours d) (Fin 0)"
    unfolding duration_hours_def f_of_int_hour by (intro fadd_le0)
  with assms show ?thesis by simp
qed

lemma flit_half: "flit (1/2) = Fin (1/2)"
  by code_simp

lemma fdiv_ge0: "fle (Fin 0) x \<Longrightarrow> x \<noteq> Inf False \<or> y \<noteq> Inf False \<Longrightarrow> flt (Fin 0) y \<Longrightarrow> fle (Fin 0) (fdiv x y)"
  by (cases x; cases y) (auto intro: rnd_ge0)

lemma half_pow:
  assumes "go_pow pow" "fle (Fin 0) y"
  shows "in_unit (pow (flit (1/2)) y)"
  using go_powD [OF assms(1) _ assms(2), of "Fin (1/2)"] by (simp add: flit_half in_unit_def)

lemma fmul_unit:
  assumes "f64_ok x" "fle (Fin 0) x" "fle x (Fin b)" "in_unit f"
  shows "fle (Fin 0) (fmul x f)" "fle (fmul x f) x"
  using fmul_le_self [OF assms(1,2) fin_between [OF assms(2,3)]] assms(4) by (auto simp: in_unit_def)

lemma score_ok_total: "score_ok s sc \<Longrightarrow> fle (Fin 0) (total_score sc) \<and> fle (total_score sc) (Fin 100)"
  using capped_total_bounds [of "base_score sc" "correlation_bonus sc"]
  by (simp add: score_ok_def flags_ok_def parts_ok_def)

lemma fadd_mono_right:
  assumes "fle (Fin 0) x" "fle x y" "fle (Fin 0) z"
  shows "fle (fadd x z) (fadd y z)"
proof -
  have inf: "fle (rnd q) (Inf False)" for q by (cases "rnd q") auto
  show ?thesis using assms inf by (cases x; cases y; cases z) (auto intro: rnd_mono)
qed

lemma fadd_comm: "fadd x y = fadd y x"
  by (cases x; cases y) (auto simp: add.commute)

lemma capped_total_mono:
  assumes "fle (Fin 0) x" "fle x y" "fle (Fin 0) u" "fle u v"
  shows "fle (capped_total x u) (capped_total y v)"
proof -
  have "fle (Fin 0) y" using assms(1,2) by (rule fle_trans)
  then have "fle (fadd y u) (fadd y v)"
    using fadd_mono_right [OF assms(3,4)] by (simp add: fadd_comm [of y])
  with fadd_mono_right [OF assms(1-3)] have "fle (fadd x u) (fadd y v)" by (rule fle_trans)
  then show ?thesis
    by (cases "fadd x u"; cases "fadd y v") (auto simp: capped_total_def Let_def)
qed

lemma score_ok_NaN: "score_ok s sc \<Longrightarrow> total_score sc \<noteq> NaN"
  using score_ok_total by fastforce

lemma decay_score_both:
  assumes s: "scorer_ok s" and sc: "score_ok s sc" and pow: "go_pow pow"
    and h: "\<not> fle (cfg_decay_half_life_hours (config s)) (Fin 0)"
  shows "score_ok s (decay_score pow now s sc) \<and> fle (total_score (decay_score pow now s sc)) (total_score sc)"
proof -
  let ?h = "cfg_decay_half_life_hours (config s)"
  define sc1 where "sc1 = (if last_decay_time sc = 0 then sc\<lparr>last_decay_time := last_event_time sc\<rparr> else sc)"
  have ok1: "score_ok s sc1" using sc
    by (simp add: sc1_def score_ok_def flags_ok_def parts_ok_def counts_ok_def)
  let ?e = "duration_hours (time_sub now (last_decay_time sc1))"
  define f where "f = pow (flit (1/2)) (fdiv ?e ?h)"
  let ?sc2 = "sc1\<lparr>base_score := fmul (base_score sc1) f, correlation_bonus := fmul (correlation_bonus sc1) f,
            score_by_detector := gmap_vals (\<lambda>_ v. fmul v f) (score_by_detector sc1),
            score_by_category := gmap_vals (\<lambda>_ v. fmul v f) (score_by_category sc1),
            last_decay_time := now\<rparr>"
  have eq: "decay_score pow now s sc = (if last_decay_time sc1 = 0 \<or> event_count sc1 = 0 \<or> fle ?e (Fin 0)
      then sc1 else recompute s ?sc2)"
    by (simp add: decay_score_def sc1_def f_def Let_def)
  have t1: "total_score sc1 = total_score sc" by (simp add: sc1_def)
  have "score_ok s (recompute s ?sc2) \<and> fle (total_score (recompute s ?sc2)) (total_score sc)" if "\<not> fle ?e (Fin 0)"
  proof -
    have "time_sub now (last_decay_time sc1) \<le> 2 ^ 63" by (simp add: time_sub_def max_duration_def min_duration_def)
    with that obtain q where q: "?e = Fin q" "0 < q" using duration_hours_pos by blast
    have "?h \<noteq> NaN" using s by (simp add: scorer_ok_def config_ok_def)
    with h have "flt (Fin 0) ?h" by (cases ?h) auto
    then have "fle (Fin 0) (fdiv ?e ?h)" using q by (intro fdiv_ge0) auto
    from half_pow [OF pow this] have f: "in_unit f" by (simp add: f_def)
    from ok1 have p: "parts_ok sc1" by (simp add: score_ok_def)
    from p f have b: "fle (Fin 0) (fmul (base_score sc1) f)" "fle (fmul (base_score sc1) f) (base_score sc1)"
      unfolding parts_ok_def base_limit_def using fmul_unit by blast+
    have c: "fle (Fin 0) (fmul (correlation_bonus sc1) f)" "fle (fmul (correlation_bonus sc1) f) (correlation_bonus sc1)"
      using p f fmul_unit [of "correlation_bonus sc1" 25 f] by (auto simp: parts_ok_def)
    from p have "fle (base_score sc1) base_limit" by (simp add: parts_ok_def)
    from fle_trans [OF b(2) this] b(1) c fle_trans [OF c(2), of "Fin 25"] p
    have p2: "parts_ok ?sc2" by (simp add: parts_ok_def)
    have "counts_ok s ?sc2" "sc_levels ?sc2 = levels s"
      using ok1 by (simp_all add: score_ok_def counts_ok_def)
    with p2 have "score_ok s (recompute s ?sc2)" by (rule recompute_ok)
    moreover have "fle (capped_total (fmul (base_score sc1) f) (fmul (correlation_bonus sc1) f))
        (capped_total (base_score sc1) (correlation_bonus sc1))"
      using b c by (intro capped_total_mono)
    ultimately show ?thesis
      using ok1 t1 by (simp add: recompute_parts [OF p2] score_ok_def flags_ok_def)
  qed
  moreover have "fle (total_score sc) (total_score sc)" using score_ok_NaN [OF sc] by simp
  ultimately show ?thesis using ok1 t1 unfolding eq by (simp split: if_split)
qed

lemmas decay_score_ok = decay_score_both [THEN conjunct1]

lemma decay_score_lower:
  assumes s: "scorer_ok s" and sc: "score_ok s sc" and pow: "go_pow pow"
    and h: "\<not> fle (cfg_decay_half_life_hours (config s)) (Fin 0)"
  shows "fle (total_score (decay_score pow now s sc)) (total_score sc)" "fle (Fin 0) (total_score (decay_score pow now s sc))"
  using decay_score_both [OF assms] score_ok_total by blast+

lemma decay_score_player [simp]: "sc_player_id (decay_score pow now s sc) = sc_player_id sc"
  by (simp add: decay_score_def Let_def)

lemma apply_decay_ok:
  assumes s: "scorer_ok s" and pow: "go_pow pow"
  shows "scorer_ok (apply_decay pow now s)"
proof (cases "fle (cfg_decay_half_life_hours (config s)) (Fin 0)")
  case False
  let ?s = "s\<lparr>players := gmap_vals (\<lambda>_. decay_score pow now s) (players s)\<rparr>"
  have "score_ok s y \<and> sc_player_id y = x"
    if "(x, y) \<in> set (gmap_vals (\<lambda>_. decay_score pow now s) (players s))" for x y
    using that s decay_score_ok [OF s _ pow False]
    by (auto simp: gmap_vals_def scorer_ok_def)
  then have "scorer_ok ?s"
    using s score_ok_cong [of ?s s] by (auto simp: scorer_ok_def)
  then show ?thesis using False by (simp add: apply_decay_def)
qed (simp add: apply_decay_def s)

text \<open>At most six categories exist, so the nominal bonus is between 0 and 25.\<close>

lemma detector_category_names: "detector_category d \<in> set category_names"
  by (simp add: detector_category_def category_names_def Let_def)

lemma independent_categories_le: "independent_categories sc \<le> 6"
proof -
  have "length (remdups xs) \<le> 6" if "set xs \<subseteq> set category_names" for xs
  proof -
    have "length (remdups xs) = card (set xs)" by (metis distinct_card distinct_remdups set_remdups)
    also have "\<dots> \<le> card (set category_names)" by (rule card_mono [OF _ that]) simp
    also have "\<dots> \<le> 6" using card_length [of category_names] by (simp add: category_names_def)
    finally show ?thesis .
  qed
  moreover have "set (map (\<lambda>(d, n). detector_category d) ys) \<subseteq> set category_names" for ys :: "(string \<times> int) list"
    using detector_category_names by auto
  ultimately have "length (remdups (map (\<lambda>(d, n). detector_category d) ys)) \<le> 6" for ys :: "(string \<times> int) list"
    by blast
  then show ?thesis unfolding independent_categories_def by simp
qed

lemma nominal_bonus_bounds: "fle (Fin 0) (nominal_bonus s sc)" "fle (nominal_bonus s sc) (Fin 25)"
proof -
  have "fle (Fin 0) (fmul (f_of_int (n - 1)) (Fin 5)) \<and> fle (fmul (f_of_int (n - 1)) (Fin 5)) (Fin 25)"
    if "2 \<le> n" "n \<le> 6" for n
  proof -
    from that have "n = 2 \<or> n = 3 \<or> n = 4 \<or> n = 5 \<or> n = 6" by auto
    moreover have "rnd 1 = Fin 1" "rnd 2 = Fin 2" "rnd 3 = Fin 3" "rnd 4 = Fin 4" "rnd 5 = Fin 5"
      "rnd 10 = Fin 10" "rnd 15 = Fin 15" "rnd 20 = Fin 20" "rnd 25 = Fin 25" by code_simp+
    ultimately show ?thesis by (auto simp: f_of_int_def)
  qed
  note b = this
  show "fle (Fin 0) (nominal_bonus s sc)" "fle (nominal_bonus s sc) (Fin 25)"
  proof -
    let ?n = "independent_categories sc" and ?c = "correlation_bonus_cap (config s)"
    let ?b = "fmul (f_of_int (?n - 1)) (Fin 5)"
    consider "?n < 2" | "2 \<le> ?n" "fle (Fin 0) ?c \<and> flt ?c ?b" | "2 \<le> ?n" "\<not> (fle (Fin 0) ?c \<and> flt ?c ?b)"
      by linarith
    then have "nominal_bonus s sc = Fin 0 \<or> (2 \<le> ?n \<and> (nominal_bonus s sc = ?b \<or>
        (nominal_bonus s sc = ?c \<and> fle (Fin 0) ?c \<and> fle ?c ?b)))"
      by cases (auto simp: nominal_bonus_def Let_def intro: flt_imp_fle)
    then show "fle (Fin 0) (nominal_bonus s sc)" "fle (nominal_bonus s sc) (Fin 25)"
      using b [OF _ independent_categories_le, of sc] fle_trans [of "Fin 0" ?c] fle_trans [of ?c ?b]
      by (elim disjE conjE; simp)+
  qed
qed

lemma f64_ok_nominal_bonus: "scorer_ok s \<Longrightarrow> f64_ok (nominal_bonus s sc)"
  by (auto simp: nominal_bonus_def Let_def scorer_ok_def config_ok_def)

lemma exponential_decay_bounds:
  assumes pow: "go_pow pow" and x: "f64_ok x \<and> fle (Fin 0) x \<and> fle x (Fin 100) \<and> fle y (Fin 1000000) \<and> h \<noteq> NaN"
  shows "fle (exponential_decay pow x y h) x \<and> fle (Fin 0) (exponential_decay pow x y h)"
proof (cases "fle h (Fin 0) \<or> fle y (Fin 0)")
  case True
  then show ?thesis using x by (auto simp: exponential_decay_def)
next
  case False
  then have "flt (Fin 0) h" "flt (Fin 0) y" using x by (cases h; cases y; auto)+
  then have "fle (Fin 0) (fdiv y h)" using x by (intro fdiv_ge0) (auto intro: flt_imp_fle)
  from half_pow [OF pow this] fmul_unit [of x 100] x False show ?thesis
    by (simp add: exponential_decay_def)
qed

lemma bonus_player_ok:
  assumes s: "scorer_ok s" and sc: "score_ok s sc" "sc_player_id sc = p"
  shows "scorer_ok (bonus_player p sc s)"
proof -
  let ?b = "nominal_bonus s sc"
  let ?s = "s\<lparr>bonus_basis := AList.update p ?b (bonus_basis s)\<rparr>"
  have s': "scorer_ok ?s" using s by (simp add: scorer_ok_cong [of ?s s])
  have "score_ok ?s (recompute ?s (sc\<lparr>correlation_bonus := ?b\<rparr>))"
    by (rule recompute_ok) (use sc nominal_bonus_bounds f64_ok_nominal_bonus [OF s] in \<open>auto simp: score_ok_def parts_ok_def counts_ok_def\<close>)
  then have "scorer_ok (put_score p (recompute ?s (sc\<lparr>correlation_bonus := ?b\<rparr>)) ?s)"
    by (rule scorer_ok_put [OF s']) (simp add: sc)
  then show ?thesis using s s' by (simp add: bonus_player_def Let_def)
qed

lemma put_score_simps [simp]:
  "config (put_score p sc s) = config s" "levels (put_score p sc s) = levels s"
  "players (put_score p sc s) = AList.update p sc (players s)" "bonus_basis (put_score p sc s) = bonus_basis s"
  "seen_events (put_score p sc s) = seen_events s"
  by (simp_all add: put_score_def)

lemma bonus_player_simps [simp]:
  "config (bonus_player p sc s) = config s" "levels (bonus_player p sc s) = levels s"
  "seen_events (bonus_player p sc s) = seen_events s"
  by (simp_all add: bonus_player_def Let_def)

lemma fold_bonus_ok:
  "scorer_ok s \<Longrightarrow> (\<forall>(p, sc)\<in>set xs. score_ok s sc \<and> sc_player_id sc = p) \<Longrightarrow>
   scorer_ok (fold (\<lambda>(p, sc). bonus_player p sc) xs s)"
proof (induction xs arbitrary: s)
  case (Cons a xs)
  obtain p sc where a: "a = (p, sc)" by force
  have "scorer_ok (bonus_player p sc s)" using Cons.prems a by (intro bonus_player_ok) auto
  moreover have "\<forall>(q, y)\<in>set xs. score_ok (bonus_player p sc s) y \<and> sc_player_id y = q"
    using Cons.prems score_ok_cong [of "bonus_player p sc s" s] by auto
  ultimately show ?case using Cons.IH a by simp
qed simp

lemma apply_correlation_bonus_ok: "scorer_ok s \<Longrightarrow> scorer_ok (apply_correlation_bonus s)"
  unfolding apply_correlation_bonus_def by (rule fold_bonus_ok) (auto simp: scorer_ok_def)

lemma reset_ok: "scorer_ok s \<Longrightarrow> scorer_ok (reset s)"
  by (simp add: scorer_ok_def reset_def)

lemma set_match_start_ok: "scorer_ok s \<Longrightarrow> scorer_ok (set_match_start t s)"
  using scorer_ok_cong [of "set_match_start t s" s] by (simp add: set_match_start_def)

lemma new_scorer_ok: "config_ok cfg \<Longrightarrow> scorer_ok (new_scorer cfg)"
  by (simp add: scorer_ok_def new_scorer_def)

section \<open>The scorer as a machine\<close>

datatype scorer_call = Ingest time time detection_event | Decay time | Bonus | Reset_scores | Set_start time

fun scorer_step :: "(f64 \<Rightarrow> f64 \<Rightarrow> f64) \<Rightarrow> scorer_call \<Rightarrow> scorer \<Rightarrow> scorer" where
  "scorer_step pow (Ingest now snap e) s = snd (ingest_event_with_result pow now snap e s)"
| "scorer_step pow (Decay now) s = apply_decay pow now s"
| "scorer_step pow Bonus s = apply_correlation_bonus s"
| "scorer_step pow Reset_scores s = reset s"
| "scorer_step pow (Set_start t) s = set_match_start t s"

fun scorer_call_ok :: "(f64 \<Rightarrow> f64 \<Rightarrow> f64) \<Rightarrow> scorer_call \<Rightarrow> bool" where
  "scorer_call_ok pow (Ingest _ _ e) = (go_pow pow \<and> unit_event e)"
| "scorer_call_ok pow (Decay _) = go_pow pow"
| "scorer_call_ok pow _ = True"

interpretation sm: machine "scorer_step pow" "scorer_call_ok pow" scorer_ok for pow
proof
  show "scorer_ok (scorer_step pow c s)" if "scorer_ok s" "scorer_call_ok pow c" for s c
    using that by (cases c) (simp_all add: ingest_ok apply_decay_ok apply_correlation_bonus_ok reset_ok set_match_start_ok)
qed

section \<open>Facts behind the properties\<close>

lemma or_default_valid: "lt_valid t \<Longrightarrow> or_default t = t"
proof -
  assume "lt_valid t"
  then have "flt (Fin 0) (lt_informational t)" by (simp add: lt_valid_chain)
  then show ?thesis by (auto simp: or_default_def lt_is_zero_def feq_iff)
qed

lemma score_ok_level:
  assumes "lt_valid (levels s)" "score_ok s sc"
  shows "exceeds_review sc \<longleftrightarrow> at_least (sc_level sc) LevelHighRisk"
  using assms by (simp add: sc_level_def score_ok_def flags_ok_def or_default_valid at_least_iff level_for_at_least)

lemma get_score_cases: "get_score p s = zero_score p (levels s) \<or> map_of (players s) p = Some (get_score p s)"
  by (simp add: get_score_def split: option.splits)

lemma get_score_put [simp]: "get_score q (put_score p sc s) = (if q = p then sc else get_score q s)"
  by (simp add: get_score_def update_conv' put_score_def split: option.split)

lemma get_score_mark_seen [simp]: "get_score q (mark_seen e s) = get_score q s"
  by (simp add: get_score_def split: option.split)

lemma get_score_created [simp]: "get_score p (snd (get_or_create p s)) = fst (get_or_create p s)"
  by (simp add: get_score_def)

lemma get_score_created_other: "q \<noteq> p \<Longrightarrow> get_score q (snd (get_or_create p s)) = get_score q s"
  by (simp add: get_score_def get_or_create_other split: option.split)

lemma base_created: "base_score (fst (get_or_create p s)) = base_score (get_score p s)"
  by (auto simp: get_or_create_def get_score_def zero_score_def Let_def split: option.splits)

lemma total_created: "total_score (fst (get_or_create p s)) = total_score (get_score p s)"
  by (auto simp: get_or_create_def get_score_def zero_score_def Let_def split: option.splits)

text \<open>Only the event's own player is affected by an ingest.\<close>

lemma ingest_other:
  "q \<noteq> player_id e \<Longrightarrow> get_score q (snd (ingest_event_with_result pow now snap e s)) = get_score q s"
  unfolding ingest_outcome by (simp add: get_score_created_other)

lemma get_score_ok:
  assumes "scorer_ok s"
  shows "score_ok s (get_score p s)"
proof (cases "map_of (players s) p")
  case None
  have "zero_score p (levels s) = zero_score p (levels s)\<lparr>review_threshold := Fin 0,
      auto_enforce_threshold := Fin 0, decay_half_life_hours := Fin 0\<rparr>"
    by (simp add: zero_score_def)
  with None fresh_score_ok [OF assms, where p = p and a = "Fin 0" and b = "Fin 0" and c = "Fin 0"] show ?thesis
    by (simp add: get_score_def)
qed (use scorer_okD [OF assms] in \<open>auto simp: get_score_def\<close>)

text \<open>Once an event is accepted its identifier stays marked until the scorer is reset.\<close>

definition seen :: "string \<Rightarrow> string \<Rightarrow> scorer \<Rightarrow> bool" where
  "seen p i s \<longleftrightarrow> gz False (gz [] (seen_events s) p) i"

lemma seen_mark_seen [simp]:
  "seen p i (mark_seen e s) \<longleftrightarrow> seen p i s \<or> (event_id e \<noteq> [] \<and> p = player_id e \<and> i = event_id e)"
  by (auto simp: seen_def mark_seen_def)

lemma seen_put_score [simp]: "seen p i (put_score q sc s) = seen p i s"
  by (simp add: seen_def)

lemma seen_created [simp]: "seen p i (snd (get_or_create q s)) = seen p i s"
  by (simp add: seen_def)

lemma seen_cong: "seen_events s' = seen_events s \<Longrightarrow> seen p i s' = seen p i s"
  by (simp add: seen_def)

lemma seen_events_bonus: "seen_events (fold (\<lambda>(p, sc). bonus_player p sc) xs s) = seen_events s"
  by (induction xs arbitrary: s) (simp_all add: split_beta)

lemma seen_step:
  assumes "seen p i s" "c \<noteq> Reset_scores"
  shows "seen p i (scorer_step pow c s)"
proof (cases c)
  case (Ingest now snap e)
  then show ?thesis using assms by (simp add: ingest_outcome)
next
  case (Decay now)
  have "seen_events (apply_decay pow now s) = seen_events s" by (simp add: apply_decay_def)
  from seen_cong [OF this] Decay assms show ?thesis by simp
next
  case Bonus
  have "seen_events (apply_correlation_bonus s) = seen_events s"
    unfolding apply_correlation_bonus_def by (rule seen_events_bonus)
  from seen_cong [OF this] Bonus assms show ?thesis by simp
next
  case (Set_start t)
  have "seen_events (set_match_start t s) = seen_events s" by (simp add: set_match_start_def)
  from seen_cong [OF this] Set_start assms show ?thesis by simp
qed (use assms in simp)

lemma seen_run: "seen p i s \<Longrightarrow> Reset_scores \<notin> set cs \<Longrightarrow> seen p i (fold (scorer_step pow) cs s)"
proof (induction cs arbitrary: s)
  case (Cons c cs)
  then have "seen p i (scorer_step pow c s)" using seen_step [of p i s c pow] by auto
  then show ?case using Cons by simp
qed simp

lemma accepted_iff:
  fixes e s0
  defines "sc \<equiv> fst (get_or_create (player_id e) s0)" and "s \<equiv> snd (get_or_create (player_id e) s0)"
  shows "snd (fst (ingest_event_with_result pow now snap e s0)) \<longleftrightarrow>
    admitted s sc e \<and> \<not> feq (contribution s e) (Fin 0)"
  unfolding ingest_outcome sc_def s_def by simp

lemma admitted_created:
  "admitted (snd (get_or_create p s)) sc e \<longleftrightarrow> admitted s sc e"
  by (simp add: admitted_def in_cooldown_def effective_cooldown_def detector_capped_def split: option.split)

lemma contribution_created [simp]: "contribution (snd (get_or_create p s)) e = contribution s e"
  by (rule contribution_cong) simp

lemma config_bonus: "config (fold (\<lambda>(p, sc). bonus_player p sc) xs s) = config s"
  by (induction xs arbitrary: s) (simp_all add: split_beta)

text \<open>The shipped defaults (\<open>internal/config/defaults.go\<close>), for concrete instances.\<close>

definition sample_config :: scorer_config where
  "sample_config = \<lparr>max_single_contribution = Fin 30, max_contrib_per_detector = 5,
     same_category_diminishing = rnd (8/10), cfg_review_threshold = Fin 60, cfg_auto_enforce_threshold = Fin 95,
     cfg_decay_half_life_hours = Fin 168, cooldown_frames = 300, correlation_bonus_cap = Fin 20,
     cfg_levels = default_level_table\<rparr>"

lemma sample_config_ok: "config_ok sample_config"
proof -
  have "lt_valid (effective_levels sample_config)"
    unfolding effective_levels_def sample_config_def
    by (rule with_review_threshold_valid_aux) (use default_level_table_valid or_default_valid in simp_all)
  moreover have "\<not> flt (Fin 1) (rnd (8/10))" by code_simp
  moreover have "rnd 30 = Fin 30" "rnd 20 = Fin 20" by code_simp+
  ultimately show ?thesis by (simp add: config_ok_def sample_config_def f64_ok_def)
qed

lemma sample_unit_event: "unit_event sample_event"
  unfolding unit_event_def in_unit_def by code_simp

text \<open>A player is settled when the recorded basis of the bonus is the nominal bonus.\<close>

definition settled :: "scorer \<Rightarrow> string \<Rightarrow> bool" where
  "settled s p \<longleftrightarrow> (\<exists>sc. map_of (players s) p = Some sc \<and> map_of (bonus_basis s) p = Some (nominal_bonus s sc))"

lemma nominal_bonus_cong:
  "config s' = config s \<Longrightarrow> detector_counts sc' = detector_counts sc \<Longrightarrow>
   score_by_detector sc' = score_by_detector sc \<Longrightarrow> nominal_bonus s' sc' = nominal_bonus s sc"
  by (simp add: nominal_bonus_def independent_categories_def)

lemma nominal_bonus_not_NaN: "nominal_bonus s sc \<noteq> NaN"
  using nominal_bonus_bounds(1) [of s sc] by auto

lemma recompute_keeps [simp]:
  "detector_counts (recompute s sc) = detector_counts sc" "score_by_detector (recompute s sc) = score_by_detector sc"
  by (simp_all add: recompute_def Let_def)

lemma bonus_player_settled:
  assumes "map_of (players s) p = Some sc"
  shows "settled (bonus_player p sc s) p"
proof -
  let ?b = "nominal_bonus s sc"
  let ?s = "s\<lparr>bonus_basis := AList.update p ?b (bonus_basis s)\<rparr>"
  let ?new = "recompute ?s (sc\<lparr>correlation_bonus := ?b\<rparr>)"
  have n: "nominal_bonus ?s sc = ?b" "nominal_bonus (put_score p ?new ?s) ?new = ?b"
    by (rule nominal_bonus_cong; simp)+
  consider (same) "map_of (bonus_basis s) p = Some ?b" "bonus_player p sc s = s"
    | (kept) "bonus_player p sc s = ?s" | (set) "bonus_player p sc s = put_score p ?new ?s"
  proof (cases "map_of (bonus_basis s) p = Some ?b")
    case True
    then have "bonus_player p sc s = s"
      using nominal_bonus_not_NaN [of s sc] by (simp add: bonus_player_def feq_iff)
    with True that(1) show ?thesis by blast
  next
    case False
    then have "bonus_player p sc s = (if feq ?b (correlation_bonus sc) then ?s else put_score p ?new ?s)"
      by (cases "map_of (bonus_basis s) p") (auto simp: bonus_player_def feq_iff Let_def)
    with that(2,3) show ?thesis by (simp split: if_splits)
  qed
  then show ?thesis
    by cases (use assms n in \<open>simp_all add: settled_def update_conv'\<close>)
qed

lemma bonus_player_other:
  assumes "q \<noteq> p"
  shows "map_of (players (bonus_player p sc s)) q = map_of (players s) q"
    and "map_of (bonus_basis (bonus_player p sc s)) q = map_of (bonus_basis s) q"
  using assms by (auto simp: bonus_player_def Let_def update_conv')

lemma bonus_player_stays: "settled s q \<Longrightarrow> map_of (players s) p = Some sc \<Longrightarrow> settled (bonus_player p sc s) q"
proof (cases "q = p")
  case False
  have "nominal_bonus (bonus_player p sc s) sc' = nominal_bonus s sc'" for sc'
    by (rule nominal_bonus_cong) simp_all
  then show "settled s q \<Longrightarrow> settled (bonus_player p sc s) q"
    by (simp add: settled_def bonus_player_other [OF False])
qed (simp add: bonus_player_settled)

lemma bonus_player_keys:
  "map_of (players s) p = Some sc \<Longrightarrow> map fst (players (bonus_player p sc s)) = map fst (players s)"
proof -
  assume "map_of (players s) p = Some sc"
  then have "p \<in> set (map fst (players s))" by (metis domI dom_map_of_conv_image_fst set_map)
  then show ?thesis by (simp add: bonus_player_def Let_def update_keys)
qed

lemma bonus_fold_settles:
  assumes "distinct (map fst xs)" "\<And>p sc. (p, sc) \<in> set xs \<Longrightarrow> map_of (players s) p = Some sc"
  shows "(\<forall>p\<in>set (map fst xs) \<union> {q. settled s q}. settled (fold (\<lambda>(p, sc). bonus_player p sc) xs s) p) \<and>
    map fst (players (fold (\<lambda>(p, sc). bonus_player p sc) xs s)) = map fst (players s)"
  using assms
proof (induction xs arbitrary: s)
  case (Cons a xs)
  obtain p sc where a: "a = (p, sc)" by force
  let ?s = "bonus_player p sc s"
  have p: "map_of (players s) p = Some sc" using Cons.prems(2) a by simp
  have "map_of (players ?s) q = Some y" if "(q, y) \<in> set xs" for q y
    using that Cons.prems a by (subst bonus_player_other) force+
  with Cons.IH [of ?s] Cons.prems(1) a
  have IH: "(\<forall>q\<in>set (map fst xs) \<union> {q. settled ?s q}. settled (fold (\<lambda>(p, sc). bonus_player p sc) xs ?s) q)"
    "map fst (players (fold (\<lambda>(p, sc). bonus_player p sc) xs ?s)) = map fst (players ?s)" by auto
  then show ?case
    using bonus_player_settled [OF p] bonus_player_stays [OF _ p] bonus_player_keys [OF p] a by auto
qed simp

lemma bonus_settled_id:
  assumes "\<And>p sc. (p, sc) \<in> set xs \<Longrightarrow> map_of (players s) p = Some sc \<and> settled s p"
  shows "fold (\<lambda>(p, sc). bonus_player p sc) xs s = s"
  using assms
proof (induction xs)
  case (Cons a xs)
  obtain p sc where a: "a = (p, sc)" by force
  then have "map_of (players s) p = Some sc \<and> settled s p" using Cons.prems [of p sc] by simp
  then have "map_of (bonus_basis s) p = Some (nominal_bonus s sc)" by (auto simp: settled_def)
  then have "bonus_player p sc s = s"
    using nominal_bonus_not_NaN by (simp add: bonus_player_def feq_iff Let_def)
  moreover have "fold (\<lambda>(p, sc). bonus_player p sc) xs s = s" by (rule Cons.IH) (use Cons.prems in auto)
  ultimately show ?case using a by simp
qed simp

section \<open>Properties\<close>

text \<open>C1: Whatever sequence of ingests, decays, bonus recomputations, resets and clock changes a
  scorer built from a validated configuration goes through, every player's score satisfies: the
  total is in [0,100], the review flag is set exactly when the score's tier is at least
  \<open>high_risk\<close>, the event counter is the sum of the per-detector and of the per-category counters,
  the match counter is the number of distinct matches, and no detector exceeds its per-match cap.\<close>
theorem scorer_run_sound:
  assumes "config_ok cfg" "list_all (scorer_call_ok pow) calls"
  shows "let s = fold (scorer_step pow) calls (new_scorer cfg); sc = get_score p s in
    fle (Fin 0) (total_score sc) \<and> fle (total_score sc) (Fin 100) \<and>
    exceeds_review sc = at_least (sc_level sc) LevelHighRisk \<and>
    event_count sc = sum_list (map snd (detector_counts sc)) \<and>
    event_count sc = sum_list (map snd (category_counts sc)) \<and>
    match_count sc = int (length (match_ids sc)) \<and> distinct (map fst (match_ids sc)) \<and>
    (0 < max_contrib_per_detector cfg \<longrightarrow>
       (\<forall>(d, n)\<in>set (detector_counts sc). n \<le> max_contrib_per_detector cfg))"
proof -
  let ?s = "fold (scorer_step pow) calls (new_scorer cfg)"
  have s: "scorer_ok ?s" using assms by (intro sm.run_inv new_scorer_ok)
  have "config (scorer_step pow c s') = config s'" for c s'
    by (cases c) (simp_all add: ingest_outcome apply_decay_def reset_def set_match_start_def
        apply_correlation_bonus_def config_bonus)
  then have cfg: "config ?s = cfg"
    by (induction calls arbitrary: cfg rule: rev_induct) (simp_all add: new_scorer_def)
  from get_score_ok [OF s] have ok: "score_ok ?s (get_score p ?s)" .
  show ?thesis
    using ok score_ok_total [OF ok] score_ok_level [OF scorer_ok_levels [OF s] ok]
    by (auto simp: Let_def score_ok_def counts_ok_def cfg gok_def)
qed

theorem scorer_run_sound_witness:
  "exceeds_review (get_score ''p1'' (fold (scorer_step pow_int)
     [Ingest 5 6 sample_event, Bonus, Decay 1000] (new_scorer sample_config))) =
   at_least (sc_level (get_score ''p1'' (fold (scorer_step pow_int)
     [Ingest 5 6 sample_event, Bonus, Decay 1000] (new_scorer sample_config)))) LevelHighRisk"
  using scorer_run_sound [OF sample_config_ok, of pow_int "[Ingest 5 6 sample_event, Bonus, Decay 1000]" "''p1''"]
  by (simp add: Let_def go_pow_int sample_unit_event)

text \<open>C2: An event is accepted exactly when it is neither shadow nor from a meta-detector, its
  identifier is new for the player, the detector is out of its cooldown and below its cap, and its
  contribution is not zero; then the counters advance by one. When it is not accepted, the
  player's base, total, bonus, counters and matches stay what they were.\<close>
theorem ingest_gates:
  "let r = ingest_event_with_result pow now snap e s; old = get_score (player_id e) s;
       new = get_score (player_id e) (snd r); accepted = snd (fst r) in
    accepted = (\<not> is_shadow e \<and> \<not> is_meta_detector (detector_id e) \<and>
      \<not> (event_id e \<noteq> [] \<and> seen (player_id e) (event_id e) s) \<and>
      (case map_of (last_event_frames old) (detector_id e) of None \<Rightarrow> True
         | Some f \<Rightarrow> frame_index e - f \<ge> effective_cooldown s e) \<and>
      (max_contrib_per_detector (config s) \<le> 0 \<or>
         gz 0 (detector_counts old) (detector_id e) < max_contrib_per_detector (config s)) \<and>
      \<not> feq (contribution s e) (Fin 0)) \<and>
    fst (fst r) = new \<and>
    (if accepted then event_count new = event_count old + 1 \<and>
        gz 0 (detector_counts new) (detector_id e) = gz 0 (detector_counts old) (detector_id e) + 1
      else (total_score new, base_score new, correlation_bonus new, event_count new, detector_counts new,
            category_counts new, match_ids new) =
           (total_score old, base_score old, correlation_bonus old, event_count old, detector_counts old,
            category_counts old, match_ids old))"
proof -
  let ?p = "player_id e" and ?r = "ingest_event_with_result pow now snap e s"
  let ?sc = "fst (get_or_create ?p s)" and ?s = "snd (get_or_create ?p s)"
  have cr: "last_event_frames ?sc = last_event_frames (get_score ?p s)"
    "detector_counts ?sc = detector_counts (get_score ?p s)" "event_count ?sc = event_count (get_score ?p s)"
    "category_counts ?sc = category_counts (get_score ?p s)" "match_ids ?sc = match_ids (get_score ?p s)"
    "correlation_bonus ?sc = correlation_bonus (get_score ?p s)"
    by (auto simp: get_or_create_def get_score_def zero_score_def Let_def split: option.splits)
  have adm: "admitted ?s ?sc e = admitted s (get_score ?p s) e"
    unfolding admitted_created by (simp add: admitted_def in_cooldown_def detector_capped_def cr)
  have new: "fst (fst ?r) = get_score ?p (snd ?r)"
    unfolding ingest_outcome by simp
  have acc: "snd (fst ?r) = (admitted s (get_score ?p s) e \<and> \<not> feq (contribution s e) (Fin 0))"
    unfolding accepted_iff adm by simp
  have yes: "event_count (scored pow now snap e ?s ?sc) = event_count (get_score ?p s) + 1"
    "gz 0 (detector_counts (scored pow now snap e ?s ?sc)) (detector_id e) =
       gz 0 (detector_counts (get_score ?p s)) (detector_id e) + 1"
    by (simp_all add: scored_def recompute_def Let_def with_frame_def cr)
  show ?thesis
    unfolding Let_def new acc
    unfolding ingest_outcome adm
    by (simp add: yes cr base_created total_created with_frame_def admitted_def in_cooldown_def
        detector_capped_def seen_def split: option.split) fastforce
qed

text \<open>An accepted, validated event adds to the base exactly its diminished contribution, which
  is at most its undiminished one, at most 100 and at most the configured cap; the base and the
  total never fall, and no other player's score changes.\<close>
theorem ingest_contribution:
  assumes s: "scorer_ok s" and e: "unit_event e" and pow: "go_pow pow"
    and acc: "snd (fst (ingest_event_with_result pow now snap e s))"
  shows "let new = snd (ingest_event_with_result pow now snap e s); p = player_id e;
      c = diminished pow s (get_score p s) e in
    base_score (get_score p new) = fadd (base_score (get_score p s)) c \<and>
    fle (Fin 0) c \<and> fle c (contribution s e) \<and> fle c (Fin 100) \<and>
    (flt (Fin 0) (max_single_contribution (config s)) \<longrightarrow> fle c (max_single_contribution (config s))) \<and>
    fle (base_score (get_score p s)) (base_score (get_score p new)) \<and>
    fle (total_score (get_score p s)) (total_score (get_score p new)) \<and>
    (\<forall>q. q \<noteq> p \<longrightarrow> get_score q new = get_score q s)"
proof -
  let ?p = "player_id e" and ?r = "ingest_event_with_result pow now snap e s"
  let ?sc = "fst (get_or_create ?p s)" and ?s = "snd (get_or_create ?p s)"
  let ?c = "diminished pow s (get_score ?p s) e"
  from acc have adm: "admitted ?s ?sc e" and nz: "\<not> feq (contribution s e) (Fin 0)"
    unfolding accepted_iff by simp_all
  then have new: "get_score ?p (snd ?r) = scored pow now snap e ?s ?sc"
    unfolding ingest_outcome by simp
  have cr: "base_score ?sc = base_score (get_score ?p s)" "total_score ?sc = total_score (get_score ?p s)"
    "correlation_bonus ?sc = correlation_bonus (get_score ?p s)"
    "category_counts ?sc = category_counts (get_score ?p s)"
    by (auto simp: get_or_create_def get_score_def zero_score_def Let_def split: option.splits)
  have dim: "diminished pow ?s ?sc e = ?c"
    using contribution_created [of ?p s e] by (simp add: diminished_def cr)
  have cfg: "\<not> flt (Fin 1) (same_category_diminishing (config s))" "f64_ok (contribution s e)"
    using scorer_ok_config [OF s] by (simp_all add: config_ok_def)
  note d = diminished_bounds [OF e pow cfg, of "get_score ?p s"]
  have old: "score_ok s (get_score ?p s)" using s by (rule get_score_ok)
  then have parts: "parts_ok (get_score ?p s)" by (simp add: score_ok_def)
  let ?a = "add_event ?c (event_time now e ?s) e (with_frame e ?sc)"
  have c100: "fle ?c (Fin 100)" using d(2) contribution_bounds(2) [OF e] fle_trans by blast
  have pa: "parts_ok ?a"
    using parts add_within_limit [OF _ _ d(1) c100] f64_ok_diminished [OF cfg(2)]
    by (simp add: parts_ok_def with_frame_def cr)
  have nb: "base_score (get_score ?p (snd ?r)) = fadd (base_score (get_score ?p s)) ?c"
    "total_score (get_score ?p (snd ?r)) = capped_total (fadd (base_score (get_score ?p s)) ?c) (correlation_bonus (get_score ?p s))"
    unfolding new scored_def dim recompute_parts [OF pa] by (simp_all add: with_frame_def cr)
  have mono: "fle (base_score (get_score ?p s)) (fadd (base_score (get_score ?p s)) ?c)"
    using parts d(1) by (intro fadd_mono_self) (auto simp: parts_ok_def)
  then have "fle (total_score (get_score ?p s)) (total_score (get_score ?p (snd ?r)))"
    using old parts capped_total_mono [OF _ _ _ fle_refl [THEN iffD2]] unfolding nb(2)
    by (simp add: score_ok_def flags_ok_def parts_ok_def) fastforce
  moreover have "flt (Fin 0) (max_single_contribution (config s)) \<longrightarrow> fle ?c (max_single_contribution (config s))"
    using d(2) contribution_bounds(3) [OF e] fle_trans by blast
  ultimately show ?thesis using d c100 mono nb ingest_other by (auto simp: Let_def)
qed

lemma sample_accepted: "snd (fst (ingest_event_with_result pow_int 5 6 sample_event (new_scorer sample_config)))"
proof -
  have "fmul (fmul (fmul (Fin 1) (Fin (1/2))) (Fin 1)) (Fin 100) = Fin 50" by code_simp
  then have "contribution (new_scorer sample_config) sample_event = Fin 30"
    by (simp add: contribution_def sample_event_def new_scorer_def sample_config_def Let_def is_nan_def)
  moreover have "\<not> is_meta_detector (detector_id sample_event)" by code_simp
  moreover then have "admitted (snd (get_or_create (player_id sample_event) (new_scorer sample_config)))
      (fst (get_or_create (player_id sample_event) (new_scorer sample_config))) sample_event"
    by (simp add: admitted_def in_cooldown_def detector_capped_def get_or_create_def new_scorer_def
        zero_score_def sample_event_def sample_config_def Let_def)
  ultimately show ?thesis
    unfolding accepted_iff contribution_created by simp
qed

theorem ingest_contribution_witness:
  "fle (Fin 0) (base_score (get_score (player_id sample_event)
     (snd (ingest_event_with_result pow_int 5 6 sample_event (new_scorer sample_config)))))"
proof -
  have z: "base_score (get_score (player_id sample_event) (new_scorer sample_config)) = Fin 0"
    by (simp add: get_score_def new_scorer_def zero_score_def)
  show ?thesis
    using ingest_contribution [OF new_scorer_ok [OF sample_config_ok] sample_unit_event go_pow_int sample_accepted]
    unfolding Let_def z by blast
qed

text \<open>An accepted event is never scored again: whatever calls follow short of a reset, an event
  with the same player and identifier is turned away and no score moves.\<close>
theorem ingest_once:
  assumes "event_id e \<noteq> []" "snd (fst (ingest_event_with_result pow now snap e s))"
    and "Reset_scores \<notin> set calls" and "player_id e' = player_id e" "event_id e' = event_id e"
  shows "let s' = fold (scorer_step pow) calls (snd (ingest_event_with_result pow now snap e s));
      r = ingest_event_with_result pow now' snap' e' s' in
    \<not> snd (fst r) \<and> (\<forall>q. total_score (get_score q (snd r)) = total_score (get_score q s'))"
proof -
  let ?s = "snd (ingest_event_with_result pow now snap e s)"
  from assms(2) have "admitted (snd (get_or_create (player_id e) s)) (fst (get_or_create (player_id e) s)) e"
    "\<not> feq (contribution s e) (Fin 0)" unfolding accepted_iff by simp_all
  then have "seen (player_id e) (event_id e) ?s"
    unfolding ingest_outcome using assms(1) by simp
  then have "seen (player_id e) (event_id e) (fold (scorer_step pow) calls ?s)"
    using assms(3) by (rule seen_run)
  then have na: "\<not> admitted s'' sc e'" if "seen_events s'' = seen_events (fold (scorer_step pow) calls ?s)" for s'' sc
    using that assms by (auto simp: admitted_def seen_def)
  have same: "total_score (get_score q (snd (get_or_create p t))) = total_score (get_score q t)" for p q t
    by (cases "q = p") (simp_all add: total_created get_score_created_other)
  have "ingest_event_with_result pow now' snap' e' (fold (scorer_step pow) calls ?s) =
      ((fst (get_or_create (player_id e') (fold (scorer_step pow) calls ?s)), False),
       snd (get_or_create (player_id e') (fold (scorer_step pow) calls ?s)))"
    by (subst ingest_outcome) (simp add: na)
  then show ?thesis by (simp add: Let_def same)
qed

theorem ingest_once_witness:
  "\<not> snd (fst (ingest_event_with_result pow_int 9 9 (sample_event\<lparr>frame_index := 9000\<rparr>)
      (fold (scorer_step pow_int) [Bonus, Decay 7] (snd (ingest_event_with_result pow_int 5 6 sample_event (new_scorer sample_config))))))"
  using ingest_once [OF _ sample_accepted, of "[Bonus, Decay 7]" "sample_event\<lparr>frame_index := 9000\<rparr>" 9 9]
  by (simp add: Let_def sample_event_def)

text \<open>Applying the correlation bonus twice in a row is the same as applying it once: the live
  path may call it after every batch.\<close>
theorem correlation_bonus_idempotent:
  assumes "gok (players s)"
  shows "apply_correlation_bonus (apply_correlation_bonus s) = apply_correlation_bonus s"
proof -
  let ?s = "apply_correlation_bonus s"
  from bonus_fold_settles [of "players s" s] assms
  have st: "\<forall>p\<in>set (map fst (players s)). settled ?s p" and k: "map fst (players ?s) = map fst (players s)"
    unfolding apply_correlation_bonus_def by (auto simp: gok_def)
  have "gok (players ?s)" using assms k by (simp add: gok_def)
  then have "map_of (players ?s) p = Some sc \<and> settled ?s p" if "(p, sc) \<in> set (players ?s)" for p sc
    using that st k by (metis image_eqI fst_conv map_of_in_set set_map)
  then have "fold (\<lambda>(p, sc). bonus_player p sc) (players ?s) ?s = ?s" by (rule bonus_settled_id)
  then show ?thesis by (simp add: apply_correlation_bonus_def [of ?s])
qed

theorem correlation_bonus_idempotent_witness:
  "let s = snd (ingest_event_with_result pow_int 5 6 sample_event (new_scorer sample_config)) in
   apply_correlation_bonus (apply_correlation_bonus s) = apply_correlation_bonus s"
proof -
  have "gok (players (snd (ingest_event_with_result pow_int 5 6 sample_event (new_scorer sample_config))))"
    using ingest_ok [OF new_scorer_ok [OF sample_config_ok] sample_unit_event go_pow_int]
    by (auto simp: scorer_ok_def)
  from correlation_bonus_idempotent [OF this] show ?thesis by (simp add: Let_def)
qed

text \<open>Decay never raises a player's total and never takes it below zero; and the cross-match
  decay of a stored score lies between zero and that score.\<close>
theorem decay_lowers:
  assumes s: "scorer_ok s" and pow: "go_pow pow"
  shows "fle (total_score (get_score p (apply_decay pow now s))) (total_score (get_score p s)) \<and>
    fle (Fin 0) (total_score (get_score p (apply_decay pow now s))) \<and>
    (f64_ok x \<and> fle (Fin 0) x \<and> fle x (Fin 100) \<and> fle y (Fin 1000000) \<and> h \<noteq> NaN \<longrightarrow>
       fle (exponential_decay pow x y h) x \<and> fle (Fin 0) (exponential_decay pow x y h))"
proof -
  have "fle (total_score (get_score p (apply_decay pow now s))) (total_score (get_score p s)) \<and>
      fle (Fin 0) (total_score (get_score p (apply_decay pow now s)))"
  proof (cases "map_of (players s) p = None \<or> fle (cfg_decay_half_life_hours (config s)) (Fin 0)")
    case True
    then have "get_score p (apply_decay pow now s) = get_score p s"
      by (auto simp: apply_decay_def get_score_def)
    then show ?thesis using score_ok_total [OF get_score_ok [OF s, of p]] by auto
  next
    case False
    then obtain sc where sc: "map_of (players s) p = Some sc" by auto
    with False have "get_score p (apply_decay pow now s) = decay_score pow now s sc" "get_score p s = sc"
      by (auto simp: apply_decay_def get_score_def)
    then show ?thesis using decay_score_lower [OF s _ pow] False scorer_okD [OF s sc] by simp
  qed
  moreover have "f64_ok x \<and> fle (Fin 0) x \<and> fle x (Fin 100) \<and> fle y (Fin 1000000) \<and> h \<noteq> NaN \<longrightarrow>
       fle (exponential_decay pow x y h) x \<and> fle (Fin 0) (exponential_decay pow x y h)"
    using exponential_decay_bounds [OF pow] by blast
  ultimately show ?thesis by blast
qed

theorem decay_lowers_witness:
  "fle (total_score (get_score ''p1'' (apply_decay pow_int 90 (new_scorer sample_config))))
       (total_score (get_score ''p1'' (new_scorer sample_config)))"
  using decay_lowers [OF new_scorer_ok [OF sample_config_ok] go_pow_int, of "''p1''" 90 "Fin 50" "Fin 3" "Fin 168"]
  by simp

end
