(* ===== verification/Dedup.thy ===== *)
theory Dedup
  imports Events "HOL-Library.Multiset"
begin

text \<open>
  The deduplicator (\<open>internal/pipeline/dedup.go\<close>): the per-frame emissions of a sustained anomaly
  are folded into one open incident per \<open>CausalKey.Key()\<close>, which is emitted once, when the match
  has moved past it. \<open>dedup\<close> is \<open>Deduplicator\<close>; the observer callback only traces and is left
  out. The two loops over the map of open incidents visit it in an unspecified order; the
  incidents they collect are sorted afterwards, so the order reaches the output only among
  incidents equal in every sort key. The model visits the entries in the order of the
  association list; no lemma depends on it.
\<close>

section \<open>State and operations\<close>

record dedup =
  merge_window :: int
  open_incidents :: "(string, detection_event) gomap"
  merged :: int

definition default_merge_window :: int where
  "default_merge_window = 20"

definition new_dedup :: "int \<Rightarrow> dedup" where
  "new_dedup w = \<lparr>merge_window = (if w < 0 then 0 else w), open_incidents = [], merged = 0\<rparr>"

definition dedup_reset :: "dedup \<Rightarrow> dedup" where
  "dedup_reset d = d\<lparr>open_incidents := [], merged := 0\<rparr>"

definition pending_count :: "dedup \<Rightarrow> int" where
  "pending_count d = int (length (open_incidents d))"

definition belongs :: "dedup \<Rightarrow> detection_event \<Rightarrow> detection_event \<Rightarrow> bool" where
  "belongs d inc ev \<longleftrightarrow> overlaps (ev_causal_key inc) (ev_causal_key ev) \<or>
     (frame_range_start ev \<le> frame_range_end inc + merge_window d \<and>
      frame_range_end ev \<ge> frame_range_start inc - merge_window d)"

text \<open>The product the scorer turns into points.\<close>

definition strength :: "detection_event \<Rightarrow> f64" where
  "strength e = fmul (severity e) (confidence e)"

definition take_description :: "detection_event \<Rightarrow> detection_event \<Rightarrow> detection_event" where
  "take_description ev inc = inc\<lparr>severity := severity ev, confidence := confidence ev,
     ev_evidence := ev_evidence ev, observed_value := observed_value ev, expected_range := expected_range ev,
     baseline_comparison := baseline_comparison ev, attribution := attribution ev,
     frame_index := frame_index ev, timestamp := timestamp ev, auto_enforce := auto_enforce ev,
     enforcement_weight := enforcement_weight ev\<rparr>"

definition merge_into :: "detection_event \<Rightarrow> detection_event \<Rightarrow> detection_event" where
  "merge_into inc ev =
     (let shadow = (is_shadow inc \<or> is_shadow ev);
          inc = (if flt (strength inc) (strength ev) then take_description ev inc else inc);
          inc = (if frame_range_start ev < frame_range_start inc
                 then inc\<lparr>frame_range_start := frame_range_start ev\<rparr> else inc);
          inc = (if frame_range_end inc < frame_range_end ev
                 then inc\<lparr>frame_range_end := frame_range_end ev\<rparr> else inc);
          inc = inc\<lparr>ev_causal_key := (ev_causal_key inc)\<lparr>ck_frame_start := frame_range_start inc,
                                                       ck_frame_end := frame_range_end inc\<rparr>,
                    merged_count := merged_count inc + merged_count ev\<rparr>
      in if shadow then inc\<lparr>is_shadow := True, auto_enforce := False, enforcement_weight := Fin 0\<rparr> else inc)"

definition counted :: "detection_event \<Rightarrow> detection_event" where
  "counted ev = (if merged_count ev \<le> 0 then ev\<lparr>merged_count := 1\<rparr> else ev)"

definition dedup_key :: "detection_event \<Rightarrow> string" where
  "dedup_key ev = ck_key (ev_causal_key ev)"

text \<open>One emission: it joins the open incident of its key, or replaces it, or opens one.\<close>

definition fold_emission :: "detection_event \<Rightarrow> detection_event list \<times> dedup \<Rightarrow> detection_event list \<times> dedup" where
  "fold_emission ev0 = (\<lambda>(out, d).
     let ev = counted ev0; key = dedup_key ev in
     case map_of (open_incidents d) key of
       Some inc \<Rightarrow>
         if belongs d inc ev
         then (out, d\<lparr>open_incidents := AList.update key (merge_into inc ev) (open_incidents d), merged := merged d + 1\<rparr>)
         else (out @ [inc], d\<lparr>open_incidents := AList.update key ev (open_incidents d)\<rparr>)
     | None \<Rightarrow> (out, d\<lparr>open_incidents := AList.update key ev (open_incidents d)\<rparr>))"

definition sort_incidents :: "detection_event list \<Rightarrow> detection_event list" where
  "sort_incidents = sort_key (\<lambda>e. (frame_range_start e, player_id e, detector_id e, frame_index e))"

definition is_past :: "dedup \<Rightarrow> int \<Rightarrow> detection_event \<Rightarrow> bool" where
  "is_past d f inc \<longleftrightarrow> frame_range_end inc + merge_window d < f"

definition deduplicate :: "detection_event list \<Rightarrow> int \<Rightarrow> dedup \<Rightarrow> detection_event list \<times> dedup" where
  "deduplicate events f d0 =
     (let (out, d) = fold fold_emission events ([], d0);
          out = out @ map snd (gfilter (\<lambda>_. is_past d f) (open_incidents d));
          d = d\<lparr>open_incidents := gfilter (\<lambda>_ inc. \<not> is_past d f inc) (open_incidents d)\<rparr>
      in (sort_incidents out, d))"

definition flush :: "dedup \<Rightarrow> detection_event list \<times> dedup" where
  "flush d = (sort_incidents (map snd (open_incidents d)), d\<lparr>open_incidents := []\<rparr>)"

text \<open>A match: one call per frame, then the flush at its end.\<close>

fun dedup_frames :: "(detection_event list \<times> int) list \<Rightarrow> dedup \<Rightarrow> detection_event list \<times> dedup" where
  "dedup_frames [] d = ([], d)"
| "dedup_frames ((evs, f) # rest) d =
     (let (out, d) = deduplicate evs f d; (out', d) = dedup_frames rest d in (out @ out', d))"

definition dedup_match :: "(detection_event list \<times> int) list \<Rightarrow> dedup \<Rightarrow> detection_event list \<times> dedup" where
  "dedup_match frames d = (let (out, d) = dedup_frames frames d; (rest, d) = flush d in (out @ rest, d))"

section \<open>Merging two emissions\<close>

lemma merge_into_simps [simp]:
  "player_id (merge_into inc ev) = player_id inc" "detector_id (merge_into inc ev) = detector_id inc"
  "event_id (merge_into inc ev) = event_id inc" "match_id (merge_into inc ev) = match_id inc"
  "frame_range_start (merge_into inc ev) = min (frame_range_start inc) (frame_range_start ev)"
  "frame_range_end (merge_into inc ev) = max (frame_range_end inc) (frame_range_end ev)"
  "merged_count (merge_into inc ev) = merged_count inc + merged_count ev"
  "is_shadow (merge_into inc ev) = (is_shadow inc \<or> is_shadow ev)"
  "ck_player_id (ev_causal_key (merge_into inc ev)) = ck_player_id (ev_causal_key inc)"
  "ck_anomaly_type (ev_causal_key (merge_into inc ev)) = ck_anomaly_type (ev_causal_key inc)"
  "severity (merge_into inc ev) = (if flt (strength inc) (strength ev) then severity ev else severity inc)"
  "confidence (merge_into inc ev) = (if flt (strength inc) (strength ev) then confidence ev else confidence inc)"
  by (auto simp: merge_into_def take_description_def Let_def)

lemma merge_into_weight:
  "enforcement_weight (merge_into inc ev) = (if is_shadow inc \<or> is_shadow ev then Fin 0
     else if flt (strength inc) (strength ev) then enforcement_weight ev else enforcement_weight inc)"
  "auto_enforce (merge_into inc ev) = (\<not> (is_shadow inc \<or> is_shadow ev) \<and>
     (if flt (strength inc) (strength ev) then auto_enforce ev else auto_enforce inc))"
  "ev_evidence (merge_into inc ev) = (if flt (strength inc) (strength ev) then ev_evidence ev else ev_evidence inc)"
  by (auto simp: merge_into_def take_description_def Let_def)

lemma dedup_key_merge [simp]: "dedup_key (merge_into inc ev) = dedup_key inc"
  by (simp add: dedup_key_def ck_key_def)

lemma counted_simps [simp]:
  "dedup_key (counted e) = dedup_key e" "severity (counted e) = severity e" "confidence (counted e) = confidence e"
  "is_shadow (counted e) = is_shadow e" "enforcement_weight (counted e) = enforcement_weight e"
  "auto_enforce (counted e) = auto_enforce e" "ev_evidence (counted e) = ev_evidence e"
  "merged_count (counted e) = max 1 (merged_count e)"
  by (auto simp: counted_def dedup_key_def)

lemma merge_strength: "strength (merge_into inc ev) = (if flt (strength inc) (strength ev) then strength ev else strength inc)"
  by (simp add: strength_def)

section \<open>Nothing is lost\<close>

definition tally :: "detection_event list \<Rightarrow> int" where
  "tally es = sum_list (map merged_count es)"

lemma tally_simps [simp]: "tally [] = 0" "tally (e # es) = merged_count e + tally es" "tally (xs @ ys) = tally xs + tally ys"
  by (simp_all add: tally_def)

lemma tally_sort [simp]: "tally (sort_incidents xs) = tally xs"
proof -
  have "mset (sort_incidents xs) = mset xs" by (simp add: sort_incidents_def)
  then have "mset (map merged_count (sort_incidents xs)) = mset (map merged_count xs)" by simp
  then show ?thesis unfolding tally_def by (metis sum_mset_sum_list)
qed

lemma tally_split:
  "tally (map snd (gfilter (\<lambda>_. p) m)) + tally (map snd (gfilter (\<lambda>_ x. \<not> p x) m)) = tally (map snd m)"
  by (induction m) (auto simp: gfilter_def)

lemma length_split:
  "length (gfilter (\<lambda>_. p) m) + length (gfilter (\<lambda>_ x. \<not> p x) m) = length m"
  by (induction m) (auto simp: gfilter_def)

lemma tally_update:
  "gok m \<Longrightarrow> tally (map snd (AList.update k v m)) =
     tally (map snd m) + merged_count v - (case map_of m k of None \<Rightarrow> 0 | Some u \<Rightarrow> merged_count u)"
proof (induction m)
  case (Cons a m)
  have "map_of m k = None" if "k = fst a"
    using that Cons.prems by (cases a) (simp add: gok_def map_of_eq_None_iff)
  then show ?case using Cons by (cases a) (auto simp: gok_def split: option.splits)
qed simp

text \<open>
  The bookkeeping of one emission: merged counts are conserved, every emission is either folded
  into an incident or opens one, and open incidents stay filed under their key.
\<close>

definition dedup_ok :: "dedup \<Rightarrow> bool" where
  "dedup_ok d \<longleftrightarrow> gok (open_incidents d) \<and> 0 \<le> merge_window d \<and>
     (\<forall>(k, inc)\<in>set (open_incidents d). dedup_key inc = k)"

lemma dedup_okD: "dedup_ok d \<Longrightarrow> map_of (open_incidents d) k = Some inc \<Longrightarrow> dedup_key inc = k"
  by (auto simp: dedup_ok_def dest!: map_of_SomeD)

lemma update_key_ok:
  assumes d: "dedup_ok d" and v: "dedup_key v = k"
  shows "dedup_ok (d\<lparr>open_incidents := AList.update k v (open_incidents d)\<rparr>)"
    and "dedup_ok (d\<lparr>open_incidents := AList.update k v (open_incidents d), merged := n\<rparr>)"
proof -
  have "set (AList.update k v m) \<subseteq> insert (k, v) (set m)" for m :: "(string, detection_event) gomap"
    by (induction m) auto
  then have "dedup_key y = x" if "(x, y) \<in> set (AList.update k v (open_incidents d))" for x y
    using that d v by (fastforce simp: dedup_ok_def)
  then show "dedup_ok (d\<lparr>open_incidents := AList.update k v (open_incidents d)\<rparr>)"
    "dedup_ok (d\<lparr>open_incidents := AList.update k v (open_incidents d), merged := n\<rparr>)"
    using d by (auto simp: dedup_ok_def)
qed

definition total :: "detection_event list \<times> dedup \<Rightarrow> int" where
  "total = (\<lambda>(out, d). tally out + tally (map snd (open_incidents d)))"

definition incidents :: "detection_event list \<times> dedup \<Rightarrow> int" where
  "incidents = (\<lambda>(out, d). int (length out) + pending_count d + merged d)"

lemma length_update_gomap: "length (AList.update k v m) = (if map_of m k = None then length m + 1 else length m)"
  by (induction m) auto

lemma fold_emission_step:
  assumes "dedup_ok d"
  shows "dedup_ok (snd (fold_emission ev (out, d)))"
    and "total (fold_emission ev (out, d)) = total (out, d) + max 1 (merged_count ev)"
    and "incidents (fold_emission ev (out, d)) = incidents (out, d) + 1"
    and "merge_window (snd (fold_emission ev (out, d))) = merge_window d"
proof -
  have g: "gok (open_incidents d)" using assms by (simp add: dedup_ok_def)
  note k = dedup_okD [OF assms]
  show "dedup_ok (snd (fold_emission ev (out, d)))"
    using assms k by (auto simp: fold_emission_def Let_def intro!: update_key_ok split: option.split)
  show "total (fold_emission ev (out, d)) = total (out, d) + max 1 (merged_count ev)"
    using g by (auto simp: fold_emission_def Let_def total_def tally_update split: option.split)
  show "incidents (fold_emission ev (out, d)) = incidents (out, d) + 1"
    by (auto simp: fold_emission_def Let_def incidents_def pending_count_def length_update_gomap split: option.split)
  show "merge_window (snd (fold_emission ev (out, d))) = merge_window d"
    by (auto simp: fold_emission_def Let_def split: option.split)
qed

lemma fold_emissions:
  assumes "dedup_ok d"
  shows "dedup_ok (snd (fold fold_emission evs (out, d))) \<and>
    total (fold fold_emission evs (out, d)) = total (out, d) + sum_list (map (\<lambda>e. max 1 (merged_count e)) evs) \<and>
    incidents (fold fold_emission evs (out, d)) = incidents (out, d) + int (length evs) \<and>
    merge_window (snd (fold fold_emission evs (out, d))) = merge_window d"
  using assms
proof (induction evs arbitrary: out d)
  case (Cons e evs)
  obtain out' d' where st: "fold_emission e (out, d) = (out', d')" by force
  from fold_emission_step [OF Cons.prems, of e out] Cons.IH [of d' out'] show ?case
    by (simp add: st)
qed simp

lemma length_sort_incidents [simp]: "length (sort_incidents xs) = length xs"
  by (simp add: sort_incidents_def)

lemma set_sort_incidents [simp]: "set (sort_incidents xs) = set xs"
  by (simp add: sort_incidents_def)

lemma dedup_ok_filter:
  "dedup_ok d \<Longrightarrow> dedup_ok (d\<lparr>open_incidents := gfilter p (open_incidents d)\<rparr>)"
  by (auto simp: dedup_ok_def gfilter_def gok_gfilter [unfolded gfilter_def])

lemma deduplicate_step:
  assumes "dedup_ok d"
  shows "dedup_ok (snd (deduplicate evs f d))"
    and "total (deduplicate evs f d) = total ([], d) + sum_list (map (\<lambda>e. max 1 (merged_count e)) evs)"
    and "incidents (deduplicate evs f d) = incidents ([], d) + int (length evs)"
    and "merge_window (snd (deduplicate evs f d)) = merge_window d"
proof -
  obtain out d' where st: "fold fold_emission evs ([], d) = (out, d')" by force
  note st' = fold_emissions [OF assms, of evs "[]", unfolded st, simplified]
  have e: "deduplicate evs f d = (sort_incidents (out @ map snd (gfilter (\<lambda>_. is_past d' f) (open_incidents d'))),
      d'\<lparr>open_incidents := gfilter (\<lambda>_ inc. \<not> is_past d' f inc) (open_incidents d')\<rparr>)"
    by (simp add: deduplicate_def st)
  show "dedup_ok (snd (deduplicate evs f d))" using st' by (simp add: e dedup_ok_filter)
  show "total (deduplicate evs f d) = total ([], d) + sum_list (map (\<lambda>e. max 1 (merged_count e)) evs)"
    using st' tally_split [of "is_past d' f" "open_incidents d'"] by (simp add: e total_def)
  show "incidents (deduplicate evs f d) = incidents ([], d) + int (length evs)"
    using st' length_split [of "is_past d' f" "open_incidents d'"] by (simp add: e incidents_def pending_count_def)
  show "merge_window (snd (deduplicate evs f d)) = merge_window d" using st' by (simp add: e)
qed

lemma total_prefix: "total (xs @ ys, d) = tally xs + total (ys, d)"
  by (simp add: total_def)

lemma incidents_prefix: "incidents (xs @ ys, d) = int (length xs) + incidents (ys, d)"
  by (simp add: incidents_def)

lemma dedup_frames_step:
  assumes "dedup_ok d"
  shows "dedup_ok (snd (dedup_frames frames d)) \<and>
    total (dedup_frames frames d) = total ([], d) + sum_list (map (\<lambda>e. max 1 (merged_count e)) (concat (map fst frames))) \<and>
    incidents (dedup_frames frames d) = incidents ([], d) + int (length (concat (map fst frames)))"
  using assms
proof (induction frames arbitrary: d)
  case (Cons a frames)
  obtain evs f where a: "a = (evs, f)" by force
  obtain out d' where st: "deduplicate evs f d = (out, d')" by force
  obtain out2 d2 where st2: "dedup_frames frames d' = (out2, d2)" by force
  note s1 = deduplicate_step [OF Cons.prems, of evs f, unfolded st, simplified]
  note s2 = Cons.IH [OF s1(1), unfolded st2, simplified]
  have "total (out, d') = tally out + total ([], d')" "incidents (out, d') = int (length out) + incidents ([], d')"
    using total_prefix [of out "[]" d'] incidents_prefix [of out "[]" d'] by simp_all
  then show ?case using s1 s2 by (simp add: a st st2 total_prefix incidents_prefix)
qed (simp add: total_def incidents_def)

section \<open>Every incident describes one emission\<close>

definition described :: "detection_event \<Rightarrow> detection_event \<Rightarrow> bool" where
  "described inc e \<longleftrightarrow> severity inc = severity e \<and> confidence inc = confidence e \<and> ev_evidence inc = ev_evidence e \<and>
     (if is_shadow inc \<and> \<not> auto_enforce inc \<and> enforcement_weight inc = Fin 0 then True
      else enforcement_weight inc = enforcement_weight e \<and> auto_enforce inc = auto_enforce e)"

lemma described_counted: "described (counted e) e"
  by (simp add: described_def)

lemma described_merge_old:
  "described inc e \<Longrightarrow> \<not> flt (strength inc) (strength ev) \<Longrightarrow> described (merge_into inc ev) e"
  by (auto simp: described_def merge_into_weight split: if_splits)

lemma described_merge_new:
  "flt (strength inc) (strength ev) \<Longrightarrow> described ev e \<Longrightarrow> described (merge_into inc ev) e"
  by (auto simp: described_def merge_into_weight split: if_splits)

definition explained :: "detection_event set \<Rightarrow> detection_event list \<times> dedup \<Rightarrow> bool" where
  "explained E = (\<lambda>(out, d). \<forall>inc\<in>set out \<union> snd ` set (open_incidents d). \<exists>e\<in>E. described inc e)"

lemma explained_update:
  assumes "explained E (out, d)" "described v e" "e \<in> E"
  shows "explained E (out, d\<lparr>open_incidents := AList.update k v (open_incidents d)\<rparr>)"
    and "explained E (out, d\<lparr>open_incidents := AList.update k v (open_incidents d), merged := n\<rparr>)"
proof -
  have "snd ` set (AList.update k v m) \<subseteq> insert v (snd ` set m)" for m :: "(string, detection_event) gomap"
    by (induction m) auto
  then have "\<exists>e\<in>E. described inc e" if "inc \<in> set out \<union> snd ` set (AList.update k v (open_incidents d))" for inc
    using that assms unfolding explained_def by blast
  then show "explained E (out, d\<lparr>open_incidents := AList.update k v (open_incidents d)\<rparr>)"
    "explained E (out, d\<lparr>open_incidents := AList.update k v (open_incidents d), merged := n\<rparr>)"
    by (simp_all add: explained_def)
qed

lemma explained_emission:
  assumes E: "explained E (out, d)" and ev: "ev \<in> E"
  shows "explained E (fold_emission ev (out, d))"
proof (cases "map_of (open_incidents d) (dedup_key ev)")
  case None
  then show ?thesis
    using explained_update [OF E described_counted ev] by (simp add: fold_emission_def Let_def)
next
  case (Some inc)
  then have "inc \<in> snd ` set (open_incidents d)" by (force dest: map_of_SomeD)
  then obtain e where e: "e \<in> E" "described inc e" using E by (auto simp: explained_def)
  have "\<exists>x\<in>E. described (merge_into inc (counted ev)) x"
    using described_merge_old [OF e(2)] described_merge_new [OF _ described_counted] e ev by blast
  then obtain x where x: "x \<in> E" "described (merge_into inc (counted ev)) x" by blast
  have out: "explained E (out @ [inc], d)" using E e by (auto simp: explained_def)
  show ?thesis
    using Some explained_update [OF E x(2,1)] explained_update [OF out described_counted ev]
    by (simp add: fold_emission_def Let_def)
qed

lemma explained_fold:
  "explained E (out, d) \<Longrightarrow> set evs \<subseteq> E \<Longrightarrow> explained E (fold fold_emission evs (out, d))"
proof (induction evs arbitrary: out d)
  case (Cons e evs)
  obtain out' d' where st: "fold_emission e (out, d) = (out', d')" by force
  have "explained E (out', d')" using explained_emission [OF Cons.prems(1), of e] Cons.prems(2) st by simp
  then show ?case using Cons by (simp add: st)
qed simp

lemma explained_deduplicate:
  assumes "explained E ([], d)" "set evs \<subseteq> E"
  shows "explained E (deduplicate evs f d)"
proof -
  obtain out d' where st: "fold fold_emission evs ([], d) = (out, d')" by force
  have "explained E (out, d')" using explained_fold [OF assms] st by simp
  then show ?thesis by (auto simp: deduplicate_def st explained_def gfilter_def)
qed

lemma explained_frames:
  "explained E ([], d) \<Longrightarrow> set (concat (map fst frames)) \<subseteq> E \<Longrightarrow> explained E (dedup_frames frames d)"
proof (induction frames arbitrary: d)
  case (Cons a frames)
  obtain evs f where a: "a = (evs, f)" by force
  obtain out d' where st: "deduplicate evs f d = (out, d')" by force
  obtain out2 d2 where st2: "dedup_frames frames d' = (out2, d2)" by force
  have 1: "explained E (out, d')" using explained_deduplicate [OF Cons.prems(1), of evs f] Cons.prems(2) st a by simp
  then have "explained E ([], d')" by (simp add: explained_def)
  with Cons.IH [of d'] Cons.prems(2) a st2 have "explained E (out2, d2)" by simp
  with 1 show ?case by (auto simp: a st st2 explained_def)
qed (simp add: explained_def)

lemma new_dedup_ok: "dedup_ok (new_dedup w)"
  by (simp add: dedup_ok_def new_dedup_def)

text \<open>An incident leaves before its time only when an emission of its key displaces it.\<close>

lemma displaced_fold:
  assumes "dedup_ok d" "inc \<in> set (fst (fold fold_emission evs (out, d)))"
  shows "inc \<in> set out \<or> (\<exists>ev\<in>set evs. dedup_key ev = dedup_key inc \<and> \<not> belongs d inc (counted ev))"
  using assms
proof (induction evs arbitrary: out d)
  case (Cons e evs)
  obtain out' d' where st: "fold_emission e (out, d) = (out', d')" by force
  note ok = fold_emission_step [OF Cons.prems(1), of e out, unfolded st, simplified]
  have b: "belongs d' = belongs d" using ok(4) by (intro ext) (simp add: belongs_def)
  have "inc \<in> set out' \<Longrightarrow> inc \<in> set out \<or> (dedup_key e = dedup_key inc \<and> \<not> belongs d inc (counted e))"
    using st dedup_okD [OF Cons.prems(1)]
    by (auto simp: fold_emission_def Let_def split: option.splits if_splits)
  with Cons.IH [OF ok(1), of out'] Cons.prems(2) show ?case by (auto simp: st b)
qed simp

section \<open>Every emission is reported\<close>

definition reports :: "detection_event \<Rightarrow> detection_event \<Rightarrow> bool" where
  "reports inc e \<longleftrightarrow> dedup_key inc = dedup_key e \<and> frame_range_start inc \<le> frame_range_start e \<and>
     frame_range_end e \<le> frame_range_end inc \<and> (is_shadow inc \<or> \<not> is_shadow e)"

definition covered :: "detection_event \<Rightarrow> detection_event list \<times> dedup \<Rightarrow> bool" where
  "covered e = (\<lambda>(out, d). \<exists>inc\<in>set out \<union> snd ` set (open_incidents d). reports inc e)"

lemma reports_counted: "reports (counted e) e"
  by (auto simp: reports_def counted_def dedup_key_def)

lemma reports_merge: "reports inc e \<Longrightarrow> reports (merge_into inc ev) e"
  by (auto simp: reports_def)

lemma reports_merged: "dedup_key inc = dedup_key ev \<Longrightarrow> reports (merge_into inc (counted ev)) ev"
  by (auto simp: reports_def counted_def)

lemma in_update: "gok m \<Longrightarrow> (k, v) \<in> set (AList.update k v m) \<and> (\<forall>x\<in>set m. fst x \<noteq> k \<longrightarrow> x \<in> set (AList.update k v m))"
  by (induction m) (auto simp: gok_def)

lemma covered_emission:
  assumes d: "dedup_ok d" and e: "e = ev \<or> covered e (out, d)"
  shows "covered e (fold_emission ev (out, d))"
proof -
  let ?k = "dedup_key ev"
  have g: "gok (open_incidents d)" using d by (simp add: dedup_ok_def)
  have upd: "snd ` set (open_incidents d) \<subseteq> insert inc (snd ` set (AList.update ?k v (open_incidents d)))"
    if "map_of (open_incidents d) ?k = Some inc" for v inc
  proof
    fix y assume "y \<in> snd ` set (open_incidents d)"
    then obtain k' where k': "(k', y) \<in> set (open_incidents d)" by force
    show "y \<in> insert inc (snd ` set (AList.update ?k v (open_incidents d)))"
    proof (cases "k' = ?k")
      case True
      with k' g have "map_of (open_incidents d) ?k = Some y" by (simp add: map_of_in_set)
      then show ?thesis using that by simp
    next
      case False
      then show ?thesis using in_update [OF g, of ?k v] k' by force
    qed
  qed
  have none: "snd ` set (open_incidents d) \<subseteq> snd ` set (AList.update ?k v (open_incidents d))"
    if "map_of (open_incidents d) ?k = None" for v
  proof -
    have "fst x \<noteq> ?k" if "x \<in> set (open_incidents d)" for x
      using that \<open>map_of (open_incidents d) ?k = None\<close> by (metis imageI map_of_eq_None_iff)
    then show ?thesis using in_update [OF g, of ?k v] by blast
  qed
  have new: "v \<in> snd ` set (AList.update ?k v (open_incidents d))" for v
    using in_update [OF g, of ?k v] by force
  show ?thesis
  proof (cases "map_of (open_incidents d) ?k")
    case None
    then show ?thesis
      using e none [OF None, of "counted ev"] new [of "counted ev"] reports_counted [of ev]
      by (auto simp: fold_emission_def Let_def covered_def)
  next
    case (Some inc)
    have k: "dedup_key inc = ?k" by (rule dedup_okD [OF d Some])
    have "covered e (out, d\<lparr>open_incidents := AList.update ?k (merge_into inc (counted ev)) (open_incidents d), merged := n\<rparr>)" for n
      using e upd [OF Some, of "merge_into inc (counted ev)"] new [of "merge_into inc (counted ev)"]
        reports_merge [of inc e "counted ev"] reports_merged [OF k] by (auto simp: covered_def)
    moreover have "covered e (out @ [inc], d\<lparr>open_incidents := AList.update ?k (counted ev) (open_incidents d)\<rparr>)"
      using e upd [OF Some, of "counted ev"] new [of "counted ev"] reports_counted [of ev] by (auto simp: covered_def)
    ultimately show ?thesis using Some by (simp add: fold_emission_def Let_def)
  qed
qed

lemma covered_fold:
  "dedup_ok d \<Longrightarrow> e \<in> set evs \<or> covered e (out, d) \<Longrightarrow> covered e (fold fold_emission evs (out, d))"
proof (induction evs arbitrary: out d)
  case (Cons ev evs)
  obtain out' d' where st: "fold_emission ev (out, d) = (out', d')" by force
  show ?case
    using Cons.prems covered_emission [of d e ev out] fold_emission_step(1) [OF Cons.prems(1), of ev out]
    by (auto simp: st intro!: Cons.IH)
qed simp

lemma covered_deduplicate:
  assumes "dedup_ok d" and "e \<in> set evs \<or> covered e ([], d)"
  shows "covered e (deduplicate evs f d)"
proof -
  obtain out d' where st: "fold fold_emission evs ([], d) = (out, d')" by force
  have "covered e (out, d')" using covered_fold [OF assms] by (simp add: st)
  then show ?thesis by (force simp: deduplicate_def st covered_def gfilter_def)
qed

lemma covered_frames:
  "dedup_ok d \<Longrightarrow> e \<in> set (concat (map fst frames)) \<or> covered e ([], d) \<Longrightarrow> covered e (dedup_frames frames d)"
proof (induction frames arbitrary: d)
  case (Cons a frames)
  obtain evs f where a: "a = (evs, f)" by force
  obtain out d' where st: "deduplicate evs f d = (out, d')" by force
  obtain out2 d2 where st2: "dedup_frames frames d' = (out2, d2)" by force
  have ok: "dedup_ok d'" using deduplicate_step(1) [OF Cons.prems(1), of evs f] by (simp add: st)
  have "e \<in> set (concat (map fst frames)) \<or> covered e ([], d') \<or> (\<exists>inc\<in>set out. reports inc e)"
    using Cons.prems covered_deduplicate [of d e evs f] by (auto simp: a st covered_def)
  then have "covered e (out2, d2) \<or> (\<exists>inc\<in>set out. reports inc e)"
    using Cons.IH [OF ok] by (auto simp: st2)
  then show ?case by (auto simp: a st st2 covered_def)
qed simp

section \<open>Properties\<close>

text \<open>C3: Over a whole match nothing is lost and nothing is counted twice: the merged counts of the
  emitted incidents add up to the emissions that came in, the number of incidents plus the number
  of merges is the number of emissions, and after the final flush nothing is left open.\<close>
theorem dedup_conserves:
  "let (out, d) = dedup_match frames (new_dedup w); evs = concat (map fst frames) in
   sum_list (map merged_count out) = sum_list (map (\<lambda>e. max 1 (merged_count e)) evs) \<and>
   int (length out) + merged d = int (length evs) \<and> pending_count d = 0"
proof -
  obtain out d where st: "dedup_frames frames (new_dedup w) = (out, d)" by force
  have z: "total ([], new_dedup w) = 0" "incidents ([], new_dedup w) = 0"
    by (simp_all add: total_def incidents_def pending_count_def new_dedup_def)
  from dedup_frames_step [OF new_dedup_ok, of frames w, unfolded st z] show ?thesis
    by (simp add: dedup_match_def st flush_def total_def incidents_def pending_count_def tally_def [symmetric])
qed

text \<open>C4: Nothing a detector reports is swallowed: for every emission of a match an incident of its causal
  key is eventually emitted whose frame range contains the emission's, and which is a shadow
  incident if the emission was one.\<close>
theorem every_emission_is_reported:
  "list_all (\<lambda>e. list_ex (\<lambda>inc. reports inc e) (fst (dedup_match frames (new_dedup w)))) (concat (map fst frames))"
proof -
  obtain out d where st: "dedup_frames frames (new_dedup w) = (out, d)" by force
  have "covered e (out, d)" if "e \<in> set (concat (map fst frames))" for e
    using covered_frames [OF new_dedup_ok, of e frames w] that by (simp add: st)
  then show ?thesis
    by (simp add: dedup_match_def st flush_def list_all_iff list_ex_iff covered_def)
qed

text \<open>Every incident a match emits carries the severity, confidence and evidence of one single
  emission of that match, together with that emission's weight and auto-enforce flag unless a
  shadow emission was merged in, which forces weight zero and no auto-enforcement.\<close>
theorem dedup_incident_is_an_emission:
  assumes "inc \<in> set (fst (dedup_match frames (new_dedup w)))"
  shows "\<exists>e\<in>set (concat (map fst frames)). severity inc = severity e \<and> confidence inc = confidence e \<and>
    ev_evidence inc = ev_evidence e \<and>
    (if is_shadow inc \<and> \<not> auto_enforce inc \<and> enforcement_weight inc = Fin 0 then True
     else enforcement_weight inc = enforcement_weight e \<and> auto_enforce inc = auto_enforce e)"
proof -
  obtain out d where st: "dedup_frames frames (new_dedup w) = (out, d)" by force
  have "explained (set (concat (map fst frames))) (dedup_frames frames (new_dedup w))"
    by (rule explained_frames) (simp_all add: explained_def new_dedup_def)
  moreover have "inc \<in> set out \<union> snd ` set (open_incidents d)"
    using assms by (auto simp: dedup_match_def st flush_def)
  ultimately show ?thesis by (auto simp: explained_def st described_def)
qed

definition sample_emission :: detection_event where
  "sample_emission = sample_event\<lparr>event_id := ''e2'', frame_index := 505, frame_range_start := 495, frame_range_end := 505,
     severity := Fin (1/2)\<rparr>"

lemma sample_incident:
  "map severity (fst (dedup_match [([sample_event], 500), ([sample_emission], 505)] (new_dedup 20))) = [Fin 1]"
  by code_simp

theorem dedup_incident_is_an_emission_witness:
  "\<exists>e\<in>{sample_event, sample_emission}. severity (hd (fst (dedup_match [([sample_event], 500), ([sample_emission], 505)] (new_dedup 20)))) = severity e"
proof -
  let ?out = "fst (dedup_match [([sample_event], 500), ([sample_emission], 505)] (new_dedup 20))"
  have "?out \<noteq> []" using sample_incident by auto
  then have "hd ?out \<in> set ?out" by simp
  from dedup_incident_is_an_emission [OF this] show ?thesis by auto
qed

text \<open>Merging an emission into an incident keeps the stronger of the two (by severity times
  confidence), widens the frame range to cover both, adds the counts, keeps the key, and is
  monotone in the shadow flag: once a shadow emission is in, the incident has no weight and no
  auto-enforcement.\<close>
theorem merge_into_spec:
  assumes "in_unit (severity inc)" "in_unit (confidence inc)" "in_unit (severity ev)" "in_unit (confidence ev)"
  shows "let m = merge_into inc ev in
    fle (strength inc) (strength m) \<and> fle (strength ev) (strength m) \<and> (strength m = strength inc \<or> strength m = strength ev) \<and>
    frame_range_start m = min (frame_range_start inc) (frame_range_start ev) \<and>
    frame_range_end m = max (frame_range_end inc) (frame_range_end ev) \<and>
    ck_frame_start (ev_causal_key m) = frame_range_start m \<and> ck_frame_end (ev_causal_key m) = frame_range_end m \<and>
    dedup_key m = dedup_key inc \<and> merged_count m = merged_count inc + merged_count ev \<and>
    is_shadow m = (is_shadow inc \<or> is_shadow ev) \<and>
    (is_shadow m \<longrightarrow> \<not> auto_enforce m \<and> enforcement_weight m = Fin 0)"
proof -
  have "in_unit (strength inc)" "in_unit (strength ev)"
    using assms by (simp_all add: strength_def in_unit_fmul)
  then have nn: "strength inc \<noteq> NaN" "strength ev \<noteq> NaN" by (auto simp: in_unit_def)
  have "fle (strength inc) (strength (merge_into inc ev)) \<and> fle (strength ev) (strength (merge_into inc ev))"
    unfolding merge_strength using nn not_flt flt_imp_fle by (simp split: if_split) 
  moreover have "ck_frame_start (ev_causal_key (merge_into inc ev)) = frame_range_start (merge_into inc ev)"
    "ck_frame_end (ev_causal_key (merge_into inc ev)) = frame_range_end (merge_into inc ev)"
    by (auto simp: merge_into_def take_description_def Let_def)
  ultimately show ?thesis
    by (simp add: Let_def merge_strength merge_into_weight)
qed

theorem merge_into_spec_witness:
  "frame_range_end (merge_into sample_event (sample_event\<lparr>frame_range_end := 540\<rparr>)) = 540"
  using merge_into_spec [of sample_event "sample_event\<lparr>frame_range_end := 540\<rparr>"]
  by (simp add: Let_def sample_event_def)

text \<open>After the emissions of frame \<open>f\<close> are folded in, an incident still open ends at most the
  merge window before \<open>f\<close>, and an incident is emitted only when it ended longer ago than that or
  when an emission of its key arrived that does not belong to it.\<close>
theorem dedup_closes_on_time:
  assumes "dedup_ok d"
  shows "(\<forall>inc\<in>snd ` set (open_incidents (snd (deduplicate evs f d))). f \<le> frame_range_end inc + merge_window d) \<and>
    (\<forall>inc\<in>set (fst (deduplicate evs f d)). frame_range_end inc + merge_window d < f \<or>
       (\<exists>ev\<in>set evs. dedup_key ev = dedup_key inc \<and> \<not> belongs d inc (counted ev)))"
proof -
  obtain out d' where st: "fold fold_emission evs ([], d) = (out, d')" by force
  have w: "merge_window d' = merge_window d" using fold_emissions [OF assms, of evs "[]"] st by simp
  have "\<exists>ev\<in>set evs. dedup_key ev = dedup_key inc \<and> \<not> belongs d inc (counted ev)" if "inc \<in> set out" for inc
    using displaced_fold [OF assms, of inc evs "[]"] that st by simp
  then show ?thesis using w by (auto simp: deduplicate_def st gfilter_def is_past_def)
qed

theorem dedup_closes_on_time_witness:
  "list_all (\<lambda>inc. 510 \<le> frame_range_end inc + 20) (map snd (open_incidents (snd (deduplicate [sample_event] 510 (new_dedup 20)))))"
  using dedup_closes_on_time [OF new_dedup_ok, of "[sample_event]" 510 20] by (simp add: new_dedup_def list_all_iff)

end
