(* ===== verification/Rate_Limit.thy ===== *)
theory Rate_Limit
  imports Events
begin

text \<open>
  The per-player, per-detector cap on stored incidents (\<open>internal/pipeline/ratelimit.go\<close>).
  \<open>limiter\<close> is \<open>RateLimiter\<close>; \<open>rl_filter\<close> is \<open>Filter\<close>: it returns the kept events with the drops of
  this call. A nil drop map reads like an empty one, so both are the empty list here.
\<close>

record limiter =
  max_per_key :: int
  counts :: "(string, int) gomap"
  dropped :: "(string, int) gomap"

definition new_limiter :: "int \<Rightarrow> limiter" where
  "new_limiter m = \<lparr>max_per_key = (if m \<le> 0 then 100 else m), counts = [], dropped = []\<rparr>"

definition limiter_reset :: "limiter \<Rightarrow> limiter" where
  "limiter_reset rl = rl\<lparr>counts := [], dropped := []\<rparr>"

definition rl_key :: "detection_event \<Rightarrow> string" where
  "rl_key ev = player_id ev @ '':'' @ detector_id ev"

definition bump :: "string \<Rightarrow> (string, int) gomap \<Rightarrow> (string, int) gomap" where
  "bump k m = AList.update k (gz 0 m k + 1) m"

fun rl_loop :: "detection_event list \<Rightarrow> limiter \<Rightarrow> (string, int) gomap \<Rightarrow>
    (detection_event list \<times> (string, int) gomap) \<times> limiter" where
  "rl_loop [] rl now = (([], now), rl)"
| "rl_loop (ev # evs) rl now =
     (let key = rl_key ev in
      if max_per_key rl \<le> gz 0 (counts rl) key
      then rl_loop evs (rl\<lparr>dropped := bump key (dropped rl)\<rparr>) (bump key now)
      else let ((out, now), rl) = rl_loop evs (rl\<lparr>counts := bump key (counts rl)\<rparr>) now
           in ((ev # out, now), rl))"

definition rl_filter :: "detection_event list \<Rightarrow> limiter \<Rightarrow> (detection_event list \<times> (string, int) gomap) \<times> limiter" where
  "rl_filter evs rl = rl_loop evs rl []"

definition rl_dropped :: "limiter \<Rightarrow> (string, int) gomap" where
  "rl_dropped rl = dropped rl"

text \<open>Several calls in a row, their kept events put together.\<close>

fun rl_calls :: "detection_event list list \<Rightarrow> limiter \<Rightarrow> detection_event list \<times> limiter" where
  "rl_calls [] rl = ([], rl)"
| "rl_calls (evs # rest) rl =
     (let ((out, _), rl) = rl_filter evs rl; (out', rl) = rl_calls rest rl in (out @ out', rl))"

section \<open>The limiter as a first-N filter\<close>

text \<open>What is kept, read off the input: an event is kept while fewer than \<open>n k\<close> of its key came before.\<close>

fun first_n :: "(string \<Rightarrow> int) \<Rightarrow> detection_event list \<Rightarrow> detection_event list" where
  "first_n n [] = []"
| "first_n n (ev # evs) = (if n (rl_key ev) \<le> 0 then first_n n evs
     else ev # first_n (n(rl_key ev := n (rl_key ev) - 1)) evs)"

definition of_key :: "string \<Rightarrow> detection_event list \<Rightarrow> detection_event list" where
  "of_key k evs = filter (\<lambda>e. rl_key e = k) evs"

definition room :: "limiter \<Rightarrow> string \<Rightarrow> int" where
  "room rl k = max_per_key rl - gz 0 (counts rl) k"

lemma gz_bump [simp]: "gz 0 (bump k m) k' = gz 0 m k' + (if k' = k then 1 else 0)"
  by (simp add: bump_def)

lemma room_bump: "room (rl\<lparr>counts := bump k (counts rl)\<rparr>) = (room rl)(k := room rl k - 1)"
  by (auto simp: room_def fun_eq_iff)

lemma rl_loop_first_n:
  "fst (fst (rl_loop evs rl now)) = first_n (room rl) evs \<and>
   max_per_key (snd (rl_loop evs rl now)) = max_per_key rl \<and>
   (\<forall>k. gz 0 (counts (snd (rl_loop evs rl now))) k = gz 0 (counts rl) k + int (length (of_key k (first_n (room rl) evs)))) \<and>
   (\<forall>k. gz 0 (dropped (snd (rl_loop evs rl now))) k + int (length (of_key k (first_n (room rl) evs))) =
        gz 0 (dropped rl) k + int (length (of_key k evs))) \<and>
   (\<forall>k. gz 0 (snd (fst (rl_loop evs rl now))) k + int (length (of_key k (first_n (room rl) evs))) =
        gz 0 now k + int (length (of_key k evs)))"
proof (induction evs arbitrary: rl now)
  case (Cons ev evs)
  show ?case
  proof (cases "max_per_key rl \<le> gz 0 (counts rl) (rl_key ev)")
    case True
    have r: "room (rl\<lparr>dropped := x\<rparr>) = room rl" for x by (simp add: room_def fun_eq_iff)
    from True Cons.IH [of "rl\<lparr>dropped := bump (rl_key ev) (dropped rl)\<rparr>" "bump (rl_key ev) now"] show ?thesis
      unfolding r by (auto simp: Let_def of_key_def room_def)
  next
    case False
    obtain out n' rl' where st: "rl_loop evs (rl\<lparr>counts := bump (rl_key ev) (counts rl)\<rparr>) now = ((out, n'), rl')"
      by (metis prod.collapse)
    define r where "r = (room rl)(rl_key ev := room rl (rl_key ev) - 1)"
    from False have e: "first_n (room rl) (ev # evs) = ev # first_n r evs" by (simp add: r_def room_def)
    note IH = Cons.IH [of "rl\<lparr>counts := bump (rl_key ev) (counts rl)\<rparr>" now, unfolded st room_bump r_def [symmetric]]
    from False IH st show ?thesis unfolding e by (auto simp: Let_def of_key_def)
  qed
qed (simp add: of_key_def)

lemma length_of_key_first_n:
  "int (length (of_key k (first_n n evs))) = min (max 0 (n k)) (int (length (of_key k evs)))"
  by (induction evs arbitrary: n) (auto simp: of_key_def)

lemma first_n_append:
  "first_n n (xs @ ys) = first_n n xs @ first_n (\<lambda>k. n k - int (length (of_key k (first_n n xs)))) ys"
proof (induction xs arbitrary: n)
  case (Cons x xs)
  define m where "m = n(rl_key x := n (rl_key x) - 1)"
  have "(\<lambda>k. m k - int (length (of_key k (first_n m xs)))) = (\<lambda>k. n k - int (length (of_key k (x # first_n m xs))))"
    by (auto simp: of_key_def fun_eq_iff m_def)
  with Cons.IH [of m] Cons.IH [of n] show ?case by (simp add: m_def [symmetric] del: fun_upd_apply)
qed (simp add: of_key_def)

lemma rl_filter_room: "room (snd (rl_filter evs rl)) = (\<lambda>k. room rl k - int (length (of_key k (first_n (room rl) evs))))"
  using rl_loop_first_n [of evs rl "[]"] by (auto simp: rl_filter_def room_def fun_eq_iff)

lemma rl_calls_first_n: "fst (rl_calls batches rl) = first_n (room rl) (concat batches)"
proof (induction batches arbitrary: rl)
  case (Cons evs rest)
  have "fst (fst (rl_filter evs rl)) = first_n (room rl) evs"
    using rl_loop_first_n by (simp add: rl_filter_def)
  with Cons.IH [of "snd (rl_filter evs rl)"] show ?case
    by (simp add: first_n_append rl_filter_room split_beta Let_def)
qed simp

section \<open>Properties\<close>

text \<open>However the events of a match are split over calls, the limiter keeps of every
  player and detector exactly the first \<open>max\<close> events, in order: the result is that of filtering the
  concatenation, the kept number per key is the minimum of the cap and the arrivals.\<close>
theorem rate_limit_first_n:
  "fst (rl_calls batches (new_limiter m)) = fst (fst (rl_filter (concat batches) (new_limiter m))) \<and>
   int (length (of_key k (fst (rl_calls batches (new_limiter m))))) =
     min (if m \<le> 0 then 100 else m) (int (length (of_key k (concat batches))))"
proof -
  have "room (new_limiter m) k = (if m \<le> 0 then 100 else m)" by (simp add: room_def new_limiter_def)
  then show ?thesis
    using rl_loop_first_n [of "concat batches" "new_limiter m" "[]"]
    by (simp add: rl_calls_first_n rl_filter_def length_of_key_first_n)
qed

text \<open>Every drop is accounted for: per key, the drops the call reports plus the events it keeps
  are the events it was given, and the running drop total grows by the same number.\<close>
theorem rate_limit_counts_drops:
  "let ((kept, now), rl') = rl_filter evs rl in
   gz 0 now k + int (length (of_key k kept)) = int (length (of_key k evs)) \<and>
   gz 0 (rl_dropped rl') k = gz 0 (rl_dropped rl) k + gz 0 now k"
proof -
  obtain kept now rl' where st: "rl_loop evs rl [] = ((kept, now), rl')" by (metis prod.collapse)
  have "gz 0 now k + int (length (of_key k kept)) = int (length (of_key k evs))"
    and "gz 0 (dropped rl') k + int (length (of_key k kept)) = gz 0 (dropped rl) k + int (length (of_key k evs))"
    using rl_loop_first_n [of evs rl "[]", unfolded st] by simp_all
  then show ?thesis by (simp add: rl_filter_def st rl_dropped_def)
qed

end
