(* ===== verification/Enforce.thy ===== *)
theory Enforce
  imports Scorer
begin

text \<open>
  Enforcement recommendations (\<open>internal/enforce\<close>) and the durable claim of a recommendation
  (\<open>internal/storage/sqlite/recommendation_claim.go\<close>). \<open>engine\<close> is \<open>Engine\<close>, \<open>decide\<close> and \<open>evaluate\<close>
  its methods, \<open>policy_evaluate\<close> the stateless \<open>Policy\<close>. The callbacks a call dispatches are part
  of its result, as a list, so that "never invokes OnBan" is a statement about the value returned.

  The engine sees its store only through the locale \<open>claim_store\<close>; the interpretation is the SQL
  transaction of \<open>StoreEnforcementActionOnce\<close>. The digest of a recommendation (JSON then SHA-256) is
  the parameter \<open>digest\<close>, the encoding of a string list the parameter \<open>js\<close>. A database error in any
  statement of the transaction rolls it back: it is the argument \<open>fault\<close>, the error text.
\<close>

section \<open>Actions\<close>

definition ActionFlag :: string where "ActionFlag = ''flag''"
definition ActionReviewQueue :: string where "ActionReviewQueue = ''review_queue''"
definition ActionTempBan :: string where "ActionTempBan = ''temp_ban''"
definition ActionKick :: string where "ActionKick = ''kick''"
definition ActionRestrict :: string where "ActionRestrict = ''restrict''"

lemmas action_names = ActionFlag_def ActionReviewQueue_def ActionTempBan_def ActionKick_def ActionRestrict_def

record action =
  action_id :: string
  act_player :: string
  action_type :: string
  reason :: string
  duration_ns :: duration
  issued_by :: string
  issued_at :: time
  evidence_ids :: "string list"
  act_matches :: "string list"
  score_at_time :: f64
  act_notes :: string

definition event_ids :: "detection_event list \<Rightarrow> string list" where
  "event_ids evs = filter (\<lambda>i. i \<noteq> []) (map event_id evs)"

definition match_ids_for :: "string \<Rightarrow> suspicion_score \<Rightarrow> string list" where
  "match_ids_for m sc = sorted_set (filter (\<lambda>i. i \<noteq> []) (m # map fst (match_ids sc)))"

definition unique :: "string list \<Rightarrow> string list" where
  "unique vs = sorted_set (filter (\<lambda>v. v \<noteq> []) vs)"

type_synonym digest = "string \<times> string \<times> string \<times> string list \<times> string list \<Rightarrow> string"

definition recommendation_id :: "digest \<Rightarrow> action \<Rightarrow> string" where
  "recommendation_id digest a = ''recommendation:'' @
     digest (''review-recommendation-v1'', act_player a, action_type a, unique (evidence_ids a), unique (act_matches a))"

text \<open>The engine matches categories by prefix.\<close>

definition prefix_category :: "string \<Rightarrow> string" where
  "prefix_category d = (let u = to_upper d in
     if has_prefix u ''THROW'' then ''throw''
     else if has_prefix u ''BIO'' then ''bio''
     else if has_prefix u ''MOV'' then ''movement''
     else if has_prefix u ''STATE'' then ''state''
     else if has_prefix u ''PAT'' then ''pattern''
     else ''unknown'')"

section \<open>The engine\<close>

definition ModeShadow :: string where "ModeShadow = ''shadow''"
definition ModeFlag :: string where "ModeFlag = ''flag''"
definition ModeReview :: string where "ModeReview = ''review''"
definition ModeEnforce :: string where "ModeEnforce = ''enforce''"

lemmas mode_names = ModeShadow_def ModeFlag_def ModeReview_def ModeEnforce_def

record engine_config =
  ec_mode :: string
  ec_cooldown :: duration
  ec_min_categories_for_kick :: int
  ec_min_categories_for_ban :: int
  ec_min_matches_for_ban :: int
  ec_min_confidence_for_ban :: f64
  ec_ban_duration :: duration
  ec_levels :: level_table

definition default_engine_config :: engine_config where
  "default_engine_config = \<lparr>ec_mode = ModeShadow, ec_cooldown = 10 * minute, ec_min_categories_for_kick = 2,
     ec_min_categories_for_ban = 2, ec_min_matches_for_ban = 2, ec_min_confidence_for_ban = flit (9/10),
     ec_ban_duration = 7 * 24 * hour, ec_levels = default_level_table\<rparr>"

record engine =
  mode :: string
  en_levels :: level_table
  cooldowns :: "(string, time) gomap"
  cooldown_duration :: duration
  last_prune :: time
  min_categories_for_kick :: int
  min_categories_for_ban :: int
  min_matches_for_ban :: int
  min_confidence_for_ban :: f64
  ban_duration :: duration

definition new_engine :: "engine_config \<Rightarrow> engine" where
  "new_engine c = \<lparr>mode = ec_mode c, en_levels = or_default (ec_levels c), cooldowns = [],
     cooldown_duration = ec_cooldown c, last_prune = 0,
     min_categories_for_kick = ec_min_categories_for_kick c, min_categories_for_ban = ec_min_categories_for_ban c,
     min_matches_for_ban = ec_min_matches_for_ban c, min_confidence_for_ban = ec_min_confidence_for_ban c,
     ban_duration = (if ec_ban_duration c \<le> 0 then 7 * 24 * hour else ec_ban_duration c)\<rparr>"

definition prune_cooldowns :: "time \<Rightarrow> engine \<Rightarrow> engine" where
  "prune_cooldowns now e =
     (if cooldown_duration e \<le> 0 then e\<lparr>cooldowns := []\<rparr>
      else if last_prune e \<noteq> 0 \<and> time_sub now (last_prune e) < cooldown_duration e then e
      else e\<lparr>last_prune := now,
             cooldowns := gfilter (\<lambda>_ t. \<not> cooldown_duration e \<le> time_sub now t) (cooldowns e)\<rparr>)"

definition counts_for :: "string \<Rightarrow> detection_event \<Rightarrow> bool" where
  "counts_for p ev \<longleftrightarrow> player_id ev = p \<and> \<not> is_shadow ev"

definition player_events :: "string \<Rightarrow> detection_event list \<Rightarrow> detection_event list" where
  "player_events p evs = filter (counts_for p) evs"

definition category_count :: "detection_event list \<Rightarrow> int" where
  "category_count evs = int (length (remdups (map (\<lambda>ev. prefix_category (detector_id ev))
     (filter (\<lambda>ev. \<not> is_meta_detector (detector_id ev)) evs))))"

definition avg_confidence :: "detection_event list \<Rightarrow> f64" where
  "avg_confidence evs = fdiv (fold (\<lambda>ev t. fadd t (confidence ev)) evs (Fin 0)) (f_of_int (int (length evs)))"

definition is_hard :: "detection_event \<Rightarrow> bool" where
  "is_hard ev \<longleftrightarrow> auto_enforce ev \<and> flt (flit (95/100)) (confidence ev)"

text \<open>The action type a mode and a score call for, with its reason; \<open>temp_ban\<close> carries a duration.\<close>

definition ban_gate :: "engine \<Rightarrow> suspicion_score \<Rightarrow> detection_event list \<Rightarrow> bool" where
  "ban_gate e sc pe \<longleftrightarrow> at_least (level_for (en_levels e) (total_score sc)) LevelActionWorthy \<and> list_ex is_hard pe \<and>
     min_matches_for_ban e \<le> match_count sc \<and> min_categories_for_ban e \<le> category_count pe \<and>
     fle (min_confidence_for_ban e) (avg_confidence pe)"

definition choose_action :: "engine \<Rightarrow> suspicion_score \<Rightarrow> detection_event list \<Rightarrow> (string \<times> string \<times> duration) option" where
  "choose_action e sc pe =
     (let level = level_for (en_levels e) (total_score sc); cats = category_count pe;
          score = ''Score '' @ fmt_f 1 (total_score sc) @ '' ('' @ level_name level @ '')'' in
      if mode e = ModeShadow then None
      else if mode e = ModeFlag then
        (if at_least level LevelSuspicious
         then Some (ActionFlag, score @ '' with '' @ itoa (int (length pe)) @ '' detections across '' @ itoa cats @ '' categories'', 0)
         else None)
      else if mode e = ModeReview then
        (if at_least level LevelHighRisk
         then Some (ActionReviewQueue, score @ '', '' @ itoa cats @ '' categories'', 0) else None)
      else if mode e = ModeEnforce then
        (if ban_gate e sc pe
         then Some (ActionTempBan, ''Hard impossibility confirmed: score='' @ fmt_f 1 (total_score sc) @ '', '' @
                itoa (match_count sc) @ '' matches, '' @ itoa cats @ '' categories, avg_conf='' @ fmt_f 2 (avg_confidence pe),
                ban_duration e)
         else if at_least level LevelCritical \<and> min_categories_for_kick e \<le> cats
         then Some (ActionKick, score @ '' with '' @ itoa cats @ '' categories'', 0)
         else if at_least level LevelHighRisk
         then Some (ActionReviewQueue, score @ '' pending review'', 0)
         else None)
      else None)"

definition decide :: "digest \<Rightarrow> time \<Rightarrow> string \<Rightarrow> string \<Rightarrow> suspicion_score \<Rightarrow> detection_event list \<Rightarrow> engine \<Rightarrow>
    (action option \<times> detection_event list) \<times> engine" where
  "decide digest now p m sc events e0 =
     (let e = prune_cooldowns now e0 in
      if (case map_of (cooldowns e) p of Some t \<Rightarrow> time_sub now t < cooldown_duration e | None \<Rightarrow> False)
      then ((None, []), e)
      else let pe = player_events p events in
        if pe = [] then ((None, []), e)
        else if mode e = ModeShadow then ((None, []), e)
        else case choose_action e sc pe of
          None \<Rightarrow> ((None, pe), e)
        | Some (ty, why, d) \<Rightarrow>
            let a = \<lparr>action_id = [], act_player = p, action_type = ty, reason = why, duration_ns = d,
                     issued_by = ''auto'', issued_at = now, evidence_ids = event_ids pe,
                     act_matches = match_ids_for m sc, score_at_time = total_score sc, act_notes = []\<rparr>
            in ((Some (a\<lparr>action_id := recommendation_id digest a\<rparr>), pe),
                e\<lparr>cooldowns := AList.update p now (cooldowns e)\<rparr>))"

definition release_failed :: "string \<Rightarrow> time \<Rightarrow> engine \<Rightarrow> engine" where
  "release_failed p t e = (if gz 0 (cooldowns e) p = t then e\<lparr>cooldowns := AList.delete p (cooldowns e)\<rparr> else e)"

text \<open>The callbacks an engine could have, and the stores it may be given.\<close>

datatype callback = On_kick string string string | On_ban string duration string
  | On_flag string string f64 "detection_event list"

datatype store_kind = No_store | Plain_store | Durable_store

record outcome =
  result :: "action option"
  dispatched :: "callback list"

definition evaluate :: "digest \<Rightarrow> store_kind \<Rightarrow> (action \<Rightarrow> 'st \<Rightarrow> (string + bool) \<times> 'st) \<Rightarrow> bool \<Rightarrow>
    time \<Rightarrow> string \<Rightarrow> string \<Rightarrow> suspicion_score \<Rightarrow> detection_event list \<Rightarrow> engine \<Rightarrow> 'st \<Rightarrow> outcome \<times> engine \<times> 'st" where
  "evaluate digest kind claim flag_set now p m sc events e0 st =
     (let ((a, pe), e) = decide digest now p m sc events e0; nothing = \<lparr>result = None, dispatched = []\<rparr> in
      case a of None \<Rightarrow> (nothing, e, st)
      | Some act \<Rightarrow>
          (case kind of
            No_store \<Rightarrow> (\<lparr>result = Some act, dispatched = []\<rparr>, e, st)
          | Plain_store \<Rightarrow> (nothing, release_failed p (issued_at act) e, st)
          | Durable_store \<Rightarrow>
              (case claim act st of
                (Inl err, st') \<Rightarrow> (nothing, release_failed p (issued_at act) e, st')
              | (Inr created, st') \<Rightarrow>
                  if \<not> created then (nothing, e, st')
                  else (\<lparr>result = Some act,
                         dispatched = (if action_type act = ActionFlag \<and> flag_set
                                       then [On_flag p m (total_score sc) pe] else [])\<rparr>, e, st'))))"

section \<open>The stateless policy\<close>

record policy =
  pol_mode :: string
  pol_levels :: level_table
  pol_ban_duration :: duration

definition new_policy :: "string \<Rightarrow> policy" where
  "new_policy m0 = (let m = to_lower (trim_space m0) in
     \<lparr>pol_mode = (if m = ModeShadow \<or> m = ModeFlag \<or> m = ModeReview \<or> m = ModeEnforce then m
        else if m = [] then ModeShadow else ModeShadow),
      pol_levels = default_level_table, pol_ban_duration = 7 * 24 * hour\<rparr>)"

definition with_levels :: "level_table \<Rightarrow> policy \<Rightarrow> policy" where
  "with_levels t p = (if lt_is_zero t then p else p\<lparr>pol_levels := t\<rparr>)"

definition policy_action :: "digest \<Rightarrow> time \<Rightarrow> string \<Rightarrow> string \<Rightarrow> string \<Rightarrow> suspicion_score \<Rightarrow> detection_event list \<Rightarrow> action" where
  "policy_action digest now p ty why sc evs =
     (let a = \<lparr>action_id = [], act_player = p, action_type = ty, reason = why, duration_ns = 0, issued_by = ''auto'',
               issued_at = now, evidence_ids = event_ids evs, act_matches = match_ids_for [] sc,
               score_at_time = total_score sc, act_notes = []\<rparr>
      in a\<lparr>action_id := recommendation_id digest a\<rparr>)"

definition policy_evaluate :: "digest \<Rightarrow> time \<Rightarrow> policy \<Rightarrow> string \<Rightarrow> suspicion_score \<Rightarrow> detection_event list \<Rightarrow> action option" where
  "policy_evaluate digest now pol p sc events =
     (if pol_mode pol = ModeShadow then None
      else let pe = player_events p events; level = level_for (pol_levels pol) (total_score sc);
               act = (\<lambda>ty why. policy_action digest now p ty why sc pe) in
        if pol_mode pol = ModeFlag then
          (if at_least level LevelSuspicious then Some (act ActionFlag ''Score reached suspicious threshold'') else None)
        else if pol_mode pol = ModeReview then
          (if at_least level LevelHighRisk then Some (act ActionReviewQueue ''Score exceeded review threshold'') else None)
        else if pol_mode pol \<noteq> ModeEnforce then None
        else if at_least level LevelActionWorthy then
          (if list_ex is_hard pe \<and> 2 \<le> match_count sc
           then Some ((act ActionTempBan ''Hard impossibility confirmed across multiple matches'')\<lparr>duration_ns := pol_ban_duration pol\<rparr>)
           else Some (act ActionRestrict ''Score exceeds action threshold - pending review''))
        else if at_least level LevelCritical then Some (act ActionRestrict ''Score exceeds critical threshold'')
        else if at_least level LevelHighRisk then Some (act ActionReviewQueue ''Score exceeds review threshold'')
        else None)"

definition should_create_case :: "policy \<Rightarrow> suspicion_score \<Rightarrow> bool" where
  "should_create_case pol sc = at_least (level_for (pol_levels pol) (total_score sc)) LevelSuspicious"

definition policy_recommended_action :: "policy \<Rightarrow> suspicion_score \<Rightarrow> string" where
  "policy_recommended_action pol sc = recommended_action_for_level (level_for (pol_levels pol) (total_score sc))"

section \<open>The durable store\<close>

text \<open>
  What the claim transaction reads and writes: \<open>eligible\<close> is the result of the eligibility query
  (event id to player and match, for the rows \<open>eligibleScoringEventSQL\<close> selects), \<open>claims\<close> the table
  \<open>enforcement_actions\<close> by its primary key, with the JSON of the evidence and match lists.
\<close>

record claim_row =
  cr_action :: action
  cr_evidence :: string
  cr_matches :: string

record claim_db =
  eligible :: "(string, string \<times> string) gomap"
  claims :: "(string, claim_row) gomap"

fun check_evidence :: "claim_db \<Rightarrow> string \<Rightarrow> string list \<Rightarrow> string list \<Rightarrow> string option" where
  "check_evidence db p ms [] = None"
| "check_evidence db p ms (i # is) = (case map_of (eligible db) i of
     None \<Rightarrow> Some ''recommendation evidence unavailable''
   | Some (player, match) \<Rightarrow>
       if player \<noteq> p \<or> match \<notin> set ms then Some ''recommendation evidence scope mismatch''
       else check_evidence db p ms is)"

definition store_action_once :: "(string list \<Rightarrow> string) \<Rightarrow> string option \<Rightarrow> action \<Rightarrow> claim_db \<Rightarrow> (string + bool) \<times> claim_db" where
  "store_action_once js fault a0 db =
     (if action_id a0 = [] \<or> act_player a0 = [] \<or> evidence_ids a0 = []
      then (Inl ''recommendation requires identity and persisted evidence'', db)
      else let a = a0\<lparr>evidence_ids := unique (evidence_ids a0), act_matches := unique (act_matches a0)\<rparr> in
        if evidence_ids a = [] \<or> act_matches a = []
        then (Inl ''recommendation requires evidence and match scope'', db)
        else case fault of Some err \<Rightarrow> (Inl err, db)
        | None \<Rightarrow>
          (case check_evidence db (act_player a) (act_matches a) (evidence_ids a) of Some err \<Rightarrow> (Inl err, db)
           | None \<Rightarrow>
             (case map_of (claims db) (action_id a) of
               None \<Rightarrow> (Inr True, db\<lparr>claims := AList.update (action_id a)
                          \<lparr>cr_action = a, cr_evidence = js (evidence_ids a), cr_matches = js (act_matches a)\<rparr> (claims db)\<rparr>)
             | Some row \<Rightarrow>
                 if act_player (cr_action row) \<noteq> act_player a \<or> action_type (cr_action row) \<noteq> action_type a \<or>
                    cr_evidence row \<noteq> js (evidence_ids a) \<or> cr_matches row \<noteq> js (act_matches a)
                 then (Inl ''recommendation identity collision'', db)
                 else (Inr False, db))))"

section \<open>The claim interface\<close>

locale claim_store =
  fixes claim :: "'f \<Rightarrow> action \<Rightarrow> 'st \<Rightarrow> (string + bool) \<times> 'st" and recorded :: "'st \<Rightarrow> string \<Rightarrow> bool"
  assumes claim_created: "claim f a st = (Inr True, st') \<Longrightarrow> \<not> recorded st (action_id a) \<and> recorded st' (action_id a)"
    and claim_refused: "fst (claim f a st) \<noteq> Inr True \<Longrightarrow> snd (claim f a st) = st"
    and claim_persists: "recorded st i \<Longrightarrow> recorded (snd (claim f a st)) i"
begin

lemma claim_recorded: "recorded st (action_id a) \<Longrightarrow> fst (claim f a st) \<noteq> Inr True"
  using claim_created [of f a st "snd (claim f a st)"] by (cases "claim f a st") auto

text \<open>An evaluation with a durable store returns an action only by creating its claim.\<close>

lemma evaluate_claims:
  assumes "evaluate digest Durable_store (claim f) fl now p m sc evs e st = (\<lparr>result = Some a, dispatched = cb\<rparr>, e', st')"
  shows "\<not> recorded st (action_id a) \<and> recorded st' (action_id a)"
  using assms claim_created
  by (fastforce simp: evaluate_def Let_def split: prod.splits option.splits sum.splits if_splits)

lemma evaluate_persists:
  "recorded st i \<Longrightarrow> recorded (snd (snd (evaluate digest kind (claim f) fl now p m sc evs e st))) i"
  using claim_persists
  by (auto simp: evaluate_def Let_def split: prod.splits option.splits sum.splits store_kind.splits)
     (metis snd_conv)+

lemma evaluate_quiet:
  "result (fst (evaluate digest Durable_store (claim f) fl now p m sc evs e st)) = None \<Longrightarrow>
   snd (snd (evaluate digest Durable_store (claim f) fl now p m sc evs e st)) = st \<and>
   dispatched (fst (evaluate digest Durable_store (claim f) fl now p m sc evs e st)) = []"
  using claim_refused
  by (auto simp: evaluate_def Let_def split: prod.splits option.splits sum.splits if_splits)
     (metis fst_conv snd_conv sum.simps(4) Inl_Inr_False sum.inject(2))+

end

interpretation sq: claim_store "\<lambda>(js, fault). store_action_once js fault" "\<lambda>db i. map_of (claims db) i \<noteq> None"
proof
  fix f :: "(string list \<Rightarrow> string) \<times> string option" and a st st' i
  obtain js fault where f: "f = (js, fault)" by force
  show "(case f of (js, fault) \<Rightarrow> store_action_once js fault) a st = (Inr True, st') \<Longrightarrow>
     \<not> map_of (claims st) (action_id a) \<noteq> None \<and> map_of (claims st') (action_id a) \<noteq> None"
    by (auto simp: f store_action_once_def Let_def update_conv' split: option.splits if_splits)
  show "fst ((case f of (js, fault) \<Rightarrow> store_action_once js fault) a st) \<noteq> Inr True \<Longrightarrow>
     snd ((case f of (js, fault) \<Rightarrow> store_action_once js fault) a st) = st"
    by (auto simp: f store_action_once_def Let_def split: option.splits if_splits)
  show "map_of (claims st) i \<noteq> None \<Longrightarrow>
     map_of (claims (snd ((case f of (js, fault) \<Rightarrow> store_action_once js fault) a st))) i \<noteq> None"
    by (auto simp: f store_action_once_def Let_def update_conv' split: option.splits if_splits)
qed

section \<open>Runs of evaluations\<close>

text \<open>One call of \<open>Evaluate\<close> with everything that may vary between calls.\<close>

record eval_call =
  c_kind :: store_kind
  c_fault :: "string option"
  c_flag_set :: bool
  c_now :: time
  c_player :: string
  c_match :: string
  c_score :: suspicion_score
  c_events :: "detection_event list"

definition eval_on :: "digest \<Rightarrow> (string list \<Rightarrow> string) \<Rightarrow> eval_call \<Rightarrow> engine \<times> claim_db \<Rightarrow> outcome \<times> engine \<times> claim_db" where
  "eval_on digest js c = (\<lambda>(e, db). evaluate digest (c_kind c) (store_action_once js (c_fault c)) (c_flag_set c)
     (c_now c) (c_player c) (c_match c) (c_score c) (c_events c) e db)"

definition eval_step :: "digest \<Rightarrow> (string list \<Rightarrow> string) \<Rightarrow> eval_call \<Rightarrow> engine \<times> claim_db \<Rightarrow> engine \<times> claim_db" where
  "eval_step digest js c s = snd (eval_on digest js c s)"

text \<open>A restart of the process replaces the engine and keeps the database.\<close>

datatype service_event = Call eval_call | Restart engine

fun service_step :: "digest \<Rightarrow> (string list \<Rightarrow> string) \<Rightarrow> service_event \<Rightarrow> engine \<times> claim_db \<Rightarrow> engine \<times> claim_db" where
  "service_step digest js (Call c) s = eval_step digest js c s"
| "service_step digest js (Restart e) (_, db) = (e, db)"

interpretation claimed: machine "service_step digest js" "\<lambda>_. True" "\<lambda>(e :: engine, db :: claim_db). map_of (claims db) i \<noteq> None" for digest js i
proof
  fix s :: "engine \<times> claim_db" and c
  assume a: "case s of (e, db) \<Rightarrow> map_of (claims db) i \<noteq> None"
  obtain e db where s: "s = (e, db)" by force
  show "case service_step digest js c s of (e, db) \<Rightarrow> map_of (claims db) i \<noteq> None"
  proof (cases c)
    case (Call k)
    have "map_of (claims (snd (snd (evaluate digest (c_kind k) (store_action_once js (c_fault k)) (c_flag_set k)
     (c_now k) (c_player k) (c_match k) (c_score k) (c_events k) e db)))) i \<noteq> None"
      using sq.evaluate_persists [where f = "(js, c_fault k)"] a s by simp
    then show ?thesis by (simp add: Call s eval_step_def eval_on_def split_beta)
  qed (use a s in auto)
qed

section \<open>What a decision rests on\<close>

lemma prune_simps [simp]:
  "mode (prune_cooldowns now e) = mode e" "en_levels (prune_cooldowns now e) = en_levels e"
  "cooldown_duration (prune_cooldowns now e) = cooldown_duration e"
  "min_categories_for_kick (prune_cooldowns now e) = min_categories_for_kick e"
  "min_categories_for_ban (prune_cooldowns now e) = min_categories_for_ban e"
  "min_matches_for_ban (prune_cooldowns now e) = min_matches_for_ban e"
  "min_confidence_for_ban (prune_cooldowns now e) = min_confidence_for_ban e"
  "ban_duration (prune_cooldowns now e) = ban_duration e"
  by (simp_all add: prune_cooldowns_def)

lemma choose_action_prune: "choose_action (prune_cooldowns now e) sc pe = choose_action e sc pe"
  unfolding choose_action_def ban_gate_def prune_simps by (rule refl)

lemma decide_Some:
  assumes "decide digest now p m sc evs e = ((Some a, pe), e')"
  shows "pe = player_events p evs" "pe \<noteq> []" "mode e \<noteq> ModeShadow"
    "choose_action e sc pe = Some (action_type a, reason a, duration_ns a)"
    "act_player a = p" "issued_at a = now" "evidence_ids a = event_ids pe" "act_matches a = match_ids_for m sc"
    "action_id a = recommendation_id digest a" "map_of (cooldowns e') p = Some now"
    "cooldown_duration e' = cooldown_duration e"
proof -
  have "pe = player_events p evs \<and> pe \<noteq> [] \<and> mode e \<noteq> ModeShadow \<and>
    choose_action e sc pe = Some (action_type a, reason a, duration_ns a) \<and>
    act_player a = p \<and> issued_at a = now \<and> evidence_ids a = event_ids pe \<and> act_matches a = match_ids_for m sc \<and>
    action_id a = recommendation_id digest a \<and> map_of (cooldowns e') p = Some now \<and>
    cooldown_duration e' = cooldown_duration e"
    using assms by (auto simp: decide_def Let_def choose_action_prune recommendation_id_def update_conv' split: if_splits option.splits prod.splits)
  then show "pe = player_events p evs" "pe \<noteq> []" "mode e \<noteq> ModeShadow"
    "choose_action e sc pe = Some (action_type a, reason a, duration_ns a)"
    "act_player a = p" "issued_at a = now" "evidence_ids a = event_ids pe" "act_matches a = match_ids_for m sc"
    "action_id a = recommendation_id digest a" "map_of (cooldowns e') p = Some now"
    "cooldown_duration e' = cooldown_duration e" by auto
qed

lemma evaluate_Some:
  assumes "result (fst (evaluate digest kind claim fl now p m sc evs e st)) = Some a"
  shows "\<exists>pe e'. decide digest now p m sc evs e = ((Some a, pe), e') \<and>
    fst (snd (evaluate digest kind claim fl now p m sc evs e st)) = e'"
  using assms by (auto simp: evaluate_def Let_def split: prod.splits option.splits sum.splits store_kind.splits if_splits)

text \<open>A player is cooling down from \<open>t\<close>: the entry stays until the window is over.\<close>

definition cooling :: "string \<Rightarrow> time \<Rightarrow> duration \<Rightarrow> engine \<times> claim_db \<Rightarrow> bool" where
  "cooling p t cd = (\<lambda>(e, _). map_of (cooldowns e) p = Some t \<and> cooldown_duration e = cd \<and> 0 < cd \<and> gok (cooldowns e))"

lemma cooling_prune:
  assumes "map_of (cooldowns e) p = Some t" "0 < cooldown_duration e" "gok (cooldowns e)"
    and "time_sub now t < cooldown_duration e"
  shows "map_of (cooldowns (prune_cooldowns now e)) p = Some t" "gok (cooldowns (prune_cooldowns now e))"
  using assms by (auto simp: prune_cooldowns_def map_of_gfilter)

lemma cooling_decide:
  assumes "map_of (cooldowns e) p = Some t" "0 < cooldown_duration e"  "gok (cooldowns e)"
    and "time_sub now t < cooldown_duration e"
  shows "decide digest now p m sc evs e = ((None, []), prune_cooldowns now e)"
  using cooling_prune [OF assms] assms(4) by (simp add: decide_def Let_def)

lemma decide_gok:
  "gok (cooldowns e) \<Longrightarrow> gok (cooldowns (snd (decide digest now p m sc evs e)))"
proof -
  assume "gok (cooldowns e)"
  then have "gok (cooldowns (prune_cooldowns now e))" by (auto simp: prune_cooldowns_def)
  then show ?thesis by (auto simp: decide_def Let_def split: option.split prod.split)
qed

lemma decide_other:
  "q \<noteq> p \<Longrightarrow> map_of (cooldowns (snd (decide digest now p m sc evs e))) q = map_of (cooldowns (prune_cooldowns now e)) q"
  by (auto simp: decide_def Let_def update_conv' split: option.split prod.split)

lemma decide_duration [simp]: "cooldown_duration (snd (decide digest now p m sc evs e)) = cooldown_duration e"
  by (auto simp: decide_def Let_def split: option.split prod.split)

text \<open>An evaluation leaves the engine as the decision left it, up to a released reservation.\<close>

lemma evaluate_engine:
  "fst (snd (evaluate digest kind claim fl now p m sc evs e st)) \<in>
     {snd (decide digest now p m sc evs e), release_failed p now (snd (decide digest now p m sc evs e))}"
proof -
  obtain a pe e' where d: "decide digest now p m sc evs e = ((a, pe), e')" by (metis prod.collapse)
  show ?thesis
  proof (cases a)
    case (Some act)
    then have "issued_at act = now" using decide_Some(6) d by blast
    then show ?thesis
      by (cases "claim act st"; cases kind; cases "fst (claim act st)") (auto simp: evaluate_def Let_def d Some)
  qed (simp add: evaluate_def Let_def d)
qed

lemma cooling_step:
  assumes c: "cooling p t cd s" and k: "time_sub (c_now k) t < cd"
  shows "cooling p t cd (eval_step digest js k s)"
    and "c_player k = p \<Longrightarrow> result (fst (eval_on digest js k s)) = None"
proof -
  obtain e db where s: "s = (e, db)" by force
  from c have e: "map_of (cooldowns e) p = Some t" "0 < cooldown_duration e" "gok (cooldowns e)"
    "cooldown_duration e = cd" by (simp_all add: cooling_def s)
  note pr = cooling_prune [OF e(1-3)] and de = cooling_decide [OF e(1-3)]
  let ?d = "snd (decide digest (c_now k) (c_player k) (c_match k) (c_score k) (c_events k) e)"
  show "c_player k = p \<Longrightarrow> result (fst (eval_on digest js k s)) = None"
    using de [of "c_now k"] k e(4) by (simp add: s eval_on_def evaluate_def Let_def)
  have "fst (eval_step digest js k s) \<in> {?d, release_failed (c_player k) (c_now k) ?d}"
    using evaluate_engine by (simp add: s eval_step_def eval_on_def)
  moreover have "cooling p t cd (?d, x)" for x :: claim_db
    using decide_gok [OF e(3)] decide_other [of p "c_player k"] pr [of "c_now k"] k e de [of "c_now k"]
    by (cases "c_player k = p") (auto simp: cooling_def)
  moreover have "fst (eval_step digest js k s) = ?d" if "c_player k = p"
    using de [of "c_now k"] k e(4) that by (simp add: s eval_step_def eval_on_def evaluate_def Let_def)
  ultimately show "cooling p t cd (eval_step digest js k s)"
    by (cases "c_player k = p"; cases "eval_step digest js k s")
       (auto simp: cooling_def release_failed_def delete_conv' split: if_splits)
qed

interpretation cl: machine "eval_step digest js" "\<lambda>k. time_sub (c_now k) t < cd" "cooling p t cd"
  for digest js t cd p
  by unfold_locales (rule cooling_step)

section \<open>Properties\<close>

text \<open>C5: The engine is review-only: whatever the mode, the store and the assigned hooks, an
  evaluation never dispatches \<open>OnKick\<close> or \<open>OnBan\<close>; it dispatches at most the flag notification,
  for the player it was asked about with that player's non-shadow events, and only in the call that
  created the durable claim of a flag recommendation.\<close>
theorem enforcement_is_review_only:
  "let r = evaluate digest kind claim fl now p m sc evs e st; cb = dispatched (fst r) in
   if cb = [] then True else
     kind = Durable_store \<and> cb = [On_flag p m (total_score sc) (player_events p evs)] \<and>
     (\<exists>a. result (fst r) = Some a \<and> action_type a = ActionFlag \<and> fst (claim a st) = Inr True)"
proof -
  obtain a pe e' where d: "decide digest now p m sc evs e = ((a, pe), e')" by (metis prod.collapse)
  show ?thesis
  proof (cases a)
    case (Some act)
    have pe: "pe = player_events p evs" using decide_Some d Some by blast
    show ?thesis
    proof (cases "claim act st")
      case (Pair r st')
      then show ?thesis
        by (cases kind; cases r) (simp_all add: evaluate_def Let_def d Some pe)
    qed
  qed (simp add: evaluate_def Let_def d)
qed

text \<open>C6: A recommendation is made at most once, across cooldowns, retries and restarts: after an
  evaluation backed by the database returned an action, no later evaluation backed by it returns
  one with the same identifier.\<close>
theorem recommendation_made_once:
  assumes "c_kind c = Durable_store" "result (fst (eval_on digest js c (e, db))) = Some a"
    and "c_kind c' = Durable_store"
    and "result (fst (eval_on digest js c' (fold (service_step digest js) history (eval_step digest js c (e, db))))) = Some a'"
  shows "action_id a' \<noteq> action_id a"
proof
  assume same: "action_id a' = action_id a"
  have step: "map_of (claims (snd s)) (action_id b) = None \<and>
      map_of (claims (snd (snd (eval_on digest js k s)))) (action_id b) \<noteq> None"
    if "c_kind k = Durable_store" "result (fst (eval_on digest js k s)) = Some b" for k b s
  proof -
    obtain e1 db1 where s: "s = (e1, db1)" by force
    obtain o1 e2 db2 where ev: "eval_on digest js k s = (o1, e2, db2)" by (metis prod.collapse)
    then have "evaluate digest Durable_store (store_action_once js (c_fault k)) (c_flag_set k)
     (c_now k) (c_player k) (c_match k) (c_score k) (c_events k) e1 db1 = (\<lparr>result = Some b, dispatched = dispatched o1\<rparr>, e2, db2)"
      using that by (simp add: eval_on_def s)
    from sq.evaluate_claims [where f = "(js, c_fault k)", simplified, OF this] show ?thesis
      using ev unfolding s by simp
  qed
  let ?s = "fold (service_step digest js) history (eval_step digest js c (e, db))"
  have "case eval_step digest js c (e, db) of (e, db) \<Rightarrow> map_of (claims db) (action_id a) \<noteq> None"
    using step [OF assms(1,2)] by (simp add: eval_step_def split_beta)
  from claimed.run_inv [OF this] have "case ?s of (e, db) \<Rightarrow> map_of (claims db) (action_id a) \<noteq> None"
    by (simp add: list_all_iff)
  with step [OF assms(3,4)] same show False by (simp add: split_beta)
qed

definition sample_engine :: engine where
  "sample_engine = (new_engine default_engine_config)\<lparr>mode := ModeFlag\<rparr>"

definition sample_score :: suspicion_score where
  "sample_score = (zero_score ''p1'' default_level_table)\<lparr>total_score := Fin 50, match_ids := [(''m1'', True)], match_count := 1\<rparr>"

definition sample_call :: eval_call where
  "sample_call = \<lparr>c_kind = Durable_store, c_fault = None, c_flag_set = True, c_now = 1000, c_player = ''p1'',
     c_match = ''m1'', c_score = sample_score, c_events = [sample_event]\<rparr>"

definition sample_db :: claim_db where
  "sample_db = \<lparr>eligible = [(''e1'', (''p1'', ''m1'')), (''e2'', (''p1'', ''m1''))], claims = []\<rparr>"

definition sample_digest :: digest where
  "sample_digest = (\<lambda>(v, p, ty, es, ms). p @ ty @ concat es @ concat ms)"

definition two_event_call :: eval_call where
  "two_event_call = sample_call\<lparr>c_now := 900000000000, c_events := [sample_event, sample_event\<lparr>event_id := ''e2''\<rparr>]\<rparr>"

lemma sample_results:
  "result (fst (eval_on sample_digest concat sample_call (sample_engine, sample_db))) \<noteq> None"
  "result (fst (eval_on sample_digest concat two_event_call
     (fold (service_step sample_digest concat) [Restart sample_engine] (eval_step sample_digest concat sample_call (sample_engine, sample_db))))) \<noteq> None"
  by code_simp+

theorem recommendation_made_once_witness:
  "action_id (the (result (fst (eval_on sample_digest concat two_event_call
     (fold (service_step sample_digest concat) [Restart sample_engine] (eval_step sample_digest concat sample_call (sample_engine, sample_db)))))))
   \<noteq> action_id (the (result (fst (eval_on sample_digest concat sample_call (sample_engine, sample_db)))))"
proof -
  have k: "c_kind sample_call = Durable_store" "c_kind two_event_call = Durable_store"
    by (simp_all add: sample_call_def two_event_call_def)
  obtain a a' where "result (fst (eval_on sample_digest concat sample_call (sample_engine, sample_db))) = Some a"
    "result (fst (eval_on sample_digest concat two_event_call
     (fold (service_step sample_digest concat) [Restart sample_engine] (eval_step sample_digest concat sample_call (sample_engine, sample_db))))) = Some a'"
    using sample_results by blast
  from recommendation_made_once [OF k(1) this(1) k(2) this(2)] this show ?thesis
    by (simp only: option.sel not_False_eq_True)
qed

text \<open>C7: Once an evaluation has returned an action for a player at time \<open>t\<close>, every evaluation of
  that player whose clock is less than the cooldown after \<open>t\<close> returns nothing, whatever else is
  evaluated in between.\<close>
theorem cooldown_holds:
  assumes "0 < cooldown_duration e" "gok (cooldowns e)"
    and "result (fst (eval_on digest js c (e, db))) = Some a"
    and "list_all (\<lambda>k. time_sub (c_now k) (c_now c) < cooldown_duration e) history"
    and "c_player c' = c_player c" "time_sub (c_now c') (c_now c) < cooldown_duration e"
  shows "result (fst (eval_on digest js c' (fold (eval_step digest js) history (eval_step digest js c (e, db))))) = None"
proof -
  obtain pe e' where d: "decide digest (c_now c) (c_player c) (c_match c) (c_score c) (c_events c) e = ((Some a, pe), e')"
    and e': "fst (snd (eval_on digest js c (e, db))) = e'"
    using evaluate_Some assms(3) unfolding eval_on_def by fastforce
  have "cooling (c_player c) (c_now c) (cooldown_duration e) (eval_step digest js c (e, db))"
    using decide_Some [OF d] decide_gok [OF assms(2)] d e' assms(1)
    by (simp add: cooling_def eval_step_def split_beta) (metis snd_conv)
  from cooling_step(2) [OF cl.run_inv [OF this assms(4)] assms(6,5)] show ?thesis .
qed

theorem cooldown_holds_witness:
  "result (fst (eval_on sample_digest concat (two_event_call\<lparr>c_now := 5000\<rparr>)
     (fold (eval_step sample_digest concat) [] (eval_step sample_digest concat sample_call (sample_engine, sample_db))))) = None"
proof -
  have e: "0 < cooldown_duration sample_engine" "gok (cooldowns sample_engine)"
    by (simp_all add: sample_engine_def new_engine_def default_engine_config_def minute_def second_def)
  obtain a where "result (fst (eval_on sample_digest concat sample_call (sample_engine, sample_db))) = Some a"
    using sample_results by blast
  from cooldown_holds [OF e this, of "[]" "two_event_call\<lparr>c_now := 5000\<rparr>"] show ?thesis
    by (simp add: two_event_call_def sample_call_def sample_engine_def new_engine_def default_engine_config_def
        minute_def second_def time_sub_def max_duration_def min_duration_def)
qed

text \<open>C8: What each recommendation requires: non-shadow events of the player exist and are exactly
  its evidence; a flag needs the \<open>suspicious\<close> tier, a review case \<open>high_risk\<close>, a kick \<open>critical\<close> and
  enough categories; a temporary ban needs \<open>action_worthy\<close>, a non-shadow auto-enforce event above
  0.95 confidence, enough matches and categories and a high enough average confidence. Shadow mode
  recommends nothing.\<close>
theorem decide_gates:
  assumes "fst (fst (decide digest now p m sc evs e)) = Some a"
  shows "let pe = player_events p evs; level = level_for (en_levels e) (total_score sc) in
    pe \<noteq> [] \<and> evidence_ids a = event_ids pe \<and> act_player a = p \<and> mode e \<noteq> ModeShadow \<and>
    (action_type a = ActionFlag \<and> at_least level LevelSuspicious \<and> mode e = ModeFlag \<or>
     action_type a = ActionReviewQueue \<and> at_least level LevelHighRisk \<or>
     action_type a = ActionKick \<and> at_least level LevelCritical \<and> min_categories_for_kick e \<le> category_count pe \<and> mode e = ModeEnforce \<or>
     action_type a = ActionTempBan \<and> at_least level LevelActionWorthy \<and> mode e = ModeEnforce \<and>
       (\<exists>ev\<in>set evs. player_id ev = p \<and> is_shadow ev = False \<and> auto_enforce ev \<and> flt (flit (95/100)) (confidence ev)) \<and>
       min_matches_for_ban e \<le> match_count sc \<and> min_categories_for_ban e \<le> category_count pe \<and>
       fle (min_confidence_for_ban e) (avg_confidence pe))"
proof -
  obtain pe e' where "decide digest now p m sc evs e = ((Some a, pe), e')"
    using assms by (metis prod.collapse)
  note d = decide_Some [OF this]
  have "list_ex is_hard (player_events p evs) \<Longrightarrow>
    \<exists>ev\<in>set evs. player_id ev = p \<and> is_shadow ev = False \<and> auto_enforce ev \<and> flt (flit (95/100)) (confidence ev)"
    by (auto simp: list_ex_iff player_events_def counts_for_def is_hard_def)
  then show ?thesis
    using d unfolding Let_def
    by (auto simp: choose_action_def Let_def ban_gate_def split: if_splits)
qed

theorem decide_gates_witness:
  "evidence_ids (the (fst (fst (decide sample_digest 1000 ''p1'' ''m1'' sample_score [sample_event] sample_engine)))) = [''e1'']"
proof -
  have "result (fst (eval_on sample_digest concat sample_call (sample_engine, sample_db))) \<noteq> None" by (rule sample_results)
  then obtain a where "fst (fst (decide sample_digest 1000 ''p1'' ''m1'' sample_score [sample_event] sample_engine)) = Some a"
    using evaluate_Some unfolding eval_on_def by (fastforce simp: sample_call_def)
  from decide_gates [OF this] this show ?thesis
    by (simp add: Let_def player_events_def counts_for_def sample_event_def event_ids_def)
qed

text \<open>A policy built from a string acts only in the mode the trimmed, lower-cased string names:
  anything that is not \<open>flag\<close>, \<open>review\<close> or \<open>enforce\<close> recommends nothing, a temporary ban needs
  \<open>enforce\<close>, hard evidence and two matches, and the evidence is the player's non-shadow events.\<close>
theorem policy_mode_is_safe:
  "case policy_evaluate digest now (with_levels t (new_policy m)) p sc evs of
     None \<Rightarrow> True
   | Some a \<Rightarrow> to_lower (trim_space m) \<in> {ModeFlag, ModeReview, ModeEnforce} \<and>
       evidence_ids a = event_ids (player_events p evs) \<and>
       (if action_type a = ActionTempBan
        then to_lower (trim_space m) = ModeEnforce \<and> 2 \<le> match_count sc \<and> list_ex is_hard (player_events p evs)
        else duration_ns a = 0)"
  by (auto simp: policy_evaluate_def new_policy_def with_levels_def policy_action_def Let_def mode_names action_names
      split: option.split)

text \<open>The identity of a recommendation depends on the player, the action type and the sets of
  evidence and match identifiers only: not on their order, on repetitions or empty entries, nor on
  the reason, time, score or duration.\<close>
theorem recommendation_id_is_a_set_identity:
  assumes "act_player a = act_player b" "action_type a = action_type b"
    and "set (evidence_ids a) - {[]} = set (evidence_ids b) - {[]}" "set (act_matches a) - {[]} = set (act_matches b) - {[]}"
  shows "recommendation_id digest a = recommendation_id digest b"
proof -
  have u: "unique xs = unique ys" if "set xs - {[]} = set ys - {[]}" for xs ys
    unfolding unique_def by (rule sorted_set_cong) (use that in auto)
  from u [OF assms(3)] u [OF assms(4)] assms(1,2) show ?thesis by (simp add: recommendation_id_def)
qed

definition sample_action :: action where
  "sample_action = \<lparr>action_id = ''r'', act_player = ''p1'', action_type = ActionFlag, reason = ''x'', duration_ns = 0,
     issued_by = ''auto'', issued_at = 5, evidence_ids = [''e2'', ''e1'', ''e2''], act_matches = [''m1''],
     score_at_time = Fin 50, act_notes = []\<rparr>"

theorem recommendation_id_is_a_set_identity_witness:
  "recommendation_id sample_digest sample_action = recommendation_id sample_digest (sample_action\<lparr>evidence_ids := [''e1'', [], ''e2'']\<rparr>)"
  by (rule recommendation_id_is_a_set_identity) (auto simp: sample_action_def)

lemma check_evidence_None:
  "check_evidence db p ms is = None \<longleftrightarrow> (\<forall>i\<in>set is. \<exists>m\<in>set ms. map_of (eligible db) i = Some (p, m))"
  by (induction "is") (auto split: option.splits)

text \<open>A claim is created only for a new identifier whose every evidence event is score-eligible,
  belongs to the player and lies in one of the recommendation's matches; the stored row has the
  evidence sorted and without repetitions. In every other case (an error, or a duplicate of the
  same player, type, evidence and matches) the database is unchanged.\<close>
theorem claim_is_verified:
  "case store_action_once js fault a db of
     (Inr True, db') \<Rightarrow> map_of (claims db) (action_id a) = None \<and> evidence_ids a \<noteq> [] \<and>
       (\<forall>i\<in>set (evidence_ids a) - {[]}. \<exists>m\<in>set (act_matches a). map_of (eligible db) i = Some (act_player a, m)) \<and>
       (\<exists>row. claims db' = AList.update (action_id a) row (claims db) \<and> sorted (evidence_ids (cr_action row)) \<and>
          distinct (evidence_ids (cr_action row)) \<and> set (evidence_ids (cr_action row)) = set (evidence_ids a) - {[]}) \<and>
       eligible db' = eligible db
   | (r, db') \<Rightarrow> db' = db \<and> (r = Inr False \<longrightarrow> (\<exists>row. map_of (claims db) (action_id a) = Some row \<and>
       act_player (cr_action row) = act_player a \<and> action_type (cr_action row) = action_type a \<and>
       cr_evidence row = js (unique (evidence_ids a)) \<and> cr_matches row = js (unique (act_matches a))))"
proof -
  have su: "set (unique xs) = set xs - {[]}" "sorted (unique xs)" "distinct (unique xs)" for xs
    by (auto simp: unique_def)
  show ?thesis
    by (auto simp: store_action_once_def Let_def check_evidence_None su split: option.splits if_splits)
qed

theorem claim_is_verified_witness:
  "case store_action_once concat None sample_action sample_db of
     (Inr True, db') \<Rightarrow> map_of (claims sample_db) (action_id sample_action) = None
   | (r, db') \<Rightarrow> db' = sample_db"
  using claim_is_verified [where js = concat and fault = None and a = sample_action and db = sample_db]
  by (auto split: prod.splits sum.splits bool.splits)

text \<open>The engine's category of a detector is the scorer's when the identifier has a known word before
  its first underscore, as every detector of the catalog has; otherwise the two may differ.\<close>

lemma categories_differ: "prefix_category ''THROWING_1'' = ''throw''" "detector_category ''THROWING_1'' = ''unknown''"
  by code_simp+

end
