(* ===== verification/Match_Phase.thy ===== *)
theory Match_Phase
  imports Go_Float
begin

text \<open>
  The match context (\<open>internal/model/match.go\<close>, \<open>tape.go\<close>, \<open>mechanics.go\<close>) and the phase
  normaliser (\<open>internal/model/phase.go\<close>). \<open>phase_normalizer\<close> is \<open>PhaseNormalizer\<close>, \<open>normalize\<close> its
  streaming step. \<open>phase_from_history\<close> is what the step computes, said about the whole recording
  instead of the state; \<open>stream_agrees\<close> proves the two equal on every recording of one session
  whose time does not run backwards.
\<close>

section \<open>Match context\<close>

record physics_constants =
  disc_speed_cap :: f64
  boost_speed_cap :: f64
  max_player_speed :: f64
  max_throw_speed :: f64
  stun_duration :: f64
  shield_cooldown :: f64
  immunity_window :: f64
  grab_range :: f64
  arena_length :: f64
  arena_width :: f64
  arena_height :: f64
  goal_radius :: f64
  goal_z :: f64

definition default_physics :: physics_constants where
  "default_physics = \<lparr>disc_speed_cap = flit (189/10), boost_speed_cap = Fin 5, max_player_speed = Fin 55,
     max_throw_speed = flit (189/10), stun_duration = Fin 3, shield_cooldown = Fin 5, immunity_window = flit (15/10),
     grab_range = flit (8/10), arena_length = Fin 154, arena_width = Fin 32, arena_height = Fin 20,
     goal_radius = Fin 1, goal_z = flit (36078/1000)\<rparr>"

record project_rules =
  rules_version :: string
  disc_grab_limit_m :: f64
  fast_throw_speed_mps :: f64
  required_movement_mps :: f64

definition default_project_rules :: project_rules where
  "default_project_rules = \<lparr>rules_version = ''owner-2026-09-08-v1'', disc_grab_limit_m = flit (25/100),
     fast_throw_speed_mps = Fin 19, required_movement_mps = flit (47/10)\<rparr>"

record native_capture =
  capture_id :: string
  producer :: string
  game_type :: string
  format_version :: nat
  format_minor :: nat
  format_patch :: nat
  frame_encoding :: string
  schema_revision :: string
  container_integrity :: string
  limitations :: "string list"

record match_context =
  mc_native_capture :: "native_capture option"
  mc_match_id :: string
  mc_map :: string
  mc_game_mode :: string
  mc_is_ranked :: bool
  mc_is_private :: bool
  mc_start_time :: time
  mc_duration :: duration
  mc_player_ids :: "string list"
  mc_team_assignments :: "(string, string) gomap"
  mc_player_names :: "(string, string) gomap"
  mc_tick_rate :: f64
  mc_source :: string
  mc_replay_file :: string
  mc_server_region :: string
  mc_server_id :: string
  mc_physics :: physics_constants
  mc_project_rules :: project_rules

section \<open>Phases\<close>

definition PhasePostScoreGap :: string where "PhasePostScoreGap = ''post_score_gap''"
definition PhasePreRoundGap :: string where "PhasePreRoundGap = ''pre_round_gap''"

definition max_unnamed_gap_seconds :: f64 where
  "max_unnamed_gap_seconds = Fin 15"

definition is_active_game_phase :: "string \<Rightarrow> bool" where
  "is_active_game_phase p \<longleftrightarrow> p \<in> set [''playing'', ''round'', ''overtime'', ''sudden_death'', []]"

definition mc_is_active_phase :: "match_context \<Rightarrow> string \<Rightarrow> bool" where
  "mc_is_active_phase mc p = is_active_game_phase p"

definition is_unnamed_game_status :: "string \<Rightarrow> bool" where
  "is_unnamed_game_status s \<longleftrightarrow> to_lower (trim_space s) \<in> set [[], ''unknown'', ''unspecified'', ''game_status_unspecified'']"

definition map_named_game_status :: "string \<Rightarrow> string" where
  "map_named_game_status l = (if l = ''score'' then ''round_over'' else l)"

record phase_normalizer =
  session_id :: string
  last_named :: string
  last_score :: bool
  have_time :: bool
  last_time :: f64
  in_gap :: bool
  gap_start :: f64

definition phase_reset :: phase_normalizer where
  "phase_reset = \<lparr>session_id = [], last_named = [], last_score = False, have_time = False, last_time = Fin 0,
     in_gap = False, gap_start = Fin 0\<rparr>"

definition normalize :: "string \<Rightarrow> string \<Rightarrow> f64 \<Rightarrow> phase_normalizer \<Rightarrow> string \<times> phase_normalizer" where
  "normalize sid status seconds n =
     (let n = (if sid \<noteq> [] \<and> session_id n \<noteq> [] \<and> sid \<noteq> session_id n then phase_reset else n);
          n = (if have_time n \<and> flt seconds (last_time n) then phase_reset else n);
          n = (if sid \<noteq> [] then n\<lparr>session_id := sid\<rparr> else n);
          n = n\<lparr>have_time := True, last_time := seconds\<rparr>
      in if \<not> is_unnamed_game_status status then
           let named = to_lower (trim_space status);
               n = n\<lparr>in_gap := False, last_score := (named = ''score''), last_named := map_named_game_status named\<rparr>
           in (last_named n, n)
         else if last_named n = [] \<or> is_active_game_phase (last_named n) then (''playing'', n)
         else
           let n = (if \<not> in_gap n then n\<lparr>in_gap := True, gap_start := seconds\<rparr> else n) in
           if flt max_unnamed_gap_seconds (fsub seconds (gap_start n)) then (''playing'', n)
           else if last_score n then (PhasePostScoreGap, n)
           else (PhasePreRoundGap, n))"

text \<open>A recording: the state after its samples (status and time), oldest first, of one session.\<close>

definition feed :: "string \<Rightarrow> (string \<times> f64) list \<Rightarrow> phase_normalizer \<Rightarrow> phase_normalizer" where
  "feed sid xs n = fold (\<lambda>(st, t) n. snd (normalize sid st t n)) xs n"

section \<open>The phase as a function of the recording\<close>

definition named_of :: "string \<Rightarrow> string" where
  "named_of st = to_lower (trim_space st)"

text \<open>The trailing samples without a name, and the last named status before them.\<close>

definition unnamed_run :: "(string \<times> f64) list \<Rightarrow> (string \<times> f64) list" where
  "unnamed_run xs = rev (takeWhile (\<lambda>(st, _). is_unnamed_game_status st) (rev xs))"

definition last_named_status :: "(string \<times> f64) list \<Rightarrow> string option" where
  "last_named_status xs = (case dropWhile (\<lambda>(st, _). is_unnamed_game_status st) (rev xs) of
     [] \<Rightarrow> None | (st, _) # _ \<Rightarrow> Some (named_of st))"

definition phase_from_history :: "(string \<times> f64) list \<Rightarrow> string \<Rightarrow> f64 \<Rightarrow> string" where
  "phase_from_history xs st t =
     (if \<not> is_unnamed_game_status st then map_named_game_status (named_of st)
      else case last_named_status xs of
        None \<Rightarrow> ''playing''
      | Some l \<Rightarrow>
          if is_active_game_phase (map_named_game_status l) then ''playing''
          else if flt (Fin 15) (fsub t (snd (hd (unnamed_run xs @ [(st, t)])))) then ''playing''
          else if l = ''score'' then ''post_score_gap'' else ''pre_round_gap'')"

fun time_flows :: "f64 \<Rightarrow> (string \<times> f64) list \<Rightarrow> bool" where
  "time_flows t [] = True"
| "time_flows t ((_, u) # xs) = (\<not> flt u t \<and> time_flows u xs)"

definition recording :: "(string \<times> f64) list \<Rightarrow> bool" where
  "recording xs \<longleftrightarrow> (case xs of [] \<Rightarrow> True | (_, t) # r \<Rightarrow> time_flows t r)"

text \<open>The state of the normaliser after a recording, field by field.\<close>

definition state_of :: "string \<Rightarrow> (string \<times> f64) list \<Rightarrow> phase_normalizer \<Rightarrow> bool" where
  "state_of sid xs n \<longleftrightarrow>
     (xs \<noteq> [] \<longrightarrow> session_id n = sid \<and> last_time n = snd (last xs)) \<and> have_time n = (xs \<noteq> []) \<and>
     (session_id n = [] \<or> session_id n = sid) \<and>
     (case last_named_status xs of
        None \<Rightarrow> last_named n = [] \<and> \<not> in_gap n
      | Some l \<Rightarrow> last_named n = map_named_game_status l \<and> last_score n = (l = ''score'') \<and> l \<noteq> [] \<and>
          (if is_active_game_phase (map_named_game_status l) then \<not> in_gap n
           else in_gap n = (unnamed_run xs \<noteq> []) \<and>
                (unnamed_run xs \<noteq> [] \<longrightarrow> gap_start n = snd (hd (unnamed_run xs)))))"

lemma unnamed_run_snoc:
  "unnamed_run (xs @ [(st, t)]) = (if is_unnamed_game_status st then unnamed_run xs @ [(st, t)] else [])"
  by (simp add: unnamed_run_def)

lemma last_named_snoc:
  "last_named_status (xs @ [(st, t)]) = (if is_unnamed_game_status st then last_named_status xs else Some (named_of st))"
  by (simp add: last_named_status_def)

lemma named_nonempty: "\<not> is_unnamed_game_status st \<Longrightarrow> named_of st \<noteq> []"
  by (auto simp: is_unnamed_game_status_def named_of_def)

lemma map_named_nonempty: "l \<noteq> [] \<Longrightarrow> map_named_game_status l \<noteq> []"
  by (simp add: map_named_game_status_def)

lemma normalize_step:
  assumes st: "state_of sid xs n" and t: "xs = [] \<or> \<not> flt t (snd (last xs))"
  shows "state_of sid (xs @ [(s, t)]) (snd (normalize sid s t n)) \<and>
    fst (normalize sid s t n) = phase_from_history xs s t"
proof -
  define m where "m = (if sid \<noteq> [] then n\<lparr>session_id := sid\<rparr> else n)\<lparr>have_time := True, last_time := t\<rparr>"
  have keep: "\<not> (sid \<noteq> [] \<and> session_id n \<noteq> [] \<and> sid \<noteq> session_id n)" "\<not> (have_time n \<and> flt t (last_time n))"
    using st t by (auto simp: state_of_def)
  have m: "session_id m = sid" "last_time m = t" "have_time m" "last_named m = last_named n"
    "last_score m = last_score n" "in_gap m = in_gap n" "gap_start m = gap_start n"
    using st by (auto simp: m_def state_of_def)
  have eq: "normalize sid s t n =
    (if \<not> is_unnamed_game_status s then
       (map_named_game_status (named_of s),
        m\<lparr>in_gap := False, last_score := (named_of s = ''score''), last_named := map_named_game_status (named_of s)\<rparr>)
     else if last_named m = [] \<or> is_active_game_phase (last_named m) then (''playing'', m)
     else let k = (if \<not> in_gap m then m\<lparr>in_gap := True, gap_start := t\<rparr> else m) in
       if flt max_unnamed_gap_seconds (fsub t (gap_start k)) then (''playing'', k)
       else if last_score k then (PhasePostScoreGap, k) else (PhasePreRoundGap, k))"
    unfolding normalize_def Let_def if_not_P [OF keep(1)] if_not_P [OF keep(2)] m_def [symmetric] named_of_def
    by simp
  show ?thesis
  proof (cases "is_unnamed_game_status s")
    case False
    then show ?thesis
      using m named_nonempty [OF False]
      by (simp add: eq state_of_def phase_from_history_def unnamed_run_snoc last_named_snoc)
  next
    case True
    note un = this
    show ?thesis
    proof (cases "last_named_status xs")
      case None
      then show ?thesis using st m True
        by (simp add: eq state_of_def phase_from_history_def unnamed_run_snoc last_named_snoc)
    next
      case (Some l)
      show ?thesis
      proof (cases "is_active_game_phase (map_named_game_status l)")
        case True
        then show ?thesis using st m un Some
          by (simp add: eq state_of_def phase_from_history_def unnamed_run_snoc last_named_snoc)
      next
        case False
        have ln: "last_named n = map_named_game_status l" "last_score n = (l = ''score'')" "last_named n \<noteq> []"
          "in_gap n = (unnamed_run xs \<noteq> [])" "unnamed_run xs \<noteq> [] \<Longrightarrow> gap_start n = snd (hd (unnamed_run xs))"
          using st Some False map_named_nonempty by (auto simp: state_of_def)
        show ?thesis
          using st m un Some False ln
          by (cases "unnamed_run xs = []")
             (simp_all add: eq state_of_def phase_from_history_def unnamed_run_snoc last_named_snoc Let_def
               max_unnamed_gap_seconds_def PhasePostScoreGap_def PhasePreRoundGap_def)
      qed
    qed
  qed
qed

lemma time_flows_snoc: "time_flows t (xs @ [(s, u)]) \<longleftrightarrow> time_flows t xs \<and> \<not> flt u (snd (last ((s, t) # xs)))"
  by (induction xs arbitrary: t s) auto

lemma recording_snoc: "recording (xs @ [(s, t)]) \<longleftrightarrow> recording xs \<and> (xs = [] \<or> \<not> flt t (snd (last xs)))"
  by (cases xs) (auto simp: recording_def time_flows_snoc)

lemma feed_snoc: "feed sid (xs @ [(s, t)]) n = snd (normalize sid s t (feed sid xs n))"
  by (simp add: feed_def)

lemma feed_state: "recording xs \<Longrightarrow> state_of sid xs (feed sid xs phase_reset)"
proof (induction xs rule: rev_induct)
  case Nil
  then show ?case by (simp add: state_of_def feed_def phase_reset_def last_named_status_def)
next
  case (snoc x xs)
  obtain s t where x: "x = (s, t)" by force
  with snoc show ?case using normalize_step [of sid xs "feed sid xs phase_reset" t s]
    by (simp add: feed_snoc recording_snoc)
qed

text \<open>The step in two parts: admitting the sample, and naming its phase.\<close>

definition start_sample :: "string \<Rightarrow> f64 \<Rightarrow> phase_normalizer \<Rightarrow> phase_normalizer" where
  "start_sample sid t n =
     (let n = (if sid \<noteq> [] \<and> session_id n \<noteq> [] \<and> sid \<noteq> session_id n then phase_reset else n);
          n = (if have_time n \<and> flt t (last_time n) then phase_reset else n);
          n = (if sid \<noteq> [] then n\<lparr>session_id := sid\<rparr> else n)
      in n\<lparr>have_time := True, last_time := t\<rparr>)"

definition resolve :: "string \<Rightarrow> f64 \<Rightarrow> phase_normalizer \<Rightarrow> string \<times> phase_normalizer" where
  "resolve st t m =
     (if \<not> is_unnamed_game_status st then
       (map_named_game_status (named_of st),
        m\<lparr>in_gap := False, last_score := (named_of st = ''score''), last_named := map_named_game_status (named_of st)\<rparr>)
     else if last_named m = [] \<or> is_active_game_phase (last_named m) then (''playing'', m)
     else let k = (if \<not> in_gap m then m\<lparr>in_gap := True, gap_start := t\<rparr> else m) in
       if flt max_unnamed_gap_seconds (fsub t (gap_start k)) then (''playing'', k)
       else if last_score k then (PhasePostScoreGap, k) else (PhasePreRoundGap, k))"

lemma normalize_split: "normalize sid st t n = resolve st t (start_sample sid t n)"
  unfolding normalize_def resolve_def start_sample_def Let_def named_of_def by simp

lemma start_sample_fields:
  "have_time (start_sample sid t n)" "last_time (start_sample sid t n) = t"
  "sid \<noteq> [] \<Longrightarrow> session_id (start_sample sid t n) = sid"
  by (simp_all add: start_sample_def Let_def)

lemma resolve_fields [simp]:
  "have_time (snd (resolve st t m)) = have_time m" "last_time (snd (resolve st t m)) = last_time m"
  "session_id (snd (resolve st t m)) = session_id m"
  by (simp_all add: resolve_def Let_def)

lemma start_sample_id:
  "have_time k \<Longrightarrow> last_time k = t \<Longrightarrow> (sid \<noteq> [] \<Longrightarrow> session_id k = sid) \<Longrightarrow> start_sample sid t k = k"
proof -
  assume k: "have_time k" "last_time k = t" "sid \<noteq> [] \<Longrightarrow> session_id k = sid"
  have "\<not> flt t t" by (cases t) auto
  with k show ?thesis by (cases "sid = []") (simp_all add: start_sample_def)
qed

lemma resolve_again: "resolve st t (snd (resolve st t m)) = resolve st t m"
proof (cases "is_unnamed_game_status st \<and> \<not> (last_named m = [] \<or> is_active_game_phase (last_named m))")
  case True
  define k where "k = (if \<not> in_gap m then m\<lparr>in_gap := True, gap_start := t\<rparr> else m)"
  have k: "last_named k = last_named m" "in_gap k" by (simp_all add: k_def)
  have r: "resolve st t m = (if flt max_unnamed_gap_seconds (fsub t (gap_start k)) then (''playing'', k)
       else if last_score k then (PhasePostScoreGap, k) else (PhasePreRoundGap, k))"
    using True by (simp add: resolve_def k_def)
  have "resolve st t k = resolve st t m"
    using True k r by (simp add: resolve_def [of st t k])
  then show ?thesis by (simp add: r)
next
  case False
  then show ?thesis by (auto simp: resolve_def)
qed

section \<open>Properties\<close>

text \<open>C9: On a recording of one session whose time does not run backwards, the streaming phase of
  each sample is the one the whole recording determines: a named status maps to itself (a score to
  \<open>round_over\<close>); an unnamed status is play when nothing was named or the last named status was
  play, and otherwise an inactive gap for at most 15 seconds from the first sample of the gap, after
  which it counts as play.\<close>
theorem stream_agrees:
  assumes "recording (xs @ [(st, t)])"
  shows "fst (normalize sid st t (feed sid xs phase_reset)) = phase_from_history xs st t"
proof -
  from assms have "recording xs" "xs = [] \<or> \<not> flt t (snd (last xs))" by (auto simp: recording_snoc)
  from normalize_step [OF feed_state [OF this(1)] this(2)] show ?thesis by simp
qed

theorem stream_agrees_witness:
  "fst (normalize ''s'' [] (Fin 12) (feed ''s'' [(''score'', Fin 5), ([], Fin 8)] phase_reset)) = ''post_score_gap''"
proof -
  have r: "recording ([(''score'', Fin 5), ([], Fin 8)] @ [([], Fin 12)])" by (simp add: recording_def)
  have "phase_from_history [(''score'', Fin 5), ([], Fin 8)] [] (Fin 12) = ''post_score_gap''" by code_simp
  with stream_agrees [OF r] show ?thesis by simp
qed

text \<open>Normalising the same sample again gives the same phase and the same state, so asking once
  per player of a tick is the same as asking once per tick.\<close>
theorem normalize_idempotent:
  "normalize sid st t (snd (normalize sid st t n)) = normalize sid st t n"
proof -
  let ?m = "start_sample sid t n"
  have "start_sample sid t (snd (resolve st t ?m)) = snd (resolve st t ?m)"
    by (rule start_sample_id) (auto simp: start_sample_fields resolve_fields)
  then show ?thesis by (simp add: normalize_split resolve_again)
qed

definition sample_match :: match_context where
  "sample_match = \<lparr>mc_native_capture = None, mc_match_id = ''m1'', mc_map = [], mc_game_mode = [], mc_is_ranked = False,
     mc_is_private = False, mc_start_time = 0, mc_duration = 0, mc_player_ids = [''p1''], mc_team_assignments = [],
     mc_player_names = [], mc_tick_rate = Fin 30, mc_source = [], mc_replay_file = [], mc_server_region = [],
     mc_server_id = [], mc_physics = default_physics, mc_project_rules = default_project_rules\<rparr>"

end
