(* ===== verification/Review.thy ===== *)
theory Review
  imports Scorer Match_Phase "HOL-Library.Multiset"
begin

text \<open>
  Review cases: the evidence builder (\<open>internal/evidence/builder.go\<close>), the queue and its status
  machine (\<open>internal/review/queue.go\<close>), the records and the decision validation of
  \<open>internal/model/review.go\<close>, and the rows the SQLite store keeps for them
  (\<open>StoreReviewCase\<close>, \<open>CloseStaleReviewCases\<close>, \<open>UpdateReviewCaseStatus\<close>, \<open>StoreModeratorDecision\<close> of
  \<open>internal/storage/sqlite/store.go\<close>, \<open>review_invalidation.go\<close>), with the command-line verdict
  (\<open>recordVerdict\<close> of \<open>cmd/anticheat/main.go\<close>).

  \<open>case_db\<close> holds the two case tables by primary key and the decisions table. A SQL statement is
  its effect on those rows; a failing driver call is the argument \<open>io\<close>, the error text, and leaves
  the rows alone (each write is one statement or one transaction). Times are stored as they are:
  the textual form of a timestamp is not modelled. Random identifiers are arguments, the \<open>%g\<close>
  rendering of a float is the parameter \<open>g\<close>.
\<close>

unbundle bit_operations_syntax

section \<open>Records and vocabulary\<close>

definition CasePending :: string where "CasePending = ''pending''"
definition CaseAssigned :: string where "CaseAssigned = ''assigned''"
definition CaseInReview :: string where "CaseInReview = ''in_review''"
definition CaseDecided :: string where "CaseDecided = ''decided''"
definition CaseAppealed :: string where "CaseAppealed = ''appealed''"
definition CaseClosed :: string where "CaseClosed = ''closed''"

lemmas status_names = CasePending_def CaseAssigned_def CaseInReview_def CaseDecided_def CaseAppealed_def CaseClosed_def

definition case_statuses :: "string list" where
  "case_statuses = [CasePending, CaseAssigned, CaseInReview, CaseDecided, CaseAppealed, CaseClosed]"

definition verdicts :: "string list" where
  "verdicts = [''confirmed_cheat'', ''false_positive'', ''inconclusive'', ''needs_more_data'']"

definition detector_verdicts :: "string list" where
  "detector_verdicts = [''yes'', ''no'', ''uncertain'']"

record triggered_detector =
  td_detector_id :: string
  td_detector_name :: string
  td_detector_version :: string
  td_event_id :: string
  td_severity :: string
  td_severity_value :: f64
  td_confidence :: f64
  td_frame_index :: int
  td_frame_range_start :: int
  td_frame_range_end :: int
  td_timestamp :: f64
  td_metric_name :: string
  td_metric_value :: f64
  td_threshold :: f64
  td_expected_range :: string
  td_details :: string

record review_case =
  case_id :: string
  rc_player_id :: string
  rc_match_id :: string
  timestamp_start :: time
  timestamp_end :: time
  detectors_triggered :: "triggered_detector list"
  rc_severity :: string
  rc_suspicion_score :: f64
  rc_level :: string
  rc_recommended_action :: string
  rc_explanation :: string
  rc_status :: string
  assigned_to :: string
  created_at :: time
  updated_at :: time
  close_reason :: string
  threshold_version :: string

record detector_verdict =
  dv_detector_id :: string
  dv_correct :: string
  dv_comment :: string

record moderator_decision =
  decision_id :: string
  md_case_id :: string
  md_moderator_id :: string
  md_verdict :: string
  md_action_taken :: string
  md_notes :: string
  md_decided_at :: time
  md_confidence_override :: "f64 option"
  md_review_duration_sec :: int
  md_detector_feedback :: "detector_verdict list"

fun check_feedback :: "detector_verdict list \<Rightarrow> string option" where
  "check_feedback [] = None"
| "check_feedback (fb # fbs) =
     (if dv_detector_id fb = [] then Some ''moderator decision: detector feedback missing detector_id''
      else if dv_correct fb \<notin> set detector_verdicts
      then Some (''moderator decision: detector '' @ dv_detector_id fb @ '' has unknown verdict'')
      else check_feedback fbs)"

definition decision_validate :: "moderator_decision \<Rightarrow> string option" where
  "decision_validate d =
     (if md_case_id d = [] then Some ''moderator decision: missing case_id''
      else if md_moderator_id d = [] then Some ''moderator decision: missing moderator_id''
      else if md_verdict d \<notin> set verdicts then Some ''moderator decision: unknown verdict''
      else check_feedback (md_detector_feedback d))"

section \<open>Building a case\<close>

definition fnv1a :: "string \<Rightarrow> 64 word" where
  "fnv1a s = fold (\<lambda>b h. (h XOR of_nat (of_char b)) * 1099511628211) s 14695981039346656037"

definition hex_digit :: "nat \<Rightarrow> char" where
  "hex_digit n = (if n < 10 then char_of (48 + n) else char_of (87 + n))"

definition hex16 :: "64 word \<Rightarrow> string" where
  "hex16 w = map (\<lambda>i. hex_digit (unat (drop_bit (4 * i) w) mod 16)) (rev [0..<16])"

definition tv_text :: "(f64 \<Rightarrow> string) \<Rightarrow> level_table \<Rightarrow> (string, string) gomap \<Rightarrow> string" where
  "tv_text g t vs = ''levels:'' @ g (lt_informational t) @ ''/'' @ g (lt_suspicious t) @ ''/'' @ g (lt_high_risk t) @ ''/'' @
     g (lt_critical t) @ ''/'' @ g (lt_action_worthy t) @ '';'' @
     concat (map (\<lambda>i. i @ ''='' @ gz [] vs i @ '';'') (sort (map fst vs)))"

definition threshold_version_of :: "(f64 \<Rightarrow> string) \<Rightarrow> level_table \<Rightarrow> (string, string) gomap \<Rightarrow> string" where
  "threshold_version_of g t vs = ''tv-'' @ hex16 (fnv1a (tv_text g (or_default t) vs))"

record builder =
  b_levels :: level_table
  b_names :: "(string, string) gomap"

definition new_builder :: "level_table \<Rightarrow> builder" where
  "new_builder t = \<lparr>b_levels = or_default t, b_names = []\<rparr>"

definition builder_set_levels :: "level_table \<Rightarrow> builder \<Rightarrow> builder" where
  "builder_set_levels t b = (if lt_is_zero t then b else b\<lparr>b_levels := t\<rparr>)"

definition trigger :: "builder \<Rightarrow> detection_event \<Rightarrow> triggered_detector" where
  "trigger b ev = \<lparr>td_detector_id = detector_id ev,
     td_detector_name = (let n = gz [] (b_names b) (detector_id ev) in if n = [] then detector_id ev else n),
     td_detector_version = detector_version ev, td_event_id = event_id ev,
     td_severity = event_severity_label (severity ev), td_severity_value = severity ev,
     td_confidence = confidence ev, td_frame_index = frame_index ev, td_frame_range_start = frame_range_start ev,
     td_frame_range_end = frame_range_end ev, td_timestamp = timestamp ev,
     td_metric_name = ck_anomaly_type (ev_causal_key ev), td_metric_value = Fin 0, td_threshold = Fin 0,
     td_expected_range = expected_range ev, td_details = observed_value ev\<rparr>"

definition case_events :: "string \<Rightarrow> detection_event list \<Rightarrow> detection_event list" where
  "case_events p evs = sort_key (\<lambda>e. (frame_index e, detector_id e)) (filter (\<lambda>e. player_id e = p \<and> \<not> is_shadow e) evs)"

definition build_case :: "(f64 \<Rightarrow> string) \<Rightarrow> time \<Rightarrow> string \<Rightarrow> builder \<Rightarrow> string \<Rightarrow> match_context option \<Rightarrow> suspicion_score \<Rightarrow>
    detection_event list \<Rightarrow> review_case" where
  "build_case g now random_id b p mc sc events =
     (let pe = case_events p events;
          versions = fold (\<lambda>e m. AList.update (detector_id e) (detector_version e) m) pe [];
          max_ts = fold (\<lambda>e m. if flt m (timestamp e) then timestamp e else m) pe (Fin 0);
          level = level_for (b_levels b) (total_score sc);
          (mid, start, fin) = (case mc of
             Some c \<Rightarrow> (mc_match_id c, mc_start_time c,
               (if 0 < mc_duration c then mc_start_time c + mc_duration c
                else if mc_start_time c \<noteq> 0 then mc_start_time c + f_to_int (fmul max_ts (f_of_int second))
                else 0))
           | None \<Rightarrow> ((case pe of e # _ \<Rightarrow> match_id e | [] \<Rightarrow> []), 0, 0))
      in \<lparr>case_id = random_id, rc_player_id = p, rc_match_id = mid, timestamp_start = start, timestamp_end = fin,
          detectors_triggered = map (trigger b) pe, rc_severity = case_severity_for_level level,
          rc_suspicion_score = total_score sc, rc_level = level_name level,
          rc_recommended_action = recommended_action_for_level level,
          rc_explanation = ''Player '' @ p @ '' scored '' @ fmt_f 1 (total_score sc) @ '' (level: '' @ level_name level @ ''). '' @
            itoa (int (length pe)) @ '' detection(s) from '' @ itoa (int (length (remdups (map detector_id pe)))) @ '' distinct detector(s).'',
          rc_status = CasePending, assigned_to = [], created_at = now, updated_at = 0, close_reason = [],
          threshold_version = threshold_version_of g (b_levels b) versions\<rparr>)"

definition case_id_of :: "string \<Rightarrow> string \<Rightarrow> string" where
  "case_id_of m p = ''RC-'' @ m @ ''-'' @ p"

definition with_case_id :: "match_context option \<Rightarrow> string \<Rightarrow> review_case \<Rightarrow> review_case" where
  "with_case_id mc p rc = (case mc of Some c \<Rightarrow> if mc_match_id c \<noteq> [] then rc\<lparr>case_id := case_id_of (mc_match_id c) p\<rparr> else rc
     | None \<Rightarrow> rc)"

record case_options =
  opt_names :: "(string, string) gomap option"
  opt_min_level :: scoring_level

definition default_options :: case_options where
  "default_options = \<lparr>opt_names = None, opt_min_level = LevelHighRisk\<rparr>"

definition configured_builder :: "level_table \<Rightarrow> case_options \<Rightarrow> builder" where
  "configured_builder table opts = (let b = builder_set_levels (or_default table) (new_builder default_level_table) in
     case opt_names opts of None \<Rightarrow> b | Some ns \<Rightarrow> b\<lparr>b_names := ns\<rparr>)"

text \<open>
  \<open>BuildCasesFromResult\<close>: the events and scores are those of the match result; \<open>rid\<close> gives the
  random identifier drawn for a player.
\<close>

definition build_cases :: "(f64 \<Rightarrow> string) \<Rightarrow> time \<Rightarrow> (string \<Rightarrow> string) \<Rightarrow> match_context option \<Rightarrow> detection_event list \<Rightarrow>
    (string, suspicion_score) gomap \<Rightarrow> level_table \<Rightarrow> case_options \<Rightarrow> review_case list" where
  "build_cases g now rid mc events scores table0 opts =
     (let table = or_default table0; b = configured_builder table opts;
          of_player = (\<lambda>p. filter (\<lambda>e. \<not> is_shadow e \<and> player_id e = p) events)
      in map (\<lambda>p. with_case_id mc p (build_case g now (rid p) b p mc (the (map_of scores p)) (of_player p)))
         (filter (\<lambda>p. of_player p \<noteq> [] \<and> at_least (level_for table (total_score (the (map_of scores p)))) (opt_min_level opts))
           (sort (map fst scores))))"

section \<open>The case tables\<close>

record xcase =
  x_player_id :: string
  x_match_ids :: "string list"
  x_status :: string
  x_updated_at :: time
  x_explanation :: string

record case_db =
  cases :: "(string, review_case) gomap"
  xcases :: "(string, xcase) gomap"
  decisions :: "moderator_decision list"

definition or_pending :: "string \<Rightarrow> string" where
  "or_pending s = (if s = [] then CasePending else s)"

definition store_review_case :: "time \<Rightarrow> review_case \<Rightarrow> case_db \<Rightarrow> case_db" where
  "store_review_case now rc db =
     (let new = rc\<lparr>rc_status := or_pending (rc_status rc), updated_at := now, close_reason := []\<rparr> in
      case map_of (cases db) (case_id rc) of
        None \<Rightarrow> db\<lparr>cases := AList.update (case_id rc) new (cases db)\<rparr>
      | Some old \<Rightarrow> db\<lparr>cases := AList.update (case_id rc)
          (new\<lparr>created_at := created_at old,
               rc_status := (if rc_status old = CasePending \<or> close_reason old \<noteq> [] then rc_status new else rc_status old),
               assigned_to := (if assigned_to old \<noteq> [] then assigned_to old else assigned_to rc)\<rparr>) (cases db)\<rparr>)"

definition close_stale_review_cases :: "time \<Rightarrow> string \<Rightarrow> string list \<Rightarrow> string \<Rightarrow> case_db \<Rightarrow> (string + int) \<times> case_db" where
  "close_stale_review_cases now mid keep why0 db =
     (if mid = [] then (Inl ''match id required'', db)
      else let why = (if why0 = [] then ''not flagged by re-analysis'' else why0);
               hit = (\<lambda>rc. rc_match_id rc = mid \<and> rc_status rc = CasePending \<and> rc_player_id rc \<notin> set keep) in
        (Inr (int (length (filter (\<lambda>(_, rc). hit rc) (cases db)))),
         db\<lparr>cases := gmap_vals (\<lambda>_ rc. if hit rc
              then rc\<lparr>rc_status := CaseClosed, close_reason := why, updated_at := now\<rparr> else rc) (cases db)\<rparr>))"

definition get_review_case :: "string \<Rightarrow> case_db \<Rightarrow> review_case option" where
  "get_review_case i db = map_of (cases db) i"

definition case_status :: "string \<Rightarrow> case_db \<Rightarrow> string option" where
  "case_status i db = (case map_of (cases db) i of
     Some rc \<Rightarrow> Some (rc_status rc) | None \<Rightarrow> map_option x_status (map_of (xcases db) i))"

definition update_case_status_tx :: "string \<Rightarrow> string \<Rightarrow> string \<Rightarrow> time \<Rightarrow> case_db \<Rightarrow> case_db option" where
  "update_case_status_tx i st who now db =
     (case map_of (cases db) i of
        Some rc \<Rightarrow> Some (db\<lparr>cases := AList.update i
           (rc\<lparr>rc_status := st, assigned_to := (if who = [] then assigned_to rc else who), updated_at := now\<rparr>) (cases db)\<rparr>)
      | None \<Rightarrow> (case map_of (xcases db) i of
          Some x \<Rightarrow> Some (db\<lparr>xcases := AList.update i (x\<lparr>x_status := st, x_updated_at := now\<rparr>) (xcases db)\<rparr>)
        | None \<Rightarrow> None))"

definition update_review_case_status :: "string option \<Rightarrow> string \<Rightarrow> string \<Rightarrow> string \<Rightarrow> time \<Rightarrow> case_db \<Rightarrow> string option \<times> case_db" where
  "update_review_case_status io i st who now db =
     (if st \<notin> set case_statuses then (Some ''invalid case status'', db)
      else case io of Some e \<Rightarrow> (Some e, db)
      | None \<Rightarrow> (case update_case_status_tx i st who now db of None \<Rightarrow> (Some ''not found'', db) | Some db' \<Rightarrow> (None, db')))"

definition negative_decision :: "moderator_decision \<Rightarrow> bool" where
  "negative_decision d \<longleftrightarrow> md_verdict d = ''false_positive'' \<or> (\<exists>fb\<in>set (md_detector_feedback d). dv_correct fb = ''no'')"

definition revoked_note :: string where
  "revoked_note = ''Recommendation superseded after negative human review; historical totals are not an actionable recommendation.''"

definition invalidate_pending_cross_match :: "string \<Rightarrow> string list \<Rightarrow> time \<Rightarrow> case_db \<Rightarrow> case_db" where
  "invalidate_pending_cross_match p ms now db = db\<lparr>xcases := gmap_vals (\<lambda>_ x.
     if x_status x = CasePending \<and> x_player_id x = p \<and> (\<exists>m\<in>set (x_match_ids x). m \<in> set ms)
     then x\<lparr>x_status := CaseClosed, x_updated_at := now,
            x_explanation := revoked_note @ (if x_explanation x = [] then [] else '' '' @ x_explanation x)\<rparr>
     else x) (xcases db)\<rparr>"

definition invalidate_case_recommendations :: "string \<Rightarrow> time \<Rightarrow> case_db \<Rightarrow> case_db" where
  "invalidate_case_recommendations i now db =
     (case map_of (cases db) i of
        Some rc \<Rightarrow> invalidate_pending_cross_match (rc_player_id rc) [rc_match_id rc] now db
      | None \<Rightarrow> (case map_of (xcases db) i of
          Some x \<Rightarrow> invalidate_pending_cross_match (x_player_id x) (x_match_ids x) now db | None \<Rightarrow> db))"

text \<open>The transaction of a decision: check the status, move the case, insert the row, revoke.\<close>

definition commit_decision :: "string option \<Rightarrow> moderator_decision \<Rightarrow> case_db \<Rightarrow> string option \<times> case_db" where
  "commit_decision io d db =
     (case io of Some e \<Rightarrow> (Some e, db)
      | None \<Rightarrow> (case case_status (md_case_id d) db of
          None \<Rightarrow> (Some ''not found'', db)
        | Some st \<Rightarrow>
            if st = CaseDecided \<or> st = CaseClosed then (Some ''case is already decided or closed'', db)
            else (case update_case_status_tx (md_case_id d) CaseDecided (md_moderator_id d) (md_decided_at d) db of
               None \<Rightarrow> (Some ''not found'', db)
             | Some db' \<Rightarrow>
                 if decision_id d \<in> decision_id ` set (decisions db')
                 then (Some ''insert decision: UNIQUE constraint failed'', db)
                 else let db' = db'\<lparr>decisions := decisions db' @ [d]\<rparr> in
                   (None, if negative_decision d then invalidate_case_recommendations (md_case_id d) (md_decided_at d) db' else db'))))"

definition fill_decision :: "string \<Rightarrow> time \<Rightarrow> moderator_decision \<Rightarrow> moderator_decision" where
  "fill_decision random_id now d = d\<lparr>decision_id := (if decision_id d = [] then random_id else decision_id d),
     md_decided_at := (if md_decided_at d = 0 then now else md_decided_at d)\<rparr>"

definition store_moderator_decision :: "string option \<Rightarrow> string \<Rightarrow> time \<Rightarrow> moderator_decision \<Rightarrow> case_db \<Rightarrow> string option \<times> case_db" where
  "store_moderator_decision io random_id now d db =
     (if md_verdict d \<notin> set verdicts then (Some ''invalid verdict'', db)
      else if md_case_id d = [] \<or> md_moderator_id d = [] then (Some ''case_id and moderator_id are required'', db)
      else if \<exists>fb\<in>set (md_detector_feedback d). dv_correct fb \<notin> set detector_verdicts
      then (Some ''invalid detector feedback'', db)
      else commit_decision io (fill_decision random_id now d) db)"

lemma fill_decision_simps [simp]:
  "md_case_id (fill_decision rid now d) = md_case_id d" "md_verdict (fill_decision rid now d) = md_verdict d"
  "md_moderator_id (fill_decision rid now d) = md_moderator_id d"
  "md_detector_feedback (fill_decision rid now d) = md_detector_feedback d"
  by (simp_all add: fill_decision_def)

section \<open>The queue\<close>

definition valid_transition :: "string \<Rightarrow> string \<Rightarrow> bool" where
  "valid_transition a b =
     (if a = CasePending then b \<in> set [CaseAssigned, CaseInReview, CaseDecided, CaseClosed]
      else if a = CaseAssigned then b \<in> set [CaseInReview, CaseDecided, CasePending, CaseClosed]
      else if a = CaseInReview then b \<in> set [CaseDecided, CaseAssigned, CaseClosed]
      else if a = CaseDecided then b \<in> set [CaseAppealed, CaseClosed]
      else if a = CaseAppealed then b \<in> set [CaseDecided, CaseClosed]
      else False)"

text \<open>The failures of the driver calls an operation makes, in their order: load, first and second write.\<close>

record io_faults =
  io_load :: "string option"
  io_first :: "string option"
  io_second :: "string option"

definition no_faults :: io_faults where
  "no_faults = \<lparr>io_load = None, io_first = None, io_second = None\<rparr>"

datatype queue_error = Unsupported | Load_failed string | Invalid_transition string string
  | Store_failed string | Invalid_input string

definition load_case :: "io_faults \<Rightarrow> string \<Rightarrow> case_db \<Rightarrow> queue_error + review_case" where
  "load_case io i db = (case io_load io of Some e \<Rightarrow> Inl (Load_failed e)
     | None \<Rightarrow> (case get_review_case i db of None \<Rightarrow> Inl (Load_failed ''no rows'') | Some rc \<Rightarrow> Inr rc))"

definition transition :: "bool \<Rightarrow> io_faults \<Rightarrow> time \<Rightarrow> string \<Rightarrow> string \<Rightarrow> string \<Rightarrow> case_db \<Rightarrow> (queue_error + review_case) \<times> case_db" where
  "transition lifecycle io now i to who0 db =
     (if \<not> lifecycle then (Inl Unsupported, db)
      else case load_case io i db of Inl e \<Rightarrow> (Inl e, db)
      | Inr rc \<Rightarrow>
          if \<not> valid_transition (rc_status rc) to then (Inl (Invalid_transition (rc_status rc) to), db)
          else let who = (if who0 = [] then assigned_to rc else who0) in
            (case update_review_case_status (io_first io) i to who now db of
              (Some e, db') \<Rightarrow> (Inl (Store_failed e), db')
            | (None, db') \<Rightarrow> (Inr (rc\<lparr>rc_status := to, assigned_to := who, updated_at := now\<rparr>), db')))"

definition assign :: "bool \<Rightarrow> io_faults \<Rightarrow> time \<Rightarrow> string \<Rightarrow> string \<Rightarrow> case_db \<Rightarrow> (queue_error + review_case) \<times> case_db" where
  "assign lifecycle io now i moderator db =
     (if moderator = [] then (Inl (Invalid_input ''review: moderator id required''), db)
      else transition lifecycle io now i CaseAssigned moderator db)"

definition start_review :: "bool \<Rightarrow> io_faults \<Rightarrow> time \<Rightarrow> string \<Rightarrow> string \<Rightarrow> case_db \<Rightarrow> (queue_error + review_case) \<times> case_db" where
  "start_review lifecycle io now i moderator db = transition lifecycle io now i CaseInReview moderator db"

definition decide_case :: "bool \<Rightarrow> io_faults \<Rightarrow> string \<Rightarrow> time \<Rightarrow> moderator_decision \<Rightarrow> case_db \<Rightarrow> (queue_error + review_case) \<times> case_db" where
  "decide_case lifecycle io random_id now d0 db =
     (case decision_validate d0 of Some e \<Rightarrow> (Inl (Invalid_input e), db)
      | None \<Rightarrow>
        if \<not> lifecycle then (Inl Unsupported, db)
        else case load_case io (md_case_id d0) db of Inl e \<Rightarrow> (Inl e, db)
        | Inr rc \<Rightarrow>
            if \<not> valid_transition (rc_status rc) CaseDecided then (Inl (Invalid_transition (rc_status rc) CaseDecided), db)
            else let d = fill_decision random_id now d0 in
              (case store_moderator_decision (io_first io) random_id now d db of
                (Some e, db') \<Rightarrow> (Inl (Store_failed e), db')
              | (None, db') \<Rightarrow>
                  let who = (if assigned_to rc = [] then md_moderator_id d else assigned_to rc) in
                  (case update_review_case_status (io_second io) (case_id rc) CaseDecided who now db' of
                    (Some e, db'') \<Rightarrow> (Inl (Store_failed e), db'')
                  | (None, db'') \<Rightarrow> (Inr (rc\<lparr>rc_status := CaseDecided, assigned_to := who, updated_at := now\<rparr>), db''))))"

text \<open>Cases of a match are stored one by one; a failure is collected and the rest goes on.\<close>

fun create_cases :: "(string \<Rightarrow> string option) \<Rightarrow> time \<Rightarrow> review_case list \<Rightarrow> case_db \<Rightarrow> (review_case list \<times> string list) \<times> case_db" where
  "create_cases fault now [] db = (([], []), db)"
| "create_cases fault now (rc # rcs) db =
     (case fault (case_id rc) of
        Some e \<Rightarrow> (let ((ok, errs), db') = create_cases fault now rcs db
                    in ((ok, (''review: storing case for player '' @ rc_player_id rc @ '': '' @ e) # errs), db'))
      | None \<Rightarrow> (let ((ok, errs), db') = create_cases fault now rcs (store_review_case now rc db)
                  in ((rc # ok, errs), db')))"

text \<open>The command line: the queue first, the cross-match table when the case is not in the queue.\<close>

definition record_verdict :: "io_faults \<Rightarrow> string \<Rightarrow> time \<Rightarrow> moderator_decision \<Rightarrow> case_db \<Rightarrow> (queue_error + review_case) \<times> case_db" where
  "record_verdict io random_id now d db =
     (case decide_case True io random_id now d db of
        (Inr rc, db') \<Rightarrow> (Inr rc, db')
      | (Inl (Invalid_transition a b), db') \<Rightarrow> (Inl (Invalid_transition a b), db')
      | (Inl e, db') \<Rightarrow>
          (case map_of (xcases db') (md_case_id d) of
            None \<Rightarrow> (Inl e, db')
          | Some x \<Rightarrow>
              (case store_moderator_decision (io_second io) random_id now d db' of
                (Some e2, db'') \<Rightarrow> (Inl (Store_failed e2), db'')
              | (None, db'') \<Rightarrow>
                  (Inr \<lparr>case_id = md_case_id d, rc_player_id = x_player_id x, rc_match_id = [], timestamp_start = 0,
                    timestamp_end = 0, detectors_triggered = [], rc_severity = [], rc_suspicion_score = Fin 0, rc_level = [],
                    rc_recommended_action = [], rc_explanation = [], rc_status = CaseDecided, assigned_to = [],
                    created_at = 0, updated_at = 0, close_reason = [], threshold_version = []\<rparr>, db''))))"

section \<open>The review workflow as a machine\<close>

text \<open>Every way the program changes a case: analysis stores and closes, moderators move and decide.\<close>

datatype review_call = Store_case time review_case | Close_stale time string "string list" string
  | Assign_case io_faults time string string | Start_case io_faults time string string
  | Decide_call io_faults string time moderator_decision | Verdict_call io_faults string time moderator_decision

fun review_step :: "review_call \<Rightarrow> case_db \<Rightarrow> case_db" where
  "review_step (Store_case now rc) db = store_review_case now rc db"
| "review_step (Close_stale now m keep why) db = snd (close_stale_review_cases now m keep why db)"
| "review_step (Assign_case io now i who) db = snd (assign True io now i who db)"
| "review_step (Start_case io now i who) db = snd (start_review True io now i who db)"
| "review_step (Decide_call io rid now d) db = snd (decide_case True io rid now d db)"
| "review_step (Verdict_call io rid now d) db = snd (record_verdict io rid now d db)"

text \<open>Analysis stores single-match cases under their deterministic identifier.\<close>

fun review_call_ok :: "review_call \<Rightarrow> bool" where
  "review_call_ok (Store_case now rc) = has_prefix (case_id rc) ''RC-''"
| "review_call_ok _ = True"

definition row_ok :: "string \<Rightarrow> review_case \<Rightarrow> bool" where
  "row_ok i rc \<longleftrightarrow> case_id rc = i \<and> has_prefix i ''RC-'' \<and> (close_reason rc \<noteq> [] \<longrightarrow> rc_status rc = CaseClosed)"

definition tables_ok :: "case_db \<Rightarrow> bool" where
  "tables_ok db \<longleftrightarrow> gok (cases db) \<and> gok (xcases db) \<and> (\<forall>i rc. map_of (cases db) i = Some rc \<longrightarrow> row_ok i rc) \<and>
     (\<forall>i x. map_of (xcases db) i = Some x \<longrightarrow> \<not> has_prefix i ''RC-'')"

definition decided_once :: "case_db \<Rightarrow> bool" where
  "decided_once db \<longleftrightarrow> distinct (map md_case_id (decisions db)) \<and>
     (\<forall>d\<in>set (decisions db). case_status (md_case_id d) db = Some CaseDecided)"

definition case_db_ok :: "case_db \<Rightarrow> bool" where
  "case_db_ok db \<longleftrightarrow> tables_ok db \<and> decided_once db"

text \<open>A change that keeps the decisions and every decided status keeps \<open>decided_once\<close>.\<close>

lemma decided_once_mono:
  "decided_once db \<Longrightarrow> decisions db' = decisions db \<Longrightarrow>
   (\<And>i. case_status i db = Some CaseDecided \<Longrightarrow> case_status i db' = Some CaseDecided) \<Longrightarrow> decided_once db'"
  by (simp add: decided_once_def)

lemma tables_okD:
  assumes "tables_ok db" "map_of (cases db) i = Some rc"
  shows "case_id rc = i" "has_prefix i ''RC-''" "close_reason rc \<noteq> [] \<Longrightarrow> rc_status rc = CaseClosed" "row_ok i rc"
  using assms by (auto simp: tables_ok_def row_ok_def)

lemma store_case_ok:
  assumes db: "case_db_ok db" and rc: "has_prefix (case_id rc) ''RC-''"
  shows "case_db_ok (store_review_case now rc db)"
proof -
  have t: "tables_ok db" using db by (simp add: case_db_ok_def)
  have "tables_ok (store_review_case now rc db)"
    using t rc by (auto simp: tables_ok_def row_ok_def store_review_case_def Let_def update_conv' split: option.split)
  moreover have "decided_once (store_review_case now rc db)"
  proof (rule decided_once_mono)
    show "decided_once db" using db by (simp add: case_db_ok_def)
    show "decisions (store_review_case now rc db) = decisions db"
      by (simp add: store_review_case_def Let_def split: option.split)
    fix i assume i: "case_status i db = Some CaseDecided"
    show "case_status i (store_review_case now rc db) = Some CaseDecided"
    proof (cases "i = case_id rc")
      case True
      then have "map_of (xcases db) i = None" using t rc by (cases "map_of (xcases db) i") (auto simp: tables_ok_def)
      with i obtain old where o: "map_of (cases db) (case_id rc) = Some old" "rc_status old = CaseDecided"
        using True by (auto simp: case_status_def split: option.splits)
      then have "close_reason old = []" using tables_okD [OF t o(1)] by (auto simp: status_names)
      then show ?thesis using o True
        by (simp add: case_status_def store_review_case_def Let_def update_conv' status_names)
    next
      case False
      then show ?thesis using i
        by (simp add: case_status_def store_review_case_def Let_def update_conv' split: option.splits)
    qed
  qed
  ultimately show ?thesis by (simp add: case_db_ok_def)
qed

lemma close_stale_ok:
  assumes db: "case_db_ok db"
  shows "case_db_ok (snd (close_stale_review_cases now m keep why db))"
proof -
  have t: "tables_ok db" using db by (simp add: case_db_ok_def)
  show ?thesis
  proof (cases "m = []")
    case False
    let ?r = "if why = [] then ''not flagged by re-analysis'' else why"
    let ?f = "\<lambda>rc :: review_case. if rc_match_id rc = m \<and> rc_status rc = CasePending \<and> rc_player_id rc \<notin> set keep
       then rc\<lparr>rc_status := CaseClosed, close_reason := ?r, updated_at := now\<rparr> else rc"
    have e: "snd (close_stale_review_cases now m keep why db) = db\<lparr>cases := gmap_vals (\<lambda>_. ?f) (cases db)\<rparr>"
      using False by (simp add: close_stale_review_cases_def Let_def)
    define g where "g = ?f"
    have f': "case_id (g rc) = case_id rc" "close_reason (g rc) \<noteq> [] \<Longrightarrow> close_reason rc \<noteq> [] \<or> rc_status (g rc) = CaseClosed"
      "rc_status rc = CaseDecided \<Longrightarrow> rc_status (g rc) = CaseDecided" "rc_status rc = CaseClosed \<Longrightarrow> rc_status (g rc) = CaseClosed" for rc
      by (auto simp: g_def status_names)
    have "tables_ok (db\<lparr>cases := gmap_vals (\<lambda>_. g) (cases db)\<rparr>)"
    proof -
      have rows: "row_ok i rc"
        if at_i: "map_of (gmap_vals (\<lambda>_. g) (cases db)) i = Some rc" for i rc
      proof -
        obtain old where o: "map_of (cases db) i = Some old" "rc = g old" using at_i by auto
        show ?thesis unfolding o(2) row_ok_def f'(1) using tables_okD(1-3) [OF t o(1)] f'(2,4) [of old] by metis
      qed
      have "gok (gmap_vals (\<lambda>_. g) (cases db))" using t by (simp add: tables_ok_def)
      then show ?thesis using t rows by (simp add: tables_ok_def)
    qed
    moreover have "decided_once (db\<lparr>cases := gmap_vals (\<lambda>_. g) (cases db)\<rparr>)"
      by (rule decided_once_mono [of db])
         (use db f' in \<open>auto simp: case_db_ok_def case_status_def split: option.splits\<close>)
    ultimately show ?thesis unfolding e g_def by (simp only: case_db_ok_def simp_thms)
  qed (use db in \<open>simp add: close_stale_review_cases_def\<close>)
qed

text \<open>Moving a case that is neither decided nor closed.\<close>

lemma update_tx:
  assumes t: "tables_ok db" and st: "case_status i db = Some a" "a \<noteq> CaseClosed"
    and u: "update_case_status_tx i s who now db = Some db'"
  shows "tables_ok db'" "decisions db' = decisions db"
    "case_status j db' = (if j = i then Some s else case_status j db)"
proof -
  have "tables_ok db' \<and> decisions db' = decisions db \<and> case_status j db' = (if j = i then Some s else case_status j db)"
  proof (cases "map_of (cases db) i")
    case (Some rc)
    then have cr: "close_reason rc = []" using tables_okD(3) [OF t Some] st by (auto simp: case_status_def)
    define w where "w = (if who = [] then assigned_to rc else who)"
    let ?rc = "rc\<lparr>rc_status := s, assigned_to := w, updated_at := now\<rparr>"
    have db': "db' = db\<lparr>cases := AList.update i ?rc (cases db)\<rparr>"
      using u Some by (simp add: update_case_status_tx_def w_def)
    have r: "row_ok i ?rc" "rc_status ?rc = s"
      using tables_okD(1-3) [OF t Some] cr by (simp_all add: row_ok_def)
    show ?thesis using t r unfolding db'
      by (simp add: tables_ok_def case_status_def update_conv' split: option.split)
  next
    case None
    then show ?thesis using t u st
      by (auto simp: tables_ok_def case_status_def update_case_status_tx_def update_conv' split: option.splits if_splits)
  qed
  then show "tables_ok db'" "decisions db' = decisions db"
    "case_status j db' = (if j = i then Some s else case_status j db)" by auto
qed

lemma update_tx_Some: "case_status i db = Some a \<Longrightarrow> \<exists>db'. update_case_status_tx i s who now db = Some db'"
  by (auto simp: case_status_def update_case_status_tx_def split: option.splits)

lemma invalidate_ok:
  "tables_ok db \<Longrightarrow> tables_ok (invalidate_case_recommendations i now db)"
  "decisions (invalidate_case_recommendations i now db) = decisions db"
  "cases (invalidate_case_recommendations i now db) = cases db"
  "case_status j db = Some s \<Longrightarrow> s \<noteq> CasePending \<Longrightarrow> case_status j (invalidate_case_recommendations i now db) = Some s"
  by (auto simp: tables_ok_def invalidate_case_recommendations_def invalidate_pending_cross_match_def case_status_def
      split: option.splits)

section \<open>Moderator calls keep the invariant\<close>

lemma update_status_ok:
  assumes t: "tables_ok db" and st: "case_status i db = Some a" "a \<noteq> CaseClosed" "s \<in> set case_statuses"
  shows "tables_ok (snd (update_review_case_status io i s who now db))"
    and "decisions (snd (update_review_case_status io i s who now db)) = decisions db"
    and "case_status j (snd (update_review_case_status io i s who now db)) =
      (if j = i \<and> io = None then Some s else case_status j db)"
    and "io = None \<longleftrightarrow> fst (update_review_case_status io i s who now db) = None"
proof -
  obtain db' where u: "update_case_status_tx i s who now db = Some db'" using update_tx_Some [OF st(1)] by blast
  note u' = update_tx [OF t st(1,2) u]
  show "tables_ok (snd (update_review_case_status io i s who now db))"
    "decisions (snd (update_review_case_status io i s who now db)) = decisions db"
    "case_status j (snd (update_review_case_status io i s who now db)) =
      (if j = i \<and> io = None then Some s else case_status j db)"
    "io = None \<longleftrightarrow> fst (update_review_case_status io i s who now db) = None"
    using u u' t st(3) by (auto simp: update_review_case_status_def split: option.split)
qed

lemma valid_transition_source: "valid_transition a b \<Longrightarrow> a \<noteq> CaseClosed"
  by (auto simp: valid_transition_def status_names split: if_splits)

lemma transition_ok:
  assumes db: "case_db_ok db" and to: "to \<in> set case_statuses" and nd: "\<not> valid_transition CaseDecided to"
  shows "case_db_ok (snd (transition lifecycle io now i to who db))"
proof (cases "\<exists>rc. lifecycle \<and> load_case io i db = Inr rc \<and> valid_transition (rc_status rc) to")
  case True
  then obtain rc where rc: "lifecycle" "load_case io i db = Inr rc" "valid_transition (rc_status rc) to" by blast
  then have m: "map_of (cases db) i = Some rc" by (auto simp: load_case_def get_review_case_def split: option.splits)
  then have st: "case_status i db = Some (rc_status rc)" by (simp add: case_status_def)
  have t: "tables_ok db" using db by (simp add: case_db_ok_def)
  let ?w = "if who = [] then assigned_to rc else who"
  have e: "snd (transition lifecycle io now i to who db) = snd (update_review_case_status (io_first io) i to ?w now db)"
    using rc by (auto simp: transition_def Let_def split: prod.splits option.splits)
  note u = update_status_ok [OF t st valid_transition_source [OF rc(3)] to]
  have ne: "rc_status rc \<noteq> CaseDecided" using rc(3) nd by auto
  have "decided_once (snd (update_review_case_status (io_first io) i to ?w now db))"
    by (rule decided_once_mono [of db]) (use db u st ne in \<open>auto simp: case_db_ok_def\<close>)
  then show ?thesis using u by (simp add: e case_db_ok_def)
next
  case False
  then have "snd (transition lifecycle io now i to who db) = db"
    by (auto simp: transition_def split: sum.split)
  then show ?thesis using db by simp
qed

lemma case_status_decisions [simp]: "case_status j (db\<lparr>decisions := ds\<rparr>) = case_status j db"
  by (simp add: case_status_def split: option.split)

lemma commit_decision_ok:
  assumes db: "case_db_ok db" and none: "fst (commit_decision io d db) = None"
  shows "case_db_ok (snd (commit_decision io d db)) \<and>
      case_status (md_case_id d) (snd (commit_decision io d db)) = Some CaseDecided \<and>
      decisions (snd (commit_decision io d db)) = decisions db @ [d] \<and>
      (\<exists>a. case_status (md_case_id d) db = Some a \<and> a \<noteq> CaseDecided \<and> a \<noteq> CaseClosed)"
proof -
  have t: "tables_ok db" and o: "decided_once db" using db by (auto simp: case_db_ok_def)
  obtain a db1 where a: "case_status (md_case_id d) db = Some a" "a \<noteq> CaseDecided" "a \<noteq> CaseClosed"
    and u: "update_case_status_tx (md_case_id d) CaseDecided (md_moderator_id d) (md_decided_at d) db = Some db1"
    and r: "snd (commit_decision io d db) = (if negative_decision d
       then invalidate_case_recommendations (md_case_id d) (md_decided_at d) (db1\<lparr>decisions := decisions db1 @ [d]\<rparr>)
       else db1\<lparr>decisions := decisions db1 @ [d]\<rparr>)"
    using none by (auto simp: commit_decision_def Let_def split: option.splits if_splits)
  let ?db2 = "db1\<lparr>decisions := decisions db1 @ [d]\<rparr>"
  note u' = update_tx [OF t a(1,3) u]
  have c: "case_status j ?db2 = case_status j db1" for j by simp
  have t2: "tables_ok ?db2" using u' by (simp add: tables_ok_def)
  have new: "md_case_id d \<notin> md_case_id ` set (decisions db)"
    using o a by (force simp: decided_once_def)
  have d2: "decided_once ?db2" using o u' new by (auto simp: decided_once_def c)
  have nb: "CaseDecided \<noteq> CasePending" by (simp add: status_names)
  have inv: "decided_once (invalidate_case_recommendations (md_case_id d) (md_decided_at d) ?db2)"
    by (rule decided_once_mono [OF d2]) (use invalidate_ok nb in auto)
  have c2: "case_status (md_case_id d) ?db2 = Some CaseDecided" by (simp add: c u'(3))
  show ?thesis
  proof (cases "negative_decision d")
    case True
    with r have r': "snd (commit_decision io d db) = invalidate_case_recommendations (md_case_id d) (md_decided_at d) ?db2" by simp
    show ?thesis
      unfolding r' case_db_ok_def invalidate_ok(2)
      using inv invalidate_ok(1) [OF t2] invalidate_ok(4) [OF c2 nb] a u'(2) by simp
  next
    case False
    with r have r': "snd (commit_decision io d db) = ?db2" by simp
    show ?thesis unfolding r' case_db_ok_def using t2 d2 c2 a u'(2) by simp
  qed
qed

lemma commit_decision_error: "fst (commit_decision io d db) \<noteq> None \<Longrightarrow> snd (commit_decision io d db) = db"
  by (auto simp: commit_decision_def Let_def split: option.splits if_splits)

lemma store_decision_ok:
  assumes db: "case_db_ok db"
  shows "case_db_ok (snd (store_moderator_decision io rid now d db))"
    and "fst (store_moderator_decision io rid now d db) \<noteq> None \<Longrightarrow> snd (store_moderator_decision io rid now d db) = db"
    and "fst (store_moderator_decision io rid now d db) = None \<Longrightarrow>
      case_status (md_case_id d) (snd (store_moderator_decision io rid now d db)) = Some CaseDecided \<and>
      decisions (snd (store_moderator_decision io rid now d db)) = decisions db @ [fill_decision rid now d] \<and>
      (\<exists>a. case_status (md_case_id d) db = Some a \<and> a \<noteq> CaseDecided \<and> a \<noteq> CaseClosed)"
proof -
  let ?c = "commit_decision io (fill_decision rid now d) db"
  have c: "store_moderator_decision io rid now d db = ?c \<or>
      (\<exists>e. store_moderator_decision io rid now d db = (Some e, db))"
    by (simp add: store_moderator_decision_def)
  have ok: "case_db_ok (snd ?c)"
  proof (cases "fst ?c = None")
    case True
    from commit_decision_ok [OF db this] show ?thesis by blast
  next
    case False
    from commit_decision_error [OF this] db show ?thesis by simp
  qed
  show "case_db_ok (snd (store_moderator_decision io rid now d db))" using c ok db by auto
  show "fst (store_moderator_decision io rid now d db) \<noteq> None \<Longrightarrow> snd (store_moderator_decision io rid now d db) = db"
    using c commit_decision_error by auto
  show "fst (store_moderator_decision io rid now d db) = None \<Longrightarrow>
      case_status (md_case_id d) (snd (store_moderator_decision io rid now d db)) = Some CaseDecided \<and>
      decisions (snd (store_moderator_decision io rid now d db)) = decisions db @ [fill_decision rid now d] \<and>
      (\<exists>a. case_status (md_case_id d) db = Some a \<and> a \<noteq> CaseDecided \<and> a \<noteq> CaseClosed)"
    using c commit_decision_ok [OF db, of io "fill_decision rid now d"] by auto
qed

lemma load_case_Inr: "load_case io i db = Inr rc \<Longrightarrow> map_of (cases db) i = Some rc"
  by (auto simp: load_case_def get_review_case_def split: option.splits)

lemma case_db_ok_tables: "case_db_ok db \<Longrightarrow> tables_ok db"
  by (simp add: case_db_ok_def)

lemma decide_case_ok:
  assumes db: "case_db_ok db"
  shows "case_db_ok (snd (decide_case lifecycle io rid now d db))"
proof (cases "\<exists>rc. decision_validate d = None \<and> lifecycle \<and> load_case io (md_case_id d) db = Inr rc \<and>
    valid_transition (rc_status rc) CaseDecided \<and>
    fst (store_moderator_decision (io_first io) rid now (fill_decision rid now d) db) = None")
  case True
  then obtain rc where rc: "decision_validate d = None" "lifecycle" "load_case io (md_case_id d) db = Inr rc"
    "valid_transition (rc_status rc) CaseDecided"
    and none: "fst (store_moderator_decision (io_first io) rid now (fill_decision rid now d) db) = None" by blast
  define db1 where "db1 = snd (store_moderator_decision (io_first io) rid now (fill_decision rid now d) db)"
  have sm: "store_moderator_decision (io_first io) rid now (fill_decision rid now d) db = (None, db1)"
    using none by (cases "store_moderator_decision (io_first io) rid now (fill_decision rid now d) db") (simp add: db1_def)
  note s1 = store_decision_ok [OF db, of "io_first io" rid now "fill_decision rid now d", unfolded sm, simplified]
  let ?w = "if assigned_to rc = [] then md_moderator_id d else assigned_to rc"
  have id: "case_id rc = md_case_id d"
    using tables_okD(1) [OF case_db_ok_tables [OF db] load_case_Inr [OF rc(3)]] .
  have e: "snd (decide_case lifecycle io rid now d db) =
     snd (update_review_case_status (io_second io) (md_case_id d) CaseDecided ?w now db1)"
    using rc by (simp add: decide_case_def sm id Let_def split: prod.splits option.splits)
  have st: "case_status (md_case_id d) db1 = Some CaseDecided" using s1 by simp
  have nc: "CaseDecided \<noteq> CaseClosed" "CaseDecided \<in> set case_statuses" by (simp_all add: status_names case_statuses_def)
  note u = update_status_ok [OF case_db_ok_tables [OF s1(1)] st nc]
  have "decided_once (snd (update_review_case_status (io_second io) (md_case_id d) CaseDecided ?w now db1))"
    by (rule decided_once_mono [of db1]) (use s1 u in \<open>auto simp: case_db_ok_def\<close>)
  then show ?thesis using u by (simp add: e case_db_ok_def)
next
  case False
  have "snd (decide_case lifecycle io rid now d db) = db"
  proof (cases "decision_validate d = None \<and> lifecycle \<and> (\<exists>rc. load_case io (md_case_id d) db = Inr rc \<and> valid_transition (rc_status rc) CaseDecided)")
    case True
    with False have "fst (store_moderator_decision (io_first io) rid now (fill_decision rid now d) db) \<noteq> None" by metis
    moreover from this have "snd (store_moderator_decision (io_first io) rid now (fill_decision rid now d) db) = db"
      by (rule store_decision_ok(2) [OF db])
    ultimately show ?thesis using True
      by (auto simp: decide_case_def Let_def split: prod.splits option.splits)
  qed (auto simp: decide_case_def split: option.split sum.split)
  then show ?thesis using db by simp
qed

lemma record_verdict_ok:
  assumes db: "case_db_ok db"
  shows "case_db_ok (snd (record_verdict io rid now d db))"
proof -
  obtain r db1 where d: "decide_case True io rid now d db = (r, db1)" by force
  have ok: "case_db_ok db1" using decide_case_ok [OF db, of True io rid now d] d by simp
  show ?thesis
    using ok store_decision_ok(1) [OF ok, of "io_second io" rid now d]
    by (auto simp: record_verdict_def d split: sum.split queue_error.split option.split prod.splits)
qed

interpretation rv: machine review_step review_call_ok case_db_ok
proof
  have to: "CaseAssigned \<in> set case_statuses" "\<not> valid_transition CaseDecided CaseAssigned"
    "CaseInReview \<in> set case_statuses" "\<not> valid_transition CaseDecided CaseInReview"
    by (auto simp: case_statuses_def valid_transition_def status_names)
  show "case_db_ok (review_step c db)" if "case_db_ok db" "review_call_ok c" for db c
    using that by (cases c)
      (simp_all add: store_case_ok close_stale_ok assign_def start_review_def transition_ok to decide_case_ok record_verdict_ok)
qed

section \<open>Properties\<close>

text \<open>C10: From tables with no decisions, along any mix of analysis runs (storing and closing cases)
  and moderator calls (assign, start, decide, verdict), with driver failures anywhere, no case ever
  receives a second decision, and a case that has a decision stays \<open>decided\<close>.\<close>
theorem one_decision_per_case:
  assumes "tables_ok db0" "decisions db0 = []" "list_all review_call_ok calls"
  shows "let db = fold review_step calls db0 in
    distinct (map md_case_id (decisions db)) \<and>
    (\<forall>d\<in>set (decisions db). case_status (md_case_id d) db = Some CaseDecided)"
proof -
  have "case_db_ok db0" using assms(1,2) by (simp add: case_db_ok_def decided_once_def)
  from rv.run_inv [OF this assms(3)] show ?thesis by (simp add: Let_def case_db_ok_def decided_once_def)
qed

definition sample_case_db :: case_db where
  "sample_case_db = \<lparr>cases = [],
     xcases = [(''XM-p1'', \<lparr>x_player_id = ''p1'', x_match_ids = [''m1''], x_status = CasePending, x_updated_at = 0, x_explanation = []\<rparr>)],
     decisions = []\<rparr>"

definition sample_case :: review_case where
  "sample_case = build_case (\<lambda>_. ''g'') 100 ''RC-m1-p1'' (new_builder default_level_table) ''p1'' None
     (zero_score ''p1'' default_level_table) [sample_event]"

definition sample_decision :: moderator_decision where
  "sample_decision = \<lparr>decision_id = ''d1'', md_case_id = ''RC-m1-p1'', md_moderator_id = ''mod'', md_verdict = ''false_positive'',
     md_action_taken = [], md_notes = [], md_decided_at = 50, md_confidence_override = None,
     md_review_duration_sec = 30, md_detector_feedback = []\<rparr>"

definition sample_calls :: "review_call list" where
  "sample_calls = [Store_case 10 sample_case, Start_case no_faults 20 ''RC-m1-p1'' ''mod'',
     Decide_call no_faults ''r1'' 30 sample_decision, Verdict_call no_faults ''r2'' 40 (sample_decision\<lparr>decision_id := ''d2''\<rparr>)]"

lemma sample_calls_ok: "list_all review_call_ok sample_calls"
  by (simp add: sample_calls_def sample_case_def build_case_def has_prefix_def Let_def)

theorem one_decision_per_case_witness:
  "distinct (map md_case_id (decisions (fold review_step sample_calls sample_case_db)))"
proof -
  have "tables_ok sample_case_db" "decisions sample_case_db = []"
    by (simp_all add: tables_ok_def sample_case_db_def gok_def has_prefix_def)
  from one_decision_per_case [OF this sample_calls_ok] show ?thesis by (simp only: Let_def)
qed

text \<open>C11: A re-analysis never undoes a moderator: storing a case again or closing stale cases leaves a
  case whose status is not \<open>pending\<close> and that the system did not close with its status and, when it
  has one, its assignee. A case the system closed is reopened with the new status, and closing
  stale cases touches only pending cases of that match whose player is no longer flagged.\<close>
theorem reanalysis_respects_moderators:
  assumes "map_of (cases db) i = Some rc"
  shows "(\<exists>rc'. map_of (cases (store_review_case now new db)) i = Some rc' \<and>
      (if rc_status rc \<noteq> CasePending \<and> close_reason rc = [] then rc_status rc' = rc_status rc else True) \<and>
      (if assigned_to rc \<noteq> [] then assigned_to rc' = assigned_to rc else True) \<and>
      (if case_id new = i \<and> close_reason rc \<noteq> [] then rc_status rc' = or_pending (rc_status new) \<and> close_reason rc' = [] else True)) \<and>
    (\<exists>rc'. map_of (cases (snd (close_stale_review_cases now m keep why db))) i = Some rc' \<and>
      (if rc_status rc = CasePending \<and> rc_match_id rc = m \<and> rc_player_id rc \<notin> set keep \<and> m \<noteq> []
       then rc_status rc' = CaseClosed \<and> close_reason rc' \<noteq> [] else rc' = rc))"
proof
  show "\<exists>rc'. map_of (cases (store_review_case now new db)) i = Some rc' \<and>
      (if rc_status rc \<noteq> CasePending \<and> close_reason rc = [] then rc_status rc' = rc_status rc else True) \<and>
      (if assigned_to rc \<noteq> [] then assigned_to rc' = assigned_to rc else True) \<and>
      (if case_id new = i \<and> close_reason rc \<noteq> [] then rc_status rc' = or_pending (rc_status new) \<and> close_reason rc' = [] else True)"
    using assms by (cases "map_of (cases db) (case_id new)")
      (auto simp: store_review_case_def Let_def update_conv')
  show "\<exists>rc'. map_of (cases (snd (close_stale_review_cases now m keep why db))) i = Some rc' \<and>
      (if rc_status rc = CasePending \<and> rc_match_id rc = m \<and> rc_player_id rc \<notin> set keep \<and> m \<noteq> []
       then rc_status rc' = CaseClosed \<and> close_reason rc' \<noteq> [] else rc' = rc)"
    using assms by (auto simp: close_stale_review_cases_def Let_def)
qed

theorem reanalysis_respects_moderators_witness:
  "\<exists>rc'. map_of (cases (snd (close_stale_review_cases 9 ''m1'' [] [] (store_review_case 5 sample_case sample_case_db)))) ''RC-m1-p1'' = Some rc'"
proof -
  have "case_id sample_case = ''RC-m1-p1''" by (simp add: sample_case_def build_case_def Let_def)
  then obtain rc where "map_of (cases (store_review_case 5 sample_case sample_case_db)) ''RC-m1-p1'' = Some rc"
    by (simp add: store_review_case_def Let_def update_conv' sample_case_db_def)
  from reanalysis_respects_moderators [OF this] show ?thesis by blast
qed

lemma transition_moves:
  assumes db: "case_db_ok db" and to: "to \<in> set case_statuses"
  shows "case transition True io now i to who db of
      (Inl e, db') \<Rightarrow> db' = db
    | (Inr rc', db') \<Rightarrow> (\<exists>rc. map_of (cases db) i = Some rc \<and> valid_transition (rc_status rc) to \<and> rc_status rc' = to) \<and>
        case_status i db' = Some to \<and> decisions db' = decisions db \<and> (\<forall>j. j \<noteq> i \<longrightarrow> case_status j db' = case_status j db)"
proof (cases "load_case io i db")
  case (Inr rc)
  then have m: "map_of (cases db) i = Some rc" by (rule load_case_Inr)
  then have st: "case_status i db = Some (rc_status rc)" by (simp add: case_status_def)
  let ?w = "if who = [] then assigned_to rc else who"
  obtain r db' where u: "update_review_case_status (io_first io) i to ?w now db = (r, db')" by force
  note us = update_status_ok [OF case_db_ok_tables [OF db] st _ to, where io = "io_first io" and who = ?w and now = now, unfolded u, simplified]
  have err: "r \<noteq> None \<Longrightarrow> db' = db"
    using u by (auto simp: update_review_case_status_def split: option.splits if_splits)
  show ?thesis
    using Inr m u us err valid_transition_source [of "rc_status rc" to]
    by (cases r) (auto simp: transition_def Let_def)
qed (simp add: transition_def)

lemma decide_moves:
  assumes db: "case_db_ok db"
  shows "case decide_case True io rid now d db of
      (Inl e, db') \<Rightarrow> db' = db \<or> (decisions db' = decisions db @ [fill_decision rid now d] \<and>
         case_status (md_case_id d) db' = Some CaseDecided \<and> io_second io \<noteq> None)
    | (Inr rc', db') \<Rightarrow> (\<exists>rc. map_of (cases db) (md_case_id d) = Some rc \<and> valid_transition (rc_status rc) CaseDecided) \<and>
        decisions db' = decisions db @ [fill_decision rid now d] \<and> case_status (md_case_id d) db' = Some CaseDecided \<and>
        rc_status rc' = CaseDecided"
proof (cases "decision_validate d = None \<and> (\<exists>rc. load_case io (md_case_id d) db = Inr rc \<and> valid_transition (rc_status rc) CaseDecided)")
  case True
  then obtain rc where rc: "decision_validate d = None" "load_case io (md_case_id d) db = Inr rc"
    "valid_transition (rc_status rc) CaseDecided" by blast
  have m: "map_of (cases db) (md_case_id d) = Some rc" using rc(2) by (rule load_case_Inr)
  have id: "case_id rc = md_case_id d" using tables_okD(1) [OF case_db_ok_tables [OF db] m] .
  obtain r1 db1 where sm: "store_moderator_decision (io_first io) rid now (fill_decision rid now d) db = (r1, db1)" by force
  note s1 = store_decision_ok [OF db, of "io_first io" rid now "fill_decision rid now d", unfolded sm, simplified]
  have ff: "fill_decision rid now (fill_decision rid now d) = fill_decision rid now d"
    by (simp add: fill_decision_def)
  show ?thesis
  proof (cases r1)
    case None
    let ?w = "if assigned_to rc = [] then md_moderator_id d else assigned_to rc"
    have nc: "CaseDecided \<noteq> CaseClosed" "CaseDecided \<in> set case_statuses" by (simp_all add: status_names case_statuses_def)
    obtain r2 db2 where u: "update_review_case_status (io_second io) (md_case_id d) CaseDecided ?w now db1 = (r2, db2)" by force
    have st: "case_status (md_case_id d) db1 = Some CaseDecided" using s1 None by simp
    note us = update_status_ok [OF case_db_ok_tables [OF s1(1)] st nc, where io = "io_second io" and who = ?w and now = now, unfolded u, simplified]
    have d: "decide_case True io rid now d db = (case r2 of Some e \<Rightarrow> (Inl (Store_failed e), db2)
        | None \<Rightarrow> (Inr (rc\<lparr>rc_status := CaseDecided, assigned_to := ?w, updated_at := now\<rparr>), db2))"
      using u by (cases "assigned_to rc = []"; cases r2) (simp_all add: decide_case_def sm None id Let_def rc)
    show ?thesis
      using us s1 None m rc st ff by (cases r2) (auto simp: d)
  next
    case (Some e)
    then show ?thesis using rc s1 by (simp add: decide_case_def sm Let_def)
  qed
qed (auto simp: decide_case_def split: option.split sum.split)



section \<open>Cases of a match\<close>

lemma configured_levels [simp]: "b_levels (configured_builder t opts) = or_default t"
  by (simp add: configured_builder_def builder_set_levels_def new_builder_def or_default_def Let_def split: option.split)

lemma with_case_id_simps [simp]:
  "rc_player_id (with_case_id mc p rc) = rc_player_id rc" "rc_status (with_case_id mc p rc) = rc_status rc"
  "detectors_triggered (with_case_id mc p rc) = detectors_triggered rc" "rc_level (with_case_id mc p rc) = rc_level rc"
  "rc_suspicion_score (with_case_id mc p rc) = rc_suspicion_score rc"
  "rc_recommended_action (with_case_id mc p rc) = rc_recommended_action rc"
  by (simp_all add: with_case_id_def split: option.split)

lemma case_id_with_case_id: "mc_match_id c \<noteq> [] \<Longrightarrow> case_id (with_case_id (Some c) p rc) = case_id_of (mc_match_id c) p"
  by (simp add: with_case_id_def)

lemma build_case_simps [simp]:
  "rc_player_id (build_case g now i b p mc sc evs) = p" "rc_status (build_case g now i b p mc sc evs) = CasePending"
  "detectors_triggered (build_case g now i b p mc sc evs) = map (trigger b) (case_events p evs)"
  "rc_level (build_case g now i b p mc sc evs) = level_name (level_for (b_levels b) (total_score sc))"
  "rc_suspicion_score (build_case g now i b p mc sc evs) = total_score sc"
  "rc_recommended_action (build_case g now i b p mc sc evs) = recommended_action_for_level (level_for (b_levels b) (total_score sc))"
  by (simp_all add: build_case_def Let_def split: option.split list.split)

lemma trigger_id [simp]: "td_event_id (trigger b e) = event_id e"
  by (simp add: trigger_def)

lemma never_ban: "recommended_action_for_level l \<in> {''temp_restrict'', ''review_only'', ''enhanced_monitoring'', ''none''}"
  by (simp add: recommended_action_for_level_def)

lemma mset_case_events: "mset (case_events p (filter q evs)) = mset (filter (\<lambda>e. (player_id e = p \<and> \<not> is_shadow e) \<and> q e) evs)"
  by (simp add: case_events_def) (metis (lifting) conj_commute conj_assoc)

text \<open>C13: A finished match yields exactly one pending case per scored player that reached the
  minimum tier with at least one non-shadow detection, in player order, under the stable identifier
  of the match and the player; the case lists exactly that player's non-shadow detections, carries
  the tier its score has in the level table in force, and never recommends a ban.\<close>

theorem build_cases_exactly:
  fixes table0 events
  defines "table \<equiv> or_default table0" and "of_player \<equiv> (\<lambda>p. filter (\<lambda>e. \<not> is_shadow e \<and> player_id e = p) events)"
  assumes scores: "gok scores" and mc: "mc_match_id c \<noteq> []"
  shows "let rcs = build_cases g now rid (Some c) events scores table0 opts in
     sorted (map rc_player_id rcs) \<and> distinct (map rc_player_id rcs) \<and>
     (\<forall>p. p \<in> set (map rc_player_id rcs) \<longleftrightarrow> (\<exists>sc. map_of scores p = Some sc \<and> of_player p \<noteq> [] \<and>
        at_least (level_for table (total_score sc)) (opt_min_level opts))) \<and>
     (\<forall>rc \<in> set rcs. case_id rc = case_id_of (mc_match_id c) (rc_player_id rc) \<and> rc_status rc = CasePending \<and>
        mset (map td_event_id (detectors_triggered rc)) = mset (map event_id (of_player (rc_player_id rc))) \<and>
        rc_level rc = level_name (level_for table (rc_suspicion_score rc)) \<and> rc_recommended_action rc \<noteq> ''ban'')"
proof -
  define ps where "ps = filter (\<lambda>p. of_player p \<noteq> [] \<and>
    at_least (level_for table (total_score (the (map_of scores p)))) (opt_min_level opts)) (sort (map fst scores))"
  define mk where "mk = (\<lambda>p. with_case_id (Some c) p (build_case g now (rid p) (configured_builder table opts) p (Some c)
    (the (map_of scores p)) (of_player p)))"
  have b: "build_cases g now rid (Some c) events scores table0 opts = map mk ps"
    by (simp add: build_cases_def mk_def ps_def table_def of_player_def Let_def)
  have id: "map rc_player_id (map mk ps) = ps" by (simp add: mk_def comp_def)
  have t: "or_default table = table" by (simp add: table_def or_default_def)
  have s: "sorted ps" "distinct ps" using scores by (simp_all add: ps_def sorted_wrt_filter gok_def)
  have mem: "p \<in> set ps \<longleftrightarrow> (\<exists>sc. map_of scores p = Some sc \<and> of_player p \<noteq> [] \<and>
      at_least (level_for table (total_score sc)) (opt_min_level opts))" for p
    by (cases "map_of scores p") (auto simp: ps_def map_of_eq_None_iff dest: map_of_SomeD intro: rev_image_eqI)
  have ev: "mset (case_events p (of_player p)) = mset (of_player p)" for p
    by (simp add: of_player_def mset_case_events conj_commute)
  have "\<forall>rc \<in> set (map mk ps). case_id rc = case_id_of (mc_match_id c) (rc_player_id rc) \<and> rc_status rc = CasePending \<and>
        mset (map td_event_id (detectors_triggered rc)) = mset (map event_id (of_player (rc_player_id rc))) \<and>
        rc_level rc = level_name (level_for table (rc_suspicion_score rc)) \<and> rc_recommended_action rc \<noteq> ''ban''"
  proof
    fix rc assume "rc \<in> set (map mk ps)"
    then obtain p where rc: "rc = mk p" by auto
    have "mset (map event_id (case_events p (of_player p))) = mset (map event_id (of_player p))"
      by (simp add: ev)
    then show "case_id rc = case_id_of (mc_match_id c) (rc_player_id rc) \<and> rc_status rc = CasePending \<and>
        mset (map td_event_id (detectors_triggered rc)) = mset (map event_id (of_player (rc_player_id rc))) \<and>
        rc_level rc = level_name (level_for table (rc_suspicion_score rc)) \<and> rc_recommended_action rc \<noteq> ''ban''"
      using never_ban [of "level_for table (total_score (the (map_of scores p)))"] mc
      by (auto simp: rc mk_def t comp_def case_id_with_case_id)
  qed
  then show ?thesis unfolding b Let_def id using s mem by blast
qed

definition sample_scores :: "(string, suspicion_score) gomap" where
  "sample_scores = [(''p1'', (zero_score ''p1'' default_level_table)\<lparr>total_score := Fin 60\<rparr>)]"

theorem build_cases_exactly_witness:
  "''p1'' \<in> set (map rc_player_id (build_cases (\<lambda>_. ''g'') 100 (\<lambda>_. ''r'') (Some sample_match) [sample_event]
     sample_scores default_level_table default_options))"
proof -
  have ok: "gok sample_scores" "mc_match_id sample_match \<noteq> []"
    by (simp_all add: sample_scores_def gok_def sample_match_def)
  have tier: "at_least (level_for (or_default default_level_table) (Fin 60)) (opt_min_level default_options)" by code_simp
  have "\<exists>sc. map_of sample_scores ''p1'' = Some sc \<and> filter (\<lambda>e. \<not> is_shadow e \<and> player_id e = ''p1'') [sample_event] \<noteq> [] \<and>
      at_least (level_for (or_default default_level_table) (total_score sc)) (opt_min_level default_options)"
    using tier by (simp add: sample_scores_def sample_event_def)
  then show ?thesis using build_cases_exactly [OF ok] by (simp only: Let_def)
qed

end
