(* ===== verification/Geometry.thy ===== *)
theory Geometry
  imports Go_Float
begin

text \<open>
  Vectors and rotations (\<open>internal/model/vec3.go\<close>, \<open>quat.go\<close>, \<open>orientation.go\<close>) over \<open>f64\<close>, operation
  by operation in the order the code evaluates them, so that a rounding or a NaN of the code is a
  rounding or a NaN here; and the clamps of \<open>math_helpers.go\<close>.

  \<open>math.Acos\<close> is the argument \<open>acos\<close> of the operations that use it: the standard library documents
  its special cases but not its rounding.
\<close>

datatype vec3 = Vec3 (vx: f64) (vy: f64) (vz: f64)
datatype quat = Quat (qx: f64) (qy: f64) (qz: f64) (qw: f64)

instantiation vec3 :: zero
begin
definition zero_vec3 :: vec3 where "zero_vec3 = Vec3 (Fin 0) (Fin 0) (Fin 0)"
instance ..
end

instantiation quat :: zero
begin
definition zero_quat :: quat where "zero_quat = Quat (Fin 0) (Fin 0) (Fin 0) (Fin 0)"
instance ..
end

section \<open>Clamps\<close>

definition clamp :: "f64 \<Rightarrow> f64 \<Rightarrow> f64 \<Rightarrow> f64" where
  "clamp v lo hi = (if is_nan v then lo else if flt v lo then lo else if flt hi v then hi else v)"

definition clamp01 :: "f64 \<Rightarrow> f64" where
  "clamp01 v = (if is_nan v then Fin 0 else if flt v (Fin 0) then Fin 0 else if flt (Fin 1) v then Fin 1 else v)"

text \<open>\<open>math.Pi\<close>, as the standard library writes it, and the conversion to degrees.\<close>

definition go_pi :: rat where
  "go_pi = 314159265358979323846264338327950288419716939937510582097494459 / 10 ^ 62"

definition rad_to_deg :: "f64 \<Rightarrow> f64" where
  "rad_to_deg r = fdiv (fmul r (Fin 180)) (flit go_pi)"

section \<open>Vectors\<close>

fun v_add :: "vec3 \<Rightarrow> vec3 \<Rightarrow> vec3" where
  "v_add (Vec3 a b c) (Vec3 d e f) = Vec3 (fadd a d) (fadd b e) (fadd c f)"

fun v_sub :: "vec3 \<Rightarrow> vec3 \<Rightarrow> vec3" where
  "v_sub (Vec3 a b c) (Vec3 d e f) = Vec3 (fsub a d) (fsub b e) (fsub c f)"

fun v_scale :: "vec3 \<Rightarrow> f64 \<Rightarrow> vec3" where
  "v_scale (Vec3 a b c) s = Vec3 (fmul a s) (fmul b s) (fmul c s)"

fun v_dot :: "vec3 \<Rightarrow> vec3 \<Rightarrow> f64" where
  "v_dot (Vec3 a b c) (Vec3 d e f) = fadd (fadd (fmul a d) (fmul b e)) (fmul c f)"

fun v_cross :: "vec3 \<Rightarrow> vec3 \<Rightarrow> vec3" where
  "v_cross (Vec3 a b c) (Vec3 d e f) =
     Vec3 (fsub (fmul b f) (fmul c e)) (fsub (fmul c d) (fmul a f)) (fsub (fmul a e) (fmul b d))"

definition v_magnitude_sq :: "vec3 \<Rightarrow> f64" where
  "v_magnitude_sq v = fadd (fadd (fmul (vx v) (vx v)) (fmul (vy v) (vy v))) (fmul (vz v) (vz v))"

definition v_magnitude :: "vec3 \<Rightarrow> f64" where
  "v_magnitude v = fsqrt (fadd (fadd (fmul (vx v) (vx v)) (fmul (vy v) (vy v))) (fmul (vz v) (vz v)))"

definition tiny :: f64 where "tiny = flit (1 / 10 ^ 12)"

definition v_normalized :: "vec3 \<Rightarrow> vec3" where
  "v_normalized v = (let m = v_magnitude v in
     if flt m tiny then 0 else Vec3 (fdiv (vx v) m) (fdiv (vy v) m) (fdiv (vz v) m))"

definition v_distance :: "vec3 \<Rightarrow> vec3 \<Rightarrow> f64" where
  "v_distance v u = v_magnitude (v_sub v u)"

definition v_is_zero :: "vec3 \<Rightarrow> bool" where
  "v_is_zero v \<longleftrightarrow> feq (vx v) (Fin 0) \<and> feq (vy v) (Fin 0) \<and> feq (vz v) (Fin 0)"

definition v_has_nan :: "vec3 \<Rightarrow> bool" where
  "v_has_nan v \<longleftrightarrow> is_nan (vx v) \<or> is_nan (vy v) \<or> is_nan (vz v)"

definition v_has_inf :: "vec3 \<Rightarrow> bool" where
  "v_has_inf v \<longleftrightarrow> is_inf (vx v) \<or> is_inf (vy v) \<or> is_inf (vz v)"

definition v_angle_between :: "(f64 \<Rightarrow> f64) \<Rightarrow> vec3 \<Rightarrow> vec3 \<Rightarrow> f64" where
  "v_angle_between acos v u = (let vm = v_magnitude v; um = v_magnitude u in
     if flt vm tiny \<or> flt um tiny then Fin 0
     else acos (clamp (fdiv (v_dot v u) (fmul vm um)) (Fin (- 1)) (Fin 1)))"

section \<open>Quaternions\<close>

definition quat_identity :: quat where
  "quat_identity = Quat (Fin 0) (Fin 0) (Fin 0) (Fin 1)"

fun q_dot :: "quat \<Rightarrow> quat \<Rightarrow> f64" where
  "q_dot (Quat a b c d) (Quat e f g h) = fadd (fadd (fadd (fmul a e) (fmul b f)) (fmul c g)) (fmul d h)"

definition q_magnitude :: "quat \<Rightarrow> f64" where
  "q_magnitude q = fsqrt (fadd (fadd (fadd (fmul (qx q) (qx q)) (fmul (qy q) (qy q))) (fmul (qz q) (qz q))) (fmul (qw q) (qw q)))"

definition q_over :: "quat \<Rightarrow> f64 \<Rightarrow> quat" where
  "q_over q m = Quat (fdiv (qx q) m) (fdiv (qy q) m) (fdiv (qz q) m) (fdiv (qw q) m)"

definition q_normalize :: "quat \<Rightarrow> quat" where
  "q_normalize q = (let m = q_magnitude q in if flt m tiny then quat_identity else q_over q m)"

fun q_conjugate :: "quat \<Rightarrow> quat" where
  "q_conjugate (Quat a b c d) = Quat (fneg a) (fneg b) (fneg c) d"

fun q_multiply :: "quat \<Rightarrow> quat \<Rightarrow> quat" where
  "q_multiply (Quat a b c d) (Quat e f g h) = Quat
     (fsub (fadd (fadd (fmul d e) (fmul a h)) (fmul b g)) (fmul c f))
     (fadd (fadd (fsub (fmul d f) (fmul a g)) (fmul b h)) (fmul c e))
     (fadd (fsub (fadd (fmul d g) (fmul a f)) (fmul b e)) (fmul c h))
     (fsub (fsub (fsub (fmul d h) (fmul a e)) (fmul b f)) (fmul c g))"

definition unit_lo :: f64 where "unit_lo = flit (99 / 100)"
definition unit_hi :: f64 where "unit_hi = flit (101 / 100)"

definition q_is_unit :: "quat \<Rightarrow> bool" where
  "q_is_unit q \<longleftrightarrow> fle unit_lo (q_magnitude q) \<and> fle (q_magnitude q) unit_hi"

definition q_components :: "quat \<Rightarrow> f64 list" where
  "q_components q = [qx q, qy q, qz q, qw q]"

definition normalized_rotation :: "quat \<Rightarrow> quat \<times> bool" where
  "normalized_rotation q =
     (if list_ex (\<lambda>c. is_nan c \<or> is_inf c) (q_components q) then (0, False)
      else let m = q_magnitude q in
        if flt m unit_lo \<or> flt unit_hi m \<or> is_nan m \<or> is_inf m then (0, False) else (q_over q m, True))"

definition observed_hand_rotation :: "quat \<Rightarrow> bool option \<Rightarrow> quat \<times> bool" where
  "observed_hand_rotation q observed = (if observed = Some True then normalized_rotation q else (0, False))"

definition angular_distance :: "(f64 \<Rightarrow> f64) \<Rightarrow> quat \<Rightarrow> quat \<Rightarrow> f64" where
  "angular_distance acos q r =
     (let (q', ok) = normalized_rotation q in if \<not> ok then NaN
      else let (r', ok') = normalized_rotation r in if \<not> ok' then NaN
      else let d = fabs (q_dot q' r') in
        if fle (flit (1 - 1 / 10 ^ 15)) d then Fin 0 else fmul (Fin 2) (acos d))"

definition v_rotate :: "vec3 \<Rightarrow> quat \<Rightarrow> vec3" where
  "v_rotate v q0 = (let q = (if q_is_unit q0 then q0 else q_normalize q0);
     u = Vec3 (qx q) (qy q) (qz q); t = v_scale (v_cross u v) (Fin 2)
     in v_add (v_add v (v_scale t (qw q))) (v_cross u t))"

definition q_rotate :: "quat \<Rightarrow> vec3 \<Rightarrow> vec3" where
  "q_rotate q v = (let axis = Vec3 (qx q) (qy q) (qz q); t = v_scale (v_cross axis v) (Fin 2)
     in v_add (v_add v (v_scale t (qw q))) (v_cross axis t))"

section \<open>Direction vectors\<close>

text \<open>The quality report is a bit set; \<open>BasisProper\<close> is its empty value.\<close>

record basis_quality =
  bq_reflected :: bool
  bq_non_orthonormal :: bool
  bq_degenerate :: bool

definition basis_proper :: basis_quality where
  "basis_proper = \<lparr>bq_reflected = False, bq_non_orthonormal = False, bq_degenerate = False\<rparr>"

definition basis_tolerance :: f64 where "basis_tolerance = flit (5 / 1000)"

fun quat_from_columns :: "vec3 \<Rightarrow> vec3 \<Rightarrow> vec3 \<Rightarrow> quat" where
  "quat_from_columns (Vec3 m00 m10 m20) (Vec3 m01 m11 m21) (Vec3 m02 m12 m22) =
     q_normalize (let tr = fadd (fadd m00 m11) m22; one = Fin 1; quarter = Fin (1/4) in
       if flt (Fin 0) tr then let s = fdiv (Fin (1/2)) (fsqrt (fadd tr one)) in
         Quat (fmul (fsub m21 m12) s) (fmul (fsub m02 m20) s) (fmul (fsub m10 m01) s) (fdiv quarter s)
       else if flt m11 m00 \<and> flt m22 m00 then
         let s = fmul (Fin 2) (fsqrt (fsub (fsub (fadd one m00) m11) m22)) in
         Quat (fmul quarter s) (fdiv (fadd m01 m10) s) (fdiv (fadd m02 m20) s) (fdiv (fsub m21 m12) s)
       else if flt m22 m11 then
         let s = fmul (Fin 2) (fsqrt (fsub (fsub (fadd one m11) m00) m22)) in
         Quat (fdiv (fadd m01 m10) s) (fmul quarter s) (fdiv (fadd m12 m21) s) (fdiv (fsub m02 m20) s)
       else let s = fmul (Fin 2) (fsqrt (fsub (fsub (fadd one m22) m00) m11)) in
         Quat (fdiv (fadd m02 m20) s) (fdiv (fadd m12 m21) s) (fmul quarter s) (fdiv (fsub m10 m01) s))"

definition quat_from_direction_vectors :: "vec3 \<Rightarrow> vec3 \<Rightarrow> vec3 \<Rightarrow> quat \<times> basis_quality" where
  "quat_from_direction_vectors forward left up =
     (let degenerate = (0, basis_proper\<lparr>bq_degenerate := True\<rparr>) in
      if v_has_nan forward \<or> v_has_inf forward \<or> v_has_nan up \<or> v_has_inf up then degenerate
      else let fm = v_magnitude forward; um = v_magnitude up; lm = v_magnitude left; eps = flit (1 / 10 ^ 9) in
      if flt fm eps \<or> flt um eps \<or> is_inf fm \<or> is_inf um then degenerate
      else let f = v_scale forward (fdiv (Fin 1) fm); pr = v_sub up (v_scale f (v_dot up f)); pm = v_magnitude pr in
      if flt pm (flit (1 / 10 ^ 6)) \<or> is_nan pm \<or> is_inf pm then degenerate
      else let u = v_scale pr (fdiv (Fin 1) pm); l = v_cross u f;
        off = (\<lambda>x. flt basis_tolerance (fabs (fsub x (Fin 1))));
        raw = (off fm \<or> off um \<or> flt basis_tolerance (fabs (v_dot forward up)));
        no_left = (flt lm eps \<or> v_has_nan left \<or> v_has_inf left);
        det = fdiv (v_dot left (v_cross u f)) lm
      in (quat_from_columns l u f,
          \<lparr>bq_reflected = (\<not> no_left \<and> flt det (Fin 0)),
           bq_non_orthonormal = (raw \<or> no_left \<or> off lm \<or> off (fabs det)),
           bq_degenerate = False\<rparr>))"

section \<open>Facts\<close>

definition v_fin :: "vec3 \<Rightarrow> bool" where
  "v_fin v \<longleftrightarrow> is_fin (vx v) \<and> is_fin (vy v) \<and> is_fin (vz v)"

definition q_fin :: "quat \<Rightarrow> bool" where
  "q_fin q \<longleftrightarrow> is_fin (qx q) \<and> is_fin (qy q) \<and> is_fin (qz q) \<and> is_fin (qw q)"

lemma v_fin_iff: "v_fin v \<longleftrightarrow> \<not> v_has_nan v \<and> \<not> v_has_inf v"
  by (auto simp: v_fin_def v_has_nan_def v_has_inf_def is_fin_def)

lemma v_is_zero_iff: "v_is_zero v \<longleftrightarrow> v = 0"
  by (cases v) (auto simp: v_is_zero_def zero_vec3_def feq_iff)

lemma v_fin_0 [simp]: "v_fin 0" by (simp add: v_fin_def zero_vec3_def is_fin_iff)
lemma q_fin_0 [simp]: "q_fin 0" by (simp add: q_fin_def zero_quat_def is_fin_iff)

lemma q_fin_components: "q_fin q \<longleftrightarrow> \<not> list_ex (\<lambda>c. is_nan c \<or> is_inf c) (q_components q)"
  by (auto simp: q_fin_def q_components_def is_fin_def)

lemma clamp_range: "fle lo hi \<Longrightarrow> fle lo (clamp v lo hi) \<and> fle (clamp v lo hi) hi"
  by (cases v; cases lo; cases hi) (auto simp: clamp_def is_nan_def split: if_splits)

lemma clamp01_range: "fle (Fin 0) (clamp01 v) \<and> fle (clamp01 v) (Fin 1)"
  by (cases v) (auto simp: clamp01_def is_nan_def split: if_splits)

lemma clamp_id: "fle lo v \<Longrightarrow> fle v hi \<Longrightarrow> clamp v lo hi = v"
  by (cases v; cases lo; cases hi) (auto simp: clamp_def is_nan_def)

end
