(* ===== verification/Telemetry.thy ===== *)
theory Telemetry
  imports Geometry Match_Phase
begin

text \<open>
  Normalised telemetry (\<open>internal/model/telemetry.go\<close>, \<open>observation.go\<close>, \<open>player.go\<close>): the observation
  context of a sample, disc and hand attachments, the engine's throw record, the disc, the
  telemetry frame, and the part of a player's state the pipeline itself reads and writes. The
  kinematic buffers of \<open>PlayerState\<close> that only the feature extractor and the detectors use are
  the field \<open>ps_motion\<close>, of a type the development leaves open.

  Pointers to optional values are \<open>option\<close>; the pipeline never compares them.
\<close>

section \<open>Observation context\<close>

record observation_context =
  oc_source :: string
  oc_source_id :: string
  oc_source_epoch :: nat
  oc_authority :: string
  oc_time_basis :: string
  oc_session_id :: string
  oc_source_player_id :: string
  oc_frame_index :: int
  oc_timestamp :: f64
  oc_freshness :: string

definition oc_valid :: "observation_context option \<Rightarrow> bool" where
  "oc_valid c = (case c of None \<Rightarrow> False | Some o' \<Rightarrow>
     oc_source o' \<noteq> [] \<and> oc_authority o' \<noteq> [] \<and> oc_time_basis o' \<noteq> [] \<and> oc_session_id o' \<noteq> [] \<and>
     0 \<le> oc_frame_index o' \<and> fle (Fin 0) (oc_timestamp o') \<and> \<not> is_nan (oc_timestamp o') \<and> \<not> is_inf (oc_timestamp o'))"

definition oc_identity :: "observation_context \<Rightarrow> string \<times> string \<times> nat \<times> string \<times> string \<times> string \<times> string" where
  "oc_identity c = (oc_source c, oc_source_id c, oc_source_epoch c, oc_authority c, oc_time_basis c, oc_session_id c, oc_source_player_id c)"

definition same_source :: "observation_context option \<Rightarrow> observation_context option \<Rightarrow> bool" where
  "same_source a b \<longleftrightarrow> oc_valid a \<and> oc_valid b \<and> map_option oc_identity a = map_option oc_identity b"

definition bound_local_throw :: "observation_context option \<Rightarrow> string \<Rightarrow> int \<Rightarrow> f64 \<Rightarrow> bool" where
  "bound_local_throw c p f t \<longleftrightarrow> oc_valid c \<and> (case c of None \<Rightarrow> False | Some x \<Rightarrow>
     oc_authority x = ''client_reported'' \<and> oc_freshness x = ''value_change'' \<and>
     oc_source_player_id x = p \<and> oc_frame_index x = f \<and> feq (oc_timestamp x) t)"

definition same_observation_source :: "observation_context option \<Rightarrow> observation_context option \<Rightarrow> bool" where
  "same_observation_source a b = (if a = None \<and> b = None then True else same_source a b)"

section \<open>Attachments\<close>

record hand_attachments =
  ha_left :: "string option"
  ha_right :: "string option"

record disc_attachment =
  da_state :: string
  da_holder_id :: string
  da_hand_candidates :: "string list"
  da_reason :: string

definition da_known :: "disc_attachment option \<Rightarrow> bool" where
  "da_known x = (case x of None \<Rightarrow> False | Some a \<Rightarrow>
     if da_state a = ''free'' then da_holder_id a = [] \<and> da_hand_candidates a = []
     else if da_state a \<noteq> ''held'' \<or> da_holder_id a = [] \<or> length (da_hand_candidates a) < 1 \<or> 2 < length (da_hand_candidates a)
     then False
     else list_all (\<lambda>h. h = ''left'' \<or> h = ''right'') (da_hand_candidates a) \<and>
          list_all (\<lambda>h. h \<noteq> hd (da_hand_candidates a)) (tl (da_hand_candidates a)))"

definition da_held_by :: "disc_attachment option \<Rightarrow> string \<Rightarrow> bool" where
  "da_held_by x p \<longleftrightarrow> da_known x \<and> (case x of None \<Rightarrow> False | Some a \<Rightarrow> da_state a = ''held'' \<and> da_holder_id a = p)"

definition da_free :: "disc_attachment option \<Rightarrow> bool" where
  "da_free x \<longleftrightarrow> da_known x \<and> (case x of None \<Rightarrow> False | Some a \<Rightarrow> da_state a = ''free'')"

section \<open>Frames\<close>

record game_throw_details =
  gt_arm_speed :: f64
  gt_total_speed :: f64
  gt_off_axis_spin_deg :: f64
  gt_wrist_throw_penalty :: f64
  gt_rot_per_sec :: f64
  gt_potential_speed_from_rot :: f64
  gt_speed_from_arm :: f64
  gt_speed_from_movement :: f64
  gt_speed_from_wrist :: f64
  gt_wrist_align_to_throw_deg :: f64
  gt_throw_align_to_movement_deg :: f64
  gt_off_axis_penalty :: f64
  gt_throw_move_penalty :: f64

definition gt_values :: "game_throw_details \<Rightarrow> f64 list" where
  "gt_values g = [gt_arm_speed g, gt_total_speed g, gt_off_axis_spin_deg g, gt_wrist_throw_penalty g, gt_rot_per_sec g,
     gt_potential_speed_from_rot g, gt_speed_from_arm g, gt_speed_from_movement g, gt_speed_from_wrist g,
     gt_wrist_align_to_throw_deg g, gt_throw_align_to_movement_deg g, gt_off_axis_penalty g, gt_throw_move_penalty g]"

definition gt_valid :: "game_throw_details \<Rightarrow> bool" where
  "gt_valid g = (if fle (gt_total_speed g) (Fin 0) then False
     else \<not> list_ex (\<lambda>v. is_nan v \<or> is_inf v) (gt_values g))"

record disc_state =
  ds_attachment :: "disc_attachment option"
  ds_position :: vec3
  ds_velocity :: vec3
  ds_speed :: f64
  ds_bounce_count :: "int option"
  ds_possession_known :: bool
  ds_possession_conflict :: bool
  ds_sampled_player_count :: int
  ds_previous_velocity :: "vec3 option"
  ds_acceleration :: "vec3 option"
  ds_acceleration_magnitude :: f64
  ds_possessor_id :: string
  ds_is_held :: bool
  ds_frames_since_release :: int
  ds_release_position :: "vec3 option"
  ds_release_velocity :: "vec3 option"
  ds_trajectory_angle_change :: f64
  ds_distance_from_thrower :: f64
  ds_in_penalty_field :: bool

text \<open>\<open>UnmarshalJSON\<close> after decoding: the wire contract's \<open>holder_id\<close>, and the speed it leaves out.\<close>

definition ds_contract :: "string option \<Rightarrow> disc_state \<Rightarrow> disc_state" where
  "ds_contract holder d0 =
     (let d = (case holder of Some h \<Rightarrow> if h \<noteq> [] \<and> ds_possessor_id d0 = [] then d0\<lparr>ds_possessor_id := h, ds_is_held := True\<rparr> else d0
               | None \<Rightarrow> d0)
      in if feq (ds_speed d) (Fin 0) \<and> \<not> v_is_zero (ds_velocity d) then d\<lparr>ds_speed := v_magnitude (ds_velocity d)\<rparr> else d)"

record telemetry_frame =
  fr_observation :: "observation_context option"
  fr_held_items :: "hand_attachments option"
  fr_throw_provenance :: "observation_context option"
  fr_is_boosting_known :: "bool option"
  fr_player_id :: string
  fr_team :: string
  fr_frame_index :: int
  fr_timestamp :: f64
  fr_delta_time :: f64
  fr_position :: vec3
  fr_rotation :: quat
  fr_head_position :: "vec3 option"
  fr_reported_velocity :: "vec3 option"
  fr_left_hand :: vec3
  fr_right_hand :: vec3
  fr_left_rotation :: quat
  fr_right_rotation :: quat
  fr_left_rotation_valid :: "bool option"
  fr_right_rotation_valid :: "bool option"
  fr_is_stunned :: bool
  fr_is_boosting :: bool
  fr_shield_active :: bool
  fr_is_immune :: bool
  fr_has_possession :: bool
  fr_game_last_throw :: "game_throw_details option"
  fr_disc :: "disc_state option"
  fr_ping_ms :: f64
  fr_game_phase :: string
  fr_has_score :: bool
  fr_blue_score :: int
  fr_orange_score :: int
  fr_goals :: int
  fr_stuns :: int

section \<open>Player state\<close>

record legal_motion_context =
  lm_leaning :: bool
  lm_playspace_step :: bool
  lm_game_locomotion :: bool
  lm_boosting :: bool
  lm_boosting_known :: bool
  lm_slap_or_push :: bool
  lm_head_contact :: bool
  lm_tracking_limited :: bool
  lm_confidence :: f64
  lm_primary_explanation :: string
  lm_cannot_distinguish_contact :: bool

definition no_legal_context :: legal_motion_context where
  "no_legal_context = \<lparr>lm_leaning = False, lm_playspace_step = False, lm_game_locomotion = False, lm_boosting = False,
     lm_boosting_known = False, lm_slap_or_push = False, lm_head_contact = False, lm_tracking_limited = False,
     lm_confidence = Fin 0, lm_primary_explanation = [], lm_cannot_distinguish_contact = False\<rparr>"

record 'k player_state =
  ps_observation :: "observation_context option"
  ps_player_id :: string
  ps_team :: string
  ps_rotation :: quat
  ps_legal_context :: legal_motion_context
  ps_last_frame_idx :: int
  ps_last_timestamp :: f64
  ps_frame_count :: int
  ps_current_disc :: "disc_state option"
  ps_motion :: 'k

definition new_player_state :: "'k \<Rightarrow> string \<Rightarrow> string \<Rightarrow> 'k player_state" where
  "new_player_state zero_motion p team = \<lparr>ps_observation = None, ps_player_id = p, ps_team = team, ps_rotation = 0,
     ps_legal_context = no_legal_context, ps_last_frame_idx = 0, ps_last_timestamp = Fin 0, ps_frame_count = 0,
     ps_current_disc = None, ps_motion = zero_motion\<rparr>"

section \<open>Facts\<close>

lemma same_source_sym: "same_source a b = same_source b a"
  by (auto simp: same_source_def)

lemma same_source_trans: "same_source a b \<Longrightarrow> same_source b c \<Longrightarrow> same_source a c"
  by (simp add: same_source_def)

lemma gt_valid_fin: "gt_valid g \<Longrightarrow> list_all is_fin (gt_values g) \<and> flt (Fin 0) (gt_total_speed g)"
proof -
  assume v: "gt_valid g"
  then have fin: "list_all is_fin (gt_values g)"
    by (auto simp: gt_valid_def is_fin_def list_all_iff list_ex_iff split: if_splits)
  then obtain q where "gt_total_speed g = Fin q" by (auto simp: gt_values_def is_fin_iff)
  with v fin show ?thesis by (auto simp: gt_valid_def split: if_splits)
qed

definition sample_frame :: telemetry_frame where
  "sample_frame = \<lparr>fr_observation = None, fr_held_items = None, fr_throw_provenance = None, fr_is_boosting_known = None,
     fr_player_id = ''p1'', fr_team = ''blue'', fr_frame_index = 1, fr_timestamp = Fin 1, fr_delta_time = Fin (- 1),
     fr_position = Vec3 (Fin 1) (Fin 2) (Fin 3), fr_rotation = 0, fr_head_position = None,
     fr_reported_velocity = Some (Vec3 NaN (Fin 0) (Fin 0)), fr_left_hand = 0,
     fr_right_hand = Vec3 NaN (Fin 2) (Fin 3), fr_left_rotation = 0,
     fr_right_rotation = 0, fr_left_rotation_valid = Some True, fr_right_rotation_valid = None,
     fr_is_stunned = False, fr_is_boosting = False, fr_shield_active = False, fr_is_immune = False, fr_has_possession = False,
     fr_game_last_throw = None, fr_disc = None, fr_ping_ms = Fin 2000, fr_game_phase = ''playing'', fr_has_score = False,
     fr_blue_score = 0, fr_orange_score = 0, fr_goals = 0, fr_stuns = 0\<rparr>"

end
