(* ===== verification/Validator.thy ===== *)
theory Validator
  imports Telemetry "HOL-Library.Sublist"
begin

text \<open>
  The frame validator (\<open>internal/pipeline/validator.go\<close>, \<open>orientation.go\<close>): it rejects a frame whose
  position, timestamp or time step is unusable, with a reason, and repairs the rest of the frame
  in place, reporting each repair once. \<open>validate\<close> returns the verdict and the frame as the code
  leaves it; the texts that only render a value (\<open>%v\<close>) are left out of the error's detail.

  \<open>accepted_ok\<close> is what a consumer of an accepted frame may rely on.
\<close>

record validation_error =
  ve_reason :: string
  ve_player_id :: string
  ve_detail :: string

definition max_producer_dt :: f64 where "max_producer_dt = Fin 60"
definition max_hand_body_distance :: f64 where "max_hand_body_distance = Fin 3"
definition disc_speed_sanity_factor :: f64 where "disc_speed_sanity_factor = Fin 4"
definition max_estimated_ping_ms :: f64 where "max_estimated_ping_ms = Fin 1000"

record frame_validator =
  min_dt :: f64

definition new_frame_validator :: "f64 \<Rightarrow> frame_validator" where
  "new_frame_validator min_frame_dt = \<lparr>min_dt = min_frame_dt\<rparr>"

definition arena_half_extents :: "physics_constants \<Rightarrow> f64 \<times> f64 \<times> f64" where
  "arena_half_extents ph =
     (let dimension = (\<lambda>get. if fle (get ph) (Fin 0) then get default_physics else get ph);
          half = (\<lambda>x. fadd (fdiv x (Fin 2)) (Fin 5))
      in (half (dimension arena_width), half (dimension arena_height), half (dimension arena_length)))"

definition outside :: "f64 \<times> f64 \<times> f64 \<Rightarrow> vec3 \<Rightarrow> bool" where
  "outside h v = (case h of (hx, hy, hz) \<Rightarrow>
     flt hx (fabs (vx v)) \<or> flt hy (fabs (vy v)) \<or> flt hz (fabs (vz v)))"

definition sanitize_quat :: "quat \<Rightarrow> quat \<times> bool" where
  "sanitize_quat q =
     (if list_ex (\<lambda>c. is_nan c \<or> is_inf c) (q_components q) then (0, True)
      else let (r, ok) = normalized_rotation q in
        if ok then (r, False)
        else if flt (flit (1 / 10)) (q_magnitude q) \<and> \<not> is_inf (q_magnitude q) then (q_normalize q, False)
        else if q = 0 then (q, False)
        else (0, True))"

definition sanitize_observed_hand_rotation :: "quat \<Rightarrow> bool option \<Rightarrow> quat \<times> bool option \<times> bool" where
  "sanitize_observed_hand_rotation q observed =
     (let (r, valid) = observed_hand_rotation q observed in
      case observed of None \<Rightarrow> (r, None, q \<noteq> 0) | Some _ \<Rightarrow> (r, Some valid, \<not> valid \<and> q \<noteq> 0))"

definition disc_is_finite :: "disc_state \<Rightarrow> bool" where
  "disc_is_finite d =
     (if v_has_nan (ds_position d) \<or> v_has_inf (ds_position d) \<or> v_has_nan (ds_velocity d) \<or> v_has_inf (ds_velocity d) then False
      else \<not> (is_nan (ds_speed d) \<or> is_inf (ds_speed d)))"

definition disc_speed_limit :: "physics_constants \<Rightarrow> f64" where
  "disc_speed_limit ph = fmul disc_speed_sanity_factor
     (if fle (disc_speed_cap ph) (Fin 0) then disc_speed_cap default_physics else disc_speed_cap ph)"

definition disc_in_range :: "disc_state \<Rightarrow> physics_constants \<Rightarrow> f64 \<times> f64 \<times> f64 \<Rightarrow> bool" where
  "disc_in_range d ph h =
     (if outside h (ds_position d) then False
      else fle (v_magnitude (ds_velocity d)) (disc_speed_limit ph) \<and> fle (fabs (ds_speed d)) (disc_speed_limit ph))"

section \<open>Rejection\<close>

definition dt_out_of_range :: "frame_validator \<Rightarrow> f64 \<Rightarrow> bool" where
  "dt_out_of_range v dt \<longleftrightarrow> flt (Fin 0) dt \<and> (flt dt (fmul (min_dt v) (Fin (1/2))) \<or> flt max_producer_dt dt)"

definition reject :: "frame_validator \<Rightarrow> telemetry_frame \<Rightarrow> match_context \<Rightarrow> validation_error option" where
  "reject v f mc =
     (let err = (\<lambda>reason detail. Some \<lparr>ve_reason = reason, ve_player_id = fr_player_id f, ve_detail = detail\<rparr>) in
      if fr_player_id f = [] then err ''missing_player_id'' []
      else if v_is_zero (fr_position f) then err ''zero_position'' []
      else if v_has_nan (fr_position f) \<or> v_has_inf (fr_position f) then err ''invalid_position'' []
      else if is_nan (fr_timestamp f) \<or> is_inf (fr_timestamp f) \<or> flt (fr_timestamp f) (Fin 0) then err ''invalid_timestamp'' []
      else if is_nan (fr_delta_time f) \<or> is_inf (fr_delta_time f) then err ''dt_out_of_range'' ''non-finite dt''
      else if dt_out_of_range v (fr_delta_time f) then err ''dt_out_of_range'' (''dt '' @ fmt_f 4 (fr_delta_time f))
      else if outside (arena_half_extents (mc_physics mc)) (fr_position f) then err ''out_of_arena_bounds'' []
      else None)"

section \<open>Repairs\<close>

text \<open>Each repair reads and writes its own fields and yields its reason codes, in the code's order.\<close>

definition repair_dt :: "telemetry_frame \<Rightarrow> telemetry_frame \<times> string list" where
  "repair_dt f = (if flt (fr_delta_time f) (Fin 0) then (f\<lparr>fr_delta_time := Fin 0\<rparr>, [''negative_delta_time'']) else (f, []))"

definition repair_rotations :: "telemetry_frame \<Rightarrow> telemetry_frame \<times> string list" where
  "repair_rotations f =
     (let (l0, lv, lfix) = sanitize_observed_hand_rotation (fr_left_rotation f) (fr_left_rotation_valid f);
          (r0, rv, rfix) = sanitize_observed_hand_rotation (fr_right_rotation f) (fr_right_rotation_valid f);
          (b, bf) = sanitize_quat (fr_rotation f);
          (l, lf0) = sanitize_quat l0; lf = (lf0 \<or> lfix);
          (r, rf0) = sanitize_quat r0; rf = (rf0 \<or> rfix);
          fixed = (lfix \<or> rfix \<or> bf \<or> lf \<or> rf);
          zero = ((\<not> bf \<and> b = 0) \<or> (\<not> lf \<and> l = 0) \<or> (\<not> rf \<and> r = 0))
      in (f\<lparr>fr_rotation := b, fr_left_rotation := l, fr_right_rotation := r,
            fr_left_rotation_valid := lv, fr_right_rotation_valid := rv\<rparr>,
          (if fixed then [''invalid_rotation''] else []) @ (if zero then [''zero_rotation''] else [])))"

datatype hand_fault = Hand_ok | Hand_nan | Hand_far

definition hand_fault :: "vec3 \<Rightarrow> vec3 \<Rightarrow> hand_fault" where
  "hand_fault body h = (if v_has_nan h \<or> v_has_inf h then Hand_nan
     else if \<not> v_is_zero h \<and> flt max_hand_body_distance (v_distance h body) then Hand_far else Hand_ok)"

definition repair_hands :: "telemetry_frame \<Rightarrow> telemetry_frame \<times> string list" where
  "repair_hands f =
     (let lf = hand_fault (fr_position f) (fr_left_hand f); rf = hand_fault (fr_position f) (fr_right_hand f);
          keep = (\<lambda>x h. if x = Hand_ok then h else 0)
      in (f\<lparr>fr_left_hand := keep lf (fr_left_hand f), fr_right_hand := keep rf (fr_right_hand f)\<rparr>,
          (if lf = Hand_nan \<or> rf = Hand_nan then [''nan_hand_position''] else []) @
          (if lf = Hand_far \<or> rf = Hand_far then [''far_hand_position''] else [])))"

definition repair_ping :: "telemetry_frame \<Rightarrow> telemetry_frame \<times> string list" where
  "repair_ping f = (let p = fr_ping_ms f in
     if is_nan p \<or> is_inf p \<or> flt p (Fin 0) then (f\<lparr>fr_ping_ms := Fin 0\<rparr>, [''invalid_ping''])
     else if flt max_estimated_ping_ms p then (f\<lparr>fr_ping_ms := max_estimated_ping_ms\<rparr>, [''invalid_ping''])
     else (f, []))"

definition repair_optional :: "f64 \<times> f64 \<times> f64 \<Rightarrow> telemetry_frame \<Rightarrow> telemetry_frame \<times> string list" where
  "repair_optional h f =
     (let bad_throw = (case fr_game_last_throw f of None \<Rightarrow> False | Some g \<Rightarrow> \<not> gt_valid g);
          bad_velocity = (case fr_reported_velocity f of None \<Rightarrow> False | Some v \<Rightarrow> v_has_nan v \<or> v_has_inf v);
          bad_head = (case fr_head_position f of None \<Rightarrow> False
            | Some p \<Rightarrow> v_is_zero p \<or> v_has_nan p \<or> v_has_inf p \<or> outside h p)
      in (f\<lparr>fr_game_last_throw := (if bad_throw then None else fr_game_last_throw f),
            fr_reported_velocity := (if bad_velocity then None else fr_reported_velocity f),
            fr_head_position := (if bad_head then None else fr_head_position f)\<rparr>,
          (if bad_throw then [''invalid_game_last_throw''] else []) @
          (if bad_velocity then [''invalid_reported_velocity''] else []) @
          (if bad_head then [''invalid_head_position''] else [])))"

definition repair_disc :: "physics_constants \<Rightarrow> f64 \<times> f64 \<times> f64 \<Rightarrow> telemetry_frame \<Rightarrow> telemetry_frame \<times> string list" where
  "repair_disc ph h f = (case fr_disc f of None \<Rightarrow> (f, [])
     | Some d \<Rightarrow>
         if \<not> disc_is_finite d then (f\<lparr>fr_disc := None\<rparr>, [''invalid_disc''])
         else if \<not> disc_in_range d ph h then (f\<lparr>fr_disc := None\<rparr>, [''disc_out_of_range''])
         else (f, []))"

definition repair_disc_observation :: "telemetry_frame \<Rightarrow> telemetry_frame \<times> string list" where
  "repair_disc_observation f = (case fr_disc f of None \<Rightarrow> (f, [])
     | Some d \<Rightarrow>
         let bounce = (case ds_bounce_count d of None \<Rightarrow> False | Some n \<Rightarrow> n < 0);
             count = (ds_sampled_player_count d < 0 \<or> (ds_possession_known d \<and> ds_sampled_player_count d = 0))
         in if bounce \<or> count
            then (f\<lparr>fr_disc := Some (d\<lparr>ds_bounce_count := (if bounce then None else ds_bounce_count d),
                    ds_sampled_player_count := (if count then 0 else ds_sampled_player_count d),
                    ds_possession_known := (\<not> count \<and> ds_possession_known d)\<rparr>)\<rparr>, [''invalid_disc_observation''])
            else (f, []))"

definition and_then :: "telemetry_frame \<times> string list \<Rightarrow> (telemetry_frame \<Rightarrow> telemetry_frame \<times> string list) \<Rightarrow> telemetry_frame \<times> string list" where
  "and_then x g = (let (f, codes) = x; (f', codes') = g f in (f', codes @ codes'))"

definition repair :: "telemetry_frame \<Rightarrow> match_context \<Rightarrow> telemetry_frame \<times> string list" where
  "repair f mc = (let ph = mc_physics mc; h = arena_half_extents ph in
     and_then (and_then (and_then (and_then (and_then (and_then (repair_dt f) repair_rotations) repair_hands) repair_ping)
       (repair_optional h)) (repair_disc ph h)) repair_disc_observation)"

definition validate :: "frame_validator \<Rightarrow> telemetry_frame \<Rightarrow> match_context \<Rightarrow> (validation_error + string list) \<times> telemetry_frame" where
  "validate v f mc = (case reject v f mc of Some e \<Rightarrow> (Inl e, f)
     | None \<Rightarrow> let (f', codes) = repair f mc in (Inr codes, f'))"


section \<open>Finite arithmetic\<close>

definition nonneg :: "f64 \<Rightarrow> bool" where
  "nonneg x \<longleftrightarrow> fle (Fin 0) x"

lemma nonneg_not_NaN: "nonneg x \<Longrightarrow> x \<noteq> NaN"
  by (auto simp: nonneg_def)

lemma nonneg_square: "c \<noteq> NaN \<Longrightarrow> nonneg (fmul c c)"
  by (cases c) (auto simp: nonneg_def intro: rnd_ge0)

lemma nonneg_fadd: "nonneg x \<Longrightarrow> nonneg y \<Longrightarrow> nonneg (fadd x y)"
  unfolding nonneg_def by (rule fadd_ge0)

lemma nonneg_fsqrt: "nonneg x \<Longrightarrow> fsqrt x \<noteq> NaN"
  by (cases x) (auto simp: nonneg_def)

lemma inf_fadd: "nonneg x \<Longrightarrow> nonneg y \<Longrightarrow> is_inf x \<or> is_inf y \<Longrightarrow> is_inf (fadd x y)"
  by (cases x; cases y) (auto simp: nonneg_def is_inf_def)

lemma inf_fsqrt: "nonneg x \<Longrightarrow> is_inf x \<Longrightarrow> is_inf (fsqrt x)"
  by (cases x) (auto simp: nonneg_def is_inf_def)

lemma fsub_fin: "is_fin x \<Longrightarrow> is_fin y \<Longrightarrow> fsub x y \<noteq> NaN"
  by (auto simp: is_fin_iff fsub_def)

lemma v_distance_not_NaN:
  assumes "v_fin v" "v_fin u"
  shows "v_distance v u \<noteq> NaN"
proof -
  obtain a b c d e f where vu: "v = Vec3 a b c" "u = Vec3 d e f" by (cases v, cases u) simp
  have "fsub a d \<noteq> NaN" "fsub b e \<noteq> NaN" "fsub c f \<noteq> NaN"
    using assms by (auto simp: vu v_fin_def dest: fsub_fin)
  then show ?thesis
    by (simp add: v_distance_def v_magnitude_def vu nonneg_fsqrt nonneg_fadd nonneg_square)
qed

lemma rmag_two_power: "rmag (2 ^ n) = 2 ^ n"
proof (rule rmag_exact [where k = 1 and w = "int n"])
  have "elog (2 ^ n) \<le> int n" by (rule elog_le) (simp_all add: power_int_add power_int_of_nat)
  then show "uexp (2 ^ n) \<le> int n" by (simp add: uexp_def)
qed (simp_all add: power_int_of_nat)

lemma rnd_two_power: "rnd (2 ^ n) = (if 1024 \<le> n then Inf False else Fin (2 ^ n))"
  using two_powi_less_iff [of "int n" 1024]
  by (simp add: rnd_pos rmag_two_power power_int_of_nat not_less [symmetric] del: power_int_numeral)

lemma rnd_two_power_neg: "n < 1024 \<Longrightarrow> rnd (- (2 ^ n)) = Fin (- (2 ^ n))"
  using two_powi_less_iff [of "int n" 1024]
  by (simp add: rnd_neg rmag_two_power power_int_of_nat not_less [symmetric] del: power_int_numeral)

lemma overflow_rnd: "1024 \<le> n \<Longrightarrow> 2 ^ n \<le> q \<Longrightarrow> is_inf (rnd q)"
proof -
  assume n: "1024 \<le> n" and "2 ^ n \<le> q"
  then have "fle (rnd (2 ^ n)) (rnd q)" by (intro rnd_mono)
  then have "fle (Inf False) (rnd q)" by (simp only: rnd_two_power n if_True)
  then show ?thesis by (cases "rnd q") (auto simp: is_inf_def)
qed

lemma rnd_fin: "n < 1024 \<Longrightarrow> \<bar>q\<bar> \<le> 2 ^ n \<Longrightarrow> is_fin (rnd q)"
proof -
  assume n: "n < 1024" and "\<bar>q\<bar> \<le> 2 ^ n"
  then have "fle (rnd (- (2 ^ n))) (rnd q)" "fle (rnd q) (rnd (2 ^ n))" by (auto intro!: rnd_mono)
  then show ?thesis using n by (simp add: rnd_two_power rnd_two_power_neg) (metis fin_between)
qed

lemma square_bound:
  assumes "\<not> is_inf (fmul (Fin a) (Fin a))"
  shows "\<bar>a\<bar> \<le> 2 ^ 512"
proof (rule ccontr)
  assume "\<not> \<bar>a\<bar> \<le> 2 ^ 512"
  then have "(2 ^ 512) * (2 ^ 512) \<le> \<bar>a\<bar> * \<bar>a\<bar>" by (intro mult_mono) auto
  moreover have "(2 :: rat) ^ 512 * 2 ^ 512 = 2 ^ 1024" by (simp only: power_add [symmetric]) simp
  ultimately have "2 ^ 1024 \<le> a * a" by (simp only: abs_mult_self_eq)
  with overflow_rnd [of 1024 "a * a"] assms show False by (simp only: fmul.simps) blast
qed

lemma fdiv_bounded:
  assumes a: "\<bar>a\<bar> \<le> 2 ^ 512" and b: "1/16 \<le> b"
  shows "is_fin (fdiv (Fin a) (Fin b))"
proof -
  have "\<bar>a / b\<bar> = \<bar>a\<bar> / b" using b by (simp add: abs_divide)
  also have "\<dots> \<le> 2 ^ 512 / (1/16)" by (rule frac_le [OF _ a _ b]) simp_all
  also have "\<dots> = 2 ^ 512 * 2 ^ 4" by simp
  also have "\<dots> = 2 ^ 516" by (simp only: power_add [symmetric]) simp
  finally have "is_fin (rnd (a / b))" by (intro rnd_fin [of 516]) simp_all
  then show ?thesis using b by simp
qed

lemma q_over_fin:
  assumes q: "q_fin q" and m: "m = q_magnitude q" "\<not> is_inf m" "fle (Fin (1/16)) m"
  shows "q_fin (q_over q m)"
proof -
  obtain a b c d where abcd: "q = Quat (Fin a) (Fin b) (Fin c) (Fin d)"
    using q by (cases q) (auto simp: q_fin_def is_fin_iff)
  obtain r where r: "m = Fin r" "1/16 \<le> r" using m(2,3) by (cases m) (auto simp: is_inf_def)
  note nn = nonneg_square [of "Fin a", simplified] nonneg_square [of "Fin b", simplified]
    nonneg_square [of "Fin c", simplified] nonneg_square [of "Fin d", simplified]
  have "\<not> is_inf (fadd (fadd (fadd (rnd (a * a)) (rnd (b * b))) (rnd (c * c))) (rnd (d * d)))"
    using m nn by (auto simp: q_magnitude_def abcd dest!: inf_fsqrt [rotated] intro: nonneg_fadd)
  then have "\<not> is_inf (rnd (a * a)) \<and> \<not> is_inf (rnd (b * b)) \<and> \<not> is_inf (rnd (c * c)) \<and> \<not> is_inf (rnd (d * d))"
    using nn by (meson inf_fadd nonneg_fadd)
  then have "\<bar>a\<bar> \<le> 2 ^ 512" "\<bar>b\<bar> \<le> 2 ^ 512" "\<bar>c\<bar> \<le> 2 ^ 512" "\<bar>d\<bar> \<le> 2 ^ 512" using square_bound by simp_all
  then show ?thesis using r by (simp add: q_over_def abcd q_fin_def fdiv_bounded del: fdiv.simps)
qed

lemma normalized_rotation_fin: "q_fin (fst (normalized_rotation q))"
proof (cases "snd (normalized_rotation q)")
  case True
  then have q: "q_fin q" "fst (normalized_rotation q) = q_over q (q_magnitude q)" "\<not> flt (q_magnitude q) unit_lo"
    "\<not> is_nan (q_magnitude q)" "\<not> is_inf (q_magnitude q)"
    by (auto simp: normalized_rotation_def q_fin_components Let_def split: if_splits)
  have "fle (Fin (1/16)) unit_lo" by code_simp
  moreover have "fle unit_lo (q_magnitude q)"
    using q(3,4) by (subst not_flt [symmetric]) (auto simp: is_nan_def unit_lo_def flit_def)
  ultimately show ?thesis using q by (metis fle_trans q_over_fin)
qed (auto simp: normalized_rotation_def Let_def split: if_splits)

lemma sanitize_quat_fin: "q_fin (fst (sanitize_quat q))"
proof -
  have tenth: "fle (Fin (1/16)) (flit (1/10))" by code_simp
  have "q_fin (q_normalize q)" if "q_fin q" "flt (flit (1 / 10)) (q_magnitude q)" "\<not> is_inf (q_magnitude q)"
    using that tenth q_over_fin [OF that(1) refl that(3)]
    by (auto simp: q_normalize_def Let_def quat_identity_def q_fin_def is_fin_iff dest: flt_imp_fle fle_trans)
  then show ?thesis
    using normalized_rotation_fin [of q]
    by (auto simp: sanitize_quat_def q_fin_components [of q] Let_def split: prod.splits if_splits)
qed

section \<open>What an accepted frame guarantees\<close>

definition hand_ok :: "vec3 \<Rightarrow> vec3 \<Rightarrow> bool" where
  "hand_ok body h \<longleftrightarrow> v_fin h \<and> (if h = 0 then True else fle (v_distance h body) max_hand_body_distance)"

definition opt_all :: "('a \<Rightarrow> bool) \<Rightarrow> 'a option \<Rightarrow> bool" where
  "opt_all p x = (case x of None \<Rightarrow> True | Some y \<Rightarrow> p y)"

definition body_ok :: "frame_validator \<Rightarrow> match_context \<Rightarrow> telemetry_frame \<Rightarrow> bool" where
  "body_ok v mc f \<longleftrightarrow> fr_player_id f \<noteq> [] \<and> v_fin (fr_position f) \<and> fr_position f \<noteq> 0 \<and>
     \<not> outside (arena_half_extents (mc_physics mc)) (fr_position f) \<and>
     is_fin (fr_timestamp f) \<and> fle (Fin 0) (fr_timestamp f) \<and>
     is_fin (fr_delta_time f) \<and> fle (Fin 0) (fr_delta_time f) \<and> \<not> dt_out_of_range v (fr_delta_time f)"

definition pose_ok :: "telemetry_frame \<Rightarrow> bool" where
  "pose_ok f \<longleftrightarrow> q_fin (fr_rotation f) \<and> q_fin (fr_left_rotation f) \<and> q_fin (fr_right_rotation f) \<and>
     (if fr_left_rotation_valid f = Some True then True else fr_left_rotation f = 0) \<and>
     (if fr_right_rotation_valid f = Some True then True else fr_right_rotation f = 0) \<and>
     hand_ok (fr_position f) (fr_left_hand f) \<and> hand_ok (fr_position f) (fr_right_hand f)"

definition disc_ok :: "physics_constants \<Rightarrow> disc_state \<Rightarrow> bool" where
  "disc_ok ph d \<longleftrightarrow> v_fin (ds_position d) \<and> v_fin (ds_velocity d) \<and> is_fin (ds_speed d) \<and>
     disc_in_range d ph (arena_half_extents ph) \<and> opt_all (\<lambda>n. 0 \<le> n) (ds_bounce_count d) \<and>
     0 \<le> ds_sampled_player_count d \<and> (ds_possession_known d = (ds_possession_known d \<and> 0 < ds_sampled_player_count d))"

definition extras_ok :: "match_context \<Rightarrow> telemetry_frame \<Rightarrow> bool" where
  "extras_ok mc f \<longleftrightarrow> fle (Fin 0) (fr_ping_ms f) \<and> fle (fr_ping_ms f) max_estimated_ping_ms \<and>
     opt_all gt_valid (fr_game_last_throw f) \<and> opt_all v_fin (fr_reported_velocity f) \<and>
     opt_all (\<lambda>p. v_fin p \<and> p \<noteq> 0 \<and> \<not> outside (arena_half_extents (mc_physics mc)) p) (fr_head_position f) \<and>
     opt_all (disc_ok (mc_physics mc)) (fr_disc f)"

definition accepted_ok :: "frame_validator \<Rightarrow> match_context \<Rightarrow> telemetry_frame \<Rightarrow> bool" where
  "accepted_ok v mc f \<longleftrightarrow> body_ok v mc f \<and> pose_ok f \<and> extras_ok mc f"

lemma and_then_simps [simp]: "fst (and_then x g) = fst (g (fst x))" "snd (and_then x g) = snd x @ snd (g (fst x))"
  by (simp_all add: and_then_def split_def Let_def)

lemmas repair_defs = repair_dt_def repair_rotations_def repair_hands_def repair_ping_def repair_optional_def
  repair_disc_def repair_disc_observation_def

text \<open>What each repair leaves alone.\<close>

lemma repair_frame [simp]:
  "fr_rotation (fst (repair_dt f)) = fr_rotation f" "fr_left_rotation (fst (repair_dt f)) = fr_left_rotation f"
  "fr_right_rotation (fst (repair_dt f)) = fr_right_rotation f" "fr_left_rotation_valid (fst (repair_dt f)) = fr_left_rotation_valid f"
  "fr_right_rotation_valid (fst (repair_dt f)) = fr_right_rotation_valid f" "fr_left_hand (fst (repair_dt f)) = fr_left_hand f"
  "fr_right_hand (fst (repair_dt f)) = fr_right_hand f" "fr_ping_ms (fst (repair_dt f)) = fr_ping_ms f"
  "fr_game_last_throw (fst (repair_dt f)) = fr_game_last_throw f" "fr_reported_velocity (fst (repair_dt f)) = fr_reported_velocity f"
  "fr_head_position (fst (repair_dt f)) = fr_head_position f" "fr_disc (fst (repair_dt f)) = fr_disc f"
  "fr_delta_time (fst (repair_rotations f)) = fr_delta_time f" "fr_left_hand (fst (repair_rotations f)) = fr_left_hand f"
  "fr_right_hand (fst (repair_rotations f)) = fr_right_hand f" "fr_ping_ms (fst (repair_rotations f)) = fr_ping_ms f"
  "fr_game_last_throw (fst (repair_rotations f)) = fr_game_last_throw f" "fr_reported_velocity (fst (repair_rotations f)) = fr_reported_velocity f"
  "fr_head_position (fst (repair_rotations f)) = fr_head_position f" "fr_disc (fst (repair_rotations f)) = fr_disc f"
  "fr_delta_time (fst (repair_hands f)) = fr_delta_time f" "fr_rotation (fst (repair_hands f)) = fr_rotation f"
  "fr_left_rotation (fst (repair_hands f)) = fr_left_rotation f" "fr_right_rotation (fst (repair_hands f)) = fr_right_rotation f"
  "fr_left_rotation_valid (fst (repair_hands f)) = fr_left_rotation_valid f" "fr_right_rotation_valid (fst (repair_hands f)) = fr_right_rotation_valid f"
  "fr_ping_ms (fst (repair_hands f)) = fr_ping_ms f" "fr_game_last_throw (fst (repair_hands f)) = fr_game_last_throw f"
  "fr_reported_velocity (fst (repair_hands f)) = fr_reported_velocity f" "fr_head_position (fst (repair_hands f)) = fr_head_position f"
  "fr_disc (fst (repair_hands f)) = fr_disc f"
  "fr_delta_time (fst (repair_ping f)) = fr_delta_time f" "fr_rotation (fst (repair_ping f)) = fr_rotation f"
  "fr_left_rotation (fst (repair_ping f)) = fr_left_rotation f" "fr_right_rotation (fst (repair_ping f)) = fr_right_rotation f"
  "fr_left_rotation_valid (fst (repair_ping f)) = fr_left_rotation_valid f" "fr_right_rotation_valid (fst (repair_ping f)) = fr_right_rotation_valid f"
  "fr_left_hand (fst (repair_ping f)) = fr_left_hand f" "fr_right_hand (fst (repair_ping f)) = fr_right_hand f"
  "fr_game_last_throw (fst (repair_ping f)) = fr_game_last_throw f" "fr_reported_velocity (fst (repair_ping f)) = fr_reported_velocity f"
  "fr_head_position (fst (repair_ping f)) = fr_head_position f" "fr_disc (fst (repair_ping f)) = fr_disc f"
  "fr_delta_time (fst (repair_optional h f)) = fr_delta_time f" "fr_rotation (fst (repair_optional h f)) = fr_rotation f"
  "fr_left_rotation (fst (repair_optional h f)) = fr_left_rotation f" "fr_right_rotation (fst (repair_optional h f)) = fr_right_rotation f"
  "fr_left_rotation_valid (fst (repair_optional h f)) = fr_left_rotation_valid f" "fr_right_rotation_valid (fst (repair_optional h f)) = fr_right_rotation_valid f"
  "fr_left_hand (fst (repair_optional h f)) = fr_left_hand f" "fr_right_hand (fst (repair_optional h f)) = fr_right_hand f"
  "fr_ping_ms (fst (repair_optional h f)) = fr_ping_ms f" "fr_disc (fst (repair_optional h f)) = fr_disc f"
  "fr_delta_time (fst (repair_disc ph h f)) = fr_delta_time f" "fr_rotation (fst (repair_disc ph h f)) = fr_rotation f"
  "fr_left_rotation (fst (repair_disc ph h f)) = fr_left_rotation f" "fr_right_rotation (fst (repair_disc ph h f)) = fr_right_rotation f"
  "fr_left_rotation_valid (fst (repair_disc ph h f)) = fr_left_rotation_valid f" "fr_right_rotation_valid (fst (repair_disc ph h f)) = fr_right_rotation_valid f"
  "fr_left_hand (fst (repair_disc ph h f)) = fr_left_hand f" "fr_right_hand (fst (repair_disc ph h f)) = fr_right_hand f"
  "fr_ping_ms (fst (repair_disc ph h f)) = fr_ping_ms f" "fr_game_last_throw (fst (repair_disc ph h f)) = fr_game_last_throw f"
  "fr_reported_velocity (fst (repair_disc ph h f)) = fr_reported_velocity f" "fr_head_position (fst (repair_disc ph h f)) = fr_head_position f"
  "fr_delta_time (fst (repair_disc_observation f)) = fr_delta_time f" "fr_rotation (fst (repair_disc_observation f)) = fr_rotation f"
  "fr_left_rotation (fst (repair_disc_observation f)) = fr_left_rotation f" "fr_right_rotation (fst (repair_disc_observation f)) = fr_right_rotation f"
  "fr_left_rotation_valid (fst (repair_disc_observation f)) = fr_left_rotation_valid f" "fr_right_rotation_valid (fst (repair_disc_observation f)) = fr_right_rotation_valid f"
  "fr_left_hand (fst (repair_disc_observation f)) = fr_left_hand f" "fr_right_hand (fst (repair_disc_observation f)) = fr_right_hand f"
  "fr_ping_ms (fst (repair_disc_observation f)) = fr_ping_ms f" "fr_game_last_throw (fst (repair_disc_observation f)) = fr_game_last_throw f"
  "fr_reported_velocity (fst (repair_disc_observation f)) = fr_reported_velocity f" "fr_head_position (fst (repair_disc_observation f)) = fr_head_position f"
  by (simp_all add: repair_defs Let_def split_def split: option.split)

definition same_identity :: "telemetry_frame \<Rightarrow> telemetry_frame \<Rightarrow> bool" where
  "same_identity f g \<longleftrightarrow> fr_observation g = fr_observation f \<and> fr_player_id g = fr_player_id f \<and> fr_team g = fr_team f \<and>
     fr_frame_index g = fr_frame_index f \<and> fr_timestamp g = fr_timestamp f \<and> fr_position g = fr_position f \<and>
     fr_game_phase g = fr_game_phase f \<and> fr_has_score g = fr_has_score f \<and> fr_blue_score g = fr_blue_score f \<and>
     fr_orange_score g = fr_orange_score f \<and> fr_is_stunned g = fr_is_stunned f \<and> fr_has_possession g = fr_has_possession f"

lemma same_identity_trans: "same_identity f g \<Longrightarrow> same_identity g h \<Longrightarrow> same_identity f h"
  by (simp add: same_identity_def)

lemma repair_identities:
  "same_identity f (fst (repair_dt f))" "same_identity f (fst (repair_rotations f))" "same_identity f (fst (repair_hands f))"
  "same_identity f (fst (repair_ping f))" "same_identity f (fst (repair_optional h f))"
  "same_identity f (fst (repair_disc ph h f))" "same_identity f (fst (repair_disc_observation f))"
  by (simp_all add: same_identity_def repair_defs Let_def split_def split: option.split)

lemma repair_identity: "same_identity f (fst (repair f mc))"
  unfolding repair_def Let_def and_then_simps
  by (rule same_identity_trans [OF _ repair_identities(7)], rule same_identity_trans [OF _ repair_identities(6)],
      rule same_identity_trans [OF _ repair_identities(5)], rule same_identity_trans [OF _ repair_identities(4)],
      rule same_identity_trans [OF _ repair_identities(3)], rule same_identity_trans [OF _ repair_identities(2)],
      rule repair_identities(1))

lemma same_identityD:
  "same_identity f g \<Longrightarrow> fr_position g = fr_position f" "same_identity f g \<Longrightarrow> fr_player_id g = fr_player_id f"
  "same_identity f g \<Longrightarrow> fr_timestamp g = fr_timestamp f"
  by (simp_all add: same_identity_def)

lemmas repair_positions [simp] = repair_identities [THEN same_identityD(1)]

lemma repair_fields:
  "fr_delta_time (fst (repair f mc)) = (if flt (fr_delta_time f) (Fin 0) then Fin 0 else fr_delta_time f)"
  "fr_rotation (fst (repair f mc)) = fst (sanitize_quat (fr_rotation f))"
  "fr_left_rotation (fst (repair f mc)) =
     fst (sanitize_quat (fst (sanitize_observed_hand_rotation (fr_left_rotation f) (fr_left_rotation_valid f))))"
  "fr_right_rotation (fst (repair f mc)) =
     fst (sanitize_quat (fst (sanitize_observed_hand_rotation (fr_right_rotation f) (fr_right_rotation_valid f))))"
  "fr_left_rotation_valid (fst (repair f mc)) =
     fst (snd (sanitize_observed_hand_rotation (fr_left_rotation f) (fr_left_rotation_valid f)))"
  "fr_right_rotation_valid (fst (repair f mc)) =
     fst (snd (sanitize_observed_hand_rotation (fr_right_rotation f) (fr_right_rotation_valid f)))"
  "fr_left_hand (fst (repair f mc)) = (if hand_fault (fr_position f) (fr_left_hand f) = Hand_ok then fr_left_hand f else 0)"
  "fr_right_hand (fst (repair f mc)) = (if hand_fault (fr_position f) (fr_right_hand f) = Hand_ok then fr_right_hand f else 0)"
proof -
  have a: "fr_delta_time (fst (repair_dt f)) = (if flt (fr_delta_time f) (Fin 0) then Fin 0 else fr_delta_time f)"
    for f by (simp add: repair_dt_def)
  have b: "fr_left_hand (fst (repair_hands f)) = (if hand_fault (fr_position f) (fr_left_hand f) = Hand_ok then fr_left_hand f else 0)"
    "fr_right_hand (fst (repair_hands f)) = (if hand_fault (fr_position f) (fr_right_hand f) = Hand_ok then fr_right_hand f else 0)"
    for f by (simp_all add: repair_hands_def Let_def)
  have c: "fr_rotation (fst (repair_rotations f)) = fst (sanitize_quat (fr_rotation f))"
    "fr_left_rotation (fst (repair_rotations f)) =
       fst (sanitize_quat (fst (sanitize_observed_hand_rotation (fr_left_rotation f) (fr_left_rotation_valid f))))"
    "fr_right_rotation (fst (repair_rotations f)) =
       fst (sanitize_quat (fst (sanitize_observed_hand_rotation (fr_right_rotation f) (fr_right_rotation_valid f))))"
    "fr_left_rotation_valid (fst (repair_rotations f)) =
       fst (snd (sanitize_observed_hand_rotation (fr_left_rotation f) (fr_left_rotation_valid f)))"
    "fr_right_rotation_valid (fst (repair_rotations f)) =
       fst (snd (sanitize_observed_hand_rotation (fr_right_rotation f) (fr_right_rotation_valid f)))"
    for f by (simp_all add: repair_rotations_def Let_def split_def)
  show "fr_delta_time (fst (repair f mc)) = (if flt (fr_delta_time f) (Fin 0) then Fin 0 else fr_delta_time f)"
    "fr_rotation (fst (repair f mc)) = fst (sanitize_quat (fr_rotation f))"
    "fr_left_rotation (fst (repair f mc)) =
       fst (sanitize_quat (fst (sanitize_observed_hand_rotation (fr_left_rotation f) (fr_left_rotation_valid f))))"
    "fr_right_rotation (fst (repair f mc)) =
       fst (sanitize_quat (fst (sanitize_observed_hand_rotation (fr_right_rotation f) (fr_right_rotation_valid f))))"
    "fr_left_rotation_valid (fst (repair f mc)) =
       fst (snd (sanitize_observed_hand_rotation (fr_left_rotation f) (fr_left_rotation_valid f)))"
    "fr_right_rotation_valid (fst (repair f mc)) =
       fst (snd (sanitize_observed_hand_rotation (fr_right_rotation f) (fr_right_rotation_valid f)))"
    "fr_left_hand (fst (repair f mc)) = (if hand_fault (fr_position f) (fr_left_hand f) = Hand_ok then fr_left_hand f else 0)"
    "fr_right_hand (fst (repair f mc)) = (if hand_fault (fr_position f) (fr_right_hand f) = Hand_ok then fr_right_hand f else 0)"
    by (simp_all add: repair_def Let_def a b c)
qed

lemma kept_hand_ok:
  assumes "v_fin body"
  shows "hand_ok body (if hand_fault body h = Hand_ok then h else 0)"
proof (cases "hand_fault body h = Hand_ok")
  case True
  then have fin: "v_fin h" and near: "h = 0 \<or> \<not> flt max_hand_body_distance (v_distance h body)"
    by (auto simp: hand_fault_def v_fin_iff v_is_zero_iff split: if_splits)
  have "v_distance h body \<noteq> NaN" using fin assms by (rule v_distance_not_NaN)
  then have "\<not> flt max_hand_body_distance (v_distance h body) \<Longrightarrow> fle (v_distance h body) max_hand_body_distance"
    by (subst not_flt [symmetric]) (auto simp: max_hand_body_distance_def)
  with True fin near show ?thesis by (auto simp: hand_ok_def)
qed (simp add: hand_ok_def)

lemma repaired_hand_rotation:
  "(if fst (snd (sanitize_observed_hand_rotation q b)) = Some True then True
    else fst (sanitize_quat (fst (sanitize_observed_hand_rotation q b))) = 0)"
proof -
  have "sanitize_quat 0 = (0, False)" by code_simp
  moreover have "normalized_rotation q = (r, False) \<Longrightarrow> r = 0" for r
    by (auto simp: normalized_rotation_def Let_def split: if_splits)
  ultimately show ?thesis
    by (auto simp: sanitize_observed_hand_rotation_def observed_hand_rotation_def split_def Let_def
      split: option.split) (metis prod.collapse)
qed

lemma repair_pose_ok: "v_fin (fr_position f) \<Longrightarrow> pose_ok (fst (repair f mc))"
  using repaired_hand_rotation
  by (simp add: pose_ok_def repair_fields sanitize_quat_fin kept_hand_ok same_identityD(1) [OF repair_identity])

lemma repair_body_ok:
  assumes "reject v f mc = None"
  shows "body_ok v mc (fst (repair f mc))"
proof -
  have "body_ok v mc (f\<lparr>fr_delta_time := if flt (fr_delta_time f) (Fin 0) then Fin 0 else fr_delta_time f\<rparr>)"
  proof -
    have r: "fr_player_id f \<noteq> []" "\<not> v_is_zero (fr_position f)" "v_fin (fr_position f)"
      "is_fin (fr_timestamp f)" "\<not> flt (fr_timestamp f) (Fin 0)" "is_fin (fr_delta_time f)"
      "\<not> dt_out_of_range v (fr_delta_time f)" "\<not> outside (arena_half_extents (mc_physics mc)) (fr_position f)"
      using assms by (auto simp: reject_def Let_def v_fin_iff is_fin_def split: if_splits)
    have "fle (Fin 0) (fr_timestamp f)" using r(4,5) by (auto simp: is_fin_iff)
    moreover have "fle (Fin 0) (fr_delta_time f) \<or> flt (fr_delta_time f) (Fin 0)" using r(6) by (auto simp: is_fin_iff)
    moreover have "is_fin (Fin 0)" by (simp add: is_fin_iff)
    ultimately show ?thesis using r by (auto simp: body_ok_def v_is_zero_iff dt_out_of_range_def)
  qed
  then show ?thesis
    using repair_identity [of f mc] by (simp add: body_ok_def same_identity_def repair_fields)
qed

lemma repair_disc_ok: "opt_all (disc_ok ph) (fr_disc (fst (repair_disc_observation (fst (repair_disc ph (arena_half_extents ph) f)))))"
proof (cases "fr_disc (fst (repair_disc ph (arena_half_extents ph) f))")
  case None
  then show ?thesis by (simp add: repair_disc_observation_def opt_all_def)
next
  case (Some d)
  then have d: "disc_is_finite d" "disc_in_range d ph (arena_half_extents ph)"
    by (auto simp: repair_disc_def split: option.splits if_splits)
  then have fin: "v_fin (ds_position d)" "v_fin (ds_velocity d)" "is_fin (ds_speed d)"
    by (auto simp: disc_is_finite_def v_fin_iff is_fin_def split: if_splits)
  have same: "disc_in_range (d\<lparr>ds_bounce_count := b, ds_sampled_player_count := n, ds_possession_known := k\<rparr>) ph h = disc_in_range d ph h"
    for b n k h by (simp add: disc_in_range_def)
  show ?thesis
    using d(2) fin Some
    by (cases "ds_bounce_count d") (auto simp: repair_disc_observation_def opt_all_def disc_ok_def Let_def same)
qed

lemma repair_extras_ok: "extras_ok mc (fst (repair f mc))"
proof -
  have ping: "fle (Fin 0) (fr_ping_ms (fst (repair_ping f))) \<and> fle (fr_ping_ms (fst (repair_ping f))) max_estimated_ping_ms" for f
    by (cases "fr_ping_ms f") (auto simp: repair_ping_def Let_def max_estimated_ping_ms_def is_nan_def is_inf_def)
  have "opt_all gt_valid (fr_game_last_throw (fst (repair_optional h f)))"
    "opt_all v_fin (fr_reported_velocity (fst (repair_optional h f)))"
    "opt_all (\<lambda>p. v_fin p \<and> p \<noteq> 0 \<and> \<not> outside h p) (fr_head_position (fst (repair_optional h f)))" for f h
    by (auto simp: repair_optional_def opt_all_def v_fin_iff v_is_zero_iff Let_def split: option.split)
  with ping show ?thesis
    by (simp add: extras_ok_def repair_def Let_def repair_disc_ok)
qed

definition repair_codes :: "string list" where
  "repair_codes = [''negative_delta_time'', ''invalid_rotation'', ''zero_rotation'', ''nan_hand_position'', ''far_hand_position'',
     ''invalid_ping'', ''invalid_game_last_throw'', ''invalid_reported_velocity'', ''invalid_head_position'',
     ''invalid_disc'', ''disc_out_of_range'', ''invalid_disc_observation'']"

lemma repair_codes_once: "distinct (snd (repair f mc)) \<and> set (snd (repair f mc)) \<subseteq> set repair_codes"
proof -
  have flag: "subseq (if a then [x] else []) [x]" for a and x :: string by simp
  have "subseq (snd (repair_dt f)) [''negative_delta_time'']" for f by (simp add: repair_dt_def)
  moreover have "subseq (snd (repair_rotations f)) ([''invalid_rotation''] @ [''zero_rotation''])" for f
    unfolding repair_rotations_def Let_def split_def snd_conv by (intro list_emb_append_mono flag)
  moreover have "subseq (snd (repair_hands f)) ([''nan_hand_position''] @ [''far_hand_position''])" for f
    unfolding repair_hands_def Let_def snd_conv by (intro list_emb_append_mono flag)
  moreover have "subseq (snd (repair_ping f)) [''invalid_ping'']" for f by (simp add: repair_ping_def Let_def)
  moreover have "subseq (snd (repair_optional h f)) ([''invalid_game_last_throw''] @ [''invalid_reported_velocity''] @ [''invalid_head_position''])" for h f
    unfolding repair_optional_def Let_def snd_conv by (intro list_emb_append_mono flag)
  moreover have "subseq (snd (repair_disc ph h f)) [''invalid_disc'', ''disc_out_of_range'']" for ph h f
    by (simp add: repair_disc_def split: option.split)
  moreover have "subseq (snd (repair_disc_observation f)) [''invalid_disc_observation'']" for f
    by (simp add: repair_disc_observation_def Let_def split: option.split)
  ultimately have "subseq (snd (repair f mc)) (((((([''negative_delta_time''] @ ([''invalid_rotation''] @ [''zero_rotation''])) @
      ([''nan_hand_position''] @ [''far_hand_position''])) @ [''invalid_ping'']) @
      ([''invalid_game_last_throw''] @ [''invalid_reported_velocity''] @ [''invalid_head_position''])) @
      [''invalid_disc'', ''disc_out_of_range'']) @ [''invalid_disc_observation''])"
    unfolding repair_def Let_def and_then_simps by (intro list_emb_append_mono) blast+
  then obtain N where N: "snd (repair f mc) = nths repair_codes N"
    by (auto simp: subseq_conv_nths repair_codes_def)
  have "distinct repair_codes" by (simp add: repair_codes_def)
  then show ?thesis unfolding N by (simp add: distinct_nthsI set_nths_subset)
qed


lemma validate_accepted:
  assumes "validate v f mc = (Inr codes, f')"
  shows "reject v f mc = None" and "f' = fst (repair f mc)" and "codes = snd (repair f mc)" and "accepted_ok v mc f'"
proof -
  from assms show r: "reject v f mc = None" "f' = fst (repair f mc)" "codes = snd (repair f mc)"
    by (auto simp: validate_def Let_def split: option.splits prod.splits)
  have "v_fin (fr_position f)" using repair_body_ok [OF r(1)] repair_identity [of f mc]
    by (simp add: body_ok_def same_identity_def)
  then show "accepted_ok v mc f'"
    by (simp add: accepted_ok_def r repair_body_ok [OF r(1)] repair_pose_ok repair_extras_ok)
qed


definition sample_validator :: frame_validator where
  "sample_validator = new_frame_validator (flit (1/1000))"

lemma sample_validates: "fst (validate sample_validator sample_frame sample_match) =
    Inr [''negative_delta_time'', ''zero_rotation'', ''nan_hand_position'', ''invalid_ping'', ''invalid_reported_velocity'']"
  by code_simp

lemma sample_result: "validate sample_validator sample_frame sample_match =
    (Inr [''negative_delta_time'', ''zero_rotation'', ''nan_hand_position'', ''invalid_ping'', ''invalid_reported_velocity''],
     snd (validate sample_validator sample_frame sample_match))"
  by (rule prod_eqI) (simp_all only: sample_validates fst_conv snd_conv)


lemma repair_stable:
  assumes "accepted_ok v mc f"
  shows "repair f mc = repair_rotations f"
proof -
  let ?h = "arena_half_extents (mc_physics mc)"
  define g where "g = fst (repair_rotations f)"
  have same: "fr_left_hand g = fr_left_hand f" "fr_right_hand g = fr_right_hand f" "fr_position g = fr_position f"
    "fr_ping_ms g = fr_ping_ms f" "fr_game_last_throw g = fr_game_last_throw f" "fr_reported_velocity g = fr_reported_velocity f"
    "fr_head_position g = fr_head_position f" "fr_disc g = fr_disc f"
    by (simp_all add: g_def)
  note ok = assms [unfolded accepted_ok_def body_ok_def pose_ok_def extras_ok_def]
  have "repair_dt f = (f, [])" using ok by (simp add: repair_dt_def fle_not_flt)
  moreover have "hand_ok b h \<Longrightarrow> hand_fault b h = Hand_ok" for b h
    by (auto simp: hand_ok_def hand_fault_def v_fin_iff v_is_zero_iff fle_not_flt split: if_splits)
  then have "repair_hands g = (g, [])" using ok same by (simp add: repair_hands_def Let_def)
  moreover have "repair_ping g = (g, [])"
    using ok by (cases "fr_ping_ms f") (auto simp: repair_ping_def same Let_def is_nan_def is_inf_def max_estimated_ping_ms_def)
  moreover have "repair_optional ?h g = (g, [])"
    using ok by (auto simp: repair_optional_def same Let_def opt_all_def v_fin_iff v_is_zero_iff split: option.splits)
  moreover have "repair_disc (mc_physics mc) ?h g = (g, [])"
    using ok by (auto simp: repair_disc_def same opt_all_def disc_ok_def disc_is_finite_def v_fin_iff is_fin_def split: option.split)
  moreover have "repair_disc_observation g = (g, [])"
    using ok by (auto simp: repair_disc_observation_def same opt_all_def disc_ok_def Let_def split: option.split)
  ultimately show ?thesis
    by (simp add: repair_def Let_def and_then_def split_def g_def [symmetric]) (simp add: g_def)
qed

text \<open>Validation is stable: what the validator accepted it accepts again, on any later pass
  nothing but rotations is touched, and only rotation codes can be reported.\<close>
theorem validation_is_stable:
  assumes "validate v f mc = (Inr codes, f')"
  shows "let (r, f'') = validate v f' mc in
    (case r of Inl e \<Rightarrow> False | Inr codes' \<Rightarrow> set codes' \<subseteq> {''invalid_rotation'', ''zero_rotation''}) \<and>
    f''\<lparr>fr_rotation := fr_rotation f', fr_left_rotation := fr_left_rotation f', fr_right_rotation := fr_right_rotation f',
        fr_left_rotation_valid := fr_left_rotation_valid f', fr_right_rotation_valid := fr_right_rotation_valid f'\<rparr> = f'"
proof -
  note ok = validate_accepted(4) [OF assms]
  have "reject v f' mc = None"
    using ok by (simp add: accepted_ok_def body_ok_def reject_def Let_def v_is_zero_iff v_fin_iff is_fin_def fle_not_flt)
  then show ?thesis
    by (auto simp: validate_def repair_stable [OF ok] repair_rotations_def Let_def split_def)
qed

theorem validation_is_stable_witness:
  "case fst (validate sample_validator (snd (validate sample_validator sample_frame sample_match)) sample_match) of
     Inl e \<Rightarrow> False | Inr codes \<Rightarrow> set codes \<subseteq> {''invalid_rotation'', ''zero_rotation''}"
  using validation_is_stable [OF sample_result] by (simp only: Let_def split_def)

end
