(* ===== verification/Quality.thy ===== *)
theory Quality
  imports Telemetry "HOL-Library.Multiset"
begin

text \<open>
  The telemetry quality gate of an offline file (\<open>internal/pipeline/quality.go\<close>):
  \<open>assess_telemetry_quality\<close> counts what is wrong with the rows, turns the counts into a penalty,
  a score, a grade and a confidence multiplier, and gates a source that is unusable.

  \<open>sort.Slice\<close> is not stable; \<open>sort_key\<close> is the order it produces when the frame indices of a
  player are distinct, and one of its possible orders otherwise. The configuration enters as
  \<open>pipeline.max_frame_dt\<close> only.
\<close>

record quality_report =
  q_score :: f64
  q_grade :: string
  q_gated :: bool
  q_confidence_multiplier :: f64
  q_rows :: int
  q_distinct_frames :: int
  q_players :: int
  q_timestamp_problems :: int
  q_large_gaps :: int
  q_missing_hands :: int
  q_missing_game_velocity :: int
  q_missing_disc :: int
  q_reasons :: "string list"
  q_per_player_rows :: "string \<rightharpoonup> int"

definition is_finite_number :: "f64 \<Rightarrow> bool" where
  "is_finite_number v \<longleftrightarrow> \<not> is_nan v \<and> \<not> is_inf v"

definition count_if :: "('a \<Rightarrow> bool) \<Rightarrow> 'a list \<Rightarrow> int" where
  "count_if p xs = int (length (filter p xs))"

text \<open>The steps of one player's rows in frame order: the problems and the large gaps among them.\<close>

fun steps_of :: "f64 list \<Rightarrow> f64 list" where
  "steps_of (a # b # ts) = fsub b a # steps_of (b # ts)"
| "steps_of _ = []"

definition player_steps :: "telemetry_frame list \<Rightarrow> string \<Rightarrow> f64 list" where
  "player_steps frames p =
     steps_of (map fr_timestamp (sort_key fr_frame_index (filter (\<lambda>f. fr_player_id f = p) frames)))"

definition bad_step :: "f64 \<Rightarrow> bool" where
  "bad_step dt \<longleftrightarrow> \<not> is_finite_number dt \<or> fle dt (Fin 0)"

definition quality_max_dt :: "f64 \<Rightarrow> f64" where
  "quality_max_dt max_frame_dt = (if flt (Fin 0) max_frame_dt then max_frame_dt else Fin (1/4))"

definition large_gap :: "f64 \<Rightarrow> f64 \<Rightarrow> bool" where
  "large_gap max_dt dt \<longleftrightarrow> \<not> bad_step dt \<and> flt max_dt dt"

definition sum_players :: "(string \<Rightarrow> int) \<Rightarrow> telemetry_frame list \<Rightarrow> int" where
  "sum_players g frames = sum_list (map g (remdups (map fr_player_id frames)))"

definition share :: "rat \<Rightarrow> rat \<Rightarrow> int \<Rightarrow> int \<Rightarrow> f64" where
  "share cap weight k n = fmin (Fin cap) (fdiv (fmul (Fin weight) (f_of_int k)) (f_of_int n))"

definition grade_of :: "f64 \<Rightarrow> string" where
  "grade_of score = (if fle (Fin 90) score then ''excellent'' else if fle (Fin 75) score then ''good''
     else if fle (Fin 55) score then ''caution'' else if fle (Fin 35) score then ''poor'' else ''unusable'')"

definition multiplier_of :: "f64 \<Rightarrow> f64" where
  "multiplier_of score = (if fle (Fin 85) score then Fin 1
     else clamp (fadd (flit (35/100)) (fdiv score (Fin 130))) (flit (35/100)) (flit (99/100)))"

definition quality_reasons :: "int \<Rightarrow> int \<Rightarrow> int \<Rightarrow> int \<Rightarrow> int \<Rightarrow> string list" where
  "quality_reasons n problems gaps velocity hands =
     (if n < 20 then [''too few samples for reliable detector warmup''] else []) @
     (if 0 < problems then [''non-monotonic or non-finite timestamps were found''] else []) @
     (if 0 < gaps then [''sampling gaps break finite-difference kinematics''] else []) @
     (if n div 2 < velocity then [''game-authored velocity is mostly unavailable; playspace and stacking separation is limited''] else []) @
     (if n div 2 < hands then [''controller tracking is mostly unavailable''] else [])"

definition assess_telemetry_quality :: "telemetry_frame list \<Rightarrow> f64 \<Rightarrow> quality_report" where
  "assess_telemetry_quality frames max_frame_dt =
     (if frames = [] then
        \<lparr>q_score = Fin 0, q_grade = ''unusable'', q_gated = True, q_confidence_multiplier = Fin (1/4), q_rows = 0,
         q_distinct_frames = 0, q_players = 0, q_timestamp_problems = 0, q_large_gaps = 0, q_missing_hands = 0,
         q_missing_game_velocity = 0, q_missing_disc = 0,
         q_reasons = [''no normalized telemetry rows were available''], q_per_player_rows = Map.empty\<rparr>
      else let
        n = int (length frames);
        hands = count_if (\<lambda>f. v_is_zero (fr_left_hand f) \<or> v_is_zero (fr_right_hand f)) frames;
        velocity = count_if (\<lambda>f. fr_reported_velocity f = None) frames;
        disc = count_if (\<lambda>f. fr_disc f = None) frames;
        max_dt = quality_max_dt max_frame_dt;
        problems = count_if (\<lambda>f. \<not> is_finite_number (fr_timestamp f) \<or> \<not> is_finite_number (fr_delta_time f)) frames +
          sum_players (\<lambda>p. count_if bad_step (player_steps frames p)) frames;
        gaps = sum_players (\<lambda>p. count_if (large_gap max_dt) (player_steps frames p)) frames;
        penalty = fadd (fadd (fadd (fadd (share 55 100 problems n) (share 20 50 gaps n)) (share 10 10 hands n))
          (share 10 10 velocity n)) (share 5 5 disc n);
        score = clamp (fsub (Fin 100) penalty) (Fin 0) (Fin 100)
      in \<lparr>q_score = score, q_grade = grade_of score,
          q_gated = (n < 2 \<or> flt score (Fin 35) \<or> n div 4 < problems),
          q_confidence_multiplier = multiplier_of score, q_rows = n,
          q_distinct_frames = int (length (remdups (map fr_frame_index frames))),
          q_players = int (length (remdups (map fr_player_id frames))),
          q_timestamp_problems = problems, q_large_gaps = gaps, q_missing_hands = hands,
          q_missing_game_velocity = velocity, q_missing_disc = disc,
          q_reasons = quality_reasons n problems gaps velocity hands,
          q_per_player_rows = (\<lambda>p. if p \<in> fr_player_id ` set frames
            then Some (count_if (\<lambda>f. fr_player_id f = p) frames) else None)\<rparr>)"

definition source_scoped :: quality_report where
  "source_scoped = \<lparr>q_score = Fin 0, q_grade = ''source_scoped'', q_gated = False, q_confidence_multiplier = Fin 1, q_rows = 0,
     q_distinct_frames = 0, q_players = 0, q_timestamp_problems = 0, q_large_gaps = 0, q_missing_hands = 0,
     q_missing_game_velocity = 0, q_missing_disc = 0, q_reasons = [], q_per_player_rows = Map.empty\<rparr>"

section \<open>Facts\<close>

lemma count_if_mset: "mset xs = mset ys \<Longrightarrow> count_if p xs = count_if p ys"
  unfolding count_if_def by (metis mset_filter size_mset)

lemma count_if_bounds: "0 \<le> count_if p xs \<and> count_if p xs \<le> int (length xs)"
  by (simp add: count_if_def)

lemma sum_players_set: "sum_players g frames = sum g (fr_player_id ` set frames)"
  by (simp add: sum_players_def sum_list_distinct_conv_sum_set)

lemma sum_players_mset:
  assumes "mset xs = mset ys" "\<And>p. g p = h p"
  shows "sum_players g xs = sum_players h ys"
  using assms(2) mset_eq_setD [OF assms(1)] by (simp add: sum_players_set)

definition row_key :: "telemetry_frame \<Rightarrow> string \<times> int" where
  "row_key f = (fr_player_id f, fr_frame_index f)"

lemma sort_rows_mset:
  assumes "mset xs = mset ys" and "distinct (map row_key xs)"
  shows "sort_key fr_frame_index (filter (\<lambda>f. fr_player_id f = p) xs) =
    sort_key fr_frame_index (filter (\<lambda>f. fr_player_id f = p) ys)"
proof (rule sort_key_inj_key_eq)
  show "mset (filter (\<lambda>f. fr_player_id f = p) xs) = mset (sort_key fr_frame_index (filter (\<lambda>f. fr_player_id f = p) ys))"
    using assms(1) by simp
  have "inj_on row_key (set xs)" using assms(2) by (simp add: distinct_map)
  then show "inj_on fr_frame_index (set (filter (\<lambda>f. fr_player_id f = p) xs))"
    by (auto simp: inj_on_def row_key_def)
qed simp

lemma player_steps_mset:
  "mset xs = mset ys \<Longrightarrow> distinct (map row_key xs) \<Longrightarrow> player_steps xs p = player_steps ys p"
  by (simp add: player_steps_def sort_rows_mset)

text \<open>The assessment depends on the set of rows, not on the order in which they arrive, as long
  as a player has one row per frame.\<close>
theorem quality_ignores_row_order:
  assumes "mset xs = mset ys" and "distinct (map row_key xs)"
  shows "assess_telemetry_quality xs dt = assess_telemetry_quality ys dt"
proof -
  have len: "length xs = length ys" and sets: "set xs = set ys" and nil: "xs = [] \<longleftrightarrow> ys = []"
    using assms(1) by (auto dest: mset_eq_length mset_eq_setD)
  have "length (remdups (map fr_frame_index xs)) = length (remdups (map fr_frame_index ys))"
    "length (remdups (map fr_player_id xs)) = length (remdups (map fr_player_id ys))"
    using sets by (simp_all add: length_remdups_card_conv)
  then show ?thesis
    using len sets nil
    by (simp add: assess_telemetry_quality_def Let_def count_if_mset [OF assms(1)]
      sum_players_mset [OF assms(1)] player_steps_mset [OF assms] cong: if_cong)
qed


theorem quality_ignores_row_order_witness:
  "assess_telemetry_quality [sample_frame, sample_frame\<lparr>fr_frame_index := 2\<rparr>] (Fin 1) =
   assess_telemetry_quality [sample_frame\<lparr>fr_frame_index := 2\<rparr>, sample_frame] (Fin 1)"
  by (rule quality_ignores_row_order) (simp_all add: row_key_def sample_frame_def)

section \<open>The gate\<close>

lemma one_rounds: "rnd 1 = Fin 1"
  by code_simp

definition clean :: "telemetry_frame list \<Rightarrow> f64 \<Rightarrow> bool" where
  "clean frames max_frame_dt \<longleftrightarrow>
     list_all (\<lambda>f. is_finite_number (fr_timestamp f) \<and> is_finite_number (fr_delta_time f) \<and>
       \<not> v_is_zero (fr_left_hand f) \<and> \<not> v_is_zero (fr_right_hand f) \<and>
       fr_reported_velocity f \<noteq> None \<and> fr_disc f \<noteq> None) frames \<and>
     list_all (\<lambda>p. list_all (\<lambda>dt. \<not> bad_step dt \<and> \<not> large_gap (quality_max_dt max_frame_dt) dt) (player_steps frames p))
       (map fr_player_id frames)"

lemma count_if_none: "list_all (\<lambda>x. \<not> p x) xs \<Longrightarrow> count_if p xs = 0"
  by (simp add: count_if_def list_all_iff filter_empty_conv)

lemma share_none: "0 < n \<Longrightarrow> 0 \<le> cap \<Longrightarrow> share cap w 0 n = Fin 0"
proof -
  assume n: "0 < n" and cap: "0 \<le> cap"
  have "fle (Fin 1) (f_of_int n)" using n rnd_mono [of 1 "of_int n"] by (simp add: f_of_int_def one_rounds)
  then have "fdiv (Fin 0) (f_of_int n) = Fin 0" by (cases "f_of_int n") auto
  then show ?thesis using cap by (auto simp: share_def f_of_int_def [of 0] fmin_def is_nan_def)
qed

lemma quality_multiplier_range: "fle (Fin (1/4)) (multiplier_of s) \<and> fle (multiplier_of s) (Fin 1)"
proof -
  have c: "fle (Fin (1/4)) (flit (35/100))" "fle (flit (35/100)) (flit (99/100))" "fle (flit (99/100)) (Fin 1)" by code_simp+
  with clamp_range [OF c(2)] show ?thesis
    by (auto simp: multiplier_of_def intro: fle_trans)
qed

text \<open>Whatever the rows, the score lies in [0,100] and the confidence multiplier in [0.25,1], so
  the gate never raises a confidence; and a recording of at least two rows with finite, strictly
  advancing timestamps, no large gap and every optional field present is graded excellent, is not
  gated and keeps full confidence.\<close>
theorem quality_gate_is_sound:
  "let r = assess_telemetry_quality frames dt in
     fle (Fin 0) (q_score r) \<and> fle (q_score r) (Fin 100) \<and>
     fle (Fin (1/4)) (q_confidence_multiplier r) \<and> fle (q_confidence_multiplier r) (Fin 1) \<and>
     (if clean frames dt \<and> 2 \<le> length frames
      then q_score r = Fin 100 \<and> q_grade r = ''excellent'' \<and> \<not> q_gated r \<and> q_confidence_multiplier r = Fin 1 else True)"
proof -
  let ?r = "assess_telemetry_quality frames dt"
  have range: "fle (Fin 0) (q_score ?r) \<and> fle (q_score ?r) (Fin 100)"
    using clamp_range [of "Fin 0" "Fin 100"] by (simp add: assess_telemetry_quality_def Let_def)
  have mult: "fle (Fin (1/4)) (q_confidence_multiplier ?r) \<and> fle (q_confidence_multiplier ?r) (Fin 1)"
    using quality_multiplier_range by (simp add: assess_telemetry_quality_def Let_def)
  have "q_score ?r = Fin 100 \<and> q_grade ?r = ''excellent'' \<and> \<not> q_gated ?r \<and> q_confidence_multiplier ?r = Fin 1"
    if cl: "clean frames dt" and n: "2 \<le> length frames"
  proof -
    have ne: "frames \<noteq> []" "0 < int (length frames)" "2 \<le> int (length frames)" using n by auto
    have z: "count_if (\<lambda>f. \<not> is_finite_number (fr_timestamp f) \<or> \<not> is_finite_number (fr_delta_time f)) frames = 0"
      "count_if (\<lambda>f. v_is_zero (fr_left_hand f) \<or> v_is_zero (fr_right_hand f)) frames = 0"
      "count_if (\<lambda>f. fr_reported_velocity f = None) frames = 0" "count_if (\<lambda>f. fr_disc f = None) frames = 0"
      using cl by (auto simp: clean_def list_all_iff intro!: count_if_none)
    have y: "sum_players (\<lambda>p. count_if bad_step (player_steps frames p)) frames = 0"
      "sum_players (\<lambda>p. count_if (large_gap (quality_max_dt dt)) (player_steps frames p)) frames = 0"
      using cl by (auto simp: clean_def list_all_iff sum_players_set intro!: sum.neutral count_if_none)
    have fins: "clamp (fsub (Fin 100) (Fin 0)) (Fin 0) (Fin 100) = Fin 100" "grade_of (Fin 100) = ''excellent''"
      "multiplier_of (Fin 100) = Fin 1" "fadd (Fin 0) (Fin 0) = Fin 0" by code_simp+
    have gates: "\<not> int (length frames) < 2" "\<not> flt (Fin 100) (Fin 35)" "\<not> int (length frames) div 4 < 0" using ne by auto
    show ?thesis
      using ne gates by (simp only: assess_telemetry_quality_def Let_def if_False z y add_0 share_none [OF ne(2)]
        order.refl zero_le_numeral fins quality_report.simps) simp
  qed
  with range mult show ?thesis by (simp add: Let_def)
qed

end
