(* ===== verification/Health.thy ===== *)
theory Health
  imports Telemetry Events
begin

text \<open>
  Data health (\<open>internal/pipeline/data_health.go\<close>): what is wrong with each player's feed, how long
  a fault stays open, and how it quarantines evidence. A player's entry is the report
  (\<open>data_health\<close>), the open faults with the samples left until they clear, and per detector the
  last frame at which a fault affected it. \<open>observe_health\<close> is one telemetry sample;
  \<open>apply_evidence_safety\<close> is what it does to an event.

  \<open>dets\<close> lists the pipeline's detectors that are in the capability catalog. The decision trace is
  a diagnostic output and is not modelled. The capability records themselves are text for the
  reviewer; only their presence is used.
\<close>

definition catalog :: "string list" where
  "catalog = [''THROW_001'', ''THROW_002'', ''THROW_003'', ''THROW_004'', ''THROW_005'', ''THROW_006'', ''THROW_007'', ''THROW_008'',
     ''MOV_001'', ''MOV_002'', ''MOV_003'', ''MOV_004'', ''MOV_005'', ''MOV_006'', ''STATE_001'', ''STATE_002'', ''STATE_003'', ''STATE_004'',
     ''STATE_005'', ''STATE_006'', ''STATE_007'', ''STATE_008'', ''BIO_001'', ''BIO_002'', ''BIO_003'', ''BIO_004'', ''PAT_001'', ''PAT_002'',
     ''PAT_003'', ''PAT_004'', ''PAT_005'']"

definition detector_capabilities :: "string list \<Rightarrow> string list" where
  "detector_capabilities ids = filter (\<lambda>i. i \<in> set catalog) ids"

definition HealthHealthy :: string where "HealthHealthy = ''healthy''"
definition HealthDegraded :: string where "HealthDegraded = ''degraded''"
definition HealthBlind :: string where "HealthBlind = ''blind''"

record data_health =
  dh_revision :: nat
  dh_version :: int
  dh_state :: string
  dh_reasons :: "string list"
  dh_affected :: "string list"
  dh_recovery :: int
  dh_healthy_samples :: int
  dh_degraded_samples :: int
  dh_blind_samples :: int
  dh_last_frame :: int

record health_entry =
  he_summary :: data_health
  he_faults :: "(string, int) gomap"
  he_last_affected :: "(string, int) gomap"

type_synonym health_map = "(string, health_entry) gomap"

definition health_recovery_samples :: int where
  "health_recovery_samples = 8"

definition health_affects :: "string \<Rightarrow> string \<Rightarrow> bool" where
  "health_affects reason i =
     (if reason = ''missing_disc'' then has_prefix i ''THROW_'' \<or> i = ''STATE_001'' \<or> i = ''STATE_008''
      else if reason = ''missing_reported_velocity'' then i = ''MOV_006''
      else if reason = ''missing_hand_tracking'' then has_prefix i ''BIO_'' \<or> i \<in> set [''MOV_006'', ''PAT_002'', ''PAT_005'',
        ''STATE_001'', ''STATE_007'', ''STATE_008'', ''THROW_003'']
      else if reason = ''invalid_hand_rotation'' \<or> reason = ''shared_orientation_jump'' then i = ''BIO_001'' \<or> i = ''BIO_004''
      else True)"

section \<open>The faults of a sample\<close>

definition sanitized_fault :: "string \<Rightarrow> string" where
  "sanitized_fault code =
     (if code \<in> set [''invalid_disc'', ''disc_out_of_range'', ''invalid_disc_observation''] then ''missing_disc''
      else if code = ''invalid_reported_velocity'' then ''missing_reported_velocity''
      else if code \<in> set [''nan_hand_position'', ''far_hand_position'', ''invalid_head_position''] then ''missing_hand_tracking''
      else if code \<in> set [''invalid_rotation'', ''zero_rotation''] then ''invalid_hand_rotation''
      else ''sanitized_observation'')"

definition health_max_dt :: "f64 \<Rightarrow> f64" where
  "health_max_dt max_frame_dt = (if fle max_frame_dt (Fin 0) then Fin (1/4) else max_frame_dt)"

definition previous_faults :: "f64 \<Rightarrow> telemetry_frame \<Rightarrow> 'k player_state \<Rightarrow> string list" where
  "previous_faults max_frame_dt f ps =
     (if 0 < ps_frame_count ps then
        (if fle (fr_timestamp f) (ps_last_timestamp ps) \<or> fr_frame_index f \<le> ps_last_frame_idx ps then [''non_advancing_observation''] else []) @
        (if \<not> same_observation_source (ps_observation ps) (fr_observation f) then [''source_discontinuity''] else []) @
        (if flt (health_max_dt max_frame_dt) (fsub (fr_timestamp f) (ps_last_timestamp ps)) then [''sampling_gap''] else [])
      else [])"

definition hand_rotation_bad :: "quat \<Rightarrow> bool option \<Rightarrow> bool" where
  "hand_rotation_bad q valid \<longleftrightarrow> valid \<noteq> Some True \<or> \<not> q_is_unit q"

definition sample_faults :: "f64 \<Rightarrow> telemetry_frame \<Rightarrow> 'k player_state option \<Rightarrow> bool \<Rightarrow> string list \<Rightarrow> bool \<Rightarrow> string list" where
  "sample_faults max_frame_dt f previous rejected sanitized shared =
     (if rejected then [''rejected_observation''] else []) @
     (if \<not> oc_valid (fr_observation f) then [''missing_source_context'']
      else case fr_observation f of None \<Rightarrow> [] | Some c \<Rightarrow>
        if oc_frame_index c \<noteq> fr_frame_index f \<or> \<not> feq (oc_timestamp c) (fr_timestamp f) then [''source_binding_invalid''] else []) @
     (case previous of None \<Rightarrow> [] | Some ps \<Rightarrow> previous_faults max_frame_dt f ps) @
     (if fr_disc f = None then [''missing_disc''] else []) @
     (if fr_reported_velocity f = None then [''missing_reported_velocity''] else []) @
     (if v_is_zero (fr_left_hand f) \<or> v_is_zero (fr_right_hand f) then [''missing_hand_tracking''] else []) @
     (if hand_rotation_bad (fr_left_rotation f) (fr_left_rotation_valid f) \<or>
         hand_rotation_bad (fr_right_rotation f) (fr_right_rotation_valid f) then [''invalid_hand_rotation''] else []) @
     map sanitized_fault sanitized @
     (if shared then [''shared_orientation_jump''] else [])"

section \<open>Observing\<close>

text \<open>A sample's faults are opened for the whole window; every other open fault ages by one sample.\<close>

definition age_faults :: "string list \<Rightarrow> (string, int) gomap \<Rightarrow> (string, int) gomap" where
  "age_faults faults m =
     gmap_vals (\<lambda>r n. if r \<in> set faults then n else n - 1)
       (gfilter (\<lambda>r n. r \<in> set faults \<or> 1 < n) (fold (\<lambda>r. AList.update r health_recovery_samples) faults m))"

definition blind_reasons :: "string list" where
  "blind_reasons = [''missing_source_context'', ''source_binding_invalid'', ''rejected_observation'', ''non_advancing_observation'']"

definition health_state_of :: "(string, int) gomap \<Rightarrow> string" where
  "health_state_of m = (if list_ex (\<lambda>r. r \<in> set blind_reasons) (map fst m) then HealthBlind
     else if m \<noteq> [] then HealthDegraded else HealthHealthy)"

definition affected_detectors :: "string list \<Rightarrow> (string, int) gomap \<Rightarrow> string list" where
  "affected_detectors dets m = sort (filter (\<lambda>i. list_ex (\<lambda>r. health_affects r i) (map fst m)) dets)"

definition new_entry :: health_entry where
  "new_entry = \<lparr>he_summary = \<lparr>dh_revision = 0, dh_version = 1, dh_state = [], dh_reasons = [], dh_affected = [], dh_recovery = 0,
     dh_healthy_samples = 0, dh_degraded_samples = 0, dh_blind_samples = 0, dh_last_frame = 0\<rparr>,
     he_faults = [], he_last_affected = []\<rparr>"

definition observe_entry :: "string list \<Rightarrow> string list \<Rightarrow> int \<Rightarrow> health_entry \<Rightarrow> health_entry" where
  "observe_entry dets faults f h =
     (let m = age_faults faults (he_faults h); s = he_summary h; st = health_state_of m;
          affected = affected_detectors dets m;
          last_frame = (if dh_last_frame s < f then f else dh_last_frame s)
      in \<lparr>he_summary = \<lparr>dh_revision = dh_revision s + 1, dh_version = dh_version s, dh_state = st,
            dh_reasons = sort (map fst m), dh_affected = affected, dh_recovery = foldr max (map snd m) 0,
            dh_healthy_samples = dh_healthy_samples s + (if st = HealthHealthy then 1 else 0),
            dh_degraded_samples = dh_degraded_samples s + (if st = HealthDegraded then 1 else 0),
            dh_blind_samples = dh_blind_samples s + (if st = HealthBlind then 1 else 0), dh_last_frame = last_frame\<rparr>,
          he_faults = m,
          he_last_affected = fold (\<lambda>i. AList.update i last_frame) affected (he_last_affected h)\<rparr>)"

definition observe_health :: "string list \<Rightarrow> f64 \<Rightarrow> telemetry_frame \<Rightarrow> 'k player_state option \<Rightarrow> bool \<Rightarrow> string list \<Rightarrow> bool \<Rightarrow>
    health_map \<Rightarrow> health_map" where
  "observe_health dets max_frame_dt f previous rejected sanitized shared hm =
     AList.update (fr_player_id f)
       (observe_entry dets (sample_faults max_frame_dt f previous rejected sanitized shared) (fr_frame_index f)
         (gz new_entry hm (fr_player_id f))) hm"

section \<open>Evidence\<close>

definition unsupported_inputs :: "string list" where
  "unsupported_inputs = [''STATE_002'', ''STATE_003'', ''STATE_004'', ''STATE_005'', ''STATE_006'', ''STATE_007'', ''PAT_001'']"

definition quarantined :: "health_map \<Rightarrow> detection_event \<Rightarrow> bool" where
  "quarantined hm ev = (case map_of hm (player_id ev) of None \<Rightarrow> False
     | Some h \<Rightarrow> (case map_of (he_last_affected h) (detector_id ev) of None \<Rightarrow> False
         | Some last_frame \<Rightarrow> min (frame_range_start ev) (ck_frame_start (ev_causal_key ev)) \<le> last_frame))"

definition abstain :: "detection_event \<Rightarrow> detection_event" where
  "abstain ev = ev\<lparr>is_shadow := True, enforcement_weight := Fin 0\<rparr>"

definition apply_evidence_safety :: "string list \<Rightarrow> health_map \<Rightarrow> detection_event \<Rightarrow> detection_event" where
  "apply_evidence_safety dets hm ev0 =
     (if detector_id ev0 \<notin> set dets then ev0
      else let ev = ev0\<lparr>auto_enforce := False\<rparr>;
               ev = (if detector_id ev \<in> set unsupported_inputs then abstain ev else ev)
           in if quarantined hm ev then abstain ev else ev)"

section \<open>Shared orientation jumps\<close>

definition jump_candidate :: "(f64 \<Rightarrow> f64) \<Rightarrow> (string, 'k player_state) gomap \<Rightarrow> telemetry_frame \<Rightarrow> bool" where
  "jump_candidate acos pls f = (case map_of pls (fr_player_id f) of None \<Rightarrow> False
     | Some prev \<Rightarrow> ps_frame_count prev \<noteq> 0 \<and> same_source (fr_observation f) (ps_observation prev) \<and>
         \<not> fle (fr_timestamp f) (ps_last_timestamp prev) \<and> q_is_unit (fr_rotation f) \<and> q_is_unit (ps_rotation prev) \<and>
         flt (flit (3/4 * go_pi)) (angular_distance acos (ps_rotation prev) (fr_rotation f)))"

definition shared_orientation_jumps :: "(f64 \<Rightarrow> f64) \<Rightarrow> (string, 'k player_state) gomap \<Rightarrow> telemetry_frame list \<Rightarrow> string \<Rightarrow> bool" where
  "shared_orientation_jumps acos pls frames p =
     (let cs = filter (jump_candidate acos pls) frames;
          group = (\<lambda>a. filter (\<lambda>b. feq (fr_timestamp a) (fr_timestamp b) \<and> same_source (fr_observation a) (fr_observation b)) cs)
      in list_ex (\<lambda>a. 3 \<le> length (remdups (map fr_player_id (group a))) \<and> p \<in> set (map fr_player_id (group a))) cs)"

section \<open>Open faults are the recent ones\<close>

lemma map_of_fold_update: "map_of (fold (\<lambda>r. AList.update r v) rs m) k = (if k \<in> set rs then Some v else map_of m k)"
  by (induction rs arbitrary: m) (auto simp: update_conv')

lemma gok_fold_update: "gok m \<Longrightarrow> gok (fold (\<lambda>r. AList.update r v) rs m)"
  by (induction rs arbitrary: m) auto

lemma gok_age_faults [simp]: "gok m \<Longrightarrow> gok (age_faults fs m)"
  by (simp add: age_faults_def gok_fold_update gok_gfilter)

lemma map_of_age_faults:
  "gok m \<Longrightarrow> map_of (age_faults fs m) r = (if r \<in> set fs then Some health_recovery_samples
     else case map_of m r of None \<Rightarrow> None | Some n \<Rightarrow> if 1 < n then Some (n - 1) else None)"
  by (auto simp: age_faults_def map_of_gfilter gok_fold_update map_of_fold_update split: option.split)

definition since :: "string \<Rightarrow> string list list \<Rightarrow> nat" where
  "since r fss = length (takeWhile (\<lambda>fs. r \<notin> set fs) (rev fss))"

lemma gok_fold_age: "gok m \<Longrightarrow> gok (fold age_faults fss m)"
  by (induction fss arbitrary: m) auto

lemma since_snoc: "since r (fss @ [fs]) = (if r \<in> set fs then 0 else since r fss + 1)"
  by (simp add: since_def)

lemma map_of_run_faults:
  "map_of (fold age_faults fss []) r =
     (if since r fss < length fss \<and> since r fss < 8 then Some (8 - int (since r fss)) else None)"
proof (induction fss rule: rev_induct)
  case (snoc fs fss)
  then show ?case
    by (auto simp: since_snoc map_of_age_faults gok_fold_age health_recovery_samples_def)
qed simp

definition recent :: "string \<Rightarrow> (string list \<times> int) list \<Rightarrow> bool" where
  "recent r obs \<longleftrightarrow> list_ex (\<lambda>fs. r \<in> set fs) (take 8 (rev (map fst obs)))"

lemma takeWhile_take_iff: "length (takeWhile p xs) < length xs \<and> length (takeWhile p xs) < n \<longleftrightarrow> list_ex (\<lambda>x. \<not> p x) (take n xs)"
proof (induction xs arbitrary: n)
  case (Cons a xs)
  then show ?case by (cases n) auto
qed simp

lemma recent_iff: "recent r obs \<longleftrightarrow> since r (map fst obs) < length (map fst obs) \<and> since r (map fst obs) < 8"
  using takeWhile_take_iff [of "\<lambda>fs. r \<notin> set fs" "rev (map fst obs)" 8] by (simp add: recent_def since_def)

abbreviation observe_all :: "string list \<Rightarrow> (string list \<times> int) list \<Rightarrow> health_entry \<Rightarrow> health_entry" where
  "observe_all dets obs h \<equiv> fold (\<lambda>(fs, f). observe_entry dets fs f) obs h"

lemma observe_all_faults: "he_faults (observe_all dets obs h) = fold age_faults (map fst obs) (he_faults h)"
  by (induction obs arbitrary: h) (auto simp: observe_entry_def Let_def)

lemma open_faults: "set (map fst (he_faults (observe_all dets obs new_entry))) = {r. recent r obs}"
proof -
  have "he_faults (observe_all dets obs new_entry) = fold age_faults (map fst obs) []"
    by (simp add: observe_all_faults new_entry_def)
  then show ?thesis unfolding gm.set_keys by (auto simp: map_of_run_faults recent_iff)
qed

text \<open>C15: A player's health is a function of the last eight samples: the open faults, the state and
  the affected detectors are exactly those the faults of these samples give; a fault therefore
  clears after eight consecutive samples without it, and no earlier.\<close>
theorem health_is_the_last_eight_samples:
  assumes "obs \<noteq> []"
  shows "let s = he_summary (observe_all dets obs new_entry) in
    (\<forall>r. r \<in> set (dh_reasons s) \<longleftrightarrow> recent r obs) \<and>
    (\<forall>i. i \<in> set (dh_affected s) \<longleftrightarrow> i \<in> set dets \<and> (\<exists>r. recent r obs \<and> health_affects r i)) \<and>
    dh_state s = (if \<exists>r\<in>set blind_reasons. recent r obs then HealthBlind
                  else if \<exists>r. recent r obs then HealthDegraded else HealthHealthy)"
proof -
  obtain obs' fs f where obs: "obs = obs' @ [(fs, f)]" using assms by (metis rev_exhaust surj_pair)
  let ?h = "observe_all dets obs new_entry" let ?s = "he_summary ?h"
  have s: "dh_reasons ?s = sort (map fst (he_faults ?h))" "dh_affected ?s = affected_detectors dets (he_faults ?h)"
    "dh_state ?s = health_state_of (he_faults ?h)"
    by (simp_all add: obs observe_entry_def Let_def)
  have K: "fst ` set (he_faults ?h) = {r. recent r obs}" using open_faults [of dets obs] by simp
  then have keys: "r \<in> fst ` set (he_faults ?h) \<longleftrightarrow> recent r obs" for r by auto
  have none: "he_faults ?h \<noteq> [] \<longleftrightarrow> (\<exists>r. recent r obs)" using K by (metis Collect_empty_eq image_is_empty set_empty)
  have blind: "list_ex (\<lambda>r. r \<in> set blind_reasons) (map fst (he_faults ?h)) \<longleftrightarrow> (\<exists>r\<in>set blind_reasons. recent r obs)"
    unfolding list_ex_iff set_map K by auto
  have affects: "list_ex (\<lambda>r. health_affects r i) (map fst (he_faults ?h)) \<longleftrightarrow> (\<exists>r. recent r obs \<and> health_affects r i)" for i
    unfolding list_ex_iff set_map K by auto
  show ?thesis
    unfolding Let_def s health_state_of_def affected_detectors_def blind none using keys affects by auto
qed

theorem health_is_the_last_eight_samples_witness:
  "dh_state (he_summary (observe_all [''BIO_001''] [([''missing_disc''], 1), ([], 2)] new_entry)) = HealthDegraded"
proof -
  have r: "recent r [([''missing_disc''], 1), ([], 2)] \<longleftrightarrow> r = ''missing_disc''" for r by (simp add: recent_def)
  have "[([''missing_disc''], 1), ([], 2)] \<noteq> []" by simp
  from health_is_the_last_eight_samples [OF this, of "[''BIO_001'']"] show ?thesis
    by (simp only: Let_def r) (simp add: blind_reasons_def)
qed

section \<open>Quarantine\<close>

definition entry_ok :: "health_entry \<Rightarrow> bool" where
  "entry_ok h \<longleftrightarrow> gok (he_faults h) \<and> (\<forall>i n. map_of (he_last_affected h) i = Some n \<longrightarrow> n \<le> dh_last_frame (he_summary h))"

definition health_ok :: "health_map \<Rightarrow> bool" where
  "health_ok hm \<longleftrightarrow> (\<forall>p h. map_of hm p = Some h \<longrightarrow> entry_ok h)"

definition watermark :: "string \<Rightarrow> string \<Rightarrow> health_map \<Rightarrow> int option" where
  "watermark p i hm = map_of (he_last_affected (gz new_entry hm p)) i"

definition covers :: "int option \<Rightarrow> int option \<Rightarrow> bool" where
  "covers a b = (case a of None \<Rightarrow> True | Some n \<Rightarrow> (case b of None \<Rightarrow> False | Some k \<Rightarrow> n \<le> k))"

lemma entry_ok_new: "entry_ok new_entry"
  by (simp add: entry_ok_def new_entry_def)

lemma last_affected_observe:
  "map_of (he_last_affected (observe_entry dets fs f h)) i =
     (if i \<in> set (affected_detectors dets (age_faults fs (he_faults h)))
      then Some (max f (dh_last_frame (he_summary h))) else map_of (he_last_affected h) i)"
  by (auto simp: observe_entry_def Let_def map_of_fold_update max_def)

lemma observe_entry_ok:
  assumes "entry_ok h"
  shows "entry_ok (observe_entry dets fs f h)"
proof -
  have "dh_last_frame (he_summary (observe_entry dets fs f h)) = max f (dh_last_frame (he_summary h))"
    "he_faults (observe_entry dets fs f h) = age_faults fs (he_faults h)"
    by (simp_all add: observe_entry_def Let_def max_def)
  with assms show ?thesis
    by (auto simp: entry_ok_def last_affected_observe split: if_splits) (metis max.coboundedI2)
qed

lemma observe_entry_covers: "entry_ok h \<Longrightarrow> covers (map_of (he_last_affected h) i) (map_of (he_last_affected (observe_entry dets fs f h)) i)"
  by (auto simp: last_affected_observe covers_def entry_ok_def split: option.split) (metis max.coboundedI2)

text \<open>A sample of the feed: the frame, the player's state before it, whether it was rejected, its
  repairs, and whether its rotation jumped together with the others'.\<close>

type_synonym 'k health_sample = "telemetry_frame \<times> 'k player_state option \<times> bool \<times> string list \<times> bool"

definition health_step :: "string list \<Rightarrow> f64 \<Rightarrow> 'k health_sample \<Rightarrow> health_map \<Rightarrow> health_map" where
  "health_step dets dt = (\<lambda>(f, prev, rej, san, sh) hm. observe_health dets dt f prev rej san sh hm)"

lemma health_step_ok:
  assumes "health_ok hm"
  shows "health_ok (health_step dets dt x hm)"
proof -
  obtain f prev rej san sh where x: "x = (f, prev, rej, san, sh)" by (cases x)
  have "entry_ok (gz new_entry hm (fr_player_id f))"
    using assms entry_ok_new by (auto simp: gz_def health_ok_def split: option.split)
  then show ?thesis
    using assms by (auto simp: health_step_def x health_ok_def observe_health_def update_conv' observe_entry_ok split: if_splits)
qed

lemma health_step_covers:
  assumes "health_ok hm"
  shows "covers (watermark p i hm) (watermark p i (health_step dets dt x hm))"
proof -
  obtain f prev rej san sh where x: "x = (f, prev, rej, san, sh)" by (cases x)
  have "entry_ok (gz new_entry hm (fr_player_id f))"
    using assms entry_ok_new by (auto simp: gz_def health_ok_def split: option.split)
  from observe_entry_covers [OF this]
  show ?thesis by (auto simp: health_step_def x observe_health_def watermark_def covers_def split: option.split)
qed

interpretation hm: machine "health_step dets dt" "\<lambda>_. True" health_ok for dets dt
  by unfold_locales (rule health_step_ok)

lemma watermark_grows:
  "health_ok hm \<Longrightarrow> covers (watermark p i hm) (watermark p i (fold (health_step dets dt) xs hm))"
proof (rule hm.run_mono [where le = covers and obs = "watermark p i"])
  show "covers (watermark p i hm) (watermark p i (health_step dets dt x hm))" if "health_ok hm" for hm x
    by (rule health_step_covers [OF that])
  show "covers a b \<Longrightarrow> covers b c \<Longrightarrow> covers a c" for a b c
    by (auto simp: covers_def split: option.splits)
  show "covers (watermark p i hm) (watermark p i hm)" for hm
    by (simp add: covers_def split: option.split)
qed (simp_all add: list_all_iff)

lemma watermark_observe:
  assumes ok: "health_ok hm" and r: "r \<in> set (sample_faults dt f prev rej san sh)" and i: "i \<in> set dets" "health_affects r i"
  shows "covers (Some (fr_frame_index f)) (watermark (fr_player_id f) i (health_step dets dt (f, prev, rej, san, sh) hm))"
proof -
  let ?h = "gz new_entry hm (fr_player_id f)" and ?fs = "sample_faults dt f prev rej san sh"
  have "entry_ok ?h" using ok entry_ok_new by (auto simp: gz_def health_ok_def split: option.split)
  then have "map_of (age_faults ?fs (he_faults ?h)) r = Some health_recovery_samples"
    using r by (simp add: map_of_age_faults entry_ok_def)
  then have "r \<in> set (map fst (age_faults ?fs (he_faults ?h)))" by (force dest: map_of_SomeD)
  then have "i \<in> set (affected_detectors dets (age_faults ?fs (he_faults ?h)))"
    unfolding affected_detectors_def list_ex_iff using i by auto
  then show ?thesis
    by (simp add: health_step_def observe_health_def watermark_def last_affected_observe covers_def)
qed

text \<open>C16: Quarantine is permanent: once a sample of a player at frame \<open>f\<close> carried a fault that affects a
  catalog detector, every event of that detector for that player whose causal range starts at or
  before \<open>f\<close> is a shadow event with no weight that cannot auto-enforce, however many healthy samples
  follow before it is emitted.\<close>
theorem quarantine_is_permanent:
  assumes "health_ok hm" and "r \<in> set (sample_faults dt f prev rej san sh)"
    and "detector_id ev \<in> set dets" and "health_affects r (detector_id ev)" and "player_id ev = fr_player_id f"
    and "min (frame_range_start ev) (ck_frame_start (ev_causal_key ev)) \<le> fr_frame_index f"
  shows "let hm' = fold (health_step dets dt) later (health_step dets dt (f, prev, rej, san, sh) hm);
      ev' = apply_evidence_safety dets hm' ev
    in is_shadow ev' \<and> enforcement_weight ev' = Fin 0 \<and> \<not> auto_enforce ev'"
proof -
  let ?hm = "health_step dets dt (f, prev, rej, san, sh) hm"
  let ?hm' = "fold (health_step dets dt) later ?hm"
  have "covers (watermark (player_id ev) (detector_id ev) ?hm) (watermark (player_id ev) (detector_id ev) ?hm')"
    by (rule watermark_grows) (rule health_step_ok [OF assms(1)])
  moreover have "covers (Some (fr_frame_index f)) (watermark (player_id ev) (detector_id ev) ?hm)"
    unfolding assms(5) by (rule watermark_observe [OF assms(1,2,3,4)])
  ultimately obtain n where n: "watermark (player_id ev) (detector_id ev) ?hm' = Some n" "fr_frame_index f \<le> n"
    by (auto simp: covers_def split: option.splits)
  then have "quarantined ?hm' e" if "player_id e = player_id ev" "detector_id e = detector_id ev"
    "frame_range_start e = frame_range_start ev" "ev_causal_key e = ev_causal_key ev" for e
    using assms(6) that by (auto simp: quarantined_def watermark_def gz_def new_entry_def split: option.splits)
  then show ?thesis
    using assms(3) by (simp add: apply_evidence_safety_def abstain_def Let_def)
qed

theorem quarantine_is_permanent_witness:
  "is_shadow (apply_evidence_safety [''THROW_001'']
     (fold (health_step [''THROW_001''] (Fin 1)) (replicate 20 (sample_frame\<lparr>fr_frame_index := 600\<rparr>, None, False, [], False))
       (health_step [''THROW_001''] (Fin 1) (sample_frame\<lparr>fr_frame_index := 495\<rparr>, None :: unit player_state option, False, [], False) []))
     sample_event)"
proof -
  have "health_ok []" by (simp add: health_ok_def)
  moreover have "''missing_disc'' \<in> set (sample_faults (Fin 1) (sample_frame\<lparr>fr_frame_index := 495\<rparr>) (None :: unit player_state option) False [] False)"
    by (simp add: sample_faults_def sample_frame_def)
  moreover have "detector_id sample_event \<in> set [''THROW_001'']" "health_affects ''missing_disc'' (detector_id sample_event)"
    "player_id sample_event = fr_player_id (sample_frame\<lparr>fr_frame_index := 495\<rparr>)"
    "min (frame_range_start sample_event) (ck_frame_start (ev_causal_key sample_event)) \<le> fr_frame_index (sample_frame\<lparr>fr_frame_index := 495\<rparr>)"
    by (simp_all add: sample_event_def sample_frame_def health_affects_def has_prefix_def)
  ultimately show ?thesis by (rule quarantine_is_permanent [unfolded Let_def, THEN conjunct1])
qed

end
