(* ===== verification/Pipeline.thy ===== *)
theory Pipeline
  imports Scorer Dedup Rate_Limit Validator Quality Health
begin

text \<open>
  The detection pipeline (\<open>internal/pipeline/pipeline.go\<close>): frames are grouped by index and validated
  player by player, the feature extractor updates the players, each warmed-up detector is asked for
  emissions, and these go through validation, confidence and health safety, deduplication, rate
  limiting and scoring. \<open>process_match\<close> is \<open>ProcessMatch\<close>, \<open>finalize\<close> is \<open>Finalize\<close>.

  A detector is an interface of the code: a record of its operations over a state of open type, the
  optional interfaces (\<open>TrackFlusher\<close>, \<open>PhaseTrackFlusher\<close>, \<open>SourceTrackFlusher\<close>, \<open>ResetSource\<close>, and
  PAT_004's \<open>RecordDetection\<close>) as \<open>option\<close> fields. The feature extractor is a record of the two
  operations the pipeline calls. Detectors return events and change their own state only.

  Not modelled: the per-player coverage report and the decision trace (diagnostic output, detached
  before a call returns), log lines, and wall-clock durations. \<open>math.Pow\<close>, \<open>math.Acos\<close> and the clock
  are arguments; cancellation of the context is the argument \<open>cancelled\<close>, asked once per frame index.
\<close>

section \<open>State\<close>

record ('d, 'k) detector =
  det_id :: string
  det_category :: string
  det_warmup :: int
  det_state :: 'd
  det_evaluate :: "match_context \<Rightarrow> (string, 'k player_state) gomap \<Rightarrow> int \<Rightarrow> 'd \<Rightarrow> detection_event list \<times> 'd"
  det_reset :: "'d \<Rightarrow> 'd"
  det_flush_tracks :: "(match_context \<Rightarrow> int \<Rightarrow> 'd \<Rightarrow> detection_event list \<times> 'd) option"
  det_flush_phase :: "(match_context \<Rightarrow> int \<Rightarrow> 'd \<Rightarrow> detection_event list \<times> 'd) option"
  det_flush_source :: "(match_context \<Rightarrow> int \<Rightarrow> 'd \<Rightarrow> detection_event list \<times> 'd) option"
  det_reset_source :: "('d \<Rightarrow> 'd) option"
  det_record_detection :: "(string \<Rightarrow> string \<Rightarrow> 'd \<Rightarrow> 'd) option"

record ('e, 'k) extractor =
  ex_state :: 'e
  ex_zero_motion :: 'k
  ex_update :: "'k player_state \<Rightarrow> telemetry_frame \<Rightarrow> match_context \<Rightarrow> 'e \<Rightarrow> 'k player_state \<times> 'e"
  ex_drain :: "string \<Rightarrow> 'e \<Rightarrow> 'e"

record pipeline_config =
  pc_shadow_detectors :: "string list"
  pc_detector_modes :: "(string, string) gomap"
  pc_project_rules :: project_rules
  pc_max_frame_dt :: f64
  pc_min_frame_dt :: f64
  pc_max_events_per_key :: int

record match_result =
  mr_match_id :: string
  mr_frames_processed :: int
  mr_invalid_frames :: int
  mr_player_scores :: "(string, suspicion_score) gomap"
  mr_events :: "detection_event list"
  mr_invalid_reasons :: "(string, int) gomap"
  mr_invalid_by_player :: "(string, int) gomap"
  mr_sanitized :: "(string, int) gomap"
  mr_events_merged :: int
  mr_rate_limited :: int
  mr_rate_limited_by_key :: "(string, int) gomap"
  mr_events_invalid :: int
  mr_quality :: quality_report

record ('d, 'e, 'k) pipeline =
  p_health :: health_map
  p_detectors :: "('d, 'k) detector list"
  p_scorer :: scorer
  p_dedup :: dedup
  p_limiter :: limiter
  p_validator :: frame_validator
  p_extractor :: "('e, 'k) extractor"
  p_config :: pipeline_config
  p_shadow_ids :: "string list"
  p_skip_reset :: bool
  p_players :: "(string, 'k player_state) gomap option"
  p_last_frame_idx :: int
  p_invalid_logged :: "(string, int) gomap"
  p_quality :: quality_report

definition zero_quality :: quality_report where
  "zero_quality = source_scoped\<lparr>q_grade := [], q_confidence_multiplier := Fin 0\<rparr>"

definition new_match_result :: "string \<Rightarrow> match_result" where
  "new_match_result i = \<lparr>mr_match_id = i, mr_frames_processed = 0, mr_invalid_frames = 0, mr_player_scores = [], mr_events = [],
     mr_invalid_reasons = [], mr_invalid_by_player = [], mr_sanitized = [], mr_events_merged = 0, mr_rate_limited = 0,
     mr_rate_limited_by_key = [], mr_events_invalid = 0, mr_quality = zero_quality\<rparr>"

definition new_pipeline :: "pipeline_config \<Rightarrow> ('d, 'k) detector list \<Rightarrow> scorer \<Rightarrow> ('e, 'k) extractor \<Rightarrow> ('d, 'e, 'k) pipeline" where
  "new_pipeline cfg dets sc x =
     \<lparr>p_health = [], p_detectors = filter (\<lambda>d. \<not> is_playspace_detector (det_id d)) dets, p_scorer = sc,
      p_dedup = new_dedup default_merge_window, p_limiter = new_limiter (pc_max_events_per_key cfg),
      p_validator = new_frame_validator (pc_min_frame_dt cfg), p_extractor = x, p_config = cfg,
      p_shadow_ids = pc_shadow_detectors cfg @ map fst (filter (\<lambda>(_, m). m = ''shadow'') (pc_detector_modes cfg)),
      p_skip_reset = False, p_players = None, p_last_frame_idx = - 1, p_invalid_logged = [], p_quality = zero_quality\<rparr>"

definition set_skip_reset :: "bool \<Rightarrow> ('d, 'e, 'k) pipeline \<Rightarrow> ('d, 'e, 'k) pipeline" where
  "set_skip_reset b p = p\<lparr>p_skip_reset := b\<rparr>"

definition pl_players :: "('d, 'e, 'k) pipeline \<Rightarrow> (string, 'k player_state) gomap" where
  "pl_players p = (case p_players p of None \<Rightarrow> [] | Some m \<Rightarrow> m)"

definition put_player :: "'k player_state \<Rightarrow> string \<Rightarrow> ('d, 'e, 'k) pipeline \<Rightarrow> ('d, 'e, 'k) pipeline" where
  "put_player ps i p = p\<lparr>p_players := Some (AList.update i ps (pl_players p))\<rparr>"

definition capable_ids :: "('d, 'e, 'k) pipeline \<Rightarrow> string list" where
  "capable_ids p = detector_capabilities (map det_id (p_detectors p))"

definition category_of :: "('d, 'e, 'k) pipeline \<Rightarrow> string \<Rightarrow> string" where
  "category_of p i = (case find (\<lambda>d. det_id d = i) (p_detectors p) of None \<Rightarrow> i | Some d \<Rightarrow> det_category d)"

definition map_detectors :: "(('d, 'k) detector \<Rightarrow> 'd) \<Rightarrow> ('d, 'e, 'k) pipeline \<Rightarrow> ('d, 'e, 'k) pipeline" where
  "map_detectors g p = p\<lparr>p_detectors := map (\<lambda>d. d\<lparr>det_state := g d\<rparr>) (p_detectors p)\<rparr>"

definition init_match :: "match_context \<Rightarrow> ('d, 'e, 'k) pipeline \<Rightarrow> ('d, 'e, 'k) pipeline" where
  "init_match mc p = p\<lparr>p_health := [], p_last_frame_idx := - 1,
     p_players := Some (fold (\<lambda>i. AList.update i (new_player_state (ex_zero_motion (p_extractor p)) i (gz [] (mc_team_assignments mc) i)))
       (mc_player_ids mc) []),
     p_scorer := set_match_start (mc_start_time mc) (p_scorer p)\<rparr>"

definition reset_state :: "match_context \<Rightarrow> ('d, 'e, 'k) pipeline \<Rightarrow> ('d, 'e, 'k) pipeline" where
  "reset_state mc p0 =
     (let p = map_detectors (\<lambda>d. det_reset d (det_state d)) p0 in
      init_match mc (p\<lparr>p_scorer := reset (p_scorer p), p_dedup := dedup_reset (p_dedup p),
        p_limiter := limiter_reset (p_limiter p), p_invalid_logged := []\<rparr>))"

section \<open>Emissions\<close>

definition sort_emissions :: "detection_event list \<Rightarrow> detection_event list" where
  "sort_emissions = sort_key (\<lambda>e. (player_id e, frame_range_start e, ck_anomaly_type (ev_causal_key e)))"

definition legal_multiplier :: "legal_motion_context \<Rightarrow> string \<Rightarrow> f64" where
  "legal_multiplier c i =
     (let mov = i \<in> set [''MOV_001'', ''MOV_002'', ''MOV_003''] in
      if lm_tracking_limited c then flit (55/100)
      else if lm_head_contact c \<and> (i = ''THROW_003'' \<or> i = ''BIO_001'') then flit (35/100)
      else if lm_slap_or_push c \<and> (i = ''BIO_001'' \<or> i = ''BIO_002'' \<or> mov) then flit (6/10)
      else if (lm_leaning c \<or> lm_playspace_step c) \<and> mov then flit (65/100)
      else if lm_boosting_known c \<and> lm_boosting c \<and> mov then Fin (3/4)
      else Fin 1)"

definition apply_legal_context :: "(string, 'k player_state) gomap \<Rightarrow> detection_event \<Rightarrow> detection_event" where
  "apply_legal_context pls ev = (case map_of pls (player_id ev) of None \<Rightarrow> ev
     | Some st \<Rightarrow>
         let c = ps_legal_context st; m = legal_multiplier c (detector_id ev) in
         if flt m (Fin 1)
         then ev\<lparr>confidence := clamp (fmul (fmul (confidence ev) m) (clamp (lm_confidence c) (Fin (1/4)) (Fin 1))) (Fin 0) (Fin 1)\<rparr>
         else ev)"

definition accept_emission :: "('d, 'e, 'k) pipeline \<Rightarrow> detection_event \<Rightarrow> detection_event" where
  "accept_emission p ev0 =
     (let ev = (if detector_id ev0 \<in> set (p_shadow_ids p) then ev0\<lparr>is_shadow := True\<rparr> else ev0);
          m = q_confidence_multiplier (p_quality p);
          ev = (if flt (Fin 0) m \<and> flt m (Fin 1) then ev\<lparr>confidence := clamp (fmul (confidence ev) m) (Fin 0) (Fin 1)\<rparr> else ev);
          ev = (if q_gated (p_quality p) then ev\<lparr>is_shadow := True, auto_enforce := False, enforcement_weight := Fin 0\<rparr> else ev);
          ev = apply_legal_context (pl_players p) ev
      in apply_evidence_safety (capable_ids p) (p_health p) ev)"

definition accept_emissions :: "('d, 'e, 'k) pipeline \<Rightarrow> detection_event list \<Rightarrow> match_result \<Rightarrow> detection_event list \<times> match_result" where
  "accept_emissions p events r =
     (let good = filter (\<lambda>e. validate_event e = None) (sort_emissions events)
      in (map (accept_emission p) good,
          r\<lparr>mr_events_invalid := mr_events_invalid r + (int (length events) - int (length good))\<rparr>))"

text \<open>The world a call sees: \<open>math.Pow\<close>, \<open>math.Acos\<close>, the clock as read for the n-th incident of the
  call, and the frame indices at which the context is found cancelled.\<close>

record env =
  env_pow :: "f64 \<Rightarrow> f64 \<Rightarrow> f64"
  env_acos :: "f64 \<Rightarrow> f64"
  env_clock :: "nat \<Rightarrow> time \<times> time"
  env_cancelled :: "int \<Rightarrow> bool"

type_synonym ('d, 'e, 'k) run_state = "('d, 'e, 'k) pipeline \<times> match_result"

definition pat004_min_confidence :: f64 where
  "pat004_min_confidence = flit (7/10)"

definition feed_pat004 :: "detection_event \<Rightarrow> ('d, 'e, 'k) pipeline \<Rightarrow> ('d, 'e, 'k) pipeline" where
  "feed_pat004 ev p = (let category = category_of p (detector_id ev) in
     map_detectors (\<lambda>d. case det_record_detection d of None \<Rightarrow> det_state d
       | Some rec \<Rightarrow> rec (player_id ev) category (det_state d)) p)"

definition emit_incident :: "env \<Rightarrow> detection_event \<Rightarrow> ('d, 'e, 'k) run_state \<Rightarrow> ('d, 'e, 'k) run_state" where
  "emit_incident en ev0 = (\<lambda>(p, r).
     let ev = apply_evidence_safety (capable_ids p) (p_health p) ev0;
         (now, snap) = env_clock en (length (mr_events r));
         ((_, accepted), sc) = ingest_event_with_result (env_pow en) now snap ev (p_scorer p);
         p = p\<lparr>p_scorer := sc\<rparr>;
         r = r\<lparr>mr_events := mr_events r @ [ev]\<rparr>
     in if is_shadow ev \<or> \<not> accepted then (p, r)
        else if fle pat004_min_confidence (confidence ev) \<and> detector_id ev \<noteq> ''PAT_004''
        then (feed_pat004 ev p, r)
        else (p, r))"

definition add_counts :: "(string, int) gomap \<Rightarrow> (string, int) gomap \<Rightarrow> (string, int) gomap" where
  "add_counts now m = fold (\<lambda>(k, n) m. AList.update k (gz 0 m k + n) m) now m"

definition emit :: "env \<Rightarrow> detection_event list \<Rightarrow> ('d, 'e, 'k) run_state \<Rightarrow> ('d, 'e, 'k) run_state" where
  "emit en events = (\<lambda>(p, r).
     if events = [] then (p, r)
     else let ((kept, drops), rl) = rl_filter events (p_limiter p) in
       fold (emit_incident en) kept
         (p\<lparr>p_limiter := rl\<rparr>,
          r\<lparr>mr_rate_limited := mr_rate_limited r + sum_list (map snd drops),
            mr_rate_limited_by_key := add_counts drops (mr_rate_limited_by_key r)\<rparr>))"

definition dedup_and_emit :: "env \<Rightarrow> detection_event list \<Rightarrow> int \<Rightarrow> ('d, 'e, 'k) run_state \<Rightarrow> ('d, 'e, 'k) run_state" where
  "dedup_and_emit en events f = (\<lambda>(p, r).
     let (closed, d) = deduplicate events f (p_dedup p) in
     emit en closed (p\<lparr>p_dedup := d\<rparr>, r\<lparr>mr_events_merged := mr_events_merged r + (merged d - merged (p_dedup p))\<rparr>))"

definition emit_flushed :: "env \<Rightarrow> ('d, 'e, 'k) run_state \<Rightarrow> ('d, 'e, 'k) run_state" where
  "emit_flushed en = (\<lambda>(p, r). let (closed, d) = flush (p_dedup p) in emit en closed (p\<lparr>p_dedup := d\<rparr>, r))"

text \<open>A question put to every detector in turn; a detector without the interface answers with nothing.\<close>

fun ask_loop :: "('d, 'e, 'k) pipeline \<Rightarrow> (('d, 'k) detector \<Rightarrow> detection_event list \<times> 'd) \<Rightarrow> ('d, 'k) detector list \<Rightarrow>
    match_result \<Rightarrow> (detection_event list \<times> ('d, 'k) detector list) \<times> match_result" where
  "ask_loop p g [] r = (([], []), r)"
| "ask_loop p g (d # ds) r =
     (let (evs, st) = g d;
          (kept, r) = accept_emissions p evs r;
          ((rest, ds), r) = ask_loop p g ds r
      in ((kept @ rest, d\<lparr>det_state := st\<rparr> # ds), r))"

definition ask :: "(('d, 'k) detector \<Rightarrow> detection_event list \<times> 'd) \<Rightarrow> ('d, 'e, 'k) run_state \<Rightarrow>
    detection_event list \<times> ('d, 'e, 'k) run_state" where
  "ask g = (\<lambda>(p, r). let ((evs, ds), r) = ask_loop p g (p_detectors p) r in (evs, (p\<lparr>p_detectors := ds\<rparr>, r)))"

definition optional :: "(match_context \<Rightarrow> int \<Rightarrow> 'd \<Rightarrow> detection_event list \<times> 'd) option \<Rightarrow> match_context \<Rightarrow> int \<Rightarrow> 'd \<Rightarrow> detection_event list \<times> 'd" where
  "optional h mc f st = (case h of None \<Rightarrow> ([], st) | Some flusher \<Rightarrow> flusher mc f st)"

definition flush_tracks :: "env \<Rightarrow> match_context \<Rightarrow> ('d, 'e, 'k) run_state \<Rightarrow> ('d, 'e, 'k) run_state" where
  "flush_tracks en mc = (\<lambda>(p, r).
     let f = p_last_frame_idx p in
     if f < 0 then (p, r)
     else let (evs, st) = ask (\<lambda>d. optional (det_flush_tracks d) mc f (det_state d)) (p, r)
       in if evs = [] then st else dedup_and_emit en evs f st)"

section \<open>Rows of one frame index\<close>

definition record_invalid :: "string \<Rightarrow> string \<Rightarrow> ('d, 'e, 'k) run_state \<Rightarrow> ('d, 'e, 'k) run_state" where
  "record_invalid i reason = (\<lambda>(p, r).
     let r = r\<lparr>mr_invalid_frames := mr_invalid_frames r + 1, mr_invalid_reasons := bump reason (mr_invalid_reasons r)\<rparr>;
         r = (if i \<noteq> [] then r\<lparr>mr_invalid_by_player := bump i (mr_invalid_by_player r)\<rparr> else r)
     in (p\<lparr>p_invalid_logged := bump (i @ '':'' @ reason) (p_invalid_logged p)\<rparr>, r))"

definition observe :: "telemetry_frame \<Rightarrow> 'k player_state option \<Rightarrow> bool \<Rightarrow> string list \<Rightarrow> bool \<Rightarrow>
    ('d, 'e, 'k) pipeline \<Rightarrow> ('d, 'e, 'k) pipeline" where
  "observe f previous rejected sanitized shared p =
     p\<lparr>p_health := observe_health (capable_ids p) (pc_max_frame_dt (p_config p)) f previous rejected sanitized shared (p_health p)\<rparr>"

definition stale :: "telemetry_frame \<Rightarrow> 'k player_state option \<Rightarrow> bool" where
  "stale f previous = (case previous of None \<Rightarrow> False
     | Some ps \<Rightarrow> 0 < ps_frame_count ps \<and> (fr_frame_index f \<le> ps_last_frame_idx ps \<or> fle (fr_timestamp f) (ps_last_timestamp ps)))"

definition drain_releases :: "string \<Rightarrow> ('d, 'e, 'k) pipeline \<Rightarrow> ('d, 'e, 'k) pipeline" where
  "drain_releases reason p = p\<lparr>p_extractor := (p_extractor p)\<lparr>ex_state := ex_drain (p_extractor p) reason (ex_state (p_extractor p))\<rparr>\<rparr>"

definition change_source :: "env \<Rightarrow> match_context \<Rightarrow> int \<Rightarrow> ('d, 'e, 'k) run_state \<Rightarrow> ('d, 'e, 'k) run_state" where
  "change_source en mc fi = (\<lambda>(p, r).
     let (evs, st) = ask (\<lambda>d. optional (det_flush_source d) mc fi (det_state d)) (drain_releases ''release_source_changed'' p, r);
         (p, r) = emit_flushed en (if evs = [] then st else dedup_and_emit en evs fi st)
     in (map_detectors (\<lambda>d. case det_reset_source d of None \<Rightarrow> det_reset d (det_state d) | Some g \<Rightarrow> g (det_state d)) p, r))"

text \<open>The state of the loop over the rows of an index: the players with a valid row, whether the
  source was already changed at this index, and the state of the run.\<close>

type_synonym ('d, 'e, 'k) row_state = "string list \<times> bool \<times> ('d, 'e, 'k) run_state"

definition refuse_row :: "telemetry_frame \<Rightarrow> string list \<Rightarrow> string \<Rightarrow> ('d, 'e, 'k) run_state \<Rightarrow> ('d, 'e, 'k) run_state" where
  "refuse_row f sanitized reason = (\<lambda>(p, r).
     let previous = map_of (pl_players p) (fr_player_id f);
         p = (if previous = None then p else observe f previous True sanitized False p)
     in record_invalid (fr_player_id f) reason (p, r))"

definition update_player :: "match_context \<Rightarrow> telemetry_frame \<Rightarrow> 'k player_state \<Rightarrow> ('d, 'e, 'k) pipeline \<Rightarrow> ('d, 'e, 'k) pipeline" where
  "update_player mc f ps p =
     (let x = p_extractor p; (ps, st) = ex_update x ps f mc (ex_state x)
      in put_player ps (fr_player_id f) (p\<lparr>p_extractor := x\<lparr>ex_state := st\<rparr>\<rparr>))"

definition take_row :: "env \<Rightarrow> match_context \<Rightarrow> int \<Rightarrow> (string \<Rightarrow> bool) \<Rightarrow> telemetry_frame \<Rightarrow> ('d, 'e, 'k) row_state \<Rightarrow> ('d, 'e, 'k) row_state" where
  "take_row en mc fi jumps f0 = (\<lambda>(fresh, source_reset, (p, r)).
     case validate (p_validator p) f0 mc of
       (Inl e, f) \<Rightarrow> (fresh, source_reset, refuse_row f [] (ve_reason e) (p, r))
     | (Inr sanitized, f) \<Rightarrow>
         let i = fr_player_id f; previous = map_of (pl_players p) i in
         if stale f previous then (fresh, source_reset, refuse_row f sanitized ''stale_player_sample'' (p, r))
         else
           let p = observe f previous False sanitized (jumps i) p;
               r = r\<lparr>mr_sanitized := fold bump sanitized (mr_sanitized r)\<rparr>;
               ps = (case previous of Some ps \<Rightarrow> ps
                 | None \<Rightarrow> new_player_state (ex_zero_motion (p_extractor p)) i (gz [] (mc_team_assignments mc) i));
               ps = (if fr_team f \<noteq> [] then ps\<lparr>ps_team := fr_team f\<rparr> else ps);
               p = put_player ps i p;
               changed = (\<not> source_reset \<and> 0 < ps_frame_count ps \<and> \<not> same_observation_source (ps_observation ps) (fr_observation f));
               (p, r) = (if changed then change_source en mc fi (p, r) else (p, r))
           in (fresh @ [i], source_reset \<or> changed, (update_player mc f ps p, r)))"

section \<open>One frame index\<close>

definition warm_players :: "('d, 'e, 'k) pipeline \<Rightarrow> int \<Rightarrow> (string, 'k player_state) gomap" where
  "warm_players p warmup = gfilter (\<lambda>_ ps. warmup < ps_frame_count ps) (pl_players p)"

definition run_detectors :: "match_context \<Rightarrow> int \<Rightarrow> string list \<Rightarrow> ('d, 'e, 'k) run_state \<Rightarrow>
    detection_event list \<times> ('d, 'e, 'k) run_state" where
  "run_detectors mc fi fresh = (\<lambda>(p, r).
     ask (\<lambda>d. let view = warm_players p (det_warmup d) in
       if list_ex (\<lambda>i. i \<in> set fresh) (map fst view) then det_evaluate d mc view fi (det_state d)
       else ([], det_state d)) (p, r))"

definition rows_at :: "int \<Rightarrow> telemetry_frame list \<Rightarrow> telemetry_frame list" where
  "rows_at fi frames = filter (\<lambda>f. fr_frame_index f = fi) frames"

definition active_rows :: "match_context \<Rightarrow> telemetry_frame list \<Rightarrow> bool" where
  "active_rows mc rows = list_all (\<lambda>f. fr_game_phase f = [] \<or> mc_is_active_phase mc (fr_game_phase f)) rows"

definition process_index :: "env \<Rightarrow> match_context \<Rightarrow> telemetry_frame list \<Rightarrow> int \<Rightarrow> ('d, 'e, 'k) run_state \<Rightarrow> ('d, 'e, 'k) run_state" where
  "process_index en mc frames fi = (\<lambda>(p, r).
     let rows = rows_at fi frames;
         jumps = shared_orientation_jumps (env_acos en) (pl_players p) rows;
         (fresh, _, (p, r)) = fold (take_row en mc fi jumps) (sort_key fr_player_id rows) ([], False, (p, r))
     in if fresh = [] then (p, r)
        else
          let r = r\<lparr>mr_frames_processed := mr_frames_processed r + 1\<rparr>;
              p = (if p_last_frame_idx p < fi then p\<lparr>p_last_frame_idx := fi\<rparr> else p)
          in if \<not> active_rows mc rows
             then let (evs, st) = ask (\<lambda>d. optional (det_flush_phase d) mc fi (det_state d)) (p, r)
               in if evs = [] then st else dedup_and_emit en evs fi st
             else let (evs, st) = run_detectors mc fi fresh (p, r) in dedup_and_emit en evs fi st)"

fun process_indices :: "env \<Rightarrow> match_context \<Rightarrow> telemetry_frame list \<Rightarrow> int list \<Rightarrow> ('d, 'e, 'k) run_state \<Rightarrow> bool \<times> ('d, 'e, 'k) run_state" where
  "process_indices en mc frames [] st = (False, st)"
| "process_indices en mc frames (fi # fis) st =
     (if env_cancelled en fi then (True, st) else process_indices en mc frames fis (process_index en mc frames fi st))"

definition frame_indices :: "telemetry_frame list \<Rightarrow> int list" where
  "frame_indices frames = sort (remdups (map fr_frame_index frames))"

section \<open>A match\<close>

definition live_quality :: "health_map \<Rightarrow> quality_report" where
  "live_quality hm =
     (let ss = map (\<lambda>(_, h). he_summary h) hm;
          rows = sum_list (map (\<lambda>s. dh_healthy_samples s + dh_degraded_samples s + dh_blind_samples s) ss);
          score = fold (\<lambda>s x. fadd x (f_of_int (dh_healthy_samples s))) ss (Fin 0)
      in source_scoped\<lparr>q_score := (if 0 < rows then fdiv (fmul (Fin 100) score) (f_of_int rows) else score),
           q_rows := rows, q_players := int (length hm),
           q_reasons := [''Consult per-player data_health; sample usability is not gameplay authority or detection accuracy.'']\<rparr>)"

definition finish :: "('d, 'e, 'k) run_state \<Rightarrow> ('d, 'e, 'k) run_state" where
  "finish = (\<lambda>(p, r).
     let p = p\<lparr>p_scorer := apply_correlation_bonus (p_scorer p)\<rparr>;
         r = r\<lparr>mr_player_scores := get_all_scores (p_scorer p)\<rparr>
     in if p_skip_reset p
        then (p\<lparr>p_quality := live_quality (p_health p)\<rparr>, r\<lparr>mr_quality := live_quality (p_health p)\<rparr>)
        else (p, r))"

definition end_match :: "env \<Rightarrow> match_context \<Rightarrow> ('d, 'e, 'k) run_state \<Rightarrow> ('d, 'e, 'k) run_state" where
  "end_match en mc = (\<lambda>(p, r).
     emit_flushed en (flush_tracks en mc (drain_releases ''release_confirmation_unavailable'' p, r)))"

text \<open>The caller's context is left with the project's rules in it.\<close>

definition with_rules :: "('d, 'e, 'k) pipeline \<Rightarrow> match_context \<Rightarrow> match_context" where
  "with_rules p mc = mc\<lparr>mc_project_rules := pc_project_rules (p_config p)\<rparr>"

definition begin_match :: "match_context \<Rightarrow> telemetry_frame list \<Rightarrow> ('d, 'e, 'k) pipeline \<Rightarrow> ('d, 'e, 'k) pipeline" where
  "begin_match mc frames p =
     (if \<not> p_skip_reset p
      then reset_state mc (p\<lparr>p_quality := assess_telemetry_quality frames (pc_max_frame_dt (p_config p))\<rparr>)
      else let p = p\<lparr>p_quality := source_scoped\<rparr> in if p_players p = None then init_match mc p else p)"

definition process_match :: "env \<Rightarrow> match_context \<Rightarrow> telemetry_frame list \<Rightarrow> ('d, 'e, 'k) pipeline \<Rightarrow>
    bool \<times> ('d, 'e, 'k) run_state" where
  "process_match en mc0 frames p0 =
     (let mc = with_rules p0 mc0;
          p = begin_match mc frames p0;
          r = (new_match_result (mc_match_id mc))\<lparr>mr_quality := p_quality p\<rparr>;
          (cancelled, st) = process_indices en mc frames (frame_indices frames) (p, r)
      in if cancelled then (True, st)
         else (False, finish (if p_skip_reset p then st else end_match en mc st)))"

definition finalize :: "env \<Rightarrow> match_context \<Rightarrow> ('d, 'e, 'k) pipeline \<Rightarrow> ('d, 'e, 'k) run_state" where
  "finalize en mc p = finish (end_match en mc (p, new_match_result (mc_match_id mc)))"

section \<open>A small pipeline\<close>

text \<open>One detector that reports \<open>sample_event\<close> for every evaluated frame, over an extractor that only
  advances the player's clock: a pipeline on which the properties are evaluated.\<close>

definition sample_detector :: "(unit, unit) detector" where
  "sample_detector = \<lparr>det_id = ''THROW_001'', det_category = ''throw'', det_warmup = 0, det_state = (),
     det_evaluate = (\<lambda>_ _ f st. ([sample_event\<lparr>frame_index := f\<rparr>], st)), det_reset = id, det_flush_tracks = None,
     det_flush_phase = None, det_flush_source = None, det_reset_source = None, det_record_detection = None\<rparr>"

definition sample_extractor :: "(unit, unit) extractor" where
  "sample_extractor = \<lparr>ex_state = (), ex_zero_motion = (),
     ex_update = (\<lambda>ps f _ st. (ps\<lparr>ps_observation := fr_observation f, ps_rotation := fr_rotation f, ps_last_frame_idx := fr_frame_index f,
       ps_last_timestamp := fr_timestamp f, ps_frame_count := ps_frame_count ps + 1\<rparr>, st)), ex_drain = (\<lambda>_ st. st)\<rparr>"

definition sample_pipeline_config :: pipeline_config where
  "sample_pipeline_config = \<lparr>pc_shadow_detectors = [], pc_detector_modes = [], pc_project_rules = default_project_rules,
     pc_max_frame_dt = Fin (1/2), pc_min_frame_dt = Fin 0, pc_max_events_per_key = 3\<rparr>"

definition sample_pipeline :: "(unit, unit, unit) pipeline" where
  "sample_pipeline = new_pipeline sample_pipeline_config [sample_detector] (new_scorer sample_config) sample_extractor"

definition sample_env :: env where
  "sample_env = \<lparr>env_pow = pow_int, env_acos = (\<lambda>_. Fin 0), env_clock = (\<lambda>n. (int n, int n)), env_cancelled = (\<lambda>_. False)\<rparr>"

end
