(* ===== verification/Pipeline_Facts.thy ===== *)
theory Pipeline_Facts
  imports Pipeline
begin

text \<open>
  What the composition of the pipeline guarantees. \<open>emission_invariant\<close> is the contract a fact about
  reported events has to meet: it holds of every accepted emission, merging keeps it, emitting such
  events keeps the invariant, and the bookkeeping around it does not matter. Inside, the invariant
  is carried through the rows, the frame indices and the end of a match once and for all; the
  interpretations are the facts about gated sources, valid events and scores, and the rate limit.
\<close>

section \<open>What an operation leaves alone\<close>

definition same_core :: "('d, 'e, 'k) pipeline \<Rightarrow> ('d, 'e, 'k) pipeline \<Rightarrow> bool" where
  "same_core p q \<longleftrightarrow> p_scorer q = p_scorer p \<and> p_limiter q = p_limiter p \<and> p_quality q = p_quality p \<and>
     p_config q = p_config p \<and> p_shadow_ids q = p_shadow_ids p \<and> p_skip_reset q = p_skip_reset p \<and>
     map det_id (p_detectors q) = map det_id (p_detectors p)"

lemma same_core_refl [simp]: "same_core p p"
  by (simp add: same_core_def)

lemma same_core_trans: "same_core p q \<Longrightarrow> same_core q s \<Longrightarrow> same_core p s"
  by (simp add: same_core_def)

lemma det_ids_map [simp]: "map det_id (map (\<lambda>d. d\<lparr>det_state := g d\<rparr>) ds) = map det_id ds"
  by (induction ds) auto

lemma same_core_map_detectors [simp]: "same_core p (map_detectors g p)" "p_dedup (map_detectors g p) = p_dedup p"
  by (simp_all add: same_core_def map_detectors_def comp_def)

lemma ask_loop_ids: "map det_id (snd (fst (ask_loop p g ds r))) = map det_id ds"
  by (induction ds arbitrary: r) (auto simp: Let_def split_def)

lemma accept_emissions_result: "mr_events (snd (accept_emissions p evs r)) = mr_events r"
  by (simp add: accept_emissions_def Let_def)

lemma ask_loop_result: "mr_events (snd (ask_loop p g ds r)) = mr_events r"
  by (induction ds arbitrary: r) (auto simp: Let_def split_def accept_emissions_result)

lemma ask_loop_accepted:
  "set (fst (fst (ask_loop p g ds r))) \<subseteq> {accept_emission p ev | ev. validate_event ev = None}"
proof (induction ds arbitrary: r)
  case (Cons d ds)
  have "set (fst (accept_emissions p evs r)) \<subseteq> {accept_emission p ev | ev. validate_event ev = None}" for evs r
    by (auto simp: accept_emissions_def Let_def)
  with Cons show ?case by (force simp: Let_def split_def)
qed simp

lemma ask_simps:
  "same_core p (fst (snd (ask g (p, r))))" "p_dedup (fst (snd (ask g (p, r)))) = p_dedup p"
  "mr_events (snd (snd (ask g (p, r)))) = mr_events r"
  "set (fst (ask g (p, r))) \<subseteq> {accept_emission p ev | ev. validate_event ev = None}"
  using ask_loop_ids [of p g "p_detectors p" r] ask_loop_result [of p g "p_detectors p" r] ask_loop_accepted [of p g "p_detectors p" r]
  by (auto simp: ask_def Let_def split_def same_core_def)

lemma emit_incident_dedup: "p_dedup (fst (emit_incident en ev s)) = p_dedup (fst s)"
  by (auto simp: emit_incident_def feed_pat004_def Let_def split_def)

lemma emit_dedup [simp]: "p_dedup (fst (emit en evs s)) = p_dedup (fst s)"
proof -
  have "p_dedup (fst (fold (emit_incident en) kept s)) = p_dedup (fst s)" for kept s
    by (induction kept arbitrary: s) (simp_all add: emit_incident_dedup)
  note fold_dedup = this
  show ?thesis by (cases s) (auto simp: emit_def Let_def split_def fold_dedup)
qed

section \<open>The invariant of a run\<close>

locale emission_invariant =
  fixes en :: env and inv :: "('d, 'e, 'k) run_state \<Rightarrow> bool" and E :: "detection_event \<Rightarrow> bool"
  assumes emit_inv: "inv s \<Longrightarrow> list_all E evs \<Longrightarrow> inv (emit en evs s)"
    and accepted: "inv (p, r) \<Longrightarrow> validate_event ev = None \<Longrightarrow> E (accept_emission p ev)"
    and counted_E: "E ev \<Longrightarrow> E (counted ev)"
    and merge_E: "E a \<Longrightarrow> E b \<Longrightarrow> E (merge_into a b)"
    and core_inv: "inv (p, r) \<Longrightarrow> same_core p q \<Longrightarrow> mr_events r' = mr_events r \<Longrightarrow> inv (q, r')"
begin

definition open_E :: "dedup \<Rightarrow> bool" where
  "open_E d \<longleftrightarrow> list_all E (map snd (open_incidents d))"

definition run_ok :: "('d, 'e, 'k) run_state \<Rightarrow> bool" where
  "run_ok s \<longleftrightarrow> inv s \<and> open_E (p_dedup (fst s))"

lemma run_ok_core:
  "run_ok (p, r) \<Longrightarrow> same_core p q \<Longrightarrow> p_dedup q = p_dedup p \<Longrightarrow> mr_events r' = mr_events r \<Longrightarrow> run_ok (q, r')"
  using core_inv by (auto simp: run_ok_def)

lemma fold_emission_E:
  assumes "E ev" "list_all E (fst s)" "open_E (snd s)"
  shows "list_all E (fst (fold_emission ev s)) \<and> open_E (snd (fold_emission ev s))"
proof -
  have sub: "set (map snd (AList.update k v m)) \<subseteq> insert v (set (map snd m))" for k v and m :: "(string, detection_event) gomap"
    by (induction m) auto
  have inc: "E inc" if "map_of (open_incidents (snd s)) k = Some inc" for k inc
    using assms(3) map_of_SomeD [OF that] by (force simp: open_E_def list_all_iff)
  obtain out d where s: "s = (out, d)" by (cases s)
  have "open_E (d\<lparr>open_incidents := AList.update k v (open_incidents d), merged := n\<rparr>)" if "E v" for k v n
    using assms(3) that sub [of k v "open_incidents d"] by (auto simp: open_E_def s list_all_iff dest!: subsetD)
  moreover have "open_E (d\<lparr>open_incidents := AList.update k v (open_incidents d)\<rparr>)" if "E v" for k v
    using assms(3) that sub [of k v "open_incidents d"] by (auto simp: open_E_def s list_all_iff dest!: subsetD)
  ultimately show ?thesis
    using assms(1,2) inc counted_E merge_E by (auto simp: fold_emission_def s Let_def split: option.split)
qed

lemma deduplicate_E:
  assumes "list_all E evs" "open_E d"
  shows "list_all E (fst (deduplicate evs f d)) \<and> open_E (snd (deduplicate evs f d))"
proof -
  have run: "list_all E (fst (fold fold_emission evs s)) \<and> open_E (snd (fold fold_emission evs s))"
    if "list_all E evs" "list_all E (fst s)" "open_E (snd s)" for s
    using that by (induction evs arbitrary: s) (auto simp: fold_emission_E)
  have sub: "set (map snd (gfilter q m)) \<subseteq> set (map snd m)" for q and m :: "(string, detection_event) gomap"
    by (auto simp: gfilter_def)
  have "list_all E (fst (fold fold_emission evs ([], d))) \<and> open_E (snd (fold fold_emission evs ([], d)))"
    by (rule run) (use assms in auto)
  with sub show ?thesis
    by (force simp: deduplicate_def Let_def split_def open_E_def list_all_iff gfilter_def)
qed

lemma dedup_and_emit_ok:
  assumes "run_ok s" "list_all E evs"
  shows "run_ok (dedup_and_emit en evs f s)"
proof (cases s)
  case (Pair p r)
  note assms = assms [unfolded Pair]
  have D: "list_all E (fst (deduplicate evs f (p_dedup p)))" "open_E (snd (deduplicate evs f (p_dedup p)))"
    using deduplicate_E [OF assms(2)] assms(1) by (auto simp: run_ok_def)
  have "inv (p\<lparr>p_dedup := d\<rparr>, r\<lparr>mr_events_merged := n\<rparr>)" for d n
    using assms(1) core_inv [of p r] by (simp add: run_ok_def same_core_def)
  with D show ?thesis by (simp add: Pair dedup_and_emit_def Let_def split_def run_ok_def emit_inv)
qed

lemma emit_flushed_ok: "run_ok s \<Longrightarrow> run_ok (emit_flushed en s)"
proof (cases s)
  case (Pair p r)
  assume "run_ok s"
  then have ok: "run_ok (p, r)" by (simp add: Pair)
  have "inv (p\<lparr>p_dedup := d\<rparr>, r)" for d
    using ok core_inv [of p r] by (simp add: run_ok_def same_core_def)
  then show ?thesis
    using ok by (simp add: Pair emit_flushed_def flush_def Let_def split_def run_ok_def emit_inv open_E_def list_all_iff)
qed

lemma ask_ok: "run_ok (p, r) \<Longrightarrow> run_ok (snd (ask g (p, r))) \<and> list_all E (fst (ask g (p, r)))"
proof -
  assume ok: "run_ok (p, r)"
  have "run_ok (fst (snd (ask g (p, r))), snd (snd (ask g (p, r))))"
    by (rule run_ok_core [OF ok]) (simp_all add: ask_simps)
  moreover have "list_all E (fst (ask g (p, r)))"
    using ask_simps(4) [of g p r] accepted [of p r] ok by (auto simp: list_all_iff run_ok_def)
  ultimately show ?thesis by simp
qed

lemma ask_then_ok:
  assumes "run_ok (p, r)"
  shows "run_ok (let (evs, st) = ask g (p, r) in dedup_and_emit en evs f st)"
    and "run_ok (let (evs, st) = ask g (p, r) in if evs = [] then st else dedup_and_emit en evs f st)"
  using ask_ok [OF assms, of g] by (auto simp: Let_def split_def intro: dedup_and_emit_ok)

lemma change_source_ok:
  assumes "run_ok (p, r)"
  shows "run_ok (change_source en mc fi (p, r))"
proof -
  let ?p = "drain_releases ''release_source_changed'' p" and ?g = "\<lambda>d. optional (det_flush_source d) mc fi (det_state d)"
  have "run_ok (?p, r)" by (rule run_ok_core [OF assms]) (simp_all add: drain_releases_def same_core_def)
  from ask_then_ok(2) [OF this, of ?g fi] obtain s
    where s: "s = (let (evs, st) = ask ?g (?p, r) in if evs = [] then st else dedup_and_emit en evs fi st)" "run_ok s" by blast
  have "run_ok (emit_flushed en s)" using s(2) by (rule emit_flushed_ok)
  then show ?thesis
    using s(1) run_ok_core [of "fst (emit_flushed en s)" "snd (emit_flushed en s)"]
    by (simp add: change_source_def Let_def split_def)
qed

lemma refuse_row_ok:
  assumes "run_ok s"
  shows "run_ok (refuse_row f codes reason s)"
proof (cases s)
  case (Pair p r)
  show ?thesis
    using assms run_ok_core [of p r] by (simp add: Pair refuse_row_def record_invalid_def observe_def Let_def same_core_def)
qed

lemma update_player_ok: "run_ok (p, r) \<Longrightarrow> run_ok (update_player mc f ps p, r)"
  by (rule run_ok_core) (simp_all add: update_player_def put_player_def Let_def split_def same_core_def)

lemma take_row_ok:
  assumes "run_ok (snd (snd s))"
  shows "run_ok (snd (snd (take_row en mc fi jumps f s)))"
proof -
  obtain fresh sr p r where s: "s = (fresh, sr, (p, r))" by (cases s) auto
  have ok: "run_ok (p, r)" using assms by (simp add: s)
  have "run_ok (put_player ps i (observe f' prev rej san sh p), r\<lparr>mr_sanitized := n\<rparr>)" for ps i f' prev rej san sh n
    by (rule run_ok_core [OF ok]) (simp_all add: put_player_def observe_def same_core_def)
  moreover have "run_ok (update_player mc f' ps (fst t), snd t)" if "run_ok t" for f' ps t
    using that update_player_ok by (cases t) simp
  ultimately show ?thesis
    using ok by (auto simp: take_row_def s Let_def split_def change_source_ok refuse_row_ok split: sum.split prod.split)
qed

lemma process_index_ok:
  assumes "run_ok (p, r)"
  shows "run_ok (process_index en mc frames fi (p, r))"
proof -
  let ?g = "\<lambda>d. optional (det_flush_phase d) mc fi (det_state d)"
  define s where "s = fold (take_row en mc fi (shared_orientation_jumps (env_acos en) (pl_players p) (rows_at fi frames)))
    (sort_key fr_player_id (rows_at fi frames)) ([], False, (p, r))"
  have "run_ok (snd (snd (fold (take_row en mc fi j) rows t)))" if "run_ok (snd (snd t))" for j rows t
    using that
  proof (induction rows arbitrary: t)
    case (Cons f rows)
    show ?case unfolding fold.simps comp_apply by (rule Cons.IH) (rule take_row_ok [OF Cons.prems])
  qed simp
  then have s: "run_ok (snd (snd s))" unfolding s_def using assms by simp
  obtain fresh sr q u where s': "s = (fresh, sr, (q, u))" by (cases s) auto
  have next_ok: "run_ok (if c then q\<lparr>p_last_frame_idx := fi\<rparr> else q, u\<lparr>mr_frames_processed := n\<rparr>)" for c n
    by (rule run_ok_core [of q u]) (use s in \<open>simp_all add: s' same_core_def\<close>)
  have tails: "run_ok (let (evs, st) = ask ?g t in if evs = [] then st else dedup_and_emit en evs fi st)"
    "run_ok (let (evs, st) = run_detectors mc fi fresh t in dedup_and_emit en evs fi st)" if "run_ok t" for t
    using ask_then_ok(2) [of "fst t" "snd t"] ask_then_ok(1) [of "fst t" "snd t"] that
    by (cases t; simp add: run_detectors_def)+
  show ?thesis
    using s unfolding process_index_def Let_def s_def [symmetric] s'
    by (simp add: s_def [symmetric] s' tails next_ok split del: if_split cong: if_cong) (use tails next_ok in \<open>simp add: Let_def\<close>)
qed

lemma process_indices_ok: "run_ok s \<Longrightarrow> run_ok (snd (process_indices en mc frames fis s))"
proof (induction fis arbitrary: s)
  case (Cons fi fis)
  then show ?case using process_index_ok by (cases s) auto
qed simp

lemma end_match_ok:
  assumes "run_ok (p, r)"
  shows "run_ok (end_match en mc (p, r))"
proof -
  have d: "run_ok (drain_releases reason p, r)" for reason
    by (rule run_ok_core [OF assms]) (simp_all add: drain_releases_def same_core_def)
  then have "run_ok (flush_tracks en mc (drain_releases reason p, r))" for reason
    using ask_then_ok(2) [OF d] by (simp add: flush_tracks_def Let_def)
  then show ?thesis by (simp add: end_match_def emit_flushed_ok)
qed

lemma process_match_ok:
  assumes start: "run_ok (begin_match (with_rules p mc) frames p, (new_match_result (mc_match_id mc))\<lparr>mr_quality := p_quality (begin_match (with_rules p mc) frames p)\<rparr>)"
  shows "\<exists>s. run_ok s \<and> (snd (process_match en mc frames p) = s \<or> snd (process_match en mc frames p) = finish s)"
proof -
  let ?mc = "with_rules p mc"
  define s where "s = snd (process_indices en ?mc frames (frame_indices frames)
    (begin_match ?mc frames p, (new_match_result (mc_match_id mc))\<lparr>mr_quality := p_quality (begin_match ?mc frames p)\<rparr>))"
  have "run_ok s" unfolding s_def by (rule process_indices_ok [OF start])
  moreover from this have "run_ok (end_match en ?mc s)" using end_match_ok by (cases s) simp
  moreover have "snd (process_match en mc frames p) \<in> {s, finish s, finish (end_match en ?mc s)}"
    by (simp add: process_match_def Let_def split_def s_def with_rules_def)
  ultimately show ?thesis unfolding insert_iff by blast
qed

lemma finalize_ok: "run_ok (p, new_match_result (mc_match_id mc)) \<Longrightarrow> \<exists>s. run_ok s \<and> finalize en mc p = finish s"
  unfolding finalize_def using end_match_ok by blast

end

section \<open>How a match starts and ends\<close>

lemma finish_simps [simp]:
  "mr_events (snd (finish s)) = mr_events (snd s)" "p_dedup (fst (finish s)) = p_dedup (fst s)"
  "p_scorer (fst (finish s)) = apply_correlation_bonus (p_scorer (fst s))"
  "mr_player_scores (snd (finish s)) = players (apply_correlation_bonus (p_scorer (fst s)))"
  "p_detectors (fst (finish s)) = p_detectors (fst s)"
  by (cases s; simp add: finish_def Let_def get_all_scores_def)+

lemma begin_match_simps:
  "p_skip_reset (begin_match mc frames p) = p_skip_reset p" "p_config (begin_match mc frames p) = p_config p"
  "p_shadow_ids (begin_match mc frames p) = p_shadow_ids p"
  "map det_id (p_detectors (begin_match mc frames p)) = map det_id (p_detectors p)"
  "\<not> p_skip_reset p \<Longrightarrow> p_quality (begin_match mc frames p) = assess_telemetry_quality frames (pc_max_frame_dt (p_config p))"
  "\<not> p_skip_reset p \<Longrightarrow> p_dedup (begin_match mc frames p) = dedup_reset (p_dedup p)"
  "\<not> p_skip_reset p \<Longrightarrow> p_limiter (begin_match mc frames p) = limiter_reset (p_limiter p)"
  "\<not> p_skip_reset p \<Longrightarrow> p_scorer (begin_match mc frames p) = set_match_start (mc_start_time mc) (reset (p_scorer p))"
  "p_skip_reset p \<Longrightarrow> p_dedup (begin_match mc frames p) = p_dedup p"
  "p_skip_reset p \<Longrightarrow> p_limiter (begin_match mc frames p) = p_limiter p"
  "p_skip_reset p \<Longrightarrow> p_scorer (begin_match mc frames p) =
     (if p_players p = None then set_match_start (mc_start_time mc) (p_scorer p) else p_scorer p)"
  by (auto simp: begin_match_def reset_state_def init_match_def map_detectors_def Let_def comp_def)

lemma emit_by_incident:
  assumes incident: "\<And>s ev. J s \<Longrightarrow> E ev \<Longrightarrow> J (emit_incident en ev s)"
    and limiter: "\<And>p r rl n m. J (p, r) \<Longrightarrow> J (p\<lparr>p_limiter := rl\<rparr>, r\<lparr>mr_rate_limited := n, mr_rate_limited_by_key := m\<rparr>)"
    and s: "J s" "list_all E evs"
  shows "J (emit en evs s)"
proof -
  have sub: "set (fst (fst (rl_loop evs rl now))) \<subseteq> set evs" for rl now
  proof -
    have "set (first_n n evs) \<subseteq> set evs" for n by (induction evs arbitrary: n) (auto split: if_splits)
    then show ?thesis using rl_loop_first_n [of evs rl now] by simp
  qed
  have fold: "J (fold (emit_incident en) kept t)" if "J t" "list_all E kept" for kept t
    using that by (induction kept arbitrary: t) (auto simp: incident)
  obtain p r where pr: "s = (p, r)" by (cases s)
  have "list_all E (fst (fst (rl_filter evs (p_limiter p))))"
    using s(2) sub [of "p_limiter p" "[]"] by (auto simp: rl_filter_def list_all_iff)
  with s(1) show ?thesis
    by (auto simp: pr emit_def Let_def split_def intro!: fold limiter)
qed

lemma emit_incident_simps:
  "mr_events (snd (emit_incident en ev (p, r))) = mr_events r @ [apply_evidence_safety (capable_ids p) (p_health p) ev]"
  "same_core (p\<lparr>p_scorer := p_scorer (fst (emit_incident en ev (p, r)))\<rparr>) (fst (emit_incident en ev (p, r)))"
  by (auto simp: emit_incident_def feed_pat004_def map_detectors_def Let_def split_def same_core_def comp_def)

lemma emit_incident_scorer:
  "\<exists>now snap. p_scorer (fst (emit_incident en ev (p, r))) =
     snd (ingest_event_with_result (env_pow en) now snap (apply_evidence_safety (capable_ids p) (p_health p) ev) (p_scorer p))"
  by (auto simp: emit_incident_def feed_pat004_def map_detectors_def Let_def split_def)

lemma capable_ids_core: "same_core p q \<Longrightarrow> capable_ids q = capable_ids p"
  by (simp add: same_core_def capable_ids_def)

section \<open>A gated source\<close>

definition silenced :: "detection_event \<Rightarrow> bool" where
  "silenced e \<longleftrightarrow> is_shadow e \<and> \<not> auto_enforce e \<and> enforcement_weight e = Fin 0"

definition zero_scores :: "(string, suspicion_score) gomap \<Rightarrow> bool" where
  "zero_scores m \<longleftrightarrow> list_all (\<lambda>(_, sc). total_score sc = Fin 0 \<and> correlation_bonus sc = Fin 0 \<and> event_count sc = 0 \<and> detector_counts sc = []) m"

lemma zero_scores_update: "zero_scores m \<Longrightarrow> zero_scores [(k, v)] \<Longrightarrow> zero_scores (AList.update k v m)"
  by (induction m) (auto simp: zero_scores_def)

lemma silenced_accept: "q_gated (p_quality p) \<Longrightarrow> silenced (accept_emission p ev)"
  by (auto simp: accept_emission_def Let_def apply_legal_context_def apply_evidence_safety_def abstain_def silenced_def split: option.split)

lemma silenced_safety: "silenced e \<Longrightarrow> silenced (apply_evidence_safety ds hm e)"
  by (auto simp: apply_evidence_safety_def Let_def abstain_def silenced_def)

lemma ingest_shadow: "is_shadow e \<Longrightarrow> snd (ingest_event_with_result pow now snap e s) = snd (get_or_create (player_id e) s)"
  by (simp add: ingest_event_with_result_def Let_def split_def)

lemma zero_scores_get_or_create: "zero_scores (players s) \<Longrightarrow> zero_scores (players (snd (get_or_create i s)))"
  by (auto simp: get_or_create_def Let_def zero_score_def zero_scores_def split: option.split
      intro!: zero_scores_update [unfolded zero_scores_def])

lemma zero_scores_bonus:
  assumes "zero_scores (players s)"
  shows "zero_scores (players (apply_correlation_bonus s))"
proof -
  have step: "players (bonus_player i sc t) = players t"
    if "detector_counts sc = []" "correlation_bonus sc = Fin 0" for i sc t
    using that by (auto simp: bonus_player_def nominal_bonus_def independent_categories_def Let_def)
  have "players (fold (\<lambda>(i, sc). bonus_player i sc) m t) = players t" if "zero_scores m" for m t
    using that by (induction m arbitrary: t) (auto simp: zero_scores_def step)
  then show ?thesis using assms by (simp add: apply_correlation_bonus_def)
qed

definition gated_inv :: "('d, 'e, 'k) run_state \<Rightarrow> bool" where
  "gated_inv s \<longleftrightarrow> q_gated (p_quality (fst s)) \<and> list_all silenced (mr_events (snd s)) \<and> zero_scores (players (p_scorer (fst s)))"

lemma gated_incident:
  assumes "gated_inv s" "silenced ev"
  shows "gated_inv (emit_incident en ev s)"
proof -
  obtain p r where s: "s = (p, r)" by (cases s)
  have sil: "silenced (apply_evidence_safety (capable_ids p) (p_health p) ev)" using assms(2) by (rule silenced_safety)
  with emit_incident_scorer [of en ev p r] emit_incident_simps [of en ev p r] assms(1) show ?thesis
    by (auto simp: s gated_inv_def same_core_def ingest_shadow zero_scores_get_or_create silenced_def)
qed

interpretation gated: emission_invariant en gated_inv silenced for en
proof
  show "gated_inv (emit en evs s)" if "gated_inv s" "list_all silenced evs" for s :: "('a, 'b, 'c) run_state" and evs
    using that by (rule emit_by_incident [rotated 2]) (auto simp: gated_incident, simp add: gated_inv_def)
  show "silenced (accept_emission p ev)" if "gated_inv (p, r)" for p :: "('a, 'b, 'c) pipeline" and r ev
    using that by (simp add: gated_inv_def silenced_accept)
  show "silenced (counted ev)" if "silenced ev" for ev using that by (simp add: silenced_def counted_def)
  show "silenced (merge_into a b)" if "silenced a" for a b using that by (simp add: silenced_def merge_into_weight)
  show "gated_inv (q, r')" if "gated_inv (p, r)" "same_core p q" "mr_events r' = mr_events r"
    for p q :: "('a, 'b, 'c) pipeline" and r r'
    using that by (simp add: gated_inv_def same_core_def)
qed

text \<open>C18: An unusable recording convicts nobody: when the quality gate closes on an offline match, every event
  it reports is a shadow event with no weight that cannot auto-enforce, and every player's score is zero,
  whatever the detectors return.\<close>
theorem gated_match_scores_nobody:
  assumes "\<not> p_skip_reset p" and "q_gated (assess_telemetry_quality frames (pc_max_frame_dt (p_config p)))"
  shows "let (p', r) = snd (process_match en mc frames p) in
    list_all silenced (mr_events r) \<and> zero_scores (get_all_scores (p_scorer p'))"
proof -
  have "gated.run_ok (begin_match (with_rules p mc) frames p,
      (new_match_result (mc_match_id mc))\<lparr>mr_quality := p_quality (begin_match (with_rules p mc) frames p)\<rparr>)"
    using assms by (simp add: gated.run_ok_def gated.open_E_def gated_inv_def begin_match_simps dedup_reset_def
        set_match_start_def reset_def zero_scores_def new_match_result_def)
  from gated.process_match_ok [OF this, of en] obtain s where s: "gated.run_ok s"
    "snd (process_match en mc frames p) = s \<or> snd (process_match en mc frames p) = finish s" by blast
  then show ?thesis
    by (auto simp: gated.run_ok_def gated_inv_def zero_scores_bonus split_def get_all_scores_def)
qed

theorem gated_match_scores_nobody_witness:
  "let (p', r) = snd (process_match sample_env sample_match [sample_frame] sample_pipeline) in
    list_all silenced (mr_events r) \<and> zero_scores (get_all_scores (p_scorer p'))"
proof (rule gated_match_scores_nobody)
  show "\<not> p_skip_reset sample_pipeline" by (simp add: sample_pipeline_def new_pipeline_def)
  show "q_gated (assess_telemetry_quality [sample_frame] (pc_max_frame_dt (p_config sample_pipeline)))"
    by (simp add: assess_telemetry_quality_def Let_def)
qed

section \<open>Valid events and sound scores\<close>

definition valid :: "detection_event \<Rightarrow> bool" where
  "valid e \<longleftrightarrow> validate_event e = None"

definition sound_event :: "string list \<Rightarrow> detection_event \<Rightarrow> bool" where
  "sound_event dets e \<longleftrightarrow> valid e \<and> (detector_id e \<in> set dets \<longrightarrow> \<not> auto_enforce e) \<and>
     (detector_id e \<in> set dets \<inter> set unsupported_inputs \<longrightarrow> silenced e)"

definition pipeline_ok :: "('d, 'e, 'k) pipeline \<Rightarrow> bool" where
  "pipeline_ok p \<longleftrightarrow> scorer_ok (p_scorer p) \<and> list_all valid (map snd (open_incidents (p_dedup p)))"

definition sound_inv :: "env \<Rightarrow> ('d, 'e, 'k) run_state \<Rightarrow> bool" where
  "sound_inv en s \<longleftrightarrow> (go_pow (env_pow en) \<longrightarrow> scorer_ok (p_scorer (fst s))) \<and>
     list_all (sound_event (capable_ids (fst s))) (mr_events (snd s))"

lemma in_unit_clamp: "in_unit (clamp x (Fin 0) (Fin 1))"
  using clamp_range [of "Fin 0" "Fin 1" x] by (simp add: in_unit_def)

lemma valid_safety: "valid e \<Longrightarrow> valid (apply_evidence_safety ds hm e)"
  by (auto simp: valid_def validate_event_None apply_evidence_safety_def abstain_def Let_def)

lemma sound_safety: "valid e \<Longrightarrow> sound_event ds (apply_evidence_safety ds hm e)"
  using valid_safety [of e ds hm]
  by (auto simp: sound_event_def apply_evidence_safety_def abstain_def Let_def silenced_def)

lemma valid_legal: "valid e \<Longrightarrow> valid (apply_legal_context pls e)"
  by (auto simp: valid_def validate_event_None apply_legal_context_def Let_def in_unit_clamp split: option.split)

lemma valid_accept: "valid e \<Longrightarrow> valid (accept_emission p e)"
proof -
  assume e: "valid e"
  define m where "m = q_confidence_multiplier (p_quality p)"
  define e1 where "e1 = (if detector_id e \<in> set (p_shadow_ids p) then e\<lparr>is_shadow := True\<rparr> else e)"
  define e2 where "e2 = (if flt (Fin 0) m \<and> flt m (Fin 1) then e1\<lparr>confidence := clamp (fmul (confidence e1) m) (Fin 0) (Fin 1)\<rparr> else e1)"
  define e3 where "e3 = (if q_gated (p_quality p) then e2\<lparr>is_shadow := True, auto_enforce := False, enforcement_weight := Fin 0\<rparr> else e2)"
  have "valid e1" using e by (simp add: e1_def valid_def validate_event_None)
  then have "valid e2" by (auto simp: e2_def valid_def validate_event_None in_unit_clamp)
  then have "valid e3" by (auto simp: e3_def valid_def validate_event_None)
  then have "valid (apply_evidence_safety (capable_ids p) (p_health p) (apply_legal_context (pl_players p) e3))"
    by (intro valid_safety valid_legal)
  then show ?thesis
    by (simp only: accept_emission_def Let_def e3_def e2_def e1_def m_def)
qed

lemma valid_merge: "valid a \<Longrightarrow> valid b \<Longrightarrow> valid (merge_into a b)"
  by (auto simp: valid_def validate_event_None merge_into_def take_description_def Let_def)

lemma sound_incident:
  assumes "sound_inv en s" "valid ev"
  shows "sound_inv en (emit_incident en ev s)"
proof -
  obtain p r where s: "s = (p, r)" by (cases s)
  let ?e = "apply_evidence_safety (capable_ids p) (p_health p) ev"
  have e: "sound_event (capable_ids p) ?e" "unit_event ?e"
    using sound_safety [OF assms(2)] valid_safety [OF assms(2)] by (auto simp: valid_def validated_unit_event)
  have "capable_ids (fst (emit_incident en ev (p, r))) = capable_ids p"
    using emit_incident_simps(2) [where en = en and ev = ev and p = p and r = r] by (simp add: same_core_def capable_ids_def)
  with e assms(1) emit_incident_scorer [of en ev p r] emit_incident_simps(1) [of en ev p r] show ?thesis
    by (auto simp: s sound_inv_def ingest_ok)
qed

interpretation sound: emission_invariant en "sound_inv en" valid for en
proof
  show "sound_inv en (emit en evs s)" if "sound_inv en s" "list_all valid evs" for s :: "('a, 'b, 'c) run_state" and evs
    using that by (rule emit_by_incident [rotated 2]) (auto simp: sound_incident, simp add: sound_inv_def capable_ids_def)
  show "sound_inv en (q, r')" if "sound_inv en (p, r)" "same_core p q" "mr_events r' = mr_events r"
    for p q :: "('a, 'b, 'c) pipeline" and r r'
    using that capable_ids_core [OF that(2)] by (simp add: sound_inv_def same_core_def)
  show "valid (accept_emission p ev)" if "validate_event ev = None" for p :: "('a, 'b, 'c) pipeline" and ev
    using that by (simp add: valid_accept valid_def [symmetric])
  show "valid (counted ev)" if "valid ev" for ev
    using that by (simp add: valid_def validate_event_None counted_def)
qed (rule valid_merge)

lemma sound_start:
  assumes "pipeline_ok p"
  shows "sound.run_ok en (begin_match mc frames p, (new_match_result i)\<lparr>mr_quality := q\<rparr>)"
    and "sound.run_ok en (p, new_match_result i)"
  using assms
  by (cases "p_skip_reset p"; simp add: pipeline_ok_def sound.run_ok_def sound.open_E_def sound_inv_def begin_match_simps
      dedup_reset_def reset_ok set_match_start_ok new_match_result_def)+

lemma sound_end:
  assumes "sound.run_ok en s" "go_pow (env_pow en)"
  shows "pipeline_ok (fst s)" "pipeline_ok (fst (finish s))"
    "list_all (sound_event (capable_ids (fst s))) (mr_events (snd s))"
    "list_all (sound_event (capable_ids (fst (finish s)))) (mr_events (snd (finish s)))"
  using assms by (auto simp: sound.run_ok_def sound_inv_def pipeline_ok_def sound.open_E_def apply_correlation_bonus_ok capable_ids_def)

text \<open>C17: A call of the pipeline, offline or live, keeps every score sound (in [0,100], its review flag agreeing
  with its tier, its counters agreeing with each other) and every open incident valid, and each event
  it reports validates; an event of a catalog detector never auto-enforces, and one of a detector
  whose inputs the feed does not support is a shadow event without weight. So does any run of
  slices, since the conclusion is the hypothesis of the next call.\<close>
theorem process_match_is_sound:
  assumes "go_pow (env_pow en)" and "pipeline_ok p"
  shows "let (p', r) = snd (process_match en mc frames p) in
    pipeline_ok p' \<and> list_all (sound_event (capable_ids p')) (mr_events r)"
proof -
  from sound.process_match_ok [OF sound_start(1) [OF assms(2)], of en mc frames] obtain s where s: "sound.run_ok en s"
    "snd (process_match en mc frames p) = s \<or> snd (process_match en mc frames p) = finish s" by blast
  then show ?thesis
    using sound_end [OF s(1) assms(1)] by (auto simp: split_def)
qed

lemma sample_pipeline_ok: "pipeline_ok sample_pipeline"
  by (simp add: pipeline_ok_def sample_pipeline_def new_pipeline_def new_scorer_ok sample_config_ok new_dedup_def)

theorem process_match_is_sound_witness:
  "let (p', r) = snd (process_match sample_env sample_match [sample_frame] (set_skip_reset True sample_pipeline)) in
    pipeline_ok p' \<and> list_all (sound_event (capable_ids p')) (mr_events r)"
proof (rule process_match_is_sound)
  show "go_pow (env_pow sample_env)" by (simp add: sample_env_def go_pow_int)
  show "pipeline_ok (set_skip_reset True sample_pipeline)"
    using sample_pipeline_ok by (simp add: pipeline_ok_def set_skip_reset_def)
qed

text \<open>Finalising a live match keeps them too.\<close>

lemma finalize_is_sound:
  assumes "go_pow (env_pow en)" and "pipeline_ok p"
  shows "pipeline_ok (fst (finalize en mc p))"
    and "list_all (sound_event (capable_ids (fst (finalize en mc p)))) (mr_events (snd (finalize en mc p)))"
proof -
  from sound.finalize_ok [OF sound_start(2) [OF assms(2)], of en mc] obtain s
    where s: "sound.run_ok en s" "finalize en mc p = finish s" by blast
  then show "pipeline_ok (fst (finalize en mc p))"
    "list_all (sound_event (capable_ids (fst (finalize en mc p)))) (mr_events (snd (finalize en mc p)))"
    using sound_end [OF s(1) assms(1)] by auto
qed

section \<open>The rate limit\<close>

definition within_cap :: "('d, 'e, 'k) run_state \<Rightarrow> bool" where
  "within_cap s \<longleftrightarrow> (\<forall>k. int (length (of_key k (mr_events (snd s)))) = gz 0 (counts (p_limiter (fst s))) k \<and>
     gz 0 (counts (p_limiter (fst s))) k \<le> max_per_key (p_limiter (fst s)))"

lemma of_key_append: "of_key k (xs @ ys) = of_key k xs @ of_key k ys"
  by (simp add: of_key_def)

lemma emit_fold_events:
  "p_limiter (fst (fold (emit_incident en) kept (p, r))) = p_limiter p \<and>
   length (of_key k (mr_events (snd (fold (emit_incident en) kept (p, r))))) = length (of_key k (mr_events r)) + length (of_key k kept)"
proof (induction kept arbitrary: p r)
  case (Cons ev kept)
  obtain q u where st: "emit_incident en ev (p, r) = (q, u)" by (cases "emit_incident en ev (p, r)")
  have "rl_key (apply_evidence_safety ds hm ev) = rl_key ev" for ds hm
    by (auto simp: rl_key_def apply_evidence_safety_def abstain_def Let_def)
  then have "length (of_key k (mr_events u)) = length (of_key k (mr_events r)) + length (of_key k [ev])"
    using emit_incident_simps(1) [of en ev p r] by (simp add: st of_key_append) (simp add: of_key_def)
  moreover have "p_limiter q = p_limiter p" using emit_incident_simps(2) [where en = en and ev = ev and p = p and r = r] by (simp add: st same_core_def)
  moreover have "length (of_key k (ev # kept)) = length (of_key k [ev]) + length (of_key k kept)" by (simp add: of_key_def)
  ultimately show ?case using Cons [of q u] by (simp add: st)
qed (simp add: of_key_def)

lemma within_cap_emit:
  assumes "within_cap s"
  shows "within_cap (emit en evs s)"
proof (cases "evs = []")
  case False
  obtain p r where s: "s = (p, r)" by (cases s)
  obtain kept drops rl where f: "rl_filter evs (p_limiter p) = ((kept, drops), rl)" by (metis prod.collapse)
  have K: "kept = first_n (room (p_limiter p)) evs" "max_per_key rl = max_per_key (p_limiter p)"
    "gz 0 (counts rl) k = gz 0 (counts (p_limiter p)) k + int (length (of_key k kept))" for k
    using rl_loop_first_n [of evs "p_limiter p" "[]"] f by (auto simp: rl_filter_def)
  have "gz 0 (counts rl) k \<le> max_per_key rl" for k
  proof -
    have "int (length (of_key k kept)) \<le> max 0 (room (p_limiter p) k)"
      using length_of_key_first_n [of k "room (p_limiter p)" evs] by (simp add: K(1))
    moreover have "gz 0 (counts (p_limiter p)) k \<le> max_per_key (p_limiter p)" using assms by (simp add: within_cap_def s)
    ultimately show ?thesis unfolding K(2) K(3) [of k] room_def by linarith
  qed
  with assms False show ?thesis
    by (simp add: emit_def s f within_cap_def K(3) emit_fold_events [THEN conjunct1] emit_fold_events [THEN conjunct2])
qed (cases s, use assms in \<open>simp add: emit_def\<close>)

text \<open>The cap itself is part of the invariant: nothing changes it.\<close>

definition capped_at :: "int \<Rightarrow> ('d, 'e, 'k) run_state \<Rightarrow> bool" where
  "capped_at m s \<longleftrightarrow> within_cap s \<and> max_per_key (p_limiter (fst s)) = m"

lemma emit_cap: "max_per_key (p_limiter (fst (emit en evs s))) = max_per_key (p_limiter (fst s))"
proof (cases s)
  case (Pair p r)
  have "max_per_key (snd (rl_filter evs (p_limiter p))) = max_per_key (p_limiter p)"
    using rl_loop_first_n [of evs "p_limiter p" "[]"] by (simp add: rl_filter_def)
  then show ?thesis by (simp add: Pair emit_def Let_def split_def emit_fold_events [THEN conjunct1])
qed

interpretation at_cap: emission_invariant en "capped_at m" "\<lambda>_. True" for en m
proof
  show "capped_at m (q, r')" if "capped_at m (p, r)" "same_core p q" "mr_events r' = mr_events r"
    for p q :: "('a, 'b, 'c) pipeline" and r r'
    using that by (auto simp: capped_at_def within_cap_def same_core_def)
qed (simp_all add: capped_at_def within_cap_emit emit_cap)

text \<open>However a detector misbehaves, an offline match reports at most the configured number of incidents
  (100 where the configuration has none) for each player and detector.\<close>
theorem reports_are_capped:
  assumes "\<not> p_skip_reset p" and "0 < max_per_key (p_limiter p)"
  shows "int (length (of_key k (mr_events (snd (snd (process_match en mc frames p)))))) \<le> max_per_key (p_limiter p)"
proof -
  let ?m = "max_per_key (p_limiter p)"
  have "at_cap.run_ok ?m (begin_match (with_rules p mc) frames p,
      (new_match_result (mc_match_id mc))\<lparr>mr_quality := p_quality (begin_match (with_rules p mc) frames p)\<rparr>)"
    using assms by (simp add: at_cap.run_ok_def at_cap.open_E_def capped_at_def within_cap_def begin_match_simps
        limiter_reset_def new_match_result_def of_key_def list_all_iff)
  from at_cap.process_match_ok [OF this, of en] obtain s where s: "at_cap.run_ok ?m s"
    "snd (process_match en mc frames p) = s \<or> snd (process_match en mc frames p) = finish s" by blast
  then have "int (length (of_key k (mr_events (snd s)))) \<le> ?m"
    by (auto simp: at_cap.run_ok_def capped_at_def within_cap_def)
  then show ?thesis using s(2) by auto
qed

theorem reports_are_capped_witness:
  "length (of_key ''p1:THROW_001'' (mr_events (snd (snd (process_match sample_env sample_match [sample_frame] sample_pipeline))))) \<le> 3"
proof -
  have "\<not> p_skip_reset sample_pipeline" "max_per_key (p_limiter sample_pipeline) = 3"
    by (simp_all add: sample_pipeline_def new_pipeline_def new_limiter_def sample_pipeline_config_def)
  with reports_are_capped [of sample_pipeline "''p1:THROW_001''" sample_env sample_match "[sample_frame]"] show ?thesis by simp
qed

section \<open>An offline match stands alone\<close>

definition reset_detectors :: "('d, 'e, 'k) pipeline \<Rightarrow> ('d, 'k) detector list" where
  "reset_detectors p = map (\<lambda>d. d\<lparr>det_state := det_reset d (det_state d)\<rparr>) (p_detectors p)"

definition same_setup :: "('d, 'e, 'k) pipeline \<Rightarrow> ('d, 'e, 'k) pipeline \<Rightarrow> bool" where
  "same_setup p q \<longleftrightarrow> p_config p = p_config q \<and> p_shadow_ids p = p_shadow_ids q \<and> p_validator p = p_validator q \<and>
     p_extractor p = p_extractor q \<and> p_skip_reset p = p_skip_reset q \<and> merge_window (p_dedup p) = merge_window (p_dedup q) \<and>
     max_per_key (p_limiter p) = max_per_key (p_limiter q) \<and> config (p_scorer p) = config (p_scorer q) \<and>
     levels (p_scorer p) = levels (p_scorer q) \<and> reset_detectors p = reset_detectors q"



section \<open>The order of the rows\<close>

lemma rows_at_sorted:
  assumes "mset xs = mset ys" and "distinct (map row_key xs)"
  shows "sort_key fr_player_id (rows_at fi xs) = sort_key fr_player_id (rows_at fi ys)"
proof (rule sort_key_inj_key_eq)
  show "mset (rows_at fi xs) = mset (sort_key fr_player_id (rows_at fi ys))"
    using assms(1) by (simp add: rows_at_def)
  have "inj_on row_key (set xs)" using assms(2) by (simp add: distinct_map)
  then show "inj_on fr_player_id (set (rows_at fi xs))"
    by (auto simp: inj_on_def row_key_def rows_at_def)
qed simp

lemma jumps_set:
  assumes "set xs = set ys"
  shows "shared_orientation_jumps acos pls xs = shared_orientation_jumps acos pls ys"
proof -
  have "length (remdups (map f (filter c xs))) = length (remdups (map f (filter c ys)))" for f :: "telemetry_frame \<Rightarrow> string" and c
    using assms by (simp add: length_remdups_card_conv)
  then show ?thesis
    using assms by (simp add: shared_orientation_jumps_def Let_def list_ex_iff fun_eq_iff)
qed

text \<open>The result of a match does not depend on the order in which its rows are delivered, as long as a
  player has one row per frame: grouping by index and sorting by player make it a function of the set.\<close>
theorem match_ignores_row_order:
  assumes "mset xs = mset ys" and "distinct (map row_key xs)"
  shows "process_match en mc xs p = process_match en mc ys p"
proof -
  have S: "set xs = set ys" using assms(1) by (rule mset_eq_setD)
  then have R: "set (rows_at fi xs) = set (rows_at fi ys)" for fi by (simp add: rows_at_def)
  have jumps: "shared_orientation_jumps a pls (rows_at fi xs) = shared_orientation_jumps a pls (rows_at fi ys)"
    for fi a and pls :: "(string, 'c player_state) gomap" by (rule jumps_set [OF R])
  have active: "active_rows mc' (rows_at fi xs) = active_rows mc' (rows_at fi ys)" for fi mc'
    by (simp add: active_rows_def list_all_iff R)
  have "process_index en mc' xs fi st = process_index en mc' ys fi st" for mc' fi and st :: "('a, 'b, 'c) run_state"
    unfolding process_index_def Let_def rows_at_sorted [OF assms] jumps active by (rule refl)
  then have "process_indices en mc' xs fis st = process_indices en mc' ys fis st" for mc' fis and st :: "('a, 'b, 'c) run_state"
    by (induction fis arbitrary: st) auto
  moreover have "frame_indices xs = frame_indices ys"
    unfolding frame_indices_def by (rule sorted_distinct_set_unique) (simp_all add: S)
  moreover have "begin_match mc' xs p = begin_match mc' ys p" for mc'
    by (simp add: begin_match_def quality_ignores_row_order [OF assms])
  ultimately show ?thesis by (simp add: process_match_def)
qed

theorem match_ignores_row_order_witness:
  "process_match sample_env sample_match [sample_frame, sample_frame\<lparr>fr_player_id := ''p2''\<rparr>] sample_pipeline =
   process_match sample_env sample_match [sample_frame\<lparr>fr_player_id := ''p2''\<rparr>, sample_frame] sample_pipeline"
  by (rule match_ignores_row_order) (simp_all add: row_key_def sample_frame_def)

end
