(* ===== verification/Motion.thy ===== *)
theory Motion
  imports Telemetry Events
begin

text \<open>
  What the feature extractor keeps per player (\<open>internal/model/player.go\<close>, \<open>events.go\<close>, and the release
  window of \<open>observation.go\<close>): the kinematic part of \<open>PlayerState\<close>, its sliding windows and running
  statistics, and the throw it publishes. The fields the code repeats for the left and the right
  hand are one record \<open>hand\<close> used twice, and the many fields of \<open>PlayerState\<close> and \<open>ThrowEvent\<close> are grouped into
  smaller records; each field is there once. \<open>motion\<close> fills the open field \<open>ps_motion\<close> of \<open>player_state\<close>. \<open>Clone\<close> methods
  are identities of values.

  \<open>StunEndTime\<close>, \<open>IsInvulnerable\<close> and the JSON names are left out: nothing in the program writes them.
\<close>

section \<open>Sliding windows\<close>

definition push :: "int \<Rightarrow> 'a \<Rightarrow> 'a list \<Rightarrow> 'a list" where
  "push w v hist = (let h = hist @ [v] in if w < int (length h) then drop (length h - nat w) h else h)"

lemma set_push: "set (push w v h) \<subseteq> insert v (set h)"
  by (auto simp: push_def Let_def dest: in_set_dropD)

section \<open>Running mean and variance\<close>

record welford =
  wf_n :: int
  wf_mean :: f64
  wf_m2 :: f64

definition welford_reset :: welford where
  "welford_reset = \<lparr>wf_n = 0, wf_mean = Fin 0, wf_m2 = Fin 0\<rparr>"

definition welford_update :: "f64 \<Rightarrow> welford \<Rightarrow> welford" where
  "welford_update v w =
     (if is_nan v \<or> is_inf v then w
      else let n = wf_n w + 1; delta = fsub v (wf_mean w);
               mean = fadd (wf_mean w) (fdiv delta (f_of_int n)); delta2 = fsub v mean
           in \<lparr>wf_n = n, wf_mean = mean, wf_m2 = fadd (wf_m2 w) (fmul delta delta2)\<rparr>)"

definition population_variance :: "welford \<Rightarrow> f64" where
  "population_variance w = (if wf_n w < 2 then Fin 0 else fdiv (wf_m2 w) (f_of_int (wf_n w)))"

definition welford_std_dev :: "welford \<Rightarrow> f64" where
  "welford_std_dev w = fsqrt (population_variance w)"

definition compute_position_variance :: "vec3 list \<Rightarrow> f64" where
  "compute_position_variance ps =
     (if length ps < 2 then Fin 0
      else let n = f_of_int (int (length ps));
               mean = v_scale (fold (\<lambda>p m. v_add m p) ps 0) (fdiv (Fin 1) n);
               sum = fold (\<lambda>p s. fadd s (v_magnitude_sq (v_sub p mean))) ps (Fin 0)
           in fdiv sum n)"

section \<open>Throws\<close>

record movement_observation =
  mv_frame_index :: int
  mv_timestamp :: f64
  mv_position :: vec3
  mv_reported_velocity :: "vec3 option"

record release_observation =
  ro_player_id :: string
  ro_first_free_frame :: int
  ro_start_frame :: int
  ro_end_frame :: int
  ro_start_time :: f64
  ro_end_time :: f64
  ro_source :: "observation_context option"
  ro_hand_candidates :: "string list"
  ro_player_movement :: "movement_observation list"

record throw_snapshot =
  tf_frame_index :: int
  tf_timestamp :: f64
  tf_hand_position :: vec3
  tf_hand_velocity :: vec3
  tf_hand_rotation :: quat
  tf_hand_rotation_valid :: bool
  tf_disc_position :: vec3
  tf_disc_velocity :: vec3
  tf_player_position :: vec3
  tf_disc_missing :: bool

text \<open>The fields of \<open>ThrowEvent\<close> in four parts: the release, the hand, the wrist, the goal.\<close>

record throw_release =
  te_release_position :: vec3
  te_release_velocity :: vec3
  te_release_speed :: f64
  te_sampled_disc_speed :: f64
  te_game_last_throw :: "game_throw_details option"
  te_game_last_throw_provenance :: "observation_context option"
  te_player_position :: vec3
  te_player_velocity :: vec3
  te_release_hand_to_disc_distance :: f64
  te_head_to_disc_distance :: f64
  te_possible_head_contact :: bool
  te_release_angle :: f64
  te_possession_duration :: f64

record throw_hand =
  te_throwing_hand :: string
  te_hand_position :: vec3
  te_hand_velocity :: vec3
  te_hand_speed :: f64
  te_hand_relative_velocity :: vec3
  te_hand_relative_speed :: f64
  te_hand_tracked :: bool
  te_hand_kinematics_valid :: bool
  te_hand_attribution_confidence :: f64
  te_hand_attribution_anchor :: string
  te_hand_to_disc_distance :: f64

record throw_wrist =
  te_wrist_orientation :: quat
  te_wrist_angular_velocity :: f64
  te_wrist_orientation_valid :: bool
  te_wrist_kinematics_valid :: bool

record throw_goal =
  te_goal_position :: vec3
  te_goal_selection :: string
  te_target_position :: "vec3 option"
  te_target_deviation :: f64

record throw_event =
  te_observed_frame_index :: "int option"
  te_release_window :: "release_observation option"
  te_thrower_id :: string
  te_attribution :: throw_attribution
  te_frame_index :: int
  te_timestamp :: f64
  te_release :: throw_release
  te_hand :: throw_hand
  te_wrist :: throw_wrist
  te_goal :: throw_goal
  te_pre_release_frames :: "throw_snapshot list"

definition observed_at :: "throw_event option \<Rightarrow> int \<Rightarrow> bool" where
  "observed_at t f = (case t of None \<Rightarrow> False | Some e \<Rightarrow>
     (case te_observed_frame_index e of Some i \<Rightarrow> i = f | None \<Rightarrow> te_frame_index e = f))"

section \<open>The kinematic state\<close>

record hand =
  h_position :: vec3
  h_rot :: quat
  h_rot_valid :: bool
  h_velocity :: vec3
  h_speed :: f64
  h_relative_velocity :: vec3
  h_relative_speed :: f64
  h_wrist_rate :: f64
  h_wrist_rate_valid :: bool
  h_history :: "vec3 list"
  h_rot_history :: "quat list"
  h_speed_stats :: welford

definition no_hand :: hand where
  "no_hand = \<lparr>h_position = 0, h_rot = 0, h_rot_valid = False, h_velocity = 0, h_speed = Fin 0, h_relative_velocity = 0,
     h_relative_speed = Fin 0, h_wrist_rate = Fin 0, h_wrist_rate_valid = False, h_history = [], h_rot_history = [],
     h_speed_stats = welford_reset\<rparr>"

record playspace =
  py_anchor :: vec3
  py_offset :: vec3
  py_distance :: f64
  py_velocity :: vec3
  py_speed :: f64
  py_rig_coherence :: f64
  py_tracked_hands :: int
  py_valid :: bool
  py_movement_origin :: string

definition no_playspace :: "vec3 \<Rightarrow> playspace" where
  "no_playspace anchor = \<lparr>py_anchor = anchor, py_offset = 0, py_distance = Fin 0, py_velocity = 0, py_speed = Fin 0,
     py_rig_coherence = Fin 0, py_tracked_hands = 0, py_valid = False, py_movement_origin = []\<rparr>"

text \<open>The rest of \<open>PlayerState\<close> in four parts: kinematics and histories, throws, game status, scores.\<close>

record kinematics =
  kn_position :: vec3
  kn_head_position :: "vec3 option"
  kn_velocity :: vec3
  kn_speed :: f64
  kn_acceleration :: vec3
  kn_acceleration_magnitude :: f64
  kn_reported_velocity :: vec3
  kn_has_reported_velocity :: bool
  kn_frame_dt :: f64
  kn_speed_stats :: welford

record histories =
  hi_position :: "vec3 list"
  hi_velocity :: "vec3 list"
  hi_speed :: "f64 list"
  hi_timestamp :: "f64 list"
  hi_disc_velocity :: "vec3 list"

record throws =
  th_disc_attachment :: "disc_attachment option"
  th_held_items :: "hand_attachments option"
  th_has_disc :: bool
  th_possession_start_frame :: int
  th_possession_start_time :: f64
  th_throw_count :: int
  th_last_throw :: "throw_event option"
  th_throw_history :: "throw_event list"

record status =
  st_is_stunned :: bool
  st_stun_start_frame :: int
  st_was_stunned :: bool
  st_stun_recoveries :: int
  st_is_boosting_known :: bool
  st_is_boosting :: bool
  st_boost_timestamps :: "f64 list"
  st_last_boost_frame :: int
  st_shield_active :: bool
  st_shield_start_frame :: int
  st_consecutive_shield_frames :: int
  st_last_shield_off_frame :: int
  st_is_immune :: bool
  st_invulnerable_frames :: int
  st_ping_ms :: f64
  st_is_high_ping :: bool

record scores =
  sr_blue :: int
  sr_orange :: int
  sr_goals :: int
  sr_stuns :: int

record motion =
  mo_kinematics :: kinematics
  mo_left :: hand
  mo_right :: hand
  mo_playspace :: playspace
  mo_histories :: histories
  mo_throws :: throws
  mo_status :: status
  mo_scores :: scores

definition no_histories :: histories where
  "no_histories = \<lparr>hi_position = [], hi_velocity = [], hi_speed = [], hi_timestamp = [], hi_disc_velocity = []\<rparr>"

definition zero_motion :: motion where
  "zero_motion = \<lparr>mo_kinematics = \<lparr>kn_position = 0, kn_head_position = None, kn_velocity = 0, kn_speed = Fin 0, kn_acceleration = 0,
       kn_acceleration_magnitude = Fin 0, kn_reported_velocity = 0, kn_has_reported_velocity = False, kn_frame_dt = Fin 0,
       kn_speed_stats = welford_reset\<rparr>,
     mo_left = no_hand, mo_right = no_hand, mo_playspace = no_playspace 0, mo_histories = no_histories,
     mo_throws = \<lparr>th_disc_attachment = None, th_held_items = None, th_has_disc = False, th_possession_start_frame = 0,
       th_possession_start_time = Fin 0, th_throw_count = 0, th_last_throw = None, th_throw_history = []\<rparr>,
     mo_status = \<lparr>st_is_stunned = False, st_stun_start_frame = 0, st_was_stunned = False, st_stun_recoveries = 0,
       st_is_boosting_known = False, st_is_boosting = False, st_boost_timestamps = [], st_last_boost_frame = 0,
       st_shield_active = False, st_shield_start_frame = 0, st_consecutive_shield_frames = 0, st_last_shield_off_frame = 0,
       st_is_immune = False, st_invulnerable_frames = 0, st_ping_ms = Fin 0, st_is_high_ping = False\<rparr>,
     mo_scores = \<lparr>sr_blue = 0, sr_orange = 0, sr_goals = 0, sr_stuns = 0\<rparr>\<rparr>"

type_synonym tracked = "motion player_state"

section \<open>Facts\<close>

lemma length_push: "0 \<le> w \<Longrightarrow> length (push w v h) = (if int (length h) < w then length h + 1 else nat w)"
  by (auto simp: push_def Let_def)

lemma push_length_cong: "length h = length g \<Longrightarrow> length (push w v h) = length (push w u g)"
  by (simp add: push_def Let_def)

text \<open>A window of positive size holds the most recent values: the suffix of everything pushed.\<close>

lemma fold_push:
  assumes "0 < w"
  shows "fold (push w) vs [] = drop (length vs - nat w) vs"
proof (induction vs rule: rev_induct)
  case (snoc v vs)
  show ?case
  proof (cases "length vs < nat w")
    case True
    then show ?thesis using snoc by (auto simp: push_def Let_def)
  next
    case False
    then have "Suc (length vs) - nat w = Suc (length vs - nat w)" by simp
    with False show ?thesis using snoc assms by (auto simp: push_def Let_def)
  qed
qed simp

end
