(* ===== verification/Extractor.thy ===== *)
theory Extractor
  imports Motion Match_Phase
begin

text \<open>
  The feature extractor (\<open>internal/pipeline/feature_extractor.go\<close>, \<open>release_observation.go\<close>): the derived state
  of a player from one telemetry frame. \<open>feature_extractor\<close> is \<open>FeatureExtractor\<close>; \<open>update_player_state\<close> is
  \<open>UpdatePlayerState\<close>, split into the steps the function goes through, in its order. A step takes the
  player before the frame (\<open>o\<close> in the names below is \<open>old\<close>) where the code reads the values it saved on entry.

  \<open>math.Acos\<close> is the argument \<open>acos\<close>. The release observer is a diagnostic hook and is left out, as in
  the pipeline. The sign \<open>math.Copysign\<close> takes from a disc position is that of a non-zero number there.
\<close>

section \<open>State\<close>

definition min_frame_dt :: f64 where "min_frame_dt = flit (5/1000)"
definition default_max_frame_dt :: f64 where "default_max_frame_dt = Fin (1/2)"
definition default_high_ping :: f64 where "default_high_ping = Fin 150"
definition playspace_max_dt :: f64 where "playspace_max_dt = flit (1/10)"
definition playspace_recentering :: f64 where "playspace_recentering = flit (5/100)"
definition pre_release_snapshot_count :: nat where "pre_release_snapshot_count = 5"
definition head_contact_distance :: f64 where "head_contact_distance = flit (42/100)"
definition head_contact_closer_margin :: f64 where "head_contact_closer_margin = flit (8/100)"
definition goal_directed_max_deviation :: f64 where "goal_directed_max_deviation = Fin 30"
definition max_tracked_disc_histories :: int where "max_tracked_disc_histories = 4096"

record disc_sample =
  dc_pos :: vec3
  dc_missing :: bool
  dc_frame_idx :: int

record goal_sides =
  gs_match_id :: string
  gs_blue_goal_z :: f64
  gs_known :: bool

record pending_release =
  pr_event :: "throw_event option"
  pr_observation :: release_observation
  pr_unavailable_reason :: string

record feature_extractor =
  fe_window :: int
  fe_high_ping :: f64
  fe_max_frame_dt :: f64
  fe_blue_sign :: int
  fe_learned :: goal_sides
  fe_disc_history :: "(string, disc_sample list) gomap"
  fe_pending :: "(string, pending_release) gomap"

definition new_feature_extractor :: "int \<Rightarrow> feature_extractor" where
  "new_feature_extractor w = \<lparr>fe_window = (if w < 5 then 30 else w), fe_high_ping = default_high_ping, fe_max_frame_dt = default_max_frame_dt,
     fe_blue_sign = 0, fe_learned = \<lparr>gs_match_id = [], gs_blue_goal_z = Fin 0, gs_known = False\<rparr>, fe_disc_history = [], fe_pending = []\<rparr>"

definition set_max_frame_dt :: "f64 \<Rightarrow> feature_extractor \<Rightarrow> feature_extractor" where
  "set_max_frame_dt s fe = fe\<lparr>fe_max_frame_dt := (if is_nan s \<or> is_inf s \<or> fle s min_frame_dt then default_max_frame_dt else s)\<rparr>"

definition max_frame_dt_seconds :: "feature_extractor \<Rightarrow> f64" where
  "max_frame_dt_seconds fe = (if fle (fe_max_frame_dt fe) (Fin 0) then default_max_frame_dt else fe_max_frame_dt fe)"

definition set_high_ping_threshold :: "f64 \<Rightarrow> feature_extractor \<Rightarrow> feature_extractor" where
  "set_high_ping_threshold ms fe = fe\<lparr>fe_high_ping := (if fle ms (Fin 0) \<or> is_nan ms then default_high_ping else ms)\<rparr>"

definition set_blue_goal_side :: "int \<Rightarrow> feature_extractor \<Rightarrow> feature_extractor" where
  "set_blue_goal_side sign fe = fe\<lparr>fe_blue_sign := (if 0 < sign then 1 else if sign < 0 then - 1 else 0)\<rparr>"

definition team_goal_z :: "match_context \<Rightarrow> string \<Rightarrow> feature_extractor \<Rightarrow> f64 option" where
  "team_goal_z mc team fe =
     (let goal = goal_z (mc_physics mc) in
      if fle goal (Fin 0) then None
      else
        case (if fe_blue_sign fe \<noteq> 0 then Some (fmul (f_of_int (fe_blue_sign fe)) goal)
              else if gs_known (fe_learned fe) \<and> gs_match_id (fe_learned fe) = mc_match_id mc then Some (gs_blue_goal_z (fe_learned fe))
              else None) of
          None \<Rightarrow> None
        | Some blue \<Rightarrow> if team = ''blue'' then Some blue else if team = ''orange'' then Some (fneg blue) else None)"

section \<open>Pending releases\<close>

definition reject_release :: "string \<Rightarrow> feature_extractor \<Rightarrow> feature_extractor" where
  "reject_release i fe = fe\<lparr>fe_pending := AList.delete i (fe_pending fe)\<rparr>"

definition drain_pending_releases :: "feature_extractor \<Rightarrow> feature_extractor" where
  "drain_pending_releases fe = fold reject_release (sort (map fst (fe_pending fe))) fe"

definition forget_disc :: "string \<Rightarrow> feature_extractor \<Rightarrow> feature_extractor" where
  "forget_disc i fe = fe\<lparr>fe_disc_history := AList.delete i (fe_disc_history fe)\<rparr>"

definition clear_source_history :: "motion \<Rightarrow> motion" where
  "clear_source_history m = m\<lparr>mo_histories := no_histories,
     mo_left := (mo_left m)\<lparr>h_history := [], h_rot_history := []\<rparr>, mo_right := (mo_right m)\<lparr>h_history := [], h_rot_history := []\<rparr>,
     mo_throws := (mo_throws m)\<lparr>th_last_throw := None, th_throw_history := []\<rparr>\<rparr>"

definition observed_attachment :: "telemetry_frame \<Rightarrow> disc_attachment option" where
  "observed_attachment f =
     (let unknown = (\<lambda>why. Some \<lparr>da_state = ''unknown'', da_holder_id = [], da_hand_candidates = [], da_reason = why\<rparr>) in
      case fr_disc f of None \<Rightarrow> unknown ''attachment_unknown''
      | Some d \<Rightarrow> (case ds_attachment d of None \<Rightarrow> unknown ''attachment_unknown''
        | Some a \<Rightarrow>
            if \<not> da_known (Some a) then unknown ''attachment_unknown''
            else if ds_possession_conflict d \<or> da_free (Some a) \<noteq> (\<not> ds_is_held d) \<or>
                (da_state a = ''held'' \<and> da_holder_id a \<noteq> ds_possessor_id d)
            then unknown ''attachment_conflict''
            else Some a))"

definition confirm_release :: "telemetry_frame \<Rightarrow> bool \<Rightarrow> bool \<Rightarrow> string \<Rightarrow> throws \<times> feature_extractor \<Rightarrow> throws \<times> feature_extractor" where
  "confirm_release f unbroken phase_active i = (\<lambda>(th, fe).
     case map_of (fe_pending fe) i of None \<Rightarrow> (th, fe)
     | Some pending \<Rightarrow>
         let a = th_disc_attachment th; fe = reject_release i fe in
         if \<not> unbroken \<or> \<not> phase_active \<or> \<not> da_known a \<or> da_held_by a i \<or> \<not> da_free a \<or> fr_is_stunned f then (th, fe)
         else case pr_event pending of None \<Rightarrow> (th, fe)
         | Some ev \<Rightarrow>
             let ev = ev\<lparr>te_observed_frame_index := Some (fr_frame_index f)\<rparr>
             in (th\<lparr>th_last_throw := Some ev, th_throw_history := th_throw_history th @ [ev], th_throw_count := th_throw_count th + 1\<rparr>, fe))"

section \<open>Legal motion\<close>

definition playspace_rig_coherence :: "vec3 \<Rightarrow> vec3 \<Rightarrow> vec3 \<Rightarrow> vec3 \<Rightarrow> vec3 \<Rightarrow> vec3 \<Rightarrow> f64 \<times> int" where
  "playspace_rig_coherence body prev_left left prev_right right expected =
     (let add = (\<lambda>prev cur (sum, n).
            if v_is_zero prev \<or> v_is_zero cur then (sum, n)
            else let residual = v_sub (v_sub cur prev) expected;
                     difference = v_magnitude (v_sub residual body);
                     tolerance = fmax (flit (12/100)) (fmul (v_magnitude body) (Fin (3/4)))
                 in (fadd sum (clamp (fsub (Fin 1) (fdiv difference (fmul (Fin 2) tolerance))) (Fin 0) (Fin 1)), n + 1));
          (sum, n) = add prev_right right (add prev_left left (Fin 0, 0))
      in if n = 0 then (Fin 0, 0) else (fdiv sum (f_of_int n), n))"

definition explanation :: "legal_motion_context \<Rightarrow> string" where
  "explanation c = (if lm_head_contact c then ''possible legal head contact at disc release''
     else if lm_boosting c then ''game-reported boost''
     else if lm_slap_or_push c then ''possible legal wall/block slap or player push''
     else if lm_playspace_step c then ''coherent physical playspace step''
     else if lm_leaning c then ''coherent lean inside the tracked playspace''
     else if lm_game_locomotion c then ''game-authored locomotion (stack, grab, push, or ordinary movement may contribute)''
     else ''no special legal-motion context identified'')"

definition build_legal_motion_context :: "motion \<Rightarrow> telemetry_frame \<Rightarrow> vec3 \<Rightarrow> bool \<Rightarrow> f64 \<Rightarrow> legal_motion_context" where
  "build_legal_motion_context m f previous_reported dt_known dt =
     (let st = mo_status m; kn = mo_kinematics m; py = mo_playspace m;
          boosting = (st_is_boosting_known st \<and> st_is_boosting st);
          idle = (st_is_boosting_known st \<and> \<not> st_is_boosting st);
          locomotion = (kn_has_reported_velocity kn \<and> fle (Fin (1/4)) (v_magnitude (kn_reported_velocity kn)));
          limited = (v_is_zero (fr_left_hand f) \<or> v_is_zero (fr_right_hand f) \<or>
            \<not> q_is_unit (fr_left_rotation f) \<or> \<not> q_is_unit (fr_right_rotation f));
          conf = (if st_is_high_ping st then fmul (Fin 1) (Fin (3/4)) else Fin 1);
          conf = (if limited then fmul conf (flit (65/100)) else conf);
          rig = (py_valid py \<and> fle (flit (4/10)) (py_rig_coherence py));
          leaning = (rig \<and> fle (flit (8/100)) (py_distance py) \<and> fle (py_distance py) (flit (65/100)) \<and> flt (py_speed py) (flit (35/100)));
          step = (rig \<and> idle \<and> fle (flit (35/100)) (py_speed py) \<and> fle (py_speed py) (flit (22/10)));
          slap = (dt_known \<and> flt (Fin 0) dt \<and> idle \<and> kn_has_reported_velocity kn \<and>
            fle (Fin 6) (fdiv (v_magnitude (v_sub (kn_reported_velocity kn) previous_reported)) dt) \<and>
            fle (flit (12/10)) (fmax (h_relative_speed (mo_left m)) (h_relative_speed (mo_right m))));
          contact = (case th_last_throw (mo_throws m) of None \<Rightarrow> False
            | Some t \<Rightarrow> observed_at (Some t) (fr_frame_index f) \<and> te_possible_head_contact (te_release t));
          c = \<lparr>lm_leaning = leaning, lm_playspace_step = step, lm_game_locomotion = locomotion, lm_boosting = boosting,
               lm_boosting_known = st_is_boosting_known st, lm_slap_or_push = slap, lm_head_contact = contact,
               lm_tracking_limited = limited, lm_confidence = conf, lm_primary_explanation = [],
               lm_cannot_distinguish_contact = (slap \<or> locomotion \<and> \<not> boosting)\<rparr>
      in c\<lparr>lm_primary_explanation := explanation c\<rparr>)"

section \<open>Goals\<close>

definition learn_goal_sides :: "telemetry_frame \<Rightarrow> match_context \<Rightarrow> int \<Rightarrow> int \<Rightarrow> feature_extractor \<Rightarrow> feature_extractor" where
  "learn_goal_sides f mc prev_blue prev_orange fe =
     (if fe_blue_sign fe \<noteq> 0 then fe
      else
        let l = (if gs_match_id (fe_learned fe) \<noteq> mc_match_id mc
                 then \<lparr>gs_match_id = mc_match_id mc, gs_blue_goal_z = Fin 0, gs_known = False\<rparr> else fe_learned fe);
            fe = fe\<lparr>fe_learned := l\<rparr>; goal = goal_z (mc_physics mc)
        in case fr_disc f of None \<Rightarrow> fe
          | Some d \<Rightarrow>
              if gs_known l \<or> fle goal (Fin 0) then fe
              else
                let dz = vz (ds_position d) in
                if flt (fabs dz) (fmul goal (Fin (1/2))) then fe
                else
                  let blue = fr_blue_score f - prev_blue; orange = fr_orange_score f - prev_orange;
                      side = (if flt dz (Fin 0) then fneg goal else goal)
                  in if 1 \<le> blue \<and> blue \<le> 3 \<and> orange = 0
                     then fe\<lparr>fe_learned := l\<lparr>gs_blue_goal_z := side, gs_known := True\<rparr>\<rparr>
                     else if 1 \<le> orange \<and> orange \<le> 3 \<and> blue = 0
                     then fe\<lparr>fe_learned := l\<lparr>gs_blue_goal_z := fneg side, gs_known := True\<rparr>\<rparr>
                     else fe)"

definition choose_goal :: "(f64 \<Rightarrow> f64) \<Rightarrow> tracked \<Rightarrow> match_context \<Rightarrow> vec3 \<Rightarrow> vec3 \<Rightarrow> feature_extractor \<Rightarrow> (vec3 \<times> string) option" where
  "choose_goal acos ps mc release_pos release_vel fe =
     (let goal = goal_z (mc_physics mc) in
      if fle goal (Fin 0) then None
      else
        let team = (if ps_team ps = [] then gz [] (mc_team_assignments mc) (ps_player_id ps) else ps_team ps) in
        case team_goal_z mc team fe of
          Some z \<Rightarrow> Some (Vec3 (Fin 0) (Fin 0) z, ''team'')
        | None \<Rightarrow>
            let pos = Vec3 (Fin 0) (Fin 0) goal; neg = Vec3 (Fin 0) (Fin 0) (fneg goal);
                dev_pos = v_angle_between acos release_vel (v_sub pos release_pos);
                dev_neg = v_angle_between acos release_vel (v_sub neg release_pos);
                aimed = flt (flit (1/10)) (v_magnitude release_vel)
            in if aimed \<and> flt dev_pos dev_neg then Some (pos, ''angular'')
               else if aimed \<and> flt dev_neg dev_pos then Some (neg, ''angular'')
               else if flt (v_distance release_pos neg) (v_distance release_pos pos) then Some (neg, ''nearest'')
               else Some (pos, ''nearest''))"

section \<open>Throws\<close>

definition tail_index :: "nat \<Rightarrow> nat \<Rightarrow> nat \<Rightarrow> nat option" where
  "tail_index other ref i = (if other < ref - i \<or> other \<le> other - (ref - i) then None else Some (other - (ref - i)))"

definition snapshot_at :: "feature_extractor \<Rightarrow> tracked \<Rightarrow> telemetry_frame \<Rightarrow> vec3 list \<Rightarrow> quat list \<Rightarrow> disc_sample list \<Rightarrow> nat \<Rightarrow> throw_snapshot" where
  "snapshot_at fe ps f hands rots discs i =
     (let hi = mo_histories (ps_motion ps); n = length (hi_position hi); ts = hi_timestamp hi; max_dt = max_frame_dt_seconds fe;
          ti = tail_index (length ts) n i; di = tail_index (length discs) n i;
          si = tail_index (length hands) n i; ri = tail_index (length rots) n i; vi = tail_index (length (hi_disc_velocity hi)) n i;
          velocity = (case (si, ti) of
              (Some h, Some t) \<Rightarrow>
                if 0 < h \<and> 0 < t \<and> \<not> v_is_zero (hands ! h) \<and> \<not> v_is_zero (hands ! (h - 1)) then
                  let hdt = fsub (ts ! t) (ts ! (t - 1)) in
                  if flt (Fin 0) hdt \<and> fle hdt max_dt
                  then v_scale (v_sub (hands ! h) (hands ! (h - 1))) (fdiv (Fin 1) (clamp hdt min_frame_dt max_dt))
                  else 0
                else 0
            | _ \<Rightarrow> 0)
      in \<lparr>tf_frame_index = (case di of Some d \<Rightarrow> dc_frame_idx (discs ! d) | None \<Rightarrow> fr_frame_index f - int (n - i)),
          tf_timestamp = (case ti of Some t \<Rightarrow> ts ! t | None \<Rightarrow> Fin 0),
          tf_hand_position = (case si of Some h \<Rightarrow> hands ! h | None \<Rightarrow> 0),
          tf_hand_velocity = velocity,
          tf_hand_rotation = (case ri of Some r \<Rightarrow> rots ! r | None \<Rightarrow> 0),
          tf_hand_rotation_valid = (case ri of Some r \<Rightarrow> q_is_unit (rots ! r) | None \<Rightarrow> False),
          tf_disc_position = (case di of Some d \<Rightarrow> dc_pos (discs ! d) | None \<Rightarrow> 0),
          tf_disc_velocity = (case vi of Some v \<Rightarrow> hi_disc_velocity hi ! v | None \<Rightarrow> 0),
          tf_player_position = hi_position hi ! i,
          tf_disc_missing = (vi = None \<or> (case di of Some d \<Rightarrow> dc_missing (discs ! d) | None \<Rightarrow> True))\<rparr>)"

definition build_pre_release_snapshots :: "feature_extractor \<Rightarrow> tracked \<Rightarrow> telemetry_frame \<Rightarrow> string \<Rightarrow> throw_snapshot list" where
  "build_pre_release_snapshots fe ps f throwing =
     (let m = ps_motion ps; n = length (hi_position (mo_histories m)); k = min pre_release_snapshot_count n;
          (hands, rots) = (if throwing = ''right'' then (h_history (mo_right m), h_rot_history (mo_right m))
            else if throwing = ''left'' then (h_history (mo_left m), h_rot_history (mo_left m)) else ([], []));
          discs = gz [] (fe_disc_history fe) (ps_player_id ps)
      in map (snapshot_at fe ps f hands rots discs) [n - k..<n])"

definition throw_hand_anchor :: "feature_extractor \<Rightarrow> string \<Rightarrow> vec3 \<Rightarrow> vec3 \<times> string \<times> f64" where
  "throw_hand_anchor fe i release_pos =
     (let hist = gz [] (fe_disc_history fe) i in
      if hist \<noteq> [] \<and> \<not> dc_missing (last hist) then (dc_pos (last hist), ''previous_held_disc'', Fin 1)
      else (release_pos, ''current_free_disc'', Fin (1/2)))"

definition select_throwing_hand :: "vec3 \<Rightarrow> vec3 \<Rightarrow> vec3 \<Rightarrow> f64 \<Rightarrow> string \<times> vec3 \<times> f64 \<times> f64" where
  "select_throwing_hand left right anchor quality =
     (if v_is_zero left \<or> v_is_zero right then (''unknown'', 0, Fin 0, Fin 0)
      else let dl = v_distance left anchor; dr = v_distance right anchor; m = fmax dl dr;
               conf = (if flt (Fin 0) m then fdiv (fabs (fsub dl dr)) m else Fin 0);
               conf = clamp01 (fmul conf quality)
           in if flt dl dr then (''left'', left, dl, conf) else (''right'', right, dr, conf))"

definition nearest_tracked_hand_distance :: "vec3 \<Rightarrow> vec3 \<Rightarrow> vec3 \<Rightarrow> f64" where
  "nearest_tracked_hand_distance point left right =
     (let d = (if v_is_zero left then Fin (- 1) else v_distance point left) in
      if v_is_zero right then d
      else let dr = v_distance point right in if flt d (Fin 0) \<or> flt dr d then dr else d)"

text \<open>The client's own throw report, kept when it is bound to this sample.\<close>

definition bound_game_throw :: "tracked \<Rightarrow> telemetry_frame \<Rightarrow> game_throw_details option" where
  "bound_game_throw ps f = (case fr_game_last_throw f of None \<Rightarrow> None
     | Some g \<Rightarrow>
         if gt_valid g \<and> bound_local_throw (fr_throw_provenance f) (ps_player_id ps) (fr_frame_index f) (fr_timestamp f) \<and>
            (case fr_observation f of None \<Rightarrow> False
             | Some c \<Rightarrow> oc_frame_index c = fr_frame_index f \<and> feq (oc_timestamp c) (fr_timestamp f)) \<and>
            same_source (fr_observation f) (fr_throw_provenance f)
         then Some g else None)"

text \<open>The throwing hand: geometry against the anchor, unless the reported attachment names the hand.\<close>

definition throwing_hand :: "feature_extractor \<Rightarrow> tracked \<Rightarrow> motion \<Rightarrow> disc_attachment option \<Rightarrow> vec3 \<Rightarrow> string \<times> vec3 \<times> f64 \<times> f64 \<times> string" where
  "throwing_hand fe ps old attachment release_pos =
     (let (anchor, anchor_name, quality) = throw_hand_anchor fe (ps_player_id ps) release_pos;
          (hand, pos, dist, conf) = select_throwing_hand (h_position (mo_left old)) (h_position (mo_right old)) anchor quality
      in case attachment of None \<Rightarrow> (hand, pos, dist, conf, anchor_name)
        | Some a \<Rightarrow>
            if da_known (Some a) \<and> length (da_hand_candidates a) = 1 then
              let hand = hd (da_hand_candidates a);
                  pos = (if hand = ''right'' then h_position (mo_right old) else h_position (mo_left old))
              in if v_is_zero pos then (''unknown'', pos, dist, Fin 0, anchor_name)
                 else (hand, pos, v_distance pos anchor, Fin 1, ''reported_attachment_hand'')
            else (hand, pos, dist, conf, anchor_name))"

definition detect_throw :: "(f64 \<Rightarrow> f64) \<Rightarrow> feature_extractor \<Rightarrow> tracked \<Rightarrow> telemetry_frame \<Rightarrow> match_context \<Rightarrow> motion \<Rightarrow> throw_event option" where
  "detect_throw acos fe ps f mc old =
     (case fr_disc f of None \<Rightarrow> None
      | Some disc \<Rightarrow>
        let m = ps_motion ps; kn = mo_kinematics m;
            vel = ds_velocity disc; pos = ds_position disc;
            speed = (if fle (ds_speed disc) (Fin 0) then v_magnitude vel else ds_speed disc);
            game = bound_game_throw ps f
        in if is_nan speed \<or> is_inf speed \<or> fle speed (Fin 0) \<or> v_has_nan vel \<or> v_has_inf vel then None
        else
          let (hand, hand_pos, hand_dist, conf, anchor_name) = throwing_hand fe ps old (th_disc_attachment (mo_throws old)) pos;
              release_hand_dist = nearest_tracked_hand_distance pos (fr_left_hand f) (fr_right_hand f);
              head_of = (\<lambda>k. case kn_head_position k of Some h \<Rightarrow> h | None \<Rightarrow> kn_position k);
              head_dist = v_distance pos (head_of kn);
              prev_head = head_of (mo_kinematics old);
              head_dist = (if v_is_zero prev_head then head_dist else fmin head_dist (v_distance pos prev_head));
              contact = (fle head_dist head_contact_distance \<and> fle (Fin 0) release_hand_dist \<and>
                flt (fadd head_dist head_contact_closer_margin) release_hand_dist);
              (h, h_old, tracked_now) = (if hand = ''left'' then (mo_left m, mo_left old, \<not> v_is_zero (fr_left_hand f))
                else if hand = ''right'' then (mo_right m, mo_right old, \<not> v_is_zero (fr_right_hand f))
                else (no_hand, no_hand, False));
              anchor_name = (if hand = ''left'' \<or> hand = ''right'' then anchor_name else ''none'');
              angle = (if flt (flit (1/10)) (h_speed h) \<and> flt (flit (1/10)) speed
                then rad_to_deg (v_angle_between acos (h_velocity h) vel) else Fin 0);
              held = fsub (fr_timestamp f) (th_possession_start_time (mo_throws m));
              held = (if flt held (Fin 0) then Fin 0 else held);
              goal = choose_goal acos ps mc pos vel fe;
              (dev, target) = (case goal of None \<Rightarrow> (Fin 0, None)
                | Some (g, _) \<Rightarrow>
                    let to_goal = v_sub g pos in
                    if flt (flit (1/10)) speed \<and> flt (flit (1/10)) (v_magnitude to_goal) then
                      let dev = rad_to_deg (v_angle_between acos vel to_goal)
                      in (dev, if flt dev goal_directed_max_deviation then Some g else None)
                    else (Fin 0, None))
          in Some \<lparr>te_observed_frame_index = None, te_release_window = None, te_thrower_id = ps_player_id ps,
               te_attribution = \<lparr>ta_player_id = ps_player_id ps, ta_confidence = flit (9/10),
                 ta_method = (if game = None then ''possession_track'' else ''client_last_throw''), ta_lookback_depth = 1\<rparr>,
               te_frame_index = fr_frame_index f, te_timestamp = fr_timestamp f,
               te_release = \<lparr>te_release_position = pos, te_release_velocity = vel, te_release_speed = speed,
                 te_sampled_disc_speed = speed, te_game_last_throw = game,
                 te_game_last_throw_provenance = (if game = None then None else fr_throw_provenance f),
                 te_player_position = kn_position kn, te_player_velocity = kn_velocity kn,
                 te_release_hand_to_disc_distance = release_hand_dist, te_head_to_disc_distance = head_dist,
                 te_possible_head_contact = contact, te_release_angle = angle, te_possession_duration = held\<rparr>,
               te_hand = \<lparr>te_throwing_hand = hand, te_hand_position = hand_pos, te_hand_velocity = h_velocity h,
                 te_hand_speed = h_speed h, te_hand_relative_velocity = h_relative_velocity h,
                 te_hand_relative_speed = h_relative_speed h, te_hand_tracked = (hand \<noteq> ''unknown''),
                 te_hand_kinematics_valid = tracked_now, te_hand_attribution_confidence = conf,
                 te_hand_attribution_anchor = anchor_name, te_hand_to_disc_distance = hand_dist\<rparr>,
               te_wrist = \<lparr>te_wrist_orientation = h_rot h_old, te_wrist_angular_velocity = h_wrist_rate h,
                 te_wrist_orientation_valid = h_rot_valid h_old, te_wrist_kinematics_valid = h_wrist_rate_valid h\<rparr>,
               te_goal = \<lparr>te_goal_position = (case goal of None \<Rightarrow> 0 | Some (g, _) \<Rightarrow> g),
                 te_goal_selection = (case goal of None \<Rightarrow> [] | Some (_, how) \<Rightarrow> how), te_target_position = target, te_target_deviation = dev\<rparr>,
               te_pre_release_frames = build_pre_release_snapshots fe ps f hand\<rparr>)"

section \<open>The time step\<close>

record timing =
  tm_raw_dt :: f64
  tm_first :: bool
  tm_continuous :: bool
  tm_dt_known :: bool
  tm_large_gap :: bool
  tm_dt :: f64

definition time_step :: "feature_extractor \<Rightarrow> tracked \<Rightarrow> telemetry_frame \<Rightarrow> timing" where
  "time_step fe old f =
     (let max_dt = max_frame_dt_seconds fe; raw = fsub (fr_timestamp f) (ps_last_timestamp old); first = (ps_frame_count old = 0);
          cont = same_observation_source (ps_observation old) (fr_observation f);
          known = (\<not> first \<and> cont \<and> flt (Fin 0) raw \<and> \<not> is_nan raw \<and> \<not> is_inf raw)
      in \<lparr>tm_raw_dt = raw, tm_first = first, tm_continuous = cont, tm_dt_known = known, tm_large_gap = (known \<and> flt max_dt raw),
          tm_dt = (if known then clamp raw min_frame_dt max_dt else Fin 0)\<rparr>)"

section \<open>Raw state\<close>

definition raw_hand :: "vec3 \<Rightarrow> quat \<Rightarrow> bool option \<Rightarrow> hand \<Rightarrow> hand" where
  "raw_hand pos q observed h = (let (r, ok) = observed_hand_rotation q observed in
     h\<lparr>h_position := pos, h_rot := r, h_rot_valid := ok, h_wrist_rate_valid := False\<rparr>)"

definition raw_motion :: "feature_extractor \<Rightarrow> telemetry_frame \<Rightarrow> f64 \<Rightarrow> motion \<Rightarrow> motion" where
  "raw_motion fe f dt m = m\<lparr>
     mo_kinematics := (mo_kinematics m)\<lparr>kn_position := fr_position f,
       kn_head_position := (case fr_head_position f of None \<Rightarrow> None
         | Some h \<Rightarrow> if v_is_zero h \<or> v_has_nan h \<or> v_has_inf h then None else Some h),
       kn_has_reported_velocity := fr_reported_velocity f \<noteq> None,
       kn_reported_velocity := (case fr_reported_velocity f of None \<Rightarrow> 0 | Some v \<Rightarrow> v), kn_frame_dt := dt\<rparr>,
     mo_left := raw_hand (fr_left_hand f) (fr_left_rotation f) (fr_left_rotation_valid f) (mo_left m),
     mo_right := raw_hand (fr_right_hand f) (fr_right_rotation f) (fr_right_rotation_valid f) (mo_right m),
     mo_throws := (mo_throws m)\<lparr>th_disc_attachment := observed_attachment f, th_held_items := fr_held_items f,
       th_has_disc := fr_has_possession f\<rparr>,
     mo_status := (mo_status m)\<lparr>st_is_boosting_known := fr_is_boosting_known f = Some True, st_is_stunned := fr_is_stunned f,
       st_is_boosting := fr_is_boosting f, st_shield_active := fr_shield_active f, st_is_immune := fr_is_immune f,
       st_ping_ms := fr_ping_ms f, st_is_high_ping := flt (fe_high_ping fe) (fr_ping_ms f)\<rparr>,
     mo_scores := \<lparr>sr_blue = fr_blue_score f, sr_orange = fr_orange_score f, sr_goals = fr_goals f, sr_stuns = fr_stuns f\<rparr>\<rparr>"

definition raw_state :: "feature_extractor \<Rightarrow> telemetry_frame \<Rightarrow> timing \<Rightarrow> tracked \<Rightarrow> tracked" where
  "raw_state fe f tm ps =
     (let m = raw_motion fe f (tm_dt tm) (ps_motion ps);
          m = (if \<not> tm_first tm \<and> \<not> tm_continuous tm then clear_source_history m else m)
      in ps\<lparr>ps_rotation := fr_rotation f, ps_observation := fr_observation f, ps_current_disc := fr_disc f,
            ps_last_frame_idx := fr_frame_index f, ps_last_timestamp := fr_timestamp f,
            ps_team := (if ps_team ps = [] \<and> fr_team f \<noteq> [] then fr_team f else ps_team ps), ps_motion := m\<rparr>)"

section \<open>Kinematics\<close>

definition position_jump :: "telemetry_frame \<Rightarrow> match_context \<Rightarrow> timing \<Rightarrow> vec3 \<Rightarrow> bool" where
  "position_jump f mc tm prev_pos \<longleftrightarrow> tm_dt_known tm \<and> \<not> v_is_zero prev_pos \<and>
     flt (fmul (max_player_speed (mc_physics mc)) (Fin 2)) (fdiv (v_magnitude (v_sub (fr_position f) prev_pos)) (tm_dt tm))"

definition kinematics_valid :: "telemetry_frame \<Rightarrow> match_context \<Rightarrow> timing \<Rightarrow> vec3 \<Rightarrow> bool" where
  "kinematics_valid f mc tm prev_pos \<longleftrightarrow> tm_dt_known tm \<and> \<not> v_is_zero prev_pos \<and> \<not> tm_large_gap tm \<and>
     \<not> (position_jump f mc tm prev_pos \<and> fr_is_immune f)"

definition move_hand :: "(f64 \<Rightarrow> f64) \<Rightarrow> f64 \<Rightarrow> vec3 \<Rightarrow> hand \<Rightarrow> hand \<Rightarrow> hand" where
  "move_hand acos dt body_velocity old h =
     (let h = (if \<not> v_is_zero (h_position old) \<and> \<not> v_is_zero (h_position h) then
                 let v = v_scale (v_sub (h_position h) (h_position old)) (fdiv (Fin 1) dt); rel = v_sub v body_velocity
                 in h\<lparr>h_velocity := v, h_speed := v_magnitude v, h_relative_velocity := rel, h_relative_speed := v_magnitude rel\<rparr>
               else h\<lparr>h_velocity := 0, h_speed := Fin 0, h_relative_velocity := 0, h_relative_speed := Fin 0\<rparr>);
          rate = (if h_rot_valid old \<and> h_rot_valid h then fdiv (angular_distance acos (h_rot old) (h_rot h)) dt else Fin 0);
          ok = (h_rot_valid old \<and> h_rot_valid h \<and> \<not> is_nan rate \<and> \<not> is_inf rate)
      in h\<lparr>h_wrist_rate := (if ok then rate else Fin 0), h_wrist_rate_valid := ok,
           h_speed_stats := welford_update (h_relative_speed h) (h_speed_stats h)\<rparr>)"

definition still_hand :: "bool \<Rightarrow> hand \<Rightarrow> hand" where
  "still_hand first h =
     (let h = h\<lparr>h_velocity := 0, h_speed := Fin 0, h_relative_velocity := 0, h_relative_speed := Fin 0, h_wrist_rate := Fin 0\<rparr>
      in if first then h else h\<lparr>h_rot_valid := False, h_rot := 0\<rparr>)"

definition move :: "(f64 \<Rightarrow> f64) \<Rightarrow> f64 \<Rightarrow> motion \<Rightarrow> motion \<Rightarrow> motion" where
  "move acos dt old m =
     (let kn = mo_kinematics m; k0 = mo_kinematics old;
          v = v_scale (v_sub (kn_position kn) (kn_position k0)) (fdiv (Fin 1) dt);
          a = v_scale (v_sub v (kn_velocity k0)) (fdiv (Fin 1) dt)
      in m\<lparr>mo_kinematics := kn\<lparr>kn_velocity := v, kn_speed := v_magnitude v, kn_acceleration := a, kn_acceleration_magnitude := v_magnitude a,
             kn_speed_stats := welford_update (v_magnitude v) (kn_speed_stats kn)\<rparr>,
           mo_left := move_hand acos dt v (mo_left old) (mo_left m), mo_right := move_hand acos dt v (mo_right old) (mo_right m)\<rparr>)"

definition hold_still :: "bool \<Rightarrow> motion \<Rightarrow> motion" where
  "hold_still first m = m\<lparr>mo_kinematics := (mo_kinematics m)\<lparr>kn_velocity := 0, kn_speed := Fin 0, kn_acceleration := 0, kn_acceleration_magnitude := Fin 0\<rparr>,
     mo_left := still_hand first (mo_left m), mo_right := still_hand first (mo_right m)\<rparr>"

definition movement_origin :: "f64 \<Rightarrow> f64 \<Rightarrow> string" where
  "movement_origin physical game =
     (let p = fle (Fin (1/4)) physical; g = fle (Fin (1/4)) game in
      if p \<and> g then ''mixed'' else if p then ''playspace_step'' else if g then ''game_velocity'' else ''stationary'')"

definition track_playspace :: "f64 \<Rightarrow> motion \<Rightarrow> motion \<Rightarrow> motion" where
  "track_playspace dt old m =
     (let kn = mo_kinematics m; pos = kn_position kn; reported = kn_reported_velocity kn; delta = v_scale reported dt;
          anchor = v_add (py_anchor (mo_playspace old)) delta;
          offset = v_sub pos anchor; d = v_magnitude offset;
          anchor = (if flt (Fin 0) d then v_add anchor (v_scale (v_normalized offset) (fmin d (fmul playspace_recentering dt))) else anchor);
          offset = v_sub pos anchor; v = v_sub (kn_velocity kn) reported;
          (rig, hands) = playspace_rig_coherence (v_sub (v_sub pos (kn_position (mo_kinematics old))) delta)
            (h_position (mo_left old)) (h_position (mo_left m)) (h_position (mo_right old)) (h_position (mo_right m)) delta
      in m\<lparr>mo_playspace := \<lparr>py_anchor = anchor, py_offset = offset, py_distance = v_magnitude offset, py_velocity = v, py_speed = v_magnitude v,
             py_rig_coherence = rig, py_tracked_hands = hands, py_valid = True,
             py_movement_origin = movement_origin (v_magnitude v) (v_magnitude reported)\<rparr>\<rparr>)"

definition kinematic_step :: "(f64 \<Rightarrow> f64) \<Rightarrow> telemetry_frame \<Rightarrow> match_context \<Rightarrow> timing \<Rightarrow> motion \<Rightarrow> motion \<Rightarrow> motion" where
  "kinematic_step acos f mc tm old m =
     (let valid = kinematics_valid f mc tm (kn_position (mo_kinematics old));
          m = (if valid then move acos (tm_dt tm) old m else hold_still (tm_first tm) m)
      in if valid \<and> kn_has_reported_velocity (mo_kinematics m) \<and> flt (tm_raw_dt tm) playspace_max_dt \<and> mc_is_active_phase mc (fr_game_phase f)
         then track_playspace (tm_dt tm) old m
         else m\<lparr>mo_playspace := no_playspace (fr_position f)\<rparr>)"

section \<open>Releases\<close>

definition continuous_release :: "tracked \<Rightarrow> telemetry_frame \<Rightarrow> timing \<Rightarrow> bool" where
  "continuous_release old f tm \<longleftrightarrow> \<not> tm_first tm \<and> tm_dt_known tm \<and> \<not> tm_large_gap tm \<and>
     fr_frame_index f = ps_last_frame_idx old + 1 \<and> tm_continuous tm"

definition release_window :: "tracked \<Rightarrow> telemetry_frame \<Rightarrow> release_observation" where
  "release_window old f =
     (let k0 = mo_kinematics (ps_motion old) in
      \<lparr>ro_player_id = ps_player_id old, ro_first_free_frame = fr_frame_index f, ro_start_frame = ps_last_frame_idx old,
       ro_end_frame = fr_frame_index f, ro_start_time = ps_last_timestamp old, ro_end_time = fr_timestamp f, ro_source = fr_observation f,
       ro_hand_candidates = (case th_disc_attachment (mo_throws (ps_motion old)) of None \<Rightarrow> [] | Some a \<Rightarrow> da_hand_candidates a),
       ro_player_movement =
         [\<lparr>mv_frame_index = ps_last_frame_idx old, mv_timestamp = ps_last_timestamp old, mv_position = kn_position k0,
           mv_reported_velocity = (if kn_has_reported_velocity k0 then Some (kn_reported_velocity k0) else None)\<rparr>,
          \<lparr>mv_frame_index = fr_frame_index f, mv_timestamp = fr_timestamp f, mv_position = fr_position f,
           mv_reported_velocity = fr_reported_velocity f\<rparr>]\<rparr>)"

definition immediate_reason :: "tracked \<Rightarrow> telemetry_frame \<Rightarrow> match_context \<Rightarrow> timing \<Rightarrow> string" where
  "immediate_reason old f mc tm =
     (if \<not> continuous_release old f tm then ''release_observation_gap''
      else if \<not> mc_is_active_phase mc (fr_game_phase f) then ''release_inactive_phase''
      else if st_is_stunned (mo_status (ps_motion old)) \<or> fr_is_stunned f then ''release_forced_drop''
      else if position_jump f mc tm (kn_position (mo_kinematics (ps_motion old))) \<and> flt (Fin 0) (max_player_speed (mc_physics mc))
      then ''release_player_discontinuity'' else [])"

definition open_release :: "(f64 \<Rightarrow> f64) \<Rightarrow> tracked \<Rightarrow> telemetry_frame \<Rightarrow> match_context \<Rightarrow> timing \<Rightarrow> tracked \<Rightarrow> feature_extractor \<Rightarrow> feature_extractor" where
  "open_release acos old f mc tm ps fe =
     (let i = ps_player_id old; th = mo_throws (ps_motion ps) in
      if da_held_by (th_disc_attachment (mo_throws (ps_motion old))) i \<and> da_free (th_disc_attachment th) \<and> tm_continuous tm
      then
        let window = release_window old f; reason = immediate_reason old f mc tm;
            long = (2 \<le> fr_frame_index f - th_possession_start_frame th);
            event = (if long \<and> reason = []
              then map_option (\<lambda>e. e\<lparr>te_release_window := Some window\<rparr>) (detect_throw acos fe ps f mc (ps_motion old)) else None);
            pending = \<lparr>pr_event = event, pr_observation = window,
              pr_unavailable_reason = (if long then ''release_motion_unavailable'' else ''release_attachment_history_short'')\<rparr>
        in if reason \<noteq> [] then fe
           else if int (length (fe_pending fe)) < max_tracked_disc_histories
           then fe\<lparr>fe_pending := AList.update i pending (fe_pending fe)\<rparr> else fe
      else fe)"

section \<open>Histories\<close>

definition push_disc_history :: "string \<Rightarrow> disc_state option \<Rightarrow> int \<Rightarrow> feature_extractor \<Rightarrow> feature_extractor" where
  "push_disc_history i disc f fe =
     (let sample = (case disc of None \<Rightarrow> \<lparr>dc_pos = 0, dc_missing = True, dc_frame_idx = f\<rparr>
            | Some d \<Rightarrow> \<lparr>dc_pos = ds_position d, dc_missing = False, dc_frame_idx = f\<rparr>);
          m = fe_disc_history fe;
          m = (if map_of m i = None \<and> max_tracked_disc_histories \<le> int (length m) then [] else m)
      in fe\<lparr>fe_disc_history := AList.update i (push (fe_window fe) sample (gz [] m i)) m\<rparr>)"

definition push_histories :: "int \<Rightarrow> telemetry_frame \<Rightarrow> motion \<Rightarrow> motion" where
  "push_histories w f m =
     (let kn = mo_kinematics m; hi = mo_histories m;
          push_hand = (\<lambda>h. h\<lparr>h_history := push w (h_position h) (h_history h), h_rot_history := push w (h_rot h) (h_rot_history h)\<rparr>)
      in m\<lparr>mo_histories := \<lparr>hi_position = push w (kn_position kn) (hi_position hi), hi_velocity = push w (kn_velocity kn) (hi_velocity hi),
             hi_speed = push w (kn_speed kn) (hi_speed hi), hi_timestamp = push w (fr_timestamp f) (hi_timestamp hi),
             hi_disc_velocity = push w (case fr_disc f of None \<Rightarrow> 0 | Some d \<Rightarrow> ds_velocity d) (hi_disc_velocity hi)\<rparr>,
           mo_left := push_hand (mo_left m), mo_right := push_hand (mo_right m)\<rparr>)"

section \<open>State machines\<close>

definition track_possession :: "tracked \<Rightarrow> telemetry_frame \<Rightarrow> timing \<Rightarrow> throws \<Rightarrow> throws" where
  "track_possession old f tm th =
     (let i = ps_player_id old in
      if (\<not> da_held_by (th_disc_attachment (mo_throws (ps_motion old))) i \<or> \<not> tm_continuous tm) \<and> da_held_by (th_disc_attachment th) i
      then th\<lparr>th_possession_start_frame := fr_frame_index f, th_possession_start_time := fr_timestamp f\<rparr> else th)"

definition track_stun :: "status \<Rightarrow> telemetry_frame \<Rightarrow> status \<Rightarrow> status" where
  "track_stun old f s =
     (let s = (if \<not> st_is_stunned old \<and> st_is_stunned s then s\<lparr>st_stun_start_frame := fr_frame_index f, st_was_stunned := True\<rparr> else s)
      in if st_is_stunned old \<and> \<not> st_is_stunned s \<and> st_was_stunned s then s\<lparr>st_stun_recoveries := st_stun_recoveries s + 1\<rparr> else s)"

definition track_shield :: "status \<Rightarrow> telemetry_frame \<Rightarrow> status \<Rightarrow> status" where
  "track_shield old f s =
     (if st_shield_active s then
        let s = s\<lparr>st_consecutive_shield_frames := st_consecutive_shield_frames s + 1\<rparr>
        in if \<not> st_shield_active old then s\<lparr>st_shield_start_frame := fr_frame_index f\<rparr> else s
      else
        let s = (if st_shield_active old then s\<lparr>st_last_shield_off_frame := fr_frame_index f\<rparr> else s)
        in s\<lparr>st_consecutive_shield_frames := 0\<rparr>)"

definition track_immunity :: "match_context \<Rightarrow> telemetry_frame \<Rightarrow> status \<Rightarrow> status" where
  "track_immunity mc f s = (if mc_is_active_phase mc (fr_game_phase f) \<and> st_is_immune s
     then s\<lparr>st_invulnerable_frames := st_invulnerable_frames s + 1\<rparr> else s)"

definition track_boost :: "status \<Rightarrow> telemetry_frame \<Rightarrow> bool \<Rightarrow> status \<Rightarrow> status" where
  "track_boost old f unbroken s =
     (if \<not> st_is_boosting_known s \<or> \<not> st_is_boosting_known old \<or> \<not> unbroken
      then s\<lparr>st_boost_timestamps := [], st_last_boost_frame := - 1\<rparr>
      else if st_is_boosting s \<and> \<not> st_is_boosting old
      then s\<lparr>st_boost_timestamps := push 100 (fr_timestamp f) (st_boost_timestamps s), st_last_boost_frame := fr_frame_index f\<rparr>
      else s)"

section \<open>One frame\<close>

text \<open>The sample is ignored when the player's clock does not advance.\<close>

definition rejected_sample :: "tracked \<Rightarrow> telemetry_frame \<Rightarrow> bool" where
  "rejected_sample ps f \<longleftrightarrow> 0 < ps_frame_count ps \<and> (fr_frame_index f \<le> ps_last_frame_idx ps \<or> fle (fr_timestamp f) (ps_last_timestamp ps))"

definition enter_frame :: "tracked \<Rightarrow> timing \<Rightarrow> feature_extractor \<Rightarrow> feature_extractor" where
  "enter_frame old tm fe =
     (let i = ps_player_id old in
      if tm_first tm \<or> \<not> tm_continuous tm then reject_release i (forget_disc i fe) else fe)"

definition observe_frame :: "(f64 \<Rightarrow> f64) \<Rightarrow> tracked \<Rightarrow> telemetry_frame \<Rightarrow> match_context \<Rightarrow> timing \<Rightarrow> feature_extractor \<Rightarrow> tracked" where
  "observe_frame acos old f mc tm fe =
     (let ps = raw_state fe f tm old in ps\<lparr>ps_motion := kinematic_step acos f mc tm (ps_motion old) (ps_motion ps)\<rparr>)"

definition release_step :: "(f64 \<Rightarrow> f64) \<Rightarrow> tracked \<Rightarrow> telemetry_frame \<Rightarrow> match_context \<Rightarrow> timing \<Rightarrow> tracked \<times> feature_extractor \<Rightarrow> tracked \<times> feature_extractor" where
  "release_step acos old f mc tm = (\<lambda>(ps, fe).
     let i = ps_player_id old;
         (th, fe) = confirm_release f (continuous_release old f tm) (mc_is_active_phase mc (fr_game_phase f)) i (mo_throws (ps_motion ps), fe);
         ps = ps\<lparr>ps_motion := (ps_motion ps)\<lparr>mo_throws := th\<rparr>\<rparr>;
         fe = (if tm_continuous tm then fe else forget_disc i fe)
     in (ps, open_release acos old f mc tm ps fe))"

definition track_status :: "tracked \<Rightarrow> telemetry_frame \<Rightarrow> match_context \<Rightarrow> timing \<Rightarrow> motion \<Rightarrow> motion" where
  "track_status old f mc tm m =
     (let s0 = mo_status (ps_motion old);
          st = track_immunity mc f (track_shield s0 f (track_stun s0 f (mo_status m)))
      in m\<lparr>mo_throws := track_possession old f tm (mo_throws m), mo_status := track_boost s0 f (continuous_release old f tm) st\<rparr>)"

definition update_player_state :: "(f64 \<Rightarrow> f64) \<Rightarrow> tracked \<Rightarrow> telemetry_frame \<Rightarrow> match_context \<Rightarrow> feature_extractor \<Rightarrow> tracked \<times> feature_extractor" where
  "update_player_state acos old f mc fe0 =
     (if rejected_sample old f then (old, fe0)
      else
        let m0 = ps_motion old; tm = time_step fe0 old f;
            fe = enter_frame old tm fe0;
            ps = observe_frame acos old f mc tm fe;
            fe = (if tm_first tm then fe else learn_goal_sides f mc (sr_blue (mo_scores m0)) (sr_orange (mo_scores m0)) fe);
            (ps, fe) = release_step acos old f mc tm (ps, fe);
            m = track_status old f mc tm (push_histories (fe_window fe) f (ps_motion ps));
            fe = push_disc_history (ps_player_id old) (fr_disc f) (fr_frame_index f) fe;
            legal = build_legal_motion_context m f (kn_reported_velocity (mo_kinematics m0)) (tm_dt_known tm) (tm_raw_dt tm)
        in (ps\<lparr>ps_motion := m, ps_legal_context := legal, ps_frame_count := ps_frame_count ps + 1\<rparr>, fe))"

end
