(* ===== verification/Extractor_Facts.thy ===== *)
theory Extractor_Facts
  imports Extractor Pipeline
begin

text \<open>
  Facts about the feature extractor over any interleaving of the players' frames: \<open>fe_step\<close> is one
  update of one of the players that share an extractor. The windows stay aligned and bounded and
  their time stamps increase; a throw is only ever published one frame after it was opened, with a
  measured release and snapshots from before it.
\<close>

section \<open>What the steps change\<close>

definition disc_of :: "feature_extractor \<Rightarrow> string \<Rightarrow> disc_sample list" where
  "disc_of fe i = gz [] (fe_disc_history fe) i"

definition pending_of :: "feature_extractor \<Rightarrow> string \<Rightarrow> pending_release option" where
  "pending_of fe i = map_of (fe_pending fe) i"

lemma gz_delete: "gz z (AList.delete k m) j = (if j = k then z else gz z m j)"
  by (simp add: gz_def delete_conv')

lemma fe_views [simp]:
  "disc_of (reject_release i fe) j = disc_of fe j" "pending_of (reject_release i fe) j = (if j = i then None else pending_of fe j)"
  "disc_of (forget_disc i fe) j = (if j = i then [] else disc_of fe j)" "pending_of (forget_disc i fe) j = pending_of fe j"
  "fe_window (reject_release i fe) = fe_window fe" "fe_window (forget_disc i fe) = fe_window fe"
  by (simp_all add: disc_of_def pending_of_def reject_release_def forget_disc_def gz_delete delete_conv')

lemma learn_views [simp]:
  "disc_of (learn_goal_sides f mc a b fe) j = disc_of fe j" "pending_of (learn_goal_sides f mc a b fe) j = pending_of fe j"
  "fe_window (learn_goal_sides f mc a b fe) = fe_window fe"
  by (auto simp: learn_goal_sides_def Let_def disc_of_def pending_of_def split: option.split)

lemma enter_views [simp]:
  "disc_of (enter_frame o' tm fe) j = (if j = ps_player_id o' \<and> (tm_first tm \<or> \<not> tm_continuous tm) then [] else disc_of fe j)"
  "pending_of (enter_frame o' tm fe) j = (if j = ps_player_id o' \<and> (tm_first tm \<or> \<not> tm_continuous tm) then None else pending_of fe j)"
  "fe_window (enter_frame o' tm fe) = fe_window fe"
  by (auto simp: enter_frame_def Let_def)

lemma confirm_views [simp]:
  "disc_of (snd (confirm_release f u a i (th, fe))) j = disc_of fe j"
  "pending_of (snd (confirm_release f u a i (th, fe))) j = (if j = i then None else pending_of fe j)"
  "fe_window (snd (confirm_release f u a i (th, fe))) = fe_window fe"
  by (auto simp: confirm_release_def Let_def pending_of_def reject_release_def disc_of_def delete_conv' split: option.split)

lemma open_views [simp]:
  "disc_of (open_release acos old f mc tm ps fe) j = disc_of fe j"
  "j \<noteq> ps_player_id old \<Longrightarrow> pending_of (open_release acos old f mc tm ps fe) j = pending_of fe j"
  "fe_window (open_release acos old f mc tm ps fe) = fe_window fe"
  by (auto simp: open_release_def Let_def disc_of_def pending_of_def update_conv')

lemma push_disc_views:
  "pending_of (push_disc_history i d f fe) j = pending_of fe j" "fe_window (push_disc_history i d f fe) = fe_window fe"
  "j \<noteq> i \<Longrightarrow> disc_of (push_disc_history i d f fe) j = disc_of fe j \<or> disc_of (push_disc_history i d f fe) j = []"
  "\<exists>s. dc_frame_idx s = f \<and> (disc_of (push_disc_history i d f fe) i = push (fe_window fe) s (disc_of fe i))"
proof -
  have gone: "map_of m i = None \<Longrightarrow> gz [] m i = []" for m :: "(string, disc_sample list) gomap" by (simp add: gz_def)
  show "\<exists>s. dc_frame_idx s = f \<and> (disc_of (push_disc_history i d f fe) i = push (fe_window fe) s (disc_of fe i))"
    by (rule exI [of _ "case d of None \<Rightarrow> \<lparr>dc_pos = 0, dc_missing = True, dc_frame_idx = f\<rparr>
            | Some d \<Rightarrow> \<lparr>dc_pos = ds_position d, dc_missing = False, dc_frame_idx = f\<rparr>"])
      (auto simp: push_disc_history_def Let_def disc_of_def gone split: option.split)
qed (auto simp: push_disc_history_def Let_def pending_of_def disc_of_def split: option.split)

section \<open>Windows\<close>

definition lengths :: "motion \<Rightarrow> nat list" where
  "lengths m = (let hi = mo_histories m in
     [length (hi_position hi), length (hi_velocity hi), length (hi_speed hi), length (hi_timestamp hi), length (hi_disc_velocity hi),
      length (h_history (mo_left m)), length (h_rot_history (mo_left m)), length (h_history (mo_right m)), length (h_rot_history (mo_right m))])"

definition windows_of :: "motion \<Rightarrow> nat list \<times> f64 list" where
  "windows_of m = (lengths m, hi_timestamp (mo_histories m))"

lemma windows_raw [simp]: "windows_of (raw_motion fe f dt m) = windows_of m"
  by (simp add: windows_of_def lengths_def raw_motion_def raw_hand_def Let_def split_def)

lemma windows_clear [simp]: "windows_of (clear_source_history m) = (replicate 9 0, [])"
  by (simp add: windows_of_def lengths_def clear_source_history_def no_histories_def numeral_eq_Suc)

lemma windows_hands:
  "h_history (move_hand acos dt v o' h) = h_history h" "h_rot_history (move_hand acos dt v o' h) = h_rot_history h"
  "h_history (still_hand b h) = h_history h" "h_rot_history (still_hand b h) = h_rot_history h"
  by (simp_all add: move_hand_def still_hand_def Let_def)

lemma windows_kinematic [simp]: "windows_of (kinematic_step acos f mc tm o' m) = windows_of m"
  by (simp add: windows_of_def lengths_def kinematic_step_def move_def hold_still_def track_playspace_def Let_def split_def windows_hands)

lemma windows_throws [simp]: "windows_of (m\<lparr>mo_throws := th\<rparr>) = windows_of m" "windows_of (m\<lparr>mo_throws := th, mo_status := st\<rparr>) = windows_of m"
  by (simp_all add: windows_of_def lengths_def)

lemma windows_push:
  assumes "fst (windows_of m) = replicate 9 n" "0 < w"
  shows "windows_of (push_histories w f m) =
    (replicate 9 (if int n < w then n + 1 else nat w), push w (fr_timestamp f) (snd (windows_of m)))"
  using assms
  by (auto simp: windows_of_def lengths_def push_histories_def Let_def length_push numeral_eq_Suc)

lemma observe_frame_simps:
  "ps_player_id (observe_frame acos old f mc tm fe) = ps_player_id old" "ps_frame_count (observe_frame acos old f mc tm fe) = ps_frame_count old"
  "ps_last_timestamp (observe_frame acos old f mc tm fe) = fr_timestamp f" "ps_last_frame_idx (observe_frame acos old f mc tm fe) = fr_frame_index f"
  "windows_of (ps_motion (observe_frame acos old f mc tm fe)) = (if \<not> tm_first tm \<and> \<not> tm_continuous tm then (replicate 9 0, []) else windows_of (ps_motion old))"
  by (simp_all add: observe_frame_def raw_state_def Let_def)

lemma release_step_simps:
  "ps_player_id (fst (release_step acos old f mc tm (ps, fe))) = ps_player_id ps"
  "ps_frame_count (fst (release_step acos old f mc tm (ps, fe))) = ps_frame_count ps"
  "ps_last_timestamp (fst (release_step acos old f mc tm (ps, fe))) = ps_last_timestamp ps"
  "ps_last_frame_idx (fst (release_step acos old f mc tm (ps, fe))) = ps_last_frame_idx ps"
  "windows_of (ps_motion (fst (release_step acos old f mc tm (ps, fe)))) = windows_of (ps_motion ps)"
  "fe_window (snd (release_step acos old f mc tm (ps, fe))) = fe_window fe"
  "disc_of (snd (release_step acos old f mc tm (ps, fe))) j = (if j = ps_player_id old \<and> \<not> tm_continuous tm then [] else disc_of fe j)"
  "j \<noteq> ps_player_id old \<Longrightarrow> pending_of (snd (release_step acos old f mc tm (ps, fe))) j = pending_of fe j"
  by (simp_all add: release_step_def Let_def split_def)

lemma track_status_simps [simp]:
  "windows_of (track_status old f mc tm m) = windows_of m"
  "th_throw_history (mo_throws (track_status old f mc tm m)) = th_throw_history (mo_throws m)"
  by (simp_all add: track_status_def Let_def track_possession_def)

lemma update_simps:
  assumes "\<not> rejected_sample old f" and "update_player_state acos old f mc fe = (ps, fe')"
  shows "ps_player_id ps = ps_player_id old" "ps_frame_count ps = ps_frame_count old + 1"
    "ps_last_timestamp ps = fr_timestamp f" "ps_last_frame_idx ps = fr_frame_index f"
    "fe_window fe' = fe_window fe"
    "\<exists>m. windows_of (ps_motion ps) = windows_of (push_histories (fe_window fe) f m) \<and>
      windows_of m = (if ps_frame_count old \<noteq> 0 \<and> \<not> same_observation_source (ps_observation old) (fr_observation f)
        then (replicate 9 0, []) else windows_of (ps_motion old))"
    "\<exists>s. dc_frame_idx s = fr_frame_index f \<and> disc_of fe' (ps_player_id old) = push (fe_window fe) s
      (if ps_frame_count old = 0 \<or> \<not> same_observation_source (ps_observation old) (fr_observation f) then [] else disc_of fe (ps_player_id old))"
    "j \<noteq> ps_player_id old \<Longrightarrow> disc_of fe' j = disc_of fe j \<or> disc_of fe' j = []"
proof -
  note u = assms(2) [unfolded update_player_state_def if_not_P [OF assms(1)] Let_def split_def]
  show "ps_player_id ps = ps_player_id old" "ps_frame_count ps = ps_frame_count old + 1"
    "ps_last_timestamp ps = fr_timestamp f" "ps_last_frame_idx ps = fr_frame_index f"
    using u by (auto simp: observe_frame_simps release_step_simps)
  show "fe_window fe' = fe_window fe" using u by (auto simp: push_disc_views release_step_simps)
  show "\<exists>m. windows_of (ps_motion ps) = windows_of (push_histories (fe_window fe) f m) \<and>
      windows_of m = (if ps_frame_count old \<noteq> 0 \<and> \<not> same_observation_source (ps_observation old) (fr_observation f)
        then (replicate 9 0, []) else windows_of (ps_motion old))"
    using u by (force simp: observe_frame_simps release_step_simps time_step_def Let_def)
  have "\<exists>X. push_disc_history (ps_player_id old) (fr_disc f) (fr_frame_index f) X = fe' \<and> fe_window X = fe_window fe \<and>
    (\<forall>j. disc_of X j = (if j = ps_player_id old \<and> (ps_frame_count old = 0 \<or> \<not> same_observation_source (ps_observation old) (fr_observation f))
       then [] else disc_of fe j))"
    using u unfolding prod.inject
    by (elim conjE, intro exI conjI) (assumption, simp_all add: release_step_simps time_step_def Let_def)
  then obtain X where X: "fe' = push_disc_history (ps_player_id old) (fr_disc f) (fr_frame_index f) X" "fe_window X = fe_window fe"
    "disc_of X j = (if j = ps_player_id old \<and> (ps_frame_count old = 0 \<or> \<not> same_observation_source (ps_observation old) (fr_observation f))
       then [] else disc_of fe j)" for j
    by blast
  show "\<exists>s. dc_frame_idx s = fr_frame_index f \<and> disc_of fe' (ps_player_id old) = push (fe_window fe) s
      (if ps_frame_count old = 0 \<or> \<not> same_observation_source (ps_observation old) (fr_observation f) then [] else disc_of fe (ps_player_id old))"
    using push_disc_views(4) [of "fr_frame_index f" "ps_player_id old" "fr_disc f" X] by (simp add: X)
  show "j \<noteq> ps_player_id old \<Longrightarrow> disc_of fe' j = disc_of fe j \<or> disc_of fe' j = []"
    using push_disc_views(3) [of j "ps_player_id old" "fr_disc f" "fr_frame_index f" X] by (simp add: X)
qed

section \<open>The windows stay aligned\<close>

definition windows_ok :: "feature_extractor \<Rightarrow> tracked \<Rightarrow> bool" where
  "windows_ok fe ps \<longleftrightarrow> 0 < fe_window fe \<and> 0 \<le> ps_frame_count ps \<and> (ps_frame_count ps \<noteq> 0 \<longrightarrow> ps_last_timestamp ps \<noteq> NaN) \<and>
     (\<exists>n. fst (windows_of (ps_motion ps)) = replicate 9 n \<and> int n \<le> fe_window fe \<and>
       (if ps_frame_count ps = 0 then n = 0
        else length (disc_of fe (ps_player_id ps)) \<le> n \<and> (\<forall>s\<in>set (disc_of fe (ps_player_id ps)). dc_frame_idx s \<le> ps_last_frame_idx ps))) \<and>
     sorted_wrt flt (snd (windows_of (ps_motion ps))) \<and>
     (snd (windows_of (ps_motion ps)) \<noteq> [] \<longrightarrow> last (snd (windows_of (ps_motion ps))) = ps_last_timestamp ps)"

lemma length_stamps: "fst (windows_of m) = replicate 9 n \<Longrightarrow> length (snd (windows_of m)) = n"
  by (simp add: windows_of_def lengths_def Let_def numeral_eq_Suc)

lemma length_push_le: "0 < w \<Longrightarrow> length h \<le> n \<Longrightarrow> length (push w v h) \<le> (if int n < w then n + 1 else nat w)"
  by (auto simp: push_def Let_def)

lemma last_push: "0 < w \<Longrightarrow> last (push w v h) = v"
  by (auto simp: push_def Let_def)

lemma sorted_push:
  assumes "sorted_wrt flt ts" and "ts \<noteq> [] \<Longrightarrow> flt (last ts) t"
  shows "sorted_wrt flt (push w t ts)"
proof -
  have "flt x t" if "x \<in> set ts" for x
  proof -
    from that have ne: "ts \<noteq> []" by auto
    then obtain us where us: "ts = us @ [last ts]" by (metis append_butlast_last_id)
    from assms(1) that have "x = last ts \<or> flt x (last ts)" by (subst (asm) us, subst (asm) us) (auto simp: sorted_wrt_append)
    then show ?thesis using assms(2) [OF ne] by (auto intro: flt_fle_trans flt_imp_fle)
  qed
  then have S: "sorted_wrt flt (ts @ [t])" using assms(1) by (simp add: sorted_wrt_append)
  show ?thesis unfolding push_def Let_def using S sorted_wrt_drop [OF S] by (cases "w < int (length (ts @ [t]))") (simp_all only: if_True if_False)
qed

lemma windows_ok_update:
  assumes ok: "windows_ok fe old" and t: "fr_timestamp f \<noteq> NaN"
    and u: "update_player_state acos old f mc fe = (ps, fe')"
  shows "windows_ok fe' ps"
proof (cases "rejected_sample old f")
  case True
  with u ok show ?thesis by (simp add: update_player_state_def)
next
  case False
  note U = update_simps [OF False u]
  let ?first = "ps_frame_count old = 0" and ?cont = "same_observation_source (ps_observation old) (fr_observation f)"
  obtain m where m: "windows_of (ps_motion ps) = windows_of (push_histories (fe_window fe) f m)"
    "windows_of m = (if \<not> ?first \<and> \<not> ?cont then (replicate 9 0, []) else windows_of (ps_motion old))" using U(6) by blast
  obtain s where s: "dc_frame_idx s = fr_frame_index f" "disc_of fe' (ps_player_id old) = push (fe_window fe) s
    (if ?first \<or> \<not> ?cont then [] else disc_of fe (ps_player_id old))" using U(7) by blast
  obtain n where n: "fst (windows_of (ps_motion old)) = replicate 9 n" "int n \<le> fe_window fe"
    "if ?first then n = 0 else length (disc_of fe (ps_player_id old)) \<le> n \<and>
      (\<forall>s\<in>set (disc_of fe (ps_player_id old)). dc_frame_idx s \<le> ps_last_frame_idx old)"
    and w: "0 < fe_window fe" "0 \<le> ps_frame_count old" and srt: "sorted_wrt flt (snd (windows_of (ps_motion old)))"
    and lst: "snd (windows_of (ps_motion old)) \<noteq> [] \<longrightarrow> last (snd (windows_of (ps_motion old))) = ps_last_timestamp old"
    using ok by (auto simp: windows_ok_def)
  define k where "k = (if \<not> ?first \<and> \<not> ?cont then 0 else n)"
  define ts where "ts = (if \<not> ?first \<and> \<not> ?cont then [] else snd (windows_of (ps_motion old)))"
  have mk: "fst (windows_of m) = replicate 9 k" "snd (windows_of m) = ts" "int k \<le> fe_window fe"
    using m(2) n w by (auto simp: k_def ts_def)
  have W: "windows_of (ps_motion ps) = (replicate 9 (if int k < fe_window fe then k + 1 else nat (fe_window fe)), push (fe_window fe) (fr_timestamp f) ts)"
    using windows_push [OF mk(1) w(1)] by (simp add: m(1) mk(2))
  have adv: "flt (last ts) (fr_timestamp f)" if "ts \<noteq> []"
  proof -
    have "\<not> ?first" using that n length_stamps [OF n(1)] by (auto simp: ts_def split: if_splits)
    then have "\<not> fle (fr_timestamp f) (ps_last_timestamp old)" using False w(2) by (auto simp: rejected_sample_def)
    moreover have "last ts = ps_last_timestamp old" using that lst by (auto simp: ts_def split: if_splits)
    moreover have "ps_last_timestamp old \<noteq> NaN" using \<open>\<not> ?first\<close> ok by (simp add: windows_ok_def)
    ultimately show ?thesis using t by (simp add: not_fle)
  qed
  have "sorted_wrt flt ts" using srt by (simp add: ts_def)
  then have "sorted_wrt flt (push (fe_window fe) (fr_timestamp f) ts)" by (rule sorted_push) (rule adv)
  moreover have "length (disc_of fe' (ps_player_id old)) \<le> (if int k < fe_window fe then k + 1 else nat (fe_window fe))"
    unfolding s(2) by (rule length_push_le [OF w(1)]) (use n(3) in \<open>auto simp: k_def\<close>)
  moreover have "dc_frame_idx x \<le> fr_frame_index f" if "x \<in> set (disc_of fe' (ps_player_id old))" for x
  proof -
    from that s(1) consider "dc_frame_idx x = fr_frame_index f" | "\<not> ?first" "x \<in> set (disc_of fe (ps_player_id old))"
      unfolding s(2) using set_push by (fastforce split: if_splits)
    then show ?thesis
    proof cases
      case 2
      then have "dc_frame_idx x \<le> ps_last_frame_idx old" using n(3) by simp
      then show ?thesis using 2 False w(2) by (simp add: rejected_sample_def)
    qed simp
  qed
  ultimately show ?thesis
    using U(1-5) w mk(3) t by (auto simp: windows_ok_def W last_push)
qed

section \<open>Throws are confirmed releases\<close>

definition measured :: "string \<Rightarrow> throw_event \<Rightarrow> bool" where
  "measured i e \<longleftrightarrow> te_thrower_id e = i \<and> is_fin (te_release_speed (te_release e)) \<and> flt (Fin 0) (te_release_speed (te_release e)) \<and>
     (case te_release_window e of None \<Rightarrow> False
      | Some w \<Rightarrow> ro_player_id w = i \<and> ro_end_frame w = te_frame_index e \<and> ro_start_frame w + 1 = te_frame_index e) \<and>
     list_all (\<lambda>s. tf_frame_index s < te_frame_index e) (te_pre_release_frames e)"

definition published :: "string \<Rightarrow> throw_event \<Rightarrow> bool" where
  "published i e \<longleftrightarrow> measured i e \<and> te_observed_frame_index e = Some (te_frame_index e + 1)"

definition throws_ok :: "feature_extractor \<Rightarrow> tracked \<Rightarrow> bool" where
  "throws_ok fe ps \<longleftrightarrow> list_all (published (ps_player_id ps)) (th_throw_history (mo_throws (ps_motion ps))) \<and>
     (ps_frame_count ps = 0 \<or> (case pending_of fe (ps_player_id ps) of None \<Rightarrow> True
        | Some p \<Rightarrow> (case pr_event p of None \<Rightarrow> True
            | Some e \<Rightarrow> measured (ps_player_id ps) e \<and> te_frame_index e = ps_last_frame_idx ps)))"

lemma tail_index_Some: "tail_index n r i = Some j \<Longrightarrow> j < n"
  by (auto simp: tail_index_def split: if_splits)

lemma detect_throw_Some:
  assumes "detect_throw acos fe ps f mc old = Some e"
  shows "te_thrower_id e = ps_player_id ps \<and> te_frame_index e = fr_frame_index f \<and> is_fin (te_release_speed (te_release e)) \<and>
    flt (Fin 0) (te_release_speed (te_release e)) \<and> (\<exists>hand. te_pre_release_frames e = build_pre_release_snapshots fe ps f hand)"
proof -
  have speed: "is_fin s \<and> flt (Fin 0) s" if "\<not> (is_nan s \<or> is_inf s \<or> fle s (Fin 0) \<or> b)" for s b
    using that by (cases s) (auto simp: is_fin_def is_nan_def is_inf_def)
  show ?thesis
  proof (cases "fr_disc f")
    case None
    then show ?thesis using assms by (simp add: detect_throw_def)
  next
    case (Some disc)
    define v where "v = (if fle (ds_speed disc) (Fin 0) then v_magnitude (ds_velocity disc) else ds_speed disc)"
    have g: "\<not> (is_nan v \<or> is_inf v \<or> fle v (Fin 0) \<or> v_has_nan (ds_velocity disc) \<or> v_has_inf (ds_velocity disc))"
    proof
      assume "is_nan v \<or> is_inf v \<or> fle v (Fin 0) \<or> v_has_nan (ds_velocity disc) \<or> v_has_inf (ds_velocity disc)"
      then have "detect_throw acos fe ps f mc old = None"
        unfolding detect_throw_def Some option.case Let_def v_def [symmetric] by (rule if_P)
      with assms show False by simp
    qed
    note e = assms [unfolded detect_throw_def Some option.case Let_def v_def [symmetric] if_not_P [OF g] split_def option.inject]
    have "is_fin v" "flt (Fin 0) v" using speed [of v] g by blast+
    then show ?thesis
      unfolding e [symmetric] throw_event.simps throw_release.simps by blast
  qed
qed

lemma snapshots_before:
  assumes "\<forall>s\<in>set (disc_of fe (ps_player_id ps)). dc_frame_idx s < fr_frame_index f"
  shows "list_all (\<lambda>s. tf_frame_index s < fr_frame_index f) (build_pre_release_snapshots fe ps f hand)"
proof -
  have "tf_frame_index (snapshot_at fe ps f hs rs (disc_of fe (ps_player_id ps)) i) < fr_frame_index f"
    if "i < length (hi_position (mo_histories (ps_motion ps)))" for hs rs i
    using that assms by (auto simp: snapshot_at_def Let_def split: option.split dest!: tail_index_Some)
  then show ?thesis
    by (simp add: build_pre_release_snapshots_def Let_def split_def list_all_iff disc_of_def)
qed

lemma confirm_history:
  "e \<in> set (th_throw_history (fst (confirm_release f u a i (th, fe)))) \<Longrightarrow> e \<in> set (th_throw_history th) \<or>
     u \<and> (\<exists>p e0. pending_of fe i = Some p \<and> pr_event p = Some e0 \<and> e = e0\<lparr>te_observed_frame_index := Some (fr_frame_index f)\<rparr>)"
  by (auto simp: confirm_release_def Let_def pending_of_def split: option.splits if_splits)

lemma open_pending:
  assumes "pending_of (open_release acos old f mc tm ps fe) (ps_player_id old) = Some p" "pr_event p = Some e"
    and "pending_of fe (ps_player_id old) = None"
  shows "continuous_release old f tm \<and> (\<exists>e0. detect_throw acos fe ps f mc (ps_motion old) = Some e0 \<and>
    e = e0\<lparr>te_release_window := Some (release_window old f)\<rparr>)"
  using assms
  by (auto simp: open_release_def Let_def pending_of_def update_conv' immediate_reason_def split: if_splits)

lemma history_observed:
  "set (th_throw_history (mo_throws (ps_motion (observe_frame acos old f mc tm fe)))) \<subseteq> set (th_throw_history (mo_throws (ps_motion old)))"
  by (simp add: observe_frame_def raw_state_def raw_motion_def clear_source_history_def kinematic_step_def move_def hold_still_def
      track_playspace_def Let_def split_def)

lemma release_step_throws:
  fixes ps fe acos old f mc tm
  defines "r \<equiv> release_step acos old f mc tm (ps, fe)" and "i \<equiv> ps_player_id old"
  shows "e \<in> set (th_throw_history (mo_throws (ps_motion (fst r)))) \<Longrightarrow> e \<in> set (th_throw_history (mo_throws (ps_motion ps))) \<or>
      continuous_release old f tm \<and>
      (\<exists>p e0. pending_of fe i = Some p \<and> pr_event p = Some e0 \<and> e = e0\<lparr>te_observed_frame_index := Some (fr_frame_index f)\<rparr>)"
    and "pending_of (snd r) i = Some p \<Longrightarrow> pr_event p = Some e \<Longrightarrow> continuous_release old f tm \<and>
      (\<exists>X ps1 e0. detect_throw acos X ps1 f mc (ps_motion old) = Some e0 \<and> ps_player_id ps1 = ps_player_id ps \<and>
        set (disc_of X i) \<subseteq> set (disc_of fe i) \<and> e = e0\<lparr>te_release_window := Some (release_window old f)\<rparr>)"
proof -
  let ?c = "confirm_release f (continuous_release old f tm) (mc_is_active_phase mc (fr_game_phase f)) i (mo_throws (ps_motion ps), fe)"
  let ?P = "ps\<lparr>ps_motion := ps_motion ps\<lparr>mo_throws := fst ?c\<rparr>\<rparr>"
  let ?G = "if tm_continuous tm then snd ?c else forget_disc i (snd ?c)"
  have r: "r = (?P, open_release acos old f mc tm ?P ?G)"
    by (simp add: r_def i_def release_step_def Let_def split_def)
  show "e \<in> set (th_throw_history (mo_throws (ps_motion ps))) \<or> continuous_release old f tm \<and>
      (\<exists>p e0. pending_of fe i = Some p \<and> pr_event p = Some e0 \<and> e = e0\<lparr>te_observed_frame_index := Some (fr_frame_index f)\<rparr>)"
    if "e \<in> set (th_throw_history (mo_throws (ps_motion (fst r))))"
    by (rule confirm_history) (use that r in simp)
  show "continuous_release old f tm \<and> (\<exists>X ps1 e0. detect_throw acos X ps1 f mc (ps_motion old) = Some e0 \<and> ps_player_id ps1 = ps_player_id ps \<and>
        set (disc_of X i) \<subseteq> set (disc_of fe i) \<and> e = e0\<lparr>te_release_window := Some (release_window old f)\<rparr>)"
    if "pending_of (snd r) i = Some p" "pr_event p = Some e"
  proof -
    have G: "pending_of ?G (ps_player_id old) = None" "set (disc_of ?G i) \<subseteq> set (disc_of fe i)" by (auto simp: i_def)
    from that(1) have "pending_of (open_release acos old f mc tm ?P ?G) (ps_player_id old) = Some p" by (simp only: r snd_conv i_def)
    from open_pending [OF this that(2) G(1)] obtain e0 where "continuous_release old f tm" "detect_throw acos ?G ?P f mc (ps_motion old) = Some e0"
      "e = e0\<lparr>te_release_window := Some (release_window old f)\<rparr>" by blast
    moreover have "ps_player_id ?P = ps_player_id ps" by simp
    ultimately show ?thesis using G(2) by blast
  qed
qed

lemma update_throws:
  assumes r: "\<not> rejected_sample old f" and u: "update_player_state acos old f mc fe = (ps, fe')"
  defines "i \<equiv> ps_player_id old"
  shows "e \<in> set (th_throw_history (mo_throws (ps_motion ps))) \<Longrightarrow> e \<in> set (th_throw_history (mo_throws (ps_motion old))) \<or>
      continuous_release old f (time_step fe old f) \<and>
      (\<exists>p e0. pending_of fe i = Some p \<and> pr_event p = Some e0 \<and> e = e0\<lparr>te_observed_frame_index := Some (fr_frame_index f)\<rparr>)"
    and "pending_of fe' i = Some p \<Longrightarrow> pr_event p = Some e \<Longrightarrow> continuous_release old f (time_step fe old f) \<and>
      (\<exists>X ps1 e0. detect_throw acos X ps1 f mc (ps_motion old) = Some e0 \<and> ps_player_id ps1 = i \<and>
        set (disc_of X i) \<subseteq> set (disc_of fe i) \<and> e = e0\<lparr>te_release_window := Some (release_window old f)\<rparr>)"
    and "j \<noteq> i \<Longrightarrow> pending_of fe' j = pending_of fe j"
proof -
  define tm where "tm = time_step fe old f"
  define E where "E = enter_frame old tm fe"
  define F where "F = (if tm_first tm then E else learn_goal_sides f mc (sr_blue (mo_scores (ps_motion old))) (sr_orange (mo_scores (ps_motion old))) E)"
  define O' where "O' = observe_frame acos old f mc tm E"
  define S where "S = release_step acos old f mc tm (O', F)"
  have U: "ps_motion ps = track_status old f mc tm (push_histories (fe_window (snd S)) f (ps_motion (fst S)))"
    "fe' = push_disc_history i (fr_disc f) (fr_frame_index f) (snd S)"
    using u r by (auto simp: update_player_state_def Let_def split_def S_def O'_def F_def E_def tm_def i_def)
  have F: "pending_of F j = Some q \<Longrightarrow> pending_of fe j = Some q" "set (disc_of F j) \<subseteq> set (disc_of fe j)"
    "j \<noteq> i \<Longrightarrow> pending_of F j = pending_of fe j" for j q
    by (auto simp: F_def E_def i_def split: if_splits)
  have h: "th_throw_history (mo_throws (ps_motion ps)) = th_throw_history (mo_throws (ps_motion (fst S)))"
    by (simp add: U(1) push_histories_def Let_def)
  note R = release_step_throws [where ps = O' and fe = F and acos = acos and old = old and f = f and mc = mc and tm = tm, folded S_def i_def]
  show "e \<in> set (th_throw_history (mo_throws (ps_motion ps))) \<Longrightarrow> e \<in> set (th_throw_history (mo_throws (ps_motion old))) \<or>
      continuous_release old f (time_step fe old f) \<and>
      (\<exists>p e0. pending_of fe i = Some p \<and> pr_event p = Some e0 \<and> e = e0\<lparr>te_observed_frame_index := Some (fr_frame_index f)\<rparr>)"
    using R(1) [of e] F(1) history_observed [of acos old f mc tm E] unfolding h tm_def [symmetric] O'_def by blast
  show "pending_of fe' i = Some p \<Longrightarrow> pr_event p = Some e \<Longrightarrow> continuous_release old f (time_step fe old f) \<and>
      (\<exists>X ps1 e0. detect_throw acos X ps1 f mc (ps_motion old) = Some e0 \<and> ps_player_id ps1 = i \<and>
        set (disc_of X i) \<subseteq> set (disc_of fe i) \<and> e = e0\<lparr>te_release_window := Some (release_window old f)\<rparr>)"
  proof -
    assume "pending_of fe' i = Some p" "pr_event p = Some e"
    then have "pending_of (snd S) i = Some p" "pr_event p = Some e" by (simp_all add: U(2) push_disc_views)
    from R(2) [OF this] F(2) [of i] show ?thesis
      unfolding tm_def [symmetric] by (simp add: O'_def observe_frame_simps i_def) blast
  qed
  show "j \<noteq> i \<Longrightarrow> pending_of fe' j = pending_of fe j"
    using F(3) [of j] by (simp add: U(2) push_disc_views S_def release_step_simps i_def)
qed

lemma throws_ok_update:
  assumes ok: "throws_ok fe old" "windows_ok fe old" and u: "update_player_state acos old f mc fe = (ps, fe')"
  shows "throws_ok fe' ps"
proof (cases "rejected_sample old f")
  case True
  with u ok show ?thesis by (simp add: update_player_state_def)
next
  case False
  note S = update_simps [OF False u] and T = update_throws [OF False u]
  let ?i = "ps_player_id old"
  have count: "ps_frame_count old \<noteq> 0" if "continuous_release old f (time_step fe old f)"
    using that by (simp add: continuous_release_def time_step_def Let_def)
  have step: "fr_frame_index f = ps_last_frame_idx old + 1" if "continuous_release old f (time_step fe old f)"
    using that by (simp add: continuous_release_def)
  have "published ?i e" if "e \<in> set (th_throw_history (mo_throws (ps_motion ps)))" for e
    using T(1) [OF that] ok(1) count step
    by (auto simp: throws_ok_def published_def measured_def list_all_iff split: option.splits)
  moreover have "measured ?i e \<and> te_frame_index e = fr_frame_index f" if "pending_of fe' ?i = Some p" "pr_event p = Some e" for p e
  proof -
    from T(2) [OF that] obtain X ps1 e0 where c: "continuous_release old f (time_step fe old f)"
      and e0: "detect_throw acos X ps1 f mc (ps_motion old) = Some e0" and ps1: "ps_player_id ps1 = ?i"
      and X: "set (disc_of X ?i) \<subseteq> set (disc_of fe ?i)" and e: "e = e0\<lparr>te_release_window := Some (release_window old f)\<rparr>" by auto
    have "\<forall>s\<in>set (disc_of fe ?i). dc_frame_idx s \<le> ps_last_frame_idx old"
      using ok(2) count [OF c] by (auto simp: windows_ok_def)
    then have "\<forall>s\<in>set (disc_of X (ps_player_id ps1)). dc_frame_idx s < fr_frame_index f"
      using X step [OF c] by (fastforce simp: ps1)
    from snapshots_before [OF this] detect_throw_Some [OF e0] show ?thesis
      using step [OF c] by (auto simp: e measured_def release_window_def Let_def ps1)
  qed
  ultimately show ?thesis
    using S(1,4) by (auto simp: throws_ok_def list_all_iff split: option.split)
qed

section \<open>Any interleaving of the players' frames\<close>

type_synonym extraction = "(string \<Rightarrow> tracked) \<times> feature_extractor"

definition fe_step :: "(f64 \<Rightarrow> f64) \<Rightarrow> string \<times> telemetry_frame \<times> match_context \<Rightarrow> extraction \<Rightarrow> extraction" where
  "fe_step acos = (\<lambda>(i, f, mc) (P, fe). let (ps, fe) = update_player_state acos (P i) f mc fe in (P(i := ps), fe))"

definition fe_frame_ok :: "string \<times> telemetry_frame \<times> match_context \<Rightarrow> bool" where
  "fe_frame_ok = (\<lambda>(_, f, _). fr_timestamp f \<noteq> NaN)"

definition fe_inv :: "extraction \<Rightarrow> bool" where
  "fe_inv = (\<lambda>(P, fe). \<forall>i. ps_player_id (P i) = i \<and> windows_ok fe (P i) \<and> throws_ok fe (P i))"

definition fe_start :: "feature_extractor \<Rightarrow> extraction" where
  "fe_start fe = (\<lambda>i. new_player_state zero_motion i [], fe)"

lemma windows_ok_other:
  "windows_ok fe ps \<Longrightarrow> fe_window fe' = fe_window fe \<Longrightarrow> disc_of fe' (ps_player_id ps) = disc_of fe (ps_player_id ps) \<or> disc_of fe' (ps_player_id ps) = [] \<Longrightarrow>
   windows_ok fe' ps"
  by (auto simp: windows_ok_def split: if_splits)

interpretation fx: machine "fe_step acos" fe_frame_ok fe_inv for acos
proof
  show "fe_inv (fe_step acos c s)" if "fe_inv s" "fe_frame_ok c" for s c
  proof -
    obtain P fe where s: "s = (P, fe)" by (cases s)
    obtain i f mc where c: "c = (i, f, mc)" by (cases c)
    obtain ps fe' where u: "update_player_state acos (P i) f mc fe = (ps, fe')" by force
    have I: "ps_player_id (P j) = j" "windows_ok fe (P j)" "throws_ok fe (P j)" for j using that by (auto simp: s fe_inv_def)
    have same: "ps_player_id ps = i \<and> fe_window fe' = fe_window fe \<and>
      (\<forall>j. j \<noteq> i \<longrightarrow> (disc_of fe' j = disc_of fe j \<or> disc_of fe' j = []) \<and> pending_of fe' j = pending_of fe j)"
      using u update_simps(1,5,8) [OF _ u] update_throws(3) [OF _ u] I(1) [of i]
      by (cases "rejected_sample (P i) f") (auto simp: update_player_state_def)
    have "windows_ok fe' (P j)" "throws_ok fe' (P j)" if "j \<noteq> i" for j
      using same that I [of j] windows_ok_other [OF I(2) [of j], of fe'] by (auto simp: throws_ok_def)
    moreover have "windows_ok fe' ps" "throws_ok fe' ps"
      using windows_ok_update [OF I(2) _ u] throws_ok_update [OF I(3) I(2) u] that(2) by (auto simp: c fe_frame_ok_def)
    ultimately show ?thesis
      using same I(1) by (simp add: s c fe_step_def u fe_inv_def)
  qed
qed

lemma fe_inv_start: "0 < fe_window fe \<Longrightarrow> fe_inv (fe_start fe)"
  by (simp add: fe_inv_def fe_start_def windows_ok_def throws_ok_def new_player_state_def windows_of_def lengths_def zero_motion_def
      no_histories_def no_hand_def Let_def numeral_eq_Suc)

text \<open>However the frames of the players interleave, with gaps, source changes and late samples, each
  player's nine sliding windows advance together: they have the same length, never more than the
  configured window, and the recorded time stamps strictly increase.\<close>
theorem windows_stay_aligned:
  assumes "0 < fe_window fe" and "list_all fe_frame_ok frames"
  shows "let m = ps_motion (fst (fold (fe_step acos) frames (fe_start fe)) i); ts = hi_timestamp (mo_histories m) in
    list_all (\<lambda>n. n = length ts \<and> int n \<le> fe_window (snd (fold (fe_step acos) frames (fe_start fe)))) (lengths m) \<and> sorted_wrt flt ts"
proof -
  let ?s = "fold (fe_step acos) frames (fe_start fe)"
  have "fe_inv ?s" by (rule fx.run_inv [OF fe_inv_start [OF assms(1)] assms(2)])
  then have "windows_ok (snd ?s) (fst ?s i)" by (simp add: fe_inv_def split_def)
  then obtain n where n: "fst (windows_of (ps_motion (fst ?s i))) = replicate 9 n" "int n \<le> fe_window (snd ?s)"
    "sorted_wrt flt (snd (windows_of (ps_motion (fst ?s i))))" by (auto simp: windows_ok_def)
  from length_stamps [OF n(1)] n show ?thesis
    by (simp add: Let_def windows_of_def list_all_iff)
qed

theorem windows_stay_aligned_witness:
  "sorted_wrt flt (hi_timestamp (mo_histories (ps_motion (fst (fold (fe_step (\<lambda>_. Fin 0))
     [(''p1'', sample_frame, sample_match), (''p1'', sample_frame\<lparr>fr_frame_index := 2, fr_timestamp := Fin 2\<rparr>, sample_match)]
     (fe_start (new_feature_extractor 3))) ''p1''))))"
proof -
  have "0 < fe_window (new_feature_extractor 3)" by (simp add: new_feature_extractor_def)
  moreover have "list_all fe_frame_ok [(''p1'', sample_frame, sample_match), (''p1'', sample_frame\<lparr>fr_frame_index := 2, fr_timestamp := Fin 2\<rparr>, sample_match)]"
    by (simp add: fe_frame_ok_def sample_frame_def)
  ultimately show ?thesis by (rule windows_stay_aligned [unfolded Let_def, THEN conjunct2])
qed



section \<open>The pipeline's extractor\<close>

definition new_extractor :: "(f64 \<Rightarrow> f64) \<Rightarrow> int \<Rightarrow> f64 \<Rightarrow> f64 \<Rightarrow> (feature_extractor, motion) extractor" where
  "new_extractor acos window ping max_dt =
     \<lparr>ex_state = set_max_frame_dt max_dt (set_high_ping_threshold ping (new_feature_extractor window)), ex_zero_motion = zero_motion,
      ex_update = (\<lambda>ps f mc fe. update_player_state acos ps f mc fe), ex_drain = (\<lambda>_ fe. drain_pending_releases fe)\<rparr>"

end
