(* ===== verification/Live_Frames.thy ===== *)
theory Live_Frames
  imports Telemetry
begin

text \<open>
  Frame identities of live telemetry (\<open>internal/ingest/frame_identity.go\<close>, \<open>live_ordering.go\<close>): when two
  observations under one identity (player, frame index) are the same observation, and which frames of a
  batch are new. \<open>same_live_frame\<close> compares what storage would hold of the two frames;
  \<open>judge_frame\<close> is the body of the loop of \<open>freshLiveFrames\<close> for one frame, \<open>take_frame\<close> its effect.

  \<open>canonical\<close> is a frame after \<open>json.Marshal\<close> and \<open>json.Unmarshal\<close>: encoding fails on a NaN or an
  infinity, decoding restores every field but the disc's speed, which \<open>DiscState.UnmarshalJSON\<close> derives
  when it is zero. Strings are valid UTF-8, as the decoder of the wire left them.
\<close>

section \<open>Closeness of floats\<close>

text \<open>\<open>math.Nextafter(x, +Inf)\<close>.\<close>

definition ulp_above :: "rat \<Rightarrow> rat" where
  "ulp_above q = (if q = 0 then 2 powi (- 1074) else 2 powi uexp q)"

definition ulp_below :: "rat \<Rightarrow> rat" where
  "ulp_below q = (if q = 2 powi elog q \<and> - 1074 < uexp q then 2 powi (uexp q - 1) else 2 powi uexp q)"

definition next_up :: "f64 \<Rightarrow> f64" where
  "next_up x = (case x of NaN \<Rightarrow> NaN
     | Inf negative \<Rightarrow> if negative then Fin (2 powi 971 - 2 powi 1024) else x
     | Fin q \<Rightarrow> if 0 \<le> q then rnd (q + ulp_above q) else Fin (q + ulp_below (- q)))"

definition few_ulps :: "f64 \<Rightarrow> f64" where
  "few_ulps ulp = fmin (flit (1 / 10 ^ 9)) (fmul (Fin 8) ulp)"

definition same_live_tick_time :: "f64 \<Rightarrow> f64 \<Rightarrow> bool" where
  "same_live_tick_time a b =
     (let ulp = fmax (fsub (next_up a) a) (fsub (next_up b) b) in fle (fabs (fsub a b)) (few_ulps ulp))"

definition close_frame_float :: "f64 \<Rightarrow> f64 \<Rightarrow> bool" where
  "close_frame_float a b =
     (let magnitude = fmax (fabs a) (fabs b); ulp = fsub (next_up magnitude) magnitude
      in fle (fabs (fsub a b)) (few_ulps ulp))"

section \<open>Sameness of frames\<close>

definition same_float :: "f64 \<Rightarrow> f64 \<Rightarrow> bool" where
  "same_float a b \<longleftrightarrow> feq a b \<or> close_frame_float a b"

fun same_opt :: "('a \<Rightarrow> 'a \<Rightarrow> bool) \<Rightarrow> 'a option \<Rightarrow> 'a option \<Rightarrow> bool" where
  "same_opt same None None = True"
| "same_opt same (Some a) (Some b) = same a b"
| "same_opt same _ _ = False"

fun same_vec :: "vec3 \<Rightarrow> vec3 \<Rightarrow> bool" where
  "same_vec (Vec3 a b c) (Vec3 x y z) = (same_float a x \<and> same_float b y \<and> same_float c z)"

fun q_negate :: "quat \<Rightarrow> quat" where
  "q_negate (Quat x y z w) = Quat (fneg x) (fneg y) (fneg z) (fneg w)"

definition same_quat :: "quat \<Rightarrow> quat \<Rightarrow> bool" where
  "same_quat a b0 =
     (let b = (if q_is_unit a \<and> q_is_unit b0 \<and> flt (q_dot a b0) (Fin 0) then q_negate b0 else b0)
      in list_all2 same_float (q_components a) (q_components b))"

definition same_observation :: "observation_context \<Rightarrow> observation_context \<Rightarrow> bool" where
  "same_observation a b \<longleftrightarrow> oc_identity a = oc_identity b \<and> oc_frame_index a = oc_frame_index b \<and>
     same_float (oc_timestamp a) (oc_timestamp b) \<and> oc_freshness a = oc_freshness b"

definition same_throw_details :: "game_throw_details \<Rightarrow> game_throw_details \<Rightarrow> bool" where
  "same_throw_details a b = list_all2 same_float (gt_values a) (gt_values b)"

definition same_disc :: "disc_state \<Rightarrow> disc_state \<Rightarrow> bool" where
  "same_disc a b \<longleftrightarrow>
     ds_attachment a = ds_attachment b \<and> same_vec (ds_position a) (ds_position b) \<and> same_vec (ds_velocity a) (ds_velocity b) \<and>
     same_float (ds_speed a) (ds_speed b) \<and> ds_bounce_count a = ds_bounce_count b \<and>
     ds_possession_known a = ds_possession_known b \<and> ds_possession_conflict a = ds_possession_conflict b \<and>
     ds_sampled_player_count a = ds_sampled_player_count b \<and>
     same_opt same_vec (ds_previous_velocity a) (ds_previous_velocity b) \<and> same_opt same_vec (ds_acceleration a) (ds_acceleration b) \<and>
     same_float (ds_acceleration_magnitude a) (ds_acceleration_magnitude b) \<and>
     ds_possessor_id a = ds_possessor_id b \<and> ds_is_held a = ds_is_held b \<and>
     ds_frames_since_release a = ds_frames_since_release b \<and>
     same_opt same_vec (ds_release_position a) (ds_release_position b) \<and>
     same_opt same_vec (ds_release_velocity a) (ds_release_velocity b) \<and>
     same_float (ds_trajectory_angle_change a) (ds_trajectory_angle_change b) \<and>
     same_float (ds_distance_from_thrower a) (ds_distance_from_thrower b) \<and> ds_in_penalty_field a = ds_in_penalty_field b"

definition same_identity_fields :: "telemetry_frame \<Rightarrow> telemetry_frame \<Rightarrow> bool" where
  "same_identity_fields a b \<longleftrightarrow>
     fr_held_items a = fr_held_items b \<and> fr_is_boosting_known a = fr_is_boosting_known b \<and>
     fr_player_id a = fr_player_id b \<and> fr_team a = fr_team b \<and> fr_frame_index a = fr_frame_index b \<and>
     fr_left_rotation_valid a = fr_left_rotation_valid b \<and> fr_right_rotation_valid a = fr_right_rotation_valid b \<and>
     fr_is_stunned a = fr_is_stunned b \<and> fr_is_boosting a = fr_is_boosting b \<and> fr_shield_active a = fr_shield_active b \<and>
     fr_is_immune a = fr_is_immune b \<and> fr_has_possession a = fr_has_possession b \<and> fr_game_phase a = fr_game_phase b \<and>
     fr_has_score a = fr_has_score b \<and> fr_blue_score a = fr_blue_score b \<and> fr_orange_score a = fr_orange_score b \<and>
     fr_goals a = fr_goals b \<and> fr_stuns a = fr_stuns b"

definition same_frame :: "telemetry_frame \<Rightarrow> telemetry_frame \<Rightarrow> bool" where
  "same_frame a b \<longleftrightarrow>
     same_identity_fields a b \<and>
     same_opt same_observation (fr_observation a) (fr_observation b) \<and>
     same_opt same_observation (fr_throw_provenance a) (fr_throw_provenance b) \<and>
     same_float (fr_timestamp a) (fr_timestamp b) \<and> same_float (fr_delta_time a) (fr_delta_time b) \<and>
     same_vec (fr_position a) (fr_position b) \<and> same_quat (fr_rotation a) (fr_rotation b) \<and>
     same_opt same_vec (fr_head_position a) (fr_head_position b) \<and>
     same_opt same_vec (fr_reported_velocity a) (fr_reported_velocity b) \<and>
     same_vec (fr_left_hand a) (fr_left_hand b) \<and> same_vec (fr_right_hand a) (fr_right_hand b) \<and>
     same_quat (fr_left_rotation a) (fr_left_rotation b) \<and> same_quat (fr_right_rotation a) (fr_right_rotation b) \<and>
     same_opt same_throw_details (fr_game_last_throw a) (fr_game_last_throw b) \<and>
     same_opt same_disc (fr_disc a) (fr_disc b) \<and> same_float (fr_ping_ms a) (fr_ping_ms b)"

section \<open>What storage holds of a frame\<close>

fun v_components :: "vec3 \<Rightarrow> f64 list" where
  "v_components (Vec3 x y z) = [x, y, z]"

definition opt_floats :: "('a \<Rightarrow> f64 list) \<Rightarrow> 'a option \<Rightarrow> f64 list" where
  "opt_floats g x = (case x of None \<Rightarrow> [] | Some a \<Rightarrow> g a)"

definition disc_floats :: "disc_state \<Rightarrow> f64 list" where
  "disc_floats d = v_components (ds_position d) @ v_components (ds_velocity d) @ [ds_speed d] @
     opt_floats v_components (ds_previous_velocity d) @ opt_floats v_components (ds_acceleration d) @ [ds_acceleration_magnitude d] @
     opt_floats v_components (ds_release_position d) @ opt_floats v_components (ds_release_velocity d) @
     [ds_trajectory_angle_change d, ds_distance_from_thrower d]"

definition frame_floats :: "telemetry_frame \<Rightarrow> f64 list" where
  "frame_floats f =
     opt_floats (\<lambda>c. [oc_timestamp c]) (fr_observation f) @ opt_floats (\<lambda>c. [oc_timestamp c]) (fr_throw_provenance f) @
     [fr_timestamp f, fr_delta_time f, fr_ping_ms f] @ v_components (fr_position f) @ q_components (fr_rotation f) @
     opt_floats v_components (fr_head_position f) @ opt_floats v_components (fr_reported_velocity f) @
     v_components (fr_left_hand f) @ v_components (fr_right_hand f) @
     q_components (fr_left_rotation f) @ q_components (fr_right_rotation f) @
     opt_floats gt_values (fr_game_last_throw f) @ opt_floats disc_floats (fr_disc f)"

definition encodable :: "telemetry_frame \<Rightarrow> bool" where
  "encodable f = list_all is_fin (frame_floats f)"

definition decoded :: "telemetry_frame \<Rightarrow> telemetry_frame" where
  "decoded f = f\<lparr>fr_disc := map_option (ds_contract None) (fr_disc f)\<rparr>"

definition canonical :: "telemetry_frame \<Rightarrow> telemetry_frame option" where
  "canonical f = (if encodable f then Some (decoded f) else None)"

definition same_live_frame :: "telemetry_frame \<Rightarrow> telemetry_frame \<Rightarrow> bool option" where
  "same_live_frame a b = (case canonical a of None \<Rightarrow> None
     | Some x \<Rightarrow> (case canonical b of None \<Rightarrow> None | Some y \<Rightarrow> Some (same_frame x y)))"

text \<open>A stored document that does not decode is \<open>None\<close>.\<close>

definition same_stored_live_frame :: "telemetry_frame option \<Rightarrow> telemetry_frame \<Rightarrow> bool option" where
  "same_stored_live_frame doc incoming = (case doc of None \<Rightarrow> None | Some prior \<Rightarrow> same_live_frame prior incoming)"

section \<open>Fresh frames\<close>

text \<open>The counts of a batch, and a live match's bookkeeping of the frames the store holds.\<close>

record frame_result =
  accepted :: int
  ignored :: int
  rejected :: int

definition no_frames :: frame_result where
  "no_frames = \<lparr>accepted = 0, ignored = 0, rejected = 0\<rparr>"

definition frames_counted :: "frame_result \<Rightarrow> int" where
  "frames_counted r = accepted r + ignored r + rejected r"

record bookkeeping =
  bk_last_index :: int
  bk_last_player :: "(string, int) gomap"
  bk_first_time :: f64
  bk_last_time :: f64
  bk_have_time :: bool

definition empty_book :: bookkeeping where
  "empty_book = \<lparr>bk_last_index = - 1, bk_last_player = [], bk_first_time = Fin 0, bk_last_time = Fin 0, bk_have_time = False\<rparr>"

datatype verdict = Keep | Ignore | Reject | Conflict

record fresh_state =
  fs_seen :: "(string \<times> int, telemetry_frame) gomap"
  fs_kept :: "telemetry_frame list"
  fs_result :: frame_result
  fs_last_index :: int
  fs_last_time :: f64
  fs_have_time :: bool

definition fresh_start :: "bookkeeping \<Rightarrow> fresh_state" where
  "fresh_start b = \<lparr>fs_seen = [], fs_kept = [], fs_result = no_frames, fs_last_index = bk_last_index b,
     fs_last_time = bk_last_time b, fs_have_time = bk_have_time b\<rparr>"

definition frame_key :: "telemetry_frame \<Rightarrow> string \<times> int" where
  "frame_key f = (fr_player_id f, fr_frame_index f)"

definition compared :: "bool option \<Rightarrow> verdict" where
  "compared c = (case c of None \<Rightarrow> Reject | Some equal \<Rightarrow> if equal then Ignore else Conflict)"

text \<open>What the store answers about an identity: the lookup failed, there is no row, or a row's document.\<close>

datatype lookup = Lookup_failed | No_row | Row "telemetry_frame option"

definition in_order :: "fresh_state \<Rightarrow> telemetry_frame \<Rightarrow> bool" where
  "in_order s f \<longleftrightarrow> \<not> (fr_frame_index f < fs_last_index s \<or>
     fs_have_time s \<and> (fr_frame_index f = fs_last_index s \<and> \<not> same_live_tick_time (fr_timestamp f) (fs_last_time s) \<or>
       fs_last_index s < fr_frame_index f \<and> fle (fr_timestamp f) (fs_last_time s)))"

definition judge_frame :: "(string \<times> int \<Rightarrow> lookup) \<Rightarrow> bookkeeping \<Rightarrow> fresh_state \<Rightarrow> telemetry_frame \<Rightarrow> verdict" where
  "judge_frame stored b s f =
     (if fr_frame_index f < 0 \<or> flt (fr_timestamp f) (Fin 0) \<or> is_nan (fr_timestamp f) \<or> is_inf (fr_timestamp f) then Reject
      else case map_of (fs_seen s) (frame_key f) of
        Some prior \<Rightarrow> compared (same_live_frame prior f)
      | None \<Rightarrow>
          let ordered = (if in_order s f then Keep else Reject) in
          if fr_frame_index f \<le> bk_last_index b
          then (case stored (frame_key f) of
              Lookup_failed \<Rightarrow> Reject
            | Row doc \<Rightarrow> compared (same_stored_live_frame doc f)
            | No_row \<Rightarrow> ordered)
          else ordered)"

definition take_frame :: "verdict \<Rightarrow> telemetry_frame \<Rightarrow> fresh_state \<Rightarrow> fresh_state" where
  "take_frame v f s =
     (let r = fs_result s in case v of
        Keep \<Rightarrow> s\<lparr>fs_seen := AList.update (frame_key f) f (fs_seen s), fs_kept := fs_kept s @ [f],
                  fs_last_index := fr_frame_index f, fs_last_time := fr_timestamp f, fs_have_time := True\<rparr>
      | Ignore \<Rightarrow> s\<lparr>fs_result := r\<lparr>ignored := ignored r + 1\<rparr>\<rparr>
      | _ \<Rightarrow> s\<lparr>fs_result := r\<lparr>rejected := rejected r + 1\<rparr>\<rparr>)"

definition batch_order :: "telemetry_frame list \<Rightarrow> telemetry_frame list" where
  "batch_order = sort_key (\<lambda>f. (fr_frame_index f, fr_player_id f))"

end
