(* ===== verification/Live_Store.thy ===== *)
theory Live_Store
  imports Live_Frames Review
begin

text \<open>
  The part of the SQLite store the live ingest reads and writes: telemetry rows and raw ticks
  (\<open>internal/storage/sqlite/telemetry.go\<close>), the match context, the suspension marker
  (\<open>live_analysis.go\<close>), derived events and score snapshots (\<open>WriteMatchAnalysis\<close> with
  \<open>LiveAppend\<close>, \<open>analysis_write.go\<close>) and the summary row (\<open>StoreMatchSummary\<close>).

  \<open>live_db\<close> keeps the rows of each table by match. Every driver call may fail: \<open>db_op\<close> names the
  calls of one handler, and \<open>fail i q\<close> says whether call \<open>q\<close> for match \<open>i\<close> does; a failed write
  leaves the rows alone, since each is one statement or one transaction. Of the coverage document
  only the players and their limitations are kept, which is all the live code reads back. Times are
  stored as they are.
\<close>

datatype db_op = Read_context | Read_index | Read_span | Read_resumed_context | Read_summary | Read_marker
  | Read_row "string \<times> int" | Write_rows | Write_analysis bool | Merge_coverage bool | Write_context nat
  | Mark_conflict "string \<times> int" | Mark_roster | Mark_derived bool | Mark_merge bool | Write_summary | Write_case string

type_synonym faults = "string \<Rightarrow> db_op \<Rightarrow> bool"

record telemetry_row =
  tr_key :: "string \<times> int"
  tr_timestamp :: f64
  tr_doc :: "telemetry_frame option"
  tr_ingested :: time

record summary_row =
  sr_map :: string
  sr_game_mode :: string
  sr_is_ranked :: bool
  sr_start_time :: time
  sr_duration :: duration
  sr_frame_count :: int
  sr_total_detections :: int
  sr_flagged :: "string list"

record live_db =
  db_rows :: "(string, telemetry_row list) gomap"
  db_ticks :: "(string, (int, string) gomap) gomap"
  db_contexts :: "(string, match_context \<times> int) gomap"
  db_limitations :: "(string, (string, string list) gomap) gomap"
  db_events :: "(string \<times> detection_event) list"
  db_scores :: "(string \<times> suspicion_score) list"
  db_summaries :: "(string, summary_row) gomap"
  db_cases :: case_db

definition empty_db :: live_db where
  "empty_db = \<lparr>db_rows = [], db_ticks = [], db_contexts = [], db_limitations = [], db_events = [], db_scores = [],
     db_summaries = [], db_cases = \<lparr>cases = [], xcases = [], decisions = []\<rparr>\<rparr>"

section \<open>Telemetry\<close>

definition rows_of :: "string \<Rightarrow> live_db \<Rightarrow> telemetry_row list" where
  "rows_of i db = gz [] (db_rows db) i"

definition row_at :: "string \<times> int \<Rightarrow> telemetry_row list \<Rightarrow> telemetry_row option" where
  "row_at k rows = find (\<lambda>r. tr_key r = k) rows"

definition look_up_row :: "faults \<Rightarrow> string \<Rightarrow> live_db \<Rightarrow> string \<times> int \<Rightarrow> lookup" where
  "look_up_row fail i db k = (if fail i (Read_row k) then Lookup_failed
     else case row_at k (rows_of i db) of None \<Rightarrow> No_row | Some r \<Rightarrow> Row (tr_doc r))"

definition insert_row :: "time \<Rightarrow> telemetry_frame \<Rightarrow> telemetry_row list \<Rightarrow> telemetry_row list" where
  "insert_row now f rows = (if row_at (frame_key f) rows = None
     then rows @ [\<lparr>tr_key = frame_key f, tr_timestamp = fr_timestamp f, tr_doc = canonical f, tr_ingested = now\<rparr>] else rows)"

definition insert_rows :: "time \<Rightarrow> telemetry_frame list \<Rightarrow> telemetry_row list \<Rightarrow> telemetry_row list" where
  "insert_rows now frames rows = fold (insert_row now) frames rows"

definition insert_tick :: "int \<times> string \<Rightarrow> (int, string) gomap \<Rightarrow> (int, string) gomap" where
  "insert_tick t ticks = (if snd t = [] \<or> map_of ticks (fst t) \<noteq> None then ticks else ticks @ [t])"

text \<open>The number of rows inserted, or a failure that leaves the tables as they were.\<close>

definition store_telemetry_frames :: "faults \<Rightarrow> time \<Rightarrow> string \<Rightarrow> telemetry_frame list \<Rightarrow> (int, string) gomap \<Rightarrow> live_db \<Rightarrow> int option \<times> live_db" where
  "store_telemetry_frames fail now i frames raw db =
     (if frames = [] \<and> raw = [] then (Some 0, db)
      else if fail i Write_rows \<or> \<not> list_all encodable frames then (None, db)
      else
        let rows = rows_of i db; new_rows = insert_rows now frames rows in
        (Some (int (length new_rows) - int (length rows)),
         db\<lparr>db_rows := AList.update i new_rows (db_rows db),
            db_ticks := AList.update i (fold insert_tick (sort_key fst raw) (gz [] (db_ticks db) i)) (db_ticks db)\<rparr>))"

definition max_frame_index :: "telemetry_row list \<Rightarrow> int" where
  "max_frame_index rows = (if rows = [] then - 1 else Max (set (map (snd \<circ> tr_key) rows)))"

record stored_span =
  sp_rows :: int
  sp_ticks :: int
  sp_times :: "(f64 \<times> f64) option"
  sp_player_max :: "(string, int) gomap"

definition stored_span_of :: "telemetry_row list \<Rightarrow> stored_span" where
  "stored_span_of rows = \<lparr>sp_rows = int (length rows), sp_ticks = int (length (remdups (map (snd \<circ> tr_key) rows))),
     sp_times = (case rows of [] \<Rightarrow> None
       | r # rs \<Rightarrow> Some (fold (\<lambda>x t. fmin t (tr_timestamp x)) rs (tr_timestamp r), fold (\<lambda>x t. fmax t (tr_timestamp x)) rs (tr_timestamp r))),
     sp_player_max = map (\<lambda>p. (p, max_frame_index (filter (\<lambda>r. fst (tr_key r) = p) rows))) (remdups (map (fst \<circ> tr_key) rows))\<rparr>"

section \<open>The match context\<close>

definition synthesized_context :: "string \<Rightarrow> telemetry_row list \<Rightarrow> match_context option" where
  "synthesized_context i rows =
     (let ids = sorted_set (map (fst \<circ> tr_key) rows);
          first = (\<lambda>p. let own = filter (\<lambda>r. fst (tr_key r) = p) rows in
            find (\<lambda>r. list_all (\<lambda>x. snd (tr_key r) \<le> snd (tr_key x)) own) own);
          team = (\<lambda>p. case first p of None \<Rightarrow> [] | Some r \<Rightarrow> (case tr_doc r of None \<Rightarrow> [] | Some f \<Rightarrow> fr_team f))
      in if ids = [] then None
         else Some \<lparr>mc_native_capture = None, mc_match_id = i, mc_map = [], mc_game_mode = [], mc_is_ranked = False,
           mc_is_private = False, mc_start_time = foldr (min \<circ> tr_ingested) rows (tr_ingested (hd rows)), mc_duration = 0,
           mc_player_ids = ids, mc_team_assignments = map (\<lambda>p. (p, team p)) (filter (\<lambda>p. team p \<noteq> []) ids), mc_player_names = [],
           mc_tick_rate = Fin 0, mc_source = ''live_telemetry'', mc_replay_file = [], mc_server_region = [], mc_server_id = [],
           mc_physics = default_physics, mc_project_rules = \<lparr>rules_version = [], disc_grab_limit_m = Fin 0,
             fast_throw_speed_mps = Fin 0, required_movement_mps = Fin 0\<rparr>\<rparr>)"

text \<open>\<open>Inl\<close>: the read failed; \<open>Inr None\<close>: \<open>ErrNotFound\<close>.\<close>

definition get_match_context :: "bool \<Rightarrow> string \<Rightarrow> live_db \<Rightarrow> unit + match_context option" where
  "get_match_context failed i db = (if failed then Inl () else Inr
     (case map_of (db_contexts db) i of Some (mc, _) \<Rightarrow> Some mc | None \<Rightarrow> synthesized_context i (rows_of i db)))"

definition store_match_context :: "bool \<Rightarrow> match_context \<Rightarrow> int \<Rightarrow> live_db \<Rightarrow> bool \<times> live_db" where
  "store_match_context failed mc n db = (if failed then (False, db)
     else (True, db\<lparr>db_contexts := AList.update (mc_match_id mc) (mc, n) (db_contexts db)\<rparr>))"

section \<open>The suspension marker\<close>

definition LivePersistenceFailureReason :: string where
  "LivePersistenceFailureReason = ''derived_analysis_persistence_failed''"

definition LiveSourceIdentityConflictReason :: string where
  "LiveSourceIdentityConflictReason = ''source_identity_conflict''"

definition LiveAnalysisPersistenceFailure :: string where
  "LiveAnalysisPersistenceFailure = ''Live derived analysis could not be persisted completely; scores and recommendations are withheld until successful offline re-analysis.''"

definition LiveAnalysisIdentityConflict :: string where
  "LiveAnalysisIdentityConflict = ''Live source reused an accepted observation identity with conflicting telemetry; scores and recommendations are withheld until successful offline re-analysis.''"

definition limitation_of :: "string \<Rightarrow> string option" where
  "limitation_of reason = (if reason = LiveSourceIdentityConflictReason then Some LiveAnalysisIdentityConflict
     else if reason = LivePersistenceFailureReason then Some LiveAnalysisPersistenceFailure else None)"

definition mark_incomplete :: "bool \<Rightarrow> string \<Rightarrow> string list \<Rightarrow> string \<Rightarrow> live_db \<Rightarrow> live_db" where
  "mark_incomplete failed i roster reason db = (case limitation_of reason of None \<Rightarrow> db
     | Some l \<Rightarrow> if failed then db
         else
           let cov0 = gz [] (db_limitations db) i;
               cov = fold (\<lambda>p m. if map_of m p = None then AList.update p [] m else m) roster cov0
           in db\<lparr>db_limitations := AList.update i (gmap_vals (\<lambda>_ ls. if l \<in> set ls then ls else ls @ [l]) cov) (db_limitations db)\<rparr>)"

definition suspension_reason :: "string \<Rightarrow> live_db \<Rightarrow> string" where
  "suspension_reason i db =
     (let ls = concat (map snd (gz [] (db_limitations db) i)) in
      if LiveAnalysisPersistenceFailure \<in> set ls then LivePersistenceFailureReason
      else if LiveAnalysisIdentityConflict \<in> set ls then LiveSourceIdentityConflictReason else [])"

section \<open>Derived results\<close>

definition valid_live_event :: "string \<Rightarrow> detection_event \<Rightarrow> bool" where
  "valid_live_event i e \<longleftrightarrow> validate_event e = None \<and> match_id e = i \<and> ck_player_id (ev_causal_key e) = player_id e"

definition valid_live_score :: "string \<Rightarrow> suspicion_score \<Rightarrow> bool" where
  "valid_live_score i sc \<longleftrightarrow>
     \<not> (sc_player_id sc = [] \<or> is_nan (total_score sc) \<or> is_inf (total_score sc) \<or> flt (total_score sc) (Fin 0) \<or> flt (Fin 100) (total_score sc)) \<and>
     length (match_ids sc) = 1 \<and> gz False (match_ids sc) i"

definition fresh_event_ids :: "detection_event list \<Rightarrow> live_db \<Rightarrow> bool" where
  "fresh_event_ids events db \<longleftrightarrow> distinct (map event_id events) \<and>
     list_all (\<lambda>e. event_id e \<notin> set (map (event_id \<circ> snd) (db_events db))) events"

definition write_live_analysis :: "bool \<Rightarrow> string \<Rightarrow> detection_event list \<Rightarrow> suspicion_score list \<Rightarrow> live_db \<Rightarrow> bool \<times> live_db" where
  "write_live_analysis failed i events scores db =
     (if trim_space i = [] \<or> \<not> list_all (valid_live_event i) events \<or> \<not> list_all (valid_live_score i) scores \<or>
         failed \<or> \<not> fresh_event_ids events db
      then (False, db)
      else (True, db\<lparr>db_events := db_events db @ map (Pair i) events, db_scores := db_scores db @ map (Pair i) scores\<rparr>))"

definition store_match_summary :: "bool \<Rightarrow> string \<Rightarrow> summary_row \<Rightarrow> live_db \<Rightarrow> live_db" where
  "store_match_summary failed i s db = (if failed then db else db\<lparr>db_summaries := AList.update i s (db_summaries db)\<rparr>)"

end
