(* ===== verification/Live.thy ===== *)
theory Live
  imports Live_Store Pipeline
begin

text \<open>
  Live ingest (\<open>internal/ingest/live_pipeline.go\<close>, \<open>live_persistence.go\<close> and the suspensions of
  \<open>live_ordering.go\<close>): \<open>live_match\<close> is \<open>LiveMatch\<close>, \<open>live_matches\<close> the map of a \<open>MatchManager\<close>, and
  \<open>handle_frames\<close>, \<open>handle_control\<close>, \<open>end_live_match\<close>, \<open>cleanup_stale\<close> and \<open>close_all\<close> its handlers. Each handler
  holds the match's lock from its first read to its return, so it is one atomic step here; a match
  whose creation is refused or that has ended is not in the map. The clock is read once per handler.

  Left out: metrics, log lines and their throttling, and the merge of the diagnostic coverage a
  result carries (its failure, which suspends the match, is modelled).
\<close>

section \<open>State\<close>

record ('d, 'e, 'k) live_config =
  lc_max_matches :: int
  lc_max_players :: int
  lc_persist_interval :: duration
  lc_physics :: physics_constants
  lc_pipeline :: pipeline_config
  lc_detectors :: "('d, 'k) detector list"
  lc_names :: "(string, string) gomap"
  lc_extractor :: "('e, 'k) extractor"
  lc_scorer :: scorer_config

record live_env =
  le_env :: env
  le_now :: time
  le_fail :: faults
  le_g :: "f64 \<Rightarrow> string"
  le_rid :: "string \<Rightarrow> string"

record suspension =
  su_incomplete :: bool
  su_persistence_error :: string
  su_reason :: string

record tallies =
  ta_frame_count :: int
  ta_rows_stored :: int
  ta_invalid :: int
  ta_by_detector :: "(string, int) gomap"
  ta_total_events :: int

record ('d, 'e, 'k) live_match =
  lm_ctx :: match_context
  lm_pipeline :: "('d, 'e, 'k) pipeline"
  lm_tallies :: tallies
  lm_suspension :: suspension
  lm_start_time :: time
  lm_last_activity :: time
  lm_book :: bookkeeping
  lm_pending :: "telemetry_frame list"
  lm_resumed :: bool
  lm_prior_detections :: int
  lm_prior_flagged :: "string list"
  lm_last_persist :: time
  lm_segment_events :: "detection_event list"
  lm_last_level :: "(string, scoring_level) gomap"
  lm_last_score :: "(string, f64) gomap"
  lm_initialized :: bool
  lm_ended :: bool

type_synonym ('d, 'e, 'k) live_matches = "(string, ('d, 'e, 'k) live_match) gomap"
type_synonym ('d, 'e, 'k) live_state = "('d, 'e, 'k) live_matches \<times> live_db"

abbreviation lm_incomplete :: "('d, 'e, 'k) live_match \<Rightarrow> bool" where
  "lm_incomplete m \<equiv> su_incomplete (lm_suspension m)"

abbreviation lm_scorer :: "('d, 'e, 'k) live_match \<Rightarrow> scorer" where
  "lm_scorer m \<equiv> p_scorer (lm_pipeline m)"

abbreviation lm_id :: "('d, 'e, 'k) live_match \<Rightarrow> string" where
  "lm_id m \<equiv> mc_match_id (lm_ctx m)"

definition DefaultMaxMatches :: int where "DefaultMaxMatches = 64"
definition DefaultPersistInterval :: duration where "DefaultPersistInterval = 2 * minute"
definition default_tick_rate :: f64 where "default_tick_rate = Fin 15"

definition normalize_team :: "string \<Rightarrow> string" where
  "normalize_team team = (let t = to_lower (trim_space team) in if t = ''blue'' \<or> t = ''orange'' then t else [])"

section \<open>Suspension and derived writes\<close>

definition suspend_analysis :: "live_env \<Rightarrow> db_op \<Rightarrow> string \<Rightarrow> ('d, 'e, 'k) live_match \<times> live_db \<Rightarrow> ('d, 'e, 'k) live_match \<times> live_db" where
  "suspend_analysis le site reason = (\<lambda>(m, db).
     let su = (lm_suspension m)\<lparr>su_incomplete := True, su_reason := reason\<rparr>;
         su = (if reason = LivePersistenceFailureReason then su\<lparr>su_persistence_error := reason\<rparr> else su)
     in (m\<lparr>lm_suspension := su\<rparr>, mark_incomplete (le_fail le (lm_id m) site) (lm_id m) (mc_player_ids (lm_ctx m)) reason db))"

definition snapshot_due :: "bool \<Rightarrow> ('d, 'e, 'k) live_match \<Rightarrow> string \<times> suspicion_score \<Rightarrow> bool" where
  "snapshot_due final m = (\<lambda>(i, sc).
     \<not> (fle (total_score sc) (Fin 0) \<or> event_count sc = 0) \<and>
     \<not> (map_of (lm_last_level m) i = Some (sc_level sc) \<and> (\<not> final \<or> feq (total_score sc) (gz (Fin 0) (lm_last_score m) i))))"

definition snapshots :: "live_env \<Rightarrow> bool \<Rightarrow> ('d, 'e, 'k) live_match \<Rightarrow> match_result \<Rightarrow> suspicion_score list" where
  "snapshots le final m r =
     map (\<lambda>(_, sc). if snapshot_time sc = 0 then sc\<lparr>snapshot_time := le_now le\<rparr> else sc)
       (filter (snapshot_due final m) (sort_key fst (mr_player_scores r)))"

definition note_snapshot :: "suspicion_score \<Rightarrow> ('d, 'e, 'k) live_match \<Rightarrow> ('d, 'e, 'k) live_match" where
  "note_snapshot sc m = m\<lparr>lm_last_level := AList.update (sc_player_id sc) (sc_level sc) (lm_last_level m),
     lm_last_score := AList.update (sc_player_id sc) (total_score sc) (lm_last_score m)\<rparr>"

definition persist_derived :: "live_env \<Rightarrow> bool \<Rightarrow> match_result \<Rightarrow> ('d, 'e, 'k) live_match \<times> live_db \<Rightarrow>
    bool \<times> ('d, 'e, 'k) live_match \<times> live_db" where
  "persist_derived le final r = (\<lambda>(m, db).
     if lm_incomplete m then (False, m, db)
     else
       let scs = snapshots le final m r; evs = mr_events r;
           (ok, db') = (if evs \<noteq> [] \<or> scs \<noteq> []
             then write_live_analysis (le_fail le (lm_id m) (Write_analysis final)) (lm_id m) evs scs db else (True, db))
       in if \<not> ok then (False, suspend_analysis le (Mark_derived final) LivePersistenceFailureReason (m, db'))
          else (True, fold note_snapshot scs (m\<lparr>lm_segment_events := lm_segment_events m @ evs\<rparr>), db'))"

definition count_event :: "detection_event \<Rightarrow> tallies \<Rightarrow> tallies" where
  "count_event e t = t\<lparr>ta_by_detector := bump (detector_id e) (ta_by_detector t), ta_total_events := ta_total_events t + 1\<rparr>"

definition record_result :: "live_env \<Rightarrow> bool \<Rightarrow> match_result \<Rightarrow> ('d, 'e, 'k) live_match \<times> live_db \<Rightarrow> ('d, 'e, 'k) live_match \<times> live_db" where
  "record_result le final r = (\<lambda>(m, db).
     let (m, db) = (if le_fail le (lm_id m) (Merge_coverage final)
           then suspend_analysis le (Mark_merge final) LivePersistenceFailureReason (m, db) else (m, db))
     in (m\<lparr>lm_tallies := fold count_event (mr_events r) (lm_tallies m)\<rparr>, db))"

definition process_locked :: "live_env \<Rightarrow> telemetry_frame list \<Rightarrow> ('d, 'e, 'k) live_match \<times> live_db \<Rightarrow> ('d, 'e, 'k) live_match \<times> live_db" where
  "process_locked le frames = (\<lambda>(m, db).
     if lm_incomplete m then (m, db)
     else
       let (cancelled, p, r) = process_match (le_env le) (lm_ctx m) frames (lm_pipeline m);
           m = m\<lparr>lm_ctx := with_rules (lm_pipeline m) (lm_ctx m), lm_pipeline := p, lm_initialized := True\<rparr>
       in if cancelled then (m, db)
          else
            let t = lm_tallies m;
                m = m\<lparr>lm_tallies := t\<lparr>ta_frame_count := ta_frame_count t + mr_frames_processed r,
                  ta_invalid := ta_invalid t + mr_invalid_frames r\<rparr>\<rparr>;
                (ok, m, db) = persist_derived le False r (m, db)
            in if ok then record_result le False r (m, db) else (m, db))"

section \<open>Ticks\<close>

definition split_closed_ticks :: "telemetry_frame list \<Rightarrow> telemetry_frame list \<times> telemetry_frame list" where
  "split_closed_ticks frames =
     (case frames of [] \<Rightarrow> ([], [])
      | f # fs \<Rightarrow> let newest = fold (\<lambda>x i. if i < fr_frame_index x then fr_frame_index x else i) fs (fr_frame_index f)
        in (filter (\<lambda>x. fr_frame_index x < newest) frames, filter (\<lambda>x. \<not> fr_frame_index x < newest) frames))"

definition note_stored_frame :: "telemetry_frame \<Rightarrow> bookkeeping \<Rightarrow> bookkeeping" where
  "note_stored_frame f b0 =
     (let i = fr_frame_index f; t = fr_timestamp f;
          b = (if bk_last_index b0 < i then b0\<lparr>bk_last_index := i\<rparr> else b0);
          b = (case map_of (bk_last_player b) (fr_player_id f) of
            Some n \<Rightarrow> if n < i then b\<lparr>bk_last_player := AList.update (fr_player_id f) i (bk_last_player b)\<rparr> else b
          | None \<Rightarrow> b\<lparr>bk_last_player := AList.update (fr_player_id f) i (bk_last_player b)\<rparr>)
      in if \<not> bk_have_time b then b\<lparr>bk_first_time := t, bk_last_time := t, bk_have_time := True\<rparr>
         else
           let b = (if flt t (bk_first_time b) then b\<lparr>bk_first_time := t\<rparr> else b)
           in if flt (bk_last_time b) t then b\<lparr>bk_last_time := t\<rparr> else b)"

definition note_stored :: "telemetry_frame list \<Rightarrow> bookkeeping \<Rightarrow> bookkeeping" where
  "note_stored frames b = fold note_stored_frame frames b"

definition match_duration :: "time \<Rightarrow> ('d, 'e, 'k) live_match \<Rightarrow> duration" where
  "match_duration now m =
     (let b = lm_book m in
      if bk_have_time b \<and> flt (bk_first_time b) (bk_last_time b)
      then f_to_int (fmul (fsub (bk_last_time b) (bk_first_time b)) (Fin 1000000000))
      else time_sub now (lm_start_time m))"

definition persist_context :: "live_env \<Rightarrow> nat \<Rightarrow> ('d, 'e, 'k) live_match \<times> live_db \<Rightarrow> ('d, 'e, 'k) live_match \<times> live_db" where
  "persist_context le site = (\<lambda>(m, db).
     let m = m\<lparr>lm_ctx := (lm_ctx m)\<lparr>mc_duration := match_duration (le_now le) m\<rparr>\<rparr>;
         (ok, db) = store_match_context (le_fail le (lm_id m) (Write_context site)) (lm_ctx m) (ta_frame_count (lm_tallies m)) db
     in (if ok then m\<lparr>lm_last_persist := le_now le\<rparr> else m, db))"

section \<open>Creating a match\<close>

definition resume_span :: "telemetry_row list \<Rightarrow> ('d, 'e, 'k) live_match \<Rightarrow> ('d, 'e, 'k) live_match" where
  "resume_span rows m =
     (let sp = stored_span_of rows; b = (lm_book m)\<lparr>bk_last_player := sp_player_max sp\<rparr>;
          b = (case sp_times sp of None \<Rightarrow> b
            | Some (lo, hi) \<Rightarrow> b\<lparr>bk_first_time := lo, bk_last_time := hi, bk_have_time := True\<rparr>)
      in m\<lparr>lm_tallies := (lm_tallies m)\<lparr>ta_frame_count := sp_ticks sp, ta_rows_stored := sp_rows sp\<rparr>, lm_book := b\<rparr>)"

definition resume_context :: "match_context \<Rightarrow> ('d, 'e, 'k) live_match \<Rightarrow> ('d, 'e, 'k) live_match" where
  "resume_context prev m =
     (let mc = lm_ctx m; started = mc_start_time prev \<noteq> 0;
          mc = mc\<lparr>mc_start_time := (if started then mc_start_time prev else mc_start_time mc),
            mc_game_mode := (if mc_game_mode prev \<noteq> [] then mc_game_mode prev else mc_game_mode mc),
            mc_map := mc_map prev, mc_is_private := mc_is_private prev,
            mc_server_id := (if mc_server_id mc = [] \<or> mc_server_id prev \<noteq> [] then mc_server_id prev else mc_server_id mc),
            mc_team_assignments := fold (\<lambda>(p, t). AList.update p t) (mc_team_assignments prev) (mc_team_assignments mc),
            mc_player_ids := sort (mc_player_ids mc @ remdups (filter (\<lambda>p. p \<notin> set (mc_player_ids mc)) (mc_player_ids prev)))\<rparr>
      in m\<lparr>lm_ctx := mc, lm_start_time := (if started then mc_start_time prev else lm_start_time m)\<rparr>)"

definition resume_from_store :: "live_env \<Rightarrow> live_db \<Rightarrow> ('d, 'e, 'k) live_match \<Rightarrow> ('d, 'e, 'k) live_match" where
  "resume_from_store le db m0 =
     (let i = lm_id m0; rows = rows_of i db; last_index = max_frame_index rows in
      if le_fail le i Read_index \<or> last_index < 0 then m0
      else
        let m = m0\<lparr>lm_resumed := True, lm_book := (lm_book m0)\<lparr>bk_last_index := last_index\<rparr>\<rparr>;
            m = (if le_fail le i Read_span then m else resume_span rows m);
            m = (case get_match_context (le_fail le i Read_resumed_context) i db of
                Inr (Some prev) \<Rightarrow> resume_context prev m | _ \<Rightarrow> m)
        in if le_fail le i Read_summary then m
           else case map_of (db_summaries db) i of None \<Rightarrow> m
             | Some s \<Rightarrow> m\<lparr>lm_prior_detections := sr_total_detections s, lm_prior_flagged := sr_flagged s\<rparr>)"

definition resume_suspension :: "live_env \<Rightarrow> live_db \<Rightarrow> ('d, 'e, 'k) live_match \<Rightarrow> ('d, 'e, 'k) live_match" where
  "resume_suspension le db m =
     (let i = lm_id m; reason = suspension_reason i db in
      if le_fail le i Read_marker \<or> reason = LivePersistenceFailureReason
      then m\<lparr>lm_suspension := \<lparr>su_incomplete = True, su_persistence_error = LivePersistenceFailureReason, su_reason = LivePersistenceFailureReason\<rparr>\<rparr>
      else if reason \<noteq> [] then m\<lparr>lm_suspension := (lm_suspension m)\<lparr>su_incomplete := True, su_reason := reason\<rparr>\<rparr>
      else m)"

definition new_live_match :: "('d, 'e, 'k) live_config \<Rightarrow> time \<Rightarrow> string \<Rightarrow> string \<Rightarrow> ('d, 'e, 'k) live_match" where
  "new_live_match cfg now i server =
     \<lparr>lm_ctx = \<lparr>mc_native_capture = None, mc_match_id = i, mc_map = [], mc_game_mode = ''Echo_Arena'', mc_is_ranked = False,
        mc_is_private = False, mc_start_time = now, mc_duration = 0, mc_player_ids = [], mc_team_assignments = [],
        mc_player_names = [], mc_tick_rate = default_tick_rate, mc_source = ''live_telemetry'', mc_replay_file = [],
        mc_server_region = [], mc_server_id = server, mc_physics = lc_physics cfg,
        mc_project_rules = \<lparr>rules_version = [], disc_grab_limit_m = Fin 0, fast_throw_speed_mps = Fin 0, required_movement_mps = Fin 0\<rparr>\<rparr>,
      lm_pipeline = set_skip_reset True (new_pipeline (lc_pipeline cfg) (lc_detectors cfg) (new_scorer (lc_scorer cfg)) (lc_extractor cfg)),
      lm_tallies = \<lparr>ta_frame_count = 0, ta_rows_stored = 0, ta_invalid = 0, ta_by_detector = [], ta_total_events = 0\<rparr>,
      lm_suspension = \<lparr>su_incomplete = False, su_persistence_error = [], su_reason = []\<rparr>,
      lm_start_time = now, lm_last_activity = now, lm_book = empty_book, lm_pending = [], lm_resumed = False, lm_prior_detections = 0,
      lm_prior_flagged = [], lm_last_persist = 0, lm_segment_events = [], lm_last_level = [], lm_last_score = [],
      lm_initialized = False, lm_ended = False\<rparr>"

definition init_live_match :: "('d, 'e, 'k) live_config \<Rightarrow> live_env \<Rightarrow> string \<Rightarrow> string \<Rightarrow> live_db \<Rightarrow> ('d, 'e, 'k) live_match \<times> live_db" where
  "init_live_match cfg le i server db =
     (let m = resume_suspension le db (resume_from_store le db (new_live_match cfg (le_now le) i server));
          p = lm_pipeline m
      in persist_context le 0 (m\<lparr>lm_pipeline := p\<lparr>p_scorer := set_match_start (mc_start_time (lm_ctx m)) (p_scorer p)\<rparr>\<rparr>, db))"

definition note_server_id :: "('d, 'e, 'k) live_match \<Rightarrow> string \<Rightarrow> bool" where
  "note_server_id m server \<longleftrightarrow> mc_server_id (lm_ctx m) = server"

text \<open>The match with the store as its creation left it; nothing when the submission is refused.\<close>

definition get_or_create_live :: "('d, 'e, 'k) live_config \<Rightarrow> live_env \<Rightarrow> string \<Rightarrow> string \<Rightarrow> ('d, 'e, 'k) live_state \<Rightarrow>
    (('d, 'e, 'k) live_match \<times> live_db) option" where
  "get_or_create_live cfg le i server = (\<lambda>(ms, db).
     case map_of ms i of
       Some m \<Rightarrow> if note_server_id m server then Some (m, db) else None
     | None \<Rightarrow>
         if lc_max_matches cfg \<le> int (length ms) then None
         else (case get_match_context (le_fail le i Read_context) i db of
             Inl _ \<Rightarrow> None
           | Inr (Some prior) \<Rightarrow> if mc_server_id prior \<noteq> server then None else Some (init_live_match cfg le i server db)
           | Inr None \<Rightarrow> Some (init_live_match cfg le i server db)))"

section \<open>Frames\<close>

definition fresh_step :: "live_env \<Rightarrow> telemetry_frame \<Rightarrow> fresh_state \<times> ('d, 'e, 'k) live_match \<times> live_db \<Rightarrow> fresh_state \<times> ('d, 'e, 'k) live_match \<times> live_db" where
  "fresh_step le f = (\<lambda>(s, m, db).
     let v = judge_frame (look_up_row (le_fail le) (lm_id m) db) (lm_book m) s f in
     (take_frame v f s,
      if v = Conflict then suspend_analysis le (Mark_conflict (frame_key f)) LiveSourceIdentityConflictReason (m, db) else (m, db)))"

definition fresh_live_frames :: "live_env \<Rightarrow> telemetry_frame list \<Rightarrow> ('d, 'e, 'k) live_match \<times> live_db \<Rightarrow>
    (telemetry_frame list \<times> frame_result) \<times> ('d, 'e, 'k) live_match \<times> live_db" where
  "fresh_live_frames le frames = (\<lambda>(m, db).
     let (s, m, db) = fold (fresh_step le) (batch_order frames) (fresh_start (lm_book m), m, db)
     in ((fs_kept s, fs_result s), m, db))"

record roster_state =
  rs_ctx :: match_context
  rs_kept :: "telemetry_frame list"
  rs_rejected :: int
  rs_changed :: bool

definition roster_step :: "int \<Rightarrow> telemetry_frame \<Rightarrow> roster_state \<Rightarrow> roster_state" where
  "roster_step cap f s =
     (let mc = rs_ctx s; new = (fr_player_id f \<notin> set (mc_player_ids mc)) in
      if new \<and> cap \<le> int (length (mc_player_ids mc)) then s\<lparr>rs_rejected := rs_rejected s + 1\<rparr>
      else
        let mc = (if new then mc\<lparr>mc_player_ids := sort (mc_player_ids mc @ [fr_player_id f])\<rparr> else mc);
            team = normalize_team (fr_team f);
            mc = (if team \<noteq> [] then mc\<lparr>mc_team_assignments := AList.update (fr_player_id f) team (mc_team_assignments mc)\<rparr> else mc)
        in s\<lparr>rs_ctx := mc, rs_kept := rs_kept s @ [f], rs_changed := rs_changed s \<or> new\<rparr>)"

definition register_players :: "int \<Rightarrow> telemetry_frame list \<Rightarrow> match_context \<Rightarrow> roster_state" where
  "register_players cap frames mc = fold (roster_step cap) frames \<lparr>rs_ctx = mc, rs_kept = [], rs_rejected = 0, rs_changed = False\<rparr>"

definition raw_for :: "int \<Rightarrow> string \<Rightarrow> telemetry_frame list \<Rightarrow> (int, string) gomap" where
  "raw_for idx raw frames = (if raw \<noteq> [] \<and> list_ex (\<lambda>f. fr_frame_index f = idx) frames then [(idx, raw)] else [])"

definition assemble_ticks :: "live_env \<Rightarrow> telemetry_frame list \<Rightarrow> ('d, 'e, 'k) live_match \<times> live_db \<Rightarrow> ('d, 'e, 'k) live_match \<times> live_db" where
  "assemble_ticks le frames = (\<lambda>(m, db).
     let (ready, held) = split_closed_ticks (lm_pending m @ frames); m = m\<lparr>lm_pending := held\<rparr>
     in if ready \<noteq> [] then process_locked le ready (m, db) else (m, db))"

text \<open>The accepted frames of a batch: stored first, then counted, then handed on tick by tick.\<close>

definition store_and_process :: "('d, 'e, 'k) live_config \<Rightarrow> live_env \<Rightarrow> (int, string) gomap \<Rightarrow> telemetry_frame list \<Rightarrow> frame_result \<Rightarrow>
    ('d, 'e, 'k) live_match \<times> live_db \<Rightarrow> frame_result \<times> ('d, 'e, 'k) live_match \<times> live_db" where
  "store_and_process cfg le raw frames r = (\<lambda>(m, db).
     case store_telemetry_frames (le_fail le) (le_now le) (lm_id m) frames raw db of
       (None, db) \<Rightarrow> (r\<lparr>rejected := rejected r + int (length frames)\<rparr>, m, db)
     | (Some n, db) \<Rightarrow>
         let t = lm_tallies m; dup = int (length frames) - n;
             m = m\<lparr>lm_tallies := t\<lparr>ta_rows_stored := ta_rows_stored t + n\<rparr>\<rparr>;
             r = r\<lparr>accepted := accepted r + n, ignored := (if 0 < dup then ignored r + dup else ignored r)\<rparr>;
             (m, db) = assemble_ticks le frames (m\<lparr>lm_book := note_stored frames (lm_book m)\<rparr>, db)
         in (r, if lc_persist_interval cfg \<le> time_sub (le_now le) (lm_last_persist m) then persist_context le 1 (m, db) else (m, db)))"

definition take_batch :: "('d, 'e, 'k) live_config \<Rightarrow> live_env \<Rightarrow> telemetry_frame list \<Rightarrow> string \<Rightarrow>
    ('d, 'e, 'k) live_match \<times> live_db \<Rightarrow> frame_result \<times> ('d, 'e, 'k) live_match \<times> live_db" where
  "take_batch cfg le input raw = (\<lambda>(m, db).
     let ((frames, r), m, db) = fresh_live_frames le input (m\<lparr>lm_last_activity := le_now le\<rparr>, db) in
     if frames = [] then (r, m, db)
     else
       let rs = register_players (lc_max_players cfg) frames (lm_ctx m);
           m = m\<lparr>lm_ctx := rs_ctx rs\<rparr>;
           r = r\<lparr>rejected := rejected r + rs_rejected rs\<rparr>
       in if rs_kept rs = [] then (r, m, db)
          else
            let db = (if rs_changed rs \<and> lm_incomplete m
                  then mark_incomplete (le_fail le (lm_id m) Mark_roster) (lm_id m) (mc_player_ids (lm_ctx m)) (su_reason (lm_suspension m)) db
                  else db)
            in store_and_process cfg le (raw_for (fr_frame_index (hd input)) raw (rs_kept rs)) (rs_kept rs) r (m, db))"

definition handle_frames :: "('d, 'e, 'k) live_config \<Rightarrow> live_env \<Rightarrow> string \<Rightarrow> string \<Rightarrow> telemetry_frame list \<Rightarrow> string \<Rightarrow>
    ('d, 'e, 'k) live_state \<Rightarrow> frame_result \<times> ('d, 'e, 'k) live_state" where
  "handle_frames cfg le i server frames raw = (\<lambda>(ms, db).
     if frames = [] then (no_frames, ms, db)
     else case get_or_create_live cfg le i server (ms, db) of
       None \<Rightarrow> (no_frames\<lparr>rejected := int (length frames)\<rparr>, ms, db)
     | Some st \<Rightarrow> let (r, m, db) = take_batch cfg le frames raw st in (r, AList.update i m ms, db))"

section \<open>Control messages and the end of a match\<close>

definition create_review_cases :: "live_env \<Rightarrow> (string, string) gomap \<Rightarrow> ('d, 'e, 'k) live_match \<times> live_db \<Rightarrow> review_case list \<times> live_db" where
  "create_review_cases le names = (\<lambda>(m, db).
     let scores = get_all_scores (lm_scorer m) in
     if lm_incomplete m \<or> scores = [] then ([], db)
     else
       let candidates = build_cases (le_g le) (le_now le) (le_rid le) (Some (lm_ctx m)) (lm_segment_events m) scores
             (levels (lm_scorer m)) (default_options\<lparr>opt_names := Some names\<rparr>);
           ((ok, _), cs) = create_cases (\<lambda>c. if le_fail le (lm_id m) (Write_case c) then Some ''store'' else None) (le_now le) candidates (db_cases db)
       in (ok, db\<lparr>db_cases := cs\<rparr>))"

definition finish_pipeline :: "live_env \<Rightarrow> ('d, 'e, 'k) live_match \<times> live_db \<Rightarrow> ('d, 'e, 'k) live_match \<times> live_db" where
  "finish_pipeline le = (\<lambda>(m, db).
     if lm_initialized m \<and> \<not> lm_incomplete m then
       let (p, r) = finalize (le_env le) (lm_ctx m) (lm_pipeline m);
           (ok, m, db) = persist_derived le True r (m\<lparr>lm_pipeline := p\<rparr>, db)
       in if ok then record_result le True r (m, db) else (m, db)
     else (m, db))"

definition finalize_locked :: "('d, 'e, 'k) live_config \<Rightarrow> live_env \<Rightarrow> ('d, 'e, 'k) live_match \<times> live_db \<Rightarrow> review_case list \<times> ('d, 'e, 'k) live_match \<times> live_db" where
  "finalize_locked cfg le = (\<lambda>(m, db).
     if lm_ended m then ([], m, db)
     else
       let m = m\<lparr>lm_ended := True\<rparr>;
           (m, db) = (if lm_pending m \<noteq> [] then (let (m, db) = process_locked le (lm_pending m) (m, db) in (m\<lparr>lm_pending := []\<rparr>, db)) else (m, db));
           (m, db) = persist_context le 2 (finish_pipeline le (m, db));
           (ok, db) = create_review_cases le (lc_names cfg) (m, db);
           mine = sort (map rc_player_id ok);
           flagged = sort (mine @ remdups (filter (\<lambda>p. p \<notin> set mine) (lm_prior_flagged m)));
           t = lm_tallies m
       in (ok, m, store_match_summary (le_fail le (lm_id m) Write_summary) (lm_id m)
            \<lparr>sr_map = mc_map (lm_ctx m), sr_game_mode = mc_game_mode (lm_ctx m), sr_is_ranked = mc_is_ranked (lm_ctx m),
             sr_start_time = lm_start_time m, sr_duration = match_duration (le_now le) m, sr_frame_count = ta_frame_count t,
             sr_total_detections = lm_prior_detections m + ta_total_events t, sr_flagged = flagged\<rparr> db))"

definition end_live_match :: "('d, 'e, 'k) live_config \<Rightarrow> live_env \<Rightarrow> string \<Rightarrow> string option \<Rightarrow> ('d, 'e, 'k) live_state \<Rightarrow> review_case list \<times> ('d, 'e, 'k) live_state" where
  "end_live_match cfg le i source = (\<lambda>(ms, db).
     case map_of ms i of
       None \<Rightarrow> ([], ms, db)
     | Some m \<Rightarrow>
         if (case source of None \<Rightarrow> False | Some s \<Rightarrow> \<not> note_server_id m s) then ([], ms, db)
         else let (ok, _, db) = finalize_locked cfg le (m, db) in (ok, AList.delete i ms, db))"

record control_message =
  cm_type :: string
  cm_match_id :: string
  cm_server_id :: string
  cm_map :: string
  cm_game_mode :: string
  cm_is_private :: bool
  cm_teams :: "(string, string) gomap"

definition join_team :: "int \<Rightarrow> string \<times> string \<Rightarrow> match_context \<Rightarrow> match_context" where
  "join_team cap = (\<lambda>(p, team) mc.
     let t = normalize_team team; new = (p \<notin> set (mc_player_ids mc)) in
     if t = [] \<or> new \<and> cap \<le> int (length (mc_player_ids mc)) then mc
     else mc\<lparr>mc_player_ids := (if new then mc_player_ids mc @ [p] else mc_player_ids mc),
             mc_team_assignments := AList.update p t (mc_team_assignments mc)\<rparr>)"

definition start_match :: "('d, 'e, 'k) live_config \<Rightarrow> control_message \<Rightarrow> match_context \<Rightarrow> match_context" where
  "start_match cfg msg mc =
     (let mc = (if cm_game_mode msg \<noteq> [] then mc\<lparr>mc_game_mode := cm_game_mode msg\<rparr> else mc);
          mc = (if cm_map msg \<noteq> [] then mc\<lparr>mc_map := cm_map msg\<rparr> else mc);
          mc = fold (join_team (lc_max_players cfg)) (sort_key fst (cm_teams msg)) (mc\<lparr>mc_is_private := cm_is_private msg\<rparr>)
      in mc\<lparr>mc_player_ids := sort (mc_player_ids mc)\<rparr>)"

definition handle_control :: "('d, 'e, 'k) live_config \<Rightarrow> live_env \<Rightarrow> control_message \<Rightarrow> ('d, 'e, 'k) live_state \<Rightarrow> ('d, 'e, 'k) live_state" where
  "handle_control cfg le msg st =
     (if cm_type msg = ''match_start'' then
        (case get_or_create_live cfg le (cm_match_id msg) (cm_server_id msg) st of
           None \<Rightarrow> st
         | Some (m, db) \<Rightarrow>
             let (m, db) = persist_context le 3 (m\<lparr>lm_ctx := start_match cfg msg (lm_ctx m), lm_last_activity := le_now le\<rparr>, db)
             in (AList.update (cm_match_id msg) m (fst st), db))
      else if cm_type msg = ''match_end'' then snd (end_live_match cfg le (cm_match_id msg) (Some (cm_server_id msg)) st)
      else st)"

definition end_all :: "('d, 'e, 'k) live_config \<Rightarrow> live_env \<Rightarrow> string list \<Rightarrow> ('d, 'e, 'k) live_state \<Rightarrow> ('d, 'e, 'k) live_state" where
  "end_all cfg le ids st = fold (\<lambda>i st. snd (end_live_match cfg le i None st)) ids st"

definition cleanup_stale :: "('d, 'e, 'k) live_config \<Rightarrow> live_env \<Rightarrow> duration \<Rightarrow> ('d, 'e, 'k) live_state \<Rightarrow> ('d, 'e, 'k) live_state" where
  "cleanup_stale cfg le max_idle st =
     end_all cfg le (sort (map fst (filter (\<lambda>(_, m). lm_last_activity m < le_now le - max_idle) (fst st)))) st"

definition close_all :: "('d, 'e, 'k) live_config \<Rightarrow> live_env \<Rightarrow> ('d, 'e, 'k) live_state \<Rightarrow> ('d, 'e, 'k) live_state" where
  "close_all cfg le st = end_all cfg le (sort (map fst (fst st))) st"

section \<open>Queries\<close>

definition get_match_scores :: "string \<Rightarrow> ('d, 'e, 'k) live_state \<Rightarrow> (string, suspicion_score) gomap option" where
  "get_match_scores i st = (case map_of (fst st) i of None \<Rightarrow> None
     | Some m \<Rightarrow> if lm_incomplete m then None else Some (get_all_scores (lm_scorer m)))"

definition get_match_analysis_status :: "string \<Rightarrow> ('d, 'e, 'k) live_state \<Rightarrow> suspension option" where
  "get_match_analysis_status i st = map_option lm_suspension (map_of (fst st) i)"

definition incomplete_analysis_count :: "('d, 'e, 'k) live_state \<Rightarrow> nat" where
  "incomplete_analysis_count st = length (filter (\<lambda>(_, m). lm_incomplete m) (fst st))"

definition active_match_count :: "('d, 'e, 'k) live_state \<Rightarrow> nat" where
  "active_match_count st = length (fst st)"

definition set_limits :: "int \<Rightarrow> int \<Rightarrow> ('d, 'e, 'k) live_config \<Rightarrow> ('d, 'e, 'k) live_config" where
  "set_limits match_cap player_cap cfg =
     (let cfg = (if 0 < match_cap then cfg\<lparr>lc_max_matches := match_cap\<rparr> else cfg)
      in if 0 < player_cap then cfg\<lparr>lc_max_players := player_cap\<rparr> else cfg)"

definition set_persist_interval :: "duration \<Rightarrow> ('d, 'e, 'k) live_config \<Rightarrow> ('d, 'e, 'k) live_config" where
  "set_persist_interval d cfg = (if 0 < d then cfg\<lparr>lc_persist_interval := d\<rparr> else cfg)"

section \<open>A small server\<close>

definition sample_live_config :: "(unit, unit, unit) live_config" where
  "sample_live_config = \<lparr>lc_max_matches = DefaultMaxMatches, lc_max_players = 2, lc_persist_interval = DefaultPersistInterval,
     lc_physics = default_physics, lc_pipeline = sample_pipeline_config, lc_detectors = [sample_detector],
     lc_names = [(''THROW_001'', ''Throw speed'')], lc_extractor = sample_extractor, lc_scorer = sample_config\<rparr>"

definition sample_live_env :: live_env where
  "sample_live_env = \<lparr>le_env = sample_env, le_now = 1000 * second, le_fail = (\<lambda>_ _. False), le_g = (\<lambda>_. []), le_rid = id\<rparr>"

definition live_frame :: "string \<Rightarrow> int \<Rightarrow> telemetry_frame" where
  "live_frame p n = sample_frame\<lparr>fr_player_id := p, fr_frame_index := n, fr_timestamp := f_of_int n, fr_reported_velocity := None,
     fr_right_hand := 0\<rparr>"

definition sample_batch :: "telemetry_frame list" where
  "sample_batch = [live_frame ''p2'' 1, live_frame ''p1'' 1]"


end
