(* ===== verification/Live_Facts.thy ===== *)
theory Live_Facts
  imports Live
begin

text \<open>
  What the live ingest guarantees, whatever the producers send and whichever store calls fail. A run
  is a sequence of handler calls (\<open>live_call\<close>), a server restart among them: the store survives it, the
  live matches do not.

  \<open>stage\<close> is the contract every operation on one match keeps: it leaves the store's rows of the other
  matches alone, never takes back a telemetry row, a source binding or a suspension marker, and writes
  no derived result once the match is suspended. The handlers are compositions of stages, and the
  properties of runs are invariants of the machine their calls make.
\<close>

section \<open>Calls\<close>

datatype live_call = Frames string string "telemetry_frame list" string | Control control_message
  | End string | Cleanup duration | Close | Restart

fun live_step :: "('d, 'e, 'k) live_config \<Rightarrow> live_env \<times> live_call \<Rightarrow> ('d, 'e, 'k) live_state \<Rightarrow> ('d, 'e, 'k) live_state" where
  "live_step cfg (le, Frames i server fs raw) st = snd (handle_frames cfg le i server fs raw st)"
| "live_step cfg (le, Control msg) st = handle_control cfg le msg st"
| "live_step cfg (le, End i) st = snd (end_live_match cfg le i None st)"
| "live_step cfg (le, Cleanup d) st = cleanup_stale cfg le d st"
| "live_step cfg (le, Close) st = close_all cfg le st"
| "live_step cfg (le, Restart) st = ([], snd st)"

section \<open>Stages\<close>

definition derived_of :: "string \<Rightarrow> live_db \<Rightarrow> detection_event list \<times> suspicion_score list" where
  "derived_of i db = (map snd (filter (\<lambda>x. fst x = i) (db_events db)), map snd (filter (\<lambda>x. fst x = i) (db_scores db)))"

definition same_match :: "live_db \<Rightarrow> live_db \<Rightarrow> string \<Rightarrow> bool" where
  "same_match db db' j \<longleftrightarrow> rows_of j db' = rows_of j db \<and> map_of (db_contexts db') j = map_of (db_contexts db) j \<and>
     suspension_reason j db' = suspension_reason j db \<and> derived_of j db' = derived_of j db"

definition source_of :: "string \<Rightarrow> live_db \<Rightarrow> string option" where
  "source_of i db = map_option (mc_server_id \<circ> fst) (map_of (db_contexts db) i)"

definition keeps_rows :: "string \<Rightarrow> live_db \<Rightarrow> live_db \<Rightarrow> bool" where
  "keeps_rows i db db' \<longleftrightarrow> (\<forall>k r. row_at k (rows_of i db) = Some r \<longrightarrow> row_at k (rows_of i db') = Some r)"

definition stage :: "('d, 'e, 'k) live_match \<times> live_db \<Rightarrow> ('d, 'e, 'k) live_match \<times> live_db \<Rightarrow> bool" where
  "stage = (\<lambda>(m, db) (m', db').
     lm_id m' = lm_id m \<and> mc_server_id (lm_ctx m') = mc_server_id (lm_ctx m) \<and> (lm_incomplete m \<longrightarrow> lm_incomplete m') \<and>
     (\<forall>j. j \<noteq> lm_id m \<longrightarrow> same_match db db' j) \<and> keeps_rows (lm_id m) db db' \<and>
     source_of (lm_id m) db' \<in> {source_of (lm_id m) db, Some (mc_server_id (lm_ctx m))} \<and>
     (suspension_reason (lm_id m) db \<noteq> [] \<longrightarrow> suspension_reason (lm_id m) db' \<noteq> []) \<and>
     (lm_incomplete m \<longrightarrow> derived_of (lm_id m) db' = derived_of (lm_id m) db))"

lemma rows_of_upd [simp]:
  "rows_of j (db\<lparr>db_ticks := a\<rparr>) = rows_of j db" "rows_of j (db\<lparr>db_contexts := c\<rparr>) = rows_of j db"
  "rows_of j (db\<lparr>db_summaries := d\<rparr>) = rows_of j db" "rows_of j (db\<lparr>db_cases := e\<rparr>) = rows_of j db"
  "rows_of j (db\<lparr>db_events := f, db_scores := g\<rparr>) = rows_of j db"
  by (simp_all add: rows_of_def)

lemma suspension_reason_upd [simp]:
  "suspension_reason j (db\<lparr>db_rows := r, db_ticks := a\<rparr>) = suspension_reason j db"
  "suspension_reason j (db\<lparr>db_contexts := c\<rparr>) = suspension_reason j db"
  "suspension_reason j (db\<lparr>db_summaries := d\<rparr>) = suspension_reason j db"
  "suspension_reason j (db\<lparr>db_cases := e\<rparr>) = suspension_reason j db"
  "suspension_reason j (db\<lparr>db_events := f, db_scores := g\<rparr>) = suspension_reason j db"
  by (simp_all add: suspension_reason_def)

lemma derived_of_upd [simp]:
  "derived_of j (db\<lparr>db_rows := r, db_ticks := a\<rparr>) = derived_of j db"
  "derived_of j (db\<lparr>db_contexts := c\<rparr>) = derived_of j db"
  "derived_of j (db\<lparr>db_summaries := d\<rparr>) = derived_of j db"
  "derived_of j (db\<lparr>db_cases := e\<rparr>) = derived_of j db"
  by (simp_all add: derived_of_def)

lemma same_match_refl [simp]: "same_match db db j"
  by (simp add: same_match_def)

lemma stage_refl [simp]: "stage x x"
  by (cases x) (simp add: stage_def keeps_rows_def)

lemma same_match_trans: "same_match a b j \<Longrightarrow> same_match b c j \<Longrightarrow> same_match a c j"
  by (simp add: same_match_def)

lemma keeps_rows_trans: "keeps_rows i a b \<Longrightarrow> keeps_rows i b c \<Longrightarrow> keeps_rows i a c"
  by (simp add: keeps_rows_def)

lemma stage_trans:
  assumes "stage x y" "stage y z"
  shows "stage x z"
proof -
  obtain m db m1 db1 m2 db2 where e: "x = (m, db)" "y = (m1, db1)" "z = (m2, db2)" by (cases x; cases y; cases z)
  note s1 = assms(1) [unfolded e stage_def prod.case] and s2 = assms(2) [unfolded e stage_def prod.case]
  have i: "lm_id m1 = lm_id m" "mc_server_id (lm_ctx m1) = mc_server_id (lm_ctx m)" using s1 by simp_all
  have "same_match db db2 j" if "j \<noteq> lm_id m" for j
    using s1 s2 that i same_match_trans [of db db1 j db2] by simp
  moreover have "keeps_rows (lm_id m) db db2"
    using s1 s2 i keeps_rows_trans [of "lm_id m" db db1 db2] by simp
  moreover have "source_of (lm_id m) db2 \<in> {source_of (lm_id m) db, Some (mc_server_id (lm_ctx m))}"
    using s1 s2 i by (metis insert_iff singletonD)
  ultimately show ?thesis
    using s1 s2 i unfolding e stage_def prod.case by simp
qed

text \<open>A stage that stores no rows and leaves the bookkeeping alone.\<close>

definition quiet :: "('d, 'e, 'k) live_match \<times> live_db \<Rightarrow> ('d, 'e, 'k) live_match \<times> live_db \<Rightarrow> bool" where
  "quiet = (\<lambda>(m, db) (m', db'). stage (m, db) (m', db') \<and> db_rows db' = db_rows db \<and> lm_book m' = lm_book m \<and> lm_ended m' = lm_ended m)"

lemma quiet_refl [simp]: "quiet x x"
  by (cases x) (simp add: quiet_def)

lemma quiet_trans: "quiet x y \<Longrightarrow> quiet y z \<Longrightarrow> quiet x z"
  by (cases x; cases y; cases z) (auto simp: quiet_def intro: stage_trans)

text \<open>Changes of the match alone.\<close>

lemma quiet_match:
  assumes "lm_id m' = lm_id m" "mc_server_id (lm_ctx m') = mc_server_id (lm_ctx m)" "lm_suspension m' = lm_suspension m"
    "lm_book m' = lm_book m" "lm_ended m' = lm_ended m"
  shows "quiet (m, db) (m', db)"
  using assms by (simp add: quiet_def stage_def keeps_rows_def)

lemma suspension_reason_gz: "suspension_reason i db \<noteq> [] \<longleftrightarrow>
    (\<exists>p ls. (p, ls) \<in> set (gz [] (db_limitations db) i) \<and> (LiveAnalysisPersistenceFailure \<in> set ls \<or> LiveAnalysisIdentityConflict \<in> set ls))"
  by (force simp: suspension_reason_def LivePersistenceFailureReason_def LiveSourceIdentityConflictReason_def)

lemma update_new: "map_of m k = None \<Longrightarrow> AList.update k v m = m @ [(k, v)]"
  by (induction m) (auto split: if_splits)

lemma mem_fold_roster:
  "x \<in> set m \<Longrightarrow> x \<in> set (fold (\<lambda>p m. if map_of m p = None then AList.update p [] m else m) roster m)"
  by (induction roster arbitrary: m) (simp_all add: update_new)

lemma mark_incomplete_other [simp]:
  "db_rows (mark_incomplete b i roster reason db) = db_rows db"
  "db_contexts (mark_incomplete b i roster reason db) = db_contexts db"
  "db_events (mark_incomplete b i roster reason db) = db_events db"
  "db_scores (mark_incomplete b i roster reason db) = db_scores db"
  "db_cases (mark_incomplete b i roster reason db) = db_cases db"
  by (simp_all add: mark_incomplete_def Let_def split: option.split)

lemma mark_incomplete_elsewhere:
  assumes "j \<noteq> i"
  shows "suspension_reason j (mark_incomplete b i roster reason db) = suspension_reason j db"
proof -
  have "gz [] (db_limitations (mark_incomplete b i roster reason db)) j = gz [] (db_limitations db) j"
    using assms by (cases "limitation_of reason") (simp_all add: mark_incomplete_def Let_def)
  then show ?thesis unfolding suspension_reason_def by simp
qed

lemma mark_incomplete_mono:
  assumes "suspension_reason i db \<noteq> []"
  shows "suspension_reason i (mark_incomplete b i roster reason db) \<noteq> []"
proof (cases "limitation_of reason = None \<or> b")
  case True
  then show ?thesis using assms by (auto simp: mark_incomplete_def split: option.split)
next
  case False
  then obtain l where l: "limitation_of reason = Some l" and b: "\<not> b" by auto
  obtain p ls where m: "(p, ls) \<in> set (gz [] (db_limitations db) i)"
    and bad: "LiveAnalysisPersistenceFailure \<in> set ls \<or> LiveAnalysisIdentityConflict \<in> set ls"
    using assms by (auto simp: suspension_reason_gz)
  have "(p, if l \<in> set ls then ls else ls @ [l]) \<in> set (gz [] (db_limitations (mark_incomplete b i roster reason db)) i)"
    using mem_fold_roster [OF m, of roster] l b by (force simp: mark_incomplete_def gmap_vals_def Let_def)
  moreover have "LiveAnalysisPersistenceFailure \<in> set (if l \<in> set ls then ls else ls @ [l]) \<or>
      LiveAnalysisIdentityConflict \<in> set (if l \<in> set ls then ls else ls @ [l])"
    using bad by auto
  ultimately show ?thesis unfolding suspension_reason_gz by blast
qed

lemma same_matchI:
  assumes "db_rows db' = db_rows db" "db_contexts db' = db_contexts db" "suspension_reason j db' = suspension_reason j db"
    "db_events db' = db_events db" "db_scores db' = db_scores db"
  shows "same_match db db' j"
  using assms by (simp add: same_match_def rows_of_def derived_of_def)

lemma mark_quiet: "quiet (m, db) (m, mark_incomplete b (lm_id m) roster reason db)"
  by (auto simp: quiet_def stage_def keeps_rows_def rows_of_def source_of_def derived_of_def mark_incomplete_elsewhere mark_incomplete_mono
      intro!: same_matchI)

lemma suspend_quiet: "quiet (m, db) (suspend_analysis le site reason (m, db))"
proof -
  have "quiet (m, db) (m, snd (suspend_analysis le site reason (m, db)))"
    using mark_quiet by (simp add: suspend_analysis_def Let_def)
  then show ?thesis by (simp add: suspend_analysis_def Let_def quiet_def stage_def)
qed

lemma suspend_incomplete [simp]: "lm_incomplete (fst (suspend_analysis le site reason x))"
  by (cases x) (simp add: suspend_analysis_def Let_def)

lemma note_snapshots [simp]:
  "lm_ctx (fold note_snapshot scs m) = lm_ctx m" "lm_suspension (fold note_snapshot scs m) = lm_suspension m"
  "lm_book (fold note_snapshot scs m) = lm_book m" "lm_ended (fold note_snapshot scs m) = lm_ended m"
  "lm_pending (fold note_snapshot scs m) = lm_pending m"
  by (induction scs arbitrary: m) (simp_all add: note_snapshot_def)

lemma write_quiet:
  assumes "\<not> lm_incomplete m"
  shows "quiet (m, db) (m, snd (write_live_analysis b (lm_id m) evs scs db))"
  using assms by (auto simp: quiet_def stage_def keeps_rows_def rows_of_def source_of_def write_live_analysis_def derived_of_def
      same_match_def suspension_reason_def comp_def)

lemma persist_derived_quiet: "quiet (m, db) (snd (persist_derived le final r (m, db)))"
proof (cases "lm_incomplete m")
  case False
  obtain ok db' where w: "(if mr_events r \<noteq> [] \<or> snapshots le final m r \<noteq> []
      then write_live_analysis (le_fail le (lm_id m) (Write_analysis final)) (lm_id m) (mr_events r) (snapshots le final m r) db
      else (True, db)) = (ok, db')" by force
  have q: "quiet (m, db) (m, db')"
    using write_quiet [OF False] w by (metis quiet_refl snd_conv)
  show ?thesis
  proof (cases ok)
    case True
    then have e: "snd (persist_derived le final r (m, db)) =
        (fold note_snapshot (snapshots le final m r) (m\<lparr>lm_segment_events := lm_segment_events m @ mr_events r\<rparr>), db')"
      using False by (simp only: persist_derived_def Let_def prod.case w if_False not_True_eq_False snd_conv)
    show ?thesis unfolding e by (rule quiet_trans [OF q]) (rule quiet_match; simp)
  next
    case no: False
    then have e: "snd (persist_derived le final r (m, db)) =
        suspend_analysis le (Mark_derived final) LivePersistenceFailureReason (m, db')"
      using False by (simp only: persist_derived_def Let_def prod.case w if_False if_True not_False_eq_True snd_conv)
    show ?thesis unfolding e by (rule quiet_trans [OF q suspend_quiet])
  qed
qed (simp add: persist_derived_def)

lemma record_result_quiet: "quiet (m, db) (record_result le final r (m, db))"
proof -
  let ?y = "if le_fail le (lm_id m) (Merge_coverage final)
     then suspend_analysis le (Mark_merge final) LivePersistenceFailureReason (m, db) else (m, db)"
  obtain m' db' where y: "?y = (m', db')" by force
  have "quiet (m, db) (m', db')" using suspend_quiet [of m db] by (simp flip: y)
  moreover have "record_result le final r (m, db) = (m'\<lparr>lm_tallies := fold count_event (mr_events r) (lm_tallies m')\<rparr>, db')"
    by (simp only: record_result_def prod.case y Let_def)
  moreover have "quiet (m', db') (m'\<lparr>lm_tallies := fold count_event (mr_events r) (lm_tallies m')\<rparr>, db')"
    by (rule quiet_match) simp_all
  ultimately show ?thesis by (metis quiet_trans)
qed

lemma process_locked_quiet: "quiet (m, db) (process_locked le frames (m, db))"
proof (cases "lm_incomplete m")
  case False
  obtain c p r where pm: "process_match (le_env le) (lm_ctx m) frames (lm_pipeline m) = (c, p, r)" by (cases "process_match (le_env le) (lm_ctx m) frames (lm_pipeline m)") auto
  define m1 where "m1 = m\<lparr>lm_ctx := with_rules (lm_pipeline m) (lm_ctx m), lm_pipeline := p, lm_initialized := True\<rparr>"
  define m2 where "m2 = m1\<lparr>lm_tallies := (lm_tallies m1)\<lparr>ta_frame_count := ta_frame_count (lm_tallies m1) + mr_frames_processed r,
      ta_invalid := ta_invalid (lm_tallies m1) + mr_invalid_frames r\<rparr>\<rparr>"
  have q: "quiet (m, db) (m1, db)" "quiet (m, db) (m2, db)"
    by (rule quiet_match; simp add: m1_def m2_def with_rules_def)+
  obtain ok m3 db3 where pd: "persist_derived le False r (m2, db) = (ok, m3, db3)" by (cases "persist_derived le False r (m2, db)") auto
  have q3: "quiet (m, db) (m3, db3)"
    using quiet_trans [OF q(2)] persist_derived_quiet [of m2 db le False r] pd by simp
  have "process_locked le frames (m, db) = (if c then (m1, db) else if ok then record_result le False r (m3, db3) else (m3, db3))"
    using False pd by (simp add: process_locked_def pm m1_def m2_def Let_def)
  then show ?thesis using q(1) q3 quiet_trans [OF q3 record_result_quiet] by simp
qed (simp add: process_locked_def)

lemma context_quiet:
  assumes "mc_server_id (fst v) = mc_server_id (lm_ctx m)"
  shows "quiet (m, db) (m, db\<lparr>db_contexts := AList.update (lm_id m) v (db_contexts db)\<rparr>)"
  using assms by (cases v) (simp add: quiet_def stage_def keeps_rows_def source_of_def same_match_def update_conv')

lemma persist_context_quiet: "quiet (m, db) (persist_context le site (m, db))"
proof -
  define m1 where "m1 = m\<lparr>lm_ctx := (lm_ctx m)\<lparr>mc_duration := match_duration (le_now le) m\<rparr>\<rparr>"
  have q1: "quiet (m, db) (m1, db)" by (rule quiet_match) (simp_all add: m1_def)
  show ?thesis
  proof (cases "le_fail le (lm_id m1) (Write_context site)")
    case True
    then have "persist_context le site (m, db) = (m1, db)"
      by (simp add: persist_context_def store_match_context_def m1_def Let_def)
    then show ?thesis using q1 by simp
  next
    case False
    define v where "v = (lm_ctx m1, ta_frame_count (lm_tallies m1))"
    have e: "persist_context le site (m, db) =
        (m1\<lparr>lm_last_persist := le_now le\<rparr>, db\<lparr>db_contexts := AList.update (lm_id m1) v (db_contexts db)\<rparr>)"
      using False by (simp add: persist_context_def store_match_context_def m1_def v_def Let_def)
    show ?thesis unfolding e
    proof (rule quiet_trans [OF quiet_trans [OF q1 context_quiet]])
      show "quiet (m1, db\<lparr>db_contexts := AList.update (lm_id m1) v (db_contexts db)\<rparr>)
          (m1\<lparr>lm_last_persist := le_now le\<rparr>, db\<lparr>db_contexts := AList.update (lm_id m1) v (db_contexts db)\<rparr>)"
        by (rule quiet_match) simp_all
    qed (simp add: v_def)
  qed
qed

section \<open>Storing rows\<close>

lemma row_at_insert_row: "row_at k (insert_row now f rows) =
    (case row_at k rows of Some r \<Rightarrow> Some r
     | None \<Rightarrow> if k = frame_key f then Some \<lparr>tr_key = frame_key f, tr_timestamp = fr_timestamp f, tr_doc = canonical f, tr_ingested = now\<rparr> else None)"
proof -
  have "find P (xs @ ys) = (case find P xs of Some r \<Rightarrow> Some r | None \<Rightarrow> find P ys)" for P :: "telemetry_row \<Rightarrow> bool" and xs ys
    by (induction xs) auto
  then show ?thesis by (auto simp: insert_row_def row_at_def split: option.split)
qed

lemma row_at_insert_rows_mono: "row_at k rows = Some r \<Longrightarrow> row_at k (insert_rows now frames rows) = Some r"
  unfolding insert_rows_def by (induction frames arbitrary: rows) (simp_all add: row_at_insert_row)

lemma insert_rows_Cons: "insert_rows now (f # fs) rows = insert_rows now fs (insert_row now f rows)"
  by (simp add: insert_rows_def)

lemma length_insert_row: "length (insert_row now f rows) = length rows + (if row_at (frame_key f) rows = None then 1 else 0)"
  by (simp add: insert_row_def)

lemma length_insert_rows: "length rows \<le> length (insert_rows now fs rows) \<and> length (insert_rows now fs rows) \<le> length rows + length fs"
proof (induction fs arbitrary: rows)
  case (Cons f fs)
  then show ?case using Cons [of "insert_row now f rows"] by (simp add: insert_rows_Cons length_insert_row split: if_splits)
qed (simp add: insert_rows_def)

lemma insert_rows_all_new:
  assumes "length (insert_rows now fs rows) = length rows + length fs" "f \<in> set fs"
  shows "\<exists>r. row_at (frame_key f) (insert_rows now fs rows) = Some r \<and> tr_doc r = canonical f"
  using assms
proof (induction fs arbitrary: rows)
  case (Cons g fs)
  let ?rows = "insert_row now g rows"
  have new: "row_at (frame_key g) rows = None" and len: "length (insert_rows now fs ?rows) = length ?rows + length fs"
    using Cons.prems(1) length_insert_rows [of ?rows now fs] by (auto simp: insert_rows_Cons length_insert_row split: if_splits)
  show ?case
  proof (cases "f \<in> set fs")
    case True
    then show ?thesis using Cons.IH [OF len] by (simp add: insert_rows_Cons)
  next
    case False
    then have "f = g" using Cons.prems(2) by simp
    then show ?thesis
      using row_at_insert_rows_mono [of "frame_key g" ?rows _ now fs] by (simp add: insert_rows_Cons row_at_insert_row new)
  qed
qed simp

lemma insert_rows_keys: "tr_key ` set (insert_rows now fs rows) \<subseteq> tr_key ` set rows \<union> frame_key ` set fs"
proof (induction fs arbitrary: rows)
  case (Cons f fs)
  have "tr_key ` set (insert_row now f rows) \<subseteq> insert (frame_key f) (tr_key ` set rows)"
    by (auto simp: insert_row_def)
  then show ?case using Cons.IH [of "insert_row now f rows"] unfolding insert_rows_Cons list.set image_insert by blast
qed (simp add: insert_rows_def)

section \<open>Fresh frames\<close>

text \<open>The loop over a batch, without the suspensions, which do not influence it.\<close>

definition sift :: "(string \<times> int \<Rightarrow> lookup) \<Rightarrow> bookkeeping \<Rightarrow> telemetry_frame list \<Rightarrow> fresh_state \<Rightarrow> fresh_state" where
  "sift stored b fs s = fold (\<lambda>f s. take_frame (judge_frame stored b s f) f s) fs s"

lemma sift_simps [simp]: "sift stored b [] s = s"
  "sift stored b (f # fs) s = sift stored b fs (take_frame (judge_frame stored b s f) f s)"
  by (simp_all add: sift_def)

lemma suspend_fields [simp]:
  "lm_id (fst (suspend_analysis le site reason x)) = lm_id (fst x)" "lm_ctx (fst (suspend_analysis le site reason x)) = lm_ctx (fst x)"
  "lm_book (fst (suspend_analysis le site reason x)) = lm_book (fst x)" "lm_pending (fst (suspend_analysis le site reason x)) = lm_pending (fst x)"
  "lm_pipeline (fst (suspend_analysis le site reason x)) = lm_pipeline (fst x)"
  "db_rows (snd (suspend_analysis le site reason x)) = db_rows (snd x)"
  by (cases x; simp add: suspend_analysis_def Let_def)+

lemma look_up_row_cong: "db_rows db' = db_rows db \<Longrightarrow> look_up_row fail i db' = look_up_row fail i db"
  by (simp add: look_up_row_def rows_of_def fun_eq_iff)

lemma fresh_fold:
  assumes "fold (fresh_step le) fs (s, m, db) = (s', m', db')"
  shows "s' = sift (look_up_row (le_fail le) (lm_id m) db) (lm_book m) fs s \<and> quiet (m, db) (m', db') \<and>
    lm_ctx m' = lm_ctx m \<and> lm_pending m' = lm_pending m \<and> lm_pipeline m' = lm_pipeline m"
  using assms
proof (induction fs arbitrary: s m db)
  case (Cons f fs)
  let ?v = "judge_frame (look_up_row (le_fail le) (lm_id m) db) (lm_book m) s f"
  let ?x = "if ?v = Conflict then suspend_analysis le (Mark_conflict (frame_key f)) LiveSourceIdentityConflictReason (m, db) else (m, db)"
  obtain m1 db1 where x: "?x = (m1, db1)" by force
  have q: "quiet (m, db) (m1, db1)" using suspend_quiet [of m db] by (simp flip: x)
  have same: "lm_ctx m1 = lm_ctx m" "lm_pending m1 = lm_pending m" "lm_pipeline m1 = lm_pipeline m"
    using arg_cong [OF x, of fst] by (auto split: if_splits)
  have "fresh_step le f (s, m, db) = (take_frame ?v f s, m1, db1)"
    using x by (simp add: fresh_step_def Let_def)
  then have "fold (fresh_step le) fs (take_frame ?v f s, m1, db1) = (s', m', db')"
    using Cons.prems by simp
  from Cons.IH [OF this] show ?case
    using q same look_up_row_cong [of db1 db] by (auto simp: quiet_def intro: quiet_trans [unfolded quiet_def] stage_trans)
qed simp

lemma frames_counted_simps [simp]:
  "frames_counted no_frames = 0" "frames_counted (r\<lparr>ignored := ignored r + n\<rparr>) = frames_counted r + n"
  "frames_counted (r\<lparr>rejected := rejected r + n\<rparr>) = frames_counted r + n"
  by (simp_all add: frames_counted_def no_frames_def)

lemma take_frame_counts:
  "int (length (fs_kept (take_frame v f s))) + frames_counted (fs_result (take_frame v f s)) =
     int (length (fs_kept s)) + frames_counted (fs_result s) + 1"
  "accepted (fs_result (take_frame v f s)) = accepted (fs_result s)"
  by (cases v; simp add: take_frame_def Let_def)+

lemma sift_counts:
  "int (length (fs_kept (sift stored b fs s))) + frames_counted (fs_result (sift stored b fs s)) =
     int (length (fs_kept s)) + frames_counted (fs_result s) + int (length fs) \<and>
   accepted (fs_result (sift stored b fs s)) = accepted (fs_result s)"
  by (induction fs arbitrary: s) (simp_all add: take_frame_counts)

lemma judge_frame_result [simp]: "judge_frame stored b (s\<lparr>fs_result := r\<rparr>) = judge_frame stored b s"
proof -
  have "in_order (s\<lparr>fs_result := r\<rparr>) = in_order s" by (simp add: in_order_def fun_eq_iff)
  then show ?thesis by (simp only: fun_eq_iff judge_frame_def fresh_state.select_convs fresh_state.update_convs) simp
qed

lemma sift_ignores:
  assumes "list_all (\<lambda>f. judge_frame stored b s f = Ignore) fs"
  shows "sift stored b fs s = s\<lparr>fs_result := (fs_result s)\<lparr>ignored := ignored (fs_result s) + int (length fs)\<rparr>\<rparr>"
  using assms
proof (induction fs arbitrary: s)
  case (Cons f fs)
  let ?s = "s\<lparr>fs_result := (fs_result s)\<lparr>ignored := ignored (fs_result s) + 1\<rparr>\<rparr>"
  have t: "take_frame (judge_frame stored b s f) f s = ?s"
    using Cons.prems(1) by (simp add: take_frame_def Let_def)
  have "sift stored b fs ?s = ?s\<lparr>fs_result := (fs_result ?s)\<lparr>ignored := ignored (fs_result ?s) + int (length fs)\<rparr>\<rparr>"
    using Cons.prems by (intro Cons.IH) simp_all
  then show ?case by (simp add: t)
qed simp

text \<open>The kept frames come in the order of their indices, none before the newest frame the store held.\<close>

definition kept_in_order :: "int \<Rightarrow> fresh_state \<Rightarrow> bool" where
  "kept_in_order n s \<longleftrightarrow> n \<le> fs_last_index s \<and> sorted (map fr_frame_index (fs_kept s)) \<and>
     list_all (\<lambda>f. n \<le> fr_frame_index f \<and> fr_frame_index f \<le> fs_last_index s) (fs_kept s)"

lemma judge_keep_in_order: "judge_frame stored b s f = Keep \<Longrightarrow> in_order s f"
  by (auto simp: judge_frame_def compared_def Let_def split: if_splits option.splits lookup.splits)

lemma take_frame_in_order:
  assumes "kept_in_order n s"
  shows "kept_in_order n (take_frame (judge_frame stored b s f) f s)"
proof (cases "judge_frame stored b s f")
  case Keep
  then have "fs_last_index s \<le> fr_frame_index f" using judge_keep_in_order [OF Keep] by (simp add: in_order_def)
  with assms Keep show ?thesis
    by (fastforce simp: kept_in_order_def take_frame_def sorted_append list_all_iff)
qed (use assms in \<open>simp_all add: kept_in_order_def take_frame_def Let_def\<close>)

lemma sift_in_order: "kept_in_order n s \<Longrightarrow> kept_in_order n (sift stored b fs s)"
  by (induction fs arbitrary: s) (simp_all add: take_frame_in_order)

lemma sift_kept: "mset (fs_kept (sift stored b fs s)) \<subseteq># mset (fs_kept s) + mset fs"
proof (induction fs arbitrary: s)
  case (Cons f fs)
  let ?s = "take_frame (judge_frame stored b s f) f s"
  have "mset (fs_kept ?s) \<subseteq># mset (fs_kept s) + {#f#}"
    by (cases "judge_frame stored b s f") (simp_all add: take_frame_def Let_def)
  then have "mset (fs_kept ?s) + mset fs \<subseteq># mset (fs_kept s) + mset (f # fs)"
    using subset_mset.add_right_mono by fastforce
  then show ?case using Cons.IH [of ?s] subset_mset.order_trans by fastforce
qed simp

lemma batch_order_simps [simp]: "length (batch_order fs) = length fs" "mset (batch_order fs) = mset fs"
  by (simp_all add: batch_order_def)

lemma fresh_live_frames_spec:
  assumes "fresh_live_frames le frames (m, db) = ((kept, r), m', db')"
  shows "int (length kept) + frames_counted r = int (length frames) \<and> accepted r = 0 \<and>
    mset kept \<subseteq># mset frames \<and> sorted (map fr_frame_index kept) \<and> list_all (\<lambda>f. bk_last_index (lm_book m) \<le> fr_frame_index f) kept \<and>
    quiet (m, db) (m', db') \<and> lm_ctx m' = lm_ctx m \<and> lm_pending m' = lm_pending m \<and> lm_pipeline m' = lm_pipeline m"
proof -
  obtain s m1 db1 where f: "fold (fresh_step le) (batch_order frames) (fresh_start (lm_book m), m, db) = (s, m1, db1)"
    by (metis prod_cases3)
  then have e: "kept = fs_kept s" "r = fs_result s" "m' = m1" "db' = db1"
    using assms by (simp_all add: fresh_live_frames_def)
  note ff = fresh_fold [OF f]
  let ?stored = "look_up_row (le_fail le) (lm_id m) db" and ?b = "lm_book m"
  have s: "s = sift ?stored ?b (batch_order frames) (fresh_start ?b)" using ff by simp
  have "kept_in_order (bk_last_index ?b) (fresh_start ?b)" by (simp add: kept_in_order_def fresh_start_def)
  then have o: "kept_in_order (bk_last_index ?b) s" unfolding s by (rule sift_in_order)
  have "int (length kept) + frames_counted r = int (length frames) \<and> accepted r = 0"
    using sift_counts [of ?stored ?b "batch_order frames" "fresh_start ?b"]
    unfolding e s [symmetric] by (simp add: fresh_start_def no_frames_def frames_counted_def)
  moreover have "mset kept \<subseteq># mset frames"
    using sift_kept [of ?stored ?b "batch_order frames" "fresh_start ?b"] unfolding e s [symmetric] by (simp add: fresh_start_def)
  ultimately show ?thesis using ff o unfolding e by (auto simp: kept_in_order_def list_all_iff)
qed

section \<open>A batch\<close>

lemma roster_step_spec:
  "int (length (rs_kept (roster_step cap f s))) + rs_rejected (roster_step cap f s) = int (length (rs_kept s)) + rs_rejected s + 1"
  "mset (rs_kept (roster_step cap f s)) \<subseteq># mset (rs_kept s) + {#f#}"
  "mc_match_id (rs_ctx (roster_step cap f s)) = mc_match_id (rs_ctx s)"
  "mc_server_id (rs_ctx (roster_step cap f s)) = mc_server_id (rs_ctx s)"
  "int (length (mc_player_ids (rs_ctx (roster_step cap f s)))) \<le> max cap (int (length (mc_player_ids (rs_ctx s))))"
  by (auto simp: roster_step_def Let_def)

lemma roster_fold:
  "int (length (rs_kept (fold (roster_step cap) fs s))) + rs_rejected (fold (roster_step cap) fs s) =
     int (length (rs_kept s)) + rs_rejected s + int (length fs) \<and>
   mset (rs_kept (fold (roster_step cap) fs s)) \<subseteq># mset (rs_kept s) + mset fs \<and>
   mc_match_id (rs_ctx (fold (roster_step cap) fs s)) = mc_match_id (rs_ctx s) \<and>
   mc_server_id (rs_ctx (fold (roster_step cap) fs s)) = mc_server_id (rs_ctx s) \<and>
   int (length (mc_player_ids (rs_ctx (fold (roster_step cap) fs s)))) \<le> max cap (int (length (mc_player_ids (rs_ctx s))))"
proof (induction fs arbitrary: s)
  case (Cons f fs)
  let ?s = "roster_step cap f s"
  note st = roster_step_spec [of cap f s] and ih = Cons.IH [of ?s]
  have "mset (rs_kept ?s) + mset fs \<subseteq># mset (rs_kept s) + mset (f # fs)"
    using subset_mset.add_right_mono [OF st(2), of "mset fs"] by simp
  then have "mset (rs_kept (fold (roster_step cap) fs ?s)) \<subseteq># mset (rs_kept s) + mset (f # fs)"
    using ih subset_mset.order_trans by blast
  then show ?case using ih st(1,3-5) by auto
qed simp

lemma register_players_spec:
  "int (length (rs_kept (register_players cap fs mc))) + rs_rejected (register_players cap fs mc) = int (length fs)"
  "mset (rs_kept (register_players cap fs mc)) \<subseteq># mset fs"
  "mc_match_id (rs_ctx (register_players cap fs mc)) = mc_match_id mc"
  "mc_server_id (rs_ctx (register_players cap fs mc)) = mc_server_id mc"
  "int (length (mc_player_ids (rs_ctx (register_players cap fs mc)))) \<le> max cap (int (length (mc_player_ids mc)))"
  using roster_fold [of cap fs "\<lparr>rs_ctx = mc, rs_kept = [], rs_rejected = 0, rs_changed = False\<rparr>"]
  by (simp_all add: register_players_def)

lemma note_stored_index: "bk_last_index (note_stored fs b) = fold (\<lambda>f. max (fr_frame_index f)) fs (bk_last_index b)"
proof -
  have "bk_last_index (note_stored_frame f b) = max (fr_frame_index f) (bk_last_index b)" for f b
    by (auto simp: note_stored_frame_def Let_def max_def split: option.split)
  then show ?thesis unfolding note_stored_def by (induction fs arbitrary: b) simp_all
qed

lemma fold_max_bounds:
  "n \<le> fold (\<lambda>f. max (fr_frame_index f)) fs n \<and> (\<forall>f\<in>set fs. fr_frame_index f \<le> fold (\<lambda>f. max (fr_frame_index f)) fs n)"
proof (induction fs arbitrary: n)
  case (Cons f fs)
  show ?case using Cons.IH [of "max (fr_frame_index f) n"] by auto
qed simp

lemma note_stored_ge:
  "bk_last_index b \<le> bk_last_index (note_stored fs b) \<and> (\<forall>f\<in>set fs. fr_frame_index f \<le> bk_last_index (note_stored fs b))"
  unfolding note_stored_index by (rule fold_max_bounds)

lemma assemble_ticks_quiet: "quiet (m, db) (assemble_ticks le fs (m, db))"
proof -
  obtain ready held where s: "split_closed_ticks (lm_pending m @ fs) = (ready, held)" by force
  have q: "quiet (m, db) (m\<lparr>lm_pending := held\<rparr>, db)" by (rule quiet_match) simp_all
  show ?thesis
    using q quiet_trans [OF q process_locked_quiet] by (simp add: assemble_ticks_def s Let_def)
qed

text \<open>What a batch does to the store's rows and to the bookkeeping: some frames of it, \<open>fs\<close>, are stored.\<close>

definition stores :: "time \<Rightarrow> telemetry_frame list \<Rightarrow> ('d, 'e, 'k) live_match \<times> live_db \<Rightarrow> ('d, 'e, 'k) live_match \<times> live_db \<Rightarrow> bool" where
  "stores now fs = (\<lambda>(m, db) (m', db'). stage (m, db) (m', db') \<and> lm_ended m' = lm_ended m \<and>
     rows_of (lm_id m) db' = insert_rows now fs (rows_of (lm_id m) db) \<and> lm_book m' = note_stored fs (lm_book m))"

lemma quiet_stores: "quiet x y \<Longrightarrow> stores now [] x y"
  by (cases x; cases y) (simp add: quiet_def stores_def rows_of_def insert_rows_def note_stored_def)

lemma quiet_then_stores: "quiet x y \<Longrightarrow> stores now fs y z \<Longrightarrow> stores now fs x z"
proof -
  assume a: "quiet x y" "stores now fs y z"
  obtain m db m1 db1 m2 db2 where e: "x = (m, db)" "y = (m1, db1)" "z = (m2, db2)" by (cases x; cases y; cases z)
  have "lm_id m1 = lm_id m" using a(1) by (simp add: e quiet_def stage_def)
  then show ?thesis using a stage_trans [of x y z] by (simp add: e quiet_def stores_def rows_of_def)
qed

lemma stores_then_quiet: "stores now fs x y \<Longrightarrow> quiet y z \<Longrightarrow> stores now fs x z"
proof -
  assume a: "stores now fs x y" "quiet y z"
  obtain m db m1 db1 m2 db2 where e: "x = (m, db)" "y = (m1, db1)" "z = (m2, db2)" by (cases x; cases y; cases z)
  show ?thesis using a stage_trans [of x y z] by (simp add: e quiet_def stores_def rows_of_def)
qed

lemma write_rows_stage:
  assumes "store_telemetry_frames fail now (lm_id m) fs raw db = (Some n, db')" "lm_id m1 = lm_id m"
    "mc_server_id (lm_ctx m1) = mc_server_id (lm_ctx m)" "lm_suspension m1 = lm_suspension m" "lm_ended m1 = lm_ended m"
    "lm_book m1 = note_stored fs (lm_book m)"
  shows "stores now fs (m, db) (m1, db') \<and> n = int (length (rows_of (lm_id m) db')) - int (length (rows_of (lm_id m) db))"
proof (cases "fs = [] \<and> raw = []")
  case True
  then show ?thesis
    using assms by (simp add: store_telemetry_frames_def stores_def stage_def keeps_rows_def insert_rows_def note_stored_def)
next
  case False
  define rows' where "rows' = insert_rows now fs (rows_of (lm_id m) db)"
  obtain ticks where db': "db' = db\<lparr>db_rows := AList.update (lm_id m) rows' (db_rows db), db_ticks := ticks\<rparr>"
    and n: "n = int (length rows') - int (length (rows_of (lm_id m) db))"
    using assms(1) False by (auto simp: store_telemetry_frames_def Let_def rows'_def split: if_splits)
  have rows: "rows_of j db' = (if j = lm_id m then rows' else rows_of j db)" for j
    by (simp add: db' rows_of_def)
  have "stage (m, db) (m1, db')"
    using assms(2-4) row_at_insert_rows_mono rows
    by (simp add: stage_def keeps_rows_def same_match_def source_of_def db' rows'_def)
  then show ?thesis using assms(2,5,6) rows n by (simp add: stores_def rows'_def)
qed

lemma frames_counted_accept [simp]:
  "frames_counted (r\<lparr>accepted := a, ignored := b\<rparr>) = a + b + rejected r"
  by (simp add: frames_counted_def)

lemma store_and_process_spec:
  assumes "store_and_process cfg le raw fs r (m, db) = (r', m', db')"
  shows "\<exists>fs'. fs' \<in> {[], fs} \<and> stores (le_now le) fs' (m, db) (m', db') \<and>
    accepted r' = accepted r + int (length (rows_of (lm_id m) db')) - int (length (rows_of (lm_id m) db)) \<and>
    frames_counted r' = frames_counted r + int (length fs)"
proof (cases "store_telemetry_frames (le_fail le) (le_now le) (lm_id m) fs raw db")
  case (Pair o1 db1)
  show ?thesis
  proof (cases o1)
    case None
    then have "db1 = db" using Pair by (auto simp: store_telemetry_frames_def Let_def split: if_splits)
    then have "r' = r\<lparr>rejected := rejected r + int (length fs)\<rparr>" "m' = m" "db' = db"
      using assms by (simp_all add: store_and_process_def Pair None)
    then show ?thesis using quiet_stores [OF quiet_refl, of "le_now le" "(m, db)"] by (intro exI [of _ "[]"]) simp
  next
    case (Some n)
    define m1 where "m1 = m\<lparr>lm_tallies := (lm_tallies m)\<lparr>ta_rows_stored := ta_rows_stored (lm_tallies m) + n\<rparr>,
        lm_book := note_stored fs (lm_book m)\<rparr>"
    have "store_telemetry_frames (le_fail le) (le_now le) (lm_id m) fs raw db = (Some n, db1)" using Pair Some by simp
    then have "stores (le_now le) fs (m, db) (m1, db1) \<and> n = int (length (rows_of (lm_id m) db1)) - int (length (rows_of (lm_id m) db))"
      by (rule write_rows_stage) (simp_all add: m1_def)
    then have st: "stores (le_now le) fs (m, db) (m1, db1)"
      and n: "n = int (length (rows_of (lm_id m) db1)) - int (length (rows_of (lm_id m) db))" by blast+
    obtain m2 db2 where a: "assemble_ticks le fs (m1, db1) = (m2, db2)" by force
    define last_step where "last_step = (if lc_persist_interval cfg \<le> time_sub (le_now le) (lm_last_persist m2)
        then persist_context le 1 (m2, db2) else (m2, db2))"
    have "quiet (m1, db1) (m2, db2)" using assemble_ticks_quiet [of m1 db1 le fs] unfolding a .
    moreover have "quiet (m2, db2) last_step" by (simp add: last_step_def persist_context_quiet)
    ultimately have q: "quiet (m1, db1) last_step" by (rule quiet_trans)
    have e: "r' = r\<lparr>accepted := accepted r + n, ignored := (if 0 < int (length fs) - n then ignored r + (int (length fs) - n) else ignored r)\<rparr>"
      "(m', db') = last_step"
      using assms a by (simp_all add: store_and_process_def Pair Some m1_def last_step_def Let_def)
    have rows: "rows_of (lm_id m) db' = rows_of (lm_id m) db1" using q e(2) by (cases last_step) (simp add: quiet_def rows_of_def)
    have rows1: "rows_of (lm_id m) db1 = insert_rows (le_now le) fs (rows_of (lm_id m) db)" using st by (simp add: stores_def)
    have "n \<le> int (length fs)" using n rows1 length_insert_rows [of "rows_of (lm_id m) db" "le_now le" fs] by simp
    then have c: "frames_counted r' = frames_counted r + int (length fs)"
      unfolding e(1) frames_counted_accept by (simp add: frames_counted_def)
    have "stores (le_now le) fs (m, db) (m', db')" using stores_then_quiet [OF st q] e(2) by simp
    with c n rows show ?thesis unfolding e(1) by (intro exI [of _ fs]) simp
  qed
qed

lemma take_batch_spec:
  assumes "take_batch cfg le input raw (m, db) = (r, m', db')"
  shows "\<exists>fs. mset fs \<subseteq># mset input \<and> stores (le_now le) fs (m, db) (m', db') \<and>
    accepted r = int (length (rows_of (lm_id m) db')) - int (length (rows_of (lm_id m) db)) \<and>
    frames_counted r = int (length input)"
proof -
  define m0 where "m0 = m\<lparr>lm_last_activity := le_now le\<rparr>"
  obtain fs r1 m1 db1 where f: "fresh_live_frames le input (m0, db) = ((fs, r1), m1, db1)" by (metis prod_cases3 surj_pair)
  note fl = fresh_live_frames_spec [OF f]
  have q0: "quiet (m, db) (m0, db)" by (rule quiet_match) (simp_all add: m0_def)
  have q1: "quiet (m, db) (m1, db1)" using quiet_trans [OF q0] fl by simp
  have r1: "accepted r1 = 0" "int (length fs) + frames_counted r1 = int (length input)" "mset fs \<subseteq># mset input" using fl by simp_all
  define rs where "rs = register_players (lc_max_players cfg) fs (lm_ctx m1)"
  define m2 where "m2 = m1\<lparr>lm_ctx := rs_ctx rs\<rparr>"
  define r2 where "r2 = r1\<lparr>rejected := rejected r1 + rs_rejected rs\<rparr>"
  note reg = register_players_spec [of "lc_max_players cfg" fs "lm_ctx m1", folded rs_def]
  have q2: "quiet (m, db) (m2, db1)"
    by (rule quiet_trans [OF q1], rule quiet_match) (simp_all add: m2_def reg)
  have same: "db_rows db1 = db_rows db" "lm_id m1 = lm_id m" "lm_id m2 = lm_id m" using q1 q2 by (simp_all add: quiet_def stage_def)
  show ?thesis
  proof (cases "fs = [] \<or> rs_kept rs = []")
    case True
    then have res: "(r = r1 \<and> fs = [] \<or> r = r2 \<and> rs_kept rs = []) \<and> (m', db') \<in> {(m1, db1), (m2, db1)}"
      using assms f by (auto simp: take_batch_def m0_def rs_def m2_def r2_def Let_def split: if_splits)
    then have q: "quiet (m, db) (m', db')" using q1 q2 by auto
    have "accepted r = 0 \<and> frames_counted r = int (length input)" using res r1 reg(1) by (auto simp: r2_def)
    then show ?thesis using quiet_stores [OF q] q by (intro exI [of _ "[]"]) (simp add: quiet_def rows_of_def)
  next
    case False
    define db2 where "db2 = (if rs_changed rs \<and> lm_incomplete m2
      then mark_incomplete (le_fail le (lm_id m2) Mark_roster) (lm_id m2) (mc_player_ids (lm_ctx m2)) (su_reason (lm_suspension m2)) db1 else db1)"
    have q3: "quiet (m, db) (m2, db2)" using quiet_trans [OF q2 mark_quiet] q2 by (simp add: db2_def)
    have "take_batch cfg le input raw (m, db) =
        store_and_process cfg le (raw_for (fr_frame_index (hd input)) raw (rs_kept rs)) (rs_kept rs) r2 (m2, db2)"
      using False unfolding take_batch_def prod.case m0_def [symmetric] f Let_def rs_def [symmetric] m2_def [symmetric]
        r2_def [symmetric] db2_def [symmetric] by (simp only: de_Morgan_disj if_False)
    then have "store_and_process cfg le (raw_for (fr_frame_index (hd input)) raw (rs_kept rs)) (rs_kept rs) r2 (m2, db2) = (r, m', db')"
      using assms by simp
    from store_and_process_spec [OF this] obtain fs' where sp: "fs' \<in> {[], rs_kept rs}"
      "stores (le_now le) fs' (m2, db2) (m', db')"
      "accepted r = accepted r2 + int (length (rows_of (lm_id m2) db')) - int (length (rows_of (lm_id m2) db2))"
      "frames_counted r = frames_counted r2 + int (length (rs_kept rs))" by blast
    have rows: "rows_of (lm_id m2) db2 = rows_of (lm_id m) db" using q3 by (simp add: quiet_def stage_def rows_of_def)
    show ?thesis
    proof (intro exI [of _ fs'] conjI)
      show "mset fs' \<subseteq># mset input" using sp(1) reg(2) r1(3) subset_mset.order_trans by auto
      show "stores (le_now le) fs' (m, db) (m', db')" by (rule quiet_then_stores [OF q3 sp(2)])
      show "accepted r = int (length (rows_of (lm_id m) db')) - int (length (rows_of (lm_id m) db))"
        using sp(3) r1 rows same(3) by (simp add: r2_def)
      show "frames_counted r = int (length input)" using sp(4) r1(2) reg(1) by (simp add: r2_def)
    qed
  qed
qed

section \<open>Creating a match\<close>

lemma resume_span_fields [simp]:
  "lm_ctx (resume_span rows m) = lm_ctx m" "lm_suspension (resume_span rows m) = lm_suspension m" "lm_ended (resume_span rows m) = lm_ended m"
  "lm_pending (resume_span rows m) = lm_pending m" "lm_pipeline (resume_span rows m) = lm_pipeline m"
  "bk_last_index (lm_book (resume_span rows m)) = bk_last_index (lm_book m)"
  by (auto simp: resume_span_def Let_def split: option.split)

lemma resume_context_fields [simp]:
  "mc_match_id (lm_ctx (resume_context prev m)) = mc_match_id (lm_ctx m)"
  "mc_server_id (lm_ctx (resume_context prev m)) =
     (if mc_server_id (lm_ctx m) = [] \<or> mc_server_id prev \<noteq> [] then mc_server_id prev else mc_server_id (lm_ctx m))"
  "lm_suspension (resume_context prev m) = lm_suspension m" "lm_ended (resume_context prev m) = lm_ended m"
  "lm_pending (resume_context prev m) = lm_pending m" "lm_pipeline (resume_context prev m) = lm_pipeline m"
  "lm_book (resume_context prev m) = lm_book m"
  by (simp_all add: resume_context_def Let_def)

lemma resume_suspension_fields [simp]:
  "lm_ctx (resume_suspension le db m) = lm_ctx m" "lm_ended (resume_suspension le db m) = lm_ended m"
  "lm_pending (resume_suspension le db m) = lm_pending m" "lm_book (resume_suspension le db m) = lm_book m"
  by (simp_all add: resume_suspension_def Let_def)

lemma resume_suspension_latches: "suspension_reason (lm_id m) db \<noteq> [] \<Longrightarrow> lm_incomplete (resume_suspension le db m)"
  by (simp add: resume_suspension_def Let_def)

definition index_covers :: "telemetry_row list \<Rightarrow> bookkeeping \<Rightarrow> bool" where
  "index_covers rows b \<longleftrightarrow> list_all (\<lambda>r. snd (tr_key r) \<le> bk_last_index b) rows"

lemma max_frame_index_ge: "r \<in> set rows \<Longrightarrow> snd (tr_key r) \<le> max_frame_index rows"
  by (cases "rows = []") (auto simp: max_frame_index_def)

lemma synthesized_context_server: "synthesized_context i rows = Some mc \<Longrightarrow> mc_server_id mc = []"
  by (auto simp: synthesized_context_def Let_def split: if_splits)

text \<open>A match read back from the store: who it belongs to and how far its bookkeeping reaches.\<close>

lemma covered_max: "max_frame_index rows \<le> bk_last_index b \<Longrightarrow> index_covers rows b"
  unfolding index_covers_def list_all_iff using max_frame_index_ge by force

lemma resume_from_store_spec:
  fixes le :: live_env and m0 :: "('d, 'e, 'k) live_match"
  assumes server: "\<And>prev. get_match_context False (lm_id m0) db = Inr (Some prev) \<Longrightarrow> mc_server_id prev = mc_server_id (lm_ctx m0)"
    and "lm_book m0 = empty_book"
  defines "m \<equiv> resume_from_store le db m0"
  shows "lm_id m = lm_id m0 \<and> mc_server_id (lm_ctx m) = mc_server_id (lm_ctx m0) \<and> lm_ended m = lm_ended m0 \<and>
    lm_pending m = lm_pending m0 \<and> lm_suspension m = lm_suspension m0 \<and>
    (\<not> le_fail le (lm_id m0) Read_index \<longrightarrow> index_covers (rows_of (lm_id m0) db) (lm_book m))"
proof (cases "le_fail le (lm_id m0) Read_index \<or> max_frame_index (rows_of (lm_id m0) db) < 0")
  case True
  then show ?thesis using assms(2) by (auto simp: m_def resume_from_store_def Let_def empty_book_def intro!: covered_max)
next
  case False
  define m1 where "m1 = m0\<lparr>lm_resumed := True, lm_book := (lm_book m0)\<lparr>bk_last_index := max_frame_index (rows_of (lm_id m0) db)\<rparr>\<rparr>"
  define m2 where "m2 = (if le_fail le (lm_id m0) Read_span then m1 else resume_span (rows_of (lm_id m0) db) m1)"
  define m3 where "m3 = (case get_match_context (le_fail le (lm_id m0) Read_resumed_context) (lm_id m0) db of
      Inr (Some prev) \<Rightarrow> resume_context prev m2 | _ \<Rightarrow> m2)"
  have m2: "lm_ctx m2 = lm_ctx m0" "lm_ended m2 = lm_ended m0" "lm_pending m2 = lm_pending m0" "lm_suspension m2 = lm_suspension m0"
    "bk_last_index (lm_book m2) = max_frame_index (rows_of (lm_id m0) db)"
    by (simp_all add: m2_def m1_def)
  have srv: "mc_server_id prev = mc_server_id (lm_ctx m0)"
    if "get_match_context b (lm_id m0) db = Inr (Some prev)" for b prev
    using that by (intro server) (auto simp: get_match_context_def split: if_splits)
  have m3: "lm_id m3 = lm_id m0" "mc_server_id (lm_ctx m3) = mc_server_id (lm_ctx m0)" "lm_ended m3 = lm_ended m0"
    "lm_pending m3 = lm_pending m0" "lm_suspension m3 = lm_suspension m0" "lm_book m3 = lm_book m2"
    using m2 srv by (auto simp: m3_def split: sum.split option.split)
  have "lm_ctx m = lm_ctx m3 \<and> lm_ended m = lm_ended m3 \<and> lm_pending m = lm_pending m3 \<and>
      lm_suspension m = lm_suspension m3 \<and> lm_book m = lm_book m3"
    using False unfolding m_def resume_from_store_def Let_def m1_def [symmetric] m2_def [symmetric] m3_def [symmetric]
    by (cases "map_of (db_summaries db) (lm_id m0)") auto
  then show ?thesis using m2(5) m3 by (auto intro!: covered_max)
qed

text \<open>Where the match of a handler comes from: it was live, or it is created for its own source.\<close>

definition origin :: "('d, 'e, 'k) live_config \<Rightarrow> live_env \<Rightarrow> ('d, 'e, 'k) live_state \<Rightarrow> ('d, 'e, 'k) live_match \<Rightarrow> bool" where
  "origin cfg le = (\<lambda>(ms, db) m.
     (case map_of ms (lm_id m) of Some m0 \<Rightarrow> m = m0
      | None \<Rightarrow> int (length ms) < lc_max_matches cfg \<and> \<not> lm_ended m \<and> lm_pending m = [] \<and>
          (suspension_reason (lm_id m) db \<noteq> [] \<longrightarrow> lm_incomplete m) \<and>
          source_of (lm_id m) db \<in> {None, Some (mc_server_id (lm_ctx m))} \<and>
          (\<not> le_fail le (lm_id m) Read_index \<longrightarrow> index_covers (rows_of (lm_id m) db) (lm_book m))))"

lemma init_live_match_spec:
  assumes server: "\<And>prev. get_match_context False i db = Inr (Some prev) \<Longrightarrow> mc_server_id prev = server"
    and "map_of ms i = None" "int (length ms) < lc_max_matches cfg"
    and init: "init_live_match cfg le i server db = (m, db')"
  shows "\<exists>m0. lm_id m0 = i \<and> mc_server_id (lm_ctx m0) = server \<and> origin cfg le (ms, db) m0 \<and> quiet (m0, db) (m, db')"
proof -
  define n where "n = new_live_match cfg (le_now le) i server"
  define r where "r = resume_from_store le db n"
  define s where "s = resume_suspension le db r"
  define m0 where "m0 = s\<lparr>lm_pipeline := (lm_pipeline s)\<lparr>p_scorer := set_match_start (mc_start_time (lm_ctx s)) (p_scorer (lm_pipeline s))\<rparr>\<rparr>"
  have n: "lm_id n = i" "mc_server_id (lm_ctx n) = server" "lm_book n = empty_book" "\<not> lm_ended n" "lm_pending n = []"
    by (simp_all add: n_def new_live_match_def)
  have r: "lm_id r = i \<and> mc_server_id (lm_ctx r) = server \<and> lm_ended r = lm_ended n \<and> lm_pending r = lm_pending n \<and>
      lm_suspension r = lm_suspension n \<and> (\<not> le_fail le i Read_index \<longrightarrow> index_covers (rows_of i db) (lm_book r))"
    using resume_from_store_spec [of n db le, folded r_def] server n by simp
  have "source_of i db \<in> {None, Some server}"
    using server by (cases "map_of (db_contexts db) i") (auto simp: source_of_def get_match_context_def)
  then have "origin cfg le (ms, db) m0"
    using assms(2,3) n r resume_suspension_latches [of r db le] by (simp add: origin_def m0_def s_def)
  moreover have "persist_context le 0 (m0, db) = (m, db')"
    using init by (simp add: init_live_match_def m0_def s_def r_def n_def Let_def)
  then have "quiet (m0, db) (m, db')" using persist_context_quiet [of m0 db le 0] by simp
  ultimately show ?thesis using r by (intro exI [of _ m0]) (simp add: m0_def s_def)
qed

lemma get_or_create_spec:
  assumes "get_or_create_live cfg le i server (ms, db) = Some (m, db')" "\<forall>(j, m) \<in> set ms. lm_id m = j"
  shows "\<exists>m0. lm_id m0 = i \<and> mc_server_id (lm_ctx m0) = server \<and> origin cfg le (ms, db) m0 \<and> quiet (m0, db) (m, db')"
proof (cases "map_of ms i")
  case (Some m1)
  then have "lm_id m1 = i" using assms(2) by (auto dest: map_of_SomeD)
  then show ?thesis
    using assms(1) Some by (auto simp: get_or_create_live_def note_server_id_def origin_def split: if_splits)
next
  case None
  then have room: "int (length ms) < lc_max_matches cfg" and init: "init_live_match cfg le i server db = (m, db')"
    and srv: "\<And>prev. get_match_context False i db = Inr (Some prev) \<Longrightarrow> mc_server_id prev = server"
    using assms(1) by (auto simp: get_or_create_live_def get_match_context_def split: if_splits option.splits sum.splits)
  show ?thesis by (rule init_live_match_spec [OF srv None room init])
qed

section \<open>The end of a match\<close>

lemma cases_quiet: "quiet (m, db) (m, db\<lparr>db_cases := c\<rparr>)"
  by (simp add: quiet_def stage_def keeps_rows_def same_match_def source_of_def)

lemma summary_quiet: "quiet (m, db) (m, store_match_summary b i s db)"
  by (simp add: quiet_def stage_def keeps_rows_def same_match_def source_of_def store_match_summary_def)

lemma create_review_cases_quiet: "quiet (m, db) (m, snd (create_review_cases le names (m, db)))"
  by (simp add: create_review_cases_def Let_def split_beta cases_quiet)

lemma create_review_cases_incomplete: "lm_incomplete m \<Longrightarrow> create_review_cases le names (m, db) = ([], db)"
  by (simp add: create_review_cases_def)

lemma finish_pipeline_quiet: "quiet (m, db) (finish_pipeline le (m, db))"
proof (cases "lm_initialized m \<and> \<not> lm_incomplete m")
  case True
  obtain p r where f: "finalize (le_env le) (lm_ctx m) (lm_pipeline m) = (p, r)" by force
  obtain ok m1 db1 where d: "persist_derived le True r (m\<lparr>lm_pipeline := p\<rparr>, db) = (ok, m1, db1)" by (metis prod_cases3)
  have q1: "quiet (m, db) (m\<lparr>lm_pipeline := p\<rparr>, db)" by (rule quiet_match) simp_all
  have "quiet (m\<lparr>lm_pipeline := p\<rparr>, db) (m1, db1)" using persist_derived_quiet [of "m\<lparr>lm_pipeline := p\<rparr>" db le True r] d by simp
  then have q2: "quiet (m, db) (m1, db1)" by (rule quiet_trans [OF q1])
  have "finish_pipeline le (m, db) = (if ok then record_result le True r (m1, db1) else (m1, db1))"
    using True f d by (simp add: finish_pipeline_def)
  then show ?thesis using q2 quiet_trans [OF q2 record_result_quiet] by simp
next
  case False
  then have "finish_pipeline le (m, db) = (m, db)" by (simp only: finish_pipeline_def prod.case if_False)
  then show ?thesis by simp
qed

lemma finalize_locked_stage:
  assumes "finalize_locked cfg le (m, db) = (ok, m', db')"
  shows "stage (m, db) (m', db') \<and> db_rows db' = db_rows db \<and> (lm_incomplete m \<longrightarrow> ok = [])"
proof (cases "lm_ended m")
  case False
  define m0 where "m0 = m\<lparr>lm_ended := True\<rparr>"
  define x1 where "x1 = (if lm_pending m0 \<noteq> [] then (let (m, db) = process_locked le (lm_pending m0) (m0, db) in (m\<lparr>lm_pending := []\<rparr>, db)) else (m0, db))"
  obtain m1 db1 where x1: "x1 = (m1, db1)" by force
  obtain m2 db2 where x2: "persist_context le 2 (finish_pipeline le (m1, db1)) = (m2, db2)" by force
  obtain cs db3 where c: "create_review_cases le (lc_names cfg) (m2, db2) = (cs, db3)" by force
  have st: "stage (m, db) (m0, db)" by (simp add: stage_def keeps_rows_def m0_def)
  have q1: "quiet (m0, db) (m1, db1)"
  proof (cases "lm_pending m0 = []")
    case no: False
    obtain m1' db1' where p: "process_locked le (lm_pending m0) (m0, db) = (m1', db1')" by force
    have q: "quiet (m0, db) (m1', db1')" using process_locked_quiet [of m0 db le "lm_pending m0"] p by simp
    have "(m1, db1) = (m1'\<lparr>lm_pending := []\<rparr>, db1')" using no p x1 by (simp add: x1_def)
    then show ?thesis using quiet_trans [OF q quiet_match [of "m1'\<lparr>lm_pending := []\<rparr>" m1' db1']] by simp
  qed (use x1 in \<open>simp add: x1_def\<close>)
  obtain m1' db1' where f: "finish_pipeline le (m1, db1) = (m1', db1')" by force
  have "quiet (m1, db1) (m1', db1')" using finish_pipeline_quiet [of m1 db1 le] f by simp
  moreover have "quiet (m1', db1') (m2, db2)" using persist_context_quiet [of m1' db1' le 2] x2 f by simp
  ultimately have q2: "quiet (m0, db) (m2, db2)" using q1 quiet_trans by blast
  have "quiet (m2, db2) (m2, db3)" using create_review_cases_quiet [of m2 db2 le "lc_names cfg"] c by simp
  with q2 have q3: "quiet (m0, db) (m2, db3)" by (rule quiet_trans)
  obtain b s where e: "finalize_locked cfg le (m, db) = (cs, m2, store_match_summary b (lm_id m2) s db3)"
    using False unfolding finalize_locked_def prod.case Let_def m0_def [symmetric] x1_def [unfolded Let_def, symmetric]
    unfolding x1 prod.case x2 c by (simp only: if_False)
  have "quiet (m0, db) (m2, store_match_summary b (lm_id m2) s db3)" by (rule quiet_trans [OF q3 summary_quiet])
  moreover have r: "ok = cs" "m' = m2" "db' = store_match_summary b (lm_id m2) s db3"
    using assms [unfolded e] unfolding prod.inject by blast+
  ultimately have "stage (m, db) (m', db') \<and> db_rows db' = db_rows db" using stage_trans [OF st] by (simp add: quiet_def)
  moreover have "lm_incomplete m \<longrightarrow> ok = []"
    using q2 c r(1) create_review_cases_incomplete [of m2 le "lc_names cfg" db2] by (auto simp: quiet_def stage_def m0_def)
  ultimately show ?thesis by blast
qed (use assms in \<open>simp add: finalize_locked_def\<close>)

section \<open>Runs\<close>

text \<open>One action: a handler works on the match of one identifier, which stays live or ends.\<close>

definition act :: "('d, 'e, 'k) live_config \<Rightarrow> live_env \<Rightarrow> ('d, 'e, 'k) live_state \<Rightarrow> ('d, 'e, 'k) live_state \<Rightarrow> bool" where
  "act cfg le st st' \<longleftrightarrow> (\<exists>m m' fs. origin cfg le st m \<and> stores (le_now le) fs (m, snd st) (m', snd st') \<and>
       fst st' = AList.update (lm_id m) m' (fst st)) \<or>
     (\<exists>m m'. map_of (fst st) (lm_id m) = Some m \<and> stage (m, snd st) (m', snd st') \<and> db_rows (snd st') = db_rows (snd st) \<and>
       fst st' = AList.delete (lm_id m) (fst st))"

lemma act_updateI:
  "origin cfg le (ms, db) m \<Longrightarrow> stores (le_now le) fs (m, db) (m', db') \<Longrightarrow> lm_id m = i \<Longrightarrow> act cfg le (ms, db) (AList.update i m' ms, db')"
  unfolding act_def fst_conv snd_conv by blast

lemma act_deleteI:
  "map_of ms i = Some m \<Longrightarrow> lm_id m = i \<Longrightarrow> stage (m, db) (m', db') \<Longrightarrow> db_rows db' = db_rows db \<Longrightarrow>
    act cfg le (ms, db) (AList.delete i ms, db')"
  unfolding act_def fst_conv snd_conv by blast

definition live_ok :: "('d, 'e, 'k) live_config \<Rightarrow> ('d, 'e, 'k) live_state \<Rightarrow> bool" where
  "live_ok cfg st \<longleftrightarrow> gok (fst st) \<and> int (length (fst st)) \<le> max 0 (lc_max_matches cfg) \<and>
     (\<forall>(i, m) \<in> set (fst st). lm_id m = i \<and> \<not> lm_ended m)"

lemma live_okD: "live_ok cfg st \<Longrightarrow> map_of (fst st) i = Some m \<Longrightarrow> lm_id m = i \<and> \<not> lm_ended m"
  unfolding live_ok_def by (fastforce dest: map_of_SomeD)

lemma set_update_gok: "gok ms \<Longrightarrow> x \<in> set (AList.update k v ms) \<Longrightarrow> x = (k, v) \<or> x \<in> set ms"
  using map_of_in_set [of "AList.update k v ms" "fst x" "snd x"] map_of_in_set [of ms "fst x" "snd x"]
  by (auto simp: update_conv' split: if_splits)

lemma act_live_ok:
  assumes "live_ok cfg st" "act cfg le st st'"
  shows "live_ok cfg st'"
  using assms(2) unfolding act_def
proof (elim disjE exE conjE)
  fix m m' fs assume o: "origin cfg le st m" and s: "stores (le_now le) fs (m, snd st) (m', snd st')"
    and u: "fst st' = AList.update (lm_id m) m' (fst st)"
  have m': "lm_id m' = lm_id m" "lm_ended m' = lm_ended m" using s by (simp_all add: stores_def stage_def)
  have "\<not> lm_ended m" using o live_okD [OF assms(1), of "lm_id m"] by (cases st) (auto simp: origin_def split: option.splits)
  moreover have "int (length (fst st')) \<le> max 0 (lc_max_matches cfg)"
    using o assms(1) gm.length_keys_put [of "fst st" "lm_id m" m'] unfolding u
    by (cases st) (auto simp: origin_def live_ok_def split: option.splits if_splits)
  ultimately show ?thesis
    using assms(1) m' set_update_gok [of "fst st" _ "lm_id m" m'] unfolding live_ok_def u by fastforce
next
  fix m m' assume "fst st' = AList.delete (lm_id m) (fst st)"
  moreover have "set (AList.delete (lm_id m) (fst st)) \<subseteq> set (fst st)" "length (AList.delete (lm_id m) (fst st)) \<le> length (fst st)"
    by (auto simp: AList.delete_eq)
  ultimately show ?thesis using assms(1) by (auto simp: live_ok_def)
qed

lemma handle_frames_act:
  assumes "live_ok cfg (ms, db)" "handle_frames cfg le i server frames raw (ms, db) = (r, st')"
  shows "st' = (ms, db) \<or> act cfg le (ms, db) st'"
proof (cases "frames = [] \<or> get_or_create_live cfg le i server (ms, db) = None")
  case False
  then obtain m db1 where g: "get_or_create_live cfg le i server (ms, db) = Some (m, db1)" by auto
  obtain m2 db2 where t: "take_batch cfg le frames raw (m, db1) = (r, m2, db2)" and st': "st' = (AList.update i m2 ms, db2)"
    using assms(2) False g by (auto simp: handle_frames_def split: prod.splits)
  obtain m0 where m0: "lm_id m0 = i" "origin cfg le (ms, db) m0" "quiet (m0, db) (m, db1)"
    using get_or_create_spec [OF g] assms(1) by (auto simp: live_ok_def)
  obtain fs where "stores (le_now le) fs (m, db1) (m2, db2)" using take_batch_spec [OF t] by blast
  with m0 have "stores (le_now le) fs (m0, db) (m2, db2)" by (blast intro: quiet_then_stores)
  then show ?thesis unfolding st' using act_updateI m0 by blast
next
  case True
  then have "st' = (ms, db)" using assms(2) by (cases "frames = []") (simp_all add: handle_frames_def)
  then show ?thesis by simp
qed

lemma end_live_match_act:
  assumes "live_ok cfg (ms, db)" "end_live_match cfg le i source (ms, db) = (ok, st')"
  shows "st' = (ms, db) \<or> act cfg le (ms, db) st'"
proof (cases "map_of ms i")
  case (Some m)
  have i: "lm_id m = i" using live_okD [OF assms(1), of i m] Some by simp
  obtain ok' m' db' where f: "finalize_locked cfg le (m, db) = (ok', m', db')" by (metis prod_cases3)
  have "st' = (ms, db) \<or> st' = (AList.delete i ms, db')"
    using assms(2) Some f by (auto simp: end_live_match_def split: if_splits)
  then show ?thesis using finalize_locked_stage [OF f] Some i act_deleteI by blast
qed (use assms(2) in \<open>simp add: end_live_match_def\<close>)

lemma start_match_fields [simp]:
  "mc_match_id (start_match cfg msg mc) = mc_match_id mc" "mc_server_id (start_match cfg msg mc) = mc_server_id mc"
proof -
  have "mc_match_id (fold (join_team cap) ts mc) = mc_match_id mc \<and> mc_server_id (fold (join_team cap) ts mc) = mc_server_id mc" for cap ts mc
    by (induction ts arbitrary: mc) (auto simp: join_team_def Let_def)
  then show "mc_match_id (start_match cfg msg mc) = mc_match_id mc" "mc_server_id (start_match cfg msg mc) = mc_server_id mc"
    by (simp_all add: start_match_def Let_def)
qed

lemma handle_control_act:
  assumes "live_ok cfg (ms, db)"
  shows "handle_control cfg le msg (ms, db) = (ms, db) \<or> act cfg le (ms, db) (handle_control cfg le msg (ms, db))"
proof (cases "cm_type msg = ''match_start''")
  case True
  show ?thesis
  proof (cases "get_or_create_live cfg le (cm_match_id msg) (cm_server_id msg) (ms, db)")
    case (Some x)
    obtain m db1 where x: "x = (m, db1)" by force
    have g: "get_or_create_live cfg le (cm_match_id msg) (cm_server_id msg) (ms, db) = Some (m, db1)" using Some x by simp
    obtain m0 where m0: "lm_id m0 = cm_match_id msg" "origin cfg le (ms, db) m0" "quiet (m0, db) (m, db1)"
      using get_or_create_spec [OF g] assms by (auto simp: live_ok_def)
    define m1 where "m1 = m\<lparr>lm_ctx := start_match cfg msg (lm_ctx m), lm_last_activity := le_now le\<rparr>"
    obtain m2 db2 where p: "persist_context le 3 (m1, db1) = (m2, db2)" by force
    have "quiet (m, db1) (m1, db1)" by (rule quiet_match) (simp_all add: m1_def)
    moreover have "quiet (m1, db1) (m2, db2)" using persist_context_quiet [of m1 db1 le 3] p by simp
    ultimately have "quiet (m0, db) (m2, db2)" using m0(3) quiet_trans by blast
    then have "stores (le_now le) [] (m0, db) (m2, db2)" by (rule quiet_stores)
    moreover have "handle_control cfg le msg (ms, db) = (AList.update (cm_match_id msg) m2 ms, db2)"
      using True Some x p by (simp add: handle_control_def m1_def)
    ultimately show ?thesis using m0 act_updateI [OF m0(2)] by simp
  qed (simp add: handle_control_def True)
next
  case False
  then show ?thesis
    using end_live_match_act [OF assms, of le "cm_match_id msg" "Some (cm_server_id msg)"]
    by (cases "end_live_match cfg le (cm_match_id msg) (Some (cm_server_id msg)) (ms, db)") (auto simp: handle_control_def)
qed

text \<open>
  The contract of a property of runs: every action keeps it, and so does losing the live matches.
  \<open>adm\<close> says which store faults are admitted.
\<close>

locale live_invariant =
  fixes cfg :: "('d, 'e, 'k) live_config" and adm :: "faults \<Rightarrow> bool" and good :: "('d, 'e, 'k) live_state \<Rightarrow> bool"
  assumes act_good: "live_ok cfg st \<Longrightarrow> good st \<Longrightarrow> adm (le_fail le) \<Longrightarrow> act cfg le st st' \<Longrightarrow> good st'"
    and restart_good: "good st \<Longrightarrow> good ([], snd st)"
begin

definition both :: "('d, 'e, 'k) live_state \<Rightarrow> bool" where
  "both st \<longleftrightarrow> live_ok cfg st \<and> good st"

lemma act_both: "both st \<Longrightarrow> adm (le_fail le) \<Longrightarrow> st' = st \<or> act cfg le st st' \<Longrightarrow> both st'"
  using act_good act_live_ok unfolding both_def by blast

lemma end_all_both:
  assumes a: "adm (le_fail le)"
  shows "both st \<Longrightarrow> both (end_all cfg le ids st)"
  unfolding end_all_def
proof (induction ids arbitrary: st)
  case (Cons i ids)
  obtain ms db where st: "st = (ms, db)" by force
  obtain ok st' where e: "end_live_match cfg le i None (ms, db) = (ok, st')" by (meson surj_pair)
  have "live_ok cfg (ms, db)" using Cons.prems by (simp add: st both_def)
  then have "both st'" using act_both [OF Cons.prems a] end_live_match_act [OF _ e] unfolding st by blast
  then show ?case using Cons.IH by (simp add: st e)
qed simp

lemma step_both:
  assumes b: "both st" and a: "adm (le_fail (fst c))"
  shows "both (live_step cfg c st)"
proof -
  obtain le x where c: "c = (le, x)" by force
  obtain ms db where st: "st = (ms, db)" by force
  note ok = b [unfolded both_def st, THEN conjunct1] and ab = act_both [OF b a [unfolded c fst_conv], unfolded st]
  show ?thesis
  proof (cases x)
    case (Frames i s fs raw)
    obtain r st' where "handle_frames cfg le i s fs raw (ms, db) = (r, st')" by (meson surj_pair)
    then show ?thesis using ab handle_frames_act [OF ok] by (simp add: c st Frames)
  next
    case (Control msg)
    then show ?thesis using ab handle_control_act [OF ok] by (simp add: c st)
  next
    case (End i)
    obtain r st' where "end_live_match cfg le i None (ms, db) = (r, st')" by (meson surj_pair)
    then show ?thesis using ab end_live_match_act [OF ok] by (simp add: c st End)
  next
    case Restart
    then show ?thesis using b restart_good by (simp add: c both_def live_ok_def)
  qed (use b a in \<open>simp_all add: c cleanup_stale_def close_all_def end_all_both\<close>)
qed

lemma run_both: "both st \<Longrightarrow> list_all (\<lambda>c. adm (le_fail (fst c))) cs \<Longrightarrow> both (fold (live_step cfg) cs st)"
  by (induction cs arbitrary: st) (simp_all add: step_both)

end

section \<open>Acknowledgements\<close>

lemma handle_frames_rows:
  assumes "live_ok cfg (ms, db)" "handle_frames cfg le i server frames raw (ms, db) = (r, ms', db')"
  shows "frames_counted r = int (length frames) \<and> accepted r = int (length (rows_of i db')) - int (length (rows_of i db)) \<and>
    keeps_rows i db db' \<and> (\<forall>j. j \<noteq> i \<longrightarrow> same_match db db' j) \<and>
    (accepted r = int (length frames) \<longrightarrow> (\<forall>f\<in>set frames. \<exists>row. row_at (frame_key f) (rows_of i db') = Some row \<and> tr_doc row = canonical f))"
proof (cases "frames = [] \<or> get_or_create_live cfg le i server (ms, db) = None")
  case True
  then have "ms' = ms \<and> db' = db \<and> (frames = [] \<and> r = no_frames \<or> r = no_frames\<lparr>rejected := int (length frames)\<rparr>)"
    using assms(2) by (cases "frames = []") (simp_all add: handle_frames_def)
  then show ?thesis by (auto simp: frames_counted_def no_frames_def keeps_rows_def)
next
  case False
  then obtain m db1 where g: "get_or_create_live cfg le i server (ms, db) = Some (m, db1)" by auto
  obtain m2 where t: "take_batch cfg le frames raw (m, db1) = (r, m2, db')"
    using assms(2) False g by (auto simp: handle_frames_def split: prod.splits)
  obtain m0 where m0: "lm_id m0 = i" "quiet (m0, db) (m, db1)"
    using get_or_create_spec [OF g] assms(1) by (auto simp: live_ok_def)
  then have i: "lm_id m = i" and rows1: "rows_of i db1 = rows_of i db" by (simp_all add: quiet_def stage_def rows_of_def)
  obtain fs where fs: "mset fs \<subseteq># mset frames" "stores (le_now le) fs (m, db1) (m2, db')"
    "accepted r = int (length (rows_of i db')) - int (length (rows_of i db))" "frames_counted r = int (length frames)"
    using take_batch_spec [OF t] i rows1 by auto
  have st: "stage (m0, db) (m2, db')" using quiet_then_stores [OF m0(2) fs(2)] by (simp add: stores_def)
  have rows: "rows_of i db' = insert_rows (le_now le) fs (rows_of i db)" using fs(2) i rows1 by (simp add: stores_def)
  have "\<exists>row. row_at (frame_key f) (rows_of i db') = Some row \<and> tr_doc row = canonical f"
    if all: "accepted r = int (length frames)" and f: "f \<in> set frames" for f
  proof -
    have "length frames \<le> length fs" "length (rows_of i db') = length (rows_of i db) + length frames"
      using all fs(3) rows length_insert_rows [of "rows_of i db" "le_now le" fs] by simp_all
    moreover have "length fs \<le> length frames" using size_mset_mono [OF fs(1)] by simp
    ultimately have "length fs = length frames" and len: "length (insert_rows (le_now le) fs (rows_of i db)) = length (rows_of i db) + length fs"
      using rows by simp_all
    moreover from this(1) have "mset fs = mset frames"
      using fs(1) mset_subset_size [of "mset fs" "mset frames"] by (auto simp: subset_mset.le_less)
    ultimately have "mset fs = mset frames" by blast
    then show ?thesis using insert_rows_all_new [OF len] f rows by (metis set_mset_mset)
  qed
  then show ?thesis using st fs m0(1) by (auto simp: stage_def)
qed



section \<open>Source bindings\<close>

definition bound_to :: "string \<Rightarrow> string \<Rightarrow> ('d, 'e, 'k) live_state \<Rightarrow> bool" where
  "bound_to i server st \<longleftrightarrow> source_of i (snd st) = Some server \<and>
     (case map_of (fst st) i of None \<Rightarrow> True | Some m \<Rightarrow> mc_server_id (lm_ctx m) = server)"

text \<open>The cases of an action that matter to the match of one identifier.\<close>

lemma act_cases:
  assumes "live_ok cfg st" "act cfg le st st'"
  obtains (elsewhere) "same_match (snd st) (snd st') i" "map_of (fst st') i = map_of (fst st) i"
  | (here) m m' fs where "lm_id m = i" "origin cfg le st m" "stores (le_now le) fs (m, snd st) (m', snd st')" "map_of (fst st') i = Some m'"
  | (ended) m m' where "map_of (fst st) i = Some m" "lm_id m = i" "stage (m, snd st) (m', snd st')" "db_rows (snd st') = db_rows (snd st)"
      "map_of (fst st') i = None"
  using assms(2) unfolding act_def
proof (elim disjE exE conjE)
  fix m m' fs assume a: "origin cfg le st m" "stores (le_now le) fs (m, snd st) (m', snd st')" "fst st' = AList.update (lm_id m) m' (fst st)"
  show thesis
  proof (cases "lm_id m = i")
    case True
    then show ?thesis by (intro here [OF _ a(1,2)]) (simp_all add: a(3) update_conv')
  next
    case False
    then show ?thesis using a(2) by (intro elsewhere) (simp_all add: a(3) update_conv' stores_def stage_def)
  qed
next
  fix m m' assume a: "map_of (fst st) (lm_id m) = Some m" "stage (m, snd st) (m', snd st')" "db_rows (snd st') = db_rows (snd st)"
    "fst st' = AList.delete (lm_id m) (fst st)"
  show thesis
  proof (cases "lm_id m = i")
    case True
    then show ?thesis by (intro ended [OF _ _ a(2,3)]) (use a(1) in \<open>simp_all add: a(4) delete_conv'\<close>)
  next
    case False
    then show ?thesis using a(2) by (intro elsewhere) (simp_all add: a(4) delete_conv' stage_def)
  qed
qed

lemma origin_live: "origin cfg le st m \<Longrightarrow> map_of (fst st) (lm_id m) = Some m0 \<Longrightarrow> m = m0"
  by (cases st) (simp add: origin_def)

lemma origin_new: "origin cfg le st m \<Longrightarrow> map_of (fst st) (lm_id m) = None \<Longrightarrow>
    (suspension_reason (lm_id m) (snd st) \<noteq> [] \<longrightarrow> lm_incomplete m) \<and>
    source_of (lm_id m) (snd st) \<in> {None, Some (mc_server_id (lm_ctx m))} \<and>
    (\<not> le_fail le (lm_id m) Read_index \<longrightarrow> index_covers (rows_of (lm_id m) (snd st)) (lm_book m))"
  by (cases st) (simp add: origin_def)

lemma act_bound:
  assumes ok: "live_ok cfg st" and b: "bound_to i server st" and a: "act cfg le st st'"
  shows "bound_to i server st'"
  using ok a
proof (cases rule: act_cases [where i = i])
  case elsewhere
  then show ?thesis using b by (simp add: bound_to_def same_match_def source_of_def)
next
  case (here m m' fs)
  have m: "mc_server_id (lm_ctx m) = server"
    using b here(1) origin_live [OF here(2)] origin_new [OF here(2)] by (cases "map_of (fst st) i") (auto simp: bound_to_def)
  then show ?thesis using b here by (auto simp: bound_to_def stores_def stage_def)
next
  case (ended m m')
  then show ?thesis using b by (auto simp: bound_to_def stage_def)
qed

interpretation bound: live_invariant "cfg :: ('d, 'e, 'k) live_config" "\<lambda>_. True" "bound_to i server"
proof
  fix st st' :: "('d, 'e, 'k) live_state" and le
  show "bound_to i server st'" if "live_ok cfg st" "bound_to i server st" "act cfg le st st'"
    using that by (rule act_bound)
  show "bound_to i server ([], snd st)" if "bound_to i server st" using that by (simp add: bound_to_def)
qed

lemma other_source_refused:
  assumes "bound_to i server (ms, db)" "other \<noteq> server"
  shows "get_or_create_live cfg le i other (ms, db) = None"
proof (cases "map_of ms i")
  case None
  obtain mc n where "map_of (db_contexts db) i = Some (mc, n)" "mc_server_id mc = server"
    using assms(1) by (auto simp: bound_to_def source_of_def)
  then show ?thesis using None assms(2) by (simp add: get_or_create_live_def get_match_context_def)
qed (use assms in \<open>simp add: get_or_create_live_def bound_to_def note_server_id_def\<close>)

text \<open>C22: A match belongs to the producer it was first stored for. Over any run of handler calls, with any store faults
  and any number of server restarts, the stored binding stays, and a batch, a match_start or a match_end of another
  producer is refused: every frame of the batch is rejected and neither the live matches nor the store change.
\<close>

theorem source_binding_is_permanent:
  fixes cs :: "(live_env \<times> live_call) list"
  assumes "live_ok cfg st" "bound_to i server st" "other \<noteq> server"
  defines "st' \<equiv> fold (live_step cfg) cs st"
  shows "bound_to i server st' \<and>
    handle_frames cfg le i other frames raw st' = (no_frames\<lparr>rejected := int (length frames)\<rparr>, st') \<and>
    handle_control cfg le (msg\<lparr>cm_match_id := i, cm_server_id := other\<rparr>) st' = st'"
proof -
  have "bound.both cfg i server st'"
    using assms(1,2) bound.run_both [of cfg i server st cs] by (simp add: st'_def bound.both_def list_all_iff)
  then have b: "bound_to i server st'" by (simp add: bound.both_def)
  obtain ms db where st': "st' = (ms, db)" by force
  have no: "get_or_create_live cfg le i other (ms, db) = None" using other_source_refused [of i server ms db other] b assms(3) st' by simp
  have "end_live_match cfg le i (Some other) (ms, db) = ([], ms, db)"
    using b assms(3) by (auto simp: end_live_match_def bound_to_def note_server_id_def st' split: option.splits)
  then show ?thesis
    using b no by (simp add: st' handle_frames_def handle_control_def no_frames_def)
qed

definition bound_sample :: "(unit, unit, unit) live_state" where
  "bound_sample = ([], empty_db\<lparr>db_contexts := [(''m1'', lm_ctx (new_live_match sample_live_config 0 ''m1'' ''s''), 0)]\<rparr>)"

theorem source_binding_is_permanent_witness:
  "let st = fold (live_step sample_live_config)
       [(sample_live_env, Frames ''m1'' ''s'' sample_batch []), (sample_live_env, Restart)] bound_sample
   in bound_to ''m1'' ''s'' st \<and>
      handle_frames sample_live_config sample_live_env ''m1'' ''t'' sample_batch [] st = (no_frames\<lparr>rejected := 2\<rparr>, st)"
proof -
  have "live_ok sample_live_config bound_sample" "bound_to ''m1'' ''s'' bound_sample"
    by (simp_all add: bound_sample_def live_ok_def bound_to_def source_of_def new_live_match_def)
  note r = source_binding_is_permanent [OF this, of "''t''" _ sample_live_env sample_batch "[]"]
  have "length sample_batch = 2" by (simp add: sample_batch_def)
  then show ?thesis unfolding Let_def
    using r [of "[(sample_live_env, Frames ''m1'' ''s'' sample_batch []), (sample_live_env, Restart)]"] by simp
qed

section \<open>Suspension\<close>

definition silenced :: "string \<Rightarrow> detection_event list \<times> suspicion_score list \<Rightarrow> ('d, 'e, 'k) live_state \<Rightarrow> bool" where
  "silenced i derived st \<longleftrightarrow> suspension_reason i (snd st) \<noteq> [] \<and> derived_of i (snd st) = derived \<and>
     (case map_of (fst st) i of None \<Rightarrow> True | Some m \<Rightarrow> lm_incomplete m)"

lemma act_silenced:
  assumes ok: "live_ok cfg st" and b: "silenced i derived st" and a: "act cfg le st st'"
  shows "silenced i derived st'"
  using ok a
proof (cases rule: act_cases [where i = i])
  case elsewhere
  then show ?thesis using b by (simp add: silenced_def same_match_def)
next
  case (here m m' fs)
  have m: "lm_incomplete m"
    using b here(1) origin_live [OF here(2)] origin_new [OF here(2)] by (cases "map_of (fst st) i") (auto simp: silenced_def)
  then show ?thesis using b here by (simp add: silenced_def stores_def stage_def)
next
  case (ended m m')
  then show ?thesis using b by (simp add: silenced_def stage_def)
qed

interpretation silent: live_invariant "cfg :: ('d, 'e, 'k) live_config" "\<lambda>_. True" "silenced i derived"
proof
  fix st st' :: "('d, 'e, 'k) live_state" and le
  show "silenced i derived st'" if "live_ok cfg st" "silenced i derived st" "act cfg le st st'"
    using that by (rule act_silenced)
  show "silenced i derived ([], snd st)" if "silenced i derived st" using that by (simp add: silenced_def)
qed

text \<open>C23: Once a match's suspension is recorded in the store and its live analysis is incomplete, the live ingest never
  writes another derived result for it: over any run of handler calls, restarts and store faults included, its stored
  events and scores stay what they were, its scores are not reported, and ending it yields no review case.
\<close>

theorem suspended_match_stays_silent:
  fixes cs :: "(live_env \<times> live_call) list"
  assumes "live_ok cfg st" "suspension_reason i (snd st) \<noteq> []" "\<forall>m. map_of (fst st) i = Some m \<longrightarrow> lm_incomplete m"
  defines "st' \<equiv> fold (live_step cfg) cs st"
  shows "derived_of i (snd st') = derived_of i (snd st) \<and> get_match_scores i st' = None \<and>
    suspension_reason i (snd st') \<noteq> [] \<and> fst (end_live_match cfg le i source st') = []"
proof -
  have "silenced i (derived_of i (snd st)) st" using assms(2,3) by (auto simp: silenced_def split: option.split)
  then have "silent.both cfg i (derived_of i (snd st)) st'"
    using assms(1) silent.run_both [of cfg i "derived_of i (snd st)" st cs] by (simp add: st'_def silent.both_def list_all_iff)
  then have s: "silenced i (derived_of i (snd st)) st'" by (simp add: silent.both_def)
  have "fst (end_live_match cfg le i source st') = []"
  proof (cases "map_of (fst st') i")
    case (Some m)
    obtain ok m' db' where f: "finalize_locked cfg le (m, snd st') = (ok, m', db')" by (metis prod_cases3)
    then have "ok = []" using finalize_locked_stage [OF f] s Some by (simp add: silenced_def)
    then show ?thesis using Some f by (cases st') (simp add: end_live_match_def)
  qed (cases st', simp add: end_live_match_def)
  then show ?thesis using s by (auto simp: silenced_def get_match_scores_def split: option.splits)
qed

definition suspended_sample :: "(unit, unit, unit) live_state" where
  "suspended_sample = ([], empty_db\<lparr>db_limitations := [(''m1'', [(''p1'', [LiveAnalysisIdentityConflict])])]\<rparr>)"

theorem suspended_match_stays_silent_witness:
  "let st = fold (live_step sample_live_config)
       [(sample_live_env, Frames ''m1'' ''s'' sample_batch []), (sample_live_env, End ''m1''),
        (sample_live_env, Frames ''m1'' ''s'' [live_frame ''p1'' 9] [])] suspended_sample
   in derived_of ''m1'' (snd st) = ([], []) \<and> get_match_scores ''m1'' st = None"
proof -
  have "live_ok sample_live_config suspended_sample" "suspension_reason ''m1'' (snd suspended_sample) \<noteq> []"
    "derived_of ''m1'' (snd suspended_sample) = ([], [])" "map_of (fst suspended_sample) ''m1'' = None"
    by (simp_all add: suspended_sample_def live_ok_def suspension_reason_def LiveSourceIdentityConflictReason_def
        LivePersistenceFailureReason_def derived_of_def empty_db_def gz_def)
  then have "derived_of ''m1'' (snd (fold (live_step sample_live_config) cs suspended_sample)) = ([], [])"
    "get_match_scores ''m1'' (fold (live_step sample_live_config) cs suspended_sample) = None" for cs
    using suspended_match_stays_silent [of sample_live_config suspended_sample "''m1''"] by simp_all
  then show ?thesis unfolding Let_def by blast
qed

section \<open>Retries\<close>

definition holds :: "string \<Rightarrow> telemetry_row list \<Rightarrow> ('d, 'e, 'k) live_state \<Rightarrow> bool" where
  "holds i rows st \<longleftrightarrow> (\<forall>k r. row_at k rows = Some r \<longrightarrow> row_at k (rows_of i (snd st)) = Some r) \<and>
     (case map_of (fst st) i of None \<Rightarrow> True | Some m \<Rightarrow> index_covers (rows_of i (snd st)) (lm_book m))"

lemma index_covers_insert:
  assumes "index_covers rows b"
  shows "index_covers (insert_rows now fs rows) (note_stored fs b)"
proof -
  have "snd k \<le> bk_last_index (note_stored fs b)" if "k \<in> tr_key ` set rows \<union> frame_key ` set fs" for k
    using that assms note_stored_ge [of b fs] by (fastforce simp: index_covers_def list_all_iff frame_key_def)
  moreover have "tr_key r \<in> tr_key ` set rows \<union> frame_key ` set fs" if "r \<in> set (insert_rows now fs rows)" for r
    using that insert_rows_keys [of now fs rows] by blast
  ultimately show ?thesis by (simp add: index_covers_def list_all_iff)
qed

lemma act_holds:
  assumes ok: "live_ok cfg st" and b: "holds i rows st" and r: "\<not> le_fail le i Read_index" and a: "act cfg le st st'"
  shows "holds i rows st'"
  using ok a
proof (cases rule: act_cases [where i = i])
  case elsewhere
  then show ?thesis using b by (simp add: holds_def same_match_def cong: option.case_cong)
next
  case (here m m' fs)
  have m: "index_covers (rows_of i (snd st)) (lm_book m)"
    using b r here(1) origin_live [OF here(2)] origin_new [OF here(2)] by (cases "map_of (fst st) i") (auto simp: holds_def)
  have "rows_of i (snd st') = insert_rows (le_now le) fs (rows_of i (snd st))" "lm_book m' = note_stored fs (lm_book m)"
    using here by (auto simp: stores_def)
  then show ?thesis using b here(4) index_covers_insert [OF m] row_at_insert_rows_mono by (simp add: holds_def)
next
  case (ended m m')
  then show ?thesis using b by (simp add: holds_def rows_of_def)
qed

interpretation held: live_invariant "cfg :: ('d, 'e, 'k) live_config" "\<lambda>fail. \<not> fail i Read_index" "holds i rows"
proof
  fix st st' :: "('d, 'e, 'k) live_state" and le
  show "holds i rows st'" if "live_ok cfg st" "holds i rows st" "\<not> le_fail le i Read_index" "act cfg le st st'"
    using that by (rule act_holds)
  show "holds i rows ([], snd st)" if "holds i rows st" using that by (simp add: holds_def)
qed

text \<open>A frame that storage returns as it was sent.\<close>

definition resendable :: "telemetry_frame \<Rightarrow> bool" where
  "resendable f \<longleftrightarrow> 0 \<le> fr_frame_index f \<and> fle (Fin 0) (fr_timestamp f) \<and> encodable f \<and> encodable (decoded f)"

lemma same_float_refl: "is_fin x \<Longrightarrow> same_float x x"
  by (auto simp: same_float_def feq_iff is_fin_def is_nan_def)

lemma same_vec_refl: "list_all is_fin (v_components v) \<Longrightarrow> same_vec v v"
  by (cases v) (simp add: same_float_refl)

lemma list_same_refl: "list_all is_fin xs \<Longrightarrow> list_all2 same_float xs xs"
  by (induction xs) (simp_all add: same_float_refl)

lemma square_ge0: "is_fin x \<Longrightarrow> fle (Fin 0) (fmul x x)"
  by (auto simp: is_fin_iff intro!: rnd_ge0)

lemma same_quat_refl: "list_all is_fin (q_components q) \<Longrightarrow> same_quat q q"
proof (cases q)
  case (Quat x y z w)
  assume "list_all is_fin (q_components q)"
  then have f: "is_fin x" "is_fin y" "is_fin z" "is_fin w" by (simp_all add: Quat q_components_def)
  then have "fle (Fin 0) (q_dot q q)"
    by (simp add: Quat) (intro fadd_ge0 square_ge0)
  then have "\<not> flt (q_dot q q) (Fin 0)" by (rule fle_not_flt)
  then show ?thesis using f by (simp add: same_quat_def Quat q_components_def same_float_refl)
qed

lemma same_opt_refl: "(\<And>a. x = Some a \<Longrightarrow> same a a) \<Longrightarrow> same_opt same x x"
  by (cases x) simp_all

end
