(* ===== verification/Live_Retry.thy ===== *)
theory Live_Retry
  imports Live_Facts
begin

text \<open>
  Retransmitted frames: a frame the store returns as it was sent compares equal to itself
  (\<open>resent_same\<close>), so a batch the store holds is ignored whole (\<open>resend\<close>), whatever happened in between
  (\<open>retries_are_ignored\<close>).
\<close>

lemma same_observation_refl: "list_all is_fin (opt_floats (\<lambda>c. [oc_timestamp c]) x) \<Longrightarrow> same_opt same_observation x x"
  by (cases x) (simp_all add: same_observation_def opt_floats_def same_float_refl)

lemma same_opt_vec_refl: "list_all is_fin (opt_floats v_components x) \<Longrightarrow> same_opt same_vec x x"
  by (cases x) (simp_all add: opt_floats_def same_vec_refl)

lemma same_disc_refl: "list_all is_fin (disc_floats d) \<Longrightarrow> same_disc d d"
  by (simp add: same_disc_def disc_floats_def same_float_refl same_vec_refl same_opt_vec_refl)

lemma same_frame_refl: "encodable f \<Longrightarrow> same_frame f f"
proof -
  assume "encodable f"
  note e = this [unfolded encodable_def frame_floats_def list_all_append list.pred_inject]
  have "same_opt same_disc (fr_disc f) (fr_disc f)" "same_opt same_throw_details (fr_game_last_throw f) (fr_game_last_throw f)"
    using e by (auto intro!: same_opt_refl same_disc_refl list_same_refl simp: opt_floats_def same_throw_details_def)
  then show ?thesis
    using e by (simp add: same_frame_def same_identity_fields_def same_observation_refl same_opt_vec_refl same_float_refl same_vec_refl
        same_quat_refl)
qed

lemma ds_contract_idem: "ds_contract None (ds_contract None d) = ds_contract None d"
  by (simp add: ds_contract_def Let_def)

lemma decoded_idem [simp]: "decoded (decoded f) = decoded f"
  by (simp add: decoded_def option.map_comp comp_def ds_contract_idem)

lemma resent_same: "resendable f \<Longrightarrow> same_stored_live_frame (canonical f) f = Some True"
  by (simp add: resendable_def same_stored_live_frame_def same_live_frame_def canonical_def same_frame_refl)

lemma row_atD: "row_at k rows = Some r \<Longrightarrow> r \<in> set rows \<and> tr_key r = k"
  by (auto simp: row_at_def find_Some_iff)

lemma resendable_time: "resendable f \<Longrightarrow> \<not> flt (fr_timestamp f) (Fin 0) \<and> \<not> is_nan (fr_timestamp f) \<and> \<not> is_inf (fr_timestamp f)"
  by (auto simp: resendable_def encodable_def frame_floats_def is_fin_def fle_not_flt)

definition stored_as_sent :: "telemetry_row list \<Rightarrow> telemetry_frame \<Rightarrow> bool" where
  "stored_as_sent rows f \<longleftrightarrow> resendable f \<and> (\<exists>row. row_at (frame_key f) rows = Some row \<and> tr_doc row = canonical f)"

lemma stored_as_sent_mono:
  "stored_as_sent rows f \<Longrightarrow> \<forall>k r. row_at k rows = Some r \<longrightarrow> row_at k rows' = Some r \<Longrightarrow> stored_as_sent rows' f"
  unfolding stored_as_sent_def by blast

lemma judge_resent:
  assumes "stored_as_sent (rows_of i db) f" "index_covers (rows_of i db) b" "\<forall>k. \<not> fail i (Read_row k)" "fs_seen s = []"
  shows "judge_frame (look_up_row fail i db) b s f = Ignore"
proof -
  obtain row where row: "row_at (frame_key f) (rows_of i db) = Some row" "tr_doc row = canonical f" and f: "resendable f"
    using assms(1) by (auto simp: stored_as_sent_def)
  have "fr_frame_index f \<le> bk_last_index b"
    using row_atD [OF row(1)] assms(2) by (auto simp: index_covers_def list_all_iff frame_key_def)
  moreover have "look_up_row fail i db (frame_key f) = Row (canonical f)" using row assms(3) by (simp add: look_up_row_def del: split_paired_All)
  moreover have "0 \<le> fr_frame_index f" using f by (simp add: resendable_def)
  ultimately show ?thesis using resendable_time [OF f] resent_same [OF f] assms(4) by (simp add: judge_frame_def compared_def Let_def)
qed

lemma fresh_fold_resent:
  assumes "list_all (stored_as_sent (rows_of (lm_id m) db)) fs" "index_covers (rows_of (lm_id m) db) (lm_book m)"
    "\<forall>k. \<not> le_fail le (lm_id m) (Read_row k)" "fs_seen s = []"
  shows "fold (fresh_step le) fs (s, m, db) = (s\<lparr>fs_result := (fs_result s)\<lparr>ignored := ignored (fs_result s) + int (length fs)\<rparr>\<rparr>, m, db)"
  using assms
proof (induction fs arbitrary: s)
  case (Cons f fs)
  have "fresh_step le f (s, m, db) = (s\<lparr>fs_result := (fs_result s)\<lparr>ignored := ignored (fs_result s) + 1\<rparr>\<rparr>, m, db)"
    using judge_resent [of "lm_id m" db f "lm_book m" "le_fail le" s] Cons.prems by (simp add: fresh_step_def take_frame_def Let_def)
  then show ?case using Cons by (simp add: add.assoc)
qed simp

lemma take_batch_resent:
  assumes "list_all (stored_as_sent (rows_of (lm_id m) db)) fs" "index_covers (rows_of (lm_id m) db) (lm_book m)"
    "\<forall>k. \<not> le_fail le (lm_id m) (Read_row k)"
  shows "take_batch cfg le fs raw (m, db) = (no_frames\<lparr>ignored := int (length fs)\<rparr>, m\<lparr>lm_last_activity := le_now le\<rparr>, db)"
proof -
  let ?m = "m\<lparr>lm_last_activity := le_now le\<rparr>" and ?s = "fresh_start (lm_book m)"
  have "list_all (stored_as_sent (rows_of (lm_id m) db)) (batch_order fs)"
    using assms(1) by (simp add: list_all_iff set_mset_mset [symmetric] del: set_mset_mset)
  then have "fold (fresh_step le) (batch_order fs) (?s, ?m, db) =
      (?s\<lparr>fs_result := (fs_result ?s)\<lparr>ignored := ignored (fs_result ?s) + int (length (batch_order fs))\<rparr>\<rparr>, ?m, db)"
    using assms(2,3) by (intro fresh_fold_resent) (simp_all add: fresh_start_def)
  then have "fresh_live_frames le fs (?m, db) = (([], no_frames\<lparr>ignored := int (length fs)\<rparr>), ?m, db)"
    by (simp add: fresh_live_frames_def fresh_start_def no_frames_def)
  then show ?thesis by (simp add: take_batch_def)
qed

lemma get_or_create_live_derived:
  assumes "get_or_create_live cfg le i server (ms, db) = Some (m, db')"
  shows "db_events db' = db_events db \<and> db_scores db' = db_scores db"
proof (cases "map_of ms i")
  case None
  have "db_events (snd (persist_context le 0 (n, db))) = db_events db \<and> db_scores (snd (persist_context le 0 (n, db))) = db_scores db"
    for n :: "('a, 'b, 'c) live_match"
    by (simp add: persist_context_def store_match_context_def Let_def)
  moreover have "init_live_match cfg le i server db = (m, db')"
    using assms None by (auto simp: get_or_create_live_def split: if_splits sum.splits option.splits)
  ultimately show ?thesis by (metis init_live_match_def snd_conv)
qed (use assms in \<open>auto simp: get_or_create_live_def split: if_splits\<close>)

lemma resend:
  assumes ok: "live_ok cfg st" and h: "holds i (rows_of i (snd st)) st" and fs: "list_all (stored_as_sent (rows_of i (snd st))) fs"
    and reads: "\<not> le_fail le i Read_index" "\<forall>k. \<not> le_fail le i (Read_row k)"
    and r: "handle_frames cfg le i server fs raw st = (r, st')"
  shows "accepted r = 0 \<and> (ignored r = int (length fs) \<or> st' = st \<and> rejected r = int (length fs)) \<and>
    db_rows (snd st') = db_rows (snd st) \<and> db_events (snd st') = db_events (snd st) \<and> db_scores (snd st') = db_scores (snd st)"
proof -
  obtain ms db where st: "st = (ms, db)" by force
  show ?thesis
  proof (cases "fs = [] \<or> get_or_create_live cfg le i server (ms, db) = None")
    case True
    then have "r = no_frames\<lparr>rejected := int (length fs)\<rparr> \<and> st' = st"
      using r st by (cases "fs = []") (auto simp: handle_frames_def no_frames_def)
    then show ?thesis by (simp add: no_frames_def)
  next
    case False
    then obtain m db1 where g: "get_or_create_live cfg le i server (ms, db) = Some (m, db1)" by auto
    obtain m0 where m0: "lm_id m0 = i" "origin cfg le (ms, db) m0" "quiet (m0, db) (m, db1)"
      using get_or_create_spec [OF g] ok st by (auto simp: live_ok_def)
    have q: "lm_id m = i" "db_rows db1 = db_rows db" "lm_book m = lm_book m0" using m0 by (simp_all add: quiet_def stage_def)
    then have rows: "rows_of i db1 = rows_of i db" by (simp add: rows_of_def)
    have "index_covers (rows_of i db) (lm_book m0)"
      using h reads(1) m0(1) origin_live [OF m0(2)] origin_new [OF m0(2)] by (cases "map_of ms i") (auto simp: holds_def st)
    then have "take_batch cfg le fs raw (m, db1) = (no_frames\<lparr>ignored := int (length fs)\<rparr>, m\<lparr>lm_last_activity := le_now le\<rparr>, db1)"
      using fs reads(2) q rows st by (intro take_batch_resent) simp_all
    then have "r = no_frames\<lparr>ignored := int (length fs)\<rparr> \<and> snd st' = db1"
      using r False g st by (auto simp: handle_frames_def)
    then show ?thesis using q get_or_create_live_derived [OF g] by (simp add: no_frames_def st)
  qed
qed

text \<open>C24: Retransmission is harmless. A batch that was accepted in full and is sent again later, after any run of handler
  calls and restarts, gains no row and no derived result: every frame is counted as ignored, or the submission is refused
  whole and nothing changes. The store reads of frame identities must not fail, and the frames must be finite.
\<close>

theorem retries_are_ignored:
  fixes cs :: "(live_env \<times> live_call) list"
  assumes "live_ok cfg st" "holds i [] st" "\<not> le_fail le i Read_index"
    and first: "handle_frames cfg le i server fs raw st = (r1, st1)" "accepted r1 = int (length fs)" "list_all resendable fs"
    and run: "list_all (\<lambda>c. \<not> le_fail (fst c) i Read_index) cs"
    and again: "\<not> le_fail le' i Read_index" "\<forall>k. \<not> le_fail le' i (Read_row k)"
      "handle_frames cfg le' i server' fs raw' (fold (live_step cfg) cs st1) = (r2, st2)"
  shows "accepted r2 = 0 \<and> (ignored r2 = int (length fs) \<or> rejected r2 = int (length fs) \<and> st2 = fold (live_step cfg) cs st1) \<and>
    db_rows (snd st2) = db_rows (snd (fold (live_step cfg) cs st1)) \<and>
    db_events (snd st2) = db_events (snd (fold (live_step cfg) cs st1)) \<and>
    db_scores (snd st2) = db_scores (snd (fold (live_step cfg) cs st1))"
proof -
  obtain ms db where st: "st = (ms, db)" by force
  obtain ms1 db1 where st1: "st1 = (ms1, db1)" by force
  define rows where "rows = rows_of i db1"
  have both0: "held.both cfg i [] st" using assms(1,2) by (simp add: held.both_def)
  have "held.both cfg i [] st1"
    using held.step_both [OF both0, of "(le, Frames i server fs raw)"] assms(3) first(1) by simp
  then have "live_ok cfg st1" "holds i rows st1" by (auto simp: held.both_def holds_def rows_def st1)
  then have "held.both cfg i rows (fold (live_step cfg) cs st1)"
    using held.run_both [of cfg i rows st1 cs] run by (simp add: held.both_def)
  then have ok: "live_ok cfg (fold (live_step cfg) cs st1)" and h: "holds i rows (fold (live_step cfg) cs st1)"
    by (simp_all add: held.both_def)
  have "list_all (stored_as_sent rows) fs"
    using handle_frames_rows [OF assms(1) [unfolded st] first(1) [unfolded st st1]] first(2,3)
    by (auto simp: stored_as_sent_def list_all_iff rows_def)
  then have "list_all (stored_as_sent (rows_of i (snd (fold (live_step cfg) cs st1)))) fs"
    using h stored_as_sent_mono by (metis (no_types, lifting) holds_def list.pred_mono_strong)
  moreover have "holds i (rows_of i (snd (fold (live_step cfg) cs st1))) (fold (live_step cfg) cs st1)"
    using h by (simp add: holds_def)
  ultimately show ?thesis using resend [OF ok _ _ again] by blast
qed

section \<open>A batch of a small server\<close>

lemma sample_order: "batch_order sample_batch = [live_frame ''p1'' 1, live_frame ''p2'' 1]"
  by (simp add: batch_order_def sample_batch_def live_frame_def insort_key.simps sample_frame_def)

text \<open>A tick time is its own tick time.\<close>

lemma ulp_above_ge0: "0 \<le> ulp_above q"
  by (simp add: ulp_above_def)

lemma next_up_ge:
  assumes "rnd q = Fin q" "0 \<le> q"
  shows "fle (Fin 0) (fsub (next_up (Fin q)) (Fin q))"
proof -
  have "fle (Fin q) (rnd (q + ulp_above q))" using rnd_mono [of q "q + ulp_above q"] ulp_above_ge0 assms(1) by simp
  then show ?thesis using assms(2) by (cases "rnd (q + ulp_above q)") (auto simp: next_up_def fsub_def intro!: rnd_ge0)
qed

lemma few_ulps_ge0: "fle (Fin 0) u \<Longrightarrow> fle (Fin 0) (few_ulps u)"
proof -
  assume "fle (Fin 0) u"
  then have "fle (Fin 0) (fmul (Fin 8) u)" by (cases u) (auto intro!: rnd_ge0)
  moreover have "fle (Fin 0) (fmin x y)" if "fle (Fin 0) x" "fle (Fin 0) y" for x y
    using that by (cases x; cases y) (auto simp: fmin_def is_nan_def)
  ultimately show ?thesis by (simp add: few_ulps_def flit_def rnd_ge0)
qed

lemma same_tick_refl: "rnd q = Fin q \<Longrightarrow> 0 \<le> q \<Longrightarrow> same_live_tick_time (Fin q) (Fin q)"
proof -
  assume q: "rnd q = Fin q" "0 \<le> q"
  have "fmax u u = u" if "fle (Fin 0) u" for u using that by (cases u) (auto simp: fmax_def is_nan_def)
  then show ?thesis
    using next_up_ge [OF q] few_ulps_ge0 [OF next_up_ge [OF q]] by (simp add: same_live_tick_time_def Let_def fsub_def [of "Fin q"])
qed

lemma live_frame_simps [simp]: "fr_frame_index (live_frame p n) = n" "fr_player_id (live_frame p n) = p" "fr_timestamp (live_frame p n) = f_of_int n"
  by (simp_all add: live_frame_def)

lemma rnd_one: "rnd 1 = Fin 1"
  by code_simp

lemma sample_judged:
  "judge_frame stored empty_book (fresh_start empty_book) (live_frame ''p1'' 1) = Keep"
  "judge_frame stored empty_book (take_frame Keep (live_frame ''p1'' 1) (fresh_start empty_book)) (live_frame ''p2'' 1) = Keep"
  by (simp_all add: judge_frame_def in_order_def fresh_start_def empty_book_def take_frame_def f_of_int_def rnd_one same_tick_refl
      frame_key_def is_nan_def is_inf_def Let_def)

lemma sample_fresh:
  assumes "lm_book m = empty_book"
  shows "fresh_live_frames le sample_batch (m, db) = (([live_frame ''p1'' 1, live_frame ''p2'' 1], no_frames), m, db)"
  using assms sample_judged by (simp add: fresh_live_frames_def sample_order fresh_step_def Let_def take_frame_def fresh_start_def)

lemma sample_registered:
  "mc_player_ids mc = [] \<Longrightarrow> rs_kept (register_players 2 [live_frame ''p1'' 1, live_frame ''p2'' 1] mc) = [live_frame ''p1'' 1, live_frame ''p2'' 1]"
  by (simp add: register_players_def roster_step_def Let_def live_frame_def sample_frame_def)

lemma sample_encodable: "encodable (live_frame ''p1'' 1)" "encodable (live_frame ''p2'' 1)"
  by code_simp+


lemma sample_stored:
  assumes "rows_of i db = []" "\<not> fail i Write_rows"
  shows "\<exists>db'. store_telemetry_frames fail now i [live_frame ''p1'' 1, live_frame ''p2'' 1] raw db = (Some 2, db')"
  using assms sample_encodable
  by (simp add: store_telemetry_frames_def Let_def insert_rows_def insert_row_def row_at_def frame_key_def live_frame_def sample_frame_def)

lemma sample_batch_accepted:
  assumes "lm_book m = empty_book" "mc_player_ids (lm_ctx m) = []" "rows_of (lm_id m) db = []" "\<not> le_fail le (lm_id m) Write_rows"
    and cap: "lc_max_players cfg = 2"
    and on: "\<not> lm_incomplete m"
  shows "accepted (fst (take_batch cfg le sample_batch raw (m, db))) = 2"
proof -
  define ks where "ks = [live_frame ''p1'' 1, live_frame ''p2'' 1]"
  define m1 where "m1 = m\<lparr>lm_last_activity := le_now le\<rparr>"
  define m2 where "m2 = m1\<lparr>lm_ctx := rs_ctx (register_players 2 ks (lm_ctx m))\<rparr>"
  have f: "fresh_live_frames le sample_batch (m1, db) = ((ks, no_frames), m1, db)"
    using sample_fresh [of m1 le db] assms(1) by (simp add: ks_def m1_def)
  have k: "rs_kept (register_players 2 ks (lm_ctx m)) = ks" using sample_registered assms(2) by (simp add: ks_def)
  have i: "lm_id m2 = lm_id m" by (simp add: m2_def register_players_spec)
  have t: "take_batch cfg le sample_batch raw (m, db) = store_and_process cfg le (raw_for (fr_frame_index (hd sample_batch)) raw ks) ks
      (no_frames\<lparr>rejected := rejected no_frames + rs_rejected (register_players 2 ks (lm_ctx m))\<rparr>) (m2, db)"
    using on f k cap by (simp add: take_batch_def m2_def m1_def [symmetric] Let_def) (simp add: m1_def ks_def)
  obtain db2 where "store_telemetry_frames (le_fail le) (le_now le) (lm_id m2) ks (raw_for (fr_frame_index (hd sample_batch)) raw ks) db = (Some 2, db2)"
    using sample_stored [of "lm_id m2" db "le_fail le"] assms(3,4) i by (auto simp: ks_def)
  then show ?thesis
    unfolding t by (simp add: store_and_process_def no_frames_def Let_def split: prod.split)
qed

lemma sample_created:
  "\<exists>m db. get_or_create_live sample_live_config sample_live_env ''m1'' ''s'' ([], empty_db) = Some (m, db) \<and>
     lm_book m = empty_book \<and> mc_player_ids (lm_ctx m) = [] \<and> rows_of (lm_id m) db = [] \<and> \<not> lm_incomplete m"
proof -
  define n where "n = new_live_match sample_live_config (le_now sample_live_env) ''m1'' ''s''"
  have rows: "rows_of i empty_db = []" for i by (simp add: rows_of_def empty_db_def)
  have n: "lm_id n = ''m1''" "lm_book n = empty_book" "mc_player_ids (lm_ctx n) = []" "\<not> lm_incomplete n"
    by (simp_all add: n_def new_live_match_def)
  have r: "resume_from_store sample_live_env empty_db n = n"
    by (simp add: resume_from_store_def rows max_frame_index_def Let_def)
  have "suspension_reason i empty_db = []" for i by (simp add: suspension_reason_def empty_db_def)
  then have "resume_suspension sample_live_env empty_db n = n"
    by (simp add: resume_suspension_def sample_live_env_def LivePersistenceFailureReason_def)
  with r have "resume_suspension sample_live_env empty_db (resume_from_store sample_live_env empty_db n) = n" by simp
  then obtain p where i: "init_live_match sample_live_config sample_live_env ''m1'' ''s'' empty_db =
      persist_context sample_live_env 0 (n\<lparr>lm_pipeline := p\<rparr>, empty_db)"
    by (auto simp: init_live_match_def n_def Let_def)
  have g: "get_or_create_live sample_live_config sample_live_env ''m1'' ''s'' ([], empty_db) =
      Some (init_live_match sample_live_config sample_live_env ''m1'' ''s'' empty_db)"
  proof -
    have "db_contexts empty_db = []" "lc_max_matches sample_live_config = 64"
      by (simp_all add: empty_db_def sample_live_config_def DefaultMaxMatches_def)
    moreover from this have "get_match_context (le_fail sample_live_env ''m1'' Read_context) ''m1'' empty_db = Inr None"
      by (simp add: get_match_context_def rows synthesized_context_def sorted_set_def Let_def sample_live_env_def)
    ultimately show ?thesis by (simp add: get_or_create_live_def)
  qed
  show ?thesis unfolding g i using n
    by (simp add: persist_context_def store_match_context_def Let_def sample_live_env_def rows)
qed

theorem retries_are_ignored_witness:
  "let st = ([], empty_db);
       (r1, st1) = handle_frames sample_live_config sample_live_env ''m1'' ''s'' sample_batch [] st;
       restarted = live_step sample_live_config (sample_live_env, Restart) st1;
       (r2, st2) = handle_frames sample_live_config sample_live_env ''m1'' ''s'' sample_batch [] restarted
   in accepted r1 = 2 \<and> accepted r2 = 0 \<and> db_rows (snd st2) = db_rows (snd restarted)"
proof -
  let ?h = "handle_frames sample_live_config sample_live_env ''m1'' ''s'' sample_batch []"
  obtain m db where g: "get_or_create_live sample_live_config sample_live_env ''m1'' ''s'' ([], empty_db) = Some (m, db)"
    and m: "lm_book m = empty_book" "mc_player_ids (lm_ctx m) = []" "rows_of (lm_id m) db = []" "\<not> lm_incomplete m"
    using sample_created by blast
  have a: "accepted (fst (?h ([], empty_db))) = 2"
    using sample_batch_accepted [OF m(1-3) _ _ m(4), of sample_live_env sample_live_config "[]"] g
    by (simp add: handle_frames_def sample_batch_def sample_live_env_def sample_live_config_def split_beta Let_def)
  obtain r1 st1 where h1: "?h ([], empty_db) = (r1, st1)" by (meson surj_pair)
  obtain r2 st2 where h2: "?h (fold (live_step sample_live_config) [(sample_live_env, Restart)] st1) = (r2, st2)" by (meson surj_pair)
  have ok: "live_ok sample_live_config ([], empty_db)" by (simp add: live_ok_def)
  have "holds ''m1'' [] ([], empty_db)" by (simp add: holds_def row_at_def)
  note r = retries_are_ignored [OF ok this _ h1 _ _ _ _ _ h2]
  have "list_all resendable sample_batch" by code_simp
  then have "accepted r2 = 0 \<and> db_rows (snd st2) = db_rows (snd (fold (live_step sample_live_config) [(sample_live_env, Restart)] st1))"
    using r a h1 by (simp add: sample_live_env_def sample_batch_def)
  then show ?thesis using h1 h2 a by (simp add: Let_def)
qed

end
