(* ===== verification/Live_Ticks.thy ===== *)
theory Live_Ticks
  imports Live_Facts
begin

text \<open>
  Tick assembly: however a producer splits the players of a tick over its batches, the pipeline is
  handed every stored tick once, whole, and in order. \<open>feed_ticks\<close> is the sequence of slices
  \<open>split_closed_ticks\<close> cuts from a stream of batches; \<open>slices_are_whole_ticks\<close> says they are the
  ticks of the stream, and \<open>slices_compose\<close> that evaluating them one by one is evaluating the stream.
\<close>

fun feed_ticks :: "telemetry_frame list \<Rightarrow> telemetry_frame list list \<Rightarrow> telemetry_frame list list \<times> telemetry_frame list" where
  "feed_ticks pending [] = ([], pending)"
| "feed_ticks pending (b # bs) =
     (let (ready, held) = split_closed_ticks (pending @ b); (slices, rest) = feed_ticks held bs
      in (if ready = [] then slices else ready # slices, rest))"

definition one_tick :: "telemetry_frame list \<Rightarrow> bool" where
  "one_tick fs \<longleftrightarrow> (\<forall>x\<in>set fs. \<forall>y\<in>set fs. fr_frame_index x = fr_frame_index y)"

abbreviation by_index :: "telemetry_frame list \<Rightarrow> bool" where
  "by_index fs \<equiv> sorted (map fr_frame_index fs)"

lemma newest_index:
  "fold (\<lambda>x i. if i < fr_frame_index x then fr_frame_index x else i) fs n = fold (\<lambda>f. max (fr_frame_index f)) fs n"
  by (induction fs arbitrary: n) (simp_all add: max_def)

lemma fold_max_in:
  "fold (\<lambda>f. max (fr_frame_index f)) fs k = k \<or> (\<exists>x\<in>set fs. fr_frame_index x = fold (\<lambda>f. max (fr_frame_index f)) fs k)"
proof (induction fs arbitrary: k)
  case (Cons g fs)
  show ?case using Cons.IH [of "max (fr_frame_index g) k"]
    by (cases "fr_frame_index g \<le> k") (auto simp: max_absorb1 max_absorb2)
qed simp

text \<open>On frames in order, the closed ticks are a prefix and the newest tick is the rest.\<close>

lemma split_in_order:
  assumes "by_index fs" "split_closed_ticks fs = (ready, held)"
  shows "ready @ held = fs \<and> (\<forall>x\<in>set ready. \<forall>y\<in>set held. fr_frame_index x < fr_frame_index y) \<and>
    (one_tick held) \<and> (fs \<noteq> [] \<longrightarrow> held \<noteq> [])"
proof (cases fs)
  case (Cons f gs)
  define n where "n = fold (\<lambda>f. max (fr_frame_index f)) gs (fr_frame_index f)"
  have r: "ready = filter (\<lambda>x. fr_frame_index x < n) fs" and h: "held = filter (\<lambda>x. \<not> fr_frame_index x < n) fs"
    using assms(2) by (simp_all add: split_closed_ticks_def Cons newest_index n_def Let_def)
  have le: "\<forall>x\<in>set fs. fr_frame_index x \<le> n" using fold_max_bounds [of "fr_frame_index f" gs] by (auto simp: Cons n_def)
  have "\<exists>x\<in>set fs. fr_frame_index x = n"
    using fold_max_in [of gs "fr_frame_index f"] by (auto simp: Cons n_def)
  then have "held \<noteq> []" by (auto simp: h filter_empty_conv)
  have "filter (\<lambda>x. fr_frame_index x < n) xs @ filter (\<lambda>x. \<not> fr_frame_index x < n) xs = xs" if "by_index xs" for xs
    using that
  proof (induction xs)
    case (Cons x xs)
    then have "\<not> fr_frame_index x < n \<Longrightarrow> filter (\<lambda>x. fr_frame_index x < n) xs = []"
      by (fastforce simp: filter_empty_conv)
    with Cons show ?case by auto
  qed simp
  then have "ready @ held = fs" using assms(1) by (simp add: r h)
  moreover have "\<forall>x\<in>set ready. \<forall>y\<in>set held. fr_frame_index x < fr_frame_index y" by (auto simp: r h)
  moreover have "\<forall>x\<in>set held. fr_frame_index x = n" using le by (force simp: h)
  then have "one_tick held" by (simp add: one_tick_def)
  ultimately show ?thesis using \<open>held \<noteq> []\<close> by blast
qed (use assms in \<open>simp add: split_closed_ticks_def one_tick_def\<close>)

lemma split_extends:
  assumes "by_index fs" "split_closed_ticks fs = (ready, held)" "by_index (held @ xs)"
  shows "by_index (fs @ xs)"
proof (cases "fs = []")
  case False
  note sp = split_in_order [OF assms(1,2)]
  then obtain h where h: "h \<in> set held" using False by (meson last_in_set)
  have "fr_frame_index x \<le> fr_frame_index y" if "x \<in> set fs" "y \<in> set xs" for x y
  proof -
    have hy: "\<forall>z\<in>set held. fr_frame_index z \<le> fr_frame_index y" using assms(3) that(2) by (auto simp: sorted_append)
    show ?thesis
    proof (cases "x \<in> set held")
      case False
      then have "x \<in> set ready" using sp that(1) by (metis Un_iff set_append)
      then have "fr_frame_index x < fr_frame_index h" using sp h by blast
      then show ?thesis using hy h by (meson less_imp_le order_less_le_trans)
    qed (use hy in blast)
  qed
  then show ?thesis using assms(1,3) by (auto simp: sorted_append)
qed (use assms in \<open>simp add: split_closed_ticks_def\<close>)

lemma feed_ticks_split:
  assumes "by_index (pending @ concat bs)" "one_tick pending"
    "feed_ticks pending bs = (slices, rest)"
  shows "concat slices @ rest = pending @ concat bs \<and>
    sorted_wrt (\<lambda>a b. \<forall>x\<in>set a. \<forall>y\<in>set b. fr_frame_index x < fr_frame_index y) (slices @ [rest]) \<and>
    (one_tick rest) \<and> [] \<notin> set slices"
  using assms
proof (induction bs arbitrary: pending slices)
  case (Cons b bs)
  obtain ready held where s: "split_closed_ticks (pending @ b) = (ready, held)" by force
  obtain sl where f: "feed_ticks held bs = (sl, rest)" and slices: "slices = (if ready = [] then sl else ready # sl)"
    using Cons.prems(3) s by (cases "feed_ticks held bs") (auto split: if_splits)
  have pb: "by_index (pending @ b)" using Cons.prems(1) by (simp add: sorted_append)
  note sp = split_in_order [OF pb s]
  have all: "pending @ concat (b # bs) = ready @ held @ concat bs" using sp by simp
  then have o: "by_index (held @ concat bs)" using Cons.prems(1) by (metis map_append sorted_append)
  note ih = Cons.IH [OF o _ f]
  have sep: "\<forall>x\<in>set ready. \<forall>y\<in>set (held @ concat bs). fr_frame_index x < fr_frame_index y" if "ready \<noteq> []"
  proof (intro ballI)
    fix x y assume x: "x \<in> set ready" and y: "y \<in> set (held @ concat bs)"
    have "pending @ b \<noteq> []" using sp that by (metis Nil_is_append_conv)
    then have "held \<noteq> []" using sp by blast
    then obtain h where h: "h \<in> set held" by (meson last_in_set)
    have "fr_frame_index h \<le> fr_frame_index y \<or> y \<in> set held"
      using o h y by (auto simp: sorted_append)
    moreover have "\<forall>z\<in>set held. fr_frame_index x < fr_frame_index z" using sp x by blast
    ultimately show "fr_frame_index x < fr_frame_index y" using h by (meson order_less_le_trans)
  qed
  have ih': "concat sl @ rest = held @ concat bs" using ih sp by blast
  then have mem: "set (held @ concat bs) = \<Union> (set ` set sl) \<union> set rest" by (metis set_append set_concat)
  have sl: "sorted_wrt (\<lambda>a b. \<forall>x\<in>set a. \<forall>y\<in>set b. fr_frame_index x < fr_frame_index y) (sl @ [rest])"
    "one_tick rest" "[] \<notin> set sl"
    using ih sp by blast+
  show ?case
  proof (cases "ready = []")
    case True
    then have "slices = sl" "pending @ concat (b # bs) = held @ concat bs" using slices all by simp_all
    then show ?thesis using sl ih' by (simp only:) blast
  next
    case False
    then have e: "slices = ready # sl" using slices by simp
    have "\<forall>b\<in>set (sl @ [rest]). \<forall>x\<in>set ready. \<forall>y\<in>set b. fr_frame_index x < fr_frame_index y"
      using sep [OF False] unfolding mem by auto
    moreover have "concat slices @ rest = pending @ concat (b # bs)" unfolding all e using ih' by simp
    ultimately show ?thesis unfolding e using sl False by (simp only: append_Cons sorted_wrt.simps list.set insert_iff) blast
  qed
qed simp

section \<open>Evaluating slices\<close>

fun process_slices :: "env \<Rightarrow> match_context \<Rightarrow> telemetry_frame list list \<Rightarrow> ('d, 'e, 'k) run_state \<Rightarrow> bool \<times> ('d, 'e, 'k) run_state" where
  "process_slices en mc [] st = (False, st)"
| "process_slices en mc (s # ss) st =
     (let (cancelled, st) = process_indices en mc s (frame_indices s) st
      in if cancelled then (True, st) else process_slices en mc ss st)"

lemma process_indices_append:
  "process_indices en mc fs (is @ js) st =
     (let (c, st) = process_indices en mc fs is st in if c then (True, st) else process_indices en mc fs js st)"
  by (induction "is" arbitrary: st) (simp_all add: Let_def)

lemma process_indices_cong:
  "\<forall>i\<in>set is. rows_at i fs = rows_at i gs \<Longrightarrow> process_indices en mc fs is st = process_indices en mc gs is st"
proof (induction "is" arbitrary: st)
  case (Cons i "is")
  then have "process_index en mc fs i st = process_index en mc gs i st" by (simp add: process_index_def)
  then show ?case using Cons by simp
qed simp

definition before :: "telemetry_frame list \<Rightarrow> telemetry_frame list \<Rightarrow> bool" where
  "before a b \<longleftrightarrow> (\<forall>x\<in>set a. \<forall>y\<in>set b. fr_frame_index x < fr_frame_index y)"

lemma frame_indices_append:
  assumes "before a b"
  shows "frame_indices (a @ b) = frame_indices a @ frame_indices b"
  by (rule sorted_distinct_set_unique)
     (use assms in \<open>fastforce simp: frame_indices_def before_def sorted_append\<close>)+

lemma rows_at_before:
  assumes "before a b"
  shows "x \<in> set a \<Longrightarrow> rows_at (fr_frame_index x) (a @ b) = rows_at (fr_frame_index x) a"
    and "y \<in> set b \<Longrightarrow> rows_at (fr_frame_index y) (a @ b) = rows_at (fr_frame_index y) b"
  using assms by (force simp: rows_at_def before_def filter_empty_conv)+

lemma process_indices_parts:
  assumes "before a b"
  shows "process_indices en mc (a @ b) (frame_indices a) st = process_indices en mc a (frame_indices a) st"
    and "process_indices en mc (a @ b) (frame_indices b) st = process_indices en mc b (frame_indices b) st"
  using rows_at_before [OF assms] by (intro process_indices_cong; auto simp: frame_indices_def)+

lemma process_indices_two:
  assumes "before a b"
  shows "process_indices en mc (a @ b) (frame_indices (a @ b)) st =
    (let (c, st) = process_indices en mc a (frame_indices a) st in if c then (True, st) else process_indices en mc b (frame_indices b) st)"
  by (simp add: frame_indices_append [OF assms] process_indices_append process_indices_parts [OF assms] split: prod.split)

lemma slices_compose:
  "sorted_wrt before ss \<Longrightarrow> process_indices en mc (concat ss) (frame_indices (concat ss)) st = process_slices en mc ss st"
proof (induction ss arbitrary: st)
  case (Cons s ss)
  then have "before s (concat ss)" by (auto simp: before_def)
  then show ?case using Cons by (simp add: process_indices_two split: prod.split)
qed (simp add: frame_indices_def)



section \<open>The slices of a live match\<close>

text \<open>The stored frames waiting for their tick to close are of the newest tick the store holds.\<close>

definition ticks_ok :: "('d, 'e, 'k) live_match \<Rightarrow> bool" where
  "ticks_ok m \<longleftrightarrow> list_all (\<lambda>x. fr_frame_index x = bk_last_index (lm_book m)) (lm_pending m)"

lemma pending_simps [simp]:
  "lm_pending (fst (snd (persist_derived le final r (m, db)))) = lm_pending m"
  "lm_pending (fst (record_result le final r (m, db))) = lm_pending m"
  "lm_pending (fst (persist_context le site (m, db))) = lm_pending m"
  by (simp_all add: persist_derived_def record_result_def persist_context_def Let_def split_beta)

lemma process_locked_pending [simp]: "lm_pending (fst (process_locked le frames (m, db))) = lm_pending m"
proof (cases "lm_incomplete m")
  case False
  obtain c p r where pm: "process_match (le_env le) (lm_ctx m) frames (lm_pipeline m) = (c, p, r)" by (metis prod_cases3)
  define m1 where "m1 = m\<lparr>lm_ctx := with_rules (lm_pipeline m) (lm_ctx m), lm_pipeline := p, lm_initialized := True\<rparr>"
  define m2 where "m2 = m1\<lparr>lm_tallies := (lm_tallies m1)\<lparr>ta_frame_count := ta_frame_count (lm_tallies m1) + mr_frames_processed r,
      ta_invalid := ta_invalid (lm_tallies m1) + mr_invalid_frames r\<rparr>\<rparr>"
  obtain ok m3 db3 where pd: "persist_derived le False r (m2, db) = (ok, m3, db3)" by (metis prod_cases3)
  have m: "lm_pending m1 = lm_pending m" "lm_pending m3 = lm_pending m"
    using pending_simps(1) [of le False r m2 db] unfolding pd fst_conv snd_conv by (simp_all add: m1_def m2_def)
  have "process_locked le frames (m, db) = (if c then (m1, db) else if ok then record_result le False r (m3, db3) else (m3, db3))"
    using False pd by (simp add: process_locked_def pm m1_def m2_def Let_def)
  then show ?thesis using m by simp
qed (simp add: process_locked_def)

text \<open>
  One batch: the frames it stores come after the waiting ones, the slice handed on is what
  \<open>split_closed_ticks\<close> cuts off, and the rest waits.
\<close>

lemma by_index_last: "by_index fs \<Longrightarrow> f \<in> set fs \<Longrightarrow> fr_frame_index f \<le> fr_frame_index (last fs)"
  by (induction fs) auto

lemma note_stored_newest:
  assumes "fs \<noteq> []" "by_index fs" "list_all (\<lambda>f. bk_last_index b \<le> fr_frame_index f) fs"
  shows "bk_last_index (note_stored fs b) = fr_frame_index (last fs)"
proof -
  have "bk_last_index (note_stored fs b) \<in> insert (bk_last_index b) (fr_frame_index ` set fs)"
    using fold_max_in [of fs "bk_last_index b"] unfolding note_stored_index image_iff insert_iff by metis
  then have "bk_last_index (note_stored fs b) \<le> fr_frame_index (last fs)"
    using assms by_index_last [OF assms(2)] by (auto simp: list_all_iff)
  moreover have "fr_frame_index (last fs) \<le> bk_last_index (note_stored fs b)" using note_stored_ge [of b fs] assms(1) by simp
  ultimately show ?thesis by simp
qed

lemma roster_order: "by_index (rs_kept s @ fs) \<Longrightarrow> by_index (rs_kept (fold (roster_step cap) fs s))"
proof (induction fs arbitrary: s)
  case (Cons f fs)
  have "rs_kept (roster_step cap f s) \<in> {rs_kept s, rs_kept s @ [f]}" by (simp add: roster_step_def Let_def)
  then have "by_index (rs_kept (roster_step cap f s) @ fs)" using Cons.prems by (auto simp: sorted_append)
  then show ?case using Cons.IH by simp
qed simp

lemma split_one_tick:
  assumes "one_tick p" "by_index p"
  shows "split_closed_ticks p = ([], p)"
proof -
  obtain ready held where s: "split_closed_ticks p = (ready, held)" by force
  note sp = split_in_order [OF assms(2) s]
  have "ready = []"
  proof (rule ccontr)
    assume r: "ready \<noteq> []"
    then have "held \<noteq> []" using sp by auto
    then have "fr_frame_index (hd ready) < fr_frame_index (hd held)" using sp r by simp
    moreover have "hd ready \<in> set p" "hd held \<in> set p" using sp r \<open>held \<noteq> []\<close> by (metis Un_iff hd_in_set set_append)+
    ultimately show False using assms(1) unfolding one_tick_def by (metis less_irrefl)
  qed
  then show ?thesis using s sp by simp
qed

lemma ticks_ok_order: "ticks_ok m \<Longrightarrow> by_index (lm_pending m)"
proof -
  have "list_all (\<lambda>x. fr_frame_index x = n) p \<Longrightarrow> by_index p" for n p by (induction p) (auto simp: list_all_iff)
  then show "ticks_ok m \<Longrightarrow> by_index (lm_pending m)" unfolding ticks_ok_def by blast
qed

lemma ticks_ok_one: "ticks_ok m \<Longrightarrow> one_tick (lm_pending m)"
  by (auto simp: ticks_ok_def one_tick_def list_all_iff)

text \<open>One call: \<open>fs\<close> are the frames the store took.\<close>

definition cuts :: "live_env \<Rightarrow> telemetry_frame list \<Rightarrow> ('d, 'e, 'k) live_match \<times> live_db \<Rightarrow> ('d, 'e, 'k) live_match \<times> live_db \<Rightarrow> bool" where
  "cuts le fs x y \<longleftrightarrow> stores (le_now le) fs x y \<and> by_index (lm_pending (fst x) @ fs) \<and>
     snd (split_closed_ticks (lm_pending (fst x) @ fs)) = lm_pending (fst y) \<and> ticks_ok (fst y)"

lemma no_frames_cut:
  assumes "ticks_ok m" "quiet (m, db) (m', db')" "lm_pending m' = lm_pending m"
  shows "cuts le [] (m, db) (m', db')"
proof -
  have "ticks_ok m'" using assms by (simp add: ticks_ok_def quiet_def)
  moreover note ticks_ok_order [OF assms(1)]
  ultimately show ?thesis
    using assms quiet_stores [OF assms(2)] split_one_tick [OF ticks_ok_one [OF assms(1)] ticks_ok_order [OF assms(1)]] by (simp add: cuts_def)
qed

lemma held_newest:
  assumes "by_index (p @ ks)" "ks \<noteq> []" "list_all (\<lambda>f. bk_last_index b \<le> fr_frame_index f) ks" "split_closed_ticks (p @ ks) = (ready, held)"
  shows "list_all (\<lambda>x. fr_frame_index x = bk_last_index (note_stored ks b)) held"
proof -
  note sp = split_in_order [OF assms(1,4)]
  have "held \<noteq> []" using sp assms(2) by blast
  then have "last held = last ks" using sp assms(2) by (metis last_appendR)
  then have "fr_frame_index x = fr_frame_index (last ks)" if "x \<in> set held" for x
    using sp that \<open>held \<noteq> []\<close> by (metis last_in_set one_tick_def)
  moreover have "bk_last_index (note_stored ks b) = fr_frame_index (last ks)"
    using assms(1-3) by (intro note_stored_newest) (simp_all add: sorted_append)
  ultimately show ?thesis by (simp add: list_all_iff)
qed

lemma store_and_process_cuts:
  assumes "ticks_ok m" "store_and_process cfg le raw ks r (m, db) = (r', m', db')" "by_index ks" "ks \<noteq> []"
    "list_all (\<lambda>f. bk_last_index (lm_book m) \<le> fr_frame_index f) ks"
  shows "\<exists>fs. cuts le fs (m, db) (m', db')"
proof (cases "store_telemetry_frames (le_fail le) (le_now le) (lm_id m) ks raw db")
  case (Pair o1 db1)
  show ?thesis
  proof (cases o1)
    case None
    then have "db1 = db" using Pair by (auto simp: store_telemetry_frames_def Let_def split: if_splits)
    then have "m' = m" "db' = db" using assms(2) by (simp_all add: store_and_process_def Pair None)
    then show ?thesis using no_frames_cut [OF assms(1) quiet_refl, of le db] by auto
  next
    case (Some n)
    define m1 where "m1 = m\<lparr>lm_tallies := (lm_tallies m)\<lparr>ta_rows_stored := ta_rows_stored (lm_tallies m) + n\<rparr>,
        lm_book := note_stored ks (lm_book m)\<rparr>"
    have "store_telemetry_frames (le_fail le) (le_now le) (lm_id m) ks raw db = (Some n, db1)" using Pair Some by simp
    then have "stores (le_now le) ks (m, db) (m1, db1) \<and> n = int (length (rows_of (lm_id m) db1)) - int (length (rows_of (lm_id m) db))"
      by (rule write_rows_stage) (simp_all add: m1_def)
    then have st: "stores (le_now le) ks (m, db) (m1, db1)" by blast
    obtain ready held where sp: "split_closed_ticks (lm_pending m @ ks) = (ready, held)" by force
    obtain m2 db2 where a: "assemble_ticks le ks (m1, db1) = (m2, db2)" by force
    have "assemble_ticks le ks (m1, db1) =
        (if ready = [] then (m1\<lparr>lm_pending := held\<rparr>, db1) else process_locked le ready (m1\<lparr>lm_pending := held\<rparr>, db1))"
      using sp by (simp add: assemble_ticks_def m1_def Let_def)
    then have "(m2, db2) \<in> {(m1\<lparr>lm_pending := held\<rparr>, db1), process_locked le ready (m1\<lparr>lm_pending := held\<rparr>, db1)}"
      unfolding a by simp
    moreover have "lm_pending (m1\<lparr>lm_pending := held\<rparr>) = held" by simp
    ultimately have pend: "lm_pending m2 = held"
      using process_locked_pending [of le ready "m1\<lparr>lm_pending := held\<rparr>" db1] by (metis fst_conv insert_iff singletonD)
    have e: "(m', db') = (if lc_persist_interval cfg \<le> time_sub (le_now le) (lm_last_persist m2) then persist_context le 1 (m2, db2) else (m2, db2))"
      using assms(2) a by (simp add: store_and_process_def Pair Some m1_def Let_def)
    have "quiet (m1, db1) (m2, db2)" using assemble_ticks_quiet [of m1 db1 le ks] unfolding a .
    moreover have "quiet (m2, db2) (m', db')" unfolding e by (simp add: persist_context_quiet)
    ultimately have q: "quiet (m1, db1) (m', db')" by (rule quiet_trans)
    have "lm_pending m' = held" using pend pending_simps(3) [of le 1 m2 db2] e by (metis fst_conv)
    moreover have s: "stores (le_now le) ks (m, db) (m', db')" by (rule stores_then_quiet [OF st q])
    moreover have o: "by_index (lm_pending m @ ks)"
      using ticks_ok_order [OF assms(1)] assms(1,3,5) by (auto simp: ticks_ok_def list_all_iff sorted_append)
    moreover have "ticks_ok m'"
      using held_newest [OF o assms(4,5) sp] s calculation(1) by (simp add: ticks_ok_def stores_def)
    ultimately show ?thesis using sp by (intro exI [of _ ks]) (simp add: cuts_def)
  qed
qed

lemma take_batch_cuts:
  assumes "ticks_ok m" "take_batch cfg le input raw (m, db) = (r, m', db')"
  shows "\<exists>fs. cuts le fs (m, db) (m', db')"
proof -
  define m0 where "m0 = m\<lparr>lm_last_activity := le_now le\<rparr>"
  obtain fs r1 m1 db1 where f: "fresh_live_frames le input (m0, db) = ((fs, r1), m1, db1)" by (metis prod_cases3 surj_pair)
  note fl = fresh_live_frames_spec [OF f]
  have "quiet (m, db) (m0, db)" by (rule quiet_match) (simp_all add: m0_def)
  then have q1: "quiet (m, db) (m1, db1)" using fl quiet_trans by blast
  define rs where "rs = register_players (lc_max_players cfg) fs (lm_ctx m1)"
  define m2 where "m2 = m1\<lparr>lm_ctx := rs_ctx rs\<rparr>"
  have q2: "quiet (m, db) (m2, db1)"
    by (rule quiet_trans [OF q1], rule quiet_match) (simp_all add: m2_def rs_def register_players_spec)
  have p: "lm_pending m1 = lm_pending m" "lm_pending m2 = lm_pending m" using fl by (simp_all add: m0_def m2_def)
  show ?thesis
  proof (cases "fs = [] \<or> rs_kept rs = []")
    case True
    then have "(m', db') \<in> {(m1, db1), (m2, db1)}"
      using assms(2) f by (auto simp: take_batch_def m0_def rs_def m2_def Let_def split: if_splits)
    then have "quiet (m, db) (m', db') \<and> lm_pending m' = lm_pending m" using q1 q2 p by auto
    then show ?thesis using no_frames_cut [OF assms(1)] by blast
  next
    case False
    define db2 where "db2 = (if rs_changed rs \<and> lm_incomplete m2
      then mark_incomplete (le_fail le (lm_id m2) Mark_roster) (lm_id m2) (mc_player_ids (lm_ctx m2)) (su_reason (lm_suspension m2)) db1 else db1)"
    define r2 where "r2 = r1\<lparr>rejected := rejected r1 + rs_rejected rs\<rparr>"
    have q3: "quiet (m, db) (m2, db2)" using quiet_trans [OF q2 mark_quiet] q2 by (simp add: db2_def)
    have e: "take_batch cfg le input raw (m, db) =
        store_and_process cfg le (raw_for (fr_frame_index (hd input)) raw (rs_kept rs)) (rs_kept rs) r2 (m2, db2)"
      using False unfolding take_batch_def prod.case m0_def [symmetric] f Let_def rs_def [symmetric] m2_def [symmetric]
        r2_def [symmetric] db2_def [symmetric] by (simp only: de_Morgan_disj if_False)
    have book: "lm_book m2 = lm_book m" using q2 by (simp add: quiet_def)
    have "by_index (rs_kept rs)" using fl roster_order [of "\<lparr>rs_ctx = lm_ctx m1, rs_kept = [], rs_rejected = 0, rs_changed = False\<rparr>" fs]
      by (simp add: rs_def register_players_def)
    moreover have "list_all (\<lambda>f. bk_last_index (lm_book m2) \<le> fr_frame_index f) (rs_kept rs)"
      using fl set_mset_mono [OF register_players_spec(2) [of "lc_max_players cfg" fs "lm_ctx m1"]] book
      by (auto simp: list_all_iff rs_def m0_def)
    moreover have "ticks_ok m2" using assms(1) book p by (simp add: ticks_ok_def)
    ultimately obtain fs' where "cuts le fs' (m2, db2) (m', db')"
      using store_and_process_cuts [OF _ assms(2) [unfolded e]] False by blast
    then have "cuts le fs' (m, db) (m', db')" using quiet_then_stores [OF q3] p by (simp add: cuts_def)
    then show ?thesis by blast
  qed
qed

fun take_batches :: "('d, 'e, 'k) live_config \<Rightarrow> (live_env \<times> telemetry_frame list \<times> string) list \<Rightarrow>
    ('d, 'e, 'k) live_match \<times> live_db \<Rightarrow> ('d, 'e, 'k) live_match \<times> live_db" where
  "take_batches cfg [] x = x"
| "take_batches cfg ((le, input, raw) # cs) x = take_batches cfg cs (snd (take_batch cfg le input raw x))"

definition stored_batches :: "(live_env \<times> telemetry_frame list \<times> string) list \<Rightarrow> telemetry_frame list list \<Rightarrow> telemetry_row list \<Rightarrow> telemetry_row list" where
  "stored_batches cs bs rows = fold (\<lambda>(c, fs). insert_rows (le_now (fst c)) fs) (zip cs bs) rows"

text \<open>Every frame the store takes from a live match reaches tick assembly exactly once and in order. Over any sequence
  of batches, with any store faults, the frames stored by the batches, after those already waiting, are in index order;
  the rows of the match are those frames; and what waits at the end is what cutting that stream into ticks leaves over.
\<close>

theorem stored_frames_are_assembled_once:
  fixes cs :: "(live_env \<times> telemetry_frame list \<times> string) list"
  assumes "ticks_ok m" "take_batches cfg cs (m, db) = (m', db')"
  shows "\<exists>bs. length bs = length cs \<and> by_index (lm_pending m @ concat bs) \<and>
    rows_of (lm_id m) db' = stored_batches cs bs (rows_of (lm_id m) db) \<and>
    snd (feed_ticks (lm_pending m) bs) = lm_pending m'"
  using assms
proof (induction cs arbitrary: m db)
  case Nil
  then show ?case using ticks_ok_order [of m] by (simp add: stored_batches_def)
next
  case (Cons c cs)
  obtain le input raw where c: "c = (le, input, raw)" by (metis prod_cases3)
  obtain r m1 db1 where t: "take_batch cfg le input raw (m, db) = (r, m1, db1)" by (metis prod_cases3)
  obtain fs where cut: "cuts le fs (m, db) (m1, db1)" using take_batch_cuts [OF Cons.prems(1) t] by blast
  then have m1: "ticks_ok m1" "lm_id m1 = lm_id m" "rows_of (lm_id m) db1 = insert_rows (le_now le) fs (rows_of (lm_id m) db)"
    "by_index (lm_pending m @ fs)" "snd (split_closed_ticks (lm_pending m @ fs)) = lm_pending m1"
    by (simp_all add: cuts_def stores_def stage_def)
  obtain bs where bs: "length bs = length cs" "by_index (lm_pending m1 @ concat bs)"
    "rows_of (lm_id m) db' = stored_batches cs bs (rows_of (lm_id m) db1)" "snd (feed_ticks (lm_pending m1) bs) = lm_pending m'"
    using Cons.IH [OF m1(1), of db1] Cons.prems(2) t m1(2) by (auto simp: c)
  obtain ready where sp: "split_closed_ticks (lm_pending m @ fs) = (ready, lm_pending m1)" using m1(5) by (cases "split_closed_ticks (lm_pending m @ fs)") simp
  note s = split_in_order [OF m1(4) sp]
  have "by_index (lm_pending m @ concat (fs # bs))" using split_extends [OF m1(4) sp bs(2)] by simp
  moreover have "rows_of (lm_id m) db' = stored_batches (c # cs) (fs # bs) (rows_of (lm_id m) db)"
    using bs(3) m1(3) by (simp add: stored_batches_def c)
  moreover have "snd (feed_ticks (lm_pending m) (fs # bs)) = lm_pending m'" using bs(4) sp by (auto split: prod.split)
  ultimately show ?case using bs(1) by (intro exI [of _ "fs # bs"]) simp
qed

theorem stored_frames_are_assembled_once_witness:
  "let m = new_live_match sample_live_config 0 ''m1'' ''s''; cs = [(sample_live_env, sample_batch, ''raw''), (sample_live_env, [live_frame ''p2'' 1], ''raw'')];
       out = take_batches sample_live_config cs (m, empty_db) in
   \<exists>bs. length bs = 2 \<and> by_index (concat bs) \<and> rows_of (lm_id m) (snd out) = stored_batches cs bs [] \<and> snd (feed_ticks [] bs) = lm_pending (fst out)"
proof -
  define m where "m = new_live_match sample_live_config 0 ''m1'' ''s''"
  define cs where "cs = [(sample_live_env, sample_batch, ''raw''), (sample_live_env, [live_frame ''p2'' 1], ''raw'')]"
  obtain m' db' where t: "take_batches sample_live_config cs (m, empty_db) = (m', db')" by force
  have p: "lm_pending m = []" "length cs = 2" by (simp_all add: m_def cs_def new_live_match_def)
  then have "ticks_ok m" by (simp add: ticks_ok_def)
  from stored_frames_are_assembled_once [OF this t] show ?thesis
    unfolding Let_def m_def [symmetric] cs_def [symmetric] t fst_conv snd_conv p by (simp add: rows_of_def empty_db_def)
qed

end
