(* ===== verification/Detect.thy ===== *)
theory Detect
  imports Motion Health
begin

text \<open>
  What every detector shares (\<open>internal/detect/detector.go\<close>, \<open>internal/model/math_helpers.go\<close>): the identity and
  weight of a detector (\<open>base\<close> is \<open>BaseDetector\<close>), \<open>make_event\<close>, the players it looks at, its
  parameters, and the statistics it computes.

  A detector is a step on its own state: for each player it looks at, in order of their ids, the
  events it reports and the state it goes on with (\<open>over\<close>). \<open>sound_events\<close> is what every detector promises
  of the events it reports, and the locale \<open>detector_steps\<close> carries it from one step to a frame.

  \<open>detect_env\<close> is what detectors take from outside: \<open>math.Exp\<close> and its relatives, the random event ids
  (\<open>de_id i n\<close> is the id of the \<open>n\<close>-th event detector \<open>i\<close> makes), the JSON encoding of evidence and the
  hexadecimal SHA-256 digest of quoted and delimited values (\<open>de_digest\<close>). The
  decision observer, a diagnostic hook, is not modelled; a match context is never nil in production.
\<close>

datatype datum = Dfloat f64 | Dint int | Dtext string | Dflag bool | Ditems "datum list" | Dgroup "(string \<times> datum) list"

record detect_env =
  de_exp :: "f64 \<Rightarrow> f64"
  de_log :: "f64 \<Rightarrow> f64"
  de_log10 :: "f64 \<Rightarrow> f64"
  de_acos :: "f64 \<Rightarrow> f64"
  de_sin :: "f64 \<Rightarrow> f64"
  de_pow :: "f64 \<Rightarrow> f64 \<Rightarrow> f64"
  de_atanh :: "f64 \<Rightarrow> f64"
  de_tanh :: "f64 \<Rightarrow> f64"
  de_id :: "string \<Rightarrow> nat \<Rightarrow> string"
  de_json :: "string \<Rightarrow> (string \<times> datum) list \<Rightarrow> string"
  de_digest :: "datum list \<Rightarrow> string"

section \<open>Numbers\<close>

definition sigmoid_confidence :: "detect_env \<Rightarrow> f64 \<Rightarrow> f64 \<Rightarrow> f64 \<Rightarrow> f64" where
  "sigmoid_confidence de v threshold steepness =
     fdiv (Fin 1) (fadd (Fin 1) (de_exp de (fmul (fneg steepness) (fsub v threshold))))"

definition sum_of :: "f64 list \<Rightarrow> f64" where
  "sum_of vs = fold (\<lambda>v s. fadd s v) vs (Fin 0)"

definition count_of :: "'a list \<Rightarrow> f64" where
  "count_of vs = f_of_int (int (length vs))"

definition mean :: "f64 list \<Rightarrow> f64" where
  "mean vs = (if vs = [] then Fin 0 else fdiv (sum_of vs) (count_of vs))"

definition variance :: "f64 list \<Rightarrow> f64" where
  "variance vs = (if length vs < 2 then Fin 0
     else let m = mean vs in fdiv (sum_of (map (\<lambda>v. fmul (fsub v m) (fsub v m)) vs)) (count_of vs))"

definition std_dev :: "f64 list \<Rightarrow> f64" where
  "std_dev vs = (if length vs < 2 then Fin 0
     else let m = mean vs in fsqrt (fdiv (sum_of (map (\<lambda>v. fmul (fsub v m) (fsub v m)) vs)) (count_of vs)))"

text \<open>\<open>sort.Float64s\<close> puts every NaN first.\<close>

definition sort_floats :: "f64 list \<Rightarrow> f64 list" where
  "sort_floats = sort_key (\<lambda>x. (x \<noteq> NaN, fkey x))"

definition middle :: "f64 list \<Rightarrow> f64" where
  "middle xs = (let n = length xs in
     if even n then fdiv (fadd (xs ! (n div 2 - 1)) (xs ! (n div 2))) (Fin 2) else xs ! (n div 2))"

definition median :: "f64 list \<Rightarrow> f64" where
  "median vs = (if vs = [] then Fin 0 else middle (sort_floats vs))"

definition min_float :: "f64 list \<Rightarrow> f64" where
  "min_float vs = (case vs of [] \<Rightarrow> Fin 0 | v # vs \<Rightarrow> fold (\<lambda>x m. if flt x m then x else m) vs v)"

definition max_float :: "f64 list \<Rightarrow> f64" where
  "max_float vs = (case vs of [] \<Rightarrow> Fin 0 | v # vs \<Rightarrow> fold (\<lambda>x m. if flt m x then x else m) vs v)"

definition deg_to_rad :: "f64 \<Rightarrow> f64" where
  "deg_to_rad x = fdiv (fmul x (flit go_pi)) (Fin 180)"

definition percentile :: "f64 list \<Rightarrow> f64 \<Rightarrow> f64" where
  "percentile xs p =
     (if xs = [] then Fin 0
      else if fle p (Fin 0) then hd xs
      else if fle (Fin 1) p then last xs
      else
        let idx = fmul p (f_of_int (int (length xs) - 1)); lo = f_to_int (ffloor idx); frac = fsub idx (f_of_int lo) in
        if int (length xs) \<le> lo + 1 then xs ! nat lo
        else fadd (fmul (xs ! nat lo) (fsub (Fin 1) frac)) (fmul (xs ! nat (lo + 1)) frac))"

definition coefficient_of_variation :: "f64 list \<Rightarrow> f64" where
  "coefficient_of_variation vs =
     (let m = mean vs in if flt (fabs m) (flit (1 / 10 ^ 12)) then Fin 0 else fdiv (std_dev vs) (fabs m))"

definition max_f :: "f64 \<Rightarrow> f64 \<Rightarrow> f64" where
  "max_f a b = (if flt b a then a else b)"

text \<open>The builtin \<open>max\<close>.\<close>

definition go_max :: "f64 \<Rightarrow> f64 \<Rightarrow> f64" where
  "go_max a b = (if is_nan a \<or> is_nan b then NaN else if flt a b then b else a)"

definition min_f :: "f64 \<Rightarrow> f64 \<Rightarrow> f64" where
  "min_f a b = (if flt a b then a else b)"

text \<open>
  \<open>fmt\<close>'s \<open>%.ng\<close> and \<open>%+.nf\<close>. \<open>dec_exp q\<close> is the exponent of the leading decimal digit of \<open>q > 0\<close>; \<open>%g\<close> keeps \<open>n\<close> significant
  digits, drops trailing zeros and writes an exponent when it is below -4 or not below the number of digits kept.
\<close>

definition dec_exp :: "rat \<Rightarrow> int" where
  "dec_exp q = (let (a, b) = quotient_of q; m = (b + a - 1) div a in
     if b \<le> a then int (length (digits (nat (a div b)))) - 1
     else - int (length (digits (nat (m - 1)))))"

definition sig_digits :: "nat \<Rightarrow> rat \<Rightarrow> string \<times> int" where
  "sig_digits n q = (let e = dec_exp q; m = rhe (q * 10 powi (int n - 1 - e)); (m, e) = (if m = 10 ^ n then (10 ^ (n - 1), e + 1) else (m, e))
     in (rev (dropWhile (\<lambda>c. c = CHR ''0'') (rev (digits (nat m)))), e))"

definition fmt_exponent :: "int \<Rightarrow> string" where
  "fmt_exponent e = (if e < 0 then ''e-'' else ''e+'') @ (let ds = digits (nat \<bar>e\<bar>) in if length ds < 2 then CHR ''0'' # ds else ds)"

definition fmt_sig :: "nat \<Rightarrow> rat \<Rightarrow> string" where
  "fmt_sig n q =
     (if q = 0 then ''0''
      else
        let (ds, e) = sig_digits n \<bar>q\<bar>; k = length ds; p = e + 1; sign = (if q < 0 then ''-'' else []);
            most = (if k < n \<and> p \<le> int k then int k else int n)
        in sign @
          (if e < - 4 \<or> most \<le> e then take 1 ds @ (if k \<le> 1 then [] else ''.'' @ drop 1 ds) @ fmt_exponent e
           else if int k \<le> p then ds @ replicate (nat (p - int k)) (CHR ''0'')
           else if 0 < p then take (nat p) ds @ ''.'' @ drop (nat p) ds
           else ''0.'' @ replicate (nat (- p)) (CHR ''0'') @ ds))"

fun fmt_g :: "nat \<Rightarrow> f64 \<Rightarrow> string" where
  "fmt_g n NaN = ''NaN''"
| "fmt_g n (Inf s) = (if s then ''-Inf'' else ''+Inf'')"
| "fmt_g n (Fin q) = fmt_sig n q"

definition fmt_signed :: "nat \<Rightarrow> f64 \<Rightarrow> string" where
  "fmt_signed n x = (if is_inf x \<or> flt x (Fin 0) then fmt_f n x else ''+'' @ fmt_f n x)"

text \<open>\<open>strings.Join\<close>.\<close>

fun join_with :: "string \<Rightarrow> string list \<Rightarrow> string" where
  "join_with sep [] = []"
| "join_with sep [x] = x"
| "join_with sep (x # xs) = x @ sep @ join_with sep xs"

section \<open>Rotation statistics\<close>

fun q_lincomb :: "f64 \<Rightarrow> quat \<Rightarrow> f64 \<Rightarrow> quat \<Rightarrow> quat" where
  "q_lincomb a (Quat x y z w) b (Quat x' y' z' w') =
     Quat (fadd (fmul a x) (fmul b x')) (fadd (fmul a y) (fmul b y')) (fadd (fmul a z) (fmul b z')) (fadd (fmul a w) (fmul b w'))"

fun q_towards :: "quat \<Rightarrow> quat \<Rightarrow> f64 \<Rightarrow> quat" where
  "q_towards (Quat x y z w) (Quat x' y' z' w') t =
     Quat (fadd x (fmul t (fsub x' x))) (fadd y (fmul t (fsub y' y))) (fadd z (fmul t (fsub z' z))) (fadd w (fmul t (fsub w' w)))"

fun q_opposite :: "quat \<Rightarrow> quat" where
  "q_opposite (Quat x y z w) = Quat (fneg x) (fneg y) (fneg z) (fneg w)"

definition q_slerp :: "detect_env \<Rightarrow> quat \<Rightarrow> quat \<Rightarrow> f64 \<Rightarrow> quat" where
  "q_slerp de q r t =
     (let d0 = q_dot q r; target = (if flt d0 (Fin 0) then q_opposite r else r); d = (if flt d0 (Fin 0) then fneg d0 else d0) in
      if flt (flit (9995/10000)) d then q_normalize (q_towards q target t)
      else
        let theta = de_acos de (clamp d (Fin (- 1)) (Fin 1)); s = de_sin de theta in
        if flt s (flit (1 / 10 ^ 12)) then q
        else q_lincomb (fdiv (de_sin de (fmul (fsub (Fin 1) t) theta)) s) q (fdiv (de_sin de (fmul t theta)) s) target)"

fun slerp_all :: "detect_env \<Rightarrow> nat \<Rightarrow> quat \<Rightarrow> quat list \<Rightarrow> quat" where
  "slerp_all de i m [] = m"
| "slerp_all de i m (q # qs) = slerp_all de (i + 1) (q_slerp de m q (fdiv (Fin 1) (f_of_int (int i + 1)))) qs"

definition quaternion_mean :: "detect_env \<Rightarrow> quat list \<Rightarrow> quat" where
  "quaternion_mean de qs = (case qs of [] \<Rightarrow> quat_identity | q # qs \<Rightarrow> q_normalize (slerp_all de 1 q qs))"

definition compute_rotation_variance :: "detect_env \<Rightarrow> quat list \<Rightarrow> f64" where
  "compute_rotation_variance de qs =
     (if length qs < 2 then Fin 0
      else let m = quaternion_mean de qs in
        fdiv (sum_of (map (\<lambda>q. let d = angular_distance (de_acos de) q m in fmul d d) qs)) (count_of qs))"

section \<open>Parameters\<close>

datatype param = Pfloat f64 | Pfloat32 f64 | Pint int | Pint64 int | Pbool bool | Pstring string | Pstrings "string list" | Plist "param list"

type_synonym params = "(string, param) gomap"

definition get_float :: "params \<Rightarrow> string \<Rightarrow> f64 \<Rightarrow> f64" where
  "get_float ps k def = (case map_of ps k of Some (Pfloat v) \<Rightarrow> v | Some (Pfloat32 v) \<Rightarrow> v
     | Some (Pint i) \<Rightarrow> f_of_int i | Some (Pint64 i) \<Rightarrow> f_of_int i | _ \<Rightarrow> def)"

definition get_int :: "params \<Rightarrow> string \<Rightarrow> int \<Rightarrow> int" where
  "get_int ps k def = (case map_of ps k of Some (Pint i) \<Rightarrow> i | Some (Pint64 i) \<Rightarrow> i
     | Some (Pfloat v) \<Rightarrow> f_to_int v | Some (Pfloat32 v) \<Rightarrow> f_to_int v | _ \<Rightarrow> def)"

definition get_bool :: "params \<Rightarrow> string \<Rightarrow> bool \<Rightarrow> bool" where
  "get_bool ps k def = (case map_of ps k of Some (Pbool b) \<Rightarrow> b | _ \<Rightarrow> def)"

fun get_float_alias :: "params \<Rightarrow> f64 \<Rightarrow> string list \<Rightarrow> f64" where
  "get_float_alias ps def [] = def"
| "get_float_alias ps def (k # ks) = (if map_of ps k \<noteq> None then get_float ps k def else get_float_alias ps def ks)"

fun get_int_alias :: "params \<Rightarrow> int \<Rightarrow> string list \<Rightarrow> int" where
  "get_int_alias ps def [] = def"
| "get_int_alias ps def (k # ks) = (if map_of ps k \<noteq> None then get_int ps k def else get_int_alias ps def ks)"

definition get_string_list :: "params \<Rightarrow> string \<Rightarrow> string list" where
  "get_string_list ps k = (case map_of ps k of Some (Pstrings ss) \<Rightarrow> ss
     | Some (Plist xs) \<Rightarrow> concat (map (\<lambda>x. case x of Pstring s \<Rightarrow> [s] | _ \<Rightarrow> []) xs) | _ \<Rightarrow> [])"

section \<open>Identity and events\<close>

fun vec_datum :: "vec3 \<Rightarrow> datum" where
  "vec_datum (Vec3 x y z) = Ditems [Dfloat x, Dfloat y, Dfloat z]"

fun quat_datum :: "quat \<Rightarrow> datum" where
  "quat_datum (Quat x y z w) = Ditems [Dfloat x, Dfloat y, Dfloat z, Dfloat w]"

record base =
  bd_id :: string
  bd_version :: string
  bd_name :: string
  bd_category :: string
  bd_inputs :: "string list"
  bd_warmup :: int
  bd_weight :: f64
  bd_auto :: bool

definition set_weight :: "f64 \<Rightarrow> base \<Rightarrow> base" where
  "set_weight w b = b\<lparr>bd_weight := clamp01 w\<rparr>"

definition set_auto_enforce :: "bool \<Rightarrow> base \<Rightarrow> base" where
  "set_auto_enforce a b = b\<lparr>bd_auto := a\<rparr>"

definition evidence_of :: "detect_env \<Rightarrow> string \<Rightarrow> (string \<times> datum) list \<Rightarrow> evidence" where
  "evidence_of de kind vals = \<lparr>evidence_type = kind, evidence_payload = de_json de kind vals\<rparr>"

definition metrics_evidence :: "detect_env \<Rightarrow> string \<Rightarrow> string \<Rightarrow> (string \<times> f64) list \<Rightarrow> evidence" where
  "metrics_evidence de kind what metrics = evidence_of de kind
     [(''detector_specific'', Dtext what), (''metrics'', Dgroup (map (\<lambda>(k, v). (k, Dfloat v)) metrics))]"

definition make_event :: "detect_env \<Rightarrow> base \<Rightarrow> nat \<Rightarrow> match_context \<Rightarrow> string \<Rightarrow> int \<Rightarrow> f64 \<Rightarrow> f64 \<Rightarrow> f64 \<Rightarrow>
    evidence \<Rightarrow> string \<Rightarrow> string \<Rightarrow> causal_key \<Rightarrow> detection_event" where
  "make_event de b n mc player f t sev conf evd observed expected key0 =
     (let first = (if ck_frame_start key0 < 0 then 0 else ck_frame_start key0);
          key = key0\<lparr>ck_frame_start := first, ck_frame_end := (if ck_frame_end key0 < first then first else ck_frame_end key0),
            ck_player_id := (if ck_player_id key0 = [] then player else ck_player_id key0)\<rparr>
      in \<lparr>event_id = de_id de (bd_id b) n, detector_id = bd_id b, detector_version = bd_version b, match_id = mc_match_id mc,
          player_id = player, frame_index = f, frame_range_start = ck_frame_start key, frame_range_end = ck_frame_end key,
          timestamp = t, severity = clamp01 sev, confidence = clamp01 conf, ev_evidence = Some evd, observed_value = observed,
          expected_range = expected, baseline_comparison = [], ev_causal_key = key, enforcement_weight = bd_weight b,
          auto_enforce = bd_auto b, attribution = None, is_shadow = False, merged_count = 0\<rparr>)"

section \<open>Players\<close>

abbreviation "pl_kin ps \<equiv> mo_kinematics (ps_motion ps)"
abbreviation "pl_status ps \<equiv> mo_status (ps_motion ps)"
abbreviation "pl_throws ps \<equiv> mo_throws (ps_motion ps)"
abbreviation "pl_speed ps \<equiv> kn_speed (pl_kin ps)"
abbreviation "pl_position ps \<equiv> kn_position (pl_kin ps)"
abbreviation "pl_dt ps \<equiv> kn_frame_dt (pl_kin ps)"
abbreviation "pl_left ps \<equiv> mo_left (ps_motion ps)"
abbreviation "pl_right ps \<equiv> mo_right (ps_motion ps)"
abbreviation "pl_stunned ps \<equiv> st_is_stunned (pl_status ps)"
abbreviation "pl_high_ping ps \<equiv> st_is_high_ping (pl_status ps)"

definition player_key :: "string \<Rightarrow> int \<Rightarrow> int \<Rightarrow> string \<Rightarrow> causal_key" where
  "player_key p first final anomaly = \<lparr>ck_player_id = p, ck_frame_start = first, ck_frame_end = final, ck_anomaly_type = anomaly\<rparr>"

text \<open>The confidence cut for a player of high ping.\<close>

definition dampen :: "tracked \<Rightarrow> rat \<Rightarrow> f64 \<Rightarrow> f64" where
  "dampen ps q c = (if pl_high_ping ps then fmul c (flit q) else c)"

definition sorted_players :: "(string, 'k player_state) gomap \<Rightarrow> 'k player_state list" where
  "sorted_players pls = sort_key ps_player_id (map snd pls)"

text \<open>The players with their ids, in the order of the ids.\<close>

definition by_id :: "(string, 'v) gomap \<Rightarrow> (string \<times> 'v) list" where
  "by_id m = sort_key fst m"

definition is_stale :: "'k player_state \<Rightarrow> int \<Rightarrow> bool" where
  "is_stale ps f \<longleftrightarrow> 0 < ps_frame_count ps \<and> ps_last_frame_idx ps \<noteq> f"

definition active_players :: "(string, 'k player_state) gomap \<Rightarrow> int \<Rightarrow> 'k player_state list" where
  "active_players pls f = sort_key ps_player_id (filter (\<lambda>ps. \<not> is_stale ps f) (map snd pls))"

text \<open>The loop of a detector over players, or over what it collected: \<open>n\<close> events made before, events in order, the state after.\<close>

type_synonym ('a, 's) step = "'a \<Rightarrow> nat \<Rightarrow> 's \<Rightarrow> detection_event list \<times> 's"

fun over :: "('a, 's) step \<Rightarrow> 'a list \<Rightarrow> nat \<Rightarrow> 's \<Rightarrow> detection_event list \<times> 's" where
  "over step [] n s = ([], s)"
| "over step (x # xs) n s =
     (let (evs, s) = step x n s; (rest, s) = over step xs (n + length evs) s in (evs @ rest, s))"

text \<open>A detector instance: its identity, how many events it made, its configuration and state.\<close>

record 's instance_of =
  in_base :: base
  in_made :: nat
  in_state :: 's

definition run_instance :: "(base \<Rightarrow> nat \<Rightarrow> 's \<Rightarrow> detection_event list \<times> 's) \<Rightarrow> 's instance_of \<Rightarrow> detection_event list \<times> 's instance_of" where
  "run_instance g x = (let (evs, s) = g (in_base x) (in_made x) (in_state x)
     in (evs, x\<lparr>in_made := in_made x + length evs, in_state := s\<rparr>))"

section \<open>What a detector promises\<close>

text \<open>A player as the pipeline's views hold it, and the source of event ids.\<close>

definition known_player :: "'k player_state \<Rightarrow> bool" where
  "known_player ps \<longleftrightarrow> ps_player_id ps \<noteq> [] \<and> is_fin (ps_last_timestamp ps)"

definition ids_ok :: "detect_env \<Rightarrow> bool" where
  "ids_ok de \<longleftrightarrow> (\<forall>i n. de_id de i n \<noteq> [])"

definition base_ok :: "base \<Rightarrow> bool" where
  "base_ok b \<longleftrightarrow> bd_id b \<noteq> [] \<and> bd_version b \<noteq> [] \<and> in_unit (bd_weight b)"

definition made_by :: "base \<Rightarrow> match_context \<Rightarrow> detection_event \<Rightarrow> bool" where
  "made_by b mc e \<longleftrightarrow> validate_event e = None \<and> detector_id e = bd_id b \<and> match_id e = mc_match_id mc \<and>
     ck_player_id (ev_causal_key e) = player_id e \<and> 0 \<le> frame_range_start e \<and>
     (enforcement_weight e = bd_weight b \<or> enforcement_weight e = Fin 0) \<and> (auto_enforce e \<longrightarrow> bd_auto b) \<and>
     \<not> is_shadow e \<and> merged_count e = 0"

text \<open>The \<open>n\<close>-th and following events of a detector carry its \<open>n\<close>-th and following ids.\<close>

definition numbered :: "detect_env \<Rightarrow> base \<Rightarrow> nat \<Rightarrow> detection_event list \<Rightarrow> bool" where
  "numbered de b n evs \<longleftrightarrow> map event_id evs = map (de_id de (bd_id b)) [n..<n + length evs]"

definition sound_events :: "detect_env \<Rightarrow> base \<Rightarrow> match_context \<Rightarrow> nat \<Rightarrow> detection_event list \<Rightarrow> bool" where
  "sound_events de b mc n evs \<longleftrightarrow> numbered de b n evs \<and> list_all (made_by b mc) evs"

lemma in_unit_clamp01 [simp]: "in_unit (clamp01 x)"
  using clamp01_range by (simp add: in_unit_def)

lemma numbered_append: "numbered de b n (xs @ ys) \<longleftrightarrow> numbered de b n xs \<and> numbered de b (n + length xs) ys"
proof -
  have "[n..<n + length (xs @ ys)] = [n..<n + length xs] @ [n + length xs..<n + length xs + length ys]"
    using upt_add_eq_append [of n "n + length xs" "length ys"] by (simp only: length_append add.assoc le_add1)
  then show ?thesis by (simp add: numbered_def append_eq_append_conv)
qed

lemma sound_events_Nil [simp]: "sound_events de b mc n []"
  by (simp add: sound_events_def numbered_def)

lemma sound_events_append [simp]:
  "sound_events de b mc n (xs @ ys) \<longleftrightarrow> sound_events de b mc n xs \<and> sound_events de b mc (n + length xs) ys"
  by (auto simp: sound_events_def numbered_append)

lemma sound_events_single: "sound_events de b mc n [e] \<longleftrightarrow> event_id e = de_id de (bd_id b) n \<and> made_by b mc e"
  by (simp add: sound_events_def numbered_def)

text \<open>An event made for a player with an observation and an anomaly is as promised, whatever it measured.\<close>

text \<open>A detector at work: its ids, its identity, a named match and a frame.\<close>

definition at_work :: "detect_env \<Rightarrow> base \<Rightarrow> match_context \<Rightarrow> int \<Rightarrow> bool" where
  "at_work de b mc f \<longleftrightarrow> ids_ok de \<and> base_ok b \<and> mc_match_id mc \<noteq> [] \<and> 0 \<le> f"

lemma make_event_sound:
  assumes "at_work de b mc f" "player \<noteq> []" "is_fin t" "observed \<noteq> []" "ck_player_id key = player" "ck_anomaly_type key \<noteq> []"
  shows "sound_events de b mc n [make_event de b n mc player f t sev conf evd observed expected key]"
proof -
  have "in_unit (bd_weight b)" "bd_id b \<noteq> []" "bd_version b \<noteq> []" "0 \<le> f" "mc_match_id mc \<noteq> []" "de_id de (bd_id b) n \<noteq> []"
    using assms(1) by (simp_all add: at_work_def base_ok_def ids_ok_def)
  moreover have "\<not> is_nan t" "\<not> is_inf t" using assms(3) by (simp_all add: is_fin_def)
  ultimately show ?thesis using assms(2,4,5,6)
    by (simp add: sound_events_single made_by_def make_event_def validate_event_def Let_def out_of_unit_iff)
qed

lemma make_event_fields [simp]:
  "player_id (make_event de b n mc player f t sev conf evd observed expected key) = player"
  "frame_index (make_event de b n mc player f t sev conf evd observed expected key) = f"
  "auto_enforce (make_event de b n mc player f t sev conf evd observed expected key) = bd_auto b"
  "severity (make_event de b n mc player f t sev conf evd observed expected key) = clamp01 sev"
  "confidence (make_event de b n mc player f t sev conf evd observed expected key) = clamp01 conf"
  by (simp_all add: make_event_def Let_def)

lemma active_players_iff: "ps \<in> set (active_players pls f) \<longleftrightarrow> ps \<in> snd ` set pls \<and> \<not> is_stale ps f"
  by (auto simp: active_players_def)

lemma sorted_players_iff: "ps \<in> set (sorted_players pls) \<longleftrightarrow> ps \<in> snd ` set pls"
  by (auto simp: sorted_players_def)

text \<open>
  From a step to a frame. \<open>step\<close> is a detector's work on one player, \<open>inv\<close> what it keeps of its state, \<open>about ps\<close> what
  its events say of the player.
\<close>

locale detector_steps =
  fixes step :: "('a, 's) step" and inv :: "'s \<Rightarrow> bool" and looked_at :: "'a \<Rightarrow> bool"
    and good :: "nat \<Rightarrow> detection_event list \<Rightarrow> bool"
  assumes keeps: "inv s \<Longrightarrow> looked_at ps \<Longrightarrow> inv (snd (step ps n s))"
    and reports: "inv s \<Longrightarrow> looked_at ps \<Longrightarrow> good n (fst (step ps n s))"
    and none: "good n []"
    and joins: "good n xs \<Longrightarrow> good (n + length xs) ys \<Longrightarrow> good n (xs @ ys)"
begin

lemma frame:
  "inv s \<Longrightarrow> list_all looked_at pss \<Longrightarrow> inv (snd (over step pss n s)) \<and> good n (fst (over step pss n s))"
proof (induction pss arbitrary: n s)
  case (Cons ps pss)
  obtain evs s1 where st: "step ps n s = (evs, s1)" by force
  obtain rest s2 where r: "over step pss (n + length evs) s1 = (rest, s2)" by force
  have "inv s1" "good n evs" using keeps [of s ps n] reports [of s ps n] Cons.prems st by simp_all
  then show ?case using Cons.IH [of s1 "n + length evs"] Cons.prems(2) st r joins by simp
qed (simp add: none)

end

end
