(* ===== verification/Detect_Bio.thy ===== *)
theory Detect_Bio
  imports Detect
begin

text \<open>
  The biomechanical detectors (\<open>internal/detect/bio\<close>): wrist rotation rate (BIO_001), controller speed
  relative to the body (BIO_002), zero hand jitter (BIO_003) and zero aim wobble (BIO_004), with their streaks
  and window runs (\<open>common.go\<close>). Per player each keeps the state of the left and of the right hand.
\<close>

section \<open>Streaks and runs\<close>

definition excess_severity :: "detect_env \<Rightarrow> f64 \<Rightarrow> f64 \<Rightarrow> f64 \<Rightarrow> f64" where
  "excess_severity de v threshold steepness =
     (if fle threshold (Fin 0) then Fin 0 else sigmoid_confidence de (fdiv v threshold) (flit (12/10)) steepness)"

definition sustained_confidence :: "detect_env \<Rightarrow> int \<Rightarrow> int \<Rightarrow> f64" where
  "sustained_confidence de consecutive frames =
     clamp01 (fmul (sigmoid_confidence de (f_of_int consecutive) (f_of_int frames) (Fin 1)) (flit (9/10)))"

definition log_ratio_severity :: "detect_env \<Rightarrow> f64 \<Rightarrow> f64 \<Rightarrow> f64 \<Rightarrow> f64" where
  "log_ratio_severity de threshold v decades =
     (if fle v (Fin 0) \<or> fle threshold (Fin 0) \<or> fle decades (Fin 0) then Fin 0
      else clamp01 (fdiv (de_log10 de (fdiv threshold v)) decades))"

record streak =
  sk_consecutive :: int
  sk_last_emit :: int
  sk_last_frame :: int
  sk_stats :: welford
  sk_max :: f64

definition new_streak :: streak where
  "new_streak = \<lparr>sk_consecutive = 0, sk_last_emit = 0, sk_last_frame = 0, sk_stats = welford_reset, sk_max = Fin 0\<rparr>"

definition streak_reset :: "streak \<Rightarrow> streak" where
  "streak_reset s = s\<lparr>sk_consecutive := 0, sk_last_emit := 0\<rparr>"

definition streak_advance :: "int \<Rightarrow> bool \<Rightarrow> streak \<Rightarrow> streak" where
  "streak_advance f violating s0 =
     (let s = (if 0 < sk_consecutive s0 \<and> f \<noteq> sk_last_frame s0 + 1 then streak_reset s0 else s0) in
      if violating then s\<lparr>sk_consecutive := sk_consecutive s + 1, sk_last_frame := f\<rparr> else streak_reset s)"

definition should_emit :: "int \<Rightarrow> streak \<Rightarrow> bool" where
  "should_emit frames s \<longleftrightarrow>
     \<not> sk_consecutive s < frames \<and> (sk_last_emit s = 0 \<or> frames \<le> sk_consecutive s - sk_last_emit s)"

record window_run =
  wr_count :: int
  wr_last_end :: int
  wr_counted :: bool

definition new_run :: window_run where
  "new_run = \<lparr>wr_count = 0, wr_last_end = 0, wr_counted = False\<rparr>"

definition run_reset :: "window_run \<Rightarrow> window_run" where
  "run_reset r = r\<lparr>wr_count := 0, wr_counted := False\<rparr>"

definition run_add :: "int \<Rightarrow> int \<Rightarrow> bool \<Rightarrow> window_run \<Rightarrow> window_run" where
  "run_add f frames zero r0 =
     (let r = (if wr_counted r0 \<and> f - wr_last_end r0 \<noteq> frames then r0\<lparr>wr_count := 0\<rparr> else r0)
      in r\<lparr>wr_counted := True, wr_last_end := f, wr_count := (if zero then wr_count r + 1 else 0)\<rparr>)"

section \<open>BIO_001 and BIO_002: rates over a threshold\<close>

record rate_config =
  rc_max :: f64
  rc_frames :: int
  rc_steepness :: f64

record rate_state =
  rt_config :: rate_config
  rt_left :: "(string, streak) gomap"
  rt_right :: "(string, streak) gomap"

definition min_sustained_frames :: int where "min_sustained_frames = 3"

definition apply_floor :: "rate_config \<Rightarrow> rate_config" where
  "apply_floor c = (if rc_frames c < min_sustained_frames then c\<lparr>rc_frames := min_sustained_frames\<rparr> else c)"

definition bio001_base :: base where
  "bio001_base = \<lparr>bd_id = ''BIO_001'', bd_version = ''2.1.0'', bd_name = ''Impossible Wrist Rotation'', bd_category = ''bio'',
     bd_inputs = [''hand_tracking'', ''wrist_angular_rate''], bd_warmup = 5, bd_weight = flit (8/10), bd_auto = False\<rparr>"

definition bio001_configure :: "params \<Rightarrow> rate_config \<Rightarrow> rate_config" where
  "bio001_configure ps c = apply_floor \<lparr>rc_max = get_float ps ''max_wrist_angular_velocity'' (rc_max c),
     rc_frames = get_int ps ''min_violation_frames'' (rc_frames c), rc_steepness = get_float ps ''sigmoid_steepness'' (rc_steepness c)\<rparr>"

definition rate_reset :: "rate_state \<Rightarrow> rate_state" where
  "rate_reset s = s\<lparr>rt_left := [], rt_right := []\<rparr>"

definition new_rate_state :: "rate_config \<Rightarrow> rate_state" where
  "new_rate_state c = \<lparr>rt_config = c, rt_left = [], rt_right = []\<rparr>"

definition new_bio001 :: "params \<Rightarrow> rate_state instance_of" where
  "new_bio001 ps = \<lparr>in_base = bio001_base, in_made = 0,
     in_state = new_rate_state (bio001_configure ps \<lparr>rc_max = Fin 50, rc_frames = min_sustained_frames, rc_steepness = flit (85/10)\<rparr>)\<rparr>"

definition saturation_rate :: "f64 \<Rightarrow> f64" where
  "saturation_rate dt = (if fle dt (Fin 0) then Inf False else fdiv (flit go_pi) dt)"

definition reachable_rate :: "rate_config \<Rightarrow> f64 \<Rightarrow> bool" where
  "reachable_rate c dt \<longleftrightarrow> flt (rc_max c) (saturation_rate dt)"

text \<open>The event of a streak that is due, and the streak after it.\<close>

definition rate_event :: "detect_env \<Rightarrow> base \<Rightarrow> nat \<Rightarrow> match_context \<Rightarrow> rate_config \<Rightarrow> tracked \<Rightarrow> int \<Rightarrow> f64 \<Rightarrow> streak \<Rightarrow>
    evidence \<Rightarrow> string \<Rightarrow> string \<Rightarrow> string \<Rightarrow> detection_event" where
  "rate_event de b n mc c ps f v s evd observed expected anomaly =
     make_event de b n mc (ps_player_id ps) f (ps_last_timestamp ps) (excess_severity de v (rc_max c) (rc_steepness c))
       (sustained_confidence de (sk_consecutive s) (rc_frames c)) evd observed expected
       \<lparr>ck_player_id = ps_player_id ps, ck_frame_start = f - sk_consecutive s + 1, ck_frame_end = f, ck_anomaly_type = anomaly\<rparr>"

definition bio001_check :: "detect_env \<Rightarrow> base \<Rightarrow> match_context \<Rightarrow> rate_config \<Rightarrow> tracked \<Rightarrow> int \<Rightarrow> string \<Rightarrow> f64 \<Rightarrow> bool \<Rightarrow>
    nat \<Rightarrow> streak \<Rightarrow> detection_event list \<times> streak" where
  "bio001_check de b mc c ps f hand_name rate rate_known n s0 =
     (if \<not> rate_known \<or> is_nan rate \<or> is_inf rate \<or> flt rate (Fin 0) then ([], streak_reset s0)
      else
        let s = s0\<lparr>sk_stats := welford_update rate (sk_stats s0), sk_max := (if flt (sk_max s0) rate then rate else sk_max s0)\<rparr>;
            s = streak_advance f (flt (rc_max c) rate) s
        in if sk_consecutive s = 0 \<or> \<not> should_emit (rc_frames c) s then ([], s)
           else ([rate_event de b n mc c ps f rate s
               (evidence_of de ''wrist_rotation'' [(''hand'', Dtext hand_name), (''angular_velocity'', Dfloat rate),
                 (''consecutive_frames'', Dint (sk_consecutive s)), (''running_mean'', Dfloat (wf_mean (sk_stats s))),
                 (''running_stddev'', Dfloat (welford_std_dev (sk_stats s))), (''max_observed'', Dfloat (sk_max s)),
                 (''frame_dt'', Dfloat (pl_dt ps)), (''physical_limit'', Dfloat (rc_max c))])
               (''wrist_angular_rate: '' @ fmt_f 1 rate @ '' rad/s ('' @ hand_name @ '', '' @ itoa (sk_consecutive s) @ '' frames)'')
               (''wrist_angular_rate: 0-'' @ fmt_f 1 (rc_max c) @ '' rad/s'') ''wrist_rotation''],
             s\<lparr>sk_last_emit := sk_consecutive s\<rparr>))"

definition bio002_base :: base where
  "bio002_base = \<lparr>bd_id = ''BIO_002'', bd_version = ''2.2.0'', bd_name = ''Impossible Hand Speed'', bd_category = ''bio'',
     bd_inputs = [''hand_tracking''], bd_warmup = 5, bd_weight = flit (8/10), bd_auto = False\<rparr>"

definition bio002_configure :: "params \<Rightarrow> rate_config \<Rightarrow> rate_config" where
  "bio002_configure ps c = apply_floor \<lparr>rc_max = get_float ps ''max_hand_speed'' (rc_max c),
     rc_frames = get_int ps ''min_violation_frames'' (rc_frames c), rc_steepness = get_float ps ''sigmoid_steepness'' (rc_steepness c)\<rparr>"

definition new_bio002 :: "params \<Rightarrow> rate_state instance_of" where
  "new_bio002 ps = \<lparr>in_base = bio002_base, in_made = 0,
     in_state = new_rate_state (bio002_configure ps \<lparr>rc_max = Fin 50, rc_frames = min_sustained_frames, rc_steepness = flit (85/10)\<rparr>)\<rparr>"

definition bio002_check :: "detect_env \<Rightarrow> base \<Rightarrow> match_context \<Rightarrow> rate_config \<Rightarrow> tracked \<Rightarrow> int \<Rightarrow> string \<Rightarrow> f64 \<Rightarrow> f64 \<Rightarrow>
    nat \<Rightarrow> streak \<Rightarrow> detection_event list \<times> streak" where
  "bio002_check de b mc c ps f hand_name v world n s0 =
     (let s = streak_advance f (flt (rc_max c) v) s0;
          ratio = (if flt (flit (1/100)) (pl_speed ps) then fdiv v (pl_speed ps) else Fin 0)
      in if sk_consecutive s = 0 \<or> \<not> should_emit (rc_frames c) s then ([], s)
         else ([rate_event de b n mc c ps f v s
             (evidence_of de ''hand_speed'' [(''hand'', Dtext hand_name), (''speed'', Dfloat v), (''world_speed'', Dfloat world),
               (''reference_frame'', Dtext ''player_relative''), (''consecutive_frames'', Dint (sk_consecutive s)),
               (''frame_dt'', Dfloat (pl_dt ps)), (''physical_limit'', Dfloat (rc_max c)), (''player_speed'', Dfloat (pl_speed ps)),
               (''speed_ratio'', Dfloat ratio)])
             (''relative_hand_speed: '' @ fmt_f 1 v @ '' m/s ('' @ hand_name @ '', world '' @ fmt_f 1 world @ '' m/s, '' @
               itoa (sk_consecutive s) @ '' frames)'')
             (''relative_hand_speed: 0-'' @ fmt_f 1 (rc_max c) @ '' m/s'') ''hand_speed''],
           s\<lparr>sk_last_emit := sk_consecutive s\<rparr>))"

text \<open>A frame of a player: the guards break both runs, otherwise the left hand and then the right.\<close>

definition rate_guard :: "tracked \<Rightarrow> bool" where
  "rate_guard ps \<longleftrightarrow> pl_stunned ps \<or> flt (pl_dt ps) (flit (1/100)) \<or> st_is_immune (pl_status ps)"

definition two_hands :: "tracked \<Rightarrow> (nat \<Rightarrow> streak \<Rightarrow> detection_event list \<times> streak) \<Rightarrow> (nat \<Rightarrow> streak \<Rightarrow> detection_event list \<times> streak) \<Rightarrow>
    nat \<Rightarrow> rate_state \<Rightarrow> detection_event list \<times> rate_state" where
  "two_hands ps check_left check_right n s =
     (let i = ps_player_id ps;
          (el, sl) = check_left n (gz new_streak (rt_left s) i);
          (er, sr) = check_right (n + length el) (gz new_streak (rt_right s) i)
      in (el @ er, s\<lparr>rt_left := AList.update i sl (rt_left s), rt_right := AList.update i sr (rt_right s)\<rparr>))"

definition reset_hands :: "tracked \<Rightarrow> rate_state \<Rightarrow> rate_state" where
  "reset_hands ps s = snd (two_hands ps (\<lambda>_ k. ([], streak_reset k)) (\<lambda>_ k. ([], streak_reset k)) 0 s)"

definition bio001_step :: "detect_env \<Rightarrow> base \<Rightarrow> match_context \<Rightarrow> int \<Rightarrow> (tracked, rate_state) step" where
  "bio001_step de b mc f ps n s =
     (if rate_guard ps then ([], reset_hands ps s)
      else two_hands ps
        (bio001_check de b mc (rt_config s) ps f ''left'' (h_wrist_rate (pl_left ps)) (h_wrist_rate_valid (pl_left ps)))
        (bio001_check de b mc (rt_config s) ps f ''right'' (h_wrist_rate (pl_right ps)) (h_wrist_rate_valid (pl_right ps))) n s)"

definition bio002_step :: "detect_env \<Rightarrow> base \<Rightarrow> match_context \<Rightarrow> int \<Rightarrow> (tracked, rate_state) step" where
  "bio002_step de b mc f ps n s =
     (if rate_guard ps then ([], reset_hands ps s)
      else two_hands ps
        (bio002_check de b mc (rt_config s) ps f ''left'' (h_relative_speed (pl_left ps)) (h_speed (pl_left ps)))
        (bio002_check de b mc (rt_config s) ps f ''right'' (h_relative_speed (pl_right ps)) (h_speed (pl_right ps))) n s)"

definition bio001_evaluate :: "detect_env \<Rightarrow> match_context \<Rightarrow> (string, tracked) gomap \<Rightarrow> int \<Rightarrow> rate_state instance_of \<Rightarrow> detection_event list \<times> rate_state instance_of" where
  "bio001_evaluate de mc pls f = run_instance (\<lambda>b. over (bio001_step de b mc f) (active_players pls f))"

definition bio002_evaluate :: "detect_env \<Rightarrow> match_context \<Rightarrow> (string, tracked) gomap \<Rightarrow> int \<Rightarrow> rate_state instance_of \<Rightarrow> detection_event list \<times> rate_state instance_of" where
  "bio002_evaluate de mc pls f = run_instance (\<lambda>b. over (bio002_step de b mc f) (active_players pls f))"

section \<open>BIO_003 and BIO_004: windows without noise\<close>

record zero_config =
  zc_frames :: int
  zc_max :: f64
  zc_min_active :: int
  zc_decades :: f64
  zc_min_windows :: int

text \<open>One hand: its window and its run of windows under the threshold.\<close>

record 'a zero_hand =
  zh_window :: "'a list"
  zh_run :: window_run

record 'a zero_state =
  zs_config :: zero_config
  zs_left :: "(string, 'a zero_hand) gomap"
  zs_right :: "(string, 'a zero_hand) gomap"
  zs_active :: "(string, bool list) gomap"

definition new_zero_hand :: "'a zero_hand" where
  "new_zero_hand = \<lparr>zh_window = [], zh_run = new_run\<rparr>"

definition zero_sanitize :: "zero_config \<Rightarrow> zero_config" where
  "zero_sanitize c0 =
     (let c = (if zc_frames c0 < 2 then c0\<lparr>zc_frames := 2\<rparr> else c0);
          c = (if zc_frames c < zc_min_active c then c\<lparr>zc_min_active := zc_frames c\<rparr> else c)
      in if zc_min_windows c < 1 then c\<lparr>zc_min_windows := 1\<rparr> else c)"

definition new_zero_state :: "zero_config \<Rightarrow> 'a zero_state" where
  "new_zero_state c = \<lparr>zs_config = c, zs_left = [], zs_right = [], zs_active = []\<rparr>"

definition zero_reset :: "'a zero_state \<Rightarrow> 'a zero_state" where
  "zero_reset s = new_zero_state (zs_config s)"

text \<open>A sample enters the window, or its absence drops the window and breaks the run.\<close>

definition take_sample :: "zero_config \<Rightarrow> 'a option \<Rightarrow> 'a zero_hand \<Rightarrow> 'a zero_hand" where
  "take_sample c x h = (case x of
     None \<Rightarrow> \<lparr>zh_window = [], zh_run = run_reset (zh_run h)\<rparr>
   | Some v \<Rightarrow> h\<lparr>zh_window := push (zc_frames c) v (zh_window h)\<rparr>)"

text \<open>A full window is measured and cleared; its variance is reported when the run is long enough.\<close>

definition measure_window :: "zero_config \<Rightarrow> ('a list \<Rightarrow> f64) \<Rightarrow> int \<Rightarrow> 'a zero_hand \<Rightarrow> f64 option \<times> 'a zero_hand" where
  "measure_window c measured f h =
     (if int (length (zh_window h)) < zc_frames c then (None, h)
      else let v = measured (zh_window h) in
        if flt v (flit (1 / 10 ^ 10)) then (None, h\<lparr>zh_window := []\<rparr>)
        else let r = run_add f (zc_frames c) (flt v (zc_max c)) (zh_run h) in
          if wr_count r < zc_min_windows c then (None, \<lparr>zh_window = [], zh_run = r\<rparr>)
          else (Some v, \<lparr>zh_window = [], zh_run = run_reset r\<rparr>))"

definition zero_event :: "detect_env \<Rightarrow> base \<Rightarrow> nat \<Rightarrow> match_context \<Rightarrow> zero_config \<Rightarrow> tracked \<Rightarrow> int \<Rightarrow> f64 \<Rightarrow>
    evidence \<Rightarrow> string \<Rightarrow> string \<Rightarrow> string \<Rightarrow> detection_event" where
  "zero_event de b n mc c ps f v evd observed expected anomaly =
     (let sev = log_ratio_severity de (zc_max c) v (zc_decades c) in
      make_event de b n mc (ps_player_id ps) f (ps_last_timestamp ps) sev (clamp01 (fmul sev (flit (85/100)))) evd observed expected
        \<lparr>ck_player_id = ps_player_id ps, ck_frame_start = f - zc_frames c * zc_min_windows c, ck_frame_end = f, ck_anomaly_type = anomaly\<rparr>)"

text \<open>A frame of a player; \<open>ev\<close> describes the event of a hand of a given variance.\<close>

definition zero_step :: "'a option \<Rightarrow> 'a option \<Rightarrow> ('a list \<Rightarrow> f64) \<Rightarrow> (int \<Rightarrow> nat \<Rightarrow> string \<Rightarrow> f64 \<Rightarrow> detection_event) \<Rightarrow> int \<Rightarrow>
    tracked \<Rightarrow> nat \<Rightarrow> 'a zero_state \<Rightarrow> detection_event list \<times> 'a zero_state" where
  "zero_step left right measured ev f ps n s =
     (let i = ps_player_id ps; c = zs_config s;
          hl = take_sample c left (gz new_zero_hand (zs_left s) i);
          hr = take_sample c right (gz new_zero_hand (zs_right s) i);
          acts = push (zc_frames c) (\<not> pl_stunned ps \<and> flt (Fin 1) (pl_speed ps)) (gz [] (zs_active s) i);
          active = int (length (filter id acts))
      in if active < zc_min_active c
         then ([], s\<lparr>zs_active := AList.update i acts (zs_active s),
             zs_left := AList.update i (hl\<lparr>zh_run := run_reset (zh_run hl)\<rparr>) (zs_left s),
             zs_right := AList.update i (hr\<lparr>zh_run := run_reset (zh_run hr)\<rparr>) (zs_right s)\<rparr>)
         else
           let (vl, hl) = measure_window c measured f hl; (vr, hr) = measure_window c measured f hr;
               el = (case vl of None \<Rightarrow> [] | Some v \<Rightarrow> [ev active n ''left'' v]);
               er = (case vr of None \<Rightarrow> [] | Some v \<Rightarrow> [ev active (n + length el) ''right'' v])
           in (el @ er, s\<lparr>zs_active := AList.update i acts (zs_active s),
             zs_left := AList.update i hl (zs_left s), zs_right := AList.update i hr (zs_right s)\<rparr>))"

definition bio003_base :: base where
  "bio003_base = \<lparr>bd_id = ''BIO_003'', bd_version = ''2.1.0'', bd_name = ''Zero Hand Jitter'', bd_category = ''bio'',
     bd_inputs = [''hand_tracking'', ''position''], bd_warmup = 90, bd_weight = flit (7/10), bd_auto = False\<rparr>"

definition bio003_configure :: "params \<Rightarrow> zero_config \<Rightarrow> zero_config" where
  "bio003_configure ps c = zero_sanitize \<lparr>zc_frames = get_int ps ''jitter_window_frames'' (zc_frames c),
     zc_max = get_float ps ''max_jitter_variance'' (zc_max c), zc_min_active = get_int ps ''min_active_frames'' (zc_min_active c),
     zc_decades = get_float ps ''severity_decades'' (zc_decades c), zc_min_windows = get_int ps ''min_consecutive_windows'' (zc_min_windows c)\<rparr>"

definition new_bio003 :: "params \<Rightarrow> vec3 zero_state instance_of" where
  "new_bio003 ps = \<lparr>in_base = bio003_base, in_made = 0, in_state = new_zero_state (bio003_configure ps
     \<lparr>zc_frames = 90, zc_max = flit (1 / 10 ^ 5), zc_min_active = 60, zc_decades = Fin 2, zc_min_windows = 2\<rparr>)\<rparr>"

definition relative_hand :: "tracked \<Rightarrow> hand \<Rightarrow> vec3 option" where
  "relative_hand ps h = (if v_is_zero (h_position h) then None else Some (v_sub (h_position h) (pl_position ps)))"

definition bio003_event :: "detect_env \<Rightarrow> base \<Rightarrow> match_context \<Rightarrow> zero_config \<Rightarrow> tracked \<Rightarrow> int \<Rightarrow> int \<Rightarrow> nat \<Rightarrow> string \<Rightarrow> f64 \<Rightarrow> detection_event" where
  "bio003_event de b mc c ps f active n hand_name v = zero_event de b n mc c ps f v
     (evidence_of de ''zero_jitter'' [(''hand'', Dtext hand_name), (''position_variance'', Dfloat v), (''window_frames'', Dint (zc_frames c)),
       (''active_frames'', Dint active), (''threshold'', Dfloat (zc_max c)), (''player_speed'', Dfloat (pl_speed ps))])
     (''hand_jitter_variance: '' @ fmt_f 8 v @ '' ('' @ hand_name @ '')'') (''hand_jitter_variance: >'' @ fmt_f 6 (zc_max c)) ''zero_jitter''"

definition bio003_step :: "detect_env \<Rightarrow> base \<Rightarrow> match_context \<Rightarrow> int \<Rightarrow> (tracked, vec3 zero_state) step" where
  "bio003_step de b mc f ps n s = zero_step (relative_hand ps (pl_left ps)) (relative_hand ps (pl_right ps)) compute_position_variance
     (bio003_event de b mc (zs_config s) ps f) f ps n s"

definition bio004_base :: base where
  "bio004_base = \<lparr>bd_id = ''BIO_004'', bd_version = ''2.1.0'', bd_name = ''Zero Aim Wobble'', bd_category = ''bio'',
     bd_inputs = [''hand_tracking'', ''hand_rotation''], bd_warmup = 90, bd_weight = flit (7/10), bd_auto = False\<rparr>"

definition bio004_configure :: "params \<Rightarrow> zero_config \<Rightarrow> zero_config" where
  "bio004_configure ps c = zero_sanitize \<lparr>zc_frames = get_int ps ''wobble_window_frames'' (zc_frames c),
     zc_max = get_float ps ''max_wobble_variance'' (zc_max c), zc_min_active = get_int ps ''min_active_frames'' (zc_min_active c),
     zc_decades = get_float ps ''severity_decades'' (zc_decades c), zc_min_windows = get_int ps ''min_consecutive_windows'' (zc_min_windows c)\<rparr>"

definition new_bio004 :: "params \<Rightarrow> quat zero_state instance_of" where
  "new_bio004 ps = \<lparr>in_base = bio004_base, in_made = 0, in_state = new_zero_state (bio004_configure ps
     \<lparr>zc_frames = 90, zc_max = flit (5 / 10 ^ 5), zc_min_active = 60, zc_decades = Fin 2, zc_min_windows = 2\<rparr>)\<rparr>"

definition known_rotation :: "hand \<Rightarrow> quat option" where
  "known_rotation h = (if q_is_unit (h_rot h) then Some (h_rot h) else None)"

definition bio004_event :: "detect_env \<Rightarrow> base \<Rightarrow> match_context \<Rightarrow> zero_config \<Rightarrow> tracked \<Rightarrow> int \<Rightarrow> int \<Rightarrow> nat \<Rightarrow> string \<Rightarrow> f64 \<Rightarrow> detection_event" where
  "bio004_event de b mc c ps f active n hand_name v = zero_event de b n mc c ps f v
     (evidence_of de ''zero_wobble'' [(''hand'', Dtext hand_name), (''rotation_variance'', Dfloat v), (''window_frames'', Dint (zc_frames c)),
       (''threshold'', Dfloat (zc_max c)), (''player_speed'', Dfloat (pl_speed ps)), (''stddev_degrees'', Dfloat (rad_to_deg (fsqrt v)))])
     (''aim_wobble_variance: '' @ fmt_f 8 v @ '' ('' @ hand_name @ '')'') (''aim_wobble_variance: >'' @ fmt_f 6 (zc_max c)) ''zero_wobble''"

definition bio004_step :: "detect_env \<Rightarrow> base \<Rightarrow> match_context \<Rightarrow> int \<Rightarrow> (tracked, quat zero_state) step" where
  "bio004_step de b mc f ps n s = zero_step (known_rotation (pl_left ps)) (known_rotation (pl_right ps)) (compute_rotation_variance de)
     (bio004_event de b mc (zs_config s) ps f) f ps n s"

definition bio003_evaluate :: "detect_env \<Rightarrow> match_context \<Rightarrow> (string, tracked) gomap \<Rightarrow> int \<Rightarrow> vec3 zero_state instance_of \<Rightarrow> detection_event list \<times> vec3 zero_state instance_of" where
  "bio003_evaluate de mc pls f = run_instance (\<lambda>b. over (bio003_step de b mc f) (active_players pls f))"

definition bio004_evaluate :: "detect_env \<Rightarrow> match_context \<Rightarrow> (string, tracked) gomap \<Rightarrow> int \<Rightarrow> quat zero_state instance_of \<Rightarrow> detection_event list \<times> quat zero_state instance_of" where
  "bio004_evaluate de mc pls f = run_instance (\<lambda>b. over (bio004_step de b mc f) (active_players pls f))"

end
