(* ===== verification/Detect_Movement.thy ===== *)
theory Detect_Movement
  imports Detect
begin

text \<open>
  The movement detectors (\<open>internal/detect/movement\<close>): sustained and burst speed (MOV_001), teleports (MOV_002),
  reversals without inertia (MOV_003), boost speed and boost spam (MOV_004, MOV_005) over continuous boost
  samples (\<open>boost_observation.go\<close>), and physical playspace walking (MOV_006).
\<close>

section \<open>MOV_001\<close>

record mov001 =
  m1_max :: f64
  m1_window :: int
  m1_steepness :: f64
  m1_burst :: int
  m1_speeds :: "(string, f64 list) gomap"

definition mov001_base :: base where
  "mov001_base = \<lparr>bd_id = ''MOV_001'', bd_version = ''2.1.0'', bd_name = ''Impossible Player Speed'', bd_category = ''movement'',
     bd_inputs = [''position'', ''velocity'', ''speed''], bd_warmup = 10, bd_weight = flit (9/10), bd_auto = False\<rparr>"

definition mov001_sanitize :: "mov001 \<Rightarrow> mov001" where
  "mov001_sanitize d0 =
     (let d = (if m1_window d0 < 2 then d0\<lparr>m1_window := 2\<rparr> else d0);
          d = (if m1_burst d < 1 then d\<lparr>m1_burst := 1\<rparr> else d)
      in if m1_window d < m1_burst d then d\<lparr>m1_burst := m1_window d\<rparr> else d)"

definition mov001_configure :: "params \<Rightarrow> mov001 \<Rightarrow> mov001" where
  "mov001_configure ps d = mov001_sanitize (d\<lparr>m1_max := get_float ps ''max_legitimate_speed'' (m1_max d),
     m1_window := get_int ps ''sustained_speed_window'' (m1_window d), m1_steepness := get_float ps ''sigmoid_steepness'' (m1_steepness d),
     m1_burst := get_int ps ''min_burst_frames'' (m1_burst d)\<rparr>)"

definition new_mov001 :: "params \<Rightarrow> mov001 instance_of" where
  "new_mov001 ps = \<lparr>in_base = mov001_base, in_made = 0, in_state = mov001_configure ps
     \<lparr>m1_max = Fin 55, m1_window = 30, m1_steepness = Fin (1/2), m1_burst = 5, m1_speeds = []\<rparr>\<rparr>"

definition mov001_reset :: "mov001 \<Rightarrow> mov001" where
  "mov001_reset d = d\<lparr>m1_speeds := []\<rparr>"

definition burst_threshold :: "match_context \<Rightarrow> mov001 \<Rightarrow> f64" where
  "burst_threshold mc d = (if flt (m1_max d) (max_player_speed (mc_physics mc)) then max_player_speed (mc_physics mc) else m1_max d)"

definition mov001_burst_event :: "detect_env \<Rightarrow> base \<Rightarrow> match_context \<Rightarrow> int \<Rightarrow> tracked \<Rightarrow> nat \<Rightarrow> mov001 \<Rightarrow> f64 list \<Rightarrow> f64 \<Rightarrow> f64 \<Rightarrow> int \<Rightarrow> detection_event" where
  "mov001_burst_event de b mc f ps n d window med p90 over_cap =
     (let t = burst_threshold mc d in
      make_event de b n mc (ps_player_id ps) f (ps_last_timestamp ps)
        (sigmoid_confidence de (fdiv p90 t) (flit (12/10)) (flit (85/10)))
        (dampen ps (6/10) (fmul (sigmoid_confidence de (f_of_int over_cap) (f_of_int (m1_burst d)) (Fin 1)) (flit (6/10))))
        (metrics_evidence de ''movement'' ''oscillating_speed_hack'' [(''p90_speed'', p90), (''median_speed'', med), (''burst_threshold'', t),
          (''frames_above_threshold'', f_of_int over_cap), (''min_burst_frames'', f_of_int (m1_burst d)), (''max_legitimate_speed'', m1_max d),
          (''current_speed'', pl_speed ps), (''window_frames'', f_of_int (m1_window d)), (''max_speed_in_window'', max_float window),
          (''min_speed_in_window'', min_float window)])
        (''burst_speed: '' @ itoa over_cap @ '' of '' @ itoa (m1_window d) @ '' frames above '' @ fmt_f 1 t @ '' m/s (p90 '' @ fmt_f 1 p90 @
          '', median '' @ fmt_f 1 med @ '')'')
        (''speed: 0-'' @ fmt_f 1 t @ '' m/s (physics cap)'')
        (player_key (ps_player_id ps) (f - m1_window d + 1) f ''oscillating_speed''))"

definition mov001_median_event :: "detect_env \<Rightarrow> base \<Rightarrow> match_context \<Rightarrow> int \<Rightarrow> tracked \<Rightarrow> nat \<Rightarrow> mov001 \<Rightarrow> f64 list \<Rightarrow> f64 \<Rightarrow> f64 \<Rightarrow> detection_event" where
  "mov001_median_event de b mc f ps n d window med p90 =
     make_event de b n mc (ps_player_id ps) f (ps_last_timestamp ps)
       (sigmoid_confidence de med (fmul (m1_max d) (flit (12/10))) (m1_steepness d))
       (dampen ps (6/10) (sigmoid_confidence de med (m1_max d) (m1_steepness d)))
       (metrics_evidence de ''movement'' ''impossible_player_speed'' [(''median_speed'', med), (''p90_speed'', p90),
         (''max_legitimate_speed'', m1_max d), (''current_speed'', pl_speed ps), (''window_frames'', f_of_int (m1_window d)),
         (''max_speed_in_window'', max_float window), (''min_speed_in_window'', min_float window)])
       (''median_speed: '' @ fmt_f 1 med @ '' m/s over '' @ itoa (m1_window d) @ '' frames'')
       (''median_speed: 0-'' @ fmt_f 1 (m1_max d) @ '' m/s'')
       (player_key (ps_player_id ps) (f - m1_window d + 1) f ''impossible_speed'')"

definition mov001_step :: "detect_env \<Rightarrow> base \<Rightarrow> match_context \<Rightarrow> int \<Rightarrow> (tracked, mov001) step" where
  "mov001_step de b mc f ps n d =
     (let i = ps_player_id ps; window = push (m1_window d) (pl_speed ps) (gz [] (m1_speeds d) i);
          keep = d\<lparr>m1_speeds := AList.update i window (m1_speeds d)\<rparr>; clear = d\<lparr>m1_speeds := AList.update i [] (m1_speeds d)\<rparr>
      in if int (length window) < m1_window d then ([], keep)
         else
           let xs = sort_floats window; med = middle xs; p90 = xs ! nat (f_to_int (fmul (count_of xs) (flit (9/10))));
               over_cap = int (length (filter (flt (burst_threshold mc d)) window))
           in if fle med (m1_max d)
              then if over_cap < m1_burst d then ([], keep) else ([mov001_burst_event de b mc f ps n d window med p90 over_cap], clear)
              else ([mov001_median_event de b mc f ps n d window med p90], clear))"

definition mov001_evaluate :: "detect_env \<Rightarrow> match_context \<Rightarrow> (string, tracked) gomap \<Rightarrow> int \<Rightarrow> mov001 instance_of \<Rightarrow> detection_event list \<times> mov001 instance_of" where
  "mov001_evaluate de mc pls f = run_instance (\<lambda>b. over (mov001_step de b mc f) (active_players pls f))"

section \<open>MOV_002\<close>

record last_seen =
  ls_position :: vec3
  ls_velocity :: vec3
  ls_frame :: int
  ls_timestamp :: f64

record mov002 =
  m2_threshold :: f64
  m2_mismatch :: f64
  m2_max_frame_gap :: int
  m2_steepness :: f64
  m2_min_solo :: int
  m2_cluster :: int
  m2_goal_cooldown :: int
  m2_max_displacement :: f64
  m2_max_gap_seconds :: f64
  m2_min_incidents :: int
  m2_last :: "(string, last_seen) gomap"
  m2_incidents :: "(string, int) gomap"
  m2_recent :: "(string, int) gomap"
  m2_score :: "(int \<times> int) option"
  m2_cooldown_until :: int

definition mov002_base :: base where
  "mov002_base = \<lparr>bd_id = ''MOV_002'', bd_version = ''2.1.0'', bd_name = ''Teleportation'', bd_category = ''movement'',
     bd_inputs = [''position'', ''velocity''], bd_warmup = 2, bd_weight = Fin 1, bd_auto = True\<rparr>"

definition mov002_sanitize :: "mov002 \<Rightarrow> mov002" where
  "mov002_sanitize d0 =
     (let d = (if fle (m2_max_displacement d0) (m2_threshold d0) then d0\<lparr>m2_max_displacement := fadd (m2_threshold d0) (Fin 1)\<rparr> else d0);
          d = (if m2_min_incidents d < 1 then d\<lparr>m2_min_incidents := 1\<rparr> else d)
      in if fle (m2_max_gap_seconds d) (Fin 0) then d\<lparr>m2_max_gap_seconds := Fin (1/2)\<rparr> else d)"

definition mov002_configure :: "params \<Rightarrow> mov002 \<Rightarrow> mov002" where
  "mov002_configure ps d = mov002_sanitize (d\<lparr>m2_threshold := get_float ps ''teleport_threshold'' (m2_threshold d),
     m2_mismatch := get_float ps ''velocity_mismatch_factor'' (m2_mismatch d), m2_max_frame_gap := get_int ps ''max_frame_gap'' (m2_max_frame_gap d),
     m2_steepness := get_float ps ''sigmoid_steepness'' (m2_steepness d), m2_min_solo := get_int ps ''min_solo_teleporters'' (m2_min_solo d),
     m2_cluster := get_int ps ''cluster_window'' (m2_cluster d), m2_goal_cooldown := get_int ps ''goal_cooldown_frames'' (m2_goal_cooldown d),
     m2_max_displacement := get_float ps ''max_displacement'' (m2_max_displacement d),
     m2_max_gap_seconds := get_float ps ''max_gap_seconds'' (m2_max_gap_seconds d), m2_min_incidents := get_int ps ''min_incidents'' (m2_min_incidents d)\<rparr>)"

definition mov002_reset :: "mov002 \<Rightarrow> mov002" where
  "mov002_reset d = d\<lparr>m2_last := [], m2_incidents := [], m2_recent := [], m2_score := None, m2_cooldown_until := - 1\<rparr>"

definition new_mov002 :: "params \<Rightarrow> mov002 instance_of" where
  "new_mov002 ps = \<lparr>in_base = mov002_base, in_made = 0, in_state = mov002_configure ps
     \<lparr>m2_threshold = Fin 8, m2_mismatch = Fin 3, m2_max_frame_gap = 5, m2_steepness = Fin (1/2), m2_min_solo = 2, m2_cluster = 60,
      m2_goal_cooldown = 150, m2_max_displacement = Fin 12, m2_max_gap_seconds = Fin (1/2), m2_min_incidents = 5, m2_last = [],
      m2_incidents = [], m2_recent = [], m2_score = None, m2_cooldown_until = - 1\<rparr>\<rparr>"

definition score_sample :: "tracked list \<Rightarrow> tracked option" where
  "score_sample active = (case find (\<lambda>ps. 0 < ps_frame_count ps) active of Some ps \<Rightarrow> Some ps
     | None \<Rightarrow> (case active of [] \<Rightarrow> None | ps # _ \<Rightarrow> Some ps))"

definition note_score :: "int \<Rightarrow> tracked list \<Rightarrow> mov002 \<Rightarrow> mov002" where
  "note_score f active d = (case score_sample active of None \<Rightarrow> d
     | Some ps \<Rightarrow> let now = (sr_blue (mo_scores (ps_motion ps)), sr_orange (mo_scores (ps_motion ps))) in
         (case m2_score d of None \<Rightarrow> d\<lparr>m2_score := Some now\<rparr>
          | Some prev \<Rightarrow> if now \<noteq> prev then d\<lparr>m2_score := Some now, m2_cooldown_until := f + m2_goal_cooldown d\<rparr> else d))"

definition see :: "int \<Rightarrow> tracked \<Rightarrow> mov002 \<Rightarrow> mov002" where
  "see f ps d = d\<lparr>m2_last := AList.update (ps_player_id ps)
     \<lparr>ls_position = pl_position ps, ls_velocity = kn_velocity (pl_kin ps), ls_frame = f, ls_timestamp = ps_last_timestamp ps\<rparr> (m2_last d)\<rparr>"

record teleport =
  tp_player :: tracked
  tp_actual :: f64
  tp_expected :: f64
  tp_dt :: f64
  tp_from :: int

definition teleport_of :: "int \<Rightarrow> mov002 \<Rightarrow> tracked \<Rightarrow> teleport option" where
  "teleport_of f d ps = (case map_of (m2_last d) (ps_player_id ps) of None \<Rightarrow> None
     | Some prev \<Rightarrow>
         let elapsed = fsub (ps_last_timestamp ps) (ls_timestamp prev);
             actual = v_magnitude (v_sub (pl_position ps) (ls_position prev));
             expected = v_magnitude (v_scale (ls_velocity prev) elapsed)
         in if m2_max_frame_gap d < f - ls_frame prev then None
            else if fle (pl_dt ps) (Fin 0) \<or> fle elapsed (Fin 0) \<or> flt (m2_max_gap_seconds d) elapsed then None
            else if st_is_immune (pl_status ps) \<or> pl_stunned ps then None
            else if flt (m2_max_displacement d) actual \<or> fle actual (m2_threshold d) \<or> fle actual (fmul expected (m2_mismatch d)) then None
            else Some \<lparr>tp_player = ps, tp_actual = actual, tp_expected = expected, tp_dt = elapsed, tp_from = ls_frame prev\<rparr>)"

fun collect :: "int \<Rightarrow> tracked list \<Rightarrow> mov002 \<Rightarrow> teleport list \<times> mov002" where
  "collect f [] d = ([], d)"
| "collect f (ps # pss) d =
     (let (cs, d') = collect f pss (see f ps d) in
      ((case teleport_of f d ps of None \<Rightarrow> cs | Some c \<Rightarrow> c # cs), d'))"

definition mov002_severity :: "detect_env \<Rightarrow> mov002 \<Rightarrow> f64 \<Rightarrow> f64" where
  "mov002_severity de d v =
     (let half = fdiv (fsub (m2_max_displacement d) (m2_threshold d)) (Fin 2);
          half = (if flt half (Fin (1/2)) then Fin (1/2) else half)
      in sigmoid_confidence de v (fdiv (fadd (m2_threshold d) (m2_max_displacement d)) (Fin 2)) (fdiv (de_log de (Fin 9)) half))"

definition mov002_report :: "detect_env \<Rightarrow> base \<Rightarrow> match_context \<Rightarrow> int \<Rightarrow> (teleport, mov002) step" where
  "mov002_report de b mc f c n d0 =
     (let ps = tp_player c; i = ps_player_id ps; k = gz 0 (m2_incidents d0) i + 1; d = d0\<lparr>m2_incidents := AList.update i k (m2_incidents d0)\<rparr>;
          mismatch = fdiv (tp_actual c) (max_f (tp_expected c) (flit (1/100)))
      in if k < m2_min_incidents d then ([], d)
         else ([make_event de b n mc i f (ps_last_timestamp ps) (mov002_severity de d (tp_actual c))
             (dampen ps (1/2) (sigmoid_confidence de mismatch (m2_mismatch d) (m2_steepness d)))
             (metrics_evidence de ''movement'' ''teleportation'' [(''actual_distance'', tp_actual c), (''expected_distance'', tp_expected c),
               (''frame_gap'', f_of_int (f - tp_from c)), (''frame_dt'', tp_dt c), (''mismatch_ratio'', mismatch),
               (''incident_count'', f_of_int k), (''max_displacement'', m2_max_displacement d)])
             (''teleport_distance: '' @ fmt_f 2 (tp_actual c) @ '' m (expected '' @ fmt_f 2 (tp_expected c) @ '' m)'')
             (''position_delta: <'' @ fmt_f 1 (m2_threshold d) @ '' m or <'' @ fmt_f 1 (m2_mismatch d) @ ''x expected'')
             (player_key i (tp_from c) f ''teleportation'')], d))"

definition note_teleporters :: "int \<Rightarrow> teleport list \<Rightarrow> mov002 \<Rightarrow> mov002" where
  "note_teleporters f cs d = d\<lparr>m2_recent := gfilter (\<lambda>_ k. f - k \<le> m2_cluster d)
     (fold (\<lambda>c. AList.update (ps_player_id (tp_player c)) f) cs (m2_recent d))\<rparr>"

definition mov002_run :: "detect_env \<Rightarrow> base \<Rightarrow> match_context \<Rightarrow> int \<Rightarrow> tracked list \<Rightarrow> nat \<Rightarrow> mov002 \<Rightarrow> detection_event list \<times> mov002" where
  "mov002_run de b mc f active n d0 =
     (let d = note_score f active d0 in
      if f < m2_cooldown_until d then ([], fold (see f) active d)
      else
        let (cs, d) = collect f active d; d = note_teleporters f cs d in
        if cs \<noteq> [] \<and> m2_min_solo d \<le> int (length (m2_recent d)) then ([], d)
        else over (mov002_report de b mc f) cs n d)"

definition mov002_evaluate :: "detect_env \<Rightarrow> match_context \<Rightarrow> (string, tracked) gomap \<Rightarrow> int \<Rightarrow> mov002 instance_of \<Rightarrow> detection_event list \<times> mov002 instance_of" where
  "mov002_evaluate de mc pls f = run_instance (\<lambda>b. mov002_run de b mc f (active_players pls f))"

section \<open>MOV_003\<close>

record pending_reversal =
  pr_frame :: int
  pr_last :: int
  pr_angle :: f64
  pr_prev_speed :: f64
  pr_speed :: f64
  pr_heading :: vec3
  pr_confirmed :: int
  pr_speeds :: "f64 list"

record mov003 =
  m3_min_angle :: f64
  m3_min_speed :: f64
  m3_stun_cooldown :: int
  m3_steepness :: f64
  m3_confirm :: int
  m3_tolerance :: f64
  m3_radius :: f64
  m3_last :: "(string, vec3 \<times> int) gomap"
  m3_last_stun :: "(string, int) gomap"
  m3_pending :: "(string, pending_reversal) gomap"

definition mov003_base :: base where
  "mov003_base = \<lparr>bd_id = ''MOV_003'', bd_version = ''2.1.0'', bd_name = ''Zero-Inertia Direction Change'', bd_category = ''movement'',
     bd_inputs = [''velocity'', ''speed''], bd_warmup = 5, bd_weight = flit (8/10), bd_auto = False\<rparr>"

definition mov003_sanitize :: "mov003 \<Rightarrow> mov003" where
  "mov003_sanitize d = (if m3_confirm d < 1 then d\<lparr>m3_confirm := 1\<rparr> else d)"

definition mov003_configure :: "params \<Rightarrow> mov003 \<Rightarrow> mov003" where
  "mov003_configure ps d = mov003_sanitize (d\<lparr>m3_min_angle := get_float_alias ps (m3_min_angle d) [''min_angle_deg'', ''min_reversal_angle''],
     m3_min_speed := get_float ps ''min_speed'' (m3_min_speed d), m3_stun_cooldown := get_int ps ''stun_cooldown_frames'' (m3_stun_cooldown d),
     m3_steepness := get_float ps ''sigmoid_steepness'' (m3_steepness d), m3_confirm := get_int ps ''confirm_frames'' (m3_confirm d),
     m3_tolerance := get_float ps ''heading_tolerance_deg'' (m3_tolerance d), m3_radius := get_float ps ''collision_radius'' (m3_radius d)\<rparr>)"

definition mov003_reset :: "mov003 \<Rightarrow> mov003" where
  "mov003_reset d = d\<lparr>m3_last := [], m3_last_stun := [], m3_pending := []\<rparr>"

definition new_mov003 :: "params \<Rightarrow> mov003 instance_of" where
  "new_mov003 ps = \<lparr>in_base = mov003_base, in_made = 0, in_state = mov003_configure ps
     \<lparr>m3_min_angle = Fin 175, m3_min_speed = Fin 12, m3_stun_cooldown = 30, m3_steepness = Fin (1/2), m3_confirm = 3,
      m3_tolerance = Fin 20, m3_radius = Fin 2, m3_last = [], m3_last_stun = [], m3_pending = []\<rparr>\<rparr>"

definition angle_between_deg :: "detect_env \<Rightarrow> vec3 \<Rightarrow> vec3 \<Rightarrow> f64" where
  "angle_between_deg de v u = rad_to_deg (v_angle_between (de_acos de) v u)"

definition near_another_player :: "mov003 \<Rightarrow> tracked \<Rightarrow> tracked list \<Rightarrow> bool" where
  "near_another_player d ps others \<longleftrightarrow> \<not> fle (m3_radius d) (Fin 0) \<and>
     list_ex (\<lambda>other. ps_player_id other \<noteq> ps_player_id ps \<and> \<not> v_is_zero (pl_position other) \<and>
       fle (v_distance (pl_position other) (pl_position ps)) (m3_radius d)) others"

definition degree_sign :: string where "degree_sign = [CHR 0xC2, CHR 0xB0]"

definition mov003_event :: "detect_env \<Rightarrow> base \<Rightarrow> nat \<Rightarrow> match_context \<Rightarrow> int \<Rightarrow> tracked \<Rightarrow> mov003 \<Rightarrow> pending_reversal \<Rightarrow> detection_event" where
  "mov003_event de b n mc f ps d p =
     (let avg = fdiv (fadd (pr_prev_speed p) (pr_speed p)) (Fin 2) in
      make_event de b n mc (ps_player_id ps) f (ps_last_timestamp ps) (sigmoid_confidence de (pr_angle p) (Fin 178) (Fin 1))
        (clamp01 (fmul (sigmoid_confidence de avg (fmul (m3_min_speed d) (Fin (3/2))) (m3_steepness d)) (flit (85/100))))
        (metrics_evidence de ''movement'' ''zero_inertia_direction_change'' [(''angle_deg'', pr_angle p), (''prev_speed'', pr_prev_speed p),
          (''curr_speed'', pr_speed p), (''avg_speed'', avg), (''sustained_speed'', mean (pr_speeds p)),
          (''confirmed_frames'', f_of_int (pr_confirmed p)), (''min_angle'', m3_min_angle d), (''min_speed'', m3_min_speed d)])
        (''direction_change: '' @ fmt_f 1 (pr_angle p) @ degree_sign @ '' at '' @ fmt_f 1 avg @ '' m/s, heading held '' @ itoa (pr_confirmed p) @ '' frames'')
        (''direction_change: <'' @ fmt_f 0 (m3_min_angle d) @ degree_sign @ '' at >'' @ fmt_f 0 (m3_min_speed d) @ '' m/s'')
        (player_key (ps_player_id ps) (pr_frame p - 1) f ''zero_inertia''))"

text \<open>A reversal between the previous and this velocity starts a candidate.\<close>

definition open_reversal :: "detect_env \<Rightarrow> tracked list \<Rightarrow> int \<Rightarrow> tracked \<Rightarrow> vec3 \<Rightarrow> mov003 \<Rightarrow> mov003" where
  "open_reversal de others f ps prev d =
     (let v = kn_velocity (pl_kin ps); before = v_magnitude prev; now = v_magnitude v; angle = angle_between_deg de prev v in
      if flt before (m3_min_speed d) \<or> flt now (m3_min_speed d) \<or> flt angle (m3_min_angle d) \<or> near_another_player d ps others then d
      else d\<lparr>m3_pending := AList.update (ps_player_id ps) \<lparr>pr_frame = f, pr_last = f, pr_angle = angle, pr_prev_speed = before,
        pr_speed = now, pr_heading = v_normalized v, pr_confirmed = 0, pr_speeds = []\<rparr> (m3_pending d)\<rparr>)"

text \<open>The next frames confirm the candidate while the new heading is held.\<close>

definition confirm_reversal :: "detect_env \<Rightarrow> base \<Rightarrow> match_context \<Rightarrow> int \<Rightarrow> tracked \<Rightarrow> nat \<Rightarrow> mov003 \<Rightarrow> pending_reversal \<Rightarrow>
    (detection_event list \<times> mov003) option" where
  "confirm_reversal de b mc f ps n d p =
     (let i = ps_player_id ps; v = kn_velocity (pl_kin ps); now = v_magnitude v in
      if f = pr_last p + 1 \<and> fle (m3_min_speed d) now \<and> fle (angle_between_deg de (pr_heading p) v) (m3_tolerance d)
      then let p = p\<lparr>pr_confirmed := pr_confirmed p + 1, pr_last := f, pr_speeds := pr_speeds p @ [now]\<rparr> in
        Some (if m3_confirm d \<le> pr_confirmed p
          then ([mov003_event de b n mc f ps d p], d\<lparr>m3_pending := AList.delete i (m3_pending d)\<rparr>)
          else ([], d\<lparr>m3_pending := AList.update i p (m3_pending d)\<rparr>))
      else None)"

definition mov003_step :: "detect_env \<Rightarrow> base \<Rightarrow> match_context \<Rightarrow> tracked list \<Rightarrow> int \<Rightarrow> (tracked, mov003) step" where
  "mov003_step de b mc others f ps n d0 =
     (let i = ps_player_id ps; prev = map_of (m3_last d0) i;
          d = (if pl_stunned ps then d0\<lparr>m3_last_stun := AList.update i f (m3_last_stun d0)\<rparr> else d0);
          d = d\<lparr>m3_last := AList.update i (kn_velocity (pl_kin ps), f) (m3_last d)\<rparr>;
          dropped = d\<lparr>m3_pending := AList.delete i (m3_pending d)\<rparr>
      in case prev of None \<Rightarrow> ([], d)
         | Some (v, k) \<Rightarrow>
             if f \<noteq> k + 1 then ([], dropped)
             else if (case map_of (m3_last_stun d) i of None \<Rightarrow> False | Some s \<Rightarrow> f - s < m3_stun_cooldown d) then ([], dropped)
             else (case map_of (m3_pending d) i of
                 None \<Rightarrow> ([], open_reversal de others f ps v d)
               | Some p \<Rightarrow> (case confirm_reversal de b mc f ps n d p of
                     Some out \<Rightarrow> out
                   | None \<Rightarrow> ([], open_reversal de others f ps v dropped))))"

definition mov003_evaluate :: "detect_env \<Rightarrow> match_context \<Rightarrow> (string, tracked) gomap \<Rightarrow> int \<Rightarrow> mov003 instance_of \<Rightarrow> detection_event list \<times> mov003 instance_of" where
  "mov003_evaluate de mc pls f = run_instance (\<lambda>b. over (mov003_step de b mc (sorted_players pls) f) (active_players pls f))"

section \<open>Boost samples\<close>

record boost_sample =
  bs_frame :: int
  bs_timestamp :: f64
  bs_source :: "observation_context option"

definition not_finite :: "f64 \<Rightarrow> bool" where
  "not_finite x \<longleftrightarrow> is_nan x \<or> is_inf x"

definition read_boost_sample :: "tracked \<Rightarrow> int \<Rightarrow> boost_sample option" where
  "read_boost_sample ps f =
     (let dt = pl_dt ps; t = ps_last_timestamp ps; v = pl_speed ps; o' = ps_observation ps in
      if \<not> st_is_boosting_known (pl_status ps) \<or> f < 0 \<or> fle dt (Fin 0) \<or> not_finite dt \<or> flt t (Fin 0) \<or> not_finite t \<or>
         flt v (Fin 0) \<or> not_finite v then None
      else if (case o' of None \<Rightarrow> False | Some c \<Rightarrow> \<not> oc_valid o' \<or> oc_frame_index c \<noteq> f \<or> \<not> feq (oc_timestamp c) t) then None
      else Some \<lparr>bs_frame = f, bs_timestamp = t, bs_source = o'\<rparr>)"

definition continuous_boost_sample :: "boost_sample option \<Rightarrow> boost_sample \<Rightarrow> f64 \<Rightarrow> bool" where
  "continuous_boost_sample previous now dt = (case previous of None \<Rightarrow> False
     | Some prev \<Rightarrow>
         if bs_frame now \<noteq> bs_frame prev + 1 \<or> fle (bs_timestamp now) (bs_timestamp prev) \<or>
            flt (fadd dt (flit (1 / 10 ^ 6))) (fsub (bs_timestamp now) (bs_timestamp prev)) then False
         else if bs_source prev = None \<and> bs_source now = None then True
         else same_source (bs_source prev) (bs_source now))"

section \<open>MOV_004\<close>

record boost_track =
  bt_was :: bool
  bt_peak :: f64
  bt_before :: "f64 option"
  bt_start :: int
  bt_baseline :: f64
  bt_sample :: "boost_sample option"

record mov004 =
  m4_margin :: f64
  m4_steepness :: f64
  m4_tracks :: "(string, boost_track) gomap"

definition no_boost :: boost_track where
  "no_boost = \<lparr>bt_was = False, bt_peak = Fin 0, bt_before = None, bt_start = 0, bt_baseline = Fin 0, bt_sample = None\<rparr>"

definition mov004_base :: base where
  "mov004_base = \<lparr>bd_id = ''MOV_004'', bd_version = ''2.2.0'', bd_name = ''Boost Speed Cap Violation'', bd_category = ''movement'',
     bd_inputs = [''speed'', ''boosting''], bd_warmup = 5, bd_weight = flit (7/10), bd_auto = False\<rparr>"

definition mov004_configure :: "params \<Rightarrow> mov004 \<Rightarrow> mov004" where
  "mov004_configure ps d = d\<lparr>m4_margin := get_float_alias ps (m4_margin d) [''boost_cap_margin'', ''boost_margin''],
     m4_steepness := get_float ps ''sigmoid_steepness'' (m4_steepness d)\<rparr>"

definition mov004_reset :: "mov004 \<Rightarrow> mov004" where
  "mov004_reset d = d\<lparr>m4_tracks := []\<rparr>"

definition new_mov004 :: "params \<Rightarrow> mov004 instance_of" where
  "new_mov004 ps = \<lparr>in_base = mov004_base, in_made = 0, in_state = mov004_configure ps
     \<lparr>m4_margin = Fin (3/2), m4_steepness = flit (8/10), m4_tracks = []\<rparr>\<rparr>"

definition boost_cap_of :: "match_context \<Rightarrow> f64" where
  "boost_cap_of mc = (if flt (Fin 0) (boost_speed_cap (mc_physics mc)) then boost_speed_cap (mc_physics mc) else Fin 5)"

definition mov004_event :: "detect_env \<Rightarrow> base \<Rightarrow> nat \<Rightarrow> match_context \<Rightarrow> int \<Rightarrow> tracked \<Rightarrow> mov004 \<Rightarrow> boost_track \<Rightarrow> detection_event" where
  "mov004_event de b n mc f ps d t =
     (let cap = boost_cap_of mc; threshold = fadd cap (m4_margin d); gain = fsub (bt_peak t) (bt_baseline t); excess = fsub gain threshold in
      make_event de b n mc (ps_player_id ps) f (ps_last_timestamp ps) (sigmoid_confidence de gain (fmul threshold (flit (12/10))) (m4_steepness d))
        (clamp01 (fmul (sigmoid_confidence de excess (Fin 0) (Fin 1)) (flit (85/100))))
        (metrics_evidence de ''movement'' ''boost_speed_cap'' [(''peak_speed'', bt_peak t), (''pre_boost_speed'', bt_baseline t), (''boost_gain'', gain),
          (''boost_cap'', cap), (''cap_margin'', m4_margin d), (''threshold'', threshold), (''excess'', excess), (''boost_frames'', f_of_int (f - bt_start t))])
        (''boost_gain: '' @ fmt_f 1 gain @ '' m/s ('' @ fmt_f 1 (bt_baseline t) @ '' -> '' @ fmt_f 1 (bt_peak t) @ '' m/s)'')
        (''boost_gain: 0-'' @ fmt_f 1 threshold @ '' m/s (cap '' @ fmt_f 1 cap @ '' + margin '' @ fmt_f 1 (m4_margin d) @ '')'')
        (player_key (ps_player_id ps) (bt_start t) f ''boost_speed_cap''))"

text \<open>A boosting sample, and one after which the boost, if there was one, has ended.\<close>

definition boosting_sample :: "int \<Rightarrow> tracked \<Rightarrow> boost_track \<Rightarrow> boost_track" where
  "boosting_sample f ps t0 =
     (let raise = (\<lambda>t. t\<lparr>bt_peak := (if flt (bt_peak t) (pl_speed ps) then pl_speed ps else bt_peak t), bt_was := True\<rparr>) in
      if bt_was t0 then raise t0
      else let t = t0\<lparr>bt_start := f\<rparr> in
        (case bt_before t of None \<Rightarrow> t | Some v \<Rightarrow> raise (t\<lparr>bt_baseline := v, bt_peak := Fin 0\<rparr>)))"

definition mov004_step :: "detect_env \<Rightarrow> base \<Rightarrow> match_context \<Rightarrow> int \<Rightarrow> (tracked, mov004) step" where
  "mov004_step de b mc f ps n d =
     (let i = ps_player_id ps; put = (\<lambda>t. d\<lparr>m4_tracks := AList.update i t (m4_tracks d)\<rparr>); t0 = gz no_boost (m4_tracks d) i;
          boosting = st_is_boosting (pl_status ps)
      in case read_boost_sample ps f of
           None \<Rightarrow> ([], d\<lparr>m4_tracks := AList.delete i (m4_tracks d)\<rparr>)
         | Some now \<Rightarrow>
             if \<not> continuous_boost_sample (bt_sample t0) now (pl_dt ps)
             then ([], put (no_boost\<lparr>bt_sample := Some now, bt_before := (if boosting then None else Some (pl_speed ps))\<rparr>))
             else
               let t = t0\<lparr>bt_sample := Some now\<rparr> in
               if boosting then ([], put (boosting_sample f ps t))
               else
                 let t = t\<lparr>bt_before := Some (pl_speed ps)\<rparr>; over_it = put (t\<lparr>bt_was := False, bt_peak := Fin 0\<rparr>) in
                 if \<not> bt_was t then ([], put t)
                 else if fle (fsub (bt_peak t) (bt_baseline t)) (fadd (boost_cap_of mc) (m4_margin d)) then ([], over_it)
                 else ([mov004_event de b n mc f ps d t], over_it))"

definition mov004_evaluate :: "detect_env \<Rightarrow> match_context \<Rightarrow> (string, tracked) gomap \<Rightarrow> int \<Rightarrow> mov004 instance_of \<Rightarrow> detection_event list \<times> mov004 instance_of" where
  "mov004_evaluate de mc pls f = run_instance (\<lambda>b. over (mov004_step de b mc f) (active_players pls f))"

section \<open>MOV_005\<close>

record boost_count =
  bc_times :: "f64 list"
  bc_was :: bool
  bc_consecutive :: int
  bc_last_end :: "int option"
  bc_sequences :: int
  bc_sample :: "boost_sample option"

record mov005 =
  m5_window :: f64
  m5_max_per_window :: int
  m5_max_consecutive :: int
  m5_pause :: int
  m5_min_sequences :: int
  m5_steepness :: f64
  m5_counts :: "(string, boost_count) gomap"

definition no_boosts :: boost_count where
  "no_boosts = \<lparr>bc_times = [], bc_was = False, bc_consecutive = 0, bc_last_end = None, bc_sequences = 0, bc_sample = None\<rparr>"

definition mov005_base :: base where
  "mov005_base = \<lparr>bd_id = ''MOV_005'', bd_version = ''2.2.0'', bd_name = ''Boost Spam'', bd_category = ''movement'',
     bd_inputs = [''boosting'', ''speed''], bd_warmup = 10, bd_weight = flit (6/10), bd_auto = False\<rparr>"

definition mov005_configure :: "params \<Rightarrow> mov005 \<Rightarrow> mov005" where
  "mov005_configure ps d = d\<lparr>m5_window := get_float ps ''window_seconds'' (m5_window d),
     m5_max_per_window := get_int_alias ps (m5_max_per_window d) [''max_boosts_per_window'', ''max_boosts_per_10s''],
     m5_max_consecutive := get_int ps ''max_consecutive'' (m5_max_consecutive d), m5_pause := get_int ps ''recharge_pause_frames'' (m5_pause d),
     m5_min_sequences := get_int_alias ps (m5_min_sequences d) [''min_sequences'', ''min_sequences_to_surface''],
     m5_steepness := get_float ps ''sigmoid_steepness'' (m5_steepness d)\<rparr>"

definition mov005_reset :: "mov005 \<Rightarrow> mov005" where
  "mov005_reset d = d\<lparr>m5_counts := []\<rparr>"

definition new_mov005 :: "params \<Rightarrow> mov005 instance_of" where
  "new_mov005 ps = \<lparr>in_base = mov005_base, in_made = 0, in_state = mov005_configure ps
     \<lparr>m5_window = Fin 10, m5_max_per_window = 25, m5_max_consecutive = 5, m5_pause = 10, m5_min_sequences = 2, m5_steepness = Fin (1/2),
      m5_counts = []\<rparr>\<rparr>"

text \<open>A continuous sample: activations are rising edges, and a long enough pause closes a sequence.\<close>

definition count_boost :: "mov005 \<Rightarrow> int \<Rightarrow> tracked \<Rightarrow> boost_count \<Rightarrow> boost_count" where
  "count_boost d f ps c0 =
     (let was = bc_was c0; boosting = st_is_boosting (pl_status ps); c = c0\<lparr>bc_was := boosting\<rparr> in
      if boosting then
        (if was then c else c\<lparr>bc_consecutive := bc_consecutive c + 1, bc_times := bc_times c @ [ps_last_timestamp ps]\<rparr>)
      else
        let c = (if was \<and> 0 < bc_consecutive c then c\<lparr>bc_last_end := Some f\<rparr> else c) in
        (case bc_last_end c of None \<Rightarrow> c
         | Some e \<Rightarrow> if 0 < bc_consecutive c \<and> m5_pause d < f - e
             then c\<lparr>bc_sequences := (if m5_max_consecutive d < bc_consecutive c then bc_sequences c + 1 else bc_sequences c), bc_consecutive := 0\<rparr>
             else c))"

definition trim_boosts :: "mov005 \<Rightarrow> tracked \<Rightarrow> boost_count \<Rightarrow> boost_count" where
  "trim_boosts d ps c = c\<lparr>bc_times := dropWhile (\<lambda>t. flt t (fsub (ps_last_timestamp ps) (m5_window d))) (bc_times c)\<rparr>"

definition mov005_severity :: "detect_env \<Rightarrow> mov005 \<Rightarrow> boost_count \<Rightarrow> f64" where
  "mov005_severity de d c =
     (let k = int (length (bc_times c));
          v = (if m5_max_per_window d < k then sigmoid_confidence de (f_of_int k) (fmul (f_of_int (m5_max_per_window d)) (Fin (3/2))) (m5_steepness d) else Fin 0);
          u = sigmoid_confidence de (f_of_int (bc_consecutive c)) (fmul (f_of_int (m5_max_consecutive d)) (Fin (3/2))) (m5_steepness d)
      in if m5_max_consecutive d < bc_consecutive c \<and> flt v u then u else v)"

definition mov005_event :: "detect_env \<Rightarrow> base \<Rightarrow> nat \<Rightarrow> match_context \<Rightarrow> int \<Rightarrow> tracked \<Rightarrow> mov005 \<Rightarrow> boost_count \<Rightarrow> detection_event" where
  "mov005_event de b n mc f ps d c =
     (let sev = mov005_severity de d c; k = int (length (bc_times c)) in
      make_event de b n mc (ps_player_id ps) f (ps_last_timestamp ps) sev (clamp01 (fmul sev (flit (8/10))))
        (metrics_evidence de ''movement'' ''boost_spam'' [(''boosts_in_window'', f_of_int k), (''max_boosts_window'', f_of_int (m5_max_per_window d)),
          (''consecutive_boosts'', f_of_int (bc_consecutive c)), (''max_consecutive'', f_of_int (m5_max_consecutive d)),
          (''violation_sequences'', f_of_int (bc_sequences c)), (''window_seconds'', m5_window d)])
        (''boost_spam: '' @ itoa k @ '' boosts/'' @ fmt_f 0 (m5_window d) @ ''s, '' @ itoa (bc_consecutive c) @ '' consecutive, '' @ itoa (bc_sequences c) @ '' sequences'')
        (''boosts: <'' @ itoa (m5_max_per_window d) @ '' per '' @ fmt_f 0 (m5_window d) @ ''s, <'' @ itoa (m5_max_consecutive d) @ '' consecutive'')
        (player_key (ps_player_id ps) (f - 60) f ''boost_spam''))"

definition mov005_step :: "detect_env \<Rightarrow> base \<Rightarrow> match_context \<Rightarrow> int \<Rightarrow> (tracked, mov005) step" where
  "mov005_step de b mc f ps n d =
     (let i = ps_player_id ps; put = (\<lambda>c. d\<lparr>m5_counts := AList.update i c (m5_counts d)\<rparr>); c0 = gz no_boosts (m5_counts d) i
      in case read_boost_sample ps f of
           None \<Rightarrow> ([], d\<lparr>m5_counts := AList.delete i (m5_counts d)\<rparr>)
         | Some now \<Rightarrow>
             if \<not> continuous_boost_sample (bc_sample c0) now (pl_dt ps)
             then ([], put (no_boosts\<lparr>bc_sample := Some now, bc_was := st_is_boosting (pl_status ps)\<rparr>))
             else
               let c = trim_boosts d ps (count_boost d f ps (c0\<lparr>bc_sample := Some now\<rparr>)) in
               if \<not> m5_max_per_window d < int (length (bc_times c)) \<and> \<not> m5_max_consecutive d < bc_consecutive c \<or> bc_sequences c < m5_min_sequences d
               then ([], put c)
               else ([mov005_event de b n mc f ps d c], put (c\<lparr>bc_times := [], bc_consecutive := 0, bc_sequences := 0\<rparr>)))"

definition mov005_evaluate :: "detect_env \<Rightarrow> match_context \<Rightarrow> (string, tracked) gomap \<Rightarrow> int \<Rightarrow> mov005 instance_of \<Rightarrow> detection_event list \<times> mov005 instance_of" where
  "mov005_evaluate de mc pls f = run_instance (\<lambda>b. over (mov005_step de b mc f) (active_players pls f))"

section \<open>MOV_006\<close>

record playspace_burst =
  pb_start :: int
  pb_last :: int
  pb_start_time :: f64
  pb_frames :: int
  pb_max_speed :: f64
  pb_max_distance :: f64
  pb_min_coherence :: f64
  pb_min_pose :: f64
  pb_reported :: f64
  pb_emitted :: bool

record mov006 =
  m6_min_speed :: f64
  m6_min_distance :: f64
  m6_min_pose :: f64
  m6_min_coherence :: f64
  m6_min_frames :: int
  m6_min_seconds :: f64
  m6_max_ping :: f64
  m6_bursts :: "(string, playspace_burst) gomap"

definition mov006_base :: base where
  "mov006_base = \<lparr>bd_id = ''MOV_006'', bd_version = ''1.2.1'', bd_name = ''Physical Playspace Walking'', bd_category = ''movement'',
     bd_inputs = [''position'', ''reported_velocity'', ''lhand.pos'', ''rhand.pos''], bd_warmup = 2, bd_weight = Fin (3/4), bd_auto = False\<rparr>"

definition raise_to :: "f64 \<Rightarrow> f64 \<Rightarrow> f64" where
  "raise_to lo x = (if flt x lo then lo else x)"

definition mov006_sanitize :: "mov006 \<Rightarrow> mov006" where
  "mov006_sanitize d = d\<lparr>m6_min_speed := raise_to (flit (1/10)) (m6_min_speed d), m6_min_distance := raise_to (flit (5/100)) (m6_min_distance d),
     m6_min_pose := raise_to (flit (5/100)) (m6_min_pose d), m6_min_coherence := clamp01 (m6_min_coherence d),
     m6_min_frames := (if m6_min_frames d < 2 then 2 else m6_min_frames d), m6_min_seconds := raise_to (flit (1/10)) (m6_min_seconds d),
     m6_max_ping := raise_to (Fin 0) (m6_max_ping d)\<rparr>"

definition mov006_configure :: "params \<Rightarrow> mov006 \<Rightarrow> mov006" where
  "mov006_configure ps d = mov006_sanitize (d\<lparr>m6_min_speed := get_float ps ''min_playspace_speed'' (m6_min_speed d),
     m6_min_distance := get_float ps ''min_playspace_distance'' (m6_min_distance d), m6_min_pose := get_float ps ''min_observed_pose_speed'' (m6_min_pose d),
     m6_min_coherence := get_float ps ''min_rig_coherence'' (m6_min_coherence d), m6_min_frames := get_int ps ''min_sustained_frames'' (m6_min_frames d),
     m6_min_seconds := get_float ps ''min_sustained_seconds'' (m6_min_seconds d), m6_max_ping := get_float ps ''max_ping_ms'' (m6_max_ping d)\<rparr>)"

definition mov006_reset :: "mov006 \<Rightarrow> mov006" where
  "mov006_reset d = d\<lparr>m6_bursts := []\<rparr>"

definition new_mov006 :: "params \<Rightarrow> mov006 instance_of" where
  "new_mov006 ps = \<lparr>in_base = mov006_base, in_made = 0, in_state = mov006_configure ps
     \<lparr>m6_min_speed = Fin 1, m6_min_distance = flit (55/100), m6_min_pose = flit (35/100), m6_min_coherence = flit (65/100), m6_min_frames = 5,
      m6_min_seconds = flit (3/10), m6_max_ping = Fin 150, m6_bursts = []\<rparr>\<rparr>"

definition playspace_gated :: "mov006 \<Rightarrow> tracked \<Rightarrow> bool" where
  "playspace_gated d ps \<longleftrightarrow> (let py = mo_playspace (ps_motion ps) in
     \<not> py_valid py \<or> \<not> 0 < py_tracked_hands py \<or> \<not> fle (m6_min_speed d) (py_speed py) \<or> \<not> fle (m6_min_distance d) (py_distance py) \<or>
     \<not> fle (m6_min_pose d) (pl_speed ps) \<or> \<not> fle (m6_min_coherence d) (py_rig_coherence py) \<or>
     flt (Fin 0) (m6_max_ping d) \<and> flt (m6_max_ping d) (st_ping_ms (pl_status ps)))"

definition extend_burst :: "int \<Rightarrow> tracked \<Rightarrow> playspace_burst option \<Rightarrow> playspace_burst" where
  "extend_burst f ps prior =
     (let py = mo_playspace (ps_motion ps);
          fresh = \<lparr>pb_start = f, pb_last = 0, pb_start_time = ps_last_timestamp ps, pb_frames = 0, pb_max_speed = Fin 0, pb_max_distance = Fin 0,
            pb_min_coherence = py_rig_coherence py, pb_min_pose = pl_speed ps, pb_reported = Fin 0, pb_emitted = False\<rparr>;
          p = (case prior of Some p \<Rightarrow> if f \<noteq> pb_last p + 1 then fresh else p | None \<Rightarrow> fresh)
      in p\<lparr>pb_last := f, pb_frames := pb_frames p + 1, pb_max_speed := raise_to (py_speed py) (pb_max_speed p),
           pb_max_distance := raise_to (py_distance py) (pb_max_distance p),
           pb_min_coherence := (if flt (py_rig_coherence py) (pb_min_coherence p) then py_rig_coherence py else pb_min_coherence p),
           pb_min_pose := (if flt (pl_speed ps) (pb_min_pose p) then pl_speed ps else pb_min_pose p),
           pb_reported := v_magnitude (kn_reported_velocity (pl_kin ps))\<rparr>)"

definition mov006_event :: "detect_env \<Rightarrow> base \<Rightarrow> nat \<Rightarrow> match_context \<Rightarrow> int \<Rightarrow> tracked \<Rightarrow> mov006 \<Rightarrow> playspace_burst \<Rightarrow> f64 \<Rightarrow> detection_event" where
  "mov006_event de b n mc f ps d p seconds =
     (let speed_excess = fdiv (fsub (pb_max_speed p) (m6_min_speed d)) (m6_min_speed d);
          distance_excess = fdiv (fsub (pb_max_distance p) (m6_min_distance d)) (m6_min_distance d);
          strength = clamp (go_max speed_excess distance_excess) (Fin 0) (Fin 1)
      in make_event de b n mc (ps_player_id ps) f (ps_last_timestamp ps) (fadd (flit (55/100)) (fmul (flit (45/100)) strength))
        (dampen ps (75/100) (clamp01 (fadd (flit (65/100)) (fmul (flit (35/100)) (pb_min_coherence p)))))
        (metrics_evidence de ''movement'' ''physical_playspace_walking'' [(''max_playspace_speed'', pb_max_speed p), (''max_playspace_distance'', pb_max_distance p),
          (''min_playspace_speed'', m6_min_speed d), (''min_playspace_distance'', m6_min_distance d), (''min_observed_pose_speed'', pb_min_pose p),
          (''required_pose_speed'', m6_min_pose d), (''min_rig_coherence'', pb_min_coherence p), (''required_rig_coherence'', m6_min_coherence d),
          (''tracked_hands'', f_of_int (py_tracked_hands (mo_playspace (ps_motion ps)))), (''reported_game_speed'', pb_reported p),
          (''sustained_frames'', f_of_int (pb_frames p)), (''sustained_seconds'', seconds), (''estimated_ping_ms'', st_ping_ms (pl_status ps))])
        (''playspace translation candidate: '' @ fmt_f 2 (pb_max_distance p) @ '' m at '' @ fmt_f 2 (pb_max_speed p) @ '' m/s for '' @ fmt_f 2 seconds @
          '' s / '' @ itoa (pb_frames p) @ '' frames (observed pose >= '' @ fmt_f 2 (pb_min_pose p) @ ''; game velocity '' @ fmt_f 2 (pb_reported p) @ '' m/s)'')
        (''playspace movement below '' @ fmt_f 2 (m6_min_distance d) @ '' m, '' @ fmt_f 2 (m6_min_speed d) @ '' m/s residual, '' @ fmt_f 2 (m6_min_pose d) @
          '' m/s observed pose, or '' @ fmt_f 2 (m6_min_seconds d) @ '' s'')
        (player_key (ps_player_id ps) (pb_start p) f ''playspace_walking''))"

definition mov006_step :: "detect_env \<Rightarrow> base \<Rightarrow> match_context \<Rightarrow> int \<Rightarrow> (tracked, mov006) step" where
  "mov006_step de b mc f ps n d =
     (let i = ps_player_id ps in
      if playspace_gated d ps then ([], d\<lparr>m6_bursts := AList.delete i (m6_bursts d)\<rparr>)
      else
        let p = extend_burst f ps (map_of (m6_bursts d) i); lasted = fsub (ps_last_timestamp ps) (pb_start_time p);
            seconds = (if flt lasted (Fin 0) then Fin 0 else lasted); put = (\<lambda>p. d\<lparr>m6_bursts := AList.update i p (m6_bursts d)\<rparr>)
        in if pb_frames p < m6_min_frames d \<or> flt seconds (m6_min_seconds d) \<or> pb_emitted p then ([], put p)
           else ([mov006_event de b n mc f ps d p seconds], put (p\<lparr>pb_emitted := True\<rparr>)))"

definition mov006_evaluate :: "detect_env \<Rightarrow> match_context \<Rightarrow> (string, tracked) gomap \<Rightarrow> int \<Rightarrow> mov006 instance_of \<Rightarrow> detection_event list \<times> mov006 instance_of" where
  "mov006_evaluate de mc pls f = run_instance (\<lambda>b. over (mov006_step de b mc f) (active_players pls f))"

end
