(* ===== verification/Detect_Pattern.thy ===== *)
theory Detect_Pattern
  imports Detect
begin

text \<open>
  The pattern detectors (\<open>internal/detect/pattern\<close>): throw timing (PAT_001) and release points (PAT_002) over the
  throws a player makes, repeats across matches (PAT_003), several categories in one match (PAT_004), and hands
  far from the head (PAT_005).

  PAT_003 asks a store for a player's earlier detections: \<open>history\<close> is that store, None the error it may return.
\<close>

section \<open>Throws as they happen: PAT_001 and PAT_002\<close>

text \<open>
  Both see a new throw when a player's throw count rises above the count last seen; the first sight of a player
  with more than one throw only sets the count.
\<close>

definition new_throw :: "tracked \<Rightarrow> (string, int) gomap \<Rightarrow> bool" where
  "new_throw ps counts =
     (case map_of counts (ps_player_id ps) of
        None \<Rightarrow> th_throw_count (pl_throws ps) = 1
      | Some prev \<Rightarrow> prev < th_throw_count (pl_throws ps))"

definition count_throws :: "tracked \<Rightarrow> (string, int) gomap \<Rightarrow> (string, int) gomap" where
  "count_throws ps = AList.update (ps_player_id ps) (th_throw_count (pl_throws ps))"

definition max_throw_frames :: int where "max_throw_frames = 50"

record pat001 =
  p1_min_throws :: int
  p1_max_cov :: f64
  p1_max_stddev :: f64
  p1_steepness :: f64
  p1_frames :: "(string, int list) gomap"
  p1_counts :: "(string, int) gomap"

definition pat001_base :: base where
  "pat001_base = \<lparr>bd_id = ''PAT_001'', bd_version = ''2.1.0'', bd_name = ''Frame-Perfect Timing'', bd_category = ''pattern'',
     bd_inputs = [''throw_event''], bd_warmup = 60, bd_weight = flit (7/10), bd_auto = False\<rparr>"

definition pat001_sanitize :: "pat001 \<Rightarrow> pat001" where
  "pat001_sanitize d0 =
     (let d = (if p1_min_throws d0 < 3 then d0\<lparr>p1_min_throws := 3\<rparr> else d0)
      in if max_throw_frames < p1_min_throws d then d\<lparr>p1_min_throws := max_throw_frames\<rparr> else d)"

definition pat001_configure :: "params \<Rightarrow> pat001 \<Rightarrow> pat001" where
  "pat001_configure ps d = pat001_sanitize (d\<lparr>p1_min_throws := get_int ps ''min_throw_count'' (p1_min_throws d),
     p1_max_cov := get_float ps ''max_cov'' (p1_max_cov d),
     p1_max_stddev := get_float_alias ps (p1_max_stddev d) [''max_stddev'', ''max_stddev_frames''],
     p1_steepness := get_float ps ''sigmoid_steepness'' (p1_steepness d)\<rparr>)"

definition pat001_reset :: "pat001 \<Rightarrow> pat001" where
  "pat001_reset d = d\<lparr>p1_frames := [], p1_counts := []\<rparr>"

definition new_pat001 :: "params \<Rightarrow> pat001 instance_of" where
  "new_pat001 ps = \<lparr>in_base = pat001_base, in_made = 0, in_state = pat001_configure ps
     \<lparr>p1_min_throws = 12, p1_max_cov = flit (5/100), p1_max_stddev = Fin 3, p1_steepness = Fin 20, p1_frames = [], p1_counts = []\<rparr>\<rparr>"

definition throw_frame :: "int \<Rightarrow> tracked \<Rightarrow> int" where
  "throw_frame f ps = (case th_last_throw (pl_throws ps) of None \<Rightarrow> f
     | Some t \<Rightarrow> if 0 < te_frame_index t \<and> te_frame_index t \<le> f then te_frame_index t else f)"

definition intervals :: "int list \<Rightarrow> f64 list" where
  "intervals frames = map2 (\<lambda>a b. f_of_int (b - a)) frames (tl frames)"

definition pat001_event :: "detect_env \<Rightarrow> base \<Rightarrow> nat \<Rightarrow> match_context \<Rightarrow> int \<Rightarrow> tracked \<Rightarrow> pat001 \<Rightarrow> int list \<Rightarrow> detection_event" where
  "pat001_event de b n mc f ps d frames =
     (let gaps = intervals frames; cov = coefficient_of_variation gaps; dev = std_dev gaps; count = itoa (int (length frames));
          sev = sigmoid_confidence de (fsub (p1_max_cov d) cov) (Fin 0) (p1_steepness d)
      in make_event de b n mc (ps_player_id ps) f (ps_last_timestamp ps) sev (clamp01 (fmul sev (flit (85/100))))
        (evidence_of de ''pattern'' [(''detector_specific'', Dtext ''frame_perfect_timing''),
          (''metrics'', Dgroup [(''cov'', Dfloat cov), (''stddev'', Dfloat dev), (''mean_interval'', Dfloat (mean gaps)),
            (''throw_count'', Dfloat (count_of frames)), (''max_cov'', Dfloat (p1_max_cov d)), (''max_stddev'', Dfloat (p1_max_stddev d))]),
          (''history'', Ditems (map Dfloat gaps))])
        (''throw_timing: CoV='' @ fmt_f 4 cov @ '' stddev='' @ fmt_f 2 dev @ '' ('' @ count @ '' throws)'')
        (''throw_timing: CoV>'' @ fmt_f 3 (p1_max_cov d) @ '' AND stddev>'' @ fmt_f 1 (p1_max_stddev d))
        (player_key (ps_player_id ps) (hd frames) f ''frame_perfect_timing''))"

definition pat001_step :: "detect_env \<Rightarrow> base \<Rightarrow> match_context \<Rightarrow> int \<Rightarrow> (tracked, pat001) step" where
  "pat001_step de b mc f ps n d0 =
     (let i = ps_player_id ps; d = d0\<lparr>p1_counts := count_throws ps (p1_counts d0)\<rparr> in
      if \<not> new_throw ps (p1_counts d0) then ([], d)
      else
        let frames = push max_throw_frames (throw_frame f ps) (gz [] (p1_frames d) i); gaps = intervals frames;
            keep = d\<lparr>p1_frames := AList.update i frames (p1_frames d)\<rparr>
        in if int (length frames) < p1_min_throws d then ([], keep)
           else if fle (p1_max_cov d) (coefficient_of_variation gaps) \<or> fle (p1_max_stddev d) (std_dev gaps) then ([], keep)
           else ([pat001_event de b n mc f ps d frames], d\<lparr>p1_frames := AList.update i [] (p1_frames d)\<rparr>))"

definition pat001_evaluate :: "detect_env \<Rightarrow> match_context \<Rightarrow> (string, tracked) gomap \<Rightarrow> int \<Rightarrow> pat001 instance_of \<Rightarrow> detection_event list \<times> pat001 instance_of" where
  "pat001_evaluate de mc pls f = run_instance (\<lambda>b. over (pat001_step de b mc f) (active_players pls f))"

record pat002 =
  p2_min_throws :: int
  p2_min_spread :: f64
  p2_min_speed :: f64
  p2_steepness :: f64
  p2_points :: "(string, vec3 list) gomap"
  p2_counts :: "(string, int) gomap"

definition pat002_base :: base where
  "pat002_base = \<lparr>bd_id = ''PAT_002'', bd_version = ''2.2.0'', bd_name = ''Identical Release Points'', bd_category = ''pattern'',
     bd_inputs = [''throw_event'', ''hand_tracking'', ''head_position''], bd_warmup = 60, bd_weight = flit (7/10), bd_auto = False\<rparr>"

definition pat002_configure :: "params \<Rightarrow> pat002 \<Rightarrow> pat002" where
  "pat002_configure ps d = d\<lparr>p2_min_throws := get_int ps ''min_throw_count'' (p2_min_throws d),
     p2_min_spread := get_float ps ''min_release_spread'' (p2_min_spread d), p2_min_speed := get_float ps ''min_release_speed'' (p2_min_speed d),
     p2_steepness := get_float ps ''sigmoid_steepness'' (p2_steepness d)\<rparr>"

definition pat002_reset :: "pat002 \<Rightarrow> pat002" where
  "pat002_reset d = d\<lparr>p2_points := [], p2_counts := []\<rparr>"

definition new_pat002 :: "params \<Rightarrow> pat002 instance_of" where
  "new_pat002 ps = \<lparr>in_base = pat002_base, in_made = 0, in_state = pat002_configure ps
     \<lparr>p2_min_throws = 12, p2_min_spread = flit (1/100), p2_min_speed = Fin 0, p2_steepness = Fin 50, p2_points = [], p2_counts = []\<rparr>\<rparr>"

definition body_frame :: "tracked \<Rightarrow> vec3 \<Rightarrow> vec3 \<Rightarrow> vec3 option" where
  "body_frame ps hand body =
     (if v_is_zero hand then None
      else let rel = v_sub hand body in
        Some (if q_is_unit (ps_rotation ps) then v_rotate rel (q_conjugate (ps_rotation ps)) else rel))"

definition release_point :: "pat002 \<Rightarrow> tracked \<Rightarrow> vec3 option" where
  "release_point d ps = (case th_last_throw (pl_throws ps) of
       None \<Rightarrow> body_frame ps (h_position (pl_right ps)) (pl_position ps)
     | Some t \<Rightarrow>
         if flt (Fin 0) (p2_min_speed d) \<and> flt (te_release_speed (te_release t)) (p2_min_speed d) then None
         else if te_throwing_hand (te_hand t) = ''unknown'' \<or> v_is_zero (te_hand_position (te_hand t)) \<or>
           te_hand_tracked (te_hand t) \<and> feq (te_hand_attribution_confidence (te_hand t)) (Fin 0) then None
         else body_frame ps (te_hand_position (te_hand t))
           (if v_is_zero (te_player_position (te_release t)) then pl_position ps else te_player_position (te_release t)))"

definition pat002_event :: "detect_env \<Rightarrow> base \<Rightarrow> nat \<Rightarrow> match_context \<Rightarrow> int \<Rightarrow> tracked \<Rightarrow> pat002 \<Rightarrow> vec3 list \<Rightarrow> detection_event" where
  "pat002_event de b n mc f ps d points =
     (let var = compute_position_variance points; dev = fsqrt var; sev = sigmoid_confidence de (fsub (p2_min_spread d) dev) (Fin 0) (p2_steepness d)
      in make_event de b n mc (ps_player_id ps) f (ps_last_timestamp ps) sev (clamp01 (fmul sev (flit (85/100))))
        (metrics_evidence de ''pattern'' ''identical_release_points'' [(''stddev_3d'', dev), (''variance'', var),
          (''min_release_spread'', p2_min_spread d), (''throw_count'', count_of points)])
        (''release_spread: '' @ fmt_f 4 dev @ '' m stddev ('' @ itoa (int (length points)) @ '' throws)'')
        (''release_spread: >'' @ fmt_f 3 (p2_min_spread d) @ '' m'')
        (player_key (ps_player_id ps) (f - 300) f ''identical_release''))"

definition pat002_step :: "detect_env \<Rightarrow> base \<Rightarrow> match_context \<Rightarrow> int \<Rightarrow> (tracked, pat002) step" where
  "pat002_step de b mc f ps n d0 =
     (let i = ps_player_id ps; d = d0\<lparr>p2_counts := count_throws ps (p2_counts d0)\<rparr> in
      if \<not> new_throw ps (p2_counts d0) then ([], d)
      else case release_point d ps of
        None \<Rightarrow> ([], d)
      | Some p \<Rightarrow>
          let points = push 50 p (gz [] (p2_points d) i); keep = d\<lparr>p2_points := AList.update i points (p2_points d)\<rparr> in
          if int (length points) < p2_min_throws d then ([], keep)
          else if fle (p2_min_spread d) (fsqrt (compute_position_variance points)) then ([], keep)
          else ([pat002_event de b n mc f ps d points], d\<lparr>p2_points := AList.update i [] (p2_points d)\<rparr>))"

definition pat002_evaluate :: "detect_env \<Rightarrow> match_context \<Rightarrow> (string, tracked) gomap \<Rightarrow> int \<Rightarrow> pat002 instance_of \<Rightarrow> detection_event list \<times> pat002 instance_of" where
  "pat002_evaluate de mc pls f = run_instance (\<lambda>b. over (pat002_step de b mc f) (active_players pls f))"

section \<open>PAT_003\<close>

type_synonym history = "string \<Rightarrow> int \<Rightarrow> detection_event list option"

record pat003 =
  p3_min_matches :: int
  p3_min_avg :: f64
  p3_match_limit :: int
  p3_steepness :: f64
  p3_trusted :: "string list"
  p3_history :: "history option"
  p3_checked :: "string list"

definition pat003_base :: base where
  "pat003_base = \<lparr>bd_id = ''PAT_003'', bd_version = ''2.1.1'', bd_name = ''Cross-Match Consistency'', bd_category = ''pattern'',
     bd_inputs = [''history''], bd_warmup = 0, bd_weight = flit (9/10), bd_auto = False\<rparr>"

definition meta_detectors :: "string list" where "meta_detectors = [''PAT_003'', ''PAT_004'']"

definition set_history_provider :: "history option \<Rightarrow> pat003 \<Rightarrow> pat003" where
  "set_history_provider h d = d\<lparr>p3_history := h\<rparr>"

definition pat003_configure :: "params \<Rightarrow> history option \<Rightarrow> pat003 \<Rightarrow> pat003" where
  "pat003_configure ps h d = d\<lparr>p3_min_matches := get_int_alias ps (p3_min_matches d) [''min_matches'', ''min_matches_soft''],
     p3_min_avg := get_float ps ''min_avg_confidence'' (p3_min_avg d),
     p3_match_limit := get_int_alias ps (p3_match_limit d) [''match_limit'', ''match_history_depth''],
     p3_steepness := get_float ps ''sigmoid_steepness'' (p3_steepness d),
     p3_trusted := (if map_of ps ''trusted_detectors'' \<noteq> None then get_string_list ps ''trusted_detectors'' else p3_trusted d),
     p3_history := (if h \<noteq> None then h else p3_history d)\<rparr>"

definition pat003_reset :: "pat003 \<Rightarrow> pat003" where
  "pat003_reset d = d\<lparr>p3_checked := []\<rparr>"

definition new_pat003 :: "params \<Rightarrow> history option \<Rightarrow> pat003 instance_of" where
  "new_pat003 ps h = \<lparr>in_base = pat003_base, in_made = 0, in_state = pat003_configure ps h
     \<lparr>p3_min_matches = 3, p3_min_avg = flit (6/10), p3_match_limit = 20, p3_steepness = Fin 2, p3_trusted = [], p3_history = None, p3_checked = []\<rparr>\<rparr>"

definition eligible :: "pat003 \<Rightarrow> string \<Rightarrow> detection_event \<Rightarrow> bool" where
  "eligible d current e \<longleftrightarrow> \<not> is_shadow e \<and> \<not> (detector_id e \<in> set meta_detectors \<or> is_playspace_detector (detector_id e)) \<and>
     \<not> (match_id e = [] \<or> match_id e = current) \<and> \<not> (p3_trusted d \<noteq> [] \<and> detector_id e \<notin> set (p3_trusted d))"

text \<open>One detector's share of a history: its events, their distinct matches and mean confidence.\<close>

definition repeats :: "string \<Rightarrow> detection_event list \<Rightarrow> int \<times> f64 \<times> int" where
  "repeats i evs = (let es = filter (\<lambda>e. detector_id e = i) evs in
     (int (length (remdups (map match_id es))), fdiv (sum_of (map confidence es)) (count_of es), int (length es)))"

definition repeat_event :: "detect_env \<Rightarrow> base \<Rightarrow> match_context \<Rightarrow> int \<Rightarrow> tracked \<Rightarrow> pat003 \<Rightarrow> (string \<times> int \<times> f64 \<times> int) \<Rightarrow> nat \<Rightarrow> detection_event" where
  "repeat_event de b mc f ps d x n =
     (let (i, count, avg, total) = x;
          rep = sigmoid_confidence de (f_of_int count) (fsub (f_of_int (p3_min_matches d)) (Fin (1/2))) (p3_steepness d)
      in make_event de b n mc (ps_player_id ps) f (ps_last_timestamp ps) rep (clamp01 (fmul avg rep))
        (metrics_evidence de ''pattern'' ''cross_match_consistency'' [(''repeat_detector_matches'', f_of_int count), (''avg_confidence'', avg),
          (''total_events'', f_of_int total), (''min_matches'', f_of_int (p3_min_matches d))])
        (''cross_match: detector '' @ i @ '' in '' @ itoa count @ '' matches, avg_conf='' @ fmt_f 2 avg)
        (''cross_match: same detector in <'' @ itoa (p3_min_matches d) @ '' matches or avg_conf<'' @ fmt_f 1 (p3_min_avg d))
        (player_key (ps_player_id ps) f f (''cross_match_'' @ i)))"

definition repeated :: "pat003 \<Rightarrow> match_context \<Rightarrow> detection_event list \<Rightarrow> (string \<times> int \<times> f64 \<times> int) list" where
  "repeated d mc evs0 =
     (let evs = filter (eligible d (mc_match_id mc)) evs0 in
      filter (\<lambda>(i, count, avg, total). \<not> count < p3_min_matches d \<and> \<not> flt avg (p3_min_avg d))
        (map (\<lambda>i. (i, repeats i evs)) (sorted_set (map detector_id evs))))"

definition number :: "(nat \<Rightarrow> 'a) list \<Rightarrow> nat \<Rightarrow> 'a list" where
  "number gs n = map2 (\<lambda>g k. g k) gs [n..<n + length gs]"

definition pat003_step :: "detect_env \<Rightarrow> base \<Rightarrow> match_context \<Rightarrow> int \<Rightarrow> history \<Rightarrow> (tracked, pat003) step" where
  "pat003_step de b mc f h ps n d0 =
     (if ps_player_id ps \<in> set (p3_checked d0) then ([], d0)
      else let d = d0\<lparr>p3_checked := ps_player_id ps # p3_checked d0\<rparr> in
        case h (ps_player_id ps) (p3_match_limit d) of
          None \<Rightarrow> ([], d)
        | Some evs \<Rightarrow> (number (map (repeat_event de b mc f ps d) (repeated d mc evs)) n, d))"

definition pat003_evaluate :: "detect_env \<Rightarrow> match_context \<Rightarrow> (string, tracked) gomap \<Rightarrow> int \<Rightarrow> pat003 instance_of \<Rightarrow> detection_event list \<times> pat003 instance_of" where
  "pat003_evaluate de mc pls f = run_instance (\<lambda>b n d. case p3_history d of
       None \<Rightarrow> ([], d)
     | Some h \<Rightarrow> over (pat003_step de b mc f h) (sorted_players pls) n d)"

section \<open>PAT_004\<close>

record pat004 =
  p4_min_categories :: int
  p4_steepness :: f64
  p4_categories :: "(string, string list) gomap"
  p4_fired :: "string list"

definition pat004_base :: base where
  "pat004_base = \<lparr>bd_id = ''PAT_004'', bd_version = ''2.0.0'', bd_name = ''Composite Multi-Cheat'', bd_category = ''pattern'',
     bd_inputs = [''detection_events''], bd_warmup = 0, bd_weight = Fin 1, bd_auto = False\<rparr>"

definition pat004_configure :: "params \<Rightarrow> pat004 \<Rightarrow> pat004" where
  "pat004_configure ps d = d\<lparr>p4_min_categories := get_int ps ''min_categories'' (p4_min_categories d),
     p4_steepness := get_float ps ''sigmoid_steepness'' (p4_steepness d)\<rparr>"

definition pat004_reset :: "pat004 \<Rightarrow> pat004" where
  "pat004_reset d = d\<lparr>p4_categories := [], p4_fired := []\<rparr>"

definition new_pat004 :: "params \<Rightarrow> pat004 instance_of" where
  "new_pat004 ps = \<lparr>in_base = pat004_base, in_made = 0, in_state = pat004_configure ps
     \<lparr>p4_min_categories = 3, p4_steepness = Fin 1, p4_categories = [], p4_fired = []\<rparr>\<rparr>"

definition record_category :: "string \<Rightarrow> string \<Rightarrow> pat004 \<Rightarrow> pat004" where
  "record_category i c d = d\<lparr>p4_categories := AList.update i (List.insert c (gz [] (p4_categories d) i)) (p4_categories d)\<rparr>"

definition pat004_event :: "detect_env \<Rightarrow> base \<Rightarrow> nat \<Rightarrow> match_context \<Rightarrow> int \<Rightarrow> tracked \<Rightarrow> pat004 \<Rightarrow> string list \<Rightarrow> detection_event" where
  "pat004_event de b n mc f ps d cats =
     (let k = int (length cats); sev = sigmoid_confidence de (f_of_int k) (f_of_int (p4_min_categories d)) (p4_steepness d) in
      make_event de b n mc (ps_player_id ps) f (ps_last_timestamp ps) sev (clamp01 (fmul sev (flit (9/10))))
        (metrics_evidence de ''pattern'' ''composite_multi_cheat'' [(''category_count'', f_of_int k), (''min_categories'', f_of_int (p4_min_categories d))])
        (''multi_cheat: '' @ itoa k @ '' categories ['' @ join_with '', '' (sorted_set cats) @ '']'')
        (''categories: <'' @ itoa (p4_min_categories d) @ '' distinct'')
        (player_key (ps_player_id ps) 0 f ''composite_multi_cheat''))"

definition pat004_step :: "detect_env \<Rightarrow> base \<Rightarrow> match_context \<Rightarrow> int \<Rightarrow> (tracked, pat004) step" where
  "pat004_step de b mc f ps n d =
     (let i = ps_player_id ps; cats = gz [] (p4_categories d) i in
      if int (length cats) < p4_min_categories d \<or> i \<in> set (p4_fired d) then ([], d)
      else ([pat004_event de b n mc f ps d cats], d\<lparr>p4_fired := i # p4_fired d\<rparr>))"

definition pat004_evaluate :: "detect_env \<Rightarrow> match_context \<Rightarrow> (string, tracked) gomap \<Rightarrow> int \<Rightarrow> pat004 instance_of \<Rightarrow> detection_event list \<times> pat004 instance_of" where
  "pat004_evaluate de mc pls f = run_instance (\<lambda>b. over (pat004_step de b mc f) (sorted_players pls))"

section \<open>PAT_005\<close>

text \<open>A player's run: its length, the length at which it was last reported, and the last frame counted.\<close>

record reach =
  rc_consecutive :: int
  rc_last_emit :: int
  rc_last_frame :: int

record pat005 =
  p5_threshold :: f64
  p5_min_frames :: int
  p5_steepness :: f64
  p5_runs :: "(string, reach) gomap"

definition no_reach :: reach where
  "no_reach = \<lparr>rc_consecutive = 0, rc_last_emit = 0, rc_last_frame = 0\<rparr>"

definition pat005_base :: base where
  "pat005_base = \<lparr>bd_id = ''PAT_005'', bd_version = ''2.1.0'', bd_name = ''Playspace Abuse'', bd_category = ''pattern'',
     bd_inputs = [''hand_tracking'', ''head_position''], bd_warmup = 10, bd_weight = flit (6/10), bd_auto = False\<rparr>"

definition pat005_sanitize :: "pat005 \<Rightarrow> pat005" where
  "pat005_sanitize d = (if p5_min_frames d < 1 then d\<lparr>p5_min_frames := 1\<rparr> else d)"

definition pat005_configure :: "params \<Rightarrow> pat005 \<Rightarrow> pat005" where
  "pat005_configure ps d = pat005_sanitize (d\<lparr>p5_threshold := get_float_alias ps (p5_threshold d) [''hand_to_head_threshold'', ''max_hand_to_head_distance''],
     p5_min_frames := get_int ps ''min_sustained_frames'' (p5_min_frames d), p5_steepness := get_float ps ''sigmoid_steepness'' (p5_steepness d)\<rparr>)"

definition pat005_reset :: "pat005 \<Rightarrow> pat005" where
  "pat005_reset d = d\<lparr>p5_runs := []\<rparr>"

definition new_pat005 :: "params \<Rightarrow> pat005 instance_of" where
  "new_pat005 ps = \<lparr>in_base = pat005_base, in_made = 0, in_state = pat005_configure ps
     \<lparr>p5_threshold = flit (16/10), p5_min_frames = 30, p5_steepness = Fin 2, p5_runs = []\<rparr>\<rparr>"

definition end_run :: "reach \<Rightarrow> reach" where
  "end_run r = r\<lparr>rc_consecutive := 0, rc_last_emit := 0\<rparr>"

definition pat005_event :: "detect_env \<Rightarrow> base \<Rightarrow> nat \<Rightarrow> match_context \<Rightarrow> int \<Rightarrow> tracked \<Rightarrow> pat005 \<Rightarrow> f64 \<Rightarrow> f64 \<Rightarrow> f64 \<Rightarrow> int \<Rightarrow> detection_event" where
  "pat005_event de b n mc f ps d left right far k =
     make_event de b n mc (ps_player_id ps) f (ps_last_timestamp ps)
       (sigmoid_confidence de far (fmul (p5_threshold d) (Fin (3/2))) (p5_steepness d))
       (clamp01 (fmul (sigmoid_confidence de (f_of_int k) (f_of_int (p5_min_frames d)) (flit (1/10))) (flit (8/10))))
       (metrics_evidence de ''pattern'' ''playspace_abuse'' [(''max_hand_to_head_dist'', far), (''left_dist'', left), (''right_dist'', right),
         (''consecutive_frames'', f_of_int k), (''sustained_seconds'', fmul (f_of_int k) (pl_dt ps)), (''threshold'', p5_threshold d),
         (''min_sustained'', f_of_int (p5_min_frames d))])
       (''playspace: hand-to-head '' @ fmt_f 2 far @ '' m for '' @ itoa k @ '' frames'')
       (''hand_to_head: <'' @ fmt_f 1 (p5_threshold d) @ '' m or <'' @ itoa (p5_min_frames d) @ '' consecutive frames'')
       (player_key (ps_player_id ps) (f - k + 1) f ''playspace_abuse'')"

definition pat005_step :: "detect_env \<Rightarrow> base \<Rightarrow> match_context \<Rightarrow> int \<Rightarrow> (tracked, pat005) step" where
  "pat005_step de b mc f ps n d =
     (let i = ps_player_id ps; r0 = gz no_reach (p5_runs d) i; put = (\<lambda>r. d\<lparr>p5_runs := AList.update i r (p5_runs d)\<rparr>);
          lh = h_position (pl_left ps); rh = h_position (pl_right ps); head = pl_position ps
      in if v_is_zero lh \<or> v_is_zero rh \<or> v_is_zero head then ([], put (end_run r0))
         else
           let r = (if 0 < rc_consecutive r0 \<and> f \<noteq> rc_last_frame r0 + 1 then end_run r0 else r0)\<lparr>rc_last_frame := f\<rparr>;
               left = v_distance lh head; right = v_distance rh head; far = (if flt left right then right else left)
           in if \<not> flt (p5_threshold d) far then ([], put (end_run r))
              else
                let k = rc_consecutive r + 1; r = r\<lparr>rc_consecutive := k\<rparr> in
                if k < p5_min_frames d \<or> 0 < rc_last_emit r \<and> k - rc_last_emit r < p5_min_frames d then ([], put r)
                else ([pat005_event de b n mc f ps d left right far k], put (r\<lparr>rc_last_emit := k\<rparr>)))"

definition pat005_evaluate :: "detect_env \<Rightarrow> match_context \<Rightarrow> (string, tracked) gomap \<Rightarrow> int \<Rightarrow> pat005 instance_of \<Rightarrow> detection_event list \<times> pat005 instance_of" where
  "pat005_evaluate de mc pls f = run_instance (\<lambda>b. over (pat005_step de b mc f) (active_players pls f))"

end
