(* ===== verification/Detect_Throw.thy ===== *)
theory Detect_Throw
  imports Detect
begin

text \<open>
  The throw detectors (\<open>internal/detect/throw\<close>) that look at one release or follow the disc after it: speed jumps at
  release (THROW_002), release angles (THROW_003), repeated signatures (THROW_004), the penalty field stub
  (THROW_007) and speed gained in flight (THROW_008). \<open>Detect_Speed\<close> holds THROW_001 and \<open>Detect_Flight\<close> the two
  diagnostic reviews.
\<close>

section \<open>Releases and the disc\<close>

definition throw_at :: "tracked \<Rightarrow> int \<Rightarrow> throw_event option" where
  "throw_at ps f = (if observed_at (th_last_throw (pl_throws ps)) f then th_last_throw (pl_throws ps) else None)"

definition with_attribution :: "throw_attribution \<Rightarrow> detection_event \<Rightarrow> detection_event" where
  "with_attribution a e = e\<lparr>attribution := Some a\<rparr>"

definition scale_by :: "f64 \<Rightarrow> f64 \<Rightarrow> f64" where
  "scale_by conf c = (if flt (Fin 0) conf then fmul c conf else c)"

text \<open>The disc of a frame among the players' copies, and whether it is held.\<close>

definition fresh_at :: "int \<Rightarrow> tracked \<Rightarrow> bool" where
  "fresh_at f ps \<longleftrightarrow> ps_last_frame_idx ps = f"

definition copy_held :: "tracked \<times> disc_state \<Rightarrow> bool" where
  "copy_held x \<longleftrightarrow> th_has_disc (pl_throws (fst x)) \<or> ds_is_held (snd x)"

definition disc_copies :: "tracked list \<Rightarrow> (tracked \<times> disc_state) list" where
  "disc_copies pss = concat (map (\<lambda>ps. case ps_current_disc ps of None \<Rightarrow> [] | Some dc \<Rightarrow> [(ps, dc)]) pss)"

definition current_disc :: "tracked list \<Rightarrow> int \<Rightarrow> disc_state option \<times> bool" where
  "current_disc pss f =
     (let cs = disc_copies pss; fresh = filter (\<lambda>x. fresh_at f (fst x)) cs;
          possession = list_ex (\<lambda>ps. fresh_at f ps \<and> th_has_disc (pl_throws ps)) pss
      in case find copy_held fresh of Some x \<Rightarrow> (Some (snd x), True)
         | None \<Rightarrow>
             (case fresh of x # _ \<Rightarrow> (Some (snd x), ds_is_held (snd x) \<or> possession)
              | [] \<Rightarrow>
                  if possession then (None, True)
                  else (case find copy_held cs of Some x \<Rightarrow> (Some (snd x), True)
                    | None \<Rightarrow> (case cs of x # _ \<Rightarrow> (Some (snd x), ds_is_held (snd x)) | [] \<Rightarrow> (None, False)))))"

section \<open>THROW_002\<close>

definition throw002_base :: base where
  "throw002_base = \<lparr>bd_id = ''THROW_002'', bd_version = ''2.0.0'', bd_name = ''Impossible Disc Acceleration'', bd_category = ''throw'',
     bd_inputs = [''throw_event''], bd_warmup = 5, bd_weight = flit (7/10), bd_auto = False\<rparr>"

record throw002 =
  w2_max_delta :: f64

definition throw002_configure :: "params \<Rightarrow> throw002 \<Rightarrow> throw002" where
  "throw002_configure ps d = d\<lparr>w2_max_delta := get_float ps ''max_speed_delta'' (w2_max_delta d)\<rparr>"

definition new_throw002 :: "params \<Rightarrow> throw002 instance_of" where
  "new_throw002 ps = \<lparr>in_base = throw002_base, in_made = 0, in_state = throw002_configure ps \<lparr>w2_max_delta = Fin 22\<rparr>\<rparr>"

fun snapshot_datum :: "throw_snapshot \<Rightarrow> datum" where
  "snapshot_datum s = Dgroup [(''frame_index'', Dint (tf_frame_index s)), (''timestamp'', Dfloat (tf_timestamp s)),
     (''hand_position'', vec_datum (tf_hand_position s)), (''hand_velocity'', vec_datum (tf_hand_velocity s)),
     (''hand_rotation'', quat_datum (tf_hand_rotation s)), (''hand_rotation_valid'', Dflag (tf_hand_rotation_valid s)),
     (''disc_position'', vec_datum (tf_disc_position s)), (''disc_velocity'', vec_datum (tf_disc_velocity s)),
     (''player_position'', vec_datum (tf_player_position s)), (''disc_missing'', Dflag (tf_disc_missing s))]"

definition arrow :: string where "arrow = [CHR 0xE2, CHR 0x86, CHR 0x92]"

definition throw002_event :: "detect_env \<Rightarrow> base \<Rightarrow> nat \<Rightarrow> match_context \<Rightarrow> int \<Rightarrow> string \<Rightarrow> throw_event \<Rightarrow> throw_snapshot \<Rightarrow> throw002 \<Rightarrow> detection_event" where
  "throw002_event de b n mc f i t pre d =
     (let speed = te_release_speed (te_release t); before = v_magnitude (tf_disc_velocity pre); delta = fsub speed before;
          sev = sigmoid_confidence de delta (w2_max_delta d) (flit (5/100))
      in with_attribution (te_attribution t) (make_event de b n mc i f (te_timestamp t) sev (scale_by (ta_confidence (te_attribution t)) sev)
        (evidence_of de ''disc_acceleration'' [(''speed_delta'', Dfloat delta), (''release_speed'', Dfloat speed), (''pre_release_speed'', Dfloat before),
          (''pre_release_frames'', Ditems (map snapshot_datum (te_pre_release_frames t)))])
        (''speed_delta: '' @ fmt_f 2 delta @ '' m/s (pre: '' @ fmt_f 2 before @ '' '' @ arrow @ '' release: '' @ fmt_f 2 speed @ '')'')
        (''speed_delta: < '' @ fmt_f 2 (w2_max_delta d) @ '' m/s'')
        (player_key i (tf_frame_index pre) (f + 2) ''disc_acceleration'')))"

definition throw002_step :: "detect_env \<Rightarrow> base \<Rightarrow> match_context \<Rightarrow> int \<Rightarrow> (string \<times> tracked, throw002) step" where
  "throw002_step de b mc f x n d = (let (i, ps) = x in
     case throw_at ps f of None \<Rightarrow> ([], d)
     | Some t \<Rightarrow>
         if te_pre_release_frames t = [] then ([], d)
         else
           let pre = List.last (te_pre_release_frames t) in
           if tf_disc_missing pre \<or> te_frame_index t \<le> tf_frame_index pre then ([], d)
           else if fle (fsub (te_release_speed (te_release t)) (v_magnitude (tf_disc_velocity pre))) (w2_max_delta d) then ([], d)
           else ([throw002_event de b n mc f i t pre d], d))"

definition throw002_evaluate :: "detect_env \<Rightarrow> match_context \<Rightarrow> (string, tracked) gomap \<Rightarrow> int \<Rightarrow> throw002 instance_of \<Rightarrow> detection_event list \<times> throw002 instance_of" where
  "throw002_evaluate de mc pls f = run_instance (\<lambda>b. over (throw002_step de b mc f) (by_id pls))"

section \<open>THROW_003\<close>

record throw003 =
  w3_max_angle :: f64
  w3_min_hand_speed :: f64
  w3_min_throw_speed :: f64

definition throw003_base :: base where
  "throw003_base = \<lparr>bd_id = ''THROW_003'', bd_version = ''1.3.0'', bd_name = ''Unnatural Release Angle'', bd_category = ''throw'',
     bd_inputs = [''throw_event''], bd_warmup = 5, bd_weight = Fin (1/2), bd_auto = False\<rparr>"

definition throw003_configure :: "params \<Rightarrow> throw003 \<Rightarrow> throw003" where
  "throw003_configure ps d = d\<lparr>w3_max_angle := get_float ps ''max_release_angle_deviation'' (w3_max_angle d),
     w3_min_hand_speed := get_float ps ''min_hand_speed'' (w3_min_hand_speed d), w3_min_throw_speed := get_float ps ''min_throw_speed'' (w3_min_throw_speed d)\<rparr>"

definition new_throw003 :: "params \<Rightarrow> throw003 instance_of" where
  "new_throw003 ps = \<lparr>in_base = throw003_base, in_made = 0, in_state = throw003_configure ps
     \<lparr>w3_max_angle = Fin 177, w3_min_hand_speed = Fin 3, w3_min_throw_speed = Fin 5\<rparr>\<rparr>"

definition v_bad :: "vec3 \<Rightarrow> bool" where
  "v_bad v \<longleftrightarrow> v_has_nan v \<or> v_has_inf v"

definition f_bad :: "f64 \<Rightarrow> bool" where
  "f_bad x \<longleftrightarrow> is_nan x \<or> is_inf x"

definition hand_unavailable :: "throw_event \<Rightarrow> bool" where
  "hand_unavailable t \<longleftrightarrow> (let h = te_hand t in te_throwing_hand h = ''unknown'' \<or> \<not> te_hand_kinematics_valid h \<or>
     te_hand_tracked h \<and> feq (te_hand_attribution_confidence h) (Fin 0))"

definition release_bad :: "throw_event \<Rightarrow> bool" where
  "release_bad t \<longleftrightarrow> (let h = te_hand t; r = te_release t in
     v_bad (te_hand_velocity h) \<or> v_bad (te_release_velocity r) \<or> v_bad (te_player_velocity r) \<or> v_bad (te_hand_relative_velocity h) \<or>
     f_bad (te_hand_speed h) \<or> f_bad (te_release_speed r) \<or> f_bad (te_hand_relative_speed h) \<or> is_inf (te_release_angle r))"

definition release_angle_evidence :: "detect_env \<Rightarrow> throw_event \<Rightarrow> evidence" where
  "release_angle_evidence de t =
     (let h = te_hand t; r = te_release t; w = te_wrist t;
          (rot, ok) = observed_hand_rotation (te_wrist_orientation w) (Some (te_wrist_orientation_valid w))
      in evidence_of de ''release_angle'' [(''release_angle'', Dfloat (te_release_angle r)), (''hand_velocity'', vec_datum (te_hand_velocity h)),
        (''hand_relative_velocity'', vec_datum (te_hand_relative_velocity h)), (''disc_velocity'', vec_datum (te_release_velocity r)),
        (''hand_speed'', Dfloat (te_hand_speed h)), (''hand_relative_speed'', Dfloat (te_hand_relative_speed h)),
        (''disc_speed'', Dfloat (te_release_speed r)), (''wrist_orientation'', quat_datum rot), (''wrist_orientation_valid'', Dflag ok),
        (''hand_kinematics_valid'', Dflag (te_hand_kinematics_valid h)), (''throwing_hand'', Dtext (te_throwing_hand h)),
        (''hand_attribution_confidence'', Dfloat (te_hand_attribution_confidence h)), (''hand_attribution_anchor'', Dtext (te_hand_attribution_anchor h))])"

definition throw003_event :: "detect_env \<Rightarrow> base \<Rightarrow> nat \<Rightarrow> match_context \<Rightarrow> int \<Rightarrow> string \<Rightarrow> throw_event \<Rightarrow> f64 \<Rightarrow> throw003 \<Rightarrow> detection_event" where
  "throw003_event de b n mc f i t body d =
     (let angle = te_release_angle (te_release t); speed = te_hand_speed (te_hand t);
          sev = sigmoid_confidence de angle (w3_max_angle d) (flit (1/10));
          conf = fmul sev (fsub (Fin 1) (fdiv body speed))
      in with_attribution (te_attribution t) (make_event de b n mc i f (te_timestamp t) sev
        (scale_by (te_hand_attribution_confidence (te_hand t)) (scale_by (ta_confidence (te_attribution t)) conf))
        (release_angle_evidence de t)
        (''release_angle: '' @ fmt_f 1 angle @ '' deg (body '' @ fmt_f 1 body @ '' m/s, hand '' @ fmt_f 1 speed @ '' m/s)'')
        (''release_angle: < '' @ fmt_f 1 (w3_max_angle d) @ '' deg'')
        (player_key i (f - 3) f ''release_angle'')))"

definition throw003_step :: "detect_env \<Rightarrow> base \<Rightarrow> match_context \<Rightarrow> int \<Rightarrow> (string \<times> tracked, throw003) step" where
  "throw003_step de b mc f x n d = (let (i, ps) = x in
     case throw_at ps f of None \<Rightarrow> ([], d)
     | Some t \<Rightarrow>
         let speed = te_hand_speed (te_hand t); angle = te_release_angle (te_release t); body = v_magnitude (te_player_velocity (te_release t)) in
         if hand_unavailable t \<or> release_bad t \<or> te_possible_head_contact (te_release t) then ([], d)
         else if flt speed (w3_min_hand_speed d) \<or> flt (te_release_speed (te_release t)) (w3_min_throw_speed d) then ([], d)
         else if is_nan angle \<or> fle angle (w3_max_angle d) then ([], d)
         else if fle speed (Fin 0) \<or> fle speed body then ([], d)
         else ([throw003_event de b n mc f i t body d], d))"

definition throw003_evaluate :: "detect_env \<Rightarrow> match_context \<Rightarrow> (string, tracked) gomap \<Rightarrow> int \<Rightarrow> throw003 instance_of \<Rightarrow> detection_event list \<times> throw003 instance_of" where
  "throw003_evaluate de mc pls f = run_instance (\<lambda>b. over (throw003_step de b mc f) (by_id pls))"

section \<open>THROW_004\<close>

record signature =
  sg_values :: "f64 list"
  sg_frame :: int

record throw004 =
  w4_min_throws :: int
  w4_min_variance :: f64
  w4_signatures :: "(string, signature list) gomap"

definition signature_names :: "string list" where
  "signature_names = [''speed'', ''angle'', ''hand_speed'', ''wrist_angvel'', ''poss_dur'', ''hand_disc_dist'']"

definition degenerate_floor :: f64 where "degenerate_floor = flit (1 / 10 ^ 9)"
definition min_informative :: nat where "min_informative = 3"
definition severity_decades :: f64 where "severity_decades = Fin 4"

definition throw004_base :: base where
  "throw004_base = \<lparr>bd_id = ''THROW_004'', bd_version = ''1.2.0'', bd_name = ''Repeated Release Signatures'', bd_category = ''throw'',
     bd_inputs = [''throw_event''], bd_warmup = 5, bd_weight = flit (6/10), bd_auto = False\<rparr>"

definition throw004_configure :: "params \<Rightarrow> throw004 \<Rightarrow> throw004" where
  "throw004_configure ps d = d\<lparr>w4_min_throws := get_int ps ''min_throws'' (w4_min_throws d),
     w4_min_variance := get_float ps ''min_generalized_variance'' (w4_min_variance d)\<rparr>"

definition throw004_reset :: "throw004 \<Rightarrow> throw004" where
  "throw004_reset d = d\<lparr>w4_signatures := []\<rparr>"

definition new_throw004 :: "params \<Rightarrow> throw004 instance_of" where
  "new_throw004 ps = \<lparr>in_base = throw004_base, in_made = 0, in_state = throw004_configure ps
     \<lparr>w4_min_throws = 12, w4_min_variance = flit (1 / 10 ^ 8), w4_signatures = []\<rparr>\<rparr>"

definition build_signature :: "throw_event \<Rightarrow> signature" where
  "build_signature t = \<lparr>sg_values = [fdiv (te_release_speed (te_release t)) (Fin 20), fdiv (te_release_angle (te_release t)) (Fin 180),
       fdiv (te_hand_speed (te_hand t)) (Fin 15), fdiv (te_wrist_angular_velocity (te_wrist t)) (Fin 30),
       clamp (fdiv (te_possession_duration (te_release t)) (Fin 5)) (Fin 0) (Fin 1), fdiv (te_hand_to_disc_distance (te_hand t)) (Fin 1)],
     sg_frame = te_frame_index t\<rparr>"

definition wrist_unavailable :: "throw_event \<Rightarrow> bool" where
  "wrist_unavailable t \<longleftrightarrow> (let w = te_wrist t in
     \<not> te_wrist_kinematics_valid w \<or> f_bad (te_wrist_angular_velocity w) \<or> flt (te_wrist_angular_velocity w) (Fin 0))"

definition dimension_variances :: "signature list \<Rightarrow> f64 list" where
  "dimension_variances sigs = map (\<lambda>k. variance (map (\<lambda>s. sg_values s ! k) sigs)) [0..<length (sg_values (hd sigs))]"

definition degenerate_dim :: "f64 \<Rightarrow> bool" where
  "degenerate_dim v \<longleftrightarrow> flt v degenerate_floor \<or> is_nan v"

text \<open>The generalised variance is the product over the informative dimensions; the threshold is scaled to their number.\<close>

definition generalized_variance :: "f64 list \<Rightarrow> f64" where
  "generalized_variance vars = fold (\<lambda>v g. fmul g v) (filter (\<lambda>v. \<not> degenerate_dim v) vars) (Fin 1)"

definition informative :: "f64 list \<Rightarrow> nat" where
  "informative vars = length (filter (\<lambda>v. \<not> degenerate_dim v) vars)"

definition effective_threshold :: "detect_env \<Rightarrow> throw004 \<Rightarrow> f64 list \<Rightarrow> f64" where
  "effective_threshold de d vars = de_pow de (w4_min_variance d) (fdiv (f_of_int (int (informative vars))) (count_of vars))"

definition throw004_event :: "detect_env \<Rightarrow> base \<Rightarrow> nat \<Rightarrow> match_context \<Rightarrow> int \<Rightarrow> string \<Rightarrow> throw_event \<Rightarrow> throw004 \<Rightarrow> signature list \<Rightarrow> f64 list \<Rightarrow> detection_event" where
  "throw004_event de b n mc f i t d sigs vars =
     (let g = generalized_variance vars; eff = effective_threshold de d vars; k = int (informative vars);
          sev = clamp01 (fdiv (de_log10 de (fdiv eff g)) severity_decades);
          factor = fmin (Fin 1) (fdiv (count_of sigs) (f_of_int (w4_min_throws d * 2)))
      in with_attribution (te_attribution t) (make_event de b n mc i f (te_timestamp t) sev (fmul sev factor)
        (evidence_of de ''signature_repeat'' [(''throw_count'', Dint (int (length sigs))), (''generalized_variance'', Dfloat g),
          (''dimension_variances'', Ditems (map Dfloat vars)), (''dimension_names'', Ditems (map Dtext signature_names)),
          (''informative_dimensions'', Dint k),
          (''degenerate_dimensions'', Ditems (map (\<lambda>(name, v). Dtext name) (filter (\<lambda>(name, v). degenerate_dim v) (zip signature_names vars)))),
          (''effective_threshold'', Dfloat eff)])
        (''gen_variance: '' @ fmt_g 3 g @ '' over '' @ itoa (int (length sigs)) @ '' throws ('' @ itoa k @ '' informative dims)'')
        (''gen_variance: > '' @ fmt_g 3 eff)
        (player_key i (sg_frame (hd sigs)) f ''throw_signature'')))"

definition throw004_step :: "detect_env \<Rightarrow> base \<Rightarrow> match_context \<Rightarrow> int \<Rightarrow> (string \<times> tracked, throw004) step" where
  "throw004_step de b mc f x n d0 = (let (i, ps) = x in
     case throw_at ps f of None \<Rightarrow> ([], d0)
     | Some t \<Rightarrow>
         if hand_unavailable t \<or> wrist_unavailable t then ([], d0)
         else
           let sigs = push 50 (build_signature t) (gz [] (w4_signatures d0) i); d = d0\<lparr>w4_signatures := AList.update i sigs (w4_signatures d0)\<rparr> in
           if int (length sigs) < w4_min_throws d \<or> fle (w4_min_variance d) (Fin 0) then ([], d)
           else
             let vars = dimension_variances sigs in
             if informative vars < min_informative \<or> fle (effective_threshold de d vars) (generalized_variance vars) then ([], d)
             else ([throw004_event de b n mc f i t d sigs vars], d\<lparr>w4_signatures := AList.update i [] (w4_signatures d)\<rparr>))"

definition throw004_evaluate :: "detect_env \<Rightarrow> match_context \<Rightarrow> (string, tracked) gomap \<Rightarrow> int \<Rightarrow> throw004 instance_of \<Rightarrow> detection_event list \<times> throw004 instance_of" where
  "throw004_evaluate de mc pls f = run_instance (\<lambda>b. over (throw004_step de b mc f) (by_id pls))"

section \<open>THROW_007\<close>

record throw007 =
  w7_expected_loss :: f64
  w7_tolerance :: f64
  w7_min_entry_speed :: f64

definition throw007_base :: base where
  "throw007_base = \<lparr>bd_id = ''THROW_007'', bd_version = ''1.0.0'', bd_name = ''Penalty Field Tampering'', bd_category = ''throw'',
     bd_inputs = [''disc_state''], bd_warmup = 5, bd_weight = flit (6/10), bd_auto = False\<rparr>"

definition throw007_configure :: "params \<Rightarrow> throw007 \<Rightarrow> throw007" where
  "throw007_configure ps d = d\<lparr>w7_expected_loss := get_float ps ''expected_penalty_speed_loss'' (w7_expected_loss d),
     w7_tolerance := get_float ps ''penalty_tolerance'' (w7_tolerance d)\<rparr>"

definition new_throw007 :: "params \<Rightarrow> throw007 instance_of" where
  "new_throw007 ps = \<lparr>in_base = throw007_base, in_made = 0, in_state =
     \<lparr>w7_expected_loss = get_float ps ''expected_penalty_speed_loss'' (Fin (1/2)), w7_tolerance = get_float ps ''penalty_tolerance'' (flit (1/10)),
      w7_min_entry_speed = get_float ps ''min_entry_speed'' (Fin 5)\<rparr>\<rparr>"

definition throw007_evaluate :: "detect_env \<Rightarrow> match_context \<Rightarrow> (string, tracked) gomap \<Rightarrow> int \<Rightarrow> throw007 instance_of \<Rightarrow> detection_event list \<times> throw007 instance_of" where
  "throw007_evaluate de mc pls f = run_instance (\<lambda>b n d. ([], d))"

section \<open>THROW_008\<close>

record speed_track =
  tk_thrower :: string
  tk_release_frame :: int
  tk_release_time :: f64
  tk_release_pos :: vec3
  tk_prev_speed :: f64
  tk_prev_velocity :: vec3
  tk_violations :: int
  tk_max_increase :: f64
  tk_tracked :: int
  tk_samples :: "(f64 \<times> f64) list"

record throw008 =
  w8_tolerance :: f64
  w8_max_frames :: int
  w8_tracks :: "(string, speed_track) gomap"

definition settle_frames :: int where "settle_frames = 3"
definition bounce_angle_deg :: f64 where "bounce_angle_deg = Fin 10"
definition min_speed_violations :: int where "min_speed_violations = 4"

definition throw008_base :: base where
  "throw008_base = \<lparr>bd_id = ''THROW_008'', bd_version = ''1.3.0'', bd_name = ''Speed-Distance Anomaly'', bd_category = ''throw'',
     bd_inputs = [''disc_state''], bd_warmup = 5, bd_weight = Fin (1/2), bd_auto = False\<rparr>"

definition throw008_configure :: "params \<Rightarrow> throw008 \<Rightarrow> throw008" where
  "throw008_configure ps d = d\<lparr>w8_tolerance := get_float ps ''speed_increase_tolerance'' (w8_tolerance d),
     w8_max_frames := get_int ps ''max_tracking_frames'' (w8_max_frames d)\<rparr>"

definition throw008_reset :: "throw008 \<Rightarrow> throw008" where
  "throw008_reset d = d\<lparr>w8_tracks := []\<rparr>"

definition new_throw008 :: "params \<Rightarrow> throw008 instance_of" where
  "new_throw008 ps = \<lparr>in_base = throw008_base, in_made = 0, in_state = throw008_configure ps
     \<lparr>w8_tolerance = Fin 5, w8_max_frames = 30, w8_tracks = []\<rparr>\<rparr>"

definition finalize_speed :: "detect_env \<Rightarrow> base \<Rightarrow> match_context \<Rightarrow> int \<Rightarrow> throw008 \<Rightarrow> speed_track \<Rightarrow> nat \<Rightarrow> detection_event list" where
  "finalize_speed de b mc f d t n =
     (let v = f_of_int (tk_violations t) in
      if tk_violations t < min_speed_violations then []
      else [make_event de b n mc (tk_thrower t) (tk_release_frame t) (tk_release_time t) (fmin (Fin 1) (fdiv v (Fin 5)))
        (fmul (fmin (Fin 1) (fdiv v (Fin 3))) (flit (8/10)))
        (evidence_of de ''speed_distance'' [(''speed_increase_count'', Dint (tk_violations t)), (''max_speed_increase'', Dfloat (tk_max_increase t)),
          (''tracked_frames'', Dint (tk_tracked t)),
          (''speed_distance_samples'', Ditems (map (\<lambda>(x, s). Ditems [Dfloat x, Dfloat s]) (tk_samples t)))])
        (''speed_increases: '' @ itoa (tk_violations t) @ '' of '' @ itoa (tk_tracked t) @ '' free-flight frames (max: '' @ fmt_f 2 (tk_max_increase t) @ '' m/s)'')
        (''disc speed should not increase > '' @ fmt_f 1 (w8_tolerance d) @ '' m/s during free flight'')
        (player_key (tk_thrower t) (tk_release_frame t) f ''speed_distance'')])"

definition start_speed_track :: "int \<Rightarrow> string \<Rightarrow> throw_event \<Rightarrow> speed_track" where
  "start_speed_track f i t = \<lparr>tk_thrower = i, tk_release_frame = f, tk_release_time = te_timestamp t,
     tk_release_pos = te_release_position (te_release t), tk_prev_speed = te_release_speed (te_release t),
     tk_prev_velocity = te_release_velocity (te_release t), tk_violations = 0, tk_max_increase = Fin 0, tk_tracked = 0, tk_samples = []\<rparr>"

definition open_track :: "detect_env \<Rightarrow> base \<Rightarrow> match_context \<Rightarrow> int \<Rightarrow> (string \<times> tracked, throw008) step" where
  "open_track de b mc f x n d = (let (i, ps) = x in
     case throw_at ps f of None \<Rightarrow> ([], d)
     | Some t \<Rightarrow> ((case map_of (w8_tracks d) i of None \<Rightarrow> [] | Some old \<Rightarrow> finalize_speed de b mc f d old n),
         d\<lparr>w8_tracks := AList.update i (start_speed_track f i t) (w8_tracks d)\<rparr>))"

definition is_bounce :: "detect_env \<Rightarrow> speed_track \<Rightarrow> disc_state \<Rightarrow> bool" where
  "is_bounce de t dc \<longleftrightarrow> flt (flit (1/10)) (v_magnitude (tk_prev_velocity t)) \<and> flt (flit (1/10)) (v_magnitude (ds_velocity dc)) \<and>
     (let a = rad_to_deg (v_angle_between (de_acos de) (tk_prev_velocity t) (ds_velocity dc)) in \<not> is_nan a \<and> flt bounce_angle_deg a)"

definition judge_speed :: "detect_env \<Rightarrow> throw008 \<Rightarrow> disc_state \<Rightarrow> speed_track \<Rightarrow> speed_track" where
  "judge_speed de d dc t =
     (let delta = fsub (ds_speed dc) (tk_prev_speed t);
          t1 = t\<lparr>tk_tracked := tk_tracked t + 1,
            tk_samples := tk_samples t @ [(if fle (ds_distance_from_thrower dc) (Fin 0) then v_distance (ds_position dc) (tk_release_pos t)
              else ds_distance_from_thrower dc, ds_speed dc)]\<rparr>
      in if flt (w8_tolerance d) delta \<and> \<not> is_bounce de t dc
         then t1\<lparr>tk_violations := tk_violations t + 1, tk_max_increase := (if flt (tk_max_increase t) delta then delta else tk_max_increase t)\<rparr>
         else t1)"

definition fly :: "detect_env \<Rightarrow> throw008 \<Rightarrow> int \<Rightarrow> disc_state option \<Rightarrow> bool \<Rightarrow> speed_track \<Rightarrow> speed_track" where
  "fly de d f disc held t = (case disc of None \<Rightarrow> t
     | Some dc \<Rightarrow>
         if held \<or> \<not> flt (Fin 0) (ds_speed dc) \<or> f - tk_release_frame t \<le> 0 then t
         else (if settle_frames \<le> f - tk_release_frame t then judge_speed de d dc t else t)
           \<lparr>tk_prev_speed := ds_speed dc, tk_prev_velocity := ds_velocity dc\<rparr>)"

definition follow_track :: "detect_env \<Rightarrow> base \<Rightarrow> match_context \<Rightarrow> int \<Rightarrow> disc_state option \<Rightarrow> bool \<Rightarrow> (string, throw008) step" where
  "follow_track de b mc f disc held i n d = (case map_of (w8_tracks d) i of None \<Rightarrow> ([], d)
     | Some t0 \<Rightarrow>
         let t = fly de d f disc held t0 in
         if held \<or> w8_max_frames d < f - tk_release_frame t
         then (finalize_speed de b mc f d t n, d\<lparr>w8_tracks := AList.delete i (w8_tracks d)\<rparr>)
         else ([], d\<lparr>w8_tracks := AList.update i t (w8_tracks d)\<rparr>))"

definition throw008_evaluate :: "detect_env \<Rightarrow> match_context \<Rightarrow> (string, tracked) gomap \<Rightarrow> int \<Rightarrow> throw008 instance_of \<Rightarrow> detection_event list \<times> throw008 instance_of" where
  "throw008_evaluate de mc pls f = run_instance (\<lambda>b n d0.
     let (disc, held) = current_disc (map snd (by_id pls)) f; (evs, d) = over (open_track de b mc f) (by_id pls) n d0 in
     if disc = None \<and> \<not> held then (evs, d)
     else let (more_evs, d) = over (follow_track de b mc f disc held) (map fst (by_id (w8_tracks d))) (n + length evs) d in (evs @ more_evs, d))"

definition throw008_flush_tracks :: "detect_env \<Rightarrow> match_context \<Rightarrow> int \<Rightarrow> throw008 instance_of \<Rightarrow> detection_event list \<times> throw008 instance_of" where
  "throw008_flush_tracks de mc f = run_instance (\<lambda>b n d0.
     let (evs, d) = over (\<lambda>(i, t) n d. (finalize_speed de b mc f d t n, d)) (by_id (w8_tracks d0)) n d0 in (evs, d\<lparr>w8_tracks := []\<rparr>))"

end
