(* ===== verification/Mechanics.thy ===== *)
theory Mechanics
  imports Detect
begin

text \<open>
  Mechanics reviews: assessments of a grab, a release or a setting against the project's rules
  (\<open>internal/model/mechanics.go\<close>, \<open>internal/mechanics\<close>), with their validation, and the assessment of a release the
  detectors start from (\<open>internal/detect/throw/mechanics_review.go\<close>, \<open>internal/pipeline/mechanics_review.go\<close>).

  An assessment is a diagnostic: no score depends on it. What an evaluator may conclude depends on the knowledge
  it is given; the program itself never makes any other than the empty one (\<open>no_grab_knowledge\<close> and so on).
  The SHA-256 digest in an event identity is the argument \<open>digest\<close>.
\<close>

section \<open>Assessments\<close>

definition mech_consistent :: string where "mech_consistent = ''consistent''"
definition mech_inconclusive :: string where "mech_inconclusive = ''inconclusive''"
definition mech_anomaly :: string where "mech_anomaly = ''anomaly''"
definition mech_violation :: string where "mech_violation = ''validated_violation''"
definition mech_grab :: string where "mech_grab = ''grab_geometry_violation''"
definition mech_shot :: string where "mech_shot = ''shot_targeting_anomaly''"
definition mech_throw :: string where "mech_throw = ''throw_physics_violation''"
definition mech_settings :: string where "mech_settings = ''settings_integrity_violation''"
definition max_metrics :: nat where "max_metrics = 24"
definition max_raw_samples :: nat where "max_raw_samples = 128"
definition max_limitations :: nat where "max_limitations = 8"

lemmas mech_words [simp] = mech_consistent_def mech_inconclusive_def mech_anomaly_def mech_violation_def
lemmas mech_kinds [simp] = mech_grab_def mech_shot_def mech_throw_def mech_settings_def

record raw_sample =
  rs_role :: string
  rs_event :: string
  rs_speed :: "f64 option"
  rs_goal :: "vec3 option"
  rs_bounce :: "int option"
  rs_frame :: int
  rs_time :: f64
  rs_disc_position :: "vec3 option"
  rs_disc_velocity :: "vec3 option"
  rs_left_hand :: "vec3 option"
  rs_right_hand :: "vec3 option"
  rs_player_position :: "vec3 option"
  rs_player_velocity :: "vec3 option"
  rs_reported_velocity :: "vec3 option"
  rs_attachment :: string
  rs_left_holding :: string
  rs_right_holding :: string

definition raw_at :: "int \<Rightarrow> f64 \<Rightarrow> raw_sample" where
  "raw_at f t = \<lparr>rs_role = [], rs_event = [], rs_speed = None, rs_goal = None, rs_bounce = None, rs_frame = f, rs_time = t,
     rs_disc_position = None, rs_disc_velocity = None, rs_left_hand = None, rs_right_hand = None, rs_player_position = None,
     rs_player_velocity = None, rs_reported_velocity = None, rs_attachment = [], rs_left_holding = [], rs_right_holding = []\<rparr>"

record assessment =
  as_kind :: string
  as_result :: string
  as_reason :: string
  as_description :: string
  as_rule_version :: string
  as_engine_build :: string
  as_reference :: string
  as_geometry :: string
  as_frame :: int
  as_time :: f64
  as_event :: string
  as_player :: string
  as_session :: string
  as_time_basis :: string
  as_start :: f64
  as_end :: f64
  as_hand :: string
  as_object :: string
  as_source :: string
  as_authority :: string
  as_space :: string
  as_metrics :: "(string, f64) gomap"
  as_limitations :: "string list"
  as_samples :: "raw_sample list"

definition blank_assessment :: assessment where
  "blank_assessment = \<lparr>as_kind = [], as_result = [], as_reason = [], as_description = [], as_rule_version = [], as_engine_build = [],
     as_reference = [], as_geometry = [], as_frame = 0, as_time = Fin 0, as_event = [], as_player = [], as_session = [], as_time_basis = [],
     as_start = Fin 0, as_end = Fin 0, as_hand = [], as_object = [], as_source = [], as_authority = [], as_space = [], as_metrics = [],
     as_limitations = [], as_samples = []\<rparr>"

definition put_metric :: "string \<Rightarrow> f64 \<Rightarrow> assessment \<Rightarrow> assessment" where
  "put_metric k v r = r\<lparr>as_metrics := AList.update k v (as_metrics r)\<rparr>"

definition put_metrics :: "(string \<times> f64) list \<Rightarrow> assessment \<Rightarrow> assessment" where
  "put_metrics kvs r = fold (\<lambda>(k, v). put_metric k v) kvs r"

section \<open>Validation\<close>

definition key_char :: "char \<Rightarrow> bool" where
  "key_char c \<longleftrightarrow> (let n = of_char c :: nat in 97 \<le> n \<and> n \<le> 122 \<or> 48 \<le> n \<and> n \<le> 57 \<or> c = CHR ''_'')"

definition review_key :: "string \<Rightarrow> bool" where
  "review_key k \<longleftrightarrow> k \<noteq> [] \<and> length k \<le> 64 \<and> list_all key_char k"

definition mechanics_time :: "f64 \<Rightarrow> bool" where
  "mechanics_time v \<longleftrightarrow> fle (Fin 0) v \<and> \<not> is_nan v \<and> \<not> is_inf v"

definition vec_ok :: "vec3 option \<Rightarrow> bool" where
  "vec_ok x = (case x of None \<Rightarrow> True | Some v \<Rightarrow> \<not> (v_has_nan v \<or> v_has_inf v))"

definition validate_sample :: "raw_sample \<Rightarrow> string option" where
  "validate_sample s =
     (if rs_role s \<noteq> [] \<and> rs_role s \<noteq> ''supporting_release'' \<and> rs_role s \<noteq> ''flight_sample'' \<or> 256 < length (rs_event s)
      then Some ''invalid mechanics raw sample role or identity''
      else if (case rs_speed s of Some v \<Rightarrow> \<not> mechanics_time v | None \<Rightarrow> False) then Some ''invalid mechanics sampled speed''
      else if (case rs_bounce s of Some k \<Rightarrow> k < 0 | None \<Rightarrow> False) then Some ''invalid mechanics bounce count''
      else if rs_frame s < 0 \<or> \<not> mechanics_time (rs_time s) \<or> 256 < length (rs_attachment s) \<or> 256 < length (rs_left_holding s) \<or>
        256 < length (rs_right_holding s) then Some ''invalid mechanics raw sample''
      else if \<not> list_all vec_ok [rs_disc_position s, rs_disc_velocity s, rs_left_hand s, rs_right_hand s, rs_player_position s,
        rs_player_velocity s, rs_reported_velocity s, rs_goal s] then Some ''non-finite mechanics raw vector''
      else None)"

definition first_error :: "('a \<Rightarrow> string option) \<Rightarrow> 'a list \<Rightarrow> string option" where
  "first_error g xs = (case List.map_filter g xs of [] \<Rightarrow> None | e # _ \<Rightarrow> Some e)"

definition validate_assessment :: "assessment \<Rightarrow> string option" where
  "validate_assessment r =
     (if as_kind r \<notin> {mech_grab, mech_shot, mech_throw, mech_settings} then Some ''invalid mechanics kind''
      else if as_result r \<notin> {mech_consistent, mech_inconclusive, mech_anomaly, mech_violation} then Some ''invalid mechanics result''
      else if as_frame r < 0 \<or> \<not> mechanics_time (as_time r) \<or> \<not> mechanics_time (as_start r) \<or> \<not> mechanics_time (as_end r) \<or> flt (as_end r) (as_start r)
      then Some ''invalid mechanics frame or interval''
      else if \<not> review_key (as_reason r) \<or> 512 < length (as_description r) \<or> as_rule_version r = [] \<or> 128 < length (as_rule_version r) \<or>
        as_event r = [] \<or> 256 < length (as_event r) then Some ''invalid mechanics identity or reason''
      else if list_ex (\<lambda>x. 256 < length x) [as_player r, as_session r, as_time_basis r, as_hand r, as_object r, as_source r, as_authority r,
        as_space r, as_engine_build r, as_reference r, as_geometry r] then Some ''oversized mechanics descriptor''
      else if max_metrics < length (as_metrics r) \<or> max_limitations < length (as_limitations r) \<or> max_raw_samples < length (as_samples r)
      then Some ''oversized mechanics evidence''
      else if list_ex (\<lambda>(k, v). \<not> review_key k \<or> is_nan v \<or> is_inf v) (as_metrics r) then Some ''invalid mechanics metric''
      else if list_ex (\<lambda>l. l = [] \<or> 256 < length l) (as_limitations r) then Some ''invalid mechanics limitation''
      else first_error validate_sample (as_samples r))"

section \<open>Grabs\<close>

record grab_knowledge =
  gk_rule_version :: string
  gk_engine_build :: string
  gk_reference :: string
  gk_geometry :: string
  gk_source_validated :: bool
  gk_bounds_validated :: bool
  gk_linear_motion :: bool

definition no_grab_knowledge :: grab_knowledge where
  "no_grab_knowledge = \<lparr>gk_rule_version = [], gk_engine_build = [], gk_reference = [], gk_geometry = [], gk_source_validated = False,
     gk_bounds_validated = False, gk_linear_motion = False\<rparr>"

record grab_sample =
  gs_time :: f64
  gs_hand :: vec3
  gs_disc :: vec3
  gs_attachment :: string

record grab_candidate =
  gc_hand :: string
  gc_samples :: "grab_sample list"
  gc_uncertainty :: f64

definition f_finite :: "f64 \<Rightarrow> bool" where
  "f_finite v \<longleftrightarrow> \<not> is_nan v \<and> \<not> is_inf v"

fun v_lerp :: "vec3 \<Rightarrow> vec3 \<Rightarrow> f64 \<Rightarrow> vec3" where
  "v_lerp (Vec3 x y z) (Vec3 x' y' z') t =
     Vec3 (fadd x (fmul (fsub x' x) t)) (fadd y (fmul (fsub y' y) t)) (fadd z (fmul (fsub z' z) t))"

definition sample_error :: "grab_sample option \<Rightarrow> grab_sample \<Rightarrow> string option" where
  "sample_error before s =
     (if gs_attachment s \<noteq> ''free'' then Some ''grab_attachment_snap_excluded''
      else if \<not> f_finite (gs_time s) \<or> flt (gs_time s) (Fin 0) \<or> v_has_nan (gs_hand s) \<or> v_has_inf (gs_hand s) \<or> v_has_nan (gs_disc s) \<or>
        v_has_inf (gs_disc s) \<or> (case before of Some p \<Rightarrow> fle (gs_time s) (gs_time p) | None \<Rightarrow> False) then Some ''grab_candidate_unavailable''
      else None)"

fun samples_error :: "grab_sample option \<Rightarrow> grab_sample list \<Rightarrow> string option" where
  "samples_error before [] = None"
| "samples_error before (s # ss) = (case sample_error before s of Some e \<Rightarrow> Some e | None \<Rightarrow> samples_error (Some s) ss)"

text \<open>The least distance of two straight motions between two samples, clipped to the interval.\<close>

definition segment_distance :: "f64 \<Rightarrow> f64 \<Rightarrow> grab_sample \<Rightarrow> grab_sample \<Rightarrow> f64" where
  "segment_distance lo hi a b =
     (let r0 = v_sub (gs_disc a) (gs_hand a); r1 = v_sub (gs_disc b) (gs_hand b); scale = fsub (gs_time b) (gs_time a);
          from = v_lerp r0 r1 (fdiv (fsub lo (gs_time a)) scale); to = v_lerp r0 r1 (fdiv (fsub hi (gs_time a)) scale);
          delta = v_sub to from; len = v_magnitude_sq delta;
          u = (if flt (Fin 0) len then fmax (Fin 0) (fmin (Fin 1) (fdiv (fneg (v_dot from delta)) len)) else Fin 0)
      in v_magnitude (v_add from (v_scale delta u)))"

fun sweep :: "f64 \<Rightarrow> f64 \<Rightarrow> f64 \<Rightarrow> grab_sample list \<Rightarrow> string + f64" where
  "sweep start final m (a # b # ss) =
     (let lo = fmax start (gs_time a); hi = fmin final (gs_time b) in
      if flt hi lo then sweep start final m (b # ss)
      else let x = segment_distance lo hi a b in
        if \<not> f_finite x then Inl ''grab_candidate_unavailable'' else sweep start final (fmin m x) (b # ss))"
| "sweep start final m ss = (if f_finite m then Inr m else Inl ''grab_acquisition_unavailable'')"

definition minimum_distance :: "grab_sample list \<Rightarrow> f64 \<Rightarrow> f64 \<Rightarrow> bool \<Rightarrow> string + f64" where
  "minimum_distance ss start final lin =
     (if ss = [] \<or> max_raw_samples < length ss then Inl ''grab_acquisition_unavailable''
      else (case samples_error None ss of Some e \<Rightarrow> Inl e
      | None \<Rightarrow>
          if flt start (gs_time (hd ss)) \<or> flt (gs_time (List.last ss)) final then Inl ''grab_acquisition_unavailable''
          else if length ss = 1
          then if \<not> feq start final \<or> \<not> feq start (gs_time (hd ss)) then Inl ''grab_acquisition_unavailable''
            else let x = v_distance (gs_hand (hd ss)) (gs_disc (hd ss)) in
              if f_finite x then Inr x else Inl ''grab_candidate_unavailable''
          else if \<not> lin then Inl ''grab_interpolation_unverified''
          else sweep start final (Inf False) ss))"

text \<open>The bounds over the candidate hands, and the hands seen.\<close>

fun grab_bounds :: "f64 \<Rightarrow> f64 \<Rightarrow> bool \<Rightarrow> grab_candidate list \<Rightarrow> string list \<Rightarrow> f64 \<times> f64 \<Rightarrow> string + f64 \<times> f64" where
  "grab_bounds start final lin [] seen bounds = Inr bounds"
| "grab_bounds start final lin (c # cs) seen (lo, hi) =
     (if gc_hand c \<noteq> ''left'' \<and> gc_hand c \<noteq> ''right'' \<or> gc_hand c \<in> set seen \<or> \<not> f_finite (gc_uncertainty c) \<or> flt (gc_uncertainty c) (Fin 0)
      then Inl ''grab_candidate_unavailable''
      else case minimum_distance (gc_samples c) start final lin of
        Inl e \<Rightarrow> Inl e
      | Inr x \<Rightarrow>
          let lower = fmax (Fin 0) (fsub x (gc_uncertainty c)); upper = fadd x (gc_uncertainty c) in
          if \<not> f_finite lower \<or> \<not> f_finite upper then Inl ''grab_candidate_unavailable''
          else grab_bounds start final lin cs (gc_hand c # seen) (fmin lo lower, fmin hi upper))"

definition start_review :: "string \<Rightarrow> string \<Rightarrow> project_rules \<Rightarrow> assessment \<Rightarrow> assessment" where
  "start_review kind reason rules r = r\<lparr>as_engine_build := [], as_reference := [], as_geometry := [], as_kind := kind,
     as_result := mech_inconclusive, as_reason := reason, as_rule_version := rules_version rules, as_object := ''disc''\<rparr>"

definition conclude :: "string \<Rightarrow> string \<Rightarrow> assessment \<Rightarrow> assessment" where
  "conclude result reason r = r\<lparr>as_result := result, as_reason := reason\<rparr>"

definition because :: "string \<Rightarrow> assessment \<Rightarrow> assessment" where
  "because reason r = r\<lparr>as_reason := reason\<rparr>"

definition judge_grab :: "f64 \<Rightarrow> f64 \<times> f64 \<Rightarrow> assessment \<Rightarrow> assessment" where
  "judge_grab limit bounds r = (let (lo, hi) = bounds in
     if fle hi limit then conclude mech_consistent ''grab_legal_candidate_supported'' r
     else if flt limit lo then conclude mech_violation ''grab_all_candidates_outside_rule'' r
     else because ''grab_boundary_uncertain'' r)"

definition evaluate_grab :: "project_rules \<Rightarrow> assessment \<Rightarrow> grab_candidate list \<Rightarrow> grab_knowledge \<Rightarrow> assessment" where
  "evaluate_grab rules r0 cands k =
     (let r = start_review mech_grab ''grab_geometry_unverified'' rules r0; limit = disc_grab_limit_m rules in
      if \<not> f_finite limit \<or> fle limit (Fin 0) \<or> rules_version rules = [] then because ''grab_rule_unavailable'' r
      else let r = put_metric ''legal_limit_m'' limit r in
        if gk_geometry k \<noteq> ''hand_origin_to_disc_center'' \<or> gk_rule_version k \<noteq> rules_version rules \<or> gk_engine_build k = [] \<or> gk_reference k = [] then r
        else if \<not> gk_source_validated k then because ''grab_source_unverified'' r
        else let r = r\<lparr>as_engine_build := gk_engine_build k, as_reference := gk_reference k, as_geometry := gk_geometry k\<rparr> in
          if \<not> gk_bounds_validated k then because ''grab_uncertainty_unbounded'' r
          else if \<not> f_finite (as_start r) \<or> \<not> f_finite (as_end r) \<or> flt (as_start r) (Fin 0) \<or> flt (as_end r) (as_start r) \<or> cands = [] \<or> 2 < length cands
          then because ''grab_acquisition_unavailable'' r
          else (case grab_bounds (as_start r) (as_end r) (gk_linear_motion k) cands [] (Inf False, Inf False) of
              Inl e \<Rightarrow> because e r
            | Inr (lo, hi) \<Rightarrow> judge_grab limit (lo, hi) (put_metrics [(''minimum_distance_lower_bound_m'', lo),
                (''minimum_distance_upper_bound_m'', hi), (''candidate_hands'', count_of cands)] r)))"

section \<open>Releases and settings\<close>

record release_knowledge =
  rk_rule_version :: string
  rk_engine_build :: string
  rk_reference :: string
  rk_source_validated :: bool
  rk_bounds_validated :: bool

definition no_release_knowledge :: release_knowledge where
  "no_release_knowledge = \<lparr>rk_rule_version = [], rk_engine_build = [], rk_reference = [], rk_source_validated = False, rk_bounds_validated = False\<rparr>"

record speed_bounds =
  sb_lower :: f64
  sb_upper :: f64

definition valid_bounds :: "speed_bounds option \<Rightarrow> bool" where
  "valid_bounds b = (case b of None \<Rightarrow> False | Some x \<Rightarrow>
     f_finite (sb_lower x) \<and> f_finite (sb_upper x) \<and> fle (Fin 0) (sb_lower x) \<and> fle (sb_lower x) (sb_upper x))"

definition judge_release :: "project_rules \<Rightarrow> speed_bounds \<Rightarrow> speed_bounds \<Rightarrow> assessment \<Rightarrow> assessment" where
  "judge_release rules disc movement r =
     (if flt (sb_upper disc) (fast_throw_speed_mps rules) \<or> fle (required_movement_mps rules) (sb_lower movement)
      then conclude mech_consistent ''release_requirement_consistent'' r
      else if fle (fast_throw_speed_mps rules) (sb_lower disc) \<and> flt (sb_upper movement) (required_movement_mps rules)
      then conclude mech_violation ''release_movement_requirement_violated'' r
      else because ''release_rule_boundary_uncertain'' r)"

definition evaluate_release :: "project_rules \<Rightarrow> assessment \<Rightarrow> speed_bounds option \<Rightarrow> speed_bounds option \<Rightarrow> release_knowledge \<Rightarrow> assessment" where
  "evaluate_release rules r0 disc0 movement0 k =
     (let r = start_review mech_throw ''release_rule_unverified'' rules r0; fast = fast_throw_speed_mps rules; need = required_movement_mps rules in
      if \<not> f_finite fast \<or> \<not> f_finite need \<or> fle fast (Fin 0) \<or> fle need (Fin 0) \<or> rules_version rules = []
      then because ''release_rule_unavailable'' r
      else let r = put_metrics [(''fast_throw_rule_mps'', fast), (''required_movement_rule_mps'', need)] r in
        if rk_rule_version k \<noteq> rules_version rules \<or> rk_engine_build k = [] \<or> rk_reference k = [] then r
        else let r = r\<lparr>as_engine_build := rk_engine_build k, as_reference := rk_reference k\<rparr> in
          if \<not> rk_source_validated k \<or> \<not> rk_bounds_validated k \<or> \<not> valid_bounds disc0 \<or> \<not> valid_bounds movement0
          then because ''release_simultaneous_bounds_unavailable'' r
          else (case (disc0, movement0) of
              (Some disc, Some movement) \<Rightarrow> judge_release rules disc movement (put_metrics [(''initial_disc_speed_lower_mps'', sb_lower disc),
                (''initial_disc_speed_upper_mps'', sb_upper disc), (''release_movement_lower_mps'', sb_lower movement),
                (''release_movement_upper_mps'', sb_upper movement)] r)
            | _ \<Rightarrow> r))"

record settings_knowledge =
  sk_rule_version :: string
  sk_engine_build :: string
  sk_reference :: string
  sk_source_validated :: bool
  sk_minimum :: f64
  sk_maximum :: f64

definition no_settings_knowledge :: settings_knowledge where
  "no_settings_knowledge = \<lparr>sk_rule_version = [], sk_engine_build = [], sk_reference = [], sk_source_validated = False, sk_minimum = Fin 0, sk_maximum = Fin 0\<rparr>"

definition evaluate_wrist_setting :: "assessment \<Rightarrow> f64 option \<Rightarrow> settings_knowledge \<Rightarrow> assessment" where
  "evaluate_wrist_setting r0 offset k =
     (let r = r0\<lparr>as_engine_build := [], as_reference := [], as_geometry := [], as_kind := mech_settings, as_result := mech_inconclusive,
        as_reason := ''wrist_setting_unavailable''\<rparr> in
      case offset of None \<Rightarrow> r
      | Some x \<Rightarrow>
          if \<not> f_finite x then r
          else let r = put_metric ''observed_wrist_offset'' x r in
            if sk_rule_version k \<noteq> as_rule_version r \<or> sk_engine_build k = [] \<or> sk_reference k = [] \<or> \<not> sk_source_validated k \<or>
              \<not> f_finite (sk_minimum k) \<or> \<not> f_finite (sk_maximum k) \<or> flt (sk_maximum k) (sk_minimum k)
            then because ''wrist_setting_range_unverified'' r
            else
              let r = (put_metrics [(''allowed_offset_min'', sk_minimum k), (''allowed_offset_max'', sk_maximum k)] r)
                \<lparr>as_engine_build := sk_engine_build k, as_reference := sk_reference k\<rparr>
              in if fle (sk_minimum k) x \<and> fle x (sk_maximum k) then conclude mech_consistent ''wrist_setting_permitted'' r
                 else conclude mech_violation ''wrist_setting_outside_verified_range'' r)"

section \<open>What a review may conclude\<close>

lemma result_parts [simp]:
  "as_result (put_metric k v r) = as_result r" "as_result (because e r) = as_result r" "as_result (conclude x e r) = x"
  "as_result (start_review kind e rules r) = mech_inconclusive"
  "as_start (put_metric k v r) = as_start r" "as_end (put_metric k v r) = as_end r"
  "as_start (start_review kind e rules r) = as_start r" "as_end (start_review kind e rules r) = as_end r"
  by (simp_all add: put_metric_def because_def conclude_def start_review_def)

lemma result_metrics [simp]: "as_result (put_metrics kvs r) = as_result r"
  by (induction kvs arbitrary: r) (auto simp: put_metrics_def)

text \<open>Without knowledge of the engine nothing is concluded: a grab, a release and a wrist setting reviewed with the empty knowledge, which is
  the only one the program makes, are inconclusive whatever was observed.\<close>

theorem reviews_without_knowledge_conclude_nothing:
  "as_result (evaluate_grab rules r cands no_grab_knowledge) = mech_inconclusive \<and>
   as_result (evaluate_release rules r disc movement no_release_knowledge) = mech_inconclusive \<and>
   as_result (evaluate_wrist_setting r None no_settings_knowledge) = mech_inconclusive"
  by (simp add: evaluate_grab_def evaluate_release_def evaluate_wrist_setting_def no_grab_knowledge_def no_release_knowledge_def Let_def)

lemma flt_fmin: "flt q (fmin x y) \<Longrightarrow> flt q x \<and> flt q y"
  by (cases q; cases x; cases y) (auto simp: fmin_def is_nan_def split: if_splits)

text \<open>Beyond the limit even at the closest instant its samples allow.\<close>

definition out_of_reach :: "f64 \<Rightarrow> f64 \<Rightarrow> f64 \<Rightarrow> bool \<Rightarrow> grab_candidate \<Rightarrow> bool" where
  "out_of_reach limit start final lin c = (case minimum_distance (gc_samples c) start final lin of
     Inl e \<Rightarrow> False | Inr x \<Rightarrow> flt limit (fmax (Fin 0) (fsub x (gc_uncertainty c))))"

lemma grab_bounds_lower:
  "grab_bounds start final lin cs seen (lo, hi) = Inr (lo', hi') \<Longrightarrow> flt limit lo' \<Longrightarrow>
   flt limit lo \<and> list_all (out_of_reach limit start final lin) cs"
proof (induction cs arbitrary: seen lo hi)
  case (Cons c cs)
  then obtain x where x: "minimum_distance (gc_samples c) start final lin = Inr x"
    "grab_bounds start final lin cs (gc_hand c # seen) (fmin lo (fmax (Fin 0) (fsub x (gc_uncertainty c))), fmin hi (fadd x (gc_uncertainty c))) = Inr (lo', hi')"
    by (auto simp: Let_def split: sum.splits if_splits)
  have "flt limit (fmin lo (fmax (Fin 0) (fsub x (gc_uncertainty c)))) \<and> list_all (out_of_reach limit start final lin) cs"
    by (rule Cons.IH [OF x(2) Cons.prems(2)])
  moreover have "out_of_reach limit start final lin c = flt limit (fmax (Fin 0) (fsub x (gc_uncertainty c)))" using x(1) by (simp add: out_of_reach_def)
  ultimately show ?case using flt_fmin [of limit lo] by (metis list.pred_inject(2))
qed simp

lemma judge_grab_violation [simp]:
  "as_result r = mech_inconclusive \<Longrightarrow> as_result (judge_grab limit b r) = mech_violation \<longleftrightarrow> \<not> fle (snd b) limit \<and> flt limit (fst b)"
  by (auto simp: judge_grab_def split: prod.splits)


definition sample_knowledge :: grab_knowledge where
  "sample_knowledge = \<lparr>gk_rule_version = ''owner-2026-09-08-v1'', gk_engine_build = ''b'', gk_reference = ''ref'',
     gk_geometry = ''hand_origin_to_disc_center'', gk_source_validated = True, gk_bounds_validated = True, gk_linear_motion = False\<rparr>"

definition sample_candidate :: grab_candidate where
  "sample_candidate = \<lparr>gc_hand = ''left'', gc_samples = [\<lparr>gs_time = Fin 0, gs_hand = 0, gs_disc = Vec3 (Fin 1) (Fin 0) (Fin 0), gs_attachment = ''free''\<rparr>],
     gc_uncertainty = Fin 0\<rparr>"

lemma sample_violation: "as_result (evaluate_grab default_project_rules blank_assessment [sample_candidate] sample_knowledge) = mech_violation"
  by code_simp


end
