(* ===== verification/Detect_Flight.thy ===== *)
theory Detect_Flight
  imports Detect_Throw Mechanics
begin

text \<open>
  The diagnostic reviews of a release: shot targeting (THROW_005), free flight (THROW_006) and the pipeline's own
  review (\<open>internal/pipeline/mechanics_review.go\<close>). They report no detection events; what they report is an
  assessment per release, with the id of the player it is about, in the order they make them. Where the source
  walks a map to report players who left, the model takes them in the order of their ids.
\<close>

section \<open>The assessment of a release\<close>

definition release_event_id :: "detect_env \<Rightarrow> release_observation option \<Rightarrow> string" where
  "release_event_id de r = (case r of None \<Rightarrow> []
     | Some w \<Rightarrow> ''release:'' @ de_digest de ((case ro_source w of
           None \<Rightarrow> [Dtext [], Dtext [], Dtext [], Dtext [], Dtext [], Dtext [], Dtext [], Dint 0, Dfloat (Fin 0)]
         | Some c \<Rightarrow> [Dtext (oc_session_id c), Dtext (oc_source c), Dtext (oc_source_id c), Dtext (oc_source_player_id c),
             Dtext (oc_authority c), Dtext (oc_time_basis c), Dtext (oc_freshness c), Dint (oc_frame_index c), Dfloat (oc_timestamp c)]) @
         [Dtext ''sampled_release'', Dtext (ro_player_id w), Dint (ro_first_free_frame w), Dfloat (ro_end_time w)]))"

definition mech_vector :: "vec3 \<Rightarrow> vec3 option" where
  "mech_vector v = (if v_has_nan v \<or> v_has_inf v then None else Some v)"

definition effective_rules :: "match_context \<Rightarrow> project_rules" where
  "effective_rules mc = (if rules_version (mc_project_rules mc) \<noteq> [] then mc_project_rules mc else default_project_rules)"

definition movement_sample :: "movement_observation \<Rightarrow> raw_sample" where
  "movement_sample m = (raw_at (mv_frame_index m) (mv_timestamp m))\<lparr>rs_player_position := mech_vector (mv_position m),
     rs_reported_velocity := Option.bind (mv_reported_velocity m) mech_vector\<rparr>"

definition describe_source :: "observation_context option \<Rightarrow> assessment \<Rightarrow> assessment" where
  "describe_source c r = (case c of None \<Rightarrow> r
     | Some x \<Rightarrow> r\<lparr>as_source := oc_source x, as_authority := oc_authority x, as_session := oc_session_id x, as_time_basis := oc_time_basis x\<rparr>)"

definition assess_release :: "detect_env \<Rightarrow> match_context \<Rightarrow> tracked \<Rightarrow> throw_event \<Rightarrow> string \<Rightarrow> assessment" where
  "assess_release de mc ps t kind =
     (let w = te_release_window t; r = blank_assessment\<lparr>as_kind := kind, as_result := mech_inconclusive, as_reason := ''release_observation_unavailable'',
            as_rule_version := rules_version (effective_rules mc), as_player := ps_player_id ps, as_session := mc_match_id mc,
            as_frame := te_frame_index t, as_time := te_timestamp t, as_start := te_timestamp t, as_end := te_timestamp t,
            as_source := mc_source mc, as_authority := ''unverified'', as_space := ''reported_world'', as_object := ''disc'',
            as_hand := te_throwing_hand (te_hand t)\<rparr>;
          r = (case w of None \<Rightarrow> r
             | Some x \<Rightarrow>
                 let kept = take (max_raw_samples - 1) (ro_player_movement x); omitted = length (ro_player_movement x) - length kept;
                     r = r\<lparr>as_start := ro_start_time x, as_end := ro_end_time x, as_hand := join_with ''|'' (ro_hand_candidates x),
                       as_samples := map movement_sample kept\<rparr>
                 in if 0 < omitted then put_metric ''context_raw_samples_omitted'' (f_of_int (int omitted)) r else r);
          r = describe_source (case w of None \<Rightarrow> ps_observation ps | Some x \<Rightarrow> ro_source x) r
      in r\<lparr>as_samples := as_samples r @ [(raw_at (te_frame_index t) (te_timestamp t))\<lparr>rs_disc_position := mech_vector (te_release_position (te_release t)),
             rs_disc_velocity := mech_vector (te_release_velocity (te_release t)), rs_player_position := mech_vector (te_player_position (te_release t)),
             rs_player_velocity := mech_vector (te_player_velocity (te_release t)), rs_attachment := ''free''\<rparr>],
           as_event := release_event_id de w\<rparr>)"

definition release_known :: "tracked \<Rightarrow> throw_event \<Rightarrow> bool" where
  "release_known ps t = (case te_release_window t of None \<Rightarrow> False
     | Some w \<Rightarrow> ro_player_id w = ps_player_id ps \<and> te_thrower_id t = ps_player_id ps \<and> ro_first_free_frame w = te_frame_index t \<and>
         ro_start_frame w < ro_end_frame w \<and> ro_end_frame w = te_frame_index t \<and> feq (ro_end_time w) (te_timestamp t) \<and>
         fle (Fin 0) (ro_start_time w) \<and> flt (ro_start_time w) (ro_end_time w) \<and> f_finite (ro_start_time w) \<and> f_finite (ro_end_time w) \<and>
         oc_valid (ro_source w) \<and> (case ro_source w of None \<Rightarrow> False
           | Some c \<Rightarrow> oc_frame_index c = te_frame_index t \<and> feq (oc_timestamp c) (te_timestamp t)))"

text \<open>The pipeline's review of a release: the physics rule and the wrist setting, both without knowledge.\<close>

definition window_assessment :: "detect_env \<Rightarrow> release_observation option \<Rightarrow> project_rules \<Rightarrow> assessment" where
  "window_assessment de r rules =
     (let out = blank_assessment\<lparr>as_result := mech_inconclusive, as_rule_version := rules_version rules, as_object := ''disc'', as_space := ''arena_world''\<rparr> in
      case r of None \<Rightarrow> out
      | Some w \<Rightarrow>
          (case ro_source w of None \<Rightarrow> out | Some c \<Rightarrow> out\<lparr>as_source := oc_source c, as_authority := oc_authority c,
             as_session := oc_session_id c, as_time_basis := oc_time_basis c\<rparr>)
          \<lparr>as_frame := ro_first_free_frame w, as_time := ro_end_time w, as_start := ro_start_time w, as_end := ro_end_time w,
           as_hand := join_with '','' (ro_hand_candidates w), as_player := ro_player_id w, as_event := release_event_id de r,
           as_samples := map (\<lambda>m. (raw_at (mv_frame_index m) (mv_timestamp m))\<lparr>rs_player_position := Some (mv_position m),
             rs_reported_velocity := mv_reported_velocity m\<rparr>) (take (max_raw_samples - 1) (ro_player_movement w))\<rparr>)"

definition en_dash :: string where "en_dash = [CHR 0xE2, CHR 0x80, CHR 0x93]"

definition review_release :: "detect_env \<Rightarrow> project_rules \<Rightarrow> tracked \<Rightarrow> int \<Rightarrow> (string \<times> assessment) list" where
  "review_release de rules ps f =
     (case th_last_throw (pl_throws ps) of None \<Rightarrow> []
      | Some t \<Rightarrow> (case te_release_window t of None \<Rightarrow> []
         | Some w \<Rightarrow>
             if \<not> observed_at (Some t) f \<or> te_thrower_id t \<noteq> ps_player_id ps \<or> ro_player_id w \<noteq> ps_player_id ps then []
             else
               let base0 = window_assessment de (Some w) rules;
                   r = base0\<lparr>as_metrics := [(''sampled_disc_speed_mps'', te_sampled_disc_speed (te_release t)),
                       (''pose_interval_movement_mps'', v_magnitude (te_player_velocity (te_release t)))],
                     as_samples := as_samples base0 @ [(raw_at (te_frame_index t) (te_timestamp t))\<lparr>rs_disc_position := Some (te_release_position (te_release t)),
                       rs_disc_velocity := Some (te_release_velocity (te_release t)), rs_attachment := ''free''\<rparr>],
                     as_limitations := [''The 19 m/s'' @ en_dash @ ''4.7 m/s implication is an owner rule, not a verified engine/build law.'',
                       ''First-free disc speed and interval player motion do not bound simultaneous speeds at the actual release tick.'',
                       ''Capture time, engine build, authoritative controller inputs and measurement-error bounds are unavailable.'']\<rparr>
               in [(''THROW_001'', evaluate_release rules r None None no_release_knowledge),
                   (''THROW_003'', evaluate_wrist_setting (r\<lparr>as_metrics := [],
                     as_limitations := [''Physical hand orientation is not the WristAngleOffset setting.'',
                       ''No event-aligned player setting, verified permitted range or build is available. Nonzero settings alone are not cheating.'']\<rparr>)
                     None no_settings_knowledge)]))"

definition review_cancelled_release :: "detect_env \<Rightarrow> project_rules \<Rightarrow> string \<Rightarrow> release_observation \<Rightarrow> string \<Rightarrow> (string \<times> assessment) list" where
  "review_cancelled_release de rules p w reason =
     (if p = [] \<or> ro_player_id w \<noteq> p then []
      else [(''THROW_001'', (window_assessment de (Some w) rules)\<lparr>as_kind := mech_throw, as_reason := reason,
        as_limitations := [''The sampled held-to-free transition was not confirmed; no throw event or physics violation was inferred.'']\<rparr>)])"

section \<open>Loops that report assessments\<close>

type_synonym ('a, 's) review_step = "'a \<Rightarrow> 's \<Rightarrow> (string \<times> assessment) list \<times> 's"

fun review_over :: "('a, 's) review_step \<Rightarrow> 'a list \<Rightarrow> 's \<Rightarrow> (string \<times> assessment) list \<times> 's" where
  "review_over step [] s = ([], s)"
| "review_over step (x # xs) s = (let (rs, s) = step x s; (rest, s) = review_over step xs s in (rs @ rest, s))"

definition shot_player_limit :: nat where "shot_player_limit = 16"

section \<open>THROW_005\<close>

definition corr_min_pairs :: nat where "corr_min_pairs = 30"
definition corr_history :: int where "corr_history = 50"
definition corr_z95 :: f64 where "corr_z95 = flit (1959964 / 10 ^ 6)"

record shot_sample =
  sx_frame :: int
  sx_speed :: f64
  sx_deviation :: f64
  sx_has_direction :: bool
  sx_raw :: raw_sample

record shot_history =
  sy_last_frame :: int
  sy_last_time :: f64
  sy_last_release :: int
  sy_source :: "observation_context option"
  sy_samples :: "shot_sample list"

definition new_history :: shot_history where
  "new_history = \<lparr>sy_last_frame = - 1, sy_last_time = Fin 0, sy_last_release = - 1, sy_source = None, sy_samples = []\<rparr>"

type_synonym throw005 = "(string, shot_history) gomap"

definition throw005_base :: base where
  "throw005_base = \<lparr>bd_id = ''THROW_005'', bd_version = ''2.1.0'', bd_name = ''Shot Targeting Review'', bd_category = ''throw'',
     bd_inputs = [''throw_event''], bd_warmup = 0, bd_weight = Fin 0, bd_auto = False\<rparr>"

definition new_throw005 :: "params \<Rightarrow> throw005 instance_of" where
  "new_throw005 ps = \<lparr>in_base = throw005_base, in_made = 0, in_state = []\<rparr>"

definition pearson_correlation :: "(f64 \<times> f64) list \<Rightarrow> f64 option" where
  "pearson_correlation ps =
     (if length ps < 3 \<or> list_ex (\<lambda>(x, y). \<not> f_finite x \<or> \<not> f_finite y) ps then None
      else
        let n = count_of ps; sx = sum_of (map fst ps); sy = sum_of (map snd ps); sxy = sum_of (map (\<lambda>(x, y). fmul x y) ps);
            sx2 = sum_of (map (\<lambda>(x, y). fmul x x) ps); sy2 = sum_of (map (\<lambda>(x, y). fmul y y) ps);
            var_x = fsub (fmul n sx2) (fmul sx sx); var_y = fsub (fmul n sy2) (fmul sy sy);
            r = fdiv (fsub (fmul n sxy) (fmul sx sy)) (fsqrt (fmul var_x var_y))
        in if flt var_x degenerate_floor \<or> flt var_y degenerate_floor \<or> \<not> f_finite r then None
           else Some (clamp r (Fin (- 1)) (Fin 1)))"

definition correlation_upper :: "detect_env \<Rightarrow> (f64 \<times> f64) list \<Rightarrow> (f64 \<times> f64) option" where
  "correlation_upper de ps = (case pearson_correlation ps of None \<Rightarrow> None
     | Some r \<Rightarrow>
         if length ps < 4 then None
         else
           let z = de_atanh de (clamp r (flit (- 999999 / 10 ^ 6)) (flit (999999 / 10 ^ 6)));
               upper = de_tanh de (fadd z (fdiv corr_z95 (fsqrt (fsub (count_of ps) (Fin 3)))))
           in if f_finite upper then Some (r, upper) else None)"

definition shot_goal :: "throw_event \<Rightarrow> vec3" where
  "shot_goal t = (case te_target_position (te_goal t) of
     Some g \<Rightarrow> if v_is_zero (te_goal_position (te_goal t)) then g else te_goal_position (te_goal t)
   | None \<Rightarrow> te_goal_position (te_goal t))"

definition shot_sample_of :: "detect_env \<Rightarrow> throw_event \<Rightarrow> shot_sample" where
  "shot_sample_of de t =
     (let r = te_release t; goal = shot_goal t; pos = te_release_position r; vel = te_release_velocity r; speed = te_release_speed r;
          raw = (raw_at (te_frame_index t) (te_timestamp t))\<lparr>rs_role := ''supporting_release'', rs_event := release_event_id de (te_release_window t),
            rs_disc_position := mech_vector pos, rs_disc_velocity := mech_vector vel, rs_speed := Some speed, rs_attachment := ''free''\<rparr>;
          s = \<lparr>sx_frame = te_frame_index t, sx_speed = speed, sx_deviation = Fin 0, sx_has_direction = False, sx_raw = raw\<rparr>
      in if \<not> v_is_zero goal \<and> \<not> v_bad goal \<and> \<not> v_bad pos \<and> \<not> v_bad vel \<and> flt (Fin 0) (v_magnitude vel) \<and> flt (Fin 0) (v_distance goal pos)
         then let dev = rad_to_deg (v_angle_between (de_acos de) vel (v_sub goal pos)) in
           s\<lparr>sx_deviation := dev, sx_has_direction := f_finite dev,
             sx_raw := (if f_finite dev then raw\<lparr>rs_goal := mech_vector goal\<rparr> else raw)\<rparr>
         else s)"

definition shot_limitations :: "string list" where
  "shot_limitations = [''Accuracy alone does not establish targeting assistance, a settings violation or an illegal release.'',
     ''Goal/pocket dimensions, unobstructed goal-plane intersection and bank-shot geometry are not verified here.'',
     ''Direction-to-reported-goal statistics are supporting context, not made-goal accuracy or a calibrated human-variance limit.'',
     ''These bounded sampled releases are not independently validated calibration opportunities; source reports do not establish authority.'',
     ''Supporting-release raw samples describe the bounded statistics window, not additional violations; inferred reference goals are not verified pocket geometry.'']"

definition cut_context :: "nat \<Rightarrow> assessment \<Rightarrow> assessment" where
  "cut_context limit r =
     (if length (as_samples r) \<le> limit then r
      else put_metric ''context_raw_samples_omitted'' (fadd (gz (Fin 0) (as_metrics r) ''context_raw_samples_omitted'')
        (f_of_int (int (length (as_samples r) - limit)))) (r\<lparr>as_samples := take limit (as_samples r)\<rparr>))"

definition shot_statistics :: "detect_env \<Rightarrow> shot_sample list \<Rightarrow> (string \<times> f64) list" where
  "shot_statistics de ss =
     (let directed = filter sx_has_direction ss; devs = map sx_deviation directed; pairs = map (\<lambda>s. (sx_speed s, sx_deviation s)) directed in
      [(''direction_sample_count'', count_of devs)] @
      (if devs = [] then []
       else [(''mean_reported_goal_direction_deg'', mean devs), (''stddev_reported_goal_direction_deg'', std_dev devs),
         (''min_reported_goal_direction_deg'', min_float devs), (''max_reported_goal_direction_deg'', max_float devs)]) @
      (if length pairs < corr_min_pairs then []
       else (case correlation_upper de pairs of None \<Rightarrow> []
         | Some (r, upper) \<Rightarrow> [(''speed_direction_correlation'', r), (''correlation_upper_95_ci'', upper)])))"

definition shot_assessment :: "detect_env \<Rightarrow> match_context \<Rightarrow> tracked \<Rightarrow> throw_event \<Rightarrow> bool \<Rightarrow> shot_sample list \<Rightarrow> assessment" where
  "shot_assessment de mc ps t known ss =
     (let r = (assess_release de mc ps t mech_shot)\<lparr>as_limitations := shot_limitations\<rparr>;
          r = (if known then r\<lparr>as_reason := ''shot_targeting_supporting_context''\<rparr> else r);
          r = cut_context (max_raw_samples - length ss) (put_metric ''observed_release_count'' (count_of ss) r);
          r = (case ss of [] \<Rightarrow> r
             | s # _ \<Rightarrow> let e = sx_raw (List.last ss) in put_metrics [(''support_start_frame'', f_of_int (rs_frame (sx_raw s))),
                 (''support_end_frame'', f_of_int (rs_frame e)), (''support_start_time_s'', rs_time (sx_raw s)), (''support_end_time_s'', rs_time e)] r)
      in put_metrics (shot_statistics de ss) (r\<lparr>as_samples := as_samples r @ map sx_raw ss\<rparr>))"

definition see_source :: "int \<Rightarrow> tracked \<Rightarrow> shot_history \<Rightarrow> shot_history" where
  "see_source f ps h0 =
     (let same = (sy_source h0 = None \<and> ps_observation ps = None \<or> same_source (sy_source h0) (ps_observation ps));
          h = (if 0 \<le> sy_last_frame h0 \<and> (f < sy_last_frame h0 \<or> \<not> same \<or> flt (ps_last_timestamp ps) (sy_last_time h0)) then new_history else h0)
      in h\<lparr>sy_last_frame := f, sy_last_time := ps_last_timestamp ps, sy_source := ps_observation ps\<rparr>)"

definition throw005_step :: "detect_env \<Rightarrow> match_context \<Rightarrow> int \<Rightarrow> (tracked, throw005) review_step" where
  "throw005_step de mc f ps d =
     (let i = ps_player_id ps; h = see_source f ps (gz new_history d i); put = (\<lambda>h. AList.update i h d) in
      case throw_at ps f of None \<Rightarrow> ([], put h)
      | Some t \<Rightarrow>
          if te_release_window t = None \<or> te_frame_index t \<le> sy_last_release h then ([], put h)
          else
            let speed = te_release_speed (te_release t); known = (release_known ps t \<and> f_finite speed \<and> fle (Fin 0) speed);
                ss = (if known then push corr_history (shot_sample_of de t) (sy_samples h) else sy_samples h)
            in ([(i, shot_assessment de mc ps t known ss)], put (h\<lparr>sy_last_release := te_frame_index t, sy_samples := ss\<rparr>)))"

definition throw005_review :: "detect_env \<Rightarrow> match_context \<Rightarrow> (string, tracked) gomap \<Rightarrow> int \<Rightarrow> throw005 \<Rightarrow> (string \<times> assessment) list \<times> throw005" where
  "throw005_review de mc pls f d =
     (let active = active_players pls f in
      if shot_player_limit < length active then ([], [])
      else let (rs, d) = review_over (throw005_step de mc f) active d in (rs, gfilter (\<lambda>i _. i \<in> fst ` set pls) d))"

definition throw005_evaluate :: "detect_env \<Rightarrow> match_context \<Rightarrow> (string, tracked) gomap \<Rightarrow> int \<Rightarrow> throw005 instance_of \<Rightarrow> detection_event list \<times> throw005 instance_of" where
  "throw005_evaluate de mc pls f = run_instance (\<lambda>b n d. ([], snd (throw005_review de mc pls f d)))"

section \<open>THROW_006\<close>

definition min_violation_frames :: int where "min_violation_frames = 5"
definition min_tracked_frames :: int where "min_tracked_frames = 5"
definition inelastic_speed_ratio :: f64 where "inelastic_speed_ratio = Fin (3/4)"
definition inelastic_min_angle :: f64 where "inelastic_min_angle = Fin 2"
definition elastic_bounce_angle :: f64 where "elastic_bounce_angle = Fin 15"
definition deflection_ratio :: f64 where "deflection_ratio = flit (115/100)"
definition deflection_min_angle :: f64 where "deflection_min_angle = Fin 8"

record flight_sample =
  fs_frame :: int
  fs_time :: f64
  fs_position :: vec3
  fs_velocity :: vec3
  fs_bounce :: int
  fs_source :: "observation_context option"

definition no_flight :: flight_sample where
  "no_flight = \<lparr>fs_frame = 0, fs_time = Fin 0, fs_position = 0, fs_velocity = 0, fs_bounce = 0, fs_source = None\<rparr>"

record flight_track =
  fk_thrower :: string
  fk_release_frame :: int
  fk_release_pos :: vec3
  fk_assessment :: assessment
  fk_previous :: flight_sample
  fk_cumulative :: f64
  fk_max_angle :: f64
  fk_violations :: int
  fk_frames :: int

record throw006 =
  w6_min_change :: f64
  w6_max_cumulative :: f64
  w6_min_dist :: f64
  w6_post_frames :: int
  w6_tracks :: "(string, flight_track) gomap"
  w6_last_release :: "(string, int) gomap"

definition throw006_base :: base where
  "throw006_base = \<lparr>bd_id = ''THROW_006'', bd_version = ''2.0.0'', bd_name = ''Free-flight Trajectory Review'', bd_category = ''throw'',
     bd_inputs = [''disc_state'', ''disc_attachment''], bd_warmup = 0, bd_weight = Fin 0, bd_auto = False\<rparr>"

definition flight_bound :: "f64 \<Rightarrow> f64 \<Rightarrow> f64 \<Rightarrow> f64 \<Rightarrow> f64" where
  "flight_bound v lo hi fallback = (if \<not> f_finite v \<or> flt v lo \<or> flt hi v then fallback else v)"

definition throw006_configure :: "params \<Rightarrow> throw006 \<Rightarrow> throw006" where
  "throw006_configure ps d =
     (let k = get_int ps ''post_release_frames'' (w6_post_frames d) in
      d\<lparr>w6_min_change := flight_bound (get_float ps ''min_trajectory_change'' (w6_min_change d)) (flit (1/10)) (Fin 180) (Fin 8),
        w6_max_cumulative := flight_bound (get_float ps ''max_cumulative_change'' (w6_max_cumulative d)) (Fin 1) (Fin 3600) (Fin 130),
        w6_min_dist := flight_bound (get_float ps ''min_distance_from_thrower'' (w6_min_dist d)) (Fin 0) (Fin 20) (Fin 2),
        w6_post_frames := (if k < 5 \<or> 120 < k then 15 else k)\<rparr>)"

definition throw006_reset :: "throw006 \<Rightarrow> throw006" where
  "throw006_reset d = d\<lparr>w6_tracks := [], w6_last_release := []\<rparr>"

definition new_throw006 :: "params \<Rightarrow> throw006 instance_of" where
  "new_throw006 ps = \<lparr>in_base = throw006_base, in_made = 0, in_state = throw006_configure ps
     \<lparr>w6_min_change = Fin 8, w6_max_cumulative = Fin 130, w6_min_dist = Fin 2, w6_post_frames = 15, w6_tracks = [], w6_last_release = []\<rparr>\<rparr>"

text \<open>The one free-disc sample all players agree on, or why there is none; and what was read before the reason arose.\<close>

definition flight_error :: "int \<Rightarrow> nat \<Rightarrow> tracked \<Rightarrow> string option" where
  "flight_error f roster ps =
     (case ps_current_disc ps of None \<Rightarrow> Some ''trajectory_attachment_unknown''
      | Some dc \<Rightarrow>
          if \<not> da_known (ds_attachment dc) then Some ''trajectory_attachment_unknown''
          else if \<not> da_free (ds_attachment dc) then Some ''trajectory_disc_held''
          else if th_disc_attachment (pl_throws ps) \<noteq> None \<and> th_disc_attachment (pl_throws ps) \<noteq> ds_attachment dc then Some ''trajectory_attachment_unknown''
          else if (case ds_bounce_count dc of None \<Rightarrow> True | Some k \<Rightarrow> k < 0) then Some ''trajectory_contact_unavailable''
          else if v_bad (ds_position dc) \<or> v_bad (ds_velocity dc) \<or> \<not> f_finite (ps_last_timestamp ps) \<or> flt (ps_last_timestamp ps) (Fin 0)
          then Some ''trajectory_motion_unavailable''
          else if \<not> oc_valid (ps_observation ps) \<or> (case ps_observation ps of None \<Rightarrow> True
            | Some c \<Rightarrow> oc_frame_index c \<noteq> f \<or> \<not> feq (oc_timestamp c) (ps_last_timestamp ps)) then Some ''trajectory_source_unavailable''
          else if ds_sampled_player_count dc \<noteq> int roster then Some ''trajectory_roster_unavailable''
          else None)"

definition flight_of :: "int \<Rightarrow> tracked \<Rightarrow> flight_sample" where
  "flight_of f ps = (case ps_current_disc ps of None \<Rightarrow> no_flight
     | Some dc \<Rightarrow> \<lparr>fs_frame = f, fs_time = ps_last_timestamp ps, fs_position = ds_position dc, fs_velocity = ds_velocity dc,
         fs_bounce = (case ds_bounce_count dc of None \<Rightarrow> 0 | Some k \<Rightarrow> k), fs_source = ps_observation ps\<rparr>)"

definition flight_agrees :: "flight_sample \<Rightarrow> flight_sample \<Rightarrow> bool" where
  "flight_agrees a b \<longleftrightarrow> fs_position b = fs_position a \<and> fs_velocity b = fs_velocity a \<and> fs_bounce b = fs_bounce a \<and>
     feq (fs_time b) (fs_time a) \<and> same_source (fs_source a) (fs_source b)"

fun read_flight_from :: "int \<Rightarrow> nat \<Rightarrow> flight_sample option \<Rightarrow> tracked list \<Rightarrow> flight_sample \<times> string" where
  "read_flight_from f roster out [] = (case out of None \<Rightarrow> no_flight | Some s \<Rightarrow> s, [])"
| "read_flight_from f roster out (ps # pss) =
     (let so_far = (case out of None \<Rightarrow> no_flight | Some s \<Rightarrow> s); s = flight_of f ps in
      case flight_error f roster ps of Some e \<Rightarrow> (so_far, e)
      | None \<Rightarrow> (case out of None \<Rightarrow> read_flight_from f roster (Some s) pss
          | Some a \<Rightarrow> if flight_agrees a s then read_flight_from f roster (Some a) pss else (a, ''trajectory_snapshot_conflict'')))"

definition read_flight :: "tracked list \<Rightarrow> int \<Rightarrow> flight_sample \<times> string" where
  "read_flight pss f = (if pss = [] then (no_flight, ''trajectory_roster_unavailable'') else read_flight_from f (length pss) None pss)"

definition flight_raw :: "flight_sample \<Rightarrow> raw_sample" where
  "flight_raw s = (raw_at (fs_frame s) (fs_time s))\<lparr>rs_role := ''flight_sample'', rs_disc_position := mech_vector (fs_position s),
     rs_disc_velocity := mech_vector (fs_velocity s), rs_bounce := Some (fs_bounce s), rs_attachment := ''free''\<rparr>"

definition append_flight :: "flight_sample \<Rightarrow> assessment \<Rightarrow> bool \<times> assessment" where
  "append_flight s r =
     (if length (as_samples r) < max_raw_samples then (True, r\<lparr>as_samples := as_samples r @ [flight_raw s]\<rparr>)
      else (False, put_metric ''raw_samples_omitted'' (fadd (gz (Fin 0) (as_metrics r) ''raw_samples_omitted'') (Fin 1)) r))"

definition inspection_metrics :: "raw_sample list \<Rightarrow> (string \<times> f64) list" where
  "inspection_metrics ss = (case ss of [] \<Rightarrow> []
     | s # _ \<Rightarrow> let e = List.last ss in [(''inspection_start_frame'', f_of_int (rs_frame s)), (''inspection_start_time_s'', rs_time s),
         (''inspection_end_frame'', f_of_int (rs_frame e)), (''inspection_end_time_s'', rs_time e)])"

definition finished_assessment :: "throw006 \<Rightarrow> flight_track \<Rightarrow> string \<Rightarrow> bool \<Rightarrow> assessment" where
  "finished_assessment d t reason whole =
     (let r0 = fk_assessment t; inspected = filter (\<lambda>s. rs_role s = ''flight_sample'') (as_samples r0);
          r = put_metrics ([(''tracked_free_samples'', f_of_int (fk_frames t)), (''sampled_cumulative_turn_deg'', fk_cumulative t),
            (''sampled_max_turn_deg'', fk_max_angle t), (''above_filter_sample_count'', f_of_int (fk_violations t)),
            (''sample_turn_filter_deg'', w6_min_change d), (''cumulative_turn_filter_deg'', w6_max_cumulative d),
            (''min_distance_from_release_m'', w6_min_dist d), (''configured_post_release_frames'', f_of_int (w6_post_frames d))] @
            inspection_metrics inspected @ [(''inspection_sample_count'', count_of inspected)] @
            (if fle (as_time r0) (fs_time (fk_previous t)) then [(''observed_free_duration_s'', fsub (fs_time (fk_previous t)) (as_time r0))] else []))
            (because reason r0)
      in if whole \<and> min_violation_frames \<le> fk_violations t \<and> min_tracked_frames \<le> fk_frames t \<and> flt (w6_max_cumulative d) (fk_cumulative t)
         then conclude mech_anomaly ''trajectory_sampled_bend_anomaly'' r else r)"

definition finish_flight :: "string \<Rightarrow> string \<Rightarrow> bool \<Rightarrow> throw006 \<Rightarrow> (string \<times> assessment) list \<times> throw006" where
  "finish_flight i reason whole d = (case map_of (w6_tracks d) i of None \<Rightarrow> ([], d)
     | Some t \<Rightarrow> ([(i, finished_assessment d t reason whole)], d\<lparr>w6_tracks := AList.delete i (w6_tracks d)\<rparr>))"

definition cancel_flights :: "string \<Rightarrow> throw006 \<Rightarrow> (string \<times> assessment) list \<times> throw006" where
  "cancel_flights reason d = review_over (\<lambda>i. finish_flight i reason False) (map fst (by_id (w6_tracks d))) d"

text \<open>Whether two free samples in a row rule out a contact between them: not when the disc turns or speeds up too much.\<close>

definition contact_possible :: "f64 \<Rightarrow> f64 \<Rightarrow> bool" where
  "contact_possible ratio angle \<longleftrightarrow> \<not> f_finite angle \<or> flt ratio inelastic_speed_ratio \<and> flt inelastic_min_angle angle \<or>
     flt elastic_bounce_angle angle \<or> flt deflection_ratio ratio \<and> flt deflection_min_angle angle"

definition turn_angle :: "detect_env \<Rightarrow> vec3 \<Rightarrow> vec3 \<Rightarrow> f64" where
  "turn_angle de a b = rad_to_deg (v_angle_between (de_acos de) a b)"

definition flight_break :: "detect_env \<Rightarrow> flight_sample \<Rightarrow> flight_sample \<Rightarrow> string option" where
  "flight_break de prev s =
     (let dt = fsub (fs_time s) (fs_time prev); u = v_magnitude (fs_velocity prev); v = v_magnitude (fs_velocity s) in
      if fs_frame s \<noteq> fs_frame prev + 1 \<or> \<not> f_finite dt \<or> fle dt (Fin 0) \<or> flt (flit (2/10)) dt then Some ''trajectory_sample_gap''
      else if \<not> same_source (fs_source prev) (fs_source s) then Some ''trajectory_source_changed''
      else if fs_bounce s \<noteq> fs_bounce prev then Some ''trajectory_contact_observed''
      else if \<not> f_finite u \<or> \<not> f_finite v \<or> fle u (flit (1/10)) \<or> fle v (flit (1/10)) then Some ''trajectory_motion_unavailable''
      else if contact_possible (fdiv v u) (turn_angle de (fs_velocity prev) (fs_velocity s)) then Some ''trajectory_contact_possible''
      else None)"

definition advance_flight :: "detect_env \<Rightarrow> throw006 \<Rightarrow> flight_sample \<Rightarrow> flight_track \<Rightarrow> flight_track" where
  "advance_flight de d s t =
     (let angle = turn_angle de (fs_velocity (fk_previous t)) (fs_velocity s); t = t\<lparr>fk_previous := s\<rparr> in
      if fle (w6_min_dist d) (v_distance (fs_position s) (fk_release_pos t))
      then t\<lparr>fk_frames := fk_frames t + 1, fk_cumulative := fadd (fk_cumulative t) angle, fk_max_angle := fmax (fk_max_angle t) angle,
        fk_violations := (if flt (w6_min_change d) angle then fk_violations t + 1 else fk_violations t)\<rparr>
      else t)"

definition follow_flight :: "detect_env \<Rightarrow> (string, tracked) gomap \<Rightarrow> int \<Rightarrow> flight_sample \<Rightarrow> string \<Rightarrow> (string, throw006) review_step" where
  "follow_flight de pls f s reason i d =
     (case map_of (w6_tracks d) i of None \<Rightarrow> ([], d)
      | Some t \<Rightarrow>
          let released = Option.bind (map_of pls i) (\<lambda>ps. throw_at ps f); prev = fk_previous t in
          if reason \<noteq> [] then finish_flight i reason False d
          else if (case released of None \<Rightarrow> False | Some x \<Rightarrow> te_frame_index x \<noteq> fk_release_frame t)
          then finish_flight i ''trajectory_release_replaced'' False d
          else if s = prev then ([], d)
          else (case flight_break de prev s of Some e \<Rightarrow> finish_flight i e False d
            | None \<Rightarrow>
                let (kept, r) = append_flight s (fk_assessment t); t = t\<lparr>fk_assessment := r\<rparr>; put = (\<lambda>t. d\<lparr>w6_tracks := AList.update i t (w6_tracks d)\<rparr>) in
                if \<not> kept then finish_flight i ''trajectory_evidence_capacity'' False (put t)
                else let d = put (advance_flight de d s t) in
                  if w6_post_frames d \<le> f - fk_release_frame t then finish_flight i ''trajectory_window_complete'' True d else ([], d)))"

definition flight_limitations :: "string list" where
  "flight_limitations = [''Sampled direction changes are not proof of in-flight steering, targeting assistance, or an unauthorized grab.'',
     ''Bend thresholds are provisional sampling filters, not verified engine bounds or independently calibrated accuracy.'',
     ''Obstacle geometry and complete authoritative contact events are unavailable; a stable bounce counter cannot prove a contact-free path.'',
     ''No goal-plane, pocket, bank-shot or best-of-two-goals targeting model is applied.'',
     ''First-free velocity and later samples are observations, not verified instantaneous launch physics.'']"

definition reserve_flight :: "throw006 \<Rightarrow> assessment \<Rightarrow> assessment" where
  "reserve_flight d r =
     (let limit = max_raw_samples - nat (w6_post_frames d) - 1 in
      if length (as_samples r) \<le> limit then r
      else let cut = cut_context limit r in cut\<lparr>as_samples := butlast (as_samples cut) @ [List.last (as_samples r)]\<rparr>)"

definition open_flight :: "detect_env \<Rightarrow> match_context \<Rightarrow> int \<Rightarrow> flight_sample \<Rightarrow> string \<Rightarrow> (tracked, throw006) review_step" where
  "open_flight de mc f s reason ps d0 =
     (let i = ps_player_id ps in
      case throw_at ps f of None \<Rightarrow> ([], d0)
      | Some t \<Rightarrow> (case te_release_window t of None \<Rightarrow> ([], d0)
         | Some w \<Rightarrow>
             if (case map_of (w6_last_release d0) i of Some k \<Rightarrow> te_frame_index t \<le> k | None \<Rightarrow> False) then ([], d0)
             else
               let r = reserve_flight d0 ((assess_release de mc ps t mech_throw)\<lparr>as_limitations := flight_limitations\<rparr>);
                   (kept, r') = append_flight s r;
                   track = \<lparr>fk_thrower = i, fk_release_frame = te_frame_index t, fk_release_pos = te_release_position (te_release t), fk_assessment = r,
                     fk_previous = s, fk_cumulative = Fin 0, fk_max_angle = Fin 0, fk_violations = 0, fk_frames = 0\<rparr>;
                   d = d0\<lparr>w6_last_release := AList.update i (te_frame_index t) (w6_last_release d0), w6_tracks := AList.update i track (w6_tracks d0)\<rparr>
               in if \<not> release_known ps t then finish_flight i ''release_observation_unavailable'' False d
                  else if reason \<noteq> [] then finish_flight i reason False d
                  else if \<not> same_source (ro_source w) (fs_source s) then finish_flight i ''trajectory_source_changed'' False d
                  else if te_possible_head_contact (te_release t) then finish_flight i ''trajectory_contact_possible'' False d
                  else let d = d\<lparr>w6_tracks := AList.update i (track\<lparr>fk_assessment := r'\<rparr>) (w6_tracks d)\<rparr> in
                    if kept then ([], d) else finish_flight i ''trajectory_evidence_capacity'' False d))"

definition forget_absent :: "tracked list \<Rightarrow> (string, throw006) review_step" where
  "forget_absent active i d =
     (if i \<in> ps_player_id ` set active then ([], d)
      else let (rs, d) = finish_flight i ''trajectory_thrower_unavailable'' False d in (rs, d\<lparr>w6_last_release := AList.delete i (w6_last_release d)\<rparr>))"

definition throw006_review :: "detect_env \<Rightarrow> match_context \<Rightarrow> (string, tracked) gomap \<Rightarrow> int \<Rightarrow> throw006 \<Rightarrow> (string \<times> assessment) list \<times> throw006" where
  "throw006_review de mc pls f d0 =
     (let active = active_players pls f in
      if shot_player_limit < length active
      then let (rs, d) = cancel_flights ''trajectory_roster_unavailable'' d0 in (rs, throw006_reset d)
      else
        let (s, reason) = read_flight active f;
            (rs, d) = review_over (follow_flight de pls f s reason) (map fst (by_id (w6_tracks d0))) d0;
            (rs', d) = review_over (open_flight de mc f s reason) active d;
            (rs'', d) = review_over (forget_absent active) (map fst (by_id (w6_last_release d))) d
        in (rs @ rs' @ rs'', d))"

definition throw006_evaluate :: "detect_env \<Rightarrow> match_context \<Rightarrow> (string, tracked) gomap \<Rightarrow> int \<Rightarrow> throw006 instance_of \<Rightarrow> detection_event list \<times> throw006 instance_of" where
  "throw006_evaluate de mc pls f = run_instance (\<lambda>b n d. ([], snd (throw006_review de mc pls f d)))"

definition throw006_reset_source :: "throw006 \<Rightarrow> (string \<times> assessment) list \<times> throw006" where
  "throw006_reset_source d = (let (rs, d) = cancel_flights ''trajectory_source_changed'' d in (rs, throw006_reset d))"

definition throw006_flush_tracks :: "throw006 \<Rightarrow> (string \<times> assessment) list \<times> throw006" where
  "throw006_flush_tracks d = cancel_flights ''trajectory_end_of_stream'' d"

end
