(* ===== verification/Detect_Speed.thy ===== *)
theory Detect_Speed
  imports Detect_Flight
begin

text \<open>
  Reported release speed (THROW_001; \<open>internal/detect/throw/throw_001.go\<close>, \<open>throw_001_samples.go\<close>): after a release the
  detector follows the disc for up to three consecutive free samples, each of them read off the whole roster, and
  reports once: corroborated when all three are above the cap, else uncorroborated, without weight.

  A track is opened by a release, extended by a frame's snapshot and closed by a reason, by its third sample, or by
  a flush. A change of source closes all tracks and keeps their events queued for the next call. What the source
  keeps in its evidence for the record only is \<open>rt_evidence\<close>.
\<close>

definition artifact_cap_multiple :: f64 where "artifact_cap_multiple = Fin 2"
definition artifact_severity :: f64 where "artifact_severity = flit (2/10)"
definition release_speed_samples :: nat where "release_speed_samples = 3"

record speed_sample =
  rq_frame :: int
  rq_time :: f64
  rq_position :: vec3
  rq_velocity :: vec3
  rq_speed :: f64
  rq_bounce :: "int option"
  rq_attachment :: string
  rq_source :: "observation_context option"

record speed_snapshot =
  sp_raw :: speed_sample
  sp_source :: "observation_context option"
  sp_reason :: string
  sp_has_disc :: bool

record release_track =
  rt_match :: string
  rt_player :: string
  rt_movement_source :: string
  rt_release_frame :: int
  rt_time :: f64
  rt_physics_cap :: f64
  rt_cap :: f64
  rt_speed :: f64
  rt_relative_speed :: f64
  rt_aligned_speed :: f64
  rt_game_throw :: "game_throw_details option"
  rt_local_status :: string
  rt_evidence :: "(string \<times> datum) list"
  rt_samples :: "speed_sample list"
  rt_attribution :: throw_attribution
  rt_last :: speed_snapshot

record throw001 =
  w1_tolerance :: f64
  w1_ping_scalar :: f64
  w1_max_ratio :: f64
  w1_steepness :: f64
  w1_artifacts :: "(string, int) gomap"
  w1_tracks :: "(string, release_track) gomap"
  w1_last_release :: "(string, int) gomap"
  w1_previous :: "speed_snapshot option"
  w1_queued :: "detection_event list"

definition throw001_base :: base where
  "throw001_base = \<lparr>bd_id = ''THROW_001'', bd_version = ''2.0.0'', bd_name = ''Reported Release Speed Review'', bd_category = ''throw'',
     bd_inputs = [''throw_event'', ''disc_state''], bd_warmup = 5, bd_weight = flit (8/10), bd_auto = False\<rparr>"

definition throw001_configure :: "params \<Rightarrow> throw001 \<Rightarrow> throw001" where
  "throw001_configure ps d = d\<lparr>w1_tolerance := get_float ps ''base_tolerance'' (w1_tolerance d),
     w1_ping_scalar := get_float ps ''ping_tolerance_scalar'' (w1_ping_scalar d), w1_max_ratio := get_float ps ''max_speed_ratio'' (w1_max_ratio d),
     w1_steepness := get_float ps ''sigmoid_steepness'' (w1_steepness d)\<rparr>"

definition throw001_reset :: "throw001 \<Rightarrow> throw001" where
  "throw001_reset d = d\<lparr>w1_artifacts := [], w1_tracks := [], w1_last_release := [], w1_previous := None, w1_queued := []\<rparr>"

definition new_throw001 :: "params \<Rightarrow> throw001 instance_of" where
  "new_throw001 ps = \<lparr>in_base = throw001_base, in_made = 0, in_state = throw001_configure ps
     \<lparr>w1_tolerance = Fin 0, w1_ping_scalar = Fin 0, w1_max_ratio = Fin 3, w1_steepness = Fin 2, w1_artifacts = [], w1_tracks = [],
      w1_last_release = [], w1_previous = None, w1_queued = []\<rparr>\<rparr>"

section \<open>Snapshots\<close>

definition evidence_source :: "observation_context option \<Rightarrow> observation_context option" where
  "evidence_source = map_option (\<lambda>c. c\<lparr>oc_source_id := []\<rparr>)"

definition blank_snapshot :: "int \<Rightarrow> speed_snapshot" where
  "blank_snapshot f = \<lparr>sp_raw = \<lparr>rq_frame = f, rq_time = Fin 0, rq_position = 0, rq_velocity = 0, rq_speed = Fin 0, rq_bounce = None,
     rq_attachment = ''unknown'', rq_source = None\<rparr>, sp_source = None, sp_reason = [], sp_has_disc = False\<rparr>"

definition usable_disc :: "tracked \<Rightarrow> bool" where
  "usable_disc ps \<longleftrightarrow> (case ps_current_disc ps of None \<Rightarrow> False | Some dc \<Rightarrow>
     \<not> (v_bad (ds_position dc) \<or> v_bad (ds_velocity dc) \<or> \<not> f_finite (ps_last_timestamp ps) \<or> flt (ps_last_timestamp ps) (Fin 0)))"

definition snapshot_disc :: "int \<Rightarrow> tracked \<Rightarrow> speed_snapshot" where
  "snapshot_disc f ps = (case ps_current_disc ps of None \<Rightarrow> blank_snapshot f
     | Some dc \<Rightarrow> \<lparr>sp_raw = \<lparr>rq_frame = f, rq_time = ps_last_timestamp ps, rq_position = ds_position dc, rq_velocity = ds_velocity dc,
         rq_speed = v_magnitude (ds_velocity dc), rq_bounce = ds_bounce_count dc,
         rq_attachment = (case ds_attachment dc of Some a \<Rightarrow> if da_known (Some a) then da_state a else ''unknown'' | None \<Rightarrow> ''unknown''),
         rq_source = evidence_source (ps_observation ps)\<rparr>, sp_source = ps_observation ps, sp_reason = [], sp_has_disc = True\<rparr>)"

fun roster_conflict :: "tracked list \<Rightarrow> string" where
  "roster_conflict [] = []"
| "roster_conflict (ps # pss) =
     (if th_has_disc (pl_throws ps) \<or> (case ps_current_disc ps of None \<Rightarrow> False
        | Some dc \<Rightarrow> ds_is_held dc \<or> ds_possession_conflict dc \<or> ds_possessor_id dc \<noteq> []) then ''release_speed_attachment_conflict''
      else if lm_head_contact (ps_legal_context ps) then ''release_speed_contact_possible''
      else roster_conflict pss)"

definition read_speed_snapshot :: "tracked list \<Rightarrow> int \<Rightarrow> speed_snapshot" where
  "read_speed_snapshot pss f =
     (let reason = snd (read_flight pss f); s = (case find usable_disc pss of None \<Rightarrow> blank_snapshot f | Some ps \<Rightarrow> snapshot_disc f ps) in
      s\<lparr>sp_reason := (if reason \<noteq> [] then ''release_speed_'' @ drop (length ''trajectory_'') reason else roster_conflict pss)\<rparr>)"

section \<open>Tracks\<close>

definition follow_break :: "detect_env \<Rightarrow> speed_snapshot \<Rightarrow> speed_snapshot \<Rightarrow> string" where
  "follow_break de prev nxt =
     (let a = sp_raw prev; b = sp_raw nxt; dt = fsub (rq_time b) (rq_time a) in
      if sp_reason nxt \<noteq> [] then sp_reason nxt
      else if rq_frame b \<noteq> rq_frame a + 1 \<or> \<not> f_finite dt \<or> fle dt (Fin 0) \<or> flt (flit (2/10)) dt then ''release_speed_sample_gap''
      else if \<not> same_source (sp_source prev) (sp_source nxt) then ''release_speed_source_changed''
      else if rq_bounce a = None \<or> rq_bounce b = None then ''release_speed_contact_unavailable''
      else if rq_bounce a \<noteq> rq_bounce b then ''release_speed_contact_observed''
      else if flt (Fin 0) (rq_speed a) \<and> flt (Fin 0) (rq_speed b) \<and>
        contact_possible (fdiv (rq_speed b) (rq_speed a)) (turn_angle de (rq_velocity a) (rq_velocity b)) then ''release_speed_contact_possible''
      else [])"

definition append_snapshot :: "detect_env \<Rightarrow> speed_snapshot \<Rightarrow> release_track \<Rightarrow> string \<times> release_track" where
  "append_snapshot de nxt t0 =
     (let prev = rt_last t0 in
      if rq_frame (sp_raw nxt) = rq_frame (sp_raw prev) then (if nxt = prev then [] else ''release_speed_conflicting_duplicate'', t0)
      else
        let t = (if sp_has_disc nxt \<and> length (rt_samples t0) < release_speed_samples then t0\<lparr>rt_samples := rt_samples t0 @ [sp_raw nxt]\<rparr> else t0);
            e = follow_break de prev nxt
        in (e, if e = [] then t\<lparr>rt_last := nxt\<rparr> else t))"

definition velocity_first_free :: string where "velocity_first_free = ''engine-reported player velocity, first free sample''"
definition velocity_last_held :: string where "velocity_last_held = ''engine-reported player velocity, last held sample''"
definition velocity_difference :: string where "velocity_difference = ''position-difference player velocity''"

definition reported_at :: "int \<Rightarrow> movement_observation list \<Rightarrow> vec3 option" where
  "reported_at f ms = (case find (\<lambda>m. mv_frame_index m = f \<and> (case mv_reported_velocity m of None \<Rightarrow> False | Some v \<Rightarrow> \<not> v_bad v)) ms of
     None \<Rightarrow> None | Some m \<Rightarrow> mv_reported_velocity m)"

definition release_player_velocity :: "throw_event \<Rightarrow> vec3 \<times> string" where
  "release_player_velocity t =
     (let otherwise = (te_player_velocity (te_release t), velocity_difference) in
      case te_release_window t of None \<Rightarrow> otherwise
      | Some w \<Rightarrow> (case reported_at (ro_end_frame w) (ro_player_movement w) of Some v \<Rightarrow> (v, velocity_first_free)
          | None \<Rightarrow> (case reported_at (ro_start_frame w) (ro_player_movement w) of Some v \<Rightarrow> (v, velocity_last_held) | None \<Rightarrow> otherwise)))"

definition effective_cap :: "match_context \<Rightarrow> throw001 \<Rightarrow> f64 \<Rightarrow> f64" where
  "effective_cap mc d ping = fadd (fadd (disc_speed_cap (mc_physics mc)) (w1_tolerance d)) (fmul (fdiv ping (Fin 1000)) (w1_ping_scalar d))"

definition observed_ping :: "tracked \<Rightarrow> f64" where
  "observed_ping ps = (let ping = st_ping_ms (pl_status ps) in if \<not> f_finite ping \<or> flt ping (Fin 0) then Fin 0 else ping)"

definition release_unusable :: "match_context \<Rightarrow> throw001 \<Rightarrow> tracked \<Rightarrow> throw_event \<Rightarrow> bool" where
  "release_unusable mc d ps t \<longleftrightarrow>
     (let r = te_release t; speed = v_magnitude (te_release_velocity r); cap = disc_speed_cap (mc_physics mc); eff = effective_cap mc d (observed_ping ps) in
      v_bad (te_release_velocity r) \<or> v_bad (te_release_position r) \<or> \<not> f_finite (te_timestamp t) \<or> flt (te_timestamp t) (Fin 0) \<or> te_frame_index t < 0 \<or>
      \<not> f_finite speed \<or> fle speed (Fin 0) \<or> \<not> f_finite cap \<or> fle cap (Fin 0) \<or> \<not> f_finite eff \<or> fle eff (Fin 0))"

definition own_throw :: "throw_event \<Rightarrow> game_throw_details option" where
  "own_throw t = (case te_game_last_throw (te_release t) of Some g \<Rightarrow> if gt_valid g then Some g else None | None \<Rightarrow> None)"

definition local_status :: "tracked \<Rightarrow> throw_event \<Rightarrow> string" where
  "local_status ps t =
     (let prov = te_game_last_throw_provenance (te_release t) in
      if own_throw t = None then ''unavailable''
      else if bound_local_throw prov (ps_player_id ps) (te_frame_index t) (te_timestamp t) \<and>
        (case te_release_window t of None \<Rightarrow> False | Some w \<Rightarrow> same_source (ro_source w) prov) then ''bound_local_client_report_unverified''
      else ''unbound_client_report'')"

definition source_datum :: "observation_context option \<Rightarrow> datum" where
  "source_datum c = (case c of None \<Rightarrow> Ditems [] | Some x \<Rightarrow> Dgroup [(''source'', Dtext (oc_source x)), (''source_id'', Dtext (oc_source_id x)),
     (''source_epoch'', Dint (int (oc_source_epoch x))), (''authority'', Dtext (oc_authority x)), (''time_basis'', Dtext (oc_time_basis x)),
     (''session_id'', Dtext (oc_session_id x)), (''source_player_id'', Dtext (oc_source_player_id x)), (''frame_index'', Dint (oc_frame_index x)),
     (''timestamp'', Dfloat (oc_timestamp x)), (''freshness'', Dtext (oc_freshness x))])"

definition game_throw_datum :: "game_throw_details \<Rightarrow> datum" where
  "game_throw_datum g = Dgroup [(''arm_speed'', Dfloat (gt_arm_speed g)), (''total_speed'', Dfloat (gt_total_speed g)),
     (''off_axis_spin_deg'', Dfloat (gt_off_axis_spin_deg g)), (''wrist_throw_penalty'', Dfloat (gt_wrist_throw_penalty g)),
     (''rot_per_sec'', Dfloat (gt_rot_per_sec g)), (''pot_speed_from_rot'', Dfloat (gt_potential_speed_from_rot g)),
     (''speed_from_arm'', Dfloat (gt_speed_from_arm g)), (''speed_from_movement'', Dfloat (gt_speed_from_movement g)),
     (''speed_from_wrist'', Dfloat (gt_speed_from_wrist g)), (''wrist_align_to_throw_deg'', Dfloat (gt_wrist_align_to_throw_deg g)),
     (''throw_align_to_movement_deg'', Dfloat (gt_throw_align_to_movement_deg g)), (''off_axis_penalty'', Dfloat (gt_off_axis_penalty g)),
     (''throw_move_penalty'', Dfloat (gt_throw_move_penalty g))]"

definition speed_evidence :: "match_context \<Rightarrow> throw001 \<Rightarrow> tracked \<Rightarrow> throw_event \<Rightarrow> (string \<times> datum) list" where
  "speed_evidence mc d ps t =
     (let r = te_release t; h = te_hand t; v = te_release_velocity r; speed = v_magnitude v; body = fst (release_player_velocity t); ping = observed_ping ps in
      [(''release_velocity'', vec_datum v), (''release_speed'', Dfloat speed), (''sampled_disc_speed'', Dfloat speed),
       (''release_position'', vec_datum (te_release_position r)), (''player_velocity'', vec_datum body), (''player_speed'', Dfloat (v_magnitude body)),
       (''aligned_movement_speed'', Dfloat (v_dot body (v_normalized v))), (''player_relative_velocity'', vec_datum (v_sub v body)),
       (''player_relative_speed'', Dfloat (v_magnitude (v_sub v body))), (''hand_velocity'', vec_datum (te_hand_velocity h)),
       (''hand_speed'', Dfloat (te_hand_speed h)), (''hand_relative_velocity'', vec_datum (te_hand_relative_velocity h)),
       (''hand_relative_speed'', Dfloat (te_hand_relative_speed h)), (''hand_kinematics_valid'', Dflag (te_hand_kinematics_valid h)),
       (''hand_attribution_confidence'', Dfloat (te_hand_attribution_confidence h)), (''hand_attribution_anchor'', Dtext (te_hand_attribution_anchor h)),
       (''effective_cap'', Dfloat (effective_cap mc d ping)), (''ping_ms'', Dfloat ping),
       (''speed_ratio'', Dfloat (if te_hand_kinematics_valid h \<and> f_finite (te_hand_speed h) \<and> fle (Fin 0) (te_hand_speed h)
          then fdiv speed (fmax (te_hand_speed h) (flit (1/100))) else Fin 0))] @
       (case own_throw t of None \<Rightarrow> []
        | Some g \<Rightarrow> [(''game_last_throw'', game_throw_datum g),
            (''game_last_throw_provenance'', source_datum (evidence_source (te_game_last_throw_provenance r)))]))"

definition new_speed_track :: "match_context \<Rightarrow> throw001 \<Rightarrow> tracked \<Rightarrow> throw_event \<Rightarrow> release_track option" where
  "new_speed_track mc d ps t =
     (if release_unusable mc d ps t then None
      else
        let r = te_release t; v = te_release_velocity r; (body, movement) = release_player_velocity t;
            source = Option.bind (te_release_window t) ro_source;
            raw = \<lparr>rq_frame = te_frame_index t, rq_time = te_timestamp t, rq_position = te_release_position r, rq_velocity = v,
              rq_speed = v_magnitude v, rq_bounce = None, rq_attachment = ''unknown'', rq_source = evidence_source source\<rparr>
        in Some \<lparr>rt_match = mc_match_id mc, rt_player = ps_player_id ps, rt_movement_source = movement, rt_release_frame = te_frame_index t,
          rt_time = te_timestamp t, rt_physics_cap = disc_speed_cap (mc_physics mc), rt_cap = effective_cap mc d (observed_ping ps),
          rt_speed = v_magnitude v, rt_relative_speed = v_magnitude (v_sub v body), rt_aligned_speed = v_dot body (v_normalized v),
          rt_game_throw = own_throw t, rt_local_status = local_status ps t, rt_evidence = speed_evidence mc d ps t, rt_samples = [raw],
          rt_attribution = te_attribution t, rt_last = \<lparr>sp_raw = raw, sp_source = source, sp_reason = [], sp_has_disc = False\<rparr>\<rparr>)"

section \<open>Events\<close>

definition above_cap :: "release_track \<Rightarrow> nat" where
  "above_cap t = length (filter (\<lambda>s. flt (rt_cap t) (rq_speed s)) (rt_samples t))"

definition local_over :: "release_track \<Rightarrow> bool" where
  "local_over t \<longleftrightarrow> rt_local_status t = ''bound_local_client_report_unverified'' \<and>
     (case rt_game_throw t of None \<Rightarrow> False | Some g \<Rightarrow> flt (rt_cap t) (gt_total_speed g))"

text \<open>How the review ends, and why.\<close>

definition speed_verdict :: "release_track \<Rightarrow> string \<Rightarrow> bool \<times> string" where
  "speed_verdict t reason =
     (if reason \<noteq> [] then (False, reason)
      else if length (rt_samples t) = release_speed_samples \<and> above_cap t = release_speed_samples then (True, ''release_speed_three_samples_above_cap'')
      else if length (rt_samples t) = release_speed_samples then (False, ''release_speed_not_sustained'')
      else (False, ''release_speed_insufficient_samples''))"

definition resolved_frame :: "release_track \<Rightarrow> int \<Rightarrow> int" where
  "resolved_frame t f = fold (\<lambda>s k. if k < rq_frame s then rq_frame s else k) (rt_samples t)
     (if f < rt_release_frame t then rq_frame (sp_raw (rt_last t)) else f)"

definition slowest :: "release_track \<Rightarrow> f64" where "slowest t = fold (\<lambda>s m. fmin m (rq_speed s)) (rt_samples t) (Inf False)"
definition fastest :: "release_track \<Rightarrow> f64" where "fastest t = fold (\<lambda>s m. fmax m (rq_speed s)) (rt_samples t) (Fin 0)"

definition sample_datum :: "speed_sample \<Rightarrow> datum" where
  "sample_datum s = Dgroup ([(''frame_index'', Dint (rq_frame s)), (''timestamp'', Dfloat (rq_time s)), (''position'', vec_datum (rq_position s)),
     (''velocity'', vec_datum (rq_velocity s)), (''speed'', Dfloat (rq_speed s))] @
     (case rq_bounce s of None \<Rightarrow> [] | Some k \<Rightarrow> [(''bounce_count'', Dint k)]) @
     [(''attachment'', Dtext (rq_attachment s)), (''source'', source_datum (rq_source s))])"

definition speed_limitations :: "string list" where
  "speed_limitations = [''Consecutive sampled speeds do not establish exact launch velocity or authoritative client physics.'',
     ''Stable bounce counters cannot rule out all slaps, head contacts or collisions; complete contact geometry is unavailable.'',
     ''The unchanged configured cap is a review reference, not an independently validated gameplay rule.'',
     ''Local last_throw is a separate client-authored report, never independent corroboration of sampled disc velocity.'']"

definition speed_review_datum :: "release_track \<Rightarrow> bool \<times> string \<Rightarrow> int \<Rightarrow> datum" where
  "speed_review_datum t verdict f = Dgroup ([(''status'', Dtext (if fst verdict then ''corroborated'' else ''uncorroborated'')), (''reason'', Dtext (snd verdict)),
     (''release_frame'', Dint (rt_release_frame t)), (''resolved_frame'', Dint (resolved_frame t f)), (''required_samples'', Dint (int release_speed_samples)),
     (''samples'', Ditems (map sample_datum (rt_samples t))), (''above_cap_samples'', Dint (int (above_cap t)))] @
     (if length (rt_samples t) = release_speed_samples then [(''median_sampled_speed'', Dfloat (sort_floats (map rq_speed (rt_samples t)) ! 1))] else []) @
     [(''local_report_status'', Dtext (rt_local_status t)), (''limitations'', Ditems (map Dtext speed_limitations))])"

definition movement_text :: "release_track \<Rightarrow> string" where
  "movement_text t =
     (if rt_movement_source t = velocity_difference
      then ''player-relative unavailable: no engine-reported player velocity; position-difference estimate '' @ fmt_f 2 (rt_relative_speed t) @
        '', aligned '' @ fmt_signed 2 (rt_aligned_speed t)
      else ''player-relative '' @ fmt_f 2 (rt_relative_speed t) @ ''; aligned movement '' @ fmt_signed 2 (rt_aligned_speed t) @ ''; '' @ rt_movement_source t)"

definition speed_observed :: "release_track \<Rightarrow> bool \<times> string \<Rightarrow> string" where
  "speed_observed t verdict =
     ''first sampled disc_speed: '' @ fmt_f 2 (rt_speed t) @ '' m/s; '' @ (if fst verdict then ''corroborated'' else ''uncorroborated'') @ '' ('' @
     itoa (int (above_cap t)) @ ''/'' @ itoa (int (length (rt_samples t))) @ '' sampled speeds above reference; '' @ snd verdict @ ''); '' @ movement_text t @
     (case rt_game_throw t of None \<Rightarrow> [] | Some g \<Rightarrow> ''; separate last_throw total '' @ fmt_f 2 (gt_total_speed g) @ '' m/s ('' @ rt_local_status t @ '')'')"

text \<open>A match of which only the name is kept, as the event of a closed track carries it.\<close>

definition match_only :: "string \<Rightarrow> match_context" where
  "match_only i = \<lparr>mc_native_capture = None, mc_match_id = i, mc_map = [], mc_game_mode = [], mc_is_ranked = False, mc_is_private = False,
     mc_start_time = 0, mc_duration = 0, mc_player_ids = [], mc_team_assignments = [], mc_player_names = [], mc_tick_rate = Fin 0, mc_source = [],
     mc_replay_file = [], mc_server_region = [], mc_server_id = [],
     mc_physics = \<lparr>disc_speed_cap = Fin 0, boost_speed_cap = Fin 0, max_player_speed = Fin 0, max_throw_speed = Fin 0, stun_duration = Fin 0,
       shield_cooldown = Fin 0, immunity_window = Fin 0, grab_range = Fin 0, arena_length = Fin 0, arena_width = Fin 0, arena_height = Fin 0,
       goal_radius = Fin 0, goal_z = Fin 0\<rparr>,
     mc_project_rules = \<lparr>rules_version = [], disc_grab_limit_m = Fin 0, fast_throw_speed_mps = Fin 0, required_movement_mps = Fin 0\<rparr>\<rparr>"

definition speed_event :: "detect_env \<Rightarrow> base \<Rightarrow> nat \<Rightarrow> int \<Rightarrow> throw001 \<Rightarrow> release_track \<Rightarrow> string \<Rightarrow> bool \<Rightarrow> int \<Rightarrow> detection_event" where
  "speed_event de b n f d t reason artifact count =
     (let verdict = speed_verdict t reason;
          sev = (if artifact \<or> \<not> fst verdict then artifact_severity else sigmoid_confidence de (slowest t) (rt_cap t) (w1_steepness d));
          mc = match_only (rt_match t);
          ev = make_event de b n mc (rt_player t) (rt_release_frame t) (rt_time t) sev (scale_by (ta_confidence (rt_attribution t)) sev)
            (evidence_of de ''throw'' ((''speed_review'', speed_review_datum t verdict f) # rt_evidence t @
              [(''artifact_suspected'', Dflag artifact), (''artifact_count'', Dint count)]))
            (speed_observed t verdict)
            (''configured disc-speed reference '' @ fmt_f 2 (rt_physics_cap t) @ '' m/s; effective reference '' @ fmt_f 2 (rt_cap t) @ '' m/s'')
            (player_key (rt_player t) (rt_release_frame t) (resolved_frame t f) (if artifact then ''disc_speed_artifact'' else ''disc_speed''))
      in ev\<lparr>auto_enforce := False, enforcement_weight := (if \<not> fst verdict \<or> artifact then Fin 0 else enforcement_weight ev),
           attribution := Some (rt_attribution t)\<rparr>)"

definition close_speed_track :: "detect_env \<Rightarrow> base \<Rightarrow> int \<Rightarrow> string \<Rightarrow> (string, throw001) step" where
  "close_speed_track de b f reason i n d0 = (case map_of (w1_tracks d0) i of None \<Rightarrow> ([], d0)
     | Some t \<Rightarrow>
         let d = d0\<lparr>w1_tracks := AList.delete i (w1_tracks d0)\<rparr> in
         if above_cap t = 0 \<and> \<not> local_over t then ([], d)
         else
           let artifact = flt (fmul (rt_physics_cap t) artifact_cap_multiple) (fastest t); k = gz 0 (w1_artifacts d) (rt_player t) + 1;
               d = (if artifact then d\<lparr>w1_artifacts := AList.update (rt_player t) k (w1_artifacts d)\<rparr> else d)
           in ([speed_event de b n f d t reason artifact (if artifact then k else 0)], d))"

definition close_all_tracks :: "detect_env \<Rightarrow> base \<Rightarrow> int \<Rightarrow> string \<Rightarrow> nat \<Rightarrow> throw001 \<Rightarrow> detection_event list \<times> throw001" where
  "close_all_tracks de b f reason n d = over (close_speed_track de b f reason) (map fst (by_id (w1_tracks d))) n d"

text \<open>A track with a reason or with all its samples is closed.\<close>

definition settle_track :: "detect_env \<Rightarrow> base \<Rightarrow> int \<Rightarrow> string \<Rightarrow> release_track \<Rightarrow> string \<Rightarrow> nat \<Rightarrow> throw001 \<Rightarrow> detection_event list \<times> throw001" where
  "settle_track de b f reason t i n d0 =
     (let d = d0\<lparr>w1_tracks := AList.update i t (w1_tracks d0)\<rparr> in
      if reason \<noteq> [] \<or> length (rt_samples t) = release_speed_samples then close_speed_track de b f reason i n d else ([], d))"

definition follow_speed :: "detect_env \<Rightarrow> base \<Rightarrow> (string, tracked) gomap \<Rightarrow> int \<Rightarrow> speed_snapshot \<Rightarrow> (string, throw001) step" where
  "follow_speed de b pls f s i n d = (case map_of (w1_tracks d) i of None \<Rightarrow> ([], d)
     | Some t \<Rightarrow>
         let (reason, t) = (case map_of pls i of
             None \<Rightarrow> (''release_speed_thrower_unavailable'', t)
           | Some ps \<Rightarrow>
               if (case throw_at ps f of None \<Rightarrow> False | Some x \<Rightarrow> te_frame_index x \<noteq> rt_release_frame t) then (''release_speed_release_replaced'', t)
               else if ps_last_frame_idx ps \<noteq> f then (''release_speed_thrower_unavailable'', t)
               else append_snapshot de s t)
         in settle_track de b f reason t i n d)"

text \<open>The first sample of a new track: the snapshot of the release frame, this one or the one before.\<close>

definition start_samples :: "detect_env \<Rightarrow> int \<Rightarrow> speed_snapshot \<Rightarrow> throw_event \<Rightarrow> release_observation \<Rightarrow> release_track \<Rightarrow> speed_snapshot \<Rightarrow> string \<times> release_track" where
  "start_samples de f s t w tr x =
     (if rq_frame (sp_raw x) \<noteq> te_frame_index t then (''release_speed_first_sample_unavailable'', tr)
      else if \<not> feq (rq_time (sp_raw x)) (te_timestamp t) \<or> rq_velocity (sp_raw x) \<noteq> te_release_velocity (te_release t) \<or>
        rq_position (sp_raw x) \<noteq> te_release_position (te_release t) then (''release_speed_first_sample_conflict'', tr)
      else if \<not> same_source (sp_source x) (ro_source w) then (''release_speed_source_changed'', tr)
      else let tr = tr\<lparr>rt_samples := [sp_raw x], rt_last := x\<rparr> in
        if sp_reason x = [] \<and> f \<noteq> te_frame_index t then append_snapshot de s tr else (sp_reason x, tr))"

definition first_sample :: "detect_env \<Rightarrow> int \<Rightarrow> speed_snapshot \<Rightarrow> speed_snapshot option \<Rightarrow> throw_event \<Rightarrow> release_track \<Rightarrow> string \<times> release_track" where
  "first_sample de f s prev t tr =
     (case te_release_window t of None \<Rightarrow> (''release_speed_source_unavailable'', tr)
      | Some w \<Rightarrow>
          if \<not> oc_valid (ro_source w) then (''release_speed_source_unavailable'', tr)
          else if te_possible_head_contact (te_release t) then (''release_speed_contact_possible'', tr)
          else (case (if rq_frame (sp_raw s) = te_frame_index t then Some s else prev) of
              None \<Rightarrow> (''release_speed_first_sample_unavailable'', tr)
            | Some x \<Rightarrow> start_samples de f s t w tr x))"

definition open_speed :: "detect_env \<Rightarrow> base \<Rightarrow> match_context \<Rightarrow> int \<Rightarrow> speed_snapshot \<Rightarrow> (tracked, throw001) step" where
  "open_speed de b mc f s ps n d0 =
     (let i = ps_player_id ps in
      case throw_at ps f of None \<Rightarrow> ([], d0)
      | Some t \<Rightarrow>
          if (case map_of (w1_last_release d0) i of Some k \<Rightarrow> te_frame_index t \<le> k | None \<Rightarrow> False) then ([], d0)
          else let d = d0\<lparr>w1_last_release := AList.update i (te_frame_index t) (w1_last_release d0)\<rparr> in
            (case new_speed_track mc d ps t of None \<Rightarrow> ([], d)
             | Some tr \<Rightarrow> let (reason, tr) = first_sample de f s (w1_previous d) t tr in settle_track de b f reason tr i n d))"

definition throw001_frame :: "detect_env \<Rightarrow> base \<Rightarrow> match_context \<Rightarrow> (string, tracked) gomap \<Rightarrow> int \<Rightarrow> nat \<Rightarrow> throw001 \<Rightarrow> detection_event list \<times> throw001" where
  "throw001_frame de b mc pls f n d0 =
     (let active = active_players pls f in
      if shot_player_limit < length active
      then let (evs, d) = close_all_tracks de b f ''release_speed_roster_unavailable'' n d0 in (evs, d\<lparr>w1_previous := None, w1_last_release := []\<rparr>)
      else
        let s = read_speed_snapshot active f;
            (evs, d) = over (follow_speed de b pls f s) (map fst (by_id (w1_tracks d0))) n d0;
            (more_evs, d) = over (open_speed de b mc f s) active (n + length evs) d
        in (evs @ more_evs, d\<lparr>w1_previous := Some s, w1_last_release := gfilter (\<lambda>i _. i \<in> ps_player_id ` set active) (w1_last_release d)\<rparr>))"

text \<open>Every answer starts with what a change of source left queued.\<close>

definition drain_queue :: "(nat \<Rightarrow> throw001 \<Rightarrow> detection_event list \<times> throw001) \<Rightarrow> nat \<Rightarrow> throw001 \<Rightarrow> detection_event list \<times> throw001" where
  "drain_queue g n d = (let q = w1_queued d; (evs, d) = g (n + length q) (d\<lparr>w1_queued := []\<rparr>) in (q @ evs, d))"

definition throw001_evaluate :: "detect_env \<Rightarrow> match_context \<Rightarrow> (string, tracked) gomap \<Rightarrow> int \<Rightarrow> throw001 instance_of \<Rightarrow> detection_event list \<times> throw001 instance_of" where
  "throw001_evaluate de mc pls f = run_instance (\<lambda>b. drain_queue (throw001_frame de b mc pls f))"

definition throw001_flush :: "detect_env \<Rightarrow> string \<Rightarrow> int \<Rightarrow> throw001 instance_of \<Rightarrow> detection_event list \<times> throw001 instance_of" where
  "throw001_flush de reason f = run_instance (\<lambda>b. drain_queue (\<lambda>n d.
     let (evs, d) = close_all_tracks de b f reason n d in (evs, d\<lparr>w1_previous := None\<rparr>)))"

definition throw001_flush_phase :: "detect_env \<Rightarrow> match_context \<Rightarrow> int \<Rightarrow> throw001 instance_of \<Rightarrow> detection_event list \<times> throw001 instance_of" where
  "throw001_flush_phase de mc f = throw001_flush de ''release_speed_inactive_phase'' f"

definition throw001_flush_source :: "detect_env \<Rightarrow> match_context \<Rightarrow> int \<Rightarrow> throw001 instance_of \<Rightarrow> detection_event list \<times> throw001 instance_of" where
  "throw001_flush_source de mc f = throw001_flush de ''release_speed_source_changed'' f"

definition throw001_flush_tracks :: "detect_env \<Rightarrow> match_context \<Rightarrow> int \<Rightarrow> throw001 instance_of \<Rightarrow> detection_event list \<times> throw001 instance_of" where
  "throw001_flush_tracks de mc f = throw001_flush de ''release_speed_end_of_stream'' f"

definition throw001_reset_source :: "detect_env \<Rightarrow> throw001 instance_of \<Rightarrow> throw001 instance_of" where
  "throw001_reset_source de x =
     (let d0 = in_state x; (evs, d) = close_all_tracks de (in_base x) (- 1) ''release_speed_source_changed'' (in_made x + length (w1_queued d0)) d0
      in x\<lparr>in_state := d\<lparr>w1_queued := w1_queued d @ evs, w1_previous := None, w1_last_release := []\<rparr>\<rparr>)"

end
