(* ===== verification/Detect_Grab.thy ===== *)
theory Detect_Grab
  imports Detect_Flight
begin

text \<open>
  Grab geometry review (STATE_001; \<open>internal/detect/state/state_001.go\<close>): whenever the disc passes to a player between
  two consecutive samples, from free or from another holder, one assessment is reported, with the distances the two
  samples show. It makes no events, and without knowledge of the engine its conclusion is always open.
\<close>

definition grab_player_limit :: nat where "grab_player_limit = 16"

record grab_review =
  gv_raw :: raw_sample
  gv_attachment :: "disc_attachment option"
  gv_observation :: "observation_context option"

type_synonym state001 = "(string, grab_review) gomap"

definition state001_base :: base where
  "state001_base = \<lparr>bd_id = ''STATE_001'', bd_version = ''3.0.1'', bd_name = ''Disc Grab Geometry Review'', bd_category = ''state'',
     bd_inputs = [''disc_attachment'', ''hand_tracking'', ''disc_state''], bd_warmup = 0, bd_weight = Fin 0, bd_auto = False\<rparr>"

definition new_state001 :: "params \<Rightarrow> state001 instance_of" where
  "new_state001 ps = \<lparr>in_base = state001_base, in_made = 0, in_state = []\<rparr>"

section \<open>Samples\<close>

definition grab_vector :: "vec3 \<Rightarrow> bool \<Rightarrow> vec3 option" where
  "grab_vector v zero_unavailable = (if v_has_nan v \<or> v_has_inf v \<or> zero_unavailable \<and> v_is_zero v then None else Some v)"

definition shown_attachment :: "tracked \<Rightarrow> disc_attachment option" where
  "shown_attachment ps =
     (let own = th_disc_attachment (pl_throws ps) in
      case ps_current_disc ps of None \<Rightarrow> own
      | Some dc \<Rightarrow> if own = None then ds_attachment dc else if ds_attachment dc \<noteq> None \<and> own \<noteq> ds_attachment dc then None else own)"

definition held_text :: "(hand_attachments \<Rightarrow> string option) \<Rightarrow> tracked \<Rightarrow> string" where
  "held_text side ps = (case Option.bind (th_held_items (pl_throws ps)) side of None \<Rightarrow> [] | Some s \<Rightarrow> s)"

definition read_grab_review :: "tracked \<Rightarrow> int \<Rightarrow> grab_review" where
  "read_grab_review ps f =
     (let att = shown_attachment ps; dc = ps_current_disc ps in
      \<lparr>gv_raw = (raw_at f (ps_last_timestamp ps))\<lparr>
         rs_disc_position := Option.bind dc (\<lambda>x. grab_vector (ds_position x) False),
         rs_disc_velocity := Option.bind dc (\<lambda>x. grab_vector (ds_velocity x) False),
         rs_left_hand := grab_vector (h_position (pl_left ps)) True, rs_right_hand := grab_vector (h_position (pl_right ps)) True,
         rs_player_position := grab_vector (pl_position ps) True, rs_player_velocity := grab_vector (kn_velocity (pl_kin ps)) False,
         rs_reported_velocity := (if kn_has_reported_velocity (pl_kin ps) then grab_vector (kn_reported_velocity (pl_kin ps)) False else None),
         rs_attachment := (case att of Some a \<Rightarrow> if da_known att then da_state a else ''unknown'' | None \<Rightarrow> ''unknown''),
         rs_left_holding := held_text ha_left ps, rs_right_holding := held_text ha_right ps\<rparr>,
       gv_attachment = att, gv_observation = ps_observation ps\<rparr>)"

text \<open>The same snapshot again: equal field by field, where a NaN equals nothing.\<close>

definition same_snapshot :: "grab_review \<Rightarrow> grab_review \<Rightarrow> bool" where
  "same_snapshot a b \<longleftrightarrow> a = b \<and> \<not> is_nan (rs_time (gv_raw a)) \<and>
     (case gv_observation a of None \<Rightarrow> True | Some c \<Rightarrow> \<not> is_nan (oc_timestamp c))"

definition observed_as_sampled :: "grab_review \<Rightarrow> bool" where
  "observed_as_sampled s \<longleftrightarrow> (case gv_observation s of None \<Rightarrow> False
     | Some c \<Rightarrow> oc_frame_index c = rs_frame (gv_raw s) \<and> feq (oc_timestamp c) (rs_time (gv_raw s)))"

definition grab_continuous :: "grab_review \<Rightarrow> grab_review \<Rightarrow> bool" where
  "grab_continuous prev now \<longleftrightarrow>
     (let t = rs_time (gv_raw prev); dt = fsub (rs_time (gv_raw now)) t in
      rs_frame (gv_raw now) = rs_frame (gv_raw prev) + 1 \<and> f_finite dt \<and> \<not> fle dt (Fin 0) \<and> \<not> flt (flit (2/10)) dt \<and> \<not> flt t (Fin 0) \<and>
      (gv_observation prev = None \<and> gv_observation now = None \<or>
       same_source (gv_observation prev) (gv_observation now) \<and> observed_as_sampled prev \<and> observed_as_sampled now))"

definition held_by_another :: "string \<Rightarrow> grab_review \<Rightarrow> bool" where
  "held_by_another i s \<longleftrightarrow> da_known (gv_attachment s) \<and>
     (case gv_attachment s of None \<Rightarrow> False | Some a \<Rightarrow> da_state a = ''held'' \<and> da_holder_id a \<noteq> i)"

section \<open>Assessments\<close>

definition grab_limitations :: "string list" where
  "grab_limitations = [''The 0.25 m project rule has no verified engine-build geometry definition; tracked hand origins and disc centers are descriptive only.'',
     ''The acquisition instant lies between sampled states; authoritative timing and measurement error bounds are unavailable.'',
     ''The first held position may include attachment snap and is never interpolated with the free position.'',
     ''Reported source metadata does not establish engine authority or prove the cause of an observed acquisition.'']"

definition transfer_limitation :: string where
  "transfer_limitation = ''The disc changed recorded holders without a free-flight sample; a legal handoff, steal or unsampled release cannot be distinguished and grab range cannot be reconstructed.''"

definition hand_distances :: "string \<Rightarrow> raw_sample \<Rightarrow> (string \<times> f64) list" where
  "hand_distances snapshot s = (case rs_disc_position s of None \<Rightarrow> []
     | Some disc \<Rightarrow> concat (map (\<lambda>(side, p). case p of None \<Rightarrow> []
         | Some h \<Rightarrow> let x = v_distance h disc in
             if f_finite x then [(snapshot @ ''_'' @ side @ ''_origin_to_disc_center_m'', x)] else [])
       [(''left'', rs_left_hand s), (''right'', rs_right_hand s)]))"

definition grab_event_id :: "detect_env \<Rightarrow> match_context \<Rightarrow> assessment \<Rightarrow> grab_review \<Rightarrow> string" where
  "grab_event_id de mc r now =
     (let (source_id, source_player) = (case gv_observation now of None \<Rightarrow> ([], []) | Some c \<Rightarrow> (oc_source_id c, oc_source_player_id c)) in
      ''grab:'' @ de_digest de [Dtext (mc_match_id mc), Dtext (as_source r), Dtext source_id, Dtext source_player, Dtext (as_session r),
        Dtext (as_authority r), Dtext (as_time_basis r), Dtext (as_player r), Dtext ''disc_acquisition'', Dint (rs_frame (gv_raw now)), Dfloat (rs_time (gv_raw now))])"

definition grab_assessment :: "detect_env \<Rightarrow> match_context \<Rightarrow> string \<Rightarrow> grab_review \<Rightarrow> grab_review \<Rightarrow> assessment" where
  "grab_assessment de mc player prev now =
     (let a = gv_raw prev; b = gv_raw now; transfer = held_by_another player prev;
          r = describe_source (gv_observation now) (blank_assessment\<lparr>as_frame := rs_frame b, as_time := rs_time b, as_player := player,
            as_session := mc_match_id mc, as_start := rs_time a, as_end := rs_time b,
            as_hand := (case gv_attachment now of None \<Rightarrow> [] | Some x \<Rightarrow> join_with ''|'' (da_hand_candidates x)),
            as_source := mc_source mc, as_authority := ''unverified'', as_space := ''reported_world'', as_samples := [a, b],
            as_limitations := grab_limitations @ (if transfer then [transfer_limitation] else [])\<rparr>);
          r = put_metrics ((''acquisition_interval_s'', fsub (rs_time b) (rs_time a)) #
            hand_distances (if transfer then ''previous_held'' else ''last_free'') a @ hand_distances ''first_held'' b) (r\<lparr>as_event := grab_event_id de mc r now\<rparr>);
          out = evaluate_grab (effective_rules mc) r [] no_grab_knowledge
      in if transfer
         then out\<lparr>as_result := mech_inconclusive, as_reason := ''grab_transfer_without_free_sample'', as_description :=
           ''Disc changed recorded holders without a free-flight sample. This may be a legal handoff or steal; grab range cannot be reconstructed.''\<rparr>
         else out)"

text \<open>Whether the disc came to the player between the two samples, so that a review is due.\<close>

definition acquired :: "string \<Rightarrow> grab_review \<Rightarrow> grab_review \<Rightarrow> bool" where
  "acquired i prev now \<longleftrightarrow> da_held_by (gv_attachment now) i \<and> grab_continuous prev now \<and>
     (da_free (gv_attachment prev) \<or> held_by_another i prev)"

definition grab_step :: "detect_env \<Rightarrow> match_context \<Rightarrow> int \<Rightarrow> (tracked, state001) review_step" where
  "grab_step de mc f ps d =
     (let i = ps_player_id ps; now = read_grab_review ps f in
      case map_of d i of None \<Rightarrow> ([], AList.update i now d)
      | Some prev \<Rightarrow>
          if same_snapshot now prev then ([], d)
          else if rs_frame (gv_raw now) \<le> rs_frame (gv_raw prev) then ([], AList.delete i d)
          else (if acquired i prev now then [(i, grab_assessment de mc i prev now)] else [], AList.update i now d))"

definition state001_review :: "detect_env \<Rightarrow> match_context \<Rightarrow> (string, tracked) gomap \<Rightarrow> int \<Rightarrow> state001 \<Rightarrow> (string \<times> assessment) list \<times> state001" where
  "state001_review de mc pls f d =
     (let active = active_players pls f in
      if grab_player_limit < length active then ([], [])
      else let (rs, d) = review_over (grab_step de mc f) active d in (rs, gfilter (\<lambda>i _. i \<in> ps_player_id ` set active) d))"

definition state001_evaluate :: "detect_env \<Rightarrow> match_context \<Rightarrow> (string, tracked) gomap \<Rightarrow> int \<Rightarrow> state001 instance_of \<Rightarrow> detection_event list \<times> state001 instance_of" where
  "state001_evaluate de mc pls f = run_instance (\<lambda>b n d. ([], snd (state001_review de mc pls f d)))"

end
