(* ===== verification/Detect_State.thy ===== *)
theory Detect_State
  imports Detect
begin

text \<open>
  The state detectors (\<open>internal/detect/state\<close>): stun recovery (STATE_002), shield duration (STATE_003), damage
  immunity (STATE_004), shield cooldown (STATE_005), the suspended score check (STATE_006) and punch range (STATE_007).
  STATE_001 and STATE_008 have theories of their own. \<open>IsInvulnerable\<close> is never written by the program.
\<close>

definition threshold_frame_rate :: f64 where "threshold_frame_rate = Fin 15"

definition state_event :: "detect_env \<Rightarrow> base \<Rightarrow> nat \<Rightarrow> match_context \<Rightarrow> int \<Rightarrow> tracked \<Rightarrow> f64 \<Rightarrow> f64 \<Rightarrow> string \<Rightarrow> (string \<times> f64) list \<Rightarrow>
    string \<Rightarrow> string \<Rightarrow> int \<Rightarrow> string \<Rightarrow> detection_event" where
  "state_event de b n mc f ps sev conf what metrics observed expected first anomaly =
     make_event de b n mc (ps_player_id ps) f (ps_last_timestamp ps) sev conf (metrics_evidence de ''state'' what metrics) observed expected
       (player_key (ps_player_id ps) first f anomaly)"

section \<open>Intervals that are too short: STATE_002 and STATE_005\<close>

text \<open>How far an interval falls short of the minimum: in seconds where time stamps advance, else in frames.\<close>

record shortfall =
  sf_frames :: int
  sf_seconds :: f64
  sf_min_seconds :: f64
  sf_short :: f64
  sf_ratio :: f64

definition minimum_seconds :: "f64 \<Rightarrow> int \<Rightarrow> f64" where
  "minimum_seconds seconds frames = (if flt (Fin 0) seconds then seconds else fdiv (f_of_int frames) threshold_frame_rate)"

definition shortfall_of :: "f64 \<Rightarrow> int \<Rightarrow> int \<Rightarrow> f64 \<Rightarrow> shortfall option" where
  "shortfall_of min_seconds min_frames frames seconds =
     (if flt (Fin 0) seconds
      then if fle min_seconds seconds then None
        else Some \<lparr>sf_frames = frames, sf_seconds = seconds, sf_min_seconds = min_seconds,
          sf_short = fmul (fsub min_seconds seconds) threshold_frame_rate, sf_ratio = fdiv seconds min_seconds\<rparr>
      else if min_frames \<le> frames then None
        else Some \<lparr>sf_frames = frames, sf_seconds = fdiv (f_of_int frames) threshold_frame_rate, sf_min_seconds = min_seconds,
          sf_short = f_of_int (min_frames - frames), sf_ratio = fdiv (f_of_int frames) (f_of_int min_frames)\<rparr>)"

record stun_track =
  sn_flag :: bool
  sn_measuring :: bool
  sn_start_frame :: int
  sn_start_time :: f64
  sn_incidents :: int

record state002 =
  s2_min_frames :: int
  s2_min_seconds :: f64
  s2_min_incidents :: int
  s2_steepness :: f64
  s2_tracks :: "(string, stun_track) gomap"

definition state002_base :: base where
  "state002_base = \<lparr>bd_id = ''STATE_002'', bd_version = ''2.1.0'', bd_name = ''Stun Recovery Exploit'', bd_category = ''state'',
     bd_inputs = [''stun_state''], bd_warmup = 10, bd_weight = flit (9/10), bd_auto = False\<rparr>"

definition state002_configure :: "params \<Rightarrow> state002 \<Rightarrow> state002" where
  "state002_configure ps d = d\<lparr>s2_min_frames := get_int ps ''min_stun_frames'' (s2_min_frames d),
     s2_min_seconds := get_float ps ''min_stun_seconds'' (s2_min_seconds d),
     s2_min_incidents := get_int_alias ps (s2_min_incidents d) [''min_incidents'', ''min_incidents_to_surface''],
     s2_steepness := get_float ps ''sigmoid_steepness'' (s2_steepness d)\<rparr>"

definition state002_reset :: "state002 \<Rightarrow> state002" where
  "state002_reset d = d\<lparr>s2_tracks := []\<rparr>"

definition new_state002 :: "params \<Rightarrow> state002 instance_of" where
  "new_state002 ps = \<lparr>in_base = state002_base, in_made = 0, in_state = state002_configure ps
     \<lparr>s2_min_frames = 20, s2_min_seconds = Fin 0, s2_min_incidents = 2, s2_steepness = flit (2/10), s2_tracks = []\<rparr>\<rparr>"

definition state002_event :: "detect_env \<Rightarrow> base \<Rightarrow> nat \<Rightarrow> match_context \<Rightarrow> int \<Rightarrow> tracked \<Rightarrow> state002 \<Rightarrow> stun_track \<Rightarrow> shortfall \<Rightarrow> detection_event" where
  "state002_event de b n mc f ps d t x = state_event de b n mc f ps (sigmoid_confidence de (sf_short x) (Fin 0) (s2_steepness d))
     (fmul (clamp01 (fsub (Fin 1) (sf_ratio x))) (sigmoid_confidence de (f_of_int (sn_incidents t)) (f_of_int (s2_min_incidents d)) (Fin (1/2))))
     ''stun_recovery_exploit'' [(''recovery_frames'', f_of_int (sf_frames x)), (''recovery_seconds'', sf_seconds x), (''min_stun_frames'', f_of_int (s2_min_frames d)),
       (''min_stun_seconds'', sf_min_seconds x), (''expected_stun_seconds'', stun_duration (mc_physics mc)), (''stun_ratio'', sf_ratio x),
       (''incident_count'', f_of_int (sn_incidents t)), (''min_incidents'', f_of_int (s2_min_incidents d))]
     (''stun_recovery: '' @ fmt_f 2 (sf_seconds x) @ ''s / '' @ itoa (sf_frames x) @ '' frames (min '' @ fmt_f 2 (sf_min_seconds x) @ ''s), '' @
       itoa (sn_incidents t) @ '' incidents'')
     (''stun_duration: >='' @ fmt_f 2 (sf_min_seconds x) @ ''s'') (sn_start_frame t) ''stun_recovery''"

definition state002_step :: "detect_env \<Rightarrow> base \<Rightarrow> match_context \<Rightarrow> int \<Rightarrow> (tracked, state002) step" where
  "state002_step de b mc f ps n d =
     (let i = ps_player_id ps; now = pl_stunned ps; put = (\<lambda>t. d\<lparr>s2_tracks := AList.update i t (s2_tracks d)\<rparr>) in
      case map_of (s2_tracks d) i of
        None \<Rightarrow> ([], put \<lparr>sn_flag = now, sn_measuring = False, sn_start_frame = 0, sn_start_time = Fin 0, sn_incidents = 0\<rparr>)
      | Some t0 \<Rightarrow>
          let t = t0\<lparr>sn_flag := now\<rparr> in
          if now \<and> \<not> sn_flag t0 then ([], put (t\<lparr>sn_start_frame := f, sn_start_time := ps_last_timestamp ps, sn_measuring := True\<rparr>))
          else if now \<or> \<not> sn_flag t0 \<or> \<not> sn_measuring t then ([], put t)
          else
            let t = t\<lparr>sn_measuring := False\<rparr> in
            (case shortfall_of (minimum_seconds (s2_min_seconds d) (s2_min_frames d)) (s2_min_frames d)
                (f - sn_start_frame t) (fsub (ps_last_timestamp ps) (sn_start_time t)) of
               None \<Rightarrow> ([], put t)
             | Some x \<Rightarrow> let t = t\<lparr>sn_incidents := sn_incidents t + 1\<rparr> in
                 if sn_incidents t < s2_min_incidents d then ([], put t) else ([state002_event de b n mc f ps d t x], put t)))"

definition state002_evaluate :: "detect_env \<Rightarrow> match_context \<Rightarrow> (string, tracked) gomap \<Rightarrow> int \<Rightarrow> state002 instance_of \<Rightarrow> detection_event list \<times> state002 instance_of" where
  "state002_evaluate de mc pls f = run_instance (\<lambda>b. over (state002_step de b mc f) (active_players pls f))"

record shield_track =
  sh_was :: bool
  sh_off :: "(int \<times> f64) option"
  sh_violations :: int

record state005 =
  s5_min_frames :: int
  s5_min_seconds :: f64
  s5_min_violations :: int
  s5_steepness :: f64
  s5_tracks :: "(string, shield_track) gomap"

definition no_shield :: shield_track where
  "no_shield = \<lparr>sh_was = False, sh_off = None, sh_violations = 0\<rparr>"

definition state005_base :: base where
  "state005_base = \<lparr>bd_id = ''STATE_005'', bd_version = ''2.1.0'', bd_name = ''Cooldown Bypass'', bd_category = ''state'',
     bd_inputs = [''shield_state''], bd_warmup = 10, bd_weight = flit (85/100), bd_auto = False\<rparr>"

definition state005_configure :: "params \<Rightarrow> state005 \<Rightarrow> state005" where
  "state005_configure ps d = d\<lparr>s5_min_frames := get_int_alias ps (s5_min_frames d) [''min_cooldown_frames'', ''cooldown_bypass_threshold_frames''],
     s5_min_seconds := get_float ps ''min_cooldown_seconds'' (s5_min_seconds d),
     s5_min_violations := get_int_alias ps (s5_min_violations d) [''min_violations'', ''min_violations_to_surface''],
     s5_steepness := get_float ps ''sigmoid_steepness'' (s5_steepness d)\<rparr>"

definition state005_reset :: "state005 \<Rightarrow> state005" where
  "state005_reset d = d\<lparr>s5_tracks := []\<rparr>"

definition new_state005 :: "params \<Rightarrow> state005 instance_of" where
  "new_state005 ps = \<lparr>in_base = state005_base, in_made = 0, in_state = state005_configure ps
     \<lparr>s5_min_frames = 60, s5_min_seconds = Fin 0, s5_min_violations = 15, s5_steepness = flit (5/100), s5_tracks = []\<rparr>\<rparr>"

definition state005_event :: "detect_env \<Rightarrow> base \<Rightarrow> nat \<Rightarrow> match_context \<Rightarrow> int \<Rightarrow> tracked \<Rightarrow> state005 \<Rightarrow> shield_track \<Rightarrow> int \<Rightarrow> shortfall \<Rightarrow> detection_event" where
  "state005_event de b n mc f ps d t off x = state_event de b n mc f ps (sigmoid_confidence de (sf_short x) (Fin 0) (s5_steepness d))
     (fmul (clamp01 (fmul (fsub (Fin 1) (sf_ratio x)) (flit (9/10))))
       (sigmoid_confidence de (f_of_int (sh_violations t)) (f_of_int (s5_min_violations d)) (Fin (1/2))))
     ''cooldown_bypass'' [(''gap_frames'', f_of_int (sf_frames x)), (''gap_seconds'', sf_seconds x), (''min_cooldown'', f_of_int (s5_min_frames d)),
       (''min_cooldown_seconds'', sf_min_seconds x), (''expected_cooldown_seconds'', shield_cooldown (mc_physics mc)), (''cooldown_ratio'', sf_ratio x),
       (''violation_count'', f_of_int (sh_violations t)), (''min_violations'', f_of_int (s5_min_violations d))]
     (''shield_cooldown: '' @ fmt_f 2 (sf_seconds x) @ ''s / '' @ itoa (sf_frames x) @ '' frames (min '' @ fmt_f 2 (sf_min_seconds x) @ ''s), '' @
       itoa (sh_violations t) @ '' violations'')
     (''shield_cooldown: >='' @ fmt_f 2 (sf_min_seconds x) @ ''s'') off ''cooldown_bypass''"

definition state005_step :: "detect_env \<Rightarrow> base \<Rightarrow> match_context \<Rightarrow> int \<Rightarrow> (tracked, state005) step" where
  "state005_step de b mc f ps n d =
     (let i = ps_player_id ps; t0 = gz no_shield (s5_tracks d) i; now = st_shield_active (pl_status ps); t = t0\<lparr>sh_was := now\<rparr>;
          put = (\<lambda>t. d\<lparr>s5_tracks := AList.update i t (s5_tracks d)\<rparr>)
      in if sh_was t0 \<and> \<not> now then ([], put (t\<lparr>sh_off := Some (f, ps_last_timestamp ps)\<rparr>))
         else if sh_was t0 \<or> \<not> now then ([], put t)
         else (case sh_off t of
             None \<Rightarrow> ([], put t)
           | Some (off, off_time) \<Rightarrow>
               (case shortfall_of (minimum_seconds (s5_min_seconds d) (s5_min_frames d)) (s5_min_frames d) (f - off) (fsub (ps_last_timestamp ps) off_time) of
                  None \<Rightarrow> ([], put t)
                | Some x \<Rightarrow> let t = t\<lparr>sh_violations := sh_violations t + 1\<rparr> in
                    if sh_violations t < s5_min_violations d then ([], put t) else ([state005_event de b n mc f ps d t off x], put t))))"

definition state005_evaluate :: "detect_env \<Rightarrow> match_context \<Rightarrow> (string, tracked) gomap \<Rightarrow> int \<Rightarrow> state005 instance_of \<Rightarrow> detection_event list \<times> state005 instance_of" where
  "state005_evaluate de mc pls f = run_instance (\<lambda>b. over (state005_step de b mc f) (active_players pls f))"

section \<open>STATE_003\<close>

record hold_track =
  ht_consecutive :: int
  ht_tier :: int
  ht_last :: int

record state003 =
  s3_suspicious :: int
  s3_high :: int
  s3_impossible :: int
  s3_steepness :: f64
  s3_tracks :: "(string, hold_track) gomap"

definition no_hold :: hold_track where
  "no_hold = \<lparr>ht_consecutive = 0, ht_tier = 0, ht_last = 0\<rparr>"

definition state003_base :: base where
  "state003_base = \<lparr>bd_id = ''STATE_003'', bd_version = ''2.1.0'', bd_name = ''Shield Duration Abuse'', bd_category = ''state'',
     bd_inputs = [''shield_state''], bd_warmup = 5, bd_weight = flit (8/10), bd_auto = False\<rparr>"

definition state003_configure :: "params \<Rightarrow> state003 \<Rightarrow> state003" where
  "state003_configure ps d = d\<lparr>s3_suspicious := get_int ps ''suspicious_frames'' (s3_suspicious d), s3_high := get_int ps ''high_frames'' (s3_high d),
     s3_impossible := get_int ps ''impossible_frames'' (s3_impossible d), s3_steepness := get_float ps ''sigmoid_steepness'' (s3_steepness d)\<rparr>"

definition state003_reset :: "state003 \<Rightarrow> state003" where
  "state003_reset d = d\<lparr>s3_tracks := []\<rparr>"

definition new_state003 :: "params \<Rightarrow> state003 instance_of" where
  "new_state003 ps = \<lparr>in_base = state003_base, in_made = 0, in_state = state003_configure ps
     \<lparr>s3_suspicious = 300, s3_high = 375, s3_impossible = 600, s3_steepness = flit (2/100), s3_tracks = []\<rparr>\<rparr>"

definition shield_tier :: "state003 \<Rightarrow> int \<Rightarrow> (int \<times> string \<times> f64 \<times> f64) option" where
  "shield_tier d k =
     (if s3_impossible d \<le> k then Some (3, ''impossible'', flit (95/100), flit (95/100))
      else if s3_high d \<le> k then Some (2, ''high'', Fin (3/4), flit (8/10))
      else if s3_suspicious d \<le> k then Some (1, ''suspicious'', Fin (1/2), flit (6/10))
      else None)"

definition count_hold :: "int \<Rightarrow> bool \<Rightarrow> hold_track \<Rightarrow> hold_track" where
  "count_hold f active t0 =
     (let t = (if 0 < ht_consecutive t0 \<and> f \<noteq> ht_last t0 + 1 then t0\<lparr>ht_consecutive := 0, ht_tier := 0\<rparr> else t0); t = t\<lparr>ht_last := f\<rparr>
      in if active then t\<lparr>ht_consecutive := ht_consecutive t + 1\<rparr> else t\<lparr>ht_consecutive := 0, ht_tier := 0\<rparr>)"

definition state003_step :: "detect_env \<Rightarrow> base \<Rightarrow> match_context \<Rightarrow> int \<Rightarrow> (tracked, state003) step" where
  "state003_step de b mc f ps n d =
     (let i = ps_player_id ps; t = count_hold f (st_shield_active (pl_status ps)) (gz no_hold (s3_tracks d) i);
          put = (\<lambda>t. d\<lparr>s3_tracks := AList.update i t (s3_tracks d)\<rparr>); k = ht_consecutive t
      in if \<not> st_shield_active (pl_status ps) then ([], put t)
         else case shield_tier d k of
           None \<Rightarrow> ([], put t)
         | Some (tier, label, sev, conf) \<Rightarrow>
             if tier \<le> ht_tier t then ([], put t)
             else ([state_event de b n mc f ps sev conf (''shield_duration_'' @ label)
                 [(''consecutive_frames'', f_of_int k), (''suspicious_thresh'', f_of_int (s3_suspicious d)), (''high_thresh'', f_of_int (s3_high d)),
                  (''impossible_thresh'', f_of_int (s3_impossible d)), (''tier'', f_of_int tier)]
                 (''shield_frames: '' @ itoa k @ '' consecutive ('' @ label @ '')'')
                 (''shield_frames: <'' @ itoa (s3_suspicious d) @ '' (suspicious), <'' @ itoa (s3_high d) @ '' (high), <'' @ itoa (s3_impossible d) @ '' (impossible)'')
                 (f - k) ''shield_duration''], put (t\<lparr>ht_tier := tier\<rparr>)))"

definition state003_evaluate :: "detect_env \<Rightarrow> match_context \<Rightarrow> (string, tracked) gomap \<Rightarrow> int \<Rightarrow> state003 instance_of \<Rightarrow> detection_event list \<times> state003 instance_of" where
  "state003_evaluate de mc pls f = run_instance (\<lambda>b. over (state003_step de b mc f) (active_players pls f))"

section \<open>STATE_004\<close>

record state004 =
  s4_max :: int
  s4_interval_config :: int
  s4_interval :: int
  s4_steepness :: f64
  s4_counts :: "(string, int \<times> int) gomap"

definition state004_base :: base where
  "state004_base = \<lparr>bd_id = ''STATE_004'', bd_version = ''2.1.0'', bd_name = ''Damage Immunity Exploit'', bd_category = ''state'',
     bd_inputs = [''immune_state'', ''invulnerable_state''], bd_warmup = 10, bd_weight = flit (9/10), bd_auto = False\<rparr>"

definition state004_sanitize :: "state004 \<Rightarrow> state004" where
  "state004_sanitize d0 =
     (let d = (if s4_max d0 < 1 then d0\<lparr>s4_max := 1\<rparr> else d0);
          k = (if s4_interval_config d \<le> 0 then tdiv (s4_max d) 2 else s4_interval_config d)
      in d\<lparr>s4_interval := (if k < 1 then 1 else k)\<rparr>)"

definition state004_configure :: "params \<Rightarrow> state004 \<Rightarrow> state004" where
  "state004_configure ps d = state004_sanitize (d\<lparr>s4_max := get_int_alias ps (s4_max d) [''max_immune_frames'', ''immunity_threshold_frames''],
     s4_interval_config := get_int ps ''escalation_interval_frames'' (s4_interval_config d), s4_steepness := get_float ps ''sigmoid_steepness'' (s4_steepness d)\<rparr>)"

definition state004_reset :: "state004 \<Rightarrow> state004" where
  "state004_reset d = d\<lparr>s4_counts := []\<rparr>"

definition new_state004 :: "params \<Rightarrow> state004 instance_of" where
  "new_state004 ps = \<lparr>in_base = state004_base, in_made = 0, in_state = state004_configure ps
     \<lparr>s4_max = 225, s4_interval_config = 0, s4_interval = 0, s4_steepness = Fin 8, s4_counts = []\<rparr>\<rparr>"

definition state004_step :: "detect_env \<Rightarrow> base \<Rightarrow> match_context \<Rightarrow> int \<Rightarrow> (tracked, state004) step" where
  "state004_step de b mc f ps n d =
     (let i = ps_player_id ps; immune = st_is_immune (pl_status ps); active = (\<not> pl_stunned ps \<and> flt (flit (1/10)) (pl_speed ps));
          (k0, next0) = gz (0, 0) (s4_counts d) i; put = (\<lambda>c. d\<lparr>s4_counts := AList.update i c (s4_counts d)\<rparr>)
      in if \<not> immune then ([], put (0, 0))
         else
           let k = (if active then k0 + 1 else k0); excess = k - s4_max d; ratio = fdiv (f_of_int k) (f_of_int (s4_max d)) in
           if k \<le> s4_max d + 5 \<or> k < next0 then ([], put (k, next0))
           else ([state_event de b n mc f ps (sigmoid_confidence de ratio (Fin (5/4)) (s4_steepness d))
               (clamp01 (fmul (sigmoid_confidence de (f_of_int excess) (Fin 0) (flit (1/10))) (flit (9/10)))) ''damage_immunity''
               [(''immune_frames'', f_of_int k), (''max_immune_frames'', f_of_int (s4_max d)), (''excess_frames'', f_of_int excess),
                (''streak_ratio'', ratio), (''player_speed'', pl_speed ps)]
               (''immune_frames: '' @ itoa k @ '' (active play, '' @ fmt_f 2 ratio @ ''x limit)'')
               (''immune_frames: <'' @ itoa (s4_max d) @ '' during active play'') (f - k) ''damage_immunity''], put (k, k + s4_interval d)))"

definition state004_evaluate :: "detect_env \<Rightarrow> match_context \<Rightarrow> (string, tracked) gomap \<Rightarrow> int \<Rightarrow> state004 instance_of \<Rightarrow> detection_event list \<times> state004 instance_of" where
  "state004_evaluate de mc pls f = run_instance (\<lambda>b. over (state004_step de b mc f) (active_players pls f))"

section \<open>STATE_006\<close>

definition state006_base :: base where
  "state006_base = \<lparr>bd_id = ''STATE_006'', bd_version = ''2.0.0'', bd_name = ''Score Manipulation'', bd_category = ''state'',
     bd_inputs = [''score_state''], bd_warmup = 2, bd_weight = Fin 1, bd_auto = False\<rparr>"

definition new_state006 :: "params \<Rightarrow> unit instance_of" where
  "new_state006 ps = \<lparr>in_base = state006_base, in_made = 0, in_state = ()\<rparr>"

definition state006_evaluate :: "detect_env \<Rightarrow> match_context \<Rightarrow> (string, tracked) gomap \<Rightarrow> int \<Rightarrow> unit instance_of \<Rightarrow> detection_event list \<times> unit instance_of" where
  "state006_evaluate de mc pls f = run_instance (\<lambda>b n s. ([], s))"

section \<open>STATE_007\<close>

text \<open>A stun's beginning, by frame and place; a punch waiting for its victim. \<open>math.MaxFloat64\<close> starts the search for the nearest.\<close>

record stun_start =
  ss_frame :: int
  ss_pos :: vec3
  ss_consumed :: bool

record pending_punch =
  pp_pid :: string
  pp_team :: string
  pp_frame :: int
  pp_left :: vec3
  pp_right :: vec3
  pp_speed :: f64
  pp_timestamp :: f64
  pp_high_ping :: bool

record state007 =
  s7_threshold :: f64
  s7_velocity_scale :: f64
  s7_min_incidents :: int
  s7_steepness :: f64
  s7_window :: int
  s7_max_range :: f64
  s7_prev_stuns :: "(string, int) gomap"
  s7_incidents :: "(string, int) gomap"
  s7_was_stunned :: "(string, bool) gomap"
  s7_stun_starts :: "(string, stun_start) gomap"
  s7_pending :: "pending_punch list"

definition state007_base :: base where
  "state007_base = \<lparr>bd_id = ''STATE_007'', bd_version = ''2.1.0'', bd_name = ''Impossible Punch Range'', bd_category = ''state'',
     bd_inputs = [''stun_state'', ''hand_tracking'', ''position''], bd_warmup = 10, bd_weight = flit (8/10), bd_auto = False\<rparr>"

definition state007_sanitize :: "state007 \<Rightarrow> state007" where
  "state007_sanitize d0 =
     (let d = (if s7_window d0 < 0 then d0\<lparr>s7_window := 0\<rparr> else d0)
      in if s7_min_incidents d < 1 then d\<lparr>s7_min_incidents := 1\<rparr> else d)"

definition state007_configure :: "params \<Rightarrow> state007 \<Rightarrow> state007" where
  "state007_configure ps d = state007_sanitize (d\<lparr>s7_threshold := get_float ps ''punch_range_threshold'' (s7_threshold d),
     s7_velocity_scale := get_float ps ''velocity_adjust_scale'' (s7_velocity_scale d),
     s7_min_incidents := get_int_alias ps (s7_min_incidents d) [''min_incidents'', ''min_incidents_to_surface''],
     s7_steepness := get_float ps ''sigmoid_steepness'' (s7_steepness d),
     s7_window := get_int ps ''attribution_window_frames'' (s7_window d), s7_max_range := get_float ps ''max_range'' (s7_max_range d)\<rparr>)"

definition state007_reset :: "state007 \<Rightarrow> state007" where
  "state007_reset d = d\<lparr>s7_prev_stuns := [], s7_incidents := [], s7_was_stunned := [], s7_stun_starts := [], s7_pending := []\<rparr>"

definition new_state007 :: "params \<Rightarrow> state007 instance_of" where
  "new_state007 ps = \<lparr>in_base = state007_base, in_made = 0, in_state = state007_configure ps
     \<lparr>s7_threshold = Fin 10, s7_velocity_scale = flit (15/100), s7_min_incidents = 3, s7_steepness = Fin 1, s7_window = 2,
      s7_max_range = Fin 25, s7_prev_stuns = [], s7_incidents = [], s7_was_stunned = [], s7_stun_starts = [], s7_pending = []\<rparr>\<rparr>"

text \<open>
  The first observation of a player only sets the baseline. \<open>seenStuns\<close> and \<open>prevStuns\<close> get a player's entry
  together, so one map holds both.
\<close>

definition note_stun :: "int \<Rightarrow> tracked \<Rightarrow> state007 \<Rightarrow> state007" where
  "note_stun f ps d =
     (let i = ps_player_id ps;
          d = (if map_of (s7_was_stunned d) i = Some False \<and> pl_stunned ps
               then d\<lparr>s7_stun_starts := AList.update i \<lparr>ss_frame = f, ss_pos = pl_position ps, ss_consumed = False\<rparr> (s7_stun_starts d)\<rparr> else d)
      in d\<lparr>s7_was_stunned := AList.update i (pl_stunned ps) (s7_was_stunned d)\<rparr>)"

definition punch_of :: "int \<Rightarrow> tracked \<Rightarrow> pending_punch" where
  "punch_of f ps = \<lparr>pp_pid = ps_player_id ps, pp_team = ps_team ps, pp_frame = f, pp_left = h_position (pl_left ps),
     pp_right = h_position (pl_right ps), pp_speed = pl_speed ps, pp_timestamp = ps_last_timestamp ps, pp_high_ping = pl_high_ping ps\<rparr>"

definition note_punch :: "int \<Rightarrow> tracked \<Rightarrow> state007 \<Rightarrow> state007" where
  "note_punch f ps d0 =
     (let d = note_stun f ps d0; i = ps_player_id ps; now = sr_stuns (mo_scores (ps_motion ps)); old = map_of (s7_prev_stuns d) i;
          d = d\<lparr>s7_prev_stuns := AList.update i now (s7_prev_stuns d)\<rparr>
      in case old of None \<Rightarrow> d
         | Some k \<Rightarrow> if now \<le> k then d else d\<lparr>s7_pending := s7_pending d @ [punch_of f ps]\<rparr>)"

definition same_team :: "string \<Rightarrow> string \<Rightarrow> bool" where
  "same_team a b \<longleftrightarrow> a \<noteq> [] \<and> b \<noteq> [] \<and> a = b"

definition hand_to_target :: "vec3 \<Rightarrow> vec3 \<Rightarrow> vec3 \<Rightarrow> f64" where
  "hand_to_target left right target =
     (let d = (if v_is_zero left then Inf False else v_distance left target); r = v_distance right target
      in if \<not> v_is_zero right \<and> flt r d then r else d)"

definition max_float64 :: f64 where "max_float64 = Fin ((2 ^ 53 - 1) * 2 ^ 971)"

text \<open>The candidates in order, then the first of the nearest.\<close>

definition stun_candidates :: "state007 \<Rightarrow> pending_punch \<Rightarrow> tracked list \<Rightarrow> (string \<times> f64) list" where
  "stun_candidates d p everyone = concat (map (\<lambda>other.
     if ps_player_id other = pp_pid p \<or> same_team (ps_team other) (pp_team p) then []
     else (case map_of (s7_stun_starts d) (ps_player_id other) of
         None \<Rightarrow> []
       | Some x \<Rightarrow> if ss_consumed x \<or> ss_frame x < pp_frame p - s7_window d \<or> pp_frame p + s7_window d < ss_frame x then []
           else [(ps_player_id other, hand_to_target (pp_left p) (pp_right p) (ss_pos x))])) everyone)"

definition nearest_of :: "(string \<times> f64) list \<Rightarrow> string \<times> f64" where
  "nearest_of cs = fold (\<lambda>(i, x) (best, m). if flt x m then (i, x) else (best, m)) cs ([], max_float64)"

definition attribute_punch :: "pending_punch \<Rightarrow> tracked list \<Rightarrow> state007 \<Rightarrow> (string \<times> f64) option \<times> state007" where
  "attribute_punch p everyone d =
     (let (i, x) = nearest_of (stun_candidates d p everyone) in
      if i = [] then (None, d)
      else (Some (i, x), (case map_of (s7_stun_starts d) i of None \<Rightarrow> d
        | Some ss \<Rightarrow> d\<lparr>s7_stun_starts := AList.update i (ss\<lparr>ss_consumed := True\<rparr>) (s7_stun_starts d)\<rparr>)))"

definition punch_event :: "detect_env \<Rightarrow> base \<Rightarrow> nat \<Rightarrow> match_context \<Rightarrow> int \<Rightarrow> pending_punch \<Rightarrow> state007 \<Rightarrow> string \<Rightarrow> f64 \<Rightarrow> f64 \<Rightarrow> int \<Rightarrow> detection_event" where
  "punch_event de b n mc f p d victim nearest adjusted k =
     (let excess = fsub adjusted (s7_threshold d);
          conf = fmul (sigmoid_confidence de excess (Fin 0) (s7_steepness d)) (sigmoid_confidence de (f_of_int k) (f_of_int (s7_min_incidents d)) (Fin (1/2)))
      in make_event de b n mc (pp_pid p) (pp_frame p) (pp_timestamp p)
        (sigmoid_confidence de adjusted (fmul (s7_threshold d) (Fin (3/2))) (s7_steepness d))
        (clamp01 (if pp_high_ping p then fmul conf (flit (6/10)) else conf))
        (metrics_evidence de ''state'' ''punch_range'' [(''hand_to_victim_distance'', nearest), (''adjusted_distance'', adjusted),
          (''punch_range_threshold'', s7_threshold d), (''closing_speed'', pp_speed p), (''incident_count'', f_of_int k), (''excess'', excess),
          (''punch_frame'', f_of_int (pp_frame p)), (''resolved_frame'', f_of_int f)])
        (''punch_range: '' @ fmt_f 2 nearest @ '' m (adjusted: '' @ fmt_f 2 adjusted @ '' m) victim='' @ victim)
        (''punch_range: 0-'' @ fmt_f 2 (s7_threshold d) @ '' m'')
        (player_key (pp_pid p) (pp_frame p - s7_window d) f ''punch_range''))"

definition evaluate_punch :: "detect_env \<Rightarrow> base \<Rightarrow> match_context \<Rightarrow> int \<Rightarrow> pending_punch \<Rightarrow> string \<Rightarrow> f64 \<Rightarrow> nat \<Rightarrow> state007 \<Rightarrow> detection_event list \<times> state007" where
  "evaluate_punch de b mc f p victim nearest n d0 =
     (let reach = fsub nearest (fmul (pp_speed p) (s7_velocity_scale d0)); adjusted = (if flt reach (Fin 0) then Fin 0 else reach) in
      if nearest = Inf False \<or> fle adjusted (s7_threshold d0) \<or> flt (s7_max_range d0) adjusted then ([], d0)
      else
        let k = gz 0 (s7_incidents d0) (pp_pid p) + 1; d = d0\<lparr>s7_incidents := AList.update (pp_pid p) k (s7_incidents d0)\<rparr> in
        if k < s7_min_incidents d then ([], d) else ([punch_event de b n mc f p d victim nearest adjusted k], d))"

definition resolve_punch :: "detect_env \<Rightarrow> base \<Rightarrow> match_context \<Rightarrow> int \<Rightarrow> tracked list \<Rightarrow> (pending_punch, state007) step" where
  "resolve_punch de b mc f everyone p n d0 =
     (case attribute_punch p everyone d0 of
        (None, d) \<Rightarrow> ([], if f < pp_frame p + s7_window d then d\<lparr>s7_pending := s7_pending d @ [p]\<rparr> else d)
      | (Some (victim, nearest), d) \<Rightarrow> evaluate_punch de b mc f p victim nearest n d)"

definition state007_evaluate :: "detect_env \<Rightarrow> match_context \<Rightarrow> (string, tracked) gomap \<Rightarrow> int \<Rightarrow> state007 instance_of \<Rightarrow> detection_event list \<times> state007 instance_of" where
  "state007_evaluate de mc pls f = run_instance (\<lambda>b n d0.
     let d = fold (note_punch f) (active_players pls f) d0
     in over (resolve_punch de b mc f (sorted_players pls)) (s7_pending d) n (d\<lparr>s7_pending := []\<rparr>))"

end
