(* ===== verification/Review_Logs.thy ===== *)
theory Review_Logs
  imports Mechanics
begin

text \<open>
  The bounded logs of diagnostics a match keeps per player and check: mechanics reviews
  (\<open>internal/model/mechanics_log.go\<close>) and catch reviews (\<open>internal/model/catch_review.go\<close>). A log keeps the first 128
  records and counts all; it takes each event once, in the order of frames, and later chunks of a live match are
  merged into it. \<open>Validate\<close> is a definition of the source, an error or None, and what the lemmas show of a log is
  that it validates.
\<close>

section \<open>Mechanics reviews\<close>

definition max_int64 :: int where "max_int64 = 2 ^ 63 - 1"
definition max_mech_records :: nat where "max_mech_records = 128"

record mech_log =
  ml_version :: int
  ml_records :: "assessment list"
  ml_total :: int
  ml_dropped :: int
  ml_invalid :: int
  ml_consistent :: int
  ml_inconclusive :: int
  ml_anomaly :: int
  ml_violation :: int
  ml_last_frame :: int
  ml_recent :: "(string \<times> int) list"

definition new_mech_log :: mech_log where
  "new_mech_log = \<lparr>ml_version = 1, ml_records = [], ml_total = 0, ml_dropped = 0, ml_invalid = 0, ml_consistent = 0, ml_inconclusive = 0,
     ml_anomaly = 0, ml_violation = 0, ml_last_frame = - 1, ml_recent = []\<rparr>"

definition has_event :: "mech_log \<Rightarrow> string \<Rightarrow> bool" where
  "has_event l i \<longleftrightarrow> i \<in> as_event ` set (ml_records l) \<or> i \<in> fst ` set (ml_recent l)"

definition remember :: "string \<times> int \<Rightarrow> mech_log \<Rightarrow> mech_log" where
  "remember x l = l\<lparr>ml_recent := push (int max_mech_records) x (ml_recent l)\<rparr>"

definition count_result :: "string \<Rightarrow> mech_log \<Rightarrow> mech_log" where
  "count_result res l =
     (if res = mech_consistent then l\<lparr>ml_consistent := ml_consistent l + 1\<rparr>
      else if res = mech_inconclusive then l\<lparr>ml_inconclusive := ml_inconclusive l + 1\<rparr>
      else if res = mech_anomaly then l\<lparr>ml_anomaly := ml_anomaly l + 1\<rparr>
      else if res = mech_violation then l\<lparr>ml_violation := ml_violation l + 1\<rparr> else l)"

definition accepts :: "mech_log \<Rightarrow> assessment \<Rightarrow> bool" where
  "accepts l r \<longleftrightarrow> \<not> (ml_total l = max_int64 \<or> 0 < ml_total l \<and> as_frame r \<le> ml_last_frame l \<or> has_event l (as_event r))"

definition keep_record :: "assessment \<Rightarrow> mech_log \<Rightarrow> mech_log" where
  "keep_record r l = (if max_mech_records \<le> length (ml_records l) then l\<lparr>ml_dropped := ml_dropped l + 1\<rparr>
     else l\<lparr>ml_records := ml_records l @ [r]\<rparr>)"

definition add_assessment :: "assessment \<Rightarrow> mech_log \<Rightarrow> mech_log" where
  "add_assessment r l =
     (if validate_assessment r \<noteq> None then (if ml_invalid l < max_int64 then l\<lparr>ml_invalid := ml_invalid l + 1\<rparr> else l)
      else if \<not> accepts l r then l
      else keep_record r (count_result (as_result r) (remember (as_event r, as_frame r)
        (l\<lparr>ml_version := 1, ml_last_frame := as_frame r, ml_total := ml_total l + 1\<rparr>))))"

definition add_all :: "assessment list \<Rightarrow> mech_log \<Rightarrow> mech_log" where
  "add_all rs l = fold add_assessment rs l"

fun check_records :: "int \<Rightarrow> assessment list \<Rightarrow> mech_log \<Rightarrow> string + mech_log" where
  "check_records final [] kept = Inr kept"
| "check_records final (r # rs) kept =
     (case validate_assessment r of Some e \<Rightarrow> Inl e
      | None \<Rightarrow>
          if as_frame r \<le> ml_last_frame kept \<or> final < as_frame r \<or> has_event kept (as_event r)
          then Inl ''invalid mechanics ordering or repeated event''
          else check_records final rs (add_assessment r kept))"

definition bad_summary :: "mech_log \<Rightarrow> bool" where
  "bad_summary l \<longleftrightarrow> ml_version l \<noteq> 1 \<or> max_mech_records < length (ml_records l) \<or> ml_total l < 0 \<or> ml_dropped l < 0 \<or> ml_invalid l < 0 \<or>
     ml_consistent l < 0 \<or> ml_inconclusive l < 0 \<or> ml_anomaly l < 0 \<or> ml_violation l < 0 \<or>
     ml_total l < ml_dropped l \<or> ml_total l - ml_dropped l \<noteq> int (length (ml_records l)) \<or>
     0 < ml_dropped l \<and> length (ml_records l) \<noteq> max_mech_records \<or> ml_total l = 0 \<and> ml_last_frame l \<noteq> - 1"

fun subtract_counts :: "int list \<Rightarrow> int \<Rightarrow> string + int" where
  "subtract_counts [] remaining = Inr remaining"
| "subtract_counts (k # ks) remaining =
     (if remaining < k then Inl ''invalid mechanics outcome counts'' else subtract_counts ks (remaining - k))"

definition result_counts :: "mech_log \<Rightarrow> int list" where
  "result_counts l = [ml_consistent l, ml_inconclusive l, ml_anomaly l, ml_violation l]"

definition bad_retained :: "mech_log \<Rightarrow> mech_log \<Rightarrow> bool" where
  "bad_retained l kept \<longleftrightarrow> ml_consistent l < ml_consistent kept \<or> ml_inconclusive l < ml_inconclusive kept \<or> ml_anomaly l < ml_anomaly kept \<or>
     ml_violation l < ml_violation kept \<or> 0 < ml_total l \<and> ml_records l = [] \<or> ml_dropped l = 0 \<and> ml_last_frame kept \<noteq> ml_last_frame l \<or>
     0 < ml_dropped l \<and> (ml_last_frame l \<le> ml_last_frame kept \<or> ml_last_frame l - ml_last_frame kept < ml_dropped l)"

fun check_tail :: "int \<Rightarrow> (string \<times> int) list \<Rightarrow> (string, int) gomap \<Rightarrow> int \<Rightarrow> string option" where
  "check_tail final [] seen prev = None"
| "check_tail final ((i, f) # xs) seen prev =
     (if i = [] \<or> 256 < length i \<or> f \<le> prev \<or> final < f then Some ''invalid mechanics identity tail''
      else case map_of seen i of
        Some g \<Rightarrow> if g \<noteq> f then Some ''repeated mechanics event identity'' else check_tail final xs (AList.update i f seen) f
      | None \<Rightarrow> check_tail final xs (AList.update i f seen) f)"

definition seen_records :: "assessment list \<Rightarrow> (string, int) gomap" where
  "seen_records rs = fold (\<lambda>r. AList.update (as_event r) (as_frame r)) rs []"

definition validate_mech_log :: "mech_log \<Rightarrow> string option" where
  "validate_mech_log l =
     (if bad_summary l then Some ''invalid mechanics diagnostic summary''
      else case subtract_counts (result_counts l) (ml_total l) of Inl e \<Rightarrow> Some e
      | Inr remaining \<Rightarrow>
          if remaining \<noteq> 0 \<or> 0 < ml_total l \<and> ml_last_frame l < ml_total l - 1 then Some ''invalid mechanics total''
          else case check_records (ml_last_frame l) (ml_records l) new_mech_log of Inl e \<Rightarrow> Some e
          | Inr kept \<Rightarrow>
              if bad_retained l kept then Some ''inconsistent mechanics diagnostic summary''
              else if max_mech_records < length (ml_recent l) \<or> ml_total l < int (length (ml_recent l)) then Some ''oversized mechanics identity tail''
              else check_tail (ml_last_frame l) (ml_recent l) (seen_records (ml_records l)) (- 1))"

text \<open>Merging. \<open>merge_later\<close> answers None where the source rejects the clone it works on.\<close>

fun remember_tail :: "(string \<times> int) list \<Rightarrow> mech_log \<Rightarrow> mech_log option" where
  "remember_tail [] l = Some l"
| "remember_tail (x # xs) l =
     (if snd x \<le> ml_last_frame l then remember_tail xs l
      else if has_event l (fst x) then None else remember_tail xs (remember x l))"

definition add_dropped :: "mech_log \<Rightarrow> mech_log \<Rightarrow> mech_log \<Rightarrow> mech_log" where
  "add_dropped nxt kept l = l\<lparr>ml_total := ml_total l + ml_dropped nxt, ml_dropped := ml_dropped l + ml_dropped nxt,
     ml_consistent := ml_consistent l + (ml_consistent nxt - ml_consistent kept),
     ml_inconclusive := ml_inconclusive l + (ml_inconclusive nxt - ml_inconclusive kept),
     ml_anomaly := ml_anomaly l + (ml_anomaly nxt - ml_anomaly kept),
     ml_violation := ml_violation l + (ml_violation nxt - ml_violation kept), ml_last_frame := ml_last_frame nxt\<rparr>"

definition merge_dropped :: "mech_log \<Rightarrow> mech_log \<Rightarrow> mech_log option" where
  "merge_dropped nxt l =
     (if ml_dropped nxt \<le> 0 then Some l
      else if max_int64 - ml_total l < ml_dropped nxt then None
      else map_option (add_dropped nxt (add_all (ml_records nxt) new_mech_log)) (remember_tail (ml_recent nxt) l))"

definition merge_invalid :: "int \<Rightarrow> int \<Rightarrow> mech_log \<Rightarrow> mech_log" where
  "merge_invalid old_total k l = l\<lparr>ml_invalid :=
     (if ml_total l = old_total then max (ml_invalid l) k
      else if max_int64 - ml_invalid l < k then max_int64 else ml_invalid l + k)\<rparr>"

definition merge_later :: "mech_log \<Rightarrow> mech_log \<Rightarrow> mech_log option" where
  "merge_later nxt l = map_option (merge_invalid (ml_total l) (ml_invalid nxt)) (merge_dropped nxt (add_all (ml_records nxt) l))"

definition merge_refused :: "mech_log \<Rightarrow> mech_log \<Rightarrow> bool" where
  "merge_refused nxt l \<longleftrightarrow> 0 < ml_total nxt \<and> 0 < ml_total l \<and> ml_last_frame nxt \<le> ml_last_frame l \<or>
     0 < ml_total l \<and> 0 < ml_dropped nxt \<and> ml_records nxt \<noteq> [] \<and> as_frame (List.last (ml_records nxt)) \<le> ml_last_frame l"

definition merge_mech_log :: "mech_log \<Rightarrow> mech_log \<Rightarrow> mech_log" where
  "merge_mech_log nxt l =
     (if validate_mech_log nxt \<noteq> None \<or> validate_mech_log l \<noteq> None then l
      else if ml_total nxt = 0 then l\<lparr>ml_invalid := max (ml_invalid l) (ml_invalid nxt)\<rparr>
      else if merge_refused nxt l then l
      else case merge_later nxt l of None \<Rightarrow> l | Some merged \<Rightarrow> if validate_mech_log merged = None then merged else l)"

section \<open>Catch reviews\<close>

definition max_catch_records :: nat where "max_catch_records = 128"
definition max_catch_metrics :: nat where "max_catch_metrics = 24"

datatype catch_outcome = Observation | Excluded | Insufficient_data | Unconfirmed | Other_outcome string

record catch_review =
  cr_frame :: int
  cr_time :: f64
  cr_start_frame :: int
  cr_last_free :: int
  cr_confirmed :: bool
  cr_outcome :: catch_outcome
  cr_reason :: string
  cr_description :: string
  cr_metrics :: "(string, f64) gomap"

definition validate_catch_review :: "catch_review \<Rightarrow> string option" where
  "validate_catch_review r =
     (if cr_frame r < 0 \<or> cr_start_frame r < 0 \<or> cr_last_free r < 0 \<or> cr_frame r < cr_start_frame r \<or> cr_frame r < cr_last_free r \<or>
        is_nan (cr_time r) \<or> is_inf (cr_time r) \<or> flt (cr_time r) (Fin 0) then Some ''invalid catch diagnostic frame or timestamp''
      else case (case cr_outcome r of
           Observation \<Rightarrow> if cr_confirmed r then None else Some ''catch observation requires a confirmed transition''
         | Unconfirmed \<Rightarrow> if cr_confirmed r then Some ''unconfirmed catch diagnostic cannot be confirmed'' else None
         | Excluded \<Rightarrow> None | Insufficient_data \<Rightarrow> None | Other_outcome _ \<Rightarrow> Some ''invalid catch diagnostic outcome'') of
        Some e \<Rightarrow> Some e
      | None \<Rightarrow>
          if \<not> review_key (cr_reason r) \<or> 512 < length (cr_description r) \<or> max_catch_metrics < length (cr_metrics r)
          then Some ''invalid catch diagnostic reason or metric count''
          else if list_ex (\<lambda>(k, v). \<not> review_key k \<or> is_nan v \<or> is_inf v) (cr_metrics r) then Some ''invalid catch diagnostic metric''
          else None)"

record catch_log =
  cl_version :: int
  cl_records :: "catch_review list"
  cl_total :: int
  cl_dropped :: int
  cl_invalid :: int
  cl_observation :: int
  cl_excluded :: int
  cl_insufficient :: int
  cl_unconfirmed :: int
  cl_last_frame :: int

definition new_catch_log :: catch_log where
  "new_catch_log = \<lparr>cl_version = 1, cl_records = [], cl_total = 0, cl_dropped = 0, cl_invalid = 0, cl_observation = 0, cl_excluded = 0,
     cl_insufficient = 0, cl_unconfirmed = 0, cl_last_frame = - 1\<rparr>"

definition count_outcome :: "catch_outcome \<Rightarrow> catch_log \<Rightarrow> catch_log" where
  "count_outcome x l = (case x of Observation \<Rightarrow> l\<lparr>cl_observation := cl_observation l + 1\<rparr> | Excluded \<Rightarrow> l\<lparr>cl_excluded := cl_excluded l + 1\<rparr>
     | Insufficient_data \<Rightarrow> l\<lparr>cl_insufficient := cl_insufficient l + 1\<rparr> | Unconfirmed \<Rightarrow> l\<lparr>cl_unconfirmed := cl_unconfirmed l + 1\<rparr>
     | Other_outcome _ \<Rightarrow> l)"

definition keep_catch :: "catch_review \<Rightarrow> catch_log \<Rightarrow> catch_log" where
  "keep_catch r l = (if max_catch_records \<le> length (cl_records l) then l\<lparr>cl_dropped := cl_dropped l + 1\<rparr>
     else l\<lparr>cl_records := cl_records l @ [r]\<rparr>)"

definition add_catch :: "catch_review \<Rightarrow> catch_log \<Rightarrow> catch_log" where
  "add_catch r l =
     (if validate_catch_review r \<noteq> None then l\<lparr>cl_invalid := cl_invalid l + 1\<rparr>
      else if 0 < cl_total l \<and> cr_frame r \<le> cl_last_frame l then l
      else keep_catch r (count_outcome (cr_outcome r) (l\<lparr>cl_version := 1, cl_total := cl_total l + 1, cl_last_frame := cr_frame r\<rparr>)))"

fun check_catches :: "int \<Rightarrow> catch_review list \<Rightarrow> catch_log \<Rightarrow> string + catch_log" where
  "check_catches final [] kept = Inr kept"
| "check_catches final (r # rs) kept =
     (case validate_catch_review r of Some e \<Rightarrow> Inl e
      | None \<Rightarrow> if cr_frame r \<le> cl_last_frame kept \<or> final < cr_frame r then Inl ''invalid catch diagnostic ordering''
          else check_catches final rs (add_catch r kept))"

definition bad_catch_summary :: "catch_log \<Rightarrow> bool" where
  "bad_catch_summary l \<longleftrightarrow> cl_version l \<noteq> 1 \<or> max_catch_records < length (cl_records l) \<or> cl_total l < 0 \<or> cl_dropped l < 0 \<or> cl_invalid l < 0 \<or>
     cl_observation l < 0 \<or> cl_excluded l < 0 \<or> cl_insufficient l < 0 \<or> cl_unconfirmed l < 0 \<or>
     cl_total l \<noteq> int (length (cl_records l)) + cl_dropped l \<or>
     cl_total l \<noteq> cl_observation l + cl_excluded l + cl_insufficient l + cl_unconfirmed l \<or>
     0 < cl_dropped l \<and> length (cl_records l) \<noteq> max_catch_records \<or> cl_total l = 0 \<and> cl_last_frame l \<noteq> - 1"

definition bad_catch_retained :: "catch_log \<Rightarrow> catch_log \<Rightarrow> bool" where
  "bad_catch_retained l kept \<longleftrightarrow> cl_observation l < cl_observation kept \<or> cl_excluded l < cl_excluded kept \<or> cl_insufficient l < cl_insufficient kept \<or>
     cl_unconfirmed l < cl_unconfirmed kept \<or> 0 < cl_total l \<and> cl_records l = [] \<or> cl_dropped l = 0 \<and> cl_last_frame kept \<noteq> cl_last_frame l"

definition validate_catch_log :: "catch_log \<Rightarrow> string option" where
  "validate_catch_log l =
     (if bad_catch_summary l then Some ''invalid catch diagnostic summary''
      else case check_catches (cl_last_frame l) (cl_records l) new_catch_log of Inl e \<Rightarrow> Some e
      | Inr kept \<Rightarrow> if bad_catch_retained l kept then Some ''inconsistent catch diagnostic summary'' else None)"

definition merge_catch_log :: "catch_log \<Rightarrow> catch_log \<Rightarrow> catch_log" where
  "merge_catch_log nxt l0 =
     (if validate_catch_log nxt \<noteq> None then l0
      else if 0 < cl_total nxt \<and> 0 < cl_total l0 \<and> cl_last_frame nxt \<le> cl_last_frame l0 then l0
      else if 0 < cl_total l0 \<and> 0 < cl_dropped nxt \<and> cl_records nxt \<noteq> [] \<and> cr_frame (List.last (cl_records nxt)) \<le> cl_last_frame l0 then l0
      else
        let l = fold add_catch (cl_records nxt) (l0\<lparr>cl_invalid := cl_invalid l0 + cl_invalid nxt\<rparr>);
            kept = fold add_catch (cl_records nxt) new_catch_log
        in if cl_dropped nxt \<le> 0 then l
           else l\<lparr>cl_total := cl_total l + cl_dropped nxt, cl_dropped := cl_dropped l + cl_dropped nxt,
             cl_observation := cl_observation l + (cl_observation nxt - cl_observation kept),
             cl_excluded := cl_excluded l + (cl_excluded nxt - cl_excluded kept),
             cl_insufficient := cl_insufficient l + (cl_insufficient nxt - cl_insufficient kept),
             cl_unconfirmed := cl_unconfirmed l + (cl_unconfirmed nxt - cl_unconfirmed kept), cl_last_frame := cl_last_frame nxt\<rparr>)"

section \<open>What a valid log is\<close>

named_theorems log_simps

lemma check_records_all: "check_records final rs kept = Inr k \<Longrightarrow> k = add_all rs kept"
  by (induction final rs kept rule: check_records.induct) (auto simp: add_all_def split: option.splits if_splits)

lemma check_records_append:
  "check_records final (rs @ [r]) kept = (case check_records final rs kept of Inl e \<Rightarrow> Inl e | Inr k \<Rightarrow> check_records final [r] k)"
  by (induction final rs kept rule: check_records.induct) (auto split: option.splits)

lemma check_records_later: "check_records final rs kept = Inr k \<Longrightarrow> final \<le> final' \<Longrightarrow> check_records final' rs kept = Inr k"
  by (induction final rs kept rule: check_records.induct) (auto split: option.splits if_splits)

definition identity :: "assessment \<Rightarrow> string \<times> int" where
  "identity r = (as_event r, as_frame r)"

definition kept_shape :: "assessment list \<Rightarrow> mech_log \<Rightarrow> bool" where
  "kept_shape rs k \<longleftrightarrow> ml_records k = rs \<and> ml_total k = int (length rs) \<and> ml_dropped k = 0 \<and>
     ml_last_frame k = (if rs = [] then - 1 else as_frame (List.last rs)) \<and> set (ml_recent k) \<subseteq> identity ` set rs"

lemma count_result_fields [simp]:
  "ml_records (count_result x l) = ml_records l" "ml_total (count_result x l) = ml_total l" "ml_dropped (count_result x l) = ml_dropped l"
  "ml_last_frame (count_result x l) = ml_last_frame l" "ml_recent (count_result x l) = ml_recent l"
  "ml_version (count_result x l) = ml_version l" "ml_invalid (count_result x l) = ml_invalid l"
  by (simp_all add: count_result_def)

lemma keep_record_fields [simp]:
  "ml_total (keep_record r l) = ml_total l" "ml_last_frame (keep_record r l) = ml_last_frame l" "ml_recent (keep_record r l) = ml_recent l"
  "ml_version (keep_record r l) = ml_version l" "ml_invalid (keep_record r l) = ml_invalid l" "result_counts (keep_record r l) = result_counts l"
  by (simp_all add: keep_record_def result_counts_def)

lemma result_counts_update [simp]:
  "result_counts (l\<lparr>ml_records := rs\<rparr>) = result_counts l" "result_counts (l\<lparr>ml_dropped := k\<rparr>) = result_counts l"
  "result_counts (l\<lparr>ml_invalid := k\<rparr>) = result_counts l"
  by (simp_all add: result_counts_def)

lemma kept_shape_add:
  assumes "kept_shape rs k" "validate_assessment r = None" "ml_last_frame k < as_frame r" "\<not> has_event k (as_event r)" "length rs < max_mech_records"
  shows "kept_shape (rs @ [r]) (add_assessment r k)"
proof -
  have "accepts k r" using assms by (auto simp: accepts_def kept_shape_def max_int64_def max_mech_records_def)
  then show ?thesis
    using assms set_push [of "int max_mech_records" "identity r" "ml_recent k"]
    by (auto simp: add_assessment_def kept_shape_def keep_record_def remember_def identity_def)
qed

lemma check_records_shape:
  assumes "check_records final rs new_mech_log = Inr k" "length rs \<le> max_mech_records"
  shows "kept_shape rs k"
  using assms
proof (induction rs arbitrary: k rule: rev_induct)
  case Nil
  then show ?case by (auto simp: kept_shape_def new_mech_log_def)
next
  case (snoc r rs)
  then obtain k' where "check_records final rs new_mech_log = Inr k'" "check_records final [r] k' = Inr k"
    by (auto simp: check_records_append split: sum.splits)
  with snoc kept_shape_add [of rs k' r] show ?case by (auto split: option.splits if_splits)
qed

lemma subtract_counts_sum:
  assumes "list_all (\<lambda>k. 0 \<le> k) ks"
  shows "subtract_counts ks n = Inr 0 \<longleftrightarrow> n = sum_list ks"
proof -
  have nonneg: "0 \<le> sum_list ks" if "list_all (\<lambda>k. 0 \<le> k) ks" for ks :: "int list"
    using that by (induction ks) auto
  show ?thesis using assms
  proof (induction ks arbitrary: n)
    case (Cons k ks)
    then have "subtract_counts ks (n - k) = Inr 0 \<longleftrightarrow> n - k = sum_list ks" "0 \<le> sum_list ks" "0 \<le> k" using nonneg [of ks] by auto
    then show ?case by (simp del: diff_eq_eq) linarith
  qed auto
qed

text \<open>The tail of identities: strictly later frames, ids once, in agreement with what was seen.\<close>

definition agree :: "(string, int) gomap \<Rightarrow> string \<times> int \<Rightarrow> bool" where
  "agree seen x \<longleftrightarrow> (case map_of seen (fst x) of None \<Rightarrow> True | Some g \<Rightarrow> g = snd x)"

definition tail_ok :: "int \<Rightarrow> int \<Rightarrow> (string \<times> int) list \<Rightarrow> bool" where
  "tail_ok prev final xs \<longleftrightarrow> sorted_wrt (<) (prev # map snd xs) \<and> distinct (map fst xs) \<and>
     list_all (\<lambda>x. fst x \<noteq> [] \<and> length (fst x) \<le> 256 \<and> snd x \<le> final) xs"

lemma check_tail_iff: "check_tail final xs seen prev = None \<longleftrightarrow> tail_ok prev final xs \<and> list_all (agree seen) xs"
proof (induction final xs seen prev rule: check_tail.induct)
  case (2 final i f xs seen prev)
  have split: "check_tail final ((i, f) # xs) seen prev = None \<longleftrightarrow>
      i \<noteq> [] \<and> length i \<le> 256 \<and> prev < f \<and> f \<le> final \<and> agree seen (i, f) \<and> check_tail final xs (AList.update i f seen) f = None"
    by (auto simp: agree_def not_le split: option.splits)
  have rest: "check_tail final xs (AList.update i f seen) f = None \<longleftrightarrow> tail_ok f final xs \<and> list_all (agree (AList.update i f seen)) xs"
    if "i \<noteq> []" "length i \<le> 256" "prev < f" "f \<le> final" "agree seen (i, f)"
  proof -
    have "map_of seen i = None \<or> map_of seen i = Some f" using that by (auto simp: agree_def split: option.splits)
    then show ?thesis using 2 that by auto
  qed
  have agrees: "list_all (agree (AList.update i f seen)) xs \<longleftrightarrow> i \<notin> fst ` set xs \<and> list_all (agree seen) xs" if "tail_ok f final xs"
    using that by (force simp: tail_ok_def agree_def list_all_iff update_conv')
  have ok: "tail_ok prev final ((i, f) # xs) \<longleftrightarrow> i \<noteq> [] \<and> length i \<le> 256 \<and> prev < f \<and> f \<le> final \<and> i \<notin> fst ` set xs \<and> tail_ok f final xs"
    by (auto simp: tail_ok_def)
  show ?case unfolding split ok list.pred_inject using rest agrees by blast
qed (simp add: tail_ok_def)

lemma tail_ok_drop: "tail_ok prev final xs \<Longrightarrow> tail_ok prev final (drop n xs)"
proof -
  assume ok: "tail_ok prev final xs"
  then have "sorted_wrt (<) (drop n (map snd xs))" "distinct (drop n (map fst xs))" by (simp_all add: tail_ok_def sorted_wrt_drop distinct_drop)
  then have "sorted_wrt (<) (map snd (drop n xs))" "distinct (map fst (drop n xs))" by (simp_all add: drop_map)
  then show ?thesis using ok by (auto simp: tail_ok_def list_all_iff dest: in_set_dropD)
qed

lemma tail_ok_snoc:
  "tail_ok prev final xs \<Longrightarrow> final \<le> f \<Longrightarrow> list_all (\<lambda>x. snd x < f) xs \<Longrightarrow> prev < f \<Longrightarrow> i \<noteq> [] \<Longrightarrow> length i \<le> 256 \<Longrightarrow> i \<notin> fst ` set xs \<Longrightarrow>
   tail_ok prev f (xs @ [(i, f)])"
  by (auto simp: tail_ok_def sorted_wrt_append list_all_iff intro: order_trans)

lemma tail_ok_push:
  assumes "tail_ok prev final xs" "final < f" "prev < f" "i \<noteq> []" "length i \<le> 256" "i \<notin> fst ` set xs"
  shows "tail_ok prev f (push w (i, f) xs)"
proof -
  have "list_all (\<lambda>x. snd x < f) xs" using assms(1,2) by (auto simp: tail_ok_def list_all_iff)
  then have "tail_ok prev f (xs @ [(i, f)])" using assms by (intro tail_ok_snoc) auto
  then show ?thesis by (simp add: push_def Let_def tail_ok_drop del: drop_append)
qed

lemma push_length: "0 \<le> w \<Longrightarrow> int (length (push w x xs)) \<le> min w (int (length xs) + 1)  \<or> w < int (length xs)"
  by (auto simp: push_def Let_def)

lemma seen_records_snoc: "seen_records (rs @ [r]) = AList.update (as_event r) (as_frame r) (seen_records rs)"
  by (simp add: seen_records_def)

lemma validate_mech_log_iff [log_simps]:
  "validate_mech_log l = None \<longleftrightarrow> \<not> bad_summary l \<and> ml_total l = sum_list (result_counts l) \<and>
     \<not> (0 < ml_total l \<and> ml_last_frame l < ml_total l - 1) \<and>
     (\<exists>k. check_records (ml_last_frame l) (ml_records l) new_mech_log = Inr k \<and> \<not> bad_retained l k) \<and>
     length (ml_recent l) \<le> max_mech_records \<and> int (length (ml_recent l)) \<le> ml_total l \<and>
     tail_ok (- 1) (ml_last_frame l) (ml_recent l) \<and> list_all (agree (seen_records (ml_records l))) (ml_recent l)"
proof (cases "bad_summary l")
  case False
  then have "list_all (\<lambda>k. 0 \<le> k) (result_counts l)" by (simp add: bad_summary_def result_counts_def)
  then show ?thesis using False subtract_counts_sum [of "result_counts l" "ml_total l"]
    by (auto simp: validate_mech_log_def check_tail_iff not_less split: sum.splits)
qed (simp add: validate_mech_log_def)

section \<open>Adding keeps a log valid\<close>

lemma validate_assessment_ok:
  assumes "validate_assessment r = None"
  shows "0 \<le> as_frame r" "as_event r \<noteq> []" "length (as_event r) \<le> 256" "as_result r \<in> {mech_consistent, mech_inconclusive, mech_anomaly, mech_violation}"
  using assms unfolding validate_assessment_def by (simp_all split: if_splits)

lemma seen_records_None: "i \<notin> as_event ` set rs \<Longrightarrow> map_of (seen_records rs) i = None"
  by (induction rs rule: rev_induct) (simp_all add: seen_records_snoc update_conv' seen_records_def)

lemma count_result_more:
  assumes "res \<in> {mech_consistent, mech_inconclusive, mech_anomaly, mech_violation}"
  shows "sum_list (result_counts (count_result res l)) = sum_list (result_counts l) + 1"
    and "list_all2 (\<le>) (result_counts l) (result_counts (count_result res l))"
  using assms by (auto simp: count_result_def result_counts_def)

lemma count_result_le:
  "list_all2 (\<le>) (result_counts k) (result_counts l) \<Longrightarrow> list_all2 (\<le>) (result_counts (count_result res k)) (result_counts (count_result res l))"
  by (simp add: count_result_def result_counts_def)

lemma counts_parts: "bad_retained l k \<longleftrightarrow> \<not> list_all2 (\<le>) (result_counts k) (result_counts l) \<or> 0 < ml_total l \<and> ml_records l = [] \<or>
    ml_dropped l = 0 \<and> ml_last_frame k \<noteq> ml_last_frame l \<or>
    0 < ml_dropped l \<and> (ml_last_frame l \<le> ml_last_frame k \<or> ml_last_frame l - ml_last_frame k < ml_dropped l)"
  by (auto simp: bad_retained_def result_counts_def)

definition taken :: "assessment \<Rightarrow> mech_log \<Rightarrow> mech_log" where
  "taken r l = count_result (as_result r) (remember (as_event r, as_frame r) (l\<lparr>ml_version := 1, ml_last_frame := as_frame r, ml_total := ml_total l + 1\<rparr>))"

lemma taken_fields [simp]:
  "ml_records (taken r l) = ml_records l" "ml_total (taken r l) = ml_total l + 1" "ml_dropped (taken r l) = ml_dropped l"
  "ml_last_frame (taken r l) = as_frame r" "ml_recent (taken r l) = push (int max_mech_records) (as_event r, as_frame r) (ml_recent l)"
  "ml_version (taken r l) = 1" "ml_invalid (taken r l) = ml_invalid l"
  "result_counts (taken r l) = result_counts (count_result (as_result r) l)"
  by (simp_all add: taken_def remember_def count_result_def result_counts_def)

lemma add_taken: "validate_assessment r = None \<Longrightarrow> accepts l r \<Longrightarrow> add_assessment r l = keep_record r (taken r l)"
  by (simp add: add_assessment_def taken_def)

lemma bad_summary_taken:
  assumes "\<not> bad_summary l" "validate_assessment r = None"
  shows "\<not> bad_summary (keep_record r (taken r l))"
proof -
  note more = count_result_more(2) [OF validate_assessment_ok(4) [OF assms(2)], of l]
  have "0 \<le> ml_consistent (taken r l)" "0 \<le> ml_inconclusive (taken r l)" "0 \<le> ml_anomaly (taken r l)" "0 \<le> ml_violation (taken r l)"
    using more assms(1) taken_fields(8) [of r l] by (auto simp: result_counts_def bad_summary_def)
  then show ?thesis using assms(1) by (auto simp: bad_summary_def keep_record_def)
qed

lemma records_taken:
  assumes l: "validate_mech_log l = None" and r: "validate_assessment r = None" "accepts l r"
  shows "\<exists>k. check_records (as_frame r) (ml_records (keep_record r (taken r l))) new_mech_log = Inr k \<and> \<not> bad_retained (keep_record r (taken r l)) k"
proof -
  from l obtain k where k: "check_records (ml_last_frame l) (ml_records l) new_mech_log = Inr k" and ret: "\<not> bad_retained l k"
    and sum: "\<not> bad_summary l" by (auto simp: validate_mech_log_iff)
  have shape: "kept_shape (ml_records l) k" using k sum by (auto simp: bad_summary_def intro: check_records_shape)
  have later: "ml_last_frame l < as_frame r" using r sum validate_assessment_ok(1) [OF r(1)]
    by (cases "ml_total l = 0") (auto simp: accepts_def bad_summary_def)
  have before: "ml_last_frame k \<le> ml_last_frame l" using ret sum by (auto simp: bad_retained_def bad_summary_def)
  have fresh: "\<not> has_event k (as_event r)" using r(2) shape by (auto simp: accepts_def has_event_def kept_shape_def identity_def)
  note more = count_result_more(2) [OF validate_assessment_ok(4) [OF r(1)]]
  show ?thesis
  proof (cases "length (ml_records l) < max_mech_records")
    case True
    then have d: "ml_dropped l = 0" using sum by (auto simp: bad_summary_def)
    have acc: "accepts k r" using shape later before fresh True by (auto simp: accepts_def kept_shape_def max_int64_def max_mech_records_def)
    have "check_records (as_frame r) (ml_records l @ [r]) new_mech_log = Inr (keep_record r (taken r k))"
      using check_records_later [OF k] later before fresh r(1) add_taken [OF r(1) acc] by (simp add: check_records_append)
    moreover have "\<not> bad_retained (keep_record r (taken r l)) (keep_record r (taken r k))"
      using ret d True count_result_le [of k l "as_result r"] shape by (auto simp: counts_parts keep_record_def kept_shape_def)
    ultimately show ?thesis using True by (auto simp: keep_record_def)
  next
    case False
    then have "length (ml_records l) = max_mech_records" using sum by (auto simp: bad_summary_def)
    moreover have "list_all2 (\<le>) (result_counts k) (result_counts (taken r l))"
      using more [of l] ret list_all2_trans [of "(\<le>)" "(\<le>)" "(\<le>)" "result_counts k" "result_counts l"] by (auto simp: counts_parts)
    ultimately have "\<not> bad_retained (keep_record r (taken r l)) k"
      using ret sum later before by (auto simp: counts_parts keep_record_def max_mech_records_def bad_summary_def)
    then show ?thesis using check_records_later [OF k, of "as_frame r"] later False by (auto simp: keep_record_def)
  qed
qed

lemma tail_taken:
  assumes l: "validate_mech_log l = None" and r: "validate_assessment r = None" "accepts l r"
  shows "tail_ok (- 1) (as_frame r) (ml_recent (taken r l)) \<and> list_all (agree (seen_records (ml_records (keep_record r (taken r l))))) (ml_recent (taken r l))"
proof -
  note ok = validate_assessment_ok [OF r(1)]
  from l have tail: "tail_ok (- 1) (ml_last_frame l) (ml_recent l)" "list_all (agree (seen_records (ml_records l))) (ml_recent l)"
    and sum: "\<not> bad_summary l" by (auto simp: validate_mech_log_iff)
  have later: "ml_last_frame l < as_frame r" using r sum ok(1) by (cases "ml_total l = 0") (auto simp: accepts_def bad_summary_def)
  have fresh: "as_event r \<notin> as_event ` set (ml_records l)" "as_event r \<notin> fst ` set (ml_recent l)" using r(2) by (auto simp: accepts_def has_event_def)
  have "agree (seen_records (ml_records (keep_record r (taken r l)))) x" if "x = (as_event r, as_frame r) \<or> x \<in> set (ml_recent l)" for x
    using that tail(2) fresh seen_records_None [OF fresh(1)]
    by (force simp: agree_def keep_record_def seen_records_snoc update_conv' list_all_iff)
  then have "list_all (agree (seen_records (ml_records (keep_record r (taken r l))))) (ml_recent (taken r l))"
    using set_push [of "int max_mech_records" "(as_event r, as_frame r)" "ml_recent l"] by (auto simp: list_all_iff)
  then show ?thesis using tail_ok_push [OF tail(1) later _ ok(2,3) fresh(2)] ok(1) by simp
qed

lemma valid_invalid:
  assumes "validate_mech_log l = None" "ml_invalid l \<le> k"
  shows "validate_mech_log (l\<lparr>ml_invalid := k\<rparr>) = None"
proof -
  have "\<not> bad_summary l" using assms by (simp add: validate_mech_log_iff)
  then have sum: "\<not> bad_summary (l\<lparr>ml_invalid := k\<rparr>)" using assms(2) by (auto simp: bad_summary_def)
  have ret: "bad_retained (l\<lparr>ml_invalid := k\<rparr>) k' = bad_retained l k'" for k' by (simp add: counts_parts)
  have same: "ml_total (l\<lparr>ml_invalid := k\<rparr>) = ml_total l" "ml_last_frame (l\<lparr>ml_invalid := k\<rparr>) = ml_last_frame l"
    "ml_records (l\<lparr>ml_invalid := k\<rparr>) = ml_records l" "ml_recent (l\<lparr>ml_invalid := k\<rparr>) = ml_recent l" by simp_all
  show ?thesis using assms(1) sum unfolding validate_mech_log_iff result_counts_update ret same by blast
qed

lemma add_keeps_valid: "validate_mech_log l = None \<Longrightarrow> validate_mech_log (add_assessment r l) = None"
proof -
  assume l: "validate_mech_log l = None"
  consider "validate_assessment r \<noteq> None" | "validate_assessment r = None" "\<not> accepts l r" | "validate_assessment r = None" "accepts l r" by blast
  then show ?thesis
  proof cases
    case 1
    then show ?thesis using l valid_invalid [of l "ml_invalid l + 1"] by (simp add: add_assessment_def)
  next
    case 2
    then show ?thesis using l by (simp add: add_assessment_def)
  next
    case 3
    note ok = validate_assessment_ok [OF 3(1)]
    from l have sum: "\<not> bad_summary l" "ml_total l = sum_list (result_counts l)" "\<not> (0 < ml_total l \<and> ml_last_frame l < ml_total l - 1)"
      and len: "length (ml_recent l) \<le> max_mech_records" "int (length (ml_recent l)) \<le> ml_total l" by (auto simp: validate_mech_log_iff)
    have "ml_total l \<le> as_frame r" using 3 sum ok(1) by (cases "ml_total l = 0") (auto simp: accepts_def bad_summary_def)
    moreover have "int (length (ml_recent (taken r l))) \<le> min (int max_mech_records) (int (length (ml_recent l)) + 1)"
      using push_length [of "int max_mech_records" "(as_event r, as_frame r)" "ml_recent l"] len(1) by auto
    ultimately show ?thesis
      using bad_summary_taken [OF sum(1) 3(1)] records_taken [OF l 3] tail_taken [OF l 3] len sum(2) count_result_more(1) [OF ok(4), of l]
      by (simp add: add_taken [OF 3] validate_mech_log_iff)
  qed
qed

lemma new_mech_log_valid: "validate_mech_log new_mech_log = None"
  by (auto simp: validate_mech_log_iff new_mech_log_def bad_summary_def result_counts_def counts_parts tail_ok_def)

lemma add_all_valid: "validate_mech_log l = None \<Longrightarrow> validate_mech_log (add_all rs l) = None"
  by (induction rs arbitrary: l) (simp_all add: add_all_def add_keeps_valid)

section \<open>Merging the same chunk again changes nothing\<close>

text \<open>A record a log has dealt with: not accepted again, or a malformed one.\<close>

definition settled :: "mech_log \<Rightarrow> assessment \<Rightarrow> bool" where
  "settled l r \<longleftrightarrow> validate_assessment r = None \<and> \<not> accepts l r"

lemma add_settled [simp]: "settled l r \<Longrightarrow> add_assessment r l = l"
  by (simp add: settled_def add_assessment_def)

lemma add_all_settled: "list_all (settled l) rs \<Longrightarrow> add_all rs l = l"
  by (induction rs) (simp_all add: add_all_def)

lemma settled_invalid [simp]: "settled (l\<lparr>ml_invalid := k\<rparr>) r = settled l r"
  by (simp add: settled_def accepts_def has_event_def)

lemma add_cases:
  obtains (takes) "validate_assessment r = None" "accepts l r" "add_assessment r l = keep_record r (taken r l)"
  | (leaves) k where "\<not> (validate_assessment r = None \<and> accepts l r)" "add_assessment r l = l\<lparr>ml_invalid := k\<rparr>" "ml_invalid l \<le> k"
proof (cases "validate_assessment r = None \<and> accepts l r")
  case True
  then show ?thesis using takes add_taken by blast
next
  case False
  then have "add_assessment r l = l\<lparr>ml_invalid := if validate_assessment r \<noteq> None \<and> ml_invalid l < max_int64 then ml_invalid l + 1 else ml_invalid l\<rparr>"
    by (auto simp: add_assessment_def)
  then show ?thesis by (rule leaves [OF False]) simp
qed

lemma add_total: "0 \<le> ml_total l \<Longrightarrow> 0 \<le> ml_total (add_assessment r l)"
  by (rule add_cases [of r l]) simp_all

lemma settled_after: "validate_assessment r = None \<Longrightarrow> 0 \<le> ml_total l \<Longrightarrow> settled (add_assessment r l) r"
  by (rule add_cases [of r l]) (auto simp: settled_def accepts_def has_event_def)

lemma settled_stays: "settled l r \<Longrightarrow> 0 \<le> ml_total l \<Longrightarrow> as_frame r < as_frame r' \<Longrightarrow> settled (add_assessment r' l) r"
  by (rule add_cases [of r' l]) (auto simp: settled_def accepts_def has_event_def)

lemma settled_stays_all:
  "settled l r \<Longrightarrow> 0 \<le> ml_total l \<Longrightarrow> list_all (\<lambda>r'. as_frame r < as_frame r') rs \<Longrightarrow> settled (add_all rs l) r"
  by (induction rs arbitrary: l) (simp_all add: add_all_def settled_stays add_total)

lemma add_all_settles:
  "list_all (\<lambda>r. validate_assessment r = None) rs \<Longrightarrow> sorted_wrt (<) (map as_frame rs) \<Longrightarrow> 0 \<le> ml_total l \<Longrightarrow>
   list_all (settled (add_all rs l)) rs"
proof (induction rs arbitrary: l)
  case (Cons r rs)
  then have "settled (add_all rs (add_assessment r l)) r"
    by (intro settled_stays_all settled_after) (auto simp: list_all_iff add_total)
  then show ?case using Cons.IH [of "add_assessment r l"] Cons.prems by (simp add: add_all_def add_total)
qed simp

lemma check_records_sorted:
  assumes "check_records final rs new_mech_log = Inr k" "length rs \<le> max_mech_records"
  shows "list_all (\<lambda>r. validate_assessment r = None) rs \<and> sorted_wrt (<) (map as_frame rs) \<and> list_all (\<lambda>r. as_frame r \<le> ml_last_frame k) rs"
  using assms
proof (induction rs arbitrary: k rule: rev_induct)
  case (snoc r rs)
  then obtain k' where k': "check_records final rs new_mech_log = Inr k'" "check_records final [r] k' = Inr k"
    by (auto simp: check_records_append split: sum.splits)
  note IH = snoc.IH [OF k'(1)]
  have r: "validate_assessment r = None" "ml_last_frame k' < as_frame r" using k'(2) by (auto split: option.splits if_splits)
  have "ml_last_frame k = as_frame r" using check_records_shape [OF snoc.prems] by (simp add: kept_shape_def)
  then show ?case using IH r snoc.prems(2) by (force simp: sorted_wrt_append list_all_iff)
qed simp

lemma valid_parts:
  assumes "validate_mech_log l = None"
  shows "list_all (\<lambda>r. validate_assessment r = None) (ml_records l)" "sorted_wrt (<) (map as_frame (ml_records l))"
    "0 \<le> ml_total l" "0 \<le> ml_invalid l" "0 \<le> ml_dropped l"
proof -
  from assms obtain k where k: "check_records (ml_last_frame l) (ml_records l) new_mech_log = Inr k" and "\<not> bad_summary l"
    by (auto simp: validate_mech_log_iff)
  then have "length (ml_records l) \<le> max_mech_records" "0 \<le> ml_total l" "0 \<le> ml_invalid l" "0 \<le> ml_dropped l" by (auto simp: bad_summary_def)
  with check_records_sorted [OF k] show "list_all (\<lambda>r. validate_assessment r = None) (ml_records l)" "sorted_wrt (<) (map as_frame (ml_records l))"
    "0 \<le> ml_total l" "0 \<le> ml_invalid l" "0 \<le> ml_dropped l" by simp_all
qed

lemma merge_invalid_same: "0 \<le> ml_invalid l \<Longrightarrow> k \<le> max_int64 \<Longrightarrow> k \<le> ml_invalid (merge_invalid n k l)"
  by (auto simp: merge_invalid_def)

lemma remember_tail_total: "remember_tail xs l = Some l' \<Longrightarrow> ml_total l' = ml_total l"
  by (induction xs l rule: remember_tail.induct) (auto simp: remember_def split: if_splits)

lemma add_all_invalid: "ml_invalid l \<le> ml_invalid (add_all rs l)"
proof (induction rs arbitrary: l)
  case (Cons r rs)
  have "ml_invalid l \<le> ml_invalid (add_assessment r l)" by (rule add_cases [of r l]) simp_all
  then show ?case using Cons [of "add_assessment r l"] by (simp add: add_all_def)
qed (simp add: add_all_def)

lemma merge_later_parts:
  assumes "merge_later nxt l = Some m"
  obtains m' where "merge_dropped nxt (add_all (ml_records nxt) l) = Some m'" "m = merge_invalid (ml_total l) (ml_invalid nxt) m'"
  using assms by (auto simp: merge_later_def)

lemma remember_tail_invalid: "remember_tail xs l = Some l' \<Longrightarrow> ml_invalid l' = ml_invalid l"
  by (induction xs l rule: remember_tail.induct) (auto simp: remember_def split: if_splits)

lemma merge_dropped_invalid: "merge_dropped nxt l = Some m \<Longrightarrow> ml_invalid m = ml_invalid l"
  by (auto simp: merge_dropped_def add_dropped_def remember_tail_invalid split: if_splits)

text \<open>Once a chunk is in, it is either refused or adds nothing: what it dropped lies below the frames the log has seen.\<close>

lemma merge_again:
  assumes nxt: "validate_mech_log nxt = None" "ml_invalid nxt \<le> max_int64" "ml_total nxt \<noteq> 0" and l: "validate_mech_log l = None"
    and m: "merge_later nxt l = Some m" and valid: "validate_mech_log m = None" and taken: "\<not> merge_refused nxt m"
  shows "merge_later nxt m = Some m"
proof -
  obtain m' where m': "merge_dropped nxt (add_all (ml_records nxt) l) = Some m'" "m = merge_invalid (ml_total l) (ml_invalid nxt) m'"
    using m by (rule merge_later_parts)
  have k: "ml_invalid nxt \<le> ml_invalid m"
    using m' merge_dropped_invalid add_all_invalid [of l "ml_records nxt"] valid_parts(4) [OF l] nxt(2) by (auto intro: merge_invalid_same)
  have d: "ml_dropped nxt = 0"
  proof (rule ccontr)
    assume "ml_dropped nxt \<noteq> 0"
    then have "0 < ml_dropped nxt" using valid_parts(5) [OF nxt(1)] by simp
    moreover have "0 \<le> ml_total (add_all (ml_records nxt) l)" using add_all_valid [OF l] valid_parts(3) by blast
    ultimately have "ml_last_frame m = ml_last_frame nxt" "0 < ml_total m"
      using m' remember_tail_total by (auto simp: merge_dropped_def add_dropped_def merge_invalid_def split: if_splits)
    then show False using taken nxt(3) valid_parts(3) [OF nxt(1)] by (auto simp: merge_refused_def)
  qed
  then have m'_eq: "m' = add_all (ml_records nxt) l" using m' by (simp add: merge_dropped_def)
  have "list_all (settled m') (ml_records nxt)"
    unfolding m'_eq using valid_parts [OF nxt(1)] valid_parts(3) [OF l] by (intro add_all_settles)
  then have "list_all (settled m) (ml_records nxt)" using m'(2) by (simp add: merge_invalid_def list_all_iff)
  then have "add_all (ml_records nxt) m = m" by (rule add_all_settled)
  then show ?thesis using d k by (simp add: merge_later_def merge_dropped_def merge_invalid_def)
qed

lemma merge_twice:
  assumes "ml_invalid nxt \<le> max_int64"
  shows "merge_mech_log nxt (merge_mech_log nxt l) = merge_mech_log nxt l"
proof (cases "merge_mech_log nxt l = l")
  case False
  then have nxt: "validate_mech_log nxt = None" and l: "validate_mech_log l = None" unfolding merge_mech_log_def by presburger+
  show ?thesis
  proof (cases "ml_total nxt = 0")
    case True
    then show ?thesis using nxt l by (simp add: merge_mech_log_def)
  next
    case t: False
    then obtain m where m: "merge_later nxt l = Some m" "validate_mech_log m = None" "merge_mech_log nxt l = m"
      using False nxt l by (auto simp: merge_mech_log_def split: if_splits option.splits)
    then show ?thesis using merge_again [OF nxt assms t l m(1,2)] nxt t by (simp add: merge_mech_log_def)
  qed
qed simp

lemma merge_valid: "validate_mech_log l = None \<Longrightarrow> validate_mech_log (merge_mech_log nxt l) = None"
  using valid_invalid [of l "max (ml_invalid l) (ml_invalid nxt)"] by (auto simp: merge_mech_log_def split: option.splits)

section \<open>The catch log\<close>

lemma check_catches_append:
  "check_catches final (rs @ [r]) kept = (case check_catches final rs kept of Inl e \<Rightarrow> Inl e | Inr k \<Rightarrow> check_catches final [r] k)"
  by (induction final rs kept rule: check_catches.induct) (auto split: option.splits)

lemma check_catches_later: "check_catches final rs kept = Inr k \<Longrightarrow> final \<le> final' \<Longrightarrow> check_catches final' rs kept = Inr k"
  by (induction final rs kept rule: check_catches.induct) (auto split: option.splits if_splits)

definition outcome_counts :: "catch_log \<Rightarrow> int list" where
  "outcome_counts l = [cl_observation l, cl_excluded l, cl_insufficient l, cl_unconfirmed l]"

definition caught :: "catch_review \<Rightarrow> catch_log \<Rightarrow> catch_log" where
  "caught r l = count_outcome (cr_outcome r) (l\<lparr>cl_version := 1, cl_total := cl_total l + 1, cl_last_frame := cr_frame r\<rparr>)"

lemma caught_fields [simp]:
  "cl_records (caught r l) = cl_records l" "cl_total (caught r l) = cl_total l + 1" "cl_dropped (caught r l) = cl_dropped l"
  "cl_last_frame (caught r l) = cr_frame r" "cl_version (caught r l) = 1" "cl_invalid (caught r l) = cl_invalid l"
  "outcome_counts (caught r l) = outcome_counts (count_outcome (cr_outcome r) l)"
  by (simp_all add: caught_def count_outcome_def outcome_counts_def split: catch_outcome.splits)

lemma keep_catch_fields [simp]:
  "cl_total (keep_catch r l) = cl_total l" "cl_last_frame (keep_catch r l) = cl_last_frame l" "cl_version (keep_catch r l) = cl_version l"
  "cl_invalid (keep_catch r l) = cl_invalid l" "outcome_counts (keep_catch r l) = outcome_counts l"
  by (simp_all add: keep_catch_def outcome_counts_def)

lemma outcome_counts_update [simp]: "outcome_counts (l\<lparr>cl_invalid := k\<rparr>) = outcome_counts l"
  by (simp add: outcome_counts_def)

lemma count_outcome_more:
  assumes "validate_catch_review r = None"
  shows "sum_list (outcome_counts (count_outcome (cr_outcome r) l)) = sum_list (outcome_counts l) + 1"
    and "list_all2 (\<le>) (outcome_counts l) (outcome_counts (count_outcome (cr_outcome r) l))"
    and "0 \<le> cr_frame r"
  using assms by (auto simp: validate_catch_review_def count_outcome_def outcome_counts_def split: catch_outcome.splits if_splits)

lemma count_outcome_le:
  "list_all2 (\<le>) (outcome_counts k) (outcome_counts l) \<Longrightarrow> list_all2 (\<le>) (outcome_counts (count_outcome x k)) (outcome_counts (count_outcome x l))"
  by (simp add: count_outcome_def outcome_counts_def split: catch_outcome.splits)

lemma nonneg_le: "list_all2 (\<le>) xs ys \<Longrightarrow> list_all (\<lambda>k. 0 \<le> k) xs \<Longrightarrow> list_all (\<lambda>k :: int. 0 \<le> k) ys"
  by (induction xs ys rule: list_all2_induct) auto

lemma bad_catch_retained_iff: "bad_catch_retained l k \<longleftrightarrow> \<not> list_all2 (\<le>) (outcome_counts k) (outcome_counts l) \<or>
    0 < cl_total l \<and> cl_records l = [] \<or> cl_dropped l = 0 \<and> cl_last_frame k \<noteq> cl_last_frame l"
  by (auto simp: bad_catch_retained_def outcome_counts_def)

lemma bad_catch_summary_iff: "bad_catch_summary l \<longleftrightarrow> cl_version l \<noteq> 1 \<or> max_catch_records < length (cl_records l) \<or> cl_total l < 0 \<or>
    cl_dropped l < 0 \<or> cl_invalid l < 0 \<or> \<not> list_all (\<lambda>k. 0 \<le> k) (outcome_counts l) \<or>
    cl_total l \<noteq> int (length (cl_records l)) + cl_dropped l \<or> cl_total l \<noteq> sum_list (outcome_counts l) \<or>
    0 < cl_dropped l \<and> length (cl_records l) \<noteq> max_catch_records \<or> cl_total l = 0 \<and> cl_last_frame l \<noteq> - 1"
  by (auto simp: bad_catch_summary_def outcome_counts_def)

lemma validate_catch_log_iff: "validate_catch_log l = None \<longleftrightarrow> \<not> bad_catch_summary l \<and>
    (\<exists>k. check_catches (cl_last_frame l) (cl_records l) new_catch_log = Inr k \<and> \<not> bad_catch_retained l k)"
  by (auto simp: validate_catch_log_def split: sum.splits)

lemma add_caught: "validate_catch_review r = None \<Longrightarrow> \<not> (0 < cl_total l \<and> cr_frame r \<le> cl_last_frame l) \<Longrightarrow> add_catch r l = keep_catch r (caught r l)"
  by (auto simp: add_catch_def caught_def)

lemma check_catches_last:
  assumes "check_catches final rs new_catch_log = Inr k" "length rs \<le> max_catch_records"
  shows "cl_last_frame k = (if rs = [] then - 1 else cr_frame (List.last rs)) \<and> cl_total k = int (length rs) \<and> cl_records k = rs"
  using assms
proof (induction rs arbitrary: k rule: rev_induct)
  case (snoc r rs)
  then obtain k' where "check_catches final rs new_catch_log = Inr k'" "check_catches final [r] k' = Inr k"
    by (auto simp: check_catches_append split: sum.splits)
  then show ?case using snoc.IH [of k'] snoc.prems(2) by (auto simp: add_caught keep_catch_def split: option.splits if_splits)
qed (auto simp: new_catch_log_def)

lemma catches_caught:
  assumes l: "\<not> bad_catch_summary l" and k: "check_catches (cl_last_frame l) (cl_records l) new_catch_log = Inr k" "\<not> bad_catch_retained l k"
    and r: "validate_catch_review r = None" "cl_last_frame l < cr_frame r"
  shows "\<exists>k. check_catches (cr_frame r) (cl_records (keep_catch r (caught r l))) new_catch_log = Inr k \<and> \<not> bad_catch_retained (keep_catch r (caught r l)) k"
proof -
  have shape: "cl_last_frame k \<le> cl_last_frame l \<or> 0 < cl_dropped l" "cl_records k = cl_records l"
    using k l check_catches_last [OF k(1)] by (auto simp: bad_catch_retained_iff bad_catch_summary_iff)
  note later = check_catches_later [OF k(1), of "cr_frame r"] and counts = count_outcome_more(2) [OF r(1)]
  show ?thesis
  proof (cases "length (cl_records l) < max_catch_records")
    case True
    then have d: "cl_dropped l = 0" using l by (auto simp: bad_catch_summary_iff)
    then have same: "cl_last_frame k = cl_last_frame l" using k(2) by (auto simp: bad_catch_retained_iff)
    then have "check_catches (cr_frame r) (cl_records l @ [r]) new_catch_log = Inr (keep_catch r (caught r k))"
      using later r add_caught [OF r(1), of k] by (simp add: check_catches_append)
    then show ?thesis
      using True d k(2) count_outcome_le [of k l] by (auto simp: bad_catch_retained_iff keep_catch_def outcome_counts_def caught_def count_outcome_def split: catch_outcome.splits)
  next
    case False
    then have "cl_records l \<noteq> []" "0 \<le> cl_dropped l" using l by (auto simp: bad_catch_summary_iff max_catch_records_def)
    moreover have "list_all2 (\<le>) (outcome_counts k) (outcome_counts (caught r l))"
      using counts [of l] k(2) list_all2_trans [of "(\<le>)" "(\<le>)" "(\<le>)" "outcome_counts k" "outcome_counts l"] by (auto simp: bad_catch_retained_iff)
    ultimately have "\<not> bad_catch_retained (keep_catch r (caught r l)) k" using False by (auto simp: bad_catch_retained_iff keep_catch_def outcome_counts_def)
    then show ?thesis using later r(2) False by (auto simp: keep_catch_def)
  qed
qed

lemma add_catch_valid: "validate_catch_log l = None \<Longrightarrow> validate_catch_log (add_catch r l) = None"
proof -
  assume valid: "validate_catch_log l = None"
  then obtain k where l: "\<not> bad_catch_summary l" and k: "check_catches (cl_last_frame l) (cl_records l) new_catch_log = Inr k" "\<not> bad_catch_retained l k"
    by (auto simp: validate_catch_log_iff)
  consider "validate_catch_review r \<noteq> None" | "validate_catch_review r = None" "0 < cl_total l" "cr_frame r \<le> cl_last_frame l"
    | "validate_catch_review r = None" "\<not> (0 < cl_total l \<and> cr_frame r \<le> cl_last_frame l)" by blast
  then show ?thesis
  proof cases
    case 1
    have "\<not> bad_catch_summary (l\<lparr>cl_invalid := cl_invalid l + 1\<rparr>)" using l by (simp add: bad_catch_summary_iff)
    moreover have "\<not> bad_catch_retained (l\<lparr>cl_invalid := cl_invalid l + 1\<rparr>) k" using k(2) by (simp add: bad_catch_retained_iff)
    ultimately have "validate_catch_log (l\<lparr>cl_invalid := cl_invalid l + 1\<rparr>) = None" using k(1) by (simp add: validate_catch_log_iff)
    then show ?thesis using 1 by (simp add: add_catch_def)
  next
    case 2
    then show ?thesis using valid by (simp add: add_catch_def)
  next
    case 3
    note more = count_outcome_more(1,2) [OF 3(1), of l] count_outcome_more(3) [OF 3(1)]
    have "list_all (\<lambda>k. 0 \<le> k) (outcome_counts (caught r l))"
      using l nonneg_le [OF more(2)] by (simp add: bad_catch_summary_iff)
    then have "\<not> bad_catch_summary (keep_catch r (caught r l))"
      using l more(1) keep_catch_fields(5) [of r "caught r l"] by (auto simp: bad_catch_summary_iff keep_catch_def)
    moreover have "cl_last_frame l < cr_frame r" using 3 l more(3) by (cases "cl_total l = 0") (auto simp: bad_catch_summary_iff)
    ultimately show ?thesis using catches_caught [OF l k 3(1)] by (simp add: add_caught [OF 3] validate_catch_log_iff)
  qed
qed

lemma new_catch_log_valid: "validate_catch_log new_catch_log = None"
  by (auto simp: validate_catch_log_iff new_catch_log_def bad_catch_summary_iff bad_catch_retained_iff outcome_counts_def)

section \<open>What the logs promise\<close>

datatype log_op = Record assessment | Chunk mech_log

definition log_step :: "log_op \<Rightarrow> mech_log \<Rightarrow> mech_log" where
  "log_step x l = (case x of Record r \<Rightarrow> add_assessment r l | Chunk nxt \<Rightarrow> merge_mech_log nxt l)"

text \<open>C31: A mechanics log that started empty validates whatever was recorded in it or merged into it: malformed assessments, repeated and
  out-of-order events and corrupt chunks never leave counts, order or retained records inconsistent.\<close>

theorem mech_log_always_validates: "validate_mech_log (fold log_step xs new_mech_log) = None"
proof -
  have "validate_mech_log l = None \<Longrightarrow> validate_mech_log (fold log_step xs l) = None" for l
    by (induction xs arbitrary: l) (auto simp: log_step_def add_keeps_valid merge_valid split: log_op.splits)
  then show ?thesis using new_mech_log_valid by blast
qed

definition sample_review :: assessment where
  "sample_review = blank_assessment\<lparr>as_kind := mech_throw, as_result := mech_anomaly, as_reason := ''bend'', as_rule_version := ''v1'',
     as_frame := 7, as_event := ''release:1''\<rparr>"

text \<open>Replaying a chunk of a live match into a mechanics log changes nothing: merging it twice is merging it once, whether the log took it,
  took part of it, or refused it.\<close>

theorem mech_merge_is_idempotent:
  assumes "ml_invalid nxt \<le> max_int64"
  shows "merge_mech_log nxt (merge_mech_log nxt l) = merge_mech_log nxt l"
  using assms by (rule merge_twice)

lemma sample_review_valid: "validate_assessment sample_review = None"
  by (simp add: validate_assessment_def sample_review_def blank_assessment_def mechanics_time_def review_key_def key_char_def is_nan_def is_inf_def
      first_error_def max_metrics_def List.map_filter_def)

lemma sample_chunk: "add_assessment sample_review new_mech_log = keep_record sample_review (taken sample_review new_mech_log)"
  by (rule add_taken [OF sample_review_valid]) (simp add: accepts_def new_mech_log_def max_int64_def has_event_def)

theorem mech_merge_is_idempotent_witness:
  "let nxt = add_assessment sample_review new_mech_log in
     ml_total nxt = 1 \<and> ml_invalid nxt \<le> max_int64 \<and> merge_mech_log nxt (merge_mech_log nxt new_mech_log) = merge_mech_log nxt new_mech_log"
proof -
  have t: "ml_total (add_assessment sample_review new_mech_log) = 1" unfolding sample_chunk by (simp add: new_mech_log_def)
  have i: "ml_invalid (add_assessment sample_review new_mech_log) \<le> max_int64" unfolding sample_chunk by (simp add: new_mech_log_def max_int64_def)
  show ?thesis using t i mech_merge_is_idempotent [OF i, of new_mech_log] by (simp add: Let_def)
qed

text \<open>A catch log that started empty validates whatever was recorded in it.\<close>

theorem catch_log_always_validates: "validate_catch_log (fold add_catch rs new_catch_log) = None"
proof -
  have "validate_catch_log l = None \<Longrightarrow> validate_catch_log (fold add_catch rs l) = None" for l
    by (induction rs arbitrary: l) (simp_all add: add_catch_valid)
  then show ?thesis using new_catch_log_valid by blast
qed

text \<open>Unlike a mechanics log, a catch log counts the malformed records of a chunk that holds nothing else again each time the chunk is
  merged: the chunk has no frame to recognise it by.\<close>

theorem catch_merge_recounts_invalid:
  assumes "validate_catch_log nxt = None" "cl_total nxt = 0"
  shows "cl_invalid (merge_catch_log nxt (merge_catch_log nxt l)) = cl_invalid l + 2 * cl_invalid nxt"
proof -
  have "int (length (cl_records nxt)) + cl_dropped nxt = 0" "0 \<le> cl_dropped nxt" using assms by (auto simp: validate_catch_log_iff bad_catch_summary_iff)
  then have "cl_records nxt = []" "cl_dropped nxt = 0" by (simp_all add: add_nonneg_eq_0_iff)
  then show ?thesis using assms by (simp add: merge_catch_log_def)
qed

theorem catch_merge_recounts_invalid_witness:
  "let nxt = new_catch_log\<lparr>cl_invalid := 1\<rparr> in
     validate_catch_log nxt = None \<and> cl_invalid (merge_catch_log nxt (merge_catch_log nxt new_catch_log)) = 2"
proof -
  have v: "validate_catch_log (new_catch_log\<lparr>cl_invalid := 1\<rparr>) = None"
    by (auto simp: validate_catch_log_iff new_catch_log_def bad_catch_summary_iff bad_catch_retained_iff outcome_counts_def)
  have "cl_total (new_catch_log\<lparr>cl_invalid := 1\<rparr>) = 0" by (simp add: new_catch_log_def)
  with v show ?thesis using catch_merge_recounts_invalid [OF v, of new_catch_log] by (simp add: new_catch_log_def Let_def)
qed

end
