(* ===== verification/Detect_Catch.thy ===== *)
theory Detect_Catch
  imports Detect_State Detect_Flight Review_Logs
begin

text \<open>
  Pre-catch trajectory review (STATE_008; \<open>internal/detect/state/state_008.go\<close>, \<open>state_008_temporal.go\<close>,
  \<open>catch_contact.go\<close>): the disc's free flight against a straight reference, and whether it bent towards the hand that
  caught it. This theory holds the samples, the reference and the contact envelope; \<open>Detect_Catch_Run\<close> the detector.
\<close>

definition catch_history_limit :: nat where "catch_history_limit = 256"
definition catch_player_limit :: nat where "catch_player_limit = 16"
definition catch_time_epsilon :: f64 where "catch_time_epsilon = flit (1 / 10 ^ 9)"

record catch_pose =
  po_id :: string
  po_body :: vec3
  po_head :: vec3
  po_left :: vec3
  po_right :: vec3

record catch_sample =
  ca_frame :: int
  ca_time :: f64
  ca_position :: vec3
  ca_velocity :: vec3
  ca_bounce :: int
  ca_holder :: string
  ca_poses :: "catch_pose list"
  ca_source :: "observation_context option"

definition no_pose :: "string \<Rightarrow> catch_pose" where
  "no_pose i = \<lparr>po_id = i, po_body = 0, po_head = 0, po_left = 0, po_right = 0\<rparr>"

definition no_catch_sample :: "int \<Rightarrow> catch_sample" where
  "no_catch_sample f = \<lparr>ca_frame = f, ca_time = Fin 0, ca_position = 0, ca_velocity = 0, ca_bounce = 0, ca_holder = [], ca_poses = [], ca_source = None\<rparr>"

definition catch_finite :: "vec3 \<Rightarrow> bool" where
  "catch_finite v \<longleftrightarrow> \<not> v_has_nan v \<and> \<not> v_has_inf v \<and> \<not> is_inf (v_magnitude v)"

section \<open>Possession\<close>

text \<open>What the first pass over the players collects: the sample, the disc of the first player, whether the holder was seen.\<close>

record possession =
  pn_sample :: catch_sample
  pn_reference :: "disc_state option"
  pn_holder_present :: bool

definition bad_roster_count :: "disc_state \<Rightarrow> bool" where
  "bad_roster_count dc \<longleftrightarrow> ds_sampled_player_count dc < 1 \<or> int catch_player_limit < ds_sampled_player_count dc"

definition possession_error :: "int \<Rightarrow> catch_sample \<Rightarrow> tracked \<Rightarrow> string option" where
  "possession_error f s ps =
     (let t = ps_last_timestamp ps; own = th_disc_attachment (pl_throws ps) in
      case ps_current_disc ps of None \<Rightarrow> Some ''catch_input_unavailable''
      | Some dc \<Rightarrow>
          if ps_player_id ps = [] \<or> ps_player_id ps \<in> po_id ` set (ca_poses s) \<or> bad_roster_count dc \<or> length (ca_poses s) = catch_player_limit \<or>
            \<not> f_finite t \<or> flt t (Fin 0) then Some ''catch_input_unavailable''
          else if \<not> da_known (ds_attachment dc) \<or> \<not> da_known own then Some ''catch_attachment_unknown''
          else if ds_possession_conflict dc \<or> ds_attachment dc \<noteq> own \<or> da_free (ds_attachment dc) = ds_is_held dc \<or>
            (case ds_attachment dc of None \<Rightarrow> True | Some a \<Rightarrow> da_holder_id a \<noteq> ds_possessor_id dc) then Some ''catch_possession_conflict''
          else if \<not> oc_valid (ps_observation ps) \<or> (case ps_observation ps of None \<Rightarrow> True
            | Some c \<Rightarrow> oc_frame_index c \<noteq> f \<or> \<not> feq (oc_timestamp c) t) then Some ''catch_source_unavailable''
          else None)"

definition possession_agrees :: "catch_sample \<Rightarrow> disc_state \<Rightarrow> tracked \<Rightarrow> disc_state \<Rightarrow> bool" where
  "possession_agrees s r ps dc \<longleftrightarrow> feq (ps_last_timestamp ps) (ca_time s) \<and> ds_is_held dc = ds_is_held r \<and> ds_possessor_id dc = ds_possessor_id r \<and>
     ds_sampled_player_count dc = ds_sampled_player_count r \<and> ds_attachment dc = ds_attachment r \<and> same_source (ca_source s) (ps_observation ps)"

definition note_possession :: "tracked \<Rightarrow> disc_state \<Rightarrow> possession \<Rightarrow> possession" where
  "note_possession ps dc p =
     (let s = (if pn_reference p = None
               then (pn_sample p)\<lparr>ca_time := ps_last_timestamp ps, ca_source := ps_observation ps,
                 ca_holder := (case ds_attachment dc of None \<Rightarrow> [] | Some a \<Rightarrow> da_holder_id a)\<rparr>
               else pn_sample p)
      in \<lparr>pn_sample = s\<lparr>ca_poses := ca_poses s @ [no_pose (ps_player_id ps)]\<rparr>,
          pn_reference = (if pn_reference p = None then Some dc else pn_reference p),
          pn_holder_present = (pn_holder_present p \<or> ps_player_id ps = ca_holder s)\<rparr>)"

fun collect_possession :: "int \<Rightarrow> tracked list \<Rightarrow> possession \<Rightarrow> string + possession" where
  "collect_possession f [] p = Inr p"
| "collect_possession f (ps # pss) p =
     (case possession_error f (pn_sample p) ps of Some e \<Rightarrow> Inl e
      | None \<Rightarrow> (case ps_current_disc ps of None \<Rightarrow> Inl ''catch_input_unavailable''
         | Some dc \<Rightarrow>
             if (case pn_reference p of None \<Rightarrow> False | Some r \<Rightarrow> \<not> possession_agrees (pn_sample p) r ps dc) then Inl ''catch_inconsistent_snapshot''
             else collect_possession f pss (note_possession ps dc p)))"

definition at_frame :: "(string, tracked) gomap \<Rightarrow> int \<Rightarrow> tracked list" where
  "at_frame pls f = filter (\<lambda>ps. ps_last_frame_idx ps = f) (sorted_players pls)"

definition roster_complete :: "possession \<Rightarrow> bool" where
  "roster_complete p \<longleftrightarrow> (case pn_reference p of None \<Rightarrow> False
     | Some r \<Rightarrow> int (length (ca_poses (pn_sample p))) = ds_sampled_player_count r \<and> (ca_holder (pn_sample p) = [] \<or> pn_holder_present p))"

definition read_possession :: "(string, tracked) gomap \<Rightarrow> int \<Rightarrow> string + catch_sample" where
  "read_possession pls f = (case collect_possession f (at_frame pls f) \<lparr>pn_sample = no_catch_sample f, pn_reference = None, pn_holder_present = False\<rparr> of
     Inl e \<Rightarrow> Inl e | Inr p \<Rightarrow> if roster_complete p then Inr (pn_sample p) else Inl ''catch_roster_incomplete'')"

section \<open>Samples\<close>

definition motion_error :: "tracked \<Rightarrow> disc_state \<Rightarrow> string option" where
  "motion_error ps dc =
     (let t = ps_last_timestamp ps in
      if (case ds_bounce_count dc of None \<Rightarrow> True | Some k \<Rightarrow> k < 0) \<or> bad_roster_count dc \<or> \<not> catch_finite (ds_position dc) \<or>
        \<not> catch_finite (ds_velocity dc) \<or> \<not> f_finite (ds_speed dc) \<or> flt (ds_speed dc) (Fin 0) \<or> \<not> f_finite t \<or> flt t (Fin 0)
      then Some ''catch_input_unavailable''
      else if flt (flit (1/100)) (fabs (fsub (ds_speed dc) (v_magnitude (ds_velocity dc)))) then Some ''catch_inconsistent_snapshot''
      else None)"

definition tracking_lost :: "tracked \<Rightarrow> bool" where
  "tracking_lost ps \<longleftrightarrow>
     (let l = h_position (pl_left ps); r = h_position (pl_right ps); b = pl_position ps in
      (case kn_head_position (pl_kin ps) of None \<Rightarrow> True | Some h \<Rightarrow> v_is_zero h \<or> \<not> catch_finite h) \<or> v_is_zero l \<or> v_is_zero r \<or> v_is_zero b \<or>
      \<not> catch_finite l \<or> \<not> catch_finite r \<or> \<not> catch_finite b \<or> st_is_immune (pl_status ps) \<or> pl_high_ping ps)"

definition motion_agrees :: "catch_sample \<Rightarrow> disc_state \<Rightarrow> tracked \<Rightarrow> disc_state \<Rightarrow> bool" where
  "motion_agrees s r ps dc \<longleftrightarrow> feq (ps_last_timestamp ps) (ca_time s) \<and> ds_position dc = ds_position r \<and> ds_velocity dc = ds_velocity r \<and>
     ds_is_held dc = ds_is_held r \<and> ds_possessor_id dc = ds_possessor_id r \<and> feq (ds_speed dc) (ds_speed r) \<and>
     ds_bounce_count dc = Some (ca_bounce s) \<and> ds_sampled_player_count dc = ds_sampled_player_count r"

definition note_motion :: "tracked \<Rightarrow> disc_state \<Rightarrow> bool \<Rightarrow> catch_sample \<Rightarrow> catch_sample" where
  "note_motion ps dc new_disc s0 =
     (let s = (if new_disc then s0\<lparr>ca_time := ps_last_timestamp ps, ca_position := ds_position dc, ca_velocity := ds_velocity dc,
                 ca_bounce := (case ds_bounce_count dc of None \<Rightarrow> 0 | Some k \<Rightarrow> k)\<rparr> else s0)
      in s\<lparr>ca_poses := ca_poses s @ [\<lparr>po_id = ps_player_id ps, po_body = pl_position ps,
           po_head = (case kn_head_position (pl_kin ps) of None \<Rightarrow> 0 | Some h \<Rightarrow> h), po_left = h_position (pl_left ps), po_right = h_position (pl_right ps)\<rparr>]\<rparr>)"

fun collect_motion :: "tracked list \<Rightarrow> disc_state option \<Rightarrow> catch_sample \<Rightarrow> string + disc_state option \<times> catch_sample" where
  "collect_motion [] r s = Inr (r, s)"
| "collect_motion (ps # pss) r s =
     (if length (ca_poses s) = catch_player_limit then Inl ''catch_input_unavailable''
      else case ps_current_disc ps of None \<Rightarrow> Inl ''catch_input_unavailable''
      | Some dc \<Rightarrow> (case motion_error ps dc of Some e \<Rightarrow> Inl e
         | None \<Rightarrow>
             if tracking_lost ps then Inl ''catch_tracking_unavailable''
             else (case r of None \<Rightarrow> collect_motion pss (Some dc) (note_motion ps dc True s)
               | Some x \<Rightarrow> if motion_agrees s x ps dc then collect_motion pss r (note_motion ps dc False s) else Inl ''catch_inconsistent_snapshot'')))"

definition read_catch_sample :: "(string, tracked) gomap \<Rightarrow> int \<Rightarrow> string + catch_sample" where
  "read_catch_sample pls f = (case read_possession pls f of Inl e \<Rightarrow> Inl e
     | Inr who \<Rightarrow> (case collect_motion (at_frame pls f) None ((no_catch_sample f)\<lparr>ca_holder := ca_holder who, ca_source := ca_source who\<rparr>) of
         Inl e \<Rightarrow> Inl e
       | Inr (None, s) \<Rightarrow> Inl ''catch_roster_incomplete''
       | Inr (Some dc, s) \<Rightarrow> if int (length (ca_poses s)) = ds_sampled_player_count dc then Inr s else Inl ''catch_roster_incomplete''))"

definition same_roster :: "catch_sample \<Rightarrow> catch_sample \<Rightarrow> bool" where
  "same_roster a b \<longleftrightarrow> map po_id (ca_poses a) = map po_id (ca_poses b)"

definition pose_jump :: "f64 \<Rightarrow> catch_pose \<Rightarrow> catch_pose \<Rightarrow> bool" where
  "pose_jump dt old now \<longleftrightarrow>
     (let step = v_sub (po_body now) (po_body old) in
      flt (Fin 100) (fdiv (v_magnitude step) dt) \<or>
      list_ex (\<lambda>(p, q). flt (Fin 50) (fdiv (v_magnitude (v_sub (v_sub q p) step)) dt))
        [(po_left old, po_left now), (po_right old, po_right now), (po_head old, po_head now)])"

definition pose_continuity :: "catch_sample \<Rightarrow> catch_sample \<Rightarrow> f64 \<Rightarrow> bool" where
  "pose_continuity a b dt \<longleftrightarrow> \<not> list_ex (\<lambda>(old, now). pose_jump dt old now) (zip (ca_poses a) (ca_poses b))"

section \<open>Geometry\<close>

text \<open>The least distance of two straight motions at the same time.\<close>

definition relative_sweep :: "vec3 \<Rightarrow> vec3 \<Rightarrow> vec3 \<Rightarrow> vec3 \<Rightarrow> f64" where
  "relative_sweep d0 d1 h0 h1 =
     (let r0 = v_sub d0 h0; delta = v_sub (v_sub d1 h1) r0; len = v_magnitude_sq delta;
          t = (if flt (flit (1 / 10 ^ 12)) len then fmax (Fin 0) (fmin (Fin 1) (fdiv (fneg (v_dot r0 delta)) len)) else Fin 0)
      in v_magnitude (v_add r0 (v_scale delta t)))"

definition secant_turn_rate :: "detect_env \<Rightarrow> vec3 \<Rightarrow> vec3 \<Rightarrow> f64 \<Rightarrow> f64 \<Rightarrow> f64" where
  "secant_turn_rate de prev_step step prev_dt dt =
     (if fle prev_dt (Fin 0) \<or> fle dt (Fin 0) \<or> v_is_zero prev_step \<or> v_is_zero step then Fin 0
      else fdiv (turn_angle de prev_step step) (fdiv (fadd prev_dt dt) (Fin 2)))"

text \<open>The straight reference of a flight: the mean velocity, with which every position has to agree.\<close>

fun velocity_integral :: "catch_sample list \<Rightarrow> vec3 \<Rightarrow> vec3 option" where
  "velocity_integral (a # b # ss) acc =
     (let dt = fsub (ca_time b) (ca_time a) in
      if fle dt (Fin 0) then None
      else velocity_integral (b # ss) (v_add acc (v_scale (v_add (ca_velocity a) (ca_velocity b)) (fdiv dt (Fin 2)))))"
| "velocity_integral ss acc = Some acc"

fun residuals :: "detect_env \<Rightarrow> catch_sample \<Rightarrow> vec3 \<Rightarrow> f64 \<Rightarrow> catch_sample list \<Rightarrow> f64 \<Rightarrow> string + f64" where
  "residuals de first v max_error [] m = Inr m"
| "residuals de first v max_error (s # ss) m =
     (let r = v_magnitude (v_sub (v_sub (ca_position s) (ca_position first)) (v_scale v (fsub (ca_time s) (ca_time first)))) in
      if flt max_error r \<or> flt (Fin 3) (turn_angle de v (ca_velocity s)) then Inl ''catch_baseline_unstable''
      else residuals de first v max_error ss (fmax m r))"

definition fit_reference :: "detect_env \<Rightarrow> catch_sample list \<Rightarrow> f64 \<Rightarrow> string + vec3 \<times> f64" where
  "fit_reference de ss max_error =
     (if length ss < 2 then Inl ''catch_baseline_low_information''
      else let duration = fsub (ca_time (List.last ss)) (ca_time (hd ss)) in
        if fle duration (Fin 0) then Inl ''catch_baseline_low_information''
        else (case velocity_integral ss 0 of None \<Rightarrow> Inl ''catch_baseline_low_information''
          | Some integral \<Rightarrow>
              let v = v_scale integral (fdiv (Fin 1) duration) in
              if flt (v_magnitude v) (Fin 2) \<or> flt (v_magnitude integral) (fmul (Fin 2) max_error) then Inl ''catch_baseline_low_information''
              else (case residuals de (hd ss) v max_error ss (Fin 0) of Inl e \<Rightarrow> Inl e | Inr m \<Rightarrow> Inr (v, m))))"

section \<open>The contact envelope\<close>

definition contact_clear :: string where "contact_clear = ''clear''"
definition contact_hand :: string where "contact_hand = ''hand''"
definition contact_head :: string where "contact_head = ''head''"
definition contact_body :: string where "contact_body = ''body''"
definition contact_torso :: string where "contact_torso = ''torso_envelope''"
definition contact_uncertain :: string where "contact_uncertain = ''uncertain_geometry''"
definition max_torso_length :: f64 where "max_torso_length = Fin 3"
definition coordinate_max :: f64 where "coordinate_max = Fin (10 ^ 6)"
definition distance_slack :: f64 where "distance_slack = flit (2 / 10 ^ 6)"

record contact =
  ct_possible :: bool
  ct_kind :: string
  ct_closest :: f64
  ct_margin :: f64
  ct_uncertainty :: f64

fun contact_vector :: "vec3 \<Rightarrow> bool" where
  "contact_vector (Vec3 x y z) \<longleftrightarrow> catch_finite (Vec3 x y z) \<and> fle (fabs x) coordinate_max \<and> fle (fabs y) coordinate_max \<and> fle (fabs z) coordinate_max"

definition pose_unusable :: "catch_pose \<Rightarrow> bool" where
  "pose_unusable p \<longleftrightarrow> list_ex (\<lambda>v. v_is_zero v \<or> \<not> contact_vector v) [po_left p, po_right p, po_head p, po_body p] \<or>
     flt max_torso_length (v_distance (po_head p) (po_body p))"

fun poses_unusable :: "(catch_pose \<times> catch_pose) list \<Rightarrow> string list \<Rightarrow> bool" where
  "poses_unusable [] seen = False"
| "poses_unusable ((p, q) # pqs) seen \<longleftrightarrow> po_id p = [] \<or> po_id p \<in> set seen \<or> pose_unusable p \<or> pose_unusable q \<or> poses_unusable pqs (po_id p # seen)"

definition nearer :: "f64 \<Rightarrow> string \<Rightarrow> f64 \<times> string \<Rightarrow> f64 \<times> string" where
  "nearer x kind best = (let y = fmax (Fin 0) (fsub x distance_slack) in if flt y (fst best) then (y, kind) else best)"

definition pose_contacts :: "catch_sample \<Rightarrow> catch_sample \<Rightarrow> catch_pose \<times> catch_pose \<Rightarrow> (f64 \<times> string) list" where
  "pose_contacts a b pq =
     (let (p, q) = pq; to = (\<lambda>h0 h1. relative_sweep (ca_position a) (ca_position b) h0 h1);
          radius = fmul (Fin (1/2)) (fmax (v_distance (po_body p) (po_head p)) (v_distance (po_body q) (po_head q)))
      in [(to (po_left p) (po_left q), contact_hand), (to (po_right p) (po_right q), contact_hand), (to (po_head p) (po_head q), contact_head),
          (to (po_body p) (po_body q), contact_body),
          (fsub (to (v_scale (v_add (po_body p) (po_head p)) (Fin (1/2))) (v_scale (v_add (po_body q) (po_head q)) (Fin (1/2)))) radius, contact_torso)])"

definition closest_contact :: "catch_sample \<Rightarrow> catch_sample \<Rightarrow> f64 \<times> string" where
  "closest_contact a b = fold (\<lambda>(x, kind). nearer x kind) (concat (map (pose_contacts a b) (zip (ca_poses a) (ca_poses b)))) (max_float64, contact_clear)"

definition bad_interval :: "catch_sample \<Rightarrow> catch_sample \<Rightarrow> f64 \<Rightarrow> bool" where
  "bad_interval a b accel \<longleftrightarrow>
     (let dt = fsub (ca_time b) (ca_time a) in \<not> f_finite (ca_time a) \<or> flt (ca_time a) (Fin 0) \<or> \<not> f_finite (ca_time b) \<or> fle dt (Fin 0) \<or> is_inf dt \<or>
      \<not> f_finite accel \<or> flt accel (Fin 0) \<or> flt (Fin 200) accel)"

definition contact_envelope :: "catch_sample \<Rightarrow> catch_sample \<Rightarrow> f64 \<Rightarrow> f64 \<Rightarrow> contact" where
  "contact_envelope a b margin accel =
     (let unsure = \<lparr>ct_possible = True, ct_kind = contact_uncertain, ct_closest = Fin 0, ct_margin = Fin 0, ct_uncertainty = Fin 0\<rparr>;
          dt = fsub (ca_time b) (ca_time a); uncertainty = fmul (fmul (fdiv accel (Fin 8)) dt) dt; expanded = fadd margin uncertainty
      in if \<not> f_finite margin \<or> flt margin (Fin 0) then unsure
         else if bad_interval a b accel \<or> \<not> f_finite expanded then unsure\<lparr>ct_margin := margin\<rparr>
         else
           let r = unsure\<lparr>ct_margin := expanded, ct_uncertainty := uncertainty\<rparr> in
           if ca_poses a = [] \<or> catch_player_limit < length (ca_poses a) \<or> \<not> same_roster a b \<or> \<not> contact_vector (ca_position a) \<or>
             \<not> contact_vector (ca_position b) \<or> poses_unusable (zip (ca_poses a) (ca_poses b)) [] then r
           else let (x, kind) = closest_contact a b; near = fle x expanded in
             r\<lparr>ct_possible := near, ct_kind := (if near then kind else contact_clear), ct_closest := x\<rparr>)"

end
