(* ===== verification/Detect_Catch_Run.thy ===== *)
theory Detect_Catch_Run
  imports Detect_Catch
begin

text \<open>
  The detector STATE_008 (\<open>internal/detect/state/state_008.go\<close>): it follows the free disc, keeps a straight reference and
  the corrections against it, and when a player catches the disc it decides whether the flight bent towards a hand that
  the straight flight would have missed. What it reports waits for the next sample to confirm the holder, and is an
  observation only: shadow, without weight. Beside the events it reports one catch review per observed transition.

  The pending event is kept with the evidence values its confirmation extends. \<open>trace\<close> of the source is modelled by what
  it keeps, the reason the last flight was lost.
\<close>

record catch_baseline =
  cb_closed :: bool
  cb_anchor :: catch_sample
  cb_velocity :: vec3
  cb_start :: nat
  cb_corrections :: int
  cb_duration :: f64
  cb_elapsed :: f64
  cb_first_dt :: f64
  cb_ref_duration :: f64
  cb_ref_samples :: int
  cb_max_turn :: f64
  cb_max_secant :: f64
  cb_max_lateral :: f64
  cb_max_step_error :: f64
  cb_previous_lateral :: vec3
  cb_angle_sum :: f64
  cb_min_clearance :: f64
  cb_max_margin :: f64
  cb_max_uncertainty :: f64

record pending_catch =
  pg_event :: detection_event
  pg_metrics :: "(string \<times> f64) list"
  pg_trajectory :: "datum list"

record state008 =
  c8_baseline_samples :: int
  c8_min_corrections :: int
  c8_baseline_duration :: f64
  c8_min_duration :: f64
  c8_max_gap :: f64
  c8_max_window :: f64
  c8_max_step_error :: f64
  c8_min_lateral :: f64
  c8_min_turn :: f64
  c8_max_turn :: f64
  c8_contact_margin :: f64
  c8_min_improvement :: f64
  c8_contact_accel :: f64
  c8_max_approach :: f64
  c8_regrab_grace :: f64
  c8_previous :: "catch_sample option"
  c8_history :: "catch_sample list"
  c8_baseline :: "catch_baseline option"
  c8_pending :: "pending_catch option"
  c8_pending_holder :: string
  c8_pending_eligible :: bool
  c8_review :: "catch_review option"
  c8_review_holder :: string
  c8_diagnostic :: "catch_sample option"
  c8_flight_reason :: string
  c8_contact :: "contact option"
  c8_last_release :: f64

definition state008_base :: base where
  "state008_base = \<lparr>bd_id = ''STATE_008'', bd_version = ''0.3.0'', bd_name = ''Pre-catch Trajectory Review'', bd_category = ''state'',
     bd_inputs = [''disc_state'', ''disc_attachment'', ''observation_context'', ''hand_tracking'', ''head_position''], bd_warmup = 0,
     bd_weight = Fin 0, bd_auto = False\<rparr>"

section \<open>Configuration and resets\<close>

definition catch_bound :: "f64 \<Rightarrow> f64 \<Rightarrow> f64 \<Rightarrow> f64 \<Rightarrow> f64" where
  "catch_bound v lo hi fallback = (if is_nan v \<or> is_inf v then fallback else fmax lo (fmin hi v))"

definition catch_bound_int :: "int \<Rightarrow> int \<Rightarrow> int \<Rightarrow> int" where
  "catch_bound_int v lo hi = max lo (min hi v)"

definition clear_flight :: "state008 \<Rightarrow> state008" where
  "clear_flight d = d\<lparr>c8_history := [], c8_baseline := None\<rparr>"

definition forget_pending :: "state008 \<Rightarrow> state008" where
  "forget_pending d = d\<lparr>c8_pending := None, c8_pending_holder := []\<rparr>"

definition reset_trajectory :: "state008 \<Rightarrow> state008" where
  "reset_trajectory d = (forget_pending (clear_flight d))\<lparr>c8_previous := None, c8_pending_eligible := False, c8_flight_reason := [],
     c8_contact := None, c8_last_release := Inf True\<rparr>"

definition state008_reset :: "state008 \<Rightarrow> state008" where
  "state008_reset d = (reset_trajectory d)\<lparr>c8_review := None, c8_review_holder := [], c8_diagnostic := None\<rparr>"

definition bounded_float :: "params \<Rightarrow> string \<Rightarrow> f64 \<Rightarrow> rat \<Rightarrow> rat \<Rightarrow> rat \<Rightarrow> f64" where
  "bounded_float ps k old lo hi fallback = catch_bound (get_float ps k old) (flit lo) (flit hi) (flit fallback)"

definition state008_configure :: "params \<Rightarrow> state008 \<Rightarrow> state008" where
  "state008_configure ps d = state008_reset (d\<lparr>
     c8_baseline_samples := catch_bound_int (get_int ps ''baseline_samples'' (c8_baseline_samples d)) 4 12,
     c8_min_corrections := catch_bound_int (get_int ps ''min_correction_samples'' (c8_min_corrections d)) 2 8,
     c8_baseline_duration := bounded_float ps ''baseline_duration_s'' (c8_baseline_duration d) (1/10) 1 (2/10),
     c8_min_duration := bounded_float ps ''min_correction_duration_s'' (c8_min_duration d) (6/100) 1 (12/100),
     c8_max_gap := bounded_float ps ''max_sample_gap_s'' (c8_max_gap d) (2/100) (2/10) (12/100),
     c8_max_window := bounded_float ps ''max_window_s'' (c8_max_window d) (25/100) 2 (15/10),
     c8_max_step_error := bounded_float ps ''max_step_error_m'' (c8_max_step_error d) (1/100) (5/10) (2/10),
     c8_min_lateral := bounded_float ps ''min_lateral_deviation_m'' (c8_min_lateral d) (1/10) 3 (3/10),
     c8_min_turn := bounded_float ps ''min_turn_rate_deg_s'' (c8_min_turn d) 15 180 60,
     c8_max_turn := bounded_float ps ''max_turn_rate_deg_s'' (c8_max_turn d) 180 720 300,
     c8_contact_margin := bounded_float ps ''contact_margin_m'' (c8_contact_margin d) (5/10) 2 (65/100),
     c8_contact_accel := bounded_float ps ''contact_accel_allowance_mps2'' (c8_contact_accel d) 0 200 30,
     c8_min_improvement := bounded_float ps ''min_miss_improvement_m'' (c8_min_improvement d) (25/100) 3 (5/10),
     c8_max_approach := bounded_float ps ''max_catch_approach_m'' (c8_max_approach d) (5/10) 2 (15/10),
     c8_regrab_grace := bounded_float ps ''regrab_grace_s'' (c8_regrab_grace d) (25/100) 1 (35/100)\<rparr>)"

definition new_state008 :: "params \<Rightarrow> state008 instance_of" where
  "new_state008 ps = \<lparr>in_base = state008_base, in_made = 0, in_state = state008_configure ps \<lparr>c8_baseline_samples = 4, c8_min_corrections = 2,
     c8_baseline_duration = flit (2/10), c8_min_duration = flit (12/100), c8_max_gap = flit (12/100), c8_max_window = flit (15/10),
     c8_max_step_error = flit (2/10), c8_min_lateral = flit (3/10), c8_min_turn = Fin 60, c8_max_turn = Fin 300, c8_contact_margin = flit (65/100),
     c8_min_improvement = flit (5/10), c8_contact_accel = Fin 30, c8_max_approach = flit (15/10), c8_regrab_grace = flit (35/100),
     c8_previous = None, c8_history = [], c8_baseline = None, c8_pending = None, c8_pending_holder = [], c8_pending_eligible = False,
     c8_review = None, c8_review_holder = [], c8_diagnostic = None, c8_flight_reason = [], c8_contact = None, c8_last_release = Fin 0\<rparr>\<rparr>"

text \<open>Warm-up reasons do not replace the reason the flight was lost.\<close>

definition note_reason :: "string \<Rightarrow> state008 \<Rightarrow> state008" where
  "note_reason reason d = (if reason \<in> {''catch_inputs_ready'', ''catch_baseline_pending'', ''catch_free_trajectory_tracked'', ''catch_no_free_approach''}
     then d else d\<lparr>c8_flight_reason := reason\<rparr>)"

definition lose_flight :: "string \<Rightarrow> state008 \<Rightarrow> state008" where
  "lose_flight reason d = note_reason reason (clear_flight d)"

section \<open>Catch reviews\<close>

type_synonym review_out = "(string \<times> catch_review) list"

definition finish_review :: "catch_outcome option \<Rightarrow> string \<Rightarrow> bool \<Rightarrow> state008 \<Rightarrow> review_out \<times> state008" where
  "finish_review outcome reason confirmed d = (case c8_review d of None \<Rightarrow> ([], d)
     | Some r \<Rightarrow> ([(c8_review_holder d, r\<lparr>cr_outcome := (case outcome of None \<Rightarrow> cr_outcome r | Some x \<Rightarrow> x),
           cr_reason := (if reason = [] then cr_reason r else reason), cr_confirmed := confirmed\<rparr>)],
         d\<lparr>c8_review := None, c8_review_holder := []\<rparr>))"

definition open_review :: "catch_sample \<Rightarrow> catch_sample \<Rightarrow> string \<Rightarrow> catch_review" where
  "open_review now prev reason = \<lparr>cr_frame = ca_frame now, cr_time = ca_time now, cr_start_frame = ca_frame prev, cr_last_free = ca_frame prev,
     cr_confirmed = False, cr_outcome = Insufficient_data, cr_reason = reason, cr_description = [], cr_metrics = []\<rparr>"

definition settle_review :: "catch_sample \<Rightarrow> catch_sample \<Rightarrow> string \<Rightarrow> state008 \<Rightarrow> review_out \<times> state008" where
  "settle_review prev now unavailable d =
     (if c8_review d = None then ([], d)
      else if ca_holder now = c8_review_holder d \<and> ca_holder prev = c8_review_holder d
      then (if unavailable \<noteq> [] then finish_review (Some Insufficient_data) unavailable True d else finish_review None [] True d)
      else finish_review (Some Unconfirmed) ''catch_possession_unconfirmed'' False d)"

definition gap_between :: "state008 \<Rightarrow> catch_sample \<Rightarrow> catch_sample \<Rightarrow> bool" where
  "gap_between d prev now \<longleftrightarrow> (let dt = fsub (ca_time now) (ca_time prev) in
     ca_frame now \<noteq> ca_frame prev + 1 \<or> fle dt (Fin 0) \<or> flt (c8_max_gap d) dt \<or> \<not> same_roster prev now)"

definition observe_possession :: "(string, tracked) gomap \<Rightarrow> int \<Rightarrow> string \<Rightarrow> state008 \<Rightarrow> review_out \<times> state008" where
  "observe_possession pls f unavailable d0 =
     (case read_possession pls f of
        Inl e \<Rightarrow> let (rs, d) = finish_review (Some Insufficient_data) e False d0 in (rs, d\<lparr>c8_diagnostic := None\<rparr>)
      | Inr now \<Rightarrow>
          let d = d0\<lparr>c8_diagnostic := Some now\<rparr> in
          (case c8_diagnostic d0 of None \<Rightarrow> ([], d)
           | Some prev \<Rightarrow>
               if \<not> same_source (ca_source prev) (ca_source now) then finish_review (Some Insufficient_data) ''catch_source_changed'' False d
               else if gap_between d prev now then finish_review (Some Insufficient_data) ''catch_sample_gap'' False d
               else
                 let (rs, d) = settle_review prev now unavailable d in
                 if ca_holder prev = [] \<and> ca_holder now \<noteq> []
                 then (rs, d\<lparr>c8_review := Some (open_review now prev (if unavailable = [] then ''catch_baseline_pending'' else unavailable)),
                   c8_review_holder := ca_holder now\<rparr>)
                 else (rs, d)))"

definition flight_metrics :: "state008 \<Rightarrow> catch_sample \<Rightarrow> (string \<times> f64) list" where
  "flight_metrics d prev =
     (case c8_history d of [] \<Rightarrow> []
      | h # hs \<Rightarrow> [(''free_samples'', count_of (h # hs)), (''free_duration_s'', fsub (ca_time prev) (ca_time h))]) @
     (case c8_baseline d of None \<Rightarrow> []
      | Some b \<Rightarrow> [(''baseline_samples'', f_of_int (cb_ref_samples b)), (''baseline_duration_s'', cb_ref_duration b),
          (''correction_samples'', f_of_int (cb_corrections b)), (''correction_duration_s'', cb_duration b),
          (''max_lateral_deviation_m'', cb_max_lateral b), (''max_fit_error_m'', cb_max_step_error b), (''cumulative_turn_deg'', cb_angle_sum b),
          (''observed_max_turn_rate_deg_s'', cb_max_turn b), (''observed_max_secant_turn_rate_deg_s'', cb_max_secant b)]) @
     (case c8_contact d of None \<Rightarrow> []
      | Some c \<Rightarrow> [(''contact_clearance_lower_bound_m'', ct_closest c), (''contact_margin_m'', ct_margin c),
          (''contact_uncertainty_m'', ct_uncertainty c), (''contact_kind_'' @ ct_kind c, Fin 1)]) @
     (case c8_pending d of None \<Rightarrow> []
      | Some p \<Rightarrow> map (\<lambda>k. (k, gz (Fin 0) (pg_metrics p) k)) [''actual_hand_miss_m'', ''expected_hand_miss_m'', ''miss_improvement_m''])"

definition excluded_reasons :: "string set" where
  "excluded_reasons = {''catch_no_sustained_correction'', ''catch_correction_duration_pending'', ''catch_counterfactual_not_missed'',
     ''catch_release_grace'', ''catch_disc_too_slow'', ''catch_possible_contact'', ''catch_bounce_changed'', ''catch_correction_not_sustained''}"

definition begin_review :: "catch_sample \<Rightarrow> catch_sample \<Rightarrow> string \<Rightarrow> state008 \<Rightarrow> state008" where
  "begin_review got prev reason d =
     (let r = (open_review got prev reason)\<lparr>cr_start_frame := (case c8_history d of [] \<Rightarrow> ca_frame prev | h # _ \<Rightarrow> ca_frame h),
            cr_metrics := fold (\<lambda>(k, v). AList.update k v) (flight_metrics d prev) []\<rparr>;
          r = (if c8_pending d \<noteq> None then r\<lparr>cr_outcome := Observation, cr_reason := ''catch_candidate_confirmed''\<rparr>
               else if reason \<in> excluded_reasons then r\<lparr>cr_outcome := Excluded\<rparr> else r)
      in d\<lparr>c8_review := Some r, c8_review_holder := ca_holder got\<rparr>)"

section \<open>Candidates\<close>

definition expected_at :: "catch_baseline \<Rightarrow> catch_sample \<Rightarrow> vec3" where
  "expected_at b s = v_add (ca_position (cb_anchor b)) (v_scale (cb_velocity b) (fsub (ca_time s) (ca_time (cb_anchor b))))"

definition pose_at :: "nat \<Rightarrow> catch_sample \<Rightarrow> catch_pose" where
  "pose_at r s = (if r < length (ca_poses s) then ca_poses s ! r else no_pose [])"

fun receiver_of :: "string \<Rightarrow> catch_pose list \<Rightarrow> nat option" where
  "receiver_of i [] = None"
| "receiver_of i (p # ps) = (if po_id p = i then Some 0 else map_option Suc (receiver_of i ps))"

text \<open>The closest the disc came to a hand, and the closest the straight flight would have come, from the reference on.\<close>

definition misses :: "catch_baseline \<Rightarrow> nat \<Rightarrow> (catch_pose \<Rightarrow> vec3) \<Rightarrow> catch_sample list \<Rightarrow> f64 \<times> f64" where
  "misses base r hand hs =
     fold (\<lambda>(a, b) (actual, expected).
       let h0 = hand (pose_at r a); h1 = hand (pose_at r b) in
       (fmin actual (relative_sweep (ca_position a) (ca_position b) h0 h1),
        fmin expected (relative_sweep (expected_at base a) (expected_at base b) h0 h1)))
     (zip (drop (cb_start base) hs) (drop (cb_start base + 1) hs)) (Inf False, Inf False)"

record improvement =
  im_gain :: f64
  im_actual :: f64
  im_expected :: f64

definition judge_hand :: "state008 \<Rightarrow> catch_baseline \<Rightarrow> nat \<Rightarrow> (catch_pose \<Rightarrow> vec3) \<Rightarrow> improvement \<Rightarrow> improvement" where
  "judge_hand d base r hand best =
     (let hs = c8_history d; z = List.last hs; (actual, expected) = misses base r hand hs;
          final = v_distance (ca_position z) (hand (pose_at r z)); gain = fsub expected actual
      in if fle final (c8_max_approach d) \<and> fle final (fadd actual (c8_max_step_error d)) \<and>
           flt (fadd (c8_contact_margin d) (c8_min_improvement d)) expected \<and> flt (im_gain best) gain
         then \<lparr>im_gain = gain, im_actual = actual, im_expected = expected\<rparr> else best)"

definition best_hand :: "state008 \<Rightarrow> catch_baseline \<Rightarrow> nat \<Rightarrow> improvement" where
  "best_hand d base r = judge_hand d base r po_right (judge_hand d base r po_left \<lparr>im_gain = Fin 0, im_actual = Fin 0, im_expected = Fin 0\<rparr>)"

definition catch_metrics :: "state008 \<Rightarrow> catch_baseline \<Rightarrow> catch_sample \<Rightarrow> improvement \<Rightarrow> (string \<times> f64) list" where
  "catch_metrics d base got best =
     (let hs = c8_history d; z = List.last hs in
      [(''baseline_samples'', f_of_int (cb_ref_samples base)), (''free_samples'', count_of hs),
       (''baseline_duration_s'', cb_ref_duration base), (''correction_duration_s'', cb_duration base),
       (''required_baseline_duration_s'', c8_baseline_duration d), (''required_correction_duration_s'', c8_min_duration d),
       (''min_turn_rate_deg_s'', c8_min_turn d), (''max_turn_rate_deg_s'', c8_max_turn d),
       (''observed_max_turn_rate_deg_s'', cb_max_turn base), (''observed_max_secant_turn_rate_deg_s'', cb_max_secant base),
       (''correction_samples'', f_of_int (cb_corrections base)), (''cumulative_turn_deg'', cb_angle_sum base),
       (''correction_edge_intervals_s'', fsub (cb_elapsed base) (cb_duration base)),
       (''max_lateral_deviation_m'', cb_max_lateral base), (''max_fit_error_m'', cb_max_step_error base),
       (''actual_hand_miss_m'', im_actual best), (''expected_hand_miss_m'', im_expected best), (''miss_improvement_m'', im_gain best),
       (''baseline_speed_mps'', v_magnitude (cb_velocity base)), (''free_duration_s'', fsub (ca_time z) (ca_time (hd hs))),
       (''last_free_frame'', f_of_int (ca_frame z)), (''first_held_frame'', f_of_int (ca_frame got)),
       (''bounce_count'', f_of_int (ca_bounce z)), (''sampled_players'', count_of (ca_poses z)),
       (''min_lateral_deviation_m'', c8_min_lateral d), (''min_miss_improvement_m'', c8_min_improvement d),
       (''contact_margin_m'', c8_contact_margin d), (''max_step_error_m'', c8_max_step_error d),
       (''max_catch_approach_m'', c8_max_approach d), (''attribution_verified'', Fin 0),
       (''contact_clearance_lower_bound_m'', cb_min_clearance base), (''max_contact_margin_m'', cb_max_margin base),
       (''max_contact_uncertainty_m'', cb_max_uncertainty base), (''contact_accel_allowance_mps2'', c8_contact_accel d)])"

definition trajectory_datum :: "catch_baseline \<Rightarrow> nat \<Rightarrow> catch_sample \<Rightarrow> datum" where
  "trajectory_datum base r s = Dgroup [(''frame_index'', Dint (ca_frame s)), (''timestamp'', Dfloat (ca_time s)),
     (''disc_position'', vec_datum (ca_position s)), (''disc_velocity'', vec_datum (ca_velocity s)),
     (''expected_position'', vec_datum (expected_at base s)), (''left_hand'', vec_datum (po_left (pose_at r s))),
     (''right_hand'', vec_datum (po_right (pose_at r s)))]"

definition catch_limitations :: "string list" where
  "catch_limitations = [''Sampling thresholds are provisional engineering filters, not verified catch-physics limits.'',
     ''Sustained turn duration excludes uncertain first/last sampled intervals; it cannot prove continuous motion between samples.'',
     ''Obstacle geometry, authoritative contact events, remote controller inputs and netcode corrections are unavailable.'',
     ''Contact clearances are conservative interpolation-envelope lower bounds, not verified collision distances or physical acceleration limits.'',
     ''The first held-disc attachment is excluded from trajectory measurements; normal input automation may be unobservable.'']"

definition catch_evidence :: "detect_env \<Rightarrow> (string \<times> f64) list \<Rightarrow> datum list \<Rightarrow> evidence" where
  "catch_evidence de metrics trajectory = evidence_of de ''state'' [(''detector_specific'', Dtext ''receiver_associated_catch_trajectory''),
     (''metrics'', Dgroup (map (\<lambda>(k, v). (k, Dfloat v)) metrics)), (''catch_trajectory'', Ditems trajectory),
     (''attribution'', Dtext ''Receiver-associated trajectory anomaly; cause and actor unverified.''),
     (''limitations'', Ditems (map Dtext catch_limitations))]"

definition observe_only :: "detection_event \<Rightarrow> detection_event" where
  "observe_only e = e\<lparr>is_shadow := True, auto_enforce := False, enforcement_weight := Fin 0\<rparr>"

definition candidate_event :: "detect_env \<Rightarrow> base \<Rightarrow> nat \<Rightarrow> match_context \<Rightarrow> state008 \<Rightarrow> catch_baseline \<Rightarrow> catch_sample \<Rightarrow> evidence \<Rightarrow> detection_event" where
  "candidate_event de b n mc d base got evd = observe_only (make_event de b n mc (ca_holder got) (ca_frame got) (ca_time got)
     (fmin (flit (5/10)) (fadd (flit (2/10)) (fmul (flit (1/10)) (fsub (fdiv (cb_max_lateral base) (c8_min_lateral d)) (Fin 1)))))
     (flit (25/100)) evd
     (''receiver-associated trajectory anomaly: '' @ fmt_f 2 (cb_max_lateral base) @ '' m lateral deviation; cause and actor unverified'')
     ''provisional free-flight review filters; not a verified catch-physics limit''
     (player_key (ca_holder got) (ca_frame (hd (c8_history d))) (ca_frame got) ''catch_trajectory_review''))"

definition catch_candidate :: "detect_env \<Rightarrow> base \<Rightarrow> nat \<Rightarrow> match_context \<Rightarrow> catch_baseline \<Rightarrow> catch_sample \<Rightarrow> state008 \<Rightarrow> string + pending_catch" where
  "catch_candidate de b n mc base got d =
     (if cb_corrections base < c8_min_corrections d \<or> flt (cb_max_lateral base) (c8_min_lateral d) \<or>
        flt (fsub (ca_time got) (c8_last_release d)) (c8_regrab_grace d) then Inl ''catch_no_sustained_correction''
      else if flt (fadd (cb_duration base) catch_time_epsilon) (c8_min_duration d) then Inl ''catch_correction_duration_pending''
      else (case receiver_of (ca_holder got) (ca_poses (List.last (c8_history d))) of None \<Rightarrow> Inl ''catch_roster_incomplete''
        | Some r \<Rightarrow>
            let best = best_hand d base r in
            if flt (im_gain best) (c8_min_improvement d) then Inl ''catch_counterfactual_not_missed''
            else let metrics = catch_metrics d base got best; path = map (trajectory_datum base r) (c8_history d) in
              Inr \<lparr>pg_event = candidate_event de b n mc d base got (catch_evidence de metrics path), pg_metrics = metrics, pg_trajectory = path\<rparr>))"

section \<open>Free flight\<close>

text \<open>One step of the disc between the last free sample and this one.\<close>

record flight_step =
  sf_dt :: f64
  sf_step :: vec3
  sf_error :: f64
  sf_angle :: f64
  sf_turn :: f64
  sf_ratio :: f64

definition flight_step_of :: "detect_env \<Rightarrow> catch_sample \<Rightarrow> catch_sample \<Rightarrow> flight_step" where
  "flight_step_of de a s =
     (let dt = fsub (ca_time s) (ca_time a); step = v_sub (ca_position s) (ca_position a); angle = turn_angle de (ca_velocity a) (ca_velocity s) in
      \<lparr>sf_dt = dt, sf_step = step,
       sf_error = v_magnitude (v_sub step (v_scale (v_scale (v_add (ca_velocity s) (ca_velocity a)) (Fin (1/2))) dt)),
       sf_angle = angle, sf_turn = fdiv angle dt, sf_ratio = fdiv (v_magnitude (ca_velocity s)) (v_magnitude (ca_velocity a))\<rparr>)"

definition discontinuous :: "state008 \<Rightarrow> flight_step \<Rightarrow> bool" where
  "discontinuous d x \<longleftrightarrow> flt (c8_max_step_error d) (sf_error x) \<or> flt (c8_max_turn d) (sf_turn x) \<or> flt (sf_ratio x) (Fin (3/4)) \<or> flt (Fin (5/4)) (sf_ratio x)"

definition jitter :: "catch_sample list \<Rightarrow> f64 \<Rightarrow> bool" where
  "jitter hs dt \<longleftrightarrow> 1 < length hs \<and>
     (let prior = fsub (ca_time (List.last hs)) (ca_time (hs ! (length hs - 2))) in flt (fmul (Fin 2) prior) dt \<or> flt (fmul (Fin 2) dt) prior)"

text \<open>Before there is a reference: the flight has to stay straight until it is long enough to fit one.\<close>

definition unstable :: "detect_env \<Rightarrow> catch_sample \<Rightarrow> catch_sample \<Rightarrow> flight_step \<Rightarrow> bool" where
  "unstable de first s x \<longleftrightarrow> flt (Fin 3) (sf_angle x) \<or> flt (Fin 3) (turn_angle de (ca_velocity first) (ca_velocity s)) \<or>
     flt (flit (1/10)) (fabs (fsub (fdiv (v_magnitude (ca_velocity s)) (v_magnitude (ca_velocity first))) (Fin 1)))"

definition new_baseline :: "catch_sample list \<Rightarrow> catch_sample \<Rightarrow> vec3 \<Rightarrow> f64 \<Rightarrow> catch_baseline" where
  "new_baseline hs s v err = \<lparr>cb_closed = False, cb_anchor = s, cb_velocity = v, cb_start = length hs - 1, cb_corrections = 0, cb_duration = Fin 0,
     cb_elapsed = Fin 0, cb_first_dt = Fin 0, cb_ref_duration = fsub (ca_time s) (ca_time (hd hs)), cb_ref_samples = int (length hs), cb_max_turn = Fin 0,
     cb_max_secant = Fin 0, cb_max_lateral = Fin 0, cb_max_step_error = err, cb_previous_lateral = 0, cb_angle_sum = Fin 0,
     cb_min_clearance = Fin 0, cb_max_margin = Fin 0, cb_max_uncertainty = Fin 0\<rparr>"

definition build_baseline :: "detect_env \<Rightarrow> catch_sample \<Rightarrow> flight_step \<Rightarrow> state008 \<Rightarrow> state008" where
  "build_baseline de s x d =
     (if unstable de (hd (c8_history d)) s x then note_reason ''catch_baseline_unstable'' (d\<lparr>c8_history := [s]\<rparr>)
      else
        let hs = c8_history d @ [s]; d = d\<lparr>c8_history := hs\<rparr> in
        if c8_baseline_samples d \<le> int (length hs) \<and>
          fle (c8_baseline_duration d) (fadd (fsub (ca_time s) (ca_time (hd hs))) catch_time_epsilon)
        then (case fit_reference de hs (c8_max_step_error d) of
            Inl e \<Rightarrow> note_reason e (d\<lparr>c8_history := [s]\<rparr>)
          | Inr (v, err) \<Rightarrow> d\<lparr>c8_baseline := Some (new_baseline hs s v (fmax err (sf_error x))), c8_flight_reason := [], c8_contact := None\<rparr>)
        else d)"

text \<open>Against the reference: how far the disc is off it, whether it corrects further, and what may have touched it.\<close>

definition lateral_of :: "catch_baseline \<Rightarrow> catch_sample \<Rightarrow> vec3" where
  "lateral_of base s =
     (let residual = v_sub (ca_position s) (expected_at base s); dir = v_normalized (cb_velocity base) in
      v_sub residual (v_scale dir (v_dot residual dir)))"

definition secant_of :: "detect_env \<Rightarrow> catch_sample list \<Rightarrow> flight_step \<Rightarrow> f64" where
  "secant_of de hs x =
     (let a = List.last hs; prior = hs ! (length hs - 2) in
      secant_turn_rate de (v_sub (ca_position a) (ca_position prior)) (sf_step x) (fsub (ca_time a) (ca_time prior)) (sf_dt x))"

definition correcting :: "state008 \<Rightarrow> catch_baseline \<Rightarrow> vec3 \<Rightarrow> f64 \<Rightarrow> flight_step \<Rightarrow> bool" where
  "correcting d base lateral secant x \<longleftrightarrow>
     fle (c8_min_turn d) (fadd (sf_turn x) catch_time_epsilon) \<and> fle (fmul (c8_min_turn d) (Fin (1/2))) (fadd secant catch_time_epsilon) \<and>
     fle secant (c8_max_turn d) \<and> fle (v_magnitude (cb_previous_lateral base)) (fadd (v_magnitude lateral) (flit (1/100))) \<and>
     fle (Fin 0) (v_dot lateral (cb_previous_lateral base))"

definition note_contact :: "contact \<Rightarrow> catch_baseline \<Rightarrow> catch_baseline" where
  "note_contact c b = b\<lparr>cb_min_clearance := (if feq (cb_max_margin b) (Fin 0) \<or> flt (ct_closest c) (cb_min_clearance b) then ct_closest c else cb_min_clearance b),
     cb_max_margin := fmax (cb_max_margin b) (ct_margin c), cb_max_uncertainty := fmax (cb_max_uncertainty b) (ct_uncertainty c)\<rparr>"

definition note_correction :: "f64 \<Rightarrow> flight_step \<Rightarrow> catch_baseline \<Rightarrow> catch_baseline" where
  "note_correction secant x b =
     (let first = (if cb_corrections b = 0 then sf_dt x else cb_first_dt b); elapsed = fadd (cb_elapsed b) (sf_dt x) in
      b\<lparr>cb_first_dt := first, cb_corrections := cb_corrections b + 1, cb_elapsed := elapsed,
        cb_duration := fmax (Fin 0) (fsub (fsub elapsed first) (sf_dt x)), cb_angle_sum := fadd (cb_angle_sum b) (sf_angle x),
        cb_max_turn := fmax (cb_max_turn b) (sf_turn x), cb_max_secant := fmax (cb_max_secant b) secant\<rparr>)"

definition short_correction :: "state008 \<Rightarrow> catch_baseline \<Rightarrow> bool" where
  "short_correction d b \<longleftrightarrow> cb_corrections b < c8_min_corrections d \<or> flt (fadd (cb_duration b) catch_time_epsilon) (c8_min_duration d)"

text \<open>A step is a correction of an open run, or ends the run: None when the run was too short to count.\<close>

definition count_correction :: "state008 \<Rightarrow> bool \<Rightarrow> f64 \<Rightarrow> flight_step \<Rightarrow> catch_baseline \<Rightarrow> catch_baseline option" where
  "count_correction d corr secant x b =
     (if corr \<and> \<not> cb_closed b then Some (note_correction secant x b)
      else if \<not> corr \<and> 0 < cb_corrections b then (if short_correction d b then None else Some (b\<lparr>cb_closed := True\<rparr>))
      else Some b)"

definition note_lateral :: "vec3 \<Rightarrow> flight_step \<Rightarrow> catch_baseline \<Rightarrow> catch_baseline" where
  "note_lateral lateral x b = b\<lparr>cb_previous_lateral := lateral, cb_max_lateral := fmax (cb_max_lateral b) (v_magnitude lateral),
     cb_max_step_error := fmax (cb_max_step_error b) (sf_error x)\<rparr>"

definition follow_reference :: "detect_env \<Rightarrow> catch_sample \<Rightarrow> flight_step \<Rightarrow> catch_baseline \<Rightarrow> state008 \<Rightarrow> state008" where
  "follow_reference de s x base d0 =
     (let hs = c8_history d0; lateral = lateral_of base s; secant = secant_of de hs x; corr = correcting d0 base lateral secant x;
          watched = (corr \<or> 0 < cb_corrections base); c = contact_envelope (List.last hs) s (c8_contact_margin d0) (c8_contact_accel d0);
          d = (if watched then d0\<lparr>c8_contact := Some c\<rparr> else d0); b = (if watched then note_contact c base else base)
      in if watched \<and> ct_possible c
         then lose_flight (if ct_kind c = contact_uncertain then ''catch_contact_uncertain'' else ''catch_possible_contact'') d
         else (case count_correction d corr secant x b of None \<Rightarrow> lose_flight ''catch_correction_not_sustained'' d
           | Some b \<Rightarrow> d\<lparr>c8_baseline := Some (note_lateral lateral x b), c8_history := hs @ [s]\<rparr>))"

definition fly_on :: "detect_env \<Rightarrow> catch_sample \<Rightarrow> state008 \<Rightarrow> state008" where
  "fly_on de s d =
     (let hs = c8_history d; a = List.last hs; x = flight_step_of de a s in
      if length hs = catch_history_limit \<or> flt (c8_max_window d) (fsub (ca_time s) (ca_time (hd hs)))
      then note_reason ''catch_window_expired'' ((clear_flight d)\<lparr>c8_history := [s]\<rparr>)
      else if jitter hs (sf_dt x) then lose_flight ''catch_interval_jitter'' d
      else if discontinuous d x then lose_flight ''catch_collision_or_discontinuity'' d
      else (case c8_baseline d of None \<Rightarrow> build_baseline de s x d | Some base \<Rightarrow> follow_reference de s x base d))"

definition free_sample :: "detect_env \<Rightarrow> catch_sample option \<Rightarrow> catch_sample \<Rightarrow> state008 \<Rightarrow> state008" where
  "free_sample de prev s d0 =
     (let d = (case prev of None \<Rightarrow> d0 | Some p \<Rightarrow> if ca_holder p \<noteq> [] then (clear_flight d0)\<lparr>c8_last_release := ca_time s\<rparr> else d0) in
      if flt (fsub (ca_time s) (c8_last_release d)) (c8_regrab_grace d) then lose_flight ''catch_release_grace'' d
      else if flt (v_magnitude (ca_velocity s)) (Fin 2) then lose_flight ''catch_disc_too_slow'' d
      else if c8_history d = [] then d\<lparr>c8_history := [s]\<rparr>
      else fly_on de s d)"

section \<open>A frame\<close>

definition held_sample :: "detect_env \<Rightarrow> base \<Rightarrow> nat \<Rightarrow> match_context \<Rightarrow> catch_sample option \<Rightarrow> catch_sample \<Rightarrow> state008 \<Rightarrow> state008" where
  "held_sample de b n mc prev s d0 =
     (case prev of None \<Rightarrow> clear_flight d0
      | Some p \<Rightarrow>
          if ca_holder p \<noteq> [] then clear_flight d0
          else
            let flown = (case c8_baseline d0 of
                None \<Rightarrow> (d0\<lparr>c8_pending_eligible := False\<rparr>, if c8_flight_reason d0 = [] then ''catch_baseline_pending'' else c8_flight_reason d0)
              | Some base \<Rightarrow> (case catch_candidate de b n mc base s d0 of
                  Inl e \<Rightarrow> (d0\<lparr>c8_pending_eligible := True, c8_pending := None\<rparr>, e)
                | Inr c \<Rightarrow> (d0\<lparr>c8_pending_eligible := True, c8_pending := Some c\<rparr>, [])))
            in clear_flight (begin_review s p (snd flown) ((fst flown)\<lparr>c8_pending_holder := ca_holder s\<rparr>)))"

definition confirmed_event :: "detect_env \<Rightarrow> int \<Rightarrow> pending_catch \<Rightarrow> detection_event" where
  "confirmed_event de f p = observe_only ((pg_event p)\<lparr>ev_evidence :=
     Some (catch_evidence de (pg_metrics p @ [(''confirmed_catch_frame'', f_of_int f)]) (pg_trajectory p))\<rparr>)"

definition holder_persists :: "catch_sample option \<Rightarrow> catch_sample \<Rightarrow> state008 \<Rightarrow> bool" where
  "holder_persists prev s d \<longleftrightarrow> (case prev of None \<Rightarrow> False | Some p \<Rightarrow> ca_holder p = c8_pending_holder d \<and> ca_holder s = c8_pending_holder d)"

text \<open>What waits for its second held sample is reported or dropped.\<close>

definition confirm_catch :: "detect_env \<Rightarrow> int \<Rightarrow> catch_sample option \<Rightarrow> catch_sample \<Rightarrow> state008 \<Rightarrow> detection_event list \<times> state008" where
  "confirm_catch de f prev s d0 =
     (let d = (forget_pending d0)\<lparr>c8_pending_eligible := False\<rparr> in
      if c8_pending_holder d0 = [] then ([], d0)
      else if holder_persists prev s d0 then (case c8_pending d0 of None \<Rightarrow> [] | Some p \<Rightarrow> [confirmed_event de f p], d)
      else ([], note_reason ''catch_possession_unconfirmed'' d))"

text \<open>Whether this sample continues the last one: None, or why not and whether the whole trajectory is lost.\<close>

definition interruption :: "state008 \<Rightarrow> catch_sample option \<Rightarrow> catch_sample \<Rightarrow> (string \<times> bool) option" where
  "interruption d prev s = (case prev of None \<Rightarrow> None
     | Some p \<Rightarrow>
         if \<not> same_source (ca_source p) (ca_source s) then Some (''catch_source_changed'', True)
         else if gap_between d p s then Some (''catch_sample_gap'', True)
         else if ca_bounce p \<noteq> ca_bounce s then Some (''catch_bounce_changed'', False)
         else if \<not> pose_continuity p s (fsub (ca_time s) (ca_time p)) then Some (''catch_tracking_discontinuity'', False)
         else None)"

definition state008_frame :: "detect_env \<Rightarrow> base \<Rightarrow> match_context \<Rightarrow> (string, tracked) gomap \<Rightarrow> int \<Rightarrow> nat \<Rightarrow> state008 \<Rightarrow> (detection_event list \<times> review_out) \<times> state008" where
  "state008_frame de b mc pls f n d0 =
     (case read_catch_sample pls f of
        Inl e \<Rightarrow> let (rs, d) = observe_possession pls f e d0 in (([], rs), note_reason e (reset_trajectory d))
      | Inr s \<Rightarrow>
          let prev = c8_previous d0; d1 = d0\<lparr>c8_previous := Some s\<rparr> in
          (case interruption d1 prev s of
             Some (e, whole) \<Rightarrow>
               let (rs, d) = observe_possession pls f e d1 in
               (([], rs), note_reason e (if whole then (reset_trajectory d)\<lparr>c8_previous := Some s\<rparr> else forget_pending (clear_flight d)))
           | None \<Rightarrow>
               let (rs, d) = observe_possession pls f [] d1; (evs, d) = confirm_catch de f prev s d in
               if evs \<noteq> [] then ((evs, rs), d)
               else (([], rs), if ca_holder s \<noteq> [] then held_sample de b n mc prev s d else free_sample de prev s d)))"

definition state008_review :: "detect_env \<Rightarrow> match_context \<Rightarrow> (string, tracked) gomap \<Rightarrow> int \<Rightarrow> state008 instance_of \<Rightarrow> review_out" where
  "state008_review de mc pls f x = snd (fst (state008_frame de (in_base x) mc pls f (in_made x) (in_state x)))"

definition state008_evaluate :: "detect_env \<Rightarrow> match_context \<Rightarrow> (string, tracked) gomap \<Rightarrow> int \<Rightarrow> state008 instance_of \<Rightarrow> detection_event list \<times> state008 instance_of" where
  "state008_evaluate de mc pls f = run_instance (\<lambda>b n d. let ((evs, rs), d) = state008_frame de b mc pls f n d in (evs, d))"

definition state008_reset_source :: "state008 \<Rightarrow> review_out \<times> state008" where
  "state008_reset_source d = (let (rs, d) = finish_review (Some Insufficient_data) ''catch_source_changed'' False d in (rs, state008_reset d))"

definition state008_flush_tracks :: "state008 \<Rightarrow> review_out \<times> state008" where
  "state008_flush_tracks d = (let (rs, d) = finish_review (Some Unconfirmed) ''catch_confirmation_unavailable'' False d
     in (rs, (forget_pending d)\<lparr>c8_pending_eligible := False\<rparr>))"

end
