(* ===== verification/Detect_Catalog.thy ===== *)
theory Detect_Catalog
  imports Detect_Bio Detect_Movement Detect_Pattern Detect_Speed Detect_Grab Detect_Catch_Run Pipeline
begin

text \<open>
  The catalog of detectors (\<open>internal/detect/registry.go\<close>, \<open>internal/detect/catalog/catalog.go\<close> and the \<open>register.go\<close> of
  each package): one type of all detector instances, the operations of the \<open>Detector\<close> interface and of the optional
  ones (\<open>TrackFlusher\<close> and its like), registration with its errors, and building the set a configuration enables.
  The last section makes an instance the detector the pipeline works with.
\<close>

section \<open>Instances\<close>

datatype any_detector =
    Bio001 "rate_state instance_of" | Bio002 "rate_state instance_of" | Bio003 "vec3 zero_state instance_of" | Bio004 "quat zero_state instance_of"
  | Mov001 "mov001 instance_of" | Mov002 "mov002 instance_of" | Mov003 "mov003 instance_of" | Mov004 "mov004 instance_of"
  | Mov005 "mov005 instance_of" | Mov006 "mov006 instance_of" | Pat001 "pat001 instance_of" | Pat002 "pat002 instance_of"
  | Pat003 "pat003 instance_of" | Pat004 "pat004 instance_of" | Pat005 "pat005 instance_of" | State001 "state001 instance_of"
  | State002 "state002 instance_of" | State003 "state003 instance_of" | State004 "state004 instance_of" | State005 "state005 instance_of"
  | State006 "unit instance_of" | State007 "state007 instance_of" | State008 "state008 instance_of" | Throw001 "throw001 instance_of"
  | Throw002 "throw002 instance_of" | Throw003 "throw003 instance_of" | Throw004 "throw004 instance_of" | Throw005 "throw005 instance_of"
  | Throw006 "throw006 instance_of" | Throw007 "throw007 instance_of" | Throw008 "throw008 instance_of"

fun any_base :: "any_detector \<Rightarrow> base" where
  "any_base (Bio001 x) = in_base x"
| "any_base (Bio002 x) = in_base x"
| "any_base (Bio003 x) = in_base x"
| "any_base (Bio004 x) = in_base x"
| "any_base (Mov001 x) = in_base x"
| "any_base (Mov002 x) = in_base x"
| "any_base (Mov003 x) = in_base x"
| "any_base (Mov004 x) = in_base x"
| "any_base (Mov005 x) = in_base x"
| "any_base (Mov006 x) = in_base x"
| "any_base (Pat001 x) = in_base x"
| "any_base (Pat002 x) = in_base x"
| "any_base (Pat003 x) = in_base x"
| "any_base (Pat004 x) = in_base x"
| "any_base (Pat005 x) = in_base x"
| "any_base (State001 x) = in_base x"
| "any_base (State002 x) = in_base x"
| "any_base (State003 x) = in_base x"
| "any_base (State004 x) = in_base x"
| "any_base (State005 x) = in_base x"
| "any_base (State006 x) = in_base x"
| "any_base (State007 x) = in_base x"
| "any_base (State008 x) = in_base x"
| "any_base (Throw001 x) = in_base x"
| "any_base (Throw002 x) = in_base x"
| "any_base (Throw003 x) = in_base x"
| "any_base (Throw004 x) = in_base x"
| "any_base (Throw005 x) = in_base x"
| "any_base (Throw006 x) = in_base x"
| "any_base (Throw007 x) = in_base x"
| "any_base (Throw008 x) = in_base x"

fun rebase :: "(base \<Rightarrow> base) \<Rightarrow> any_detector \<Rightarrow> any_detector" where
  "rebase g (Bio001 x) = Bio001 (x\<lparr>in_base := g (in_base x)\<rparr>)"
| "rebase g (Bio002 x) = Bio002 (x\<lparr>in_base := g (in_base x)\<rparr>)"
| "rebase g (Bio003 x) = Bio003 (x\<lparr>in_base := g (in_base x)\<rparr>)"
| "rebase g (Bio004 x) = Bio004 (x\<lparr>in_base := g (in_base x)\<rparr>)"
| "rebase g (Mov001 x) = Mov001 (x\<lparr>in_base := g (in_base x)\<rparr>)"
| "rebase g (Mov002 x) = Mov002 (x\<lparr>in_base := g (in_base x)\<rparr>)"
| "rebase g (Mov003 x) = Mov003 (x\<lparr>in_base := g (in_base x)\<rparr>)"
| "rebase g (Mov004 x) = Mov004 (x\<lparr>in_base := g (in_base x)\<rparr>)"
| "rebase g (Mov005 x) = Mov005 (x\<lparr>in_base := g (in_base x)\<rparr>)"
| "rebase g (Mov006 x) = Mov006 (x\<lparr>in_base := g (in_base x)\<rparr>)"
| "rebase g (Pat001 x) = Pat001 (x\<lparr>in_base := g (in_base x)\<rparr>)"
| "rebase g (Pat002 x) = Pat002 (x\<lparr>in_base := g (in_base x)\<rparr>)"
| "rebase g (Pat003 x) = Pat003 (x\<lparr>in_base := g (in_base x)\<rparr>)"
| "rebase g (Pat004 x) = Pat004 (x\<lparr>in_base := g (in_base x)\<rparr>)"
| "rebase g (Pat005 x) = Pat005 (x\<lparr>in_base := g (in_base x)\<rparr>)"
| "rebase g (State001 x) = State001 (x\<lparr>in_base := g (in_base x)\<rparr>)"
| "rebase g (State002 x) = State002 (x\<lparr>in_base := g (in_base x)\<rparr>)"
| "rebase g (State003 x) = State003 (x\<lparr>in_base := g (in_base x)\<rparr>)"
| "rebase g (State004 x) = State004 (x\<lparr>in_base := g (in_base x)\<rparr>)"
| "rebase g (State005 x) = State005 (x\<lparr>in_base := g (in_base x)\<rparr>)"
| "rebase g (State006 x) = State006 (x\<lparr>in_base := g (in_base x)\<rparr>)"
| "rebase g (State007 x) = State007 (x\<lparr>in_base := g (in_base x)\<rparr>)"
| "rebase g (State008 x) = State008 (x\<lparr>in_base := g (in_base x)\<rparr>)"
| "rebase g (Throw001 x) = Throw001 (x\<lparr>in_base := g (in_base x)\<rparr>)"
| "rebase g (Throw002 x) = Throw002 (x\<lparr>in_base := g (in_base x)\<rparr>)"
| "rebase g (Throw003 x) = Throw003 (x\<lparr>in_base := g (in_base x)\<rparr>)"
| "rebase g (Throw004 x) = Throw004 (x\<lparr>in_base := g (in_base x)\<rparr>)"
| "rebase g (Throw005 x) = Throw005 (x\<lparr>in_base := g (in_base x)\<rparr>)"
| "rebase g (Throw006 x) = Throw006 (x\<lparr>in_base := g (in_base x)\<rparr>)"
| "rebase g (Throw007 x) = Throw007 (x\<lparr>in_base := g (in_base x)\<rparr>)"
| "rebase g (Throw008 x) = Throw008 (x\<lparr>in_base := g (in_base x)\<rparr>)"

text \<open>A detector that only reviews keeps its weight at zero and cannot be made to enforce.\<close>

definition review_only :: "any_detector \<Rightarrow> bool" where
  "review_only x \<longleftrightarrow> (case x of State001 _ \<Rightarrow> True | State008 _ \<Rightarrow> True | Throw005 _ \<Rightarrow> True | Throw006 _ \<Rightarrow> True | _ \<Rightarrow> False)"

definition any_set_weight :: "f64 \<Rightarrow> any_detector \<Rightarrow> any_detector" where
  "any_set_weight w x = rebase (if review_only x then (\<lambda>b. b\<lparr>bd_weight := Fin 0\<rparr>) else set_weight w) x"

definition any_set_auto :: "bool \<Rightarrow> any_detector \<Rightarrow> any_detector" where
  "any_set_auto a x = rebase (set_auto_enforce (a \<and> \<not> review_only x)) x"

definition any_weight :: "any_detector \<Rightarrow> f64" where
  "any_weight x = (if review_only x then Fin 0 else bd_weight (any_base x))"

definition any_auto :: "any_detector \<Rightarrow> bool" where
  "any_auto x \<longleftrightarrow> \<not> review_only x \<and> bd_auto (any_base x)"

definition wrap :: "('s instance_of \<Rightarrow> any_detector) \<Rightarrow> 'e \<times> 's instance_of \<Rightarrow> 'e \<times> any_detector" where
  "wrap c r = (fst r, c (snd r))"

fun any_evaluate :: "detect_env \<Rightarrow> match_context \<Rightarrow> (string, tracked) gomap \<Rightarrow> int \<Rightarrow> any_detector \<Rightarrow> detection_event list \<times> any_detector" where
  "any_evaluate de mc pls f (Bio001 x) = wrap Bio001 (bio001_evaluate de mc pls f x)"
| "any_evaluate de mc pls f (Bio002 x) = wrap Bio002 (bio002_evaluate de mc pls f x)"
| "any_evaluate de mc pls f (Bio003 x) = wrap Bio003 (bio003_evaluate de mc pls f x)"
| "any_evaluate de mc pls f (Bio004 x) = wrap Bio004 (bio004_evaluate de mc pls f x)"
| "any_evaluate de mc pls f (Mov001 x) = wrap Mov001 (mov001_evaluate de mc pls f x)"
| "any_evaluate de mc pls f (Mov002 x) = wrap Mov002 (mov002_evaluate de mc pls f x)"
| "any_evaluate de mc pls f (Mov003 x) = wrap Mov003 (mov003_evaluate de mc pls f x)"
| "any_evaluate de mc pls f (Mov004 x) = wrap Mov004 (mov004_evaluate de mc pls f x)"
| "any_evaluate de mc pls f (Mov005 x) = wrap Mov005 (mov005_evaluate de mc pls f x)"
| "any_evaluate de mc pls f (Mov006 x) = wrap Mov006 (mov006_evaluate de mc pls f x)"
| "any_evaluate de mc pls f (Pat001 x) = wrap Pat001 (pat001_evaluate de mc pls f x)"
| "any_evaluate de mc pls f (Pat002 x) = wrap Pat002 (pat002_evaluate de mc pls f x)"
| "any_evaluate de mc pls f (Pat003 x) = wrap Pat003 (pat003_evaluate de mc pls f x)"
| "any_evaluate de mc pls f (Pat004 x) = wrap Pat004 (pat004_evaluate de mc pls f x)"
| "any_evaluate de mc pls f (Pat005 x) = wrap Pat005 (pat005_evaluate de mc pls f x)"
| "any_evaluate de mc pls f (State001 x) = wrap State001 (state001_evaluate de mc pls f x)"
| "any_evaluate de mc pls f (State002 x) = wrap State002 (state002_evaluate de mc pls f x)"
| "any_evaluate de mc pls f (State003 x) = wrap State003 (state003_evaluate de mc pls f x)"
| "any_evaluate de mc pls f (State004 x) = wrap State004 (state004_evaluate de mc pls f x)"
| "any_evaluate de mc pls f (State005 x) = wrap State005 (state005_evaluate de mc pls f x)"
| "any_evaluate de mc pls f (State006 x) = wrap State006 (state006_evaluate de mc pls f x)"
| "any_evaluate de mc pls f (State007 x) = wrap State007 (state007_evaluate de mc pls f x)"
| "any_evaluate de mc pls f (State008 x) = wrap State008 (state008_evaluate de mc pls f x)"
| "any_evaluate de mc pls f (Throw001 x) = wrap Throw001 (throw001_evaluate de mc pls f x)"
| "any_evaluate de mc pls f (Throw002 x) = wrap Throw002 (throw002_evaluate de mc pls f x)"
| "any_evaluate de mc pls f (Throw003 x) = wrap Throw003 (throw003_evaluate de mc pls f x)"
| "any_evaluate de mc pls f (Throw004 x) = wrap Throw004 (throw004_evaluate de mc pls f x)"
| "any_evaluate de mc pls f (Throw005 x) = wrap Throw005 (throw005_evaluate de mc pls f x)"
| "any_evaluate de mc pls f (Throw006 x) = wrap Throw006 (throw006_evaluate de mc pls f x)"
| "any_evaluate de mc pls f (Throw007 x) = wrap Throw007 (throw007_evaluate de mc pls f x)"
| "any_evaluate de mc pls f (Throw008 x) = wrap Throw008 (throw008_evaluate de mc pls f x)"

fun any_reset :: "any_detector \<Rightarrow> any_detector" where
  "any_reset (Bio001 x) = Bio001 (x\<lparr>in_state := rate_reset (in_state x)\<rparr>)"
| "any_reset (Bio002 x) = Bio002 (x\<lparr>in_state := rate_reset (in_state x)\<rparr>)"
| "any_reset (Bio003 x) = Bio003 (x\<lparr>in_state := zero_reset (in_state x)\<rparr>)"
| "any_reset (Bio004 x) = Bio004 (x\<lparr>in_state := zero_reset (in_state x)\<rparr>)"
| "any_reset (Mov001 x) = Mov001 (x\<lparr>in_state := mov001_reset (in_state x)\<rparr>)"
| "any_reset (Mov002 x) = Mov002 (x\<lparr>in_state := mov002_reset (in_state x)\<rparr>)"
| "any_reset (Mov003 x) = Mov003 (x\<lparr>in_state := mov003_reset (in_state x)\<rparr>)"
| "any_reset (Mov004 x) = Mov004 (x\<lparr>in_state := mov004_reset (in_state x)\<rparr>)"
| "any_reset (Mov005 x) = Mov005 (x\<lparr>in_state := mov005_reset (in_state x)\<rparr>)"
| "any_reset (Mov006 x) = Mov006 (x\<lparr>in_state := mov006_reset (in_state x)\<rparr>)"
| "any_reset (Pat001 x) = Pat001 (x\<lparr>in_state := pat001_reset (in_state x)\<rparr>)"
| "any_reset (Pat002 x) = Pat002 (x\<lparr>in_state := pat002_reset (in_state x)\<rparr>)"
| "any_reset (Pat003 x) = Pat003 (x\<lparr>in_state := pat003_reset (in_state x)\<rparr>)"
| "any_reset (Pat004 x) = Pat004 (x\<lparr>in_state := pat004_reset (in_state x)\<rparr>)"
| "any_reset (Pat005 x) = Pat005 (x\<lparr>in_state := pat005_reset (in_state x)\<rparr>)"
| "any_reset (State001 x) = State001 (x\<lparr>in_state := []\<rparr>)"
| "any_reset (State002 x) = State002 (x\<lparr>in_state := state002_reset (in_state x)\<rparr>)"
| "any_reset (State003 x) = State003 (x\<lparr>in_state := state003_reset (in_state x)\<rparr>)"
| "any_reset (State004 x) = State004 (x\<lparr>in_state := state004_reset (in_state x)\<rparr>)"
| "any_reset (State005 x) = State005 (x\<lparr>in_state := state005_reset (in_state x)\<rparr>)"
| "any_reset (State006 x) = State006 x"
| "any_reset (State007 x) = State007 (x\<lparr>in_state := state007_reset (in_state x)\<rparr>)"
| "any_reset (State008 x) = State008 (x\<lparr>in_state := state008_reset (in_state x)\<rparr>)"
| "any_reset (Throw001 x) = Throw001 (x\<lparr>in_state := throw001_reset (in_state x)\<rparr>)"
| "any_reset (Throw002 x) = Throw002 x"
| "any_reset (Throw003 x) = Throw003 x"
| "any_reset (Throw004 x) = Throw004 (x\<lparr>in_state := throw004_reset (in_state x)\<rparr>)"
| "any_reset (Throw005 x) = Throw005 (x\<lparr>in_state := []\<rparr>)"
| "any_reset (Throw006 x) = Throw006 (x\<lparr>in_state := throw006_reset (in_state x)\<rparr>)"
| "any_reset (Throw007 x) = Throw007 x"
| "any_reset (Throw008 x) = Throw008 (x\<lparr>in_state := throw008_reset (in_state x)\<rparr>)"

text \<open>The optional operations: None where the detector does not implement the interface.\<close>

type_synonym flusher = "match_context \<Rightarrow> int \<Rightarrow> any_detector \<Rightarrow> detection_event list \<times> any_detector"

definition flush_with :: "(any_detector \<Rightarrow> bool) \<Rightarrow> flusher \<Rightarrow> any_detector \<Rightarrow> flusher option" where
  "flush_with has g x = (if has x then Some g else None)"

definition has_flush_tracks :: "any_detector \<Rightarrow> bool" where
  "has_flush_tracks x \<longleftrightarrow> (case x of Throw001 _ \<Rightarrow> True | Throw006 _ \<Rightarrow> True | Throw008 _ \<Rightarrow> True | State008 _ \<Rightarrow> True | _ \<Rightarrow> False)"

definition any_flush_tracks :: "detect_env \<Rightarrow> flusher" where
  "any_flush_tracks de mc f x = (case x of
     Throw001 y \<Rightarrow> wrap Throw001 (throw001_flush_tracks de mc f y)
   | Throw006 y \<Rightarrow> ([], Throw006 (y\<lparr>in_state := snd (throw006_flush_tracks (in_state y))\<rparr>))
   | Throw008 y \<Rightarrow> wrap Throw008 (throw008_flush_tracks de mc f y)
   | State008 y \<Rightarrow> ([], State008 (y\<lparr>in_state := snd (state008_flush_tracks (in_state y))\<rparr>))
   | _ \<Rightarrow> ([], x))"

definition flushes_speed :: "any_detector \<Rightarrow> bool" where
  "flushes_speed x \<longleftrightarrow> (case x of Throw001 _ \<Rightarrow> True | _ \<Rightarrow> False)"

definition any_flush_phase :: "detect_env \<Rightarrow> flusher" where
  "any_flush_phase de mc f x = (case x of Throw001 y \<Rightarrow> wrap Throw001 (throw001_flush_phase de mc f y) | _ \<Rightarrow> ([], x))"

definition any_flush_source :: "detect_env \<Rightarrow> flusher" where
  "any_flush_source de mc f x = (case x of Throw001 y \<Rightarrow> wrap Throw001 (throw001_flush_source de mc f y) | _ \<Rightarrow> ([], x))"

definition has_reset_source :: "any_detector \<Rightarrow> bool" where
  "has_reset_source x \<longleftrightarrow> (case x of Throw001 _ \<Rightarrow> True | Throw006 _ \<Rightarrow> True | State008 _ \<Rightarrow> True | _ \<Rightarrow> False)"

definition any_reset_source :: "detect_env \<Rightarrow> any_detector \<Rightarrow> any_detector" where
  "any_reset_source de x = (case x of
     Throw001 y \<Rightarrow> Throw001 (throw001_reset_source de y)
   | Throw006 y \<Rightarrow> Throw006 (y\<lparr>in_state := snd (throw006_reset_source (in_state y))\<rparr>)
   | State008 y \<Rightarrow> State008 (y\<lparr>in_state := snd (state008_reset_source (in_state y))\<rparr>)
   | _ \<Rightarrow> any_reset x)"

definition any_record :: "string \<Rightarrow> string \<Rightarrow> any_detector \<Rightarrow> any_detector" where
  "any_record player category x = (case x of Pat004 y \<Rightarrow> Pat004 (y\<lparr>in_state := record_category player category (in_state y)\<rparr>) | _ \<Rightarrow> x)"

section \<open>Registration\<close>

text \<open>A constructor builds a detector from its parameters and, for PAT_003, a history; it may fail to build one.\<close>

type_synonym constructor = "params \<Rightarrow> history option \<Rightarrow> any_detector option"

record descriptor =
  dr_id :: string
  dr_version :: string
  dr_name :: string
  dr_category :: string
  dr_weight :: f64
  dr_auto :: bool
  dr_new :: constructor

definition describe :: "constructor \<Rightarrow> any_detector \<Rightarrow> descriptor" where
  "describe c x = \<lparr>dr_id = bd_id (any_base x), dr_version = bd_version (any_base x), dr_name = bd_name (any_base x),
     dr_category = bd_category (any_base x), dr_weight = any_weight x, dr_auto = any_auto x, dr_new = c\<rparr>"

type_synonym catalogue = "(string, descriptor) gomap"

definition register_constructor :: "constructor option \<Rightarrow> catalogue \<Rightarrow> string + catalogue" where
  "register_constructor new cat = (case new of None \<Rightarrow> Inl ''detect: nil constructor''
     | Some c \<Rightarrow> (case c [] None of None \<Rightarrow> Inl ''detect: constructor returned nil detector''
         | Some x \<Rightarrow> let i = bd_id (any_base x) in
             if i = [] then Inl ''detect: constructor produced a detector with an empty ID''
             else if map_of cat i \<noteq> None then Inl (''detect: detector '' @ i @ '' registered twice'')
             else Inr (AList.update i (describe c x) cat)))"

text \<open>\<open>MustRegister\<close> panics where registration fails: None.\<close>

definition must_register :: "constructor \<Rightarrow> catalogue \<Rightarrow> catalogue option" where
  "must_register c cat = (case register_constructor (Some c) cat of Inl _ \<Rightarrow> None | Inr cat \<Rightarrow> Some cat)"

fun register_all :: "constructor list \<Rightarrow> catalogue \<Rightarrow> catalogue option" where
  "register_all [] cat = Some cat"
| "register_all (c # cs) cat = Option.bind (must_register c cat) (register_all cs)"

definition listed :: "catalogue \<Rightarrow> descriptor list" where
  "listed cat = sort_key dr_id (map snd cat)"

definition catalog_names :: "catalogue \<Rightarrow> (string, string) gomap" where
  "catalog_names cat = map (\<lambda>d. (dr_id d, dr_name d)) (listed cat)"

definition build :: "string \<Rightarrow> params \<Rightarrow> history option \<Rightarrow> catalogue \<Rightarrow> string + any_detector" where
  "build i ps h cat = (case map_of cat i of None \<Rightarrow> Inl (''detect: unknown detector '' @ i)
     | Some d \<Rightarrow> (case dr_new d ps h of None \<Rightarrow> Inl (''detect: constructor for '' @ i @ '' returned nil'') | Some x \<Rightarrow> Inr x))"

record build_options =
  bo_enabled :: bool
  bo_weight :: f64
  bo_has_weight :: bool
  bo_auto :: bool
  bo_has_auto :: bool
  bo_params :: params
  bo_history :: "history option"

definition default_options :: build_options where
  "default_options = \<lparr>bo_enabled = True, bo_weight = Fin 0, bo_has_weight = False, bo_auto = False, bo_has_auto = False, bo_params = [],
     bo_history = None\<rparr>"

definition apply_options :: "build_options \<Rightarrow> any_detector \<Rightarrow> any_detector" where
  "apply_options o1 x = (let x = (if bo_has_weight o1 then any_set_weight (bo_weight o1) x else x) in if bo_has_auto o1 then any_set_auto (bo_auto o1) x else x)"

definition build_one :: "(string \<Rightarrow> build_options) option \<Rightarrow> descriptor \<Rightarrow> any_detector option" where
  "build_one options d =
     (let o1 = (case options of None \<Rightarrow> default_options | Some g \<Rightarrow> g (dr_id d)) in
      if \<not> bo_enabled o1 then None else map_option (apply_options o1) (dr_new d (bo_params o1) (bo_history o1)))"

definition build_all :: "(string \<Rightarrow> build_options) option \<Rightarrow> catalogue \<Rightarrow> any_detector list" where
  "build_all options cat = List.map_filter (build_one options) (listed cat)"

text \<open>The options a configuration gives: its own values, and the history for PAT_003 only.\<close>

record detector_config =
  dc_enabled :: bool
  dc_enforcement_weight :: f64
  dc_auto_enforce :: bool
  dc_params :: params

definition config_options :: "(string \<Rightarrow> detector_config) \<Rightarrow> history option \<Rightarrow> string \<Rightarrow> build_options" where
  "config_options cfg h i =
     (let dc = cfg i in \<lparr>bo_enabled = dc_enabled dc, bo_weight = dc_enforcement_weight dc, bo_has_weight = True, bo_auto = dc_auto_enforce dc,
        bo_has_auto = True, bo_params = dc_params dc, bo_history = (if i = ''PAT_003'' then h else None)\<rparr>)"

definition configured_detectors :: "(string \<Rightarrow> detector_config) \<Rightarrow> history option \<Rightarrow> catalogue \<Rightarrow> any_detector list" where
  "configured_detectors cfg h cat = build_all (Some (config_options cfg h)) cat"

text \<open>A registry keeps an ordered set of instances.\<close>

record registry =
  rg_detectors :: "any_detector list"
  rg_by_id :: "(string, any_detector) gomap"

definition new_registry :: registry where
  "new_registry = \<lparr>rg_detectors = [], rg_by_id = []\<rparr>"

definition registry_add :: "any_detector option \<Rightarrow> registry \<Rightarrow> string + registry" where
  "registry_add x r = (case x of None \<Rightarrow> Inl ''detect: nil detector''
     | Some d \<Rightarrow> let i = bd_id (any_base d) in
         if map_of (rg_by_id r) i \<noteq> None then Inl (''detect: detector '' @ i @ '' already registered'')
         else Inr (r\<lparr>rg_detectors := rg_detectors r @ [d], rg_by_id := AList.update i d (rg_by_id r)\<rparr>))"

definition registry_enabled :: "(string, bool) gomap \<Rightarrow> registry \<Rightarrow> any_detector list" where
  "registry_enabled ids r = filter (\<lambda>d. gz False ids (bd_id (any_base d))) (rg_detectors r)"

definition registry_categories :: "registry \<Rightarrow> (string, any_detector list) gomap" where
  "registry_categories r = fold (\<lambda>d m. let c = bd_category (any_base d) in AList.update c (gz [] m c @ [d]) m) (rg_detectors r) []"

section \<open>The constructors of the program\<close>

definition bio_constructors :: "constructor list" where
  "bio_constructors = [(\<lambda>ps h. Some (Bio001 (new_bio001 ps))), (\<lambda>ps h. Some (Bio002 (new_bio002 ps))),
     (\<lambda>ps h. Some (Bio003 (new_bio003 ps))), (\<lambda>ps h. Some (Bio004 (new_bio004 ps)))]"

definition movement_constructors :: "constructor list" where
  "movement_constructors = [(\<lambda>ps h. Some (Mov001 (new_mov001 ps))), (\<lambda>ps h. Some (Mov002 (new_mov002 ps))),
     (\<lambda>ps h. Some (Mov003 (new_mov003 ps))), (\<lambda>ps h. Some (Mov004 (new_mov004 ps))),
     (\<lambda>ps h. Some (Mov005 (new_mov005 ps))), (\<lambda>ps h. Some (Mov006 (new_mov006 ps)))]"

definition pattern_constructors :: "constructor list" where
  "pattern_constructors = [(\<lambda>ps h. Some (Pat001 (new_pat001 ps))), (\<lambda>ps h. Some (Pat002 (new_pat002 ps))),
     (\<lambda>ps h. Some (Pat003 (new_pat003 ps h))), (\<lambda>ps h. Some (Pat004 (new_pat004 ps))),
     (\<lambda>ps h. Some (Pat005 (new_pat005 ps)))]"

definition state_constructors :: "constructor list" where
  "state_constructors = [(\<lambda>ps h. Some (State001 (new_state001 ps))), (\<lambda>ps h. Some (State002 (new_state002 ps))),
     (\<lambda>ps h. Some (State003 (new_state003 ps))), (\<lambda>ps h. Some (State004 (new_state004 ps))),
     (\<lambda>ps h. Some (State005 (new_state005 ps))), (\<lambda>ps h. Some (State006 (new_state006 ps))),
     (\<lambda>ps h. Some (State007 (new_state007 ps))), (\<lambda>ps h. Some (State008 (new_state008 ps)))]"

definition throw_constructors :: "constructor list" where
  "throw_constructors = [(\<lambda>ps h. Some (Throw001 (new_throw001 ps))), (\<lambda>ps h. Some (Throw002 (new_throw002 ps))),
     (\<lambda>ps h. Some (Throw003 (new_throw003 ps))), (\<lambda>ps h. Some (Throw004 (new_throw004 ps))),
     (\<lambda>ps h. Some (Throw005 (new_throw005 ps))), (\<lambda>ps h. Some (Throw006 (new_throw006 ps))),
     (\<lambda>ps h. Some (Throw007 (new_throw007 ps))), (\<lambda>ps h. Some (Throw008 (new_throw008 ps)))]"

definition program_constructors :: "constructor list" where
  "program_constructors = bio_constructors @ movement_constructors @ pattern_constructors @ state_constructors @ throw_constructors"

definition program_catalog :: "catalogue option" where
  "program_catalog = register_all program_constructors []"

section \<open>As the pipeline sees it\<close>

definition pipeline_detector :: "detect_env \<Rightarrow> any_detector \<Rightarrow> (any_detector, motion) detector" where
  "pipeline_detector de x = \<lparr>det_id = bd_id (any_base x), det_category = bd_category (any_base x), det_warmup = bd_warmup (any_base x), det_state = x,
     det_evaluate = any_evaluate de, det_reset = any_reset, det_flush_tracks = flush_with has_flush_tracks (any_flush_tracks de) x,
     det_flush_phase = flush_with flushes_speed (any_flush_phase de) x, det_flush_source = flush_with flushes_speed (any_flush_source de) x,
     det_reset_source = (if has_reset_source x then Some (any_reset_source de) else None),
     det_record_detection = (case x of Pat004 _ \<Rightarrow> Some any_record | _ \<Rightarrow> None)\<rparr>"

end
