(* ===== verification/Detect_Facts.thy ===== *)
theory Detect_Facts
  imports Detect_Bio Detect_Movement Detect_State Detect_Pattern
begin

text \<open>
  What the detectors promise of their events: each is well-formed, carries the detector's next id, its weight and its
  match, and is about a player the frame shows, whatever the numbers measured were.
\<close>

definition sees :: "detect_env \<Rightarrow> base \<Rightarrow> match_context \<Rightarrow> int \<Rightarrow> tracked \<Rightarrow> bool" where
  "sees de b mc f ps \<longleftrightarrow> at_work de b mc f \<and> known_player ps"

lemma sees_event:
  assumes "sees de b mc f ps" "observed \<noteq> []" "ck_player_id key = ps_player_id ps" "ck_anomaly_type key \<noteq> []"
  shows "sound_events de b mc n [make_event de b n mc (ps_player_id ps) f (ps_last_timestamp ps) sev conf evd observed expected key]"
  using assms by (intro make_event_sound) (simp_all add: sees_def known_player_def)

lemmas event_defs = player_key_def state_event_def rate_event_def zero_event_def Let_def
  mov001_burst_event_def mov001_median_event_def mov003_event_def mov004_event_def mov005_event_def mov006_event_def
  state002_event_def state005_event_def pat001_event_def pat002_event_def pat004_event_def pat005_event_def

interpretation mov001: detector_steps "mov001_step de b mc f" "\<lambda>_. True" "sees de b mc f" "sound_events de b mc" for de b mc f
  by unfold_locales (auto simp: mov001_step_def event_defs intro!: sees_event)

interpretation mov004: detector_steps "mov004_step de b mc f" "\<lambda>_. True" "sees de b mc f" "sound_events de b mc" for de b mc f
  by unfold_locales (auto simp: mov004_step_def event_defs intro!: sees_event split: option.splits)

interpretation mov005: detector_steps "mov005_step de b mc f" "\<lambda>_. True" "sees de b mc f" "sound_events de b mc" for de b mc f
  by unfold_locales (auto simp: mov005_step_def event_defs intro!: sees_event split: option.splits)

interpretation mov006: detector_steps "mov006_step de b mc f" "\<lambda>_. True" "sees de b mc f" "sound_events de b mc" for de b mc f
  by unfold_locales (auto simp: mov006_step_def event_defs intro!: sees_event split: option.splits)

interpretation state002: detector_steps "state002_step de b mc f" "\<lambda>_. True" "sees de b mc f" "sound_events de b mc" for de b mc f
  by unfold_locales (auto simp: state002_step_def event_defs intro!: sees_event split: option.splits)

interpretation state003: detector_steps "state003_step de b mc f" "\<lambda>_. True" "sees de b mc f" "sound_events de b mc" for de b mc f
  by unfold_locales (auto simp: state003_step_def shield_tier_def event_defs intro!: sees_event split: option.splits)

interpretation state005: detector_steps "state005_step de b mc f" "\<lambda>_. True" "sees de b mc f" "sound_events de b mc" for de b mc f
  by unfold_locales (auto simp: state005_step_def event_defs intro!: sees_event split: option.splits)

interpretation pat001: detector_steps "pat001_step de b mc f" "\<lambda>_. True" "sees de b mc f" "sound_events de b mc" for de b mc f
  by unfold_locales (auto simp: pat001_step_def event_defs intro!: sees_event split: option.splits)

interpretation pat002: detector_steps "pat002_step de b mc f" "\<lambda>_. True" "sees de b mc f" "sound_events de b mc" for de b mc f
  by unfold_locales (auto simp: pat002_step_def event_defs intro!: sees_event split: option.splits)

interpretation pat004: detector_steps "pat004_step de b mc f" "\<lambda>_. True" "sees de b mc f" "sound_events de b mc" for de b mc f
  by unfold_locales (auto simp: pat004_step_def event_defs intro!: sees_event split: option.splits)

interpretation pat005: detector_steps "pat005_step de b mc f" "\<lambda>_. True" "sees de b mc f" "sound_events de b mc" for de b mc f
  by unfold_locales (auto simp: pat005_step_def event_defs intro!: sees_event split: option.splits)

interpretation state004: detector_steps "state004_step de b mc f" "\<lambda>_. True" "sees de b mc f" "sound_events de b mc" for de b mc f
  by unfold_locales (auto simp: state004_step_def event_defs intro!: sees_event split: prod.splits)

lemma confirm_reversal_sound:
  "confirm_reversal de b mc f ps n d p = Some (evs, d') \<Longrightarrow> sees de b mc f ps \<Longrightarrow> sound_events de b mc n evs"
  by (auto simp: confirm_reversal_def mov003_event_def player_key_def Let_def intro!: sees_event split: if_splits)

interpretation mov003: detector_steps "mov003_step de b mc others f" "\<lambda>_. True" "sees de b mc f" "sound_events de b mc" for de b mc others f
  by unfold_locales (auto simp: mov003_step_def Let_def dest: confirm_reversal_sound split: option.splits)

section \<open>Both hands\<close>

lemma rate_event_sound:
  assumes "sees de b mc f ps" "observed \<noteq> []" "anomaly \<noteq> []"
  shows "sound_events de b mc n [rate_event de b n mc c ps f v s evd observed expected anomaly]"
  using assms by (auto simp: rate_event_def intro!: sees_event)

lemma two_hands_sound:
  assumes "\<And>n k. sound_events de b mc n (fst (l n k))" and "\<And>n k. sound_events de b mc n (fst (r n k))"
  shows "sound_events de b mc n (fst (two_hands ps l r n s))"
  using assms by (simp add: two_hands_def Let_def split: prod.splits) (metis fst_conv)

lemma bio001_check_sound:
  "sees de b mc f ps \<Longrightarrow> sound_events de b mc n (fst (bio001_check de b mc c ps f hand_name rate known n s))"
  by (auto simp: bio001_check_def Let_def intro!: rate_event_sound)

lemma bio002_check_sound:
  "sees de b mc f ps \<Longrightarrow> sound_events de b mc n (fst (bio002_check de b mc c ps f hand_name v world n s))"
  by (auto simp: bio002_check_def Let_def intro!: rate_event_sound)

interpretation bio001: detector_steps "bio001_step de b mc f" "\<lambda>_. True" "sees de b mc f" "sound_events de b mc" for de b mc f
  by unfold_locales (auto simp: bio001_step_def intro!: two_hands_sound bio001_check_sound)

interpretation bio002: detector_steps "bio002_step de b mc f" "\<lambda>_. True" "sees de b mc f" "sound_events de b mc" for de b mc f
  by unfold_locales (auto simp: bio002_step_def intro!: two_hands_sound bio002_check_sound)

lemma zero_step_sound:
  assumes "\<And>active n name v. sound_events de b mc n [ev active n name v]"
  shows "sound_events de b mc n (fst (zero_step left right measured ev f ps n s))"
proof -
  have "sound_events de b mc n (e1 @ e2)" if "sound_events de b mc n e1" "sound_events de b mc (n + length e1) e2" for e1 e2
    using that by simp
  then show ?thesis using assms
    by (simp add: zero_step_def Let_def del: sound_events_append split: prod.splits option.splits)
qed

interpretation bio003: detector_steps "bio003_step de b mc f" "\<lambda>_. True" "sees de b mc f" "sound_events de b mc" for de b mc f
  by unfold_locales (auto simp: bio003_step_def bio003_event_def zero_event_def Let_def intro!: zero_step_sound sees_event)

interpretation bio004: detector_steps "bio004_step de b mc f" "\<lambda>_. True" "sees de b mc f" "sound_events de b mc" for de b mc f
  by unfold_locales (auto simp: bio004_step_def bio004_event_def zero_event_def Let_def intro!: zero_step_sound sees_event)

section \<open>Several passes over the players\<close>

interpretation mov002: detector_steps "mov002_report de b mc f" "\<lambda>_. True" "\<lambda>c. sees de b mc f (tp_player c)" "sound_events de b mc" for de b mc f
  by unfold_locales (auto simp: mov002_report_def event_defs intro!: sees_event)

lemma teleport_player: "teleport_of f d ps = Some c \<Longrightarrow> tp_player c = ps"
  by (auto simp: teleport_of_def Let_def split: option.splits if_splits)

lemma collect_players: "c \<in> set (fst (collect f pss d)) \<Longrightarrow> tp_player c \<in> set pss"
proof (induction pss arbitrary: d)
  case (Cons ps pss)
  obtain cs d' where cs: "collect f pss (see f ps d) = (cs, d')" by force
  then have "c \<in> set cs \<or> teleport_of f d ps = Some c" using Cons.prems by (auto split: option.splits)
  then show ?case using Cons.IH [of "see f ps d"] cs teleport_player by force
qed simp

lemma mov002_run_sound:
  assumes "list_all (sees de b mc f) active"
  shows "sound_events de b mc n (fst (mov002_run de b mc f active n d))"
proof -
  obtain cs d' where c: "collect f active (note_score f active d) = (cs, d')" by force
  have "list_all (\<lambda>c. sees de b mc f (tp_player c)) cs"
    using assms collect_players [of _ f active "note_score f active d"] c by (auto simp: list_all_iff)
  then show ?thesis using c mov002.frame [where pss = cs and n = n and s = "note_teleporters f cs d'"] by (simp add: mov002_run_def Let_def)
qed

text \<open>STATE_007: a punch remembers who threw it, where the player was known.\<close>

definition known_punch :: "pending_punch \<Rightarrow> bool" where
  "known_punch p \<longleftrightarrow> pp_pid p \<noteq> [] \<and> is_fin (pp_timestamp p) \<and> 0 \<le> pp_frame p"

definition punches_known :: "state007 \<Rightarrow> bool" where
  "punches_known d \<longleftrightarrow> list_all known_punch (s7_pending d)"

definition sees_punch :: "detect_env \<Rightarrow> base \<Rightarrow> match_context \<Rightarrow> int \<Rightarrow> pending_punch \<Rightarrow> bool" where
  "sees_punch de b mc f p \<longleftrightarrow> at_work de b mc f \<and> known_punch p"

lemma punch_event_sound:
  assumes "sees_punch de b mc f p"
  shows "sound_events de b mc n [punch_event de b n mc f p d victim nearest adjusted k]"
proof -
  have "at_work de b mc (pp_frame p)" using assms by (simp add: sees_punch_def at_work_def known_punch_def)
  then show ?thesis using assms
    by (auto simp: punch_event_def event_defs sees_punch_def known_punch_def intro!: make_event_sound)
qed

lemma attribute_punch_keeps: "s7_pending (snd (attribute_punch p everyone d)) = s7_pending d"
  by (auto simp: attribute_punch_def split: prod.splits option.splits)

interpretation state007: detector_steps "resolve_punch de b mc f everyone" punches_known "sees_punch de b mc f" "sound_events de b mc"
  for de b mc f everyone
proof
  fix s p n
  assume s: "punches_known s" and p: "sees_punch de b mc f p"
  obtain r d where a: "attribute_punch p everyone s = (r, d)" by force
  have d: "punches_known d" using s attribute_punch_keeps [of p everyone s] a by (simp add: punches_known_def)
  show "punches_known (snd (resolve_punch de b mc f everyone p n s))"
    using a d p by (auto simp: resolve_punch_def evaluate_punch_def punches_known_def sees_punch_def Let_def split: option.splits)
  show "sound_events de b mc n (fst (resolve_punch de b mc f everyone p n s))"
    using a p by (auto simp: resolve_punch_def evaluate_punch_def Let_def intro!: punch_event_sound split: option.splits)
qed simp_all

lemma note_punch_keeps:
  assumes "known_player ps" "0 \<le> f" "punches_known d"
  shows "punches_known (note_punch f ps d)"
  using assms by (auto simp: note_punch_def note_stun_def punch_of_def punches_known_def known_punch_def known_player_def Let_def split: option.splits)

lemma note_punches_keep:
  "list_all known_player pss \<Longrightarrow> 0 \<le> f \<Longrightarrow> punches_known d \<Longrightarrow> punches_known (fold (note_punch f) pss d)"
  by (induction pss arbitrary: d) (auto intro: note_punch_keeps)

text \<open>PAT_003: the repeats of one player, numbered.\<close>

lemma sound_numbered:
  assumes "\<And>k g. g \<in> set gs \<Longrightarrow> sound_events de b mc k [g k]"
  shows "sound_events de b mc n (number gs n)"
  using assms
proof (induction gs arbitrary: n)
  case (Cons g gs)
  have "number (g # gs) n = [g n] @ number gs (Suc n)" by (simp add: number_def upt_rec)
  moreover have "sound_events de b mc (n + length [g n]) (number gs (Suc n))" using Cons by simp
  ultimately show ?case using Cons.prems [of g n] by (simp only: sound_events_append list.set_intros)
qed (simp add: number_def)

interpretation pat003: detector_steps "pat003_step de b mc f h" "\<lambda>_. True" "sees de b mc f" "sound_events de b mc" for de b mc f h
  by unfold_locales (auto simp: pat003_step_def repeat_event_def player_key_def Let_def intro!: sound_numbered sees_event split: option.splits)

end
