(* ===== verification/Detect_Catch_Facts.thy ===== *)
theory Detect_Catch_Facts
  imports Detect_Catch_Run Detect_Facts
begin

text \<open>
  What STATE_008 reports: an observation only, about a player who held the disc in two samples in a row. The
  pending event survives nothing that breaks the trajectory.
\<close>

section \<open>What keeps the pending event\<close>

lemma note_reason_keeps [simp]:
  "c8_pending (note_reason e d) = c8_pending d" "c8_pending_holder (note_reason e d) = c8_pending_holder d"
  "c8_previous (note_reason e d) = c8_previous d"
  by (simp_all add: note_reason_def)

lemma clear_flight_keeps [simp]:
  "c8_pending (clear_flight d) = c8_pending d" "c8_pending_holder (clear_flight d) = c8_pending_holder d"
  "c8_previous (clear_flight d) = c8_previous d"
  by (simp_all add: clear_flight_def)

lemma forget_pending_keeps [simp]:
  "c8_pending (forget_pending d) = None" "c8_pending_holder (forget_pending d) = []" "c8_previous (forget_pending d) = c8_previous d"
  by (simp_all add: forget_pending_def)

lemma reset_trajectory_forgets [simp]: "c8_pending (reset_trajectory d) = None" "c8_previous (reset_trajectory d) = None"
  by (simp_all add: reset_trajectory_def)

lemma finish_review_keeps [simp]:
  "c8_pending (snd (finish_review x e c d)) = c8_pending d" "c8_pending_holder (snd (finish_review x e c d)) = c8_pending_holder d"
  "c8_previous (snd (finish_review x e c d)) = c8_previous d"
  by (simp_all add: finish_review_def split: option.split)

lemma settle_review_keeps [simp]:
  "c8_pending (snd (settle_review p s u d)) = c8_pending d" "c8_pending_holder (snd (settle_review p s u d)) = c8_pending_holder d"
  "c8_previous (snd (settle_review p s u d)) = c8_previous d"
  by (simp_all add: settle_review_def)

lemma observe_possession_keeps [simp]:
  "c8_pending (snd (observe_possession pls f u d)) = c8_pending d"
  "c8_pending_holder (snd (observe_possession pls f u d)) = c8_pending_holder d"
  "c8_previous (snd (observe_possession pls f u d)) = c8_previous d"
  by (auto simp: observe_possession_def Let_def case_prod_unfold split: sum.split option.split)

lemma lose_flight_keeps [simp]:
  "c8_pending (lose_flight e d) = c8_pending d" "c8_previous (lose_flight e d) = c8_previous d"
  by (simp_all add: lose_flight_def)

lemma build_baseline_keeps [simp]:
  "c8_pending (build_baseline de s x d) = c8_pending d" "c8_previous (build_baseline de s x d) = c8_previous d"
  by (simp_all add: build_baseline_def Let_def split: sum.split prod.split)

lemma follow_reference_keeps [simp]:
  "c8_pending (follow_reference de s x base d) = c8_pending d" "c8_previous (follow_reference de s x base d) = c8_previous d"
  by (simp_all add: follow_reference_def Let_def split: option.split)

lemma fly_on_keeps [simp]:
  "c8_pending (fly_on de s d) = c8_pending d" "c8_previous (fly_on de s d) = c8_previous d"
  by (simp_all add: fly_on_def Let_def split: option.split)

lemma free_sample_keeps [simp]:
  "c8_pending (free_sample de prev s d) = c8_pending d" "c8_previous (free_sample de prev s d) = c8_previous d"
  by (simp_all add: free_sample_def Let_def split: option.split)

lemma begin_review_keeps [simp]:
  "c8_pending (begin_review s p e d) = c8_pending d" "c8_pending_holder (begin_review s p e d) = c8_pending_holder d"
  "c8_previous (begin_review s p e d) = c8_previous d"
  by (simp_all add: begin_review_def Let_def)

section \<open>Samples and candidates\<close>

text \<open>The contract every detector meets, one that only observes included.\<close>

definition reported_by :: "base \<Rightarrow> match_context \<Rightarrow> detection_event \<Rightarrow> bool" where
  "reported_by b mc e \<longleftrightarrow> validate_event e = None \<and> detector_id e = bd_id b \<and> match_id e = mc_match_id mc \<and>
     ck_player_id (ev_causal_key e) = player_id e \<and> (enforcement_weight e = bd_weight b \<or> enforcement_weight e = Fin 0) \<and>
     (auto_enforce e \<longrightarrow> bd_auto b) \<and> (is_shadow e \<longrightarrow> enforcement_weight e = Fin 0 \<and> \<not> auto_enforce e) \<and> merged_count e = 0"

lemma made_reported: "made_by b mc e \<Longrightarrow> reported_by b mc e"
  by (simp add: made_by_def reported_by_def)

lemma sound_reported: "sound_events de b mc n evs \<Longrightarrow> list_all (reported_by b mc) evs"
  by (auto simp: sound_events_def list_all_iff intro: made_reported)

definition observed_only :: "base \<Rightarrow> match_context \<Rightarrow> detection_event \<Rightarrow> bool" where
  "observed_only b mc e \<longleftrightarrow> reported_by b mc e \<and> is_shadow e"

lemma observe_only_ok: "made_by b mc e \<Longrightarrow> observed_only b mc (observe_only e)"
  by (simp add: made_by_def observed_only_def reported_by_def observe_only_def validate_event_def Let_def out_of_unit_iff split: if_splits)

definition waits_for :: "catch_sample \<Rightarrow> detection_event \<Rightarrow> bool" where
  "waits_for s e \<longleftrightarrow> player_id e = ca_holder s \<and> frame_index e = ca_frame s \<and> ca_holder s \<noteq> []"

lemma candidate_cases:
  assumes "catch_candidate de b n mc base s d = Inr p"
  obtains evd where "pg_event p = candidate_event de b n mc d base s evd"
  using assms that by (auto simp: catch_candidate_def Let_def split: if_splits option.splits)

lemma candidate_observed:
  assumes "catch_candidate de b n mc base s d = Inr p" "at_work de b mc (ca_frame s)" "ca_holder s \<noteq> []" "is_fin (ca_time s)"
  shows "observed_only b mc (pg_event p)"
proof -
  obtain evd where e: "pg_event p = candidate_event de b n mc d base s evd" using assms(1) by (rule candidate_cases)
  have "made_by b mc (make_event de b n mc (ca_holder s) (ca_frame s) (ca_time s) sev conf evd observed expected
      (player_key (ca_holder s) first (ca_frame s) ''catch_trajectory_review''))" if "observed \<noteq> []" for sev conf observed expected first
    using make_event_sound [of de b mc "ca_frame s" "ca_holder s" "ca_time s" observed] that assms
    by (simp add: sound_events_single player_key_def)
  then show ?thesis by (auto simp: e candidate_event_def intro!: observe_only_ok)
qed

text \<open>Without any assumption on the ids or the match an event is without consequence.\<close>

definition unscored :: "detection_event \<Rightarrow> bool" where
  "unscored e \<longleftrightarrow> is_shadow e \<and> enforcement_weight e = Fin 0 \<and> \<not> auto_enforce e"

lemma observe_only_unscored [simp]: "unscored (observe_only e)"
  by (simp add: unscored_def observe_only_def)

lemma candidate_unscored: "catch_candidate de b n mc base s d = Inr p \<Longrightarrow> unscored (pg_event p)"
  by (erule candidate_cases) (simp add: candidate_event_def)

lemma candidate_waits:
  assumes "catch_candidate de b n mc base s d = Inr p" "ca_holder s \<noteq> []"
  shows "waits_for s (pg_event p)"
proof -
  obtain evd where "pg_event p = candidate_event de b n mc d base s evd" using assms(1) by (rule candidate_cases)
  then show ?thesis using assms(2) by (simp add: waits_for_def candidate_event_def observe_only_def)
qed

lemma confirmed_fields [simp]:
  "player_id (confirmed_event de f p) = player_id (pg_event p)" "frame_index (confirmed_event de f p) = frame_index (pg_event p)"
  "unscored (confirmed_event de f p)"
  by (simp_all add: confirmed_event_def) (simp_all add: observe_only_def)

lemma confirmed_observed: "observed_only b mc (pg_event p) \<Longrightarrow> observed_only b mc (confirmed_event de f p)"
  by (simp add: observed_only_def reported_by_def confirmed_event_def observe_only_def catch_evidence_def evidence_of_def
    validate_event_def Let_def out_of_unit_iff split: if_splits)

lemma collect_motion_read:
  "collect_motion pss r s = Inr (Some dc, s') \<Longrightarrow> r \<noteq> None \<longrightarrow> is_fin (ca_time s) \<Longrightarrow> ca_frame s' = ca_frame s \<and> is_fin (ca_time s')"
proof (induction pss arbitrary: r s)
  case (Cons ps pss)
  have fin: "is_fin (ps_last_timestamp ps)" if "motion_error ps x = None" for x
    using that by (auto simp: motion_error_def Let_def f_finite_def is_fin_def split: if_splits)
  show ?case using Cons.prems Cons.IH fin by (fastforce simp: note_motion_def Let_def split: if_splits option.splits)
qed auto

lemma read_catch_sample_read:
  assumes "read_catch_sample pls f = Inr s"
  shows "ca_frame s = f" "is_fin (ca_time s)"
proof -
  obtain who where w: "read_possession pls f = Inr who" using assms by (auto simp: read_catch_sample_def split: sum.splits)
  then obtain dc where "collect_motion (at_frame pls f) None ((no_catch_sample f)\<lparr>ca_holder := ca_holder who, ca_source := ca_source who\<rparr>) = Inr (Some dc, s)"
    using assms by (auto simp: read_catch_sample_def split: sum.splits option.splits if_splits)
  from collect_motion_read [OF this] show "ca_frame s = f" "is_fin (ca_time s)" by (simp_all add: no_catch_sample_def)
qed

section \<open>A frame\<close>

definition pending_ok :: "(detection_event \<Rightarrow> bool) \<Rightarrow> state008 \<Rightarrow> bool" where
  "pending_ok good d \<longleftrightarrow> (case c8_pending d of None \<Rightarrow> True
     | Some p \<Rightarrow> good (pg_event p) \<and>
         (case c8_previous d of None \<Rightarrow> False | Some s \<Rightarrow> ca_holder s = c8_pending_holder d \<and> waits_for s (pg_event p)))"

lemma pending_ok_None [simp]: "c8_pending d = None \<Longrightarrow> pending_ok good d"
  by (simp add: pending_ok_def)

lemma held_sample_ok:
  assumes "c8_pending d = None" "c8_previous d = Some s" "ca_holder s \<noteq> []"
    and "\<And>base p. catch_candidate de b n mc base s d = Inr p \<Longrightarrow> good (pg_event p)"
  shows "pending_ok good (held_sample de b n mc prev s d)"
proof (cases "c8_pending (held_sample de b n mc prev s d)")
  case (Some p)
  then obtain base where c: "catch_candidate de b n mc base s d = Inr p"
    using assms(1) by (auto simp: held_sample_def Let_def split: option.splits sum.splits if_splits)
  note p = assms(4) [OF c] candidate_waits [OF c assms(3)]
  have "c8_previous (held_sample de b n mc prev s d) = Some s" "c8_pending_holder (held_sample de b n mc prev s d) = ca_holder s"
    using assms(2) Some assms(1) by (auto simp: held_sample_def Let_def split: option.splits sum.splits if_splits)
  then show ?thesis using Some p by (simp add: pending_ok_def)
qed simp

lemma interruption_None:
  "interruption d (Some p) s = None \<Longrightarrow> ca_frame s = ca_frame p + 1"
  by (auto simp: interruption_def gap_between_def Let_def split: if_splits)

lemma confirm_catch_previous [simp]: "c8_previous (snd (confirm_catch de f prev s d)) = c8_previous d"
  by (simp add: confirm_catch_def Let_def)

text \<open>What an event rests on: the player held the disc at this frame and, in the sample before, at the event's own.\<close>

definition confirmed_at :: "(string, tracked) gomap \<Rightarrow> int \<Rightarrow> detection_event \<Rightarrow> bool" where
  "confirmed_at pls f e \<longleftrightarrow> frame_index e = f - 1 \<and> player_id e \<noteq> [] \<and>
     (case read_catch_sample pls f of Inl _ \<Rightarrow> False | Inr s \<Rightarrow> ca_holder s = player_id e)"

lemma confirm_catch_ok:
  assumes "confirm_catch de f prev s d = (evs, d')" "read_catch_sample pls f = Inr s"
    and "\<And>q. prev = Some q \<Longrightarrow> ca_frame s = ca_frame q + 1"
    and "\<And>p. c8_pending d = Some p \<Longrightarrow>
      good (pg_event p) \<and> (\<exists>q. prev = Some q \<and> ca_holder q = c8_pending_holder d \<and> waits_for q (pg_event p))"
    and "\<And>p. good (pg_event p) \<Longrightarrow> good (confirmed_event de f p)"
  shows "c8_pending d' = None" "list_all (\<lambda>e. good e \<and> confirmed_at pls f e) evs"
proof -
  have "c8_pending d = None" if "c8_pending_holder d = []" using assms(4) that by (cases "c8_pending d") (auto simp: waits_for_def)
  then show "c8_pending d' = None" using assms(1) by (auto simp: confirm_catch_def Let_def split: if_splits)
  show "list_all (\<lambda>e. good e \<and> confirmed_at pls f e) evs"
  proof (cases "evs = []")
    case False
    then obtain p where p: "c8_pending d = Some p" "evs = [confirmed_event de f p]" "ca_holder s = c8_pending_holder d"
      using assms(1) by (auto simp: confirm_catch_def holder_persists_def Let_def split: if_splits option.splits)
    obtain q where q: "prev = Some q" "ca_holder q = c8_pending_holder d" "waits_for q (pg_event p)" "good (pg_event p)"
      using assms(4) [OF p(1)] by auto
    then show ?thesis using p assms(3) [OF q(1)] read_catch_sample_read(1) [OF assms(2)] assms(5) [OF q(4)] assms(2)
      by (simp add: confirmed_at_def waits_for_def)
  qed simp
qed

lemma state008_frame_ok:
  assumes "pending_ok good d"
    and cand: "\<And>n base s d p. catch_candidate de b n mc base s d = Inr p \<Longrightarrow> ca_frame s = f \<Longrightarrow> ca_holder s \<noteq> [] \<Longrightarrow> is_fin (ca_time s) \<Longrightarrow>
      good (pg_event p)"
    and conf: "\<And>p. good (pg_event p) \<Longrightarrow> good (confirmed_event de f p)"
  shows "pending_ok good (snd (state008_frame de b mc pls f n d))"
    and "list_all (\<lambda>e. good e \<and> confirmed_at pls f e) (fst (fst (state008_frame de b mc pls f n d)))"
proof -
  have "pending_ok good (snd (state008_frame de b mc pls f n d)) \<and>
    list_all (\<lambda>e. good e \<and> confirmed_at pls f e) (fst (fst (state008_frame de b mc pls f n d)))"
  proof (cases "read_catch_sample pls f")
    case (Inl e)
    then show ?thesis by (simp add: state008_frame_def case_prod_unfold Let_def)
  next
    case (Inr s)
    note s = read_catch_sample_read [OF Inr]
    define prev where "prev = c8_previous d"
    define d1 where "d1 = d\<lparr>c8_previous := Some s\<rparr>"
    show ?thesis
    proof (cases "interruption d1 prev s")
      case (Some x)
      then show ?thesis using Inr by (cases x) (simp add: state008_frame_def case_prod_unfold Let_def prev_def d1_def)
    next
      case None
      define d2 where "d2 = snd (observe_possession pls f [] d1)"
      have d2: "c8_pending d2 = c8_pending d" "c8_pending_holder d2 = c8_pending_holder d" "c8_previous d2 = Some s"
        by (simp_all add: d2_def d1_def)
      obtain evs d3 where c: "confirm_catch de f prev s d2 = (evs, d3)" by force
      have "c8_previous d3 = Some s" using d2 confirm_catch_previous [of de f prev s d2] c by simp
      moreover have "ca_frame s = ca_frame q + 1" if "prev = Some q" for q using None that by (auto dest: interruption_None)
      moreover have "good (pg_event p) \<and> (\<exists>q. prev = Some q \<and> ca_holder q = c8_pending_holder d2 \<and> waits_for q (pg_event p))"
        if "c8_pending d2 = Some p" for p using assms(1) that d2 by (auto simp: pending_ok_def prev_def split: option.splits)
      ultimately have "c8_pending d3 = None" "list_all (\<lambda>e. good e \<and> confirmed_at pls f e) evs" "c8_previous d3 = Some s"
        using confirm_catch_ok [OF c Inr, of good] conf by blast+
      then show ?thesis
        using Inr None c s held_sample_ok [of d3 s de b n mc good prev] cand [of n _ s d3]
        by (simp add: state008_frame_def case_prod_unfold Let_def prev_def [symmetric] d1_def [symmetric] d2_def [symmetric])
    qed
  qed
  then show "pending_ok good (snd (state008_frame de b mc pls f n d))"
    "list_all (\<lambda>e. good e \<and> confirmed_at pls f e) (fst (fst (state008_frame de b mc pls f n d)))" by simp_all
qed

section \<open>A run\<close>

datatype catch_call = Catch_frame match_context "(string, tracked) gomap" int | Catch_new_source | Catch_flush

fun catch_step :: "detect_env \<Rightarrow> catch_call \<Rightarrow> state008 instance_of \<Rightarrow> detection_event list \<times> state008 instance_of" where
  "catch_step de (Catch_frame mc pls f) x = state008_evaluate de mc pls f x"
| "catch_step de Catch_new_source x = ([], x\<lparr>in_state := snd (state008_reset_source (in_state x))\<rparr>)"
| "catch_step de Catch_flush x = ([], x\<lparr>in_state := snd (state008_flush_tracks (in_state x))\<rparr>)"

text \<open>The events of a run, each with the call that reported it.\<close>

fun catch_events :: "detect_env \<Rightarrow> catch_call list \<Rightarrow> state008 instance_of \<Rightarrow> (catch_call \<times> detection_event) list" where
  "catch_events de [] x = []"
| "catch_events de (c # cs) x = (let (evs, x) = catch_step de c x in map (Pair c) evs @ catch_events de cs x)"

fun confirmed_by :: "catch_call \<Rightarrow> detection_event \<Rightarrow> bool" where
  "confirmed_by (Catch_frame mc pls f) e = confirmed_at pls f e"
| "confirmed_by c e = False"

lemma catch_step_ok:
  assumes "pending_ok unscored (in_state x)"
  shows "pending_ok unscored (in_state (snd (catch_step de c x)))" "list_all (\<lambda>e. unscored e \<and> confirmed_by c e) (fst (catch_step de c x))"
proof -
  have "pending_ok unscored (in_state (snd (catch_step de c x))) \<and> list_all (\<lambda>e. unscored e \<and> confirmed_by c e) (fst (catch_step de c x))"
  proof (cases c)
    case (Catch_frame mc pls f)
    then show ?thesis using state008_frame_ok [OF assms candidate_unscored] by (simp add: state008_evaluate_def run_instance_def case_prod_unfold Let_def)
  qed (simp_all add: state008_reset_source_def state008_reset_def state008_flush_tracks_def case_prod_unfold Let_def)
  then show "pending_ok unscored (in_state (snd (catch_step de c x)))"
    "list_all (\<lambda>e. unscored e \<and> confirmed_by c e) (fst (catch_step de c x))" by simp_all
qed

lemma new_state008_pending: "c8_pending (in_state (new_state008 ps)) = None"
  by (simp add: new_state008_def state008_configure_def state008_reset_def)

text \<open>C29: Whatever STATE_008 is configured and shown, changes of source and flushes included, every event it reports is a shadow event without
  weight that cannot enforce, and it is reported at a frame whose sample shows the player holding the disc, one frame after the catch it is
  about.\<close>

theorem catch_events_are_confirmed_observations:
  "list_all (\<lambda>(c, e). unscored e \<and> confirmed_by c e) (catch_events de calls (new_state008 ps))"
proof -
  have "pending_ok unscored (in_state x) \<Longrightarrow> list_all (\<lambda>(c, e). unscored e \<and> confirmed_by c e) (catch_events de calls x)" for x
  proof (induction calls arbitrary: x)
    case (Cons c cs)
    note step = catch_step_ok [where c = c and de = de, OF Cons.prems]
    show ?case using step(2) Cons.IH [OF step(1)] by (auto simp: case_prod_unfold Let_def list_all_iff)
  qed simp
  then show ?thesis using new_state008_pending by simp
qed

end
