(* ===== verification/Detect_Throw_Facts.thy ===== *)
theory Detect_Throw_Facts
  imports Detect_Facts Detect_Speed
begin

text \<open>
  What the throw detectors promise: the events of a release or of a flight are sound like all others, the
  detectors that follow the disc keep what they remember of a release usable, and the reported speed review
  gives weight to nothing but a corroborated speed.
\<close>

section \<open>One release\<close>

definition dated :: "tracked \<Rightarrow> int \<Rightarrow> bool" where
  "dated ps f \<longleftrightarrow> (case throw_at ps f of None \<Rightarrow> True | Some t \<Rightarrow> is_fin (te_timestamp t))"

definition sees_release :: "detect_env \<Rightarrow> base \<Rightarrow> match_context \<Rightarrow> int \<Rightarrow> string \<times> tracked \<Rightarrow> bool" where
  "sees_release de b mc f x \<longleftrightarrow> at_work de b mc f \<and> fst x \<noteq> [] \<and> dated (snd x) f"

lemma with_attribution_sound [simp]:
  "sound_events de b mc n [with_attribution a e] \<longleftrightarrow> sound_events de b mc n [e]"
  by (simp add: sound_events_single made_by_def with_attribution_def validate_event_def Let_def)

lemma release_event_sound:
  assumes "sees_release de b mc f (i, ps)" "throw_at ps f = Some t" "observed \<noteq> []" "anomaly \<noteq> []"
  shows "sound_events de b mc n [make_event de b n mc i f (te_timestamp t) sev conf evd observed expected (player_key i first final anomaly)]"
  using assms by (intro make_event_sound) (simp_all add: sees_release_def dated_def player_key_def)

interpretation throw002: detector_steps "throw002_step de b mc f" "\<lambda>_. True" "sees_release de b mc f" "sound_events de b mc" for de b mc f
  by unfold_locales (auto simp: throw002_step_def throw002_event_def Let_def intro!: release_event_sound split: option.splits prod.splits)

interpretation throw003: detector_steps "throw003_step de b mc f" "\<lambda>_. True" "sees_release de b mc f" "sound_events de b mc" for de b mc f
  by unfold_locales (auto simp: throw003_step_def throw003_event_def Let_def intro!: release_event_sound split: option.splits prod.splits)

interpretation throw004: detector_steps "throw004_step de b mc f" "\<lambda>_. True" "sees_release de b mc f" "sound_events de b mc" for de b mc f
  by unfold_locales (auto simp: throw004_step_def throw004_event_def Let_def intro!: release_event_sound split: option.splits prod.splits)

section \<open>Flights\<close>

text \<open>Every value of a map.\<close>

definition held :: "('v \<Rightarrow> bool) \<Rightarrow> ('k, 'v) gomap \<Rightarrow> bool" where
  "held p m \<longleftrightarrow> (\<forall>x\<in>set m. p (snd x))"

lemma held_Nil [simp]: "held p []"
  by (simp add: held_def)

lemma held_update [simp]: "held p m \<Longrightarrow> p v \<Longrightarrow> held p (AList.update k v m)"
  by (induction m) (auto simp: held_def)

lemma held_delete [simp]: "held p m \<Longrightarrow> held p (AList.delete k m)"
  by (auto simp: held_def AList.delete_eq)

lemma held_map_of: "held p m \<Longrightarrow> map_of m k = Some v \<Longrightarrow> p v"
  by (auto simp: held_def dest!: map_of_SomeD)

lemma held_by_id: "held p m \<Longrightarrow> x \<in> set (by_id m) \<Longrightarrow> p (snd x)"
  by (auto simp: held_def by_id_def)

definition usable_release :: "string \<Rightarrow> int \<Rightarrow> f64 \<Rightarrow> bool" where
  "usable_release i f t \<longleftrightarrow> i \<noteq> [] \<and> 0 \<le> f \<and> is_fin t"

definition flight_usable :: "speed_track \<Rightarrow> bool" where
  "flight_usable t \<longleftrightarrow> usable_release (tk_thrower t) (tk_release_frame t) (tk_release_time t)"

definition flights_usable :: "throw008 \<Rightarrow> bool" where
  "flights_usable d \<longleftrightarrow> held flight_usable (w8_tracks d)"

lemma finalize_speed_sound:
  assumes "at_work de b mc f" "flight_usable t"
  shows "sound_events de b mc n (finalize_speed de b mc f d t n)"
proof -
  have "at_work de b mc (tk_release_frame t)" using assms by (simp add: at_work_def flight_usable_def usable_release_def)
  then show ?thesis using assms(2)
    by (auto simp: finalize_speed_def flight_usable_def usable_release_def player_key_def Let_def intro!: make_event_sound)
qed

lemma fly_usable [simp]: "flight_usable (fly de d f disc is_held t) \<longleftrightarrow> flight_usable t"
  by (simp add: fly_def judge_speed_def flight_usable_def Let_def split: option.splits)

interpretation throw008_open: detector_steps "open_track de b mc f" flights_usable "sees_release de b mc f" "sound_events de b mc"
  for de b mc f
proof
  fix s x n
  assume s: "flights_usable s" and x: "sees_release de b mc f x"
  obtain i ps where ip: "x = (i, ps)" by force
  have new: "flight_usable (start_speed_track f i t)" if "throw_at ps f = Some t" for t
    using x ip that by (simp add: sees_release_def dated_def at_work_def flight_usable_def usable_release_def start_speed_track_def)
  show "flights_usable (snd (open_track de b mc f x n s))"
    using s new ip by (auto simp: open_track_def flights_usable_def split: option.splits)
  show "sound_events de b mc n (fst (open_track de b mc f x n s))"
    using s x ip by (auto simp: open_track_def sees_release_def flights_usable_def intro!: finalize_speed_sound dest: held_map_of split: option.splits)
qed simp_all

interpretation throw008_follow: detector_steps "follow_track de b mc f disc is_held" flights_usable "\<lambda>_. at_work de b mc f"
  "sound_events de b mc" for de b mc f disc is_held
  by unfold_locales (auto simp: follow_track_def flights_usable_def Let_def intro!: finalize_speed_sound held_update dest: held_map_of split: option.splits)

section \<open>Reported release speed\<close>

definition track_usable :: "match_context \<Rightarrow> release_track \<Rightarrow> bool" where
  "track_usable mc t \<longleftrightarrow> rt_match t = mc_match_id mc \<and> usable_release (rt_player t) (rt_release_frame t) (rt_time t) \<and>
     length (rt_samples t) \<le> release_speed_samples"

definition speed_ok :: "match_context \<Rightarrow> throw001 \<Rightarrow> bool" where
  "speed_ok mc d \<longleftrightarrow> held (track_usable mc) (w1_tracks d)"

lemma shadowless_sound:
  "sound_events de b mc n [e] \<Longrightarrow>
    sound_events de b mc n [e\<lparr>auto_enforce := False, enforcement_weight := (if q then Fin 0 else enforcement_weight e), attribution := x\<rparr>]"
  by (cases q) (simp_all add: sound_events_single made_by_def validate_event_def Let_def out_of_unit_iff split: if_splits)

lemma speed_event_sound:
  assumes "at_work de b mc f0" "track_usable mc t"
  shows "sound_events de b mc n [speed_event de b n f d t reason artifact count]"
proof -
  let ?m = "match_only (rt_match t)"
  have w: "at_work de b ?m (rt_release_frame t)" using assms by (simp add: at_work_def track_usable_def usable_release_def match_only_def)
  note s = shadowless_sound [where mc = ?m]
  have p: "rt_player t \<noteq> []" "is_fin (rt_time t)" using assms(2) by (simp_all add: track_usable_def usable_release_def)
  have "speed_observed t v \<noteq> []" for v by (simp add: speed_observed_def)
  then have "sound_events de b ?m n [speed_event de b n f d t reason artifact count]"
    unfolding speed_event_def Let_def using w p by (intro s make_event_sound) (simp_all add: player_key_def)
  then show ?thesis using assms(2) by (simp add: sound_events_def made_by_def track_usable_def match_only_def)
qed

interpretation throw001_close: detector_steps "close_speed_track de b f reason" "speed_ok mc" "\<lambda>_. at_work de b mc 0" "sound_events de b mc"
  for de b mc f reason
  by unfold_locales (auto simp: close_speed_track_def speed_ok_def Let_def intro!: speed_event_sound dest: held_map_of split: option.splits)

lemma settle_track_sound:
  assumes "speed_ok mc d" "track_usable mc t" "at_work de b mc f"
  shows "speed_ok mc (snd (settle_track de b f reason t i n d))" "sound_events de b mc n (fst (settle_track de b f reason t i n d))"
proof -
  let ?d = "d\<lparr>w1_tracks := AList.update i t (w1_tracks d)\<rparr>"
  have ok: "speed_ok mc ?d" using assms(1,2) by (simp add: speed_ok_def)
  have w: "at_work de b mc 0" using assms(3) by (simp add: at_work_def)
  show "speed_ok mc (snd (settle_track de b f reason t i n d))"
    using ok throw001_close.keeps [OF ok w, where f = f and reason = reason and ps = i and n = n] by (simp add: settle_track_def Let_def)
  show "sound_events de b mc n (fst (settle_track de b f reason t i n d))"
    using throw001_close.reports [OF ok w, where f = f and reason = reason and ps = i and n = n] by (simp add: settle_track_def Let_def)
qed

lemma append_snapshot_usable: "track_usable mc t \<Longrightarrow> track_usable mc (snd (append_snapshot de s t))"
  by (auto simp: append_snapshot_def track_usable_def Let_def)

text \<open>A first sample leaves the track as it was, or starts its samples anew and may take this frame's too.\<close>

lemma start_samples_cases:
  obtains (kept) r where "start_samples de f s x w t y = (r, t)" "r \<noteq> []"
  | (first) "start_samples de f s x w t y = (sp_reason y, t\<lparr>rt_samples := [sp_raw y], rt_last := y\<rparr>)"
  | (second) "sp_reason y = []" "start_samples de f s x w t y = append_snapshot de s (t\<lparr>rt_samples := [sp_raw y], rt_last := y\<rparr>)"
proof -
  let ?t = "t\<lparr>rt_samples := [sp_raw y], rt_last := y\<rparr>"
  have "(\<exists>r. p = (r, t) \<and> r \<noteq> []) \<or> p = (sp_reason y, ?t) \<or> sp_reason y = [] \<and> p = append_snapshot de s ?t"
    if "p = (if a then (c1 # r1, t) else if b then (c2 # r2, t) else if c then (c3 # r3, t)
      else if sp_reason y = [] \<and> d then append_snapshot de s ?t else (sp_reason y, ?t))" for p a b c d c1 r1 c2 r2 c3 r3
    using that by (auto split: if_splits)
  from this [OF start_samples_def [unfolded Let_def, of de f s x w t y]] show thesis using kept first second by blast
qed

lemma first_sample_cases:
  obtains (kept) r where "first_sample de f s prev x t = (r, t)" "r \<noteq> []"
  | (started) y w where "y = s \<or> prev = Some y" "first_sample de f s prev x t = start_samples de f s x w t y"
proof -
  have "(\<exists>r. first_sample de f s prev x t = (r, t) \<and> r \<noteq> []) \<or>
    (\<exists>y w. (y = s \<or> prev = Some y) \<and> first_sample de f s prev x t = start_samples de f s x w t y)"
    by (cases "te_release_window x"; cases prev) (simp_all add: first_sample_def, blast+)
  then show thesis using that by blast
qed

lemma restart_usable: "track_usable mc t \<Longrightarrow> track_usable mc (t\<lparr>rt_samples := [sp_raw y], rt_last := y\<rparr>)"
  by (simp add: track_usable_def release_speed_samples_def)

lemma start_samples_usable: "track_usable mc t \<Longrightarrow> track_usable mc (snd (start_samples de f s x w t y))"
  by (cases rule: start_samples_cases [of de f s x w t y]) (auto intro: append_snapshot_usable restart_usable)

lemma first_sample_usable: "track_usable mc t \<Longrightarrow> track_usable mc (snd (first_sample de f s prev x t))"
  by (cases rule: first_sample_cases [of de f s prev x t]) (auto intro: start_samples_usable)

lemma new_speed_track_usable: "new_speed_track mc d ps t = Some tr \<Longrightarrow> ps_player_id ps \<noteq> [] \<Longrightarrow> track_usable mc tr"
  by (auto simp: new_speed_track_def track_usable_def usable_release_def release_unusable_def release_speed_samples_def f_finite_def is_fin_def
    Let_def split: if_splits prod.splits)

interpretation throw001_follow: detector_steps "follow_speed de b pls f s" "speed_ok mc" "\<lambda>_. at_work de b mc f" "sound_events de b mc"
  for de b mc pls f s
proof
  fix d i n
  assume d: "speed_ok mc d" and w: "at_work de b mc f"
  show "speed_ok mc (snd (follow_speed de b pls f s i n d))" "sound_events de b mc n (fst (follow_speed de b pls f s i n d))"
  proof -
    have t: "track_usable mc t" if "map_of (w1_tracks d) i = Some t" for t
      using d that by (auto simp: speed_ok_def dest: held_map_of)
    have "track_usable mc t'" if "map_of (w1_tracks d) i = Some t" "append_snapshot de s t = (r, t')" for t r t'
      using append_snapshot_usable [OF t [OF that(1)], of de s] that(2) by simp
    then show "speed_ok mc (snd (follow_speed de b pls f s i n d))" "sound_events de b mc n (fst (follow_speed de b pls f s i n d))"
      using d w t by (auto simp: follow_speed_def split: option.splits prod.splits if_splits intro!: settle_track_sound)
  qed
qed simp_all

interpretation throw001_open: detector_steps "open_speed de b mc f s" "speed_ok mc" "sees de b mc f" "sound_events de b mc"
  for de b mc f s
proof
  fix d ps n
  assume d: "speed_ok mc d" and "sees de b mc f ps"
  then have w: "at_work de b mc f" "ps_player_id ps \<noteq> []" by (simp_all add: sees_def known_player_def)
  show "speed_ok mc (snd (open_speed de b mc f s ps n d))" "sound_events de b mc n (fst (open_speed de b mc f s ps n d))"
  proof -
    have keep: "speed_ok mc (d\<lparr>w1_last_release := m\<rparr>)" for m using d by (simp add: speed_ok_def)
    have "track_usable mc t'" if "new_speed_track mc c ps x = Some t" "first_sample de f s prev x t = (r, t')" for c x t prev r t'
      using first_sample_usable [OF new_speed_track_usable [OF that(1)], of de f s prev x] w that(2) by simp
    then show "speed_ok mc (snd (open_speed de b mc f s ps n d))" "sound_events de b mc n (fst (open_speed de b mc f s ps n d))"
      using keep d w by (auto simp: open_speed_def Let_def split: option.splits prod.splits if_splits intro!: settle_track_sound)
  qed
qed simp_all

section \<open>What a weighted speed event rests on\<close>

text \<open>Free samples in a row: nothing between two of them breaks the track.\<close>

definition clean_run :: "detect_env \<Rightarrow> speed_snapshot set \<Rightarrow> speed_snapshot list \<Rightarrow> bool" where
  "clean_run de seen ss \<longleftrightarrow> set ss \<subseteq> seen \<and> (\<forall>s\<in>set ss. sp_reason s = []) \<and> successively (\<lambda>a b. follow_break de a b = []) ss"

definition supported :: "detect_env \<Rightarrow> speed_snapshot set \<Rightarrow> (f64 \<Rightarrow> f64) \<Rightarrow> detection_event \<Rightarrow> bool" where
  "supported de seen cap e \<longleftrightarrow> enforcement_weight e = Fin 0 \<or>
     (\<exists>ss ping. clean_run de seen ss \<and> length ss = release_speed_samples \<and> (\<forall>s\<in>set ss. flt (cap ping) (rq_speed (sp_raw s))))"

text \<open>A track whose samples are such snapshots, the last one being where it stands.\<close>

definition grounded :: "detect_env \<Rightarrow> speed_snapshot set \<Rightarrow> (f64 \<Rightarrow> f64) \<Rightarrow> release_track \<Rightarrow> bool" where
  "grounded de seen cap t \<longleftrightarrow> (\<exists>ss. ss \<noteq> [] \<and> clean_run de seen ss \<and> map sp_raw ss = rt_samples t \<and> List.last ss = rt_last t) \<and>
     (\<exists>ping. rt_cap t = cap ping)"

definition open_track_ok :: "detect_env \<Rightarrow> speed_snapshot set \<Rightarrow> (f64 \<Rightarrow> f64) \<Rightarrow> release_track \<Rightarrow> bool" where
  "open_track_ok de seen cap t \<longleftrightarrow> grounded de seen cap t \<and> length (rt_samples t) < release_speed_samples"

definition speed_grounded :: "detect_env \<Rightarrow> match_context \<Rightarrow> speed_snapshot set \<Rightarrow> (f64 \<Rightarrow> f64) \<Rightarrow> throw001 \<Rightarrow> bool" where
  "speed_grounded de mc seen cap d \<longleftrightarrow> held (open_track_ok de seen cap) (w1_tracks d) \<and> effective_cap mc d = cap \<and>
     list_all (supported de seen cap) (w1_queued d) \<and> (case w1_previous d of None \<Rightarrow> True | Some s \<Rightarrow> s \<in> seen)"

definition snapshot_ok :: "speed_snapshot \<Rightarrow> bool" where
  "snapshot_ok s \<longleftrightarrow> (sp_reason s = [] \<longrightarrow> sp_has_disc s)"

text \<open>A snapshot without a complaint has a disc: every player's copy was fit to be read.\<close>

lemma flight_error_named: "flight_error f k ps \<noteq> Some []"
  by (simp add: flight_error_def split: option.split)

lemma read_flight_from_clean:
  "snd (read_flight_from f k out pss) = [] \<Longrightarrow> \<forall>ps\<in>set pss. flight_error f k ps = None"
  by (induction pss arbitrary: out) (auto simp: Let_def flight_error_named split: option.splits if_splits)

lemma flight_error_None: "flight_error f k ps = None \<Longrightarrow> usable_disc ps"
  by (auto simp: flight_error_def usable_disc_def split: option.splits if_splits)

lemma read_speed_snapshot_ok: "snapshot_ok (read_speed_snapshot pss f)"
proof -
  have "sp_has_disc (read_speed_snapshot pss f)" if "sp_reason (read_speed_snapshot pss f) = []"
  proof -
    have r: "snd (read_flight pss f) = []" using that by (cases "snd (read_flight pss f) = []") (simp_all add: read_speed_snapshot_def Let_def)
    then obtain ps rest where pss: "pss = ps # rest" by (cases pss) (simp_all add: read_flight_def)
    have "snd (read_flight_from f (length pss) None pss) = []" using r pss by (simp only: read_flight_def list.distinct if_False)
    then have "flight_error f (length pss) ps = None" using read_flight_from_clean pss list.set_intros(1) by metis
    then have "usable_disc ps" by (rule flight_error_None)
    moreover from this have "sp_has_disc (snapshot_disc f ps)" by (auto simp: usable_disc_def snapshot_disc_def split: option.splits)
    ultimately show ?thesis using pss by (simp add: read_speed_snapshot_def Let_def)
  qed
  then show ?thesis by (simp add: snapshot_ok_def)
qed

lemma clean_run_single: "s \<in> seen \<Longrightarrow> sp_reason s = [] \<Longrightarrow> clean_run de seen [s]"
  by (simp add: clean_run_def)

lemma clean_run_snoc:
  "clean_run de seen ss \<Longrightarrow> ss \<noteq> [] \<Longrightarrow> s \<in> seen \<Longrightarrow> sp_reason s = [] \<Longrightarrow> follow_break de (List.last ss) s = [] \<Longrightarrow> clean_run de seen (ss @ [s])"
  by (auto simp: clean_run_def successively_append_iff)

lemma follow_break_reason: "follow_break de a b = [] \<Longrightarrow> sp_reason b = []"
  by (auto simp: follow_break_def Let_def split: if_splits)

lemma append_snapshot_grounded:
  assumes "append_snapshot de s t = ([], t')" "grounded de seen cap t" "length (rt_samples t) < release_speed_samples" "s \<in> seen" "snapshot_ok s"
  shows "grounded de seen cap t'"
proof (cases "rq_frame (sp_raw s) = rq_frame (sp_raw (rt_last t))")
  case True
  then show ?thesis using assms(1,2) by (auto simp: append_snapshot_def split: if_splits)
next
  case False
  obtain ss where ss: "ss \<noteq> []" "clean_run de seen ss" "map sp_raw ss = rt_samples t" "List.last ss = rt_last t" and c: "\<exists>ping. rt_cap t = cap ping"
    using assms(2) by (auto simp: grounded_def)
  have b: "follow_break de (rt_last t) s = []" using False assms(1) by (simp add: append_snapshot_def Let_def split: if_splits)
  then have r: "sp_reason s = []" "sp_has_disc s" using follow_break_reason [OF b] assms(5) by (auto simp: snapshot_ok_def)
  have t': "t' = t\<lparr>rt_samples := rt_samples t @ [sp_raw s], rt_last := s\<rparr>"
    using False assms(1,3) b r by (simp add: append_snapshot_def Let_def)
  have "clean_run de seen (ss @ [s])" using ss b r assms(4) by (intro clean_run_snoc) simp_all
  then have "ss @ [s] \<noteq> [] \<and> clean_run de seen (ss @ [s]) \<and> map sp_raw (ss @ [s]) = rt_samples t' \<and> List.last (ss @ [s]) = rt_last t'"
    using ss(3) t' by simp
  then show ?thesis using c t' unfolding grounded_def by force
qed

lemma first_sample_clean:
  assumes "first_sample de f s prev x t = ([], t')"
  obtains y where "y = s \<or> prev = Some y" "sp_reason y = []"
    "t' = t\<lparr>rt_samples := [sp_raw y], rt_last := y\<rparr> \<or> append_snapshot de s (t\<lparr>rt_samples := [sp_raw y], rt_last := y\<rparr>) = ([], t')"
proof (cases rule: first_sample_cases [of de f s prev x t])
  case (started y w)
  show ?thesis using that [OF started(1)] started(2) assms
    by (cases rule: start_samples_cases [of de f s x w t y]) auto
qed (use assms in simp)

lemma first_sample_grounded:
  assumes "first_sample de f s prev x t = ([], t')" "s \<in> seen" "case prev of None \<Rightarrow> True | Some y \<Rightarrow> y \<in> seen" "snapshot_ok s"
    "rt_cap t = cap ping"
  shows "grounded de seen cap t'"
proof -
  obtain y where y: "y = s \<or> prev = Some y" "sp_reason y = []"
    "t' = t\<lparr>rt_samples := [sp_raw y], rt_last := y\<rparr> \<or> append_snapshot de s (t\<lparr>rt_samples := [sp_raw y], rt_last := y\<rparr>) = ([], t')"
    using assms(1) by (rule first_sample_clean)
  let ?t = "t\<lparr>rt_samples := [sp_raw y], rt_last := y\<rparr>"
  have "y \<in> seen" using y(1) assms(2,3) by auto
  then have "[y] \<noteq> [] \<and> clean_run de seen [y] \<and> map sp_raw [y] = rt_samples ?t \<and> List.last [y] = rt_last ?t"
    using y(2) by (simp add: clean_run_single)
  then have g: "grounded de seen cap ?t" using assms(5) unfolding grounded_def by force
  show ?thesis using y(3)
  proof
    assume "append_snapshot de s ?t = ([], t')"
    then show ?thesis
      using append_snapshot_grounded [OF _ g] assms(2,4) by (simp add: release_speed_samples_def)
  qed (use g in simp)
qed

lemma speed_event_supported:
  assumes "reason = [] \<Longrightarrow> grounded de seen cap t"
  shows "supported de seen cap (speed_event de' b n f d t reason artifact count)"
proof (cases "fst (speed_verdict t reason)")
  case True
  then have r: "reason = []" "length (rt_samples t) = release_speed_samples" "above_cap t = release_speed_samples"
    by (simp_all add: speed_verdict_def split: if_splits)
  obtain ss ping where ss: "clean_run de seen ss" "map sp_raw ss = rt_samples t" and c: "rt_cap t = cap ping"
    using assms [OF r(1)] by (auto simp: grounded_def)
  have l: "length ss = release_speed_samples" using ss(2) r(2) by (metis length_map)
  have "length (filter (\<lambda>s. flt (rt_cap t) (rq_speed s)) (rt_samples t)) = length (rt_samples t)" using r by (simp add: above_cap_def)
  then have "\<forall>s\<in>set (rt_samples t). flt (cap ping) (rq_speed s)" using c by (metis length_filter_conv_card length_filter_less less_irrefl)
  then have "\<forall>s\<in>set ss. flt (cap ping) (rq_speed (sp_raw s))" using ss(2) by (metis image_eqI list.set_map)
  then show ?thesis using ss(1) l unfolding supported_def by blast
qed (simp add: supported_def speed_event_def Let_def)

lemma close_speed_keeps:
  assumes "speed_grounded de mc seen cap d"
  shows "speed_grounded de mc seen cap (snd (close_speed_track de' b f reason i n d))"
  using assms by (auto simp: close_speed_track_def speed_grounded_def effective_cap_def Let_def split: option.splits)

lemma close_speed_supported:
  assumes "\<And>t. map_of (w1_tracks d) i = Some t \<Longrightarrow> reason = [] \<Longrightarrow> grounded de seen cap t"
  shows "list_all (supported de seen cap) (fst (close_speed_track de b f reason i n d))"
  using assms by (auto simp: close_speed_track_def Let_def intro: speed_event_supported split: option.splits)

text \<open>Closing for a reason reports without weight.\<close>

interpretation throw001_cancel: detector_steps "close_speed_track de b f (c # reason)" "speed_grounded de mc seen cap" "\<lambda>_. True"
  "\<lambda>_. list_all (supported de seen cap)" for de mc seen cap b f c reason
  by unfold_locales (auto intro: close_speed_keeps close_speed_supported)

lemma settle_track_grounded:
  assumes "speed_grounded de mc seen cap d" "reason = [] \<Longrightarrow> grounded de seen cap t" "length (rt_samples t) \<le> release_speed_samples"
  shows "speed_grounded de mc seen cap (snd (settle_track de b f reason t i n d))"
    "list_all (supported de seen cap) (fst (settle_track de b f reason t i n d))"
proof -
  let ?d = "d\<lparr>w1_tracks := AList.update i t (w1_tracks d)\<rparr>"
  have e: "effective_cap mc ?d = effective_cap mc d" by (simp add: effective_cap_def fun_eq_iff)
  have gone: "snd (close_speed_track de b f reason i n ?d) = snd (close_speed_track de b f reason i n (?d\<lparr>w1_tracks := w1_tracks ?d\<rparr>))" by simp
  have rest: "held (open_track_ok de seen cap) (AList.delete i (AList.update i t (w1_tracks d)))"
  proof -
    have "held (open_track_ok de seen cap) (AList.delete i m)" if "held (open_track_ok de seen cap) m" for m :: "(string, release_track) gomap"
      using that by simp
    moreover have "AList.delete i (AList.update i t m) = AList.delete i m" for m :: "(string, release_track) gomap"
      by (induction m) auto
    ultimately show ?thesis using assms(1) by (simp add: speed_grounded_def)
  qed
  show "list_all (supported de seen cap) (fst (settle_track de b f reason t i n d))"
    using assms(2) by (auto simp: settle_track_def Let_def update_conv' intro!: close_speed_supported)
  show "speed_grounded de mc seen cap (snd (settle_track de b f reason t i n d))"
  proof (cases "reason \<noteq> [] \<or> length (rt_samples t) = release_speed_samples")
    case True
    then show ?thesis using rest assms(1)
      by (auto simp: settle_track_def close_speed_track_def speed_grounded_def effective_cap_def update_conv' Let_def)
  next
    case False
    then show ?thesis using assms e by (simp add: settle_track_def speed_grounded_def open_track_ok_def)
  qed
qed

lemma append_snapshot_length:
  "length (rt_samples t) \<le> release_speed_samples \<Longrightarrow> length (rt_samples (snd (append_snapshot de s t))) \<le> release_speed_samples"
  by (auto simp: append_snapshot_def Let_def)

lemma first_sample_length:
  "length (rt_samples t) \<le> release_speed_samples \<Longrightarrow> length (rt_samples (snd (first_sample de f s prev x t))) \<le> release_speed_samples"
proof (cases rule: first_sample_cases [of de f s prev x t])
  case (started y w)
  have "length (rt_samples (t\<lparr>rt_samples := [sp_raw y], rt_last := y\<rparr>)) \<le> release_speed_samples" by (simp add: release_speed_samples_def)
  from append_snapshot_length [OF this, of de s] started(2) show ?thesis
    if "length (rt_samples t) \<le> release_speed_samples" using that
    by (cases rule: start_samples_cases [of de f s x w t y]) (auto simp: release_speed_samples_def)
qed simp

interpretation throw001_follows: detector_steps "follow_speed de b pls f s" "speed_grounded de mc seen cap" "\<lambda>_. s \<in> seen \<and> snapshot_ok s"
  "\<lambda>_. list_all (supported de seen cap)" for de mc seen cap b pls f s
proof
  fix d i n
  assume d: "speed_grounded de mc seen cap d" and s: "s \<in> seen \<and> snapshot_ok s"
  have t: "open_track_ok de seen cap t" if "map_of (w1_tracks d) i = Some t" for t
    using d that by (auto simp: speed_grounded_def dest: held_map_of)
  have kept: "length (rt_samples t) \<le> release_speed_samples" if "map_of (w1_tracks d) i = Some t" for t
    using t [OF that] by (simp add: open_track_ok_def)
  have "(r = [] \<longrightarrow> grounded de seen cap t') \<and> length (rt_samples t') \<le> release_speed_samples"
    if "map_of (w1_tracks d) i = Some t" "append_snapshot de s t = (r, t')" for t r t'
    using append_snapshot_grounded [of de s t t' seen cap] append_snapshot_length [OF kept [OF that(1)], of de s] t [OF that(1)] s that(2)
    by (auto simp: open_track_ok_def)
  then show "speed_grounded de mc seen cap (snd (follow_speed de b pls f s i n d))"
    "list_all (supported de seen cap) (fst (follow_speed de b pls f s i n d))"
    using d kept by (auto simp: follow_speed_def split: option.splits prod.splits if_splits intro!: settle_track_grounded)
qed simp_all

lemma new_speed_track_cap:
  assumes "new_speed_track mc d ps x = Some t"
  obtains ping where "rt_cap t = effective_cap mc d ping" "length (rt_samples t) = 1"
  using assms that by (auto simp: new_speed_track_def Let_def split: if_splits prod.splits)

interpretation throw001_opens: detector_steps "open_speed de b mc f s" "speed_grounded de mc seen cap" "\<lambda>_. s \<in> seen \<and> snapshot_ok s"
  "\<lambda>_. list_all (supported de seen cap)" for de mc seen cap b f s
proof
  fix d ps n
  assume d: "speed_grounded de mc seen cap d" and s: "s \<in> seen \<and> snapshot_ok s"
  have keep: "speed_grounded de mc seen cap (d\<lparr>w1_last_release := m\<rparr>)" for m
    using d by (simp add: speed_grounded_def effective_cap_def fun_eq_iff)
  have prev: "case w1_previous d of None \<Rightarrow> True | Some y \<Rightarrow> y \<in> seen" using d by (simp add: speed_grounded_def)
  have "(r = [] \<longrightarrow> grounded de seen cap t') \<and> length (rt_samples t') \<le> release_speed_samples"
    if n: "new_speed_track mc (d\<lparr>w1_last_release := m\<rparr>) ps x = Some t" and f: "first_sample de f s (w1_previous d) x t = (r, t')" for m x t r t'
  proof -
    obtain ping where p: "rt_cap t = effective_cap mc (d\<lparr>w1_last_release := m\<rparr>) ping" "length (rt_samples t) = 1"
      using n by (rule new_speed_track_cap)
    have "rt_cap t = cap ping" using p(1) keep [of m] by (simp add: speed_grounded_def)
    then have "r = [] \<longrightarrow> grounded de seen cap t'" using first_sample_grounded f s prev by metis
    moreover have "length (rt_samples t') \<le> release_speed_samples"
      using first_sample_length [of t de f s "w1_previous d" x] f p(2) by (simp add: release_speed_samples_def)
    ultimately show ?thesis by simp
  qed
  then show "speed_grounded de mc seen cap (snd (open_speed de b mc f s ps n d))"
    "list_all (supported de seen cap) (fst (open_speed de b mc f s ps n d))"
    using keep d by (auto simp: open_speed_def Let_def split: option.splits prod.splits if_splits intro!: settle_track_grounded)
qed simp_all

text \<open>A frame, a flush and a change of source.\<close>

lemma speed_grounded_more: "speed_grounded de mc seen cap d \<Longrightarrow> seen \<subseteq> seen' \<Longrightarrow> speed_grounded de mc seen' cap d"
proof -
  assume d: "speed_grounded de mc seen cap d" and m: "seen \<subseteq> seen'"
  have r: "clean_run de seen ss \<Longrightarrow> clean_run de seen' ss" for ss using m by (auto simp: clean_run_def)
  have "open_track_ok de seen cap t \<Longrightarrow> open_track_ok de seen' cap t" "supported de seen cap e \<Longrightarrow> supported de seen' cap e" for t e
    using r unfolding open_track_ok_def grounded_def supported_def by blast+
  then show ?thesis using d m by (auto simp: speed_grounded_def held_def list_all_iff split: option.splits)
qed

definition outcome :: "detect_env \<Rightarrow> match_context \<Rightarrow> speed_snapshot set \<Rightarrow> (f64 \<Rightarrow> f64) \<Rightarrow> detection_event list \<times> throw001 \<Rightarrow> bool" where
  "outcome de mc seen cap r \<longleftrightarrow> list_all (supported de seen cap) (fst r) \<and> speed_grounded de mc seen cap (snd r)"

lemma close_all_outcome:
  assumes "speed_grounded de mc seen cap d"
  shows "outcome de mc seen cap (close_all_tracks de b f (c # reason) n d)"
  using throw001_cancel.frame [OF assms, where b = b and f = f and c = c and reason = reason and n = n and pss = "map fst (by_id (w1_tracks d))"]
  by (simp add: outcome_def close_all_tracks_def list_all_iff)

lemma speed_grounded_frame_end:
  "speed_grounded de mc seen cap d \<Longrightarrow> (case p of None \<Rightarrow> True | Some s \<Rightarrow> s \<in> seen) \<Longrightarrow>
    speed_grounded de mc seen cap (d\<lparr>w1_previous := p, w1_last_release := m\<rparr>)"
  by (auto simp: speed_grounded_def effective_cap_def fun_eq_iff)

lemma throw001_frame_outcome:
  assumes d: "speed_grounded de mc seen cap d" and s: "read_speed_snapshot (active_players pls f) f \<in> seen"
  shows "outcome de mc seen cap (throw001_frame de b mc pls f n d)"
proof (cases "shot_player_limit < length (active_players pls f)")
  case True
  obtain evs d' where c: "close_all_tracks de b f ''release_speed_roster_unavailable'' n d = (evs, d')" by force
  then have "outcome de mc seen cap (evs, d')" using close_all_outcome [OF d] by metis
  then show ?thesis using True c speed_grounded_frame_end [of de mc seen cap d' None "[]"] by (simp add: throw001_frame_def Let_def outcome_def)
next
  case False
  let ?s = "read_speed_snapshot (active_players pls f) f"
  have s': "?s \<in> seen \<and> snapshot_ok ?s" using s read_speed_snapshot_ok by simp
  obtain evs d1 where 1: "over (follow_speed de b pls f ?s) (map fst (by_id (w1_tracks d))) n d = (evs, d1)" by force
  obtain evs' d2 where 2: "over (open_speed de b mc f ?s) (active_players pls f) (n + length evs) d1 = (evs', d2)" by force
  have "list_all (\<lambda>_. ?s \<in> seen \<and> snapshot_ok ?s) xs" for xs :: "string list" using s' by (simp add: list_all_iff)
  with throw001_follows.frame [OF d] 1 have o1: "speed_grounded de mc seen cap d1" "list_all (supported de seen cap) evs"
    by (metis fst_conv snd_conv)+
  have "list_all (\<lambda>_. ?s \<in> seen \<and> snapshot_ok ?s) xs" for xs :: "tracked list" using s' by (simp add: list_all_iff)
  with throw001_opens.frame [OF o1(1)] 2 have o2: "speed_grounded de mc seen cap d2" "list_all (supported de seen cap) evs'"
    by (metis fst_conv snd_conv)+
  show ?thesis using False 1 2 o1 o2 s speed_grounded_frame_end [OF o2(1), of "Some ?s"] by (simp add: throw001_frame_def Let_def outcome_def)
qed

lemma drain_outcome:
  assumes "speed_grounded de mc seen cap d" "\<And>n d. speed_grounded de mc seen cap d \<Longrightarrow> outcome de mc seen cap (g n d)"
  shows "outcome de mc seen cap (drain_queue g n d)"
proof -
  have "speed_grounded de mc seen cap (d\<lparr>w1_queued := []\<rparr>)" using assms(1) by (simp add: speed_grounded_def effective_cap_def fun_eq_iff)
  then have "outcome de mc seen cap (g (n + length (w1_queued d)) (d\<lparr>w1_queued := []\<rparr>))" by (rule assms(2))
  moreover have "list_all (supported de seen cap) (w1_queued d)" using assms(1) by (simp add: speed_grounded_def)
  ultimately show ?thesis by (simp add: drain_queue_def outcome_def Let_def case_prod_unfold)
qed

text \<open>Any sequence of calls the pipeline makes on the detector during a match.\<close>

datatype speed_call = Speed_frame "(string, tracked) gomap" int | Speed_source_reset | Speed_phase_flush int | Speed_source_flush int | Speed_end_flush int

fun one_speed_call :: "detect_env \<Rightarrow> match_context \<Rightarrow> speed_call \<Rightarrow> throw001 instance_of \<Rightarrow> detection_event list \<times> throw001 instance_of" where
  "one_speed_call de mc (Speed_frame pls f) x = throw001_evaluate de mc pls f x"
| "one_speed_call de mc Speed_source_reset x = ([], throw001_reset_source de x)"
| "one_speed_call de mc (Speed_phase_flush f) x = throw001_flush_phase de mc f x"
| "one_speed_call de mc (Speed_source_flush f) x = throw001_flush_source de mc f x"
| "one_speed_call de mc (Speed_end_flush f) x = throw001_flush_tracks de mc f x"

fun speed_calls :: "detect_env \<Rightarrow> match_context \<Rightarrow> speed_call list \<Rightarrow> throw001 instance_of \<Rightarrow> detection_event list \<times> throw001 instance_of" where
  "speed_calls de mc [] x = ([], x)"
| "speed_calls de mc (c # cs) x = (let (evs, x) = one_speed_call de mc c x; (rest, x) = speed_calls de mc cs x in (evs @ rest, x))"

definition snapshots :: "speed_call list \<Rightarrow> speed_snapshot set" where
  "snapshots cs = {read_speed_snapshot (active_players pls f) f | pls f. Speed_frame pls f \<in> set cs}"

lemma outcome_run_instance:
  "outcome de mc seen cap (g (in_base x) (in_made x) (in_state x)) \<Longrightarrow>
    list_all (supported de seen cap) (fst (run_instance g x)) \<and> speed_grounded de mc seen cap (in_state (snd (run_instance g x)))"
  by (simp add: run_instance_def outcome_def case_prod_unfold Let_def)

lemma flush_outcome:
  assumes "speed_grounded de mc seen cap (in_state x)"
  shows "list_all (supported de seen cap) (fst (throw001_flush de (c # reason) f x)) \<and>
    speed_grounded de mc seen cap (in_state (snd (throw001_flush de (c # reason) f x)))"
  unfolding throw001_flush_def
proof (intro outcome_run_instance drain_outcome assms)
  fix n d
  assume "speed_grounded de mc seen cap d"
  from close_all_outcome [OF this, of "in_base x" f c reason n]
  show "outcome de mc seen cap (let (evs, d) = close_all_tracks de (in_base x) f (c # reason) n d in (evs, d\<lparr>w1_previous := None\<rparr>))"
    by (auto simp: outcome_def speed_grounded_def effective_cap_def fun_eq_iff case_prod_unfold Let_def)
qed

lemma speed_call_outcome:
  assumes x: "speed_grounded de mc seen cap (in_state x)" and s: "snapshots [c] \<subseteq> seen"
  shows "list_all (supported de seen cap) (fst (one_speed_call de mc c x)) \<and> speed_grounded de mc seen cap (in_state (snd (one_speed_call de mc c x)))"
proof (cases c)
  case (Speed_frame pls f)
  then have "read_speed_snapshot (active_players pls f) f \<in> seen" using s by (auto simp: snapshots_def)
  then show ?thesis unfolding Speed_frame one_speed_call.simps throw001_evaluate_def
    by (intro outcome_run_instance drain_outcome x throw001_frame_outcome)
next
  case Speed_source_reset
  from close_all_outcome [OF x, where b = "in_base x" and f = "- 1"] show ?thesis
    unfolding Speed_source_reset
    by (auto simp: throw001_reset_source_def outcome_def speed_grounded_def effective_cap_def fun_eq_iff case_prod_unfold Let_def)
qed (simp_all add: throw001_flush_phase_def throw001_flush_source_def throw001_flush_tracks_def flush_outcome [OF x])

lemma speed_calls_outcome:
  assumes "speed_grounded de mc seen cap (in_state x)" "snapshots cs \<subseteq> seen"
  shows "list_all (supported de seen cap) (fst (speed_calls de mc cs x))"
  using assms
proof (induction cs arbitrary: x)
  case (Cons c cs)
  obtain evs x1 where 1: "one_speed_call de mc c x = (evs, x1)" by force
  have "snapshots [c] \<subseteq> seen" "snapshots cs \<subseteq> seen" using Cons.prems(2) by (auto simp: snapshots_def)
  with speed_call_outcome [OF Cons.prems(1), of c] Cons.IH [of x1] 1 show ?case by (simp add: case_prod_unfold Let_def)
qed simp

lemma new_throw001_grounded: "speed_grounded de mc seen (effective_cap mc (in_state (new_throw001 ps))) (in_state (new_throw001 ps))"
  by (simp add: speed_grounded_def new_throw001_def throw001_configure_def)


end
