(* ===== verification/Detect_Catalog_Facts.thy ===== *)
theory Detect_Catalog_Facts
  imports Detect_Catalog Detect_Catch_Facts Detect_Throw_Facts
begin

text \<open>
  What holds of every detector of the catalog: over any calls of a match its events are valid, about that match, and
  carry its identity and its configured weight or none. And what registration guarantees: no detector twice.
\<close>

section \<open>One call\<close>

definition view_ok :: "(string, tracked) gomap \<Rightarrow> int \<Rightarrow> bool" where
  "view_ok pls f \<longleftrightarrow> list_all (\<lambda>x. fst x \<noteq> [] \<and> known_player (snd x) \<and> dated (snd x) f) pls"

lemma sees_active [intro]: "at_work de b mc f \<Longrightarrow> view_ok pls f \<Longrightarrow> list_all (sees de b mc f) (active_players pls f)"
  by (auto simp: list_all_iff active_players_iff view_ok_def sees_def)

lemma sees_sorted [intro]: "at_work de b mc f \<Longrightarrow> view_ok pls f \<Longrightarrow> list_all (sees de b mc f) (sorted_players pls)"
  by (auto simp: list_all_iff sorted_players_iff view_ok_def sees_def)

lemma sees_releases [intro]: "at_work de b mc f \<Longrightarrow> view_ok pls f \<Longrightarrow> list_all (sees_release de b mc f) (by_id pls)"
  by (auto simp: list_all_iff by_id_def view_ok_def sees_release_def)

lemma fst_run_instance: "fst (run_instance g x) = fst (g (in_base x) (in_made x) (in_state x))"
  by (simp add: run_instance_def case_prod_unfold Let_def)

lemma in_base_run [simp]: "in_base (snd (run_instance g x)) = in_base x"
  by (simp add: run_instance_def case_prod_unfold Let_def)

lemma in_state_run: "in_state (snd (run_instance g x)) = snd (g (in_base x) (in_made x) (in_state x))"
  by (simp add: run_instance_def case_prod_unfold Let_def)

text \<open>A detector that works player by player meets the contract if its steps do.\<close>

lemma steps_reported:
  assumes "\<And>b. detector_steps (step b) (\<lambda>_. True) (looked b) (sound_events de b mc)" "list_all (looked (in_base x)) pss"
  shows "list_all (reported_by (in_base x) mc) (fst (run_instance (\<lambda>b. over (step b) pss) x))"
  using detector_steps.frame [where s = "in_state x" and pss = pss and n = "in_made x", OF assms(1) TrueI assms(2)]
  by (auto simp: fst_run_instance intro: sound_reported)

lemmas step_axioms = bio001.detector_steps_axioms bio002.detector_steps_axioms bio003.detector_steps_axioms bio004.detector_steps_axioms
  mov001.detector_steps_axioms mov003.detector_steps_axioms mov004.detector_steps_axioms mov005.detector_steps_axioms
  mov006.detector_steps_axioms pat001.detector_steps_axioms pat002.detector_steps_axioms pat004.detector_steps_axioms
  pat005.detector_steps_axioms state002.detector_steps_axioms state003.detector_steps_axioms state004.detector_steps_axioms
  state005.detector_steps_axioms throw002.detector_steps_axioms throw003.detector_steps_axioms throw004.detector_steps_axioms

lemmas step_defs = bio001_evaluate_def bio002_evaluate_def bio003_evaluate_def bio004_evaluate_def mov001_evaluate_def mov003_evaluate_def
  mov004_evaluate_def mov005_evaluate_def mov006_evaluate_def pat001_evaluate_def pat002_evaluate_def pat004_evaluate_def pat005_evaluate_def
  state002_evaluate_def state003_evaluate_def state004_evaluate_def state005_evaluate_def throw002_evaluate_def throw003_evaluate_def
  throw004_evaluate_def

lemmas silent_defs = state001_evaluate_def state006_evaluate_def throw005_evaluate_def throw006_evaluate_def throw007_evaluate_def

lemma mov002_reported:
  "at_work de (in_base x) mc f \<Longrightarrow> view_ok pls f \<Longrightarrow> list_all (reported_by (in_base x) mc) (fst (mov002_evaluate de mc pls f x))"
  by (auto simp: mov002_evaluate_def fst_run_instance intro!: sound_reported mov002_run_sound)

lemma pat003_reported:
  "at_work de (in_base x) mc f \<Longrightarrow> view_ok pls f \<Longrightarrow> list_all (reported_by (in_base x) mc) (fst (pat003_evaluate de mc pls f x))"
  using sees_sorted [of de "in_base x" mc f pls]
  by (auto simp: pat003_evaluate_def fst_run_instance split: option.split intro!: sound_reported dest: pat003.frame [rotated])

text \<open>The detectors whose events rest on what they remember.\<close>

lemma at_work_anywhere: "at_work de b mc f \<Longrightarrow> 0 \<le> g \<Longrightarrow> at_work de b mc g"
  by (simp add: at_work_def)

lemma frame_both:
  assumes "detector_steps step keep looked good" "keep s" "list_all looked pss" "over step pss n s = (evs, s')"
  shows "keep s'" "good n evs"
  using detector_steps.frame [where s = s and pss = pss and n = n, OF assms(1-3)] assms(4) by simp_all

lemma state007_reported:
  assumes "at_work de (in_base x) mc f" "view_ok pls f" "punches_known (in_state x)"
  shows "punches_known (in_state (snd (state007_evaluate de mc pls f x)))"
    "list_all (reported_by (in_base x) mc) (fst (state007_evaluate de mc pls f x))"
proof -
  define d where "d = fold (note_punch f) (active_players pls f) (in_state x)"
  have "list_all known_player (active_players pls f)" using assms(2) by (auto simp: list_all_iff active_players_iff view_ok_def)
  then have d: "punches_known d" using note_punches_keep assms(1,3) by (simp add: d_def at_work_def)
  obtain evs d' where o: "over (resolve_punch de (in_base x) mc f (sorted_players pls)) (s7_pending d) (in_made x) (d\<lparr>s7_pending := []\<rparr>) = (evs, d')"
    by force
  have "punches_known (d\<lparr>s7_pending := []\<rparr>)" "list_all (sees_punch de (in_base x) mc f) (s7_pending d)"
    using d assms(1) by (auto simp: punches_known_def sees_punch_def list_all_iff)
  note r = frame_both [OF state007.detector_steps_axioms this o]
  have e: "state007_evaluate de mc pls f x = (evs, x\<lparr>in_made := in_made x + length evs, in_state := d'\<rparr>)"
    using o by (simp add: state007_evaluate_def run_instance_def d_def Let_def)
  show "punches_known (in_state (snd (state007_evaluate de mc pls f x)))" using r by (simp add: e)
  show "list_all (reported_by (in_base x) mc) (fst (state007_evaluate de mc pls f x))" using sound_reported [OF r(2)] by (simp add: e)
qed

lemma throw008_reported:
  assumes "at_work de (in_base x) mc f" "view_ok pls f" "flights_usable (in_state x)"
  shows "flights_usable (in_state (snd (throw008_evaluate de mc pls f x)))"
    "list_all (reported_by (in_base x) mc) (fst (throw008_evaluate de mc pls f x))"
proof -
  obtain disc is_held where c: "current_disc (map snd (by_id pls)) f = (disc, is_held)" by force
  obtain evs d where o: "over (open_track de (in_base x) mc f) (by_id pls) (in_made x) (in_state x) = (evs, d)" by force
  note a = frame_both [OF throw008_open.detector_steps_axioms assms(3) sees_releases [OF assms(1,2)] o]
  obtain evs2 d2 where p: "over (follow_track de (in_base x) mc f disc is_held) (map fst (by_id (w8_tracks d))) (in_made x + length evs) d = (evs2, d2)"
    by force
  have "list_all (\<lambda>_. at_work de (in_base x) mc f) (map fst (by_id (w8_tracks d)))" using assms(1) by (simp add: list_all_iff)
  note b = frame_both [OF throw008_follow.detector_steps_axioms a(1) this p]
  have e: "throw008_evaluate de mc pls f x = (if disc = None \<and> \<not> is_held then (evs, x\<lparr>in_made := in_made x + length evs, in_state := d\<rparr>)
      else (evs @ evs2, x\<lparr>in_made := in_made x + length (evs @ evs2), in_state := d2\<rparr>))"
    using c o p by (cases is_held; cases disc) (simp_all add: throw008_evaluate_def run_instance_def Let_def)
  show "flights_usable (in_state (snd (throw008_evaluate de mc pls f x)))" using a(1) b(1) by (simp add: e)
  show "list_all (reported_by (in_base x) mc) (fst (throw008_evaluate de mc pls f x))"
    using sound_reported [OF a(2)] sound_reported [OF b(2)] by (simp add: e)
qed

lemma over_all:
  assumes "\<And>x n s. x \<in> set xs \<Longrightarrow> list_all ok (fst (step x n s))"
  shows "list_all ok (fst (over step xs n s))"
  using assms by (induction xs arbitrary: n s) (simp_all add: case_prod_unfold Let_def)

lemma throw008_flush_reported:
  assumes "at_work de (in_base x) mc f" "flights_usable (in_state x)"
  shows "flights_usable (in_state (snd (throw008_flush_tracks de mc f x)))"
    "list_all (reported_by (in_base x) mc) (fst (throw008_flush_tracks de mc f x))"
proof -
  show "flights_usable (in_state (snd (throw008_flush_tracks de mc f x)))"
    by (simp add: throw008_flush_tracks_def in_state_run case_prod_unfold Let_def flights_usable_def)
  have "flight_usable (snd y)" if "y \<in> set (by_id (w8_tracks (in_state x)))" for y
    using assms(2) that unfolding flights_usable_def by (rule held_by_id)
  then show "list_all (reported_by (in_base x) mc) (fst (throw008_flush_tracks de mc f x))"
    using assms(1) by (simp add: throw008_flush_tracks_def fst_run_instance case_prod_unfold Let_def)
      (rule over_all, auto intro: sound_reported finalize_speed_sound)
qed

section \<open>THROW_001\<close>

definition speed_sound :: "base \<Rightarrow> match_context \<Rightarrow> throw001 \<Rightarrow> bool" where
  "speed_sound b mc d \<longleftrightarrow> speed_ok mc d \<and> list_all (reported_by b mc) (w1_queued d)"

lemma speed_ok_fields [simp]:
  "speed_ok mc (d\<lparr>w1_previous := p\<rparr>) = speed_ok mc d" "speed_ok mc (d\<lparr>w1_last_release := m\<rparr>) = speed_ok mc d"
  "speed_ok mc (d\<lparr>w1_queued := q\<rparr>) = speed_ok mc d"
  by (simp_all add: speed_ok_def)

lemma close_all_ok:
  assumes "at_work de b mc f" "0 \<le> f" "speed_ok mc d" "close_all_tracks de b g reason n d = (evs, d')"
  shows "speed_ok mc d'" "list_all (reported_by b mc) evs"
proof -
  have "list_all (\<lambda>_. at_work de b mc 0) (map fst (by_id (w1_tracks d)))" using at_work_anywhere [OF assms(1)] by (simp add: list_all_iff)
  from frame_both [OF throw001_close.detector_steps_axioms assms(3) this assms(4) [unfolded close_all_tracks_def]]
  show "speed_ok mc d'" "list_all (reported_by b mc) evs" by (auto intro: sound_reported)
qed

lemma throw001_frame_ok:
  assumes w: "at_work de b mc f" and v: "view_ok pls f" and d: "speed_ok mc d" and e: "throw001_frame de b mc pls f n d = (evs, d')"
  shows "speed_ok mc d'" "list_all (reported_by b mc) evs"
proof -
  have f: "0 \<le> f" using w by (simp add: at_work_def)
  have "speed_ok mc d' \<and> list_all (reported_by b mc) evs"
  proof (cases "shot_player_limit < length (active_players pls f)")
    case True
    obtain evs1 d1 where c: "close_all_tracks de b f ''release_speed_roster_unavailable'' n d = (evs1, d1)" by force
    from close_all_ok [OF w f d c] show ?thesis using True c e by (auto simp: throw001_frame_def Let_def)
  next
    case False
    define s where "s = read_speed_snapshot (active_players pls f) f"
    obtain evs1 d1 where o1: "over (follow_speed de b pls f s) (map fst (by_id (w1_tracks d))) n d = (evs1, d1)" by force
    have "list_all (\<lambda>_. at_work de b mc f) (map fst (by_id (w1_tracks d)))" using w by (simp add: list_all_iff)
    note a = frame_both [OF throw001_follow.detector_steps_axioms d this o1]
    obtain evs2 d2 where o2: "over (open_speed de b mc f s) (active_players pls f) (n + length evs1) d1 = (evs2, d2)" by force
    note c = frame_both [OF throw001_open.detector_steps_axioms a(1) sees_active [OF w v] o2]
    have "evs = evs1 @ evs2" "\<exists>p m. d' = d2\<lparr>w1_previous := p, w1_last_release := m\<rparr>"
      using False e o1 o2 by (auto simp: throw001_frame_def s_def Let_def)
    then show ?thesis using sound_reported [OF a(2)] sound_reported [OF c(2)] c(1) by auto
  qed
  then show "speed_ok mc d'" "list_all (reported_by b mc) evs" by simp_all
qed

lemma drain_ok:
  assumes "speed_sound b mc d" and "\<And>n d evs d'. speed_ok mc d \<Longrightarrow> g n d = (evs, d') \<Longrightarrow> speed_ok mc d' \<and> list_all (reported_by b mc) evs"
    and "\<And>n d. w1_queued d = [] \<Longrightarrow> w1_queued (snd (g n d)) = []"
  shows "speed_sound b mc (snd (drain_queue g n d))" "list_all (reported_by b mc) (fst (drain_queue g n d))"
proof -
  define d0 where "d0 = d\<lparr>w1_queued := []\<rparr>"
  obtain evs d' where g: "g (n + length (w1_queued d)) d0 = (evs, d')" by force
  have "speed_ok mc d0" using assms(1) by (simp add: speed_sound_def d0_def)
  note ok = assms(2) [OF this g]
  have "w1_queued d' = []" using assms(3) [of d0 "n + length (w1_queued d)"] g by (simp add: d0_def)
  then show "speed_sound b mc (snd (drain_queue g n d))" "list_all (reported_by b mc) (fst (drain_queue g n d))"
    using ok assms(1) g by (simp_all add: drain_queue_def d0_def speed_sound_def Let_def)
qed

text \<open>Nothing but a change of source queues events.\<close>

lemma over_keeps:
  assumes "\<And>x n s. keep (snd (step x n s)) = keep s"
  shows "keep (snd (over step xs n s)) = keep s"
  using assms by (induction xs arbitrary: n s) (simp_all add: case_prod_unfold Let_def)

lemma close_speed_queue [simp]: "w1_queued (snd (close_speed_track de b f reason i n d)) = w1_queued d"
  by (simp add: close_speed_track_def Let_def split: option.split)

lemma settle_queue [simp]: "w1_queued (snd (settle_track de b f reason t i n d)) = w1_queued d"
  by (simp add: settle_track_def Let_def)

lemma follow_queue [simp]: "w1_queued (snd (follow_speed de b pls f s i n d)) = w1_queued d"
  by (simp add: follow_speed_def case_prod_unfold Let_def split: option.split)

lemma open_queue [simp]: "w1_queued (snd (open_speed de b mc f s ps n d)) = w1_queued d"
  by (simp add: open_speed_def case_prod_unfold Let_def split: option.split)

lemma close_all_queue [simp]: "w1_queued (snd (close_all_tracks de b f reason n d)) = w1_queued d"
  unfolding close_all_tracks_def by (rule over_keeps [where keep = w1_queued]) simp

lemma frame_queue [simp]: "w1_queued (snd (throw001_frame de b mc pls f n d)) = w1_queued d"
proof -
  have "w1_queued (snd (over (follow_speed de b pls f s) xs n d)) = w1_queued d" for s xs n d
    by (rule over_keeps [where keep = w1_queued]) simp
  moreover have "w1_queued (snd (over (open_speed de b mc f s) xs n d)) = w1_queued d" for s xs n d
    by (rule over_keeps [where keep = w1_queued]) simp
  ultimately show ?thesis by (simp add: throw001_frame_def case_prod_unfold Let_def)
qed

lemma throw001_reported:
  assumes "at_work de (in_base x) mc f" "view_ok pls f" "speed_sound (in_base x) mc (in_state x)"
  shows "speed_sound (in_base x) mc (in_state (snd (throw001_evaluate de mc pls f x)))"
    "list_all (reported_by (in_base x) mc) (fst (throw001_evaluate de mc pls f x))"
  using drain_ok [OF assms(3), of "throw001_frame de (in_base x) mc pls f" "in_made x"] throw001_frame_ok [OF assms(1,2)]
  by (auto simp: throw001_evaluate_def fst_run_instance in_state_run)

lemma throw001_flush_reported:
  assumes "at_work de (in_base x) mc f" "speed_sound (in_base x) mc (in_state x)"
  shows "speed_sound (in_base x) mc (in_state (snd (throw001_flush de reason f x)))"
    "list_all (reported_by (in_base x) mc) (fst (throw001_flush de reason f x))"
proof -
  let ?g = "\<lambda>n d. let (evs, d) = close_all_tracks de (in_base x) f reason n d in (evs, d\<lparr>w1_previous := None\<rparr>)"
  have "0 \<le> f" using assms(1) by (simp add: at_work_def)
  then have "speed_ok mc d \<Longrightarrow> ?g n d = (evs, d') \<Longrightarrow> speed_ok mc d' \<and> list_all (reported_by (in_base x) mc) evs" for n d evs d'
    using close_all_ok [OF assms(1), of d f reason n] by (auto split: prod.splits)
  from drain_ok [where g = ?g and n = "in_made x", OF assms(2) this]
  show "speed_sound (in_base x) mc (in_state (snd (throw001_flush de reason f x)))"
    "list_all (reported_by (in_base x) mc) (fst (throw001_flush de reason f x))"
    by (simp_all add: throw001_flush_def fst_run_instance in_state_run case_prod_unfold Let_def)
qed

lemma throw001_reset_source_ok:
  assumes "at_work de (in_base x) mc 0" "speed_sound (in_base x) mc (in_state x)"
  shows "speed_sound (in_base x) mc (in_state (throw001_reset_source de x))"
proof -
  obtain evs d where c: "close_all_tracks de (in_base x) (- 1) ''release_speed_source_changed'' (in_made x + length (w1_queued (in_state x))) (in_state x) = (evs, d)"
    by force
  have "speed_ok mc (in_state x)" using assms(2) by (simp add: speed_sound_def)
  note ok = close_all_ok [OF assms(1) order_refl this c]
  have "w1_queued d = w1_queued (in_state x)" by (metis c close_all_queue snd_conv)
  then show ?thesis using ok assms(2) c by (simp add: throw001_reset_source_def speed_sound_def Let_def)
qed

section \<open>Any detector, any call\<close>

definition any_ok :: "match_context \<Rightarrow> any_detector \<Rightarrow> bool" where
  "any_ok mc x \<longleftrightarrow> base_ok (any_base x) \<and> (case x of
     State007 y \<Rightarrow> punches_known (in_state y)
   | State008 y \<Rightarrow> pending_ok (observed_only (in_base y) mc) (in_state y)
   | Throw001 y \<Rightarrow> speed_sound (in_base y) mc (in_state y)
   | Throw008 y \<Rightarrow> flights_usable (in_state y)
   | _ \<Rightarrow> True)"

datatype any_call = Evaluate "(string, tracked) gomap" int | Flush_phase int | Flush_source int | Flush_all int | Reset_source | Reset_match
  | Record_category string string

fun any_step :: "detect_env \<Rightarrow> match_context \<Rightarrow> any_call \<Rightarrow> any_detector \<Rightarrow> detection_event list \<times> any_detector" where
  "any_step de mc (Evaluate pls f) x = any_evaluate de mc pls f x"
| "any_step de mc (Flush_phase f) x = any_flush_phase de mc f x"
| "any_step de mc (Flush_source f) x = any_flush_source de mc f x"
| "any_step de mc (Flush_all f) x = any_flush_tracks de mc f x"
| "any_step de mc Reset_source x = ([], any_reset_source de x)"
| "any_step de mc Reset_match x = ([], any_reset x)"
| "any_step de mc (Record_category p c) x = ([], any_record p c x)"

fun call_ok :: "any_call \<Rightarrow> bool" where
  "call_ok (Evaluate pls f) \<longleftrightarrow> view_ok pls f \<and> 0 \<le> f"
| "call_ok (Flush_phase f) \<longleftrightarrow> 0 \<le> f"
| "call_ok (Flush_source f) \<longleftrightarrow> 0 \<le> f"
| "call_ok (Flush_all f) \<longleftrightarrow> 0 \<le> f"
| "call_ok c \<longleftrightarrow> True"

lemma wrap_simps [simp]: "fst (wrap c r) = fst r" "snd (wrap c r) = c (snd r)"
  by (simp_all add: wrap_def)

lemma state008_reported:
  assumes "at_work de (in_base x) mc f" "pending_ok (observed_only (in_base x) mc) (in_state x)"
  shows "pending_ok (observed_only (in_base x) mc) (in_state (snd (state008_evaluate de mc pls f x)))"
    "list_all (reported_by (in_base x) mc) (fst (state008_evaluate de mc pls f x))"
proof -
  have c: "observed_only (in_base x) mc (pg_event p)"
    if "catch_candidate de (in_base x) n mc base s d = Inr p" "ca_frame s = f" "ca_holder s \<noteq> []" "is_fin (ca_time s)" for n base s d p
    using candidate_observed [OF that(1)] assms(1) that(2-4) by simp
  note r = state008_frame_ok [where pls = pls and n = "in_made x" and de = de and f = f, OF assms(2) c confirmed_observed]
  show "pending_ok (observed_only (in_base x) mc) (in_state (snd (state008_evaluate de mc pls f x)))"
    using r(1) by (simp add: state008_evaluate_def in_state_run case_prod_unfold Let_def)
  show "list_all (reported_by (in_base x) mc) (fst (state008_evaluate de mc pls f x))"
    using r(2) by (simp add: state008_evaluate_def fst_run_instance case_prod_unfold Let_def list_all_iff observed_only_def)
qed

lemmas evaluate_defs = step_defs silent_defs mov002_evaluate_def pat003_evaluate_def state007_evaluate_def state008_evaluate_def
  throw001_evaluate_def throw008_evaluate_def

lemma evaluate_base [simp]: "any_base (snd (any_evaluate de mc pls f x)) = any_base x"
  by (cases x) (simp_all add: evaluate_defs)

lemma evaluate_reported:
  assumes "at_work de (any_base x) mc f" "view_ok pls f" "any_ok mc x"
  shows "list_all (reported_by (any_base x) mc) (fst (any_evaluate de mc pls f x))"
proof -
  note seen = sees_active [OF assms(1,2)] sees_sorted [OF assms(1,2)] sees_releases [OF assms(1,2)]
  show ?thesis
  proof (cases x)
    case (Bio001 y)
    then show ?thesis using seen steps_reported [OF bio001.detector_steps_axioms] by (simp add: bio001_evaluate_def)
  next
    case (Bio002 y)
    then show ?thesis using seen steps_reported [OF bio002.detector_steps_axioms] by (simp add: bio002_evaluate_def)
  next
    case (Bio003 y)
    then show ?thesis using seen steps_reported [OF bio003.detector_steps_axioms] by (simp add: bio003_evaluate_def)
  next
    case (Bio004 y)
    then show ?thesis using seen steps_reported [OF bio004.detector_steps_axioms] by (simp add: bio004_evaluate_def)
  next
    case (Mov001 y)
    then show ?thesis using seen steps_reported [OF mov001.detector_steps_axioms] by (simp add: mov001_evaluate_def)
  next
    case (Mov003 y)
    then show ?thesis using seen steps_reported [OF mov003.detector_steps_axioms] by (simp add: mov003_evaluate_def)
  next
    case (Mov004 y)
    then show ?thesis using seen steps_reported [OF mov004.detector_steps_axioms] by (simp add: mov004_evaluate_def)
  next
    case (Mov005 y)
    then show ?thesis using seen steps_reported [OF mov005.detector_steps_axioms] by (simp add: mov005_evaluate_def)
  next
    case (Mov006 y)
    then show ?thesis using seen steps_reported [OF mov006.detector_steps_axioms] by (simp add: mov006_evaluate_def)
  next
    case (Pat001 y)
    then show ?thesis using seen steps_reported [OF pat001.detector_steps_axioms] by (simp add: pat001_evaluate_def)
  next
    case (Pat002 y)
    then show ?thesis using seen steps_reported [OF pat002.detector_steps_axioms] by (simp add: pat002_evaluate_def)
  next
    case (Pat004 y)
    then show ?thesis using seen steps_reported [OF pat004.detector_steps_axioms] by (simp add: pat004_evaluate_def)
  next
    case (Pat005 y)
    then show ?thesis using seen steps_reported [OF pat005.detector_steps_axioms] by (simp add: pat005_evaluate_def)
  next
    case (State002 y)
    then show ?thesis using seen steps_reported [OF state002.detector_steps_axioms] by (simp add: state002_evaluate_def)
  next
    case (State003 y)
    then show ?thesis using seen steps_reported [OF state003.detector_steps_axioms] by (simp add: state003_evaluate_def)
  next
    case (State004 y)
    then show ?thesis using seen steps_reported [OF state004.detector_steps_axioms] by (simp add: state004_evaluate_def)
  next
    case (State005 y)
    then show ?thesis using seen steps_reported [OF state005.detector_steps_axioms] by (simp add: state005_evaluate_def)
  next
    case (Throw002 y)
    then show ?thesis using seen steps_reported [OF throw002.detector_steps_axioms] by (simp add: throw002_evaluate_def)
  next
    case (Throw003 y)
    then show ?thesis using seen steps_reported [OF throw003.detector_steps_axioms] by (simp add: throw003_evaluate_def)
  next
    case (Throw004 y)
    then show ?thesis using seen steps_reported [OF throw004.detector_steps_axioms] by (simp add: throw004_evaluate_def)
  qed (insert assms, simp_all add: silent_defs fst_run_instance any_ok_def mov002_reported pat003_reported state007_reported state008_reported throw001_reported
    throw008_reported)
qed

lemma bases_kept [simp]:
  "in_base (snd (state007_evaluate de mc pls f y7)) = in_base y7" "in_base (snd (state008_evaluate de mc pls f y8)) = in_base y8"
  "in_base (snd (throw001_evaluate de mc pls f w1)) = in_base w1" "in_base (snd (throw008_evaluate de mc pls f w8)) = in_base w8"
  "in_base (snd (throw001_flush de reason f w1)) = in_base w1" "in_base (snd (throw008_flush_tracks de mc f w8)) = in_base w8"
  by (simp_all add: evaluate_defs throw001_flush_def throw008_flush_tracks_def)

lemma evaluate_ok:
  assumes "at_work de (any_base x) mc f" "view_ok pls f" "any_ok mc x"
  shows "any_ok mc (snd (any_evaluate de mc pls f x))"
  using assms by (cases x) (simp_all add: any_ok_def state007_reported state008_reported throw001_reported throw008_reported,
    simp_all add: step_defs silent_defs mov002_evaluate_def pat003_evaluate_def)

lemma flush_phase_ok:
  assumes "at_work de (any_base x) mc f" "any_ok mc x"
  shows "any_ok mc (snd (any_flush_phase de mc f x)) \<and> list_all (reported_by (any_base x) mc) (fst (any_flush_phase de mc f x)) \<and>
    any_base (snd (any_flush_phase de mc f x)) = any_base x"
  using assms by (cases x) (simp_all add: any_flush_phase_def any_ok_def throw001_flush_phase_def throw001_flush_reported)

lemma flush_source_ok:
  assumes "at_work de (any_base x) mc f" "any_ok mc x"
  shows "any_ok mc (snd (any_flush_source de mc f x)) \<and> list_all (reported_by (any_base x) mc) (fst (any_flush_source de mc f x)) \<and>
    any_base (snd (any_flush_source de mc f x)) = any_base x"
  using assms by (cases x) (simp_all add: any_flush_source_def any_ok_def throw001_flush_source_def throw001_flush_reported)

lemma state008_cleared [simp]:
  "c8_pending (state008_reset d) = None" "c8_pending (snd (state008_reset_source d)) = None" "c8_pending (snd (state008_flush_tracks d)) = None"
  by (simp_all add: state008_reset_def state008_reset_source_def state008_flush_tracks_def case_prod_unfold Let_def)

lemma flush_tracks_ok:
  assumes "at_work de (any_base x) mc f" "any_ok mc x"
  shows "any_ok mc (snd (any_flush_tracks de mc f x)) \<and> list_all (reported_by (any_base x) mc) (fst (any_flush_tracks de mc f x)) \<and>
    any_base (snd (any_flush_tracks de mc f x)) = any_base x"
  using assms by (cases x) (simp_all add: any_flush_tracks_def any_ok_def throw001_flush_tracks_def throw001_flush_reported throw008_flush_reported)

text \<open>What a reset leaves behind meets the invariant of every match.\<close>

lemma any_reset_ok:
  assumes "base_ok (any_base x)"
  shows "any_ok mc (any_reset x) \<and> any_base (any_reset x) = any_base x"
  using assms by (cases x) (simp_all add: any_ok_def state007_reset_def punches_known_def throw001_reset_def speed_sound_def speed_ok_def
    throw008_reset_def flights_usable_def)

lemma reset_source_base [simp]: "any_base (any_reset_source de x) = any_base x"
  by (cases x) (simp_all add: any_reset_source_def throw001_reset_source_def case_prod_unfold Let_def)

lemma reset_source_ok:
  assumes "at_work de (any_base x) mc 0" "any_ok mc x"
  shows "any_ok mc (any_reset_source de x)"
proof -
  have "any_ok mc (any_reset x)" using assms(2) any_reset_ok by (simp add: any_ok_def)
  then show ?thesis using assms throw001_reset_source_ok
    by (cases x) (simp_all add: any_reset_source_def any_ok_def throw001_reset_source_def case_prod_unfold Let_def)
qed

lemma any_step_ok:
  assumes "ids_ok de" "mc_match_id mc \<noteq> []" "any_ok mc x" "call_ok c"
  shows "any_ok mc (snd (any_step de mc c x)) \<and> any_base (snd (any_step de mc c x)) = any_base x \<and>
    list_all (reported_by (any_base x) mc) (fst (any_step de mc c x))"
proof -
  have w: "at_work de (any_base x) mc f" if "0 \<le> f" for f using assms that by (simp add: at_work_def any_ok_def)
  show ?thesis
  proof (cases c)
    case (Evaluate pls f)
    then show ?thesis using w assms evaluate_ok evaluate_reported by simp
  next
    case Reset_match
    then show ?thesis using assms(3) any_reset_ok by (simp add: any_ok_def)
  next
    case (Record_category p k)
    then show ?thesis using assms(3) by (cases x) (simp_all add: any_record_def any_ok_def)
  qed (use w assms flush_phase_ok flush_source_ok flush_tracks_ok reset_source_ok in simp_all)
qed

text \<open>The events of a run.\<close>

fun any_events :: "detect_env \<Rightarrow> match_context \<Rightarrow> any_call list \<Rightarrow> any_detector \<Rightarrow> detection_event list" where
  "any_events de mc [] x = []"
| "any_events de mc (c # cs) x = (let (evs, x) = any_step de mc c x in evs @ any_events de mc cs x)"

lemma any_events_ok:
  assumes "ids_ok de" "mc_match_id mc \<noteq> []" "list_all call_ok cs" "any_ok mc x"
  shows "list_all (reported_by (any_base x) mc) (any_events de mc cs x)"
  using assms(3,4)
proof (induction cs arbitrary: x)
  case (Cons c cs)
  note step = any_step_ok [where c = c, OF assms(1,2) Cons.prems(2)]
  show ?case using step Cons by (simp add: case_prod_unfold Let_def) metis
qed simp

section \<open>Registration\<close>

definition constructor_id :: "constructor \<Rightarrow> string" where
  "constructor_id c = (case c [] None of None \<Rightarrow> [] | Some x \<Rightarrow> bd_id (any_base x))"

definition catalog_entry :: "constructor \<Rightarrow> string \<times> descriptor" where
  "catalog_entry c = (constructor_id c, describe c (the (c [] None)))"

lemma must_register_eq:
  "must_register c cat = (if constructor_id c = [] \<or> constructor_id c \<in> fst ` set cat then None else Some (cat @ [catalog_entry c]))"
proof (cases "c [] None")
  case (Some x)
  have "AList.update k v cat = cat @ [(k, v)]" if "k \<notin> fst ` set cat" for k :: string and v :: descriptor
    using that by (induction cat) auto
  moreover have "map_of cat k = None \<longleftrightarrow> k \<notin> fst ` set cat" for k by (rule map_of_eq_None_iff)
  ultimately show ?thesis using Some
    by (simp add: must_register_def register_constructor_def constructor_id_def catalog_entry_def Let_def)
qed (simp add: must_register_def register_constructor_def constructor_id_def)

lemma fst_catalog_entry [simp]: "fst (catalog_entry c) = constructor_id c"
  by (simp add: catalog_entry_def)

lemma register_all_eq:
  "register_all cs cat =
    (if [] \<notin> set (map constructor_id cs) \<and> distinct (map constructor_id cs) \<and> set (map constructor_id cs) \<inter> fst ` set cat = {}
     then Some (cat @ map catalog_entry cs) else None)"
  by (induction cs arbitrary: cat) (auto simp: must_register_eq)

text \<open>Registration accepts a list of constructors exactly if each builds a detector with an id and no id repeats; the catalog then has one
  entry for each, in the order of registration, and in every other case the program does not start.\<close>

theorem registration_rejects_duplicates:
  "register_all cs [] = (if [] \<notin> set (map constructor_id cs) \<and> distinct (map constructor_id cs) then Some (map catalog_entry cs) else None)"
  by (simp add: register_all_eq)

definition program_ids :: "string list" where
  "program_ids = [''BIO_001'', ''BIO_002'', ''BIO_003'', ''BIO_004'', ''MOV_001'', ''MOV_002'', ''MOV_003'', ''MOV_004'', ''MOV_005'', ''MOV_006'',
     ''PAT_001'', ''PAT_002'', ''PAT_003'', ''PAT_004'', ''PAT_005'', ''STATE_001'', ''STATE_002'', ''STATE_003'', ''STATE_004'', ''STATE_005'',
     ''STATE_006'', ''STATE_007'', ''STATE_008'', ''THROW_001'', ''THROW_002'', ''THROW_003'', ''THROW_004'', ''THROW_005'', ''THROW_006'',
     ''THROW_007'', ''THROW_008'']"

lemmas constructors_def = program_constructors_def bio_constructors_def movement_constructors_def pattern_constructors_def state_constructors_def
  throw_constructors_def

lemmas news = new_bio001_def new_bio002_def new_bio003_def new_bio004_def new_mov001_def new_mov002_def new_mov003_def new_mov004_def new_mov005_def
  new_mov006_def new_pat001_def new_pat002_def new_pat003_def new_pat004_def new_pat005_def new_state001_def new_state002_def new_state003_def
  new_state004_def new_state005_def new_state006_def new_state007_def new_state008_def new_throw001_def new_throw002_def new_throw003_def
  new_throw004_def new_throw005_def new_throw006_def new_throw007_def new_throw008_def

lemmas bases = bio001_base_def bio002_base_def bio003_base_def bio004_base_def mov001_base_def mov002_base_def mov003_base_def mov004_base_def
  mov005_base_def mov006_base_def pat001_base_def pat002_base_def pat003_base_def pat004_base_def pat005_base_def state001_base_def
  state002_base_def state003_base_def state004_base_def state005_base_def state006_base_def state007_base_def state008_base_def
  throw001_base_def throw002_base_def throw003_base_def throw004_base_def throw005_base_def throw006_base_def throw007_base_def throw008_base_def

lemma program_constructor_ids: "map constructor_id program_constructors = program_ids"
  by (simp add: constructors_def constructor_id_def news bases program_ids_def)

section \<open>What a configuration builds\<close>

definition fresh :: "any_detector \<Rightarrow> bool" where
  "fresh x \<longleftrightarrow> (case x of
     State007 y \<Rightarrow> s7_pending (in_state y) = []
   | State008 y \<Rightarrow> c8_pending (in_state y) = None
   | Throw001 y \<Rightarrow> w1_tracks (in_state y) = [] \<and> w1_queued (in_state y) = []
   | Throw008 y \<Rightarrow> w8_tracks (in_state y) = []
   | _ \<Rightarrow> True)"

lemma any_base_rebase [simp]: "any_base (rebase g x) = g (any_base x)"
  by (cases x) simp_all

lemma fresh_rebase [simp]: "fresh (rebase g x) = fresh x"
  by (cases x) (simp_all add: fresh_def)

lemma fresh_ok: "fresh x \<Longrightarrow> base_ok (any_base x) \<Longrightarrow> any_ok mc x"
  by (cases x) (simp_all add: fresh_def any_ok_def punches_known_def speed_sound_def speed_ok_def flights_usable_def)

definition builds :: "constructor \<Rightarrow> params \<Rightarrow> history option \<Rightarrow> bool" where
  "builds c ps h \<longleftrightarrow> (case c ps h of None \<Rightarrow> False
     | Some x \<Rightarrow> bd_id (any_base x) = constructor_id c \<and> bd_version (any_base x) \<noteq> [] \<and> fresh x)"

lemma new_states [simp]:
  "s7_pending (in_state (new_state007 ps)) = []" "w8_tracks (in_state (new_throw008 ps)) = []"
  "w1_tracks (in_state (new_throw001 ps)) = []" "w1_queued (in_state (new_throw001 ps)) = []"
  by (simp_all add: new_state007_def state007_configure_def state007_sanitize_def new_throw008_def throw008_configure_def new_throw001_def
    throw001_configure_def Let_def)

lemmas new_bases = news [THEN arg_cong, of in_base, simplified]

lemma program_builds: "c \<in> set program_constructors \<Longrightarrow> builds c ps h"
proof -
  have "list_all (\<lambda>c. builds c ps h) program_constructors"
    by (simp add: constructors_def builds_def constructor_id_def new_bases bases fresh_def new_state008_pending)
  then show "c \<in> set program_constructors \<Longrightarrow> builds c ps h" by (simp add: list_all_iff)
qed

lemma program_catalog_eq: "program_catalog = Some (map catalog_entry program_constructors)"
proof -
  have "distinct program_ids \<and> [] \<notin> set program_ids" by (simp add: program_ids_def)
  then show ?thesis by (simp add: program_catalog_def register_all_eq program_constructor_ids del: set_map)
qed

lemma listed_program: "listed (map catalog_entry program_constructors) = map (snd \<circ> catalog_entry) program_constructors"
proof -
  have k: "dr_id (snd (catalog_entry c)) = constructor_id c" if "c \<in> set program_constructors" for c
    using program_builds [OF that, of "[]" None] by (auto simp: builds_def catalog_entry_def describe_def split: option.splits)
  have "map (dr_id \<circ> (snd \<circ> catalog_entry)) program_constructors = program_ids"
    unfolding program_constructor_ids [symmetric] by (rule map_cong) (simp_all add: k)
  moreover have "sorted program_ids" by code_simp
  ultimately have "sorted (map dr_id (map (snd \<circ> catalog_entry) program_constructors))" by (simp add: o_def)
  then have "sort_key dr_id (map (snd \<circ> catalog_entry) program_constructors) = map (snd \<circ> catalog_entry) program_constructors"
    by (rule sort_key_id_if_sorted)
  then show ?thesis by (simp only: listed_def map_map)
qed

lemma config_weight [simp]: "in_unit (bd_weight (any_base (apply_options (config_options cfg h i) x)))"
  by (simp add: apply_options_def config_options_def any_set_weight_def any_set_auto_def set_auto_enforce_def set_weight_def Let_def)

lemma apply_options_base [simp]:
  "bd_id (any_base (apply_options o1 x)) = bd_id (any_base x)" "bd_version (any_base (apply_options o1 x)) = bd_version (any_base x)"
  "fresh (apply_options o1 x) = fresh x"
  by (simp_all add: apply_options_def any_set_weight_def any_set_auto_def set_auto_enforce_def set_weight_def Let_def)

text \<open>One constructor under a configuration.\<close>

definition configured :: "(string \<Rightarrow> detector_config) \<Rightarrow> history option \<Rightarrow> constructor \<Rightarrow> any_detector option" where
  "configured cfg h c = build_one (Some (config_options cfg h)) (snd (catalog_entry c))"

lemma configured_cases:
  assumes "c \<in> set program_constructors"
  shows "if dc_enabled (cfg (constructor_id c))
    then \<exists>x. configured cfg h c = Some x \<and> bd_id (any_base x) = constructor_id c \<and> base_ok (any_base x) \<and> fresh x
    else configured cfg h c = None"
proof -
  note b = program_builds [OF assms]
  have "constructor_id c \<in> set program_ids" using assms by (simp flip: program_constructor_ids)
  moreover have "[] \<notin> set program_ids" by (simp add: program_ids_def)
  ultimately have i: "constructor_id c \<noteq> []" by metis
  have d: "dr_id (snd (catalog_entry c)) = constructor_id c" "dr_new (snd (catalog_entry c)) = c"
    using b [of "[]" None] by (auto simp: builds_def catalog_entry_def describe_def split: option.splits)
  let ?o = "config_options cfg h (constructor_id c)"
  obtain x where "c (bo_params ?o) (bo_history ?o) = Some x" "bd_id (any_base x) = constructor_id c" "bd_version (any_base x) \<noteq> []" "fresh x"
    using b [of "bo_params ?o" "bo_history ?o"] by (auto simp: builds_def split: option.splits)
  moreover have "bo_enabled ?o = dc_enabled (cfg (constructor_id c))" by (simp add: config_options_def Let_def)
  ultimately show ?thesis using i d by (simp add: configured_def build_one_def base_ok_def Let_def)
qed

lemma map_filter_map: "List.map_filter g (map k xs) = List.map_filter (g \<circ> k) xs"
  by (simp add: List.map_filter_def o_def filter_map)

lemma configured_detectors_program:
  "configured_detectors cfg h (map catalog_entry program_constructors) = List.map_filter (configured cfg h) program_constructors"
  by (simp add: configured_detectors_def build_all_def listed_program map_filter_map configured_def [abs_def] o_def)

text \<open>C28: Whatever the configuration, the program builds exactly the detectors it enables, of the thirty-one of the catalog, each once and in the
  order of their ids.\<close>

theorem program_runs_the_enabled_detectors:
  "map_option (map (bd_id \<circ> any_base) \<circ> configured_detectors cfg h) program_catalog = Some (filter (\<lambda>i. dc_enabled (cfg i)) program_ids)"
proof -
  have "map (bd_id \<circ> any_base) (List.map_filter (configured cfg h) cs) = filter (\<lambda>i. dc_enabled (cfg i)) (map constructor_id cs)"
    if "set cs \<subseteq> set program_constructors" for cs
    using that
  proof (induction cs)
    case (Cons c cs)
    then show ?case using configured_cases [of c cfg h] by (auto simp: map_filter_simps split: if_splits)
  qed (simp add: map_filter_simps)
  then show ?thesis by (simp add: program_catalog_eq configured_detectors_program program_constructor_ids)
qed

lemma configured_detectors_ok:
  assumes "program_catalog = Some cat" "x \<in> set (configured_detectors cfg h cat)"
  shows "any_ok mc x"
proof -
  obtain c where "c \<in> set program_constructors" "configured cfg h c = Some x"
    using assms by (auto simp: program_catalog_eq configured_detectors_program List.map_filter_def)
  then show ?thesis using configured_cases [of c cfg h] by (auto intro: fresh_ok split: if_splits)
qed


text \<open>A shield held for two frames under a limit of two.\<close>

definition sample_detect_env :: detect_env where
  "sample_detect_env = \<lparr>de_exp = id, de_log = id, de_log10 = id, de_acos = id, de_sin = id, de_pow = (\<lambda>x y. x), de_atanh = id, de_tanh = id,
     de_id = (\<lambda>i n. i @ ''#'' @ itoa (int n)), de_json = (\<lambda>k vals. k), de_digest = (\<lambda>ds. [])\<rparr>"

definition sample_shield_config :: "string \<Rightarrow> detector_config" where
  "sample_shield_config i = \<lparr>dc_enabled = True, dc_enforcement_weight = Fin (1/2), dc_auto_enforce = False, dc_params = [(''suspicious_frames'', Pint 2)]\<rparr>"

definition sample_shield_constructor :: constructor where
  "sample_shield_constructor = (\<lambda>ps h. Some (State003 (new_state003 ps)))"

definition sample_shielded :: "(string, tracked) gomap" where
  "sample_shielded = [(''p1'', new_player_state (zero_motion\<lparr>mo_status := (mo_status zero_motion)\<lparr>st_shield_active := True\<rparr>\<rparr>) ''p1'' [])]"

definition sample_shield_calls :: "any_call list" where
  "sample_shield_calls = [Evaluate sample_shielded 1, Evaluate sample_shielded 2, Flush_all 3]"

lemma shield_calls_ok: "list_all call_ok sample_shield_calls"
  by (simp add: sample_shield_calls_def sample_shielded_def view_ok_def known_player_def dated_def new_player_state_def zero_motion_def is_fin_def
    throw_at_def is_nan_def is_inf_def)

lemma sample_ids_ok: "ids_ok sample_detect_env"
  by (simp add: ids_ok_def sample_detect_env_def)

definition sample_shield :: "state003 instance_of" where
  "sample_shield = \<lparr>in_base = state003_base\<lparr>bd_weight := clamp01 (Fin (1/2))\<rparr>, in_made = 0,
     in_state = \<lparr>s3_suspicious = 2, s3_high = 375, s3_impossible = 600, s3_steepness = flit (2/100), s3_tracks = []\<rparr>\<rparr>"

lemma sample_shield_configured: "configured sample_shield_config None sample_shield_constructor = Some (State003 sample_shield)"
  by (simp add: configured_def build_one_def catalog_entry_def describe_def sample_shield_constructor_def constructor_id_def new_state003_def
    sample_shield_config_def config_options_def apply_options_def any_set_weight_def any_set_auto_def set_weight_def set_auto_enforce_def
    review_only_def state003_configure_def get_int_def get_float_def state003_base_def sample_shield_def Let_def)

lemma sample_shield_events:
  "map (\<lambda>e. (detector_id e, frame_index e)) (any_events sample_detect_env sample_match sample_shield_calls (State003 sample_shield)) = [(''STATE_003'', 2)]"
  by (simp add: sample_shield_calls_def sample_shielded_def state003_evaluate_def run_instance_def active_players_def is_stale_def
    state003_step_def sample_shield_def new_player_state_def zero_motion_def count_hold_def no_hold_def shield_tier_def gz_def
    any_flush_tracks_def state_event_def make_event_def state003_base_def wrap_def Let_def)


end
