(* ===== verification/Session.thy ===== *)
theory Session
  imports Telemetry
begin

text \<open>
  A snapshot of the game as its \<open>/session\<close> endpoint reports it (\<open>internal/adapter/echovr_schema.go\<close>) after decoding, and
  what the adapter reads off it: player ids, the roles of its teams, who holds the disc and which player the client is
  (\<open>mapper.go\<close>, \<open>attachment_observation.go\<close>, \<open>vector_observation.go\<close>). A \<open>[3]float64\<close> is a \<open>vec3\<close>; the engine's throw
  record has the fields of \<open>game_throw_details\<close> and is modelled by it. Fields nothing reads are left out.
\<close>

section \<open>The schema\<close>

record echo_disc =
  ed_position :: vec3
  ed_velocity :: vec3
  ed_position_observed :: "bool option"
  ed_velocity_observed :: "bool option"
  ed_bounce_count :: "int option"

record echo_pose =
  eo_position :: vec3
  eo_forward :: vec3
  eo_left :: vec3
  eo_up :: vec3

record echo_player =
  ep_name :: string
  ep_user_id :: int
  ep_body :: echo_pose
  ep_head :: echo_pose
  ep_velocity :: vec3
  ep_velocity_observed :: "bool option"
  ep_lhand :: echo_pose
  ep_rhand :: echo_pose
  ep_stunned :: bool
  ep_invulnerable :: bool
  ep_possession :: bool
  ep_blocking :: bool
  ep_holding_left :: string
  ep_holding_right :: string
  ep_ping :: int
  ep_goals :: int
  ep_stuns :: int

record echo_team =
  et_name :: string
  et_players :: "echo_player list"

record echo_score =
  el_person_scored :: string
  el_assisted_by :: string
  el_assist_scored :: string

record echo_session =
  es_session_id :: string
  es_match_type :: string
  es_map_name :: string
  es_game_status :: string
  es_game_clock :: f64
  es_private :: bool
  es_client_name :: string
  es_disc :: "echo_disc option"
  es_teams :: "echo_team list"
  es_blue_points :: int
  es_orange_points :: int
  es_last_score :: "echo_score option"
  es_last_throw :: "game_throw_details option"

definition observed :: "bool option \<Rightarrow> bool" where
  "observed o1 \<longleftrightarrow> o1 \<noteq> Some False"

definition has_velocity :: "echo_player \<Rightarrow> bool" where
  "has_velocity p \<longleftrightarrow> observed (ep_velocity_observed p)"

definition disc_has_position :: "echo_disc option \<Rightarrow> bool" where
  "disc_has_position d = (case d of None \<Rightarrow> False | Some x \<Rightarrow> observed (ed_position_observed x))"

definition disc_has_velocity :: "echo_disc option \<Rightarrow> bool" where
  "disc_has_velocity d = (case d of None \<Rightarrow> False | Some x \<Rightarrow> observed (ed_velocity_observed x))"

definition clean_name :: "string \<Rightarrow> string" where
  "clean_name n = (if n = ''[INVALID]'' then [] else n)"

definition scorer_name :: "echo_score \<Rightarrow> string" where
  "scorer_name s = clean_name (el_person_scored s)"

definition assist_name :: "echo_score \<Rightarrow> string" where
  "assist_name s = (let n = clean_name (el_assist_scored s) in if n \<noteq> [] then n else clean_name (el_assisted_by s))"

section \<open>Players and teams\<close>

definition holds_disc :: "echo_player \<Rightarrow> bool" where
  "holds_disc p \<longleftrightarrow> ep_holding_left p = ''disc'' \<or> ep_holding_right p = ''disc''"

definition has_holding_fields :: "echo_player \<Rightarrow> bool" where
  "has_holding_fields p \<longleftrightarrow> ep_holding_left p \<noteq> [] \<or> ep_holding_right p \<noteq> []"

definition has_disc :: "echo_player \<Rightarrow> bool" where
  "has_disc p = (if has_holding_fields p then holds_disc p else ep_possession p)"

definition echo_id :: "echo_player \<Rightarrow> string" where
  "echo_id p = (if ep_user_id p \<noteq> 0 then ''echovr:'' @ itoa (ep_user_id p) else ''name:'' @ ep_name p)"

definition team_at :: "nat \<Rightarrow> string option" where
  "team_at i = (if i = 0 then Some ''blue'' else if i = 1 then Some ''orange'' else None)"

definition mapped_team_name :: "string \<Rightarrow> nat \<Rightarrow> string option" where
  "mapped_team_name name i =
     (let n = to_lower (trim_space name) in
      if n = ''blue'' \<or> n = ''blue team'' then Some ''blue''
      else if n = ''orange'' \<or> n = ''orange team'' then Some ''orange''
      else if n = [] then team_at i
      else None)"

fun contains_string :: "string \<Rightarrow> string \<Rightarrow> bool" where
  "contains_string [] p = (p = [])"
| "contains_string (c # s) p = (has_prefix (c # s) p \<or> contains_string s p)"

text \<open>\<open>strings.EqualFold(s, "spectators")\<close>: of the letters of the word only \<open>s\<close> has a further folding, which \<open>to_upper\<close> knows.\<close>

definition is_spectators :: "string \<Rightarrow> bool" where
  "is_spectators s \<longleftrightarrow> to_upper s = ''SPECTATORS''"

definition standard_slot :: "nat \<Rightarrow> echo_team \<Rightarrow> bool" where
  "standard_slot i t =
     (let n = to_lower (trim_space (et_name t)) in
      \<not> contains_string n ''spectator'' \<and> (case mapped_team_name n i of None \<Rightarrow> True | Some r \<Rightarrow> team_at i = Some r))"

definition standard_layout :: "echo_team list \<Rightarrow> bool" where
  "standard_layout ts = (case ts of [a, b, c] \<Rightarrow> is_spectators (trim_space (et_name c)) \<and> standard_slot 0 a \<and> standard_slot 1 b | _ \<Rightarrow> False)"

definition mapped_session_team :: "echo_session \<Rightarrow> nat \<Rightarrow> string option" where
  "mapped_session_team raw i =
     (if length (es_teams raw) \<le> i then None
      else if standard_layout (es_teams raw) \<and> i < 2 then mapped_team_name [] i
      else mapped_team_name (et_name (es_teams raw ! i)) i)"

text \<open>The teams with the role of each: None for spectators and teams without one.\<close>

definition team_roles :: "echo_session \<Rightarrow> (echo_team \<times> string option) list" where
  "team_roles raw = zip (es_teams raw) (map (mapped_session_team raw) [0..<length (es_teams raw)])"

definition playing :: "echo_session \<Rightarrow> (string \<times> echo_player) list" where
  "playing raw = concat (map (\<lambda>(t, r). case r of None \<Rightarrow> [] | Some n \<Rightarrow> map (Pair n) (et_players t)) (team_roles raw))"

section \<open>Attachments\<close>

definition held_item_known :: "string \<Rightarrow> bool" where
  "held_item_known v \<longleftrightarrow> v = ''none'' \<or> v = ''disc'' \<or> v = ''geo'' \<or>
     v \<noteq> [] \<and> list_all (\<lambda>c. c \<in> set ''0123456789'') v \<and> foldl (\<lambda>n c. 10 * n + (of_char c - 48)) (0 :: int) v \<le> 65535"

definition hand_holding :: "string \<Rightarrow> string option" where
  "hand_holding v = (if v \<noteq> [] then Some v else None)"

definition hand_attachments_of :: "echo_player \<Rightarrow> hand_attachments" where
  "hand_attachments_of p = \<lparr>ha_left = hand_holding (ep_holding_left p), ha_right = hand_holding (ep_holding_right p)\<rparr>"

definition unknown_attachment :: "string \<Rightarrow> disc_attachment" where
  "unknown_attachment why = \<lparr>da_state = ''unknown'', da_holder_id = [], da_hand_candidates = [], da_reason = why\<rparr>"

definition holding_hands :: "echo_player \<Rightarrow> string list" where
  "holding_hands p = (if ep_holding_left p = ''disc'' then [''left''] else []) @ (if ep_holding_right p = ''disc'' then [''right''] else [])"

definition observed_attachment :: "echo_session \<Rightarrow> disc_attachment" where
  "observed_attachment raw =
     (let ps = map snd (playing raw); holders = filter holds_disc ps in
      if list_ex (\<lambda>p. \<not> held_item_known (ep_holding_left p) \<or> \<not> held_item_known (ep_holding_right p)) ps then unknown_attachment ''attachment_missing''
      else if ps = [] then unknown_attachment ''attachment_missing''
      else case holders of
        [] \<Rightarrow> \<lparr>da_state = ''free'', da_holder_id = [], da_hand_candidates = [], da_reason = []\<rparr>
      | [p] \<Rightarrow> \<lparr>da_state = ''held'', da_holder_id = echo_id p, da_hand_candidates = holding_hands p, da_reason = []\<rparr>
      | _ \<Rightarrow> unknown_attachment ''attachment_conflict'')"

definition client_player :: "echo_session \<Rightarrow> string" where
  "client_player raw =
     (if es_client_name raw = [] then []
      else case filter (\<lambda>p. ep_name p = es_client_name raw) (concat (map et_players (es_teams raw))) of
        [p] \<Rightarrow> if ep_user_id p \<noteq> 0 then echo_id p else []
      | _ \<Rightarrow> [])"

text \<open>What is observed is a well-formed attachment, and a held disc is held by one playing player.\<close>

lemma observed_attachment_known:
  "da_known (Some (observed_attachment raw)) \<or> da_state (observed_attachment raw) = ''unknown''"
proof (cases "filter holds_disc (map snd (playing raw))")
  case (Cons p ps)
  then have "holds_disc p" by (metis filter_eq_ConsD)
  then show ?thesis using Cons
    by (cases ps) (auto simp: observed_attachment_def da_known_def unknown_attachment_def holding_hands_def holds_disc_def echo_id_def Let_def)
qed (auto simp: observed_attachment_def da_known_def unknown_attachment_def Let_def)

lemma observed_holder_plays:
  assumes "da_state (observed_attachment raw) = ''held''"
  shows "da_holder_id (observed_attachment raw) \<in> echo_id ` snd ` set (playing raw)"
proof -
  obtain p where p: "filter holds_disc (map snd (playing raw)) = [p]" "da_holder_id (observed_attachment raw) = echo_id p"
    using assms by (auto simp: observed_attachment_def unknown_attachment_def Let_def split: list.splits if_splits)
  then have "p \<in> set (map snd (playing raw))" by (metis filter_is_subset list.set_intros(1) subsetD)
  then show ?thesis using p(2) by auto
qed

text \<open>A team's role never depends on colour words inside a display name: only on a canonical label or the place in a complete layout.\<close>

lemma mapped_team_sides: "mapped_session_team raw i = Some r \<Longrightarrow> r = ''blue'' \<or> r = ''orange''"
  by (auto simp: mapped_session_team_def mapped_team_name_def team_at_def Let_def split: if_splits)

end
