(* ===== verification/Mapper.thy ===== *)
theory Mapper
  imports Session Live_Frames
begin

text \<open>
  The adapter from session snapshots to telemetry frames (\<open>internal/adapter/mapper.go\<close>). A \<open>mapping\<close> is what one call
  works on: the result so far and the mapper. Warnings keep their field and the key they are given once under; their
  texts are not modelled. The change detection compares a digest of the fields \<open>fingerprint_fields\<close> lists; the digest
  (FNV over an encoding of them) is a parameter.
\<close>

section \<open>State\<close>

record mapper_stats =
  ms_snapshots :: int
  ms_mapped :: int
  ms_rejected :: int
  ms_spectators :: int
  ms_duplicates :: int
  ms_non_monotonic :: int
  ms_clock_steps :: int
  ms_conflicts :: int
  ms_duplicate_players :: int
  ms_proper :: int
  ms_reflected :: int
  ms_non_orthonormal :: int
  ms_degenerate :: int
  ms_hand_lost :: int

definition no_mapper_stats :: mapper_stats where
  "no_mapper_stats = \<lparr>ms_snapshots = 0, ms_mapped = 0, ms_rejected = 0, ms_spectators = 0, ms_duplicates = 0, ms_non_monotonic = 0,
     ms_clock_steps = 0, ms_conflicts = 0, ms_duplicate_players = 0, ms_proper = 0, ms_reflected = 0, ms_non_orthonormal = 0,
     ms_degenerate = 0, ms_hand_lost = 0\<rparr>"

datatype limit_error = Too_many_snapshot_players nat | Too_many_entries nat | Too_many_match_players

record mapper =
  ma_frame_index :: int
  ma_first :: "time option"
  ma_offset :: f64
  ma_last_tick :: "f64 option"
  ma_prev :: "(string, f64) gomap"
  ma_physics :: physics_constants
  ma_dedupe :: bool
  ma_fingerprint :: "nat option"
  ma_last_throw :: "game_throw_details option"
  ma_client :: string
  ma_session :: string
  ma_source :: string
  ma_time_basis :: string
  ma_source_id :: string
  ma_epoch :: nat
  ma_max_entries :: nat
  ma_max_players :: nat
  ma_max_match :: nat
  ma_match_players :: "string list"
  ma_warned :: "string list"
  ma_phases :: phase_normalizer
  ma_stats :: mapper_stats

definition new_mapper :: mapper where
  "new_mapper = \<lparr>ma_frame_index = 0, ma_first = None, ma_offset = Fin 0, ma_last_tick = None, ma_prev = [], ma_physics = default_physics,
     ma_dedupe = False, ma_fingerprint = None, ma_last_throw = None, ma_client = [], ma_session = [], ma_source = ''echovr_session'',
     ma_time_basis = ''supplied_sample_time'', ma_source_id = [], ma_epoch = 0, ma_max_entries = 0, ma_max_players = 0, ma_max_match = 0,
     ma_match_players = [], ma_warned = [], ma_phases = phase_reset, ma_stats = no_mapper_stats\<rparr>"

definition clock_step_threshold :: f64 where "clock_step_threshold = Fin 1"
definition max_snapshot_players :: nat where "max_snapshot_players = 32"
definition max_snapshot_entries :: nat where "max_snapshot_entries = 64"
definition max_match_players :: nat where "max_match_players = 64"

definition enforce_roster_limits :: "mapper \<Rightarrow> mapper" where
  "enforce_roster_limits m = m\<lparr>ma_max_entries := max_snapshot_entries, ma_max_players := max_snapshot_players, ma_max_match := max_match_players\<rparr>"

definition mapper_new_match :: "mapper \<Rightarrow> mapper" where
  "mapper_new_match m = m\<lparr>ma_frame_index := 0, ma_first := None, ma_offset := Fin 0, ma_last_tick := None, ma_epoch := 0, ma_prev := [],
     ma_fingerprint := None, ma_last_throw := None, ma_client := [], ma_session := [], ma_match_players := []\<rparr>"

definition mapper_new_file :: "mapper \<Rightarrow> mapper" where
  "mapper_new_file m = (mapper_new_match m)\<lparr>ma_stats := no_mapper_stats, ma_warned := []\<rparr>"

definition set_mapper_physics :: "physics_constants \<Rightarrow> mapper \<Rightarrow> mapper" where "set_mapper_physics p m = m\<lparr>ma_physics := p\<rparr>"
definition set_dedupe :: "bool \<Rightarrow> mapper \<Rightarrow> mapper" where "set_dedupe b m = m\<lparr>ma_dedupe := b\<rparr>"

definition first_sample_time :: "mapper \<Rightarrow> time" where
  "first_sample_time m = (case ma_first m of None \<Rightarrow> 0 | Some t \<Rightarrow> t)"

definition set_observation_source :: "string \<Rightarrow> string \<Rightarrow> string \<Rightarrow> mapper \<Rightarrow> mapper" where
  "set_observation_source source basis sid m0 =
     (let m = (if ma_source m0 \<noteq> source \<or> ma_time_basis m0 \<noteq> basis \<or> ma_source_id m0 \<noteq> sid
               then m0\<lparr>ma_last_throw := None, ma_fingerprint := None\<rparr> else m0)
      in m\<lparr>ma_source := source, ma_time_basis := basis, ma_source_id := sid\<rparr>)"

section \<open>Roster limits\<close>

definition snapshot_size_error :: "echo_session \<Rightarrow> mapper \<Rightarrow> limit_error option" where
  "snapshot_size_error raw m =
     (let entries = length (concat (map et_players (es_teams raw))); mapped = length (playing raw) in
      if ma_max_entries m = 0 \<and> ma_max_players m = 0 then None
      else if 0 < ma_max_players m \<and> ma_max_players m < mapped then Some (Too_many_snapshot_players mapped)
      else if 0 < ma_max_entries m \<and> ma_max_entries m < entries then Some (Too_many_entries entries)
      else None)"

definition fresh_players :: "echo_session \<Rightarrow> mapper \<Rightarrow> string list" where
  "fresh_players raw m = rev (fold (\<lambda>i acc. if i \<in> set (ma_match_players m) \<or> i \<in> set acc then acc else i # acc) (map (echo_id \<circ> snd) (playing raw)) [])"

definition admit_match_players :: "echo_session \<Rightarrow> mapper \<Rightarrow> limit_error option \<times> mapper" where
  "admit_match_players raw m =
     (if ma_max_match m = 0 then (None, m)
      else let fresh = fresh_players raw m in
        if ma_max_match m < length (ma_match_players m) + length fresh then (Some Too_many_match_players, m)
        else (None, m\<lparr>ma_match_players := ma_match_players m @ fresh\<rparr>))"

text \<open>The playing entries of each team without the repeats of an id seen earlier in the snapshot.\<close>

fun keep_first :: "echo_player list \<Rightarrow> string list \<Rightarrow> echo_player list \<times> string list" where
  "keep_first [] seen = ([], seen)"
| "keep_first (p # ps) seen =
     (if echo_id p \<in> set seen then keep_first ps seen
      else let (qs, seen) = keep_first ps (echo_id p # seen) in (p # qs, seen))"

fun keep_rows :: "(echo_team \<times> string option) list \<Rightarrow> string list \<Rightarrow> (echo_team \<times> (string \<times> echo_player list) option) list" where
  "keep_rows [] seen = []"
| "keep_rows ((t, None) # ts) seen = (t, None) # keep_rows ts seen"
| "keep_rows ((t, Some r) # ts) seen = (let (ps, seen) = keep_first (et_players t) seen in (t, Some (r, ps)) # keep_rows ts seen)"

definition rows :: "echo_session \<Rightarrow> (echo_team \<times> (string \<times> echo_player list) option) list" where
  "rows raw = keep_rows (team_roles raw) []"

definition kept_entries :: "echo_session \<Rightarrow> (string \<times> echo_player) list" where
  "kept_entries raw = concat (map (\<lambda>(t, r). case r of None \<Rightarrow> [] | Some (n, ps) \<Rightarrow> map (Pair n) ps) (rows raw))"

definition repeated_entries :: "echo_session \<Rightarrow> nat" where
  "repeated_entries raw = length (playing raw) - length (kept_entries raw)"

section \<open>Results\<close>

record mapping_error =
  me_player :: string
  me_field :: string

record mapping =
  mp_frames :: "telemetry_frame list"
  mp_context :: "match_context option"
  mp_warnings :: "(string \<times> string) list"
  mp_errors :: "mapping_error list"
  mp_skipped :: bool
  mp_spectators :: nat
  mp_repeats :: nat
  mp_limit :: "limit_error option"
  mp_mapper :: mapper

definition start_mapping :: "mapper \<Rightarrow> mapping" where
  "start_mapping m = \<lparr>mp_frames = [], mp_context = None, mp_warnings = [], mp_errors = [], mp_skipped = False, mp_spectators = 0, mp_repeats = 0,
     mp_limit = None, mp_mapper = m\<rparr>"

definition in_mapper :: "(mapper \<Rightarrow> mapper) \<Rightarrow> mapping \<Rightarrow> mapping" where
  "in_mapper g r = r\<lparr>mp_mapper := g (mp_mapper r)\<rparr>"

definition tally_stats :: "(mapper_stats \<Rightarrow> mapper_stats) \<Rightarrow> mapping \<Rightarrow> mapping" where
  "tally_stats g = in_mapper (\<lambda>m. m\<lparr>ma_stats := g (ma_stats m)\<rparr>)"

definition warn_once :: "string \<Rightarrow> string \<Rightarrow> mapping \<Rightarrow> mapping" where
  "warn_once field key r =
     (if key \<in> set (ma_warned (mp_mapper r)) then r
      else (in_mapper (\<lambda>m. m\<lparr>ma_warned := key # ma_warned m\<rparr>) r)\<lparr>mp_warnings := mp_warnings r @ [(field, key)]\<rparr>)"

text \<open>The match context of a snapshot: the playing players in order, with the role and name of the first entry of each id.\<close>

definition map_match_context :: "echo_session \<Rightarrow> mapper \<Rightarrow> match_context" where
  "map_match_context raw m =
     (let ps = kept_entries raw in
      \<lparr>mc_native_capture = None, mc_match_id = es_session_id raw, mc_map = es_map_name raw, mc_game_mode = es_match_type raw, mc_is_ranked = False,
       mc_is_private = es_private raw, mc_start_time = first_sample_time m, mc_duration = 0, mc_player_ids = map (echo_id \<circ> snd) ps,
       mc_team_assignments = map (\<lambda>(n, p). (echo_id p, n)) ps,
       mc_player_names = map (\<lambda>(n, p). (echo_id p, ep_name p)) (filter (\<lambda>(n, p). ep_name p \<noteq> []) ps),
       mc_tick_rate = Fin 0, mc_source = ''echovr_api'', mc_replay_file = [], mc_server_region = [], mc_server_id = [],
       mc_physics = ma_physics m, mc_project_rules = \<lparr>rules_version = [], disc_grab_limit_m = Fin 0, fast_throw_speed_mps = Fin 0, required_movement_mps = Fin 0\<rparr>\<rparr>)"

definition merge_player :: "match_context \<Rightarrow> string \<Rightarrow> match_context \<Rightarrow> match_context" where
  "merge_player src i d0 =
     (let d = (if i \<in> set (mc_player_ids d0) then d0 else d0\<lparr>mc_player_ids := mc_player_ids d0 @ [i]\<rparr>);
          d = (case map_of (mc_team_assignments src) i of Some t \<Rightarrow> if t \<noteq> [] then d\<lparr>mc_team_assignments := AList.update i t (mc_team_assignments d)\<rparr> else d | None \<Rightarrow> d)
      in case map_of (mc_player_names src) i of
           Some n \<Rightarrow> if n \<noteq> [] then d\<lparr>mc_player_names := AList.update i n (mc_player_names d)\<rparr> else d | None \<Rightarrow> d)"

definition merge_match_context :: "match_context option \<Rightarrow> match_context option \<Rightarrow> match_context option" where
  "merge_match_context dst src = (case (dst, src) of (Some d, Some s) \<Rightarrow> Some (fold (merge_player s) (mc_player_ids s) d) | _ \<Rightarrow> dst)"

section \<open>Time\<close>

text \<open>\<open>Duration.Seconds\<close>: whole seconds and the rest are converted apart.\<close>

definition go_seconds :: "duration \<Rightarrow> f64" where
  "go_seconds d = fadd (f_of_int (sgn d * (\<bar>d\<bar> div second))) (fdiv (f_of_int (sgn d * (\<bar>d\<bar> mod second))) (Fin (10 ^ 9)))"

definition tick_timestamp :: "time \<Rightarrow> mapping \<Rightarrow> (f64 \<times> bool) \<times> mapping" where
  "tick_timestamp now r =
     (let m = mp_mapper r; t = fadd (go_seconds (time_sub now (first_sample_time m))) (ma_offset m);
          done = (\<lambda>t r. in_mapper (\<lambda>m. m\<lparr>ma_last_tick := Some t\<rparr>) r)
      in case ma_last_tick m of
        None \<Rightarrow> ((t, False), done t r)
      | Some l \<Rightarrow>
          if fle t (fsub l clock_step_threshold) then
            let want = next_up l;
                r = in_mapper (\<lambda>m. m\<lparr>ma_offset := fadd (ma_offset m) (fsub want t), ma_epoch := ma_epoch m + 1, ma_prev := [],
                       ma_last_throw := None, ma_fingerprint := None\<rparr>) r;
                r = tally_stats (\<lambda>s. s\<lparr>ms_clock_steps := ms_clock_steps s + 1\<rparr>) r
            in ((want, False), done want (warn_once ''sample_time'' ''clock_step'' r))
          else if flt t l then ((l, True), done l r)
          else ((t, False), done t r))"

section \<open>The engine's throw record\<close>

definition same_throw :: "game_throw_details \<Rightarrow> game_throw_details \<Rightarrow> bool" where
  "same_throw a b = list_all2 feq (gt_values a) (gt_values b)"

definition changed_last_throw :: "game_throw_details option \<Rightarrow> mapper \<Rightarrow> game_throw_details option \<times> mapper" where
  "changed_last_throw raw m = (case raw of None \<Rightarrow> (None, m)
     | Some g \<Rightarrow>
         let changed = (case ma_last_throw m of None \<Rightarrow> False | Some l \<Rightarrow> \<not> same_throw g l) in
         (if changed \<and> gt_valid g then Some g else None, m\<lparr>ma_last_throw := Some g\<rparr>))"

section \<open>Change detection\<close>

datatype field = F_text string | F_float f64 | F_int int | F_bool bool | F_count nat

definition vec_fields :: "vec3 \<Rightarrow> field list" where
  "vec_fields v = [F_float (vx v), F_float (vy v), F_float (vz v)]"

definition player_fields :: "echo_player \<Rightarrow> field list" where
  "player_fields p = [F_int (ep_user_id p), F_text (ep_name p), F_bool (has_velocity p)] @
     concat (map vec_fields [ep_velocity p, eo_position (ep_body p), eo_position (ep_head p), eo_forward (ep_body p), eo_left (ep_body p), eo_up (ep_body p),
       eo_position (ep_lhand p), eo_position (ep_rhand p), eo_forward (ep_lhand p), eo_left (ep_lhand p), eo_up (ep_lhand p),
       eo_forward (ep_rhand p), eo_left (ep_rhand p), eo_up (ep_rhand p)]) @
     [F_bool (ep_possession p), F_text (ep_holding_left p), F_text (ep_holding_right p), F_bool (ep_stunned p), F_bool (ep_blocking p),
      F_bool (ep_invulnerable p), F_int (ep_ping p), F_int (ep_goals p), F_int (ep_stuns p)]"

definition disc_fields :: "echo_disc option \<Rightarrow> field list" where
  "disc_fields d = F_bool (d \<noteq> None) # (case d of None \<Rightarrow> []
     | Some x \<Rightarrow> [F_bool (disc_has_position d), F_bool (disc_has_velocity d)] @ vec_fields (ed_position x) @ vec_fields (ed_velocity x) @
         [F_bool (ed_bounce_count x \<noteq> None)] @ (case ed_bounce_count x of None \<Rightarrow> [] | Some k \<Rightarrow> [F_int k]))"

definition fingerprint_fields :: "echo_session \<Rightarrow> field list" where
  "fingerprint_fields raw = [F_text (es_game_status raw), F_text (es_client_name raw), F_text (es_session_id raw), F_text (es_match_type raw),
     F_text (es_map_name raw), F_bool (es_private raw), F_float (es_game_clock raw)] @ disc_fields (es_disc raw) @
     [F_int (es_blue_points raw), F_int (es_orange_points raw), F_bool (es_last_throw raw \<noteq> None)] @
     (case es_last_throw raw of None \<Rightarrow> [] | Some g \<Rightarrow> map F_float (gt_values g)) @
     [F_count (length (es_teams raw))] @
     concat (map (\<lambda>t. [F_text (et_name t), F_count (length (et_players t))] @ concat (map player_fields (et_players t))) (es_teams raw))"

section \<open>Poses\<close>

definition count_basis :: "basis_quality \<Rightarrow> mapper_stats \<Rightarrow> mapper_stats" where
  "count_basis q s =
     (if bq_degenerate q then s\<lparr>ms_degenerate := ms_degenerate s + 1\<rparr>
      else if q = basis_proper then s\<lparr>ms_proper := ms_proper s + 1\<rparr>
      else let s = (if bq_reflected q then s\<lparr>ms_reflected := ms_reflected s + 1\<rparr> else s) in
        if bq_non_orthonormal q then s\<lparr>ms_non_orthonormal := ms_non_orthonormal s + 1\<rparr> else s)"

definition convert_basis :: "echo_pose \<Rightarrow> mapping \<Rightarrow> (quat \<times> basis_quality) \<times> mapping" where
  "convert_basis h r = (let q = quat_from_direction_vectors (eo_forward h) (eo_left h) (eo_up h) in (q, tally_stats (count_basis (snd q)) r))"

definition unusable_vector :: "vec3 \<Rightarrow> bool" where
  "unusable_vector v \<longleftrightarrow> v_is_zero v \<or> v_has_nan v \<or> v_has_inf v"

definition lose_hand :: "mapping \<Rightarrow> mapping" where
  "lose_hand = tally_stats (\<lambda>s. s\<lparr>ms_hand_lost := ms_hand_lost s + 1\<rparr>)"

definition convert_hand :: "string \<Rightarrow> string \<Rightarrow> echo_pose \<Rightarrow> mapping \<Rightarrow> (quat \<times> bool) \<times> mapping" where
  "convert_hand field key h r0 =
     (if list_ex unusable_vector [eo_forward h, eo_up h, eo_left h] then ((0, False), warn_once field key (lose_hand r0))
      else
        let ((q, quality), r) = convert_basis h r0 in
        if bq_degenerate quality \<or> bq_non_orthonormal quality \<or> \<not> q_is_unit q then ((0, False), lose_hand r)
        else ((q, True), r))"

definition warn_body :: "basis_quality \<Rightarrow> mapping \<Rightarrow> mapping" where
  "warn_body q r =
     (let r = (if bq_degenerate q then warn_once ''body_rotation'' ''body_rotation'' r else r);
          r = (if bq_reflected q then warn_once ''basis_reflected'' ''basis_reflected'' r else r)
      in if bq_non_orthonormal q then warn_once ''basis_non_orthonormal'' ''basis_non_orthonormal'' r else r)"

section \<open>The disc of a tick\<close>

definition base_disc :: "echo_session \<Rightarrow> echo_disc \<Rightarrow> disc_state" where
  "base_disc raw d = \<lparr>ds_attachment = Some (observed_attachment raw), ds_position = ed_position d, ds_velocity = ed_velocity d,
     ds_speed = v_magnitude (ed_velocity d),
     ds_bounce_count = (case ed_bounce_count d of None \<Rightarrow> None | Some k \<Rightarrow> if 0 \<le> k then Some k else None),
     ds_possession_known = False, ds_possession_conflict = False, ds_sampled_player_count = 0, ds_previous_velocity = None, ds_acceleration = None,
     ds_acceleration_magnitude = Fin 0, ds_possessor_id = [], ds_is_held = False, ds_frames_since_release = 0, ds_release_position = None,
     ds_release_velocity = None, ds_trajectory_angle_change = Fin 0, ds_distance_from_thrower = Fin 0, ds_in_penalty_field = False\<rparr>"

definition disc_holders :: "echo_session \<Rightarrow> echo_player list" where
  "disc_holders raw = filter has_disc (map snd (kept_entries raw))"

definition tick_disc :: "echo_session \<Rightarrow> disc_state option" where
  "tick_disc raw = (case es_disc raw of None \<Rightarrow> None
     | Some d \<Rightarrow>
         if disc_has_position (Some d) \<and> disc_has_velocity (Some d) then
           let ps = map snd (kept_entries raw); holders = disc_holders raw; b = base_disc raw d;
               b = (case holders of [] \<Rightarrow> b | p # _ \<Rightarrow> b\<lparr>ds_is_held := True, ds_possessor_id := echo_id p\<rparr>)
           in Some (b\<lparr>ds_sampled_player_count := int (length ps),
                 ds_possession_known := (ps \<noteq> [] \<and> list_all (\<lambda>p. held_item_known (ep_holding_left p) \<and> held_item_known (ep_holding_right p)) ps),
                 ds_possession_conflict := (1 < length holders)\<rparr>)
         else None)"

definition warn_disc :: "echo_session \<Rightarrow> mapping \<Rightarrow> mapping" where
  "warn_disc raw r =
     (let r = (if es_disc raw \<noteq> None \<and> tick_disc raw = None then warn_once ''disc'' ''disc_motion_unavailable'' r else r)
      in if 1 < length (disc_holders raw)
         then warn_once ''possession'' ''possession_conflict'' (tally_stats (\<lambda>s. s\<lparr>ms_conflicts := ms_conflicts s + 1\<rparr>) r) else r)"

section \<open>A player\<close>

definition map_observation :: "echo_session \<Rightarrow> int \<Rightarrow> f64 \<Rightarrow> mapper \<Rightarrow> observation_context" where
  "map_observation raw f t m = \<lparr>oc_source = ma_source m, oc_source_id = ma_source_id m, oc_source_epoch = ma_epoch m, oc_authority = ''client_reported'',
     oc_time_basis = ma_time_basis m @ (if 0 < ma_epoch m then '':clock_rebased'' else []), oc_session_id = es_session_id raw,
     oc_source_player_id = ma_client m, oc_frame_index = f, oc_timestamp = t, oc_freshness = ''sampled_snapshot''\<rparr>"

text \<open>What one tick gives all its players.\<close>

record tick =
  ti_session :: echo_session
  ti_time :: f64
  ti_frame :: int
  ti_disc :: "disc_state option"
  ti_throw :: "game_throw_details option"

definition position_error :: "echo_player \<Rightarrow> mapping_error option" where
  "position_error p = (if unusable_vector (eo_position (ep_body p)) then Some \<lparr>me_player = ep_name p, me_field = ''body.position''\<rparr> else None)"

definition map_player :: "tick \<Rightarrow> string \<Rightarrow> f64 \<Rightarrow> echo_player \<Rightarrow> mapping \<Rightarrow> telemetry_frame \<times> mapping" where
  "map_player k team dt p r0 =
     (let raw = ti_session k; i = echo_id p; head = eo_position (ep_head p);
          ((body, quality), r) = convert_basis (ep_body p) r0;
          r = warn_body quality r;
          ((left, left_ok), r) = convert_hand ''left_hand_rotation'' ''lhand_rot'' (ep_lhand p) r;
          ((right, right_ok), r) = convert_hand ''right_hand_rotation'' ''rhand_rot'' (ep_rhand p) r;
          r = warn_once ''is_boosting'' ''is_boosting'' r;
          r = (if has_velocity p then r else warn_once ''player_velocity_unavailable'' ''player_velocity_unavailable'' r);
          (phase, phases) = normalize (es_session_id raw) (es_game_status raw) (ti_time k) (ma_phases (mp_mapper r));
          r = in_mapper (\<lambda>m. m\<lparr>ma_phases := phases\<rparr>) r;
          m = mp_mapper r; obs = map_observation raw (ti_frame k) (ti_time k) m;
          own = (ma_client m \<noteq> [] \<and> i = ma_client m)
      in (\<lparr>fr_observation = Some obs, fr_held_items = Some (hand_attachments_of p),
           fr_throw_provenance = (if own \<and> ti_throw k \<noteq> None then Some (obs\<lparr>oc_freshness := ''value_change''\<rparr>) else None),
           fr_is_boosting_known = Some False, fr_player_id = i, fr_team = team, fr_frame_index = ti_frame k, fr_timestamp = ti_time k,
           fr_delta_time = dt, fr_position = eo_position (ep_body p), fr_rotation = body,
           fr_head_position = (if unusable_vector head then None else Some head),
           fr_reported_velocity = (if has_velocity p then Some (ep_velocity p) else None),
           fr_left_hand = eo_position (ep_lhand p), fr_right_hand = eo_position (ep_rhand p), fr_left_rotation = left, fr_right_rotation = right,
           fr_left_rotation_valid = Some left_ok, fr_right_rotation_valid = Some right_ok, fr_is_stunned = ep_stunned p, fr_is_boosting = False,
           fr_shield_active = ep_blocking p, fr_is_immune = ep_invulnerable p, fr_has_possession = has_disc p,
           fr_game_last_throw = (if own then ti_throw k else None), fr_disc = ti_disc k, fr_ping_ms = f_of_int (ep_ping p), fr_game_phase = phase,
           fr_has_score = True, fr_blue_score = es_blue_points raw, fr_orange_score = es_orange_points raw, fr_goals = ep_goals p, fr_stuns = ep_stuns p\<rparr>, r))"

definition delta_time :: "f64 \<Rightarrow> string \<Rightarrow> mapper \<Rightarrow> f64" where
  "delta_time t i m = (case map_of (ma_prev m) i of None \<Rightarrow> Fin 0 | Some p \<Rightarrow> let dt = fsub t p in if flt dt (Fin 0) then Fin 0 else dt)"

definition map_entry :: "tick \<Rightarrow> bool \<Rightarrow> string \<Rightarrow> echo_player \<Rightarrow> mapping \<Rightarrow> mapping" where
  "map_entry k backwards team p r0 =
     (let i = echo_id p; dt = delta_time (ti_time k) i (mp_mapper r0);
          r = (if backwards then tally_stats (\<lambda>s. s\<lparr>ms_non_monotonic := ms_non_monotonic s + 1\<rparr>) r0 else r0)
      in case position_error p of
        Some e \<Rightarrow> (tally_stats (\<lambda>s. s\<lparr>ms_rejected := ms_rejected s + 1\<rparr>) r)\<lparr>mp_errors := mp_errors r @ [e]\<rparr>
      | None \<Rightarrow>
          let (f, r) = map_player k team dt p r; r = in_mapper (\<lambda>m. m\<lparr>ma_prev := AList.update i (ti_time k) (ma_prev m)\<rparr>) r;
              r = r\<lparr>mp_frames := mp_frames r @ [f]\<rparr>
          in tally_stats (\<lambda>s. s\<lparr>ms_mapped := ms_mapped s + 1\<rparr>) r)"

definition warn_team :: "nat \<Rightarrow> echo_team \<Rightarrow> mapping \<Rightarrow> mapping" where
  "warn_team i t r =
     (if et_name t = [] then warn_once ''teams'' ''unnamed_team'' r
      else if mapped_team_name (et_name t) i = None then warn_once ''teams'' ''custom_team_names'' r else r)"

definition drop_spectators :: "echo_team \<Rightarrow> mapping \<Rightarrow> mapping" where
  "drop_spectators t r =
     (let n = length (et_players t); r = r\<lparr>mp_spectators := mp_spectators r + n\<rparr>;
          r = tally_stats (\<lambda>s. s\<lparr>ms_spectators := ms_spectators s + int n\<rparr>) r
      in if 0 < n then warn_once ''teams'' ''spectators'' r else r)"

fun map_rows :: "tick \<Rightarrow> bool \<Rightarrow> nat \<Rightarrow> (echo_team \<times> (string \<times> echo_player list) option) list \<Rightarrow> mapping \<Rightarrow> mapping" where
  "map_rows k backwards i [] r = r"
| "map_rows k backwards i ((t, None) # ts) r = map_rows k backwards (Suc i) ts (drop_spectators t r)"
| "map_rows k backwards i ((t, Some (team, ps)) # ts) r =
     map_rows k backwards (Suc i) ts (fold (map_entry k backwards team) ps (warn_team i t r))"

section \<open>A snapshot\<close>

definition note_repeats :: "echo_session \<Rightarrow> mapping \<Rightarrow> mapping" where
  "note_repeats raw r =
     (let n = repeated_entries raw in
      if n = 0 then r
      else warn_once ''teams'' ''duplicate_player_id''
        (tally_stats (\<lambda>s. s\<lparr>ms_duplicate_players := ms_duplicate_players s + int n\<rparr>) (r\<lparr>mp_repeats := n\<rparr>)))"

definition note_client :: "echo_session \<Rightarrow> mapper \<Rightarrow> mapper" where
  "note_client raw m =
     (let c = client_player raw in
      if c \<noteq> ma_client m \<or> es_session_id raw \<noteq> ma_session m
      then m\<lparr>ma_last_throw := None, ma_fingerprint := None, ma_client := c, ma_session := es_session_id raw\<rparr> else m)"

definition admit_snapshot :: "echo_session \<Rightarrow> mapper \<Rightarrow> limit_error option \<times> mapper" where
  "admit_snapshot raw m = (case snapshot_size_error raw m of Some e \<Rightarrow> (Some e, m) | None \<Rightarrow> admit_match_players raw m)"

definition seen_before :: "(field list \<Rightarrow> nat) \<Rightarrow> echo_session \<Rightarrow> mapper \<Rightarrow> bool" where
  "seen_before digest raw m \<longleftrightarrow> ma_dedupe m \<and> ma_fingerprint m = Some (digest (fingerprint_fields raw))"

definition remember_fingerprint :: "(field list \<Rightarrow> nat) \<Rightarrow> echo_session \<Rightarrow> mapper \<Rightarrow> mapper" where
  "remember_fingerprint digest raw m = (if ma_dedupe m then m\<lparr>ma_fingerprint := Some (digest (fingerprint_fields raw))\<rparr> else m)"

definition map_tick :: "echo_session \<Rightarrow> f64 \<Rightarrow> bool \<Rightarrow> mapping \<Rightarrow> mapping" where
  "map_tick raw t backwards r0 =
     (let (thrown, m) = changed_last_throw (es_last_throw raw) (mp_mapper r0); r = r0\<lparr>mp_mapper := m\<rparr>;
          thrown = (if client_player raw = [] then None else thrown);
          r = warn_disc raw r;
          k = \<lparr>ti_session = raw, ti_time = t, ti_frame = ma_frame_index m, ti_disc = tick_disc raw, ti_throw = thrown\<rparr>;
          r = map_rows k backwards 0 (rows raw) r;
          r = tally_stats (\<lambda>s. s\<lparr>ms_snapshots := ms_snapshots s + 1\<rparr>) r
      in in_mapper (\<lambda>m. m\<lparr>ma_frame_index := ma_frame_index m + 1\<rparr>) r)"

definition map_admitted :: "(field list \<Rightarrow> nat) \<Rightarrow> echo_session \<Rightarrow> time \<Rightarrow> mapper \<Rightarrow> mapping" where
  "map_admitted digest raw now m0 =
     (let m = (if ma_first m0 = None then m0\<lparr>ma_first := Some now\<rparr> else m0);
          r = note_repeats raw (start_mapping m);
          r = r\<lparr>mp_context := Some (map_match_context raw (mp_mapper r))\<rparr>;
          ((t, backwards), r) = tick_timestamp now (in_mapper (note_client raw) r)
      in if seen_before digest raw (mp_mapper r)
         then (tally_stats (\<lambda>s. s\<lparr>ms_duplicates := ms_duplicates s + 1\<rparr>) r)\<lparr>mp_skipped := True\<rparr>
         else map_tick raw t backwards (in_mapper (remember_fingerprint digest raw) r))"

definition map_session_at :: "(field list \<Rightarrow> nat) \<Rightarrow> echo_session option \<Rightarrow> time \<Rightarrow> mapper \<Rightarrow> mapping" where
  "map_session_at digest snapshot now m = (case snapshot of
     None \<Rightarrow> (start_mapping m)\<lparr>mp_errors := [\<lparr>me_player = [], me_field = ''session''\<rparr>]\<rparr>
   | Some raw \<Rightarrow>
       (case admit_snapshot raw m of
          (Some e, m) \<Rightarrow> (start_mapping m)\<lparr>mp_limit := Some e, mp_errors := [\<lparr>me_player = [], me_field = ''teams''\<rparr>]\<rparr>
        | (None, m) \<Rightarrow> map_admitted digest raw now m))"

end
