(* ===== verification/Anti_Evasion.thy ===== *)
theory Anti_Evasion
  imports Enforce "HOL-Library.Word" "HOL-Library.Multiset"
begin

text \<open>
  The evasion counter-measures (\<open>internal/antievasion/antievasion.go\<close>): the schedule that evaluates one frame of every
  block, the queue that holds enforcement actions back, and the clusters of detections across matches. Hashes are 64-bit
  words and wrap; times and durations are integers of nanoseconds. The code ranges over maps to add up severities, in an
  order Go leaves open: the clusters are visited in insertion order here, and no theorem is about that sum.
\<close>

unbundle bit_operations_syntax

section \<open>Hashes\<close>

definition fnv64 :: "string \<Rightarrow> 64 word" where
  "fnv64 b = fold (\<lambda>c h. (h XOR of_char c) * 1099511628211) b 14695981039346656037"

definition mix64 :: "64 word \<Rightarrow> 64 word" where
  "mix64 x0 =
     (let x = x0 + 0x9E3779B97F4A7C15;
          x = (x XOR drop_bit 30 x) * 0xBF58476D1CE4E5B9;
          x = (x XOR drop_bit 27 x) * 0x94D049BB133111EB
      in x XOR drop_bit 31 x)"

section \<open>The schedule\<close>

definition randomizer_seed :: "string \<Rightarrow> string \<Rightarrow> 64 word" where
  "randomizer_seed mid secret = mix64 (fnv64 secret XOR fnv64 mid)"

definition should_evaluate :: "64 word \<Rightarrow> string \<Rightarrow> int \<Rightarrow> int \<Rightarrow> bool" where
  "should_evaluate seed detector f base_interval \<longleftrightarrow>
     base_interval \<le> 1 \<or> f < 0 \<or>
     (let interval = word_of_int base_interval; block = word_of_int f div interval;
          h = mix64 (seed XOR mix64 (fnv64 detector XOR block * 0x9E3779B97F4A7C15))
      in word_of_int f mod interval = h mod interval)"

text \<open>The frame of a block that is picked, and when a frame is the picked one.\<close>

definition picked :: "64 word \<Rightarrow> string \<Rightarrow> int \<Rightarrow> int \<Rightarrow> int" where
  "picked seed detector k interval =
     k * interval + uint (mix64 (seed XOR mix64 (fnv64 detector XOR word_of_int k * 0x9E3779B97F4A7C15))) mod interval"

lemma picked_in_block: "0 < interval \<Longrightarrow> k * interval \<le> picked seed detector k interval \<and> picked seed detector k interval < (k + 1) * interval"
  by (simp add: picked_def distrib_right)

lemma div_in_block: "0 < i \<Longrightarrow> k * i \<le> f \<Longrightarrow> f < (k + 1) * i \<Longrightarrow> f div i = (k :: int)"
  by (rule int_div_pos_eq [where r = "f - k * i"]) (simp_all add: algebra_simps)

lemma block_bounds:
  assumes "0 < i"
  shows "f div i * i \<le> f" "f < (f div i + 1) * (i :: int)"
proof -
  have "f = f div i * i + f mod i" by simp
  moreover have "0 \<le> f mod i" "f mod i < i" using assms by simp_all
  ultimately show "f div i * i \<le> f" "f < (f div i + 1) * i" unfolding distrib_right by linarith+
qed

lemma uint_small: "0 \<le> n \<Longrightarrow> n < 2 ^ 63 \<Longrightarrow> uint (word_of_int n :: 64 word) = n"
  by (simp add: uint_word_of_int)

lemma should_evaluate_iff:
  assumes "1 < interval" "interval < 2 ^ 63" "0 \<le> f" "f < 2 ^ 63"
  shows "should_evaluate seed detector f interval \<longleftrightarrow> f = picked seed detector (f div interval) interval"
proof -
  have i: "uint (word_of_int interval :: 64 word) = interval" "uint (word_of_int f :: 64 word) = f"
    using assms by (simp_all add: uint_small)
  have "(word_of_int f :: 64 word) div word_of_int interval = word_of_int (f div interval)"
    by (simp add: word_div_def i)
  moreover have "(word_of_int f :: 64 word) mod word_of_int interval = h mod word_of_int interval \<longleftrightarrow> f mod interval = uint h mod interval" for h
    by (simp add: word_uint_eq_iff uint_mod i)
  moreover have "f mod interval = m \<longleftrightarrow> f = f div interval * interval + m" for m
    by (metis add_diff_cancel_left' div_mult_mod_eq)
  ultimately show ?thesis using assms by (simp add: should_evaluate_def picked_def Let_def)
qed

lemma picked_is_evaluated:
  assumes "1 < interval" "interval < 2 ^ 63" "0 \<le> k" "(k + 1) * interval \<le> 2 ^ 63"
  shows "should_evaluate seed detector (picked seed detector k interval) interval"
proof -
  let ?p = "picked seed detector k interval"
  have p: "k * interval \<le> ?p" "?p < (k + 1) * interval" using picked_in_block [of interval k] assms by simp_all
  then have "?p div interval = k" using assms by (intro div_in_block) auto
  moreover have "0 \<le> ?p" using p(1) assms by (smt (verit) mult_nonneg_nonneg)
  ultimately show ?thesis using should_evaluate_iff [OF assms(1,2), of ?p] p assms(4) by simp
qed

text \<open>C40: A detector on the randomised schedule evaluates exactly one frame of every block of \<open>baseInterval\<close> frames, whatever the match, the
  secret and the detector; and no window of \<open>2 * baseInterval - 1\<close> frames is without an evaluation.\<close>

theorem one_evaluation_per_block:
  assumes "1 < interval" "interval < 2 ^ 63" "0 \<le> f" "f + 2 * interval \<le> 2 ^ 63"
  shows "(\<exists>!g. g div interval = f div interval \<and> 0 \<le> g \<and> should_evaluate (randomizer_seed mid secret) detector g interval) \<and>
    (\<exists>g. f \<le> g \<and> g < f + (2 * interval - 1) \<and> should_evaluate (randomizer_seed mid secret) detector g interval)"
proof -
  define k where "k = f div interval"
  let ?on = "\<lambda>g. should_evaluate (randomizer_seed mid secret) detector g interval"
  let ?p = "\<lambda>k. picked (randomizer_seed mid secret) detector k interval"
  have f: "k * interval \<le> f" "f < (k + 1) * interval" "0 \<le> k"
    using assms block_bounds [of interval f] by (simp_all add: k_def pos_imp_zdiv_nonneg_iff)
  have up: "(k + 2) * interval \<le> 2 ^ 63" using f assms by (simp add: distrib_right)
  note p = picked_in_block [of interval k "randomizer_seed mid secret" detector]
  have on: "?on (?p k)" "?on (?p (k + 1))"
    using picked_is_evaluated [OF assms(1,2), of k] picked_is_evaluated [OF assms(1,2), of "k + 1"] f up assms(1) by (simp_all add: distrib_right)
  have "?p k div interval = k" using p assms(1) by (intro div_in_block) auto
  moreover have "0 \<le> ?p k" using p f assms(1) by (smt (verit) mult_nonneg_nonneg)
  moreover have "g = ?p k" if "g div interval = k" "0 \<le> g" "?on g" for g
  proof -
    have "g < (k + 1) * interval" using that(1) assms(1) block_bounds(2) [of interval g] by simp
    then show ?thesis using should_evaluate_iff [OF assms(1,2) that(2)] that up assms(1) by (simp add: distrib_right)
  qed
  ultimately have "\<exists>!g. g div interval = k \<and> 0 \<le> g \<and> ?on g" using on(1) by blast
  moreover have "\<exists>g. f \<le> g \<and> g < f + (2 * interval - 1) \<and> ?on g"
  proof (cases "f \<le> ?p k")
    case True
    then show ?thesis using on(1) p f assms(1) by (intro exI [of _ "?p k"]) (simp add: distrib_right)
  next
    case False
    then show ?thesis using on(2) picked_in_block [of interval "k + 1" "randomizer_seed mid secret" detector] p f assms(1)
      by (intro exI [of _ "?p (k + 1)"]) (simp add: distrib_right)
  qed
  ultimately show ?thesis by (simp add: k_def)
qed

section \<open>Actions held back\<close>

record delayed =
  dl_pending :: "(action \<times> time) list"
  dl_min :: duration
  dl_max :: duration

definition new_delayed :: "duration \<Rightarrow> duration \<Rightarrow> delayed" where
  "new_delayed lo hi = (let lo = (if lo < 0 then 0 else lo) in \<lparr>dl_pending = [], dl_min = lo, dl_max = (if hi < lo then lo else hi)\<rparr>)"

definition action_delay :: "delayed \<Rightarrow> action \<Rightarrow> duration" where
  "action_delay d a =
     (let h = mix64 (fnv64 (action_id a)); fraction = fdiv (f_of_int (uint (h mod 1000))) (Fin 1000) in
      dl_min d + f_to_int (fmul (f_of_int (dl_max d - dl_min d)) fraction))"

definition queue_action :: "time \<Rightarrow> action \<Rightarrow> delayed \<Rightarrow> delayed" where
  "queue_action now a d = d\<lparr>dl_pending := dl_pending d @ [(a, now + action_delay d a)]\<rparr>"

definition pending_actions :: "delayed \<Rightarrow> nat" where
  "pending_actions d = length (dl_pending d)"

definition ready_actions :: "time \<Rightarrow> delayed \<Rightarrow> action list \<times> delayed" where
  "ready_actions now d =
     (let due = (\<lambda>p. \<not> now < snd p) in (map fst (filter due (dl_pending d)), d\<lparr>dl_pending := filter (Not \<circ> due) (dl_pending d)\<rparr>))"

datatype delay_call = Queue action time | Ready time

text \<open>A run: what was handed out, with the time it was handed out at.\<close>

fun run_delayed :: "delay_call list \<Rightarrow> delayed \<Rightarrow> (action \<times> time) list \<times> delayed" where
  "run_delayed [] d = ([], d)"
| "run_delayed (Queue a now # cs) d = run_delayed cs (queue_action now a d)"
| "run_delayed (Ready now # cs) d =
     (let (out, d) = ready_actions now d; (rest, d) = run_delayed cs d in (map (\<lambda>a. (a, now)) out @ rest, d))"

definition queued_actions :: "delay_call list \<Rightarrow> action list" where
  "queued_actions cs = concat (map (\<lambda>c. case c of Queue a now \<Rightarrow> [a] | Ready now \<Rightarrow> []) cs)"

lemma queued_actions_simps [simp]:
  "queued_actions [] = []" "queued_actions (Queue a now # cs) = a # queued_actions cs" "queued_actions (Ready now # cs) = queued_actions cs"
  by (simp_all add: queued_actions_def)

lemma bounded_product:
  assumes "0 \<le> r" "r \<le> 2 ^ 62" "fle (Fin 0) x" "fle x (Fin 1)"
  shows "0 \<le> f_to_int (fmul (f_of_int r) x)"
proof -
  have "fle (Fin 0) (f_of_int r)" using assms(1) by (simp add: f_of_int_def rnd_ge0)
  moreover have "fle (f_of_int r) (Fin (2 ^ 62))"
  proof -
    have "rnd (2 ^ 62) = Fin (2 ^ 62)" by code_simp
    then show ?thesis using rnd_mono [of "of_int r" "2 ^ 62"] assms(2) by (simp add: f_of_int_def)
  qed
  moreover from calculation have "is_fin (f_of_int r)" by (cases "f_of_int r") (auto simp: is_fin_iff)
  ultimately have "fle (fmul (f_of_int r) x) (Fin (2 ^ 62))" "fle (Fin 0) (fmul (f_of_int r) x)"
    using fmul_le_self [of "f_of_int r" x] assms(3,4) by (auto intro: fle_trans)
  then show ?thesis by (cases "fmul (f_of_int r) x") (auto simp: Let_def floor_le_iff)
qed

lemma action_delay_min:
  assumes "0 \<le> dl_max d - dl_min d" "dl_max d - dl_min d \<le> 2 ^ 62"
  shows "dl_min d \<le> action_delay d a"
proof -
  obtain h where eq: "h = uint (mix64 (fnv64 (action_id a)) mod 1000)" by blast
  then have h: "0 \<le> h" "h \<le> 1000" by (simp_all add: uint_mod order.strict_implies_order)
  have r: "rnd 1 = Fin 1" "rnd 1000 = Fin 1000" by code_simp+
  have "fle (Fin 0) (f_of_int h)" using h by (simp add: f_of_int_def rnd_ge0)
  moreover have "fle (f_of_int h) (Fin 1000)" using rnd_mono [of "of_int h" 1000] h r by (simp add: f_of_int_def)
  ultimately obtain q where q: "f_of_int h = Fin q" "0 \<le> q" "q \<le> 1000" by (cases "f_of_int h") auto
  let ?x = "fdiv (f_of_int h) (Fin 1000)"
  have "?x = rnd (q / 1000)" using q by simp
  then have "fle (Fin 0) ?x" "fle ?x (Fin 1)" using rnd_ge0 [of "q / 1000"] rnd_mono [of "q / 1000" 1] q r by simp_all
  then show ?thesis using bounded_product [OF assms] by (simp add: action_delay_def eq [symmetric] Let_def)
qed

lemma delayed_fields [simp]:
  "dl_min (queue_action now a d) = dl_min d" "dl_max (queue_action now a d) = dl_max d"
  "dl_min (snd (ready_actions now d)) = dl_min d" "dl_max (snd (ready_actions now d)) = dl_max d"
  "action_delay (queue_action now b d) = action_delay d" "action_delay (snd (ready_actions now d)) = action_delay d"
  by (simp_all add: queue_action_def ready_actions_def action_delay_def [abs_def] Let_def)

lemma ready_split:
  "mset (fst (ready_actions now d)) + mset (map fst (dl_pending (snd (ready_actions now d)))) = mset (map fst (dl_pending d))"
proof -
  let ?due = "\<lambda>p. \<not> now < snd p"
  have "mset (filter ?due (dl_pending d)) + mset (filter (Not \<circ> ?due) (dl_pending d)) = mset (dl_pending d)"
    by (simp add: mset_filter o_def)
  then show ?thesis by (simp add: ready_actions_def Let_def image_mset_union [symmetric])
qed

lemma run_conserves:
  "mset (map fst (fst (run_delayed cs d))) + mset (map fst (dl_pending (snd (run_delayed cs d)))) =
    mset (queued_actions cs) + mset (map fst (dl_pending d))"
proof (induction cs d rule: run_delayed.induct)
  case (3 now cs d)
  obtain out d' where r: "ready_actions now d = (out, d')" by force
  obtain rest d2 where run: "run_delayed cs d' = (rest, d2)" by force
  have "mset (map fst rest) + mset (map fst (dl_pending d2)) = mset (queued_actions cs) + mset (map fst (dl_pending d'))"
    using 3 r run by simp
  then have "mset out + (mset (map fst rest) + mset (map fst (dl_pending d2))) = mset (queued_actions cs) + (mset out + mset (map fst (dl_pending d')))"
    by (simp only: add.left_commute)
  also have "mset out + mset (map fst (dl_pending d')) = mset (map fst (dl_pending d))" using ready_split [of now d] r by simp
  finally show ?case by (simp add: r run o_def add.assoc)
qed (simp_all add: queue_action_def)

text \<open>What waits was queued in this run, or waited before it.\<close>

lemma run_not_early:
  "(a, t) \<in> set (fst (run_delayed cs d)) \<Longrightarrow>
    (\<exists>now. Queue a now \<in> set cs \<and> now + action_delay d a \<le> t) \<or> (\<exists>e. (a, e) \<in> set (dl_pending d) \<and> e \<le> t)"
proof (induction cs d rule: run_delayed.induct)
  case (2 b now cs d)
  have "dl_pending (queue_action now b d) = dl_pending d @ [(b, now + action_delay d b)]" by (simp add: queue_action_def)
  then show ?case using 2 by auto
next
  case (3 now cs d)
  obtain out d' where r: "ready_actions now d = (out, d')" by force
  have w: "(b, e) \<in> set (dl_pending d)" if "(b, e) \<in> set (dl_pending d')" for b e using that r by (auto simp: ready_actions_def Let_def)
  have o: "\<exists>e. (b, e) \<in> set (dl_pending d) \<and> e \<le> now" if "b \<in> set out" for b
    using that r by (force simp: ready_actions_def Let_def not_less)
  have "action_delay d' = action_delay d" using delayed_fields(6) [of now d] r by simp
  moreover have "(a, t) \<in> set (fst (run_delayed cs d')) \<Longrightarrow>
      (\<exists>now. Queue a now \<in> set cs \<and> now + action_delay d' a \<le> t) \<or> (\<exists>e. (a, e) \<in> set (dl_pending d') \<and> e \<le> t)" using 3(1) r by simp
  ultimately show ?case using 3(2) r w o by (auto simp: case_prod_unfold Let_def)
qed simp

text \<open>Over any calls of \<open>Queue\<close> and \<open>Ready\<close>, at any times, every queued action is handed out exactly once or still waits, and none is handed
  out earlier than the minimal delay after it was queued.\<close>

theorem delayed_actions_run_once:
  assumes "hi - max lo 0 \<le> 2 ^ 62"
  shows "mset (map fst (fst (run_delayed cs (new_delayed lo hi)))) + mset (map fst (dl_pending (snd (run_delayed cs (new_delayed lo hi))))) =
      mset (queued_actions cs) \<and>
    list_all (\<lambda>(a, t). \<exists>now. Queue a now \<in> set cs \<and> now + lo \<le> t) (fst (run_delayed cs (new_delayed lo hi)))"
proof -
  let ?d = "new_delayed lo hi"
  have d: "dl_pending ?d = []" "lo \<le> dl_min ?d" "0 \<le> dl_max ?d - dl_min ?d" "dl_max ?d - dl_min ?d \<le> 2 ^ 62"
    using assms by (auto simp: new_delayed_def Let_def)
  have "\<exists>now. Queue a now \<in> set cs \<and> now + lo \<le> t" if "(a, t) \<in> set (fst (run_delayed cs ?d))" for a t
    using run_not_early [OF that] d(1,2) action_delay_min [OF d(3,4), of a] by force
  then show ?thesis using run_conserves [of cs ?d] d(1) by (auto simp: list_all_iff)
qed

definition sample_delay_calls :: "action \<Rightarrow> delay_call list" where
  "sample_delay_calls a = [Queue a 100, Ready 104, Ready 120, Ready 130]"

theorem delayed_actions_run_once_witness:
  "let (out, d) = run_delayed (sample_delay_calls sample_action) (new_delayed 5 9)
   in mset (map fst out) + mset (map fst (dl_pending d)) = mset [sample_action] \<and> list_all (\<lambda>(a, t). 105 \<le> t) out"
  using delayed_actions_run_once [of 9 5 "sample_delay_calls sample_action"]
  by (auto simp: sample_delay_calls_def case_prod_unfold list_all_iff)

theorem one_evaluation_per_block_witness:
  "\<exists>g. 7 \<le> g \<and> g < 7 + (2 * 5 - 1) \<and> should_evaluate (randomizer_seed ''m1'' ''secret'') ''BIO_001'' g 5"
  using one_evaluation_per_block [of 5 7 "''m1''" "''secret''" "''BIO_001''"] by simp

section \<open>Clusters of detections\<close>

record cluster_entry =
  ce_match :: string
  ce_time :: time
  ce_severity :: f64
  ce_confidence :: f64

type_synonym player_cluster = "(string, cluster_entry list) gomap"
type_synonym clusters = "(string, player_cluster) gomap"

definition record_at :: "detection_event \<Rightarrow> time \<Rightarrow> clusters \<Rightarrow> clusters" where
  "record_at e t cs =
     (let pc = gz [] cs (player_id e); entry = \<lparr>ce_match = match_id e, ce_time = t, ce_severity = severity e, ce_confidence = confidence e\<rparr>
      in AList.update (player_id e) (AList.update (detector_id e) (gz [] pc (detector_id e) @ [entry]) pc) cs)"

record cluster_stats =
  cl_total :: nat
  cl_matches :: "string list"
  cl_detectors :: "string list"
  cl_average :: f64

definition stats_of :: "player_cluster \<Rightarrow> cluster_stats" where
  "stats_of pc =
     (let held = filter (\<lambda>x. snd x \<noteq> []) pc; entries = concat (map snd held); total = length entries;
          severities = fold (\<lambda>x acc. fadd acc (ce_severity x)) entries (Fin 0)
      in \<lparr>cl_total = total, cl_matches = sorted_list_of_set (set (map ce_match entries)), cl_detectors = sort (map fst held),
          cl_average = (if 0 < total then fdiv severities (f_of_int (int total)) else Fin 0)\<rparr>)"

definition cluster_stats :: "clusters \<Rightarrow> string \<Rightarrow> cluster_stats" where
  "cluster_stats cs player = (case map_of cs player of None \<Rightarrow> \<lparr>cl_total = 0, cl_matches = [], cl_detectors = [], cl_average = Fin 0\<rparr>
     | Some pc \<Rightarrow> stats_of pc)"

definition cluster_score :: "clusters \<Rightarrow> string \<Rightarrow> f64" where
  "cluster_score cs player =
     (let st = cluster_stats cs player in
      if cl_total st = 0 then Fin 0
      else fmin (Fin 10) (fmul (fmul (f_of_int (int (length (cl_matches st)))) (f_of_int (int (length (cl_detectors st))))) (cl_average st)))"

definition prune_player :: "time \<Rightarrow> player_cluster \<Rightarrow> player_cluster" where
  "prune_player cutoff pc = filter (\<lambda>x. snd x \<noteq> []) (map (\<lambda>(d, es). (d, filter (\<lambda>x. cutoff < ce_time x) es)) pc)"

definition prune_clusters :: "time \<Rightarrow> duration \<Rightarrow> clusters \<Rightarrow> clusters" where
  "prune_clusters now max_age cs = filter (\<lambda>x. snd x \<noteq> []) (map (\<lambda>(p, pc). (p, prune_player (now - max_age) pc)) cs)"

text \<open>Pruning again, at any earlier time or with any longer age, changes nothing.\<close>

lemma prune_player_Cons:
  "prune_player c ((d, es) # pc) = (let es = filter (\<lambda>x. c < ce_time x) es in (if es = [] then [] else [(d, es)]) @ prune_player c pc)"
  by (simp add: prune_player_def Let_def)

lemma prune_player_twice: "c' \<le> c \<Longrightarrow> prune_player c' (prune_player c pc) = prune_player c pc"
proof (induction pc)
  case (Cons x pc)
  have "(\<lambda>x :: cluster_entry. c < ce_time x \<and> c' < ce_time x) = (\<lambda>x. c < ce_time x)" using Cons.prems by (auto intro!: ext)
  then show ?case using Cons by (cases x) (simp add: prune_player_Cons Let_def)
qed (simp add: prune_player_def)

lemma prune_clusters_Cons:
  "prune_clusters now age ((p, pc) # cs) = (let pc = prune_player (now - age) pc in (if pc = [] then [] else [(p, pc)]) @ prune_clusters now age cs)"
  by (simp add: prune_clusters_def Let_def)

lemma prune_twice:
  assumes "now' - age' \<le> now - age"
  shows "prune_clusters now' age' (prune_clusters now age cs) = prune_clusters now age cs"
proof (induction cs)
  case (Cons x cs)
  then show ?case using assms by (cases x) (simp add: prune_clusters_Cons prune_player_twice Let_def)
qed (simp add: prune_clusters_def)

lemma fmin_upper: "\<not> is_nan (fmin (Fin q) x) \<Longrightarrow> fle (fmin (Fin q) x) (Fin q)"
  by (cases x) (auto simp: fmin_def is_nan_def split: if_splits)

lemma cluster_score_capped: "\<not> is_nan (cluster_score cs p) \<Longrightarrow> fle (cluster_score cs p) (Fin 10)"
  by (simp add: cluster_score_def Let_def fmin_upper split: if_splits)

end
