(* ===== verification/Bridge.thy ===== *)
theory Bridge
  imports Mapper Anti_Evasion
begin

text \<open>
  The bridge's configuration, the choice of matches, the roster of a snapshot and the frame epoch of a match
  (\<open>cmd/bridge: validate.go, main.go, roster.go, epoch.go\<close>). Parsing of URLs and network addresses is a parameter: an
  \<open>addresses\<close> record says which URLs parse, which text is an address, whether it is unspecified and what prefix an item of
  an allowlist denotes. Letters outside ASCII are compared as they are (as in \<open>to_lower\<close>).
\<close>

section \<open>Configuration\<close>

record ('a, 'p) addresses =
  ad_url :: "string \<Rightarrow> bool"
  ad_parse :: "string \<Rightarrow> 'a option"
  ad_unspecified :: "'a \<Rightarrow> bool"
  ad_cidr :: "string \<Rightarrow> 'p option"
  ad_single :: "'a \<Rightarrow> 'p"
  ad_contains :: "'p \<Rightarrow> 'a \<Rightarrow> bool"

record bridge_config =
  bc_nakama_url :: string
  bc_server_key :: string
  bc_auth_mode :: string
  bc_bearer :: string
  bc_anticheat_url :: string
  bc_api_port :: int
  bc_poll :: duration
  bc_discovery :: duration
  bc_match_filter :: string
  bc_dump_dir :: string
  bc_idle :: duration
  bc_give_up :: duration
  bc_ack_timeout :: duration
  bc_queue_size :: int
  bc_modes :: string
  bc_allowlist :: string
  bc_session_check :: string
  bc_mismatch_cooldown :: duration

fun split_on :: "char \<Rightarrow> string \<Rightarrow> string list" where
  "split_on c [] = [[]]"
| "split_on c (x # s) = (if x = c then [] # split_on c s else case split_on c s of [] \<Rightarrow> [[x]] | p # ps \<Rightarrow> (x # p) # ps)"

datatype allowlist_error = Bad_item string | Empty_allowlist

fun parse_items :: "('a, 'p) addresses \<Rightarrow> string list \<Rightarrow> allowlist_error + 'p list" where
  "parse_items ad [] = Inr []"
| "parse_items ad (i # is) =
     (let i = trim_space i in
      if i = [] then parse_items ad is
      else case (if CHR ''/'' \<in> set i then ad_cidr ad i else map_option (ad_single ad) (ad_parse ad i)) of
        None \<Rightarrow> Inl (Bad_item i)
      | Some p \<Rightarrow> map_sum id ((#) p) (parse_items ad is))"

definition parse_allowlist :: "('a, 'p) addresses \<Rightarrow> string \<Rightarrow> allowlist_error + 'p list" where
  "parse_allowlist ad spec = (case parse_items ad (split_on (CHR '','') spec) of Inr [] \<Rightarrow> Inl Empty_allowlist | r \<Rightarrow> r)"

definition allows :: "('a, 'p) addresses \<Rightarrow> 'p list \<Rightarrow> string \<Rightarrow> bool" where
  "allows ad al ip = (if al = [] then True else case ad_parse ad ip of None \<Rightarrow> False | Some a \<Rightarrow> list_ex (\<lambda>p. ad_contains ad p a) al)"

datatype config_error = No_nakama_url | Bad_nakama_url | Bad_nakama_scheme | Bad_anticheat_scheme | Bad_port | Bad_poll_interval
  | Bad_discovery_interval | Negative_interval | Negative_queue | Spaced_match_filter | Unknown_auth_mode | No_bearer_token
  | No_credentials | No_server_key | Unknown_session_check | Bad_allowlist allowlist_error | Dump_while_continuous | Spaced_dump_dir

definition config_problem :: "('a, 'p) addresses \<Rightarrow> bridge_config \<Rightarrow> string \<Rightarrow> config_error option" where
  "config_problem ad c run_mode =
     (let allow = parse_allowlist ad (bc_allowlist c) in
      if bc_nakama_url c = [] then Some No_nakama_url
      else if \<not> ad_url ad (bc_nakama_url c) then Some Bad_nakama_url
      else if \<not> has_prefix (bc_nakama_url c) ''http://'' \<and> \<not> has_prefix (bc_nakama_url c) ''https://'' then Some Bad_nakama_scheme
      else if bc_anticheat_url c \<noteq> [] \<and> \<not> has_prefix (bc_anticheat_url c) ''ws://'' \<and> \<not> has_prefix (bc_anticheat_url c) ''wss://'' then Some Bad_anticheat_scheme
      else if bc_api_port c < 1 \<or> 65535 < bc_api_port c then Some Bad_port
      else if bc_poll c \<le> 0 then Some Bad_poll_interval
      else if bc_discovery c \<le> 0 then Some Bad_discovery_interval
      else if bc_idle c < 0 \<or> bc_give_up c < 0 \<or> bc_ack_timeout c < 0 then Some Negative_interval
      else if bc_queue_size c < 0 then Some Negative_queue
      else if bc_match_filter c \<noteq> trim_space (bc_match_filter c) then Some Spaced_match_filter
      else if bc_auth_mode c \<notin> set [[], ''device'', ''bearer'', ''basic''] then Some Unknown_auth_mode
      else if bc_auth_mode c = ''bearer'' \<and> bc_bearer c = [] then Some No_bearer_token
      else if bc_bearer c = [] \<and> bc_server_key c = [] then Some No_credentials
      else if (bc_auth_mode c = ''device'' \<or> bc_auth_mode c = ''basic'') \<and> bc_server_key c = [] then Some No_server_key
      else if bc_session_check c \<notin> set [[], ''strict'', ''warn'', ''off''] then Some Unknown_session_check
      else if bc_allowlist c \<noteq> [] \<and> isl allow then Some (Bad_allowlist (projl allow))
      else if bc_dump_dir c \<noteq> [] \<and> run_mode = ''continuous'' then Some Dump_while_continuous
      else if bc_dump_dir c \<noteq> [] \<and> trim_space (bc_dump_dir c) \<noteq> bc_dump_dir c then Some Spaced_dump_dir
      else None)"

definition trim_right :: "char list \<Rightarrow> string \<Rightarrow> string" where
  "trim_right cs s = rev (dropWhile (\<lambda>c. c \<in> set cs) (rev s))"

definition trim_both :: "char list \<Rightarrow> string \<Rightarrow> string" where
  "trim_both cs s = trim_right cs (dropWhile (\<lambda>c. c \<in> set cs) s)"

definition validate_config :: "('a, 'p) addresses \<Rightarrow> bridge_config \<Rightarrow> string \<Rightarrow> config_error + bridge_config" where
  "validate_config ad c run_mode = (case config_problem ad c run_mode of
     Some e \<Rightarrow> Inl e
   | None \<Rightarrow> Inr (c\<lparr>bc_nakama_url := trim_right ''/'' (bc_nakama_url c)\<rparr>))"

definition or_duration :: "duration \<Rightarrow> duration \<Rightarrow> duration" where
  "or_duration v d = (if v \<le> 0 then d else v)"

section \<open>Matches\<close>

record discovered_match =
  dm_match :: string
  dm_label :: string
  dm_mode :: string
  dm_level :: string
  dm_ip :: string

definition mode_allowed :: "string \<Rightarrow> string \<Rightarrow> bool" where
  "mode_allowed modes label =
     (let modes = trim_space modes; lower = to_lower label in
      modes = [] \<or> modes = ''*'' \<or> label = [] \<or>
      list_ex (\<lambda>m. let m = to_lower (trim_space m) in m \<noteq> [] \<and> (m = ''*'' \<or> has_prefix lower m)) (split_on (CHR '','') modes))"

datatype ip_error = Empty_ip | Spaced_ip | Invalid_ip | Unspecified_ip

definition ip_problem :: "('a, 'p) addresses \<Rightarrow> string \<Rightarrow> ip_error option" where
  "ip_problem ad ip =
     (if ip = [] then Some Empty_ip
      else if trim_space ip \<noteq> ip then Some Spaced_ip
      else case ad_parse ad ip of None \<Rightarrow> Some Invalid_ip | Some a \<Rightarrow> if ad_unspecified ad a then Some Unspecified_ip else None)"

definition allowed_match :: "('a, 'p) addresses \<Rightarrow> bridge_config \<Rightarrow> discovered_match \<Rightarrow> bool" where
  "allowed_match ad c m \<longleftrightarrow>
     (bc_match_filter c = [] \<or> dm_match m = bc_match_filter c) \<and> mode_allowed (bc_modes c) (dm_mode m) \<and>
     allows ad (case parse_allowlist ad (bc_allowlist c) of Inl e \<Rightarrow> [] | Inr al \<Rightarrow> al) (dm_ip m)"

definition filter_matches :: "('a, 'p) addresses \<Rightarrow> bridge_config \<Rightarrow> discovered_match list \<Rightarrow> discovered_match list" where
  "filter_matches ad c = filter (allowed_match ad c)"

definition select_match :: "discovered_match list \<Rightarrow> discovered_match" where
  "select_match ms = (case ms of [m] \<Rightarrow> m | _ \<Rightarrow> hd (sort_key dm_match ms))"

definition normal_id :: "string \<Rightarrow> string" where
  "normal_id s = trim_both ''{}'' (trim_space (to_lower s))"

definition uuid_part :: "string \<Rightarrow> string list" where
  "uuid_part m = (let u = takeWhile (\<lambda>c. c \<noteq> CHR ''.'') m in if u \<noteq> m \<and> u \<noteq> [] then [normal_id u] else [])"

definition session_matches :: "string \<Rightarrow> discovered_match \<Rightarrow> bool" where
  "session_matches s m \<longleftrightarrow> normal_id s \<noteq> [] \<and> normal_id s \<in> set ([normal_id (dm_match m), normal_id (dm_label m)] @ uuid_part (dm_match m))"

section \<open>Rosters\<close>

record session_roster =
  sr_teams :: "(string, string) gomap"
  sr_spectators :: "string list"
  sr_players :: nat

definition team_side :: "nat \<Rightarrow> string \<Rightarrow> string" where
  "team_side i name =
     (let u = to_upper (trim_space name) in
      if contains_string u ''BLUE'' then ''blue''
      else if contains_string u ''ORANGE'' then ''orange''
      else if u = [] \<and> i = 0 then ''blue''
      else if u = [] \<and> i = 1 then ''orange''
      else [])"

definition roster_entry :: "string \<Rightarrow> echo_player \<Rightarrow> session_roster \<Rightarrow> session_roster" where
  "roster_entry side p r =
     (if side = [] then r\<lparr>sr_spectators := sr_spectators r @ [echo_id p]\<rparr>
      else r\<lparr>sr_teams := AList.update (echo_id p) side (sr_teams r), sr_players := sr_players r + 1\<rparr>)"

definition build_roster :: "echo_session \<Rightarrow> session_roster" where
  "build_roster s =
     (let r = fold (\<lambda>(i, t). fold (roster_entry (team_side i (et_name t))) (et_players t)) (enumerate 0 (es_teams s))
            \<lparr>sr_teams = [], sr_spectators = [], sr_players = 0\<rparr>
      in r\<lparr>sr_spectators := sort (sr_spectators r)\<rparr>)"

definition fill_team :: "session_roster \<Rightarrow> telemetry_frame \<Rightarrow> telemetry_frame option" where
  "fill_team r f = (case map_of (sr_teams r) (fr_player_id f) of
     None \<Rightarrow> None
   | Some side \<Rightarrow> Some (if fr_team f = [] then f\<lparr>fr_team := side\<rparr> else f))"

definition filter_frames :: "telemetry_frame list \<Rightarrow> session_roster \<Rightarrow> telemetry_frame list \<times> nat" where
  "filter_frames fs r = (let kept = List.map_filter (fill_team r) fs in (sort_key fr_player_id kept, length fs - length kept))"

datatype session_error = No_session_id | No_players nat nat

definition session_problem :: "echo_session \<Rightarrow> session_roster \<Rightarrow> session_error option" where
  "session_problem s r =
     (if es_session_id s = [] then Some No_session_id
      else if sr_players r = 0 then Some (No_players (length (es_teams s)) (length (sr_spectators r)))
      else None)"

section \<open>The frame epoch of a match\<close>

record frame_epoch =
  ep_start :: "time option"
  ep_next :: int
  ep_last :: f64
  ep_player_ts :: "(string, f64) gomap"
  ep_session :: string
  ep_seen :: time

definition new_epoch :: "time \<Rightarrow> frame_epoch" where
  "new_epoch now = \<lparr>ep_start = None, ep_next = 0, ep_last = Fin 0, ep_player_ts = [], ep_session = [], ep_seen = now\<rparr>"

definition rebase_context :: "int \<Rightarrow> f64 \<Rightarrow> observation_context \<Rightarrow> observation_context" where
  "rebase_context i ts c = c\<lparr>oc_frame_index := i, oc_timestamp := ts\<rparr>"

definition stamp_frame :: "int \<Rightarrow> f64 \<Rightarrow> telemetry_frame \<Rightarrow> frame_epoch \<Rightarrow> telemetry_frame \<times> frame_epoch" where
  "stamp_frame i ts f e =
     (f\<lparr>fr_frame_index := i, fr_timestamp := ts, fr_observation := map_option (rebase_context i ts) (fr_observation f),
        fr_throw_provenance := map_option (rebase_context i ts) (fr_throw_provenance f),
        fr_delta_time := (case map_of (ep_player_ts e) (fr_player_id f) of Some prev \<Rightarrow> fsub ts prev | None \<Rightarrow> Fin 0)\<rparr>,
      e\<lparr>ep_player_ts := AList.update (fr_player_id f) ts (ep_player_ts e)\<rparr>)"

fun stamp_all :: "int \<Rightarrow> f64 \<Rightarrow> telemetry_frame list \<Rightarrow> frame_epoch \<Rightarrow> telemetry_frame list \<times> frame_epoch" where
  "stamp_all i ts [] e = ([], e)"
| "stamp_all i ts (f # fs) e = (let (f, e) = stamp_frame i ts f e; (fs, e) = stamp_all i ts fs e in (f # fs, e))"

definition stamp_time :: "time \<Rightarrow> frame_epoch \<Rightarrow> f64" where
  "stamp_time sample e =
     (let ts = go_seconds (time_sub sample (case ep_start e of None \<Rightarrow> sample | Some s \<Rightarrow> s))
      in if flt ts (ep_last e) then ep_last e else ts)"

definition stamp :: "time \<Rightarrow> telemetry_frame list \<Rightarrow> frame_epoch \<Rightarrow> telemetry_frame list \<times> frame_epoch" where
  "stamp sample fs e0 =
     (let e = (if ep_start e0 = None then e0\<lparr>ep_start := Some sample\<rparr> else e0);
          ts = stamp_time sample e; i = ep_next e;
          (fs, e) = stamp_all i ts fs (e\<lparr>ep_next := i + 1\<rparr>)
      in (fs, e\<lparr>ep_last := ts, ep_seen := sample\<rparr>))"

definition set_session :: "string \<Rightarrow> frame_epoch \<Rightarrow> bool \<times> frame_epoch" where
  "set_session i e = (ep_session e \<noteq> [] \<and> i \<noteq> [] \<and> ep_session e \<noteq> i, e\<lparr>ep_session := i\<rparr>)"

type_synonym epochs = "(string, frame_epoch) gomap"

definition get_epoch :: "string \<Rightarrow> time \<Rightarrow> epochs \<Rightarrow> frame_epoch \<times> epochs" where
  "get_epoch m now es = (case map_of es m of Some e \<Rightarrow> (e, es) | None \<Rightarrow> (new_epoch now, AList.update m (new_epoch now) es))"

definition touch_epoch :: "string \<Rightarrow> time \<Rightarrow> epochs \<Rightarrow> epochs" where
  "touch_epoch m now es = (case map_of es m of
     None \<Rightarrow> es
   | Some e \<Rightarrow> if ep_seen e < now then AList.update m (e\<lparr>ep_seen := now\<rparr>) es else es)"

definition expire_epochs :: "time \<Rightarrow> duration \<Rightarrow> epochs \<Rightarrow> nat \<times> epochs" where
  "expire_epochs now ttl es =
     (let kept = gfilter (\<lambda>m e. \<not> ttl < time_sub now (ep_seen e)) es in (length es - length kept, kept))"

end
