(* ===== verification/Bridge_Poller.thy ===== *)
theory Bridge_Poller
  imports Bridge
begin

text \<open>
  The poller of one match (\<open>cmd/bridge/poller.go\<close>) and the discovery cycle that starts and stops pollers
  (\<open>main.go: runBridge\<close>). A poll is a pure step: from the poller, the match's epoch and what one request gave to the new
  poller and epoch, the messages offered to the sender and, when the poller gives up, the reason. Counters and log lines
  are left out; \<open>json.Unmarshal\<close> of the body is part of the sample.
\<close>

section \<open>Configuration\<close>

definition failure_idle_threshold :: nat where "failure_idle_threshold = 30"
definition default_idle_interval :: duration where "default_idle_interval = 2 * second"
definition default_give_up :: duration where "default_give_up = 10 * minute"

definition idle_interval :: "bridge_config \<Rightarrow> duration" where
  "idle_interval c = max (or_duration (bc_idle c) default_idle_interval) (bc_poll c)"

definition give_up :: "bridge_config \<Rightarrow> duration" where
  "give_up c = or_duration (bc_give_up c) default_give_up"

section \<open>State\<close>

datatype poller_state = Active | Idle_post_match | Idle_unreachable | Idle_error

datatype poll_outcome = Poll_transport_error | Poll_non_200 | Poll_bad_body | Poll_invalid_session

datatype stop_reason = Stop_cancelled | Stop_unreachable | Stop_error | Stop_post_match | Stop_mismatch

text \<open>What a request gave: nothing usable, a cancelled context, or a body and what it decodes to.\<close>

datatype sample = No_sample poll_outcome | Cancelled | Sample string "echo_session option"

datatype message =
  Match_start string string bool "(string, string) gomap"
| Match_end string
| Batch "telemetry_frame list" string

record poller =
  po_match :: discovered_match
  po_linked :: bool
  po_state :: poller_state
  po_errors :: nat
  po_idle_since :: time
  po_started :: bool
  po_session :: string
  po_hash :: "64 word"
  po_mapper :: mapper

definition server_id :: "bridge_config \<Rightarrow> discovered_match \<Rightarrow> string" where
  "server_id c m = dm_ip m @ '':'' @ itoa (bc_api_port c)"

definition new_poller :: "bridge_config \<Rightarrow> discovered_match \<Rightarrow> bool \<Rightarrow> poller" where
  "new_poller c m linked = \<lparr>po_match = m, po_linked = linked, po_state = Active, po_errors = 0, po_idle_since = 0, po_started = False,
     po_session = [], po_hash = 0,
     po_mapper = set_dedupe True (set_observation_source ''echovr_http'' ''http_response_body_received'' (server_id c m) new_mapper)\<rparr>"

text \<open>A poll works on the poller, the epoch and the messages offered so far.\<close>

record polling =
  pl_poller :: poller
  pl_epoch :: frame_epoch
  pl_out :: "message list"

definition in_poller :: "(poller \<Rightarrow> poller) \<Rightarrow> polling \<Rightarrow> polling" where
  "in_poller g w = w\<lparr>pl_poller := g (pl_poller w)\<rparr>"

definition offer :: "message \<Rightarrow> polling \<Rightarrow> polling" where
  "offer x w = (if po_linked (pl_poller w) then w\<lparr>pl_out := pl_out w @ [x]\<rparr> else w)"

section \<open>Announcements\<close>

definition announce_start :: "echo_session \<Rightarrow> session_roster \<Rightarrow> polling \<Rightarrow> polling" where
  "announce_start s r w =
     (let m = po_match (pl_poller w); w = in_poller (\<lambda>p. p\<lparr>po_started := True\<rparr>) w
      in offer (Match_start (if es_match_type s = [] then dm_mode m else es_match_type s) (if es_map_name s = [] then dm_level m else es_map_name s)
           (es_private s) (sr_teams r)) w)"

definition announce_end :: "string \<Rightarrow> polling \<Rightarrow> polling" where
  "announce_end why w =
     (if \<not> po_started (pl_poller w) then w
      else offer (Match_end why) (in_poller (\<lambda>p. p\<lparr>po_started := False\<rparr>) w))"

definition reason_text :: "stop_reason \<Rightarrow> string" where
  "reason_text r = (case r of Stop_cancelled \<Rightarrow> ''cancelled'' | Stop_unreachable \<Rightarrow> ''broadcaster_unreachable'' | Stop_error \<Rightarrow> ''broadcaster_error''
     | Stop_post_match \<Rightarrow> ''post_match_detected'' | Stop_mismatch \<Rightarrow> ''session_mismatch'')"

section \<open>Failures\<close>

definition enter_idle :: "poller_state \<Rightarrow> time \<Rightarrow> poller \<Rightarrow> poller" where
  "enter_idle st now p = p\<lparr>po_state := st, po_idle_since := now\<rparr>"

definition record_failure :: "bridge_config \<Rightarrow> poll_outcome \<Rightarrow> time \<Rightarrow> poller \<Rightarrow> poller \<times> stop_reason option" where
  "record_failure c out now p0 =
     (let p = p0\<lparr>po_errors := po_errors p0 + 1\<rparr>; unreachable = (out = Poll_transport_error);
          target = (if unreachable then Idle_unreachable else Idle_error) in
      if po_errors p < failure_idle_threshold then (p, None)
      else if po_state p = Active then (enter_idle target now p, None)
      else (p\<lparr>po_state := target\<rparr>,
            if give_up c < time_sub now (po_idle_since p) then Some (if unreachable then Stop_unreachable else Stop_error) else None))"

definition failed_poll :: "bridge_config \<Rightarrow> poll_outcome \<Rightarrow> time \<Rightarrow> polling \<Rightarrow> polling \<times> stop_reason option" where
  "failed_poll c out now w = (let (p, r) = record_failure c out now (pl_poller w) in (w\<lparr>pl_poller := p\<rparr>, r))"

section \<open>Snapshots\<close>

definition check_mode :: "bridge_config \<Rightarrow> string" where
  "check_mode c = (if bc_session_check c = [] then ''strict'' else bc_session_check c)"

definition wrong_session :: "bridge_config \<Rightarrow> echo_session \<Rightarrow> poller \<Rightarrow> bool" where
  "wrong_session c s p \<longleftrightarrow> check_mode c \<noteq> ''off'' \<and> \<not> session_matches (es_session_id s) (po_match p)"

definition post_match_poll :: "bridge_config \<Rightarrow> time \<Rightarrow> echo_session \<Rightarrow> polling \<Rightarrow> polling \<times> stop_reason option" where
  "post_match_poll c now s w0 =
     (let w = (case po_state (pl_poller w0) of
          Idle_post_match \<Rightarrow> w0
        | Active \<Rightarrow> in_poller (enter_idle Idle_post_match now) (announce_end (reason_text Stop_post_match) w0)
        | _ \<Rightarrow> in_poller (\<lambda>p. p\<lparr>po_state := Idle_post_match\<rparr>) (announce_end (reason_text Stop_post_match) w0));
        w = w\<lparr>pl_epoch := snd (set_session (es_session_id s) (pl_epoch w))\<rparr>
      in (w, if give_up c < time_sub now (po_idle_since (pl_poller w)) then Some Stop_post_match else None))"

definition forward_frames :: "time \<Rightarrow> string \<Rightarrow> echo_session \<Rightarrow> session_roster \<Rightarrow> telemetry_frame list \<Rightarrow> polling \<Rightarrow> polling" where
  "forward_frames now body s r fs w0 =
     (let (fs, e) = stamp now fs (pl_epoch w0); w = w0\<lparr>pl_epoch := e\<rparr>;
          w = (if po_started (pl_poller w) then w else announce_start s r w)
      in offer (Batch fs body) w)"

definition map_snapshot :: "(field list \<Rightarrow> nat) \<Rightarrow> time \<Rightarrow> string \<Rightarrow> echo_session \<Rightarrow> session_roster \<Rightarrow> polling \<Rightarrow> polling" where
  "map_snapshot digest now body s r w0 =
     (let sum = fnv64 body in
      if sum = po_hash (pl_poller w0) then w0
      else
        let w = in_poller (\<lambda>p. p\<lparr>po_hash := sum\<rparr>) w0;
            m = map_session_at digest (Some s) now (po_mapper (pl_poller w));
            w = in_poller (\<lambda>p. p\<lparr>po_mapper := mp_mapper m\<rparr>) w;
            fs = fst (filter_frames (mp_frames m) r)
        in if mp_skipped m \<or> fs = [] then w else forward_frames now body s r fs w)"

definition live_poll :: "(field list \<Rightarrow> nat) \<Rightarrow> time \<Rightarrow> string \<Rightarrow> echo_session \<Rightarrow> session_roster \<Rightarrow> polling \<Rightarrow> polling" where
  "live_poll digest now body s r w0 =
     (let w = in_poller (\<lambda>p. p\<lparr>po_state := Active\<rparr>) w0;
          (changed, e) = set_session (es_session_id s) (pl_epoch w); w = w\<lparr>pl_epoch := e\<rparr>;
          w = (if changed then announce_end ''session_changed'' w else w);
          w = in_poller (\<lambda>p. p\<lparr>po_session := es_session_id s\<rparr>) w
      in map_snapshot digest now body s r w)"

definition valid_poll :: "(field list \<Rightarrow> nat) \<Rightarrow> bridge_config \<Rightarrow> time \<Rightarrow> string \<Rightarrow> echo_session \<Rightarrow> polling \<Rightarrow> polling \<times> stop_reason option" where
  "valid_poll digest c now body s w0 =
     (let w = in_poller (\<lambda>p. p\<lparr>po_errors := 0\<rparr>) w0 in
      if wrong_session c s (pl_poller w) \<and> check_mode c = ''strict'' then (w, Some Stop_mismatch)
      else if es_game_status s = ''post_match'' then post_match_poll c now s w
      else (live_poll digest now body s (build_roster s) w, None))"

definition poll :: "(field list \<Rightarrow> nat) \<Rightarrow> bridge_config \<Rightarrow> sample \<Rightarrow> time \<Rightarrow> polling \<Rightarrow> polling \<times> stop_reason option" where
  "poll digest c got now w = (case got of
     Cancelled \<Rightarrow> (w, Some Stop_cancelled)
   | No_sample out \<Rightarrow> failed_poll c out now w
   | Sample body None \<Rightarrow> failed_poll c Poll_bad_body now w
   | Sample body (Some s) \<Rightarrow>
       if session_problem s (build_roster s) \<noteq> None then failed_poll c Poll_invalid_session now w
       else valid_poll digest c now body s w)"

text \<open>The loop of \<open>run\<close> over the samples its timer takes, until a poll stops it.\<close>

fun run_poller :: "(field list \<Rightarrow> nat) \<Rightarrow> bridge_config \<Rightarrow> (sample \<times> time) list \<Rightarrow> polling \<Rightarrow> polling \<times> stop_reason option" where
  "run_poller digest c [] w = (w, None)"
| "run_poller digest c ((got, now) # xs) w = (case poll digest c got now w of
     (w, Some r) \<Rightarrow> (announce_end (reason_text r) w, Some r)
   | (w, None) \<Rightarrow> run_poller digest c xs w)"

definition start_polling :: "bridge_config \<Rightarrow> discovered_match \<Rightarrow> bool \<Rightarrow> frame_epoch \<Rightarrow> polling" where
  "start_polling c m linked e = \<lparr>pl_poller = new_poller c m linked, pl_epoch = e, pl_out = []\<rparr>"

section \<open>The discovery cycle\<close>

text \<open>The matches polled now, the matches parked after a mismatch until a time, and the epochs.\<close>

record bridge =
  br_active :: "string list"
  br_parked :: "(string, time) gomap"
  br_epochs :: epochs

definition epoch_ttl :: duration where "epoch_ttl = hour"

definition consider_match :: "('a, 'p) addresses \<Rightarrow> time \<Rightarrow> discovered_match \<Rightarrow> bridge \<times> discovered_match list \<Rightarrow> bridge \<times> discovered_match list" where
  "consider_match ad now m bs =
     (let (b, started) = bs; i = dm_match m; b = b\<lparr>br_epochs := touch_epoch i now (br_epochs b)\<rparr> in
      if i \<in> set (br_active b) then (b, started)
      else if (case map_of (br_parked b) i of None \<Rightarrow> False | Some until \<Rightarrow> now < until) then (b, started)
      else
        let b = b\<lparr>br_parked := AList.delete i (br_parked b)\<rparr> in
        if ip_problem ad (dm_ip m) \<noteq> None then (b, started)
        else (b\<lparr>br_active := i # br_active b, br_epochs := snd (get_epoch i now (br_epochs b))\<rparr>, started @ [m]))"

text \<open>One cycle gives the new pollers and the matches whose poller is cancelled: those Nakama no longer lists.\<close>

definition discover_cycle :: "('a, 'p) addresses \<Rightarrow> bridge_config \<Rightarrow> time \<Rightarrow> discovered_match list \<Rightarrow> bridge \<Rightarrow> bridge \<times> discovered_match list \<times> string list" where
  "discover_cycle ad c now listed b0 =
     (let ms = filter_matches ad c listed; (b, started) = fold (consider_match ad now) ms (b0, []);
          gone = filter (\<lambda>i. i \<notin> dm_match ` set ms) (br_active b)
      in (b\<lparr>br_epochs := snd (expire_epochs now epoch_ttl (br_epochs b))\<rparr>, started, gone))"

definition default_cooldown :: duration where "default_cooldown = 5 * minute"

text \<open>A poller that returned leaves the table; after a mismatch its match is parked.\<close>

definition poller_done :: "bridge_config \<Rightarrow> string \<Rightarrow> stop_reason \<Rightarrow> time \<Rightarrow> bridge \<Rightarrow> bridge" where
  "poller_done c i r now b =
     (let b = (if r = Stop_mismatch then b\<lparr>br_parked := AList.update i (now + or_duration (bc_mismatch_cooldown c) default_cooldown) (br_parked b)\<rparr> else b)
      in b\<lparr>br_active := remove1 i (br_active b)\<rparr>)"

end
