(* ===== verification/Mapper_Facts.thy ===== *)
theory Mapper_Facts
  imports Mapper
begin

text \<open>
  What a mapped snapshot is: one frame for every playing entry with a usable position, the first of each id, all at the
  tick's index and time, which never goes back, with the same disc and bound to the sample; a refused or repeated snapshot
  leaves no frame and no gap in the indices.
\<close>

section \<open>What the bookkeeping leaves alone\<close>

lemma in_mapper_fields [simp]:
  "mp_frames (in_mapper g r) = mp_frames r" "mp_mapper (in_mapper g r) = g (mp_mapper r)" "mp_limit (in_mapper g r) = mp_limit r"
  "mp_skipped (in_mapper g r) = mp_skipped r"
  by (simp_all add: in_mapper_def)

lemma tally_fields [simp]:
  "mp_frames (tally_stats g r) = mp_frames r" "mp_limit (tally_stats g r) = mp_limit r" "mp_skipped (tally_stats g r) = mp_skipped r"
  "ma_frame_index (mp_mapper (tally_stats g r)) = ma_frame_index (mp_mapper r)" "ma_last_tick (mp_mapper (tally_stats g r)) = ma_last_tick (mp_mapper r)"
  "ma_prev (mp_mapper (tally_stats g r)) = ma_prev (mp_mapper r)" "ma_client (mp_mapper (tally_stats g r)) = ma_client (mp_mapper r)"
  by (simp_all add: tally_stats_def)

lemma warn_once_fields [simp]:
  "mp_frames (warn_once field key r) = mp_frames r" "mp_limit (warn_once field key r) = mp_limit r" "mp_skipped (warn_once field key r) = mp_skipped r"
  "ma_frame_index (mp_mapper (warn_once field key r)) = ma_frame_index (mp_mapper r)"
  "ma_last_tick (mp_mapper (warn_once field key r)) = ma_last_tick (mp_mapper r)"
  by (simp_all add: warn_once_def)

text \<open>What every step of a tick keeps: the frames, and the mapper's index and time.\<close>

definition kept :: "mapping \<Rightarrow> telemetry_frame list \<times> int \<times> f64 option \<times> limit_error option \<times> bool" where
  "kept r = (mp_frames r, ma_frame_index (mp_mapper r), ma_last_tick (mp_mapper r), mp_limit r, mp_skipped r)"

lemma kept_simps [simp]:
  "kept (tally_stats g r) = kept r" "kept (warn_once field key r) = kept r" "kept (lose_hand r) = kept r" "kept (warn_body q r) = kept r"
  "kept (warn_disc raw r) = kept r" "kept (warn_team i t r) = kept r" "kept (drop_spectators t r) = kept r" "kept (note_repeats raw r) = kept r"
  "kept (r\<lparr>mp_context := c\<rparr>) = kept r" "kept (r\<lparr>mp_errors := es\<rparr>) = kept r"
  "kept (in_mapper (\<lambda>m. m\<lparr>ma_phases := ph\<rparr>) r) = kept r" "kept (in_mapper (\<lambda>m. m\<lparr>ma_prev := pr m\<rparr>) r) = kept r"
  "kept (in_mapper (note_client raw) r) = kept r" "kept (in_mapper (remember_fingerprint digest raw) r) = kept r"
  by (simp_all add: kept_def lose_hand_def warn_body_def warn_disc_def warn_team_def drop_spectators_def note_repeats_def note_client_def
    remember_fingerprint_def Let_def)

lemma convert_kept [simp]: "kept (snd (convert_basis h r)) = kept r" "kept (snd (convert_hand field key h r)) = kept r"
  by (simp_all add: convert_hand_def case_prod_unfold convert_basis_def Let_def)

section \<open>A player\<close>

definition frame_of :: "tick \<Rightarrow> string \<Rightarrow> echo_player \<Rightarrow> telemetry_frame \<Rightarrow> bool" where
  "frame_of k team p f \<longleftrightarrow> fr_player_id f = echo_id p \<and> fr_team f = team \<and> fr_frame_index f = ti_frame k \<and> fr_timestamp f = ti_time k \<and>
     fr_disc f = ti_disc k \<and> fr_position f = eo_position (ep_body p) \<and> \<not> flt (fr_delta_time f) (Fin 0) \<and>
     (case fr_observation f of None \<Rightarrow> False
      | Some c \<Rightarrow> oc_frame_index c = ti_frame k \<and> oc_timestamp c = ti_time k \<and> oc_session_id c = es_session_id (ti_session k))"

lemma delta_time_nonneg [simp]: "\<not> flt (delta_time t i m) (Fin 0)"
  by (simp add: delta_time_def Let_def split: option.split)

lemma kept_phases [simp]: "kept (in_mapper (ma_phases_update g) r) = kept r"
  by (simp add: kept_def)

lemma map_player_ok:
  assumes m: "map_player k team dt p r = (f, r')" and dt: "\<not> flt dt (Fin 0)"
  shows "frame_of k team p f" "kept r' = kept r"
proof -
  obtain body quality r1 where 1: "convert_basis (ep_body p) r = ((body, quality), r1)" by (metis prod.exhaust)
  obtain left lok r2 where 2: "convert_hand ''left_hand_rotation'' ''lhand_rot'' (ep_lhand p) (warn_body quality r1) = ((left, lok), r2)"
    by (metis prod.exhaust)
  obtain right rok r3 where 3: "convert_hand ''right_hand_rotation'' ''rhand_rot'' (ep_rhand p) r2 = ((right, rok), r3)" by (metis prod.exhaust)
  let ?r = "if has_velocity p then warn_once ''is_boosting'' ''is_boosting'' r3
    else warn_once ''player_velocity_unavailable'' ''player_velocity_unavailable'' (warn_once ''is_boosting'' ''is_boosting'' r3)"
  obtain ph phs where 4: "normalize (es_session_id (ti_session k)) (es_game_status (ti_session k)) (ti_time k) (ma_phases (mp_mapper ?r)) = (ph, phs)"
    by (metis prod.exhaust)
  have f: "r' = in_mapper (\<lambda>m. m\<lparr>ma_phases := phs\<rparr>) ?r" "frame_of k team p f"
    using m dt unfolding map_player_def Let_def 1 2 3 4 prod.case by (auto simp: frame_of_def map_observation_def)
  show "frame_of k team p f" by (rule f)
  have "kept r1 = kept r" "kept r2 = kept r1" "kept r3 = kept r2"
    using convert_kept(1) [of "ep_body p" r] convert_kept(2) [of _ _ "ep_lhand p" "warn_body quality r1"] convert_kept(2) [of _ _ "ep_rhand p" r2]
    by (metis 1 snd_conv, metis 2 kept_simps(4) snd_conv, metis 3 snd_conv)
  then show "kept r' = kept r" unfolding f by simp
qed

lemma map_entry_ok:
  "\<exists>fs. mp_frames (map_entry k backwards team p r) = mp_frames r @ fs \<and> list_all2 (\<lambda>x f. frame_of k (fst x) (snd x) f)
      (if position_error p = None then [(team, p)] else []) fs \<and>
    snd (kept (map_entry k backwards team p r)) = snd (kept r)"
proof (cases "position_error p")
  case None
  let ?r = "if backwards then tally_stats (\<lambda>s. s\<lparr>ms_non_monotonic := ms_non_monotonic s + 1\<rparr>) r else r"
  obtain f r' where m: "map_player k team (delta_time (ti_time k) (echo_id p) (mp_mapper r)) p ?r = (f, r')" by force
  note ok = map_player_ok [OF m delta_time_nonneg]
  have "kept r' = kept r" using ok(2) by simp
  then show ?thesis using None m ok(1) by (auto simp: map_entry_def Let_def kept_def)
qed (simp add: map_entry_def kept_def Let_def)

lemma map_entries_ok:
  "\<exists>fs. mp_frames (fold (map_entry k backwards team) ps r) = mp_frames r @ fs \<and> list_all2 (\<lambda>x f. frame_of k (fst x) (snd x) f)
      (map (Pair team) (filter (\<lambda>p. position_error p = None) ps)) fs \<and>
    snd (kept (fold (map_entry k backwards team) ps r)) = snd (kept r)"
proof (induction ps arbitrary: r)
  case (Cons p ps)
  from map_entry_ok [of k backwards team p r] obtain fs where fs: "mp_frames (map_entry k backwards team p r) = mp_frames r @ fs"
    "list_all2 (\<lambda>x f. frame_of k (fst x) (snd x) f) (if position_error p = None then [(team, p)] else []) fs"
    "snd (kept (map_entry k backwards team p r)) = snd (kept r)" by blast
  from Cons [of "map_entry k backwards team p r"] obtain gs where gs:
    "mp_frames (fold (map_entry k backwards team) ps (map_entry k backwards team p r)) = mp_frames r @ fs @ gs"
    "list_all2 (\<lambda>x f. frame_of k (fst x) (snd x) f) (map (Pair team) (filter (\<lambda>p. position_error p = None) ps)) gs"
    "snd (kept (fold (map_entry k backwards team) ps (map_entry k backwards team p r))) = snd (kept r)" using fs by auto
  show ?case using gs list_all2_appendI [OF fs(2) gs(2)] by (intro exI [of _ "fs @ gs"]) (auto split: if_splits)
qed simp

text \<open>The entries of rows that have a usable position.\<close>

definition row_entries :: "(echo_team \<times> (string \<times> echo_player list) option) list \<Rightarrow> (string \<times> echo_player) list" where
  "row_entries ts = concat (map (\<lambda>(t, r). case r of None \<Rightarrow> [] | Some (n, ps) \<Rightarrow> map (Pair n) ps) ts)"

lemma map_rows_ok:
  "\<exists>fs. mp_frames (map_rows k backwards i ts r) = mp_frames r @ fs \<and>
    list_all2 (\<lambda>x f. frame_of k (fst x) (snd x) f) (filter (\<lambda>x. position_error (snd x) = None) (row_entries ts)) fs \<and>
    snd (kept (map_rows k backwards i ts r)) = snd (kept r)"
proof (induction k backwards i ts r rule: map_rows.induct)
  case (2 k backwards i t ts r)
  have "mp_frames (drop_spectators t r) = mp_frames r"
    using arg_cong [OF kept_simps(7) [of t r], of fst] by (simp add: kept_def)
  with 2 show ?case by (simp add: row_entries_def)
next
  case (3 k backwards i t team ps ts r)
  have w: "mp_frames (warn_team i t r) = mp_frames r" using arg_cong [OF kept_simps(6) [of i t r], of fst] by (simp add: kept_def)
  from map_entries_ok [of k backwards team ps "warn_team i t r"] obtain fs where fs:
    "mp_frames (fold (map_entry k backwards team) ps (warn_team i t r)) = mp_frames r @ fs"
    "list_all2 (\<lambda>x f. frame_of k (fst x) (snd x) f) (map (Pair team) (filter (\<lambda>p. position_error p = None) ps)) fs"
    "snd (kept (fold (map_entry k backwards team) ps (warn_team i t r))) = snd (kept r)" using w by auto
  from 3 obtain gs where gs: "mp_frames (map_rows k backwards (Suc i) ts (fold (map_entry k backwards team) ps (warn_team i t r))) = mp_frames r @ fs @ gs"
    "list_all2 (\<lambda>x f. frame_of k (fst x) (snd x) f) (filter (\<lambda>x. position_error (snd x) = None) (row_entries ts)) gs"
    "snd (kept (map_rows k backwards (Suc i) ts (fold (map_entry k backwards team) ps (warn_team i t r)))) = snd (kept r)" using fs by auto
  show ?case using gs list_all2_appendI [OF fs(2) gs(2)] by (intro exI [of _ "fs @ gs"]) (auto simp: row_entries_def filter_map o_def)
qed (simp add: row_entries_def)

section \<open>Ids\<close>

lemma keep_first_ids:
  "keep_first ps seen = (qs, seen') \<Longrightarrow> distinct (map echo_id qs) \<and> set (map echo_id qs) \<inter> set seen = {} \<and> set seen' = set seen \<union> set (map echo_id qs)"
proof (induction ps arbitrary: qs seen seen')
  case (Cons p ps)
  then show ?case by (fastforce split: if_splits prod.splits simp: Let_def)
qed simp

abbreviation ids :: "(echo_team \<times> (string \<times> echo_player list) option) list \<Rightarrow> string list" where
  "ids ts \<equiv> map (echo_id \<circ> snd) (row_entries ts)"

lemma row_entries_simps [simp]:
  "row_entries [] = []" "row_entries ((t, None) # ts) = row_entries ts" "row_entries ((t, Some (n, ps)) # ts) = map (Pair n) ps @ row_entries ts"
  by (simp_all add: row_entries_def)

lemma keep_rows_ids: "distinct (ids (keep_rows ts seen)) \<and> set (ids (keep_rows ts seen)) \<inter> set seen = {}"
proof (induction ts seen rule: keep_rows.induct)
  case (3 t n ts seen)
  obtain ps seen' where k: "keep_first (et_players t) seen = (ps, seen')" by force
  have e: "ids (keep_rows ((t, Some n) # ts) seen) = map echo_id ps @ ids (keep_rows ts seen')"
    by (simp add: k o_def)
  show ?case unfolding e using keep_first_ids [OF k] 3 [OF k [symmetric] refl] unfolding distinct_append set_append by blast
qed (simp_all del: map_map)

lemma kept_entries_distinct: "distinct (map (echo_id \<circ> snd) (kept_entries raw))"
  using keep_rows_ids [of "team_roles raw" "[]"] by (simp add: kept_entries_def rows_def row_entries_def)

lemma keep_first_seen: "keep_first ps seen = (qs, seen') \<Longrightarrow> set seen' = set seen \<union> echo_id ` set ps"
proof (induction ps arbitrary: qs seen seen')
  case (Cons p ps)
  then show ?case by (fastforce split: if_splits prod.splits simp: Let_def)
qed simp

text \<open>No playing id is lost by dropping the repeats.\<close>

definition role_ids :: "(echo_team \<times> string option) list \<Rightarrow> string set" where
  "role_ids ts = echo_id ` snd ` set (concat (map (\<lambda>(t, r). case r of None \<Rightarrow> [] | Some n \<Rightarrow> map (Pair n) (et_players t)) ts))"

lemma role_ids_simps [simp]:
  "role_ids [] = {}" "role_ids ((t, None) # ts) = role_ids ts" "role_ids ((t, Some n) # ts) = echo_id ` set (et_players t) \<union> role_ids ts"
  by (simp_all add: role_ids_def image_Un image_image)

lemma keep_rows_set: "set (ids (keep_rows ts seen)) \<union> set seen = role_ids ts \<union> set seen"
proof (induction ts seen rule: keep_rows.induct)
  case (3 t n ts seen)
  obtain ps seen' where k: "keep_first (et_players t) seen = (ps, seen')" by force
  have e: "ids (keep_rows ((t, Some n) # ts) seen) = map echo_id ps @ ids (keep_rows ts seen')"
    by (simp add: k o_def)
  have s: "set seen' = set seen \<union> echo_id ` set (et_players t)" "set seen' = set seen \<union> set (map echo_id ps)"
    using keep_first_ids [OF k] keep_first_seen [OF k] by simp_all
  have "set (ids (keep_rows ts seen')) \<union> set seen' = role_ids ts \<union> set seen'" using 3 [OF k [symmetric] refl] .
  then show ?case unfolding e set_append role_ids_simps using s by blast
qed (simp_all del: map_map)

lemma kept_entries_set: "set (map (echo_id \<circ> snd) (kept_entries raw)) = set (map (echo_id \<circ> snd) (playing raw))"
  using keep_rows_set [of "team_roles raw" "[]"] by (simp add: kept_entries_def rows_def row_entries_def playing_def role_ids_def image_image)

section \<open>The time and the index of a tick\<close>

lemma flt_irrefl: "\<not> flt x x"
  by (cases x) auto

lemma next_up_not_less:
  assumes "f64_ok l"
  shows "\<not> flt (next_up l) l"
proof (cases l)
  case (Fin q)
  have u: "0 \<le> ulp_above q" "0 \<le> ulp_below (- q)" by (simp_all add: ulp_above_def ulp_below_def)
  show ?thesis
  proof (cases "0 \<le> q")
    case True
    have "fle (Fin q) (rnd (q + ulp_above q))" using rnd_mono [of q "q + ulp_above q"] u assms Fin by (simp add: f64_ok_Fin)
    then show ?thesis using True Fin by (auto simp: next_up_def dest: fle_not_flt)
  qed (use u Fin in \<open>simp add: next_up_def\<close>)
qed (simp_all add: next_up_def)

lemma tick_timestamp_ok:
  assumes t: "tick_timestamp now r = ((t, b), r')"
  shows "mp_frames r' = mp_frames r" "ma_frame_index (mp_mapper r') = ma_frame_index (mp_mapper r)" "ma_last_tick (mp_mapper r') = Some t"
    "mp_limit r' = mp_limit r" "mp_skipped r' = mp_skipped r"
    "ma_last_tick (mp_mapper r) = Some x \<Longrightarrow> f64_ok x \<Longrightarrow> \<not> flt t x"
  using assms next_up_not_less flt_irrefl by (auto simp: tick_timestamp_def Let_def split: option.splits if_splits)

lemma changed_last_throw_fields:
  "changed_last_throw g m = (x, m') \<Longrightarrow> ma_frame_index m' = ma_frame_index m \<and> ma_last_tick m' = ma_last_tick m"
  by (auto simp: changed_last_throw_def Let_def split: option.splits)

lemma map_tick_ok:
  assumes "mp_frames r = []"
  shows "\<exists>k. ti_session k = raw \<and> ti_time k = t \<and> ti_frame k = ma_frame_index (mp_mapper r) \<and> ti_disc k = tick_disc raw \<and>
    list_all2 (\<lambda>x f. frame_of k (fst x) (snd x) f) (filter (\<lambda>x. position_error (snd x) = None) (kept_entries raw)) (mp_frames (map_tick raw t b r)) \<and>
    ma_frame_index (mp_mapper (map_tick raw t b r)) = ma_frame_index (mp_mapper r) + 1 \<and>
    ma_last_tick (mp_mapper (map_tick raw t b r)) = ma_last_tick (mp_mapper r) \<and>
    mp_limit (map_tick raw t b r) = mp_limit r \<and> mp_skipped (map_tick raw t b r) = mp_skipped r"
proof -
  obtain g m where c: "changed_last_throw (es_last_throw raw) (mp_mapper r) = (g, m)" by force
  let ?k = "\<lparr>ti_session = raw, ti_time = t, ti_frame = ma_frame_index m, ti_disc = tick_disc raw,
    ti_throw = (if client_player raw = [] then None else g)\<rparr>"
  let ?r = "warn_disc raw (r\<lparr>mp_mapper := m\<rparr>)"
  have k: "kept ?r = kept r" using changed_last_throw_fields [OF c] by (simp add: kept_def [of r] kept_def [of "r\<lparr>mp_mapper := m\<rparr>"])
  from map_rows_ok [of ?k b 0 "rows raw" ?r] obtain fs where fs: "mp_frames (map_rows ?k b 0 (rows raw) ?r) = mp_frames ?r @ fs"
    "list_all2 (\<lambda>x f. frame_of ?k (fst x) (snd x) f) (filter (\<lambda>x. position_error (snd x) = None) (row_entries (rows raw))) fs"
    "snd (kept (map_rows ?k b 0 (rows raw) ?r)) = snd (kept ?r)" by blast
  show ?thesis using fs k assms changed_last_throw_fields [OF c]
    by (intro exI [of _ ?k]) (simp add: map_tick_def c Let_def kept_def kept_entries_def row_entries_def)
qed

lemma start_mapping_kept [simp]: "kept (start_mapping m) = ([], ma_frame_index m, ma_last_tick m, None, False)"
  by (simp add: kept_def start_mapping_def)

text \<open>What a snapshot that was mapped gives.\<close>

definition framed :: "echo_session \<Rightarrow> mapper \<Rightarrow> mapping \<Rightarrow> bool" where
  "framed raw m r \<longleftrightarrow> (\<exists>k. ti_session k = raw \<and> ti_frame k = ma_frame_index m \<and> ti_disc k = tick_disc raw \<and>
     list_all2 (\<lambda>x f. frame_of k (fst x) (snd x) f) (filter (\<lambda>x. position_error (snd x) = None) (kept_entries raw)) (mp_frames r) \<and>
     ma_frame_index (mp_mapper r) = ma_frame_index m + 1 \<and> ma_last_tick (mp_mapper r) = Some (ti_time k))"

definition not_before :: "f64 option \<Rightarrow> f64 option \<Rightarrow> bool" where
  "not_before t l = (case (t, l) of (Some x, Some y) \<Rightarrow> \<not> flt x y | _ \<Rightarrow> True)"

lemma framed_distinct: "framed raw m r \<Longrightarrow> distinct (map fr_player_id (mp_frames r))"
proof -
  assume "framed raw m r"
  then obtain k where "list_all2 (\<lambda>x f. frame_of k (fst x) (snd x) f) (filter (\<lambda>x. position_error (snd x) = None) (kept_entries raw)) (mp_frames r)"
    unfolding framed_def by blast
  then have "map fr_player_id (mp_frames r) = map (echo_id \<circ> snd) (filter (\<lambda>x. position_error (snd x) = None) (kept_entries raw))"
    by (induction rule: list_all2_induct) (simp_all add: frame_of_def)
  then show ?thesis using kept_entries_distinct [of raw] by (simp add: distinct_map_filter)
qed

lemma note_dedupe [simp]: "ma_dedupe (mp_mapper (note_repeats raw r)) = ma_dedupe (mp_mapper r)" "ma_dedupe (note_client raw m) = ma_dedupe m"
  by (simp_all add: note_repeats_def note_client_def warn_once_def tally_stats_def Let_def)

lemma tick_dedupe: "tick_timestamp now r = (x, r') \<Longrightarrow> ma_dedupe (mp_mapper r') = ma_dedupe (mp_mapper r)"
  by (auto simp: tick_timestamp_def warn_once_def tally_stats_def Let_def split: option.splits if_splits)

lemma admitted_tick:
  obtains t b r' where "kept r' = ([], ma_frame_index m, Some t, None, False)" "ma_dedupe (mp_mapper r') = ma_dedupe m"
    "pred_option f64_ok (ma_last_tick m) \<longrightarrow> not_before (Some t) (ma_last_tick m)"
    "map_admitted digest raw now m = (if seen_before digest raw (mp_mapper r')
       then (tally_stats (\<lambda>s. s\<lparr>ms_duplicates := ms_duplicates s + 1\<rparr>) r')\<lparr>mp_skipped := True\<rparr>
       else map_tick raw t b (in_mapper (remember_fingerprint digest raw) r'))"
proof -
  let ?m = "if ma_first m = None then m\<lparr>ma_first := Some now\<rparr> else m"
  let ?n = "note_repeats raw (start_mapping ?m)"
  let ?r = "in_mapper (note_client raw) (?n\<lparr>mp_context := Some (map_match_context raw (mp_mapper ?n))\<rparr>)"
  have k: "kept ?r = ([], ma_frame_index m, ma_last_tick m, None, False)" by simp
  obtain t b r' where t: "tick_timestamp now ?r = ((t, b), r')" by (metis prod.exhaust)
  note ok = tick_timestamp_ok [OF t]
  show thesis
  proof (rule that [of r' t b])
    show "kept r' = ([], ma_frame_index m, Some t, None, False)" using ok(1-5) k by (simp add: kept_def)
    show "ma_dedupe (mp_mapper r') = ma_dedupe m" using tick_dedupe [OF t] by (simp add: start_mapping_def)
    show "pred_option f64_ok (ma_last_tick m) \<longrightarrow> not_before (Some t) (ma_last_tick m)"
      using ok(6) k by (auto simp: kept_def not_before_def split: option.split)
  qed (simp add: map_admitted_def Let_def t)
qed

lemma admitted_map_tick:
  assumes "kept r = ([], ma_frame_index m, Some t, None, False)"
  shows "framed raw m (map_tick raw t b r) \<and> mp_limit (map_tick raw t b r) = None \<and> \<not> mp_skipped (map_tick raw t b r) \<and>
    ma_last_tick (mp_mapper (map_tick raw t b r)) = Some t"
proof -
  from assms(1) have "mp_frames r = []" by (simp add: kept_def)
  from map_tick_ok [OF this, of raw t b] assms show ?thesis unfolding framed_def by (auto simp: kept_def)
qed

lemma map_admitted_ok:
  "mp_limit (map_admitted digest raw now m) = None \<and>
   (if mp_skipped (map_admitted digest raw now m)
    then mp_frames (map_admitted digest raw now m) = [] \<and> ma_frame_index (mp_mapper (map_admitted digest raw now m)) = ma_frame_index m
    else framed raw m (map_admitted digest raw now m)) \<and>
   (\<not> ma_dedupe m \<longrightarrow> \<not> mp_skipped (map_admitted digest raw now m)) \<and>
   (pred_option f64_ok (ma_last_tick m) \<longrightarrow> not_before (ma_last_tick (mp_mapper (map_admitted digest raw now m))) (ma_last_tick m))"
proof -
  obtain t b r' where r: "kept r' = ([], ma_frame_index m, Some t, None, False)" "ma_dedupe (mp_mapper r') = ma_dedupe m"
    "pred_option f64_ok (ma_last_tick m) \<longrightarrow> not_before (Some t) (ma_last_tick m)"
    "map_admitted digest raw now m = (if seen_before digest raw (mp_mapper r')
       then (tally_stats (\<lambda>s. s\<lparr>ms_duplicates := ms_duplicates s + 1\<rparr>) r')\<lparr>mp_skipped := True\<rparr>
       else map_tick raw t b (in_mapper (remember_fingerprint digest raw) r'))"
    by (rule admitted_tick [of m digest raw now])
  let ?q = "in_mapper (remember_fingerprint digest raw) r'"
  have "kept ?q = ([], ma_frame_index m, Some t, None, False)" using r(1) by (simp only: kept_simps)
  note t = admitted_map_tick [OF this, of raw b]
  show ?thesis
  proof (cases "seen_before digest raw (mp_mapper r')")
    case True
    then show ?thesis using r by (auto simp: kept_def seen_before_def)
  qed (use r t in simp)
qed

lemma map_session_ok:
  assumes "r = map_session_at digest snapshot now m"
  shows "(snapshot = None \<or> mp_limit r \<noteq> None \<or> mp_skipped r) \<and> mp_frames r = [] \<and> ma_frame_index (mp_mapper r) = ma_frame_index m \<or>
    (\<exists>raw. snapshot = Some raw \<and> framed raw m r)"
    "pred_option f64_ok (ma_last_tick m) \<Longrightarrow> not_before (ma_last_tick (mp_mapper r)) (ma_last_tick m)"
proof -
  have "((snapshot = None \<or> mp_limit r \<noteq> None \<or> mp_skipped r) \<and> mp_frames r = [] \<and> ma_frame_index (mp_mapper r) = ma_frame_index m \<or>
    (\<exists>raw. snapshot = Some raw \<and> framed raw m r)) \<and> (pred_option f64_ok (ma_last_tick m) \<longrightarrow> not_before (ma_last_tick (mp_mapper r)) (ma_last_tick m))"
  proof (cases snapshot)
    case None
    then show ?thesis using assms flt_irrefl by (simp add: map_session_at_def start_mapping_def not_before_def split: option.split)
  next
    case (Some raw)
    obtain e m' where a: "admit_snapshot raw m = (e, m')" by force
    have m': "ma_frame_index m' = ma_frame_index m" "ma_last_tick m' = ma_last_tick m"
      using a by (auto simp: admit_snapshot_def admit_match_players_def Let_def split: option.splits if_splits)
    show ?thesis
    proof (cases e)
      case None
      have r: "r = map_admitted digest raw now m'" using assms Some a None by (simp add: map_session_at_def)
      have "framed raw m' r \<Longrightarrow> framed raw m r" by (simp add: framed_def m')
      then show ?thesis using map_admitted_ok [of digest raw now m', folded r] m' Some by (auto split: if_splits)
    next
      case (Some y)
      then show ?thesis using assms \<open>snapshot = Some raw\<close> a m' flt_irrefl
        by (simp add: map_session_at_def start_mapping_def not_before_def split: option.split)
    qed
  qed
  then show "(snapshot = None \<or> mp_limit r \<noteq> None \<or> mp_skipped r) \<and> mp_frames r = [] \<and> ma_frame_index (mp_mapper r) = ma_frame_index m \<or>
    (\<exists>raw. snapshot = Some raw \<and> framed raw m r)"
    "pred_option f64_ok (ma_last_tick m) \<Longrightarrow> not_before (ma_last_tick (mp_mapper r)) (ma_last_tick m)" by blast+
qed

lemma map_session_distinct: "distinct (map fr_player_id (mp_frames (map_session_at digest snapshot now m)))"
  using map_session_ok(1) [OF refl, where digest = digest and snapshot = snapshot and now = now and m = m] framed_distinct by auto

text \<open>C32: A snapshot becomes one frame for each playing entry with a usable body position, in roster order and the first
  entry of each id only: no id has two frames, all frames have the tick's index, time, session and disc, the time is not
  before the last tick's (clock steps included), and the index moves on by one. A missing, over-limit or repeated
  snapshot leaves no frame and no gap in the indices.\<close>

theorem snapshot_gives_one_frame_per_player:
  assumes "pred_option f64_ok (ma_last_tick m)" "r = map_session_at digest snapshot now m"
  shows "((snapshot = None \<or> mp_limit r \<noteq> None \<or> mp_skipped r) \<and> mp_frames r = [] \<and> ma_frame_index (mp_mapper r) = ma_frame_index m \<or>
      (\<exists>raw. snapshot = Some raw \<and> framed raw m r \<and> distinct (map fr_player_id (mp_frames r)) \<and>
         set (map (echo_id \<circ> snd) (kept_entries raw)) = set (map (echo_id \<circ> snd) (playing raw)))) \<and>
    not_before (ma_last_tick (mp_mapper r)) (ma_last_tick m)"
  using map_session_ok [OF assms(2)] assms(1) framed_distinct kept_entries_set by metis

definition sample_pose :: echo_pose where
  "sample_pose = \<lparr>eo_position = Vec3 (Fin 1) (Fin 0) (Fin 0), eo_forward = Vec3 (Fin 1) (Fin 0) (Fin 0),
     eo_left = Vec3 (Fin 0) (Fin 1) (Fin 0), eo_up = Vec3 (Fin 0) (Fin 0) (Fin 1)\<rparr>"

definition sample_entry :: "string \<Rightarrow> int \<Rightarrow> echo_player" where
  "sample_entry name i = \<lparr>ep_name = name, ep_user_id = i, ep_body = sample_pose, ep_head = sample_pose, ep_velocity = eo_left sample_pose,
     ep_velocity_observed = None, ep_lhand = sample_pose, ep_rhand = sample_pose, ep_stunned = False, ep_invulnerable = False,
     ep_possession = False, ep_blocking = False, ep_holding_left = ''none'', ep_holding_right = ''none'', ep_ping = 20, ep_goals = 0, ep_stuns = 0\<rparr>"

definition sample_snapshot :: echo_session where
  "sample_snapshot = \<lparr>es_session_id = ''s'', es_match_type = ''Echo_Arena'', es_map_name = ''mpl_arena_a'', es_game_status = ''playing'',
     es_game_clock = Fin 60, es_private = False, es_client_name = ''a'', es_disc = None,
     es_teams = [\<lparr>et_name = ''BLUE TEAM'', et_players = [sample_entry ''a'' 1, sample_entry ''a'' 1]\<rparr>,
       \<lparr>et_name = ''ORANGE TEAM'', et_players = [sample_entry ''b'' 2]\<rparr>], es_blue_points = 0, es_orange_points = 0, es_last_score = None, es_last_throw = None\<rparr>"

text \<open>The repeated entry of the first player gives no frame of its own: two frames.\<close>

lemma snapshot_gives_one_frame_per_player_witness:
  "framed sample_snapshot new_mapper (map_session_at (\<lambda>_. 0) (Some sample_snapshot) 0 new_mapper) \<and>
   length (kept_entries sample_snapshot) = 2 \<and> length (playing sample_snapshot) = 3"
proof -
  let ?r = "map_session_at (\<lambda>_. 0) (Some sample_snapshot) 0 new_mapper"
  have a: "admit_snapshot sample_snapshot new_mapper = (None, new_mapper)"
    by (simp add: admit_snapshot_def snapshot_size_error_def admit_match_players_def new_mapper_def Let_def)
  have "mp_limit ?r = None" "\<not> mp_skipped ?r"
    using map_admitted_ok [of "\<lambda>_. 0" sample_snapshot 0 new_mapper] a by (simp_all add: map_session_at_def new_mapper_def)
  moreover have "length (kept_entries sample_snapshot) = 2 \<and> length (playing sample_snapshot) = 3" by code_simp
  moreover have "pred_option f64_ok (ma_last_tick new_mapper)" by (simp add: new_mapper_def)
  ultimately show ?thesis using snapshot_gives_one_frame_per_player [of new_mapper ?r "\<lambda>_. 0" "Some sample_snapshot" 0] by auto
qed

end
