(* ===== verification/Bridge_Facts.thy ===== *)
theory Bridge_Facts
  imports Bridge_Poller Mapper_Facts
begin

text \<open>
  What the bridge promises the ingest server. Announcements: a poller's batches lie between one \<open>match_start\<close> and one
  \<open>match_end\<close>, and a stopped poller has none open. Identities: over the whole life of a match's epoch, however many pollers
  use it, indices rise, times do not fall and no two frames share an identity. Giving up: a broadcaster that only fails or
  stays in \<open>post_match\<close> is dropped after a number of polls.
\<close>

definition sample_bridge_config :: bridge_config where
  "sample_bridge_config = \<lparr>bc_nakama_url = ''http://n'', bc_server_key = ''k'', bc_auth_mode = [], bc_bearer = [], bc_anticheat_url = ''ws://a'',
     bc_api_port = 6721, bc_poll = 50000000, bc_discovery = 10 * second, bc_match_filter = [], bc_dump_dir = [], bc_idle = 0, bc_give_up = 0,
     bc_ack_timeout = 0, bc_queue_size = 0, bc_modes = [], bc_allowlist = [], bc_session_check = [], bc_mismatch_cooldown = 0\<rparr>"

definition sample_lobby :: discovered_match where
  "sample_lobby = \<lparr>dm_match = ''s.nakama'', dm_label = ''s'', dm_mode = ''echo_arena'', dm_level = ''mpl_arena_a'', dm_ip = ''10.0.0.1''\<rparr>"

section \<open>Announcements\<close>

fun opened :: "bool \<Rightarrow> message list \<Rightarrow> bool option" where
  "opened b [] = Some b"
| "opened b (Match_start g l p ts # xs) = (if b then None else opened True xs)"
| "opened b (Match_end why # xs) = (if b then opened False xs else None)"
| "opened b (Batch fs body # xs) = (if b \<and> fs \<noteq> [] then opened b xs else None)"

lemma opened_append: "opened b (xs @ ys) = Option.bind (opened b xs) (\<lambda>c. opened c ys)"
  by (induction b xs rule: opened.induct) simp_all

definition announced :: "polling \<Rightarrow> bool" where
  "announced w \<longleftrightarrow> (po_linked (pl_poller w) \<longrightarrow> opened False (pl_out w) = Some (po_started (pl_poller w)))"

lemma announced_in_poller [intro]:
  assumes "announced w" "po_linked (g (pl_poller w)) = po_linked (pl_poller w)" "po_started (g (pl_poller w)) = po_started (pl_poller w)"
  shows "announced (in_poller g w)"
  using assms by (simp add: announced_def in_poller_def)

lemma announced_epoch [simp]: "announced (w\<lparr>pl_epoch := e\<rparr>) = announced w"
  by (simp add: announced_def)

lemma announce_end_closed: "announced w \<Longrightarrow> announced (announce_end why w) \<and> \<not> po_started (pl_poller (announce_end why w))"
  by (auto simp: announce_end_def announced_def offer_def in_poller_def opened_append)

lemma announce_end_fields [simp]:
  "pl_epoch (announce_end why w) = pl_epoch w" "po_linked (pl_poller (announce_end why w)) = po_linked (pl_poller w)"
  "po_state (pl_poller (announce_end why w)) = po_state (pl_poller w)" "po_errors (pl_poller (announce_end why w)) = po_errors (pl_poller w)"
  "po_idle_since (pl_poller (announce_end why w)) = po_idle_since (pl_poller w)" "po_match (pl_poller (announce_end why w)) = po_match (pl_poller w)"
  by (simp_all add: announce_end_def offer_def in_poller_def)

lemma announce_start_open: "announced w \<Longrightarrow> \<not> po_started (pl_poller w) \<Longrightarrow> announced (announce_start s r w) \<and> po_started (pl_poller (announce_start s r w))"
  by (simp add: announce_start_def announced_def offer_def in_poller_def opened_append Let_def)

lemma stamp_all_length: "length (fst (stamp_all i ts fs e)) = length fs"
  by (induction fs arbitrary: e) (simp_all add: case_prod_unfold Let_def)

lemma forward_announced:
  assumes "announced w" "fs \<noteq> []"
  shows "announced (forward_frames now body s r fs w)"
proof -
  obtain gs e where g: "stamp now fs (pl_epoch w) = (gs, e)" by force
  have n: "gs \<noteq> []"
    using g assms(2) arg_cong [OF stamp_all_length, of "\<lambda>n. n = 0"] by (auto simp: stamp_def Let_def case_prod_unfold)
  let ?w = "if po_started (pl_poller w) then w\<lparr>pl_epoch := e\<rparr> else announce_start s r (w\<lparr>pl_epoch := e\<rparr>)"
  have "announced ?w \<and> po_started (pl_poller ?w)" using assms(1) announce_start_open [of "w\<lparr>pl_epoch := e\<rparr>" s r] by auto
  then show ?thesis using n unfolding forward_frames_def g by (auto simp: announced_def offer_def opened_append Let_def)
qed

lemma map_snapshot_announced: "announced w \<Longrightarrow> announced (map_snapshot digest now body s r w)"
  by (auto simp: map_snapshot_def Let_def intro!: forward_announced announced_in_poller)

lemma live_poll_announced: "announced w \<Longrightarrow> announced (live_poll digest now body s r w)"
  by (auto simp: live_poll_def Let_def case_prod_unfold intro!: map_snapshot_announced announced_in_poller announce_end_closed [THEN conjunct1])

lemma post_match_announced: "announced w \<Longrightarrow> announced (fst (post_match_poll c now s w))"
  by (auto simp: post_match_poll_def enter_idle_def Let_def announce_end_closed split: poller_state.split intro!: announced_in_poller)

lemma failed_poll_announced: "announced w \<Longrightarrow> announced (fst (failed_poll c x now w))"
  by (simp add: failed_poll_def record_failure_def enter_idle_def announced_def Let_def)

lemma poll_announced: "announced w \<Longrightarrow> announced (fst (poll digest c got now w))"
  by (auto simp: poll_def valid_poll_def Let_def failed_poll_announced
    split: sample.split option.split intro!: post_match_announced live_poll_announced announced_in_poller)

lemma run_announced:
  "announced w \<Longrightarrow> announced (fst (run_poller digest c xs w)) \<and>
    (snd (run_poller digest c xs w) \<noteq> None \<longrightarrow> \<not> po_started (pl_poller (fst (run_poller digest c xs w))))"
proof (induction digest c xs w rule: run_poller.induct)
  case (2 digest c got now xs w)
  obtain w' r where p: "poll digest c got now w = (w', r)" by force
  then have "announced w'" using poll_announced [of w digest c got now] 2(2) by simp
  then show ?case using p 2(1) [OF p [symmetric]] by (cases r) (auto simp: announce_end_closed)
qed simp

text \<open>What a poll leaves alone of the poller.\<close>

lemma poll_linked: "po_linked (pl_poller (fst (poll digest c got now w))) = po_linked (pl_poller w)"
  by (simp add: poll_def valid_poll_def failed_poll_def record_failure_def enter_idle_def post_match_poll_def live_poll_def map_snapshot_def
    forward_frames_def announce_start_def offer_def in_poller_def Let_def case_prod_unfold split: sample.split option.split poller_state.split)

lemma run_linked: "po_linked (pl_poller (fst (run_poller digest c xs w))) = po_linked (pl_poller w)"
proof (induction digest c xs w rule: run_poller.induct)
  case (2 digest c got now xs w)
  obtain w' r where p: "poll digest c got now w = (w', r)" by force
  then show ?case using poll_linked [of digest c got now w] 2 [OF p [symmetric]] by (cases r) auto
qed simp

text \<open>C35: What a poller tells the ingest server is well bracketed: every batch is non-empty and lies between a match_start and its
  match_end, no match is started twice or ended twice without a start between, and when the poller stops, for whatever
  reason, nothing it announced is left open.\<close>

theorem announcements_are_bracketed:
  "case run_poller digest c xs (start_polling c m True e) of (w, r) \<Rightarrow>
     opened False (pl_out w) = Some (po_started (pl_poller w)) \<and> (r = None \<or> opened False (pl_out w) = Some False)"
proof -
  have "announced (start_polling c m True e)" by (simp add: announced_def start_polling_def new_poller_def)
  from run_announced [OF this, of digest c xs] run_linked [of digest c xs "start_polling c m True e"] show ?thesis
    by (auto simp: announced_def start_polling_def new_poller_def split: prod.split)
qed

section \<open>Giving up\<close>

text \<open>A sample that shows no game: a failure of any kind, or a valid \<open>post_match\<close> snapshot of the right session.\<close>

definition ended_game :: "bridge_config \<Rightarrow> discovered_match \<Rightarrow> echo_session \<Rightarrow> bool" where
  "ended_game c m s \<longleftrightarrow> session_problem s (build_roster s) = None \<and> es_game_status s = ''post_match'' \<and>
     (check_mode c = ''strict'' \<longrightarrow> session_matches (es_session_id s) m)"

definition quiet :: "bridge_config \<Rightarrow> discovered_match \<Rightarrow> sample \<Rightarrow> bool" where
  "quiet c m x = (case x of No_sample out \<Rightarrow> True | Cancelled \<Rightarrow> False | Sample body None \<Rightarrow> True
     | Sample body (Some s) \<Rightarrow> session_problem s (build_roster s) \<noteq> None \<or> ended_game c m s)"

text \<open>Such a poll either counts a failure or sees the end of the game; both are steps on the state, the failures and the idle clock.\<close>

lemma quiet_poll:
  assumes "quiet c (po_match (pl_poller w)) x"
  shows "(\<exists>out. poll digest c x now w = failed_poll c out now w) \<or>
    (\<exists>s. poll digest c x now w = post_match_poll c now s (in_poller (\<lambda>p. p\<lparr>po_errors := 0\<rparr>) w))"
  using assms by (auto simp: quiet_def poll_def valid_poll_def ended_game_def wrong_session_def in_poller_def Let_def
    split: sample.splits option.splits)

text \<open>How many quiet polls a poller that is asked every \<open>d\<close> can still take at \<open>now\<close>.\<close>

definition patience :: "bridge_config \<Rightarrow> duration \<Rightarrow> time \<Rightarrow> poller \<Rightarrow> nat" where
  "patience c d now p =
     (if po_state p = Active then (30 - po_errors p) + nat (give_up c div d) + 32
      else if now \<le> po_idle_since p + give_up c then nat ((po_idle_since p + give_up c - now) div d) + 31
      else 30 - po_errors p)"

lemma div_step:
  assumes "(0 :: int) < d" "0 \<le> b" "b + d \<le> a"
  shows "nat (b div d) < nat (a div d)"
proof -
  have "b div d + 1 \<le> a div d" using assms zdiv_mono1 [of "b + d" a d] by simp
  moreover have "0 \<le> b div d" using assms by (simp add: pos_imp_zdiv_nonneg_iff)
  ultimately show ?thesis by linarith
qed

lemma failed_patience:
  assumes "failed_poll c out now w = (w', None)" "0 < d" "before + d \<le> now" "0 \<le> give_up c" "give_up c < max_duration"
  shows "patience c d now (pl_poller w') < patience c d before (pl_poller w) \<and> po_match (pl_poller w') = po_match (pl_poller w)"
proof -
  let ?p = "pl_poller w"
  have g: "\<not> give_up c < time_sub now t \<Longrightarrow> now \<le> t + give_up c" for t using assms(4,5) by (auto simp: time_sub_def)
  show ?thesis
  proof (cases "po_state ?p = Active")
    case True
    then show ?thesis using assms(1,2,4) by (auto simp: failed_poll_def record_failure_def enter_idle_def patience_def failure_idle_threshold_def Let_def split: if_splits)
  next
    case False
    show ?thesis
    proof (cases "now \<le> po_idle_since ?p + give_up c")
      case True
      then have "nat ((po_idle_since ?p + give_up c - now) div d) < nat ((po_idle_since ?p + give_up c - before) div d)"
        using assms(2,3) by (intro div_step) auto
      then show ?thesis using False True assms(1-3) by (auto simp: failed_poll_def record_failure_def patience_def Let_def split: if_splits)
    next
      case late: False
      then show ?thesis using False assms(1) g [of "po_idle_since ?p"]
        by (auto simp: failed_poll_def record_failure_def patience_def failure_idle_threshold_def Let_def split: if_splits)
    qed
  qed
qed

lemma post_match_patience:
  assumes "post_match_poll c now s (in_poller (\<lambda>p. p\<lparr>po_errors := 0\<rparr>) w) = (w', None)" "0 < d" "before + d \<le> now" "0 \<le> give_up c" "give_up c < max_duration"
  shows "patience c d now (pl_poller w') < patience c d before (pl_poller w) \<and> po_match (pl_poller w') = po_match (pl_poller w)"
proof -
  let ?p = "pl_poller w"
  have w': "po_state (pl_poller w') = Idle_post_match" "po_match (pl_poller w') = po_match ?p"
    "po_idle_since (pl_poller w') = (if po_state ?p = Active then now else po_idle_since ?p)"
    "\<not> give_up c < time_sub now (po_idle_since (pl_poller w'))"
    using assms(1) by (auto simp: post_match_poll_def Let_def enter_idle_def in_poller_def split: poller_state.splits)
  have g: "now \<le> po_idle_since (pl_poller w') + give_up c" using w'(4) assms(4,5) by (auto simp: time_sub_def split: if_splits)
  show ?thesis
  proof (cases "po_state ?p = Active")
    case True
    then show ?thesis using w' g by (simp add: patience_def)
  next
    case False
    then have "nat ((po_idle_since ?p + give_up c - now) div d) < nat ((po_idle_since ?p + give_up c - before) div d)"
      using assms(2,3) w'(3) g by (intro div_step) auto
    then show ?thesis using False w' g assms(2,3) by (simp add: patience_def)
  qed
qed

text \<open>Polls at least \<open>d\<close> apart, the first at least \<open>d\<close> after \<open>t\<close>.\<close>

fun spaced :: "duration \<Rightarrow> time \<Rightarrow> (sample \<times> time) list \<Rightarrow> bool" where
  "spaced d t [] = True"
| "spaced d t ((x, u) # xs) = (t + d \<le> u \<and> spaced d u xs)"

lemma run_gives_up:
  assumes "0 < d" "0 \<le> give_up c" "give_up c < max_duration"
  shows "spaced d t xs \<Longrightarrow> list_all (\<lambda>(x, u). quiet c (po_match (pl_poller w)) x) xs \<Longrightarrow> patience c d t (pl_poller w) < length xs \<Longrightarrow>
    snd (run_poller digest c xs w) \<noteq> None"
proof (induction xs arbitrary: t w)
  case (Cons x xs)
  obtain got u where x: "x = (got, u)" by force
  obtain w' r where p: "poll digest c got u w = (w', r)" by force
  show ?case
  proof (cases r)
    case None
    have "patience c d u (pl_poller w') < patience c d t (pl_poller w) \<and> po_match (pl_poller w') = po_match (pl_poller w)"
      using quiet_poll [of c w got digest u] failed_patience [of c _ u w w' d t] post_match_patience [of c u _ w w' d t] Cons.prems assms p None x
      by auto
    then show ?thesis using Cons.IH [of u w'] Cons.prems x p None by simp
  qed (simp add: x p)
qed simp

text \<open>C36: A poller does not poll for ever: whatever mixture of failures and post_match snapshots a broadcaster gives, at polls at least
  \<open>d\<close> apart it stops within 63 polls more than the give-up time divided by \<open>d\<close>.\<close>

theorem poller_gives_up:
  assumes "0 < d" "0 \<le> bc_give_up c" "bc_give_up c < max_duration" "spaced d t xs" "list_all (\<lambda>(x, u). quiet c m x) xs"
    "nat (give_up c div d) + 62 < length xs"
  shows "snd (run_poller digest c xs (start_polling c m linked e)) \<noteq> None"
proof -
  have g: "0 \<le> give_up c" "give_up c < max_duration"
    using assms(2,3) by (auto simp: give_up_def or_duration_def default_give_up_def minute_def second_def max_duration_def)
  show ?thesis
    by (rule run_gives_up [OF assms(1) g, where t = t])
      (use assms(4-6) in \<open>simp_all add: start_polling_def new_poller_def patience_def\<close>)
qed

lemma poller_gives_up_witness:
  "snd (run_poller (\<lambda>_. 0) sample_bridge_config (map (\<lambda>n. (No_sample Poll_transport_error, int n * minute)) [1..<74])
     (start_polling sample_bridge_config sample_lobby True (new_epoch 0))) \<noteq> None"
proof -
  let ?xs = "map (\<lambda>n. (No_sample Poll_transport_error, int n * minute)) [1..<74]"
  have s: "spaced minute (int n * minute) (map (\<lambda>n. (x, int n * minute)) [Suc n..<Suc n + k])" for n k x
  proof (induction k arbitrary: n)
    case (Suc k)
    show ?case using Suc [of "Suc n"] by (simp add: upt_conv_Cons algebra_simps del: upt_Suc)
  qed simp
  have "spaced minute 0 ?xs" using s [of 0 "No_sample Poll_transport_error" 73] by simp
  moreover have "list_all (\<lambda>(x, u). quiet sample_bridge_config sample_lobby x) ?xs" by (simp add: list_all_iff quiet_def)
  moreover have "nat (give_up sample_bridge_config div minute) + 62 < length ?xs"
    by (simp add: sample_bridge_config_def give_up_def or_duration_def default_give_up_def minute_def second_def)
  moreover have "0 < minute" "0 \<le> bc_give_up sample_bridge_config" "bc_give_up sample_bridge_config < max_duration"
    by (simp_all add: sample_bridge_config_def minute_def second_def max_duration_def)
  ultimately show ?thesis using poller_gives_up [of minute sample_bridge_config 0 ?xs sample_lobby "\<lambda>_. 0" True "new_epoch 0"] by blast
qed

section \<open>Custom team names\<close>

lemma fold_spectators: "fold (roster_entry []) ps r = r\<lparr>sr_spectators := sr_spectators r @ map echo_id ps\<rparr>"
  by (induction ps arbitrary: r) (simp_all add: roster_entry_def)

lemma fold_sideless:
  assumes "list_all (\<lambda>(i, t). team_side i (et_name t) = []) ts"
  shows "sr_players (fold (\<lambda>(i, t). fold (roster_entry (team_side i (et_name t))) (et_players t)) ts r) = sr_players r"
  using assms by (induction ts arbitrary: r) (auto simp: fold_spectators)


definition custom_snapshot :: echo_session where
  "custom_snapshot = sample_snapshot\<lparr>es_teams := [\<lparr>et_name = ''SHARKS'', et_players = [sample_entry ''a'' 1]\<rparr>,
     \<lparr>et_name = ''JETS'', et_players = [sample_entry ''b'' 2]\<rparr>, \<lparr>et_name = ''SPECTATORS'', et_players = []\<rparr>]\<rparr>"


section \<open>Discovery\<close>

text \<open>What a cycle keeps while it goes through the matches: one poller per match, and nothing parked is started.\<close>

definition parked_until :: "bridge \<Rightarrow> time \<Rightarrow> string \<Rightarrow> bool" where
  "parked_until b now i \<longleftrightarrow> (case map_of (br_parked b) i of None \<Rightarrow> False | Some u \<Rightarrow> now < u)"

definition same_stream :: "frame_epoch \<Rightarrow> frame_epoch \<Rightarrow> bool" where
  "same_stream e e' \<longleftrightarrow> e\<lparr>ep_seen := 0\<rparr> = e'\<lparr>ep_seen := 0\<rparr>"

definition cycling :: "('a, 'p) addresses \<Rightarrow> time \<Rightarrow> bridge \<Rightarrow> bridge \<times> discovered_match list \<Rightarrow> bool" where
  "cycling ad now b0 bs \<longleftrightarrow>
     br_active (fst bs) = rev (map dm_match (snd bs)) @ br_active b0 \<and> distinct (br_active (fst bs)) \<and>
     list_all (\<lambda>m. ip_problem ad (dm_ip m) = None \<and> \<not> parked_until b0 now (dm_match m)) (snd bs) \<and>
     (\<forall>i. parked_until (fst bs) now i = parked_until b0 now i) \<and>
     (\<forall>i e. map_of (br_epochs b0) i = Some e \<longrightarrow> (\<exists>e'. map_of (br_epochs (fst bs)) i = Some e' \<and> same_stream e e'))"

lemma touch_same: "map_of es i = Some e \<Longrightarrow> \<exists>e'. map_of (touch_epoch j now es) i = Some e' \<and> same_stream e e'"
  by (auto simp: touch_epoch_def same_stream_def update_conv' split: option.split)

lemma get_same: "map_of es i = Some e \<Longrightarrow> map_of (snd (get_epoch j now es)) i = Some e"
  by (auto simp: get_epoch_def update_conv' split: option.split)

lemma same_stream_trans: "same_stream a b \<Longrightarrow> same_stream b c \<Longrightarrow> same_stream a c"
  by (simp add: same_stream_def)

lemma consider_cycling:
  assumes "cycling ad now b0 (b, started)"
  shows "cycling ad now b0 (consider_match ad now m (b, started))"
proof -
  let ?i = "dm_match m"
  have ep: "\<exists>e'. map_of (touch_epoch ?i now (br_epochs b)) i = Some e' \<and> same_stream e e'" if "map_of (br_epochs b0) i = Some e" for i e
    using that assms touch_same same_stream_trans unfolding cycling_def fst_conv by blast
  have ep': "\<exists>e'. map_of (snd (get_epoch ?i now (touch_epoch ?i now (br_epochs b)))) i = Some e' \<and> same_stream e e'"
    if "map_of (br_epochs b0) i = Some e" for i e
    using ep [OF that] get_same by metis
  have p0: "parked_until b now i = parked_until b0 now i" for i using assms by (simp add: cycling_def)
  let ?b = "b\<lparr>br_epochs := touch_epoch ?i now (br_epochs b)\<rparr>"
  let ?c = "?b\<lparr>br_parked := AList.delete ?i (br_parked b)\<rparr>"
  let ?d = "?c\<lparr>br_active := ?i # br_active b, br_epochs := snd (get_epoch ?i now (br_epochs ?c))\<rparr>"
  have e: "consider_match ad now m (b, started) =
      (if ?i \<in> set (br_active b) \<or> parked_until b now ?i then (?b, started) else if ip_problem ad (dm_ip m) \<noteq> None then (?c, started) else (?d, started @ [m]))"
    by (simp add: consider_match_def parked_until_def Let_def split: option.split)
  have b: "parked_until ?b now i = parked_until b0 now i" for i using p0 by (simp add: parked_until_def)
  have c: "parked_until ?c now i = parked_until b0 now i" "parked_until ?d now i = parked_until b0 now i" if "\<not> parked_until b now ?i" for i
    using p0 [of i] that by (auto simp: parked_until_def delete_conv' split: option.splits)
  have old: "br_active b = rev (map dm_match started) @ br_active b0" "distinct (br_active b)"
    "list_all (\<lambda>m. ip_problem ad (dm_ip m) = None \<and> \<not> parked_until b0 now (dm_match m)) started"
    using assms unfolding cycling_def fst_conv snd_conv by blast+
  consider "?i \<in> set (br_active b) \<or> parked_until b now ?i" | "\<not> (?i \<in> set (br_active b) \<or> parked_until b now ?i)" "ip_problem ad (dm_ip m) \<noteq> None"
    | "\<not> (?i \<in> set (br_active b) \<or> parked_until b now ?i)" "ip_problem ad (dm_ip m) = None" by blast
  then show ?thesis
  proof cases
    case 1
    then show ?thesis using e b old ep by (simp add: cycling_def)
  next
    case 2
    then show ?thesis using e c old ep by (simp add: cycling_def)
  next
    case 3
    then have "\<not> parked_until b0 now ?i" using p0 by simp
    then show ?thesis using 3 e c old ep' by (simp add: cycling_def)
  qed
qed

lemma fold_consider_cycling: "cycling ad now b0 bs \<Longrightarrow> cycling ad now b0 (fold (consider_match ad now) ms bs)"
proof (induction ms arbitrary: bs)
  case (Cons m ms)
  then show ?case using consider_cycling [of ad now b0 "fst bs" "snd bs" m] by simp
qed simp

lemma consider_started: "set (snd (consider_match ad now m bs)) \<subseteq> insert m (set (snd bs))"
  by (auto simp: consider_match_def Let_def split: prod.splits option.splits if_splits)

lemma fold_consider_started: "set (snd (fold (consider_match ad now) ms bs)) \<subseteq> set ms \<union> set (snd bs)"
proof (induction ms arbitrary: bs)
  case (Cons m ms)
  show ?case using consider_started [of ad now m bs] Cons.IH [of "consider_match ad now m bs"] unfolding fold_Cons o_apply list.set by blast
qed simp

text \<open>A listed match was seen now.\<close>

definition seen_at :: "time \<Rightarrow> string \<Rightarrow> bridge \<Rightarrow> bool" where
  "seen_at now i b \<longleftrightarrow> (case map_of (br_epochs b) i of None \<Rightarrow> False | Some e \<Rightarrow> now \<le> ep_seen e)"

lemma consider_epochs:
  "br_epochs (fst (consider_match ad now m bs)) = touch_epoch (dm_match m) now (br_epochs (fst bs)) \<or>
   br_epochs (fst (consider_match ad now m bs)) = snd (get_epoch (dm_match m) now (touch_epoch (dm_match m) now (br_epochs (fst bs))))"
  by (auto simp: consider_match_def Let_def split: prod.splits option.splits if_splits)

lemma consider_gok: "gok (br_epochs (fst bs)) \<Longrightarrow> gok (br_epochs (fst (consider_match ad now m bs)))"
  using consider_epochs [of ad now m bs] by (auto simp: touch_epoch_def get_epoch_def split: option.splits)

lemma consider_seen:
  assumes "seen_at now i (fst bs) \<or> i = dm_match m \<and> map_of (br_epochs (fst bs)) i \<noteq> None"
  shows "seen_at now i (fst (consider_match ad now m bs))"
proof -
  have t: "case map_of (touch_epoch (dm_match m) now (br_epochs (fst bs))) i of None \<Rightarrow> False | Some e \<Rightarrow> now \<le> ep_seen e"
    using assms by (auto simp: seen_at_def touch_epoch_def update_conv' split: option.splits)
  then show ?thesis using consider_epochs [of ad now m bs] get_same by (fastforce simp: seen_at_def split: option.splits)
qed

lemma fold_seen:
  "gok (br_epochs (fst bs)) \<Longrightarrow> gok (br_epochs (fst (fold (consider_match ad now) ms bs)))"
  "seen_at now i (fst bs) \<Longrightarrow> seen_at now i (fst (fold (consider_match ad now) ms bs))"
  by (induction ms arbitrary: bs) (simp_all add: consider_gok consider_seen)

lemma fold_lists:
  assumes "i \<in> dm_match ` set ms" "map_of (br_epochs (fst bs)) i \<noteq> None"
  shows "seen_at now i (fst (fold (consider_match ad now) ms bs))"
  using assms
proof (induction ms arbitrary: bs)
  case (Cons m ms)
  show ?case
  proof (cases "i = dm_match m")
    case True
    then show ?thesis using consider_seen [of now i bs m ad] fold_seen(2) Cons.prems(2) by simp
  next
    case False
    have "map_of (br_epochs (fst (consider_match ad now m bs))) i \<noteq> None"
      using consider_epochs [of ad now m bs] Cons.prems(2) touch_same get_same by (metis not_None_eq option.distinct(1))
    then show ?thesis using Cons False by simp
  qed
qed simp

text \<open>C38: A discovery cycle starts pollers for allowed matches with a usable endpoint only, never for one that is polled already, twice
  for one match or while the match is parked after a session mismatch; it cancels exactly the polled matches no longer
  listed; and a listed match keeps its frame epoch, whose numbers so continue under its next poller.\<close>

theorem discovery_runs_one_poller_per_match:
  assumes "distinct (br_active b)" "gok (br_epochs b)"
  shows "case discover_cycle ad c now listed b of (b', started, gone) \<Rightarrow>
    br_active b' = rev (map dm_match started) @ br_active b \<and> distinct (br_active b') \<and>
    list_all (\<lambda>m. allowed_match ad c m \<and> ip_problem ad (dm_ip m) = None \<and> \<not> parked_until b now (dm_match m)) started \<and>
    set gone = set (br_active b') - dm_match ` set (filter_matches ad c listed) \<and>
    (\<forall>m\<in>set (filter_matches ad c listed). \<forall>e. map_of (br_epochs b) (dm_match m) = Some e \<longrightarrow>
       (\<exists>e'. map_of (br_epochs b') (dm_match m) = Some e' \<and> same_stream e e'))"
proof -
  let ?ms = "filter_matches ad c listed"
  obtain b1 started where f: "fold (consider_match ad now) ?ms (b, []) = (b1, started)" by force
  have "cycling ad now b (b, [])" using assms(1) by (simp add: cycling_def same_stream_def)
  from fold_consider_cycling [OF this, of ?ms] have c: "cycling ad now b (b1, started)" by (simp add: f)
  have st: "set started \<subseteq> set ?ms" using fold_consider_started [of ad now ?ms "(b, [])"] by (simp add: f)
  have g: "gok (br_epochs b1)" using fold_seen(1) [of "(b, [])" ad now ?ms] assms(2) by (simp add: f)
  have keep: "\<exists>e'. map_of (snd (expire_epochs now epoch_ttl (br_epochs b1))) (dm_match m) = Some e' \<and> same_stream e e'"
    if l: "m \<in> set ?ms" "map_of (br_epochs b) (dm_match m) = Some e" for m e
  proof -
    obtain e' where e': "map_of (br_epochs b1) (dm_match m) = Some e'" "same_stream e e'" using c l(2) unfolding cycling_def fst_conv by blast
    have "now \<le> ep_seen e'" using fold_lists [of "dm_match m" ?ms "(b, [])" now ad] l e'(1) by (auto simp: f seen_at_def)
    then have "\<not> epoch_ttl < time_sub now (ep_seen e')"
      by (simp add: time_sub_def epoch_ttl_def hour_def minute_def second_def min_duration_def max_duration_def)
    then show ?thesis using e' g by (simp add: expire_epochs_def Let_def map_of_gfilter)
  qed
  have c': "br_active b1 = rev (map dm_match started) @ br_active b" "distinct (br_active b1)"
    "list_all (\<lambda>m. ip_problem ad (dm_ip m) = None \<and> \<not> parked_until b now (dm_match m)) started"
    using c unfolding cycling_def fst_conv snd_conv by blast+
  then have al: "list_all (\<lambda>m. allowed_match ad c m \<and> ip_problem ad (dm_ip m) = None \<and> \<not> parked_until b now (dm_match m)) started"
    using st by (auto simp: list_all_iff filter_matches_def)
  have gone: "set (filter (\<lambda>i. i \<notin> dm_match ` set ?ms) (br_active b1)) = set (br_active b1) - dm_match ` set ?ms" by auto
  have sel: "br_active (b1\<lparr>br_epochs := es\<rparr>) = br_active b1" "br_epochs (b1\<lparr>br_epochs := es\<rparr>) = es" for es by simp_all
  show ?thesis unfolding discover_cycle_def Let_def f prod.case sel
    by (intro conjI ballI allI impI c'(1,2) al gone keep)
qed

definition sample_addresses :: "(unit, unit) addresses" where
  "sample_addresses = \<lparr>ad_url = (\<lambda>u. True), ad_parse = (\<lambda>i. Some ()), ad_unspecified = (\<lambda>a. False), ad_cidr = (\<lambda>i. None),
     ad_single = (\<lambda>a. ()), ad_contains = (\<lambda>p a. True)\<rparr>"

definition idle_bridge :: bridge where
  "idle_bridge = \<lparr>br_active = [], br_parked = [], br_epochs = []\<rparr>"

text \<open>A match listed twice gets one poller.\<close>

lemma discovery_runs_one_poller_per_match_witness:
  "case discover_cycle sample_addresses sample_bridge_config 0 [sample_lobby, sample_lobby] idle_bridge of (b, started, gone) \<Rightarrow>
     br_active b = [dm_match sample_lobby] \<and> started = [sample_lobby] \<and> gone = []"
proof -
  have "distinct (br_active idle_bridge)" "gok (br_epochs idle_bridge)" by (simp_all add: idle_bridge_def)
  note at = discovery_runs_one_poller_per_match [OF this, of sample_addresses sample_bridge_config 0 "[sample_lobby, sample_lobby]"]
  have s: "snd (discover_cycle sample_addresses sample_bridge_config 0 [sample_lobby, sample_lobby] idle_bridge) = ([sample_lobby], [])"
    by code_simp
  show ?thesis using at s by (auto simp: idle_bridge_def split: prod.splits)
qed

end
