(* ===== verification/Bridge_Stream.thy ===== *)
theory Bridge_Stream
  imports Bridge_Facts Live_Retry
begin

text \<open>
  The stream of one match. An epoch hands out indices that rise by one per sample and times that never fall, whatever the
  clock does; with the mapper's distinct ids no two frames a bridge sends for a match have the same identity. The second
  part puts the ingest server behind it: a stamped sample passes its ordering check exactly if its time moved.
\<close>

section \<open>Seconds of a duration\<close>

lemma fin_bounded:
  assumes "\<bar>q\<bar> \<le> 2 ^ 63"
  shows "\<exists>v. rnd q = Fin v \<and> \<bar>v\<bar> \<le> 2 ^ 63"
proof -
  have lo: "rnd (- (2 ^ 63)) = Fin (- (2 ^ 63))" by (rule rnd_two_power_neg) simp
  have hi: "rnd (2 ^ 63) = Fin (2 ^ 63)" by (simp only: rnd_two_power) simp
  have "fle (rnd (- (2 ^ 63))) (rnd q)" "fle (rnd q) (rnd (2 ^ 63))" using assms by (intro rnd_mono; linarith)+
  then show ?thesis unfolding lo hi by (cases "rnd q") auto
qed

lemma signed_part:
  assumes "0 \<le> x" "x \<le> 2 ^ 63"
  shows "\<bar>of_int (sgn d * x) :: rat\<bar> \<le> 2 ^ 63"
proof -
  have "\<bar>sgn d * x\<bar> \<le> 2 ^ 63" using assms by (auto simp: abs_mult sgn_if)
  then have "of_int \<bar>sgn d * x\<bar> \<le> (of_int (2 ^ 63) :: rat)" by (simp only: of_int_le_iff)
  then show ?thesis by simp
qed

lemma go_seconds_fin:
  assumes "\<bar>d\<bar> \<le> 2 ^ 63"
  shows "is_fin (go_seconds d)" "f64_ok (go_seconds d)"
proof -
  have "\<bar>d\<bar> div second \<le> 2 ^ 63" using assms unfolding second_def by linarith
  then have w: "\<bar>of_int (sgn d * (\<bar>d\<bar> div second)) :: rat\<bar> \<le> 2 ^ 63"
    by (intro signed_part) (simp_all add: second_def pos_imp_zdiv_nonneg_iff)
  have m: "\<bar>d\<bar> mod second < second" by (simp add: second_def)
  then have r: "\<bar>of_int (sgn d * (\<bar>d\<bar> mod second)) :: rat\<bar> \<le> 2 ^ 63"
    by (intro signed_part) (simp_all add: second_def)
  obtain a where a: "f_of_int (sgn d * (\<bar>d\<bar> div second)) = Fin a" "\<bar>a\<bar> \<le> 2 ^ 63" using fin_bounded [OF w] by (auto simp: f_of_int_def)
  obtain b where b: "f_of_int (sgn d * (\<bar>d\<bar> mod second)) = Fin b" "\<bar>b\<bar> \<le> 2 ^ 63" using fin_bounded [OF r] by (auto simp: f_of_int_def)
  have "\<bar>b / 10 ^ 9\<bar> \<le> 2 ^ 63" using b(2) by (simp add: abs_divide divide_le_eq)
  from fin_bounded [OF this] obtain q where q: "rnd (b / 10 ^ 9) = Fin q" "\<bar>q\<bar> \<le> 2 ^ 63" by auto
  have "\<bar>a + q\<bar> \<le> 2 ^ 64" using a(2) q(2) abs_triangle_ineq [of a q] by simp
  then show "is_fin (go_seconds d)" using rnd_fin [of 64 "a + q"] a b q by (simp add: go_seconds_def)
  show "f64_ok (go_seconds d)" using a b q by (simp add: go_seconds_def)
qed

lemma time_sub_bounded: "\<bar>time_sub a b\<bar> \<le> 2 ^ 63"
  by (simp add: time_sub_def min_duration_def max_duration_def)

section \<open>Epochs\<close>

definition epoch_ok :: "frame_epoch \<Rightarrow> bool" where
  "epoch_ok e \<longleftrightarrow> 0 \<le> ep_next e \<and> (\<exists>q. ep_last e = Fin q \<and> rnd q = Fin q \<and> 0 \<le> q) \<and> list_all (\<lambda>(i, t). fle t (ep_last e)) (ep_player_ts e)"

lemma new_epoch_ok: "epoch_ok (new_epoch now)"
  by (simp add: epoch_ok_def new_epoch_def)

lemma stamp_time_ok:
  assumes "epoch_ok e"
  shows "\<exists>q. stamp_time now e = Fin q \<and> rnd q = Fin q \<and> 0 \<le> q" "fle (ep_last e) (stamp_time now e)"
proof -
  obtain l where l: "ep_last e = Fin l" "rnd l = Fin l" "0 \<le> l" using assms by (auto simp: epoch_ok_def)
  let ?d = "time_sub now (case ep_start e of None \<Rightarrow> now | Some s \<Rightarrow> s)"
  obtain q where q: "go_seconds ?d = Fin q" "rnd q = Fin q"
    using go_seconds_fin [OF time_sub_bounded] by (metis f64_ok_Fin is_fin_iff)
  show "\<exists>q. stamp_time now e = Fin q \<and> rnd q = Fin q \<and> 0 \<le> q" "fle (ep_last e) (stamp_time now e)"
    using l q by (auto simp: stamp_time_def Let_def)
qed

text \<open>What a stamped frame looks like.\<close>

definition stamped :: "int \<Rightarrow> f64 \<Rightarrow> telemetry_frame \<Rightarrow> telemetry_frame \<Rightarrow> bool" where
  "stamped i t f g \<longleftrightarrow> fr_player_id g = fr_player_id f \<and> fr_frame_index g = i \<and> fr_timestamp g = t \<and> \<not> flt (fr_delta_time g) (Fin 0)"

lemma fsub_nonneg: "fle x y \<Longrightarrow> \<not> flt (fsub y x) (Fin 0)"
  by (cases x; cases y) (auto simp: fsub_def fle_not_flt [OF rnd_ge0] split: if_splits)

lemma stamp_all_ok:
  assumes "stamp_all i t fs e = (gs, e')" "list_all (\<lambda>(j, u). fle u t) (ep_player_ts e)" "fle t t"
  shows "list_all2 (stamped i t) fs gs \<and> list_all (\<lambda>(j, u). fle u t) (ep_player_ts e') \<and> ep_next e' = ep_next e \<and> ep_last e' = ep_last e"
  using assms
proof (induction fs arbitrary: e gs)
  case (Cons f fs)
  obtain g e1 where g: "stamp_frame i t f e = (g, e1)" by force
  obtain hs where h: "stamp_all i t fs e1 = (hs, e')" "gs = g # hs" using Cons.prems(1) g by (auto simp: Let_def split: prod.splits)
  have "stamped i t f g" using g Cons.prems(2) by (auto simp: stamp_frame_def stamped_def list_all_iff fsub_nonneg dest!: map_of_SomeD split: option.splits)
  moreover have "list_all (\<lambda>(j, u). fle u t) (ep_player_ts e1)"
    using g Cons.prems(2,3) set_update_subset [of "fr_player_id f" t "ep_player_ts e"] by (fastforce simp: stamp_frame_def list_all_iff)
  moreover have "ep_next e1 = ep_next e" "ep_last e1 = ep_last e" using g by (auto simp: stamp_frame_def)
  ultimately show ?case using Cons.IH [OF h(1)] Cons.prems(3) h(2) by simp
qed simp

lemma stamp_ok:
  assumes e: "epoch_ok e" and s: "stamp now fs e = (gs, e')"
  shows "list_all2 (stamped (ep_next e) (ep_last e')) fs gs" "epoch_ok e'" "ep_next e' = ep_next e + 1" "fle (ep_last e) (ep_last e')"
proof -
  let ?e = "if ep_start e = None then e\<lparr>ep_start := Some now\<rparr> else e"
  let ?t = "stamp_time now ?e"
  have e1: "epoch_ok ?e" using e by (simp add: epoch_ok_def)
  note t = stamp_time_ok [OF e1, of now]
  obtain e2 where a: "stamp_all (ep_next e) ?t fs (?e\<lparr>ep_next := ep_next e + 1\<rparr>) = (gs, e2)" "e' = e2\<lparr>ep_last := ?t, ep_seen := now\<rparr>"
    using s by (auto simp: stamp_def Let_def split: prod.splits if_splits)
  have "list_all (\<lambda>(j, u). fle u ?t) (ep_player_ts (?e\<lparr>ep_next := ep_next e + 1\<rparr>))"
    using e1 t(2) fle_trans by (fastforce simp: epoch_ok_def list_all_iff)
  moreover have "fle ?t ?t" using t(1) by auto
  ultimately have ok: "list_all2 (stamped (ep_next e) ?t) fs gs" "list_all (\<lambda>(j, u). fle u ?t) (ep_player_ts e2)" "ep_next e2 = ep_next e + 1"
    using stamp_all_ok [OF a(1)] by simp_all
  show "list_all2 (stamped (ep_next e) (ep_last e')) fs gs" "ep_next e' = ep_next e + 1" using ok a(2) by simp_all
  show "epoch_ok e'" using ok(2,3) a(2) t(1) e by (simp add: epoch_ok_def)
  show "fle (ep_last e) (ep_last e')" using t(2) a(2) by (cases "ep_start e") simp_all
qed

section \<open>What is sent for a match\<close>

definition sent_frames :: "message list \<Rightarrow> telemetry_frame list" where
  "sent_frames out = concat (map (\<lambda>m. case m of Batch fs body \<Rightarrow> fs | _ \<Rightarrow> []) out)"

lemma sent_frames_simps [simp]: "sent_frames [] = []" "sent_frames (xs @ ys) = sent_frames xs @ sent_frames ys"
  "sent_frames [Batch fs body] = fs" "sent_frames [Match_end why] = []" "sent_frames [Match_start g l p ts] = []"
  by (simp_all add: sent_frames_def)

definition follows :: "telemetry_frame \<Rightarrow> telemetry_frame \<Rightarrow> bool" where
  "follows f g \<longleftrightarrow> fr_frame_index f \<le> fr_frame_index g \<and> fle (fr_timestamp f) (fr_timestamp g)"

definition stream :: "frame_epoch \<Rightarrow> telemetry_frame list \<Rightarrow> bool" where
  "stream e fs \<longleftrightarrow> epoch_ok e \<and> distinct (map frame_key fs) \<and> sorted_wrt follows fs \<and>
     list_all (\<lambda>f. fr_frame_index f < ep_next e \<and> fle (fr_timestamp f) (ep_last e) \<and> \<not> flt (fr_delta_time f) (Fin 0)) fs"

lemma stream_stamp:
  assumes e: "stream e fs" and s: "stamp now hs e = (gs, e')" and d: "distinct (map fr_player_id hs)"
  shows "stream e' fs \<and> stream e' (fs @ gs)"
proof -
  have ok: "epoch_ok e" using e by (simp add: stream_def)
  note st = stamp_ok [OF ok s]
  have g: "list_all (\<lambda>g. fr_frame_index g = ep_next e \<and> fr_timestamp g = ep_last e' \<and> \<not> flt (fr_delta_time g) (Fin 0)) gs"
    using st(1) by (induction rule: list_all2_induct) (auto simp: stamped_def)
  have "map frame_key gs = map (\<lambda>f. (fr_player_id f, ep_next e)) hs"
    using st(1) by (induction rule: list_all2_induct) (auto simp: stamped_def frame_key_def)
  then have dg: "distinct (map frame_key gs)" using d by (simp add: distinct_map inj_on_def)
  obtain q where q: "ep_last e' = Fin q" using st(2) by (auto simp: epoch_ok_def)
  have sg: "sorted_wrt follows gs" using g q by (induction gs) (auto simp: follows_def list_all_iff)
  have f: "list_all (\<lambda>f. fr_frame_index f < ep_next e \<and> fle (fr_timestamp f) (ep_last e') \<and> \<not> flt (fr_delta_time f) (Fin 0)) fs"
    using e st(4) fle_trans by (fastforce simp: stream_def list_all_iff)
  have dis: "frame_key ` set fs \<inter> frame_key ` set gs = {}"
    using f g by (fastforce simp: list_all_iff frame_key_def)
  have "sorted_wrt follows (fs @ gs)" using e sg f g by (auto simp: stream_def sorted_wrt_append follows_def list_all_iff)
  then show ?thesis using e f g st(2,3) dg dis q by (auto simp: stream_def list_all_iff)
qed

lemma stream_session [simp]: "stream (snd (set_session i e)) fs = stream e fs"
  by (simp add: stream_def epoch_ok_def set_session_def)

definition streaming :: "telemetry_frame list \<Rightarrow> polling \<Rightarrow> bool" where
  "streaming prior w \<longleftrightarrow> stream (pl_epoch w) (prior @ sent_frames (pl_out w))"

lemma streaming_simps [simp]:
  "streaming prior (in_poller g w) = streaming prior w" "streaming prior (w\<lparr>pl_poller := p\<rparr>) = streaming prior w"
  "streaming prior (announce_end why w) = streaming prior w"
  "streaming prior (w\<lparr>pl_epoch := snd (set_session i e)\<rparr>) = streaming prior (w\<lparr>pl_epoch := e\<rparr>)"
  by (simp_all add: streaming_def in_poller_def announce_end_def offer_def)

lemma filtered_distinct:
  assumes "distinct (map fr_player_id fs)"
  shows "distinct (map fr_player_id (fst (filter_frames fs r)))"
proof -
  have id: "fill_team r f = Some g \<Longrightarrow> fr_player_id g = fr_player_id f" for f g
    by (auto simp: fill_team_def split: option.splits if_splits)
  have sub: "set (map fr_player_id (List.map_filter (fill_team r) fs)) \<subseteq> set (map fr_player_id fs)" for fs
    by (induction fs) (auto simp: map_filter_simps id split: option.splits)
  have "distinct (map fr_player_id (List.map_filter (fill_team r) fs))" using assms
  proof (induction fs)
    case (Cons f fs)
    then show ?case using sub [of fs] by (auto simp: map_filter_simps id split: option.splits)
  qed (simp add: map_filter_simps)
  then show ?thesis by (simp add: filter_frames_def Let_def distinct_map)
qed

lemma forward_streaming:
  assumes "streaming prior w" "distinct (map fr_player_id fs)"
  shows "streaming prior (forward_frames now body s r fs w)"
proof -
  obtain gs e where g: "stamp now fs (pl_epoch w) = (gs, e)" by force
  from stream_stamp [OF assms(1) [unfolded streaming_def] g assms(2)]
  show ?thesis by (auto simp: forward_frames_def g Let_def announce_start_def offer_def in_poller_def streaming_def)
qed

lemma live_poll_streaming: "streaming prior w \<Longrightarrow> streaming prior (live_poll digest now body s r w)"
  by (auto simp: live_poll_def map_snapshot_def Let_def case_prod_unfold filtered_distinct map_session_distinct intro!: forward_streaming)

lemma poll_streaming: "streaming prior w \<Longrightarrow> streaming prior (fst (poll digest c got now w))"
  by (auto simp: poll_def valid_poll_def Let_def failed_poll_def post_match_poll_def case_prod_unfold
    split: sample.split option.split poller_state.split intro!: live_poll_streaming)

lemma run_streaming: "streaming prior w \<Longrightarrow> streaming prior (fst (run_poller digest c xs w))"
proof (induction digest c xs w rule: run_poller.induct)
  case (2 digest c got now xs w)
  obtain w' r where p: "poll digest c got now w = (w', r)" by force
  then show ?case using poll_streaming [of prior w digest c got now] 2(1) [OF p [symmetric]] 2(2) by (cases r) auto
qed simp

text \<open>The pollers a bridge runs for one match, one after the other, over one epoch.\<close>

fun bridge_runs :: "(field list \<Rightarrow> nat) \<Rightarrow> bridge_config \<Rightarrow> (discovered_match \<times> (sample \<times> time) list) list \<Rightarrow> frame_epoch \<Rightarrow> message list \<times> frame_epoch" where
  "bridge_runs digest c [] e = ([], e)"
| "bridge_runs digest c ((m, xs) # rs) e =
     (let w = fst (run_poller digest c xs (start_polling c m True e)); (out, e) = bridge_runs digest c rs (pl_epoch w)
      in (pl_out w @ out, e))"

lemma bridge_runs_stream:
  "stream e prior \<Longrightarrow> stream (snd (bridge_runs digest c rs e)) (prior @ sent_frames (fst (bridge_runs digest c rs e)))"
proof (induction digest c rs e arbitrary: prior rule: bridge_runs.induct)
  case (2 digest c m xs rs e)
  let ?w = "fst (run_poller digest c xs (start_polling c m True e))"
  have "streaming prior (start_polling c m True e)" using 2(2) by (simp add: streaming_def start_polling_def)
  then have "stream (pl_epoch ?w) (prior @ sent_frames (pl_out ?w))" using run_streaming by (simp add: streaming_def)
  from 2(1) [OF refl this] show ?case by (simp add: case_prod_unfold Let_def)
qed simp

text \<open>C33: Whatever a broadcaster answers and whatever the clock does, the frames a bridge sends for one match over the whole life of
  its epoch - poller restarts, rematches and clock steps included - never share an identity (player, index), their indices
  and times never fall, no spacing is negative, and the epoch's counters stay ahead of them.\<close>

theorem match_stream_has_unique_identities:
  "case bridge_runs digest c rs (new_epoch now) of (out, e) \<Rightarrow> stream e (sent_frames out)"
proof -
  have "stream (new_epoch now) []" by (simp add: stream_def new_epoch_ok)
  from bridge_runs_stream [OF this, of digest c rs] show ?thesis by (simp add: case_prod_unfold)
qed

section \<open>At the ingest server\<close>

lemma judge_stamped:
  assumes "0 \<le> i" "0 \<le> q" "fr_frame_index g = i" "fr_timestamp g = Fin q" "map_of (fs_seen s) (frame_key g) = None" "bk_last_index b < i"
  shows "judge_frame stored b s g = (if in_order s g then Keep else Reject)"
  using assms by (auto simp: judge_frame_def Let_def is_nan_def is_inf_def)

text \<open>A whole sample against a state behind it, or against one at its own tick.\<close>

lemma sift_rejects:
  assumes "list_all (\<lambda>g. fr_frame_index g = i \<and> fr_timestamp g = Fin q) gs" "0 \<le> i" "0 \<le> q" "bk_last_index b < i"
    "fs_seen s = []" "fs_have_time s" "fs_last_index s < i" "fle (Fin q) (fs_last_time s)"
  shows "fs_kept (sift stored b gs s) = fs_kept s"
  using assms(1,5-8)
proof (induction gs arbitrary: s)
  case (Cons g gs)
  have "judge_frame stored b s g = Reject"
    using judge_stamped [OF assms(2,3), of g s b stored] Cons.prems assms(4) by (auto simp: in_order_def)
  then show ?case using Cons by (simp add: take_frame_def Let_def)
qed simp

lemma sift_keeps_tick:
  assumes "list_all (\<lambda>g. fr_frame_index g = i \<and> fr_timestamp g = Fin q) gs" "0 \<le> i" "0 \<le> q" "rnd q = Fin q" "bk_last_index b < i"
    "distinct (map frame_key gs)" "fst ` set (fs_seen s) \<inter> frame_key ` set gs = {}"
    "fs_have_time s" "fs_last_index s = i" "fs_last_time s = Fin q"
  shows "fs_kept (sift stored b gs s) = fs_kept s @ gs"
  using assms(1,6-10)
proof (induction gs arbitrary: s)
  case (Cons g gs)
  have n: "map_of (fs_seen s) (frame_key g) = None" using Cons.prems(3) by (auto simp: map_of_eq_None_iff)
  have "judge_frame stored b s g = Keep"
    using judge_stamped [OF assms(2,3), of g s b stored] Cons.prems n assms(5) same_tick_refl [OF assms(4,3)] by (auto simp: in_order_def)
  moreover have "fst ` set (AList.update (frame_key g) g (fs_seen s)) \<inter> frame_key ` set gs = {}"
    using Cons.prems(2,3) by (auto simp: dom_update [unfolded dom_map_of_conv_image_fst])
  ultimately show ?case using Cons.IH [of "take_frame Keep g s"] Cons.prems by (simp add: take_frame_def Let_def)
qed simp

lemma sift_keeps:
  assumes g: "list_all (\<lambda>g. fr_frame_index g = i \<and> fr_timestamp g = Fin q) gs" "0 \<le> i" "0 \<le> q" "rnd q = Fin q" "bk_last_index b < i"
    "distinct (map frame_key gs)" and s: "fs_seen s = []" "fs_last_index s < i" "fs_have_time s \<Longrightarrow> flt (fs_last_time s) (Fin q)"
  shows "fs_kept (sift stored b gs s) = fs_kept s @ gs"
proof (cases gs)
  case (Cons h hs)
  have "judge_frame stored b s h = Keep"
    using judge_stamped [OF g(2,3), of h s b stored] g(1,5) s Cons by (auto simp: in_order_def dest: flt_not_fle)
  moreover have "fst ` set (fs_seen (take_frame Keep h s)) \<inter> frame_key ` set hs = {}"
    using g(6) s Cons by (auto simp: take_frame_def Let_def)
  moreover have "fs_have_time (take_frame Keep h s)" "fs_last_index (take_frame Keep h s) = i" "fs_last_time (take_frame Keep h s) = Fin q"
    using g(1) Cons by (simp_all add: take_frame_def Let_def)
  ultimately show ?thesis using sift_keeps_tick [of i q hs b "take_frame Keep h s" stored] g Cons by (simp add: take_frame_def Let_def)
qed simp

text \<open>C34: The ingest server and the epoch meet at the clock: a sample stamped after the last stored one is accepted whole if the
  bridge's clock lies after that sample, and if the clock stands or steps back every frame of it is rejected - the epoch
  repeats the last time under a new index, which the server's ordering check refuses.\<close>

theorem sample_accepted_iff_clock_moved:
  assumes "epoch_ok e" "ep_start e = Some start" "distinct (map fr_player_id fs)" "stamp now fs e = (gs, e')"
    "bk_last_index b < ep_next e" "bk_have_time b" "bk_last_time b = ep_last e"
  shows "fs_kept (sift stored b gs (fresh_start b)) = (if flt (ep_last e) (go_seconds (time_sub now start)) then gs else [])"
proof -
  note st = stamp_ok [OF assms(1,4)]
  obtain q where q: "ep_last e' = Fin q" "rnd q = Fin q" "0 \<le> q" using st(2) by (auto simp: epoch_ok_def)
  have g: "list_all (\<lambda>g. fr_frame_index g = ep_next e \<and> fr_timestamp g = Fin q) gs"
    using st(1) q(1) by (induction rule: list_all2_induct) (auto simp: stamped_def)
  have "map frame_key gs = map (\<lambda>f. (fr_player_id f, ep_next e)) fs"
    using st(1) by (induction rule: list_all2_induct) (auto simp: stamped_def frame_key_def)
  then have d: "distinct (map frame_key gs)" using assms(3) by (simp add: distinct_map inj_on_def)
  have i: "0 \<le> ep_next e" using assms(1) by (simp add: epoch_ok_def)
  have t: "ep_last e' = (if flt (go_seconds (time_sub now start)) (ep_last e) then ep_last e else go_seconds (time_sub now start))"
    using assms(2,4) by (auto simp: stamp_def stamp_time_def Let_def split: prod.splits)
  obtain l r where lr: "ep_last e = Fin l" "go_seconds (time_sub now start) = Fin r"
    using assms(1) go_seconds_fin(1) [OF time_sub_bounded] by (metis epoch_ok_def is_fin_iff)
  show ?thesis
  proof (cases "flt (ep_last e) (go_seconds (time_sub now start))")
    case True
    then have "flt (bk_last_time b) (Fin q)" using t q(1) lr assms(7) by (auto split: if_splits)
    then show ?thesis using sift_keeps [OF g i q(3,2) assms(5) d, of "fresh_start b" stored] True assms(5) by (simp add: fresh_start_def)
  next
    case False
    then have "fle (Fin q) (bk_last_time b)" using t q(1) lr assms(7) by (auto split: if_splits)
    then show ?thesis using sift_rejects [OF g i q(3) assms(5), of "fresh_start b" stored] False assms(5,6) by (simp add: fresh_start_def)
  qed
qed

definition sample_epoch :: frame_epoch where
  "sample_epoch = (new_epoch 0)\<lparr>ep_start := Some 0, ep_next := 1\<rparr>"

definition sample_book :: bookkeeping where
  "sample_book = empty_book\<lparr>bk_last_index := 0, bk_have_time := True\<rparr>"

lemma go_seconds_second: "go_seconds second = Fin 1" "go_seconds 0 = Fin 0"
  by (simp_all add: go_seconds_def second_def f_of_int_def rnd_one)

lemma sample_accepted_iff_clock_moved_witness:
  "fs_kept (sift (\<lambda>_. No_row) sample_book (fst (stamp second [sample_frame] sample_epoch)) (fresh_start sample_book)) \<noteq> [] \<and>
   fs_kept (sift (\<lambda>_. No_row) sample_book (fst (stamp 0 [sample_frame] sample_epoch)) (fresh_start sample_book)) = []"
proof -
  have e: "epoch_ok sample_epoch" "ep_start sample_epoch = Some 0" "distinct (map fr_player_id [sample_frame])"
    by (simp_all add: sample_epoch_def epoch_ok_def new_epoch_def)
  have b: "bk_last_index sample_book < ep_next sample_epoch" "bk_have_time sample_book" "bk_last_time sample_book = ep_last sample_epoch"
    by (simp_all add: sample_book_def empty_book_def sample_epoch_def new_epoch_def)
  note at = sample_accepted_iff_clock_moved [OF e surjective_pairing b]
  have d: "time_sub second 0 = second" "time_sub 0 0 = 0" by (simp_all add: time_sub_def second_def min_duration_def max_duration_def)
  have l: "ep_last sample_epoch = Fin 0" by (simp add: sample_epoch_def new_epoch_def)
  have "length (fst (stamp second [sample_frame] sample_epoch)) = 1"
    using stamp_ok(1) [OF e(1) surjective_pairing, of second "[sample_frame]"] by (simp add: list_all2_conv_all_nth)
  then have n: "fst (stamp second [sample_frame] sample_epoch) \<noteq> []" by auto
  show ?thesis unfolding at d go_seconds_second l using n by simp
qed

end
