(* ===== verification/Bridge_Link.thy ===== *)
theory Bridge_Link
  imports Bridge_Facts
begin

text \<open>
  The bridge's link to the ingest server (\<open>cmd/bridge/sender.go\<close>): a bounded queue, one writer that delivers its messages,
  a read loop that applies acknowledgements and notices a dead connection, and a monitor. The goroutines interleave at the
  points where the code takes a lock or touches a counter: \<open>link_step\<close> has one rule for each such step. A delivery goes
  through the phases of \<open>deliver\<close>: it has dialed, has read the current connection, has registered its frames as in flight,
  has written them. \<open>lk_offered\<close> counts the frames given to \<open>enqueueBatch\<close> and \<open>lk_forgotten\<close> those of a delivery that
  returned without counting them; the code keeps neither. Shutting down is not modelled.
\<close>

section \<open>State\<close>

record outbound =
  ob_frames :: nat
  ob_control :: bool

datatype delivery = Idle | Holding outbound | Dialed outbound | Aimed outbound nat | Registered outbound nat | Written outbound nat

record link =
  lk_capacity :: nat
  lk_queue :: "outbound list"
  lk_delivery :: delivery
  lk_conn :: "nat option"
  lk_gen :: nat
  lk_inflight :: int
  lk_offered :: int
  lk_dropped :: int
  lk_sent :: int
  lk_acked :: int
  lk_rejected :: int
  lk_ignored :: int
  lk_lost :: int
  lk_forgotten :: int
  lk_control_sent :: int
  lk_control_dropped :: int

definition default_queue_size :: int where "default_queue_size = 256"

definition new_link :: "bridge_config \<Rightarrow> link" where
  "new_link c = \<lparr>lk_capacity = nat (if bc_queue_size c \<le> 0 then default_queue_size else bc_queue_size c), lk_queue = [], lk_delivery = Idle,
     lk_conn = None, lk_gen = 0, lk_inflight = 0, lk_offered = 0, lk_dropped = 0, lk_sent = 0, lk_acked = 0, lk_rejected = 0, lk_ignored = 0,
     lk_lost = 0, lk_forgotten = 0, lk_control_sent = 0, lk_control_dropped = 0\<rparr>"

section \<open>Producers\<close>

definition enqueue_batch :: "nat \<Rightarrow> link \<Rightarrow> link \<times> bool" where
  "enqueue_batch n s0 =
     (let s = s0\<lparr>lk_offered := lk_offered s0 + int n\<rparr> in
      if length (lk_queue s) < lk_capacity s then (s\<lparr>lk_queue := lk_queue s @ [\<lparr>ob_frames = n, ob_control = False\<rparr>]\<rparr>, True)
      else (s\<lparr>lk_dropped := lk_dropped s + int n\<rparr>, False))"

definition enqueue_control :: "link \<Rightarrow> link \<times> bool" where
  "enqueue_control s =
     (if length (lk_queue s) < lk_capacity s then (s\<lparr>lk_queue := lk_queue s @ [\<lparr>ob_frames = 0, ob_control = True\<rparr>]\<rparr>, True)
      else (s\<lparr>lk_control_dropped := lk_control_dropped s + 1\<rparr>, False))"

section \<open>In flight\<close>

definition reset_inflight :: "link \<Rightarrow> int \<times> link" where
  "reset_inflight s = (lk_inflight s, s\<lparr>lk_inflight := 0\<rparr>)"

definition add_inflight :: "nat \<Rightarrow> link \<Rightarrow> link" where
  "add_inflight n s = s\<lparr>lk_inflight := lk_inflight s + int n\<rparr>"

definition remove_inflight :: "nat \<Rightarrow> link \<Rightarrow> link" where
  "remove_inflight n s = s\<lparr>lk_inflight := max 0 (lk_inflight s - int n)\<rparr>"

definition settle_inflight :: "int \<Rightarrow> link \<Rightarrow> link" where
  "settle_inflight n s = s\<lparr>lk_inflight := max 0 (lk_inflight s - n)\<rparr>"

section \<open>Connections\<close>

definition adopt :: "link \<Rightarrow> link" where
  "adopt s = snd (reset_inflight (s\<lparr>lk_conn := Some (lk_gen s + 1), lk_gen := lk_gen s + 1\<rparr>))"

definition drop_conn :: "nat \<Rightarrow> link \<Rightarrow> link" where
  "drop_conn g s0 =
     (if lk_conn s0 \<noteq> Some g then s0
      else let (lost, s) = reset_inflight (s0\<lparr>lk_conn := None\<rparr>) in s\<lparr>lk_lost := lk_lost s + lost\<rparr>)"

definition handle_ack :: "nat \<Rightarrow> nat \<Rightarrow> nat \<Rightarrow> link \<Rightarrow> link" where
  "handle_ack a r i s =
     settle_inflight (int (a + r + i)) (s\<lparr>lk_acked := lk_acked s + int a, lk_rejected := lk_rejected s + int r, lk_ignored := lk_ignored s + int i\<rparr>)"

section \<open>Delivery\<close>

definition undelivered :: "outbound \<Rightarrow> link \<Rightarrow> link" where
  "undelivered m s = s\<lparr>lk_dropped := lk_dropped s + int (ob_frames m), lk_control_dropped := lk_control_dropped s + (if ob_control m then 1 else 0),
     lk_delivery := Idle\<rparr>"

definition dial_failed :: "outbound \<Rightarrow> link \<Rightarrow> link" where
  "dial_failed m s = undelivered m s"

text \<open>The early return of \<open>deliver\<close> after a dial whose connection is gone again.\<close>

definition forget :: "outbound \<Rightarrow> link \<Rightarrow> link" where
  "forget m s = s\<lparr>lk_forgotten := lk_forgotten s + int (ob_frames m), lk_delivery := Idle\<rparr>"

definition write_failed :: "outbound \<Rightarrow> nat \<Rightarrow> link \<Rightarrow> link" where
  "write_failed m g s = drop_conn g (undelivered m (remove_inflight (ob_frames m) s))"

definition write_done :: "outbound \<Rightarrow> link \<Rightarrow> link" where
  "write_done m s =
     (let s = s\<lparr>lk_delivery := Idle\<rparr> in
      if ob_control m then s\<lparr>lk_control_sent := lk_control_sent s + 1\<rparr> else s\<lparr>lk_sent := lk_sent s + int (ob_frames m)\<rparr>)"

text \<open>
  A write succeeds only on a connection that is still open when it happens; it may fail at any time. The monitor runs in the
  writer's goroutine, so it acts between deliveries only; the read loop and the producers act at any time, and an
  acknowledgement read before its connection died may be applied after.
\<close>

inductive link_step :: "link \<Rightarrow> link \<Rightarrow> bool" where
  batch: "link_step s (fst (enqueue_batch n s))"
| control: "link_step s (fst (enqueue_control s))"
| take_msg: "lk_delivery s = Idle \<Longrightarrow> lk_queue s = m # ms \<Longrightarrow> link_step s (s\<lparr>lk_queue := ms, lk_delivery := Holding m\<rparr>)"
| dial_failure: "lk_delivery s = Holding m \<Longrightarrow> lk_conn s = None \<Longrightarrow> link_step s (dial_failed m s)"
| dial_success: "lk_delivery s = Holding m \<Longrightarrow> lk_conn s = None \<Longrightarrow> link_step s (adopt (s\<lparr>lk_delivery := Dialed m\<rparr>))"
| dialed_gone: "lk_delivery s = Dialed m \<Longrightarrow> lk_conn s = None \<Longrightarrow> link_step s (forget m s)"
| aim: "lk_delivery s = Holding m \<or> lk_delivery s = Dialed m \<Longrightarrow> lk_conn s = Some g \<Longrightarrow> link_step s (s\<lparr>lk_delivery := Aimed m g\<rparr>)"
| register: "lk_delivery s = Aimed m g \<Longrightarrow> link_step s (add_inflight (ob_frames m) (s\<lparr>lk_delivery := Registered m g\<rparr>))"
| write_msg: "lk_delivery s = Registered m g \<Longrightarrow> lk_conn s = Some g \<Longrightarrow> link_step s (s\<lparr>lk_delivery := Written m g\<rparr>)"
| write_error: "lk_delivery s = Registered m g \<Longrightarrow> link_step s (write_failed m g s)"
| written: "lk_delivery s = Written m g \<Longrightarrow> link_step s (write_done m s)"
| ack: "link_step s (handle_ack a r i s)"
| read_error: "lk_conn s = Some g \<Longrightarrow> link_step s (drop_conn g s)"
| connect_eagerly: "lk_delivery s = Idle \<Longrightarrow> lk_conn s = None \<Longrightarrow> link_step s (adopt s)"
| monitor: "lk_delivery s = Idle \<Longrightarrow> lk_conn s = Some g \<Longrightarrow> link_step s (drop_conn g s)"

inductive link_reach :: "link \<Rightarrow> link \<Rightarrow> bool" where
  start: "link_reach s s"
| step: "link_reach s t \<Longrightarrow> link_step t u \<Longrightarrow> link_reach s u"

inductive_cases link_stepE: "link_step s t"

section \<open>Accounting\<close>

fun held_frames :: "delivery \<Rightarrow> int" where
  "held_frames Idle = 0"
| "held_frames (Holding m) = int (ob_frames m)"
| "held_frames (Dialed m) = int (ob_frames m)"
| "held_frames (Aimed m g) = int (ob_frames m)"
| "held_frames (Registered m g) = int (ob_frames m)"
| "held_frames (Written m g) = int (ob_frames m)"

fun pending_write :: "delivery \<Rightarrow> int" where
  "pending_write (Registered m g) = int (ob_frames m)"
| "pending_write (Written m g) = int (ob_frames m)"
| "pending_write d = 0"

fun unwritten :: "delivery \<Rightarrow> int" where
  "unwritten (Registered m g) = int (ob_frames m)"
| "unwritten d = 0"

fun delivered_ok :: "delivery \<Rightarrow> bool" where
  "delivered_ok Idle = True"
| "delivered_ok (Holding m) = (ob_control m \<longrightarrow> ob_frames m = 0)"
| "delivered_ok (Dialed m) = (ob_control m \<longrightarrow> ob_frames m = 0)"
| "delivered_ok (Aimed m g) = (ob_control m \<longrightarrow> ob_frames m = 0)"
| "delivered_ok (Registered m g) = (ob_control m \<longrightarrow> ob_frames m = 0)"
| "delivered_ok (Written m g) = (ob_control m \<longrightarrow> ob_frames m = 0)"

definition queued_frames :: "link \<Rightarrow> int" where
  "queued_frames s = (\<Sum>m\<leftarrow>lk_queue s. int (ob_frames m))"

definition settled :: "link \<Rightarrow> int" where
  "settled s = lk_acked s + lk_rejected s + lk_ignored s"

definition link_ok :: "link \<Rightarrow> bool" where
  "link_ok s \<longleftrightarrow>
     lk_offered s = queued_frames s + held_frames (lk_delivery s) + lk_dropped s + lk_sent s + lk_forgotten s \<and>
     lk_sent s + pending_write (lk_delivery s) \<le> settled s + lk_lost s + lk_inflight s \<and>
     0 \<le> lk_inflight s \<and> (lk_conn s = None \<longrightarrow> lk_inflight s \<le> unwritten (lk_delivery s)) \<and>
     length (lk_queue s) \<le> lk_capacity s \<and> list_all (\<lambda>m. ob_control m \<longrightarrow> ob_frames m = 0) (lk_queue s) \<and> delivered_ok (lk_delivery s)"

lemmas link_defs = link_ok_def queued_frames_def settled_def enqueue_batch_def enqueue_control_def reset_inflight_def add_inflight_def
  remove_inflight_def settle_inflight_def adopt_def drop_conn_def handle_ack_def undelivered_def dial_failed_def forget_def write_failed_def write_done_def Let_def

lemma unwritten_nonneg [simp]: "0 \<le> unwritten d"
  by (cases d) simp_all

lemma link_step_ok: "link_step s t \<Longrightarrow> link_ok s \<Longrightarrow> link_ok t"
  by (induction rule: link_step.induct) (auto simp: link_defs split: if_splits)

lemma link_reach_ok: "link_reach s t \<Longrightarrow> link_ok s \<Longrightarrow> link_ok t"
  by (induction rule: link_reach.induct) (auto intro: link_step_ok)

lemma new_link_ok: "link_ok (new_link c)"
  by (simp add: link_ok_def new_link_def queued_frames_def settled_def)


text \<open>The read loop notices a dead connection while the writer has registered three frames and not written them.\<close>

definition race :: "nat \<Rightarrow> bridge_config \<Rightarrow> link" where
  "race n c =
     (let m = \<lparr>ob_frames = n, ob_control = False\<rparr>;
          s = fst (enqueue_batch n (new_link c)); s = s\<lparr>lk_queue := [], lk_delivery := Holding m\<rparr>; s = adopt (s\<lparr>lk_delivery := Dialed m\<rparr>); s = s\<lparr>lk_delivery := Aimed m 1\<rparr>;
          s = add_inflight n (s\<lparr>lk_delivery := Registered m 1\<rparr>); s = drop_conn 1 s
      in write_failed m 1 s)"

lemma race_reachable: "link_reach (new_link c) (race n c)"
proof -
  let ?m = "\<lparr>ob_frames = n, ob_control = False\<rparr>"
  let ?a = "fst (enqueue_batch n (new_link c))"
  let ?b = "?a\<lparr>lk_queue := [], lk_delivery := Holding ?m\<rparr>"
  let ?c = "adopt (?b\<lparr>lk_delivery := Dialed ?m\<rparr>)"
  let ?d = "?c\<lparr>lk_delivery := Aimed ?m 1\<rparr>"
  let ?e = "add_inflight n (?d\<lparr>lk_delivery := Registered ?m 1\<rparr>)"
  have 1: "link_reach (new_link c) ?a" by (rule step [OF start batch])
  have 2: "link_reach (new_link c) ?b" by (rule step [OF 1 take_msg]) (simp_all add: link_defs new_link_def default_queue_size_def)
  have 3: "link_reach (new_link c) ?c" by (rule step [OF 2 dial_success]) (simp_all add: link_defs new_link_def)
  have 4: "link_reach (new_link c) ?d" by (rule step [OF 3 aim]) (simp_all add: link_defs new_link_def)
  have 5: "link_reach (new_link c) ?e" using step [OF 4 register, of ?m 1] by simp
  have 6: "link_reach (new_link c) (drop_conn 1 ?e)" by (rule step [OF 5 read_error]) (simp_all add: link_defs new_link_def)
  have "link_reach (new_link c) (write_failed ?m 1 (drop_conn 1 ?e))" by (rule step [OF 6 write_error]) (simp_all add: link_defs new_link_def)
  then show ?thesis by (simp only: race_def Let_def)
qed

text \<open>Its frames are counted twice, as lost and as dropped, although none was written.\<close>

lemma race_counts_twice:
  "lk_offered (race n c) = int n \<and> lk_lost (race n c) = int n \<and> lk_dropped (race n c) = int n \<and> lk_sent (race n c) = 0 \<and>
   lk_delivery (race n c) = Idle \<and> lk_forgotten (race n c) = 0"
  by (simp add: race_def link_defs new_link_def default_queue_size_def)

text \<open>The server closes a fresh connection before the writer has read it back: the batch is gone and no counter shows it.\<close>

definition early_close :: "nat \<Rightarrow> bridge_config \<Rightarrow> link" where
  "early_close n c =
     (let m = \<lparr>ob_frames = n, ob_control = False\<rparr>;
          s = fst (enqueue_batch n (new_link c)); s = s\<lparr>lk_queue := [], lk_delivery := Holding m\<rparr>; s = adopt (s\<lparr>lk_delivery := Dialed m\<rparr>);
          s = drop_conn 1 s
      in forget m s)"

lemma early_close_reachable: "link_reach (new_link c) (early_close n c)"
proof -
  let ?m = "\<lparr>ob_frames = n, ob_control = False\<rparr>"
  let ?a = "fst (enqueue_batch n (new_link c))"
  let ?b = "?a\<lparr>lk_queue := [], lk_delivery := Holding ?m\<rparr>"
  let ?c = "adopt (?b\<lparr>lk_delivery := Dialed ?m\<rparr>)"
  have 1: "link_reach (new_link c) ?a" by (rule step [OF start batch])
  have 2: "link_reach (new_link c) ?b" by (rule step [OF 1 take_msg]) (simp_all add: link_defs new_link_def default_queue_size_def)
  have 3: "link_reach (new_link c) ?c" by (rule step [OF 2 dial_success]) (simp_all add: link_defs new_link_def)
  have 4: "link_reach (new_link c) (drop_conn 1 ?c)" by (rule step [OF 3 read_error]) (simp_all add: link_defs new_link_def)
  have "link_reach (new_link c) (forget ?m (drop_conn 1 ?c))" by (rule step [OF 4 dialed_gone]) (simp_all add: link_defs new_link_def)
  then show ?thesis by (simp only: early_close_def Let_def)
qed

lemma early_close_uncounted:
  "lk_offered (early_close n c) = int n \<and> lk_queue (early_close n c) = [] \<and> lk_sent (early_close n c) = 0 \<and> lk_dropped (early_close n c) = 0 \<and>
   lk_lost (early_close n c) = 0"
  by (simp add: early_close_def link_defs new_link_def default_queue_size_def)


end
