(* ===== verification/Spec2Isabelle.thy ===== *)
theory Spec2Isabelle
  imports Scorer Dedup Rate_Limit Enforce Match_Phase Review Validator Quality Health Pipeline_Facts Extractor_Facts Live_Retry Live_Ticks
    Detect_Catalog_Facts Bridge_Stream Bridge_Link
begin

text \<open>
  A verification library for the NEVR anti-cheat program, a Go service that reads the telemetry of Echo VR matches,
  runs detectors over it, scores players and opens review cases for moderators. All paths below are under
  \<open>src/\<close>; a definition has the name of its Go function in lower case.

  \<^bold>\<open>The program.\<close> Telemetry frames reach a match either from a recording or live. The live manager
  (\<open>internal/ingest\<close>) binds a match to its source, orders and stores frames, and hands whole ticks to the pipeline
  (\<open>internal/pipeline\<close>). For every tick the pipeline validates each player's frame (\<open>validator.go\<close>), notes the
  health of its inputs (\<open>data_health.go\<close>), derives kinematics, windows and releases (\<open>feature_extractor.go\<close>,
  \<open>release_observation.go\<close>) and asks each detector (\<open>internal/detect\<close>). Its events are checked against the inputs'
  health and the legal-motion context, merged into incidents (\<open>dedup.go\<close>), limited (\<open>ratelimit.go\<close>) and scored
  (\<open>internal/scoring\<close>). From the scores the enforcement engine (\<open>internal/enforce\<close>) recommends an action, always for
  review, and the review workflow (\<open>internal/review\<close>, \<open>internal/storage/sqlite\<close>) keeps the cases and the decisions of
  moderators. Before all that, the bridge (\<open>cmd/bridge\<close>) polls the game servers of the running matches, turns each session
  snapshot into frames (\<open>internal/adapter/mapper.go\<close>), stamps them and sends them to the ingest server over one link. Beside
  the events, mechanics reviews (\<open>internal/mechanics\<close>) and catch reviews are logged as diagnostics.

  \<^bold>\<open>The data.\<close>
  \<^item> \<open>Prelude\<close>: maps as association lists in insertion order (a Go map, whose order no definition may use), strings,
    times and durations as integers of nanoseconds, and lemmas on lists.
  \<^item> \<open>Go_Float\<close>: a \<open>float64\<close> is a NaN, an infinity or a rational; arithmetic rounds to the nearest even binary64
    value and overflows to an infinity. The two zeros are one value, which no modelled code tells apart.
    \<open>math.Pow\<close>, \<open>Exp\<close>, \<open>Log\<close>, \<open>Log10\<close>, \<open>Sin\<close>, \<open>Acos\<close>, \<open>Atanh\<close> and \<open>Tanh\<close> are parameters.
  \<^item> \<open>Levels\<close> (\<open>model/scoring.go\<close>, \<open>model/review.go\<close>), \<open>Events\<close> (\<open>model/detection.go\<close>), \<open>Geometry\<close> (\<open>model/vec3.go\<close>,
    \<open>quat.go\<close>, \<open>orientation.go\<close>), \<open>Telemetry\<close> (\<open>model/telemetry.go\<close>, \<open>observation.go\<close>) and \<open>Motion\<close> (\<open>model/player.go\<close>,
    \<open>events.go\<close>): the records the components share.

  \<^bold>\<open>The components.\<close> Each theory states first what the code computes, then what holds of it.
  \<^item> \<open>Scorer\<close> (\<open>scoring/scorer.go\<close>, \<open>decay.go\<close>): the scorer's state and all its operations. Its lemmas show the invariant
    of the scores over any run of operations, which events count and by how much.
  \<^item> \<open>Dedup\<close>, \<open>Rate_Limit\<close> (\<open>pipeline/dedup.go\<close>, \<open>ratelimit.go\<close>): merging of emissions into incidents and what it
    conserves; the limiter against its specification.
  \<^item> \<open>Enforce\<close> (\<open>enforce/engine.go\<close>, \<open>policy.go\<close>, \<open>storage/sqlite/recommendation_claim.go\<close>): decisions, cooldowns and
    the durable claim that makes a recommendation unique across restarts.
  \<^item> \<open>Match_Phase\<close> (\<open>model/phase.go\<close>, \<open>match.go\<close>): the streaming normaliser as a refinement of a specification that sees
    the whole recording.
  \<^item> \<open>Review\<close> (\<open>internal/review\<close>, the case tables of \<open>storage/sqlite/store.go\<close>): case building, the queue and the
    decision transaction over tables whose writes may fail.
  \<^item> \<open>Validator\<close>, \<open>Quality\<close>, \<open>Health\<close> (\<open>pipeline/validator.go\<close>, \<open>quality.go\<close>, \<open>data_health.go\<close>): rejections and repairs of
    a frame, the quality gate of a recording, and the faults that quarantine evidence.
  \<^item> \<open>Pipeline\<close>, \<open>Pipeline_Facts\<close> (\<open>pipeline/pipeline.go\<close>): \<open>ProcessMatch\<close> and \<open>Finalize\<close>, with the detectors and the
    extractor as records of their operations, and what holds of every match whatever these operations do.
  \<^item> \<open>Extractor\<close>, \<open>Extractor_Facts\<close> (\<open>pipeline/feature_extractor.go\<close>): \<open>UpdatePlayerState\<close> step by step, the release
    state machine, and what a published throw rests on.
  \<^item> \<open>Live_Frames\<close>, \<open>Live_Store\<close>, \<open>Live\<close>, \<open>Live_Facts\<close>, \<open>Live_Retry\<close>, \<open>Live_Ticks\<close> (\<open>ingest/live_pipeline.go\<close>,
    \<open>live_ordering.go\<close>, \<open>live_persistence.go\<close>, \<open>frame_identity.go\<close>, \<open>storage/sqlite/telemetry.go\<close>, \<open>live_analysis.go\<close>): the handlers of the live manager
    over a store that may fail; what an acknowledgement means, that a match belongs to one source, that a suspended match
    stays silent, that retries are ignored and that batching does not matter.
  \<^item> \<open>Detect\<close> (\<open>detect/detector.go\<close>, \<open>model/math_helpers.go\<close>): what the detectors share, and the interface \<open>detector_steps\<close>
    of a step per player that keeps an invariant and makes good events. \<open>Detect_Bio\<close>, \<open>Detect_Movement\<close>, \<open>Detect_State\<close>,
    \<open>Detect_Pattern\<close>, \<open>Detect_Throw\<close>, \<open>Detect_Flight\<close> and \<open>Detect_Speed\<close> (\<open>detect/bio\<close>, \<open>movement\<close>, \<open>state\<close>, \<open>pattern\<close>,
    \<open>throw\<close>), \<open>Detect_Grab\<close>, \<open>Detect_Catch\<close> and \<open>Detect_Catch_Run\<close> (\<open>state_001.go\<close>, \<open>state_008*.go\<close>, \<open>catch_contact.go\<close>): the
    detectors themselves, from their parameters to the text of their events. \<open>Detect_Facts\<close> and \<open>Detect_Throw_Facts\<close>
    interpret the interface for them: their events are well-formed, numbered, weighted as configured and about a player
    the frame shows; and a weighted speed event rests on three clean samples above the cap. \<open>Detect_Catch_Facts\<close>: catch
    events are confirmed observations without weight.
  \<^item> \<open>Detect_Catalog\<close>, \<open>Detect_Catalog_Facts\<close> (\<open>detect/registry.go\<close>, \<open>detect/catalog\<close>, the \<open>register.go\<close> files): one type of
    all detectors, their registration and the set a configuration builds; every event of every detector is valid and
    weighted as configured, exactly the enabled detectors run, and no detector is registered twice.
  \<^item> \<open>Mechanics\<close> (\<open>model/mechanics.go\<close>, \<open>mechanics/grab.go\<close>, \<open>release.go\<close>): assessments, their validation and
    evaluation; \<open>Review_Logs\<close> (\<open>model/mechanics_log.go\<close>, \<open>catch_review.go\<close>): the bounded logs, which validate after any
    run of additions and merges.

  \<^item> \<open>Session\<close>, \<open>Mapper\<close>, \<open>Mapper_Facts\<close> (\<open>adapter/mapper.go\<close>, \<open>echovr_schema.go\<close>, \<open>attachment_observation.go\<close>,
    \<open>vector_observation.go\<close>): the decoded session snapshot and its mapping to frames, with roster limits, repeated ids, clock
    steps, change detection and hand poses; a snapshot gives one frame per player, at one index and a time that never
    goes back.
  \<^item> \<open>Bridge\<close>, \<open>Bridge_Poller\<close> (\<open>cmd/bridge/validate.go\<close>, \<open>main.go\<close>, \<open>roster.go\<close>, \<open>epoch.go\<close>, \<open>poller.go\<close>): configuration
    checks, match filters, rosters, frame epochs, the poller as a state machine over what its requests give, and the
    discovery cycle. \<open>Bridge_Facts\<close>: announcements are bracketed, a silent broadcaster is given up, one poller per match.
    \<open>Bridge_Stream\<close>: identities and times of everything sent for a match, and how the ingest server judges it.
  \<^item> \<open>Bridge_Link\<close> (\<open>sender.go\<close>): queue, writer, read loop and monitor as a step relation over their interleavings, and the
    account of every frame given to the link.
  \<^item> \<open>Anti_Evasion\<close> (\<open>internal/antievasion\<close>): the randomised schedule over 64-bit words, delayed actions and clusters of
    detections; a detector is evaluated once in every block, a queued action is handed out once.

  \<^bold>\<open>Conventions.\<close> State is a record passed and returned; a failure is a value of a sum or option type; a call to a
  detector, the store, the clock or an id generator is a parameter, or takes its answers from one. SHA-1 and SHA-256
  digests, uuid ids, JSON encoding and the player-history store are such parameters. Pointers that are shared for
  reading only are values. Each operation of an object with a mutex is one step. No loop needs fuel: all recursions are
  over lists and terminate.

  \<^bold>\<open>Not modelled.\<close> Process wiring, HTTP, the desktop application, file formats and their decoding, SQL text, TOML and JSON
  decoding, rendering, logging and metrics; of the pipeline the coverage report and the decision trace.
\<close>

end
